(* ===== verification/Prelude.thy ===== *)
theory Prelude
  imports Main "HOL-Library.Word" "HOL-Library.AList" "HOL-Library.Char_ord"
    "HOL-Library.List_Lexorder" "HOL-Library.Monad_Syntax"
begin

text \<open>
  The vocabulary every component theory shares: the standard-library operations of Rust that
  the code calls (byte strings, hash maps, saturating machine arithmetic, JSON values), the
  error type of \<^verbatim>\<open>src/crates/avix-core/src/error.rs\<close>, and the two generic contracts
  (a keyed store, a machine driven by events) that the components' operations satisfy.

  A Rust \<^verbatim>\<open>String\<close> is a sequence of bytes and so is an Isabelle \<open>string\<close>, so lengths
  and prefixes agree.  A \<^verbatim>\<open>HashMap\<close> is an association list with distinct keys; its
  iteration order, which Rust leaves open, is the order of the list here, and no
  theorem of the development depends on that order.  A point in time is an \<open>int\<close> counting
  nanoseconds since the Unix epoch, and every function that reads the clock takes the instant
  as an argument.
\<close>

named_theorems str_simps \<open>characteristic equations of the string operations\<close>
named_theorems hm_simps \<open>lookups after hash map updates\<close>
named_theorems op_defs \<open>unfolding equations of the operations of the components\<close>

type_synonym u8 = "8 word"
type_synonym u32 = "32 word"
type_synonym u64 = "64 word"
type_synonym datetime = int
type_synonym bytes = "u8 list"

section \<open>Byte strings\<close>

fun starts_with :: "string \<Rightarrow> string \<Rightarrow> bool" where
  "starts_with s [] = True"
| "starts_with [] (p # ps) = False"
| "starts_with (c # s) (p # ps) = (c = p \<and> starts_with s ps)"

fun contains_str :: "string \<Rightarrow> string \<Rightarrow> bool" where
  "contains_str [] p = (p = [])"
| "contains_str (c # s) p = (starts_with (c # s) p \<or> contains_str s p)"

text \<open>
  \<^verbatim>\<open>str::replace\<close>: non-overlapping matches from the left.  Every pattern the code
  passes is non-empty; for the empty pattern the model leaves the string alone.
\<close>

function str_replace :: "string \<Rightarrow> string \<Rightarrow> string \<Rightarrow> string" where
  "str_replace pat rep s =
     (if pat \<noteq> [] \<and> s \<noteq> [] \<and> starts_with s pat then rep @ str_replace pat rep (drop (length pat) s)
      else (case s of [] \<Rightarrow> [] | c # t \<Rightarrow> c # str_replace pat rep t))"
  by pat_completeness auto
termination
  by (relation "measure (\<lambda>(pat, rep, s). length s)") auto

declare str_replace.simps [simp del]

definition trim_start_char :: "char \<Rightarrow> string \<Rightarrow> string" where
  "trim_start_char c s = dropWhile (\<lambda>x. x = c) s"

definition trim_end_char :: "char \<Rightarrow> string \<Rightarrow> string" where
  "trim_end_char c s = rev (dropWhile (\<lambda>x. x = c) (rev s))"

definition first_segment :: "char \<Rightarrow> string \<Rightarrow> string" where
  "first_segment c s = takeWhile (\<lambda>x. x \<noteq> c) s"

definition split_once :: "char \<Rightarrow> string \<Rightarrow> (string \<times> string) option" where
  "split_once c s =
     (if c \<in> set s then Some (takeWhile (\<lambda>x. x \<noteq> c) s, tl (dropWhile (\<lambda>x. x \<noteq> c) s)) else None)"

definition rsplit_once :: "char \<Rightarrow> string \<Rightarrow> (string \<times> string) option" where
  "rsplit_once c s =
     (if c \<in> set s
      then Some (rev (tl (dropWhile (\<lambda>x. x \<noteq> c) (rev s))), rev (takeWhile (\<lambda>x. x \<noteq> c) (rev s)))
      else None)"

fun join_str :: "string \<Rightarrow> string list \<Rightarrow> string" where
  "join_str sep [] = []"
| "join_str sep [x] = x"
| "join_str sep (x # y # xs) = x @ sep @ join_str sep (y # xs)"

text \<open>\<^verbatim>\<open>str::split\<close> at a character, and \<^verbatim>\<open>str::lines\<close>.\<close>

fun split_char :: "char \<Rightarrow> string \<Rightarrow> string list" where
  "split_char c [] = [[]]"
| "split_char c (x # xs) =
     (if x = c then [] # split_char c xs
      else (case split_char c xs of [] \<Rightarrow> [[x]] | y # ys \<Rightarrow> (x # y) # ys))"

definition strip_cr :: "string \<Rightarrow> string" where
  "strip_cr l = (if l \<noteq> [] \<and> last l = CHR 0x0D then butlast l else l)"

definition str_lines :: "string \<Rightarrow> string list" where
  "str_lines s =
     (let ls = split_char (CHR 0x0A) s
      in map strip_cr (if last ls = [] then butlast ls else ls))"

definition bytes_of_string :: "string \<Rightarrow> bytes" where
  "bytes_of_string s = map (\<lambda>c. of_char c) s"

definition ends_with :: "string \<Rightarrow> string \<Rightarrow> bool" where
  "ends_with s p = starts_with (rev s) (rev p)"

definition digit_char :: "nat \<Rightarrow> char" where
  "digit_char n = char_of (48 + n)"

fun show_nat :: "nat \<Rightarrow> string" where
  "show_nat n = (if n < 10 then [digit_char n] else show_nat (n div 10) @ [digit_char (n mod 10)])"

declare show_nat.simps [simp del]

definition show_word :: "'a::len word \<Rightarrow> string" where
  "show_word w = show_nat (unat w)"

definition show_int :: "int \<Rightarrow> string" where
  "show_int i = (if i < 0 then CHR ''-'' # show_nat (nat (- i)) else show_nat (nat i))"

lemma starts_with_iff: "starts_with s p \<longleftrightarrow> (\<exists>t. s = p @ t)"
  by (induction s p rule: starts_with.induct) auto

lemma starts_with_append [simp]: "starts_with (p @ t) p"
  by (auto simp: starts_with_iff)

lemma starts_with_trans: "starts_with s p \<Longrightarrow> starts_with p q \<Longrightarrow> starts_with s q"
  by (auto simp: starts_with_iff)

lemma contains_str_iff: "contains_str s p \<longleftrightarrow> (\<exists>a b. s = a @ p @ b)"
proof (induction s p rule: contains_str.induct)
  case (2 c s p)
  show ?case
  proof
    assume "contains_str (c # s) p"
    then consider "starts_with (c # s) p" | "contains_str s p" by auto
    then show "\<exists>a b. c # s = a @ p @ b"
    proof cases
      case 1
      then obtain t where "c # s = [] @ p @ t" by (auto simp: starts_with_iff)
      then show ?thesis by blast
    next
      case 2
      with "2.IH" obtain a b where "c # s = (c # a) @ p @ b" by auto
      then show ?thesis by blast
    qed
  next
    assume "\<exists>a b. c # s = a @ p @ b"
    then obtain a b where eq: "c # s = a @ p @ b" by blast
    then show "contains_str (c # s) p"
    proof (cases a)
      case Nil
      with eq have "starts_with (c # s) p" unfolding starts_with_iff by auto
      then show ?thesis by simp
    next
      case (Cons d a')
      with eq have "s = a' @ p @ b" by simp
      with "2.IH" show ?thesis by auto
    qed
  qed
qed auto

lemma contains_char_iff: "contains_str s [c] \<longleftrightarrow> c \<in> set s"
  by (induction s) auto

lemma contains_str_append: "contains_str a p \<or> contains_str b p \<Longrightarrow> contains_str (a @ b) p"
  by (auto simp: contains_str_iff) (metis append.assoc)+

lemma str_replace_Nil [simp, str_simps]: "str_replace pat rep [] = []"
  by (subst str_replace.simps) simp

lemma str_replace_match [str_simps]:
  "pat \<noteq> [] \<Longrightarrow> str_replace pat rep (pat @ s) = rep @ str_replace pat rep s"
  by (subst str_replace.simps) simp

lemma str_replace_skip [str_simps]:
  "\<not> starts_with (c # s) pat \<Longrightarrow> str_replace pat rep (c # s) = c # str_replace pat rep s"
  by (subst str_replace.simps) simp

lemma str_replace_char:
  "str_replace [x] rep s = concat (map (\<lambda>c. if c = x then rep else [c]) s)"
proof (induction s)
  case (Cons c s)
  then show ?case
    using str_replace_match [of "[x]" rep s] by (cases "c = x") (simp_all add: str_simps)
qed simp

lemma str_replace_absent: "\<not> contains_str s pat \<Longrightarrow> str_replace pat rep s = s"
  by (induction s) (auto simp: str_simps)

lemma trim_start_char_idem [simp]: "trim_start_char c (trim_start_char c s) = trim_start_char c s"
  by (simp add: trim_start_char_def)

lemma trim_end_not_last: "trim_end_char c s = [] \<or> last (trim_end_char c s) \<noteq> c"
  using hd_dropWhile [of "\<lambda>x. x = c" "rev s"] by (auto simp: trim_end_char_def last_rev)

lemma split_once_Some: "split_once c s = Some (a, b) \<Longrightarrow> s = a @ c # b \<and> c \<notin> set a"
proof -
  assume *: "split_once c s = Some (a, b)"
  then have c: "c \<in> set s" and a: "a = takeWhile (\<lambda>x. x \<noteq> c) s"
    and b: "b = tl (dropWhile (\<lambda>x. x \<noteq> c) s)"
    by (auto simp: split_once_def split: if_splits)
  from c have ne: "dropWhile (\<lambda>x. x \<noteq> c) s \<noteq> []" by (simp add: dropWhile_eq_Nil_conv)
  then have "hd (dropWhile (\<lambda>x. x \<noteq> c) s) = c" using hd_dropWhile [OF ne] by simp
  with ne b have "dropWhile (\<lambda>x. x \<noteq> c) s = c # b" by (metis list.collapse)
  then have "s = a @ c # b" using a by (metis takeWhile_dropWhile_id)
  then show ?thesis using a by (auto dest: set_takeWhileD)
qed

lemma split_char_nonempty [simp]: "split_char c s \<noteq> []"
  by (cases s) (auto split: list.splits)

lemma split_char_join: "join_str [c] (split_char c s) = s"
proof (induction s)
  case (Cons x s)
  obtain y ys where y: "split_char c s = y # ys" by (meson list.exhaust split_char_nonempty)
  with Cons show ?case by (cases ys) auto
qed simp

lemma split_char_parts: "seg \<in> set (split_char c s) \<Longrightarrow> c \<notin> set seg \<and> contains_str s seg"
proof (induction s arbitrary: seg)
  case (Cons x s)
  obtain y ys where y: "split_char c s = y # ys" by (meson list.exhaust split_char_nonempty)
  have y0: "starts_with s y"
    using split_char_join [of c s] y by (cases ys) (auto simp: starts_with_iff)
  have sub: "contains_str (x # s) seg" if "contains_str s seg" for seg using that by simp
  from Cons.prems y consider "x = c" "seg = []" | "seg \<in> set (y # ys)" | "x \<noteq> c" "seg = x # y"
    by (auto split: if_splits)
  then show ?case
  proof cases
    case 2
    then have "seg \<in> set (split_char c s)" using y by simp
    with Cons.IH sub show ?thesis by blast
  next
    case 3
    then show ?thesis using Cons.IH [of y] y y0 by auto
  qed auto
qed simp

lemma starts_with_length: "starts_with s p \<Longrightarrow> length p \<le> length s"
  by (auto simp: starts_with_iff)

lemma digit_char_inj: "m < 10 \<Longrightarrow> n < 10 \<Longrightarrow> digit_char m = digit_char n \<Longrightarrow> m = n"
proof -
  assume m: "m < 10" and n: "n < 10" and eq: "digit_char m = digit_char n"
  from eq have "of_char (char_of (48 + m) :: char) = (of_char (char_of (48 + n) :: char) :: nat)"
    by (simp add: digit_char_def)
  with m n show "m = n" by simp
qed

lemma show_nat_nonempty [simp]: "show_nat n \<noteq> []" "[] \<noteq> show_nat n"
  by (subst show_nat.simps, simp)+

lemma show_nat_inj: "show_nat m = show_nat n \<Longrightarrow> m = n"
proof (induction m arbitrary: n rule: show_nat.induct)
  case (1 m)
  note eq = "1.prems"
  show ?case
  proof (cases "m < 10")
    case True
    with eq have "n < 10"
      by (cases "n < 10") (auto simp: show_nat.simps [of m] show_nat.simps [of n])
    with True eq show ?thesis
      by (auto simp: show_nat.simps [of m] show_nat.simps [of n] intro: digit_char_inj)
  next
    case False
    with eq have n: "\<not> n < 10"
      by (cases "n < 10") (auto simp: show_nat.simps [of m] show_nat.simps [of n])
    with False eq have "show_nat (m div 10) = show_nat (n div 10)"
      and "digit_char (m mod 10) = digit_char (n mod 10)"
      by (auto simp: show_nat.simps [of m] show_nat.simps [of n])
    then have "m div 10 = n div 10" and "m mod 10 = n mod 10"
      using "1.IH" False by (auto intro: digit_char_inj)
    then show ?thesis by (metis div_mult_mod_eq)
  qed
qed

lemma show_nat_digits: "c \<in> set (show_nat n) \<Longrightarrow> \<exists>d<10. c = digit_char d"
proof (induction n rule: show_nat.induct)
  case (1 n)
  show ?case
  proof (cases "n < 10")
    case True
    with "1.prems" show ?thesis by (auto simp: show_nat.simps [of n])
  next
    case False
    with "1.prems" have "c \<in> set (show_nat (n div 10)) \<or> c = digit_char (n mod 10)"
      by (auto simp: show_nat.simps [of n])
    moreover have "n mod 10 < 10" by simp
    ultimately show ?thesis using "1.IH" False by blast
  qed
qed

lemma show_nat_no_char: "c \<in> set (show_nat n) \<Longrightarrow> 48 \<le> (of_char c :: nat) \<and> of_char c \<le> (57 :: nat)"
  by (drule show_nat_digits) (auto simp: digit_char_def)

lemma show_int_no_bar: "CHR ''|'' \<notin> set (show_int i)"
  using show_nat_no_char [of "CHR ''|''"] by (auto simp: show_int_def)

lemma show_int_inj: "show_int i = show_int j \<Longrightarrow> i = j"
proof -
  have minus: "show_nat n \<noteq> CHR ''-'' # xs" for n xs
    using show_nat_no_char [of "CHR ''-''" n] by auto
  then have minus': "CHR ''-'' # xs \<noteq> show_nat n" for n xs by metis
  show "show_int i = show_int j \<Longrightarrow> i = j"
    by (auto simp: show_int_def minus minus' split: if_splits dest!: show_nat_inj)
qed

lemma append_sep_inj:
  assumes "a @ c # b = a' @ c # b'" and "c \<notin> set a" and "c \<notin> set a'"
  shows "a = a' \<and> b = b'"
  using assms
proof (induction a arbitrary: a')
  case Nil
  then show ?case by (cases a') auto
next
  case (Cons x a)
  then show ?case by (cases a') auto
qed

lemma join_str_inj:
  assumes "join_str [c] xs = join_str [c] ys"
    and "\<forall>x\<in>set xs. c \<notin> set x \<and> x \<noteq> []" and "\<forall>y\<in>set ys. c \<notin> set y \<and> y \<noteq> []"
  shows "xs = ys"
  using assms
proof (induction "[c]" xs arbitrary: ys rule: join_str.induct)
  case 1
  then show ?case by (cases "([c], ys)" rule: join_str.cases) auto
next
  case (2 x)
  then show ?case
    by (cases "([c], ys)" rule: join_str.cases) auto
next
  case (3 x y xs)
  show ?case
  proof (cases "([c], ys)" rule: join_str.cases)
    case (3 sep' x' y' ys')
    with "3.prems" have "x @ c # join_str [c] (y # xs) = x' @ c # join_str [c] (y' # ys')" by simp
    then have "x = x' \<and> join_str [c] (y # xs) = join_str [c] (y' # ys')"
      by (rule append_sep_inj) (use 3 "3.prems" in auto)
    with 3 "3.prems" "3.hyps" [of "y' # ys'"] show ?thesis by auto
  qed (use "3.prems" in auto)
qed

lemma show_word_inj: "show_word a = show_word b \<Longrightarrow> a = b"
  by (metis show_word_def show_nat_inj unsigned_word_eqI)

section \<open>Saturating machine arithmetic\<close>

definition sat_add :: "'a::len word \<Rightarrow> 'a word \<Rightarrow> 'a word" where
  "sat_add a b = (if unat a + unat b < 2 ^ LENGTH('a) then a + b else - 1)"

definition sat_sub :: "'a::len word \<Rightarrow> 'a word \<Rightarrow> 'a word" where
  "sat_sub a b = (if a < b then 0 else a - b)"

lemma unat_sat_add:
  "unat (sat_add a b) = min (unat a + unat b) (2 ^ LENGTH('a) - 1)" for a b :: "'a::len word"
  by (auto simp: sat_add_def unat_word_ariths unsigned_minus_1_eq_mask mask_eq_exp_minus_1 min_def)

lemma unat_sat_sub: "unat (sat_sub a b) = unat a - unat b" for a b :: "'a::len word"
  by (auto simp: sat_sub_def word_less_nat_alt unat_sub_if_size)

lemma sat_add_mono: "a \<le> sat_add a b" for a b :: "'a::len word"
proof -
  have "unat a < 2 ^ LENGTH('a)" by (rule unsigned_less)
  then have "unat a \<le> 2 ^ LENGTH('a) - 1" by linarith
  then have "unat a \<le> unat (sat_add a b)" by (simp add: unat_sat_add)
  then show ?thesis by (simp add: word_le_nat_alt)
qed

lemma ball_list_update: "\<forall>x\<in>set xs. P x \<Longrightarrow> P d \<Longrightarrow> \<forall>x\<in>set (xs[i := d]). P x"
  using set_update_subset_insert [of xs i d] by blast

section \<open>Hash maps\<close>

type_synonym ('k, 'v) hmap = "('k \<times> 'v) list"

abbreviation hm_get :: "('k, 'v) hmap \<Rightarrow> 'k \<Rightarrow> 'v option" where
  "hm_get m k \<equiv> map_of m k"

definition hm_insert :: "'k \<Rightarrow> 'v \<Rightarrow> ('k, 'v) hmap \<Rightarrow> ('k, 'v) hmap" where
  "hm_insert k v m = AList.update k v m"

definition hm_remove :: "'k \<Rightarrow> ('k, 'v) hmap \<Rightarrow> ('k, 'v) hmap" where
  "hm_remove k m = AList.delete k m"

abbreviation hm_keys :: "('k, 'v) hmap \<Rightarrow> 'k list" where
  "hm_keys m \<equiv> map fst m"

abbreviation hm_values :: "('k, 'v) hmap \<Rightarrow> 'v list" where
  "hm_values m \<equiv> map snd m"

definition hm_wf :: "('k, 'v) hmap \<Rightarrow> bool" where
  "hm_wf m \<longleftrightarrow> distinct (hm_keys m)"

text \<open>\<^verbatim>\<open>get_mut\<close> followed by an assignment through the reference.\<close>

definition hm_modify :: "'k \<Rightarrow> ('v \<Rightarrow> 'v) \<Rightarrow> ('k, 'v) hmap \<Rightarrow> ('k, 'v) hmap" where
  "hm_modify k f m = (case hm_get m k of Some v \<Rightarrow> hm_insert k (f v) m | None \<Rightarrow> m)"

lemma hm_get_insert [simp, hm_simps]: "hm_get (hm_insert k v m) k' = (if k' = k then Some v else hm_get m k')"
  by (simp add: hm_insert_def update_conv)

lemma hm_get_remove [simp, hm_simps]: "hm_get (hm_remove k m) k' = (if k' = k then None else hm_get m k')"
  by (simp add: hm_remove_def delete_conv)

lemma hm_get_modify [simp, hm_simps]:
  "hm_get (hm_modify k f m) k' = (if k' = k then map_option f (hm_get m k) else hm_get m k')"
  by (auto simp: hm_modify_def split: option.splits)

lemma hm_wf_Nil [simp]: "hm_wf []"
  by (simp add: hm_wf_def)

lemma hm_wf_insert [simp]: "hm_wf m \<Longrightarrow> hm_wf (hm_insert k v m)"
  by (simp add: hm_wf_def hm_insert_def distinct_update)

lemma hm_wf_remove [simp]: "hm_wf m \<Longrightarrow> hm_wf (hm_remove k m)"
  by (simp add: hm_wf_def hm_remove_def distinct_delete)

lemma hm_wf_modify [simp]: "hm_wf m \<Longrightarrow> hm_wf (hm_modify k f m)"
  by (auto simp: hm_modify_def split: option.splits)

lemma hm_keys_insert: "set (hm_keys (hm_insert k v m)) = insert k (set (hm_keys m))"
  by (induction m) (auto simp: hm_insert_def)

lemma hm_keys_remove: "set (hm_keys (hm_remove k m)) = set (hm_keys m) - {k}"
  by (induction m) (auto simp: hm_remove_def AList.delete_eq)

lemma hm_values_iff: "hm_wf m \<Longrightarrow> v \<in> set (hm_values m) \<longleftrightarrow> (\<exists>k. hm_get m k = Some v)"
  by (force simp: hm_wf_def)

lemma hm_get_in_keys: "hm_get m k \<noteq> None \<longleftrightarrow> k \<in> set (hm_keys m)"
  by (metis map_of_eq_None_iff list.set_map)

lemma hm_length_modify [simp]: "length (hm_modify k f m) = length m"
proof (cases "hm_get m k")
  case None
  then show ?thesis by (simp add: hm_modify_def)
next
  case (Some v)
  then have "k \<in> set (hm_keys m)" by (metis hm_get_in_keys option.distinct(1))
  then have "length (AList.update k (f v) m) = length m"
    by (induction m) auto
  with Some show ?thesis by (simp add: hm_modify_def hm_insert_def)
qed

section \<open>JSON values\<close>

text \<open>
  \<^verbatim>\<open>serde_json::Value\<close>.  Numbers are integers: no operation of the modelled components
  reads a fractional one.
\<close>

datatype json =
  JNull
| JBool bool
| JNum int
| JStr string
| JArr "json list"
| JObj "(string \<times> json) list"

fun json_get :: "json \<Rightarrow> string \<Rightarrow> json option" where
  "json_get (JObj m) k = map_of m k"
| "json_get _ k = None"

text \<open>Indexing \<^verbatim>\<open>v["k"]\<close> of a shared value: \<^verbatim>\<open>Null\<close> when the key is absent.\<close>

definition json_index :: "json \<Rightarrow> string \<Rightarrow> json" where
  "json_index v k = (case json_get v k of Some x \<Rightarrow> x | None \<Rightarrow> JNull)"

fun as_str :: "json \<Rightarrow> string option" where
  "as_str (JStr s) = Some s"
| "as_str _ = None"

fun as_u64 :: "json \<Rightarrow> u64 option" where
  "as_u64 (JNum n) = (if 0 \<le> n \<and> n < 2 ^ 64 then Some (word_of_int n) else None)"
| "as_u64 _ = None"

definition unwrap_or :: "'a \<Rightarrow> 'a option \<Rightarrow> 'a" where
  "unwrap_or d x = (case x of Some v \<Rightarrow> v | None \<Rightarrow> d)"

lemma unwrap_or_simps [simp]: "unwrap_or d None = d" "unwrap_or d (Some v) = v"
  by (simp_all add: unwrap_or_def)

section \<open>Errors and results\<close>

datatype avix_error =
  InvalidPid string
| InvalidIpcAddr string
| InvalidToolName string string
| UnknownCredentialType string
| ConfigParse string
| CapabilityDenied string
| NoProviderAvailable string
| ProviderNotPermitted string
| AdapterError string
| Io string
| IpcTimeout
| IpcFrameTooLarge
| InvalidInput string
| NotFound string
| ManifestNotFound string
| ManifestSignatureMismatch string
| ManifestKindMismatch string string
| RequiredToolDenied string string
| ModelRequirementsNotMet string
| Serialization string
| McpProtocol string
| McpUnreachable string
| Cancelled string

type_synonym 'a avix_result = "avix_error + 'a"

fun error_display :: "avix_error \<Rightarrow> string" where
  "error_display (InvalidPid s) = ''invalid PID: '' @ s"
| "error_display (InvalidIpcAddr s) = ''invalid IPC address: '' @ s"
| "error_display (InvalidToolName n r) = ''invalid tool name '' @ [CHR 0x27] @ n @ [CHR 0x27] @ '': '' @ r"
| "error_display (UnknownCredentialType s) = ''unknown credential type: '' @ s"
| "error_display (ConfigParse s) = ''config parse error: '' @ s"
| "error_display (CapabilityDenied s) = ''capability denied: '' @ s"
| "error_display (NoProviderAvailable s) = ''no provider available for modality: '' @ s"
| "error_display (ProviderNotPermitted s) = ''provider not permitted: '' @ s"
| "error_display (AdapterError s) = ''adapter error: '' @ s"
| "error_display (Io s) = ''IO error: '' @ s"
| "error_display IpcTimeout = ''IPC call timed out''"
| "error_display IpcFrameTooLarge = ''IPC frame too large''"
| "error_display (InvalidInput s) = ''invalid input: '' @ s"
| "error_display (NotFound s) = ''not found: '' @ s"
| "error_display (ManifestNotFound p) = ''manifest not found at path: '' @ p"
| "error_display (ManifestSignatureMismatch p) = ''manifest signature mismatch at path: '' @ p"
| "error_display (ManifestKindMismatch e f) =
     ''manifest kind mismatch: expected '' @ [CHR 0x27] @ e @ [CHR 0x27] @ '', found '' @ [CHR 0x27] @ f @ [CHR 0x27]"
| "error_display (RequiredToolDenied t a) =
     ''required tool '' @ [CHR 0x27] @ t @ [CHR 0x27] @ '' denied for agent '' @ [CHR 0x27] @ a @ [CHR 0x27]"
| "error_display (ModelRequirementsNotMet r) = ''model requirements not met: '' @ r"
| "error_display (Serialization s) = ''serialization error: '' @ s"
| "error_display (McpProtocol s) = ''MCP protocol error: '' @ s"
| "error_display (McpUnreachable s) = ''MCP server unreachable: '' @ s"
| "error_display (Cancelled s) = ''cancelled: '' @ s"

text \<open>The characters of a message around a quoted value, as \<^verbatim>\<open>format!\<close> writes them.\<close>

definition quoted :: "string \<Rightarrow> string" where
  "quoted s = [CHR 0x27] @ s @ [CHR 0x27]"

fun is_err :: "('e + 'a) \<Rightarrow> bool" where
  "is_err (Inl _) = True"
| "is_err (Inr _) = False"

definition ok_or :: "'e \<Rightarrow> 'a option \<Rightarrow> 'e + 'a" where
  "ok_or e x = (case x of Some v \<Rightarrow> Inr v | None \<Rightarrow> Inl e)"

lemma ok_or_eq_Inr [simp]: "ok_or e x = Inr v \<longleftrightarrow> x = Some v"
  by (auto simp: ok_or_def split: option.splits)

lemma ok_or_eq_Inl [simp]: "ok_or e x = Inl e' \<longleftrightarrow> x = None \<and> e' = e"
  by (auto simp: ok_or_def split: option.splits)

section \<open>Contracts\<close>

text \<open>
  A keyed store: what the code expects of each of its tables (process table, tool registry,
  file tree, pipe table, job table).  \<open>put\<close> and \<open>del\<close> change one key only, and \<open>wf\<close> is the
  well-formedness both keep.
\<close>

locale keyed_store =
  fixes get :: "'s \<Rightarrow> 'k \<Rightarrow> 'v option"
    and put :: "'k \<Rightarrow> 'v \<Rightarrow> 's \<Rightarrow> 's"
    and del :: "'k \<Rightarrow> 's \<Rightarrow> 's"
    and wf :: "'s \<Rightarrow> bool"
  assumes get_put: "get (put k v s) k' = (if k' = k then Some v else get s k')"
    and get_del: "get (del k s) k' = (if k' = k then None else get s k')"
    and wf_put: "wf s \<Longrightarrow> wf (put k v s)"
    and wf_del: "wf s \<Longrightarrow> wf (del k s)"
begin

lemma get_put_same: "get (put k v s) k = Some v"
  by (simp add: get_put)

lemma get_put_other: "k' \<noteq> k \<Longrightarrow> get (put k v s) k' = get s k'"
  by (simp add: get_put)

lemma get_del_same: "get (del k s) k = None"
  by (simp add: get_del)

lemma put_put: "get (put k v (put k w s)) = get (put k v s)"
  by (rule ext) (simp add: get_put)

lemma put_commute: "k \<noteq> l \<Longrightarrow> get (put k v (put l w s)) = get (put l w (put k v s))"
  by (rule ext) (auto simp: get_put)

lemma put_del: "get (put k v (del k s)) = get (put k v s)"
  by (rule ext) (simp add: get_put get_del)

lemma puts_wf: "wf s \<Longrightarrow> wf (foldl (\<lambda>t (k, v). put k v t) s kvs)"
  by (induction kvs arbitrary: s) (auto intro: wf_put)

lemma get_puts:
  "k \<notin> fst ` set kvs \<Longrightarrow> get (foldl (\<lambda>t (k, v). put k v t) s kvs) k = get s k"
  by (induction kvs arbitrary: s) (auto simp: get_put)

lemma get_dels:
  "get (foldl (\<lambda>t k. del k t) s ks) k = (if k \<in> set ks then None else get s k)"
  by (induction ks arbitrary: s) (auto simp: get_del)

end

interpretation hm: keyed_store "map_of" hm_insert hm_remove hm_wf
  by unfold_locales auto

text \<open>
  A table whose entries are changed in place: \<^verbatim>\<open>get_mut\<close>, then an assignment through
  the reference, or an error when the key is absent.
\<close>

locale keyed_update =
  fixes get :: "'s \<Rightarrow> 'k \<Rightarrow> 'v option"
    and upd :: "('v \<Rightarrow> 'v) \<Rightarrow> 'k \<Rightarrow> 's \<Rightarrow> 'e + 's"
  assumes upd_some: "get s k = Some v \<Longrightarrow>
      \<exists>t. upd f k s = Inr t \<and> (\<forall>k'. get t k' = (if k' = k then Some (f v) else get s k'))"
    and upd_none: "get s k = None \<Longrightarrow> \<exists>e. upd f k s = Inl e"
begin

lemma upd_ok_iff: "(\<exists>t. upd f k s = Inr t) \<longleftrightarrow> get s k \<noteq> None"
  using upd_some [of s k _ f] upd_none [of s k f] by (cases "get s k") auto

lemma upd_get: "upd f k s = Inr t \<Longrightarrow> get t k' = (if k' = k then map_option f (get s k) else get s k')"
  using upd_some [of s k _ f] upd_none [of s k f] by (cases "get s k") force+

lemma upd_commute:
  assumes "k \<noteq> l" and "upd f k s = Inr t" and "upd g l t = Inr u" and "upd g l s = Inr t'"
    and "upd f k t' = Inr u'"
  shows "get u = get u'"
  using assms by (intro ext) (simp add: upd_get)

end

text \<open>
  A machine driven by a sequence of events: one step per call of an operation.  An invariant
  of one step is an invariant of every run, and a quantity no step lowers is never lowered.
\<close>

fun run_events :: "('s \<Rightarrow> 'e \<Rightarrow> 's) \<Rightarrow> 's \<Rightarrow> 'e list \<Rightarrow> 's" where
  "run_events step s [] = s"
| "run_events step s (e # es) = run_events step (step s e) es"

lemma run_events_append: "run_events step s (xs @ ys) = run_events step (run_events step s xs) ys"
  by (induction xs arbitrary: s) auto

locale event_machine =
  fixes step :: "'s \<Rightarrow> 'e \<Rightarrow> 's"
    and inv :: "'s \<Rightarrow> bool"
  assumes inv_step: "inv s \<Longrightarrow> inv (step s e)"
begin

lemma inv_run: "inv s \<Longrightarrow> inv (run_events step s es)"
  by (induction es arbitrary: s) (auto intro: inv_step)

lemma rel_run:
  assumes "\<And>s e. inv s \<Longrightarrow> P e \<Longrightarrow> R s (step s e)" and "reflp R" and "transp R"
    and "inv s" and "list_all P es"
  shows "R s (run_events step s es)"
  using assms(4,5)
proof (induction es arbitrary: s)
  case Nil
  then show ?case using assms(2) by (simp add: reflpD)
next
  case (Cons e es)
  then have "R s (step s e)" by (simp add: assms(1))
  moreover have "R (step s e) (run_events step (step s e) es)" using Cons by (simp add: inv_step)
  ultimately show ?case using assms(3) by (auto dest: transpD)
qed

lemma mono_run:
  fixes f :: "'s \<Rightarrow> 'o::preorder"
  assumes "\<And>s e. inv s \<Longrightarrow> P e \<Longrightarrow> f s \<le> f (step s e)" and "inv s" and "list_all P es"
  shows "f s \<le> f (run_events step s es)"
  by (rule rel_run [where R = "\<lambda>s t. f s \<le> f t" and P = P])
     (use assms in \<open>auto intro!: reflpI transpI intro: order_trans\<close>)

end

text \<open>
  A step relation with its reachable states: for the parts whose operations interleave.
\<close>

inductive reach :: "('s \<Rightarrow> bool) \<Rightarrow> ('s \<Rightarrow> 's \<Rightarrow> bool) \<Rightarrow> 's \<Rightarrow> bool" for init step where
  reach_init: "init s \<Longrightarrow> reach init step s"
| reach_step: "reach init step s \<Longrightarrow> step s t \<Longrightarrow> reach init step t"

locale step_invariant =
  fixes init :: "'s \<Rightarrow> bool"
    and step :: "'s \<Rightarrow> 's \<Rightarrow> bool"
    and inv :: "'s \<Rightarrow> bool"
  assumes inv_init: "init s \<Longrightarrow> inv s"
    and inv_next: "step s t \<Longrightarrow> inv s \<Longrightarrow> inv t"
begin

lemma reach_inv: "reach init step s \<Longrightarrow> inv s"
  by (induction rule: reach.induct) (auto intro: inv_init inv_next)

end

end
