(* ===== verification/Types_Core.thy ===== *)
theory Types_Core
  imports Prelude
begin

text \<open>
  The shared value types of \<^verbatim>\<open>src/crates/avix-core/src/types\<close>: process identifiers
  (\<^verbatim>\<open>pid.rs\<close>), roles (\<^verbatim>\<open>role.rs\<close>), tool names with the wire mangling
  (\<^verbatim>\<open>tool.rs\<close>, \<^verbatim>\<open>router/mangle.rs\<close>), modalities (\<^verbatim>\<open>modality.rs\<close>) and
  the capability-to-tool expansion table (\<^verbatim>\<open>capability_map.rs\<close>).
\<close>

unbundle bit_operations_syntax

section \<open>Process identifiers\<close>

datatype pid = Pid (pid_u64: u64)

definition pid_epoch_ms :: u64 where
  "pid_epoch_ms = 1735689600000"

text \<open>
  \<^verbatim>\<open>Pid::generate\<close>: the clock (milliseconds since the Unix epoch) and the random 32-bit
  number are arguments.
\<close>

definition pid_generate :: "u64 \<Rightarrow> u32 \<Rightarrow> pid" where
  "pid_generate now_ms rnd =
     (let ts = sat_sub now_ms pid_epoch_ms AND 0x3FFFFFFFFFF;
          salt = (ucast rnd :: u64) AND 0x3FFFFF
      in Pid (push_bit 22 ts OR salt))"

definition kernel_pid :: pid where
  "kernel_pid = Pid 0"

definition is_kernel :: "pid \<Rightarrow> bool" where
  "is_kernel p \<longleftrightarrow> pid_u64 p = 0"

definition pid_display :: "pid \<Rightarrow> string" where
  "pid_display p = (if is_kernel p then ''kernel'' else show_word (pid_u64 p))"

instantiation pid :: linorder
begin

definition less_eq_pid :: "pid \<Rightarrow> pid \<Rightarrow> bool" where
  "p \<le> q \<longleftrightarrow> pid_u64 p \<le> pid_u64 q"

definition less_pid :: "pid \<Rightarrow> pid \<Rightarrow> bool" where
  "p < q \<longleftrightarrow> pid_u64 p < pid_u64 q"

instance
  by standard (auto simp: less_eq_pid_def less_pid_def pid.expand)

end

section \<open>Roles\<close>

datatype role = Guest | User | Operator | Admin

fun role_level :: "role \<Rightarrow> nat" where
  "role_level Guest = 0"
| "role_level User = 1"
| "role_level Operator = 2"
| "role_level Admin = 3"

instantiation role :: linorder
begin

definition less_eq_role :: "role \<Rightarrow> role \<Rightarrow> bool" where
  "r \<le> s \<longleftrightarrow> role_level r \<le> role_level s"

definition less_role :: "role \<Rightarrow> role \<Rightarrow> bool" where
  "r < s \<longleftrightarrow> role_level r < role_level s"

instance
proof
  fix r s :: role
  assume "r \<le> s" and "s \<le> r"
  then show "r = s" by (cases r; cases s) (auto simp: less_eq_role_def)
qed (auto simp: less_eq_role_def less_role_def)

end

definition can_access_domain :: "role \<Rightarrow> string \<Rightarrow> bool" where
  "can_access_domain r domain =
     (if domain \<in> {''proc'', ''fs'', ''llm'', ''exec'', ''jobs''} then True
      else if domain \<in> {''sys'', ''cap''} then Admin \<le> r
      else if domain = ''kernel'' then Operator \<le> r
      else False)"

fun role_display :: "role \<Rightarrow> string" where
  "role_display Admin = ''admin''"
| "role_display Operator = ''operator''"
| "role_display User = ''user''"
| "role_display Guest = ''guest''"

definition role_from_str :: "string \<Rightarrow> role avix_result" where
  "role_from_str s =
     (if s = ''admin'' then Inr Admin
      else if s = ''operator'' then Inr Operator
      else if s = ''user'' then Inr User
      else if s = ''guest'' then Inr Guest
      else Inl (ConfigParse (''unknown role: '' @ s)))"

section \<open>Tool names\<close>

datatype tool_name = ToolName (tool_str: string)

definition wire_sep :: string where
  "wire_sep = ''__''"

definition tool_name_parse :: "string \<Rightarrow> tool_name avix_result" where
  "tool_name_parse s =
     (if s = [] then Inl (InvalidToolName s ''name must not be empty'')
      else if contains_str s wire_sep
      then Inl (InvalidToolName s (''name must not contain '' @ quoted wire_sep @ '' (reserved for wire mangling)''))
      else Inr (ToolName s))"

definition mangle :: "string \<Rightarrow> string" where
  "mangle name = str_replace ''/'' wire_sep name"

definition unmangle :: "string \<Rightarrow> string" where
  "unmangle name = str_replace wire_sep ''/'' name"

definition validate_tool_name :: "string \<Rightarrow> unit avix_result" where
  "validate_tool_name name =
     (if contains_str name wire_sep
      then Inl (InvalidToolName name
             (''tool names must not contain '' @ quoted wire_sep @ '' (reserved for wire mangling)''))
      else Inr ())"

definition tool_name_mangled :: "tool_name \<Rightarrow> string" where
  "tool_name_mangled t = mangle (tool_str t)"

definition tool_name_unmangle :: "string \<Rightarrow> tool_name avix_result" where
  "tool_name_unmangle w = tool_name_parse (unmangle w)"

datatype tool_state = ToolAvailable | ToolDegraded | ToolUnavailable

definition can_transition_to :: "tool_state \<Rightarrow> tool_state \<Rightarrow> bool" where
  "can_transition_to a b \<longleftrightarrow> \<not> (a = ToolAvailable \<and> b = ToolAvailable)"

datatype tool_category = Direct | AvixBehaviour | Transparent

definition classify :: "string \<Rightarrow> tool_category" where
  "classify name =
     (let ns = first_segment (CHR ''/'') name
      in if ns \<in> {''agent'', ''pipe'', ''cap'', ''job''} then AvixBehaviour else Direct)"

datatype tool_visibility = VisAll | VisCrew string | VisUser string

section \<open>Modalities\<close>

datatype modality = Text | Image | Speech | Transcription | Embedding

fun modality_str :: "modality \<Rightarrow> string" where
  "modality_str Text = ''text''"
| "modality_str Image = ''image''"
| "modality_str Speech = ''speech''"
| "modality_str Transcription = ''transcription''"
| "modality_str Embedding = ''embedding''"

definition modality_all :: "modality list" where
  "modality_all = [Text, Image, Speech, Transcription, Embedding]"

definition modality_from_str :: "string \<Rightarrow> modality avix_result" where
  "modality_from_str s =
     (if s = ''text'' then Inr Text
      else if s = ''image'' then Inr Image
      else if s = ''speech'' then Inr Speech
      else if s = ''transcription'' then Inr Transcription
      else if s = ''embedding'' then Inr Embedding
      else Inl (ConfigParse (''unknown modality: '' @ s)))"

section \<open>The capability-to-tool table\<close>

record capability_tool_map =
  ctm_map :: "(string, string list) hmap"
  ctm_always :: "string list"

definition capability_tool_map_default :: capability_tool_map where
  "capability_tool_map_default =
     \<lparr> ctm_map =
         [(''agent:spawn'',
            [''agent/spawn'', ''agent/kill'', ''agent/list'', ''agent/wait'', ''agent/send-message'']),
          (''pipe:use'', [''pipe/open'', ''pipe/write'', ''pipe/read'', ''pipe/close'']),
          (''memory:read'', [''memory/retrieve'', ''memory/get-fact'', ''memory/get-preferences'']),
          (''memory:write'',
            [''memory/retrieve'', ''memory/get-fact'', ''memory/get-preferences'', ''memory/log-event'',
             ''memory/store-fact'', ''memory/update-preference'', ''memory/forget'']),
          (''memory:share'', [''memory/share-request''])],
       ctm_always = [''cap/request-tool'', ''cap/escalate'', ''cap/list'', ''job/watch'', ''sys/tools''] \<rparr>"

definition tools_for_capability :: "capability_tool_map \<Rightarrow> string \<Rightarrow> string list" where
  "tools_for_capability m cap = unwrap_or [] (hm_get (ctm_map m) cap)"

definition all_gated_cat2_tools :: "capability_tool_map \<Rightarrow> string list" where
  "all_gated_cat2_tools m = concat (hm_values (ctm_map m))"

definition always_present :: "capability_tool_map \<Rightarrow> string list" where
  "always_present m = ctm_always m"

section \<open>Properties of the value types\<close>

text \<open>
  An access policy: what each role may do.  Every policy of the system grants a role all that it
  grants a lower one, so a policy is a threshold on roles for each request.
\<close>

locale access_policy =
  fixes allowed :: "role \<Rightarrow> 'q \<Rightarrow> bool"
  assumes allowed_mono: "r \<le> s \<Longrightarrow> allowed r q \<Longrightarrow> allowed s q"
begin

lemma allowed_admin: "allowed r q \<Longrightarrow> allowed Admin q"
  by (rule allowed_mono [of r]) (auto simp: less_eq_role_def intro: role.exhaust [of r])

lemma allowed_guest: "allowed Guest q \<Longrightarrow> allowed r q"
  by (rule allowed_mono [of Guest]) (auto simp: less_eq_role_def)

lemma allowed_threshold: "(\<forall>r. \<not> allowed r q) \<or> (\<exists>m. \<forall>r. allowed r q \<longleftrightarrow> m \<le> r)"
proof (cases "\<exists>r. allowed r q")
  case True
  define m where "m = (if allowed Guest q then Guest else if allowed User q then User
      else if allowed Operator q then Operator else Admin)"
  have "allowed r q \<longleftrightarrow> m \<le> r" for r
    using True allowed_admin [of _ q] allowed_mono [of Guest User q] allowed_mono [of User Operator q]
      allowed_mono [of Guest Operator q]
    unfolding m_def by (cases r) (auto simp: less_eq_role_def)
  then show ?thesis by blast
qed simp

end

lemma role_le_iff [simp]:
  "Guest \<le> r" "r \<le> Admin" "User \<le> r \<longleftrightarrow> r \<noteq> Guest" "Admin \<le> r \<longleftrightarrow> r = Admin"
  "Operator \<le> r \<longleftrightarrow> r = Operator \<or> r = Admin"
  by (cases r; simp add: less_eq_role_def)+

lemma can_access_domain_mono:
  "r \<le> s \<Longrightarrow> can_access_domain r d \<Longrightarrow> can_access_domain s d"
  by (auto simp: can_access_domain_def dest: order.trans split: if_splits)

interpretation domain_access: access_policy can_access_domain
  by unfold_locales (rule can_access_domain_mono)

lemma role_roundtrip: "role_from_str (role_display r) = Inr r"
  by (cases r) (simp_all add: role_from_str_def)

lemma role_from_str_Inr_iff: "role_from_str s = Inr r \<longleftrightarrow> s = role_display r"
  by (cases r) (auto simp: role_from_str_def)

lemma modality_roundtrip: "modality_from_str (modality_str m) = Inr m"
  by (cases m) (simp_all add: modality_from_str_def)

lemma modality_all_complete: "set modality_all = UNIV"
  using modality.exhaust by (auto simp: modality_all_def)

lemma pid_display_inj: "pid_display p = pid_display q \<Longrightarrow> p = q"
proof -
  have "CHR ''k'' \<notin> set (show_nat n)" for n
    using show_nat_no_char [of "CHR ''k''" n] by auto
  then have "show_word w \<noteq> ''kernel''" "''kernel'' \<noteq> show_word w" for w :: u64
    unfolding show_word_def by (metis list.set_intros(1))+
  then show "pid_display p = pid_display q \<Longrightarrow> p = q"
    by (auto simp: pid_display_def is_kernel_def pid.expand split: if_splits dest: show_word_inj)
qed

lemma tool_name_parse_Inr_iff:
  "tool_name_parse s = Inr t \<longleftrightarrow> t = ToolName s \<and> s \<noteq> [] \<and> \<not> contains_str s wire_sep"
  by (auto simp: tool_name_parse_def)

lemma mangle_Cons [simp]:
  "mangle (c # s) = (if c = CHR ''/'' then wire_sep @ mangle s else c # mangle s)"
  by (simp add: mangle_def str_replace_char)

lemma mangle_Nil [simp]: "mangle [] = []"
  by (simp add: mangle_def)

lemma mangle_no_slash: "CHR ''/'' \<notin> set (mangle s)"
  by (induction s) (auto simp: wire_sep_def)

lemma unmangle_sep [simp]: "unmangle (CHR ''_'' # CHR ''_'' # s) = CHR ''/'' # unmangle s"
  using str_replace_match [of "''__''" "''/''" s] by (simp add: unmangle_def wire_sep_def)

lemma unmangle_Nil [simp]: "unmangle [] = []"
  by (simp add: unmangle_def)

lemma unmangle_skip:
  "c \<noteq> CHR ''_'' \<or> s = [] \<or> hd s \<noteq> CHR ''_'' \<Longrightarrow> unmangle (c # s) = c # unmangle s"
  unfolding unmangle_def wire_sep_def
  by (rule str_replace_skip) (cases s; auto)

lemma unmangle_mangle_iff:
  "\<not> contains_str s wire_sep \<Longrightarrow> unmangle (mangle s) = s \<longleftrightarrow> \<not> contains_str s ''_/''"
proof (induction s)
  case (Cons c s)
  consider "c = CHR ''/''" | "c \<noteq> CHR ''/''" "c \<noteq> CHR ''_''" | "c = CHR ''_''" by blast
  then show ?case
  proof cases
    case 1
    with Cons show ?thesis by (simp add: wire_sep_def)
  next
    case 2
    with Cons show ?thesis by (simp add: unmangle_skip wire_sep_def)
  next
    case 3
    then show ?thesis
    proof (cases s)
      case Nil
      with 3 show ?thesis by (simp add: unmangle_skip)
    next
      case (Cons d t)
      with 3 Cons.prems have "d \<noteq> CHR ''_''" by (auto simp: wire_sep_def)
      with 3 Cons Cons.prems Cons.IH show ?thesis
        by (auto simp: unmangle_skip wire_sep_def)
    qed
  qed
qed simp

lemma mangle_unmangle:
  "CHR ''/'' \<notin> set w \<Longrightarrow> mangle (unmangle w) = w"
proof (induction w rule: length_induct)
  case (1 w)
  show ?case
  proof (cases "starts_with w wire_sep")
    case True
    then obtain t where w: "w = CHR ''_'' # CHR ''_'' # t" by (auto simp: starts_with_iff wire_sep_def)
    with 1 show ?thesis by (simp add: wire_sep_def)
  next
    case False
    show ?thesis
    proof (cases w)
      case (Cons c t)
      with False have "unmangle w = c # unmangle t"
        by (simp add: unmangle_def wire_sep_def str_replace_skip)
      with 1 Cons show ?thesis by auto
    qed simp
  qed
qed

lemma pid_generate_u64:
  "unat (pid_u64 (pid_generate now_ms rnd)) =
     (unat now_ms - unat pid_epoch_ms) mod 2 ^ 42 * 2 ^ 22 + unat rnd mod 2 ^ 22"
proof -
  define ts where "ts = sat_sub now_ms pid_epoch_ms"
  have m: "(0x3FFFFFFFFFF :: u64) = mask 42" "(0x3FFFFF :: u64) = mask 22"
    by (simp_all add: mask_eq_exp_minus_1)
  have "unat (push_bit 22 (take_bit 42 ts) OR take_bit 22 (ucast rnd :: u64)) =
        push_bit 22 (take_bit 42 (unat ts)) OR take_bit 22 (unat rnd)"
    by (simp add: unsigned_or_eq unsigned_push_bit_eq unsigned_take_bit_eq unsigned_ucast_eq)
       (simp add: bit_eq_iff bit_simps; auto)
  also have "\<dots> = push_bit 22 (take_bit 42 (unat ts)) + take_bit 22 (unat rnd)"
    by (rule disjunctive_add_eq_or [symmetric]) (simp add: bit_eq_iff bit_simps; auto)
  finally show ?thesis
    by (simp add: pid_generate_def m ts_def unat_sat_sub push_bit_eq_mult take_bit_eq_mod
        flip: take_bit_eq_mask)
qed

text \<open>
  Wire mangling of tool names.  For every name the parser accepts, mangling it for the wire
  and parsing the mangled form gives the name back exactly when the name has no underscore right
  before a slash; so the round trip the two functions are meant to give fails on names such as
  \<^verbatim>\<open>a_/b\<close>, although the parser accepts them.
\<close>

theorem wire_name_roundtrip:
  assumes "tool_name_parse s = Inr t"
  shows "tool_name_unmangle (tool_name_mangled t) = Inr t \<longleftrightarrow> \<not> contains_str s ''_/''"
  using assms unmangle_mangle_iff [of s]
  by (auto simp: tool_name_unmangle_def tool_name_mangled_def tool_name_parse_Inr_iff)

theorem wire_name_roundtrip_witness:
  "tool_name_unmangle (tool_name_mangled (ToolName ''fs/read'')) = Inr (ToolName ''fs/read'') \<and>
   tool_name_unmangle (tool_name_mangled (ToolName ''a_/b'')) \<noteq> Inr (ToolName ''a_/b'')"
  using wire_name_roundtrip [of "''fs/read''" "ToolName ''fs/read''"]
    wire_name_roundtrip [of "''a_/b''" "ToolName ''a_/b''"]
  by (simp add: tool_name_parse_Inr_iff wire_sep_def)

text \<open>
  Process identifiers are ordered by creation time.  Within the 42-bit millisecond range that
  starts at 2025-01-01, an identifier generated in a later millisecond is greater than one
  generated earlier, whatever the random salts, and is never the kernel's reserved identifier.
\<close>

theorem pid_generate_strict_mono:
  assumes "pid_epoch_ms \<le> m" and "m < n" and "unat n < unat pid_epoch_ms + 2 ^ 42"
  shows "pid_generate m r < pid_generate n s \<and> \<not> is_kernel (pid_generate n s)"
proof -
  have mn: "unat pid_epoch_ms \<le> unat m" "unat m < unat n"
    using assms by (auto simp: word_le_nat_alt word_less_nat_alt)
  let ?a = "unat m - unat pid_epoch_ms" and ?b = "unat n - unat pid_epoch_ms"
  have ab: "?a < ?b" "?b < 2 ^ 42" using mn assms(3) by linarith+
  have "?a mod 2 ^ 42 * 2 ^ 22 + unat r mod 2 ^ 22 < (?a + 1) * 2 ^ 22" using ab by simp
  also have "(?a + 1) * 2 ^ 22 \<le> ?b * 2 ^ 22" using ab by (intro mult_right_mono) auto
  finally have "unat (pid_u64 (pid_generate m r)) < unat (pid_u64 (pid_generate n s))"
    unfolding pid_generate_u64 using ab by simp
  then show ?thesis
    by (auto simp: less_pid_def word_less_nat_alt is_kernel_def)
qed

theorem pid_generate_strict_mono_witness:
  "pid_generate 1735689600001 77 < pid_generate 1735689600002 3"
  using pid_generate_strict_mono [of 1735689600001 1735689600002 77 3]
  by (simp add: pid_epoch_ms_def word_le_nat_alt word_less_nat_alt)

end
