(* ===== verification/Capability_Token.thy ===== *)
theory Capability_Token
  imports Types_Core "HOL-Library.Multiset"
begin

text \<open>
  The signed capability token of \<^verbatim>\<open>src/crates/avix-core/src/types/token.rs\<close>: the token and
  its manifest envelope, minting, verification and expiry.  HMAC-SHA256 with hex encoding is the
  parameter \<open>hmac\<close> (key, then payload); the theorems that need it assume what a keyed hash
  promises, that two payloads with the same tag under one key are the same payload.  The YAML
  codec is a pair of parameters.
\<close>

type_synonym hmac_fn = "string \<Rightarrow> string \<Rightarrow> string"

definition hmac_collision_free :: "hmac_fn \<Rightarrow> string \<Rightarrow> bool" where
  "hmac_collision_free hmac key \<longleftrightarrow> (\<forall>p q. hmac key p = hmac key q \<longrightarrow> p = q)"

record session_token =
  st_role :: role
  st_session_id :: string

record issued_to =
  it_pid :: u64
  it_agent_name :: string
  it_spawned_by :: string

record capability_token =
  granted_tools :: "string list"
  issued_at :: datetime
  expires_at :: datetime
  issued_to_opt :: "issued_to option"
  signature :: string

abbreviation nanos_per_sec :: int where
  "nanos_per_sec \<equiv> 1000000000"

text \<open>\<^verbatim>\<open>DateTime::timestamp\<close>: whole seconds, rounded towards the past.\<close>

definition timestamp :: "datetime \<Rightarrow> int" where
  "timestamp t = t div nanos_per_sec"

definition has_tool :: "capability_token \<Rightarrow> string \<Rightarrow> bool" where
  "has_tool tok tool = list_ex (\<lambda>t. t = tool) (granted_tools tok)"

definition is_expired :: "datetime \<Rightarrow> capability_token \<Rightarrow> bool" where
  "is_expired now tok \<longleftrightarrow> expires_at tok < now"

definition token_payload :: "capability_token \<Rightarrow> string" where
  "token_payload tok =
     show_int (timestamp (issued_at tok)) @ ''|'' @ show_int (timestamp (expires_at tok)) @ ''|'' @
     join_str '','' (sort (granted_tools tok))"

definition compute_signature :: "hmac_fn \<Rightarrow> capability_token \<Rightarrow> string \<Rightarrow> string" where
  "compute_signature hmac tok key = ''sha256:'' @ hmac key (token_payload tok)"

definition mint :: "hmac_fn \<Rightarrow> datetime \<Rightarrow> string list \<Rightarrow> issued_to option \<Rightarrow> int \<Rightarrow> string \<Rightarrow> capability_token" where
  "mint hmac now tools to_opt ttl_secs key =
     (let tok = \<lparr> granted_tools = tools, issued_at = now, expires_at = now + ttl_secs * nanos_per_sec,
                  issued_to_opt = to_opt, signature = [] \<rparr>
      in tok\<lparr> signature := compute_signature hmac tok key \<rparr>)"

definition verify_signature :: "hmac_fn \<Rightarrow> capability_token \<Rightarrow> string \<Rightarrow> bool" where
  "verify_signature hmac tok key \<longleftrightarrow> signature tok = compute_signature hmac tok key"

section \<open>The manifest envelope\<close>

record manifest_metadata =
  mm_issued_at :: datetime
  mm_expires_at :: datetime
  mm_issued_to :: "issued_to option"

record manifest_constraints =
  mc_max_tokens_per_turn :: "u32 option"
  mc_max_tool_chain_length :: "u32 option"
  mc_allow_pipe_targets :: "u32 list option"

record manifest_spec =
  ms_granted :: "string list"
  ms_constraints :: "manifest_constraints option"
  ms_signature :: string

record capability_token_manifest =
  ctm_api_version :: string
  ctm_kind :: string
  ctm_metadata :: manifest_metadata
  ctm_spec :: manifest_spec

definition from_token :: "capability_token \<Rightarrow> capability_token_manifest" where
  "from_token tok =
     \<lparr> ctm_api_version = ''avix/v1'', ctm_kind = ''CapabilityToken'',
       ctm_metadata = \<lparr> mm_issued_at = issued_at tok, mm_expires_at = expires_at tok,
                        mm_issued_to = issued_to_opt tok \<rparr>,
       ctm_spec = \<lparr> ms_granted = granted_tools tok, ms_constraints = None,
                    ms_signature = signature tok \<rparr> \<rparr>"

definition into_token :: "capability_token_manifest \<Rightarrow> capability_token" where
  "into_token m =
     \<lparr> granted_tools = ms_granted (ctm_spec m), issued_at = mm_issued_at (ctm_metadata m),
       expires_at = mm_expires_at (ctm_metadata m), issued_to_opt = mm_issued_to (ctm_metadata m),
       signature = ms_signature (ctm_spec m) \<rparr>"

definition to_manifest_yaml ::
  "(capability_token_manifest \<Rightarrow> string) \<Rightarrow> capability_token \<Rightarrow> string" where
  "to_manifest_yaml to_yaml tok = to_yaml (from_token tok)"

definition from_manifest_yaml ::
  "(string \<Rightarrow> string + capability_token_manifest) \<Rightarrow> string \<Rightarrow> string + capability_token" where
  "from_manifest_yaml from_yaml y = map_sum id into_token (from_yaml y)"

section \<open>Lemmas\<close>

lemma has_tool_iff [simp]: "has_tool tok tool \<longleftrightarrow> tool \<in> set (granted_tools tok)"
  by (auto simp: has_tool_def list_ex_iff)

lemma into_from_token [simp]: "into_token (from_token tok) = tok"
  by (simp add: into_token_def from_token_def)

lemma mint_simps [simp]:
  "granted_tools (mint hmac now tools to_opt ttl key) = tools"
  "issued_at (mint hmac now tools to_opt ttl key) = now"
  "expires_at (mint hmac now tools to_opt ttl key) = now + ttl * nanos_per_sec"
  "issued_to_opt (mint hmac now tools to_opt ttl key) = to_opt"
  by (simp_all add: mint_def Let_def)

lemma token_payload_signature [simp]:
  "token_payload (tok\<lparr>signature := x\<rparr>) = token_payload tok"
  "token_payload (tok\<lparr>issued_to_opt := y\<rparr>) = token_payload tok"
  by (simp_all add: token_payload_def)

lemma mint_verifies: "verify_signature hmac (mint hmac now tools to_opt ttl key) key"
  by (simp add: verify_signature_def mint_def Let_def compute_signature_def token_payload_def)

lemma mint_expired_iff: "is_expired later (mint hmac now tools to_opt ttl key) \<longleftrightarrow> now + ttl * nanos_per_sec < later"
  by (simp add: is_expired_def)

text \<open>A tool list the payload encodes without ambiguity.\<close>

definition csv_safe :: "string list \<Rightarrow> bool" where
  "csv_safe ts \<longleftrightarrow> (\<forall>t\<in>set ts. CHR '','' \<notin> set t \<and> t \<noteq> [])"

lemma sort_eq_iff_mset: "sort xs = sort ys \<longleftrightarrow> mset xs = mset ys" for xs ys :: "string list"
  by (metis mset_sort properties_for_sort sorted_sort)

lemma token_payload_eq_iff:
  assumes "csv_safe (granted_tools a)" and "csv_safe (granted_tools b)"
  shows "token_payload a = token_payload b \<longleftrightarrow>
      timestamp (issued_at a) = timestamp (issued_at b) \<and>
      timestamp (expires_at a) = timestamp (expires_at b) \<and>
      mset (granted_tools a) = mset (granted_tools b)"
proof
  assume eq: "token_payload a = token_payload b"
  let ?i = "\<lambda>t. show_int (timestamp (issued_at t))"
  let ?e = "\<lambda>t. show_int (timestamp (expires_at t))"
  let ?j = "\<lambda>t. join_str '','' (sort (granted_tools t))"
  from eq have "?i a @ CHR ''|'' # (?e a @ CHR ''|'' # ?j a) = ?i b @ CHR ''|'' # (?e b @ CHR ''|'' # ?j b)"
    by (simp add: token_payload_def)
  from append_sep_inj [OF this show_int_no_bar show_int_no_bar]
  have i: "?i a = ?i b" and r: "?e a @ CHR ''|'' # ?j a = ?e b @ CHR ''|'' # ?j b" by simp_all
  from append_sep_inj [OF r show_int_no_bar show_int_no_bar]
  have e: "?e a = ?e b" and j: "?j a = ?j b" by simp_all
  from j have "sort (granted_tools a) = sort (granted_tools b)"
    using assms by (intro join_str_inj) (auto simp: csv_safe_def)
  with i e show "timestamp (issued_at a) = timestamp (issued_at b) \<and>
      timestamp (expires_at a) = timestamp (expires_at b) \<and>
      mset (granted_tools a) = mset (granted_tools b)"
    by (auto simp: sort_eq_iff_mset dest: show_int_inj)
qed (auto simp: token_payload_def simp flip: sort_eq_iff_mset)

text \<open>
  What the token signature covers.  With a collision-free keyed hash and tool names that are
  non-empty and comma-free, a tampered copy of a signed token still verifies exactly when it keeps the
  whole-second issue and expiry times, the granted tools up to order, and the signature string;
  the holder recorded in \<^verbatim>\<open>issued_to\<close> is not covered, so replacing it goes unnoticed.
\<close>

theorem signature_covers:
  assumes "hmac_collision_free hmac key" and "csv_safe (granted_tools tok)"
    and "csv_safe (granted_tools tok')" and "verify_signature hmac tok key"
    and "signature tok' = signature tok"
  shows "verify_signature hmac tok' key \<longleftrightarrow>
      timestamp (issued_at tok') = timestamp (issued_at tok) \<and>
      timestamp (expires_at tok') = timestamp (expires_at tok) \<and>
      mset (granted_tools tok') = mset (granted_tools tok)"
proof -
  have "verify_signature hmac tok' key \<longleftrightarrow> token_payload tok' = token_payload tok"
    using assms by (auto simp: verify_signature_def compute_signature_def hmac_collision_free_def)
  then show ?thesis using token_payload_eq_iff [OF assms(3,2)] by simp
qed

definition demo_hmac :: hmac_fn where
  "demo_hmac key payload = key @ payload"

definition demo_token :: "string list \<Rightarrow> capability_token" where
  "demo_token tools = mint demo_hmac 0 tools None 3600 ''k''"

theorem signature_covers_witness:
  "verify_signature demo_hmac ((demo_token [''fs/read''])\<lparr>issued_to_opt :=
       Some \<lparr> it_pid = 7, it_agent_name = ''eve'', it_spawned_by = ''eve'' \<rparr>\<rparr>) ''k'' \<and>
   \<not> verify_signature demo_hmac ((demo_token [''fs/read''])\<lparr>granted_tools := [''fs/read'', ''fs/write'']\<rparr>) ''k''"
  using signature_covers [of demo_hmac "''k''" "demo_token [''fs/read'']"
      "(demo_token [''fs/read''])\<lparr>issued_to_opt :=
         Some \<lparr> it_pid = 7, it_agent_name = ''eve'', it_spawned_by = ''eve'' \<rparr>\<rparr>"]
    signature_covers [of demo_hmac "''k''" "demo_token [''fs/read'']"
      "(demo_token [''fs/read''])\<lparr>granted_tools := [''fs/read'', ''fs/write'']\<rparr>"]
  by (simp add: hmac_collision_free_def demo_hmac_def demo_token_def csv_safe_def mint_verifies)

text \<open>
  A minted token survives being written to its YAML manifest and read back, given a codec that
  reads back what it writes: it still verifies, and expires when its lifetime has passed.
\<close>

lemma mint_manifest_roundtrip:
  assumes "from_yaml (to_yaml (from_token tok)) = Inr (from_token tok)"
    and "tok = mint hmac now tools to_opt ttl key"
  shows "from_manifest_yaml from_yaml (to_manifest_yaml to_yaml tok) = Inr tok \<and>
      verify_signature hmac tok key \<and>
      (\<forall>later. is_expired later tok \<longleftrightarrow> now + ttl * nanos_per_sec < later)"
  using assms
  by (simp add: from_manifest_yaml_def to_manifest_yaml_def mint_verifies mint_expired_iff)

end
