(* ===== verification/Process_Table.thy ===== *)
theory Process_Table
  imports Capability_Token
begin

text \<open>
  The kernel's process table: \<^verbatim>\<open>src/crates/avix-core/src/process\<close>
  (\<^verbatim>\<open>entry.rs\<close>, \<^verbatim>\<open>table.rs\<close>, \<^verbatim>\<open>status_file.rs\<close>).  Every method takes the
  table's lock for its whole body, so a method is one function on the table.  A method that may
  fail returns the error, with the table unchanged, or the new table.
\<close>

section \<open>Entries\<close>

datatype process_kind = KindAgent | KindService | KindKernel

datatype process_status = PsPending | PsRunning | PsPaused | PsWaiting | PsStopped | PsCrashed

datatype waiting_on = HumanApproval | PipeRead | PipeWrite | WaitSignal

record process_entry =
  pe_pid :: pid
  pe_name :: string
  pe_kind :: process_kind
  pe_status :: process_status
  pe_parent :: "pid option"
  pe_spawned_by_user :: string
  pe_granted_tools :: "string list"
  pe_token_expires_at :: "datetime option"
  pe_tool_chain_depth :: u32
  pe_goal :: string
  pe_spawned_at :: datetime
  pe_context_used :: u64
  pe_context_limit :: u64
  pe_last_activity_at :: datetime
  pe_waiting_on :: "waiting_on option"
  pe_denied_tools :: "string list"
  pe_last_signal_received :: "string option"
  pe_pending_signal_count :: u32
  pe_tokens_consumed :: u64
  pe_tool_calls_total :: u32

definition process_entry_default :: "datetime \<Rightarrow> process_entry" where
  "process_entry_default now =
     \<lparr> pe_pid = Pid 0, pe_name = [], pe_kind = KindAgent, pe_status = PsPending, pe_parent = None,
       pe_spawned_by_user = [], pe_granted_tools = [], pe_token_expires_at = None,
       pe_tool_chain_depth = 0, pe_goal = [], pe_spawned_at = now, pe_context_used = 0,
       pe_context_limit = 0, pe_last_activity_at = now, pe_waiting_on = None, pe_denied_tools = [],
       pe_last_signal_received = None, pe_pending_signal_count = 0, pe_tokens_consumed = 0,
       pe_tool_calls_total = 0 \<rparr>"

section \<open>The table\<close>

type_synonym process_table = "(u64, process_entry) hmap"

definition pt_new :: process_table where
  "pt_new = []"

definition pt_insert :: "process_entry \<Rightarrow> process_table \<Rightarrow> process_table" where
  "pt_insert e t = hm_insert (pid_u64 (pe_pid e)) e t"

definition pt_remove :: "pid \<Rightarrow> process_table \<Rightarrow> process_table" where
  "pt_remove p t = hm_remove (pid_u64 p) t"

definition pt_get :: "process_table \<Rightarrow> pid \<Rightarrow> process_entry option" where
  "pt_get t p = hm_get t (pid_u64 p)"

text \<open>The shape the mutators share: \<^verbatim>\<open>get_mut\<close>, assign, or \<^verbatim>\<open>InvalidPid\<close>.\<close>

definition pt_update ::
  "(process_entry \<Rightarrow> process_entry) \<Rightarrow> pid \<Rightarrow> process_table \<Rightarrow> process_table avix_result" where
  "pt_update f p t =
     (case hm_get t (pid_u64 p) of
        Some e \<Rightarrow> Inr (hm_insert (pid_u64 p) (f e) t)
      | None \<Rightarrow> Inl (InvalidPid (pid_display p)))"

definition pt_set_status :: "pid \<Rightarrow> process_status \<Rightarrow> process_table \<Rightarrow> process_table avix_result" where
  "pt_set_status p st = pt_update (\<lambda>e. e\<lparr>pe_status := st\<rparr>) p"

definition pt_list_all :: "process_table \<Rightarrow> process_entry list" where
  "pt_list_all t = hm_values t"

definition list_by_kind :: "process_table \<Rightarrow> process_kind \<Rightarrow> process_entry list" where
  "list_by_kind t k = filter (\<lambda>e. pe_kind e = k) (hm_values t)"

definition list_by_status :: "process_table \<Rightarrow> process_status \<Rightarrow> process_entry list" where
  "list_by_status t st = filter (\<lambda>e. pe_status e = st) (hm_values t)"

definition list_children :: "process_table \<Rightarrow> pid \<Rightarrow> process_entry list" where
  "list_children t parent = filter (\<lambda>e. pe_parent e = Some parent) (hm_values t)"

definition find_by_name :: "process_table \<Rightarrow> string \<Rightarrow> process_entry option" where
  "find_by_name t name = find (\<lambda>e. pe_name e = name) (hm_values t)"

definition pt_count :: "process_table \<Rightarrow> nat" where
  "pt_count t = length t"

definition set_token ::
  "pid \<Rightarrow> string list \<Rightarrow> datetime option \<Rightarrow> process_table \<Rightarrow> process_table avix_result" where
  "set_token p tools expires =
     pt_update (\<lambda>e. e\<lparr>pe_granted_tools := tools, pe_token_expires_at := expires\<rparr>) p"

definition increment_chain_depth :: "pid \<Rightarrow> process_table \<Rightarrow> process_table avix_result" where
  "increment_chain_depth =
     pt_update (\<lambda>e. e\<lparr>pe_tool_chain_depth := sat_add (pe_tool_chain_depth e) 1\<rparr>)"

definition reset_chain_depth :: "pid \<Rightarrow> process_table \<Rightarrow> process_table avix_result" where
  "reset_chain_depth = pt_update (\<lambda>e. e\<lparr>pe_tool_chain_depth := 0\<rparr>)"

definition record_tokens :: "datetime \<Rightarrow> pid \<Rightarrow> u64 \<Rightarrow> process_table \<Rightarrow> process_table avix_result" where
  "record_tokens now p tokens =
     pt_update (\<lambda>e. e\<lparr>pe_tokens_consumed := sat_add (pe_tokens_consumed e) tokens,
                      pe_last_activity_at := now\<rparr>) p"

definition pt_set_state ::
  "pid \<Rightarrow> process_status \<Rightarrow> waiting_on option \<Rightarrow> process_table \<Rightarrow> process_table avix_result" where
  "pt_set_state p st w = pt_update (\<lambda>e. e\<lparr>pe_status := st, pe_waiting_on := w\<rparr>) p"

definition increment_tool_calls_total :: "datetime \<Rightarrow> pid \<Rightarrow> process_table \<Rightarrow> process_table avix_result" where
  "increment_tool_calls_total now =
     pt_update (\<lambda>e. e\<lparr>pe_tool_calls_total := sat_add (pe_tool_calls_total e) 1,
                      pe_last_activity_at := now\<rparr>)"

definition update_context :: "pid \<Rightarrow> u64 \<Rightarrow> process_table \<Rightarrow> process_table avix_result" where
  "update_context p used = pt_update (\<lambda>e. e\<lparr>pe_context_used := used\<rparr>) p"

definition record_signal :: "pid \<Rightarrow> string \<Rightarrow> process_table \<Rightarrow> process_table avix_result" where
  "record_signal p name =
     pt_update (\<lambda>e. e\<lparr>pe_last_signal_received := Some name,
                      pe_pending_signal_count := sat_add (pe_pending_signal_count e) 1\<rparr>) p"

definition resolve_pending_signal :: "pid \<Rightarrow> process_table \<Rightarrow> process_table avix_result" where
  "resolve_pending_signal =
     pt_update (\<lambda>e. e\<lparr>pe_pending_signal_count := sat_sub (pe_pending_signal_count e) 1\<rparr>)"

definition touch_activity :: "datetime \<Rightarrow> pid \<Rightarrow> process_table \<Rightarrow> process_table avix_result" where
  "touch_activity now = pt_update (\<lambda>e. e\<lparr>pe_last_activity_at := now\<rparr>)"

section \<open>The status file\<close>

record agent_status_pipe =
  asp_id :: string
  asp_target_pid :: u64
  asp_direction :: string
  asp_state :: string

record agent_status_metadata =
  asm_name :: string
  asm_pid :: u64
  asm_spawned_at :: datetime
  asm_spawned_by :: string

record agent_status_spec =
  ass_state :: process_status
  ass_goal :: string
  ass_context_used :: u64
  ass_context_limit :: u64
  ass_tool_calls_this_turn :: u32
  ass_last_activity_at :: datetime
  ass_waiting_on :: "waiting_on option"
  ass_tools_granted :: "string list"
  ass_tools_denied :: "string list"
  ass_pipes :: "agent_status_pipe list"
  ass_signals_last_received :: "string option"
  ass_signals_pending_count :: u32
  ass_tokens_consumed :: u64
  ass_tool_calls_total :: u32
  ass_wall_time_sec :: int

record agent_status_file =
  asf_api_version :: string
  asf_kind :: string
  asf_metadata :: agent_status_metadata
  asf_status :: agent_status_spec

text \<open>\<^verbatim>\<open>Duration::num_seconds\<close> truncates towards zero; \<^verbatim>\<open>.max(0)\<close> follows.\<close>

definition wall_time_sec :: "datetime \<Rightarrow> datetime \<Rightarrow> int" where
  "wall_time_sec now spawned = max 0 ((now - spawned) div nanos_per_sec)"

definition from_entry :: "datetime \<Rightarrow> process_entry \<Rightarrow> agent_status_pipe list \<Rightarrow> agent_status_file" where
  "from_entry now e pipes =
     \<lparr> asf_api_version = ''avix/v1'', asf_kind = ''AgentStatus'',
       asf_metadata = \<lparr> asm_name = pe_name e, asm_pid = pid_u64 (pe_pid e),
                        asm_spawned_at = pe_spawned_at e, asm_spawned_by = pe_spawned_by_user e \<rparr>,
       asf_status = \<lparr> ass_state = pe_status e, ass_goal = pe_goal e,
         ass_context_used = pe_context_used e, ass_context_limit = pe_context_limit e,
         ass_tool_calls_this_turn = pe_tool_chain_depth e,
         ass_last_activity_at = pe_last_activity_at e, ass_waiting_on = pe_waiting_on e,
         ass_tools_granted = pe_granted_tools e, ass_tools_denied = pe_denied_tools e,
         ass_pipes = pipes, ass_signals_last_received = pe_last_signal_received e,
         ass_signals_pending_count = pe_pending_signal_count e,
         ass_tokens_consumed = pe_tokens_consumed e, ass_tool_calls_total = pe_tool_calls_total e,
         ass_wall_time_sec = wall_time_sec now (pe_spawned_at e) \<rparr> \<rparr>"

section \<open>Operations as events\<close>

datatype pt_op =
  PtInsert process_entry
| PtRemove pid
| PtSetStatus pid process_status
| PtSetToken pid "string list" "datetime option"
| PtIncDepth pid
| PtResetDepth pid
| PtRecordTokens datetime pid u64
| PtSetState pid process_status "waiting_on option"
| PtIncToolCalls datetime pid
| PtUpdateContext pid u64
| PtRecordSignal pid string
| PtResolveSignal pid
| PtTouch datetime pid

fun pt_call :: "process_table \<Rightarrow> pt_op \<Rightarrow> process_table avix_result" where
  "pt_call t (PtInsert e) = Inr (pt_insert e t)"
| "pt_call t (PtRemove p) = Inr (pt_remove p t)"
| "pt_call t (PtSetStatus p st) = pt_set_status p st t"
| "pt_call t (PtSetToken p ts x) = set_token p ts x t"
| "pt_call t (PtIncDepth p) = increment_chain_depth p t"
| "pt_call t (PtResetDepth p) = reset_chain_depth p t"
| "pt_call t (PtRecordTokens now p n) = record_tokens now p n t"
| "pt_call t (PtSetState p st w) = pt_set_state p st w t"
| "pt_call t (PtIncToolCalls now p) = increment_tool_calls_total now p t"
| "pt_call t (PtUpdateContext p n) = update_context p n t"
| "pt_call t (PtRecordSignal p n) = record_signal p n t"
| "pt_call t (PtResolveSignal p) = resolve_pending_signal p t"
| "pt_call t (PtTouch now p) = touch_activity now p t"

definition pt_step :: "process_table \<Rightarrow> pt_op \<Rightarrow> process_table" where
  "pt_step t op = (case pt_call t op of Inl _ \<Rightarrow> t | Inr t' \<Rightarrow> t')"

lemmas pt_mutators =
  pt_set_status_def set_token_def increment_chain_depth_def reset_chain_depth_def
  record_tokens_def pt_set_state_def increment_tool_calls_total_def update_context_def
  record_signal_def resolve_pending_signal_def touch_activity_def

section \<open>Lemmas\<close>

text \<open>The table's invariant: distinct keys, and every entry filed under its own identifier.\<close>

definition pt_wf :: "process_table \<Rightarrow> bool" where
  "pt_wf t \<longleftrightarrow> hm_wf t \<and> list_all (\<lambda>(k, e). pid_u64 (pe_pid e) = k) t"

lemma pt_wf_iff:
  "pt_wf t \<longleftrightarrow> hm_wf t \<and> (\<forall>k e. hm_get t k = Some e \<longrightarrow> pid_u64 (pe_pid e) = k)"
  by (auto simp: pt_wf_def hm_wf_def list_all_iff dest: map_of_SomeD)

lemma pt_wf_new [simp]: "pt_wf pt_new"
  by (simp add: pt_wf_def pt_new_def)

lemma pt_get_insert [simp]: "pt_get (pt_insert e t) p = (if p = pe_pid e then Some e else pt_get t p)"
  by (auto simp: pt_get_def pt_insert_def pid.expand)

lemma pt_get_remove [simp]: "pt_get (pt_remove q t) p = (if p = q then None else pt_get t p)"
  by (auto simp: pt_get_def pt_remove_def pid.expand)

lemma pt_update_eq_Inr:
  "pt_update f p t = Inr t' \<longleftrightarrow> (\<exists>e. pt_get t p = Some e \<and> t' = hm_insert (pid_u64 p) (f e) t)"
  by (auto simp: pt_update_def pt_get_def split: option.splits)

lemma pt_update_eq_Inl: "pt_update f p t = Inl x \<longleftrightarrow> pt_get t p = None \<and> x = InvalidPid (pid_display p)"
  by (auto simp: pt_update_def pt_get_def split: option.splits)

interpretation ptu: keyed_update pt_get pt_update
  by unfold_locales (auto simp: pt_update_def pt_get_def pid.expand)

lemma pt_wf_update:
  assumes "pt_wf t" and "pt_update f p t = Inr t'" and "\<And>e. pe_pid (f e) = pe_pid e"
  shows "pt_wf t'"
  using assms by (auto simp: pt_update_eq_Inr pt_wf_iff pt_get_def split: if_splits)

lemma pt_wf_insert: "pt_wf t \<Longrightarrow> pt_wf (pt_insert e t)"
  by (auto simp: pt_wf_iff pt_insert_def)

lemma pt_wf_remove: "pt_wf t \<Longrightarrow> pt_wf (pt_remove p t)"
  by (auto simp: pt_wf_iff pt_remove_def split: if_splits)

lemma pt_wf_call: "pt_wf t \<Longrightarrow> pt_call t op = Inr t' \<Longrightarrow> pt_wf t'"
  by (cases op)
     (auto simp: pt_mutators intro: pt_wf_insert pt_wf_remove elim: pt_wf_update)

lemma pt_wf_step: "pt_wf t \<Longrightarrow> pt_wf (pt_step t op)"
  by (auto simp: pt_step_def split: sum.splits intro: pt_wf_call)

interpretation ptm: event_machine pt_step pt_wf
  by unfold_locales (rule pt_wf_step)

lemma pt_member_iff: "pt_wf t \<Longrightarrow> e \<in> set (hm_values t) \<longleftrightarrow> pt_get t (pe_pid e) = Some e"
  using hm_values_iff [of t e] by (auto simp: pt_wf_iff pt_get_def)

text \<open>What an entry keeps for life, and the counters that only grow.\<close>

definition pe_identity ::
  "process_entry \<Rightarrow> pid \<times> string \<times> process_kind \<times> pid option \<times> string \<times> string \<times> datetime" where
  "pe_identity e = (pe_pid e, pe_name e, pe_kind e, pe_parent e, pe_spawned_by_user e, pe_goal e, pe_spawned_at e)"

definition pe_grows :: "process_entry \<Rightarrow> process_entry \<Rightarrow> bool" where
  "pe_grows e e' \<longleftrightarrow> pe_identity e' = pe_identity e \<and> pe_tokens_consumed e \<le> pe_tokens_consumed e' \<and>
     pe_tool_calls_total e \<le> pe_tool_calls_total e'"

fun pt_replaces :: "pid \<Rightarrow> pt_op \<Rightarrow> bool" where
  "pt_replaces p (PtInsert e) \<longleftrightarrow> pe_pid e = p"
| "pt_replaces p (PtRemove q) \<longleftrightarrow> q = p"
| "pt_replaces p _ \<longleftrightarrow> False"

definition pt_keeps :: "pid \<Rightarrow> process_table \<Rightarrow> process_table \<Rightarrow> bool" where
  "pt_keeps p t t' \<longleftrightarrow> (\<forall>e. pt_get t p = Some e \<longrightarrow> (\<exists>e'. pt_get t' p = Some e' \<and> pe_grows e e'))"

lemma pe_grows_refl [simp]: "pe_grows e e"
  by (simp add: pe_grows_def)

lemma pe_grows_trans: "pe_grows e e' \<Longrightarrow> pe_grows e' e'' \<Longrightarrow> pe_grows e e''"
  by (auto simp: pe_grows_def)

lemma pt_keeps_refl: "reflp (pt_keeps p)"
  by (auto intro!: reflpI simp: pt_keeps_def)

lemma pt_keeps_trans: "transp (pt_keeps p)"
  by (rule transpI) (unfold pt_keeps_def, blast intro: pe_grows_trans)

lemma pt_keeps_update:
  assumes "\<And>e. pe_grows e (f e)"
  shows "pt_keeps p t (case pt_update f q t of Inl _ \<Rightarrow> t | Inr t' \<Rightarrow> t')"
proof (cases "pt_update f q t")
  case (Inr t')
  then show ?thesis
    using assms by (auto simp: pt_keeps_def ptu.upd_get)
qed (simp add: pt_keeps_def)

lemma pt_keeps_step: "\<not> pt_replaces p op \<Longrightarrow> pt_keeps p t (pt_step t op)"
  by (cases op)
     (auto simp: pt_step_def pt_mutators pe_grows_def pe_identity_def sat_add_mono
       intro!: pt_keeps_update, auto simp: pt_keeps_def)

text \<open>
  The life of a process entry.  Whatever sequence of operations runs on the table, an entry
  that is neither replaced nor removed stays, under the same identifier, with the identity it
  was inserted with (name, kind, parent, user, goal, spawn time), and its lifetime counters never
  decrease (they saturate at the end of their range instead of wrapping round).
\<close>

theorem process_entry_lifetime:
  assumes "pt_wf t" and "pt_get t p = Some e" and "list_all (\<lambda>op. \<not> pt_replaces p op) ops"
  shows "\<exists>e'. pt_get (run_events pt_step t ops) p = Some e' \<and> pe_identity e' = pe_identity e \<and>
      pe_tokens_consumed e \<le> pe_tokens_consumed e' \<and> pe_tool_calls_total e \<le> pe_tool_calls_total e'"
proof -
  have "pt_keeps p t (run_events pt_step t ops)"
    by (rule ptm.rel_run [where P = "\<lambda>op. \<not> pt_replaces p op"])
       (use assms in \<open>auto intro: pt_keeps_step pt_keeps_refl pt_keeps_trans\<close>)
  with assms(2) show ?thesis by (auto simp: pt_keeps_def pe_grows_def)
qed

definition demo_entry :: "u64 \<Rightarrow> process_entry" where
  "demo_entry n = (process_entry_default 0)\<lparr>pe_pid := Pid n, pe_name := ''agent'', pe_tokens_consumed := 40\<rparr>"

theorem process_entry_lifetime_witness:
  "\<exists>e'. pt_get (run_events pt_step (pt_insert (demo_entry 9) pt_new)
       [PtRecordTokens 5 (Pid 9) 2, PtRemove (Pid 8), PtSetStatus (Pid 9) PsStopped]) (Pid 9) = Some e' \<and>
     pe_name e' = ''agent'' \<and> 40 \<le> pe_tokens_consumed e'"
  using process_entry_lifetime [of "pt_insert (demo_entry 9) pt_new" "Pid 9" "demo_entry 9"
      "[PtRecordTokens 5 (Pid 9) 2, PtRemove (Pid 8), PtSetStatus (Pid 9) PsStopped]"]
  by (auto simp: pt_wf_insert demo_entry_def pe_identity_def simp del: run_events.simps)

text \<open>
  Queries of the table agree with lookups.  On a well-formed table, which every sequence of
  operations from the empty table gives, the listing of an agent's children holds exactly the
  entries whose parent it is, the other listings exactly the entries of that kind or status, and
  a name search answers with an entry of that name whenever there is one.
\<close>

theorem process_table_queries:
  fixes ops :: "pt_op list"
  defines "t \<equiv> run_events pt_step pt_new ops"
  defines "live \<equiv> {e. pt_get t (pe_pid e) = Some e}"
  shows "set (list_children t p) = {e \<in> live. pe_parent e = Some p} \<and>
    set (list_by_kind t k) = {e \<in> live. pe_kind e = k} \<and>
    set (list_by_status t st) = {e \<in> live. pe_status e = st} \<and>
    (let named = {e \<in> live. pe_name e = n}
     in find_by_name t n \<in> (if named = {} then {None} else Some ` named))"
proof -
  have wf: "pt_wf t" unfolding t_def by (rule ptm.inv_run) simp
  have live: "set (hm_values t) = live"
    using pt_member_iff [OF wf] by (auto simp: live_def)
  have "find_by_name t n \<in> (if {e \<in> live. pe_name e = n} = {} then {None}
      else Some ` {e \<in> live. pe_name e = n})"
  proof (cases "find_by_name t n")
    case None
    then show ?thesis by (auto simp: find_by_name_def find_None_iff simp flip: live)
  next
    case (Some e)
    then have "e \<in> set (hm_values t)" "pe_name e = n"
      unfolding find_by_name_def by (auto simp: find_Some_iff simp del: list.set_map intro: nth_mem)
    then show ?thesis using Some live by auto
  qed
  then show ?thesis
    unfolding Let_def list_children_def list_by_kind_def list_by_status_def set_filter live by blast
qed

end
