(* ===== verification/Tool_Registry.thy ===== *)
theory Tool_Registry
  imports Types_Core
begin

text \<open>
  The tool registry of \<^verbatim>\<open>src/crates/avix-core/src/tool_registry\<close> (\<^verbatim>\<open>entry.rs\<close>,
  \<^verbatim>\<open>permissions.rs\<close>, \<^verbatim>\<open>events.rs\<close>, \<^verbatim>\<open>registry.rs\<close>).  Each tool has a
  semaphore that counts its calls in flight and that callers share through an \<^verbatim>\<open>Arc\<close>: here
  a semaphore is an address, and \<open>tr_inflight\<close> is the store of the permits taken from it.  A
  semaphore starts with the maximal number of permits, so taking one never blocks.

  \<^verbatim>\<open>remove(drain = true)\<close> releases the registry lock between its phases, and so do the
  callers between looking a tool up and taking its permit; the step relation \<open>drain_step\<close>
  interleaves one remover with any number of callers.
\<close>

section \<open>Entries\<close>

record tool_permissions =
  tp_owner :: string
  tp_crew :: string
  tp_all :: string

definition tool_permissions_default :: tool_permissions where
  "tool_permissions_default = \<lparr> tp_owner = ''root'', tp_crew = [], tp_all = ''r--'' \<rparr>"

definition tool_permissions_admin :: tool_permissions where
  "tool_permissions_admin = \<lparr> tp_owner = ''root'', tp_crew = [], tp_all = ''rwx'' \<rparr>"

definition parse_rwx :: "string \<Rightarrow> bool" where
  "parse_rwx s \<longleftrightarrow> s \<in> {''r--'', ''rw-'', ''rwx''}"

record tool_entry =
  te_name :: tool_name
  te_owner :: string
  te_state :: tool_state
  te_visibility :: tool_visibility
  te_descriptor :: json
  te_capabilities_required :: "string list"
  te_permissions :: tool_permissions

definition tool_entry_new :: "tool_name \<Rightarrow> string \<Rightarrow> tool_state \<Rightarrow> tool_visibility \<Rightarrow> json \<Rightarrow> tool_entry" where
  "tool_entry_new name owner state vis desc =
     \<lparr> te_name = name, te_owner = owner, te_state = state, te_visibility = vis, te_descriptor = desc,
       te_capabilities_required = [], te_permissions = tool_permissions_default \<rparr>"

definition with_capabilities :: "string list \<Rightarrow> tool_entry \<Rightarrow> tool_entry" where
  "with_capabilities caps e = e\<lparr>te_capabilities_required := caps\<rparr>"

definition with_permissions :: "tool_permissions \<Rightarrow> tool_entry \<Rightarrow> tool_entry" where
  "with_permissions ps e = e\<lparr>te_permissions := ps\<rparr>"

record tool_changed_event =
  tce_op :: string
  tce_tools :: "string list"

record tool_record =
  trc_entry :: tool_entry
  trc_sem :: nat

record tool_registry =
  tr_inner :: "(string, tool_record) hmap"
  tr_inflight :: "nat \<Rightarrow> nat"
  tr_next_sem :: nat
  tr_events :: "tool_changed_event list"

record tool_summary =
  ts_name :: string
  ts_namespace :: string
  ts_description :: string
  ts_state :: string

record syscall_descriptor =
  sd_name :: string
  sd_domain :: string
  sd_short :: string
  sd_detailed :: string
  sd_description :: string
  sd_input_schema :: json
  sd_output_schema :: json
  sd_capabilities_required :: "string list"
  sd_handler_signature :: string

definition syscall_descriptor_new ::
  "string \<Rightarrow> string \<Rightarrow> string \<Rightarrow> string \<Rightarrow> string list \<Rightarrow> string \<Rightarrow> syscall_descriptor" where
  "syscall_descriptor_new name domain short detailed caps sig =
     \<lparr> sd_name = name, sd_domain = domain, sd_short = short, sd_detailed = detailed,
       sd_description = short, sd_input_schema = JNull, sd_output_schema = JNull,
       sd_capabilities_required = caps, sd_handler_signature = sig \<rparr>"

section \<open>Operations\<close>

definition tr_new :: tool_registry where
  "tr_new = \<lparr> tr_inner = [], tr_inflight = (\<lambda>_. 0), tr_next_sem = 0, tr_events = [] \<rparr>"

definition tr_add_one :: "tool_entry \<Rightarrow> tool_registry \<Rightarrow> tool_registry" where
  "tr_add_one e r =
     r\<lparr>tr_inner := hm_insert (tool_str (te_name e)) \<lparr> trc_entry = e, trc_sem = tr_next_sem r \<rparr> (tr_inner r),
       tr_next_sem := tr_next_sem r + 1\<rparr>"

definition tr_send :: "string \<Rightarrow> string list \<Rightarrow> tool_registry \<Rightarrow> tool_registry" where
  "tr_send op names r = r\<lparr>tr_events := tr_events r @ [\<lparr> tce_op = op, tce_tools = names \<rparr>]\<rparr>"

definition tr_add :: "tool_entry list \<Rightarrow> tool_registry \<Rightarrow> tool_registry" where
  "tr_add entries r = tr_send ''added'' (map (tool_str \<circ> te_name) entries) (fold tr_add_one entries r)"

fun syscall_entries :: "syscall_descriptor list \<Rightarrow> tool_entry list avix_result" where
  "syscall_entries [] = Inr []"
| "syscall_entries (sc # scs) =
     (case tool_name_parse (sd_name sc) of
        Inl e \<Rightarrow> Inl (ConfigParse (error_display e))
      | Inr name \<Rightarrow>
          (case syscall_entries scs of
             Inl e \<Rightarrow> Inl e
           | Inr es \<Rightarrow>
               Inr (with_capabilities (sd_capabilities_required sc)
                 (tool_entry_new name ''kernel'' ToolAvailable VisAll
                   (JObj [(''name'', JStr (sd_name sc)), (''description'', JStr (sd_description sc)),
                          (''short'', JStr (sd_short sc)), (''detailed'', JStr (sd_detailed sc)),
                          (''domain'', JStr (sd_domain sc)),
                          (''handler_signature'', JStr (sd_handler_signature sc)),
                          (''capabilities_required'', JArr (map JStr (sd_capabilities_required sc)))])) # es)))"

definition add_kernel_syscalls :: "syscall_descriptor list \<Rightarrow> tool_registry \<Rightarrow> tool_registry avix_result" where
  "add_kernel_syscalls scs r = map_sum id (\<lambda>es. tr_add es r) (syscall_entries scs)"

definition tr_lookup :: "tool_registry \<Rightarrow> string \<Rightarrow> tool_entry avix_result" where
  "tr_lookup r name =
     ok_or (ConfigParse (''tool not found: '' @ name)) (map_option trc_entry (hm_get (tr_inner r) name))"

definition lookup_for_user :: "tool_registry \<Rightarrow> string \<Rightarrow> string \<Rightarrow> tool_entry avix_result" where
  "lookup_for_user r name user =
     (case tr_lookup r name of
        Inl e \<Rightarrow> Inl e
      | Inr entry \<Rightarrow>
          (case te_visibility entry of
             VisAll \<Rightarrow> Inr entry
           | VisUser u \<Rightarrow> if u = user then Inr entry
                          else Inl (CapabilityDenied (name @ '' not visible to '' @ user))
           | VisCrew _ \<Rightarrow> Inl (CapabilityDenied (name @ '' not visible to '' @ user))))"

definition tr_set_entry_state :: "tool_state \<Rightarrow> tool_record \<Rightarrow> tool_record" where
  "tr_set_entry_state st rec = rec\<lparr>trc_entry := (trc_entry rec)\<lparr>te_state := st\<rparr>\<rparr>"

text \<open>\<^verbatim>\<open>remove\<close>, phase 1 (mark), the semaphore phase 2 reads, and phase 3 (delete).\<close>

definition tr_mark_unavailable :: "string list \<Rightarrow> tool_registry \<Rightarrow> tool_registry" where
  "tr_mark_unavailable names r =
     r\<lparr>tr_inner := fold (\<lambda>n. hm_modify n (tr_set_entry_state ToolUnavailable)) names (tr_inner r)\<rparr>"

definition tr_sem_of :: "tool_registry \<Rightarrow> string \<Rightarrow> nat option" where
  "tr_sem_of r name = map_option trc_sem (hm_get (tr_inner r) name)"

fun tr_remove_loop ::
  "string list \<Rightarrow> (string, tool_record) hmap \<Rightarrow> string list \<times> (string, tool_record) hmap" where
  "tr_remove_loop [] m = ([], m)"
| "tr_remove_loop (n # ns) m =
     (case tr_remove_loop ns (hm_remove n m) of
        (removed, m') \<Rightarrow> (if hm_get m n \<noteq> None then n # removed else removed, m'))"

definition tr_remove_entries :: "string list \<Rightarrow> string \<Rightarrow> tool_registry \<Rightarrow> tool_registry" where
  "tr_remove_entries names reason r =
     (case tr_remove_loop names (tr_inner r) of
        (removed, m) \<Rightarrow>
          (let r' = r\<lparr>tr_inner := m\<rparr>
           in if removed \<noteq> [] then tr_send (''removed: '' @ reason) removed r' else r'))"

text \<open>\<^verbatim>\<open>remove\<close> run with no other task in between; \<open>None\<close> when the drain loop waits
  for a permit that nobody returns.\<close>

definition tr_drained :: "tool_registry \<Rightarrow> string \<Rightarrow> bool" where
  "tr_drained r name = (case tr_sem_of r name of None \<Rightarrow> True | Some s \<Rightarrow> tr_inflight r s = 0)"

definition tr_remove :: "string list \<Rightarrow> string \<Rightarrow> bool \<Rightarrow> tool_registry \<Rightarrow> tool_registry option" where
  "tr_remove names reason drain r =
     (if drain then
        (let r1 = tr_mark_unavailable names r
         in if list_all (tr_drained r1) names then Some (tr_remove_entries names reason r1) else None)
      else Some (tr_remove_entries names reason r))"

definition tr_take_permit :: "nat \<Rightarrow> tool_registry \<Rightarrow> tool_registry" where
  "tr_take_permit s r = r\<lparr>tr_inflight := (tr_inflight r)(s := tr_inflight r s + 1)\<rparr>"

definition tr_drop_permit :: "nat \<Rightarrow> tool_registry \<Rightarrow> tool_registry" where
  "tr_drop_permit s r = r\<lparr>tr_inflight := (tr_inflight r)(s := tr_inflight r s - 1)\<rparr>"

definition tr_acquire :: "string \<Rightarrow> tool_registry \<Rightarrow> (nat \<times> tool_registry) avix_result" where
  "tr_acquire name r =
     (case tr_sem_of r name of
        None \<Rightarrow> Inl (ConfigParse (''tool not found: '' @ name))
      | Some s \<Rightarrow> Inr (s, tr_take_permit s r))"

definition tr_set_state :: "string \<Rightarrow> tool_state \<Rightarrow> tool_registry \<Rightarrow> tool_registry avix_result" where
  "tr_set_state name st r =
     (case hm_get (tr_inner r) name of
        None \<Rightarrow> Inl (ConfigParse (''tool not found: '' @ name))
      | Some rec \<Rightarrow> Inr (r\<lparr>tr_inner := hm_insert name (tr_set_entry_state st rec) (tr_inner r)\<rparr>))"

definition tr_tool_count :: "tool_registry \<Rightarrow> nat" where
  "tr_tool_count r = length (tr_inner r)"

definition get_all_entries :: "tool_registry \<Rightarrow> tool_entry list" where
  "get_all_entries r = map trc_entry (hm_values (tr_inner r))"

fun tool_state_str :: "tool_state \<Rightarrow> string" where
  "tool_state_str ToolAvailable = ''available''"
| "tool_state_str ToolUnavailable = ''unavailable''"
| "tool_state_str ToolDegraded = ''degraded''"

definition tool_summary_of :: "tool_entry \<Rightarrow> tool_summary" where
  "tool_summary_of e =
     (let name = tool_str (te_name e)
      in \<lparr> ts_name = name, ts_namespace = first_segment (CHR ''/'') name,
           ts_description = unwrap_or [] (Option.bind (json_get (te_descriptor e) ''description'') as_str),
           ts_state = tool_state_str (te_state e) \<rparr>)"

definition tr_list_all :: "tool_registry \<Rightarrow> tool_summary list" where
  "tr_list_all r = map tool_summary_of (get_all_entries r)"

section \<open>Draining under interleaving\<close>

datatype caller_pc = CStart | CChecked | CLooked nat | CHolding nat | CDone

datatype remover_pc = RStart | RMarked | RWaiting nat | RDrained | RDone

record drain_state =
  ds_reg :: tool_registry
  ds_callers :: "caller_pc list"
  ds_remover :: remover_pc

text \<open>
  The steps of one \<^verbatim>\<open>remove(name, drain)\<close> and of callers running the dispatcher's look-up,
  \<^verbatim>\<open>acquire\<close> and guard drop on \<open>name\<close>.  With \<open>strict\<close> the mark happens only when no caller
  stands between its look-up and its permit; the code does not enforce that.
\<close>

definition straddling :: "caller_pc \<Rightarrow> bool" where
  "straddling c \<longleftrightarrow> (case c of CChecked \<Rightarrow> True | CLooked _ \<Rightarrow> True | _ \<Rightarrow> False)"

inductive drain_step :: "bool \<Rightarrow> string \<Rightarrow> drain_state \<Rightarrow> drain_state \<Rightarrow> bool" for strict name where
  ds_check: "\<lbrakk> i < length (ds_callers s); ds_callers s ! i = CStart;
     tr_lookup (ds_reg s) name = Inr e; te_state e \<noteq> ToolUnavailable \<rbrakk> \<Longrightarrow>
     drain_step strict name s (s\<lparr>ds_callers := (ds_callers s)[i := CChecked]\<rparr>)"
| ds_look: "\<lbrakk> i < length (ds_callers s); ds_callers s ! i = CChecked; tr_sem_of (ds_reg s) name = Some q \<rbrakk> \<Longrightarrow>
     drain_step strict name s (s\<lparr>ds_callers := (ds_callers s)[i := CLooked q]\<rparr>)"
| ds_gone: "\<lbrakk> i < length (ds_callers s); ds_callers s ! i = CChecked; tr_sem_of (ds_reg s) name = None \<rbrakk> \<Longrightarrow>
     drain_step strict name s (s\<lparr>ds_callers := (ds_callers s)[i := CDone]\<rparr>)"
| ds_take: "\<lbrakk> i < length (ds_callers s); ds_callers s ! i = CLooked q \<rbrakk> \<Longrightarrow>
     drain_step strict name s
       (s\<lparr>ds_callers := (ds_callers s)[i := CHolding q], ds_reg := tr_take_permit q (ds_reg s)\<rparr>)"
| ds_drop: "\<lbrakk> i < length (ds_callers s); ds_callers s ! i = CHolding q \<rbrakk> \<Longrightarrow>
     drain_step strict name s
       (s\<lparr>ds_callers := (ds_callers s)[i := CDone], ds_reg := tr_drop_permit q (ds_reg s)\<rparr>)"
| ds_mark: "\<lbrakk> ds_remover s = RStart; strict \<longrightarrow> (\<forall>c\<in>set (ds_callers s). \<not> straddling c) \<rbrakk> \<Longrightarrow>
     drain_step strict name s (s\<lparr>ds_reg := tr_mark_unavailable [name] (ds_reg s), ds_remover := RMarked\<rparr>)"
| ds_read: "\<lbrakk> ds_remover s = RMarked \<rbrakk> \<Longrightarrow>
     drain_step strict name s
       (s\<lparr>ds_remover := (case tr_sem_of (ds_reg s) name of None \<Rightarrow> RDrained | Some q \<Rightarrow> RWaiting q)\<rparr>)"
| ds_poll: "\<lbrakk> ds_remover s = RWaiting q; tr_inflight (ds_reg s) q = 0 \<rbrakk> \<Longrightarrow>
     drain_step strict name s (s\<lparr>ds_remover := RDrained\<rparr>)"
| ds_delete: "\<lbrakk> ds_remover s = RDrained \<rbrakk> \<Longrightarrow>
     drain_step strict name s (s\<lparr>ds_reg := tr_remove_entries [name] reason (ds_reg s), ds_remover := RDone\<rparr>)"

definition drain_init :: "string \<Rightarrow> nat \<Rightarrow> drain_state \<Rightarrow> bool" where
  "drain_init name q s \<longleftrightarrow> ds_remover s = RStart \<and> (\<forall>c\<in>set (ds_callers s). c = CStart) \<and>
     (\<forall>x. tr_inflight (ds_reg s) x = 0) \<and> tr_sem_of (ds_reg s) name = Some q"

section \<open>Lemmas\<close>

text \<open>The registry as a map from names to entries, and its invariant.\<close>

definition tr_abs :: "tool_registry \<Rightarrow> string \<Rightarrow> tool_entry option" where
  "tr_abs r n = map_option trc_entry (hm_get (tr_inner r) n)"

definition tr_wf :: "tool_registry \<Rightarrow> bool" where
  "tr_wf r \<longleftrightarrow> hm_wf (tr_inner r) \<and>
     (\<forall>n rec. hm_get (tr_inner r) n = Some rec \<longrightarrow>
        tool_str (te_name (trc_entry rec)) = n \<and> trc_sem rec < tr_next_sem r)"

lemma tr_lookup_abs: "tr_lookup r n = ok_or (ConfigParse (''tool not found: '' @ n)) (tr_abs r n)"
  by (simp add: tr_lookup_def tr_abs_def)

lemma tr_send_simps [simp]:
  "tr_inner (tr_send op ns r) = tr_inner r" "tr_inflight (tr_send op ns r) = tr_inflight r"
  "tr_next_sem (tr_send op ns r) = tr_next_sem r"
  "tr_events (tr_send op ns r) = tr_events r @ [\<lparr> tce_op = op, tce_tools = ns \<rparr>]"
  by (simp_all add: tr_send_def)

lemma tr_abs_add_one: "tr_abs (tr_add_one e r) = (tr_abs r)(tool_str (te_name e) \<mapsto> e)"
  by (auto simp: tr_abs_def tr_add_one_def fun_eq_iff)

lemma tr_abs_fold_add:
  "tr_abs (fold tr_add_one es r) = tr_abs r ++ map_of (rev (map (\<lambda>e. (tool_str (te_name e), e)) es))"
proof (induction es arbitrary: r)
  case (Cons e es)
  then show ?case by (auto simp: tr_abs_add_one fun_eq_iff map_add_def split: option.splits)
qed simp

lemma tr_abs_add:
  "tr_abs (tr_add es r) = tr_abs r ++ map_of (rev (map (\<lambda>e. (tool_str (te_name e), e)) es))"
  using tr_abs_fold_add [of es r] by (simp add: tr_add_def tr_abs_def fun_eq_iff)

lemma tr_remove_loop_get:
  "tr_remove_loop ns m = (removed, m') \<Longrightarrow>
     hm_get m' n = (if n \<in> set ns then None else hm_get m n) \<and>
     set removed = set ns \<inter> set (hm_keys m) \<and> distinct removed \<and> (hm_wf m \<longrightarrow> hm_wf m')"
proof (induction ns m arbitrary: removed m' rule: tr_remove_loop.induct)
  case (2 k ns m)
  obtain rem where loop: "tr_remove_loop ns (hm_remove k m) = (rem, m')"
    and removed: "removed = (if hm_get m k \<noteq> None then k # rem else rem)"
    using "2.prems" by (auto split: prod.splits)
  have keys: "set (hm_keys (hm_remove k m)) = set (hm_keys m) - {k}" by (rule hm_keys_remove)
  have k: "k \<in> set (hm_keys m) \<longleftrightarrow> hm_get m k \<noteq> None" by (simp only: hm_get_in_keys)
  have IH: "hm_get m' n = (if n \<in> set ns then None else hm_get (hm_remove k m) n)"
    "set rem = set ns \<inter> (set (hm_keys m) - {k})" "distinct rem" "hm_wf m \<longrightarrow> hm_wf m'"
    using "2.IH" [OF loop] unfolding keys by auto
  have "set removed = set (k # ns) \<inter> set (hm_keys m)"
    unfolding removed using IH(2) k by auto
  moreover have "distinct removed" unfolding removed using IH(2,3) by auto
  ultimately show ?case using IH(1,4) by auto
qed auto

lemma tr_abs_remove_entries:
  "tr_abs (tr_remove_entries ns reason r) n = (if n \<in> set ns then None else tr_abs r n)"
proof (cases "tr_remove_loop ns (tr_inner r)")
  case (Pair removed m)
  then show ?thesis using tr_remove_loop_get [OF Pair, of n]
    by (simp add: tr_remove_entries_def tr_abs_def Let_def)
qed

lemma tr_remove_entries_inflight [simp]:
  "tr_inflight (tr_remove_entries ns reason r) = tr_inflight r"
  by (simp add: tr_remove_entries_def Let_def split: prod.splits)

lemma fold_modify_get:
  "(\<And>v. f (f v) = f v) \<Longrightarrow>
   hm_get (fold (\<lambda>k. hm_modify k f) ns m) n = (if n \<in> set ns then map_option f (hm_get m n) else hm_get m n)"
  by (induction ns arbitrary: m) (auto simp: option.map_comp comp_def)

lemma tr_mark_get:
  "hm_get (tr_inner (tr_mark_unavailable ns r)) n =
     (if n \<in> set ns then map_option (tr_set_entry_state ToolUnavailable) (hm_get (tr_inner r) n)
      else hm_get (tr_inner r) n)"
  by (simp add: tr_mark_unavailable_def fold_modify_get tr_set_entry_state_def)

lemma tr_mark_simps [simp]:
  "tr_inflight (tr_mark_unavailable ns r) = tr_inflight r"
  "tr_sem_of (tr_mark_unavailable ns r) n = tr_sem_of r n"
  by (simp_all add: tr_mark_unavailable_def tr_sem_of_def fold_modify_get tr_set_entry_state_def option.map_comp comp_def)

lemma tr_wf_new: "tr_wf tr_new"
  by (simp add: tr_wf_def tr_new_def)

lemma tr_wf_add_one: "tr_wf r \<Longrightarrow> tr_wf (tr_add_one e r)"
  unfolding tr_wf_def tr_add_one_def by (auto split: if_splits intro: less_SucI)

lemma tr_wf_add: "tr_wf r \<Longrightarrow> tr_wf (tr_add es r)"
proof -
  have "tr_wf r \<Longrightarrow> tr_wf (fold tr_add_one es r)" by (induction es arbitrary: r) (auto intro: tr_wf_add_one)
  then show "tr_wf r \<Longrightarrow> tr_wf (tr_add es r)" by (simp add: tr_add_def tr_wf_def)
qed

lemma tr_wf_set_state: "tr_wf r \<Longrightarrow> tr_set_state n st r = Inr r' \<Longrightarrow> tr_wf r'"
  by (auto simp: tr_set_state_def tr_wf_def tr_set_entry_state_def split: option.splits if_splits)

lemma tr_wf_remove_entries: "tr_wf r \<Longrightarrow> tr_wf (tr_remove_entries ns reason r)"
proof (cases "tr_remove_loop ns (tr_inner r)")
  case (Pair removed m)
  note get = tr_remove_loop_get [OF Pair]
  assume "tr_wf r"
  then show ?thesis using Pair get
    by (auto simp: tr_remove_entries_def tr_wf_def Let_def split: if_splits)
qed

text \<open>
  C14. Adding and removing tools.  As a map from names to entries, the registry after an \<^verbatim>\<open>add\<close>
  is the old one overridden by the added entries (the last one of a name wins), and after a
  \<^verbatim>\<open>remove\<close> the old one without the given names; the removal event, sent only when something was
  removed, lists each name that was registered exactly once and no other, and the registry's
  invariant survives both.
\<close>

theorem tool_registry_refines_map:
  assumes "tr_wf r"
  shows "tr_abs (tr_add es r) = tr_abs r ++ map_of (rev (map (\<lambda>e. (tool_str (te_name e), e)) es)) \<and>
    tr_abs (tr_remove_entries ns reason r) = (\<lambda>n. if n \<in> set ns then None else tr_abs r n) \<and>
    (let gone = {n \<in> set ns. tr_abs r n \<noteq> None};
         sent = drop (length (tr_events r)) (tr_events (tr_remove_entries ns reason r))
     in if gone = {} then sent = []
        else \<exists>l. sent = [\<lparr> tce_op = ''removed: '' @ reason, tce_tools = l \<rparr>] \<and> set l = gone \<and> distinct l) \<and>
    tr_wf (tr_add es r) \<and> tr_wf (tr_remove_entries ns reason r)"
proof -
  obtain removed m where loop: "tr_remove_loop ns (tr_inner r) = (removed, m)" by fastforce
  have keys: "n \<in> set (hm_keys (tr_inner r)) \<longleftrightarrow> tr_abs r n \<noteq> None" for n
    unfolding hm_get_in_keys [symmetric] by (simp add: tr_abs_def)
  have "set removed = set ns \<inter> set (hm_keys (tr_inner r))" and dist: "distinct removed"
    using tr_remove_loop_get [OF loop] by simp_all
  then have gone: "set removed = {n \<in> set ns. tr_abs r n \<noteq> None}"
    using keys by blast
  let ?sent = "drop (length (tr_events r)) (tr_events (tr_remove_entries ns reason r))"
  have "?sent = (if removed = [] then [] else [\<lparr> tce_op = ''removed: '' @ reason, tce_tools = removed \<rparr>])"
    by (simp add: tr_remove_entries_def loop Let_def)
  then have sent: "let gone = {n \<in> set ns. tr_abs r n \<noteq> None}; sent = ?sent
     in if gone = {} then sent = []
        else \<exists>l. sent = [\<lparr> tce_op = ''removed: '' @ reason, tce_tools = l \<rparr>] \<and> set l = gone \<and> distinct l"
    using dist unfolding gone [symmetric] Let_def by (cases "removed = []") auto
  show ?thesis
    using sent tr_wf_add [OF assms] tr_wf_remove_entries [OF assms]
    by (intro conjI ext) (simp_all only: tr_abs_add tr_abs_remove_entries)
qed

definition demo_tool :: "string \<Rightarrow> tool_entry" where
  "demo_tool n = tool_entry_new (ToolName n) ''svc'' ToolAvailable VisAll JNull"

theorem tool_registry_refines_map_witness:
  "tr_abs (tr_add [demo_tool ''fs/read''] tr_new) ''fs/read'' = Some (demo_tool ''fs/read'')"
  using tool_registry_refines_map [OF tr_wf_new, of "[demo_tool ''fs/read'']" "[]" "[]"]
  by (simp add: demo_tool_def tool_entry_new_def)

section \<open>The drain invariant\<close>

definition holders :: "nat \<Rightarrow> caller_pc list \<Rightarrow> nat" where
  "holders q cs = length (filter (\<lambda>c. c = CHolding q) cs)"

lemma holders_update:
  assumes "i < length cs" and "cs ! i = c"
  shows "holders q (cs[i := d]) + (if c = CHolding q then 1 else 0) =
         holders q cs + (if d = CHolding q then 1 else 0)"
proof -
  obtain xs ys where "cs = xs @ c # ys" and "length xs = i"
    using assms id_take_nth_drop [of i cs] by (metis length_take min.absorb4)
  then show ?thesis by (auto simp: holders_def list_update_append)
qed

lemma holders_pos: "c \<in> set cs \<Longrightarrow> c = CHolding q \<Longrightarrow> 0 < holders q cs"
  by (auto simp: holders_def filter_empty_conv)

definition drain_inv :: "bool \<Rightarrow> string \<Rightarrow> nat \<Rightarrow> drain_state \<Rightarrow> bool" where
  "drain_inv strict name q s \<longleftrightarrow>
     (\<forall>x. tr_inflight (ds_reg s) x = holders x (ds_callers s)) \<and>
     tr_sem_of (ds_reg s) name = (if ds_remover s = RDone then None else Some q) \<and>
     (\<forall>c\<in>set (ds_callers s). \<forall>x. c = CLooked x \<or> c = CHolding x \<longrightarrow> x = q) \<and>
     (\<forall>x. ds_remover s = RWaiting x \<longrightarrow> x = q) \<and>
     (ds_remover s \<noteq> RStart \<longrightarrow>
        (\<forall>e. tr_lookup (ds_reg s) name = Inr e \<longrightarrow> te_state e = ToolUnavailable)) \<and>
     (strict \<and> ds_remover s \<noteq> RStart \<longrightarrow> (\<forall>c\<in>set (ds_callers s). \<not> straddling c)) \<and>
     (strict \<and> ds_remover s \<in> {RDrained, RDone} \<longrightarrow> holders q (ds_callers s) = 0)"

lemma holders_same:
  "i < length cs \<Longrightarrow> cs ! i = c \<Longrightarrow> (\<And>x. c \<noteq> CHolding x) \<Longrightarrow> (\<And>x. d \<noteq> CHolding x) \<Longrightarrow>
   holders q (cs[i := d]) = holders q cs"
  using holders_update [of i cs c q d] by auto

lemma tr_lookup_mark:
  "tr_lookup (tr_mark_unavailable [n] r) n = Inr e \<Longrightarrow> te_state e = ToolUnavailable"
  by (auto simp: tr_lookup_def tr_mark_get tr_set_entry_state_def)

lemma tr_permit_simps [simp]:
  "tr_sem_of (tr_take_permit s r) n = tr_sem_of r n" "tr_lookup (tr_take_permit s r) n = tr_lookup r n"
  "tr_sem_of (tr_drop_permit s r) n = tr_sem_of r n" "tr_lookup (tr_drop_permit s r) n = tr_lookup r n"
  "tr_inflight (tr_take_permit s r) x = tr_inflight r x + (if x = s then 1 else 0)"
  "tr_inflight (tr_drop_permit s r) x = tr_inflight r x - (if x = s then 1 else 0)"
  by (simp_all add: tr_take_permit_def tr_drop_permit_def tr_sem_of_def tr_lookup_def)

lemma tr_remove_entries_gone:
  "tr_sem_of (tr_remove_entries [n] reason r) n = None" "\<not> tr_lookup (tr_remove_entries [n] reason r) n = Inr e"
  using tr_abs_remove_entries [of "[n]" reason r n]
  by (auto simp: tr_sem_of_def tr_abs_def tr_lookup_def)

lemma drain_inv_init: "drain_init name q s \<Longrightarrow> drain_inv strict name q s"
  by (auto simp: drain_init_def drain_inv_def holders_def filter_empty_conv)

lemma drain_inv_caller:
  assumes "drain_inv strict name q s" and "i < length (ds_callers s)" and "ds_callers s ! i = c"
    and "\<And>x. c \<noteq> CHolding x" and "d \<in> {CChecked, CLooked q, CDone}"
    and "strict \<and> ds_remover s \<noteq> RStart \<Longrightarrow> d = CDone"
  shows "drain_inv strict name q (s\<lparr>ds_callers := (ds_callers s)[i := d]\<rparr>)"
proof -
  have same: "holders x ((ds_callers s)[i := d]) = holders x (ds_callers s)" for x
    using assms(2-5) by (intro holders_same) auto
  have "set ((ds_callers s)[i := d]) \<subseteq> insert d (set (ds_callers s))" by (rule set_update_subset_insert)
  with assms(1,5,6) show ?thesis
    unfolding drain_inv_def by (auto simp: same straddling_def)
qed

lemma drain_inv_step:
  assumes "drain_step strict name s t" and "drain_inv strict name q s"
  shows "drain_inv strict name q t"
  using assms
proof (induction rule: drain_step.cases)
  case (ds_check i s e)
  then have "ds_remover s = RStart" unfolding drain_inv_def by auto
  then show ?case using ds_check by (auto intro: drain_inv_caller)
next
  case (ds_look i s x)
  then have "x = q" unfolding drain_inv_def by (auto split: if_splits)
  moreover have "CChecked \<in> set (ds_callers s)" using ds_look by (metis nth_mem)
  then have "\<not> (strict \<and> ds_remover s \<noteq> RStart)"
    using ds_look unfolding drain_inv_def straddling_def by fastforce
  ultimately show ?case using ds_look by (auto intro: drain_inv_caller)
next
  case (ds_gone i s)
  then show ?case by (auto intro: drain_inv_caller)
next
  case (ds_take i s x)
  have mem: "CLooked x \<in> set (ds_callers s)" using ds_take by (metis nth_mem)
  have h: "holders y ((ds_callers s)[i := CHolding x]) = holders y (ds_callers s) + (if y = x then 1 else 0)" for y
    using holders_update [of i "ds_callers s" "CLooked x" y "CHolding x"] ds_take by auto
  have inv: "drain_inv strict name q s" using ds_take by simp
  with mem have xq: "x = q" and ns: "\<not> (strict \<and> ds_remover s \<noteq> RStart)"
    unfolding drain_inv_def straddling_def by fastforce+
  have looked: "\<forall>c\<in>set ((ds_callers s)[i := CHolding x]). \<forall>y. c = CLooked y \<or> c = CHolding y \<longrightarrow> y = q"
    by (rule ball_list_update) (use inv xq in \<open>auto simp: drain_inv_def\<close>)
  have t: "t = s\<lparr>ds_callers := (ds_callers s)[i := CHolding x], ds_reg := tr_take_permit x (ds_reg s)\<rparr>"
    using ds_take by simp
  show ?case unfolding drain_inv_def t using inv looked ns
    by (simp add: h drain_inv_def) blast
next
  case (ds_drop i s x)
  have h: "holders y ((ds_callers s)[i := CDone]) = holders y (ds_callers s) - (if y = x then 1 else 0)" for y
    using holders_update [of i "ds_callers s" "CHolding x" y CDone] ds_drop by auto
  have "set ((ds_callers s)[i := CDone]) \<subseteq> insert CDone (set (ds_callers s))"
    by (rule set_update_subset_insert)
  with ds_drop show ?case
    unfolding drain_inv_def by (auto simp: h straddling_def)
next
  case (ds_mark s)
  then show ?case unfolding drain_inv_def by (auto dest: tr_lookup_mark)
next
  case (ds_read s)
  then show ?case unfolding drain_inv_def by auto
next
  case (ds_poll s x)
  then show ?case unfolding drain_inv_def by auto
next
  case (ds_delete s reason)
  then show ?case unfolding drain_inv_def by (auto simp: tr_remove_entries_gone)
qed

interpretation drain: step_invariant "drain_init name q" "drain_step strict name" "drain_inv strict name q"
  for name q strict
  by unfold_locales (auto intro: drain_inv_init drain_inv_step)

text \<open>
  Draining a tool.  When every caller that saw the tool available has already taken its
  permit at the moment the remover marks the tool unavailable, then in every interleaving, once
  the drain loop has ended no call of the tool is in flight, no permit is out, and no caller is
  on the way to one.
\<close>

theorem drain_quiescent:
  assumes "reach (drain_init name q) (drain_step True name) s" and "ds_remover s \<in> {RDrained, RDone}"
  shows "(\<forall>c\<in>set (ds_callers s). c = CStart \<or> c = CDone) \<and> tr_inflight (ds_reg s) q = 0"
proof -
  have inv: "drain_inv True name q s" using assms(1) by (rule drain.reach_inv)
  have free: "holders q (ds_callers s) = 0" using inv assms(2) unfolding drain_inv_def by auto
  have "c = CStart \<or> c = CDone" if c: "c \<in> set (ds_callers s)" for c
  proof (cases c)
    case (CHolding x)
    with inv c have "c = CHolding q" unfolding drain_inv_def by auto
    with c free holders_pos show ?thesis by fastforce
  qed (use inv c assms(2) in \<open>auto simp: drain_inv_def straddling_def\<close>)
  with inv free show ?thesis unfolding drain_inv_def by auto
qed

definition demo_drain :: "caller_pc list \<Rightarrow> remover_pc \<Rightarrow> (tool_registry \<Rightarrow> tool_registry) \<Rightarrow> drain_state" where
  "demo_drain cs rp f =
     \<lparr> ds_reg = f (tr_add [demo_tool ''t''] tr_new), ds_callers = cs, ds_remover = rp \<rparr>"

lemma demo_drain_eval [simp]:
  "tr_sem_of (tr_add [demo_tool ''t''] tr_new) ''t'' = Some 0"
  "tr_lookup (tr_add [demo_tool ''t''] tr_new) ''t'' = Inr (demo_tool ''t'')"
  "te_state (demo_tool n) = ToolAvailable"
  "tr_inflight (tr_add [demo_tool ''t''] tr_new) x = 0"
  by (simp_all add: tr_sem_of_def tr_lookup_def tr_add_def tr_add_one_def tr_new_def demo_tool_def
      tool_entry_new_def ok_or_def)

lemma demo_drain_init: "reach (drain_init ''t'' 0) (drain_step strict ''t'') (demo_drain [CStart] RStart id)"
  by (rule reach_init) (simp add: drain_init_def demo_drain_def)

lemma demo_drain_idle:
  "reach (drain_init ''t'' 0) (drain_step True ''t'') (demo_drain [CStart] RDrained (tr_mark_unavailable [''t'']))"
proof -
  let ?R = "reach (drain_init ''t'' 0) (drain_step True ''t'')"
  have "?R (demo_drain [CStart] RMarked (tr_mark_unavailable [''t'']))"
    by (rule reach_step [OF demo_drain_init])
       (use ds_mark [of "demo_drain [CStart] RStart id" True "''t''"] in \<open>simp add: demo_drain_def straddling_def\<close>)
  then have "?R (demo_drain [CStart] (RWaiting 0) (tr_mark_unavailable [''t'']))"
    by (rule reach_step)
       (use ds_read [of "demo_drain [CStart] RMarked (tr_mark_unavailable [''t''])" True "''t''"]
        in \<open>simp add: demo_drain_def\<close>)
  then show ?thesis
    by (rule reach_step)
       (use ds_poll [of "demo_drain [CStart] (RWaiting 0) (tr_mark_unavailable [''t''])" 0 True "''t''"]
        in \<open>simp add: demo_drain_def\<close>)
qed

theorem drain_quiescent_witness:
  "tr_inflight (ds_reg (demo_drain [CStart] RDrained (tr_mark_unavailable [''t'']))) 0 = 0"
  using drain_quiescent [OF demo_drain_idle] by (simp add: demo_drain_def)

lemma demo_drain_race:
  "reach (drain_init ''t'' 0) (drain_step False ''t'')
     (demo_drain [CHolding 0] RDrained (tr_take_permit 0 \<circ> tr_mark_unavailable [''t'']))"
proof -
  let ?R = "reach (drain_init ''t'' 0) (drain_step False ''t'')"
  let ?m = "tr_mark_unavailable [''t'']"
  have "?R (demo_drain [CChecked] RStart id)"
    by (rule reach_step [OF demo_drain_init])
       (use ds_check [of 0 "demo_drain [CStart] RStart id" "''t''" "demo_tool ''t''" False]
        in \<open>simp add: demo_drain_def\<close>)
  then have "?R (demo_drain [CLooked 0] RStart id)"
    by (rule reach_step)
       (use ds_look [of 0 "demo_drain [CChecked] RStart id" "''t''" 0 False] in \<open>simp add: demo_drain_def\<close>)
  then have "?R (demo_drain [CLooked 0] RMarked ?m)"
    by (rule reach_step)
       (use ds_mark [of "demo_drain [CLooked 0] RStart id" False "''t''"] in \<open>simp add: demo_drain_def\<close>)
  then have "?R (demo_drain [CLooked 0] (RWaiting 0) ?m)"
    by (rule reach_step)
       (use ds_read [of "demo_drain [CLooked 0] RMarked ?m" False "''t''"] in \<open>simp add: demo_drain_def\<close>)
  then have "?R (demo_drain [CLooked 0] RDrained ?m)"
    by (rule reach_step)
       (use ds_poll [of "demo_drain [CLooked 0] (RWaiting 0) ?m" 0 False "''t''"] in \<open>simp add: demo_drain_def\<close>)
  then show ?thesis
    by (rule reach_step)
       (use ds_take [of 0 "demo_drain [CLooked 0] RDrained ?m" 0 False "''t''"] in \<open>simp add: demo_drain_def\<close>)
qed

text \<open>
  The drain race.  The order the previous property asks for is not enforced: a caller that
  looked the tool up before the mark may take its permit after the drain loop has ended, and then
  the tool is deleted from the registry while a call of it is in flight.
\<close>

theorem drain_race:
  "\<exists>s. reach (drain_init ''t'' 0) (drain_step False ''t'') s \<and> ds_remover s = RDone \<and>
       tr_sem_of (ds_reg s) ''t'' = None \<and> CHolding 0 \<in> set (ds_callers s) \<and> tr_inflight (ds_reg s) 0 = 1"
proof -
  let ?s = "demo_drain [CHolding 0] RDrained (tr_take_permit 0 \<circ> tr_mark_unavailable [''t''])"
  have r: "reach (drain_init ''t'' 0) (drain_step False ''t'')
      (?s\<lparr>ds_reg := tr_remove_entries [''t''] ''x'' (ds_reg ?s), ds_remover := RDone\<rparr>)"
    by (rule reach_step [OF demo_drain_race], rule ds_delete) (simp add: demo_drain_def)
  show ?thesis
  proof (intro exI conjI)
    show "reach (drain_init ''t'' 0) (drain_step False ''t'')
        (?s\<lparr>ds_reg := tr_remove_entries [''t''] ''x'' (ds_reg ?s), ds_remover := RDone\<rparr>)" by (rule r)
  qed (simp_all add: demo_drain_def tr_remove_entries_gone)
qed

end
