(* ===== verification/Ipc.thy ===== *)
theory Ipc
  imports Prelude
begin

text \<open>
  The inter-process message layer of \<^verbatim>\<open>src/crates/avix-core/src/ipc\<close>: the JSON-RPC
  messages (\<^verbatim>\<open>message.rs\<close>) and the length-prefixed frames (\<^verbatim>\<open>frame.rs\<close>).  Reading
  from and writing to a socket is reading a prefix of a byte list and appending to one.  The JSON
  text codec is a pair of parameters, \<open>to_vec\<close> and \<open>from_slice\<close>.
\<close>

unbundle bit_operations_syntax

section \<open>Messages\<close>

record json_rpc_notification =
  jn_jsonrpc :: string
  jn_method :: string
  jn_params :: json

definition notification_new :: "string \<Rightarrow> json \<Rightarrow> json_rpc_notification" where
  "notification_new method params = \<lparr> jn_jsonrpc = ''2.0'', jn_method = method, jn_params = params \<rparr>"

record json_rpc_request =
  jr_jsonrpc :: string
  jr_id :: string
  jr_method :: string
  jr_params :: json

record json_rpc_error =
  je_code :: int
  je_message :: string
  je_data :: "json option"

record json_rpc_response =
  jp_jsonrpc :: string
  jp_id :: string
  jp_result :: "json option"
  jp_error :: "json_rpc_error option"

datatype ipc_message = IpcRequest json_rpc_request | IpcNotification json_rpc_notification

text \<open>The derived deserialisers of a JSON value: required fields of the right type, other
  fields ignored; \<^verbatim>\<open>params\<close> of a notification defaults to \<^verbatim>\<open>null\<close>.\<close>

definition str_field :: "json \<Rightarrow> string \<Rightarrow> string + string" where
  "str_field v k =
     (case json_get v k of
        None \<Rightarrow> Inl (''missing field `'' @ k @ ''`'')
      | Some (JStr s) \<Rightarrow> Inr s
      | Some _ \<Rightarrow> Inl (''invalid type for `'' @ k @ ''`''))"

definition request_from_value :: "json \<Rightarrow> string + json_rpc_request" where
  "request_from_value v =
     (case str_field v ''jsonrpc'' of Inl e \<Rightarrow> Inl e | Inr j \<Rightarrow>
      (case str_field v ''id'' of Inl e \<Rightarrow> Inl e | Inr i \<Rightarrow>
       (case str_field v ''method'' of Inl e \<Rightarrow> Inl e | Inr m \<Rightarrow>
        (case json_get v ''params'' of None \<Rightarrow> Inl ''missing field `params`'' | Some p \<Rightarrow>
           Inr \<lparr> jr_jsonrpc = j, jr_id = i, jr_method = m, jr_params = p \<rparr>))))"

definition notification_from_value :: "json \<Rightarrow> string + json_rpc_notification" where
  "notification_from_value v =
     (case str_field v ''jsonrpc'' of Inl e \<Rightarrow> Inl e | Inr j \<Rightarrow>
      (case str_field v ''method'' of Inl e \<Rightarrow> Inl e | Inr m \<Rightarrow>
         Inr \<lparr> jn_jsonrpc = j, jn_method = m, jn_params = unwrap_or JNull (json_get v ''params'') \<rparr>))"

definition message_from_value :: "json \<Rightarrow> string + ipc_message" where
  "message_from_value v =
     (if json_get v ''id'' \<noteq> None then map_sum id IpcRequest (request_from_value v)
      else map_sum id IpcNotification (notification_from_value v))"

definition response_ok :: "string \<Rightarrow> json \<Rightarrow> json_rpc_response" where
  "response_ok i result = \<lparr> jp_jsonrpc = ''2.0'', jp_id = i, jp_result = Some result, jp_error = None \<rparr>"

definition response_err :: "string \<Rightarrow> int \<Rightarrow> string \<Rightarrow> json option \<Rightarrow> json_rpc_response" where
  "response_err i code message data =
     \<lparr> jp_jsonrpc = ''2.0'', jp_id = i, jp_result = None,
       jp_error = Some \<lparr> je_code = code, je_message = message, je_data = data \<rparr> \<rparr>"

datatype json_rpc_error_code = Eauth | Eperm | Enoent | Ebusy | Etimeout | Eused | Eprovider | Eprovperm

fun error_code_i32 :: "json_rpc_error_code \<Rightarrow> int" where
  "error_code_i32 Eauth = - 32001"
| "error_code_i32 Eperm = - 32002"
| "error_code_i32 Enoent = - 32003"
| "error_code_i32 Ebusy = - 32004"
| "error_code_i32 Etimeout = - 32005"
| "error_code_i32 Eused = - 32009"
| "error_code_i32 Eprovider = - 32010"
| "error_code_i32 Eprovperm = - 32018"

section \<open>Frames\<close>

definition max_frame_bytes :: nat where
  "max_frame_bytes = 16 * 1024 * 1024"

definition to_le_bytes :: "u32 \<Rightarrow> bytes" where
  "to_le_bytes w = [ucast w, ucast (drop_bit 8 w), ucast (drop_bit 16 w), ucast (drop_bit 24 w)]"

fun from_le_bytes :: "bytes \<Rightarrow> u32" where
  "from_le_bytes [a, b, c, d] =
     ucast a OR push_bit 8 (ucast b) OR push_bit 16 (ucast c) OR push_bit 24 (ucast d)"
| "from_le_bytes _ = 0"

definition frame_encode :: "('m \<Rightarrow> string + bytes) \<Rightarrow> 'm \<Rightarrow> bytes avix_result" where
  "frame_encode to_vec msg =
     (case to_vec msg of
        Inl e \<Rightarrow> Inl (ConfigParse e)
      | Inr body \<Rightarrow>
          if max_frame_bytes < length body then Inl (ConfigParse ''message exceeds 16 MB limit'')
          else Inr (to_le_bytes (word_of_nat (length body)) @ body))"

definition frame_decode :: "(bytes \<Rightarrow> string + 'm) \<Rightarrow> bytes \<Rightarrow> 'm avix_result" where
  "frame_decode from_slice bs =
     (if length bs < 4 then Inl (ConfigParse ''frame too short'')
      else map_sum ConfigParse id (from_slice (drop 4 bs)))"

text \<open>\<^verbatim>\<open>read_exact\<close>: \<open>n\<close> bytes and the rest, or the error a closed stream gives.\<close>

definition read_exact :: "nat \<Rightarrow> bytes \<Rightarrow> (bytes \<times> bytes) avix_result" where
  "read_exact n stream =
     (if n \<le> length stream then Inr (take n stream, drop n stream) else Inl (ConfigParse ''early eof''))"

definition frame_read_from :: "(bytes \<Rightarrow> string + 'm) \<Rightarrow> bytes \<Rightarrow> ('m \<times> bytes) avix_result" where
  "frame_read_from from_slice stream =
     (case read_exact 4 stream of
        Inl e \<Rightarrow> Inl e
      | Inr (len_buf, rest) \<Rightarrow>
          (let len = unat (from_le_bytes len_buf)
           in if max_frame_bytes < len then Inl (ConfigParse ''frame too large'')
              else (case read_exact len rest of
                      Inl e \<Rightarrow> Inl e
                    | Inr (body, rest') \<Rightarrow>
                        (case from_slice body of
                           Inl e \<Rightarrow> Inl (ConfigParse e)
                         | Inr m \<Rightarrow> Inr (m, rest')))))"

definition frame_write_to :: "('m \<Rightarrow> string + bytes) \<Rightarrow> bytes \<Rightarrow> 'm \<Rightarrow> bytes avix_result" where
  "frame_write_to to_vec stream msg = map_sum id (\<lambda>bs. stream @ bs) (frame_encode to_vec msg)"

fun frame_read_n :: "(bytes \<Rightarrow> string + 'm) \<Rightarrow> nat \<Rightarrow> bytes \<Rightarrow> ('m list \<times> bytes) avix_result" where
  "frame_read_n from_slice 0 stream = Inr ([], stream)"
| "frame_read_n from_slice (Suc n) stream =
     (case frame_read_from from_slice stream of
        Inl e \<Rightarrow> Inl e
      | Inr (m, rest) \<Rightarrow> map_sum id (\<lambda>(ms, rest'). (m # ms, rest')) (frame_read_n from_slice n rest))"

fun frame_write_all :: "('m \<Rightarrow> string + bytes) \<Rightarrow> bytes \<Rightarrow> 'm list \<Rightarrow> bytes avix_result" where
  "frame_write_all to_vec stream [] = Inr stream"
| "frame_write_all to_vec stream (m # ms) =
     (case frame_write_to to_vec stream m of Inl e \<Rightarrow> Inl e | Inr s \<Rightarrow> frame_write_all to_vec s ms)"

section \<open>Lemmas\<close>

lemma length_to_le_bytes [simp]: "length (to_le_bytes w) = 4"
  by (simp add: to_le_bytes_def)

lemma from_to_le_bytes [simp]: "from_le_bytes (to_le_bytes w) = w"
  unfolding to_le_bytes_def from_le_bytes.simps
  apply (rule bit_eqI)
  subgoal for n
    by (cases "n < 8"; cases "n < 16"; cases "n < 24") (auto simp: bit_simps)
  done

lemma frame_read_from_encode:
  assumes "frame_encode to_vec m = Inr b" and "\<And>body. to_vec m = Inr body \<Longrightarrow> from_slice body = Inr m"
  shows "frame_read_from from_slice (b @ rest) = Inr (m, rest)"
proof -
  obtain body where body: "to_vec m = Inr body" and len: "length body \<le> max_frame_bytes"
    and b: "b = to_le_bytes (word_of_nat (length body)) @ body"
    using assms(1) by (auto simp: frame_encode_def split: sum.splits if_splits)
  have "unat (word_of_nat (length body) :: u32) = length body"
    using len by (simp add: unat_of_nat max_frame_bytes_def)
  then show ?thesis
    using len assms(2) [OF body] by (simp add: frame_read_from_def read_exact_def b Let_def)
qed

definition codec_reads_back :: "('m \<Rightarrow> string + bytes) \<Rightarrow> (bytes \<Rightarrow> string + 'm) \<Rightarrow> 'm \<Rightarrow> bool" where
  "codec_reads_back to_vec from_slice m \<longleftrightarrow> (\<forall>b. to_vec m = Inr b \<longrightarrow> from_slice b = Inr m)"

text \<open>
  C40. Framing round trip.  Whatever messages are written one after the other onto a stream, a
  reader that starts where the writer started gets back exactly those messages, in order, and
  leaves whatever bytes follow untouched; the 16 MB bound is respected by every frame written.
\<close>

theorem frame_stream_roundtrip:
  assumes "frame_write_all to_vec stream ms = Inr out"
    and "list_all (codec_reads_back to_vec from_slice) ms"
  shows "\<exists>bs. out = stream @ bs \<and> length bs \<le> length ms * (4 + max_frame_bytes) \<and>
      (\<forall>tail. frame_read_n from_slice (length ms) (bs @ tail) = Inr (ms, tail))"
  using assms
proof (induction ms arbitrary: stream)
  case (Cons m ms)
  then obtain b where b: "frame_encode to_vec m = Inr b"
    and rest: "frame_write_all to_vec (stream @ b) ms = Inr out"
    by (cases "frame_encode to_vec m") (auto simp: frame_write_to_def)
  with Cons obtain bs where bs: "out = (stream @ b) @ bs" "length bs \<le> length ms * (4 + max_frame_bytes)"
    "\<forall>tail. frame_read_n from_slice (length ms) (bs @ tail) = Inr (ms, tail)" by fastforce
  have "length b \<le> 4 + max_frame_bytes"
    using b by (auto simp: frame_encode_def split: sum.splits if_splits)
  moreover have "frame_read_from from_slice (b @ bs @ tail) = Inr (m, bs @ tail)" for tail
    using Cons.prems(2) by (intro frame_read_from_encode [OF b]) (simp add: codec_reads_back_def)
  ultimately show ?case using bs by (intro exI [of _ "b @ bs"]) simp
qed simp

theorem frame_stream_roundtrip_witness:
  "frame_read_n (\<lambda>b. Inr b) 2 [2, 0, 0, 0, 7, 8, 1, 0, 0, 0, 9, 5] = Inr ([[7, 8], [9]], [5])"
proof -
  have "frame_write_all (\<lambda>b. Inr b) [] [[7, 8], [9]] = Inr [2, 0, 0, 0, 7, 8, 1, 0, 0, 0, 9 :: u8]"
    by (simp add: frame_write_to_def frame_encode_def to_le_bytes_def max_frame_bytes_def)
  from frame_stream_roundtrip [OF this, of "\<lambda>b. Inr b"]
  obtain bs where "[2, 0, 0, 0, 7, 8, 1, 0, 0, 0, 9 :: u8] = bs"
    and "\<forall>tail. frame_read_n (\<lambda>b. Inr b) (length [[7, 8], [9 :: u8]]) (bs @ tail) = Inr ([[7, 8], [9]], tail)"
    by (auto simp: codec_reads_back_def simp del: frame_read_n.simps)
  then have "frame_read_n (\<lambda>b. Inr b) (length [[7, 8], [9 :: u8]]) ([2, 0, 0, 0, 7, 8, 1, 0, 0, 0, 9] @ [5]) =
      Inr ([[7, 8], [9]], [5])" by blast
  then show ?thesis by (simp add: numeral_2_eq_2 del: frame_read_n.simps)
qed

end
