(* ===== verification/Router.thy ===== *)
theory Router
  imports Process_Table Tool_Registry Ipc
begin

text \<open>
  The tool-call router of \<^verbatim>\<open>src/crates/avix-core/src/router\<close>: the service registry
  (\<^verbatim>\<open>registry.rs\<close>), caller injection (\<^verbatim>\<open>caller.rs\<close>), the capability check
  (\<^verbatim>\<open>capability.rs\<close>), the concurrency limiters (\<^verbatim>\<open>concurrency.rs\<close>), the dispatcher
  (\<^verbatim>\<open>dispatcher.rs\<close>) and the IPC front end (\<^verbatim>\<open>ipc_server.rs\<close>).  The call over the
  service's socket is a parameter: a function from endpoint and request to the answer.
\<close>

section \<open>The service registry\<close>

record service_registry =
  sr_services :: "(string, string) hmap"
  sr_tools :: "(string, string) hmap"
  sr_caller_scoped :: "string set"

definition sr_new :: service_registry where
  "sr_new = \<lparr> sr_services = [], sr_tools = [], sr_caller_scoped = {} \<rparr>"

definition sr_register :: "string \<Rightarrow> string \<Rightarrow> service_registry \<Rightarrow> service_registry" where
  "sr_register name endpoint r = r\<lparr>sr_services := hm_insert name endpoint (sr_services r)\<rparr>"

definition register_with_meta :: "string \<Rightarrow> string \<Rightarrow> bool \<Rightarrow> service_registry \<Rightarrow> service_registry" where
  "register_with_meta name endpoint scoped r =
     (let r1 = r\<lparr>sr_services := hm_insert name endpoint (sr_services r)\<rparr>
      in if scoped then r1\<lparr>sr_caller_scoped := insert name (sr_caller_scoped r1)\<rparr> else r1)"

definition deregister :: "string \<Rightarrow> service_registry \<Rightarrow> service_registry" where
  "deregister name r =
     r\<lparr>sr_services := hm_remove name (sr_services r), sr_caller_scoped := sr_caller_scoped r - {name}\<rparr>"

definition is_caller_scoped :: "service_registry \<Rightarrow> string \<Rightarrow> bool" where
  "is_caller_scoped r name \<longleftrightarrow> name \<in> sr_caller_scoped r"

definition sr_lookup :: "service_registry \<Rightarrow> string \<Rightarrow> string option" where
  "sr_lookup r name = hm_get (sr_services r) name"

definition register_tool :: "string \<Rightarrow> string \<Rightarrow> service_registry \<Rightarrow> service_registry" where
  "register_tool tool service r = r\<lparr>sr_tools := hm_insert tool service (sr_tools r)\<rparr>"

definition service_for_tool :: "service_registry \<Rightarrow> string \<Rightarrow> string option" where
  "service_for_tool r tool = hm_get (sr_tools r) tool"

definition sr_tool_count :: "service_registry \<Rightarrow> nat" where
  "sr_tool_count r = length (sr_tools r)"

section \<open>Caller injection\<close>

record caller_info =
  ci_pid :: u64
  ci_user :: string
  ci_token :: string

definition caller_to_value :: "caller_info \<Rightarrow> json" where
  "caller_to_value c =
     JObj [(''pid'', JNum (uint (ci_pid c))), (''user'', JStr (ci_user c)), (''token'', JStr (ci_token c))]"

definition inject_into :: "caller_info \<Rightarrow> json \<Rightarrow> json" where
  "inject_into c params =
     (case params of JObj m \<Rightarrow> JObj (hm_insert ''_caller'' (caller_to_value c) m) | _ \<Rightarrow> params)"

section \<open>The capability check\<close>

definition ALWAYS_PRESENT :: "string list" where
  "ALWAYS_PRESENT = [''cap/request-tool'', ''cap/escalate'', ''cap/list'', ''job/watch'']"

definition check_capability :: "string \<Rightarrow> pid \<Rightarrow> process_table \<Rightarrow> unit avix_result" where
  "check_capability tool caller t =
     (if tool \<in> set ALWAYS_PRESENT then Inr ()
      else (case pt_get t caller of
              None \<Rightarrow> Inl (CapabilityDenied (''no process entry for pid '' @ pid_display caller))
            | Some e \<Rightarrow>
                if tool \<in> set (pe_granted_tools e) then Inr ()
                else Inl (CapabilityDenied
                       (''tool '' @ quoted tool @ '' not granted to pid '' @ pid_display caller))))"

section \<open>Concurrency limiters\<close>

text \<open>
  A limiter is a semaphore with \<open>max\<close> permits and a counter.  The semaphore and the counter
  change one after the other: the counter is raised after the permit is taken and lowered
  before it is returned.
\<close>

record concurrency_limiter =
  cl_max :: nat
  cl_permits :: nat
  cl_active :: nat

definition cl_new :: "nat \<Rightarrow> concurrency_limiter" where
  "cl_new n = \<lparr> cl_max = n, cl_permits = n, cl_active = 0 \<rparr>"

definition cl_take :: "concurrency_limiter \<Rightarrow> concurrency_limiter option" where
  "cl_take l = (if 0 < cl_permits l then Some (l\<lparr>cl_permits := cl_permits l - 1\<rparr>) else None)"

definition cl_count :: "concurrency_limiter \<Rightarrow> concurrency_limiter" where
  "cl_count l = l\<lparr>cl_active := cl_active l + 1\<rparr>"

definition cl_uncount :: "concurrency_limiter \<Rightarrow> concurrency_limiter" where
  "cl_uncount l = l\<lparr>cl_active := cl_active l - 1\<rparr>"

definition cl_give :: "concurrency_limiter \<Rightarrow> concurrency_limiter" where
  "cl_give l = l\<lparr>cl_permits := cl_permits l + 1\<rparr>"

definition try_acquire :: "concurrency_limiter \<Rightarrow> concurrency_limiter option" where
  "try_acquire l = map_option cl_count (cl_take l)"

definition guard_drop :: "concurrency_limiter \<Rightarrow> concurrency_limiter" where
  "guard_drop l = cl_give (cl_uncount l)"

definition active_count :: "concurrency_limiter \<Rightarrow> nat" where
  "active_count l = cl_active l"

record caller_scoped_limiter =
  csl_max_per_pid :: nat
  csl_limits :: "(u64, concurrency_limiter) hmap"

definition csl_new :: "nat \<Rightarrow> caller_scoped_limiter" where
  "csl_new n = \<lparr> csl_max_per_pid = n, csl_limits = [] \<rparr>"

text \<open>\<^verbatim>\<open>CallerScopedLimiter::acquire\<close>: the entry is created on first use; \<open>None\<close> while
  the caller has to wait for a permit.\<close>

definition csl_entry :: "pid \<Rightarrow> caller_scoped_limiter \<Rightarrow> concurrency_limiter" where
  "csl_entry p l = unwrap_or (cl_new (csl_max_per_pid l)) (hm_get (csl_limits l) (pid_u64 p))"

definition csl_acquire :: "pid \<Rightarrow> caller_scoped_limiter \<Rightarrow> caller_scoped_limiter \<times> bool" where
  "csl_acquire p l =
     (let l1 = l\<lparr>csl_limits := hm_insert (pid_u64 p) (csl_entry p l) (csl_limits l)\<rparr>
      in case try_acquire (csl_entry p l) of
           None \<Rightarrow> (l1, False)
         | Some e \<Rightarrow> (l1\<lparr>csl_limits := hm_insert (pid_u64 p) e (csl_limits l1)\<rparr>, True))"

definition csl_release :: "pid \<Rightarrow> caller_scoped_limiter \<Rightarrow> caller_scoped_limiter" where
  "csl_release p l = l\<lparr>csl_limits := hm_modify (pid_u64 p) guard_drop (csl_limits l)\<rparr>"

text \<open>The limiter used by any number of tasks, one atomic access at a time.\<close>

datatype guard_pc = GIdle | GTaken | GHeld | GUncounted

inductive limiter_step ::
  "concurrency_limiter \<times> guard_pc list \<Rightarrow> concurrency_limiter \<times> guard_pc list \<Rightarrow> bool" where
  ls_take: "\<lbrakk> i < length gs; gs ! i = GIdle; cl_take l = Some l' \<rbrakk> \<Longrightarrow> limiter_step (l, gs) (l', gs[i := GTaken])"
| ls_count: "\<lbrakk> i < length gs; gs ! i = GTaken \<rbrakk> \<Longrightarrow> limiter_step (l, gs) (cl_count l, gs[i := GHeld])"
| ls_uncount: "\<lbrakk> i < length gs; gs ! i = GHeld \<rbrakk> \<Longrightarrow> limiter_step (l, gs) (cl_uncount l, gs[i := GUncounted])"
| ls_give: "\<lbrakk> i < length gs; gs ! i = GUncounted \<rbrakk> \<Longrightarrow> limiter_step (l, gs) (cl_give l, gs[i := GIdle])"

definition limiter_init :: "nat \<Rightarrow> concurrency_limiter \<times> guard_pc list \<Rightarrow> bool" where
  "limiter_init n s \<longleftrightarrow> fst s = cl_new n \<and> list_all (\<lambda>g. g = GIdle) (snd s)"

section \<open>The dispatcher\<close>

abbreviation ENOTFOUND_METHOD :: int where "ENOTFOUND_METHOD \<equiv> - 32601"
abbreviation EPERM :: int where "EPERM \<equiv> - 32002"
abbreviation EUNAVAIL :: int where "EUNAVAIL \<equiv> - 32005"
abbreviation ETIMEOUT :: int where "ETIMEOUT \<equiv> - 32007"
abbreviation EBUSY :: int where "EBUSY \<equiv> - 32008"

record router_dispatcher =
  rd_services :: service_registry
  rd_tools :: tool_registry
  rd_processes :: process_table
  rd_concurrency :: concurrency_limiter
  rd_call_timeout_secs :: nat

definition rd_new :: "service_registry \<Rightarrow> tool_registry \<Rightarrow> process_table \<Rightarrow> router_dispatcher" where
  "rd_new svcs tools procs =
     \<lparr> rd_services = svcs, rd_tools = tools, rd_processes = procs, rd_concurrency = cl_new 20,
       rd_call_timeout_secs = 30 \<rparr>"

definition with_max_concurrent :: "nat \<Rightarrow> router_dispatcher \<Rightarrow> router_dispatcher" where
  "with_max_concurrent n d = d\<lparr>rd_concurrency := cl_new n\<rparr>"

definition with_call_timeout :: "nat \<Rightarrow> router_dispatcher \<Rightarrow> router_dispatcher" where
  "with_call_timeout n d = d\<lparr>rd_call_timeout_secs := n\<rparr>"

text \<open>
  \<^verbatim>\<open>dispatch\<close>, steps 1 to 7: an error response, or the dispatcher with the tool's permit and
  the concurrency slot taken, the endpoint, the request to forward and the permit's semaphore.
\<close>

record forwarded =
  fw_dispatcher :: router_dispatcher
  fw_endpoint :: string
  fw_request :: json_rpc_request
  fw_sem :: nat

definition resolve_endpoint :: "service_registry \<Rightarrow> string \<Rightarrow> (int \<times> string) + string" where
  "resolve_endpoint svcs method =
     (case service_for_tool svcs method of
        None \<Rightarrow> Inl (ENOTFOUND_METHOD, ''no service registered for tool '' @ quoted method)
      | Some svc \<Rightarrow>
          (case sr_lookup svcs svc of
             None \<Rightarrow> Inl (EUNAVAIL, ''endpoint for service '' @ quoted svc @ '' not registered'')
           | Some ep \<Rightarrow> Inr ep))"

definition forwarded_request ::
  "service_registry \<Rightarrow> tool_entry \<Rightarrow> json_rpc_request \<Rightarrow> pid \<Rightarrow> string \<Rightarrow> string \<Rightarrow> json_rpc_request" where
  "forwarded_request svcs e req caller user token =
     (if is_caller_scoped svcs (te_owner e)
      then req\<lparr>jr_params := inject_into \<lparr> ci_pid = pid_u64 caller, ci_user = user, ci_token = token \<rparr> (jr_params req)\<rparr>
      else req)"

definition dispatch_begin ::
  "router_dispatcher \<Rightarrow> json_rpc_request \<Rightarrow> pid \<Rightarrow> string \<Rightarrow> string \<Rightarrow> json_rpc_response + forwarded" where
  "dispatch_begin d req caller user token =
     (let fail = (\<lambda>code msg. Inl (response_err (jr_id req) code msg None)) in
      case tr_lookup (rd_tools d) (jr_method req) of
        Inl _ \<Rightarrow> fail ENOTFOUND_METHOD (''tool '' @ quoted (jr_method req) @ '' not found'')
      | Inr e \<Rightarrow>
        if te_state e = ToolUnavailable then fail EUNAVAIL ''tool is unavailable''
        else (case check_capability (jr_method req) caller (rd_processes d) of
          Inl x \<Rightarrow> fail EPERM (error_display x)
        | Inr _ \<Rightarrow>
          (case tr_acquire (jr_method req) (rd_tools d) of
            Inl x \<Rightarrow> fail EUNAVAIL (error_display x)
          | Inr (sem, tools) \<Rightarrow>
            (case try_acquire (rd_concurrency d) of
              None \<Rightarrow> fail EBUSY ''dispatcher at max capacity''
            | Some slots \<Rightarrow>
              (case resolve_endpoint (rd_services d) (jr_method req) of
                Inl (code, msg) \<Rightarrow> fail code msg
              | Inr ep \<Rightarrow>
                  Inr \<lparr> fw_dispatcher = d\<lparr>rd_tools := tools, rd_concurrency := slots\<rparr>, fw_endpoint = ep,
                        fw_request = forwarded_request (rd_services d) e req caller user token,
                        fw_sem = sem \<rparr>)))))"

text \<open>Step 8 and the drop of the two guards.\<close>

definition dispatch_answer :: "string \<Rightarrow> avix_error + json_rpc_response \<Rightarrow> json_rpc_response" where
  "dispatch_answer i answer =
     (case answer of
        Inr resp \<Rightarrow> resp
      | Inl IpcTimeout \<Rightarrow> response_err i ETIMEOUT ''call to service timed out'' None
      | Inl e \<Rightarrow> response_err i EUNAVAIL (error_display e) None)"

definition dispatch_end :: "nat \<Rightarrow> router_dispatcher \<Rightarrow> router_dispatcher" where
  "dispatch_end sem d =
     d\<lparr>rd_tools := tr_drop_permit sem (rd_tools d), rd_concurrency := guard_drop (rd_concurrency d)\<rparr>"

type_synonym ipc_call = "string \<Rightarrow> json_rpc_request \<Rightarrow> avix_error + json_rpc_response"

definition dispatch ::
  "ipc_call \<Rightarrow> router_dispatcher \<Rightarrow> json_rpc_request \<Rightarrow> pid \<Rightarrow> string \<Rightarrow> string \<Rightarrow> json_rpc_response \<times> router_dispatcher" where
  "dispatch call d req caller user token =
     (case dispatch_begin d req caller user token of
        Inl resp \<Rightarrow> (resp, d)
      | Inr f \<Rightarrow> (dispatch_answer (jr_id req) (call (fw_endpoint f) (fw_request f)),
                  dispatch_end (fw_sem f) (fw_dispatcher f)))"

section \<open>The IPC front end\<close>

definition json_remove_keys :: "string list \<Rightarrow> json \<Rightarrow> json" where
  "json_remove_keys ks v = (case v of JObj m \<Rightarrow> JObj (fold hm_remove ks m) | _ \<Rightarrow> v)"

definition caller_fields :: "string list" where
  "caller_fields = [''_caller_pid'', ''_caller_user'', ''_caller_token'']"

definition caller_of_params :: "json \<Rightarrow> pid \<times> string \<times> string" where
  "caller_of_params v =
     (Pid (unwrap_or 0 (Option.bind (json_get v ''_caller_pid'') as_u64)),
      unwrap_or ''unknown'' (Option.bind (json_get v ''_caller_user'') as_str),
      unwrap_or [] (Option.bind (json_get v ''_caller_token'') as_str))"

definition handle_message ::
  "ipc_call \<Rightarrow> router_dispatcher \<Rightarrow> ipc_message \<Rightarrow> json_rpc_response option \<times> router_dispatcher" where
  "handle_message call d msg =
     (case msg of
        IpcNotification _ \<Rightarrow> (None, d)
      | IpcRequest req \<Rightarrow>
          (case caller_of_params (jr_params req) of (caller, user, token) \<Rightarrow>
             (let req' = req\<lparr>jr_params := json_remove_keys caller_fields (jr_params req)\<rparr>;
                  (resp, d') = dispatch call d req' caller user token
              in (Some resp, d'))))"

section \<open>Lemmas\<close>

definition authorised :: "process_table \<Rightarrow> string \<Rightarrow> pid \<Rightarrow> bool" where
  "authorised t tool p \<longleftrightarrow> tool \<in> set ALWAYS_PRESENT \<or>
     (\<exists>e. pt_get t p = Some e \<and> tool \<in> set (pe_granted_tools e))"

lemma check_capability_iff [simp]: "check_capability tool p t = Inr u \<longleftrightarrow> authorised t tool p"
  by (auto simp: check_capability_def authorised_def split: option.splits)

lemma check_capability_denied:
  "\<not> authorised t tool p \<Longrightarrow> \<exists>m. check_capability tool p t = Inl (CapabilityDenied m)"
  by (auto simp: check_capability_def authorised_def split: option.splits)

lemma tr_acquire_Inr: "tr_acquire n r = Inr (s, r') \<longleftrightarrow> tr_sem_of r n = Some s \<and> r' = tr_take_permit s r"
  by (auto simp: tr_acquire_def split: option.splits)

lemma check_capability_Inl: "check_capability tool p t = Inl x \<Longrightarrow> \<not> authorised t tool p"
  by (metis check_capability_iff sum.distinct(1))

lemma tr_acquire_Inl: "tr_acquire n r = Inl x \<Longrightarrow> tr_sem_of r n = None"
  by (auto simp: tr_acquire_def split: option.splits)

lemma tr_lookup_sem: "tr_lookup r n = Inr e \<Longrightarrow> \<exists>s. tr_sem_of r n = Some s"
  by (auto simp: tr_lookup_def tr_sem_of_def)

lemma try_acquire_Some: "try_acquire l = Some l' \<longleftrightarrow> 0 < cl_permits l \<and> l' = cl_count (l\<lparr>cl_permits := cl_permits l - 1\<rparr>)"
  by (auto simp: try_acquire_def cl_take_def)

lemma guard_drop_try_acquire [simp]: "try_acquire l = Some l' \<Longrightarrow> guard_drop l' = l"
  by (auto simp: try_acquire_Some guard_drop_def cl_give_def cl_uncount_def cl_count_def)

lemma tr_drop_take [simp]: "tr_drop_permit s (tr_take_permit s r) = r"
  by (simp add: tr_drop_permit_def tr_take_permit_def fun_upd_idem)

lemma resolve_endpoint_Inr [simp]:
  "resolve_endpoint svcs m = Inr ep \<longleftrightarrow> (\<exists>svc. service_for_tool svcs m = Some svc \<and> sr_lookup svcs svc = Some ep)"
  by (auto simp: resolve_endpoint_def split: option.splits)

lemma dispatch_begin_Inr:
  "dispatch_begin d req p u tk = Inr f \<longleftrightarrow>
     (\<exists>e s slots ep. tr_lookup (rd_tools d) (jr_method req) = Inr e \<and> te_state e \<noteq> ToolUnavailable \<and>
        authorised (rd_processes d) (jr_method req) p \<and> tr_sem_of (rd_tools d) (jr_method req) = Some s \<and>
        try_acquire (rd_concurrency d) = Some slots \<and> resolve_endpoint (rd_services d) (jr_method req) = Inr ep \<and>
        f = \<lparr> fw_dispatcher = d\<lparr>rd_tools := tr_take_permit s (rd_tools d), rd_concurrency := slots\<rparr>,
              fw_endpoint = ep, fw_request = forwarded_request (rd_services d) e req p u tk, fw_sem = s \<rparr>)"
  by (auto simp: dispatch_begin_def Let_def tr_acquire_Inr
      split: sum.splits option.splits if_splits simp del: resolve_endpoint_Inr
      dest: tr_lookup_sem check_capability_Inl tr_acquire_Inl)

lemma dispatch_beginI:
  assumes "tr_lookup (rd_tools d) (jr_method req) = Inr e" and "te_state e \<noteq> ToolUnavailable"
    and "authorised (rd_processes d) (jr_method req) p" and "0 < cl_permits (rd_concurrency d)"
    and "resolve_endpoint (rd_services d) (jr_method req) = Inr ep"
  shows "\<exists>f. dispatch_begin d req p u tk = Inr f \<and> fw_endpoint f = ep"
proof -
  obtain s where "tr_sem_of (rd_tools d) (jr_method req) = Some s" using tr_lookup_sem [OF assms(1)] ..
  moreover obtain slots where "try_acquire (rd_concurrency d) = Some slots"
    using assms(4) try_acquire_Some by blast
  moreover have "check_capability (jr_method req) p (rd_processes d) = Inr ()" using assms(3) by simp
  ultimately show ?thesis
    using assms(1,2,5) by (simp add: dispatch_begin_def tr_acquire_def del: resolve_endpoint_Inr check_capability_iff)
qed

lemma json_get_inject:
  "json_get (inject_into c (JObj m)) k = (if k = ''_caller'' then Some (caller_to_value c) else map_of m k)"
  by (simp add: inject_into_def)

lemma fold_hm_remove_get: "map_of (fold hm_remove ks m) k = (if k \<in> set ks then None else map_of m k)"
  by (induction ks arbitrary: m) auto


text \<open>
  Dispatching leaks nothing.  Whatever the request, the caller and the service's answer, a
  finished dispatch leaves the dispatcher as it found it: the tool's permit and the concurrency
  slot are returned on every path, so the limits hold for ever.
\<close>

theorem dispatch_no_leak: "snd (dispatch call d req p u tk) = d"
proof (cases "dispatch_begin d req p u tk")
  case (Inr f)
  then have "dispatch_end (fw_sem f) (fw_dispatcher f) = d"
    by (auto simp: dispatch_begin_Inr dispatch_end_def)
  then show ?thesis by (simp add: dispatch_def Inr)
qed (simp add: dispatch_def)

text \<open>
  A caller without the capability is refused with EPERM, and no service sees the call: the
  answer is the same whatever a service would have answered, and nothing changes.
\<close>

theorem dispatch_denied:
  assumes "tr_lookup (rd_tools d) (jr_method req) = Inr e" and "te_state e \<noteq> ToolUnavailable"
    and "\<not> authorised (rd_processes d) (jr_method req) p"
  shows "\<exists>msg. \<forall>call. dispatch call d req p u tk = (response_err (jr_id req) EPERM (''capability denied: '' @ msg) None, d)"
proof -
  obtain m where m: "check_capability (jr_method req) p (rd_processes d) = Inl (CapabilityDenied m)"
    using check_capability_denied [OF assms(3)] by blast
  show ?thesis
    using assms by (auto simp: dispatch_def dispatch_begin_def m intro!: exI [of _ m])
qed

definition demo_router :: router_dispatcher where
  "demo_router = rd_new (register_tool ''t'' ''svc'' (sr_register ''svc'' ''sock'' sr_new))
     (tr_add [demo_tool ''t''] tr_new) (pt_insert (demo_entry 9) pt_new)"

definition demo_request :: json_rpc_request where
  "demo_request = \<lparr> jr_jsonrpc = ''2.0'', jr_id = ''1'', jr_method = ''t'', jr_params = JObj [] \<rparr>"

lemma demo_router_tools [simp]:
  "tr_lookup (rd_tools demo_router) ''t'' = Inr (demo_tool ''t'')"
  by (simp add: demo_router_def rd_new_def)

theorem dispatch_denied_witness:
  "\<exists>msg. \<forall>call. dispatch call demo_router demo_request (Pid 9) ''u'' ''k'' =
     (response_err ''1'' EPERM (''capability denied: '' @ msg) None, demo_router)"
proof -
  have "\<not> authorised (rd_processes demo_router) ''t'' (Pid 9)"
    by (simp add: authorised_def ALWAYS_PRESENT_def demo_router_def rd_new_def demo_entry_def
        process_entry_default_def)
  then show ?thesis
    using dispatch_denied [of demo_router demo_request "demo_tool ''t''" "Pid 9" "''u''" "''k''"]
    by (simp add: demo_request_def)
qed

text \<open>
  The identity of the caller cannot be forged through the parameters.  For a service that
  asks for it, the \<^verbatim>\<open>_caller\<close> the service receives is built from the caller fields of the
  message, whatever \<^verbatim>\<open>_caller\<close> the message itself carried; those reserved fields are stripped,
  and every other parameter reaches the service unchanged.
\<close>

theorem caller_injection:
  assumes "is_caller_scoped svcs (te_owner e)" and "jr_params req = JObj m"
    and "caller_of_params (jr_params req) = (p, u, tk)"
  shows "json_get (jr_params (forwarded_request svcs e
       (req\<lparr>jr_params := json_remove_keys caller_fields (jr_params req)\<rparr>) p u tk)) k =
     (if k = ''_caller'' then
        Some (JObj [(''pid'', JNum (uint (pid_u64 p))), (''user'', JStr u), (''token'', JStr tk)])
      else if k \<in> {''_caller_pid'', ''_caller_user'', ''_caller_token''} then None
      else json_get (jr_params req) k)"
  using assms(1,2)
  by (simp add: forwarded_request_def json_remove_keys_def inject_into_def fold_hm_remove_get
      caller_to_value_def caller_fields_def)

theorem caller_injection_witness:
  "json_get (jr_params (forwarded_request (register_with_meta ''svc'' ''sock'' True sr_new) (demo_tool ''t'')
     (demo_request\<lparr>jr_params := json_remove_keys caller_fields
        (JObj [(''_caller_pid'', JNum 7), (''_caller'', JStr ''forged'')])\<rparr>) (Pid 7) ''unknown'' [])) ''_caller'' =
   Some (JObj [(''pid'', JNum 7), (''user'', JStr ''unknown''), (''token'', JStr [])])"
  using caller_injection [of "register_with_meta ''svc'' ''sock'' True sr_new" "demo_tool ''t''"
      "demo_request\<lparr>jr_params := JObj [(''_caller_pid'', JNum 7), (''_caller'', JStr ''forged'')]\<rparr>"
      "[(''_caller_pid'', JNum 7), (''_caller'', JStr ''forged'')]" "Pid 7" "''unknown''" "[]" "''_caller''"]
  by (simp add: is_caller_scoped_def register_with_meta_def demo_tool_def tool_entry_new_def
      caller_of_params_def)

section \<open>The limiter under interleaving\<close>

definition guards_in :: "guard_pc set \<Rightarrow> guard_pc list \<Rightarrow> nat" where
  "guards_in S gs = length (filter (\<lambda>g. g \<in> S) gs)"

lemma guards_in_update:
  assumes "i < length gs" and "gs ! i = g"
  shows "guards_in S (gs[i := h]) + (if g \<in> S then 1 else 0) = guards_in S gs + (if h \<in> S then 1 else 0)"
proof -
  obtain xs ys where "gs = xs @ g # ys" and "length xs = i"
    using assms id_take_nth_drop [of i gs] by (metis length_take min.absorb4)
  then show ?thesis by (auto simp: guards_in_def list_update_append)
qed

definition limiter_inv :: "nat \<Rightarrow> concurrency_limiter \<times> guard_pc list \<Rightarrow> bool" where
  "limiter_inv n s \<longleftrightarrow> cl_max (fst s) = n \<and>
     cl_permits (fst s) + guards_in {GTaken, GHeld, GUncounted} (snd s) = n \<and>
     cl_active (fst s) = guards_in {GHeld} (snd s)"

lemma limiter_inv_step: "limiter_step s t \<Longrightarrow> limiter_inv n s \<Longrightarrow> limiter_inv n t"
proof (induction rule: limiter_step.cases)
  case (ls_take i gs l l')
  then show ?case
    using guards_in_update [of i gs GIdle "{GTaken, GHeld, GUncounted}" GTaken]
      guards_in_update [of i gs GIdle "{GHeld}" GTaken]
    by (auto simp: limiter_inv_def cl_take_def split: if_splits)
next
  case (ls_count i gs l)
  then show ?case
    using guards_in_update [of i gs GTaken "{GTaken, GHeld, GUncounted}" GHeld]
      guards_in_update [of i gs GTaken "{GHeld}" GHeld]
    by (auto simp: limiter_inv_def cl_count_def)
next
  case (ls_uncount i gs l)
  then show ?case
    using guards_in_update [of i gs GHeld "{GTaken, GHeld, GUncounted}" GUncounted]
      guards_in_update [of i gs GHeld "{GHeld}" GUncounted]
    by (auto simp: limiter_inv_def cl_uncount_def)
next
  case (ls_give i gs l)
  then show ?case
    using guards_in_update [of i gs GUncounted "{GTaken, GHeld, GUncounted}" GIdle]
      guards_in_update [of i gs GUncounted "{GHeld}" GIdle]
    by (auto simp: limiter_inv_def cl_give_def)
qed

lemma limiter_inv_init: "limiter_init n s \<Longrightarrow> limiter_inv n s"
proof -
  have idle: "list_all (\<lambda>g. g = GIdle) gs \<Longrightarrow> GIdle \<notin> S \<Longrightarrow> guards_in S gs = 0" for gs S
    by (auto simp: guards_in_def list_all_iff filter_empty_conv)
  show "limiter_init n s \<Longrightarrow> limiter_inv n s"
    by (auto simp: limiter_init_def limiter_inv_def cl_new_def idle)
qed

interpretation limiter: step_invariant "limiter_init n" limiter_step "limiter_inv n" for n
  by unfold_locales (auto intro: limiter_inv_init limiter_inv_step)

text \<open>
  C13. The concurrency limit.  In every interleaving of any number of tasks acquiring and dropping
  guards, the tasks that hold a permit never exceed the configured maximum, the published count
  of active calls never exceeds the permits out, and a non-blocking acquire is refused exactly
  when all permits are out.
\<close>

theorem limiter_bound:
  assumes "reach (limiter_init n) limiter_step (l, gs)"
  shows "guards_in {GTaken, GHeld, GUncounted} gs \<le> n \<and>
    active_count l \<le> guards_in {GTaken, GHeld, GUncounted} gs \<and>
    (try_acquire l = None \<longleftrightarrow> guards_in {GTaken, GHeld, GUncounted} gs = n)"
proof -
  have inv: "limiter_inv n (l, gs)" using assms by (rule limiter.reach_inv)
  have "guards_in {GHeld} gs \<le> guards_in {GTaken, GHeld, GUncounted} gs"
    unfolding guards_in_def by (induction gs) auto
  with inv show ?thesis
    by (auto simp: limiter_inv_def active_count_def try_acquire_def cl_take_def)
qed

theorem limiter_bound_witness:
  "try_acquire \<lparr> cl_max = 1, cl_permits = 0, cl_active = 0 \<rparr> = None \<longleftrightarrow>
   guards_in {GTaken, GHeld, GUncounted} [GIdle, GTaken] = 1"
proof -
  have "reach (limiter_init 1) limiter_step (cl_new 1, [GIdle, GIdle])"
    by (rule reach_init) (simp add: limiter_init_def)
  moreover have "limiter_step (cl_new 1, [GIdle, GIdle])
      (\<lparr> cl_max = 1, cl_permits = 0, cl_active = 0 \<rparr>, [GIdle, GIdle][1 := GTaken])"
    by (rule ls_take) (simp_all add: cl_new_def cl_take_def)
  ultimately have "reach (limiter_init 1) limiter_step
      (\<lparr> cl_max = 1, cl_permits = 0, cl_active = 0 \<rparr>, [GIdle, GTaken])"
    by (auto dest: reach_step)
  then show ?thesis using limiter_bound by blast
qed

text \<open>Callers do not share a limit: acquiring for one leaves the others' permits alone.\<close>

lemma csl_acquire_other: "p \<noteq> q \<Longrightarrow> csl_entry q (fst (csl_acquire p l)) = csl_entry q l"
  by (auto simp: csl_acquire_def csl_entry_def Let_def pid.expand split: option.splits)

lemma csl_acquire_refused_iff: "\<not> snd (csl_acquire p l) \<longleftrightarrow> cl_permits (csl_entry p l) = 0"
  by (auto simp: csl_acquire_def Let_def try_acquire_def cl_take_def)

end
