(* ===== verification/Config_Users.thy ===== *)
theory Config_Users
  imports Prelude
begin

text \<open>
  The user database of \<^verbatim>\<open>src/crates/avix-core/src/config/users.rs\<close>: users, quotas, look-up
  and the validation that a parsed file passes before it is used.
\<close>

datatype quota_value = Count u64 | Unlimited string

definition is_unlimited :: "quota_value \<Rightarrow> bool" where
  "is_unlimited q = (case q of Unlimited _ \<Rightarrow> True | Count _ \<Rightarrow> False)"

definition quota_count :: "quota_value \<Rightarrow> u64 option" where
  "quota_count q = (case q of Count n \<Rightarrow> Some n | Unlimited _ \<Rightarrow> None)"

record user_quota =
  uq_tokens :: "quota_value option"
  uq_agents :: "quota_value option"
  uq_sessions :: "quota_value option"

record user =
  u_username :: string
  u_uid :: u32
  u_workspace :: "string option"
  u_home :: "string option"
  u_shell :: string
  u_crews :: "string list"
  u_tools :: "string list option"
  u_additional_tools :: "string list"
  u_denied_tools :: "string list"
  u_quota :: "user_quota option"

definition is_service_account :: "user \<Rightarrow> bool" where
  "is_service_account u \<longleftrightarrow> u_shell u = ''nologin''"

definition user_is_admin :: "user \<Rightarrow> bool" where
  "user_is_admin u \<longleftrightarrow> u_uid u = 0 \<or> (case u_tools u of None \<Rightarrow> False | Some ts \<Rightarrow> ''all'' \<in> set ts)"

definition workspace_path :: "user \<Rightarrow> string" where
  "workspace_path u =
     (case u_workspace u of
        Some w \<Rightarrow> w
      | None \<Rightarrow> (case u_home u of Some h \<Rightarrow> h | None \<Rightarrow> ''/users/'' @ u_username u @ ''/workspace''))"

record users_config =
  uc_api_version :: string
  uc_kind :: string
  uc_last_updated :: string
  uc_users :: "user list"

definition find_user :: "users_config \<Rightarrow> string \<Rightarrow> user option" where
  "find_user cfg name = find (\<lambda>u. u_username u = name) (uc_users cfg)"

fun bad_quota :: "(string \<times> quota_value option) list \<Rightarrow> (string \<times> string) option" where
  "bad_quota [] = None"
| "bad_quota ((label, v) # qs) =
     (case v of
        Some (Unlimited s) \<Rightarrow> if s \<noteq> ''unlimited'' then Some (label, s) else bad_quota qs
      | _ \<Rightarrow> bad_quota qs)"

definition user_quotas :: "user \<Rightarrow> (string \<times> quota_value option) list" where
  "user_quotas u =
     (case u_quota u of
        None \<Rightarrow> []
      | Some q \<Rightarrow> [(''tokens'', uq_tokens q), (''agents'', uq_agents q), (''sessions'', uq_sessions q)])"

definition en_dash :: string where
  "en_dash = [CHR 0xE2, CHR 0x80, CHR 0x93]"

fun validate_users :: "u32 set \<Rightarrow> user list \<Rightarrow> unit avix_result" where
  "validate_users seen [] = Inr ()"
| "validate_users seen (u # us) =
     (if u_uid u \<in> seen then Inl (ConfigParse (''duplicate uid: '' @ show_word (u_uid u)))
      else if 0 < u_uid u \<and> u_uid u < 1000 then
        Inl (ConfigParse (''uid '' @ show_word (u_uid u) @ '' is in the reserved range 1'' @ en_dash @
          ''999 (user '' @ quoted (u_username u) @ '')''))
      else if u_workspace u \<noteq> None \<and> u_home u \<noteq> None then
        Inl (ConfigParse (''user '' @ quoted (u_username u) @ '' must have workspace OR home, not both''))
      else (case bad_quota (user_quotas u) of
              Some (label, s) \<Rightarrow>
                Inl (ConfigParse (''user '' @ quoted (u_username u) @ '' quota.'' @ label @ '': invalid value '' @
                  quoted s @ '' (expected a positive integer or the string '' @ [CHR 0x22] @ ''unlimited'' @
                  [CHR 0x22] @ '')''))
            | None \<Rightarrow> validate_users (insert (u_uid u) seen) us))"

definition validate :: "users_config \<Rightarrow> unit avix_result" where
  "validate cfg = validate_users {} (uc_users cfg)"

definition users_from_str :: "(string \<Rightarrow> string + users_config) \<Rightarrow> string \<Rightarrow> users_config avix_result" where
  "users_from_str from_yaml s =
     (case from_yaml s of
        Inl e \<Rightarrow> Inl (ConfigParse e)
      | Inr cfg \<Rightarrow> (case validate cfg of Inl e \<Rightarrow> Inl e | Inr _ \<Rightarrow> Inr cfg))"

section \<open>Lemmas\<close>

lemma bad_quota_None_iff:
  "bad_quota qs = None \<longleftrightarrow> (\<forall>(l, v)\<in>set qs. \<forall>s. v = Some (Unlimited s) \<longrightarrow> s = ''unlimited'')"
  by (induction qs rule: bad_quota.induct) (auto split: option.splits quota_value.splits)

definition user_ok :: "user \<Rightarrow> bool" where
  "user_ok u \<longleftrightarrow> (u_uid u = 0 \<or> 1000 \<le> u_uid u) \<and> \<not> (u_workspace u \<noteq> None \<and> u_home u \<noteq> None) \<and>
     bad_quota (user_quotas u) = None"

lemma validate_users_iff:
  "validate_users seen us = Inr () \<longleftrightarrow>
     distinct (map u_uid us) \<and> set (map u_uid us) \<inter> seen = {} \<and> (\<forall>u\<in>set us. user_ok u)"
proof (induction seen us rule: validate_users.induct)
  case (2 seen u us)
  have range: "\<not> (0 < u_uid u \<and> u_uid u < 1000) \<longleftrightarrow> u_uid u = 0 \<or> 1000 \<le> u_uid u"
    using word_gt_0 [of "u_uid u"] by auto
  show ?case
  proof (cases "u_uid u \<in> seen \<or> \<not> user_ok u")
    case True
    then show ?thesis using range by (auto simp: user_ok_def split: option.splits)
  next
    case False
    then have ok: "u_uid u \<notin> seen" "\<not> (0 < u_uid u \<and> u_uid u < 1000)" "\<not> (u_workspace u \<noteq> None \<and> u_home u \<noteq> None)"
      "bad_quota (user_quotas u) = None"
      using range unfolding user_ok_def by blast+
    then have "validate_users seen (u # us) = validate_users (insert (u_uid u) seen) us"
      by (simp only: validate_users.simps if_False option.case)
    moreover note 2 [OF ok]
    ultimately show ?thesis using False by auto
  qed
qed simp

text \<open>
  Validation of the user file.  Validation accepts a user database exactly when no two users
  share a uid, every uid is 0 or at least 1000, no user has both a workspace and a home, and
  every quota given as a string is the string \<^verbatim>\<open>unlimited\<close>; hence in an accepted database a uid
  names at most one user.
\<close>

theorem validate_iff:
  "validate cfg = Inr () \<longleftrightarrow> distinct (map u_uid (uc_users cfg)) \<and>
     (\<forall>u\<in>set (uc_users cfg). (u_uid u = 0 \<or> 1000 \<le> u_uid u) \<and> (u_workspace u = None \<or> u_home u = None) \<and>
        (\<forall>(l, v)\<in>set (user_quotas u). \<forall>s. v = Some (Unlimited s) \<longrightarrow> s = ''unlimited''))"
  unfolding validate_def validate_users_iff user_ok_def bad_quota_None_iff by auto

definition demo_user :: "string \<Rightarrow> u32 \<Rightarrow> user" where
  "demo_user n i = \<lparr> u_username = n, u_uid = i, u_workspace = None, u_home = None, u_shell = ''/bin/sh'',
     u_crews = [], u_tools = None, u_additional_tools = [], u_denied_tools = [],
     u_quota = Some \<lparr> uq_tokens = Some (Unlimited ''unlimited''), uq_agents = Some (Count 3), uq_sessions = None \<rparr> \<rparr>"

theorem validate_iff_witness:
  "validate \<lparr> uc_api_version = ''avix/v1'', uc_kind = ''Users'', uc_last_updated = [],
     uc_users = [demo_user ''root'' 0, demo_user ''ann'' 1001] \<rparr> = Inr ()"
  unfolding validate_iff by (auto simp: demo_user_def user_quotas_def)

end
