(* ===== verification/Memfs.thy ===== *)
theory Memfs
  imports Capability_Token Tool_Registry Config_Users
begin

text \<open>
  The virtual file system of \<^verbatim>\<open>src/crates/avix-core/src/memfs\<close>: paths (\<^verbatim>\<open>path.rs\<close>),
  the in-memory tree (\<^verbatim>\<open>vfs.rs\<close>), disk providers (\<^verbatim>\<open>local_provider.rs\<close>), caller
  contexts and permissions (\<^verbatim>\<open>context.rs\<close>) and the mount router (\<^verbatim>\<open>router.rs\<close>).

  The operating system's files are a parameter, a record of operations on a disk state.  An
  \<^verbatim>\<open>Arc<MemFs>\<close> mounted in the router is an address, and \<open>vr_stores\<close> maps addresses to
  trees, because the same tree may be shared with other holders.
\<close>

section \<open>Paths\<close>

datatype vfs_path = VfsPath (vfs_str: string)

definition vfs_path_parse :: "string \<Rightarrow> vfs_path avix_result" where
  "vfs_path_parse s =
     (if \<not> starts_with s ''/'' then Inl (ConfigParse (''VFS path must be absolute: '' @ quoted s))
      else if contains_str s ''..'' then Inl (ConfigParse (''VFS path must not contain '' @ quoted ''..'' @ '': '' @ quoted s))
      else Inr (VfsPath s))"

definition vfs_parent :: "vfs_path \<Rightarrow> vfs_path option" where
  "vfs_parent p =
     (case rsplit_once (CHR ''/'') (vfs_str p) of
        None \<Rightarrow> None
      | Some (s, _) \<Rightarrow> Some (if s = [] then VfsPath ''/'' else VfsPath s))"

definition vfs_file_name :: "vfs_path \<Rightarrow> string option" where
  "vfs_file_name p = map_option snd (rsplit_once (CHR ''/'') (vfs_str p))"

definition is_agent_writable :: "vfs_path \<Rightarrow> bool" where
  "is_agent_writable path =
     (let p = vfs_str path in
      if starts_with p ''/proc/'' \<or> starts_with p ''/kernel/'' \<or> starts_with p ''/secrets/'' \<or>
         starts_with p ''/etc/avix/'' \<or> starts_with p ''/bin/'' then False
      else if starts_with p ''/users/'' \<and> contains_str p ''/memory/'' then False
      else if starts_with p ''/crews/'' \<and> contains_str p ''/memory/'' then False
      else True)"

section \<open>The in-memory tree\<close>

type_synonym mem_fs = "(string, bytes) hmap"

definition memfs_write :: "mem_fs \<Rightarrow> vfs_path \<Rightarrow> bytes \<Rightarrow> mem_fs" where
  "memfs_write fs path content = hm_insert (vfs_str path) content fs"

definition enoent :: "vfs_path \<Rightarrow> avix_error" where
  "enoent path = ConfigParse (''ENOENT: '' @ vfs_str path)"

definition memfs_read :: "mem_fs \<Rightarrow> vfs_path \<Rightarrow> bytes avix_result" where
  "memfs_read fs path = ok_or (enoent path) (hm_get fs (vfs_str path))"

definition memfs_delete :: "mem_fs \<Rightarrow> vfs_path \<Rightarrow> mem_fs avix_result" where
  "memfs_delete fs path =
     (case hm_get fs (vfs_str path) of
        None \<Rightarrow> Inl (enoent path)
      | Some _ \<Rightarrow> Inr (hm_remove (vfs_str path) fs))"

definition memfs_exists :: "mem_fs \<Rightarrow> vfs_path \<Rightarrow> bool" where
  "memfs_exists fs path \<longleftrightarrow> hm_get fs (vfs_str path) \<noteq> None"

definition memfs_list :: "mem_fs \<Rightarrow> vfs_path \<Rightarrow> string list avix_result" where
  "memfs_list fs dir =
     (let prefix = trim_end_char (CHR ''/'') (vfs_str dir) @ ''/'';
          names = map (\<lambda>k. first_segment (CHR ''/'') (drop (length prefix) k))
                    (filter (\<lambda>k. starts_with k prefix) (hm_keys fs));
          seen = remdups (filter (\<lambda>n. n \<noteq> []) names)
      in if seen = [] then Inl (enoent dir) else Inr seen)"

section \<open>Disk providers\<close>

record 'd disk_ops =
  do_read :: "'d \<Rightarrow> string \<Rightarrow> string + bytes"
  do_create_dir_all :: "'d \<Rightarrow> string \<Rightarrow> string + 'd"
  do_write :: "'d \<Rightarrow> string \<Rightarrow> bytes \<Rightarrow> string + 'd"
  do_remove :: "'d \<Rightarrow> string \<Rightarrow> string + 'd"
  do_exists :: "'d \<Rightarrow> string \<Rightarrow> bool"
  do_read_dir :: "'d \<Rightarrow> string \<Rightarrow> string + (string + string option) list"

record local_provider =
  lp_root :: string

definition path_join :: "string \<Rightarrow> string \<Rightarrow> string" where
  "path_join root rel = (if root = [] \<or> last root = CHR ''/'' then root @ rel else root @ ''/'' @ rel)"

definition path_parent :: "string \<Rightarrow> string option" where
  "path_parent p =
     (let t = trim_end_char (CHR ''/'') p
      in if t = [] then None
         else (case rsplit_once (CHR ''/'') t of
                 None \<Rightarrow> Some []
               | Some (s, _) \<Rightarrow>
                   (let u = trim_end_char (CHR ''/'') s in Some (if u = [] then ''/'' else u))))"

definition resolve_path :: "local_provider \<Rightarrow> string \<Rightarrow> string avix_result" where
  "resolve_path lp rel0 =
     (let rel = trim_start_char (CHR ''/'') rel0
      in if contains_str rel ''..'' then Inl (Io (''path traversal rejected: '' @ quoted rel))
         else Inr (path_join (lp_root lp) rel))"

definition lp_read :: "'d disk_ops \<Rightarrow> 'd \<Rightarrow> local_provider \<Rightarrow> string \<Rightarrow> bytes avix_result" where
  "lp_read os d lp rel =
     (case resolve_path lp rel of
        Inl e \<Rightarrow> Inl e
      | Inr path \<Rightarrow> map_sum (\<lambda>e. NotFound (''read '' @ rel @ '': '' @ e)) id (do_read os d path))"

definition lp_write ::
  "'d disk_ops \<Rightarrow> 'd \<Rightarrow> local_provider \<Rightarrow> string \<Rightarrow> bytes \<Rightarrow> unit avix_result \<times> 'd" where
  "lp_write os d lp rel content =
     (case resolve_path lp rel of
        Inl e \<Rightarrow> (Inl e, d)
      | Inr path \<Rightarrow>
          (case (case path_parent path of None \<Rightarrow> Inr d | Some parent \<Rightarrow> do_create_dir_all os d parent) of
             Inl e \<Rightarrow> (Inl (Io (''create_dir_all for '' @ rel @ '': '' @ e)), d)
           | Inr d1 \<Rightarrow>
               (case do_write os d1 path content of
                  Inl e \<Rightarrow> (Inl (Io (''write '' @ rel @ '': '' @ e)), d1)
                | Inr d2 \<Rightarrow> (Inr (), d2))))"

definition lp_delete :: "'d disk_ops \<Rightarrow> 'd \<Rightarrow> local_provider \<Rightarrow> string \<Rightarrow> unit avix_result \<times> 'd" where
  "lp_delete os d lp rel =
     (case resolve_path lp rel of
        Inl e \<Rightarrow> (Inl e, d)
      | Inr path \<Rightarrow>
          (case do_remove os d path of
             Inl e \<Rightarrow> (Inl (NotFound (''delete '' @ rel @ '': '' @ e)), d)
           | Inr d1 \<Rightarrow> (Inr (), d1)))"

definition lp_exists :: "'d disk_ops \<Rightarrow> 'd \<Rightarrow> local_provider \<Rightarrow> string \<Rightarrow> bool" where
  "lp_exists os d lp rel = (case resolve_path lp rel of Inl _ \<Rightarrow> False | Inr path \<Rightarrow> do_exists os d path)"

fun read_dir_names :: "string \<Rightarrow> (string + string option) list \<Rightarrow> string list avix_result" where
  "read_dir_names rel [] = Inr []"
| "read_dir_names rel (Inl e # xs) = Inl (Io (''read dir entry in '' @ rel @ '': '' @ e))"
| "read_dir_names rel (Inr None # xs) = read_dir_names rel xs"
| "read_dir_names rel (Inr (Some n) # xs) = map_sum id (\<lambda>ns. n # ns) (read_dir_names rel xs)"

definition lp_list :: "'d disk_ops \<Rightarrow> 'd \<Rightarrow> local_provider \<Rightarrow> string \<Rightarrow> string list avix_result" where
  "lp_list os d lp rel =
     (case resolve_path lp rel of
        Inl e \<Rightarrow> Inl e
      | Inr path \<Rightarrow>
          (case do_read_dir os d path of
             Inl e \<Rightarrow> Inl (NotFound (''list '' @ rel @ '': '' @ e))
           | Inr es \<Rightarrow> read_dir_names rel es))"

section \<open>Callers and permissions\<close>

record vfs_caller_context =
  vc_username :: string
  vc_crews :: "string list"
  vc_is_admin :: bool
  vc_token :: "capability_token option"

text \<open>\<^verbatim>\<open>from_token\<close>: \<open>users_file\<close> is the parsed \<^verbatim>\<open>etc/users.yaml\<close>, \<open>None\<close> when the
  file does not exist, an error when it cannot be read or parsed.\<close>

definition caller_from_token ::
  "(avix_error + users_config) option \<Rightarrow> capability_token \<Rightarrow> vfs_caller_context option avix_result" where
  "caller_from_token users_file tok =
     (case users_file of
        None \<Rightarrow> Inr None
      | Some (Inl e) \<Rightarrow> Inl e
      | Some (Inr us) \<Rightarrow>
          (case issued_to_opt tok of
             None \<Rightarrow> Inl (NotFound ''no issued_to in token'')
           | Some it \<Rightarrow>
               (case find_user us (it_spawned_by it) of
                  None \<Rightarrow> Inl (NotFound (''user '' @ quoted (it_spawned_by it) @ '' not found in users.yaml''))
                | Some u \<Rightarrow> Inr (Some \<lparr> vc_username = u_username u, vc_crews = u_crews u,
                                        vc_is_admin = user_is_admin u, vc_token = Some tok \<rparr>))))"

definition caller_from_user_info :: "string \<Rightarrow> string list \<Rightarrow> bool \<Rightarrow> vfs_caller_context" where
  "caller_from_user_info name crews adm =
     \<lparr> vc_username = name, vc_crews = crews, vc_is_admin = adm, vc_token = None \<rparr>"

definition anonymous :: vfs_caller_context where
  "anonymous = \<lparr> vc_username = ''anonymous'', vc_crews = [], vc_is_admin = False, vc_token = None \<rparr>"

record vfs_permissions =
  vp_owner :: string
  vp_crew :: string
  vp_all :: string

definition vfs_permissions_default :: vfs_permissions where
  "vfs_permissions_default = \<lparr> vp_owner = ''rwx'', vp_crew = ''rw-'', vp_all = ''r--'' \<rparr>"

definition for_path :: "string \<Rightarrow> vfs_permissions" where
  "for_path p =
     (if starts_with p ''/tools/'' then vfs_permissions_default
      else if starts_with p ''/users/'' then vfs_permissions_default
      else if starts_with p ''/services/'' then vfs_permissions_default
      else if starts_with p ''/crews/'' then vfs_permissions_default
      else if starts_with p ''/etc/'' then vfs_permissions_default
      else vfs_permissions_default)"

definition effective_for :: "vfs_permissions \<Rightarrow> vfs_caller_context \<Rightarrow> string" where
  "effective_for ps c =
     (if vc_is_admin c then ''rwx''
      else if vc_username c = vp_owner ps then vp_owner ps
      else if vp_crew ps \<noteq> [] \<and> vp_crew ps \<in> set (vc_crews c) then vp_crew ps
      else vp_all ps)"

definition can_read :: "vfs_permissions \<Rightarrow> vfs_caller_context \<Rightarrow> bool" where
  "can_read ps c \<longleftrightarrow> CHR ''r'' \<in> set (effective_for ps c)"

definition can_write :: "vfs_permissions \<Rightarrow> vfs_caller_context \<Rightarrow> bool" where
  "can_write ps c \<longleftrightarrow> CHR ''w'' \<in> set (effective_for ps c)"

definition can_execute :: "vfs_permissions \<Rightarrow> vfs_caller_context \<Rightarrow> bool" where
  "can_execute ps c \<longleftrightarrow> CHR ''x'' \<in> set (effective_for ps c)"

section \<open>The mount router\<close>

record vfs_router =
  vr_mounts :: "(string \<times> local_provider) list"
  vr_mem_mounts :: "(string \<times> nat) list"
  vr_stores :: "nat \<Rightarrow> mem_fs"
  vr_tool_registry :: "tool_registry option"
  vr_caller :: "vfs_caller_context option"
  vr_default :: mem_fs

definition vr_new :: vfs_router where
  "vr_new = \<lparr> vr_mounts = [], vr_mem_mounts = [], vr_stores = (\<lambda>_. []), vr_tool_registry = None,
              vr_caller = None, vr_default = [] \<rparr>"

definition set_tool_registry :: "tool_registry \<Rightarrow> vfs_router \<Rightarrow> vfs_router" where
  "set_tool_registry reg r = r\<lparr>vr_tool_registry := Some reg\<rparr>"

definition set_caller :: "vfs_caller_context option \<Rightarrow> vfs_router \<Rightarrow> vfs_router" where
  "set_caller c r = r\<lparr>vr_caller := c\<rparr>"

definition check_access :: "vfs_router \<Rightarrow> vfs_path \<Rightarrow> string \<Rightarrow> unit avix_result" where
  "check_access r path required =
     (case vr_caller r of
        None \<Rightarrow> Inl (CapabilityDenied ''no caller context'')
      | Some c \<Rightarrow>
          (let ps = for_path (vfs_str path) in
           if required = ''r'' \<and> \<not> can_read ps c then Inl (CapabilityDenied (''no read permission on '' @ vfs_str path))
           else if required = ''w'' \<and> \<not> can_write ps c then Inl (CapabilityDenied (''no write permission on '' @ vfs_str path))
           else if required = ''x'' \<and> \<not> can_execute ps c then Inl (CapabilityDenied (''no execute permission on '' @ vfs_str path))
           else Inr ()))"

text \<open>\<^verbatim>\<open>retain\<close>, \<^verbatim>\<open>push\<close> and the stable sort by descending prefix length of both mount
  tables.\<close>

definition mount_table :: "string \<Rightarrow> 'p \<Rightarrow> (string \<times> 'p) list \<Rightarrow> (string \<times> 'p) list" where
  "mount_table prefix p ms =
     (let pre = trim_end_char (CHR ''/'') prefix
      in sort_key (\<lambda>(q, _). - int (length q)) (filter (\<lambda>(q, _). q \<noteq> pre) ms @ [(pre, p)]))"

definition mount :: "string \<Rightarrow> local_provider \<Rightarrow> vfs_router \<Rightarrow> vfs_router" where
  "mount prefix p r = r\<lparr>vr_mounts := mount_table prefix p (vr_mounts r)\<rparr>"

definition mount_memfs :: "string \<Rightarrow> nat \<Rightarrow> vfs_router \<Rightarrow> vfs_router" where
  "mount_memfs prefix a r = r\<lparr>vr_mem_mounts := mount_table prefix a (vr_mem_mounts r)\<rparr>"

definition covers :: "string \<Rightarrow> string \<Rightarrow> bool" where
  "covers prefix path \<longleftrightarrow> path = prefix \<or> starts_with path (prefix @ ''/'')"

fun route :: "(string \<times> local_provider) list \<Rightarrow> string \<Rightarrow> (local_provider \<times> string) option" where
  "route [] path = None"
| "route ((prefix, p) # ms) path =
     (if covers prefix path then Some (p, trim_start_char (CHR ''/'') (drop (length prefix) path))
      else route ms path)"

definition mem_route :: "vfs_router \<Rightarrow> string \<Rightarrow> nat option" where
  "mem_route r path = map_option snd (find (\<lambda>(prefix, _). covers prefix path) (vr_mem_mounts r))"

definition denied :: "string \<Rightarrow> vfs_path \<Rightarrow> vfs_caller_context \<Rightarrow> avix_error" where
  "denied verb path c =
     CapabilityDenied (''permission denied: cannot '' @ verb @ '' '' @ vfs_str path @ '' (effective: '' @
       effective_for (for_path (vfs_str path)) c @ '')'')"

definition set_store :: "nat \<Rightarrow> mem_fs \<Rightarrow> vfs_router \<Rightarrow> vfs_router" where
  "set_store a fs r = r\<lparr>vr_stores := (vr_stores r)(a := fs)\<rparr>"

text \<open>The check at the head of \<^verbatim>\<open>read\<close>, \<^verbatim>\<open>write\<close> and \<^verbatim>\<open>delete\<close>: it runs only when a
  caller context is set.\<close>

definition refused ::
  "string \<Rightarrow> (vfs_permissions \<Rightarrow> vfs_caller_context \<Rightarrow> bool) \<Rightarrow> vfs_router \<Rightarrow> vfs_path \<Rightarrow> avix_error option" where
  "refused verb allowed r path =
     (case vr_caller r of
        None \<Rightarrow> None
      | Some c \<Rightarrow> if allowed (for_path (vfs_str path)) c then None else Some (denied verb path c))"

definition vfs_write ::
  "'d disk_ops \<Rightarrow> vfs_path \<Rightarrow> bytes \<Rightarrow> vfs_router \<Rightarrow> 'd \<Rightarrow> unit avix_result \<times> vfs_router \<times> 'd" where
  "vfs_write os path content r d =
     (case refused ''write'' can_write r path of
        Some e \<Rightarrow> (Inl e, r, d)
      | None \<Rightarrow>
          (case route (vr_mounts r) (vfs_str path) of
             Some (p, rel) \<Rightarrow> (case lp_write os d p rel content of (res, d') \<Rightarrow> (res, r, d'))
           | None \<Rightarrow>
               (case mem_route r (vfs_str path) of
                  Some a \<Rightarrow> (Inr (), set_store a (memfs_write (vr_stores r a) path content) r, d)
                | None \<Rightarrow> (Inr (), r\<lparr>vr_default := memfs_write (vr_default r) path content\<rparr>, d))))"

text \<open>The YAML descriptor of a tool, and the lazy population of the \<^verbatim>\<open>tools\<close> tree.\<close>

definition desc_str :: "json \<Rightarrow> string \<Rightarrow> string \<Rightarrow> string" where
  "desc_str desc key d = unwrap_or d (Option.bind (json_get desc key) as_str)"

definition yaml_tool_state :: "tool_entry \<Rightarrow> vfs_caller_context option \<Rightarrow> string" where
  "yaml_tool_state e caller =
     (case caller of
        Some c \<Rightarrow>
          (case vc_token c of
             Some tok \<Rightarrow> if list_all (has_tool tok) (te_capabilities_required e) then ''available'' else ''unavailable''
           | None \<Rightarrow> if vc_is_admin c then ''available'' else ''unavailable'')
      | None \<Rightarrow> tool_state_str (te_state e))"

definition generate_tool_yaml :: "tool_entry \<Rightarrow> vfs_caller_context option \<Rightarrow> string" where
  "generate_tool_yaml e caller =
     (let desc = te_descriptor e;
          nl = [CHR 0x0A];
          description = desc_str desc ''description'' [];
          short = desc_str desc ''short'' description;
          detailed = desc_str desc ''detailed'' [];
          handler_sig = desc_str desc ''handler_signature'' [];
          domain = desc_str desc ''domain'' [];
          caps = te_capabilities_required e;
          state = yaml_tool_state e caller;
          perms = te_permissions e
      in ''name: '' @ tool_str (te_name e) @ nl @
         ''description: '' @ description @ nl @
         ''short: '' @ short @ nl @
         ''detailed: |'' @ nl @
         concat (map (\<lambda>l. ''  '' @ l @ nl) (str_lines detailed)) @
         ''domain: '' @ domain @ nl @
         ''capabilities_required:'' @ nl @
         concat (map (\<lambda>c. ''  - '' @ c @ nl) caps) @
         ''state: '' @ state @ nl @
         ''owner: '' @ te_owner e @ nl @
         ''permissions:'' @ nl @
         ''  owner: '' @ tp_owner perms @ nl @
         ''  crew: '' @ (if tp_crew perms = [] then ''---'' else tp_crew perms) @ nl @
         ''  all: '' @ tp_all perms @ nl @
         (if state = ''unavailable'' \<and> caps \<noteq> [] then ''request_access: cap/request-tool'' @ nl else []) @
         (if handler_sig \<noteq> [] then ''handler_signature: '' @ handler_sig @ nl else []))"

fun group_by_ns :: "string list \<Rightarrow> (string, string list) hmap \<Rightarrow> (string, string list) hmap" where
  "group_by_ns [] m = m"
| "group_by_ns (n # ns) m =
     (let k = first_segment (CHR ''/'') n
      in group_by_ns ns (hm_insert k (unwrap_or [] (hm_get m k) @ [n]) m))"

definition dashed :: "string \<Rightarrow> string" where
  "dashed n = str_replace ''/'' ''-'' n"

definition populate_tools_memfs :: "(string list \<Rightarrow> string) \<Rightarrow> tool_registry \<Rightarrow> mem_fs \<Rightarrow> mem_fs" where
  "populate_tools_memfs to_yaml reg fs =
     (let names = map ts_name (tr_list_all reg);
          by_ns = group_by_ns names [];
          nl = [CHR 0x0A];
          fs1 = fold (\<lambda>(ns, ts). hm_insert (''/tools/'' @ ns)
                       (bytes_of_string (join_str nl (map (\<lambda>n. dashed n @ ''.yaml'') ts)))) by_ns fs;
          fs2 = hm_insert ''/tools''
                  (bytes_of_string (join_str nl (map (\<lambda>ns. ns @ ''/'') (hm_keys by_ns)))) fs1;
          fs3 = fold (\<lambda>e. hm_insert (''/tools/'' @ dashed (tool_str (te_name e)) @ ''.yaml'')
                       (bytes_of_string (generate_tool_yaml e None))) (get_all_entries reg) fs2
      in hm_insert ''/tools/index.yaml'' (bytes_of_string (to_yaml names)) fs3)"

definition lazy_populate :: "(string list \<Rightarrow> string) \<Rightarrow> vfs_path \<Rightarrow> vfs_router \<Rightarrow> vfs_router" where
  "lazy_populate to_yaml path r =
     (if starts_with (vfs_str path) ''/tools'' then
        (let tools = map_option snd (find (\<lambda>(p, _). p = ''tools'') (vr_mem_mounts r));
             found = (case tools of None \<Rightarrow> False | Some a \<Rightarrow> hm_get (vr_stores r a) ''/tools/index.yaml'' \<noteq> None)
         in if found then r
            else (case (vr_tool_registry r, tools) of
                    (Some reg, Some a) \<Rightarrow> set_store a (populate_tools_memfs to_yaml reg (vr_stores r a)) r
                  | _ \<Rightarrow> r))
      else r)"

definition vfs_read ::
  "(string list \<Rightarrow> string) \<Rightarrow> 'd disk_ops \<Rightarrow> vfs_path \<Rightarrow> vfs_router \<Rightarrow> 'd \<Rightarrow> bytes avix_result \<times> vfs_router" where
  "vfs_read to_yaml os path r d =
     (case refused ''read'' can_read r path of
        Some e \<Rightarrow> (Inl e, r)
      | None \<Rightarrow>
          (let r' = lazy_populate to_yaml path r
           in (case route (vr_mounts r') (vfs_str path) of
                 Some (p, rel) \<Rightarrow> lp_read os d p rel
               | None \<Rightarrow>
                   (case mem_route r' (vfs_str path) of
                      Some a \<Rightarrow> memfs_read (vr_stores r' a) path
                    | None \<Rightarrow> memfs_read (vr_default r') path), r')))"

definition vfs_delete ::
  "'d disk_ops \<Rightarrow> vfs_path \<Rightarrow> vfs_router \<Rightarrow> 'd \<Rightarrow> unit avix_result \<times> vfs_router \<times> 'd" where
  "vfs_delete os path r d =
     (case refused ''delete'' can_write r path of
        Some e \<Rightarrow> (Inl e, r, d)
      | None \<Rightarrow>
          (case route (vr_mounts r) (vfs_str path) of
             Some (p, rel) \<Rightarrow> (case lp_delete os d p rel of (res, d') \<Rightarrow> (res, r, d'))
           | None \<Rightarrow>
               (case mem_route r (vfs_str path) of
                  Some a \<Rightarrow>
                    (case memfs_delete (vr_stores r a) path of
                       Inl e \<Rightarrow> (Inl e, r, d)
                     | Inr fs \<Rightarrow> (Inr (), set_store a fs r, d))
                | None \<Rightarrow>
                    (case memfs_delete (vr_default r) path of
                       Inl e \<Rightarrow> (Inl e, r, d)
                     | Inr fs \<Rightarrow> (Inr (), r\<lparr>vr_default := fs\<rparr>, d)))))"

definition vfs_exists :: "'d disk_ops \<Rightarrow> vfs_path \<Rightarrow> vfs_router \<Rightarrow> 'd \<Rightarrow> bool" where
  "vfs_exists os path r d \<longleftrightarrow>
     (case route (vr_mounts r) (vfs_str path) of Some (p, rel) \<Rightarrow> lp_exists os d p rel | None \<Rightarrow> False) \<or>
     list_ex (\<lambda>(prefix, a). vfs_str path = prefix \<or>
        (starts_with (vfs_str path) (prefix @ ''/'') \<and> memfs_exists (vr_stores r a) path)) (vr_mem_mounts r) \<or>
     memfs_exists (vr_default r) path"

definition vfs_list :: "'d disk_ops \<Rightarrow> vfs_path \<Rightarrow> vfs_router \<Rightarrow> 'd \<Rightarrow> string list avix_result" where
  "vfs_list os dir r d =
     (case route (vr_mounts r) (vfs_str dir) of
        Some (p, rel) \<Rightarrow> lp_list os d p rel
      | None \<Rightarrow>
          (case mem_route r (vfs_str dir) of
             Some a \<Rightarrow> memfs_list (vr_stores r a) dir
           | None \<Rightarrow> memfs_list (vr_default r) dir))"

definition ensure_dir ::
  "'d disk_ops \<Rightarrow> vfs_path \<Rightarrow> vfs_router \<Rightarrow> 'd \<Rightarrow> unit avix_result \<times> vfs_router \<times> 'd" where
  "ensure_dir os path r d =
     (case vfs_path_parse (trim_end_char (CHR ''/'') (vfs_str path) @ ''/.keep'') of
        Inl e \<Rightarrow> (Inl (ConfigParse (error_display e)), r, d)
      | Inr keep \<Rightarrow>
          if vfs_exists os keep r d then (Inr (), r, d)
          else vfs_write os keep (bytes_of_string ''.keep'') r d)"

section \<open>Lemmas\<close>

interpretation mf: keyed_store "\<lambda>fs p. hm_get fs (vfs_str p)" "\<lambda>p b fs. memfs_write fs p b"
  "\<lambda>p fs. hm_remove (vfs_str p) fs" hm_wf
  by unfold_locales (auto simp: memfs_write_def vfs_path.expand)

lemma memfs_read_write [simp]:
  "memfs_read (memfs_write fs p b) q = (if q = p then Inr b else memfs_read fs q)"
  by (auto simp: memfs_read_def mf.get_put ok_or_def)

lemma vfs_path_parse_Inr:
  "vfs_path_parse s = Inr p \<longleftrightarrow> p = VfsPath s \<and> starts_with s ''/'' \<and> \<not> contains_str s ''..''"
  by (auto simp: vfs_path_parse_def)

text \<open>What \<^verbatim>\<open>list\<close> shows: the names directly below a directory.\<close>

definition dir_child :: "string \<Rightarrow> string \<Rightarrow> string \<Rightarrow> bool" where
  "dir_child dir name k \<longleftrightarrow> name \<noteq> [] \<and> CHR ''/'' \<notin> set name \<and>
     (k = dir @ ''/'' @ name \<or> starts_with k (dir @ ''/'' @ name @ ''/''))"

lemma first_segment_eq_iff:
  "first_segment c s = n \<longleftrightarrow> c \<notin> set n \<and> (s = n \<or> starts_with s (n @ [c]))"
proof
  assume n: "first_segment c s = n"
  have s: "s = takeWhile (\<lambda>x. x \<noteq> c) s @ dropWhile (\<lambda>x. x \<noteq> c) s" by simp
  have "c \<notin> set n" using n by (auto simp: first_segment_def dest: set_takeWhileD)
  moreover have "s = n \<or> starts_with s (n @ [c])"
  proof (cases "dropWhile (\<lambda>x. x \<noteq> c) s")
    case Nil
    then show ?thesis using n s by (metis append_Nil2 first_segment_def)
  next
    case (Cons y ys)
    then have "y = c" using hd_dropWhile [of "\<lambda>x. x \<noteq> c" s] by simp
    then have "s = (n @ [c]) @ ys" using n s Cons by (simp add: first_segment_def)
    then show ?thesis unfolding starts_with_iff by blast
  qed
  ultimately show "c \<notin> set n \<and> (s = n \<or> starts_with s (n @ [c]))" by simp
next
  assume "c \<notin> set n \<and> (s = n \<or> starts_with s (n @ [c]))"
  then show "first_segment c s = n"
    by (auto simp: first_segment_def starts_with_iff takeWhile_eq_all_conv takeWhile_tail)
qed

lemma dir_child_iff:
  "starts_with k (dir @ ''/'') \<and> first_segment (CHR ''/'') (drop (length (dir @ ''/'')) k) = n \<and> n \<noteq> [] \<longleftrightarrow>
   dir_child dir n k"
  by (auto simp: dir_child_def starts_with_iff first_segment_eq_iff)

text \<open>
  Directory listing.  Listing a directory of the in-memory tree gives exactly the names that
  stand directly below it, whether as a file or as the first component of a longer path, each
  once; and it answers ENOENT exactly when there is none.
\<close>

theorem memfs_list_children:
  "let dir = trim_end_char (CHR ''/'') (vfs_str p);
       names = {n. \<exists>k\<in>set (hm_keys fs). dir_child dir n k}
   in if names = {} then memfs_list fs p = Inl (ConfigParse (''ENOENT: '' @ vfs_str p))
      else \<exists>l. memfs_list fs p = Inr l \<and> set l = names \<and> distinct l"
proof -
  define dir where "dir = trim_end_char (CHR ''/'') (vfs_str p)"
  define seen where "seen = remdups (filter (\<lambda>n. n \<noteq> []) (map (\<lambda>k. first_segment (CHR ''/'') (drop (length (dir @ ''/'')) k))
      (filter (\<lambda>k. starts_with k (dir @ ''/'')) (hm_keys fs))))"
  have "n \<in> set seen \<longleftrightarrow> (\<exists>k\<in>set (hm_keys fs). dir_child dir n k)" for n
    unfolding seen_def dir_child_iff [symmetric] by auto
  then have names: "set seen = {n. \<exists>k\<in>set (hm_keys fs). dir_child dir n k}" by blast
  have list: "memfs_list fs p = (if seen = [] then Inl (enoent p) else Inr seen)"
    unfolding memfs_list_def Let_def dir_def seen_def by simp
  have "distinct seen" unfolding seen_def by simp
  then show ?thesis
    unfolding Let_def dir_def [symmetric] names [symmetric] list enoent_def by auto
qed

section \<open>Mounts\<close>

definition mounts_wf :: "(string \<times> 'p) list \<Rightarrow> bool" where
  "mounts_wf ms \<longleftrightarrow> sorted (map (\<lambda>(q, _). - int (length q)) ms) \<and> distinct (map fst ms)"

lemma mount_table_set:
  "set (mount_table prefix p ms) =
     insert (trim_end_char (CHR ''/'') prefix, p) {(q, r). (q, r) \<in> set ms \<and> q \<noteq> trim_end_char (CHR ''/'') prefix}"
  by (auto simp: mount_table_def Let_def)

lemma mount_table_wf: "mounts_wf ms \<Longrightarrow> mounts_wf (mount_table prefix p ms)"
proof -
  assume wf: "mounts_wf ms"
  define pre where "pre = trim_end_char (CHR ''/'') prefix"
  define xs where "xs = filter (\<lambda>(q, _). q \<noteq> pre) ms @ [(pre, p)]"
  have "distinct (map fst (filter (\<lambda>(q, _). q \<noteq> pre) ms))"
    using wf by (simp add: mounts_wf_def distinct_map_filter)
  then have "distinct (map fst xs)" by (auto simp: xs_def)
  moreover have "mset (map fst (sort_key (\<lambda>(q, _). - int (length q)) xs)) = mset (map fst xs)"
    by simp
  ultimately have "distinct (map fst (sort_key (\<lambda>(q, _). - int (length q)) xs))"
    using mset_eq_imp_distinct_iff by blast
  then show ?thesis
    by (simp add: mounts_wf_def mount_table_def Let_def xs_def pre_def)
qed

lemma route_eq_None: "route ms path = None \<longleftrightarrow> (\<forall>(q, p)\<in>set ms. \<not> covers q path)"
  by (induction ms path rule: route.induct) auto

lemma route_member: "route ms path = Some (p, rel) \<Longrightarrow> \<exists>q. (q, p) \<in> set ms"
  by (induction ms path rule: route.induct) (auto split: if_splits)

lemma route_Some_longest:
  "mounts_wf ms \<Longrightarrow> route ms path = Some (p, rel) \<Longrightarrow>
   \<exists>q. (q, p) \<in> set ms \<and> covers q path \<and> rel = trim_start_char (CHR ''/'') (drop (length q) path) \<and>
       (\<forall>(q', p')\<in>set ms. covers q' path \<longrightarrow> length q' \<le> length q)"
proof (induction ms path rule: route.induct)
  case (2 q p' ms path)
  show ?case
  proof (cases "covers q path")
    case True
    moreover have "\<forall>(q', p'')\<in>set ms. length q' \<le> length q"
      using "2.prems"(1) by (auto simp: mounts_wf_def)
    ultimately show ?thesis using "2.prems"(2) by (intro exI [of _ q]) auto
  next
    case False
    moreover have "mounts_wf ms" using "2.prems"(1) by (simp add: mounts_wf_def)
    ultimately obtain q2 where "(q2, p) \<in> set ms" "covers q2 path"
      "rel = trim_start_char (CHR ''/'') (drop (length q2) path)"
      "\<forall>(q', p')\<in>set ms. covers q' path \<longrightarrow> length q' \<le> length q2"
      using "2.IH" "2.prems"(2) by auto
    with False show ?thesis by (intro exI [of _ q2]) auto
  qed
qed simp

text \<open>The mount tables a router can have: any sequence of \<^verbatim>\<open>mount\<close> calls.\<close>

definition mounts_of :: "(string \<times> local_provider) list \<Rightarrow> vfs_router" where
  "mounts_of calls = fold (\<lambda>(prefix, p). mount prefix p) calls vr_new"

lemma mounts_of_wf: "mounts_wf (vr_mounts (mounts_of calls))"
proof -
  have "mounts_wf (vr_mounts r) \<Longrightarrow> mounts_wf (vr_mounts (fold (\<lambda>(prefix, p). mount prefix p) calls r))" for r
  proof (induction calls arbitrary: r)
    case (Cons c calls)
    then show ?case by (cases c) (simp add: mount_def mount_table_wf)
  qed simp
  then show ?thesis by (simp add: mounts_of_def vr_new_def mounts_wf_def)
qed

text \<open>
  Longest-prefix routing.  After any sequence of mount calls, a path is routed to a disk
  provider exactly when some mounted prefix covers it (equals it or is followed by a slash in it),
  and then to the provider of the longest such prefix, with the rest of the path; so a nested
  mount always shadows the outer one, whatever the order the mounts were made in.
\<close>

theorem vfs_route_longest_prefix:
  fixes calls :: "(string \<times> local_provider) list"
  defines "ms \<equiv> vr_mounts (mounts_of calls)"
  shows "case route ms path of
      None \<Rightarrow> {q. \<exists>p. (q, p) \<in> set ms \<and> covers q path} = {}
    | Some (p, rel) \<Rightarrow> \<exists>q. (q, p) \<in> set ms \<and> covers q path \<and>
        rel = trim_start_char (CHR ''/'') (drop (length q) path) \<and>
        length q = Max (length ` {q'. \<exists>p'. (q', p') \<in> set ms \<and> covers q' path})"
proof (cases "route ms path")
  case None
  then have "\<forall>(q, p)\<in>set ms. \<not> covers q path" by (simp add: route_eq_None)
  then show ?thesis using None by auto
next
  case (Some x)
  obtain p rel where x: "x = (p, rel)" by fastforce
  from route_Some_longest [OF mounts_of_wf, of calls path p rel] Some
  obtain q where q: "(q, p) \<in> set ms" "covers q path" "rel = trim_start_char (CHR ''/'') (drop (length q) path)"
    "\<forall>(q', p')\<in>set ms. covers q' path \<longrightarrow> length q' \<le> length q" unfolding ms_def x by blast
  let ?S = "{q'. \<exists>p'. (q', p') \<in> set ms \<and> covers q' path}"
  have "finite ?S" by (rule finite_subset [of _ "fst ` set ms"]) (auto intro: rev_image_eqI)
  then have "Max (length ` ?S) = length q" using q by (intro Max_eqI) auto
  with q show ?thesis unfolding Some x by auto
qed

section \<open>Confinement of disk accesses\<close>

lemma resolve_path_confined:
  assumes "resolve_path lp rel = Inr path"
  shows "\<exists>suffix. path = path_join (lp_root lp) suffix \<and> ''..'' \<notin> set (split_char (CHR ''/'') suffix)"
proof -
  let ?s = "trim_start_char (CHR ''/'') rel"
  have "path = path_join (lp_root lp) ?s" and no: "\<not> contains_str ?s ''..''"
    using assms by (auto simp: resolve_path_def Let_def split: if_splits)
  moreover from no have "''..'' \<notin> set (split_char (CHR ''/'') ?s)" using split_char_parts by blast
  ultimately show ?thesis by blast
qed

text \<open>The disk paths an operation of the router may touch, as a monitor over the disk operations.\<close>

definition confined_to :: "string \<Rightarrow> string \<Rightarrow> bool" where
  "confined_to root path \<longleftrightarrow> (\<exists>suffix. path = path_join root suffix \<and> ''..'' \<notin> set (split_char (CHR ''/'') suffix))"

definition disk_agree :: "(string \<Rightarrow> bool) \<Rightarrow> 'd disk_ops \<Rightarrow> 'd disk_ops \<Rightarrow> bool" where
  "disk_agree P a b \<longleftrightarrow>
     (\<forall>path. P path \<longrightarrow> (\<forall>d. (\<forall>up. path_parent path = Some up \<longrightarrow> do_create_dir_all a d up = do_create_dir_all b d up) \<and>
        do_read a d path = do_read b d path \<and> do_remove a d path = do_remove b d path \<and>
        do_exists a d path = do_exists b d path \<and> do_read_dir a d path = do_read_dir b d path \<and>
        (\<forall>c. do_write a d path c = do_write b d path c)))"

text \<open>
  C10. Disk accesses stay below the mounted roots.  Reading, writing, deleting and listing
  through the router depend only on what the disk does at paths made of the root of a mounted
  provider and a suffix without a \<^verbatim>\<open>..\<close> segment: two disks that agree on those paths cannot be
  told apart, whatever path string the caller passes (directories are created at the parents of
  such paths only).
\<close>

theorem vfs_disk_confinement:
  assumes "disk_agree (\<lambda>path. \<exists>(q, p)\<in>set (vr_mounts r). confined_to (lp_root p) path) a b"
  shows "vfs_read yaml a path r d = vfs_read yaml b path r d \<and>
    vfs_write a path content r d = vfs_write b path content r d \<and>
    vfs_delete a path r d = vfs_delete b path r d \<and>
    vfs_list a path r d = vfs_list b path r d \<and> vfs_exists a path r d = vfs_exists b path r d"
proof -
  have lazy: "vr_mounts (lazy_populate yaml path r) = vr_mounts r"
    by (simp add: lazy_populate_def Let_def set_store_def split: option.splits)
  have ops: "(\<forall>up. path_parent f = Some up \<longrightarrow> do_create_dir_all a d up = do_create_dir_all b d up) \<and> do_read a d f = do_read b d f \<and> do_remove a d f = do_remove b d f \<and>
      do_exists a d f = do_exists b d f \<and> do_read_dir a d f = do_read_dir b d f \<and> do_write a d f c = do_write b d f c"
    if rt: "route (vr_mounts r) s = Some (p, rel)" and rp: "resolve_path p rel = Inr f" for s p rel f d c
  proof -
    obtain q where "(q, p) \<in> set (vr_mounts r)" using route_member [OF rt] by blast
    moreover have "confined_to (lp_root p) f" unfolding confined_to_def by (rule resolve_path_confined [OF rp])
    ultimately have "\<exists>(q, p)\<in>set (vr_mounts r). confined_to (lp_root p) f" by blast
    with assms show ?thesis by (simp add: disk_agree_def)
  qed
  have lp: "lp_read a d p rel = lp_read b d p rel \<and> lp_write a d p rel content = lp_write b d p rel content \<and>
      lp_delete a d p rel = lp_delete b d p rel \<and> lp_list a d p rel = lp_list b d p rel \<and>
      lp_exists a d p rel = lp_exists b d p rel" if rt: "route (vr_mounts r) s = Some (p, rel)" for s p rel
  proof (cases "resolve_path p rel")
    case (Inr f)
    from ops [OF rt Inr] show ?thesis
      by (cases "path_parent f")
        (simp_all add: lp_read_def lp_write_def lp_delete_def lp_list_def lp_exists_def Inr cong: sum.case_cong)
  qed (simp add: lp_read_def lp_write_def lp_delete_def lp_list_def lp_exists_def)
  show ?thesis
  proof (cases "route (vr_mounts r) (vfs_str path)")
    case (Some x)
    obtain p rel where x: "x = (p, rel)" by fastforce
    with Some lp [of "vfs_str path" p rel] show ?thesis
      by (simp add: vfs_read_def vfs_write_def vfs_delete_def vfs_list_def vfs_exists_def Let_def lazy
          cong: option.case_cong)
  qed (simp add: vfs_read_def vfs_write_def vfs_delete_def vfs_list_def vfs_exists_def Let_def lazy cong: option.case_cong)
qed

definition demo_disk :: "bytes \<Rightarrow> unit disk_ops" where
  "demo_disk secret =
     \<lparr> do_read = (\<lambda>_ f. if f = ''/etc/shadow'' then Inr secret else Inr []), do_create_dir_all = (\<lambda>d _. Inr d),
       do_write = (\<lambda>d _ _. Inr d), do_remove = (\<lambda>d _. Inr d), do_exists = (\<lambda>_ _. True), do_read_dir = (\<lambda>_ _. Inr []) \<rparr>"

theorem vfs_disk_confinement_witness:
  "fst (vfs_read (\<lambda>_. []) (demo_disk [1]) (VfsPath ''/data/../etc/shadow'') (mount ''/data'' \<lparr> lp_root = ''/srv'' \<rparr> vr_new) ()) =
   fst (vfs_read (\<lambda>_. []) (demo_disk [2]) (VfsPath ''/data/../etc/shadow'') (mount ''/data'' \<lparr> lp_root = ''/srv'' \<rparr> vr_new) ())"
proof -
  have "disk_agree (\<lambda>path. \<exists>(q, p)\<in>set (vr_mounts (mount ''/data'' \<lparr> lp_root = ''/srv'' \<rparr> vr_new)).
      confined_to (lp_root p) path) (demo_disk [1]) (demo_disk [2])"
    by (auto simp: disk_agree_def mount_def mount_table_set vr_new_def confined_to_def demo_disk_def path_join_def)
  from conjunct1 [OF vfs_disk_confinement [OF this]] show ?thesis by (rule arg_cong)
qed

section \<open>Permissions\<close>

lemma for_path_default [simp]: "for_path p = vfs_permissions_default"
  by (simp add: for_path_def)

lemma can_read_always: "can_read (for_path path) c"
  by (auto simp: can_read_def effective_for_def vfs_permissions_default_def)

text \<open>
  What the permission check of the file system decides.  Whatever the path, every caller may
  read it, and a caller may write or delete it exactly when it is an administrator, or its user
  name is the permission string \<^verbatim>\<open>rwx\<close>, or one of its crews is named \<^verbatim>\<open>rw-\<close>: the owner and crew
  fields of the permissions hold permission strings but are compared with names, so no ordinary
  user may write any file, not even its own.
\<close>

theorem vfs_permission_check:
  "can_read (for_path path) c \<and>
   (can_write (for_path path) c \<longleftrightarrow> vc_is_admin c \<or> vc_username c = ''rwx'' \<or> ''rw-'' \<in> set (vc_crews c))"
  by (auto simp: can_read_def can_write_def effective_for_def vfs_permissions_default_def)

lemma lazy_populate_elsewhere [simp]:
  "\<not> starts_with (vfs_str p) ''/tools'' \<Longrightarrow> lazy_populate yaml p r = r"
  by (simp add: lazy_populate_def)

lemma vfs_read_elsewhere:
  "\<not> starts_with (vfs_str p) ''/tools'' \<Longrightarrow> fst (vfs_read yaml os p r d) =
     (case refused ''read'' can_read r p of
        Some e \<Rightarrow> Inl e
      | None \<Rightarrow>
          (case route (vr_mounts r) (vfs_str p) of
             Some (lp, rel) \<Rightarrow> lp_read os d lp rel
           | None \<Rightarrow>
               (case mem_route r (vfs_str p) of
                  Some a \<Rightarrow> memfs_read (vr_stores r a) p
                | None \<Rightarrow> memfs_read (vr_default r) p)))"
  by (simp add: vfs_read_def Let_def split: option.splits)

text \<open>
  Writing and reading back through the router.  When no disk mount covers the path and the
  caller may write it, the write succeeds without touching the disk, reading the path gives the
  written content, and every other path still reads as it did (the lazily generated tree below
  \<^verbatim>\<open>/tools\<close> apart).
\<close>

theorem vfs_write_read_back:
  assumes "route (vr_mounts r) (vfs_str p) = None" and "refused ''write'' can_write r p = None"
    and "\<not> starts_with (vfs_str p) ''/tools''" and "vfs_write os p c r d = (res, r', d')"
  shows "res = Inr () \<and> d' = d \<and> fst (vfs_read yaml os p r' d') = Inr c \<and>
    (\<forall>q. q \<noteq> p \<and> \<not> starts_with (vfs_str q) ''/tools'' \<longrightarrow>
       fst (vfs_read yaml os q r' d') = fst (vfs_read yaml os q r d))"
proof -
  have readable: "refused ''read'' can_read r q = None" for q
    using can_read_always by (auto simp: refused_def split: option.splits)
  show ?thesis
  proof (cases "mem_route r (vfs_str p)")
    case None
    with assms(1,2,4) have "res = Inr ()" "d' = d" "r' = r\<lparr>vr_default := memfs_write (vr_default r) p c\<rparr>"
      by (auto simp: vfs_write_def)
    moreover have "refused ''read'' can_read r' q = None" "mem_route r' x = mem_route r x" for q x
      using calculation readable [of q] by (simp_all add: refused_def mem_route_def)
    ultimately show ?thesis
      using assms(1,3) None by (auto simp: vfs_read_elsewhere readable split: option.splits)
  next
    case (Some a)
    with assms(1,2,4) have "res = Inr ()" "d' = d" "r' = set_store a (memfs_write (vr_stores r a) p c) r"
      by (auto simp: vfs_write_def)
    moreover have "refused ''read'' can_read r' q = None" "mem_route r' x = mem_route r x"
      "vr_mounts r' = vr_mounts r" "vr_default r' = vr_default r" for q x
      using calculation readable [of q] by (simp_all add: refused_def mem_route_def set_store_def)
    ultimately show ?thesis
      using assms(1,3) Some
      by (auto simp: vfs_read_elsewhere readable split: option.splits) (auto simp: set_store_def)
  qed
qed

theorem vfs_write_read_back_witness:
  "fst (vfs_read (\<lambda>_. []) (demo_disk []) (VfsPath ''/tmp/a'')
      (fst (snd (vfs_write (demo_disk []) (VfsPath ''/tmp/a'') [1, 2] vr_new ()))) ()) = Inr [1, 2]"
proof -
  have "route (vr_mounts vr_new) (vfs_str (VfsPath ''/tmp/a'')) = None"
    "refused ''write'' can_write vr_new (VfsPath ''/tmp/a'') = None"
    "\<not> starts_with (vfs_str (VfsPath ''/tmp/a'')) ''/tools''"
    by (simp_all add: vr_new_def refused_def)
  from vfs_write_read_back [OF this, of "demo_disk []" "[1, 2]" "()"] show ?thesis
    by (metis prod.collapse)
qed

end
