(* ===== verification/Auth.thy ===== *)
theory Auth
  imports Types_Core
begin

text \<open>
  Authentication: \<^verbatim>\<open>src/crates/avix-core/src/auth\<close> (\<^verbatim>\<open>validate.rs\<close>, \<^verbatim>\<open>session.rs\<close>,
  \<^verbatim>\<open>service.rs\<close>, \<^verbatim>\<open>atp_token.rs\<close>) and \<^verbatim>\<open>config/auth.rs\<close>.  HMAC-SHA256, hex,
  base64 and the JSON codec of the claims are the parameter record \<open>token_codec\<close>; random
  session identifiers and the clock are arguments.
\<close>

abbreviation one_second :: int where "one_second \<equiv> 1000000000"

section \<open>Configuration and credentials\<close>

datatype credential_type = ApiKey string "string option" | Password string

record auth_identity =
  ai_name :: string
  ai_uid :: u32
  ai_role :: role
  ai_credential :: credential_type

record auth_policy =
  ap_session_ttl :: string
  ap_require_tls :: bool

record auth_config =
  ac_api_version :: string
  ac_kind :: string
  ac_policy :: auth_policy
  ac_identities :: "auth_identity list"

definition auth_config_validate :: "auth_config \<Rightarrow> unit avix_result" where
  "auth_config_validate cfg =
     (if ac_identities cfg = [] then Inl (ConfigParse ''identities must not be empty'')
      else if \<not> list_ex (\<lambda>i. ai_role i = Admin) (ac_identities cfg)
      then Inl (ConfigParse ''at least one identity must have role: admin'')
      else Inr ())"

record atp_token_claims =
  tk_sub :: string
  tk_uid :: u32
  tk_role :: role
  tk_crews :: "string list"
  tk_session_id :: string
  tk_iat :: datetime
  tk_exp :: datetime
  tk_scope :: "string list"

record token_codec =
  tc_hmac :: "string \<Rightarrow> string \<Rightarrow> string"
  tc_hex_decode :: "string \<Rightarrow> string option"
  tc_hmac_raw :: "string \<Rightarrow> string \<Rightarrow> string"
  tc_b64_encode :: "string \<Rightarrow> string"
  tc_b64_decode :: "string \<Rightarrow> string + string"
  tc_to_json :: "atp_token_claims \<Rightarrow> string + string"
  tc_from_json :: "string \<Rightarrow> string + atp_token_claims"

definition verify_api_key :: "token_codec \<Rightarrow> string \<Rightarrow> string \<Rightarrow> bool" where
  "verify_api_key c key_hash presented =
     (if starts_with key_hash ''hmac-sha256:'' then
        (case tc_hex_decode c (drop (length ''hmac-sha256:'') key_hash) of
           None \<Rightarrow> False
         | Some stored \<Rightarrow> tc_hmac_raw c ''config-init-secret'' presented = stored)
      else False)"

definition validate_credential :: "token_codec \<Rightarrow> credential_type \<Rightarrow> string \<Rightarrow> bool" where
  "validate_credential c cred presented =
     (case cred of
        ApiKey key_hash _ \<Rightarrow> verify_api_key c key_hash presented
      | Password _ \<Rightarrow> presented \<noteq> [])"

section \<open>Sessions\<close>

datatype session_state = SessActive | SessIdle | SessClosed

record session_entry =
  se_session_id :: string
  se_identity_name :: string
  se_uid :: u32
  se_role :: role
  se_crews :: "string list"
  se_scope :: "string list"
  se_state :: session_state
  se_connected_at :: datetime
  se_last_activity_at :: datetime
  se_idle_since :: "datetime option"
  se_closed_at :: "datetime option"
  se_closed_reason :: "string option"
  se_agents :: "pid list"
  se_ttl :: int

definition session_is_expired :: "datetime \<Rightarrow> session_entry \<Rightarrow> bool" where
  "session_is_expired now s \<longleftrightarrow> se_ttl s < max 0 (now - se_connected_at s)"

definition mark_idle :: "datetime \<Rightarrow> session_entry \<Rightarrow> session_entry" where
  "mark_idle now s = s\<lparr>se_state := SessIdle, se_idle_since := Some now\<rparr>"

definition mark_active :: "datetime \<Rightarrow> session_entry \<Rightarrow> session_entry" where
  "mark_active now s = s\<lparr>se_state := SessActive, se_idle_since := None, se_last_activity_at := now\<rparr>"

definition mark_closed :: "datetime \<Rightarrow> string \<Rightarrow> session_entry \<Rightarrow> session_entry" where
  "mark_closed now reason s = s\<lparr>se_state := SessClosed, se_closed_at := Some now, se_closed_reason := Some reason\<rparr>"

definition grace_expired :: "datetime \<Rightarrow> session_entry \<Rightarrow> bool" where
  "grace_expired now s = (case se_idle_since s of Some t \<Rightarrow> 60 * one_second < now - t | None \<Rightarrow> False)"

section \<open>Tokens\<close>

definition claims_is_expired :: "datetime \<Rightarrow> atp_token_claims \<Rightarrow> bool" where
  "claims_is_expired now c \<longleftrightarrow> tk_exp c < now"

definition claims_is_expiring_soon :: "datetime \<Rightarrow> atp_token_claims \<Rightarrow> bool" where
  "claims_is_expiring_soon now c \<longleftrightarrow>
     (let remaining = tk_exp c - now in remaining < 300 * one_second \<and> 0 < remaining)"

definition atp_token_issue :: "token_codec \<Rightarrow> string \<Rightarrow> atp_token_claims \<Rightarrow> string avix_result" where
  "atp_token_issue c secret claims =
     (case tc_to_json c claims of
        Inl e \<Rightarrow> Inl (ConfigParse e)
      | Inr js \<Rightarrow>
          (let payload = tc_b64_encode c js
           in Inr (payload @ ''.'' @ tc_hmac c secret payload)))"

definition atp_token_validate :: "token_codec \<Rightarrow> string \<Rightarrow> datetime \<Rightarrow> string \<Rightarrow> atp_token_claims avix_result" where
  "atp_token_validate c secret now token =
     (case split_once (CHR ''.'') token of
        None \<Rightarrow> Inl (CapabilityDenied ''invalid token format'')
      | Some (payload, sig) \<Rightarrow>
          if sig \<noteq> tc_hmac c secret payload then Inl (CapabilityDenied ''invalid token signature'')
          else (case tc_b64_decode c payload of
                  Inl e \<Rightarrow> Inl (CapabilityDenied e)
                | Inr bytes \<Rightarrow>
                    (case tc_from_json c bytes of
                       Inl e \<Rightarrow> Inl (ConfigParse e)
                     | Inr claims \<Rightarrow>
                         if claims_is_expired now claims then Inl (CapabilityDenied ''token expired'')
                         else Inr claims)))"

record atp_token_store =
  ts_secret :: string
  ts_revoked :: "string set"

definition token_store_new :: "string \<Rightarrow> atp_token_store" where
  "token_store_new secret = \<lparr> ts_secret = secret, ts_revoked = {} \<rparr>"

definition token_store_issue :: "token_codec \<Rightarrow> atp_token_store \<Rightarrow> atp_token_claims \<Rightarrow> string avix_result" where
  "token_store_issue c st claims = atp_token_issue c (ts_secret st) claims"

definition token_store_validate ::
  "token_codec \<Rightarrow> datetime \<Rightarrow> atp_token_store \<Rightarrow> string \<Rightarrow> atp_token_claims avix_result" where
  "token_store_validate c now st token =
     (case atp_token_validate c (ts_secret st) now token of
        Inl e \<Rightarrow> Inl e
      | Inr claims \<Rightarrow>
          if tk_session_id claims \<in> ts_revoked st then Inl (CapabilityDenied ''token revoked'') else Inr claims)"

definition token_store_revoke :: "string \<Rightarrow> atp_token_store \<Rightarrow> atp_token_store" where
  "token_store_revoke sid st = st\<lparr>ts_revoked := insert sid (ts_revoked st)\<rparr>"

definition token_store_expiring_soon ::
  "token_codec \<Rightarrow> datetime \<Rightarrow> atp_token_store \<Rightarrow> string \<Rightarrow> bool avix_result" where
  "token_store_expiring_soon c now st token =
     map_sum id (claims_is_expiring_soon now) (token_store_validate c now st token)"

section \<open>The authentication service\<close>

record auth_service =
  as_config :: auth_config
  as_sessions :: "(string, session_entry) hmap"
  as_ttl :: int

definition auth_service_new_with_ttl :: "auth_config \<Rightarrow> int \<Rightarrow> auth_service" where
  "auth_service_new_with_ttl cfg ttl = \<lparr> as_config = cfg, as_sessions = [], as_ttl = ttl \<rparr>"

definition auth_service_new :: "auth_config \<Rightarrow> auth_service" where
  "auth_service_new cfg = auth_service_new_with_ttl cfg (3600 * one_second)"

definition login ::
  "token_codec \<Rightarrow> datetime \<Rightarrow> string \<Rightarrow> string \<Rightarrow> string \<Rightarrow> auth_service \<Rightarrow> (session_entry \<times> auth_service) avix_result" where
  "login c now uuid name credential s =
     (case find (\<lambda>i. ai_name i = name) (ac_identities (as_config s)) of
        None \<Rightarrow> Inl (CapabilityDenied (''unknown identity: '' @ name))
      | Some i \<Rightarrow>
          if \<not> validate_credential c (ai_credential i) credential
          then Inl (CapabilityDenied ''invalid credential'')
          else (let e = \<lparr> se_session_id = uuid, se_identity_name = ai_name i, se_uid = ai_uid i, se_role = ai_role i,
                          se_crews = [], se_scope = [''proc'', ''signal'', ''fs'', ''snap'', ''cron''],
                          se_state = SessActive, se_connected_at = now, se_last_activity_at = now,
                          se_idle_since = None, se_closed_at = None, se_closed_reason = None,
                          se_agents = [], se_ttl = as_ttl s \<rparr>
                in Inr (e, s\<lparr>as_sessions := hm_insert uuid e (as_sessions s)\<rparr>)))"

definition validate_session :: "datetime \<Rightarrow> auth_service \<Rightarrow> string \<Rightarrow> session_entry avix_result" where
  "validate_session now s sid =
     (case hm_get (as_sessions s) sid of
        None \<Rightarrow> Inl (CapabilityDenied ''invalid session'')
      | Some e \<Rightarrow> if session_is_expired now e then Inl (CapabilityDenied ''session expired'') else Inr e)"

definition revoke_session :: "string \<Rightarrow> auth_service \<Rightarrow> auth_service avix_result" where
  "revoke_session sid s =
     (case hm_get (as_sessions s) sid of
        None \<Rightarrow> Inl (CapabilityDenied ''session not found'')
      | Some _ \<Rightarrow> Inr (s\<lparr>as_sessions := hm_remove sid (as_sessions s)\<rparr>))"

definition active_session_count :: "auth_service \<Rightarrow> nat" where
  "active_session_count s = length (as_sessions s)"

definition refresh_token ::
  "token_codec \<Rightarrow> datetime \<Rightarrow> atp_token_store \<Rightarrow> string \<Rightarrow> auth_service \<Rightarrow> (string \<times> atp_token_claims) avix_result" where
  "refresh_token c now st old s =
     (case token_store_validate c now st old of
        Inl e \<Rightarrow> Inl e
      | Inr claims \<Rightarrow>
          (case validate_session now s (tk_session_id claims) of
             Inl e \<Rightarrow> Inl e
           | Inr _ \<Rightarrow>
               (let claims' = claims\<lparr>tk_iat := now, tk_exp := now + 8 * 3600 * one_second\<rparr>
                in map_sum id (\<lambda>t. (t, claims')) (token_store_issue c st claims'))))"

section \<open>Lemmas\<close>

text \<open>What the code relies on of its codecs, for one claims value: JSON and base64 read back what
  they write, and base64url without padding uses no dot.\<close>

definition codec_ok :: "token_codec \<Rightarrow> atp_token_claims \<Rightarrow> bool" where
  "codec_ok c claims \<longleftrightarrow> (\<exists>js. tc_to_json c claims = Inr js \<and> tc_from_json c js = Inr claims \<and>
     tc_b64_decode c (tc_b64_encode c js) = Inr js \<and> CHR ''.'' \<notin> set (tc_b64_encode c js))"

lemma split_once_at: "c \<notin> set a \<Longrightarrow> split_once c (a @ c # b) = Some (a, b)"
  by (induction a) (auto simp: split_once_def)

lemma atp_token_roundtrip:
  assumes "codec_ok c claims" and "\<not> claims_is_expired now claims"
  shows "\<exists>t. atp_token_issue c secret claims = Inr t \<and> atp_token_validate c secret now t = Inr claims"
proof -
  obtain js where js: "tc_to_json c claims = Inr js" "tc_from_json c js = Inr claims"
    "tc_b64_decode c (tc_b64_encode c js) = Inr js" and dot: "CHR ''.'' \<notin> set (tc_b64_encode c js)"
    using assms(1) by (auto simp: codec_ok_def)
  show ?thesis
    using js assms(2) split_once_at [OF dot]
    by (simp add: atp_token_issue_def atp_token_validate_def Let_def)
qed

lemma atp_token_validate_Inr:
  "atp_token_validate c secret now t = Inr claims \<longleftrightarrow>
     (\<exists>payload bytes. split_once (CHR ''.'') t = Some (payload, tc_hmac c secret payload) \<and>
        tc_b64_decode c payload = Inr bytes \<and> tc_from_json c bytes = Inr claims \<and> now \<le> tk_exp claims)"
  by (auto simp: atp_token_validate_def claims_is_expired_def split: option.splits sum.splits if_splits)

text \<open>
  Session tokens.  A token that the store issues validates to the claims it was issued for
  until it expires, as long as its session is not revoked; once the session is revoked no token
  carrying it, issued before or after, validates again, while tokens of other sessions are not
  affected.
\<close>

theorem token_issue_validate_revoke:
  assumes "codec_ok c claims" and "now \<le> tk_exp claims"
  shows "\<exists>t. token_store_issue c st claims = Inr t \<and>
      (tk_session_id claims \<notin> ts_revoked st \<longrightarrow> token_store_validate c now st t = Inr claims) \<and>
      token_store_validate c now (token_store_revoke (tk_session_id claims) st) t =
        Inl (CapabilityDenied ''token revoked'') \<and>
      (\<forall>sid u x. sid \<noteq> tk_session_id x \<longrightarrow> token_store_validate c now st u = Inr x \<longrightarrow>
         token_store_validate c now (token_store_revoke sid st) u = Inr x)"
proof -
  obtain t where t: "atp_token_issue c (ts_secret st) claims = Inr t"
    "atp_token_validate c (ts_secret st) now t = Inr claims"
    using atp_token_roundtrip [OF assms(1), of now] assms(2) by (auto simp: claims_is_expired_def)
  show ?thesis
    using t by (auto simp: token_store_issue_def token_store_validate_def token_store_revoke_def
        split: sum.splits if_splits)
qed

definition demo_claims :: atp_token_claims where
  "demo_claims = \<lparr> tk_sub = ''ann'', tk_uid = 1001, tk_role = User, tk_crews = [], tk_session_id = ''s1'',
     tk_iat = 0, tk_exp = 100, tk_scope = [] \<rparr>"

definition demo_refreshed :: atp_token_claims where
  "demo_refreshed = demo_claims\<lparr>tk_iat := 50, tk_exp := 50 + 8 * 3600 * one_second\<rparr>"

definition demo_codec :: token_codec where
  "demo_codec = \<lparr> tc_hmac = (\<lambda>k p. k @ p), tc_hex_decode = Some, tc_hmac_raw = (\<lambda>k p. k @ p),
     tc_b64_encode = id, tc_b64_decode = Inr,
     tc_to_json = (\<lambda>c. Inr (if tk_iat c = 0 then ''ann'' else ''new'')),
     tc_from_json = (\<lambda>s. if s = ''ann'' then Inr demo_claims else Inr demo_refreshed) \<rparr>"

lemma demo_codec_ok: "codec_ok demo_codec demo_claims" "codec_ok demo_codec demo_refreshed"
  by (simp_all add: codec_ok_def demo_codec_def demo_claims_def demo_refreshed_def)

theorem token_issue_validate_revoke_witness:
  "\<exists>t. token_store_issue demo_codec (token_store_new ''k'') demo_claims = Inr t \<and>
     token_store_validate demo_codec 50 (token_store_new ''k'') t = Inr demo_claims \<and>
     token_store_validate demo_codec 50 (token_store_revoke ''s1'' (token_store_new ''k'')) t =
       Inl (CapabilityDenied ''token revoked'')"
  using token_issue_validate_revoke [OF demo_codec_ok(1), of 50 "token_store_new ''k''"]
  by (auto simp: demo_claims_def token_store_new_def)

text \<open>
  Token refresh gives no new rights.  A refresh succeeds only for a token that still
  validates and whose session is still known and live; the new claims differ from the old ones
  in the issue and expiry times alone (same user, role, crews, scope and session), and with a
  correct codec the new token validates to them for the next eight hours.
\<close>

theorem refresh_token_safe:
  assumes "refresh_token c now st old s = Inr (t, claims')" and "codec_ok c claims'"
  shows "\<exists>claims e. token_store_validate c now st old = Inr claims \<and>
      validate_session now s (tk_session_id claims) = Inr e \<and>
      claims' = claims\<lparr>tk_iat := now, tk_exp := now + 8 * 3600 * one_second\<rparr> \<and>
      (\<forall>later. later \<le> now + 8 * 3600 * one_second \<longrightarrow> token_store_validate c later st t = Inr claims')"
proof -
  obtain claims e where v: "token_store_validate c now st old = Inr claims"
    and vs: "validate_session now s (tk_session_id claims) = Inr e"
    and c': "claims' = claims\<lparr>tk_iat := now, tk_exp := now + 8 * 3600 * one_second\<rparr>"
    and t: "atp_token_issue c (ts_secret st) claims' = Inr t"
    using assms(1)
    by (cases "token_store_issue c st ((case token_store_validate c now st old of Inr x \<Rightarrow> x)
          \<lparr>tk_iat := now, tk_exp := now + 8 * 3600 * one_second\<rparr>)")
       (auto simp: refresh_token_def token_store_issue_def Let_def split: sum.splits)
  have notrev: "tk_session_id claims' \<notin> ts_revoked st"
    using v by (auto simp: c' token_store_validate_def split: sum.splits if_splits)
  have "token_store_validate c later st t = Inr claims'" if "later \<le> now + 8 * 3600 * one_second" for later
    using atp_token_roundtrip [OF assms(2), of later "ts_secret st"] that t notrev
    by (auto simp: claims_is_expired_def c' token_store_validate_def)
  with v vs c' show ?thesis by blast
qed

definition demo_auth :: "int \<Rightarrow> auth_service" where
  "demo_auth ttl = auth_service_new_with_ttl
     \<lparr> ac_api_version = ''v1'', ac_kind = ''AuthConfig'',
       ac_policy = \<lparr> ap_session_ttl = ''8h'', ap_require_tls = False \<rparr>,
       ac_identities = [\<lparr> ai_name = ''ann'', ai_uid = 1001, ai_role = User, ai_credential = Password [] \<rparr>] \<rparr> ttl"

theorem refresh_token_safe_witness:
  "token_store_validate demo_codec (50 + 8 * 3600 * one_second) (token_store_new ''k'') ''new.knew'' = Inr demo_refreshed"
proof -
  obtain e s where s: "login demo_codec 10 ''s1'' ''ann'' ''pw'' (demo_auth 1000) = Inr (e, s)"
    by (simp add: login_def demo_auth_def auth_service_new_with_ttl_def validate_credential_def Let_def)
  have "validate_session 50 s ''s1'' = Inr e"
    using s by (auto simp: login_def demo_auth_def auth_service_new_with_ttl_def validate_credential_def Let_def
        validate_session_def session_is_expired_def)
  then have "refresh_token demo_codec 50 (token_store_new ''k'') ''ann.kann'' s = Inr (''new.knew'', demo_refreshed)"
    by (simp add: refresh_token_def token_store_validate_def atp_token_validate_def split_once_def
        token_store_new_def demo_codec_def demo_claims_def demo_refreshed_def claims_is_expired_def
        token_store_issue_def atp_token_issue_def)
  from refresh_token_safe [OF this demo_codec_ok(2)] show ?thesis by (metis order_refl)
qed

section \<open>Sessions over time\<close>

datatype auth_op = OpLogin datetime string string string | OpRevoke string

fun auth_step :: "token_codec \<Rightarrow> auth_service \<Rightarrow> auth_op \<Rightarrow> auth_service" where
  "auth_step c s (OpLogin now uuid name cred) =
     (case login c now uuid name cred s of Inl _ \<Rightarrow> s | Inr (e, s') \<Rightarrow> s')"
| "auth_step c s (OpRevoke sid) = (case revoke_session sid s of Inl _ \<Rightarrow> s | Inr s' \<Rightarrow> s')"

lemma auth_step_config [simp]: "as_config (auth_step c s op) = as_config s" "as_ttl (auth_step c s op) = as_ttl s"
  by (cases op; auto simp: login_def revoke_session_def Let_def split: option.splits sum.splits)+

lemma auth_run_config [simp]:
  "as_config (run_events (auth_step c) s ops) = as_config s" "as_ttl (run_events (auth_step c) s ops) = as_ttl s"
  by (induction ops arbitrary: s) auto

text \<open>What a stored session entry records about the login that made it.\<close>

definition logged_in :: "token_codec \<Rightarrow> auth_config \<Rightarrow> int \<Rightarrow> auth_op list \<Rightarrow> string \<Rightarrow> session_entry \<Rightarrow> bool" where
  "logged_in c cfg ttl ops sid e \<longleftrightarrow>
     (\<exists>pre t cred post i. ops = pre @ OpLogin t sid (ai_name i) cred # post \<and> OpRevoke sid \<notin> set post \<and>
        i \<in> set (ac_identities cfg) \<and> validate_credential c (ai_credential i) cred \<and>
        se_session_id e = sid \<and> se_identity_name e = ai_name i \<and> se_uid e = ai_uid i \<and> se_role e = ai_role i \<and>
        se_connected_at e = t \<and> se_ttl e = ttl)"

lemma logged_in_snoc:
  "logged_in c cfg ttl ops sid e \<Longrightarrow> op \<noteq> OpRevoke sid \<Longrightarrow> logged_in c cfg ttl (ops @ [op]) sid e"
  unfolding logged_in_def by fastforce

lemma login_logged_in:
  assumes "login c now sid name cred s = Inr (e, s')"
  shows "logged_in c (as_config s) (as_ttl s) (ops @ [OpLogin now sid name cred]) sid e \<and>
     as_sessions s' = hm_insert sid e (as_sessions s)"
proof -
  obtain i where i: "find (\<lambda>i. ai_name i = name) (ac_identities (as_config s)) = Some i"
    and ok: "validate_credential c (ai_credential i) cred"
    using assms by (auto simp: login_def split: option.splits if_splits)
  from i have "i \<in> set (ac_identities (as_config s))" "ai_name i = name"
    by (auto simp: find_Some_iff)
  moreover have "se_session_id e = sid \<and> se_identity_name e = ai_name i \<and> se_uid e = ai_uid i \<and>
      se_role e = ai_role i \<and> se_connected_at e = now \<and> se_ttl e = as_ttl s \<and>
      as_sessions s' = hm_insert sid e (as_sessions s)"
    using assms i ok by (auto simp: login_def Let_def)
  ultimately show ?thesis
    unfolding logged_in_def using ok
    by (intro conjI exI [of _ ops] exI [of _ now] exI [of _ cred] exI [of _ "[]"] exI [of _ i]) auto
qed

lemma sessions_logged_in:
  assumes "as_sessions s = []"
  shows "hm_get (as_sessions (run_events (auth_step c) s ops)) sid = Some e \<Longrightarrow>
     logged_in c (as_config s) (as_ttl s) ops sid e"
proof (induction ops arbitrary: e rule: rev_induct)
  case Nil
  then show ?case using assms by simp
next
  case (snoc op ops)
  let ?r = "run_events (auth_step c) s ops"
  have run: "run_events (auth_step c) s (ops @ [op]) = auth_step c ?r op" by (simp add: run_events_append)
  show ?case
  proof (cases op)
    case (OpLogin now uuid name cred)
    show ?thesis
    proof (cases "login c now uuid name cred ?r")
      case (Inl x)
      then show ?thesis using snoc OpLogin run by (auto intro: logged_in_snoc)
    next
      case (Inr y)
      obtain e' s' where y: "y = (e', s')" by fastforce
      note l = login_logged_in [OF Inr [unfolded y], of ops]
      show ?thesis
      proof (cases "uuid = sid")
        case True
        then show ?thesis using l snoc.prems OpLogin run Inr y by auto
      next
        case False
        then have "hm_get (as_sessions ?r) sid = Some e" using l snoc.prems OpLogin run Inr y by auto
        then show ?thesis using snoc.IH OpLogin by (auto intro: logged_in_snoc)
      qed
    qed
  next
    case (OpRevoke x)
    then have "x \<noteq> sid \<and> hm_get (as_sessions ?r) sid = Some e"
      using snoc.prems run by (auto simp: revoke_session_def split: option.splits if_splits)
    then show ?thesis using snoc.IH OpRevoke by (auto intro: logged_in_snoc)
  qed
qed

text \<open>
  C5. Sessions are authentic.  In any history of logins and revocations, a session that validates
  at some time was opened by a login under that very identifier with a credential accepted for a
  configured identity, carries that identity's name, uid and role, has not been revoked since, and
  is not older than the configured lifetime.
\<close>

theorem session_authentic:
  assumes "validate_session now (run_events (auth_step c) (auth_service_new_with_ttl cfg ttl) ops) sid = Inr e"
  shows "\<exists>pre t cred post i. ops = pre @ OpLogin t sid (ai_name i) cred # post \<and> OpRevoke sid \<notin> set post \<and>
      i \<in> set (ac_identities cfg) \<and> validate_credential c (ai_credential i) cred \<and>
      se_identity_name e = ai_name i \<and> se_uid e = ai_uid i \<and> se_role e = ai_role i \<and> now - t \<le> ttl"
proof -
  let ?s = "auth_service_new_with_ttl cfg ttl"
  have get: "hm_get (as_sessions (run_events (auth_step c) ?s ops)) sid = Some e"
    and live: "\<not> session_is_expired now e"
    using assms by (auto simp: validate_session_def split: option.splits if_splits)
  have "logged_in c cfg ttl ops sid e"
    using sessions_logged_in [OF _ get] by (simp add: auth_service_new_with_ttl_def)
  with live show ?thesis
    unfolding logged_in_def session_is_expired_def by fastforce
qed

theorem session_authentic_witness:
  "\<exists>pre t cred post (i :: auth_identity). [OpLogin 10 ''s1'' ''ann'' ''pw''] = pre @ OpLogin t ''s1'' (ai_name i) cred # post \<and> 50 - t \<le> (1000::int)"
proof -
  have "\<exists>e. validate_session 50 (run_events (auth_step demo_codec) (auth_service_new_with_ttl (as_config (demo_auth 1000)) 1000)
      [OpLogin 10 ''s1'' ''ann'' ''pw'']) ''s1'' = Inr e"
    by (simp add: login_def demo_auth_def auth_service_new_with_ttl_def validate_credential_def Let_def
        validate_session_def session_is_expired_def)
  then obtain e where "validate_session 50 (run_events (auth_step demo_codec) (auth_service_new_with_ttl (as_config (demo_auth 1000)) 1000)
      [OpLogin 10 ''s1'' ''ann'' ''pw'']) ''s1'' = Inr e" ..
  from session_authentic [OF this] show ?thesis by blast
qed

end
