(* ===== verification/Gateway.thy ===== *)
theory Gateway
  imports Auth Ipc
begin

text \<open>
  The gateway's admission of client commands: \<^verbatim>\<open>src/crates/avix-core/src/gateway\<close>
  (\<^verbatim>\<open>atp/types.rs\<close>, \<^verbatim>\<open>atp/error.rs\<close>, \<^verbatim>\<open>atp/frame.rs\<close>, \<^verbatim>\<open>atp/command.rs\<close>,
  \<^verbatim>\<open>acl.rs\<close>, \<^verbatim>\<open>replay.rs\<close>, \<^verbatim>\<open>validator.rs\<close>, \<^verbatim>\<open>translator.rs\<close>).  Frames are
  parsed from JSON values; the JSON text parser is a parameter.  The wording of the JSON library's
  own error messages is not modelled.
\<close>

section \<open>Types\<close>

datatype atp_domain = DAuth | DProc | DSignal | DFs | DSnap | DCron | DUsers | DCrews | DCap | DSys | DPipe | DSession

fun atp_domain_str :: "atp_domain \<Rightarrow> string" where
  "atp_domain_str DAuth = ''auth''"
| "atp_domain_str DProc = ''proc''"
| "atp_domain_str DSignal = ''signal''"
| "atp_domain_str DFs = ''fs''"
| "atp_domain_str DSnap = ''snap''"
| "atp_domain_str DCron = ''cron''"
| "atp_domain_str DUsers = ''users''"
| "atp_domain_str DCrews = ''crews''"
| "atp_domain_str DCap = ''cap''"
| "atp_domain_str DSys = ''sys''"
| "atp_domain_str DPipe = ''pipe''"
| "atp_domain_str DSession = ''session''"

fun atp_domain_debug :: "atp_domain \<Rightarrow> string" where
  "atp_domain_debug DAuth = ''Auth''"
| "atp_domain_debug DProc = ''Proc''"
| "atp_domain_debug DSignal = ''Signal''"
| "atp_domain_debug DFs = ''Fs''"
| "atp_domain_debug DSnap = ''Snap''"
| "atp_domain_debug DCron = ''Cron''"
| "atp_domain_debug DUsers = ''Users''"
| "atp_domain_debug DCrews = ''Crews''"
| "atp_domain_debug DCap = ''Cap''"
| "atp_domain_debug DSys = ''Sys''"
| "atp_domain_debug DPipe = ''Pipe''"
| "atp_domain_debug DSession = ''Session''"

definition atp_domains :: "atp_domain list" where
  "atp_domains = [DAuth, DProc, DSignal, DFs, DSnap, DCron, DUsers, DCrews, DCap, DSys, DPipe, DSession]"

definition atp_domain_from_str :: "string \<Rightarrow> atp_domain option" where
  "atp_domain_from_str s = find (\<lambda>d. atp_domain_str d = s) atp_domains"

datatype atp_error_code =
  AEauth | AEexpired | AEsession | AEperm | AEnotfound | AEconflict | AEused | AElimit | AEparse | AEinternal | AEunavail

record atp_error =
  ae_code :: atp_error_code
  ae_message :: string
  ae_detail :: "json option"

definition atp_error_new :: "atp_error_code \<Rightarrow> string \<Rightarrow> atp_error" where
  "atp_error_new code msg = \<lparr> ae_code = code, ae_message = msg, ae_detail = None \<rparr>"

definition with_detail :: "json \<Rightarrow> atp_error \<Rightarrow> atp_error" where
  "with_detail d e = e\<lparr>ae_detail := Some d\<rparr>"

datatype atp_frame_error = FrameParse string | UnknownType string

record atp_cmd =
  cmd_type :: string
  cmd_id :: string
  cmd_token :: string
  cmd_domain :: atp_domain
  cmd_op :: string
  cmd_body :: json

record atp_reply =
  rep_type :: string
  rep_id :: string
  rep_ok :: bool
  rep_body :: "json option"
  rep_error :: "atp_error option"

definition reply_ok :: "string \<Rightarrow> json \<Rightarrow> atp_reply" where
  "reply_ok i body = \<lparr> rep_type = ''reply'', rep_id = i, rep_ok = True, rep_body = Some body, rep_error = None \<rparr>"

definition reply_err :: "string \<Rightarrow> atp_error \<Rightarrow> atp_reply" where
  "reply_err i e = \<lparr> rep_type = ''reply'', rep_id = i, rep_ok = False, rep_body = None, rep_error = Some e \<rparr>"

record atp_subscribe =
  sub_type :: string
  sub_id :: string
  sub_token :: string
  sub_events :: "string list"
  sub_since_seq :: "u64 option"

datatype atp_frame = FrameCmd atp_cmd | FrameSubscribe atp_subscribe

section \<open>Frame parsing\<close>

definition domain_field :: "json \<Rightarrow> string + atp_domain" where
  "domain_field v =
     (case str_field v ''domain'' of
        Inl e \<Rightarrow> Inl e
      | Inr s \<Rightarrow> (case atp_domain_from_str s of None \<Rightarrow> Inl (''unknown variant `'' @ s @ ''`'') | Some d \<Rightarrow> Inr d))"

definition cmd_from_value :: "json \<Rightarrow> string + atp_cmd" where
  "cmd_from_value v =
     (case str_field v ''type'' of Inl e \<Rightarrow> Inl e | Inr t \<Rightarrow>
      (case str_field v ''id'' of Inl e \<Rightarrow> Inl e | Inr i \<Rightarrow>
       (case str_field v ''token'' of Inl e \<Rightarrow> Inl e | Inr tok \<Rightarrow>
        (case domain_field v of Inl e \<Rightarrow> Inl e | Inr d \<Rightarrow>
         (case str_field v ''op'' of Inl e \<Rightarrow> Inl e | Inr op \<Rightarrow>
            Inr \<lparr> cmd_type = t, cmd_id = i, cmd_token = tok, cmd_domain = d, cmd_op = op,
                  cmd_body = unwrap_or JNull (json_get v ''body'') \<rparr>)))))"

definition str_field_default :: "json \<Rightarrow> string \<Rightarrow> string + string" where
  "str_field_default v k = (case json_get v k of None \<Rightarrow> Inr [] | Some _ \<Rightarrow> str_field v k)"

fun str_items :: "json list \<Rightarrow> string list option" where
  "str_items [] = Some []"
| "str_items (JStr s # js) = map_option (\<lambda>ss. s # ss) (str_items js)"
| "str_items _ = None"

definition subscribe_from_value :: "json \<Rightarrow> string + atp_subscribe" where
  "subscribe_from_value v =
     (case str_field v ''type'' of Inl e \<Rightarrow> Inl e | Inr t \<Rightarrow>
      (case str_field_default v ''id'' of Inl e \<Rightarrow> Inl e | Inr i \<Rightarrow>
       (case str_field_default v ''token'' of Inl e \<Rightarrow> Inl e | Inr tok \<Rightarrow>
        (case json_get v ''events'' of
           Some (JArr js) \<Rightarrow>
             (case str_items js of
                None \<Rightarrow> Inl ''invalid type for `events`''
              | Some evs \<Rightarrow>
                  (case json_get v ''since_seq'' of
                     None \<Rightarrow> Inr \<lparr> sub_type = t, sub_id = i, sub_token = tok, sub_events = evs, sub_since_seq = None \<rparr>
                   | Some JNull \<Rightarrow> Inr \<lparr> sub_type = t, sub_id = i, sub_token = tok, sub_events = evs, sub_since_seq = None \<rparr>
                   | Some n \<Rightarrow>
                       (case as_u64 n of
                          None \<Rightarrow> Inl ''invalid type for `since_seq`''
                        | Some w \<Rightarrow> Inr \<lparr> sub_type = t, sub_id = i, sub_token = tok, sub_events = evs,
                                          sub_since_seq = Some w \<rparr>)))
         | Some _ \<Rightarrow> Inl ''invalid type for `events`''
         | None \<Rightarrow> Inl ''missing field `events`''))))"

definition frame_parse :: "(string \<Rightarrow> string + json) \<Rightarrow> string \<Rightarrow> atp_frame_error + atp_frame" where
  "frame_parse from_str raw =
     (case from_str raw of
        Inl e \<Rightarrow> Inl (FrameParse e)
      | Inr v \<Rightarrow>
          (case as_str (json_index v ''type'') of
             None \<Rightarrow> Inl (FrameParse (''missing '' @ quoted ''type'' @ '' field''))
           | Some t \<Rightarrow>
               if t = ''cmd'' then map_sum FrameParse FrameCmd (cmd_from_value v)
               else if t = ''subscribe'' then map_sum FrameParse FrameSubscribe (subscribe_from_value v)
               else Inl (UnknownType t)))"

text \<open>The derived serialiser of a command.\<close>

definition cmd_to_value :: "atp_cmd \<Rightarrow> json" where
  "cmd_to_value c =
     JObj [(''type'', JStr (cmd_type c)), (''id'', JStr (cmd_id c)), (''token'', JStr (cmd_token c)),
           (''domain'', JStr (atp_domain_str (cmd_domain c))), (''op'', JStr (cmd_op c)), (''body'', cmd_body c)]"

section \<open>Access control\<close>

definition domain_min_role :: "atp_domain \<Rightarrow> string \<Rightarrow> role" where
  "domain_min_role d op =
     (case d of
        DAuth \<Rightarrow> Guest
      | DProc \<Rightarrow> if op = ''list'' then Guest else if op = ''setcap'' then Operator else User
      | DSignal \<Rightarrow> User
      | DFs \<Rightarrow> if op \<in> {''read'', ''list'', ''stat''} then Guest else User
      | DSnap \<Rightarrow> if op = ''delete'' then Operator else User
      | DCron \<Rightarrow> User
      | DUsers \<Rightarrow> if op = ''list'' then Operator
                   else if op \<in> {''create'', ''update'', ''delete''} then Admin else User
      | DCrews \<Rightarrow> if op \<in> {''create'', ''update'', ''delete'', ''join'', ''leave''} then Admin else Guest
      | DCap \<Rightarrow> if op = ''inspect'' then Operator else Admin
      | DSys \<Rightarrow> if op \<in> {''status'', ''logs'', ''service-list'', ''tool-list''} then User
                else if op \<in> {''install'', ''uninstall'', ''update''} then Operator else Admin
      | DPipe \<Rightarrow> User
      | DSession \<Rightarrow> User)"

definition check_domain_role :: "atp_domain \<Rightarrow> string \<Rightarrow> role \<Rightarrow> atp_error + unit" where
  "check_domain_role d op caller =
     (if caller < domain_min_role d op
      then Inl (atp_error_new AEperm (''role '' @ quoted (role_display caller) @ '' cannot invoke domain '' @
             quoted (atp_domain_debug d) @ '' op '' @ quoted op))
      else Inr ())"

definition check_ownership :: "string \<Rightarrow> role \<Rightarrow> string \<Rightarrow> atp_error + unit" where
  "check_ownership caller r owner =
     (if Operator \<le> r then Inr ()
      else if caller = owner then Inr ()
      else Inl (atp_error_new AEperm (quoted caller @ '' cannot access resources owned by '' @ quoted owner)))"

definition check_fs_hard_veto :: "string \<Rightarrow> string \<Rightarrow> atp_error + unit" where
  "check_fs_hard_veto path op =
     (if op \<noteq> ''write'' then Inr ()
      else if starts_with path ''/secrets/'' \<or> starts_with path ''/proc/''
      then Inl (atp_error_new AEperm (''writes to '' @ quoted path @ '' are unconditionally forbidden''))
      else Inr ())"

definition requires_admin_port :: "atp_domain \<Rightarrow> string \<Rightarrow> bool" where
  "requires_admin_port d op =
     (case d of
        DCap \<Rightarrow> True
      | DSys \<Rightarrow> op \<notin> {''status'', ''logs'', ''service-list'', ''tool-list''}
      | _ \<Rightarrow> False)"

definition check_admin_port :: "atp_domain \<Rightarrow> string \<Rightarrow> bool \<Rightarrow> atp_error + unit" where
  "check_admin_port d op is_admin_port =
     (if requires_admin_port d op \<and> \<not> is_admin_port
      then Inl (atp_error_new AEperm (''domain '' @ quoted (atp_domain_debug d) @ '' op '' @ quoted op @
             '' requires admin port 7701''))
      else Inr ())"

section \<open>Replay guard and command validation\<close>

type_synonym replay_guard = "string set"

definition check_and_register :: "string \<Rightarrow> replay_guard \<Rightarrow> atp_error + replay_guard" where
  "check_and_register i seen =
     (if i \<in> seen then Inl (atp_error_new AEparse (''duplicate command id '' @ quoted i))
      else Inr (insert i seen))"

record validated_cmd =
  vl_cmd :: atp_cmd
  vl_caller_identity :: string
  vl_caller_role :: role
  vl_caller_session_id :: string

definition token_error :: "avix_error \<Rightarrow> atp_error" where
  "token_error e =
     (let msg = error_display e
      in if contains_str msg ''expired'' then atp_error_new AEexpired ''token expired''
         else atp_error_new AEauth (''invalid token: '' @ msg))"

definition validate_cmd ::
  "token_codec \<Rightarrow> datetime \<Rightarrow> atp_token_store \<Rightarrow> string \<Rightarrow> bool \<Rightarrow> atp_cmd \<Rightarrow> replay_guard \<Rightarrow>
   (atp_error + validated_cmd) \<times> replay_guard" where
  "validate_cmd c now st bound_session admin_port cmd seen =
     (case token_store_validate c now st (cmd_token cmd) of
        Inl e \<Rightarrow> (Inl (token_error e), seen)
      | Inr claims \<Rightarrow>
        if tk_session_id claims \<noteq> bound_session then (Inl (atp_error_new AEsession ''session ID mismatch''), seen)
        else (case check_domain_role (cmd_domain cmd) (cmd_op cmd) (tk_role claims) of
          Inl e \<Rightarrow> (Inl e, seen)
        | Inr _ \<Rightarrow>
          (case check_admin_port (cmd_domain cmd) (cmd_op cmd) admin_port of
            Inl e \<Rightarrow> (Inl e, seen)
          | Inr _ \<Rightarrow>
            (case (if cmd_domain cmd = DFs
                   then check_fs_hard_veto (unwrap_or [] (as_str (json_index (cmd_body cmd) ''path''))) (cmd_op cmd)
                   else Inr ()) of
              Inl e \<Rightarrow> (Inl e, seen)
            | Inr _ \<Rightarrow>
              (case check_and_register (cmd_id cmd) seen of
                Inl e \<Rightarrow> (Inl e, seen)
              | Inr seen' \<Rightarrow>
                  (Inr \<lparr> vl_cmd = cmd, vl_caller_identity = tk_sub claims, vl_caller_role = tk_role claims,
                         vl_caller_session_id = tk_session_id claims \<rparr>, seen'))))))"

section \<open>Translation to kernel calls\<close>

datatype atp_command =
  AgentSpawn string string
| AgentKill string
| AgentList
| AgentStatus string
| FsRead string
| FsWrite string string
| LlmStatus
| SysInfo
| SysReboot bool

datatype translation_error = TrEperm role string | UnknownCommand

record ipc_call_rec =
  ic_method :: string
  ic_params :: json

text \<open>\<^verbatim>\<open>str::parse::<u64>\<close>: an optional plus sign, then decimal digits that fit.\<close>

definition digit_val :: "char \<Rightarrow> nat option" where
  "digit_val c = (let n = of_char c :: nat in if 48 \<le> n \<and> n \<le> 57 then Some (n - 48) else None)"

fun parse_digits :: "nat \<Rightarrow> string \<Rightarrow> nat option" where
  "parse_digits acc [] = Some acc"
| "parse_digits acc (c # s) =
     (case digit_val c of None \<Rightarrow> None | Some d \<Rightarrow> parse_digits (acc * 10 + d) s)"

definition parse_u64 :: "string \<Rightarrow> u64 option" where
  "parse_u64 s =
     (let t = (case s of [] \<Rightarrow> [] | c # r \<Rightarrow> if c = CHR ''+'' then r else s)
      in if t = [] then None
         else (case parse_digits 0 t of
                 None \<Rightarrow> None
               | Some n \<Rightarrow> if n < 2 ^ 64 then Some (word_of_nat n) else None))"

definition translate :: "atp_command \<Rightarrow> role \<Rightarrow> translation_error + ipc_call_rec" where
  "translate cmd r =
     (case cmd of
        AgentSpawn name goal \<Rightarrow> Inr \<lparr> ic_method = ''kernel/proc/spawn'', ic_params = JObj [(''name'', JStr name), (''goal'', JStr goal)] \<rparr>
      | AgentKill p \<Rightarrow> Inr \<lparr> ic_method = ''kernel/proc/kill'', ic_params = JObj [(''pid'', JNum (uint (unwrap_or 0 (parse_u64 p))))] \<rparr>
      | AgentList \<Rightarrow> Inr \<lparr> ic_method = ''kernel/proc/list'', ic_params = JObj [] \<rparr>
      | AgentStatus p \<Rightarrow> Inr \<lparr> ic_method = ''kernel/proc/info'', ic_params = JObj [(''pid'', JNum (uint (unwrap_or 0 (parse_u64 p))))] \<rparr>
      | FsRead path \<Rightarrow> Inr \<lparr> ic_method = ''kernel/fs/read'', ic_params = JObj [(''path'', JStr path)] \<rparr>
      | FsWrite path content \<Rightarrow> Inr \<lparr> ic_method = ''kernel/fs/write'', ic_params = JObj [(''path'', JStr path), (''content'', JStr content)] \<rparr>
      | LlmStatus \<Rightarrow> Inr \<lparr> ic_method = ''llm/status'', ic_params = JObj [] \<rparr>
      | SysInfo \<Rightarrow> Inr \<lparr> ic_method = ''kernel/sys/info'', ic_params = JObj [] \<rparr>
      | SysReboot confirm \<Rightarrow>
          if r \<noteq> Admin then Inl (TrEperm r ''sys/reboot'')
          else Inr \<lparr> ic_method = ''kernel/sys/reboot'', ic_params = JObj [(''confirm'', JBool confirm)] \<rparr>)"

section \<open>Lemmas\<close>

lemma atp_domain_roundtrip [simp]: "atp_domain_from_str (atp_domain_str d) = Some d"
  by (cases d) (simp_all add: atp_domain_from_str_def atp_domains_def)

lemma check_domain_role_ok [simp]: "check_domain_role d op r = Inr u \<longleftrightarrow> domain_min_role d op \<le> r"
  by (auto simp: check_domain_role_def not_less)

interpretation acl: access_policy "\<lambda>r (d, op). check_domain_role d op r = Inr ()"
  by unfold_locales (auto intro: order.trans)

interpretation owner: access_policy "\<lambda>r (caller, own). check_ownership caller r own = Inr ()"
  by unfold_locales (auto simp: check_ownership_def split: if_splits dest: order.trans)

lemma check_admin_port_ok [simp]: "check_admin_port d op b = Inr u \<longleftrightarrow> (requires_admin_port d op \<longrightarrow> b)"
  by (auto simp: check_admin_port_def)

lemma check_and_register_ok [simp]: "check_and_register i seen = Inr s \<longleftrightarrow> i \<notin> seen \<and> s = insert i seen"
  by (auto simp: check_and_register_def)

definition fs_vetoed :: "atp_cmd \<Rightarrow> bool" where
  "fs_vetoed cmd \<longleftrightarrow> cmd_domain cmd = DFs \<and> cmd_op cmd = ''write'' \<and>
     (let path = unwrap_or [] (as_str (json_index (cmd_body cmd) ''path''))
      in starts_with path ''/secrets/'' \<or> starts_with path ''/proc/'')"

lemma fs_veto_ok:
  "(if cmd_domain cmd = DFs
    then check_fs_hard_veto (unwrap_or [] (as_str (json_index (cmd_body cmd) ''path''))) (cmd_op cmd)
    else Inr ()) = Inr u \<longleftrightarrow> \<not> fs_vetoed cmd"
  by (auto simp: fs_vetoed_def check_fs_hard_veto_def Let_def)

lemma validate_cmd_spec:
  "(validate_cmd c now st bound admin_port cmd seen = (Inr v, seen') \<longleftrightarrow>
     (\<exists>claims. token_store_validate c now st (cmd_token cmd) = Inr claims \<and> tk_session_id claims = bound \<and>
        domain_min_role (cmd_domain cmd) (cmd_op cmd) \<le> tk_role claims \<and>
        (requires_admin_port (cmd_domain cmd) (cmd_op cmd) \<longrightarrow> admin_port) \<and> \<not> fs_vetoed cmd \<and>
        cmd_id cmd \<notin> seen \<and> seen' = insert (cmd_id cmd) seen \<and>
        v = \<lparr> vl_cmd = cmd, vl_caller_identity = tk_sub claims, vl_caller_role = tk_role claims,
              vl_caller_session_id = tk_session_id claims \<rparr>)) \<and>
   (\<forall>e. validate_cmd c now st bound admin_port cmd seen = (Inl e, seen') \<longrightarrow> seen' = seen)"
proof (cases "token_store_validate c now st (cmd_token cmd)")
  case (Inr claims)
  define veto where "veto = (if cmd_domain cmd = DFs
    then check_fs_hard_veto (unwrap_or [] (as_str (json_index (cmd_body cmd) ''path''))) (cmd_op cmd) else Inr ())"
  have veto: "veto = Inr u \<longleftrightarrow> \<not> fs_vetoed cmd" for u unfolding veto_def by (rule fs_veto_ok)
  have eq: "validate_cmd c now st bound admin_port cmd seen =
    (if tk_session_id claims \<noteq> bound then (Inl (atp_error_new AEsession ''session ID mismatch''), seen)
     else (case check_domain_role (cmd_domain cmd) (cmd_op cmd) (tk_role claims) of Inl e \<Rightarrow> (Inl e, seen)
     | Inr _ \<Rightarrow> (case check_admin_port (cmd_domain cmd) (cmd_op cmd) admin_port of Inl e \<Rightarrow> (Inl e, seen)
     | Inr _ \<Rightarrow> (case veto of Inl e \<Rightarrow> (Inl e, seen)
     | Inr _ \<Rightarrow> (case check_and_register (cmd_id cmd) seen of Inl e \<Rightarrow> (Inl e, seen)
     | Inr s' \<Rightarrow> (Inr \<lparr> vl_cmd = cmd, vl_caller_identity = tk_sub claims, vl_caller_role = tk_role claims,
          vl_caller_session_id = tk_session_id claims \<rparr>, s'))))))"
    unfolding validate_cmd_def veto_def [symmetric] by (simp add: Inr)
  consider "tk_session_id claims \<noteq> bound"
    | "\<not> domain_min_role (cmd_domain cmd) (cmd_op cmd) \<le> tk_role claims"
    | "requires_admin_port (cmd_domain cmd) (cmd_op cmd)" "\<not> admin_port"
    | "fs_vetoed cmd" | "cmd_id cmd \<in> seen"
    | "tk_session_id claims = bound" "domain_min_role (cmd_domain cmd) (cmd_op cmd) \<le> tk_role claims"
      "requires_admin_port (cmd_domain cmd) (cmd_op cmd) \<longrightarrow> admin_port" "\<not> fs_vetoed cmd" "cmd_id cmd \<notin> seen"
    by blast
  then show ?thesis
  proof cases
    case 6
    then have "check_domain_role (cmd_domain cmd) (cmd_op cmd) (tk_role claims) = Inr ()"
      "check_admin_port (cmd_domain cmd) (cmd_op cmd) admin_port = Inr ()" "veto = Inr ()"
      "check_and_register (cmd_id cmd) seen = Inr (insert (cmd_id cmd) seen)" using veto by simp_all
    with 6 show ?thesis unfolding eq Inr by (simp del: check_domain_role_ok check_admin_port_ok check_and_register_ok) blast
  qed (unfold eq Inr, auto simp: veto split: sum.splits)
qed (auto simp: validate_cmd_def)


definition demo_cmd :: atp_cmd where
  "demo_cmd = \<lparr> cmd_type = ''cmd'', cmd_id = ''c1'', cmd_token = ''ann.kann'', cmd_domain = DProc, cmd_op = ''spawn'', cmd_body = JNull \<rparr>"

lemma demo_cmd_token: "token_store_validate demo_codec 50 (token_store_new ''k'') (cmd_token demo_cmd) = Inr demo_claims"
  by (simp add: token_store_validate_def atp_token_validate_def split_once_def demo_cmd_def
      token_store_new_def demo_codec_def demo_claims_def claims_is_expired_def)


section \<open>A connection's commands\<close>

text \<open>The commands of one connection in order, each with the time and the token store it meets.\<close>

fun serve_cmds ::
  "token_codec \<Rightarrow> string \<Rightarrow> bool \<Rightarrow> (datetime \<times> atp_token_store \<times> atp_cmd) list \<Rightarrow> replay_guard \<Rightarrow> validated_cmd list" where
  "serve_cmds c bound ap [] seen = []"
| "serve_cmds c bound ap ((now, st, cmd) # cmds) seen =
     (case validate_cmd c now st bound ap cmd seen of
        (Inl _, seen') \<Rightarrow> serve_cmds c bound ap cmds seen'
      | (Inr v, seen') \<Rightarrow> v # serve_cmds c bound ap cmds seen')"

lemma serve_cmds_fresh:
  "distinct (map (cmd_id \<circ> vl_cmd) (serve_cmds c bound ap cmds seen)) \<and>
   (\<forall>v\<in>set (serve_cmds c bound ap cmds seen). cmd_id (vl_cmd v) \<notin> seen \<and> vl_caller_session_id v = bound)"
proof (induction c bound ap cmds seen rule: serve_cmds.induct)
  case (2 c bound ap now st cmd cmds seen)
  obtain res seen' where r: "validate_cmd c now st bound ap cmd seen = (res, seen')" by fastforce
  show ?case
  proof (cases res)
    case (Inl e)
    then have "seen' = seen" using r validate_cmd_spec by blast
    with 2 r Inl show ?thesis by auto
  next
    case (Inr v)
    have v: "cmd_id (vl_cmd v) = cmd_id cmd" "cmd_id cmd \<notin> seen" "seen' = insert (cmd_id cmd) seen" "vl_caller_session_id v = bound"
      using validate_cmd_spec [of c now st bound ap cmd seen v seen'] r Inr by auto
    with 2 r Inr show ?thesis by auto
  qed
qed simp

text \<open>
  No replay.  Over the whole life of a connection no command id is admitted twice, and every
  admitted command belongs to the connection's own session, whatever the client sends and
  however the token store changes meanwhile.
\<close>

theorem no_replay:
  "distinct (map (\<lambda>v. cmd_id (vl_cmd v)) (serve_cmds c bound ap cmds {})) \<and>
   set (map vl_caller_session_id (serve_cmds c bound ap cmds {})) \<subseteq> {bound}"
  using serve_cmds_fresh [of c bound ap cmds "{}"] by (auto simp: comp_def)

text \<open>
  Client frames.  A command written as JSON is read back as the same command, whatever its
  body, and a frame of any other type than a command or a subscription is refused.
\<close>

theorem atp_frame_roundtrip:
  assumes "from_str raw = Inr (cmd_to_value cmd)" and "cmd_type cmd = ''cmd''"
  shows "frame_parse from_str raw = Inr (FrameCmd cmd)"
  using assms
  by (simp add: frame_parse_def cmd_to_value_def cmd_from_value_def json_index_def str_field_def domain_field_def)

theorem atp_frame_roundtrip_witness:
  "frame_parse (\<lambda>_. Inr (cmd_to_value demo_cmd)) ''raw'' = Inr (FrameCmd demo_cmd)"
  using atp_frame_roundtrip [of "\<lambda>_. Inr (cmd_to_value demo_cmd)" "''raw''" demo_cmd] by (simp add: demo_cmd_def)

lemma digit_val_char [simp]: "d < 10 \<Longrightarrow> digit_val (digit_char d) = Some d"
  by (auto simp: digit_val_def digit_char_def Let_def)

lemma parse_digits_append:
  "parse_digits acc (s @ t) = (case parse_digits acc s of None \<Rightarrow> None | Some n \<Rightarrow> parse_digits n t)"
  by (induction s arbitrary: acc) (auto split: option.splits)

lemma parse_digits_show: "parse_digits 0 (show_nat n) = Some n"
proof (induction n rule: show_nat.induct)
  case (1 n)
  show ?case
  proof (cases "n < 10")
    case True
    then show ?thesis by (simp add: show_nat.simps [of n])
  next
    case False
    then show ?thesis using 1 by (simp add: show_nat.simps [of n] parse_digits_append)
  qed
qed

lemma parse_u64_show [simp]: "parse_u64 (show_word (w :: u64)) = Some w"
proof -
  have plus: "CHR ''+'' \<notin> set (show_nat n)" for n using show_nat_no_char [of "CHR ''+''" n] by auto
  obtain c r where cr: "show_nat (unat w) = c # r" by (meson list.exhaust show_nat_nonempty(1))
  then have "c \<noteq> CHR ''+''" using plus [of "unat w"] by auto
  moreover have "unat w < 2 ^ 64" using unsigned_less [of w] by simp
  ultimately show ?thesis
    using parse_digits_show [of "unat w"] cr by (simp add: parse_u64_def show_word_def)
qed

text \<open>
  Which process a translated command names.  The decimal form of a process id is translated
  to that id, in a kill and in a status command alike; any text that is not the decimal form of a
  64-bit number is translated, without an error, to id 0, which is the kernel's.
\<close>

theorem translate_pid:
  "translate (AgentKill (show_word (w :: u64))) r = Inr \<lparr> ic_method = ''kernel/proc/kill'', ic_params = JObj [(''pid'', JNum (uint w))] \<rparr> \<and>
   translate (AgentStatus (show_word w)) r = Inr \<lparr> ic_method = ''kernel/proc/info'', ic_params = JObj [(''pid'', JNum (uint w))] \<rparr> \<and>
   (parse_u64 txt = None \<longrightarrow>
      translate (AgentKill txt) r = Inr \<lparr> ic_method = ''kernel/proc/kill'', ic_params = JObj [(''pid'', JNum 0)] \<rparr> \<and>
      is_kernel (Pid 0))"
  by (simp add: translate_def is_kernel_def)

theorem translate_pid_witness:
  "translate (AgentKill ''abc'') User = Inr \<lparr> ic_method = ''kernel/proc/kill'', ic_params = JObj [(''pid'', JNum 0)] \<rparr>"
  using translate_pid [of 7 User "''abc''"] by (simp add: parse_u64_def digit_val_def)

end
