(* ===== verification/Event_Bus.thy ===== *)
theory Event_Bus
  imports Types_Core
begin

text \<open>
  The gateway's event bus, \<^verbatim>\<open>src/crates/avix-core/src/gateway/event_bus.rs\<close>, with the event
  kinds of \<^verbatim>\<open>gateway/atp/types.rs\<close> and the event record of \<^verbatim>\<open>gateway/atp/frame.rs\<close>.  The
  broadcast channel is the list of everything sent on it; each connection filters it for itself.
  Publishing stores an event in the replay ring only if the ring's lock is free at that moment:
  the outcome of the \<^verbatim>\<open>try_lock\<close> is an argument.
\<close>

section \<open>Events\<close>

datatype atp_event_kind =
  SessionReady | SessionClosing | SessionAgentAttached | SessionAgentDetached | SessionStatusChanged
| TokenExpiring | EvAgentSpawned | AgentOutput | EvAgentStatus | AgentToolCall | AgentToolResult | AgentExit
| ProcStart | ProcOutput | ProcExit | ProcSignal | HilRequestEv | HilResolvedEv | FsChanged | ToolChanged
| CronFired | SysService | SysAlert | AgentOutputChunk

fun event_name :: "atp_event_kind \<Rightarrow> string" where
  "event_name SessionReady = ''session.ready''"
| "event_name SessionClosing = ''session.closing''"
| "event_name SessionAgentAttached = ''session.agent.attached''"
| "event_name SessionAgentDetached = ''session.agent.detached''"
| "event_name SessionStatusChanged = ''session.status''"
| "event_name TokenExpiring = ''token.expiring''"
| "event_name EvAgentSpawned = ''agent.spawned''"
| "event_name AgentOutput = ''agent.output''"
| "event_name EvAgentStatus = ''agent.status''"
| "event_name AgentToolCall = ''agent.tool_call''"
| "event_name AgentToolResult = ''agent.tool_result''"
| "event_name AgentExit = ''agent.exit''"
| "event_name ProcStart = ''proc.start''"
| "event_name ProcOutput = ''proc.output''"
| "event_name ProcExit = ''proc.exit''"
| "event_name ProcSignal = ''proc.signal''"
| "event_name HilRequestEv = ''hil.request''"
| "event_name HilResolvedEv = ''hil.resolved''"
| "event_name FsChanged = ''fs.changed''"
| "event_name ToolChanged = ''tool.changed''"
| "event_name CronFired = ''cron.fired''"
| "event_name SysService = ''sys.service''"
| "event_name SysAlert = ''sys.alert''"
| "event_name AgentOutputChunk = ''agent.output.chunk''"

record atp_event =
  ev_type :: string
  ev_seq :: u64
  ev_event :: atp_event_kind
  ev_session_id :: string
  ev_ts :: datetime
  ev_body :: json

definition atp_event_new :: "datetime \<Rightarrow> atp_event_kind \<Rightarrow> string \<Rightarrow> json \<Rightarrow> atp_event" where
  "atp_event_new now kind sid body =
     \<lparr> ev_type = ''event'', ev_seq = 0, ev_event = kind, ev_session_id = sid, ev_ts = now, ev_body = body \<rparr>"

record bus_event =
  be_seq :: u64
  be_event :: atp_event
  be_owner_session :: "string option"
  be_min_role :: role

fun event_scope :: "atp_event_kind \<Rightarrow> role \<times> bool" where
  "event_scope SessionReady = (Guest, True)"
| "event_scope SessionClosing = (Guest, True)"
| "event_scope SessionAgentAttached = (User, True)"
| "event_scope SessionAgentDetached = (User, True)"
| "event_scope SessionStatusChanged = (User, True)"
| "event_scope TokenExpiring = (Guest, True)"
| "event_scope AgentOutput = (User, True)"
| "event_scope EvAgentStatus = (User, True)"
| "event_scope AgentToolCall = (User, True)"
| "event_scope AgentToolResult = (User, True)"
| "event_scope AgentExit = (User, True)"
| "event_scope ProcStart = (User, True)"
| "event_scope ProcOutput = (User, True)"
| "event_scope ProcExit = (User, True)"
| "event_scope ProcSignal = (User, True)"
| "event_scope HilRequestEv = (User, True)"
| "event_scope HilResolvedEv = (User, True)"
| "event_scope FsChanged = (User, True)"
| "event_scope ToolChanged = (Guest, False)"
| "event_scope CronFired = (User, True)"
| "event_scope SysService = (Admin, False)"
| "event_scope SysAlert = (Operator, False)"
| "event_scope EvAgentSpawned = (User, True)"
| "event_scope AgentOutputChunk = (User, True)"

section \<open>Filters\<close>

record event_filter =
  ef_session_id :: string
  ef_role :: role
  ef_subscribed :: "string list"

definition event_filter_new :: "string \<Rightarrow> role \<Rightarrow> event_filter" where
  "event_filter_new sid r = \<lparr> ef_session_id = sid, ef_role = r, ef_subscribed = [] \<rparr>"

definition set_subscriptions :: "string list \<Rightarrow> event_filter \<Rightarrow> event_filter" where
  "set_subscriptions evs f = f\<lparr>ef_subscribed := evs\<rparr>"

definition should_receive :: "event_filter \<Rightarrow> bus_event \<Rightarrow> bool" where
  "should_receive f ev =
     (if ef_role f < be_min_role ev then False
      else if (case be_owner_session ev of
                 Some owner \<Rightarrow> owner \<noteq> ef_session_id f \<and> ef_role f < Operator
               | None \<Rightarrow> False) then False
      else if ef_subscribed f = [] then False
      else if ''*'' \<in> set (ef_subscribed f) then True
      else event_name (ev_event (be_event ev)) \<in> set (ef_subscribed f))"

section \<open>The bus\<close>

definition RING_CAPACITY :: nat where
  "RING_CAPACITY = 512"

record atp_event_bus =
  bus_sent :: "bus_event list"
  bus_seq :: u64
  bus_ring :: "bus_event list"

definition bus_new :: atp_event_bus where
  "bus_new = \<lparr> bus_sent = [], bus_seq = 0, bus_ring = [] \<rparr>"

definition publish :: "bool \<Rightarrow> atp_event \<Rightarrow> string option \<Rightarrow> role \<Rightarrow> atp_event_bus \<Rightarrow> atp_event_bus" where
  "publish lock_free event owner min_role b =
     (let seq = bus_seq b;
          be = \<lparr> be_seq = seq, be_event = event\<lparr>ev_seq := seq\<rparr>, be_owner_session = owner, be_min_role = min_role \<rparr>;
          ring = (if ev_event event \<noteq> AgentOutputChunk \<and> lock_free
                  then (if RING_CAPACITY \<le> length (bus_ring b) then tl (bus_ring b) else bus_ring b) @ [be]
                  else bus_ring b)
      in b\<lparr>bus_seq := seq + 1, bus_ring := ring, bus_sent := bus_sent b @ [be]\<rparr>)"

definition replay_since :: "u64 \<Rightarrow> atp_event_bus \<Rightarrow> bus_event list" where
  "replay_since since b = filter (\<lambda>e. since < be_seq e) (bus_ring b)"

text \<open>The publish helpers: a session-scoped event of a kind with its body, or a system event.\<close>

definition pid_str :: "u64 \<Rightarrow> json" where
  "pid_str p = JStr (show_word p)"

definition publish_scoped ::
  "bool \<Rightarrow> datetime \<Rightarrow> atp_event_kind \<Rightarrow> string \<Rightarrow> json \<Rightarrow> atp_event_bus \<Rightarrow> atp_event_bus" where
  "publish_scoped lk now kind sid body b =
     (case event_scope kind of (min_role, owner_scoped) \<Rightarrow>
        publish lk (atp_event_new now kind sid body) (if owner_scoped then Some sid else None) min_role b)"

definition publish_system :: "bool \<Rightarrow> datetime \<Rightarrow> atp_event_kind \<Rightarrow> json \<Rightarrow> atp_event_bus \<Rightarrow> atp_event_bus" where
  "publish_system lk now kind body b =
     publish lk (atp_event_new now kind [] body) None (fst (event_scope kind)) b"

datatype bus_request =
  CallAgentOutput string u64 string
| CallAgentSpawned string u64 string string string
| CallAgentOutputChunk string string u64 string string u64 bool
| CallAgentExit string u64 int
| CallAgentStatus string u64 string
| CallToolChanged string string
| CallSysService string string
| CallSysAlert string
| CallFsChanged string string
| CallHilRequest string string string
| CallHilResolved string string string
| CallAgentToolCall string u64 string string json
| CallAgentToolResult string u64 string string string

fun bus_call :: "bool \<Rightarrow> datetime \<Rightarrow> bus_request \<Rightarrow> atp_event_bus \<Rightarrow> atp_event_bus" where
  "bus_call lk now (CallAgentOutput sid p txt) =
     publish_scoped lk now AgentOutput sid (JObj [(''pid'', pid_str p), (''text'', JStr txt)])"
| "bus_call lk now (CallAgentSpawned sid p name goal agent_sid) =
     publish_scoped lk now EvAgentSpawned sid
       (JObj [(''pid'', pid_str p), (''name'', JStr name), (''goal'', JStr goal), (''sessionId'', JStr agent_sid)])"
| "bus_call lk now (CallAgentOutputChunk sid conv p turn delta n final) =
     publish_scoped lk now AgentOutputChunk sid
       (JObj [(''pid'', pid_str p), (''session_id'', JStr conv), (''turn_id'', JStr turn),
              (''text_delta'', JStr delta), (''seq'', JNum (uint n)), (''is_final'', JBool final)])"
| "bus_call lk now (CallAgentExit sid p code) =
     publish_scoped lk now AgentExit sid (JObj [(''pid'', pid_str p), (''exitCode'', JNum code)])"
| "bus_call lk now (CallAgentStatus sid p status) =
     publish_scoped lk now EvAgentStatus sid (JObj [(''pid'', pid_str p), (''status'', JStr status)])"
| "bus_call lk now (CallToolChanged tool change) =
     publish_system lk now ToolChanged (JObj [(''tool'', JStr tool), (''change'', JStr change)])"
| "bus_call lk now (CallSysService service status) =
     publish_system lk now SysService (JObj [(''service'', JStr service), (''status'', JStr status)])"
| "bus_call lk now (CallSysAlert message) =
     publish_system lk now SysAlert (JObj [(''message'', JStr message)])"
| "bus_call lk now (CallFsChanged sid path) =
     publish_scoped lk now FsChanged sid (JObj [(''path'', JStr path)])"
| "bus_call lk now (CallHilRequest sid hil kind) =
     publish_scoped lk now HilRequestEv sid (JObj [(''hilId'', JStr hil), (''kind'', JStr kind)])"
| "bus_call lk now (CallHilResolved sid hil outcome) =
     publish_scoped lk now HilResolvedEv sid (JObj [(''hilId'', JStr hil), (''outcome'', JStr outcome)])"
| "bus_call lk now (CallAgentToolCall sid p call tool args) =
     publish_scoped lk now AgentToolCall sid
       (JObj [(''pid'', pid_str p), (''callId'', JStr call), (''tool'', JStr tool), (''args'', args)])"
| "bus_call lk now (CallAgentToolResult sid p call tool result) =
     publish_scoped lk now AgentToolResult sid
       (JObj [(''pid'', pid_str p), (''callId'', JStr call), (''tool'', JStr tool), (''result'', JStr result)])"

definition bus_step :: "atp_event_bus \<Rightarrow> bool \<times> datetime \<times> bus_request \<Rightarrow> atp_event_bus" where
  "bus_step b e = (case e of (lk, now, c) \<Rightarrow> bus_call lk now c b)"

section \<open>Lemmas\<close>

text \<open>The session a call is made for: none for the three system-wide events.\<close>

fun call_session :: "bus_request \<Rightarrow> string option" where
  "call_session (CallAgentOutput sid _ _) = Some sid"
| "call_session (CallAgentSpawned sid _ _ _ _) = Some sid"
| "call_session (CallAgentOutputChunk sid _ _ _ _ _ _) = Some sid"
| "call_session (CallAgentExit sid _ _) = Some sid"
| "call_session (CallAgentStatus sid _ _) = Some sid"
| "call_session (CallToolChanged _ _) = None"
| "call_session (CallSysService _ _) = None"
| "call_session (CallSysAlert _) = None"
| "call_session (CallFsChanged sid _) = Some sid"
| "call_session (CallHilRequest sid _ _) = Some sid"
| "call_session (CallHilResolved sid _ _) = Some sid"
| "call_session (CallAgentToolCall sid _ _ _ _) = Some sid"
| "call_session (CallAgentToolResult sid _ _ _ _) = Some sid"

fun request_kind :: "bus_request \<Rightarrow> atp_event_kind" where
  "request_kind (CallAgentOutput _ _ _) = AgentOutput"
| "request_kind (CallAgentSpawned _ _ _ _ _) = EvAgentSpawned"
| "request_kind (CallAgentOutputChunk _ _ _ _ _ _ _) = AgentOutputChunk"
| "request_kind (CallAgentExit _ _ _) = AgentExit"
| "request_kind (CallAgentStatus _ _ _) = EvAgentStatus"
| "request_kind (CallToolChanged _ _) = ToolChanged"
| "request_kind (CallSysService _ _) = SysService"
| "request_kind (CallSysAlert _) = SysAlert"
| "request_kind (CallFsChanged _ _) = FsChanged"
| "request_kind (CallHilRequest _ _ _) = HilRequestEv"
| "request_kind (CallHilResolved _ _ _) = HilResolvedEv"
| "request_kind (CallAgentToolCall _ _ _ _ _) = AgentToolCall"
| "request_kind (CallAgentToolResult _ _ _ _ _) = AgentToolResult"

text \<open>Every helper is one \<^verbatim>\<open>publish\<close>, with the owner and minimum role of its kind.\<close>

lemma bus_call_publish:
  "\<exists>body. \<forall>lk b. bus_call lk now c b =
     publish lk (atp_event_new now (request_kind c) (unwrap_or [] (call_session c)) body)
       (call_session c) (fst (event_scope (request_kind c))) b"
  by (cases c; simp add: publish_scoped_def publish_system_def; blast)

lemma should_receive_iff:
  "should_receive f ev \<longleftrightarrow> be_min_role ev \<le> ef_role f \<and>
     (case be_owner_session ev of Some owner \<Rightarrow> owner = ef_session_id f \<or> Operator \<le> ef_role f | None \<Rightarrow> True) \<and>
     (''*'' \<in> set (ef_subscribed f) \<or> event_name (ev_event (be_event ev)) \<in> set (ef_subscribed f))"
  by (auto simp: should_receive_def not_le [symmetric] split: option.splits)

interpretation bus_access: access_policy "\<lambda>r (f, ev). should_receive (f\<lparr>ef_role := r\<rparr>) ev"
  by unfold_locales (auto simp: should_receive_iff split: option.splits dest: order.trans)

text \<open>
  Who sees an event.  Every call of a publish helper sends exactly one event, and a
  connection receives it exactly when its role reaches the minimum of the event's kind, the
  event was published for its own session or is system-wide (operators and administrators see
  every session), and it subscribed to the kind or to everything; so an ordinary user never sees
  another session's events.
\<close>

theorem event_visibility:
  "\<exists>be. bus_sent (bus_call lk now c b) = bus_sent b @ [be] \<and>
     (should_receive f be \<longleftrightarrow>
        fst (event_scope (ev_event (be_event be))) \<le> ef_role f \<and>
        (call_session c = None \<or> call_session c = Some (ef_session_id f) \<or> Operator \<le> ef_role f) \<and>
        (''*'' \<in> set (ef_subscribed f) \<or> event_name (ev_event (be_event be)) \<in> set (ef_subscribed f)))"
proof -
  obtain body where "bus_call lk now c b =
     publish lk (atp_event_new now (request_kind c) (unwrap_or [] (call_session c)) body)
       (call_session c) (fst (event_scope (request_kind c))) b"
    using bus_call_publish by blast
  then have "\<exists>be. bus_sent (bus_call lk now c b) = bus_sent b @ [be] \<and> be_owner_session be = call_session c \<and>
      be_min_role be = fst (event_scope (ev_event (be_event be)))"
    by (simp add: publish_def Let_def atp_event_new_def)
  then show ?thesis by (auto simp: should_receive_iff split: option.splits)
qed

section \<open>The replay ring\<close>

definition last_n :: "nat \<Rightarrow> 'a list \<Rightarrow> 'a list" where
  "last_n n xs = drop (length xs - n) xs"

lemma last_n_snoc: "0 < n \<Longrightarrow> last_n n (xs @ [x]) = (if n \<le> length (last_n n xs) then tl (last_n n xs) else last_n n xs) @ [x]"
proof -
  assume n: "0 < n"
  show ?thesis
  proof (cases "n \<le> length xs")
    case True
    then have "drop (Suc (length xs) - n) xs = tl (drop (length xs - n) xs)"
      by (simp add: Suc_diff_le drop_Suc tl_drop)
    with True n show ?thesis by (simp add: last_n_def)
  qed (use n in \<open>simp add: last_n_def\<close>)
qed

text \<open>The events of a history that were stored: those sent while the ring's lock was free, chunks left out.\<close>

definition stored_events :: "(bool \<times> datetime \<times> bus_request) list \<Rightarrow> bus_event list \<Rightarrow> bus_event list" where
  "stored_events es sent =
     map snd (filter (\<lambda>((lk, _), be). lk \<and> ev_event (be_event be) \<noteq> AgentOutputChunk) (zip es sent))"

lemma bus_run:
  "let b = run_events bus_step bus_new es in
     length (bus_sent b) = length es \<and> bus_seq b = word_of_nat (length es) \<and>
     map be_seq (bus_sent b) = map word_of_nat [0..<length es] \<and>
     bus_ring b = last_n RING_CAPACITY (stored_events es (bus_sent b))"
proof (induction es rule: rev_induct)
  case Nil
  then show ?case by (simp add: bus_new_def stored_events_def last_n_def)
next
  case (snoc e es)
  obtain lk now c where e: "e = (lk, now, c)" by (cases e)
  let ?b = "run_events bus_step bus_new es"
  obtain body where call: "bus_call lk now c ?b =
     publish lk (atp_event_new now (request_kind c) (unwrap_or [] (call_session c)) body)
       (call_session c) (fst (event_scope (request_kind c))) ?b"
    using bus_call_publish by blast
  define be where "be = \<lparr> be_seq = bus_seq ?b,
     be_event = (atp_event_new now (request_kind c) (unwrap_or [] (call_session c)) body)\<lparr>ev_seq := bus_seq ?b\<rparr>,
     be_owner_session = call_session c, be_min_role = fst (event_scope (request_kind c)) \<rparr>"
  have run: "run_events bus_step bus_new (es @ [e]) = bus_call lk now c ?b"
    by (simp add: run_events_append bus_step_def e)
  have sent: "bus_sent (bus_call lk now c ?b) = bus_sent ?b @ [be]"
    and seq: "bus_seq (bus_call lk now c ?b) = bus_seq ?b + 1"
    and ring: "bus_ring (bus_call lk now c ?b) =
      (if request_kind c \<noteq> AgentOutputChunk \<and> lk
       then (if RING_CAPACITY \<le> length (bus_ring ?b) then tl (bus_ring ?b) else bus_ring ?b) @ [be] else bus_ring ?b)"
    unfolding call be_def by (simp_all add: publish_def Let_def atp_event_new_def)
  have IH: "length (bus_sent ?b) = length es" "bus_seq ?b = word_of_nat (length es)"
    "map be_seq (bus_sent ?b) = map word_of_nat [0..<length es]"
    "bus_ring ?b = last_n RING_CAPACITY (stored_events es (bus_sent ?b))"
    using snoc by (simp_all add: Let_def)
  have "stored_events (es @ [e]) (bus_sent ?b @ [be]) =
      stored_events es (bus_sent ?b) @ (if request_kind c \<noteq> AgentOutputChunk \<and> lk then [be] else [])"
    using IH(1) by (simp add: stored_events_def e be_def atp_event_new_def)
  moreover have "0 < RING_CAPACITY" by (simp add: RING_CAPACITY_def)
  ultimately have "bus_ring (bus_call lk now c ?b) = last_n RING_CAPACITY (stored_events (es @ [e]) (bus_sent ?b @ [be]))"
    unfolding ring IH(4) by (simp add: last_n_snoc)
  then show ?case
    using IH(1-3) by (simp add: Let_def run sent seq) (simp add: be_def)
qed

text \<open>
  What a reconnecting client can be replayed.  Over any history shorter than the range of the
  sequence counter, the events sent carry the numbers 0, 1, 2 and so on; a replay from a cursor
  gives, in order, exactly the stored events above the cursor among the last 512 stored, stored
  being those sent while the ring's lock was free, output chunks left out.  The comparison is
  strict and numbering starts at 0, so the first event ever sent is replayed from no cursor.
\<close>

theorem bus_replay:
  assumes "length es \<le> 2 ^ 64"
  shows "let b = run_events bus_step bus_new es; sent = bus_sent b in
     map (\<lambda>e. unat (be_seq e)) sent = [0..<length es] \<and>
     replay_since k b = filter (\<lambda>e. k < be_seq e) (last_n 512 (stored_events es sent)) \<and>
     (\<forall>e\<in>set (replay_since k b). be_seq e \<noteq> 0)"
proof -
  let ?b = "run_events bus_step bus_new es"
  have seqs: "map be_seq (bus_sent ?b) = map word_of_nat [0..<length es]"
    and ring: "bus_ring ?b = last_n 512 (stored_events es (bus_sent ?b))"
    using bus_run [of es] by (simp_all add: Let_def RING_CAPACITY_def)
  have "map (\<lambda>e. unat (be_seq e)) (bus_sent ?b) = map unat (map be_seq (bus_sent ?b))" by simp
  also have "\<dots> = map (\<lambda>n. unat (word_of_nat n :: u64)) [0..<length es]" unfolding seqs by simp
  also have "\<dots> = [0..<length es]" using assms by (intro map_idI) (simp add: unat_of_nat)
  finally show ?thesis by (auto simp: Let_def replay_since_def ring)
qed

theorem bus_replay_witness:
  "replay_since 0 (run_events bus_step bus_new [(True, 0, CallSysAlert ''a''), (True, 1, CallSysAlert ''b'')]) =
   filter (\<lambda>e. 0 < be_seq e) (last_n 512 (stored_events [(True, 0, CallSysAlert ''a''), (True, 1, CallSysAlert ''b'')]
     (bus_sent (run_events bus_step bus_new [(True, 0, CallSysAlert ''a''), (True, 1, CallSysAlert ''b'')]))))"
  using bus_replay [of "[(True, 0, CallSysAlert ''a''), (True, 1, CallSysAlert ''b'')]" 0]
  by (simp add: Let_def del: run_events.simps)

end
