(* ===== verification/Jobs.thy ===== *)
theory Jobs
  imports Types_Core
begin

text \<open>
  Background jobs: \<^verbatim>\<open>src/crates/avix-core/src/jobs\<close> (\<^verbatim>\<open>job.rs\<close>, \<^verbatim>\<open>event.rs\<close>,
  \<^verbatim>\<open>registry.rs\<close>, \<^verbatim>\<open>watch_handler.rs\<close>, \<^verbatim>\<open>start_job.rs\<close>).  The broadcast channel
  is the list of the events emitted so far.  Job identifiers are random; the part after
  \<^verbatim>\<open>job-\<close> is an argument.
\<close>

section \<open>Jobs and events\<close>

datatype job_state = JPending | JRunning | JPaused | JDone | JFailed | JCancelled

definition is_terminal :: "job_state \<Rightarrow> bool" where
  "is_terminal st \<longleftrightarrow> st \<in> {JDone, JFailed, JCancelled}"

fun job_state_debug :: "job_state \<Rightarrow> string" where
  "job_state_debug JPending = ''Pending''"
| "job_state_debug JRunning = ''Running''"
| "job_state_debug JPaused = ''Paused''"
| "job_state_debug JDone = ''Done''"
| "job_state_debug JFailed = ''Failed''"
| "job_state_debug JCancelled = ''Cancelled''"

fun job_state_str :: "job_state \<Rightarrow> string" where
  "job_state_str JPending = ''pending''"
| "job_state_str JRunning = ''running''"
| "job_state_str JPaused = ''paused''"
| "job_state_str JDone = ''done''"
| "job_state_str JFailed = ''failed''"
| "job_state_str JCancelled = ''cancelled''"

record job_error =
  jx_code :: int
  jx_message :: string

record job =
  job_id :: string
  job_tool :: string
  job_owner_pid :: pid
  job_status :: job_state
  job_created_at :: datetime
  job_updated_at :: datetime
  job_result :: "json option"
  job_err :: "job_error option"

datatype log_stream = Stdout | Stderr

datatype job_event =
  StatusChange string job_state job_state
| Progress string "u8 option" "string option" "string option"
| Log string log_stream string
| Complete string json
| Fail string job_error

fun event_job_id :: "job_event \<Rightarrow> string" where
  "event_job_id (StatusChange i _ _) = i"
| "event_job_id (Progress i _ _ _) = i"
| "event_job_id (Log i _ _) = i"
| "event_job_id (Complete i _) = i"
| "event_job_id (Fail i _) = i"

section \<open>The registry\<close>

record job_registry =
  jg_jobs :: "(string, job) hmap"
  jg_events :: "job_event list"

definition jobs_new :: job_registry where
  "jobs_new = \<lparr> jg_jobs = [], jg_events = [] \<rparr>"

definition jobs_emit :: "job_event \<Rightarrow> job_registry \<Rightarrow> job_registry" where
  "jobs_emit e r = r\<lparr>jg_events := jg_events r @ [e]\<rparr>"

definition jobs_put :: "string \<Rightarrow> job \<Rightarrow> job_registry \<Rightarrow> job_registry" where
  "jobs_put i j r = r\<lparr>jg_jobs := hm_insert i j (jg_jobs r)\<rparr>"

definition jobs_create :: "datetime \<Rightarrow> string \<Rightarrow> string \<Rightarrow> pid \<Rightarrow> job_registry \<Rightarrow> string \<times> job_registry" where
  "jobs_create now uuid tool owner r =
     (let i = ''job-'' @ uuid;
          j = \<lparr> job_id = i, job_tool = tool, job_owner_pid = owner, job_status = JPending,
                job_created_at = now, job_updated_at = now, job_result = None, job_err = None \<rparr>
      in (i, jobs_put i j r))"

definition jobs_get :: "job_registry \<Rightarrow> string \<Rightarrow> job avix_result" where
  "jobs_get r i = ok_or (NotFound (''job '' @ quoted i @ '' not found'')) (hm_get (jg_jobs r) i)"

definition jobs_start :: "datetime \<Rightarrow> string \<Rightarrow> job_registry \<Rightarrow> job_registry avix_result" where
  "jobs_start now i r =
     (case jobs_get r i of
        Inl e \<Rightarrow> Inl e
      | Inr j \<Rightarrow>
          if job_status j \<noteq> JPending
          then Inl (ConfigParse (''cannot start job '' @ quoted i @ '': state is '' @ job_state_debug (job_status j)))
          else Inr (jobs_emit (StatusChange i (job_status j) JRunning)
                 (jobs_put i (j\<lparr>job_status := JRunning, job_updated_at := now\<rparr>) r)))"

definition jobs_progress ::
  "datetime \<Rightarrow> string \<Rightarrow> u8 option \<Rightarrow> string option \<Rightarrow> string option \<Rightarrow> job_registry \<Rightarrow> job_registry avix_result" where
  "jobs_progress now i percent stage detail r =
     (case jobs_get r i of
        Inl e \<Rightarrow> Inl e
      | Inr j \<Rightarrow>
          if job_status j \<noteq> JRunning
          then Inl (ConfigParse (''cannot emit progress for job '' @ quoted i @ '': not running''))
          else Inr (jobs_emit (Progress i percent stage detail) (jobs_put i (j\<lparr>job_updated_at := now\<rparr>) r)))"

definition jobs_log ::
  "datetime \<Rightarrow> string \<Rightarrow> log_stream \<Rightarrow> string \<Rightarrow> job_registry \<Rightarrow> job_registry avix_result" where
  "jobs_log now i stream line r =
     (case jobs_get r i of
        Inl e \<Rightarrow> Inl e
      | Inr j \<Rightarrow>
          if job_status j \<noteq> JRunning
          then Inl (ConfigParse (''cannot emit log for job '' @ quoted i @ '': not running''))
          else Inr (jobs_emit (Log i stream line) (jobs_put i (j\<lparr>job_updated_at := now\<rparr>) r)))"

definition terminal_error :: "string \<Rightarrow> string \<Rightarrow> job \<Rightarrow> avix_error" where
  "terminal_error verb i j =
     ConfigParse (''cannot '' @ verb @ '' job '' @ quoted i @ '': already in terminal state '' @
       job_state_debug (job_status j))"

definition jobs_complete :: "datetime \<Rightarrow> string \<Rightarrow> json \<Rightarrow> job_registry \<Rightarrow> job_registry avix_result" where
  "jobs_complete now i result r =
     (case jobs_get r i of
        Inl e \<Rightarrow> Inl e
      | Inr j \<Rightarrow>
          if is_terminal (job_status j) then Inl (terminal_error ''complete'' i j)
          else Inr (jobs_emit (Complete i result) (jobs_emit (StatusChange i (job_status j) JDone)
                 (jobs_put i (j\<lparr>job_status := JDone, job_result := Some result, job_updated_at := now\<rparr>) r))))"

definition jobs_fail :: "datetime \<Rightarrow> string \<Rightarrow> job_error \<Rightarrow> job_registry \<Rightarrow> job_registry avix_result" where
  "jobs_fail now i err r =
     (case jobs_get r i of
        Inl e \<Rightarrow> Inl e
      | Inr j \<Rightarrow>
          if is_terminal (job_status j) then Inl (terminal_error ''fail'' i j)
          else Inr (jobs_emit (Fail i err) (jobs_emit (StatusChange i (job_status j) JFailed)
                 (jobs_put i (j\<lparr>job_status := JFailed, job_err := Some err, job_updated_at := now\<rparr>) r))))"

definition jobs_cancel :: "datetime \<Rightarrow> string \<Rightarrow> job_registry \<Rightarrow> job_registry avix_result" where
  "jobs_cancel now i r =
     (case jobs_get r i of
        Inl e \<Rightarrow> Inl e
      | Inr j \<Rightarrow>
          if is_terminal (job_status j) then Inl (terminal_error ''cancel'' i j)
          else Inr (jobs_emit (StatusChange i (job_status j) JCancelled)
                 (jobs_put i (j\<lparr>job_status := JCancelled, job_updated_at := now\<rparr>) r)))"

definition job_count :: "job_registry \<Rightarrow> nat" where
  "job_count r = length (jg_jobs r)"

text \<open>\<^verbatim>\<open>start_job\<close>: the registry after the job is created and started; the work it spawns
  is the caller's.\<close>

definition start_job :: "datetime \<Rightarrow> string \<Rightarrow> string \<Rightarrow> pid \<Rightarrow> job_registry \<Rightarrow> (string \<times> job_registry) avix_result" where
  "start_job now uuid tool owner r =
     (case jobs_create now uuid tool owner r of (i, r1) \<Rightarrow> map_sum id (\<lambda>r2. (i, r2)) (jobs_start now i r1))"

section \<open>Watching a job\<close>

fun opt_field :: "string \<Rightarrow> ('a \<Rightarrow> json) \<Rightarrow> 'a option \<Rightarrow> (string \<times> json) list" where
  "opt_field k f None = []"
| "opt_field k f (Some x) = [(k, f x)]"

fun log_stream_str :: "log_stream \<Rightarrow> string" where
  "log_stream_str Stdout = ''stdout''"
| "log_stream_str Stderr = ''stderr''"

definition job_error_value :: "job_error \<Rightarrow> json" where
  "job_error_value e = JObj [(''code'', JNum (jx_code e)), (''message'', JStr (jx_message e))]"

fun job_event_value :: "job_event \<Rightarrow> json" where
  "job_event_value (StatusChange i a b) =
     JObj [(''type'', JStr ''status_change''), (''job_id'', JStr i), (''old_state'', JStr (job_state_str a)),
           (''new_state'', JStr (job_state_str b))]"
| "job_event_value (Progress i p s d) =
     JObj ([(''type'', JStr ''progress''), (''job_id'', JStr i)] @ opt_field ''percent'' (\<lambda>w. JNum (uint w)) p @
           opt_field ''stage'' JStr s @ opt_field ''detail'' JStr d)"
| "job_event_value (Log i s l) =
     JObj [(''type'', JStr ''log''), (''job_id'', JStr i), (''stream'', JStr (log_stream_str s)), (''line'', JStr l)]"
| "job_event_value (Complete i r) = JObj [(''type'', JStr ''complete''), (''job_id'', JStr i), (''result'', r)]"
| "job_event_value (Fail i e) =
     JObj [(''type'', JStr ''fail''), (''job_id'', JStr i), (''error'', job_error_value e)]"

definition watch_status :: "string \<Rightarrow> json" where
  "watch_status s = JObj [(''status'', JStr s)]"

definition watch_event :: "json \<Rightarrow> json" where
  "watch_event e = JObj [(''event'', e)]"

text \<open>
  What the receiver delivers before the deadline: events, or an error when the channel lagged or
  closed.  The deadline is the end of the list.
\<close>

fun watch_loop :: "string \<Rightarrow> (unit + job_event) list \<Rightarrow> json" where
  "watch_loop i [] = watch_status ''timeout''"
| "watch_loop i (Inl _ # _) = watch_status ''timeout''"
| "watch_loop i (Inr e # es) = (if event_job_id e = i then watch_event (job_event_value e) else watch_loop i es)"

definition handle_job_watch :: "string \<Rightarrow> job_registry \<Rightarrow> (unit + job_event) list \<Rightarrow> json" where
  "handle_job_watch i r incoming =
     (case hm_get (jg_jobs r) i of
        None \<Rightarrow> watch_status ''not_found''
      | Some j \<Rightarrow>
          (case job_status j of
             JDone \<Rightarrow> watch_event (JObj [(''type'', JStr ''complete''), (''job_id'', JStr i),
                        (''result'', unwrap_or JNull (job_result j))])
           | JFailed \<Rightarrow>
               (case job_err j of
                  Some err \<Rightarrow> watch_event (JObj [(''type'', JStr ''fail''), (''job_id'', JStr i), (''error'', job_error_value err)])
                | None \<Rightarrow> watch_loop i incoming)
           | JCancelled \<Rightarrow> watch_event (JObj [(''type'', JStr ''status_change''), (''job_id'', JStr i),
                             (''old_state'', JStr ''running''), (''new_state'', JStr ''cancelled'')])
           | _ \<Rightarrow> watch_loop i incoming))"

section \<open>Operations as events\<close>

datatype job_op =
  JoCreate datetime string string pid
| JoStart datetime string
| JoProgress datetime string "u8 option" "string option" "string option"
| JoLog datetime string log_stream string
| JoComplete datetime string json
| JoFail datetime string job_error
| JoCancel datetime string

fun jobs_call :: "job_registry \<Rightarrow> job_op \<Rightarrow> job_registry avix_result" where
  "jobs_call r (JoCreate now u tool p) = Inr (snd (jobs_create now u tool p r))"
| "jobs_call r (JoStart now i) = jobs_start now i r"
| "jobs_call r (JoProgress now i a b c) = jobs_progress now i a b c r"
| "jobs_call r (JoLog now i s l) = jobs_log now i s l r"
| "jobs_call r (JoComplete now i v) = jobs_complete now i v r"
| "jobs_call r (JoFail now i e) = jobs_fail now i e r"
| "jobs_call r (JoCancel now i) = jobs_cancel now i r"

definition jobs_step :: "job_registry \<Rightarrow> job_op \<Rightarrow> job_registry" where
  "jobs_step r op = (case jobs_call r op of Inl _ \<Rightarrow> r | Inr r' \<Rightarrow> r')"

section \<open>Lemmas\<close>

text \<open>The transitions the operations make.\<close>

inductive job_trans :: "job_state \<Rightarrow> job_state \<Rightarrow> bool" where
  jt_stay: "job_trans s s"
| jt_start: "job_trans JPending JRunning"
| jt_end: "\<not> is_terminal s \<Longrightarrow> is_terminal t \<Longrightarrow> job_trans s t"

inductive_simps job_trans_simps: "job_trans s t"

lemma job_trans_refl: "reflp job_trans"
  by (auto intro!: reflpI jt_stay)

lemma job_trans_trans: "transp job_trans"
  by (rule transpI) (auto simp: job_trans_simps is_terminal_def)

lemma job_trans_terminal: "job_trans s t \<Longrightarrow> is_terminal s \<Longrightarrow> t = s"
  by (auto simp: job_trans_simps is_terminal_def)

lemma jobs_get_Inr [simp]: "jobs_get r i = Inr j \<longleftrightarrow> hm_get (jg_jobs r) i = Some j"
  by (simp add: jobs_get_def)

lemma jobs_put_simps [simp]:
  "hm_get (jg_jobs (jobs_put i j r)) k = (if k = i then Some j else hm_get (jg_jobs r) k)"
  "jg_events (jobs_put i j r) = jg_events r"
  "hm_get (jg_jobs (jobs_emit e r)) k = hm_get (jg_jobs r) k"
  "jg_events (jobs_emit e r) = jg_events r @ [e]"
  by (simp_all add: jobs_put_def jobs_emit_def)

text \<open>Every operation but creation changes at most the one job it names, if that is not terminal.\<close>

fun op_target :: "job_op \<Rightarrow> string" where
  "op_target (JoCreate _ u _ _) = ''job-'' @ u"
| "op_target (JoStart _ i) = i"
| "op_target (JoProgress _ i _ _ _) = i"
| "op_target (JoLog _ i _ _) = i"
| "op_target (JoComplete _ i _) = i"
| "op_target (JoFail _ i _) = i"
| "op_target (JoCancel _ i) = i"

fun op_creates :: "string \<Rightarrow> job_op \<Rightarrow> bool" where
  "op_creates i (JoCreate _ u _ _) \<longleftrightarrow> i = ''job-'' @ u"
| "op_creates i _ \<longleftrightarrow> False"

lemmas jobs_defs = jobs_start_def jobs_progress_def jobs_log_def jobs_complete_def jobs_fail_def jobs_cancel_def

lemma jobs_step_other: "i \<noteq> op_target op \<Longrightarrow> hm_get (jg_jobs (jobs_step r op)) i = hm_get (jg_jobs r) i"
  by (cases op) (auto simp: jobs_step_def jobs_defs jobs_create_def Let_def split: sum.splits if_splits)

definition job_follows :: "job \<Rightarrow> job \<Rightarrow> bool" where
  "job_follows j j' \<longleftrightarrow> job_id j' = job_id j \<and> job_tool j' = job_tool j \<and> job_owner_pid j' = job_owner_pid j \<and>
     job_created_at j' = job_created_at j \<and> job_trans (job_status j) (job_status j') \<and>
     (is_terminal (job_status j) \<longrightarrow> j' = j)"

lemma jobs_step_follows:
  assumes "hm_get (jg_jobs r) i = Some j" and "\<not> op_creates i op"
  shows "\<exists>j'. hm_get (jg_jobs (jobs_step r op)) i = Some j' \<and> job_follows j j'"
proof (cases "i = op_target op")
  case True
  with assms show ?thesis
    by (cases op) (auto simp: jobs_step_def jobs_defs job_follows_def job_trans_simps is_terminal_def
        split: sum.splits if_splits)
next
  case False
  then show ?thesis using assms jobs_step_other by (auto simp: job_follows_def jt_stay)
qed

definition job_ok :: "string \<Rightarrow> job \<Rightarrow> bool" where
  "job_ok i j \<longleftrightarrow> job_id j = i \<and> job_status j \<noteq> JPaused \<and> (job_status j = JDone \<longleftrightarrow> job_result j \<noteq> None) \<and>
     (job_status j = JFailed \<longleftrightarrow> job_err j \<noteq> None)"

definition jobs_inv :: "job_registry \<Rightarrow> bool" where
  "jobs_inv r \<longleftrightarrow> (\<forall>i j. hm_get (jg_jobs r) i = Some j \<longrightarrow> job_ok i j)"

lemma jobs_inv_new: "jobs_inv jobs_new"
  by (simp add: jobs_inv_def jobs_new_def)

lemma jobs_inv_put: "jobs_inv r \<Longrightarrow> job_ok i j \<Longrightarrow> jobs_inv (jobs_put i j r)"
  by (simp add: jobs_inv_def)

lemma jobs_inv_emit [simp]: "jobs_inv (jobs_emit e r) = jobs_inv r"
  by (simp add: jobs_inv_def)

lemma jobs_inv_step: "jobs_inv r \<Longrightarrow> jobs_inv (jobs_step r op)"
proof -
  assume inv: "jobs_inv r"
  then have ok: "hm_get (jg_jobs r) i = Some j \<Longrightarrow> job_ok i j" for i j by (simp add: jobs_inv_def)
  show ?thesis
    by (cases op)
       (auto simp: jobs_step_def jobs_defs jobs_create_def Let_def inv split: sum.splits if_splits
         intro!: jobs_inv_put [OF inv] dest!: ok, auto simp: job_ok_def is_terminal_def)
qed

interpretation jobm: event_machine jobs_step jobs_inv
  by unfold_locales (rule jobs_inv_step)

interpretation job_any: event_machine jobs_step "\<lambda>_. True"
  by unfold_locales

definition jobs_keeps :: "string \<Rightarrow> job_registry \<Rightarrow> job_registry \<Rightarrow> bool" where
  "jobs_keeps i r r' \<longleftrightarrow> (\<forall>j. hm_get (jg_jobs r) i = Some j \<longrightarrow>
     (\<exists>j'. hm_get (jg_jobs r') i = Some j' \<and> job_follows j j'))"

lemma job_follows_trans: "job_follows a b \<Longrightarrow> job_follows b c \<Longrightarrow> job_follows a c"
  using job_trans_trans by (auto simp: job_follows_def dest: transpD job_trans_terminal)

lemma jobs_keeps_refl: "reflp (jobs_keeps i)"
  by (auto intro!: reflpI simp: jobs_keeps_def job_follows_def jt_stay)

lemma jobs_keeps_trans: "transp (jobs_keeps i)"
  by (rule transpI) (unfold jobs_keeps_def, blast intro: job_follows_trans)

lemma jobs_keeps_step: "\<not> op_creates i op \<Longrightarrow> jobs_keeps i r (jobs_step r op)"
  by (simp add: jobs_keeps_def jobs_step_follows)

text \<open>
  C12. The life cycle of a job.  Whatever operations run, a job keeps its id, tool, owner and
  creation time; its state goes only from pending to running and from a state that is not final
  to a final one; and once it is done, failed or cancelled nothing about it, its result included,
  ever changes again (as long as its random id is not drawn a second time).
\<close>

theorem job_lifecycle:
  assumes "hm_get (jg_jobs r) i = Some j" and "list_all (\<lambda>op. \<not> op_creates i op) ops"
  shows "\<exists>j'. hm_get (jg_jobs (run_events jobs_step r ops)) i = Some j' \<and> job_id j' = job_id j \<and>
      job_tool j' = job_tool j \<and> job_owner_pid j' = job_owner_pid j \<and> job_created_at j' = job_created_at j \<and>
      (job_status j' = job_status j \<or> (job_status j = JPending \<and> job_status j' = JRunning) \<or>
       (\<not> is_terminal (job_status j) \<and> is_terminal (job_status j'))) \<and>
      (is_terminal (job_status j) \<longrightarrow> j' = j)"
proof -
  have "jobs_keeps i r (run_events jobs_step r ops)"
    by (rule job_any.rel_run [where P = "\<lambda>op. \<not> op_creates i op"])
       (use assms(2) in \<open>auto intro: jobs_keeps_refl jobs_keeps_trans jobs_keeps_step\<close>)
  with assms(1) obtain j' where "hm_get (jg_jobs (run_events jobs_step r ops)) i = Some j'" "job_follows j j'"
    by (auto simp: jobs_keeps_def)
  then show ?thesis by (auto simp: job_follows_def job_trans_simps)
qed

definition demo_jobs :: job_registry where
  "demo_jobs = snd (jobs_create 0 ''1'' ''fs/copy'' (Pid 4) jobs_new)"

theorem job_lifecycle_witness:
  "\<exists>j'. hm_get (jg_jobs (run_events jobs_step demo_jobs
       [JoStart 1 ''job-1'', JoComplete 2 ''job-1'' JNull, JoCancel 3 ''job-1''])) ''job-1'' = Some j' \<and> job_tool j' = ''fs/copy''"
proof -
  obtain j where "hm_get (jg_jobs demo_jobs) ''job-1'' = Some j" "job_tool j = ''fs/copy''"
    by (simp add: demo_jobs_def jobs_create_def jobs_new_def jobs_put_def Let_def)
  with job_lifecycle [of demo_jobs "''job-1''" j "[JoStart 1 ''job-1'', JoComplete 2 ''job-1'' JNull, JoCancel 3 ''job-1'']"]
  show ?thesis by (auto simp del: run_events.simps)
qed

section \<open>Final events\<close>

fun is_final_event :: "job_event \<Rightarrow> bool" where
  "is_final_event (StatusChange _ _ s) = (s = JCancelled)"
| "is_final_event (Progress _ _ _ _) = False"
| "is_final_event (Log _ _ _) = False"
| "is_final_event (Complete _ _) = True"
| "is_final_event (Fail _ _) = True"

definition final_events :: "string \<Rightarrow> job_event list \<Rightarrow> nat" where
  "final_events i es = length (filter (\<lambda>e. event_job_id e = i \<and> is_final_event e) es)"

fun created :: "job_op list \<Rightarrow> string list" where
  "created [] = []"
| "created (JoCreate _ u _ _ # ops) = (''job-'' @ u) # created ops"
| "created (_ # ops) = created ops"

lemma created_append: "created (xs @ ys) = created xs @ created ys"
  by (induction xs rule: created.induct) auto

lemma final_events_append [simp]: "final_events i (xs @ ys) = final_events i xs + final_events i ys"
  by (simp add: final_events_def)

definition finals_agree :: "job_registry \<Rightarrow> bool" where
  "finals_agree r \<longleftrightarrow> (\<forall>i. final_events i (jg_events r) =
     (case hm_get (jg_jobs r) i of Some j \<Rightarrow> if is_terminal (job_status j) then 1 else 0 | None \<Rightarrow> 0))"

lemma finals_agree_step:
  assumes "finals_agree r" and "\<And>i. op_creates i op \<Longrightarrow> hm_get (jg_jobs r) i = None"
  shows "finals_agree (jobs_step r op)"
proof -
  have agree: "final_events i (jg_events r) =
     (case hm_get (jg_jobs r) i of Some j \<Rightarrow> if is_terminal (job_status j) then 1 else 0 | None \<Rightarrow> 0)" for i
    using assms(1) by (simp add: finals_agree_def)
  show ?thesis
    unfolding finals_agree_def
  proof
    fix i
    show "final_events i (jg_events (jobs_step r op)) =
      (case hm_get (jg_jobs (jobs_step r op)) i of Some j \<Rightarrow> if is_terminal (job_status j) then 1 else 0 | None \<Rightarrow> 0)"
      using agree [of i] assms(2) [of i]
      by (cases op) (auto simp: jobs_step_def jobs_defs jobs_create_def Let_def is_terminal_def
          split: sum.splits if_splits option.splits, auto simp: final_events_def)
  qed
qed

lemma jobs_step_keys:
  "hm_get (jg_jobs (jobs_step r op)) i \<noteq> None \<Longrightarrow> hm_get (jg_jobs r) i \<noteq> None \<or> op_creates i op"
proof (rule ccontr)
  assume new: "hm_get (jg_jobs (jobs_step r op)) i \<noteq> None"
    and "\<not> (hm_get (jg_jobs r) i \<noteq> None \<or> op_creates i op)"
  then have "hm_get (jg_jobs r) i = None" "\<not> op_creates i op" by auto
  with new show False
    by (cases "i = op_target op"; cases op)
       (auto simp: jobs_step_other, auto simp: jobs_step_def jobs_defs split: sum.splits)
qed

lemma op_creates_iff: "op_creates i op \<longleftrightarrow> created [op] = [i]"
  by (cases op) auto

lemma jobs_run_finals:
  "distinct (created ops) \<Longrightarrow> finals_agree (run_events jobs_step jobs_new ops) \<and>
   (\<forall>i. hm_get (jg_jobs (run_events jobs_step jobs_new ops)) i \<noteq> None \<longrightarrow> i \<in> set (created ops))"
proof (induction ops rule: rev_induct)
  case Nil
  then show ?case by (simp add: finals_agree_def jobs_new_def final_events_def)
next
  case (snoc op ops)
  let ?r = "run_events jobs_step jobs_new ops"
  have d: "distinct (created ops)" and fresh: "set (created ops) \<inter> set (created [op]) = {}"
    using snoc.prems by (auto simp: created_append)
  have IH: "finals_agree ?r" "\<And>i. hm_get (jg_jobs ?r) i \<noteq> None \<Longrightarrow> i \<in> set (created ops)"
    using snoc.IH [OF d] by auto
  have "hm_get (jg_jobs ?r) i = None" if "op_creates i op" for i
  proof -
    have "i \<notin> set (created ops)" using that fresh by (auto simp: op_creates_iff)
    then show ?thesis using IH(2) by blast
  qed
  then have "finals_agree (jobs_step ?r op)" by (rule finals_agree_step [OF IH(1)])
  moreover have "i \<in> set (created (ops @ [op]))" if "hm_get (jg_jobs (jobs_step ?r op)) i \<noteq> None" for i
    using jobs_step_keys [OF that] IH(2) [of i] by (auto simp: op_creates_iff created_append)
  ultimately show ?case by (simp add: run_events_append)
qed

text \<open>
  Exactly one final event per job.  In any history of the registry in which no job id is
  drawn twice, the events emitted for a job contain exactly one final event (completion, failure
  or cancellation) if the job has ended, and none if it has not, so a watcher that follows the
  events sees every job end once.
\<close>

theorem job_one_final_event:
  assumes "distinct (created ops)"
  defines "r \<equiv> run_events jobs_step jobs_new ops"
  shows "final_events i (jg_events r) =
     (case hm_get (jg_jobs r) i of Some j \<Rightarrow> if is_terminal (job_status j) then 1 else 0 | None \<Rightarrow> 0)"
  using jobs_run_finals [OF assms(1)] by (simp add: finals_agree_def r_def)

theorem job_one_final_event_witness:
  "final_events ''job-1'' (jg_events (run_events jobs_step jobs_new
     [JoCreate 0 ''1'' ''t'' (Pid 4), JoFail 1 ''job-1'' \<lparr> jx_code = 1, jx_message = [] \<rparr>, JoComplete 2 ''job-1'' JNull])) = 1"
  using job_one_final_event [of "[JoCreate 0 ''1'' ''t'' (Pid 4), JoFail 1 ''job-1'' \<lparr> jx_code = 1, jx_message = [] \<rparr>, JoComplete 2 ''job-1'' JNull]" "''job-1''"]
  by (simp add: jobs_step_def jobs_create_def jobs_fail_def jobs_complete_def jobs_get_def jobs_put_def jobs_emit_def
      jobs_new_def is_terminal_def ok_or_def Let_def)

text \<open>
  Watching a finished job.  In every registry the operations can produce, a watch on a job
  that has ended answers at once, whatever arrives on the channel, with the completion event
  carrying the stored result or the failure event carrying the stored error; for a cancelled job
  it reports a change from running, also when the job was cancelled while still pending.
\<close>

theorem job_watch_final:
  fixes ops :: "job_op list"
  defines "r \<equiv> run_events jobs_step jobs_new ops"
  assumes "hm_get (jg_jobs r) i = Some j" and "is_terminal (job_status j)"
  shows "handle_job_watch i r incoming = watch_event
     (case job_status j of
        JDone \<Rightarrow> job_event_value (Complete i (the (job_result j)))
      | JFailed \<Rightarrow> job_event_value (Fail i (the (job_err j)))
      | _ \<Rightarrow> job_event_value (StatusChange i JRunning JCancelled))"
proof -
  have "jobs_inv r" unfolding r_def by (rule jobm.inv_run [OF jobs_inv_new])
  then have "job_ok i j" using assms(2) by (simp add: jobs_inv_def)
  with assms(2,3) show ?thesis
    by (auto simp: handle_job_watch_def job_ok_def is_terminal_def split: job_state.splits option.splits)
qed

theorem job_watch_final_witness:
  "handle_job_watch ''job-1'' (run_events jobs_step jobs_new [JoCreate 0 ''1'' ''t'' (Pid 4), JoComplete 2 ''job-1'' (JNum 5)]) [] =
   watch_event (job_event_value (Complete ''job-1'' (JNum 5)))"
proof -
  let ?ops = "[JoCreate 0 ''1'' ''t'' (Pid 4), JoComplete 2 ''job-1'' (JNum 5)]"
  obtain j where "hm_get (jg_jobs (run_events jobs_step jobs_new ?ops)) ''job-1'' = Some j" "job_status j = JDone"
    "job_result j = Some (JNum 5)"
    by (simp add: jobs_step_def jobs_create_def jobs_complete_def jobs_get_def jobs_put_def jobs_emit_def
      jobs_new_def is_terminal_def ok_or_def Let_def)
  then show ?thesis using job_watch_final [of ?ops "''job-1''" j "[]"] by (simp add: is_terminal_def del: run_events.simps)
qed

end
