(* ===== verification/Signals.thy ===== *)
theory Signals
  imports Types_Core
begin

text \<open>
  Signals between the kernel and agents: \<^verbatim>\<open>src/crates/avix-core/src/signal\<close>
  (\<^verbatim>\<open>kind.rs\<close>, \<^verbatim>\<open>bus.rs\<close>, \<^verbatim>\<open>channels.rs\<close>).  A broadcast or point-to-point
  channel is an address whose contents are everything ever sent on it; a subscription is an
  address with the position it has read up to.
\<close>

section \<open>Signals\<close>

datatype signal_kind = SigStart | SigPause | SigResume | SigKill | SigStop | SigSave | SigPipe | SigEscalate | SigUsr1 | SigUsr2

fun signal_kind_str :: "signal_kind \<Rightarrow> string" where
  "signal_kind_str SigStart = ''SIGSTART''"
| "signal_kind_str SigPause = ''SIGPAUSE''"
| "signal_kind_str SigResume = ''SIGRESUME''"
| "signal_kind_str SigKill = ''SIGKILL''"
| "signal_kind_str SigStop = ''SIGSTOP''"
| "signal_kind_str SigSave = ''SIGSAVE''"
| "signal_kind_str SigPipe = ''SIGPIPE''"
| "signal_kind_str SigEscalate = ''SIGESCALATE''"
| "signal_kind_str SigUsr1 = ''SIGUSR1''"
| "signal_kind_str SigUsr2 = ''SIGUSR2''"

record signal =
  sig_target :: pid
  sig_kind :: signal_kind
  sig_payload :: json

section \<open>The signal bus\<close>

definition CHANNEL_CAPACITY :: nat where
  "CHANNEL_CAPACITY = 64"

record subscription =
  ss_id :: u64
  ss_chan :: nat
  ss_pos :: nat

record pid_entry =
  pn_sender :: nat
  pn_sub_count :: nat

record signal_bus =
  sb_table :: "(u64, pid_entry) hmap"
  sb_next_id :: u64
  sb_chans :: "nat \<Rightarrow> signal list"
  sb_next_chan :: nat

definition sb_new :: signal_bus where
  "sb_new = \<lparr> sb_table = [], sb_next_id = 0, sb_chans = (\<lambda>_. []), sb_next_chan = 0 \<rparr>"

definition sb_subscribe :: "pid \<Rightarrow> signal_bus \<Rightarrow> subscription \<times> signal_bus" where
  "sb_subscribe p b =
     (let i = sb_next_id b;
          b1 = b\<lparr>sb_next_id := i + 1\<rparr>;
          (e, b2) = (case hm_get (sb_table b1) (pid_u64 p) of
                       Some e \<Rightarrow> (e, b1)
                     | None \<Rightarrow> (\<lparr> pn_sender = sb_next_chan b1, pn_sub_count = 0 \<rparr>,
                                b1\<lparr>sb_next_chan := sb_next_chan b1 + 1\<rparr>));
          e' = e\<lparr>pn_sub_count := pn_sub_count e + 1\<rparr>
      in (\<lparr> ss_id = i, ss_chan = pn_sender e', ss_pos = length (sb_chans b2 (pn_sender e')) \<rparr>,
          b2\<lparr>sb_table := hm_insert (pid_u64 p) e' (sb_table b2)\<rparr>))"

definition sb_unsubscribe :: "pid \<Rightarrow> signal_bus \<Rightarrow> signal_bus" where
  "sb_unsubscribe p b =
     (case hm_get (sb_table b) (pid_u64 p) of
        None \<Rightarrow> b
      | Some e \<Rightarrow>
          (let n = pn_sub_count e - 1
           in if n = 0 then b\<lparr>sb_table := hm_remove (pid_u64 p) (sb_table b)\<rparr>
              else b\<lparr>sb_table := hm_insert (pid_u64 p) (e\<lparr>pn_sub_count := n\<rparr>) (sb_table b)\<rparr>))"

definition chan_send :: "nat \<Rightarrow> signal \<Rightarrow> signal_bus \<Rightarrow> signal_bus" where
  "chan_send a s b = b\<lparr>sb_chans := (sb_chans b)(a := sb_chans b a @ [s])\<rparr>"

definition sb_send :: "signal \<Rightarrow> signal_bus \<Rightarrow> signal_bus" where
  "sb_send s b =
     (case hm_get (sb_table b) (pid_u64 (sig_target s)) of
        None \<Rightarrow> b
      | Some e \<Rightarrow> chan_send (pn_sender e) s b)"

definition sb_broadcast :: "signal_kind \<Rightarrow> json \<Rightarrow> signal_bus \<Rightarrow> signal_bus" where
  "sb_broadcast k payload b =
     fold (\<lambda>(p, e). chan_send (pn_sender e) \<lparr> sig_target = Pid p, sig_kind = k, sig_payload = payload \<rparr>)
       (sb_table b) b"

definition subscriber_count :: "signal_bus \<Rightarrow> pid \<Rightarrow> nat" where
  "subscriber_count b p = (case hm_get (sb_table b) (pid_u64 p) of None \<Rightarrow> 0 | Some e \<Rightarrow> pn_sub_count e)"

text \<open>\<^verbatim>\<open>Subscription::recv\<close>: the next signal; nothing when the receiver fell more than the
  channel's capacity behind (it then resumes with the oldest kept) or when the channel's last
  sender is gone and everything was read; otherwise a wait.\<close>

datatype recv_result = Received signal | RecvNone | RecvWait

definition chan_open :: "signal_bus \<Rightarrow> nat \<Rightarrow> bool" where
  "chan_open b a = list_ex (\<lambda>(_, e). pn_sender e = a) (sb_table b)"

definition sub_recv :: "signal_bus \<Rightarrow> subscription \<Rightarrow> recv_result \<times> subscription" where
  "sub_recv b s =
     (let sent = sb_chans b (ss_chan s)
      in if ss_pos s + CHANNEL_CAPACITY < length sent
         then (RecvNone, s\<lparr>ss_pos := length sent - CHANNEL_CAPACITY\<rparr>)
         else if ss_pos s < length sent then (Received (sent ! ss_pos s), s\<lparr>ss_pos := ss_pos s + 1\<rparr>)
         else if chan_open b (ss_chan s) then (RecvWait, s)
         else (RecvNone, s))"

section \<open>Point-to-point channels\<close>

record signal_channel_registry =
  sc_inner :: "(u64, nat) hmap"
  sc_queues :: "nat \<Rightarrow> signal list"
  sc_closed :: "nat set"

definition sc_new :: signal_channel_registry where
  "sc_new = \<lparr> sc_inner = [], sc_queues = (\<lambda>_. []), sc_closed = {} \<rparr>"

definition sc_register :: "pid \<Rightarrow> nat \<Rightarrow> signal_channel_registry \<Rightarrow> signal_channel_registry" where
  "sc_register p tx r = r\<lparr>sc_inner := hm_insert (pid_u64 p) tx (sc_inner r)\<rparr>"

definition sc_unregister :: "pid \<Rightarrow> signal_channel_registry \<Rightarrow> signal_channel_registry" where
  "sc_unregister p r = r\<lparr>sc_inner := hm_remove (pid_u64 p) (sc_inner r)\<rparr>"

text \<open>\<^verbatim>\<open>send\<close>, once the channel has room: it waits for room with the registry locked.\<close>

definition sc_send :: "pid \<Rightarrow> signal \<Rightarrow> signal_channel_registry \<Rightarrow> bool \<times> signal_channel_registry" where
  "sc_send p s r =
     (case hm_get (sc_inner r) (pid_u64 p) of
        None \<Rightarrow> (False, r)
      | Some tx \<Rightarrow>
          if tx \<in> sc_closed r then (False, r)
          else (True, r\<lparr>sc_queues := (sc_queues r)(tx := sc_queues r tx @ [s])\<rparr>))"

section \<open>Lemmas\<close>

datatype sb_op = SbSubscribe pid | SbUnsubscribe pid | SbSend signal | SbBroadcast signal_kind json

fun sb_step :: "signal_bus \<Rightarrow> sb_op \<Rightarrow> signal_bus" where
  "sb_step b (SbSubscribe p) = snd (sb_subscribe p b)"
| "sb_step b (SbUnsubscribe p) = sb_unsubscribe p b"
| "sb_step b (SbSend s) = sb_send s b"
| "sb_step b (SbBroadcast k v) = sb_broadcast k v b"

text \<open>
  The bus invariant, relative to a ghost map \<open>own\<close> from channels to the process they were made
  for: table entries use channels of their own process, every signal on a channel is addressed
  to that process, counts are positive, and unused channels are empty.
\<close>

definition sb_inv :: "(nat \<Rightarrow> u64) \<Rightarrow> signal_bus \<Rightarrow> bool" where
  "sb_inv own b \<longleftrightarrow> hm_wf (sb_table b) \<and>
     (\<forall>p e. hm_get (sb_table b) p = Some e \<longrightarrow> own (pn_sender e) = p \<and> pn_sender e < sb_next_chan b \<and> 0 < pn_sub_count e) \<and>
     (\<forall>a. \<forall>s\<in>set (sb_chans b a). sig_target s = Pid (own a)) \<and>
     (\<forall>a. a \<ge> sb_next_chan b \<longrightarrow> sb_chans b a = [])"

lemma chan_send_simps [simp]:
  "sb_table (chan_send a s b) = sb_table b" "sb_next_chan (chan_send a s b) = sb_next_chan b"
  "sb_chans (chan_send a s b) x = (if x = a then sb_chans b a @ [s] else sb_chans b x)"
  by (simp_all add: chan_send_def)

lemma sb_inv_chan_send:
  "sb_inv own b \<Longrightarrow> sig_target s = Pid (own a) \<Longrightarrow> a < sb_next_chan b \<Longrightarrow> sb_inv own (chan_send a s b)"
  by (auto simp: sb_inv_def)

lemma sb_inv_broadcast:
  assumes "sb_inv own b"
  shows "sb_inv own (sb_broadcast k v b)"
proof -
  have "sb_inv own c \<and> sb_table c = sb_table b \<and> sb_next_chan c = sb_next_chan b \<Longrightarrow> set es \<subseteq> set (sb_table b) \<Longrightarrow>
      sb_inv own (fold (\<lambda>(p, e). chan_send (pn_sender e) \<lparr> sig_target = Pid p, sig_kind = k, sig_payload = v \<rparr>) es c)" for es c
  proof (induction es arbitrary: c)
    case (Cons pe es)
    obtain p e where pe: "pe = (p, e)" by fastforce
    have "hm_get (sb_table b) p = Some e"
      using Cons.prems pe assms by (auto simp: sb_inv_def hm_wf_def intro: map_of_is_SomeI)
    then have "own (pn_sender e) = p" "pn_sender e < sb_next_chan c"
      using Cons.prems assms by (auto simp: sb_inv_def)
    then show ?case using Cons by (auto simp: pe intro!: Cons.IH sb_inv_chan_send)
  qed simp
  then show ?thesis using assms by (simp add: sb_broadcast_def)
qed

lemma sb_inv_subscribe_new:
  assumes "sb_inv own b" and "hm_get (sb_table b) (pid_u64 p) = None"
  shows "sb_inv (own(sb_next_chan b := pid_u64 p)) (snd (sb_subscribe p b))"
proof -
  have "pn_sender e < sb_next_chan b" "own (pn_sender e) = q" "0 < pn_sub_count e"
    if "hm_get (sb_table b) q = Some e" for q e
    using assms that by (auto simp: sb_inv_def)
  then have old: "pn_sender e < Suc (sb_next_chan b)" "pn_sender e \<noteq> sb_next_chan b" "own (pn_sender e) = q" "0 < pn_sub_count e"
    if "hm_get (sb_table b) q = Some e" for q e
    using that by fastforce+
  show ?thesis
    using assms unfolding sb_inv_def sb_subscribe_def
    by (auto simp: Let_def old split: if_splits dest: old)
qed

lemma sb_inv_subscribe_old:
  assumes "sb_inv own b" and "hm_get (sb_table b) (pid_u64 p) = Some e"
  shows "sb_inv own (snd (sb_subscribe p b))"
  using assms by (auto simp: sb_inv_def sb_subscribe_def Let_def split: if_splits)

lemma sb_inv_unsubscribe: "sb_inv own b \<Longrightarrow> sb_inv own (sb_unsubscribe p b)"
  by (auto simp: sb_inv_def sb_unsubscribe_def Let_def split: option.splits if_splits)

lemma sb_inv_send: "sb_inv own b \<Longrightarrow> sb_inv own (sb_send s b)"
  by (auto simp: sb_send_def split: option.splits intro!: sb_inv_chan_send)
     (auto simp: sb_inv_def)

lemma sb_inv_new: "sb_inv own sb_new"
  by (simp add: sb_inv_def sb_new_def hm_wf_def)

lemma sb_inv_step:
  assumes "sb_inv own b"
  shows "\<exists>own'. sb_inv own' (sb_step b opr)"
proof (cases opr)
  case (SbSubscribe p)
  then show ?thesis using sb_inv_subscribe_new [OF assms] sb_inv_subscribe_old [OF assms]
    by (cases "hm_get (sb_table b) (pid_u64 p)") auto
next
  case (SbUnsubscribe p)
  then show ?thesis using sb_inv_unsubscribe [OF assms] by auto
next
  case (SbSend s)
  then show ?thesis using sb_inv_send [OF assms] by auto
next
  case (SbBroadcast k v)
  then show ?thesis using sb_inv_broadcast [OF assms] by auto
qed

interpretation sbm: event_machine sb_step "\<lambda>b. \<exists>own. sb_inv own b"
  by unfold_locales (auto dest: sb_inv_step)

text \<open>The signals an operation addresses to a process that is subscribed.\<close>

fun addressed :: "pid \<Rightarrow> sb_op \<Rightarrow> signal list" where
  "addressed p (SbSend s) = (if sig_target s = p then [s] else [])"
| "addressed p (SbBroadcast k v) = [\<lparr> sig_target = p, sig_kind = k, sig_payload = v \<rparr>]"
| "addressed p _ = []"

lemma filter_key_hm_get:
  "hm_wf t \<Longrightarrow> hm_get t p = Some e \<Longrightarrow> filter (\<lambda>x. fst x = p) t = [(p, e)]"
proof (induction t)
  case (Cons x t)
  show ?case
  proof (cases "fst x = p")
    case True
    then have "p \<notin> fst ` set t" using Cons.prems by (auto simp: hm_wf_def)
    then have "filter (\<lambda>x. fst x = p) t = []" by (auto simp: filter_empty_conv)
    then show ?thesis using True Cons.prems by (cases x)  (auto)
  qed (use Cons in \<open>auto simp: hm_wf_def split: if_splits\<close>)
qed simp

lemma fold_chan_send:
  "sb_table (fold (\<lambda>(q, e). chan_send (pn_sender e) (f q)) es c) = sb_table c \<and>
   sb_chans (fold (\<lambda>(q, e). chan_send (pn_sender e) (f q)) es c) a =
     sb_chans c a @ map (\<lambda>(q, e). f q) (filter (\<lambda>(q, e). pn_sender e = a) es)"
  by (induction es arbitrary: c) auto

lemma sb_step_delivers:
  assumes inv: "sb_inv own b" and e: "hm_get (sb_table b) (pid_u64 p) = Some e"
    and live: "opr \<noteq> SbUnsubscribe p"
  shows "sb_chans (sb_step b opr) (pn_sender e) = sb_chans b (pn_sender e) @ addressed p opr \<and>
    (\<exists>e'. hm_get (sb_table (sb_step b opr)) (pid_u64 p) = Some e' \<and> pn_sender e' = pn_sender e)"
proof (cases opr)
  case (SbSubscribe q)
  then show ?thesis using e
    by (cases "hm_get (sb_table b) (pid_u64 q)") (auto simp: sb_subscribe_def Let_def)
next
  case (SbUnsubscribe q)
  then have "pid_u64 q \<noteq> pid_u64 p" using live by (cases p; cases q) auto
  then show ?thesis using e SbUnsubscribe by (auto simp: sb_unsubscribe_def Let_def split: option.splits)
next
  case (SbSend s)
  have "pn_sender e' \<noteq> pn_sender e" if "hm_get (sb_table b) (pid_u64 (sig_target s)) = Some e'" "sig_target s \<noteq> p" for e'
  proof -
    have "own (pn_sender e') = pid_u64 (sig_target s)" "own (pn_sender e) = pid_u64 p"
      using that(1) inv e by (auto simp: sb_inv_def)
    then show ?thesis using that(2) by (cases p; cases "sig_target s") auto
  qed
  then show ?thesis using e SbSend by (cases "sig_target s = p") (auto simp: sb_send_def split: option.splits)
next
  case (SbBroadcast k v)
  have t: "hm_wf (sb_table b)" using inv by (simp add: sb_inv_def)
  have own: "own (pn_sender e) = pid_u64 p" "\<And>x. x \<in> set (sb_table b) \<Longrightarrow> own (pn_sender (snd x)) = fst x"
    using inv e t by (auto simp: sb_inv_def hm_wf_def)
  have "(pn_sender (snd x) = pn_sender e) = (fst x = pid_u64 p)" if "x \<in> set (sb_table b)" for x
  proof
    assume "pn_sender (snd x) = pn_sender e"
    then show "fst x = pid_u64 p" using own that by metis
  next
    assume "fst x = pid_u64 p"
    then have "hm_get (sb_table b) (pid_u64 p) = Some (snd x)"
      using that t by (metis hm_wf_def map_of_is_SomeI prod.collapse)
    then show "pn_sender (snd x) = pn_sender e" using e by simp
  qed
  then have "filter (\<lambda>(q, e'). pn_sender e' = pn_sender e) (sb_table b) = [(pid_u64 p, e)]"
    using filter_key_hm_get [OF t e] by (metis (mono_tags, lifting) case_prod_beta filter_cong)
  then show ?thesis using e SbBroadcast by (cases p) (simp add: sb_broadcast_def fold_chan_send)
qed

lemma sb_run_delivers:
  assumes "\<exists>own. sb_inv own b" "hm_get (sb_table b) (pid_u64 p) = Some e" "SbUnsubscribe p \<notin> set oprs"
  shows "sb_chans (run_events sb_step b oprs) (pn_sender e) = sb_chans b (pn_sender e) @ concat (map (addressed p) oprs)"
  using assms
proof (induction oprs arbitrary: b e)
  case (Cons x xs)
  obtain own where "sb_inv own b" using Cons.prems by blast
  from sb_step_delivers [OF this Cons.prems(2), of x] Cons.prems(3)
  obtain e' where "hm_get (sb_table (sb_step b x)) (pid_u64 p) = Some e'" "pn_sender e' = pn_sender e"
    "sb_chans (sb_step b x) (pn_sender e) = sb_chans b (pn_sender e) @ addressed p x" by auto
  then show ?case using Cons.IH [of "sb_step b x" e'] Cons.prems sb_inv_step by auto
qed simp

lemma sb_subscribe_entry:
  "\<exists>e. hm_get (sb_table (snd (sb_subscribe p b))) (pid_u64 p) = Some e \<and>
     pn_sender e = ss_chan (fst (sb_subscribe p b)) \<and>
     ss_pos (fst (sb_subscribe p b)) = length (sb_chans (snd (sb_subscribe p b)) (ss_chan (fst (sb_subscribe p b))))"
  by (auto simp: sb_subscribe_def Let_def split: option.splits)

lemma sub_recv_next:
  assumes "drop (ss_pos s) (sb_chans b (ss_chan s)) = x # xs" "length xs < CHANNEL_CAPACITY"
  shows "sub_recv b s = (Received x, s\<lparr>ss_pos := ss_pos s + 1\<rparr>)"
proof -
  have "ss_pos s < length (sb_chans b (ss_chan s))" using assms(1) by (metis drop_all list.discI not_le)
  moreover have "length (sb_chans b (ss_chan s)) = ss_pos s + 1 + length xs"
    using calculation arg_cong [OF assms(1), of length] by simp
  moreover have "sb_chans b (ss_chan s) ! ss_pos s = x"
    using assms(1) calculation(1) by (metis Cons_nth_drop_Suc list.inject)
  ultimately show ?thesis using assms(2) by (simp add: sub_recv_def)
qed

fun sub_recv_n :: "nat \<Rightarrow> signal_bus \<Rightarrow> subscription \<Rightarrow> recv_result list" where
  "sub_recv_n 0 b s = []"
| "sub_recv_n (Suc n) b s = (let (r, s') = sub_recv b s in r # sub_recv_n n b s')"

lemma sub_recv_n_all:
  "drop (ss_pos s) (sb_chans b (ss_chan s)) = xs \<Longrightarrow> length xs \<le> CHANNEL_CAPACITY \<Longrightarrow>
   sub_recv_n (length xs) b s = map Received xs"
proof (induction xs arbitrary: s)
  case (Cons x xs)
  have "drop (ss_pos s + 1) (sb_chans b (ss_chan s)) = xs"
    using Cons.prems(1) by (metis Suc_eq_plus1 drop_Suc list.sel(3) tl_drop)
  then show ?case using Cons sub_recv_next [OF Cons.prems(1)] by simp
qed simp

text \<open>
  Targeted signal delivery: after a process subscribes to the bus in any state the bus can be
  in, and as long as nobody unsubscribes it, its channel carries from then on exactly the signals
  sent to that process and the broadcasts, each addressed to it, in sending order and none twice,
  whatever else subscribes, unsubscribes or is signalled meanwhile; and if they are at most the
  channel's capacity of 64, receiving that many times returns precisely these signals.
\<close>

theorem signal_delivery:
  assumes sub: "sb_subscribe p (run_events sb_step sb_new before) = (s, b)"
    and live: "SbUnsubscribe p \<notin> set after"
  shows "drop (ss_pos s) (sb_chans (run_events sb_step b after) (ss_chan s)) = concat (map (addressed p) after) \<and>
    (length (concat (map (addressed p) after)) \<le> CHANNEL_CAPACITY \<longrightarrow>
      sub_recv_n (length (concat (map (addressed p) after))) (run_events sb_step b after) s =
        map Received (concat (map (addressed p) after)))"
proof -
  have "\<exists>own. sb_inv own (run_events sb_step sb_new (before @ [SbSubscribe p]))"
    using sbm.inv_run sb_inv_new by blast
  then have inv: "\<exists>own. sb_inv own b" using sub by (simp add: run_events_append)
  obtain e where e: "hm_get (sb_table b) (pid_u64 p) = Some e" "pn_sender e = ss_chan s"
    "ss_pos s = length (sb_chans b (ss_chan s))"
    using sb_subscribe_entry [of p "run_events sb_step sb_new before"] sub by auto
  have *: "drop (ss_pos s) (sb_chans (run_events sb_step b after) (ss_chan s)) = concat (map (addressed p) after)"
    using sb_run_delivers [OF inv e(1) live] e by simp
  show ?thesis using * sub_recv_n_all [OF *] by blast
qed

definition demo_signal :: "pid \<Rightarrow> signal" where
  "demo_signal p = \<lparr> sig_target = p, sig_kind = SigKill, sig_payload = JNull \<rparr>"

definition demo_signals :: "sb_op list" where
  "demo_signals = [SbSend (demo_signal (Pid 9)), SbSend (demo_signal (Pid 4)), SbBroadcast SigPause JNull]"

definition demo_bus :: "subscription \<times> signal_bus" where
  "demo_bus = sb_subscribe (Pid 4) (run_events sb_step sb_new [SbSubscribe (Pid 9)])"

theorem signal_delivery_witness:
  "sub_recv_n 2 (run_events sb_step (snd demo_bus) demo_signals) (fst demo_bus) =
     [Received (demo_signal (Pid 4)), Received \<lparr> sig_target = Pid 4, sig_kind = SigPause, sig_payload = JNull \<rparr>]"
proof -
  have "sb_subscribe (Pid 4) (run_events sb_step sb_new [SbSubscribe (Pid 9)]) = (fst demo_bus, snd demo_bus)"
    by (simp add: demo_bus_def)
  moreover have "SbUnsubscribe (Pid 4) \<notin> set demo_signals" by (simp add: demo_signals_def)
  ultimately have "sub_recv_n (length (concat (map (addressed (Pid 4)) demo_signals))) (run_events sb_step (snd demo_bus) demo_signals) (fst demo_bus) =
      map Received (concat (map (addressed (Pid 4)) demo_signals))"
    using signal_delivery [of "Pid 4" "[SbSubscribe (Pid 9)]" "fst demo_bus" "snd demo_bus" demo_signals]
    by (simp add: demo_signals_def demo_signal_def CHANNEL_CAPACITY_def)
  moreover have "concat (map (addressed (Pid 4)) demo_signals) =
      [demo_signal (Pid 4), \<lparr> sig_target = Pid 4, sig_kind = SigPause, sig_payload = JNull \<rparr>]"
    by (simp add: demo_signals_def demo_signal_def)
  ultimately show ?thesis by (simp add: numeral_2_eq_2)
qed

end
