(* ===== verification/Pipes.thy ===== *)
theory Pipes
  imports Memfs Signals "HOL-Library.Sublist"
begin

text \<open>
  Pipes between agents: \<^verbatim>\<open>src/crates/avix-core/src/pipe\<close> (\<^verbatim>\<open>config.rs\<close>, \<^verbatim>\<open>channel.rs\<close>,
  \<^verbatim>\<open>registry.rs\<close>, \<^verbatim>\<open>manager.rs\<close>) and the SIGPIPE payload of
  \<^verbatim>\<open>signal/pipe_payload.rs\<close>.  A pipe is shared between the manager's table and the calls that
  hold it, so the manager keeps its pipes in a store of addresses: closing takes the entry out of
  the table, the pipe stays where blocked writers wait on it.  A bounded channel is its queue
  and the writers waiting for room, in order; a read that frees a slot lets the first of them in
  before anything else happens.
\<close>

section \<open>Configuration\<close>

datatype pipe_direction = DirOut | DirIn | DirBidirectional

definition pipe_direction_parse :: "string \<Rightarrow> pipe_direction" where
  "pipe_direction_parse s = (if s = ''in'' then DirIn else if s = ''bidirectional'' then DirBidirectional else DirOut)"

fun pipe_direction_str :: "pipe_direction \<Rightarrow> string" where
  "pipe_direction_str DirOut = ''out''"
| "pipe_direction_str DirIn = ''in''"
| "pipe_direction_str DirBidirectional = ''bidirectional''"

datatype backpressure_policy = BpBlock | BpDrop | BpError

definition backpressure_parse :: "string \<Rightarrow> backpressure_policy" where
  "backpressure_parse s = (if s = ''drop'' then BpDrop else if s = ''error'' then BpError else BpBlock)"

fun backpressure_str :: "backpressure_policy \<Rightarrow> string" where
  "backpressure_str BpBlock = ''block''"
| "backpressure_str BpDrop = ''drop''"
| "backpressure_str BpError = ''error''"

datatype pipe_encoding = EncText | EncJson | EncYaml

definition pipe_encoding_parse :: "string \<Rightarrow> pipe_encoding" where
  "pipe_encoding_parse s = (if s = ''json'' then EncJson else if s = ''yaml'' then EncYaml else EncText)"

fun pipe_encoding_str :: "pipe_encoding \<Rightarrow> string" where
  "pipe_encoding_str EncText = ''text''"
| "pipe_encoding_str EncJson = ''json''"
| "pipe_encoding_str EncYaml = ''yaml''"

record pipe_config =
  pc_source_pid :: pid
  pc_target_pid :: pid
  pc_direction :: pipe_direction
  pc_buffer_tokens :: nat
  pc_backpressure :: backpressure_policy
  pc_encoding :: pipe_encoding

definition pipe_config_new :: "pid \<Rightarrow> pid \<Rightarrow> pipe_config" where
  "pipe_config_new src tgt =
     \<lparr> pc_source_pid = src, pc_target_pid = tgt, pc_direction = DirOut, pc_buffer_tokens = 8192,
       pc_backpressure = BpBlock, pc_encoding = EncText \<rparr>"

definition pipe_can_write :: "pipe_config \<Rightarrow> pid \<Rightarrow> bool" where
  "pipe_can_write c p =
     (case pc_direction c of
        DirOut \<Rightarrow> p = pc_source_pid c
      | DirIn \<Rightarrow> p = pc_target_pid c
      | DirBidirectional \<Rightarrow> p = pc_source_pid c \<or> p = pc_target_pid c)"

definition pipe_can_read :: "pipe_config \<Rightarrow> pid \<Rightarrow> bool" where
  "pipe_can_read c p =
     (case pc_direction c of
        DirOut \<Rightarrow> p = pc_target_pid c
      | DirIn \<Rightarrow> p = pc_source_pid c
      | DirBidirectional \<Rightarrow> p = pc_source_pid c \<or> p = pc_target_pid c)"

definition partner :: "pipe_config \<Rightarrow> pid \<Rightarrow> pid option" where
  "partner c closer =
     (if closer = pc_source_pid c then Some (pc_target_pid c)
      else if closer = pc_target_pid c then Some (pc_source_pid c)
      else None)"

section \<open>The channel of a pipe\<close>

datatype pipe_error = PipeClosed string | PipeFull string

fun pipe_error_display :: "pipe_error \<Rightarrow> string" where
  "pipe_error_display (PipeClosed i) = ''SIGPIPE: pipe '' @ i @ '' is closed''"
| "pipe_error_display (PipeFull i) = ''pipe '' @ i @ '' is full (backpressure)''"

record pipe =
  pi_id :: string
  pi_owner_pid :: u64
  pi_capacity :: nat
  pi_queue :: "string list"
  pi_waiting :: "string list"
  pi_closed :: bool

text \<open>The channel constructor panics (\<open>None\<close>) on capacity zero and above the semaphore's
  limit of \<open>2 ^ 61 - 1\<close> permits on a 64-bit target.\<close>

definition pipe_new :: "string \<Rightarrow> u64 \<Rightarrow> nat \<Rightarrow> pipe option" where
  "pipe_new uuid owner capacity =
     (if capacity = 0 \<or> capacity > 2 ^ 61 - 1 then None
      else Some \<lparr> pi_id = uuid, pi_owner_pid = owner, pi_capacity = capacity, pi_queue = [],
                  pi_waiting = [], pi_closed = False \<rparr>)"

definition pipe_write :: "string \<Rightarrow> pipe \<Rightarrow> (pipe_error + unit) \<times> pipe" where
  "pipe_write msg p =
     (if pi_closed p then (Inl (PipeClosed (pi_id p)), p)
      else if pi_capacity p \<le> length (pi_queue p) then (Inl (PipeFull (pi_id p)), p)
      else (Inr (), p\<lparr>pi_queue := pi_queue p @ [msg]\<rparr>))"

text \<open>\<^verbatim>\<open>send_blocking\<close> returns, or is left waiting for room (\<open>None\<close>).\<close>

definition send_blocking :: "string \<Rightarrow> pipe \<Rightarrow> (pipe_error + unit) option \<times> pipe" where
  "send_blocking msg p =
     (if pi_closed p then (Some (Inl (PipeClosed (pi_id p))), p)
      else if pi_capacity p \<le> length (pi_queue p) then (None, p\<lparr>pi_waiting := pi_waiting p @ [msg]\<rparr>)
      else (Some (Inr ()), p\<lparr>pi_queue := pi_queue p @ [msg]\<rparr>))"

text \<open>\<^verbatim>\<open>read\<close>: the next message, or \<open>None\<close> while there is none (the pipe itself holds a
  sender, so the channel never reports that it ended).\<close>

definition pipe_read :: "pipe \<Rightarrow> (string \<times> pipe) option" where
  "pipe_read p =
     (case pi_queue p of
        [] \<Rightarrow> None
      | m # q \<Rightarrow> Some (m, p\<lparr>pi_queue := q @ take 1 (pi_waiting p), pi_waiting := drop 1 (pi_waiting p)\<rparr>))"

definition pipe_close :: "pipe \<Rightarrow> pipe" where
  "pipe_close p = p\<lparr>pi_closed := True\<rparr>"

section \<open>The registry\<close>

type_synonym pipe_registry = "(string, pipe) hmap"

definition preg_new :: pipe_registry where
  "preg_new = []"

definition preg_open :: "string \<Rightarrow> u64 \<Rightarrow> nat \<Rightarrow> pipe_registry \<Rightarrow> (string \<times> pipe_registry) option" where
  "preg_open uuid owner capacity r = map_option (\<lambda>p. (pi_id p, hm_insert (pi_id p) p r)) (pipe_new uuid owner capacity)"

definition preg_write :: "string \<Rightarrow> string \<Rightarrow> pipe_registry \<Rightarrow> (pipe_error + unit) \<times> pipe_registry" where
  "preg_write i msg r =
     (case hm_get r i of
        None \<Rightarrow> (Inl (PipeClosed i), r)
      | Some p \<Rightarrow> (case pipe_write msg p of (res, p') \<Rightarrow> (res, hm_insert i p' r)))"

datatype preg_read_result = PrMissing | PrWait | PrMessage string

definition preg_read :: "string \<Rightarrow> pipe_registry \<Rightarrow> preg_read_result \<times> pipe_registry" where
  "preg_read i r =
     (case hm_get r i of
        None \<Rightarrow> (PrMissing, r)
      | Some p \<Rightarrow> (case pipe_read p of None \<Rightarrow> (PrWait, r) | Some (m, p') \<Rightarrow> (PrMessage m, hm_insert i p' r)))"

definition preg_close :: "string \<Rightarrow> pipe_registry \<Rightarrow> pipe_registry" where
  "preg_close i r = hm_remove i r"

definition pipe_count :: "('k, 'v) hmap \<Rightarrow> nat" where
  "pipe_count r = length r"

section \<open>The manager\<close>

definition DEFAULT_READ_TIMEOUT :: nat where
  "DEFAULT_READ_TIMEOUT = 5000"

record pipe_record =
  rec_pipe :: nat
  rec_config :: pipe_config

record pipe_manager =
  pm_pipes :: "(string, pipe_record) hmap"
  pm_mem :: "nat \<Rightarrow> pipe option"
  pm_next :: nat

definition pm_new :: pipe_manager where
  "pm_new = \<lparr> pm_pipes = [], pm_mem = Map.empty, pm_next = 0 \<rparr>"

text \<open>The manifest text.  A line continuation in a Rust literal drops the indentation of the
  next line, so every key ends up at the left margin.\<close>

definition pipe_manifest :: "string \<Rightarrow> pipe_config \<Rightarrow> string \<Rightarrow> string" where
  "pipe_manifest now c i =
     concat (map (\<lambda>l. l @ [CHR 0x0A])
       [''apiVersion: avix/v1'', ''kind: Pipe'', ''metadata:'', ''pipeId: '' @ i, ''createdAt: '' @ now,
        ''createdBy: kernel'', ''spec:'', ''sourcePid: '' @ show_word (pid_u64 (pc_source_pid c)),
        ''targetPid: '' @ show_word (pid_u64 (pc_target_pid c)),
        ''direction: '' @ pipe_direction_str (pc_direction c),
        ''bufferTokens: '' @ show_nat (pc_buffer_tokens c),
        ''backpressure: '' @ backpressure_str (pc_backpressure c),
        ''encoding: '' @ pipe_encoding_str (pc_encoding c),
        ''status:'', ''state: open'', ''tokensSent: 0'', ''tokensAcknowledged: 0'', ''closedAt: null'', ''closedReason: null''])"

definition write_pipe_manifest ::
  "'d disk_ops \<Rightarrow> string \<Rightarrow> pipe_config \<Rightarrow> string \<Rightarrow> vfs_router \<Rightarrow> 'd \<Rightarrow> unit avix_result \<times> vfs_router \<times> 'd" where
  "write_pipe_manifest os now c i r d =
     (case vfs_path_parse (''/proc/'' @ show_word (pid_u64 (pc_source_pid c)) @ ''/pipes/'' @ i @ ''.yaml'') of
        Inl e \<Rightarrow> (Inl (ConfigParse (error_display e)), r, d)
      | Inr path \<Rightarrow> vfs_write os path (bytes_of_string (pipe_manifest now c i)) r d)"

text \<open>
  \<^verbatim>\<open>open\<close>, with the two fresh identifiers it draws: the panic of the channel is \<open>None\<close>.  The
  virtual file system is optional, as in the code.
\<close>

definition pm_open ::
  "'d disk_ops \<Rightarrow> string \<Rightarrow> string \<Rightarrow> string \<Rightarrow> pipe_config \<Rightarrow> (vfs_router \<times> 'd) option \<Rightarrow> pipe_manager
    \<Rightarrow> (string avix_result \<times> (vfs_router \<times> 'd) option \<times> pipe_manager) option" where
  "pm_open os now u v c vfs m =
     (let i = ''pipe-'' @ u
      in (case pipe_new v (pid_u64 (pc_source_pid c)) (pc_buffer_tokens c) of
            None \<Rightarrow> None
          | Some p \<Rightarrow>
              (let (res, vfs') = (case vfs of
                                    None \<Rightarrow> (Inr (), None)
                                  | Some (r, d) \<Rightarrow> (case write_pipe_manifest os now c i r d of (x, r', d') \<Rightarrow> (x, Some (r', d'))))
               in (case res of
                     Inl e \<Rightarrow> Some (Inl e, vfs', m)
                   | Inr _ \<Rightarrow>
                       Some (Inr i, vfs',
                         m\<lparr>pm_mem := (pm_mem m)(pm_next m \<mapsto> p),
                           pm_pipes := hm_insert i \<lparr> rec_pipe = pm_next m, rec_config = c \<rparr> (pm_pipes m),
                           pm_next := pm_next m + 1\<rparr>)))))"

text \<open>\<^verbatim>\<open>validate_encoding\<close>, with the parsers of the JSON and YAML libraries as parameters: the
  error text, or that the message parses.\<close>

record encoding_parsers =
  ep_json :: "string \<Rightarrow> string option"
  ep_yaml :: "string \<Rightarrow> string option"

definition validate_encoding :: "encoding_parsers \<Rightarrow> string \<Rightarrow> pipe_encoding \<Rightarrow> unit avix_result" where
  "validate_encoding ep msg enc =
     (case enc of
        EncJson \<Rightarrow> (case ep_json ep msg of Some e \<Rightarrow> Inl (ConfigParse (''pipe encoding=json: invalid JSON: '' @ e)) | None \<Rightarrow> Inr ())
      | EncYaml \<Rightarrow> (case ep_yaml ep msg of Some e \<Rightarrow> Inl (ConfigParse (''pipe encoding=yaml: invalid YAML: '' @ e)) | None \<Rightarrow> Inr ())
      | EncText \<Rightarrow> Inr ())"

definition squoted :: "string \<Rightarrow> string" where
  "squoted s = CHR 0x27 # s @ [CHR 0x27]"

definition pipe_not_found :: "string \<Rightarrow> avix_error" where
  "pipe_not_found i = NotFound (''pipe '' @ squoted i @ '' not found'')"

text \<open>\<^verbatim>\<open>write\<close> returns a result, or stays blocked on a full pipe.\<close>

datatype pm_write_out = WrReturn "unit avix_result" | WrBlocked

definition pm_write ::
  "encoding_parsers \<Rightarrow> string \<Rightarrow> pid \<Rightarrow> string \<Rightarrow> pipe_manager \<Rightarrow> pm_write_out \<times> pipe_manager" where
  "pm_write ep i caller msg m =
     (case hm_get (pm_pipes m) i of
        None \<Rightarrow> (WrReturn (Inl (pipe_not_found i)), m)
      | Some rec \<Rightarrow>
          if \<not> pipe_can_write (rec_config rec) caller
          then (WrReturn (Inl (CapabilityDenied (''pid '' @ pid_display caller @ '' is not allowed to write to pipe '' @ squoted i))), m)
          else
            (case validate_encoding ep msg (pc_encoding (rec_config rec)) of
               Inl e \<Rightarrow> (WrReturn (Inl e), m)
             | Inr _ \<Rightarrow>
                 (case pm_mem m (rec_pipe rec) of
                    None \<Rightarrow> (WrReturn (Inl (pipe_not_found i)), m)
                  | Some p \<Rightarrow>
                      (case pc_backpressure (rec_config rec) of
                         BpBlock \<Rightarrow>
                           (case send_blocking msg p of (res, p') \<Rightarrow>
                              (case res of
                                 None \<Rightarrow> WrBlocked
                               | Some (Inl e) \<Rightarrow> WrReturn (Inl (Io (''pipe write failed: '' @ pipe_error_display e)))
                               | Some (Inr _) \<Rightarrow> WrReturn (Inr ()),
                               m\<lparr>pm_mem := (pm_mem m)(rec_pipe rec \<mapsto> p')\<rparr>))
                       | BpDrop \<Rightarrow>
                           (case pipe_write msg p of (_, p') \<Rightarrow>
                              (WrReturn (Inr ()), m\<lparr>pm_mem := (pm_mem m)(rec_pipe rec \<mapsto> p')\<rparr>))
                       | BpError \<Rightarrow>
                           (case pipe_write msg p of (res, p') \<Rightarrow>
                              (WrReturn (case res of
                                           Inl (PipeFull _) \<Rightarrow> Inl (Io (''pipe '' @ squoted i @ '' is full''))
                                         | Inl (PipeClosed _) \<Rightarrow> Inl (Io (''pipe '' @ squoted i @ '' is closed''))
                                         | Inr _ \<Rightarrow> Inr ()),
                               m\<lparr>pm_mem := (pm_mem m)(rec_pipe rec \<mapsto> p')\<rparr>))))))"

datatype read_result = ReadMessage string | ReadClosed | ReadTimeout

text \<open>\<^verbatim>\<open>read\<close>, as it stands when it is served: a message that is there, or a timeout when none
  arrives within the bound given (or the default).\<close>

definition pm_read :: "string \<Rightarrow> pid \<Rightarrow> pipe_manager \<Rightarrow> read_result avix_result \<times> pipe_manager" where
  "pm_read i caller m =
     (case hm_get (pm_pipes m) i of
        None \<Rightarrow> (Inl (pipe_not_found i), m)
      | Some rec \<Rightarrow>
          if \<not> pipe_can_read (rec_config rec) caller
          then (Inl (CapabilityDenied (''pid '' @ pid_display caller @ '' is not allowed to read from pipe '' @ squoted i)), m)
          else
            (case pm_mem m (rec_pipe rec) of
               None \<Rightarrow> (Inr ReadTimeout, m)
             | Some p \<Rightarrow>
                 if pi_closed p then (Inr ReadClosed, m)
                 else (case pipe_read p of
                         Some (msg, p') \<Rightarrow> (Inr (ReadMessage msg), m\<lparr>pm_mem := (pm_mem m)(rec_pipe rec \<mapsto> p')\<rparr>)
                       | None \<Rightarrow> (Inr ReadTimeout, m))))"

text \<open>\<^verbatim>\<open>update_pipe_manifest_closed\<close> ignores its arguments and succeeds.\<close>

definition update_pipe_manifest_closed :: "string \<Rightarrow> string \<Rightarrow> unit avix_result" where
  "update_pipe_manifest_closed i reason = Inr ()"

definition sigpipe :: "pid \<Rightarrow> string \<Rightarrow> string \<Rightarrow> signal" where
  "sigpipe p i reason =
     \<lparr> sig_target = p, sig_kind = SigPipe, sig_payload = JObj [(''pipeId'', JStr i), (''reason'', JStr reason)] \<rparr>"

definition pm_close ::
  "string \<Rightarrow> pid \<Rightarrow> signal_channel_registry option \<Rightarrow> string \<Rightarrow> pipe_manager
    \<Rightarrow> unit avix_result \<times> signal_channel_registry option \<times> pipe_manager" where
  "pm_close i caller chans reason m =
     (case hm_get (pm_pipes m) i of
        None \<Rightarrow> (Inl (pipe_not_found i), chans, m)
      | Some rec \<Rightarrow>
          (let m' = m\<lparr>pm_mem := (pm_mem m)(rec_pipe rec := map_option pipe_close (pm_mem m (rec_pipe rec))),
                      pm_pipes := hm_remove i (pm_pipes m)\<rparr>
           in (case update_pipe_manifest_closed i reason of
                 Inl e \<Rightarrow> (Inl e, chans, m')
               | Inr _ \<Rightarrow>
                   (Inr (),
                    (case (chans, partner (rec_config rec) caller) of
                       (Some cs, Some q) \<Rightarrow> Some (snd (sc_send q (sigpipe q i reason) cs))
                     | _ \<Rightarrow> chans),
                    m'))))"

definition pipes_of_pid :: "pid \<Rightarrow> pipe_manager \<Rightarrow> string list" where
  "pipes_of_pid p m =
     map fst (filter (\<lambda>(_, rec). pc_source_pid (rec_config rec) = p \<or> pc_target_pid (rec_config rec) = p) (pm_pipes m))"

definition close_pipes_for_pid ::
  "pid \<Rightarrow> signal_channel_registry option \<Rightarrow> pipe_manager \<Rightarrow> signal_channel_registry option \<times> pipe_manager" where
  "close_pipes_for_pid p chans m =
     fold (\<lambda>i (cs, m). snd (pm_close i p cs ''owner_exited'' m)) (pipes_of_pid p m) (chans, m)"

definition pm_config :: "pipe_manager \<Rightarrow> string \<Rightarrow> pipe_config option" where
  "pm_config m i = map_option rec_config (hm_get (pm_pipes m) i)"

section \<open>The SIGPIPE payload\<close>

datatype pipe_attachment =
  AttInline string string string "string option"
| AttVfsRef string string "string option"

record sig_pipe_payload =
  sp_text :: "string option"
  sp_attachments :: "pipe_attachment list option"

text \<open>\<^verbatim>\<open>validate\<close>, with the base64 decoder's verdict as a parameter.\<close>

definition validate_attachment :: "(string \<Rightarrow> string option) \<Rightarrow> nat \<Rightarrow> pipe_attachment \<Rightarrow> string + unit" where
  "validate_attachment b64 i att =
     (case att of
        AttInline _ _ data _ \<Rightarrow>
          (case b64 data of Some e \<Rightarrow> Inl (''attachment['' @ show_nat i @ ''] invalid base64: '' @ e) | None \<Rightarrow> Inr ())
      | AttVfsRef path _ _ \<Rightarrow>
          if \<not> starts_with path ''/'' then Inl (''attachment['' @ show_nat i @ ''] vfs_ref path must be absolute, got '' @ squoted path)
          else if starts_with path ''/secrets/''
          then Inl (''attachment['' @ show_nat i @ ''] vfs_ref path '' @ squoted ''/secrets/'' @ '' is forbidden'')
          else Inr ())"

fun validate_attachments :: "(string \<Rightarrow> string option) \<Rightarrow> nat \<Rightarrow> pipe_attachment list \<Rightarrow> string + unit" where
  "validate_attachments b64 i [] = Inr ()"
| "validate_attachments b64 i (a # as) =
     (case validate_attachment b64 i a of Inl e \<Rightarrow> Inl e | Inr _ \<Rightarrow> validate_attachments b64 (i + 1) as)"

definition sigpipe_validate :: "(string \<Rightarrow> string option) \<Rightarrow> sig_pipe_payload \<Rightarrow> string + unit" where
  "sigpipe_validate b64 sp =
     (if sp_text sp = None \<and> (sp_attachments sp = None \<or> sp_attachments sp = Some [])
      then Inl (''SIGPIPE payload must have '' @ squoted ''text'' @ '' or at least one attachment'')
      else (case sp_attachments sp of None \<Rightarrow> Inr () | Some as \<Rightarrow> validate_attachments b64 0 as))"

section \<open>Runs of the manager\<close>

datatype 'd pm_op =
  PmOpen string string string pipe_config "(vfs_router \<times> 'd) option"
| PmWrite string pid string
| PmRead string pid
| PmClose string pid "signal_channel_registry option" string
| PmExit pid "signal_channel_registry option"

datatype pm_out = OutOpen "string avix_result option" | OutWrite pm_write_out | OutRead "read_result avix_result" | OutUnit

fun pm_call :: "'d disk_ops \<Rightarrow> encoding_parsers \<Rightarrow> pipe_manager \<Rightarrow> 'd pm_op \<Rightarrow> pm_out \<times> pipe_manager" where
  "pm_call os ep m (PmOpen now u v c vfs) =
     (case pm_open os now u v c vfs m of None \<Rightarrow> (OutOpen None, m) | Some (res, _, m') \<Rightarrow> (OutOpen (Some res), m'))"
| "pm_call os ep m (PmWrite i p msg) = map_prod OutWrite id (pm_write ep i p msg m)"
| "pm_call os ep m (PmRead i p) = map_prod OutRead id (pm_read i p m)"
| "pm_call os ep m (PmClose i p cs reason) = (OutUnit, snd (snd (pm_close i p cs reason m)))"
| "pm_call os ep m (PmExit p cs) = (OutUnit, snd (close_pipes_for_pid p cs m))"

definition pm_step :: "'d disk_ops \<Rightarrow> encoding_parsers \<Rightarrow> pipe_manager \<Rightarrow> 'd pm_op \<Rightarrow> pipe_manager" where
  "pm_step os ep m x = snd (pm_call os ep m x)"

text \<open>What a run did: each call with what it returned.\<close>

fun pm_trace :: "'d disk_ops \<Rightarrow> encoding_parsers \<Rightarrow> pipe_manager \<Rightarrow> 'd pm_op list \<Rightarrow> ('d pm_op \<times> pm_out) list" where
  "pm_trace os ep m [] = []"
| "pm_trace os ep m (x # xs) = (x, fst (pm_call os ep m x)) # pm_trace os ep (pm_step os ep m x) xs"

text \<open>The messages taken from a pipe, and those its writers were told are in (or on their way).\<close>

fun msgs_read :: "string \<Rightarrow> 'd pm_op \<times> pm_out \<Rightarrow> string list" where
  "msgs_read i (PmRead j p, OutRead (Inr (ReadMessage msg))) = (if j = i then [msg] else [])"
| "msgs_read i _ = []"

fun msgs_written :: "string \<Rightarrow> 'd pm_op \<times> pm_out \<Rightarrow> string list" where
  "msgs_written i (PmWrite j p msg, OutWrite (WrReturn (Inr _))) = (if j = i then [msg] else [])"
| "msgs_written i (PmWrite j p msg, OutWrite WrBlocked) = (if j = i then [msg] else [])"
| "msgs_written i _ = []"

text \<open>Who moved messages.\<close>

fun pm_authorised :: "pipe_config \<Rightarrow> string \<Rightarrow> 'd pm_op \<times> pm_out \<Rightarrow> bool" where
  "pm_authorised c i (PmRead j p, OutRead (Inr _)) = (j = i \<longrightarrow> pipe_can_read c p)"
| "pm_authorised c i (PmWrite j p msg, OutWrite WrBlocked) = (j = i \<longrightarrow> pipe_can_write c p)"
| "pm_authorised c i (PmWrite j p msg, OutWrite (WrReturn (Inr _))) = (j = i \<longrightarrow> pipe_can_write c p)"
| "pm_authorised c i _ = True"

text \<open>The operations that end a pipe, or open another one of the same name.\<close>

fun ends_pipe :: "pipe_config \<Rightarrow> string \<Rightarrow> 'd pm_op \<Rightarrow> bool" where
  "ends_pipe c i (PmOpen _ u _ _ _) = (''pipe-'' @ u = i)"
| "ends_pipe c i (PmClose j _ _ _) = (j = i)"
| "ends_pipe c i (PmExit p _) = (p = pc_source_pid c \<or> p = pc_target_pid c)"
| "ends_pipe c i _ = False"

section \<open>Lemmas\<close>

text \<open>
  A pipe in the table is open, has the configured capacity, holds no more than that, and has
  writers waiting only when it is full; no two table entries share a pipe.
\<close>

definition pipe_ok :: "pipe_config \<Rightarrow> pipe \<Rightarrow> bool" where
  "pipe_ok c p \<longleftrightarrow> \<not> pi_closed p \<and> pi_capacity p = pc_buffer_tokens c \<and> 0 < pi_capacity p \<and>
     length (pi_queue p) \<le> pi_capacity p \<and> (pi_waiting p \<noteq> [] \<longrightarrow> length (pi_queue p) = pi_capacity p)"

definition pm_inv :: "pipe_manager \<Rightarrow> bool" where
  "pm_inv m \<longleftrightarrow> hm_wf (pm_pipes m) \<and> (\<forall>a. pm_next m \<le> a \<longrightarrow> pm_mem m a = None) \<and>
     (\<forall>i rec. hm_get (pm_pipes m) i = Some rec \<longrightarrow>
        rec_pipe rec < pm_next m \<and> (\<exists>p. pm_mem m (rec_pipe rec) = Some p \<and> pipe_ok (rec_config rec) p)) \<and>
     (\<forall>i j r1 r2. hm_get (pm_pipes m) i = Some r1 \<longrightarrow> hm_get (pm_pipes m) j = Some r2 \<longrightarrow>
        rec_pipe r1 = rec_pipe r2 \<longrightarrow> i = j)"

lemma pm_inv_new: "pm_inv pm_new"
  by (simp add: pm_inv_def pm_new_def hm_wf_def)

lemma pm_invE:
  assumes "pm_inv m" "hm_get (pm_pipes m) i = Some rec"
  obtains p where "pm_mem m (rec_pipe rec) = Some p" "pipe_ok (rec_config rec) p" "rec_pipe rec < pm_next m"
  using assms unfolding pm_inv_def by blast

lemma pm_inv_ok:
  "pm_inv m \<Longrightarrow> hm_get (pm_pipes m) i = Some rec \<Longrightarrow> pm_mem m (rec_pipe rec) = Some p \<Longrightarrow> pipe_ok (rec_config rec) p"
  by (erule (1) pm_invE) simp

lemma pm_inv_set_pipe:
  assumes "pm_inv m" "hm_get (pm_pipes m) i = Some rec" "pipe_ok (rec_config rec) p"
  shows "pm_inv (m\<lparr>pm_mem := (pm_mem m)(rec_pipe rec \<mapsto> p)\<rparr>)"
proof -
  have "i = j" if "hm_get (pm_pipes m) j = Some r2" "rec_pipe rec = rec_pipe r2" for j r2
    using assms that by (auto simp: pm_inv_def)
  then have *: "r2 = rec" if "hm_get (pm_pipes m) j = Some r2" "rec_pipe r2 = rec_pipe rec" for j r2
    using that assms(2) by fastforce
  show ?thesis using assms * unfolding pm_inv_def by fastforce
qed

lemma pipe_ok_write: "pipe_ok c p \<Longrightarrow> pipe_ok c (snd (pipe_write msg p))"
  by (auto simp: pipe_ok_def pipe_write_def)

lemma pipe_ok_send: "pipe_ok c p \<Longrightarrow> pipe_ok c (snd (send_blocking msg p))"
  by (auto simp: pipe_ok_def send_blocking_def)

lemma pipe_ok_read: "pipe_ok c p \<Longrightarrow> pipe_read p = Some (msg, p') \<Longrightarrow> pipe_ok c p'"
  by (cases "pi_waiting p") (auto simp: pipe_ok_def pipe_read_def split: list.splits)

lemma pm_inv_open:
  assumes "pm_inv m" "pm_open os now u v c vfs m = Some (res, vfs', m')"
  shows "pm_inv m'"
proof -
  obtain p where p: "pipe_new v (pid_u64 (pc_source_pid c)) (pc_buffer_tokens c) = Some p"
    using assms(2) by (cases "pipe_new v (pid_u64 (pc_source_pid c)) (pc_buffer_tokens c)") (auto simp: pm_open_def Let_def)
  have ok: "pipe_ok c p" using p by (auto simp: pipe_new_def pipe_ok_def split: if_splits)
  have m': "m' = m \<or> m' = m\<lparr>pm_mem := (pm_mem m)(pm_next m \<mapsto> p),
                           pm_pipes := hm_insert (''pipe-'' @ u) \<lparr> rec_pipe = pm_next m, rec_config = c \<rparr> (pm_pipes m),
                           pm_next := pm_next m + 1\<rparr>"
    using assms(2) p by (auto simp: pm_open_def Let_def split: option.splits sum.splits prod.splits)
  have lt: "rec_pipe r < pm_next m" if "hm_get (pm_pipes m) j = Some r" for j r
    using assms(1) that by (auto simp: pm_inv_def)
  show ?thesis
  proof (cases "m' = m")
    case False
    then have m': "m' = m\<lparr>pm_mem := (pm_mem m)(pm_next m \<mapsto> p),
                           pm_pipes := hm_insert (''pipe-'' @ u) \<lparr> rec_pipe = pm_next m, rec_config = c \<rparr> (pm_pipes m),
                           pm_next := pm_next m + 1\<rparr>" using m' by simp
    show ?thesis using assms(1) ok lt unfolding m' pm_inv_def
      by (auto simp del: hm_insert_def) (fastforce dest: lt)+
  qed (use assms in simp)
qed

lemma pm_close_state:
  "snd (snd (pm_close i p cs reason m)) =
     (case hm_get (pm_pipes m) i of
        None \<Rightarrow> m
      | Some rec \<Rightarrow> m\<lparr>pm_mem := (pm_mem m)(rec_pipe rec := map_option pipe_close (pm_mem m (rec_pipe rec))),
                      pm_pipes := hm_remove i (pm_pipes m)\<rparr>)"
  by (auto simp: pm_close_def update_pipe_manifest_closed_def Let_def split: option.splits)

lemma pm_inv_close:
  assumes "pm_inv m"
  shows "pm_inv (snd (snd (pm_close i p cs reason m)))"
proof (cases "hm_get (pm_pipes m) i")
  case (Some rec)
  have "rec_pipe r2 \<noteq> rec_pipe rec" if "hm_get (pm_pipes m) j = Some r2" "j \<noteq> i" for j r2
    using assms Some that unfolding pm_inv_def by metis
  then show ?thesis using assms Some unfolding pm_inv_def pm_close_state by auto
qed (use assms in \<open>simp add: pm_close_state\<close>)

lemma pm_inv_write: "pm_inv m \<Longrightarrow> pm_inv (snd (pm_write ep i p msg m))"
  by (auto simp: pm_write_def split_beta split: option.splits sum.splits backpressure_policy.splits
      intro!: pm_inv_set_pipe pipe_ok_write pipe_ok_send intro: pm_inv_ok)

lemma pm_inv_read: "pm_inv m \<Longrightarrow> pm_inv (snd (pm_read i p m))"
  by (auto simp: pm_read_def split: option.splits prod.splits intro!: pm_inv_set_pipe intro: pm_inv_ok pipe_ok_read)

lemma pm_fold_close_inv:
  "pm_inv m \<Longrightarrow> pm_inv (snd (fold (\<lambda>i (cs, m). snd (pm_close i p cs reason m)) is (cs, m)))"
proof (induction "is" arbitrary: cs m)
  case (Cons i "is")
  then show ?case using Cons.IH [OF pm_inv_close [OF Cons.prems, of i p cs reason], of "fst (snd (pm_close i p cs reason m))"]
    by simp
qed simp

lemma pm_inv_step: "pm_inv m \<Longrightarrow> pm_inv (pm_step os ep m x)"
proof (cases x)
  case (PmOpen now u v c vfs)
  then show "pm_inv m \<Longrightarrow> ?thesis" by (auto simp: pm_step_def intro: pm_inv_open split: option.splits)
qed (auto simp: pm_step_def map_prod_def split_beta close_pipes_for_pid_def
       intro: pm_inv_write pm_inv_read pm_inv_close pm_fold_close_inv)

interpretation pmm: event_machine "pm_step os ep" pm_inv
  by unfold_locales (rule pm_inv_step)

text \<open>The pipe behind a name, with its configuration.\<close>

definition pipe_view :: "pipe_manager \<Rightarrow> string \<Rightarrow> (pipe_config \<times> pipe) option" where
  "pipe_view m i = Option.bind (hm_get (pm_pipes m) i) (\<lambda>rec. map_option (Pair (rec_config rec)) (pm_mem m (rec_pipe rec)))"

lemma pipe_view_Some:
  "pipe_view m i = Some (c, p) \<longleftrightarrow>
    (\<exists>rec. hm_get (pm_pipes m) i = Some rec \<and> rec_config rec = c \<and> pm_mem m (rec_pipe rec) = Some p)"
  by (auto simp: pipe_view_def bind_eq_Some_conv)

lemma pipe_view_set:
  assumes "pm_inv m" "hm_get (pm_pipes m) i = Some rec"
  shows "pipe_view (m\<lparr>pm_mem := (pm_mem m)(rec_pipe rec \<mapsto> p)\<rparr>) j =
    (if j = i then Some (rec_config rec, p) else pipe_view m j)"
proof (cases "hm_get (pm_pipes m) j")
  case (Some r2)
  then have "j = i" if "rec_pipe r2 = rec_pipe rec" using assms that unfolding pm_inv_def by metis
  then show ?thesis using assms Some by (auto simp: pipe_view_def)
qed (use assms in \<open>auto simp: pipe_view_def\<close>)

lemma pipe_view_close:
  assumes "pm_inv m"
  shows "pipe_view (snd (snd (pm_close i p cs reason m))) j = (if j = i then None else pipe_view m j)"
proof (cases "hm_get (pm_pipes m) i")
  case (Some rec)
  have "rec_pipe r2 \<noteq> rec_pipe rec" if "hm_get (pm_pipes m) j = Some r2" "j \<noteq> i" for r2
    using assms Some that unfolding pm_inv_def by metis
  then show ?thesis using Some by (auto simp: pm_close_state pipe_view_def bind_eq_Some_conv split: Option.bind_split)
qed (auto simp: pm_close_state pipe_view_def)

lemma pipe_view_fold_close:
  "pm_inv m \<Longrightarrow> pipe_view (snd (fold (\<lambda>i (cs, m). snd (pm_close i p cs reason m)) is (cs, m))) j =
     (if j \<in> set is then None else pipe_view m j)"
proof (induction "is" arbitrary: cs m)
  case (Cons i "is")
  have "pipe_view (snd (snd (pm_close i p cs reason m))) j = (if j = i then None else pipe_view m j)"
    by (rule pipe_view_close [OF Cons.prems])
  then show ?case
    using Cons.IH [OF pm_inv_close [OF Cons.prems, of i p cs reason], of "fst (snd (pm_close i p cs reason m))"]
    by (auto split: if_splits)
qed simp

lemma pipe_view_None: "pm_inv m \<Longrightarrow> pipe_view m i = None \<longleftrightarrow> hm_get (pm_pipes m) i = None"
  by (cases "hm_get (pm_pipes m) i") (auto simp: pipe_view_def elim: pm_invE)

lemma pipes_of_pid_iff:
  "pm_inv m \<Longrightarrow> i \<in> set (pipes_of_pid p m) \<longleftrightarrow>
     (\<exists>c q. pipe_view m i = Some (c, q) \<and> (pc_source_pid c = p \<or> pc_target_pid c = p))"
proof -
  assume inv: "pm_inv m"
  have "i \<in> set (pipes_of_pid p m) \<longleftrightarrow>
     (\<exists>rec. hm_get (pm_pipes m) i = Some rec \<and> (pc_source_pid (rec_config rec) = p \<or> pc_target_pid (rec_config rec) = p))"
  proof -
    have "hm_wf (pm_pipes m)" using inv by (simp add: pm_inv_def)
    then have "(i, rec) \<in> set (pm_pipes m) \<longleftrightarrow> hm_get (pm_pipes m) i = Some rec" for rec
      by (simp add: hm_wf_def)
    then show ?thesis by (force simp: pipes_of_pid_def)
  qed
  moreover have "pm_mem m (rec_pipe rec) \<noteq> None" if "hm_get (pm_pipes m) i = Some rec" for rec
    using pm_invE [OF inv that] by blast
  ultimately show ?thesis unfolding pipe_view_Some by blast
qed

definition pipe_contents :: "pipe \<Rightarrow> string list" where
  "pipe_contents p = pi_queue p @ pi_waiting p"

text \<open>One call, seen from a pipe it does not end: what was read and what is held afterwards are
  what was held before and what was newly let in.\<close>

definition pipe_step_ok :: "pipe_config \<Rightarrow> string \<Rightarrow> pipe \<Rightarrow> pipe \<Rightarrow> 'd pm_op \<times> pm_out \<Rightarrow> bool" where
  "pipe_step_ok c i p p' x \<longleftrightarrow> pm_authorised c i x \<and>
     (\<exists>ws. msgs_read i x @ pipe_contents p' = pipe_contents p @ ws \<and> subseq ws (msgs_written i x) \<and>
       (pc_backpressure c \<noteq> BpDrop \<longrightarrow> ws = msgs_written i x))"

lemma pipe_step_write:
  assumes inv: "pm_inv m" and view: "pipe_view m i = Some (c, p)"
  shows "\<exists>p'. pipe_view (snd (pm_write ep j q msg m)) i = Some (c, p') \<and>
    pipe_step_ok c i p p' (PmWrite j q msg, OutWrite (fst (pm_write ep j q msg m)))"
proof (cases "hm_get (pm_pipes m) j")
  case (Some rec)
  obtain pj where pj: "pm_mem m (rec_pipe rec) = Some pj" "pipe_ok (rec_config rec) pj" using pm_invE [OF inv Some] by metis
  note v = pipe_view_set [OF inv Some]
  show ?thesis
  proof (cases "j = i")
    case True
    then have "rec_config rec = c" "pj = p" using view Some pj by (auto simp: pipe_view_Some)
    then show ?thesis using True Some pj view
      by (auto simp: pm_write_def v split_beta pipe_step_ok_def pipe_contents_def send_blocking_def pipe_write_def pipe_ok_def
          split: sum.splits backpressure_policy.splits)
  next
    case False
    then show ?thesis using Some pj view
      by (auto simp: pm_write_def v split_beta pipe_step_ok_def pipe_contents_def send_blocking_def pipe_write_def pipe_ok_def
          split: sum.splits backpressure_policy.splits)
  qed
next
  case None
  then show ?thesis using view by (simp add: pm_write_def pipe_step_ok_def)
qed

lemma pipe_step_read:
  assumes inv: "pm_inv m" and view: "pipe_view m i = Some (c, p)"
  shows "\<exists>p'. pipe_view (snd (pm_read j q m)) i = Some (c, p') \<and>
    pipe_step_ok c i p p' (PmRead j q, OutRead (fst (pm_read j q m)))"
proof (cases "hm_get (pm_pipes m) j")
  case (Some rec)
  obtain pj where pj: "pm_mem m (rec_pipe rec) = Some pj" "pipe_ok (rec_config rec) pj" using pm_invE [OF inv Some] by metis
  note v = pipe_view_set [OF inv Some]
  have take1: "q @ take 1 w @ drop 1 w = q @ w" for q w :: "string list" by (cases w) auto
  show ?thesis
  proof (cases "j = i")
    case True
    then have "rec_config rec = c" "pj = p" using view Some pj by (auto simp: pipe_view_Some)
    then show ?thesis using True Some pj view take1
      by (auto simp: pm_read_def v pipe_step_ok_def pipe_contents_def pipe_read_def pipe_ok_def split: list.splits)
  next
    case False
    then show ?thesis using Some pj view
      by (auto simp: pm_read_def v pipe_step_ok_def pipe_contents_def pipe_read_def pipe_ok_def split: list.splits)
  qed
next
  case None
  then show ?thesis using view by (simp add: pm_read_def pipe_step_ok_def)
qed

lemma pipe_view_open:
  assumes inv: "pm_inv m" and "pm_open os now u v c vfs m = Some (res, vfs', m')" "i \<noteq> ''pipe-'' @ u"
  shows "pipe_view m' i = pipe_view m i"
proof -
  have "rec_pipe rec < pm_next m" if "hm_get (pm_pipes m) i = Some rec" for rec
    using pm_invE [OF inv that] by blast
  then have "rec_pipe rec \<noteq> pm_next m" if "hm_get (pm_pipes m) i = Some rec" for rec using that by fastforce
  then show ?thesis using assms
    by (cases "hm_get (pm_pipes m) i") (auto simp: pm_open_def pipe_view_def Let_def split: option.splits sum.splits prod.splits)
qed

lemma pipe_step:
  assumes inv: "pm_inv m" and view: "pipe_view m i = Some (c, p)" and no: "\<not> ends_pipe c i x"
  shows "\<exists>p'. pipe_view (pm_step os ep m x) i = Some (c, p') \<and> pipe_step_ok c i p p' (x, fst (pm_call os ep m x))"
proof (cases x)
  case (PmOpen now u v c vfs)
  then show ?thesis using view no pipe_view_open [OF inv, of os now u v c vfs]
    by (cases "pm_open os now u v c vfs m") (auto simp: pm_step_def pipe_step_ok_def)
next
  case (PmWrite j q msg)
  then show ?thesis using pipe_step_write [OF inv view, of ep j q msg] by (simp add: pm_step_def map_prod_def split_beta)
next
  case (PmRead j q)
  then show ?thesis using pipe_step_read [OF inv view, of j q] by (simp add: pm_step_def map_prod_def split_beta)
next
  case (PmClose j q cs reason)
  then show ?thesis using view no by (auto simp: pm_step_def pipe_view_close [OF inv] pipe_step_ok_def)
next
  case (PmExit q cs)
  then have "i \<notin> set (pipes_of_pid q m)" using view no by (auto simp: pipes_of_pid_iff [OF inv])
  then show ?thesis using view PmExit
    by (simp add: pm_step_def close_pipes_for_pid_def pipe_view_fold_close [OF inv] pipe_step_ok_def)
qed

lemma pipe_run:
  assumes "pm_inv m" "pipe_view m i = Some (c, p)" "list_all (\<lambda>x. \<not> ends_pipe c i x) xs"
  shows "\<exists>p' ws. pipe_view (run_events (pm_step os ep) m xs) i = Some (c, p') \<and>
    list_all (pm_authorised c i) (pm_trace os ep m xs) \<and>
    concat (map (msgs_read i) (pm_trace os ep m xs)) @ pipe_contents p' = pipe_contents p @ ws \<and>
    subseq ws (concat (map (msgs_written i) (pm_trace os ep m xs))) \<and>
    (pc_backpressure c \<noteq> BpDrop \<longrightarrow> ws = concat (map (msgs_written i) (pm_trace os ep m xs)))"
  using assms
proof (induction xs arbitrary: m p)
  case (Cons x xs)
  obtain p1 where p1: "pipe_view (pm_step os ep m x) i = Some (c, p1)" "pipe_step_ok c i p p1 (x, fst (pm_call os ep m x))"
    using pipe_step [OF Cons.prems(1,2), of x os ep] Cons.prems(3) by auto
  then obtain w where w: "msgs_read i (x, fst (pm_call os ep m x)) @ pipe_contents p1 = pipe_contents p @ w"
      "subseq w (msgs_written i (x, fst (pm_call os ep m x)))"
      "pc_backpressure c \<noteq> BpDrop \<longrightarrow> w = msgs_written i (x, fst (pm_call os ep m x))"
      "pm_authorised c i (x, fst (pm_call os ep m x))"
    by (auto simp: pipe_step_ok_def)
  obtain p' ws where *: "pipe_view (run_events (pm_step os ep) (pm_step os ep m x) xs) i = Some (c, p')"
      "list_all (pm_authorised c i) (pm_trace os ep (pm_step os ep m x) xs)"
      "concat (map (msgs_read i) (pm_trace os ep (pm_step os ep m x) xs)) @ pipe_contents p' = pipe_contents p1 @ ws"
      "subseq ws (concat (map (msgs_written i) (pm_trace os ep (pm_step os ep m x) xs)))"
      "pc_backpressure c \<noteq> BpDrop \<longrightarrow> ws = concat (map (msgs_written i) (pm_trace os ep (pm_step os ep m x) xs))"
    using Cons.IH [OF pm_inv_step [OF Cons.prems(1)] p1(1)] Cons.prems(3) by auto
  have "msgs_read i (x, fst (pm_call os ep m x)) @ concat (map (msgs_read i) (pm_trace os ep (pm_step os ep m x) xs)) @ pipe_contents p'
      = pipe_contents p @ w @ ws" using * w(1) by (metis append.assoc)
  then show ?case using * w by (intro exI [of _ p'] exI [of _ "w @ ws"]) (auto intro: list_emb_append_mono)
qed simp

lemma pm_open_view:
  assumes "pm_open os now u v c vfs m = Some (Inr i, vfs', m')"
  shows "i = ''pipe-'' @ u \<and> (\<exists>p. pipe_view m' i = Some (c, p) \<and> pipe_contents p = [])"
  using assms by (auto simp: pm_open_def Let_def pipe_view_def pipe_new_def pipe_contents_def
      split: option.splits sum.splits prod.splits if_splits)

text \<open>
  C6. Pipes are authorised bounded queues: open a pipe in any state the manager can reach and let
  any calls follow, of any agents on any pipes, that do not end it.  Then every read of it that was
  not refused came from a reader of its configuration and every message let in from a writer; what
  was read followed by what is still queued or waiting is a subsequence of the messages whose
  writers were not refused, in order, and with a policy other than dropping it is exactly
  those: nothing lost, duplicated, reordered or made up; and the queue never holds more than the
  configured number.
\<close>

theorem pipe_fifo:
  assumes opened: "pm_open os now u v c vfs (run_events (pm_step os ep) pm_new before) = Some (Inr i, vfs', m)"
    and alive: "list_all (\<lambda>x. \<not> ends_pipe c i x) after"
  shows "let tr = pm_trace os ep m after; written = concat (map (msgs_written i) tr);
      taken = concat (map (msgs_read i) tr)
    in list_all (pm_authorised c i) tr \<and>
     (\<exists>p. pipe_view (run_events (pm_step os ep) m after) i = Some (c, p) \<and>
       subseq (taken @ pi_queue p @ pi_waiting p) written \<and>
       (pc_backpressure c \<noteq> BpDrop \<longrightarrow> taken @ pi_queue p @ pi_waiting p = written) \<and>
       length (pi_queue p) \<le> pc_buffer_tokens c)"
proof -
  have inv: "pm_inv m" using pm_inv_open [OF _ opened] pmm.inv_run [OF pm_inv_new] by blast
  obtain p0 where p0: "pipe_view m i = Some (c, p0)" "pipe_contents p0 = []" using pm_open_view [OF opened] by blast
  obtain p ws where *: "pipe_view (run_events (pm_step os ep) m after) i = Some (c, p)"
      "list_all (pm_authorised c i) (pm_trace os ep m after)"
      "concat (map (msgs_read i) (pm_trace os ep m after)) @ pipe_contents p = ws"
      "subseq ws (concat (map (msgs_written i) (pm_trace os ep m after)))"
      "pc_backpressure c \<noteq> BpDrop \<longrightarrow> ws = concat (map (msgs_written i) (pm_trace os ep m after))"
    using pipe_run [OF inv p0(1) alive, of os ep] p0(2) by auto
  have "pm_inv (run_events (pm_step os ep) m after)" by (rule pmm.inv_run [OF inv])
  then have "length (pi_queue p) \<le> pc_buffer_tokens c"
    using *(1) by (auto simp: pipe_view_Some pipe_ok_def dest: pm_inv_ok)
  then show ?thesis using * by (auto simp: Let_def pipe_contents_def)
qed

definition demo_pipe :: pipe_config where
  "demo_pipe = (pipe_config_new (Pid 4) (Pid 5))\<lparr>pc_buffer_tokens := 1\<rparr>"

definition demo_pm :: pipe_manager where
  "demo_pm = \<lparr> pm_pipes = [(''pipe-u'', \<lparr> rec_pipe = 0, rec_config = demo_pipe \<rparr>)],
     pm_mem = [0 \<mapsto> \<lparr> pi_id = ''v'', pi_owner_pid = 4, pi_capacity = 1, pi_queue = [], pi_waiting = [], pi_closed = False \<rparr>],
     pm_next = 1 \<rparr>"

definition demo_pipe_calls :: "unit pm_op list" where
  "demo_pipe_calls = [PmWrite ''pipe-u'' (Pid 4) ''a'', PmWrite ''pipe-u'' (Pid 4) ''b'', PmWrite ''pipe-u'' (Pid 5) ''c'',
     PmRead ''pipe-u'' (Pid 5)]"

lemmas pipe_eval = pm_open_def pipe_new_def pm_write_def pm_read_def pm_step_def send_blocking_def pipe_read_def
  pipe_can_write_def pipe_can_read_def validate_encoding_def pipe_view_def pipe_config_new_def Let_def hm_insert_def hm_remove_def

definition demo_parsers :: encoding_parsers where
  "demo_parsers = \<lparr> ep_json = (\<lambda>_. None), ep_yaml = (\<lambda>_. None) \<rparr>"

lemma demo_pm_open:
  "pm_open os ''now'' ''u'' ''v'' demo_pipe None (run_events (pm_step os ep) pm_new []) = Some (Inr ''pipe-u'', None, demo_pm)"
  by (simp add: pipe_eval demo_pipe_def demo_pm_def pm_new_def fun_upd_def)

theorem pipe_fifo_witness:
  "\<exists>p. pipe_view (run_events (pm_step (demo_disk []) demo_parsers) demo_pm demo_pipe_calls) ''pipe-u'' = Some (demo_pipe, p) \<and>
     ''a'' # pi_queue p @ pi_waiting p = [''a'', ''b''] \<and> length (pi_queue p) \<le> 1"
proof -
  define tr where "tr = pm_trace (demo_disk []) demo_parsers demo_pm demo_pipe_calls"
  have tr: "concat (map (msgs_written ''pipe-u'') tr) = [''a'', ''b'']" "concat (map (msgs_read ''pipe-u'') tr) = [''a'']"
    by (simp_all add: tr_def demo_pipe_calls_def pipe_eval demo_pm_def demo_pipe_def)
  have "list_all (\<lambda>x. \<not> ends_pipe demo_pipe ''pipe-u'' x) demo_pipe_calls" by (simp add: demo_pipe_calls_def)
  from pipe_fifo [OF demo_pm_open [of "demo_disk []" demo_parsers] this, folded tr_def, unfolded Let_def tr]
  show ?thesis by (auto simp: demo_pipe_def pipe_config_new_def)
qed

text \<open>The signals an exit sends on a channel for a pipe.\<close>

definition exit_signals :: "signal_channel_registry \<Rightarrow> pid \<Rightarrow> pipe_manager \<Rightarrow> nat \<Rightarrow> string \<Rightarrow> signal list" where
  "exit_signals cs p m tx i =
     (case map_option (\<lambda>rec. partner (rec_config rec) p) (hm_get (pm_pipes m) i) of
        Some (Some q) \<Rightarrow> if hm_get (sc_inner cs) (pid_u64 q) = Some tx \<and> tx \<notin> sc_closed cs then [sigpipe q i ''owner_exited''] else []
      | _ \<Rightarrow> [])"

lemma pm_close_signals:
  assumes "pm_close i p (Some cs) ''owner_exited'' m = (res, cs1, m1)"
  shows "\<exists>cs'. cs1 = Some cs' \<and> sc_inner cs' = sc_inner cs \<and> sc_closed cs' = sc_closed cs \<and>
    sc_queues cs' tx = sc_queues cs tx @ exit_signals cs p m tx i \<and> (j \<noteq> i \<longrightarrow> hm_get (pm_pipes m1) j = hm_get (pm_pipes m) j)"
  using assms by (auto simp: pm_close_def sc_send_def exit_signals_def update_pipe_manifest_closed_def Let_def split: option.splits if_splits)

lemma fold_close_signals:
  "distinct is \<Longrightarrow> \<exists>cs' m'. fold (\<lambda>i (cs, m). snd (pm_close i p cs ''owner_exited'' m)) is (Some cs, m) = (Some cs', m') \<and>
    sc_queues cs' tx = sc_queues cs tx @ concat (map (exit_signals cs p m tx) is)"
proof (induction "is" arbitrary: cs m)
  case (Cons i "is")
  obtain res c1 m1 where cl: "pm_close i p (Some cs) ''owner_exited'' m = (res, c1, m1)" by (metis prod_cases3)
  obtain cs1 where c1: "c1 = Some cs1" using pm_close_signals [OF cl] by blast
  have 1: "sc_inner cs1 = sc_inner cs" "sc_closed cs1 = sc_closed cs" "sc_queues cs1 tx = sc_queues cs tx @ exit_signals cs p m tx i"
    "j \<noteq> i \<Longrightarrow> hm_get (pm_pipes m1) j = hm_get (pm_pipes m) j" for j
    using pm_close_signals [OF cl, of tx j] c1 by auto
  then have same: "exit_signals cs1 p m1 tx j = exit_signals cs p m tx j" if "j \<in> set is" for j
  proof -
    have "j \<noteq> i" using that Cons.prems by auto
    from 1(4) [OF this] show ?thesis using 1(1,2) by (simp only: exit_signals_def)
  qed
  obtain cs' m' where "fold (\<lambda>i (cs, m). snd (pm_close i p cs ''owner_exited'' m)) is (Some cs1, m1) = (Some cs', m')"
    "sc_queues cs' tx = sc_queues cs1 tx @ concat (map (exit_signals cs1 p m1 tx) is)"
    using Cons.IH [of cs1 m1] Cons.prems by auto
  moreover have "map (exit_signals cs1 p m1 tx) is = map (exit_signals cs p m tx) is" using same by simp
  ultimately show ?case using cl c1 1(3) by simp
qed simp

lemma pipes_of_pid_distinct: "pm_inv m \<Longrightarrow> distinct (pipes_of_pid p m)"
  by (simp add: pipes_of_pid_def pm_inv_def hm_wf_def distinct_map_filter)

text \<open>
  When an agent exits, all its pipes go and nothing else does: in any state the manager can
  reach, afterwards no pipe has the agent as source or target, every other pipe is as it was, and
  on every signal channel exactly one SIGPIPE with the pipe's name and the reason
  \<open>owner_exited\<close> arrives for each of those pipes whose other end is registered on that channel.
\<close>

theorem pipe_exit_cleanup:
  fixes os :: "'d disk_ops" and ep :: encoding_parsers and xs :: "'d pm_op list" and m :: pipe_manager
  defines "m \<equiv> run_events (pm_step os ep) pm_new xs"
  shows "(\<forall>i. pipe_view (snd (close_pipes_for_pid p (Some cs) m)) i =
        (case pipe_view m i of
           Some (c, q) \<Rightarrow> if pc_source_pid c = p \<or> pc_target_pid c = p then None else Some (c, q)
         | None \<Rightarrow> None)) \<and>
     (\<forall>tx. \<exists>cs'. fst (close_pipes_for_pid p (Some cs) m) = Some cs' \<and>
        sc_queues cs' tx = sc_queues cs tx @ concat (map (exit_signals cs p m tx) (pipes_of_pid p m)))"
proof -
  have inv: "pm_inv m" unfolding m_def by (rule pmm.inv_run [OF pm_inv_new])
  have "pipe_view (snd (close_pipes_for_pid p (Some cs) m)) i = (if i \<in> set (pipes_of_pid p m) then None else pipe_view m i)" for i
    unfolding close_pipes_for_pid_def by (rule pipe_view_fold_close [OF inv])
  then have 1: "pipe_view (snd (close_pipes_for_pid p (Some cs) m)) i =
        (case pipe_view m i of
           Some (c, q) \<Rightarrow> if pc_source_pid c = p \<or> pc_target_pid c = p then None else Some (c, q)
         | None \<Rightarrow> None)" for i
    by (auto simp: pipes_of_pid_iff [OF inv] split: option.splits)
  have 2: "\<exists>cs'. fst (close_pipes_for_pid p (Some cs) m) = Some cs' \<and>
        sc_queues cs' tx = sc_queues cs tx @ concat (map (exit_signals cs p m tx) (pipes_of_pid p m))" for tx
    using fold_close_signals [OF pipes_of_pid_distinct [OF inv], of p p cs m tx] unfolding close_pipes_for_pid_def by auto
  show ?thesis using 1 2 by blast
qed

text \<open>A pipe no table entry points to is never touched again.\<close>

definition detached :: "pipe_manager \<Rightarrow> nat \<Rightarrow> bool" where
  "detached m a \<longleftrightarrow> a < pm_next m \<and> (\<forall>i rec. hm_get (pm_pipes m) i = Some rec \<longrightarrow> rec_pipe rec \<noteq> a)"

lemma detached_close:
  "detached m a \<Longrightarrow> detached (snd (snd (pm_close i p cs reason m))) a \<and> pm_mem (snd (snd (pm_close i p cs reason m))) a = pm_mem m a"
  by (auto simp: detached_def pm_close_state split: option.splits if_splits)

lemma detached_fold_close:
  "detached m a \<Longrightarrow> detached (snd (fold (\<lambda>i (cs, m). snd (pm_close i p cs reason m)) is (cs, m))) a \<and>
     pm_mem (snd (fold (\<lambda>i (cs, m). snd (pm_close i p cs reason m)) is (cs, m))) a = pm_mem m a"
proof (induction "is" arbitrary: cs m)
  case (Cons i "is")
  note d = detached_close [OF Cons.prems, of i p cs reason]
  show ?case using Cons.IH [of "snd (snd (pm_close i p cs reason m))" "fst (snd (pm_close i p cs reason m))"] d by simp
qed simp

lemma detached_step:
  "detached m a \<Longrightarrow> detached (pm_step os ep m x) a \<and> pm_mem (pm_step os ep m x) a = pm_mem m a"
proof (cases x)
  case (PmOpen now u v c vfs)
  then show "detached m a \<Longrightarrow> ?thesis"
    by (auto simp: pm_step_def pm_open_def detached_def Let_def split: option.splits sum.splits prod.splits if_splits)
next
  case (PmWrite j q msg)
  then show "detached m a \<Longrightarrow> ?thesis"
    by (auto simp: pm_step_def pm_write_def detached_def map_prod_def split_beta split: option.splits sum.splits backpressure_policy.splits)
next
  case (PmRead j q)
  then show "detached m a \<Longrightarrow> ?thesis"
    by (auto simp: pm_step_def pm_read_def detached_def map_prod_def split: option.splits prod.splits)
next
  case (PmClose j q cs reason)
  then show "detached m a \<Longrightarrow> ?thesis" using detached_close by (simp add: pm_step_def)
next
  case (PmExit q cs)
  then show "detached m a \<Longrightarrow> ?thesis" using detached_fold_close by (simp add: pm_step_def close_pipes_for_pid_def)
qed

lemma detached_run: "detached m a \<Longrightarrow> pm_mem (run_events (pm_step os ep) m xs) a = pm_mem m a"
  by (induction xs arbitrary: m) (auto simp: detached_step)

text \<open>
  Closing strands what is in the pipe: a message queued, and a writer waiting for room, at
  the moment a pipe is closed stays where it is in every continuation.  The queued messages
  are never read and the blocked call never returns, neither with success nor with the
  error that a write after the close gets, since closing only sets a flag that is read before
  the wait.
\<close>

theorem pipe_close_strands:
  assumes "hm_get (pm_pipes (run_events (pm_step os ep) pm_new before)) i = Some rec"
    and "pm_mem (run_events (pm_step os ep) pm_new before) (rec_pipe rec) = Some p"
  shows "\<exists>p'. pm_mem (run_events (pm_step os ep) (snd (snd (pm_close i caller cs reason (run_events (pm_step os ep) pm_new before)))) after) (rec_pipe rec) = Some p' \<and>
    pi_closed p' \<and> pi_queue p' = pi_queue p \<and> pi_waiting p' = pi_waiting p"
proof -
  let ?m = "run_events (pm_step os ep) pm_new before"
  have inv: "pm_inv ?m" by (rule pmm.inv_run [OF pm_inv_new])
  have "rec_pipe r2 \<noteq> rec_pipe rec" if "hm_get (pm_pipes ?m) j = Some r2" "j \<noteq> i" for j r2
    using inv assms(1) that unfolding pm_inv_def by metis
  moreover have "rec_pipe rec < pm_next ?m" using pm_invE [OF inv assms(1)] by blast
  ultimately have "detached (snd (snd (pm_close i caller cs reason ?m))) (rec_pipe rec)"
    using assms(1) by (auto simp: detached_def pm_close_state split: if_splits)
  from detached_run [OF this, of os ep after] show ?thesis using assms by (simp add: pm_close_state pipe_close_def)
qed

theorem pipe_close_strands_witness:
  "\<exists>p'. pm_mem (run_events (pm_step (demo_disk []) demo_parsers)
          (snd (snd (pm_close ''pipe-u'' (Pid 5) None ''done''
            (run_events (pm_step (demo_disk []) demo_parsers) pm_new
              (PmOpen ''now'' ''u'' ''v'' demo_pipe None # take 2 demo_pipe_calls)))))
          [PmRead ''pipe-u'' (Pid 5)]) 0 = Some p' \<and> pi_waiting p' = [''b'']"
  using pipe_close_strands [where os = "demo_disk []" and ep = demo_parsers and i = "''pipe-u''" and caller = "Pid 5" and cs = None
      and reason = "''done''" and after = "[PmRead ''pipe-u'' (Pid 5)]"
      and before = "PmOpen ''now'' ''u'' ''v'' demo_pipe None # take 2 demo_pipe_calls"
      and rec = "\<lparr> rec_pipe = 0, rec_config = demo_pipe \<rparr>"
      and p = "\<lparr> pi_id = ''v'', pi_owner_pid = 4, pi_capacity = 1, pi_queue = [''a''], pi_waiting = [''b''], pi_closed = False \<rparr>"]
  by (simp add: pipe_eval demo_pipe_def demo_pipe_calls_def pm_new_def fun_upd_def) blast

end
