(* ===== verification/Syscalls.thy ===== *)
theory Syscalls
  imports Memfs
begin

text \<open>
  Kernel system calls: \<^verbatim>\<open>src/crates/avix-core/src/syscall\<close> (\<^verbatim>\<open>mod.rs\<close>, \<^verbatim>\<open>registry.rs\<close>,
  \<^verbatim>\<open>handler.rs\<close> and the handlers of \<^verbatim>\<open>domain\<close>).  The package handlers
  (\<^verbatim>\<open>domain/pkg_.rs\<close>: download, unpack, verify) are one parameter of the dispatcher,
  the encrypted secret store a parameter of the secret handler.
\<close>

section \<open>The registry\<close>

definition proc_syscalls :: "syscall_descriptor list" where
  "proc_syscalls =
    [syscall_descriptor_new ''kernel/proc/spawn'' ''proc'' ''Spawn a new agent process''
      (''Creates a new agent process with the given manifest.'' @ [CHR 0x0A, CHR 0x0A] @ ''Permissions: caller must have `agent:spawn` capability'')
      [''agent:spawn''] ''fn proc_::spawn(ctx: &SyscallContext, params: Value) -> SyscallResult'',
     syscall_descriptor_new ''kernel/proc/kill'' ''proc'' ''Terminate an agent process''
      (''Terminates a running agent process by PID.'' @ [CHR 0x0A, CHR 0x0A] @ ''Permissions: caller must have `agent:kill` capability'')
      [''agent:kill''] ''fn proc_::kill(ctx: &SyscallContext, params: Value) -> SyscallResult'',
     syscall_descriptor_new ''kernel/proc/list'' ''proc'' ''List running processes''
      (''Returns list of all running agent processes.'' @ [CHR 0x0A, CHR 0x0A] @ ''Permissions: caller must have `agent:list` capability'')
      [''agent:list''] ''fn proc_::list(ctx: &SyscallContext, params: Value) -> SyscallResult'',
     syscall_descriptor_new ''kernel/proc/info'' ''proc'' ''Get process info''
      (''Returns detailed information about a specific process.'' @ [CHR 0x0A, CHR 0x0A] @ ''Permissions: caller must have `agent:info` capability'')
      [''agent:info''] ''fn proc_::info(ctx: &SyscallContext, params: Value) -> SyscallResult'',
     syscall_descriptor_new ''kernel/proc/wait'' ''proc'' ''Wait for process exit''
      (''Blocks until the specified process exits.'' @ [CHR 0x0A, CHR 0x0A] @ ''Permissions: caller must have `agent:wait` capability'')
      [''agent:wait''] ''fn proc_::wait(ctx: &SyscallContext, params: Value) -> SyscallResult'',
     syscall_descriptor_new ''kernel/proc/signal'' ''proc'' ''Send signal to process''
      (''Sends a signal (SIGKILL, SIGPAUSE, etc.) to a process.'' @ [CHR 0x0A, CHR 0x0A] @ ''Permissions: caller must have `agent:signal` capability'')
      [''agent:signal''] ''fn proc_::signal(ctx: &SyscallContext, params: Value) -> SyscallResult'']"

definition fs_syscalls :: "syscall_descriptor list" where
  "fs_syscalls =
    [syscall_descriptor_new ''kernel/fs/read'' ''fs'' ''Read file from VFS''
      (''Reads bytes from a VFS path.'' @ [CHR 0x0A, CHR 0x0A] @ ''Permissions: caller must have `fs/read` capability'')
      [''fs:read''] ''fn fs_::read(ctx: &SyscallContext, params: Value) -> SyscallResult'',
     syscall_descriptor_new ''kernel/fs/write'' ''fs'' ''Write file to VFS''
      (''Writes bytes to a VFS path.'' @ [CHR 0x0A, CHR 0x0A] @ ''Permissions: caller must have `fs:write` capability'')
      [''fs:write''] ''fn fs_::write(ctx: &SyscallContext, params: Value) -> SyscallResult'',
     syscall_descriptor_new ''kernel/fs/list'' ''fs'' ''List directory contents''
      (''Lists entries in a VFS directory.'' @ [CHR 0x0A, CHR 0x0A] @ ''Permissions: caller must have `fs:list` capability'')
      [''fs:list''] ''fn fs_::list(ctx: &SyscallContext, params: Value) -> SyscallResult'',
     syscall_descriptor_new ''kernel/fs/exists'' ''fs'' ''Check if path exists''
      (''Checks if a VFS path exists.'' @ [CHR 0x0A, CHR 0x0A] @ ''Permissions: caller must have `fs:read` capability'')
      [''fs:read''] ''fn fs_::exists(ctx: &SyscallContext, params: Value) -> SyscallResult'',
     syscall_descriptor_new ''kernel/fs/delete'' ''fs'' ''Delete file or directory''
      (''Deletes a file or directory from VFS.'' @ [CHR 0x0A, CHR 0x0A] @ ''Permissions: caller must have `fs:delete` capability'')
      [''fs:delete''] ''fn fs_::delete(ctx: &SyscallContext, params: Value) -> SyscallResult'',
     syscall_descriptor_new ''kernel/fs/watch'' ''fs'' ''Watch for file changes''
      (''Sets up a watch on a VFS path for change notifications.'' @ [CHR 0x0A, CHR 0x0A] @ ''Permissions: caller must have `fs:watch` capability'')
      [''fs:watch''] ''fn fs_::watch(ctx: &SyscallContext, params: Value) -> SyscallResult'']"

definition cap_syscalls :: "syscall_descriptor list" where
  "cap_syscalls =
    [syscall_descriptor_new ''kernel/cap/issue'' ''cap'' ''Issue capability token''
      (''Issues a new capability token to another process.'' @ [CHR 0x0A, CHR 0x0A] @ ''Permissions: caller must have `cap:issue` capability'')
      [''cap:issue''] ''fn cap_::issue(ctx: &SyscallContext, params: Value) -> SyscallResult'',
     syscall_descriptor_new ''kernel/cap/validate'' ''cap'' ''Validate capability token''
      (''Validates a capability token'' @ [CHR 0x27] @ ''s signature and grants.'' @ [CHR 0x0A, CHR 0x0A] @ ''Permissions: caller must have `cap:validate` capability'')
      [''cap:validate''] ''fn cap_::validate(ctx: &SyscallContext, params: Value) -> SyscallResult'',
     syscall_descriptor_new ''kernel/cap/revoke'' ''cap'' ''Revoke capability token''
      (''Revokes a previously issued capability token.'' @ [CHR 0x0A, CHR 0x0A] @ ''Permissions: caller must have `cap:revoke` capability'')
      [''cap:revoke''] ''fn cap_::revoke(ctx: &SyscallContext, params: Value) -> SyscallResult'',
     syscall_descriptor_new ''kernel/cap/policy'' ''cap'' ''Manage capability policy''
      (''Gets or sets the system-wide capability policy.'' @ [CHR 0x0A, CHR 0x0A] @ ''Permissions: caller must have `cap:policy` capability'')
      [''cap:policy''] ''fn cap_::policy(ctx: &SyscallContext, params: Value) -> SyscallResult'']"

definition sys_syscalls :: "syscall_descriptor list" where
  "sys_syscalls =
    [syscall_descriptor_new ''kernel/sys/info'' ''sys'' ''Get system information''
      (''Returns system-wide information (version, uptime, etc.).'' @ [CHR 0x0A, CHR 0x0A] @ ''Permissions: none required'')
      [] ''fn sys_::info(ctx: &SyscallContext, params: Value) -> SyscallResult'',
     syscall_descriptor_new ''kernel/sys/boot-log'' ''sys'' ''Get boot log''
      (''Returns the system boot log entries.'' @ [CHR 0x0A, CHR 0x0A] @ ''Permissions: admin only'')
      [''admin:boot-log''] ''fn sys_::boot_log(ctx: &SyscallContext, params: Value) -> SyscallResult'',
     syscall_descriptor_new ''kernel/sys/reboot'' ''sys'' ''Reboot the system''
      (''Initiates a system reboot.'' @ [CHR 0x0A, CHR 0x0A] @ ''Permissions: admin only, requires confirm=true'')
      [''admin:reboot''] ''fn sys_::reboot(ctx: &SyscallContext, params: Value) -> SyscallResult'']"

definition sched_syscalls :: "syscall_descriptor list" where
  "sched_syscalls =
    [syscall_descriptor_new ''kernel/sched/cron-add'' ''sched'' ''Add cron job''
      (''Adds a new scheduled cron job.'' @ [CHR 0x0A, CHR 0x0A] @ ''Permissions: caller must have `sched:cron` capability'')
      [''sched:cron''] ''fn sched_::cron_add(ctx: &SyscallContext, params: Value) -> SyscallResult'',
     syscall_descriptor_new ''kernel/sched/cron-remove'' ''sched'' ''Remove cron job''
      (''Removes a scheduled cron job.'' @ [CHR 0x0A, CHR 0x0A] @ ''Permissions: caller must have `sched:cron` capability'')
      [''sched:cron''] ''fn sched_::cron_remove(ctx: &SyscallContext, params: Value) -> SyscallResult'',
     syscall_descriptor_new ''kernel/sched/cron-list'' ''sched'' ''List cron jobs''
      (''Lists all scheduled cron jobs.'' @ [CHR 0x0A, CHR 0x0A] @ ''Permissions: caller must have `sched:cron` capability'')
      [''sched:cron''] ''fn sched_::cron_list(ctx: &SyscallContext, params: Value) -> SyscallResult'']"

definition snap_syscalls :: "syscall_descriptor list" where
  "snap_syscalls =
    [syscall_descriptor_new ''kernel/snap/save'' ''snap'' ''Save process snapshot''
      (''Saves a snapshot of a process'' @ [CHR 0x27] @ ''s state.'' @ [CHR 0x0A, CHR 0x0A] @ ''Permissions: caller must have `snap:save` capability'')
      [''snap:save''] ''fn snap_::save(ctx: &SyscallContext, params: Value) -> SyscallResult'',
     syscall_descriptor_new ''kernel/snap/restore'' ''snap'' ''Restore process snapshot''
      (''Restores a process from a saved snapshot.'' @ [CHR 0x0A, CHR 0x0A] @ ''Permissions: caller must have `snap:restore` capability'')
      [''snap:restore''] ''fn snap_::restore(ctx: &SyscallContext, params: Value) -> SyscallResult'',
     syscall_descriptor_new ''kernel/snap/list'' ''snap'' ''List process snapshots''
      (''Lists all snapshots for a process.'' @ [CHR 0x0A, CHR 0x0A] @ ''Permissions: caller must have `snap:list` capability'')
      [''snap:list''] ''fn snap_::list(ctx: &SyscallContext, params: Value) -> SyscallResult'',
     syscall_descriptor_new ''kernel/snap/delete'' ''snap'' ''Delete process snapshot''
      (''Deletes a saved snapshot.'' @ [CHR 0x0A, CHR 0x0A] @ ''Permissions: caller must have `snap:delete` capability'')
      [''snap:delete''] ''fn snap_::delete(ctx: &SyscallContext, params: Value) -> SyscallResult'']"

definition package_syscalls :: "syscall_descriptor list" where
  "package_syscalls =
    [syscall_descriptor_new ''proc/package/install-agent'' ''package'' ''Install agent from package''
      (''Installs an agent pack from a remote URL or local file.'' @ [CHR 0x0A, CHR 0x0A] @ ''Permissions: caller must have `proc/package/install-agent` capability. For non-official sources, also requires `install:from-untrusted-source`.'')
      [''proc/package/install-agent''] ''fn pkg_::install_agent(ctx: &SyscallContext, params: Value, avix_root: &Path) -> SyscallResult'',
     syscall_descriptor_new ''proc/package/install-service'' ''package'' ''Install service from package''
      (''Installs a service pack from a remote URL or local file.'' @ [CHR 0x0A, CHR 0x0A] @ ''Permissions: caller must have `proc/package/install-service` capability. For non-official sources, also requires `install:from-untrusted-source`.'')
      [''proc/package/install-service''] ''fn pkg_::install_service(ctx: &SyscallContext, params: Value, avix_root: &Path) -> SyscallResult'',
     syscall_descriptor_new ''proc/package/uninstall-agent'' ''package'' ''Uninstall agent''
      (''Uninstalls an installed agent pack.'' @ [CHR 0x0A, CHR 0x0A] @ ''Permissions: caller must have `proc/package/install-agent` capability.'')
      [''proc/package/install-agent''] ''fn pkg_::uninstall_agent(ctx: &SyscallContext, params: Value, avix_root: &Path) -> SyscallResult'',
     syscall_descriptor_new ''proc/package/uninstall-service'' ''package'' ''Uninstall service''
      (''Uninstalls an installed service pack.'' @ [CHR 0x0A, CHR 0x0A] @ ''Permissions: caller must have `proc/package/install-service` capability.'')
      [''proc/package/install-service''] ''fn pkg_::uninstall_service(ctx: &SyscallContext, params: Value, avix_root: &Path) -> SyscallResult'',
     syscall_descriptor_new ''proc/package/trust-add'' ''package'' ''Add trusted signing key''
      (''Adds a trusted third-party signing key to the keyring.'' @ [CHR 0x0A, CHR 0x0A] @ ''Permissions: caller must have `auth:admin` capability.'')
      [''auth:admin''] ''fn pkg_::trust_add(ctx: &SyscallContext, params: Value, avix_root: &Path) -> SyscallResult'',
     syscall_descriptor_new ''proc/package/trust-list'' ''package'' ''List trusted keys''
      ''Lists all trusted third-party signing keys in the keyring.''
      [''auth:admin''] ''fn pkg_::trust_list(ctx: &SyscallContext, params: Value, avix_root: &Path) -> SyscallResult'',
     syscall_descriptor_new ''proc/package/trust-remove'' ''package'' ''Remove trusted key''
      (''Removes a trusted third-party signing key from the keyring.'' @ [CHR 0x0A, CHR 0x0A] @ ''Permissions: caller must have `auth:admin` capability.'')
      [''auth:admin''] ''fn pkg_::trust_remove(ctx: &SyscallContext, params: Value, avix_root: &Path) -> SyscallResult'']"

record syscall_registry =
  sg_syscalls :: "syscall_descriptor list"
  sg_by_name :: "(string, nat) hmap"

definition kernel_syscalls :: "syscall_descriptor list" where
  "kernel_syscalls = proc_syscalls @ fs_syscalls @ cap_syscalls @ sys_syscalls @ sched_syscalls @
     snap_syscalls @ package_syscalls"

definition syscall_registry_of :: "syscall_descriptor list \<Rightarrow> syscall_registry" where
  "syscall_registry_of scs =
     \<lparr> sg_syscalls = scs,
       sg_by_name = fold (\<lambda>(i, sc). hm_insert (sd_name sc) i) (enumerate 0 scs) [] \<rparr>"

definition syscall_registry_new :: syscall_registry where
  "syscall_registry_new = syscall_registry_of kernel_syscalls"

definition syscall_get :: "syscall_registry \<Rightarrow> string \<Rightarrow> syscall_descriptor option" where
  "syscall_get r name = map_option (\<lambda>i. sg_syscalls r ! i) (hm_get (sg_by_name r) name)"

definition syscall_list_by_domain :: "syscall_registry \<Rightarrow> string \<Rightarrow> syscall_descriptor list" where
  "syscall_list_by_domain r d = filter (\<lambda>sc. sd_domain sc = d) (sg_syscalls r)"

definition syscall_domains :: "syscall_registry \<Rightarrow> string list" where
  "syscall_domains r = remdups_adj (sort (map sd_domain (sg_syscalls r)))"

section \<open>Handlers\<close>

record syscall_context =
  sx_caller_pid :: u32
  sx_token :: capability_token

datatype syscall_error = Sceperm u32 string | Scenoent string | Sceinval string | Sceexist string | Sceio string

fun syscall_error_display :: "syscall_error \<Rightarrow> string" where
  "syscall_error_display (Sceperm p m) = ''EPERM: caller '' @ show_word p @ '' not authorized for '' @ m"
| "syscall_error_display (Scenoent m) = ''ENOENT: '' @ m @ '' not found''"
| "syscall_error_display (Sceinval m) = ''EINVAL: '' @ m"
| "syscall_error_display (Sceexist m) = ''EEXIST: '' @ m @ '' already exists''"
| "syscall_error_display (Sceio m) = ''EIO: '' @ m"

type_synonym syscall_result = "syscall_error + json"
type_synonym syscall_fn = "syscall_context \<Rightarrow> json \<Rightarrow> syscall_result"

fun as_bool :: "json \<Rightarrow> bool option" where
  "as_bool (JBool b) = Some b"
| "as_bool _ = None"

fun as_array :: "json \<Rightarrow> json list option" where
  "as_array (JArr xs) = Some xs"
| "as_array _ = None"

text \<open>A required field: the value, or \<^verbatim>\<open>missing ...\<close>.\<close>

definition need :: "(json \<Rightarrow> 'a option) \<Rightarrow> string \<Rightarrow> json \<Rightarrow> ('a \<Rightarrow> syscall_result) \<Rightarrow> syscall_result" where
  "need conv k params f =
     (case Option.bind (json_get params k) conv of None \<Rightarrow> Inl (Sceinval (''missing '' @ k)) | Some v \<Rightarrow> f v)"

definition num_u64 :: "u64 \<Rightarrow> json" where
  "num_u64 w = JNum (uint w)"

definition proc_spawn :: syscall_fn where
  "proc_spawn ctx params = need as_str ''name'' params (\<lambda>name.
     Inr (JObj [(''pid'', JNum 100), (''name'', JStr name), (''status'', JStr ''running'')]))"

definition proc_kill :: syscall_fn where
  "proc_kill ctx params = need as_u64 ''pid'' params (\<lambda>p. Inr (JObj [(''killed'', num_u64 p)]))"

definition proc_list :: syscall_fn where
  "proc_list ctx params = Inr (JObj [(''processes'', JArr [])])"

definition proc_info :: syscall_fn where
  "proc_info ctx params = need as_u64 ''pid'' params (\<lambda>p. Inr (JObj [(''pid'', num_u64 p), (''status'', JStr ''running'')]))"

definition proc_wait :: syscall_fn where
  "proc_wait ctx params = need as_u64 ''pid'' params (\<lambda>p. Inr (JObj [(''pid'', num_u64 p), (''exit_code'', JNum 0)]))"

definition proc_signal :: syscall_fn where
  "proc_signal ctx params = need as_u64 ''pid'' params (\<lambda>p. need as_str ''signal'' params (\<lambda>s.
     Inr (JObj [(''delivered'', JBool True), (''pid'', num_u64 p), (''signal'', JStr s)])))"

definition fs_read :: syscall_fn where
  "fs_read ctx params = need as_str ''path'' params (\<lambda>path.
     if starts_with path ''/secrets/'' then Inl (Sceperm (sx_caller_pid ctx) ''fs/read /secrets/'')
     else Inr (JObj [(''path'', JStr path), (''content'', JStr [])]))"

definition fs_write :: syscall_fn where
  "fs_write ctx params = need as_str ''path'' params (\<lambda>path. need as_str ''content'' params (\<lambda>content.
     (case vfs_path_parse path of
        Inl e \<Rightarrow> Inl (Sceinval (error_display e))
      | Inr p \<Rightarrow>
          if \<not> is_agent_writable p
          then Inl (Sceperm (sx_caller_pid ctx) (''EPERM: '' @ path @ '' is kernel-owned and not writable by agents''))
          else Inr (JObj [(''path'', JStr path), (''bytes_written'', JNum (int (length (bytes_of_string content))))]))))"

definition fs_list :: syscall_fn where
  "fs_list ctx params = need as_str ''path'' params (\<lambda>path. Inr (JObj [(''path'', JStr path), (''entries'', JArr [])]))"

definition fs_exists :: syscall_fn where
  "fs_exists ctx params = need as_str ''path'' params (\<lambda>path. Inr (JObj [(''path'', JStr path), (''exists'', JBool False)]))"

definition fs_delete :: syscall_fn where
  "fs_delete ctx params = need as_str ''path'' params (\<lambda>path. Inr (JObj [(''path'', JStr path), (''deleted'', JBool True)]))"

definition fs_watch :: syscall_fn where
  "fs_watch ctx params = need as_str ''path'' params (\<lambda>path. Inr (JObj [(''path'', JStr path), (''watch_id'', JStr ''watch-1'')]))"

definition cap_issue :: syscall_fn where
  "cap_issue ctx params = need as_u64 ''target_pid'' params (\<lambda>p.
     Inr (JObj [(''token_id'', JStr ''cap-token-1''), (''target_pid'', num_u64 p),
                (''granted_tools'', JArr (unwrap_or [] (Option.bind (json_get params ''tools'') as_array)))]))"

definition cap_validate :: syscall_fn where
  "cap_validate ctx params = need as_str ''token_id'' params (\<lambda>t. Inr (JObj [(''token_id'', JStr t), (''valid'', JBool True)]))"

definition cap_revoke :: syscall_fn where
  "cap_revoke ctx params = need as_str ''token_id'' params (\<lambda>t. Inr (JObj [(''token_id'', JStr t), (''revoked'', JBool True)]))"

definition cap_policy :: syscall_fn where
  "cap_policy ctx params = need as_str ''action'' params (\<lambda>a. Inr (JObj [(''action'', JStr a), (''policy'', JStr ''allow'')]))"

text \<open>The platform and architecture names are constants of the build target.\<close>

definition sys_info :: "string \<Rightarrow> string \<Rightarrow> syscall_fn" where
  "sys_info platform arch ctx params =
     Inr (JObj [(''version'', JStr ''0.1.0''), (''platform'', JStr platform), (''arch'', JStr arch), (''uptime_secs'', JNum 0)])"

definition sys_boot_log :: syscall_fn where
  "sys_boot_log ctx params =
     Inr (JObj [(''lines'', JArr []), (''limit'', num_u64 (unwrap_or 100 (Option.bind (json_get params ''limit'') as_u64)))])"

definition sys_reboot :: syscall_fn where
  "sys_reboot ctx params = need as_bool ''confirm'' params (\<lambda>c.
     if \<not> c then Inl (Sceinval ''reboot requires confirm: true'') else Inr (JObj [(''rebooting'', JBool True)]))"

definition sched_cron_add :: syscall_fn where
  "sched_cron_add ctx params = need as_str ''name'' params (\<lambda>n. need as_str ''expression'' params (\<lambda>x.
     Inr (JObj [(''job_id'', JStr ''cron-1''), (''name'', JStr n), (''expression'', JStr x)])))"

definition sched_cron_remove :: syscall_fn where
  "sched_cron_remove ctx params = need as_str ''job_id'' params (\<lambda>j. Inr (JObj [(''job_id'', JStr j), (''removed'', JBool True)]))"

definition sched_cron_list :: syscall_fn where
  "sched_cron_list ctx params = Inr (JObj [(''jobs'', JArr [])])"

definition snap_save :: syscall_fn where
  "snap_save ctx params = need as_u64 ''pid'' params (\<lambda>p. Inr (JObj [(''snapshot_id'', JStr ''snap-1''), (''pid'', num_u64 p)]))"

definition snap_restore :: syscall_fn where
  "snap_restore ctx params = need as_str ''snapshot_id'' params (\<lambda>s. Inr (JObj [(''snapshot_id'', JStr s), (''restored'', JBool True)]))"

definition snap_list :: syscall_fn where
  "snap_list ctx params = need as_u64 ''pid'' params (\<lambda>p. Inr (JObj [(''pid'', num_u64 p), (''snapshots'', JArr [])]))"

definition snap_delete :: syscall_fn where
  "snap_delete ctx params = need as_str ''snapshot_id'' params (\<lambda>s. Inr (JObj [(''snapshot_id'', JStr s), (''deleted'', JBool True)]))"

text \<open>The secret handler takes the store as an argument and is not reached through the dispatcher.\<close>

definition strip_prefix :: "string \<Rightarrow> string \<Rightarrow> string option" where
  "strip_prefix p s = (if starts_with s p then Some (drop (length p) s) else None)"

definition secret_get :: "(string \<Rightarrow> string \<Rightarrow> string + string) \<Rightarrow> syscall_fn" where
  "secret_get store ctx params =
     (case as_str (json_index params ''owner'') of
        None \<Rightarrow> Inl (Sceinval (''missing `owner`''))
      | Some own \<Rightarrow>
          (case as_str (json_index params ''name'') of
             None \<Rightarrow> Inl (Sceinval (''missing `name`''))
           | Some name \<Rightarrow>
               (let issued_agent = (case issued_to_opt (sx_token ctx) of Some i \<Rightarrow> it_agent_name i | None \<Rightarrow> []);
                    refused = (case strip_prefix ''service:'' own of
                                 Some svc \<Rightarrow> issued_agent \<noteq> svc \<and> \<not> has_tool (sx_token ctx) ''auth:admin''
                               | None \<Rightarrow> False)
                in if refused then Inl (Sceperm (sx_caller_pid ctx) ''kernel/secret/get'')
                   else (case store own name of
                           Inl e \<Rightarrow> Inl (Scenoent e)
                         | Inr v \<Rightarrow> Inr (JObj [(''value'', JStr v)])))))"

section \<open>Dispatch\<close>

text \<open>The method table of \<^verbatim>\<open>SyscallHandler::dispatch\<close>.\<close>

definition syscall_handlers :: "string \<Rightarrow> string \<Rightarrow> (string \<Rightarrow> syscall_fn) \<Rightarrow> (string \<times> syscall_fn) list" where
  "syscall_handlers platform arch pkg =
    [(''kernel/proc/spawn'', proc_spawn),
     (''kernel/proc/kill'', proc_kill),
     (''kernel/proc/list'', proc_list),
     (''kernel/proc/info'', proc_info),
     (''kernel/proc/wait'', proc_wait),
     (''kernel/proc/signal'', proc_signal),
     (''kernel/fs/read'', fs_read),
     (''kernel/fs/write'', fs_write),
     (''kernel/fs/list'', fs_list),
     (''kernel/fs/exists'', fs_exists),
     (''kernel/fs/delete'', fs_delete),
     (''kernel/fs/watch'', fs_watch),
     (''kernel/cap/issue'', cap_issue),
     (''kernel/cap/validate'', cap_validate),
     (''kernel/cap/revoke'', cap_revoke),
     (''kernel/cap/policy'', cap_policy),
     (''kernel/sys/info'', sys_info platform arch),
     (''kernel/sys/boot-log'', sys_boot_log),
     (''kernel/sys/reboot'', sys_reboot),
     (''kernel/sched/cron-add'', sched_cron_add),
     (''kernel/sched/cron-remove'', sched_cron_remove),
     (''kernel/sched/cron-list'', sched_cron_list),
     (''kernel/snap/save'', snap_save),
     (''kernel/snap/restore'', snap_restore),
     (''kernel/snap/list'', snap_list),
     (''kernel/snap/delete'', snap_delete),
     (''proc/package/install-agent'', pkg ''proc/package/install-agent''),
     (''proc/package/install-service'', pkg ''proc/package/install-service''),
     (''proc/package/uninstall-agent'', pkg ''proc/package/uninstall-agent''),
     (''proc/package/uninstall-service'', pkg ''proc/package/uninstall-service''),
     (''proc/package/trust-add'', pkg ''proc/package/trust-add''),
     (''proc/package/trust-list'', pkg ''proc/package/trust-list''),
     (''proc/package/trust-remove'', pkg ''proc/package/trust-remove'')]"

definition syscall_dispatch :: "string \<Rightarrow> string \<Rightarrow> (string \<Rightarrow> syscall_fn) \<Rightarrow> string \<Rightarrow> syscall_fn" where
  "syscall_dispatch platform arch pkg method ctx params =
     (if \<not> has_tool (sx_token ctx) method then Inl (Sceperm (sx_caller_pid ctx) method)
      else (case map_of (syscall_handlers platform arch pkg) method of
              Some f \<Rightarrow> f ctx params
            | None \<Rightarrow> Inl (Sceinval (''unknown syscall: '' @ method))))"

section \<open>Lemmas\<close>

lemmas syscall_tables = proc_syscalls_def fs_syscalls_def cap_syscalls_def sys_syscalls_def sched_syscalls_def
  snap_syscalls_def package_syscalls_def

lemma sd_name_new [simp]:
  "sd_name (syscall_descriptor_new n d sh de caps sig) = n" "sd_domain (syscall_descriptor_new n d sh de caps sig) = d"
  by (simp_all add: syscall_descriptor_new_def)

lemma syscall_index:
  assumes "i < length scs" and "distinct (map sd_name scs)"
  shows "hm_get (sg_by_name (syscall_registry_of scs)) (sd_name (scs ! i)) = Some i"
  using assms
proof (induction scs arbitrary: i rule: rev_induct)
  case (snoc x xs)
  have e: "enumerate 0 (xs @ [x]) = enumerate 0 xs @ [(length xs, x)]" by (simp add: enumerate_append_eq)
  show ?case
  proof (cases "i = length xs")
    case False
    then have i: "i < length xs" using snoc.prems by simp
    have "sd_name x \<notin> sd_name ` set xs" using snoc.prems(2) by auto
    then have "sd_name (xs ! i) \<noteq> sd_name x" using nth_mem [OF i] by (metis imageI)
    then show ?thesis using snoc.IH [OF i] snoc.prems i by (simp add: syscall_registry_of_def e nth_append)
  qed (simp add: syscall_registry_of_def e)
qed simp

lemma syscall_index_sound:
  "hm_get (sg_by_name (syscall_registry_of scs)) n = Some i \<Longrightarrow> i < length scs \<and> sd_name (scs ! i) = n"
proof (induction scs arbitrary: i rule: rev_induct)
  case (snoc x xs)
  have "enumerate 0 (xs @ [x]) = enumerate 0 xs @ [(length xs, x)]" by (simp add: enumerate_append_eq)
  then show ?case using snoc by (fastforce simp: syscall_registry_of_def nth_append split: if_splits)
qed (simp add: syscall_registry_of_def)

lemma syscall_get_Some:
  "syscall_get (syscall_registry_of scs) n = Some sc \<Longrightarrow> sc \<in> set scs \<and> sd_name sc = n"
  by (auto simp: syscall_get_def syscall_registry_of_def dest!: syscall_index_sound [unfolded syscall_registry_of_def, simplified])

lemma syscall_get_None:
  assumes "distinct (map sd_name scs)"
  shows "syscall_get (syscall_registry_of scs) n = None \<longleftrightarrow> n \<notin> set (map sd_name scs)"
proof -
  have "syscall_get (syscall_registry_of scs) n \<noteq> None" if "n \<in> set (map sd_name scs)"
    using that assms syscall_index [of _ scs] by (auto simp: in_set_conv_nth syscall_get_def)
  then show ?thesis using syscall_get_Some by (cases "syscall_get (syscall_registry_of scs) n") fastforce+
qed

lemma kernel_syscall_names: "map sd_name kernel_syscalls = map fst (syscall_handlers pl ar pkg)"
  by (simp add: kernel_syscalls_def syscall_tables syscall_handlers_def)

lemma kernel_syscall_distinct: "distinct (map sd_name kernel_syscalls)"
  by (simp add: kernel_syscalls_def syscall_tables)

text \<open>
  The published table of system calls and the dispatcher agree: a call for which the token
  does not list the method is refused and reaches no handler; with the method granted, the
  dispatcher answers \<open>unknown syscall\<close> exactly for the names the registry does not
  describe and otherwise runs the one handler of that name.  So every described call is
  implemented, every implemented call is described, and granting is by exact name.
\<close>

theorem syscall_dispatch_matches_registry:
  "syscall_dispatch pl ar pkg m ctx params =
     (if m \<notin> set (granted_tools (sx_token ctx)) then Inl (Sceperm (sx_caller_pid ctx) m)
      else case syscall_get syscall_registry_new m of
             None \<Rightarrow> Inl (Sceinval (''unknown syscall: '' @ m))
           | Some sc \<Rightarrow> the (map_of (syscall_handlers pl ar pkg) (sd_name sc)) ctx params) \<and>
   {sd_name sc | sc. sc \<in> set (sg_syscalls syscall_registry_new)} = dom (map_of (syscall_handlers pl ar pkg))"
proof -
  have names: "set (map sd_name kernel_syscalls) = dom (map_of (syscall_handlers pl ar pkg))"
    unfolding kernel_syscall_names [of pl ar pkg] by (simp add: dom_map_of_conv_image_fst)
  have none: "syscall_get syscall_registry_new m = None \<longleftrightarrow> map_of (syscall_handlers pl ar pkg) m = None"
    using syscall_get_None [OF kernel_syscall_distinct, of m] names unfolding syscall_registry_new_def by auto
  have "sd_name sc = m" if "syscall_get syscall_registry_new m = Some sc" for sc
    using that syscall_get_Some unfolding syscall_registry_new_def by blast
  then have "syscall_dispatch pl ar pkg m ctx params =
     (if m \<notin> set (granted_tools (sx_token ctx)) then Inl (Sceperm (sx_caller_pid ctx) m)
      else case syscall_get syscall_registry_new m of
             None \<Rightarrow> Inl (Sceinval (''unknown syscall: '' @ m))
           | Some sc \<Rightarrow> the (map_of (syscall_handlers pl ar pkg) (sd_name sc)) ctx params)"
    using none by (auto simp: syscall_dispatch_def split: option.splits)
  then show ?thesis using names by (auto simp: syscall_registry_new_def syscall_registry_of_def)
qed

text \<open>The guards of the file-system calls.\<close>

lemma fs_write_granted:
  assumes "fs_write ctx params = Inr v"
  shows "\<exists>path. json_get params ''path'' = Some (JStr path) \<and> starts_with path ''/'' \<and>
    \<not> contains_str path ''..'' \<and> is_agent_writable (VfsPath path)"
  using assms by (auto simp: fs_write_def need_def vfs_path_parse_Inr bind_eq_Some_conv split: option.splits sum.splits if_splits
      elim!: as_str.elims)

lemma fs_read_granted:
  assumes "fs_read ctx params = Inr v"
  shows "\<exists>path. json_get params ''path'' = Some (JStr path) \<and> \<not> starts_with path ''/secrets/''"
  using assms by (auto simp: fs_read_def need_def bind_eq_Some_conv split: option.splits if_splits elim!: as_str.elims)

lemma secret_get_service:
  assumes "json_get params ''owner'' = Some (JStr (''service:'' @ svc))" "json_get params ''name'' = Some (JStr name)"
  shows "secret_get store ctx params =
    (if has_tool (sx_token ctx) ''auth:admin'' \<or> (\<exists>i. issued_to_opt (sx_token ctx) = Some i \<and> it_agent_name i = svc) \<or>
        (issued_to_opt (sx_token ctx) = None \<and> svc = [])
     then (case store (''service:'' @ svc) name of Inl e \<Rightarrow> Inl (Scenoent e) | Inr v \<Rightarrow> Inr (JObj [(''value'', JStr v)]))
     else Inl (Sceperm (sx_caller_pid ctx) ''kernel/secret/get''))"
  using assms by (auto simp: secret_get_def json_index_def strip_prefix_def Let_def split: option.splits)

end
