(* ===== verification/Kernel_Caps.thy ===== *)
theory Kernel_Caps
  imports Syscalls Router
begin

text \<open>
  What the kernel grants: the resolution of a manifest's capability groups to tool names
  (\<^verbatim>\<open>src/crates/avix-core/src/kernel/capability_resolver.rs\<close> and its caller in
  \<^verbatim>\<open>kernel/proc/agent.rs\<close>) and the handler of an agent's resource requests
  (\<^verbatim>\<open>kernel/resource_request.rs\<close>).
\<close>

section \<open>Capability groups\<close>

definition split_group :: "string \<Rightarrow> string \<times> string" where
  "split_group cap = unwrap_or (cap, ''*'') (split_once (CHR '':'') cap)"

definition group_syscalls :: "syscall_descriptor list \<Rightarrow> string \<Rightarrow> string list" where
  "group_syscalls scs cap =
     (case split_group cap of (ns, flt) \<Rightarrow>
        if ns = ''kernel'' then map sd_name (filter (\<lambda>sc. flt = ''*'' \<or> sd_domain sc = flt) scs)
        else map sd_name (filter (\<lambda>sc. sd_domain sc = ns \<and>
               (flt = ''*'' \<or> starts_with (sd_name sc) (''kernel/'' @ ns @ ''/'' @ flt))) scs))"

definition group_prefix :: "string \<Rightarrow> string" where
  "group_prefix cap =
     (case split_group cap of (ns, flt) \<Rightarrow> if flt = ''*'' then ns @ ''/'' else ns @ ''/'' @ flt)"

definition group_tools :: "tool_entry list \<Rightarrow> string \<Rightarrow> string list" where
  "group_tools tools cap =
     filter (\<lambda>n. starts_with n (group_prefix cap)) (map (\<lambda>e. tool_str (te_name e)) tools)"

text \<open>\<^verbatim>\<open>CapabilityResolver::resolve\<close>: an ordered set, listed in order.\<close>

definition resolve_capabilities :: "tool_registry \<Rightarrow> syscall_registry \<Rightarrow> string list \<Rightarrow> string list" where
  "resolve_capabilities tr sr caps =
     (let tools = get_all_entries tr; scs = sg_syscalls sr;
          granted = concat (map (\<lambda>cap. group_syscalls scs cap @ group_tools tools cap) caps) @ ALWAYS_PRESENT
      in sort (remdups granted))"

text \<open>\<^verbatim>\<open>resolve_granted_tools\<close>: the scanner, if one is wired, gives the requested groups of
  the agent's manifest; without a tool registry only the always-present tools are granted.\<close>

definition resolve_granted_tools ::
  "(string \<Rightarrow> string \<Rightarrow> string list option) option \<Rightarrow> tool_registry option \<Rightarrow> string \<Rightarrow> string \<Rightarrow> string list" where
  "resolve_granted_tools scanner tr agent caller =
     (let groups = (case scanner of None \<Rightarrow> [] | Some get \<Rightarrow> unwrap_or [] (get agent caller))
      in (case tr of
            Some r \<Rightarrow> resolve_capabilities r syscall_registry_new groups
          | None \<Rightarrow> ALWAYS_PRESENT))"

section \<open>Resource requests\<close>

datatype urgency = UrgLow | UrgNormal | UrgHigh

datatype rr_direction = RrIn | RrOut | RrBidirectional

datatype resource_item =
  ItemContextTokens u32 string
| ItemTool string urgency string
| ItemPipe u64 rr_direction u32 string
| ItemTokenRenewal string

record resource_request =
  rq_agent_pid :: u64
  rq_request_id :: string
  rq_timestamp :: datetime
  rq_capability_token_signature :: string
  rq_requests :: "resource_item list"

definition resource_request_new :: "string \<Rightarrow> datetime \<Rightarrow> u64 \<Rightarrow> string \<Rightarrow> resource_item list \<Rightarrow> resource_request" where
  "resource_request_new uuid now p sig items =
     \<lparr> rq_agent_pid = p, rq_request_id = ''req-'' @ uuid, rq_timestamp = now,
       rq_capability_token_signature = sig, rq_requests = items \<rparr>"

datatype resource_grant =
  GrantContextTokens bool u32 u32 "datetime option" "string option"
| GrantTool bool string "capability_token option" "string option" "string option"
| GrantPipe bool u64 "string option" rr_direction u32 "string option"
| GrantTokenRenewal bool "capability_token option" "datetime option" "string option"

record resource_response =
  rs_request_id :: string
  rs_responded_at :: datetime
  rs_grants :: "resource_grant list"

record kernel_resource_handler =
  krh_hmac_key :: string
  krh_renewal_ttl_secs :: int

definition krh_new :: "string \<Rightarrow> kernel_resource_handler" where
  "krh_new key = \<lparr> krh_hmac_key = key, krh_renewal_ttl_secs = 3600 \<rparr>"

text \<open>The sum of \<^verbatim>\<open>new_total\<close> is a 32-bit one.  Each call draws the time and an identifier for
  the item it serves; they are the functions \<open>now\<close> and \<open>uuid\<close> of the item's position.\<close>

definition dispatch_item ::
  "hmac_fn \<Rightarrow> (nat \<Rightarrow> datetime) \<Rightarrow> (nat \<Rightarrow> string) \<Rightarrow> kernel_resource_handler \<Rightarrow> capability_token \<Rightarrow> nat \<Rightarrow> resource_item
    \<Rightarrow> resource_grant" where
  "dispatch_item hmac now uuid h tok i item =
     (case item of
        ItemContextTokens amount _ \<Rightarrow> GrantContextTokens True amount (64000 + amount) None None
      | ItemTool name _ _ \<Rightarrow> GrantTool False name None (Some ''HIL approval required'') None
      | ItemPipe target dir buffer _ \<Rightarrow> GrantPipe True target (Some (''pipe-'' @ uuid i)) dir buffer None
      | ItemTokenRenewal _ \<Rightarrow>
          (let new = mint hmac (now i) (granted_tools tok) (issued_to_opt tok) (krh_renewal_ttl_secs h) (krh_hmac_key h)
           in GrantTokenRenewal True (Some new) (Some (expires_at new)) None))"

definition resource_handle ::
  "hmac_fn \<Rightarrow> (nat \<Rightarrow> datetime) \<Rightarrow> (nat \<Rightarrow> string) \<Rightarrow> datetime \<Rightarrow> kernel_resource_handler \<Rightarrow> resource_request \<Rightarrow> capability_token
    \<Rightarrow> resource_response avix_result" where
  "resource_handle hmac now uuid done h req tok =
     (if \<not> verify_signature hmac tok (krh_hmac_key h) then Inl (CapabilityDenied ''capability token signature is invalid'')
      else if rq_capability_token_signature req \<noteq> signature tok
      then Inl (CapabilityDenied ''request token signature does not match current token'')
      else Inr \<lparr> rs_request_id = rq_request_id req, rs_responded_at = done,
                 rs_grants = map (\<lambda>(i, item). dispatch_item hmac now uuid h tok i item) (enumerate 0 (rq_requests req)) \<rparr>)"

section \<open>Lemmas\<close>

lemma split_group_simps:
  "CHR '':'' \<notin> set ns \<Longrightarrow> split_group (ns @ '':'' @ flt) = (ns, flt)"
  "CHR '':'' \<notin> set cap \<Longrightarrow> split_group cap = (cap, ''*'')"
proof -
  have "takeWhile (\<lambda>x. x \<noteq> CHR '':'') (ns @ CHR '':'' # flt) = ns \<and> dropWhile (\<lambda>x. x \<noteq> CHR '':'') (ns @ CHR '':'' # flt) = CHR '':'' # flt"
    if "CHR '':'' \<notin> set ns"
    using that by (induction ns) auto
  then show "CHR '':'' \<notin> set ns \<Longrightarrow> split_group (ns @ '':'' @ flt) = (ns, flt)"
    by (auto simp: split_group_def split_once_def)
qed (auto simp: split_group_def split_once_def)

text \<open>What one group covers.\<close>

definition covers_syscall :: "string \<times> string \<Rightarrow> syscall_descriptor \<Rightarrow> bool" where
  "covers_syscall g sc \<longleftrightarrow>
     (if fst g = ''kernel'' then snd g = ''*'' \<or> sd_domain sc = snd g
      else sd_domain sc = fst g \<and> (snd g = ''*'' \<or> starts_with (sd_name sc) (''kernel/'' @ fst g @ ''/'' @ snd g)))"

definition covers_tool :: "string \<times> string \<Rightarrow> string \<Rightarrow> bool" where
  "covers_tool g n \<longleftrightarrow> starts_with n (fst g @ ''/'' @ (if snd g = ''*'' then [] else snd g))"

lemma set_group_syscalls: "set (group_syscalls scs cap) = sd_name ` {sc \<in> set scs. covers_syscall (split_group cap) sc}"
proof (cases "fst (split_group cap) = ''kernel''")
  case True
  then show ?thesis unfolding group_syscalls_def covers_syscall_def split_beta by (simp only: refl if_True set_map set_filter)
next
  case False
  then show ?thesis unfolding group_syscalls_def covers_syscall_def split_beta by (simp only: if_False set_map set_filter)
qed

lemma set_group_tools:
  "set (group_tools tools cap) = {n \<in> (\<lambda>e. tool_str (te_name e)) ` set tools. covers_tool (split_group cap) n}"
  by (auto simp: group_tools_def group_prefix_def covers_tool_def split: prod.splits)

lemma set_resolve:
  "set (resolve_capabilities tr sr caps) = set ALWAYS_PRESENT \<union>
     (\<Union>cap\<in>set caps. sd_name ` {sc \<in> set (sg_syscalls sr). covers_syscall (split_group cap) sc} \<union>
        {n \<in> (\<lambda>e. tool_str (te_name e)) ` set (get_all_entries tr). covers_tool (split_group cap) n})"
  by (auto simp: resolve_capabilities_def Let_def set_group_syscalls set_group_tools)

text \<open>
  Resolution of capability groups grants exactly what the manifest asks for: the result is
  sorted and free of duplicates, and a name is in it if and only if it is one of the four
  always-present tools, or a system call covered by a requested group (by domain for
  \<open>kernel:d\<close>, by domain and name prefix for \<open>ns:filter\<close>), or a registered tool whose
  name starts with the group's prefix.  In particular nothing unregistered is granted, and an
  agent without a manifest gets the always-present tools only.
\<close>

theorem resolve_capabilities_exact:
  "sorted (resolve_capabilities tr sr caps) \<and> distinct (resolve_capabilities tr sr caps) \<and>
   (n \<in> set (resolve_capabilities tr sr caps) \<longleftrightarrow>
      n \<in> {''cap/request-tool'', ''cap/escalate'', ''cap/list'', ''job/watch''} \<or>
      (\<exists>cap\<in>set caps. (\<exists>sc\<in>set (sg_syscalls sr). sd_name sc = n \<and> covers_syscall (split_group cap) sc) \<or>
         (\<exists>e\<in>set (get_all_entries tr). tool_str (te_name e) = n \<and> covers_tool (split_group cap) n))) \<and>
   set (resolve_granted_tools None r agent caller) = {''cap/request-tool'', ''cap/escalate'', ''cap/list'', ''job/watch''}"
proof -
  have "n \<in> set (resolve_capabilities tr sr caps) \<longleftrightarrow>
      n \<in> set ALWAYS_PRESENT \<or>
      (\<exists>cap\<in>set caps. (\<exists>sc\<in>set (sg_syscalls sr). sd_name sc = n \<and> covers_syscall (split_group cap) sc) \<or>
         (\<exists>e\<in>set (get_all_entries tr). tool_str (te_name e) = n \<and> covers_tool (split_group cap) n))"
    unfolding set_resolve by blast
  moreover have "set (resolve_granted_tools None r agent caller) = set ALWAYS_PRESENT"
    by (auto simp: resolve_granted_tools_def set_resolve split: option.splits)
  ultimately show ?thesis by (simp add: resolve_capabilities_def Let_def ALWAYS_PRESENT_def)
qed

text \<open>What each item gets.\<close>

fun grant_answers :: "hmac_fn \<Rightarrow> string \<Rightarrow> capability_token \<Rightarrow> resource_item \<Rightarrow> resource_grant \<Rightarrow> bool" where
  "grant_answers hmac key tok (ItemContextTokens a _) (GrantContextTokens g a' tot _ _) \<longleftrightarrow>
     g \<and> a' = a \<and> uint tot = (uint a + 64000) mod 2 ^ 32"
| "grant_answers hmac key tok (ItemTool n _ _) (GrantTool g n' new _ _) \<longleftrightarrow> \<not> g \<and> n' = n \<and> new = None"
| "grant_answers hmac key tok (ItemPipe t d b _) (GrantPipe g t' i d' b' _) \<longleftrightarrow> g \<and> t' = t \<and> d' = d \<and> b' = b \<and> i \<noteq> None"
| "grant_answers hmac key tok (ItemTokenRenewal _) (GrantTokenRenewal g new ex _) \<longleftrightarrow>
     g \<and> (\<exists>t. new = Some t \<and> verify_signature hmac t key \<and> granted_tools t = granted_tools tok \<and>
            issued_to_opt t = issued_to_opt tok \<and> ex = Some (expires_at t) \<and> expires_at t = issued_at t + 3600 * nanos_per_sec)"
| "grant_answers hmac key tok _ _ \<longleftrightarrow> False"

lemma dispatch_item_answers:
  "grant_answers hmac key tok item (dispatch_item hmac now uuid (krh_new key) tok i item)"
proof (cases item)
  case (ItemContextTokens a r)
  have "uint (64000 + a) = (uint a + 64000) mod 2 ^ 32" 
  proof -
    have "uint (64000 :: u32) = 64000" by (simp add: take_bit_eq_mod)
    then show ?thesis by (simp add: uint_word_ariths add.commute)
  qed
  then show ?thesis using ItemContextTokens by (simp add: dispatch_item_def)
qed (auto simp: dispatch_item_def krh_new_def Let_def mint_verifies)

text \<open>
  Resource requests never widen an agent's rights by themselves: a request is answered only
  when the agent's token carries a valid signature under the kernel's key and the request quotes
  that signature, with one grant per item in the order asked; a tool is never granted here
  (it needs human approval), and a renewed token is signed by the kernel, has exactly the tools
  and the holder of the old one and lasts one hour.  The current token's own expiry is not
  looked at, so an expired token renews as well, and the new context total wraps
  around at 32 bits.
\<close>

theorem resource_request_safe:
  "(case resource_handle hmac now uuid done (krh_new key) req tok of
      Inl e \<Rightarrow> \<not> (verify_signature hmac tok key \<and> rq_capability_token_signature req = signature tok)
    | Inr resp \<Rightarrow> verify_signature hmac tok key \<and> rq_capability_token_signature req = signature tok \<and>
        rs_request_id resp = rq_request_id req \<and>
        list_all2 (grant_answers hmac key tok) (rq_requests req) (rs_grants resp))"
proof -
  have "list_all2 (grant_answers hmac key tok) items
      (map (\<lambda>(i, item). dispatch_item hmac now uuid (krh_new key) tok i item) (enumerate k items))" for items k
    by (induction items arbitrary: k) (auto simp: dispatch_item_answers)
  then show ?thesis by (auto simp: resource_handle_def krh_new_def)
qed

end
