(* ===== verification/Hil.thy ===== *)
theory Hil
  imports Event_Bus Memfs Signals
begin

text \<open>
  Human-in-the-loop approval: \<^verbatim>\<open>src/crates/avix-core/src/kernel\<close> (\<^verbatim>\<open>approval_token.rs\<close>,
  \<^verbatim>\<open>hil.rs\<close>, \<^verbatim>\<open>hil_manager.rs\<close>).  The manager's state is its table of open requests, the
  approval tokens, the event bus, the in-memory tree, the signal bus and the timers it has
  started.  The YAML serialiser and the RFC 3339 printer are parameters.  \<open>hil_step\<close> gives
  the interleavings: a call of \<^verbatim>\<open>resolve\<close> consumes its token, looks the request up, removes it
  and publishes in four steps with its locks released in between, and so does a timer in two.
\<close>

section \<open>Requests\<close>

datatype hil_type = ToolCallApproval | CapabilityUpgrade | Escalation

fun hil_type_str :: "hil_type \<Rightarrow> string" where
  "hil_type_str ToolCallApproval = ''tool_call_approval''"
| "hil_type_str CapabilityUpgrade = ''capability_upgrade''"
| "hil_type_str Escalation = ''escalation''"

datatype hil_state = HilPending | HilApproved | HilDenied | HilTimeout

datatype hil_urgency = HuLow | HuNormal | HuHigh

fun hil_urgency_str :: "hil_urgency \<Rightarrow> string" where
  "hil_urgency_str HuLow = ''low''"
| "hil_urgency_str HuNormal = ''normal''"
| "hil_urgency_str HuHigh = ''high''"

record hil_option =
  ho_id :: string
  ho_label :: string

record hil_request =
  hr_api_version :: string
  hr_kind :: string
  hr_hil_id :: string
  hr_pid :: pid
  hr_agent_name :: string
  hr_hil_type :: hil_type
  hr_tool :: "string option"
  hr_args :: "json option"
  hr_reason :: "string option"
  hr_context :: "string option"
  hr_options :: "hil_option list option"
  hr_urgency :: hil_urgency
  hr_approval_token :: string
  hr_created_at :: datetime
  hr_expires_at :: datetime
  hr_state :: hil_state
  hr_atp_session_id :: string

definition hil_vfs_path :: "hil_request \<Rightarrow> string" where
  "hil_vfs_path req = ''/proc/'' @ pid_display (hr_pid req) @ ''/hil-queue/'' @ hr_hil_id req @ ''.yaml''"

section \<open>Approval tokens\<close>

type_synonym approval_store = "(string, bool) hmap"

definition approval_new :: approval_store where
  "approval_new = []"

definition approval_create :: "string \<Rightarrow> string \<Rightarrow> approval_store \<Rightarrow> string \<times> approval_store" where
  "approval_create uuid hil_id st = (uuid, hm_insert uuid False st)"

definition approval_register :: "string \<Rightarrow> approval_store \<Rightarrow> approval_store" where
  "approval_register t st = (case hm_get st t of None \<Rightarrow> hm_insert t False st | Some _ \<Rightarrow> st)"

definition approval_consume :: "string \<Rightarrow> approval_store \<Rightarrow> approval_store avix_result" where
  "approval_consume t st =
     (case hm_get st t of
        None \<Rightarrow> Inl (CapabilityDenied ''token not found'')
      | Some used \<Rightarrow> if used then Inl (CapabilityDenied ''EUSED: token already used'') else Inr (hm_insert t True st))"

section \<open>The manager\<close>

record hil_manager =
  hl_pending :: "(string, hil_request) hmap"
  hl_approvals :: approval_store
  hl_bus :: atp_event_bus
  hl_vfs :: mem_fs
  hl_signals :: signal_bus
  hl_timeout_secs :: u64
  hl_timers :: "(string \<times> pid) list"

definition hil_manager_new :: "approval_store \<Rightarrow> atp_event_bus \<Rightarrow> mem_fs \<Rightarrow> signal_bus \<Rightarrow> u64 \<Rightarrow> hil_manager" where
  "hil_manager_new st b v s t =
     \<lparr> hl_pending = [], hl_approvals = st, hl_bus = b, hl_vfs = v, hl_signals = s, hl_timeout_secs = t, hl_timers = [] \<rparr>"

text \<open>What the manager uses of the outside: the YAML text of a request and the printed time.\<close>

record hil_env =
  he_yaml :: "hil_request \<Rightarrow> string + string"
  he_rfc3339 :: "datetime \<Rightarrow> string"

definition json_opt :: "string option \<Rightarrow> json" where
  "json_opt x = (case x of Some s \<Rightarrow> JStr s | None \<Rightarrow> JNull)"

definition hil_prompt :: "hil_request \<Rightarrow> string" where
  "hil_prompt req =
     (case (hr_tool req, hr_reason req) of
        (Some t, Some r) \<Rightarrow> ''Agent requests capability: '' @ t @ ''. Reason: '' @ r
      | (Some t, None) \<Rightarrow> ''Agent requests capability: '' @ t
      | (None, Some r) \<Rightarrow> r
      | (None, None) \<Rightarrow> ''Agent requires human approval'')"

text \<open>Seconds left, at least zero, then cut to 32 bits.\<close>

definition timeout_secs_left :: "datetime \<Rightarrow> hil_request \<Rightarrow> u32" where
  "timeout_secs_left now req = word_of_int (max 0 ((hr_expires_at req - now) div 1000000000))"

definition hil_request_body :: "datetime \<Rightarrow> hil_request \<Rightarrow> json" where
  "hil_request_body now req =
     JObj [(''hil_id'', JStr (hr_hil_id req)), (''pid'', JNum (uint (pid_u64 (hr_pid req)))),
           (''session_id'', JStr (hr_atp_session_id req)), (''approval_token'', JStr (hr_approval_token req)),
           (''hil_type'', JStr (hil_type_str (hr_hil_type req))), (''tool'', json_opt (hr_tool req)),
           (''reason'', json_opt (hr_reason req)), (''prompt'', JStr (hil_prompt req)),
           (''timeout_secs'', JNum (uint (timeout_secs_left now req))), (''urgency'', JStr (hil_urgency_str (hr_urgency req)))]"

definition hil_open :: "hil_env \<Rightarrow> bool \<Rightarrow> datetime \<Rightarrow> hil_request \<Rightarrow> hil_manager \<Rightarrow> unit avix_result \<times> hil_manager" where
  "hil_open env lk now req m =
     (case he_yaml env req of
        Inl e \<Rightarrow> (Inl (ConfigParse (''yaml serialise: '' @ e)), m)
      | Inr yaml \<Rightarrow>
          (case vfs_path_parse (hil_vfs_path req) of
             Inl e \<Rightarrow> (Inl e, m)
           | Inr path \<Rightarrow>
               (Inr (),
                m\<lparr>hl_vfs := memfs_write (hl_vfs m) path (bytes_of_string yaml),
                  hl_pending := hm_insert (hr_hil_id req) req (hl_pending m),
                  hl_approvals := approval_register (hr_approval_token req) (hl_approvals m),
                  hl_bus := publish lk (atp_event_new now HilRequestEv (hr_agent_name req) (hil_request_body now req))
                              (Some (hr_agent_name req)) User (hl_bus m),
                  hl_timers := hl_timers m @ [(hr_hil_id req, hr_pid req)]\<rparr>)))"

definition push_resolved ::
  "hil_env \<Rightarrow> bool \<Rightarrow> datetime \<Rightarrow> string \<Rightarrow> string \<Rightarrow> string \<Rightarrow> string \<Rightarrow> pid \<Rightarrow> string \<Rightarrow> hil_manager \<Rightarrow> hil_manager" where
  "push_resolved env lk now hil_id outcome resolved_by owner p session m =
     m\<lparr>hl_bus := publish lk
        (atp_event_new now HilResolvedEv owner
          (JObj [(''hil_id'', JStr hil_id), (''pid'', JNum (uint (pid_u64 p))), (''session_id'', JStr session),
                 (''outcome'', JStr outcome), (''resolved_by'', JStr resolved_by), (''resolved_at'', JStr (he_rfc3339 env now))]))
        (Some owner) User (hl_bus m)\<rparr>"

text \<open>Writing the decided request back: errors of the path or the serialiser are ignored.\<close>

definition write_back :: "hil_env \<Rightarrow> hil_request \<Rightarrow> hil_manager \<Rightarrow> hil_manager" where
  "write_back env req m =
     (case vfs_path_parse (hil_vfs_path req) of
        Inl _ \<Rightarrow> m
      | Inr path \<Rightarrow>
          m\<lparr>hl_vfs := memfs_write (hl_vfs m) path (bytes_of_string (case he_yaml env req of Inl _ \<Rightarrow> [] | Inr y \<Rightarrow> y))\<rparr>)"

text \<open>The parts of \<^verbatim>\<open>resolve\<close> between its locks.\<close>

definition resolve_lookup :: "hil_env \<Rightarrow> string \<Rightarrow> string \<Rightarrow> hil_manager \<Rightarrow> (string \<times> pid \<times> string) \<times> hil_manager" where
  "resolve_lookup env hil_id decision m =
     (case hm_get (hl_pending m) hil_id of
        Some req \<Rightarrow>
          (let updated = req\<lparr>hr_state := if decision = ''approved'' then HilApproved else HilDenied\<rparr>
           in ((hr_agent_name updated, hr_pid req, hr_atp_session_id req), write_back env updated m))
      | None \<Rightarrow> (([], Pid 0, []), m))"

definition resolve_remove :: "string \<Rightarrow> hil_manager \<Rightarrow> hil_manager" where
  "resolve_remove hil_id m = m\<lparr>hl_pending := hm_remove hil_id (hl_pending m)\<rparr>"

definition hil_resolve ::
  "hil_env \<Rightarrow> bool \<Rightarrow> datetime \<Rightarrow> string \<Rightarrow> string \<Rightarrow> string \<Rightarrow> string \<Rightarrow> hil_manager \<Rightarrow> unit avix_result \<times> hil_manager" where
  "hil_resolve env lk now hil_id token decision resolved_by m =
     (case approval_consume token (hl_approvals m) of
        Inl e \<Rightarrow> (Inl e, m)
      | Inr st \<Rightarrow>
          (case resolve_lookup env hil_id decision (m\<lparr>hl_approvals := st\<rparr>) of
             ((owner, p, session), m1) \<Rightarrow>
               (Inr (), push_resolved env lk now hil_id decision resolved_by owner p session (resolve_remove hil_id m1))))"

text \<open>The timer: what it does under the table's lock, and the notification after it.\<close>

definition timeout_take :: "hil_env \<Rightarrow> string \<Rightarrow> hil_manager \<Rightarrow> ((string \<times> string) \<times> hil_manager) option" where
  "timeout_take env hil_id m =
     (case hm_get (hl_pending m) hil_id of
        None \<Rightarrow> None
      | Some req \<Rightarrow>
          Some ((hr_agent_name req, hr_atp_session_id req),
                write_back env (req\<lparr>hr_state := HilTimeout\<rparr>) (m\<lparr>hl_pending := hm_remove hil_id (hl_pending m)\<rparr>)))"

definition timeout_notify ::
  "hil_env \<Rightarrow> bool \<Rightarrow> datetime \<Rightarrow> string \<Rightarrow> pid \<Rightarrow> string \<times> string \<Rightarrow> hil_manager \<Rightarrow> hil_manager" where
  "timeout_notify env lk now hil_id p os m =
     push_resolved env lk now hil_id ''timeout'' ''kernel'' (fst os) p (snd os)
       (m\<lparr>hl_signals := sb_send \<lparr> sig_target = p, sig_kind = SigResume, sig_payload = JObj [(''decision'', JStr ''timeout'')] \<rparr>
            (hl_signals m)\<rparr>)"

definition timeout_hil :: "hil_env \<Rightarrow> bool \<Rightarrow> datetime \<Rightarrow> string \<Rightarrow> pid \<Rightarrow> hil_manager \<Rightarrow> hil_manager" where
  "timeout_hil env lk now hil_id p m =
     (case timeout_take env hil_id m of
        None \<Rightarrow> m
      | Some (os, m1) \<Rightarrow> timeout_notify env lk now hil_id p os m1)"

section \<open>Interleavings\<close>

datatype resolver_pc =
  RvStart
| RvConsumed
| RvLooked string pid string
| RvRemoved string pid string
| RvDone
| RvRefused avix_error

record resolver =
  rv_hil_id :: string
  rv_token :: string
  rv_decision :: string
  rv_by :: string
  rv_pc :: resolver_pc

datatype timer_pc = TmTaken string pid "string \<times> string" | TmDone

record hil_sys =
  hy_mgr :: hil_manager
  hy_resolvers :: "resolver list"
  hy_timers :: "timer_pc list"

inductive hil_step :: "hil_env \<Rightarrow> hil_sys \<Rightarrow> hil_sys \<Rightarrow> bool" for env where
  hs_open: "hil_open env lk now req (hy_mgr s) = (res, m) \<Longrightarrow> hil_step env s (s\<lparr>hy_mgr := m\<rparr>)"
| hs_refuse: "\<lbrakk> i < length (hy_resolvers s); rv_pc (hy_resolvers s ! i) = RvStart;
     approval_consume (rv_token (hy_resolvers s ! i)) (hl_approvals (hy_mgr s)) = Inl e \<rbrakk> \<Longrightarrow>
     hil_step env s (s\<lparr>hy_resolvers := (hy_resolvers s)[i := (hy_resolvers s ! i)\<lparr>rv_pc := RvRefused e\<rparr>]\<rparr>)"
| hs_consume: "\<lbrakk> i < length (hy_resolvers s); rv_pc (hy_resolvers s ! i) = RvStart;
     approval_consume (rv_token (hy_resolvers s ! i)) (hl_approvals (hy_mgr s)) = Inr st \<rbrakk> \<Longrightarrow>
     hil_step env s (s\<lparr>hy_mgr := (hy_mgr s)\<lparr>hl_approvals := st\<rparr>,
                       hy_resolvers := (hy_resolvers s)[i := (hy_resolvers s ! i)\<lparr>rv_pc := RvConsumed\<rparr>]\<rparr>)"
| hs_look: "\<lbrakk> i < length (hy_resolvers s); rv_pc (hy_resolvers s ! i) = RvConsumed;
     resolve_lookup env (rv_hil_id (hy_resolvers s ! i)) (rv_decision (hy_resolvers s ! i)) (hy_mgr s) = ((a, p, b), m) \<rbrakk> \<Longrightarrow>
     hil_step env s (s\<lparr>hy_mgr := m,
                       hy_resolvers := (hy_resolvers s)[i := (hy_resolvers s ! i)\<lparr>rv_pc := RvLooked a p b\<rparr>]\<rparr>)"
| hs_remove: "\<lbrakk> i < length (hy_resolvers s); rv_pc (hy_resolvers s ! i) = RvLooked a p b \<rbrakk> \<Longrightarrow>
     hil_step env s (s\<lparr>hy_mgr := resolve_remove (rv_hil_id (hy_resolvers s ! i)) (hy_mgr s),
                       hy_resolvers := (hy_resolvers s)[i := (hy_resolvers s ! i)\<lparr>rv_pc := RvRemoved a p b\<rparr>]\<rparr>)"
| hs_publish: "\<lbrakk> i < length (hy_resolvers s); rv_pc (hy_resolvers s ! i) = RvRemoved a p b \<rbrakk> \<Longrightarrow>
     hil_step env s (s\<lparr>hy_mgr := push_resolved env lk now (rv_hil_id (hy_resolvers s ! i)) (rv_decision (hy_resolvers s ! i))
                                   (rv_by (hy_resolvers s ! i)) a p b (hy_mgr s),
                       hy_resolvers := (hy_resolvers s)[i := (hy_resolvers s ! i)\<lparr>rv_pc := RvDone\<rparr>]\<rparr>)"
| hs_fire: "\<lbrakk> (hil_id, p) \<in> set (hl_timers (hy_mgr s)); timeout_take env hil_id (hy_mgr s) = Some (os, m) \<rbrakk> \<Longrightarrow>
     hil_step env s (s\<lparr>hy_mgr := m, hy_timers := hy_timers s @ [TmTaken hil_id p os]\<rparr>)"
| hs_notify: "\<lbrakk> i < length (hy_timers s); hy_timers s ! i = TmTaken hil_id p os \<rbrakk> \<Longrightarrow>
     hil_step env s (s\<lparr>hy_mgr := timeout_notify env lk now hil_id p os (hy_mgr s), hy_timers := (hy_timers s)[i := TmDone]\<rparr>)"

definition hil_init :: "hil_sys \<Rightarrow> bool" where
  "hil_init s \<longleftrightarrow> hl_pending (hy_mgr s) = [] \<and> hl_approvals (hy_mgr s) = [] \<and> hl_timers (hy_mgr s) = [] \<and> hy_timers s = [] \<and>
     (\<forall>r\<in>set (hy_resolvers s). rv_pc r = RvStart)"

section \<open>Lemmas\<close>

lemma length_filter_update:
  "i < length xs \<Longrightarrow> length (filter P (xs[i := y])) + (if P (xs ! i) then 1 else 0) = length (filter P xs) + (if P y then 1 else 0)"
proof (induction xs arbitrary: i)
  case (Cons x xs)
  then show ?case by (cases i) auto
qed simp

lemma approval_consume_Inr:
  "approval_consume t st = Inr st' \<longleftrightarrow> hm_get st t = Some False \<and> st' = hm_insert t True st"
  by (auto simp: approval_consume_def split: option.splits)

lemma write_back_simps [simp]:
  "hl_pending (write_back env req m) = hl_pending m" "hl_approvals (write_back env req m) = hl_approvals m"
  "hl_bus (write_back env req m) = hl_bus m" "hl_timers (write_back env req m) = hl_timers m"
  by (auto simp: write_back_def split: sum.splits)

lemma push_resolved_simps [simp]:
  "hl_pending (push_resolved env lk now i out who own p ses m) = hl_pending m"
  "hl_approvals (push_resolved env lk now i out who own p ses m) = hl_approvals m"
  by (simp_all add: push_resolved_def)

lemma hil_parts_approvals [simp]:
  "hl_approvals (resolve_remove i m) = hl_approvals m"
  "hl_approvals (timeout_notify env lk now i p os m) = hl_approvals m"
  "resolve_lookup env i d m = (x, m') \<Longrightarrow> hl_approvals m' = hl_approvals m"
  "timeout_take env i m = Some (os, m'') \<Longrightarrow> hl_approvals m'' = hl_approvals m"
  by (auto simp: resolve_remove_def timeout_notify_def resolve_lookup_def timeout_take_def Let_def split: option.splits)

lemma hil_open_approvals:
  "hil_open env lk now req m = (res, m') \<Longrightarrow> hm_get (hl_approvals m) t = Some used \<Longrightarrow> hm_get (hl_approvals m') t = Some used"
  by (auto simp: hil_open_def approval_register_def split: sum.splits option.splits if_splits)

text \<open>The calls that got past their token.\<close>

definition rv_passed :: "resolver_pc \<Rightarrow> bool" where
  "rv_passed pc = (case pc of RvStart \<Rightarrow> False | RvRefused _ \<Rightarrow> False | _ \<Rightarrow> True)"

definition approvals_of :: "string \<Rightarrow> resolver list \<Rightarrow> nat" where
  "approvals_of t rs = length (filter (\<lambda>r. rv_token r = t \<and> rv_passed (rv_pc r)) rs)"

definition hil_inv :: "hil_sys \<Rightarrow> bool" where
  "hil_inv s \<longleftrightarrow> (\<forall>t. approvals_of t (hy_resolvers s) = 0 \<or>
     (approvals_of t (hy_resolvers s) = 1 \<and> hm_get (hl_approvals (hy_mgr s)) t = Some True))"

lemma approvals_of_update:
  assumes "i < length rs"
  shows "approvals_of t (rs[i := (rs ! i)\<lparr>rv_pc := pc\<rparr>]) + (if rv_token (rs ! i) = t \<and> rv_passed (rv_pc (rs ! i)) then 1 else 0) =
    approvals_of t rs + (if rv_token (rs ! i) = t \<and> rv_passed pc then 1 else 0)"
  unfolding approvals_of_def
  using length_filter_update [OF assms, of "\<lambda>r. rv_token r = t \<and> rv_passed (rv_pc r)" "(rs ! i)\<lparr>rv_pc := pc\<rparr>"] by simp

lemma approvals_of_same:
  assumes "i < length rs" "rv_passed pc = rv_passed (rv_pc (rs ! i))"
  shows "approvals_of t (rs[i := (rs ! i)\<lparr>rv_pc := pc\<rparr>]) = approvals_of t rs"
  using approvals_of_update [OF assms(1), of t pc] assms(2) by (auto split: if_splits)

lemma hil_inv_keep:
  assumes "hil_inv s" "\<And>t. approvals_of t (hy_resolvers s') = approvals_of t (hy_resolvers s)"
    and "\<And>t. hm_get (hl_approvals (hy_mgr s)) t = Some True \<Longrightarrow> hm_get (hl_approvals (hy_mgr s')) t = Some True"
  shows "hil_inv s'"
  unfolding hil_inv_def
proof
  fix t
  show "approvals_of t (hy_resolvers s') = 0 \<or> (approvals_of t (hy_resolvers s') = 1 \<and> hm_get (hl_approvals (hy_mgr s')) t = Some True)"
    using spec [OF assms(1) [unfolded hil_inv_def], of t] assms(2) [of t] assms(3) [of t] by auto
qed

interpretation hilm: step_invariant hil_init "hil_step env" hil_inv
proof unfold_locales
  fix s assume "hil_init s"
  then have "approvals_of t (hy_resolvers s) = 0" for t
    by (auto simp: hil_init_def approvals_of_def rv_passed_def filter_empty_conv)
  then show "hil_inv s" by (simp add: hil_inv_def)
next
  fix s s' assume "hil_step env s s'" "hil_inv s"
  then show "hil_inv s'"
  proof (induction rule: hil_step.induct)
    case (hs_open lk now req s res m)
    show ?case by (rule hil_inv_keep [OF hs_open.prems]) (simp_all add: hil_open_approvals [OF hs_open.hyps])
  next
    case (hs_consume i s st)
    let ?t = "rv_token (hy_resolvers s ! i)"
    have st: "hm_get (hl_approvals (hy_mgr s)) ?t = Some False" "st = hm_insert ?t True (hl_approvals (hy_mgr s))"
      using hs_consume.hyps by (auto simp: approval_consume_Inr)
    then have "approvals_of ?t (hy_resolvers s) = 0" using hs_consume.prems by (auto simp: hil_inv_def)
    moreover have "approvals_of t ((hy_resolvers s)[i := (hy_resolvers s ! i)\<lparr>rv_pc := RvConsumed\<rparr>]) =
        approvals_of t (hy_resolvers s) + (if ?t = t then 1 else 0)" for t
      using approvals_of_update [OF hs_consume.hyps(1), of t RvConsumed] hs_consume.hyps(2) by (simp add: rv_passed_def)
    ultimately show ?case using hs_consume.prems st by (auto simp: hil_inv_def)
  qed (erule hil_inv_keep; simp add: approvals_of_same rv_passed_def)+
qed

text \<open>
  C11. Approval tokens are single-use under every interleaving: whatever requests are opened, however
  many calls of \<open>resolve\<close> run and time-outs fire, in any order of their steps, at most one call
  ever gets past a given token, and from then on the token is marked used.
\<close>

theorem hil_single_approval:
  assumes "reach hil_init (hil_step env) s"
  shows "approvals_of t (hy_resolvers s) \<le> 1 \<and>
    (approvals_of t (hy_resolvers s) = 1 \<longrightarrow> approval_consume t (hl_approvals (hy_mgr s)) = Inl (CapabilityDenied ''EUSED: token already used''))"
proof -
  have "hil_inv s" by (rule hilm.reach_inv [OF assms])
  then have "approvals_of t (hy_resolvers s) = 0 \<or>
     (approvals_of t (hy_resolvers s) = 1 \<and> hm_get (hl_approvals (hy_mgr s)) t = Some True)" unfolding hil_inv_def by blast
  then show ?thesis by (auto simp: approval_consume_def)
qed

text \<open>The outcomes published for a request.\<close>

definition hil_outcomes :: "string \<Rightarrow> bus_event list \<Rightarrow> json list" where
  "hil_outcomes i evs = map (\<lambda>e. json_index (ev_body (be_event e)) ''outcome'')
     (filter (\<lambda>e. ev_event (be_event e) = HilResolvedEv \<and> json_index (ev_body (be_event e)) ''hil_id'' = JStr i) evs)"

lemma publish_sent:
  "bus_sent (publish lk ev own role b) = bus_sent b @
     [\<lparr> be_seq = bus_seq b, be_event = ev\<lparr>ev_seq := bus_seq b\<rparr>, be_owner_session = own, be_min_role = role \<rparr>]"
  by (simp add: publish_def Let_def)

lemma push_resolved_outcomes [simp]:
  "hil_outcomes i (bus_sent (hl_bus (push_resolved env lk now j out who own p ses m))) =
     hil_outcomes i (bus_sent (hl_bus m)) @ (if j = i then [JStr out] else [])"
  by (simp add: push_resolved_def publish_sent hil_outcomes_def atp_event_new_def json_index_def)

lemma hil_open_outcomes:
  "hil_open env lk now req m = (res, m') \<Longrightarrow> hil_outcomes i (bus_sent (hl_bus m')) = hil_outcomes i (bus_sent (hl_bus m))"
  by (auto simp: hil_open_def publish_sent hil_outcomes_def atp_event_new_def split: sum.splits)

text \<open>
  What an undisturbed \<open>resolve\<close> does, on every branch: it succeeds exactly when the approval
  token presented is registered and unused, and then uses it up, takes the named request off the
  table and publishes the decision for it; otherwise nothing changes.  The token is not
  compared with the request's own: any unused token decides any request, and one that is not
  open as well.
\<close>

theorem hil_resolve_spec:
  assumes "hil_resolve env lk now i tok dec who m = (res, m')"
  shows "(res = Inr () \<longleftrightarrow> hm_get (hl_approvals m) tok = Some False) \<and>
    (if res = Inr () then
       (\<forall>t. hm_get (hl_approvals m') t = (if t = tok then Some True else hm_get (hl_approvals m) t)) \<and>
       (\<forall>j. hm_get (hl_pending m') j = (if j = i then None else hm_get (hl_pending m) j)) \<and>
       hil_outcomes i (bus_sent (hl_bus m')) = hil_outcomes i (bus_sent (hl_bus m)) @ [JStr dec]
     else m' = m)"
proof (cases "approval_consume tok (hl_approvals m)")
  case (Inl e)
  then have "hm_get (hl_approvals m) tok \<noteq> Some False" by (auto simp: approval_consume_def split: option.splits if_splits)
  then show ?thesis using assms Inl by (auto simp: hil_resolve_def)
next
  case (Inr st)
  have st: "hm_get (hl_approvals m) tok = Some False" "st = hm_insert tok True (hl_approvals m)"
    using Inr by (auto simp: approval_consume_Inr)
  obtain own p ses m1 where l: "resolve_lookup env i dec (m\<lparr>hl_approvals := st\<rparr>) = ((own, p, ses), m1)"
    by (metis prod_cases3 surj_pair)
  have m1: "hl_pending m1 = hl_pending m" "hl_bus m1 = hl_bus m"
    using l by (auto simp: resolve_lookup_def Let_def split: option.splits)
  have m': "res = Inr ()" "m' = push_resolved env lk now i dec who own p ses (resolve_remove i m1)"
    using assms Inr l by (auto simp: hil_resolve_def)
  have a: "hl_approvals m1 = st" using hil_parts_approvals(3) [OF l] by simp
  have b: "hil_outcomes i (bus_sent (hl_bus m')) = hil_outcomes i (bus_sent (hl_bus m)) @ [JStr dec]"
    unfolding m'(2) by (simp add: resolve_remove_def m1)
  show ?thesis using m'(1) st a b by (simp add: m'(2) m1(1)) (simp add: resolve_remove_def m1)
qed

text \<open>
  Who sees a request for approval: the event carries the agent's name where the bus expects
  the owning session, so a user session subscribed to it receives it exactly when its session
  identifier happens to be the agent's name; the session the request was made for, recorded in the
  request, does not get it unless its role is operator or higher.
\<close>

theorem hil_request_visibility:
  assumes "hil_open env lk now req m = (Inr (), m')"
  shows "\<exists>be. bus_sent (hl_bus m') = bus_sent (hl_bus m) @ [be] \<and> ev_event (be_event be) = HilRequestEv \<and>
    (should_receive f be \<longleftrightarrow> User \<le> ef_role f \<and> (ef_session_id f = hr_agent_name req \<or> Operator \<le> ef_role f) \<and>
       (''*'' \<in> set (ef_subscribed f) \<or> ''hil.request'' \<in> set (ef_subscribed f)))"
proof -
  have "hl_bus m' = publish lk (atp_event_new now HilRequestEv (hr_agent_name req) (hil_request_body now req))
                              (Some (hr_agent_name req)) User (hl_bus m)"
    using assms by (auto simp: hil_open_def split: sum.splits)
  then show ?thesis by (auto simp: publish_sent should_receive_iff atp_event_new_def)
qed

section \<open>Concrete runs\<close>

definition demo_hil_env :: hil_env where
  "demo_hil_env = \<lparr> he_yaml = (\<lambda>_. Inr ''y''), he_rfc3339 = (\<lambda>_. ''t'') \<rparr>"

definition demo_hil_req :: hil_request where
  "demo_hil_req = \<lparr> hr_api_version = ''avix/v1'', hr_kind = ''HilRequest'', hr_hil_id = ''h'', hr_pid = Pid 7,
     hr_agent_name = ''researcher'', hr_hil_type = ToolCallApproval, hr_tool = Some ''fs/write'', hr_args = None,
     hr_reason = None, hr_context = None, hr_options = None, hr_urgency = HuNormal, hr_approval_token = ''tok'',
     hr_created_at = 0, hr_expires_at = 600000000000, hr_state = HilPending, hr_atp_session_id = ''sess-1'' \<rparr>"

definition demo_resolver :: "resolver_pc \<Rightarrow> resolver" where
  "demo_resolver pc = \<lparr> rv_hil_id = ''h'', rv_token = ''tok'', rv_decision = ''approved'', rv_by = ''alice'', rv_pc = pc \<rparr>"

definition demo_hil_mgr :: hil_manager where
  "demo_hil_mgr = hil_manager_new [] bus_new [] sb_new 600"

definition demo_hil_opened :: hil_manager where
  "demo_hil_opened = snd (hil_open demo_hil_env True 0 demo_hil_req demo_hil_mgr)"

lemma demo_hil_req_simps [simp]:
  "hr_hil_id demo_hil_req = ''h''" "hr_pid demo_hil_req = Pid 7" "hr_approval_token demo_hil_req = ''tok''"
  "hr_agent_name demo_hil_req = ''researcher''"
  by (simp_all add: demo_hil_req_def)

lemma demo_hil_path: "vfs_path_parse (hil_vfs_path demo_hil_req) = Inr (VfsPath ''/proc/7/hil-queue/h.yaml'')"
proof -
  have "pid_display (Pid 7) = ''7''" by code_simp
  then show ?thesis by (simp add: vfs_path_parse_Inr hil_vfs_path_def)
qed

lemma demo_hil_open: "hil_open demo_hil_env True 0 demo_hil_req demo_hil_mgr = (Inr (), demo_hil_opened)"
  by (simp add: demo_hil_opened_def hil_open_def demo_hil_path demo_hil_env_def)

lemma demo_hil_opened:
  "hm_get (hl_pending demo_hil_opened) ''h'' = Some demo_hil_req" "hm_get (hl_approvals demo_hil_opened) ''tok'' = Some False"
  "hl_timers demo_hil_opened = [(''h'', Pid 7)]" "hil_outcomes i (bus_sent (hl_bus demo_hil_opened)) = []"
  by (simp_all add: demo_hil_opened_def hil_open_def demo_hil_path demo_hil_env_def demo_hil_mgr_def
      hil_manager_new_def approval_register_def publish_sent hil_outcomes_def atp_event_new_def bus_new_def)

lemma timeout_notify_outcomes [simp]:
  "hil_outcomes i (bus_sent (hl_bus (timeout_notify env lk now j p os m))) =
     hil_outcomes i (bus_sent (hl_bus m)) @ (if j = i then [JStr ''timeout''] else [])"
  by (simp add: timeout_notify_def)

lemma resolve_remove_bus [simp]: "hl_bus (resolve_remove i m) = hl_bus m"
  by (simp add: resolve_remove_def)

text \<open>
  A time-out can overtake a decision: there is an interleaving in which a call of \<open>resolve\<close>
  has used its token and looked its request up, the timer then still finds the request on the
  table, tells the agent to resume with \<open>timeout\<close> and publishes that outcome, and the
  call goes on to publish \<open>approved\<close> for the same request.  One request ends with two
  contradicting outcomes.
\<close>

theorem hil_two_outcomes:
  "\<exists>s. reach hil_init (hil_step demo_hil_env) s \<and>
     hil_outcomes ''h'' (bus_sent (hl_bus (hy_mgr s))) = [JStr ''timeout'', JStr ''approved''] \<and>
     map rv_pc (hy_resolvers s) = [RvDone]"
proof -
  let ?R = "reach hil_init (hil_step demo_hil_env)"
  define st where "st m pc ts = \<lparr> hy_mgr = m, hy_resolvers = [demo_resolver pc], hy_timers = ts \<rparr>" for m pc ts
  define m1 where "m1 = demo_hil_opened\<lparr>hl_approvals := hm_insert ''tok'' True (hl_approvals demo_hil_opened)\<rparr>"
  obtain a p b m2 where look: "resolve_lookup demo_hil_env ''h'' ''approved'' m1 = ((a, p, b), m2)" by (metis prod_cases3 surj_pair)
  have m2: "hm_get (hl_pending m2) ''h'' = Some demo_hil_req" "hl_timers m2 = [(''h'', Pid 7)]" "hl_bus m2 = hl_bus demo_hil_opened"
    using look demo_hil_opened by (auto simp: m1_def resolve_lookup_def Let_def)
  obtain os m3 where take: "timeout_take demo_hil_env ''h'' m2 = Some (os, m3)" using m2(1) by (auto simp: timeout_take_def)
  have m3: "hl_bus m3 = hl_bus demo_hil_opened" using take m2(3) by (auto simp: timeout_take_def split: option.splits)
  define m4 where "m4 = timeout_notify demo_hil_env True 1 ''h'' (Pid 7) os m3"
  define m5 where "m5 = push_resolved demo_hil_env True 2 ''h'' ''approved'' ''alice'' a p b (resolve_remove ''h'' m4)"
  have 0: "?R (st demo_hil_mgr RvStart [])"
    by (rule reach_init) (simp add: st_def hil_init_def demo_hil_mgr_def hil_manager_new_def demo_resolver_def)
  have 1: "?R (st demo_hil_opened RvStart [])"
    using reach_step [OF 0 hs_open [where s = "st demo_hil_mgr RvStart []", of _ True 0 demo_hil_req]] demo_hil_open by (simp add: st_def)
  have 2: "?R (st m1 RvConsumed [])"
    using reach_step [OF 1 hs_consume [of 0 "st demo_hil_opened RvStart []"]] demo_hil_opened(2)
    by (simp add: st_def demo_resolver_def approval_consume_Inr m1_def)
  have 3: "?R (st m2 (RvLooked a p b) [])"
    using reach_step [OF 2 hs_look [of 0 "st m1 RvConsumed []"]] look by (simp add: st_def demo_resolver_def)
  have 4: "?R (st m3 (RvLooked a p b) [TmTaken ''h'' (Pid 7) os])"
  proof -
    have "hil_step demo_hil_env (st m2 (RvLooked a p b) [])
        ((st m2 (RvLooked a p b) [])\<lparr>hy_mgr := m3, hy_timers := hy_timers (st m2 (RvLooked a p b) []) @ [TmTaken ''h'' (Pid 7) os]\<rparr>)"
      by (rule hs_fire) (simp_all add: st_def take m2)
    then show ?thesis using reach_step [OF 3] by (simp add: st_def)
  qed
  have 5: "?R (st m4 (RvLooked a p b) [TmDone])"
  proof -
    let ?s = "st m3 (RvLooked a p b) [TmTaken ''h'' (Pid 7) os]"
    have "hil_step demo_hil_env ?s
        (?s\<lparr>hy_mgr := timeout_notify demo_hil_env True 1 ''h'' (Pid 7) os (hy_mgr ?s), hy_timers := (hy_timers ?s)[0 := TmDone]\<rparr>)"
      by (rule hs_notify) (simp_all add: st_def)
    then show ?thesis using reach_step [OF 4] by (simp add: st_def m4_def)
  qed
  have 6: "?R (st (resolve_remove ''h'' m4) (RvRemoved a p b) [TmDone])"
    using reach_step [OF 5 hs_remove [of 0 "st m4 (RvLooked a p b) [TmDone]"]] by (simp add: st_def demo_resolver_def)
  have 7: "?R (st m5 RvDone [TmDone])"
  proof -
    let ?s = "st (resolve_remove ''h'' m4) (RvRemoved a p b) [TmDone]"
    have "hil_step demo_hil_env ?s
        (?s\<lparr>hy_mgr := push_resolved demo_hil_env True 2 (rv_hil_id (hy_resolvers ?s ! 0)) (rv_decision (hy_resolvers ?s ! 0))
               (rv_by (hy_resolvers ?s ! 0)) a p b (hy_mgr ?s),
             hy_resolvers := (hy_resolvers ?s)[0 := (hy_resolvers ?s ! 0)\<lparr>rv_pc := RvDone\<rparr>]\<rparr>)"
      by (rule hs_publish) (simp_all add: st_def demo_resolver_def)
    then show ?thesis using reach_step [OF 6] by (simp add: st_def demo_resolver_def m5_def)
  qed
  have "hil_outcomes ''h'' (bus_sent (hl_bus m5)) = [JStr ''timeout'', JStr ''approved'']"
    by (simp add: m5_def m4_def m3 demo_hil_opened)
  then show ?thesis using 7 by (intro exI [of _ "st m5 RvDone [TmDone]"]) (simp add: st_def demo_resolver_def)
qed

theorem hil_single_approval_witness:
  "approvals_of ''tok'' [demo_resolver RvConsumed, demo_resolver RvStart] \<le> 1 \<and>
   approval_consume ''tok'' (hm_insert ''tok'' True (hl_approvals demo_hil_opened)) = Inl (CapabilityDenied ''EUSED: token already used'')"
proof -
  define s where "s = \<lparr> hy_mgr = demo_hil_mgr, hy_resolvers = [demo_resolver RvStart, demo_resolver RvStart], hy_timers = [] \<rparr>"
  define s1 where "s1 = s\<lparr>hy_mgr := demo_hil_opened\<rparr>"
  define s2 where "s2 = s1\<lparr>hy_mgr := demo_hil_opened\<lparr>hl_approvals := hm_insert ''tok'' True (hl_approvals demo_hil_opened)\<rparr>,
      hy_resolvers := [demo_resolver RvConsumed, demo_resolver RvStart]\<rparr>"
  have 0: "reach hil_init (hil_step demo_hil_env) s"
    by (rule reach_init) (simp add: s_def hil_init_def demo_hil_mgr_def hil_manager_new_def demo_resolver_def)
  have 1: "reach hil_init (hil_step demo_hil_env) s1"
    using reach_step [OF 0 hs_open [where s = s, of _ True 0 demo_hil_req]] demo_hil_open by (simp add: s_def s1_def)
  have 2: "reach hil_init (hil_step demo_hil_env) s2"
    using reach_step [OF 1 hs_consume [of 0 s1]] demo_hil_opened(2)
    by (simp add: s_def s1_def s2_def demo_resolver_def approval_consume_Inr)
  have "approvals_of ''tok'' (hy_resolvers s2) = 1"
    by (simp add: s2_def approvals_of_def demo_resolver_def rv_passed_def)
  then have "approval_consume ''tok'' (hl_approvals (hy_mgr s2)) = Inl (CapabilityDenied ''EUSED: token already used'')"
    "approvals_of ''tok'' (hy_resolvers s2) \<le> 1" using hil_single_approval [OF 2, of "''tok''"] by auto
  then show ?thesis by (simp add: s2_def)
qed

theorem hil_resolve_spec_witness:
  "fst (hil_resolve demo_hil_env True 1 ''other'' ''tok'' ''approved'' ''alice'' demo_hil_opened) = Inr () \<and>
   hil_outcomes ''other'' (bus_sent (hl_bus (snd (hil_resolve demo_hil_env True 1 ''other'' ''tok'' ''approved'' ''alice'' demo_hil_opened)))) =
     [JStr ''approved'']"
  using hil_resolve_spec [of demo_hil_env True 1 "''other''" "''tok''" "''approved''" "''alice''" demo_hil_opened, OF surjective_pairing]
    demo_hil_opened by simp

theorem hil_request_visibility_witness:
  "\<exists>be. bus_sent (hl_bus demo_hil_opened) = bus_sent bus_new @ [be] \<and>
     \<not> should_receive \<lparr> ef_session_id = ''sess-1'', ef_role = User, ef_subscribed = [''*''] \<rparr> be"
  using hil_request_visibility [OF demo_hil_open, of "\<lparr> ef_session_id = ''sess-1'', ef_role = User, ef_subscribed = [''*''] \<rparr>"]
  by (auto simp: demo_hil_mgr_def hil_manager_new_def demo_hil_req_def)

end
