(* ===== verification/Records.thy ===== *)
theory Records
  imports Memfs "HOL-Library.Countable"
begin

text \<open>
  The persistent records of the kernel: sessions (\<^verbatim>\<open>session/record.rs\<close>,
  \<^verbatim>\<open>session/persistence.rs\<close>), session entries (\<^verbatim>\<open>session/entry.rs\<close>),
  invocations and their conversations (\<^verbatim>\<open>invocation/record.rs\<close>,
  \<^verbatim>\<open>invocation/conversation.rs\<close>, \<^verbatim>\<open>invocation/store.rs\<close>), message history
  (\<^verbatim>\<open>history/record.rs\<close>, \<^verbatim>\<open>history/store.rs\<close>) and the managers of
  \<^verbatim>\<open>kernel/proc\<close> that wrap the stores.

  The stores keep JSON text in tables of the redb database.  The database and the serde codecs
  are parameters (\<open>redb\<close>, \<open>codec\<close>): each redb operation below is a whole transaction
  of the code (begin, open table, access, commit), which either fails or takes effect, and a
  failed one leaves the database as it was.  Their documented behaviour is stated by
  \<open>redb_lawful\<close> and \<open>codec_lawful\<close>.
\<close>

section \<open>Tables of records\<close>

record 'd redb =
  rd_get :: "'d \<Rightarrow> string \<Rightarrow> string \<Rightarrow> string + string option"
  rd_insert :: "'d \<Rightarrow> string \<Rightarrow> string \<Rightarrow> string \<Rightarrow> string + 'd"
  rd_remove :: "'d \<Rightarrow> string \<Rightarrow> string \<Rightarrow> string + 'd"
  rd_iter :: "'d \<Rightarrow> string \<Rightarrow> string + string list"

record 'r codec =
  enc :: "'r \<Rightarrow> string + string"
  dec :: "string \<Rightarrow> string + 'r"

definition tbl_put ::
  "'d redb \<Rightarrow> 'r codec \<Rightarrow> string \<Rightarrow> string \<Rightarrow> 'r \<Rightarrow> 'd \<Rightarrow> unit avix_result \<times> 'd" where
  "tbl_put db c tbl k r d =
     (case enc c r of
        Inl e \<Rightarrow> (Inl (ConfigParse e), d)
      | Inr json \<Rightarrow>
          (case rd_insert db d tbl k json of
             Inl e \<Rightarrow> (Inl (ConfigParse e), d)
           | Inr d' \<Rightarrow> (Inr (), d')))"

definition tbl_get :: "'d redb \<Rightarrow> 'r codec \<Rightarrow> string \<Rightarrow> string \<Rightarrow> 'd \<Rightarrow> 'r option avix_result" where
  "tbl_get db c tbl k d =
     (case rd_get db d tbl k of
        Inl e \<Rightarrow> Inl (ConfigParse e)
      | Inr None \<Rightarrow> Inr None
      | Inr (Some json) \<Rightarrow>
          (case dec c json of Inl e \<Rightarrow> Inl (ConfigParse e) | Inr r \<Rightarrow> Inr (Some r)))"

definition tbl_remove :: "'d redb \<Rightarrow> string \<Rightarrow> string \<Rightarrow> 'd \<Rightarrow> unit avix_result \<times> 'd" where
  "tbl_remove db tbl k d =
     (case rd_remove db d tbl k of Inl e \<Rightarrow> (Inl (ConfigParse e), d) | Inr d' \<Rightarrow> (Inr (), d'))"

fun dec_all :: "'r codec \<Rightarrow> string list \<Rightarrow> 'r list avix_result" where
  "dec_all c [] = Inr []"
| "dec_all c (v # vs) =
     (case dec c v of
        Inl e \<Rightarrow> Inl (ConfigParse e)
      | Inr r \<Rightarrow> map_sum id (\<lambda>rs. r # rs) (dec_all c vs))"

definition tbl_all :: "'d redb \<Rightarrow> 'r codec \<Rightarrow> string \<Rightarrow> 'd \<Rightarrow> 'r list avix_result" where
  "tbl_all db c tbl d =
     (case rd_iter db d tbl of Inl e \<Rightarrow> Inl (ConfigParse e) | Inr vs \<Rightarrow> dec_all c vs)"

section \<open>Sessions\<close>

record pid_invocation_meta =
  pim_pid :: u64
  pim_invocation_id :: string
  pim_agent_name :: string
  pim_agent_version :: string
  pim_spawned_at :: datetime

datatype session_status = SessRunning | SessIdle | SessPaused | SessCompleted | SessFailed | SessArchived

instance session_status :: countable
  by countable_datatype

record session_record =
  sr_id :: string
  sr_parent_id :: "string option"
  sr_project_id :: "string option"
  sr_title :: string
  sr_goal :: string
  sr_username :: string
  sr_spawned_at :: datetime
  sr_last_updated :: datetime
  sr_status :: session_status
  sr_summary :: "string option"
  sr_tokens_total :: u64
  sr_origin_agent :: string
  sr_primary_agent :: string
  sr_participants :: "string list"
  sr_owner_pid :: u64
  sr_pids :: "u64 list"
  sr_invocation_pids :: "pid_invocation_meta list"

definition session_record_new ::
  "datetime \<Rightarrow> string \<Rightarrow> string \<Rightarrow> string \<Rightarrow> string \<Rightarrow> string \<Rightarrow> u64 \<Rightarrow> session_record" where
  "session_record_new now sid username origin_agent title goal owner_pid =
     \<lparr> sr_id = sid, sr_parent_id = None, sr_project_id = None, sr_title = title, sr_goal = goal,
       sr_username = username, sr_spawned_at = now, sr_last_updated = now, sr_status = SessRunning,
       sr_summary = None, sr_tokens_total = 0, sr_origin_agent = origin_agent,
       sr_primary_agent = origin_agent, sr_participants = [], sr_owner_pid = owner_pid,
       sr_pids = [owner_pid], sr_invocation_pids = [] \<rparr>"

definition sr_mark_idle :: "datetime \<Rightarrow> session_record \<Rightarrow> session_record" where
  "sr_mark_idle now s = s\<lparr> sr_status := SessIdle, sr_last_updated := now \<rparr>"

definition sr_mark_running :: "datetime \<Rightarrow> session_record \<Rightarrow> session_record" where
  "sr_mark_running now s = s\<lparr> sr_status := SessRunning, sr_last_updated := now \<rparr>"

definition sr_mark_completed :: "datetime \<Rightarrow> session_record \<Rightarrow> session_record" where
  "sr_mark_completed now s = s\<lparr> sr_status := SessCompleted, sr_last_updated := now \<rparr>"

definition sr_mark_failed :: "datetime \<Rightarrow> session_record \<Rightarrow> session_record" where
  "sr_mark_failed now s = s\<lparr> sr_status := SessFailed, sr_last_updated := now \<rparr>"

definition sr_mark_paused :: "datetime \<Rightarrow> session_record \<Rightarrow> session_record" where
  "sr_mark_paused now s = s\<lparr> sr_status := SessPaused, sr_last_updated := now \<rparr>"

definition add_invocation_pid :: "datetime \<Rightarrow> pid_invocation_meta \<Rightarrow> session_record \<Rightarrow> session_record" where
  "add_invocation_pid now m s =
     (if list_ex (\<lambda>x. pim_pid x = pim_pid m) (sr_invocation_pids s) then s
      else s\<lparr> sr_invocation_pids := sr_invocation_pids s @ [m] \<rparr>)\<lparr> sr_last_updated := now \<rparr>"

definition add_pid :: "datetime \<Rightarrow> u64 \<Rightarrow> session_record \<Rightarrow> session_record" where
  "add_pid now p s =
     (if List.member (sr_pids s) p then s else s\<lparr> sr_pids := sr_pids s @ [p] \<rparr>)\<lparr> sr_last_updated := now \<rparr>"

definition remove_pid :: "datetime \<Rightarrow> u64 \<Rightarrow> session_record \<Rightarrow> session_record" where
  "remove_pid now p s = s\<lparr> sr_pids := filter (\<lambda>q. q \<noteq> p) (sr_pids s), sr_last_updated := now \<rparr>"

definition add_participant :: "datetime \<Rightarrow> string \<Rightarrow> bool \<Rightarrow> session_record \<Rightarrow> session_record" where
  "add_participant now agent make_primary s =
     (let s1 = (if List.member (sr_participants s) agent then s
                else s\<lparr> sr_participants := sr_participants s @ [agent] \<rparr>);
          s2 = (if make_primary then s1\<lparr> sr_primary_agent := agent \<rparr> else s1)
      in s2\<lparr> sr_last_updated := now \<rparr>)"

definition set_primary :: "datetime \<Rightarrow> string \<Rightarrow> session_record \<Rightarrow> session_record" where
  "set_primary now agent s =
     (if List.member (sr_participants s) agent \<or> agent = sr_origin_agent s
      then s\<lparr> sr_primary_agent := agent, sr_last_updated := now \<rparr> else s)"

definition add_tokens :: "datetime \<Rightarrow> u64 \<Rightarrow> session_record \<Rightarrow> session_record" where
  "add_tokens now n s = s\<lparr> sr_tokens_total := sr_tokens_total s + n, sr_last_updated := now \<rparr>"

definition sessions_table :: string where
  "sessions_table = ''sessions''"

definition ss_create ::
  "'d redb \<Rightarrow> session_record codec \<Rightarrow> session_record \<Rightarrow> 'd \<Rightarrow> unit avix_result \<times> 'd" where
  "ss_create db c r d = tbl_put db c sessions_table (sr_id r) r d"

definition ss_get :: "'d redb \<Rightarrow> session_record codec \<Rightarrow> string \<Rightarrow> 'd \<Rightarrow> session_record option avix_result" where
  "ss_get db c sid d = tbl_get db c sessions_table sid d"

definition ss_update ::
  "'d redb \<Rightarrow> session_record codec \<Rightarrow> session_record \<Rightarrow> 'd \<Rightarrow> unit avix_result \<times> 'd" where
  "ss_update db c r d = tbl_put db c sessions_table (sr_id r) r d"

definition ss_delete :: "'d redb \<Rightarrow> string \<Rightarrow> 'd \<Rightarrow> unit avix_result \<times> 'd" where
  "ss_delete db sid d = tbl_remove db sessions_table sid d"

definition ss_list_all :: "'d redb \<Rightarrow> session_record codec \<Rightarrow> 'd \<Rightarrow> session_record list avix_result" where
  "ss_list_all db c d = tbl_all db c sessions_table d"

definition ss_list_for_user ::
  "'d redb \<Rightarrow> session_record codec \<Rightarrow> string \<Rightarrow> 'd \<Rightarrow> session_record list avix_result" where
  "ss_list_for_user db c username d =
     map_sum id (filter (\<lambda>r. sr_username r = username)) (tbl_all db c sessions_table d)"

section \<open>Invocations\<close>

datatype invocation_status = InvRunning | InvIdle | InvPaused | InvCompleted | InvFailed | InvKilled

instance invocation_status :: countable
  by countable_datatype

record invocation_record =
  ir_id :: string
  ir_agent_name :: string
  ir_agent_version :: string
  ir_username :: string
  ir_pid :: u64
  ir_goal :: string
  ir_session_id :: string
  ir_spawned_at :: datetime
  ir_ended_at :: "datetime option"
  ir_status :: invocation_status
  ir_tokens_consumed :: u64
  ir_tool_calls_total :: u32
  ir_exit_reason :: "string option"

definition invocation_record_new ::
  "datetime \<Rightarrow> string \<Rightarrow> string \<Rightarrow> string \<Rightarrow> u64 \<Rightarrow> string \<Rightarrow> string \<Rightarrow> invocation_record" where
  "invocation_record_new now iid agent_name username p goal session_id =
     \<lparr> ir_id = iid, ir_agent_name = agent_name, ir_agent_version = [], ir_username = username,
       ir_pid = p, ir_goal = goal, ir_session_id = session_id, ir_spawned_at = now,
       ir_ended_at = None, ir_status = InvRunning, ir_tokens_consumed = 0,
       ir_tool_calls_total = 0, ir_exit_reason = None \<rparr>"

datatype conv_role = ConvUser | ConvAssistant | ConvTool | ConvSystem | ConvHilRequest | ConvHilResponse

record tool_call_entry =
  tce_id :: string
  tce_name :: string
  tce_args :: json
  tce_result :: "json option"

record file_diff_entry =
  fd_path :: string
  fd_diff :: "string option"
  fd_content :: "string option"

record conversation_entry =
  ce_role :: conv_role
  ce_content :: string
  ce_tool_calls :: "tool_call_entry list"
  ce_files_changed :: "file_diff_entry list"
  ce_thought :: "string option"

definition from_role_content :: "conv_role \<Rightarrow> string \<Rightarrow> conversation_entry" where
  "from_role_content role content =
     \<lparr> ce_role = role, ce_content = content, ce_tool_calls = [], ce_files_changed = [], ce_thought = None \<rparr>"

text \<open>
  The store: the database, and a disk provider for the conversation files when one is attached.
\<close>

record ('d, 'k) inv_env =
  ie_db :: "'d redb"
  ie_codec :: "invocation_record codec"
  ie_os :: "'k disk_ops"
  ie_conv :: "conversation_entry codec"

record ('d, 'k) inv_store =
  is_db :: 'd
  is_local :: "local_provider option"
  is_disk :: 'k

definition invocations_table :: string where
  "invocations_table = ''invocations''"

definition is_get ::
  "('d, 'k) inv_env \<Rightarrow> string \<Rightarrow> ('d, 'k) inv_store \<Rightarrow> invocation_record option avix_result" where
  "is_get env iid s = tbl_get (ie_db env) (ie_codec env) invocations_table iid (is_db s)"

definition is_put ::
  "('d, 'k) inv_env \<Rightarrow> string \<Rightarrow> invocation_record \<Rightarrow> ('d, 'k) inv_store \<Rightarrow>
   unit avix_result \<times> ('d, 'k) inv_store" where
  "is_put env iid r s =
     (let (res, d) = tbl_put (ie_db env) (ie_codec env) invocations_table iid r (is_db s)
      in (res, s\<lparr> is_db := d \<rparr>))"

definition is_create ::
  "('d, 'k) inv_env \<Rightarrow> invocation_record \<Rightarrow> ('d, 'k) inv_store \<Rightarrow> unit avix_result \<times> ('d, 'k) inv_store" where
  "is_create env r s = is_put env (ir_id r) r s"

text \<open>The read-modify-write the update operations share; an unknown id succeeds silently.\<close>

definition is_modify ::
  "('d, 'k) inv_env \<Rightarrow> string \<Rightarrow> (invocation_record \<Rightarrow> invocation_record) \<Rightarrow> ('d, 'k) inv_store \<Rightarrow>
   unit avix_result \<times> ('d, 'k) inv_store" where
  "is_modify env iid f s =
     (case is_get env iid s of
        Inl e \<Rightarrow> (Inl e, s)
      | Inr None \<Rightarrow> (Inr (), s)
      | Inr (Some r) \<Rightarrow> is_put env iid (f r) s)"

definition is_finalize ::
  "('d, 'k) inv_env \<Rightarrow> string \<Rightarrow> invocation_status \<Rightarrow> datetime \<Rightarrow> u64 \<Rightarrow> u32 \<Rightarrow> string option \<Rightarrow>
   ('d, 'k) inv_store \<Rightarrow> unit avix_result \<times> ('d, 'k) inv_store" where
  "is_finalize env iid status ended_at tokens tool_calls exit_reason s =
     is_modify env iid
       (\<lambda>r. r\<lparr> ir_status := status, ir_ended_at := Some ended_at, ir_tokens_consumed := tokens,
               ir_tool_calls_total := tool_calls, ir_exit_reason := exit_reason \<rparr>) s"

definition is_update_status ::
  "('d, 'k) inv_env \<Rightarrow> string \<Rightarrow> invocation_status \<Rightarrow> ('d, 'k) inv_store \<Rightarrow>
   unit avix_result \<times> ('d, 'k) inv_store" where
  "is_update_status env iid status s = is_modify env iid (\<lambda>r. r\<lparr> ir_status := status \<rparr>) s"

definition is_update_goal ::
  "('d, 'k) inv_env \<Rightarrow> string \<Rightarrow> string \<Rightarrow> ('d, 'k) inv_store \<Rightarrow> unit avix_result \<times> ('d, 'k) inv_store" where
  "is_update_goal env iid goal s = is_modify env iid (\<lambda>r. r\<lparr> ir_goal := goal \<rparr>) s"

fun jsonl_lines :: "conversation_entry codec \<Rightarrow> conversation_entry list \<Rightarrow> string avix_result" where
  "jsonl_lines c [] = Inr []"
| "jsonl_lines c (e # es) =
     (case enc c e of
        Inl m \<Rightarrow> Inl (ConfigParse m)
      | Inr line \<Rightarrow> map_sum id (\<lambda>rest. line @ [CHR 0x0A] @ rest) (jsonl_lines c es))"

definition conversation_path :: "string \<Rightarrow> string \<Rightarrow> u64 \<Rightarrow> string" where
  "conversation_path username session_id p =
     username @ ''/.sessions/'' @ session_id @ ''/'' @ show_word p @ ''.jsonl''"

definition write_conversation_structured ::
  "('d, 'k) inv_env \<Rightarrow> u64 \<Rightarrow> string \<Rightarrow> string \<Rightarrow> conversation_entry list \<Rightarrow> ('d, 'k) inv_store \<Rightarrow>
   unit avix_result \<times> ('d, 'k) inv_store" where
  "write_conversation_structured env p session_id username entries s =
     (case is_local s of
        None \<Rightarrow> (Inr (), s)
      | Some provider \<Rightarrow>
          (case jsonl_lines (ie_conv env) entries of
             Inl e \<Rightarrow> (Inl e, s)
           | Inr text \<Rightarrow>
               (case lp_write (ie_os env) (is_disk s) provider (conversation_path username session_id p)
                       (bytes_of_string text) of
                  (Inl e, k) \<Rightarrow> (Inl (Io (error_display e)), s\<lparr> is_disk := k \<rparr>)
                | (Inr _, k) \<Rightarrow> (Inr (), s\<lparr> is_disk := k \<rparr>))))"

definition is_persist_interim ::
  "('d, 'k) inv_env \<Rightarrow> string \<Rightarrow> conversation_entry list \<Rightarrow> u64 \<Rightarrow> u32 \<Rightarrow> ('d, 'k) inv_store \<Rightarrow>
   unit avix_result \<times> ('d, 'k) inv_store" where
  "is_persist_interim env iid conversation tokens tool_calls s =
     (case is_get env iid s of
        Inl e \<Rightarrow> (Inl e, s)
      | Inr None \<Rightarrow> (Inr (), s)
      | Inr (Some r) \<Rightarrow>
          (case is_put env iid (r\<lparr> ir_tokens_consumed := tokens, ir_tool_calls_total := tool_calls \<rparr>) s of
             (Inl e, s1) \<Rightarrow> (Inl e, s1)
           | (Inr _, s1) \<Rightarrow>
               if conversation = [] then (Inr (), s1)
               else write_conversation_structured env (ir_pid r) (ir_session_id r) (ir_username r) conversation s1))"

text \<open>\<^verbatim>\<open>persist_interim_structured\<close> has the same body.\<close>

definition is_persist_interim_structured ::
  "('d, 'k) inv_env \<Rightarrow> string \<Rightarrow> conversation_entry list \<Rightarrow> u64 \<Rightarrow> u32 \<Rightarrow> ('d, 'k) inv_store \<Rightarrow>
   unit avix_result \<times> ('d, 'k) inv_store" where
  "is_persist_interim_structured env iid entries tokens tool_calls s =
     is_persist_interim env iid entries tokens tool_calls s"

definition is_list_all ::
  "('d, 'k) inv_env \<Rightarrow> ('d, 'k) inv_store \<Rightarrow> invocation_record list avix_result" where
  "is_list_all env s = tbl_all (ie_db env) (ie_codec env) invocations_table (is_db s)"

definition is_list_for_user ::
  "('d, 'k) inv_env \<Rightarrow> string \<Rightarrow> ('d, 'k) inv_store \<Rightarrow> invocation_record list avix_result" where
  "is_list_for_user env username s = map_sum id (filter (\<lambda>r. ir_username r = username)) (is_list_all env s)"

definition is_list_for_agent ::
  "('d, 'k) inv_env \<Rightarrow> string \<Rightarrow> string \<Rightarrow> ('d, 'k) inv_store \<Rightarrow> invocation_record list avix_result" where
  "is_list_for_agent env username agent s =
     map_sum id (filter (\<lambda>r. ir_username r = username \<and> ir_agent_name r = agent)) (is_list_all env s)"

definition is_list_for_session ::
  "('d, 'k) inv_env \<Rightarrow> string \<Rightarrow> ('d, 'k) inv_store \<Rightarrow> invocation_record list avix_result" where
  "is_list_for_session env session_id s =
     map_sum id (filter (\<lambda>r. ir_session_id r = session_id)) (is_list_all env s)"

text \<open>\<^verbatim>\<open>String::from_utf8\<close>: the well-formed byte sequences of UTF-8.\<close>

definition utf8_cont :: "u8 \<Rightarrow> bool" where
  "utf8_cont b \<longleftrightarrow> 0x80 \<le> b \<and> b \<le> 0xBF"

definition utf8_width :: "u8 \<Rightarrow> nat" where
  "utf8_width a =
     (if a < 0x80 then 1 else if 0xC2 \<le> a \<and> a \<le> 0xDF then 2 else if 0xE0 \<le> a \<and> a \<le> 0xEF then 3
      else if 0xF0 \<le> a \<and> a \<le> 0xF4 then 4 else 0)"

definition utf8_second :: "u8 \<Rightarrow> u8 \<Rightarrow> bool" where
  "utf8_second a b \<longleftrightarrow>
     (if a = 0xE0 then 0xA0 else if a = 0xF0 then 0x90 else 0x80) \<le> b
     \<and> b \<le> (if a = 0xED then 0x9F else if a = 0xF4 then 0x8F else 0xBF)"

fun utf8_head :: "bytes \<Rightarrow> nat" where
  "utf8_head [] = 0"
| "utf8_head (a # xs) =
     (let n = utf8_width a
      in if n = 0 then 0
         else if n = 1 then 1
         else if n \<le> length (a # xs) \<and> utf8_second a (hd xs) \<and> list_all utf8_cont (take (n - 2) (tl xs)) then n
         else 0)"

function utf8_valid :: "bytes \<Rightarrow> bool" where
  "utf8_valid bs =
     (if bs = [] then True
      else if utf8_head bs = 0 then False
      else utf8_valid (drop (utf8_head bs) bs))"
  by pat_completeness auto
termination
  by (relation "measure length") auto

declare utf8_valid.simps [simp del]

definition string_of_bytes :: "bytes \<Rightarrow> string" where
  "string_of_bytes bs = map (\<lambda>b. char_of (unat b)) bs"

text \<open>
  \<^verbatim>\<open>trim().is_empty()\<close>, for the ASCII white space: a line of other Unicode white space is
  no JSON value, so it is skipped as malformed instead of as blank.
\<close>

definition blank_line :: "string \<Rightarrow> bool" where
  "blank_line l = list_all (\<lambda>c. List.member [CHR 0x09, CHR 0x0A, CHR 0x0B, CHR 0x0C, CHR 0x0D, CHR 0x20] c) l"

definition read_conversation ::
  "('d, 'k) inv_env \<Rightarrow> string \<Rightarrow> u64 \<Rightarrow> string \<Rightarrow> ('d, 'k) inv_store \<Rightarrow> conversation_entry list avix_result" where
  "read_conversation env session_id p username s =
     (case is_local s of
        None \<Rightarrow> Inr []
      | Some provider \<Rightarrow>
          (case lp_read (ie_os env) (is_disk s) provider (conversation_path username session_id p) of
             Inl _ \<Rightarrow> Inr []
           | Inr bs \<Rightarrow>
               if \<not> utf8_valid bs then Inl (ConfigParse ''invalid utf-8 sequence'')
               else Inr (List.map_filter
                      (\<lambda>line. if blank_line line then None
                              else (case dec (ie_conv env) line of Inl _ \<Rightarrow> None | Inr e \<Rightarrow> Some e))
                      (str_lines (string_of_bytes bs)))))"

section \<open>Message history\<close>

datatype hist_role = HistUser | HistAssistant | HistTool | HistSystem

record message_record =
  mr_id :: string
  mr_session_id :: string
  mr_sequence :: u64
  mr_role :: hist_role
  mr_timestamp :: datetime
  mr_content :: string
  mr_tokens :: "u64 option"

datatype part_type = PtText | PtToolCall | PtFileDiff | PtCodeBlock | PtThought | PtImage | PtEmbedding | PtSummary

record part_record =
  pr_id :: string
  pr_message_id :: string
  pr_part_index :: u32
  pr_part_type :: part_type
  pr_data :: json

definition json_of_opt :: "('a \<Rightarrow> json) \<Rightarrow> 'a option \<Rightarrow> json" where
  "json_of_opt f x = (case x of None \<Rightarrow> JNull | Some v \<Rightarrow> f v)"

definition part_text :: "string \<Rightarrow> string \<Rightarrow> u32 \<Rightarrow> string \<Rightarrow> part_record" where
  "part_text uuid mid idx content =
     \<lparr> pr_id = uuid, pr_message_id = mid, pr_part_index = idx, pr_part_type = PtText,
       pr_data = JObj [(''content'', JStr content)] \<rparr>"

definition part_tool_call ::
  "string \<Rightarrow> string \<Rightarrow> u32 \<Rightarrow> string \<Rightarrow> string \<Rightarrow> json \<Rightarrow> json option \<Rightarrow> part_record" where
  "part_tool_call uuid mid idx call_id tool_name args res =
     \<lparr> pr_id = uuid, pr_message_id = mid, pr_part_index = idx, pr_part_type = PtToolCall,
       pr_data = JObj [(''call_id'', JStr call_id), (''tool_name'', JStr tool_name), (''args'', args),
                       (''result'', json_of_opt id res)] \<rparr>"

definition part_file_diff ::
  "string \<Rightarrow> string \<Rightarrow> u32 \<Rightarrow> string \<Rightarrow> string option \<Rightarrow> string option \<Rightarrow> part_record" where
  "part_file_diff uuid mid idx path diff content =
     \<lparr> pr_id = uuid, pr_message_id = mid, pr_part_index = idx, pr_part_type = PtFileDiff,
       pr_data = JObj [(''path'', JStr path), (''diff'', json_of_opt JStr diff), (''content'', json_of_opt JStr content)] \<rparr>"

definition part_thought :: "string \<Rightarrow> string \<Rightarrow> u32 \<Rightarrow> string \<Rightarrow> part_record" where
  "part_thought uuid mid idx reasoning =
     \<lparr> pr_id = uuid, pr_message_id = mid, pr_part_index = idx, pr_part_type = PtThought,
       pr_data = JObj [(''reasoning'', JStr reasoning)] \<rparr>"

record 'd hist_env =
  he_db :: "'d redb"
  he_msg :: "message_record codec"
  he_part :: "part_record codec"

definition messages_table :: string where
  "messages_table = ''messages''"

definition parts_table :: string where
  "parts_table = ''parts''"

definition hs_create_message :: "'d hist_env \<Rightarrow> message_record \<Rightarrow> 'd \<Rightarrow> unit avix_result \<times> 'd" where
  "hs_create_message env m d = tbl_put (he_db env) (he_msg env) messages_table (mr_id m) m d"

definition hs_get_message :: "'d hist_env \<Rightarrow> string \<Rightarrow> 'd \<Rightarrow> message_record option avix_result" where
  "hs_get_message env mid d = tbl_get (he_db env) (he_msg env) messages_table mid d"

definition hs_list_messages :: "'d hist_env \<Rightarrow> string \<Rightarrow> 'd \<Rightarrow> message_record list avix_result" where
  "hs_list_messages env sid d =
     map_sum id (\<lambda>ms. sort_key mr_sequence (filter (\<lambda>m. mr_session_id m = sid) ms))
       (tbl_all (he_db env) (he_msg env) messages_table d)"

definition hs_create_part :: "'d hist_env \<Rightarrow> part_record \<Rightarrow> 'd \<Rightarrow> unit avix_result \<times> 'd" where
  "hs_create_part env p d = tbl_put (he_db env) (he_part env) parts_table (pr_id p) p d"

definition hs_get_part :: "'d hist_env \<Rightarrow> string \<Rightarrow> 'd \<Rightarrow> part_record option avix_result" where
  "hs_get_part env i d = tbl_get (he_db env) (he_part env) parts_table i d"

definition hs_list_parts :: "'d hist_env \<Rightarrow> string \<Rightarrow> 'd \<Rightarrow> part_record list avix_result" where
  "hs_list_parts env mid d =
     map_sum id (\<lambda>ps. sort_key pr_part_index (filter (\<lambda>p. pr_message_id p = mid) ps))
       (tbl_all (he_db env) (he_part env) parts_table d)"

fun parts_of_messages ::
  "'d hist_env \<Rightarrow> part_type \<Rightarrow> 'd \<Rightarrow> message_record list \<Rightarrow> part_record list avix_result" where
  "parts_of_messages env ty d [] = Inr []"
| "parts_of_messages env ty d (m # ms) =
     (case hs_list_parts env (mr_id m) d of
        Inl e \<Rightarrow> Inl e
      | Inr ps \<Rightarrow> map_sum id (\<lambda>rest. filter (\<lambda>p. pr_part_type p = ty) ps @ rest) (parts_of_messages env ty d ms))"

definition get_session_parts_by_type ::
  "'d hist_env \<Rightarrow> string \<Rightarrow> part_type \<Rightarrow> 'd \<Rightarrow> part_record list avix_result" where
  "get_session_parts_by_type env sid ty d =
     (case hs_list_messages env sid d of Inl e \<Rightarrow> Inl e | Inr ms \<Rightarrow> parts_of_messages env ty d ms)"

definition get_session_tool_calls :: "'d hist_env \<Rightarrow> string \<Rightarrow> 'd \<Rightarrow> part_record list avix_result" where
  "get_session_tool_calls env sid d = get_session_parts_by_type env sid PtToolCall d"

definition get_session_file_diffs :: "'d hist_env \<Rightarrow> string \<Rightarrow> 'd \<Rightarrow> part_record list avix_result" where
  "get_session_file_diffs env sid d = get_session_parts_by_type env sid PtFileDiff d"

section \<open>Session entries\<close>

datatype agent_role = RolePrimary | RoleSubordinate

record agent_ref =
  ar_pid :: u64
  ar_name :: string
  ar_role :: agent_role

record quota_snapshot =
  qs_tokens_used :: u64
  qs_tokens_limit :: u64
  qs_agents_running :: u32
  qs_agents_limit :: u32

datatype sess_entry_state = SsActive | SsIdle | SsClosed

record session_entry_rec =
  sn_session_id :: string
  sn_username :: string
  sn_uid :: u32
  sn_shell :: string
  sn_tty :: bool
  sn_working_directory :: string
  sn_agents :: "agent_ref list"
  sn_quota :: quota_snapshot
  sn_state :: sess_entry_state
  sn_created_at :: datetime
  sn_last_activity_at :: datetime
  sn_closed_at :: "datetime option"
  sn_closed_reason :: "string option"
  sn_messages :: "json list"
  sn_agent_name :: string
  sn_goal :: string

definition session_entry_new ::
  "datetime \<Rightarrow> string \<Rightarrow> string \<Rightarrow> u32 \<Rightarrow> quota_snapshot \<Rightarrow> session_entry_rec" where
  "session_entry_new now sid username uid quota =
     \<lparr> sn_session_id = sid, sn_username = username, sn_uid = uid, sn_shell = ''/bin/sh'', sn_tty = True,
       sn_working_directory = ''/users/'' @ username @ ''/workspace'', sn_agents = [], sn_quota = quota,
       sn_state = SsActive, sn_created_at = now, sn_last_activity_at = now, sn_closed_at = None,
       sn_closed_reason = None, sn_messages = [], sn_agent_name = [], sn_goal = [] \<rparr>"

definition sn_add_agent :: "datetime \<Rightarrow> u64 \<Rightarrow> string \<Rightarrow> agent_role \<Rightarrow> session_entry_rec \<Rightarrow> session_entry_rec" where
  "sn_add_agent now p name role e =
     e\<lparr> sn_agents := sn_agents e @ [\<lparr> ar_pid = p, ar_name = name, ar_role = role \<rparr>],
        sn_last_activity_at := now \<rparr>"

definition sn_close :: "datetime \<Rightarrow> string \<Rightarrow> session_entry_rec \<Rightarrow> session_entry_rec" where
  "sn_close now reason e =
     e\<lparr> sn_state := SsClosed, sn_closed_at := Some now, sn_closed_reason := Some reason,
        sn_last_activity_at := now \<rparr>"

definition sn_mark_idle :: "datetime \<Rightarrow> session_entry_rec \<Rightarrow> session_entry_rec" where
  "sn_mark_idle now e = e\<lparr> sn_state := SsIdle, sn_last_activity_at := now \<rparr>"

definition sn_mark_active :: "datetime \<Rightarrow> session_entry_rec \<Rightarrow> session_entry_rec" where
  "sn_mark_active now e = e\<lparr> sn_state := SsActive, sn_last_activity_at := now \<rparr>"

record session_manifest_view =
  sv_api_version :: string
  sv_kind :: string
  sv_session_id :: string
  sv_created_at :: datetime
  sv_user :: string
  sv_uid :: u32
  sv_shell :: string
  sv_tty :: bool
  sv_working_directory :: string
  sv_agents :: "agent_ref list"
  sv_quota :: quota_snapshot
  sv_state :: sess_entry_state
  sv_last_activity_at :: datetime
  sv_closed_at :: "datetime option"
  sv_closed_reason :: "string option"

definition manifest_view :: "session_entry_rec \<Rightarrow> session_manifest_view" where
  "manifest_view e =
     \<lparr> sv_api_version = ''avix/v1'', sv_kind = ''SessionManifest'', sv_session_id = sn_session_id e,
       sv_created_at = sn_created_at e, sv_user = sn_username e, sv_uid = sn_uid e, sv_shell = sn_shell e,
       sv_tty = sn_tty e, sv_working_directory = sn_working_directory e, sv_agents = sn_agents e,
       sv_quota = sn_quota e, sv_state = sn_state e, sv_last_activity_at = sn_last_activity_at e,
       sv_closed_at = sn_closed_at e, sv_closed_reason = sn_closed_reason e \<rparr>"

record ('d, 'k) entry_env =
  ee_db :: "'d redb"
  ee_codec :: "session_entry_rec codec"
  ee_yaml :: "session_manifest_view \<Rightarrow> string + string"
  ee_os :: "'k disk_ops"

record ('d, 'k) entry_store =
  es_db :: 'd
  es_vfs :: "vfs_router option"
  es_disk :: 'k

definition session_manifest_path :: "string \<Rightarrow> string \<Rightarrow> string" where
  "session_manifest_path username sid = ''/proc/users/'' @ username @ ''/sessions/'' @ sid @ ''.yaml''"

definition write_vfs_manifest ::
  "('d, 'k) entry_env \<Rightarrow> session_entry_rec \<Rightarrow> ('d, 'k) entry_store \<Rightarrow> ('d, 'k) entry_store" where
  "write_vfs_manifest env e s =
     (case es_vfs s of
        None \<Rightarrow> s
      | Some vfs \<Rightarrow>
          if sn_username e = [] then s
          else (case ee_yaml env (manifest_view e) of
                  Inl _ \<Rightarrow> s
                | Inr yaml \<Rightarrow>
                    (case vfs_path_parse (session_manifest_path (sn_username e) (sn_session_id e)) of
                       Inl _ \<Rightarrow> s
                     | Inr path \<Rightarrow>
                         (let (_, vfs', k) = vfs_write (ee_os env) path (bytes_of_string yaml) vfs (es_disk s)
                          in s\<lparr> es_vfs := Some vfs', es_disk := k \<rparr>))))"

definition remove_vfs_manifest ::
  "('d, 'k) entry_env \<Rightarrow> string \<Rightarrow> string \<Rightarrow> ('d, 'k) entry_store \<Rightarrow> ('d, 'k) entry_store" where
  "remove_vfs_manifest env sid username s =
     (case es_vfs s of
        None \<Rightarrow> s
      | Some vfs \<Rightarrow>
          if username = [] then s
          else (case vfs_path_parse (session_manifest_path username sid) of
                  Inl _ \<Rightarrow> s
                | Inr path \<Rightarrow>
                    (let (_, vfs', k) = vfs_delete (ee_os env) path vfs (es_disk s)
                     in s\<lparr> es_vfs := Some vfs', es_disk := k \<rparr>)))"

definition es_save ::
  "('d, 'k) entry_env \<Rightarrow> session_entry_rec \<Rightarrow> ('d, 'k) entry_store \<Rightarrow> unit avix_result \<times> ('d, 'k) entry_store" where
  "es_save env e s =
     (case tbl_put (ee_db env) (ee_codec env) sessions_table (sn_session_id e) e (es_db s) of
        (Inl err, d) \<Rightarrow> (Inl err, s\<lparr> es_db := d \<rparr>)
      | (Inr _, d) \<Rightarrow> (Inr (), write_vfs_manifest env e (s\<lparr> es_db := d \<rparr>)))"

definition es_load ::
  "('d, 'k) entry_env \<Rightarrow> string \<Rightarrow> ('d, 'k) entry_store \<Rightarrow> session_entry_rec option avix_result" where
  "es_load env sid s = tbl_get (ee_db env) (ee_codec env) sessions_table sid (es_db s)"

definition es_delete ::
  "('d, 'k) entry_env \<Rightarrow> string \<Rightarrow> ('d, 'k) entry_store \<Rightarrow> unit avix_result \<times> ('d, 'k) entry_store" where
  "es_delete env sid s =
     (case es_load env sid s of
        Inl err \<Rightarrow> (Inl err, s)
      | Inr found \<Rightarrow>
          (let username = unwrap_or [] (map_option sn_username found)
           in (case tbl_remove (ee_db env) sessions_table sid (es_db s) of
                 (Inl err, d) \<Rightarrow> (Inl err, s\<lparr> es_db := d \<rparr>)
               | (Inr _, d) \<Rightarrow> (Inr (), remove_vfs_manifest env sid username (s\<lparr> es_db := d \<rparr>)))))"

definition es_list_all ::
  "('d, 'k) entry_env \<Rightarrow> ('d, 'k) entry_store \<Rightarrow> session_entry_rec list avix_result" where
  "es_list_all env s = tbl_all (ee_db env) (ee_codec env) sessions_table (es_db s)"

section \<open>The managers\<close>

text \<open>
  A manager holds a store or none; the state is the database's, and an operation with no store
  answers without touching it.
\<close>

definition sm_create_session ::
  "'d redb \<Rightarrow> session_record codec \<Rightarrow> datetime \<Rightarrow> string \<Rightarrow> string \<Rightarrow> string \<Rightarrow> string \<Rightarrow> string \<Rightarrow> u64 \<Rightarrow>
   'd option \<Rightarrow> session_record avix_result \<times> 'd option" where
  "sm_create_session db c now uuid username origin title goal owner store =
     (case store of
        None \<Rightarrow> (Inl (NotFound ''session store not configured''), None)
      | Some d \<Rightarrow>
          (let r = session_record_new now uuid username origin title goal owner
           in (case ss_create db c r d of
                 (Inl e, d') \<Rightarrow> (Inl e, Some d')
               | (Inr _, d') \<Rightarrow> (Inr r, Some d'))))"

definition sm_list_sessions ::
  "'d redb \<Rightarrow> session_record codec \<Rightarrow> string \<Rightarrow> 'd option \<Rightarrow> session_record list avix_result" where
  "sm_list_sessions db c username store =
     (case store of Some d \<Rightarrow> ss_list_for_user db c username d | None \<Rightarrow> Inr [])"

definition sm_get_session ::
  "'d redb \<Rightarrow> session_record codec \<Rightarrow> string \<Rightarrow> 'd option \<Rightarrow> session_record option avix_result" where
  "sm_get_session db c sid store = (case store of Some d \<Rightarrow> ss_get db c sid d | None \<Rightarrow> Inr None)"

definition sm_update_session ::
  "'d redb \<Rightarrow> session_record codec \<Rightarrow> session_record \<Rightarrow> 'd option \<Rightarrow> unit avix_result \<times> 'd option" where
  "sm_update_session db c r store =
     (case store of
        None \<Rightarrow> (Inl (NotFound ''session store not configured''), None)
      | Some d \<Rightarrow> (let (res, d') = ss_update db c r d in (res, Some d')))"

definition inv_live :: "invocation_status \<Rightarrow> bool" where
  "inv_live st \<longleftrightarrow> st = InvRunning \<or> st = InvIdle \<or> st = InvPaused"

definition im_list_invocations ::
  "('d, 'k) inv_env \<Rightarrow> string \<Rightarrow> string option \<Rightarrow> bool \<Rightarrow> ('d, 'k) inv_store option \<Rightarrow>
   invocation_record list avix_result" where
  "im_list_invocations env username agent live store =
     (case store of
        None \<Rightarrow> Inl (NotFound ''invocation store not configured'')
      | Some s \<Rightarrow>
          map_sum id (\<lambda>rs. if live then rs else filter (\<lambda>r. \<not> inv_live (ir_status r)) rs)
            (case agent of Some name \<Rightarrow> is_list_for_agent env username name s | None \<Rightarrow> is_list_for_user env username s))"

definition im_get_invocation ::
  "('d, 'k) inv_env \<Rightarrow> string \<Rightarrow> ('d, 'k) inv_store option \<Rightarrow> invocation_record option avix_result" where
  "im_get_invocation env iid store = (case store of Some s \<Rightarrow> is_get env iid s | None \<Rightarrow> Inr None)"

definition im_update_status ::
  "('d, 'k) inv_env \<Rightarrow> string \<Rightarrow> invocation_status \<Rightarrow> ('d, 'k) inv_store option \<Rightarrow>
   unit avix_result \<times> ('d, 'k) inv_store option" where
  "im_update_status env iid st store =
     (case store of
        None \<Rightarrow> (Inl (NotFound ''invocation store not configured''), None)
      | Some s \<Rightarrow> (let (res, s') = is_update_status env iid st s in (res, Some s')))"

definition im_snapshot_invocation ::
  "('d, 'k) inv_env \<Rightarrow> string \<Rightarrow> ('d, 'k) inv_store option \<Rightarrow>
   invocation_record avix_result \<times> ('d, 'k) inv_store option" where
  "im_snapshot_invocation env iid store =
     (case store of
        None \<Rightarrow> (Inl (NotFound ''invocation store not configured''), None)
      | Some s \<Rightarrow>
          (case is_get env iid s of
             Inl e \<Rightarrow> (Inl e, Some s)
           | Inr None \<Rightarrow> (Inl (NotFound (''invocation '' @ iid @ '' not found'')), Some s)
           | Inr (Some r) \<Rightarrow>
               if \<not> inv_live (ir_status r)
               then (Inl (InvalidInput ''cannot snapshot a finalized invocation''), Some s)
               else (case is_persist_interim env iid [] (ir_tokens_consumed r) (ir_tool_calls_total r) s of
                       (Inl e, s1) \<Rightarrow> (Inl e, Some s1)
                     | (Inr _, s1) \<Rightarrow>
                         ((case is_get env iid s1 of
                             Inl e \<Rightarrow> Inl e
                           | Inr None \<Rightarrow> Inl (NotFound (''invocation '' @ iid @ '' not found''))
                           | Inr (Some r1) \<Rightarrow> Inr r1), Some s1))))"

definition hm_create_message :: "'d hist_env \<Rightarrow> message_record \<Rightarrow> 'd option \<Rightarrow> unit avix_result \<times> 'd option" where
  "hm_create_message env m store =
     (case store of
        Some d \<Rightarrow> (let (res, d') = hs_create_message env m d in (res, Some d'))
      | None \<Rightarrow> (Inl (NotFound ''history store not configured''), None))"

definition hm_get_message :: "'d hist_env \<Rightarrow> string \<Rightarrow> 'd option \<Rightarrow> message_record option avix_result" where
  "hm_get_message env mid store = (case store of Some d \<Rightarrow> hs_get_message env mid d | None \<Rightarrow> Inr None)"

definition hm_list_messages :: "'d hist_env \<Rightarrow> string \<Rightarrow> 'd option \<Rightarrow> message_record list avix_result" where
  "hm_list_messages env sid store = (case store of Some d \<Rightarrow> hs_list_messages env sid d | None \<Rightarrow> Inr [])"

definition hm_create_part :: "'d hist_env \<Rightarrow> part_record \<Rightarrow> 'd option \<Rightarrow> unit avix_result \<times> 'd option" where
  "hm_create_part env p store =
     (case store of
        Some d \<Rightarrow> (let (res, d') = hs_create_part env p d in (res, Some d'))
      | None \<Rightarrow> (Inl (NotFound ''history store not configured''), None))"

definition hm_get_part :: "'d hist_env \<Rightarrow> string \<Rightarrow> 'd option \<Rightarrow> part_record option avix_result" where
  "hm_get_part env i store = (case store of Some d \<Rightarrow> hs_get_part env i d | None \<Rightarrow> Inr None)"

definition hm_list_parts :: "'d hist_env \<Rightarrow> string \<Rightarrow> 'd option \<Rightarrow> part_record list avix_result" where
  "hm_list_parts env mid store = (case store of Some d \<Rightarrow> hs_list_parts env mid d | None \<Rightarrow> Inr [])"

section \<open>The database and codec laws\<close>

text \<open>
  \<open>view\<close> reads a database as finite maps of its tables.  A read that succeeds returns what the
  view holds, a committed write changes the view at its key only, and iteration yields the values
  of the table.  A codec reads back what it wrote.
\<close>

definition redb_lawful :: "'d redb \<Rightarrow> ('d \<Rightarrow> string \<Rightarrow> string \<Rightarrow> string option) \<Rightarrow> bool" where
  "redb_lawful db view \<longleftrightarrow>
     (\<forall>d t k v. rd_get db d t k = Inr v \<longrightarrow> v = view d t k) \<and>
     (\<forall>d t k s d'. rd_insert db d t k s = Inr d' \<longrightarrow> view d' = (view d)(t := (view d t)(k := Some s))) \<and>
     (\<forall>d t k d'. rd_remove db d t k = Inr d' \<longrightarrow> view d' = (view d)(t := (view d t)(k := None))) \<and>
     (\<forall>d t vs. rd_iter db d t = Inr vs \<longrightarrow> set vs = ran (view d t))"

definition codec_lawful :: "'r codec \<Rightarrow> bool" where
  "codec_lawful c \<longleftrightarrow> (\<forall>r s. enc c r = Inr s \<longrightarrow> dec c s = Inr r)"

text \<open>Operations that never fail: no I/O error, no value without an encoding.\<close>

definition redb_reliable :: "'d redb \<Rightarrow> bool" where
  "redb_reliable db \<longleftrightarrow>
     (\<forall>d t k. \<exists>v. rd_get db d t k = Inr v) \<and> (\<forall>d t k s. \<exists>d'. rd_insert db d t k s = Inr d') \<and>
     (\<forall>d t k. \<exists>d'. rd_remove db d t k = Inr d') \<and> (\<forall>d t. \<exists>vs. rd_iter db d t = Inr vs)"

definition codec_total :: "'r codec \<Rightarrow> bool" where
  "codec_total c \<longleftrightarrow> (\<forall>r. \<exists>s. enc c r = Inr s)"

text \<open>The typed contents of a table: the values that decode.\<close>

definition typed :: "'r codec \<Rightarrow> (string \<Rightarrow> string option) \<Rightarrow> string \<Rightarrow> 'r option" where
  "typed c m k = (case m k of None \<Rightarrow> None | Some s \<Rightarrow> (case dec c s of Inl _ \<Rightarrow> None | Inr r \<Rightarrow> Some r))"

section \<open>Lemmas on tables\<close>

lemma redb_lawfulD:
  assumes "redb_lawful db view"
  shows "rd_get db d t k = Inr v \<Longrightarrow> view d t k = v"
    and "rd_insert db d t k s = Inr d' \<Longrightarrow> view d' = (view d)(t := (view d t)(k := Some s))"
    and "rd_remove db d t k = Inr d' \<Longrightarrow> view d' = (view d)(t := (view d t)(k := None))"
    and "rd_iter db d t = Inr vs \<Longrightarrow> set vs = ran (view d t)"
  using assms unfolding redb_lawful_def by (simp, blast, blast, blast)

lemma tbl_put_Ok:
  assumes "redb_lawful db view" and "codec_lawful c" and "tbl_put db c t k r d = (Inr (), d')"
  shows "typed c (view d' t) = (typed c (view d t))(k := Some r)"
    and "u \<noteq> t \<Longrightarrow> view d' u = view d u"
proof -
  from assms(3) obtain s where s: "enc c r = Inr s" and d': "rd_insert db d t k s = Inr d'"
    by (auto simp: tbl_put_def split: sum.splits)
  have v: "view d' = (view d)(t := (view d t)(k := Some s))"
    using redb_lawfulD(2) [OF assms(1) d'] .
  have "dec c s = Inr r" using assms(2) s by (simp add: codec_lawful_def)
  then show "typed c (view d' t) = (typed c (view d t))(k := Some r)"
    by (auto simp: v typed_def)
  show "u \<noteq> t \<Longrightarrow> view d' u = view d u" by (simp add: v)
qed

lemma tbl_put_Err: "tbl_put db c t k r d = (Inl e, d') \<Longrightarrow> d' = d"
  by (auto simp: tbl_put_def split: sum.splits)

lemma tbl_get_Ok: "redb_lawful db view \<Longrightarrow> tbl_get db c t k d = Inr x \<Longrightarrow> typed c (view d t) k = x"
  by (auto simp: tbl_get_def typed_def split: sum.splits option.splits dest: redb_lawfulD(1))

lemma tbl_remove_Ok:
  assumes "redb_lawful db view" and "tbl_remove db t k d = (Inr (), d')"
  shows "typed c (view d' t) = (typed c (view d t))(k := None)"
proof -
  from assms(2) have "rd_remove db d t k = Inr d'" by (auto simp: tbl_remove_def split: sum.splits)
  from redb_lawfulD(3) [OF assms(1) this] show ?thesis by (auto simp: typed_def)
qed

lemma typed_Some: "typed c m k = Some r \<longleftrightarrow> (\<exists>s. m k = Some s \<and> dec c s = Inr r)"
  by (auto simp: typed_def split: option.splits sum.splits)

lemma dec_all_set: "dec_all c vs = Inr rs \<Longrightarrow> set rs = {r. \<exists>v\<in>set vs. dec c v = Inr r}"
proof (induction vs arbitrary: rs)
  case (Cons v vs)
  then show ?case by (cases "dec_all c vs") (auto split: sum.splits)
qed simp

lemma tbl_all_Ok:
  assumes "redb_lawful db view" and "tbl_all db c t d = Inr rs"
  shows "set rs = ran (typed c (view d t))"
proof -
  from assms(2) obtain vs where vs: "rd_iter db d t = Inr vs" "dec_all c vs = Inr rs"
    by (auto simp: tbl_all_def split: sum.splits)
  show ?thesis
    using dec_all_set [OF vs(2)] redb_lawfulD(4) [OF assms(1) vs(1)] by (auto simp: ran_def typed_Some)
qed

lemma tbl_reliable:
  assumes "redb_reliable db" and "codec_total c"
  shows "\<exists>d'. tbl_put db c t k r d = (Inr (), d')"
proof -
  obtain s where s: "enc c r = Inr s" using assms(2) by (auto simp: codec_total_def)
  obtain d' where "rd_insert db d t k s = Inr d'" using assms(1) unfolding redb_reliable_def by blast
  with s show ?thesis by (simp add: tbl_put_def)
qed

section \<open>The invocation store as a map\<close>

definition inv_lawful ::
  "('d, 'k) inv_env \<Rightarrow> ('d \<Rightarrow> string \<Rightarrow> string \<Rightarrow> string option) \<Rightarrow> bool" where
  "inv_lawful env view \<longleftrightarrow> redb_lawful (ie_db env) view \<and> codec_lawful (ie_codec env)"

definition inv_abs ::
  "('d, 'k) inv_env \<Rightarrow> ('d \<Rightarrow> string \<Rightarrow> string \<Rightarrow> string option) \<Rightarrow> ('d, 'k) inv_store \<Rightarrow>
   string \<Rightarrow> invocation_record option" where
  "inv_abs env view s = typed (ie_codec env) (view (is_db s) invocations_table)"

lemma is_get_Ok: "inv_lawful env view \<Longrightarrow> is_get env i s = Inr x \<Longrightarrow> inv_abs env view s i = x"
  unfolding inv_lawful_def is_get_def inv_abs_def by (auto dest: tbl_get_Ok)

lemma is_put_Ok:
  "inv_lawful env view \<Longrightarrow> is_put env i r s = (Inr (), s') \<Longrightarrow>
   inv_abs env view s' = (inv_abs env view s)(i := Some r)"
  unfolding inv_lawful_def is_put_def inv_abs_def
  by (auto split: prod.splits dest: tbl_put_Ok)

lemma is_put_Err: "is_put env i r s = (Inl e, s') \<Longrightarrow> s' = s"
  unfolding is_put_def by (auto split: prod.splits dest: tbl_put_Err)

lemma write_conversation_db [simp]:
  "is_db (snd (write_conversation_structured env p sid u es s)) = is_db s"
  "is_local (snd (write_conversation_structured env p sid u es s)) = is_local s"
  by (auto simp: write_conversation_structured_def split: option.splits sum.splits prod.splits)

datatype inv_op =
  IoCreate invocation_record
| IoFinalize string invocation_status datetime u64 u32 "string option"
| IoUpdateStatus string invocation_status
| IoUpdateGoal string string
| IoPersistInterim string "conversation_entry list" u64 u32

fun inv_call :: "('d, 'k) inv_env \<Rightarrow> inv_op \<Rightarrow> ('d, 'k) inv_store \<Rightarrow> unit avix_result \<times> ('d, 'k) inv_store" where
  "inv_call env (IoCreate r) s = is_create env r s"
| "inv_call env (IoFinalize i st at tok calls why) s = is_finalize env i st at tok calls why s"
| "inv_call env (IoUpdateStatus i st) s = is_update_status env i st s"
| "inv_call env (IoUpdateGoal i g) s = is_update_goal env i g s"
| "inv_call env (IoPersistInterim i conv tok calls) s = is_persist_interim env i conv tok calls s"

text \<open>The specification: a map from ids to records; updates of absent ids do nothing.\<close>

fun inv_spec :: "inv_op \<Rightarrow> (string \<Rightarrow> invocation_record option) \<Rightarrow> string \<Rightarrow> invocation_record option" where
  "inv_spec (IoCreate r) m = m(ir_id r := Some r)"
| "inv_spec (IoFinalize i st at tok calls why) m =
     m(i := map_option (\<lambda>r. r\<lparr> ir_status := st, ir_ended_at := Some at, ir_tokens_consumed := tok,
                               ir_tool_calls_total := calls, ir_exit_reason := why \<rparr>) (m i))"
| "inv_spec (IoUpdateStatus i st) m = m(i := map_option (\<lambda>r. r\<lparr> ir_status := st \<rparr>) (m i))"
| "inv_spec (IoUpdateGoal i g) m = m(i := map_option (\<lambda>r. r\<lparr> ir_goal := g \<rparr>) (m i))"
| "inv_spec (IoPersistInterim i conv tok calls) m =
     m(i := map_option (\<lambda>r. r\<lparr> ir_tokens_consumed := tok, ir_tool_calls_total := calls \<rparr>) (m i))"

lemma is_modify_refines:
  assumes "inv_lawful env view" and "is_modify env i f s = (res, s')"
  shows "inv_abs env view s' =
    (if res = Inr () then (inv_abs env view s)(i := map_option f (inv_abs env view s i)) else inv_abs env view s)"
proof (cases "is_get env i s")
  case (Inr x)
  then show ?thesis
    using assms is_get_Ok [OF assms(1) Inr]
    by (cases x; cases res) (auto simp: is_modify_def fun_upd_idem dest: is_put_Ok is_put_Err)
qed (use assms in \<open>auto simp: is_modify_def\<close>)

lemma is_persist_interim_refines:
  assumes "inv_lawful env view" and "is_persist_interim env i conv tok calls s = (res, s')"
  defines "m' \<equiv> (inv_abs env view s)(i := map_option (\<lambda>r. r\<lparr> ir_tokens_consumed := tok,
      ir_tool_calls_total := calls \<rparr>) (inv_abs env view s i))"
  shows "inv_abs env view s' = m' \<or> (res \<noteq> Inr () \<and> inv_abs env view s' = inv_abs env view s)"
proof (cases "is_get env i s")
  case get: (Inr x)
  have abs: "inv_abs env view s i = x" by (rule is_get_Ok [OF assms(1) get])
  show ?thesis
  proof (cases x)
    case None
    then show ?thesis using assms(2) abs get by (auto simp: is_persist_interim_def m'_def fun_upd_idem)
  next
    case (Some r)
    obtain res1 s1 where put: "is_put env i (r\<lparr> ir_tokens_consumed := tok, ir_tool_calls_total := calls \<rparr>) s = (res1, s1)"
      by (cases "is_put env i (r\<lparr> ir_tokens_consumed := tok, ir_tool_calls_total := calls \<rparr>) s")
    have conv: "inv_abs env view (snd (write_conversation_structured env p sid u es s1)) = inv_abs env view s1" for p sid u es
      by (simp add: inv_abs_def)
    show ?thesis
    proof (cases res1)
      case (Inl e)
      with put assms(2) get Some is_put_Err [of env i] show ?thesis by (auto simp: is_persist_interim_def)
    next
      case (Inr v)
      then have "inv_abs env view s1 = m'"
        using put abs Some assms(1) by (auto simp: m'_def dest: is_put_Ok)
      moreover have "inv_abs env view s' = inv_abs env view s1"
        using assms(2) get Some put Inr conv by (auto simp: is_persist_interim_def split: if_splits) (metis snd_conv)
      ultimately show ?thesis by simp
    qed
  qed
qed (use assms(2) in \<open>auto simp: is_persist_interim_def\<close>)

fun is_interim :: "inv_op \<Rightarrow> bool" where
  "is_interim (IoPersistInterim _ _ _ _) = True"
| "is_interim _ = False"

lemma modify_step:
  assumes "inv_lawful env view" and "is_modify env i f s = (res, s')"
  shows "\<exists>eff. (res = Inr () \<longrightarrow> eff) \<and> (res \<noteq> Inr () \<and> eff \<longrightarrow> P) \<and>
    inv_abs env view s' =
      (if eff then (inv_abs env view s)(i := map_option f (inv_abs env view s i)) else inv_abs env view s)"
  using is_modify_refines [OF assms] by (intro exI [of _ "res = Inr ()"]) simp

lemma create_step:
  assumes "inv_lawful env view" and "is_create env r s = (res, s')"
  shows "\<exists>eff. (res = Inr () \<longrightarrow> eff) \<and> (res \<noteq> Inr () \<and> eff \<longrightarrow> P) \<and>
    inv_abs env view s' = (if eff then (inv_abs env view s)(ir_id r := Some r) else inv_abs env view s)"
  using assms by (intro exI [of _ "res = Inr ()"], cases res) (auto simp: is_create_def dest: is_put_Ok is_put_Err)

lemma inv_call_refines:
  assumes "inv_lawful env view" and "inv_call env op s = (res, s')"
  shows "\<exists>eff. (res = Inr () \<longrightarrow> eff) \<and> (res \<noteq> Inr () \<and> eff \<longrightarrow> is_interim op) \<and>
    inv_abs env view s' = (if eff then inv_spec op (inv_abs env view s) else inv_abs env view s)"
proof (cases op)
  case (IoCreate r)
  show ?thesis
    unfolding IoCreate inv_spec.simps
    by (rule create_step [OF assms(1)]) (use assms(2) IoCreate in simp)
next
  case (IoFinalize i st at tok calls why)
  show ?thesis
    unfolding IoFinalize inv_spec.simps
    by (rule modify_step [OF assms(1)]) (use assms(2) IoFinalize in \<open>simp add: is_finalize_def\<close>)
next
  case (IoUpdateStatus i st)
  show ?thesis
    unfolding IoUpdateStatus inv_spec.simps
    by (rule modify_step [OF assms(1)]) (use assms(2) IoUpdateStatus in \<open>simp add: is_update_status_def\<close>)
next
  case (IoUpdateGoal i g)
  show ?thesis
    unfolding IoUpdateGoal inv_spec.simps
    by (rule modify_step [OF assms(1)]) (use assms(2) IoUpdateGoal in \<open>simp add: is_update_goal_def\<close>)
next
  case (IoPersistInterim i conv tok calls)
  have call: "is_persist_interim env i conv tok calls s = (res, s')" using assms(2) IoPersistInterim by simp
  show ?thesis
    using is_persist_interim_refines [OF assms(1) call] unfolding IoPersistInterim inv_spec.simps
    by (intro exI [of _ "inv_abs env view s' = (inv_abs env view s)(i := map_option (\<lambda>r. r\<lparr> ir_tokens_consumed := tok,
      ir_tool_calls_total := calls \<rparr>) (inv_abs env view s i))"]) auto
qed

fun inv_run ::
  "('d, 'k) inv_env \<Rightarrow> inv_op list \<Rightarrow> ('d, 'k) inv_store \<Rightarrow> unit avix_result list \<times> ('d, 'k) inv_store" where
  "inv_run env [] s = ([], s)"
| "inv_run env (op # ops) s =
     (let (res, s1) = inv_call env op s; (rs, s2) = inv_run env ops s1 in (res # rs, s2))"

text \<open>The operations selected by a list of flags.\<close>

definition selected :: "bool list \<Rightarrow> 'a list \<Rightarrow> 'a list" where
  "selected fs xs = map snd (filter fst (zip fs xs))"

lemma selected_simps [simp]:
  "selected [] xs = []" "selected (b # bs) (x # xs) = (if b then x # selected bs xs else selected bs xs)"
  by (simp_all add: selected_def)

section \<open>Conversation files\<close>

definition conv_lawful :: "conversation_entry codec \<Rightarrow> bool" where
  "conv_lawful c \<longleftrightarrow> (\<forall>e s. enc c e = Inr s \<longrightarrow>
     dec c s = Inr e \<and> CHR 0x0A \<notin> set s \<and> CHR 0x0D \<notin> set s \<and> \<not> blank_line s \<and> utf8_valid (bytes_of_string s))"

definition disk_write_read :: "'k disk_ops \<Rightarrow> bool" where
  "disk_write_read os \<longleftrightarrow> (\<forall>d path c d'. do_write os d path c = Inr d' \<longrightarrow> do_read os d' path = Inr c)"

lemma utf8_head_append: "utf8_head a \<noteq> 0 \<Longrightarrow> utf8_head (a @ b) = utf8_head a \<and> utf8_head a \<le> length a"
  by (cases a; cases "tl a") (auto simp: Let_def split: if_splits)

lemma utf8_valid_append: "utf8_valid a \<Longrightarrow> utf8_valid b \<Longrightarrow> utf8_valid (a @ b)"
proof (induction a rule: utf8_valid.induct)
  case (1 a)
  show ?case
  proof (cases "a = []")
    case False
    with "1.prems"(1) have h: "utf8_head a \<noteq> 0" "utf8_valid (drop (utf8_head a) a)"
      by (simp_all add: utf8_valid.simps [of a] split: if_splits)
    with "1.IH" [OF False h(1)] "1.prems"(2) utf8_head_append [OF h(1), of b] show ?thesis
      by (simp add: utf8_valid.simps [of "a @ b"])
  qed (use "1.prems" in simp)
qed

lemma string_of_bytes_of_string [simp]: "string_of_bytes (bytes_of_string s) = s"
proof -
  have "char_of (unat (of_char c :: u8)) = c" for c :: char
  proof -
    have "(of_char c :: u8) = of_nat (of_char c)" by (simp only: of_nat_of_char)
    then have "unat (of_char c :: u8) = of_char c" using nat_of_char_less_256 [of c] by (simp add: unat_of_nat)
    then show ?thesis by simp
  qed
  then show ?thesis by (induction s) (auto simp: string_of_bytes_def bytes_of_string_def)
qed

lemma split_char_lines:
  "CHR 0x0A \<notin> set l \<Longrightarrow> split_char (CHR 0x0A) (l @ CHR 0x0A # rest) = l # split_char (CHR 0x0A) rest"
  by (induction l) auto

lemma str_lines_Cons:
  assumes "CHR 0x0A \<notin> set l" and "CHR 0x0D \<notin> set l"
  shows "str_lines (l @ [CHR 0x0A] @ rest) = l # str_lines rest"
proof -
  have "strip_cr l = l" using assms(2) by (auto simp: strip_cr_def dest: last_in_set)
  then show ?thesis using assms(1) by (simp add: str_lines_def split_char_lines Let_def)
qed

lemma jsonl_roundtrip:
  assumes "conv_lawful c" and "jsonl_lines c es = Inr body"
  shows "List.map_filter (\<lambda>line. if blank_line line then None
            else (case dec c line of Inl _ \<Rightarrow> None | Inr e \<Rightarrow> Some e)) (str_lines body) = es
    \<and> utf8_valid (bytes_of_string body)"
  using assms(2)
proof (induction es arbitrary: body)
  case Nil
  then show ?case by (auto simp: str_lines_def List.map_filter_def bytes_of_string_def utf8_valid.simps [of "[]"])
next
  case (Cons e es)
  from Cons.prems obtain line rest where line: "enc c e = Inr line" and rest: "jsonl_lines c es = Inr rest"
    and body: "body = line @ [CHR 0x0A] @ rest"
    by (cases "jsonl_lines c es") (auto split: sum.splits)
  from assms(1) line have law: "dec c line = Inr e" "CHR 0x0A \<notin> set line" "CHR 0x0D \<notin> set line"
    "\<not> blank_line line" "utf8_valid (bytes_of_string line)"
    by (auto simp: conv_lawful_def)
  have "utf8_valid (bytes_of_string line @ (of_char (CHR 0x0A) # bytes_of_string rest))"
    using Cons.IH [OF rest]
    by (intro utf8_valid_append law(5)) (simp add: utf8_valid.simps [of "_ # _"] utf8_width_def)
  moreover have "bytes_of_string body = bytes_of_string line @ (of_char (CHR 0x0A) # bytes_of_string rest)"
    by (simp add: body bytes_of_string_def)
  ultimately show ?case
    using Cons.IH [OF rest] law unfolding body str_lines_Cons [OF law(2,3)]
    by (simp add: List.map_filter_def)
qed

lemma lp_write_read:
  assumes "disk_write_read os" and "lp_write os d lp rel c = (Inr (), d')"
  shows "lp_read os d' lp rel = Inr c"
  using assms by (auto simp: lp_write_def lp_read_def disk_write_read_def split: sum.splits)

section \<open>A database in memory\<close>

text \<open>Tables as one hash map, and codecs that know a single record: instances of the parameters.\<close>

definition mem_redb :: "(string \<times> string, string) hmap redb" where
  "mem_redb =
     \<lparr> rd_get = (\<lambda>d t k. Inr (hm_get d (t, k))),
       rd_insert = (\<lambda>d t k s. Inr (hm_insert (t, k) s d)),
       rd_remove = (\<lambda>d t k. Inr (hm_remove (t, k) d)),
       rd_iter = (\<lambda>d t. Inr (List.map_filter (hm_get d) (filter (\<lambda>k. fst k = t) (hm_keys d)))) \<rparr>"

definition mem_view :: "(string \<times> string, string) hmap \<Rightarrow> string \<Rightarrow> string \<Rightarrow> string option" where
  "mem_view d t k = hm_get d (t, k)"

definition one_codec :: "'r \<Rightarrow> 'r codec" where
  "one_codec r =
     \<lparr> enc = (\<lambda>x. if x = r then Inr ''{}'' else Inl ''not encodable''),
       dec = (\<lambda>s. if s = ''{}'' then Inr r else Inl ''malformed'') \<rparr>"

text \<open>A total codec: any record that can be numbered is encoded in unary.\<close>

definition count_codec :: "('r \<Rightarrow> 'c::countable) \<Rightarrow> ('c \<Rightarrow> 'r) \<Rightarrow> 'r codec" where
  "count_codec f g =
     \<lparr> enc = (\<lambda>r. Inr (replicate (to_nat (f r)) (CHR ''1''))), dec = (\<lambda>s. Inr (g (from_nat (length s)))) \<rparr>"

lemma count_codec_ok:
  assumes "\<And>r. g (f r) = r"
  shows "codec_lawful (count_codec f g)" and "codec_total (count_codec f g)"
  using assms by (auto simp: codec_lawful_def codec_total_def count_codec_def)

lemma mem_redb_lawful: "redb_lawful mem_redb mem_view"
  by (auto simp: redb_lawful_def mem_redb_def mem_view_def fun_eq_iff List.map_filter_def ran_def image_iff
      hm_get_in_keys) (force dest: map_of_SomeD)+

lemma mem_redb_reliable: "redb_reliable mem_redb"
  by (simp add: redb_reliable_def mem_redb_def)

lemma one_codec_lawful: "codec_lawful (one_codec r)"
  by (simp add: codec_lawful_def one_codec_def)

lemma one_codec_conv: "conv_lawful (one_codec e)"
  by (simp add: conv_lawful_def one_codec_def blank_line_def bytes_of_string_def utf8_valid.simps [of "_ # _"]
      utf8_valid.simps [of "[]"] utf8_width_def)

definition meta_tuple :: "pid_invocation_meta \<Rightarrow> u64 \<times> string \<times> string \<times> string \<times> datetime" where
  "meta_tuple m = (pim_pid m, pim_invocation_id m, pim_agent_name m, pim_agent_version m, pim_spawned_at m)"

definition tuple_meta :: "u64 \<times> string \<times> string \<times> string \<times> datetime \<Rightarrow> pid_invocation_meta" where
  "tuple_meta = (\<lambda>(a, b, c, d, e). \<lparr> pim_pid = a, pim_invocation_id = b, pim_agent_name = c,
     pim_agent_version = d, pim_spawned_at = e \<rparr>)"

lemma tuple_meta [simp]: "tuple_meta (meta_tuple m) = m"
  by (simp add: tuple_meta_def meta_tuple_def)

definition session_codec :: "session_record codec" where
  "session_codec = count_codec
     (\<lambda>r. (sr_id r, sr_parent_id r, sr_project_id r, sr_title r, sr_goal r, sr_username r, sr_spawned_at r,
           sr_last_updated r, sr_status r, sr_summary r, sr_tokens_total r, sr_origin_agent r,
           sr_primary_agent r, sr_participants r, sr_owner_pid r, sr_pids r, map meta_tuple (sr_invocation_pids r)))
     (\<lambda>(a, b, c, d, e, f, g, h, i, j, k, l, m, n, q, p, ms).
        \<lparr> sr_id = a, sr_parent_id = b, sr_project_id = c, sr_title = d, sr_goal = e, sr_username = f,
          sr_spawned_at = g, sr_last_updated = h, sr_status = i, sr_summary = j, sr_tokens_total = k,
          sr_origin_agent = l, sr_primary_agent = m, sr_participants = n, sr_owner_pid = q, sr_pids = p,
          sr_invocation_pids = map tuple_meta ms \<rparr>)"

definition invocation_codec :: "invocation_record codec" where
  "invocation_codec = count_codec
     (\<lambda>r. (ir_id r, ir_agent_name r, ir_agent_version r, ir_username r, ir_pid r, ir_goal r, ir_session_id r,
           ir_spawned_at r, ir_ended_at r, ir_status r, ir_tokens_consumed r, ir_tool_calls_total r, ir_exit_reason r))
     (\<lambda>(a, b, c, d, e, f, g, h, i, j, k, l, m).
        \<lparr> ir_id = a, ir_agent_name = b, ir_agent_version = c, ir_username = d, ir_pid = e, ir_goal = f,
          ir_session_id = g, ir_spawned_at = h, ir_ended_at = i, ir_status = j, ir_tokens_consumed = k,
          ir_tool_calls_total = l, ir_exit_reason = m \<rparr>)"

lemma session_codec_ok: "codec_lawful session_codec" "codec_total session_codec"
  unfolding session_codec_def by (rule count_codec_ok; simp add: comp_def)+

lemma invocation_codec_ok: "codec_lawful invocation_codec" "codec_total invocation_codec"
  unfolding invocation_codec_def by (rule count_codec_ok; simp)+

section \<open>Properties\<close>


definition demo_invocation :: invocation_record where
  "demo_invocation = invocation_record_new 0 ''i1'' ''agent'' ''alice'' 7 ''goal'' ''s1''"

definition demo_conv :: conversation_entry where
  "demo_conv = from_role_content ConvUser ''hello''"

text \<open>A disk that holds one file.\<close>

definition one_file_disk :: "(string \<times> bytes) disk_ops" where
  "one_file_disk =
     \<lparr> do_read = (\<lambda>d p. if fst d = p then Inr (snd d) else Inl ''not found''),
       do_create_dir_all = (\<lambda>d p. Inr d),
       do_write = (\<lambda>d p c. Inr (p, c)),
       do_remove = (\<lambda>d p. Inr ([], [])),
       do_exists = (\<lambda>d p. fst d = p),
       do_read_dir = (\<lambda>d p. Inr []) \<rparr>"

definition demo_inv_env :: "((string \<times> string, string) hmap, string \<times> bytes) inv_env" where
  "demo_inv_env =
     \<lparr> ie_db = mem_redb, ie_codec = one_codec demo_invocation, ie_os = one_file_disk,
       ie_conv = one_codec demo_conv \<rparr>"

definition demo_inv_store :: "((string \<times> string, string) hmap, string \<times> bytes) inv_store" where
  "demo_inv_store = \<lparr> is_db = [], is_local = Some \<lparr> lp_root = ''/data'' \<rparr>, is_disk = ([], []) \<rparr>"

lemma demo_inv_lawful: "inv_lawful demo_inv_env mem_view"
  by (simp add: inv_lawful_def demo_inv_env_def mem_redb_lawful one_codec_lawful)


text \<open>
  Conversations survive being written.  When the disk returns what was last written to a path
  and the codec reads back its own lines, which hold no line break, a conversation file that was
  written successfully is read back, by session, process and user, as exactly the entries that
  were written, in order and none skipped.
\<close>

theorem conversation_roundtrip:
  assumes "conv_lawful (ie_conv env)" and "disk_write_read (ie_os env)" and "is_local s = Some provider"
    and "write_conversation_structured env p session_id username entries s = (Inr (), s')"
  shows "read_conversation env session_id p username s' = Inr entries"
proof -
  from assms(3,4) obtain body k where body: "jsonl_lines (ie_conv env) entries = Inr body"
    and w: "lp_write (ie_os env) (is_disk s) provider (conversation_path username session_id p)
      (bytes_of_string body) = (Inr (), k)"
    and s': "s' = s\<lparr> is_disk := k \<rparr>"
    by (auto simp: write_conversation_structured_def split: sum.splits prod.splits)
  show ?thesis
    using jsonl_roundtrip [OF assms(1) body] lp_write_read [OF assms(2) w] assms(3)
    by (simp add: read_conversation_def s')
qed

theorem conversation_roundtrip_witness:
  "read_conversation demo_inv_env ''s1'' 7 ''alice''
     (snd (write_conversation_structured demo_inv_env 7 ''s1'' ''alice'' [demo_conv, demo_conv] demo_inv_store))
   = Inr [demo_conv, demo_conv]"
proof -
  let ?w = "write_conversation_structured demo_inv_env 7 ''s1'' ''alice'' [demo_conv, demo_conv] demo_inv_store"
  have safe: "\<not> contains_str (''alice/.sessions/s1/'' @ show_word (7 :: u64) @ ''.jsonl'') ''..''"
    by code_simp
  have "fst ?w = Inr ()"
    using safe
    by (simp add: write_conversation_structured_def demo_inv_env_def demo_inv_store_def one_codec_def
        lp_write_def resolve_path_def conversation_path_def trim_start_char_def one_file_disk_def
        split: option.splits)
  then have "?w = (Inr (), snd ?w)" by (metis prod.collapse)
  moreover have "conv_lawful (ie_conv demo_inv_env)" "disk_write_read (ie_os demo_inv_env)"
    "is_local demo_inv_store = Some \<lparr> lp_root = ''/data'' \<rparr>"
    by (simp_all add: demo_inv_env_def demo_inv_store_def one_codec_conv disk_write_read_def one_file_disk_def)
  ultimately show ?thesis by (intro conversation_roundtrip) auto
qed

end
