(* ===== verification/Proc_Handler.thy ===== *)
theory Proc_Handler
  imports Kernel_Caps Records Signals
begin

text \<open>
  The kernel's process manager: spawning, restoring, aborting, pausing and resuming agents
  (\<^verbatim>\<open>kernel/proc/agent.rs\<close>, \<^verbatim>\<open>kernel/proc/signals.rs\<close>,
  \<^verbatim>\<open>kernel/proc/mod.rs\<close>) and the list of agents on disk
  (\<^verbatim>\<open>kernel/proc/types.rs\<close>, \<^verbatim>\<open>kernel/proc/persistence.rs\<close>).

  The managers share the process table, the two maps of active agents, the signal channels and
  the stores; the model keeps them in one record.  Database, codecs, UUID parsing and the host's
  file system are parameters.  Clock readings, fresh identifiers and the salt of a new process
  identifier are arguments of the operation that draws them.

  The lemmas show that the maps and the process table stay consistent, what spawning records,
  that pausing and resuming a session are inverse, and that an aborted invocation is final.
\<close>

section \<open>State\<close>

record spawn_params =
  sp_pid :: pid
  sp_agent_name :: string
  sp_goal :: string
  sp_spawned_by :: string
  sp_token :: capability_token
  sp_session_id :: string
  sp_atp_session_id :: string
  sp_system_prompt :: "string option"
  sp_selected_model :: string
  sp_denied_tools :: "string list"
  sp_context_limit :: u64
  sp_runtime_dir :: string
  sp_invocation_id :: string
  sp_restore_from_pid :: "u64 option"

record agent_record =
  ag_pid :: u64
  ag_name :: string
  ag_goal :: string
  ag_session_id :: string
  ag_spawned_at :: datetime

record active_agent =
  aa_pid :: u64
  aa_name :: string
  aa_status :: string
  aa_goal :: string

text \<open>
  The parameters: \<open>px_uuid\<close> is \<^verbatim>\<open>Uuid::parse_str\<close> followed by \<^verbatim>\<open>to_string\<close>; the
  last four are the file operations on \<^verbatim>\<open>agents.yaml\<close>.
\<close>

record ('d, 'k, 's, 'y) proc_env =
  px_inv :: "('d, 'k) inv_env"
  px_sdb :: "'s redb"
  px_scodec :: "session_record codec"
  px_uuid :: "string \<Rightarrow> string + string"
  px_hmac :: hmac_fn
  px_yaml :: "agent_record list codec"
  px_exists :: "'y \<Rightarrow> bool"
  px_read :: "'y \<Rightarrow> string + string"
  px_write_tmp :: "string \<Rightarrow> 'y \<Rightarrow> string + 'y"
  px_rename_tmp :: "'y \<Rightarrow> string + 'y"

text \<open>
  Tasks are numbered as they are launched; an abort handle is such a number.  The handler's own
  map of handles is separate from the agent manager's.
\<close>

record ('d, 'k, 's, 'y) proc_state =
  ph_table :: process_table
  ph_channels :: signal_channel_registry
  ph_active_inv :: "(u64, string) hmap"
  ph_active_sess :: "(u64, string) hmap"
  ph_inv :: "('d, 'k) inv_store option"
  ph_sess :: "'s option"
  ph_master_key :: string
  ph_runtime_dir :: string
  ph_factory :: bool
  ph_scanner :: "(string \<Rightarrow> string \<Rightarrow> string list option) option"
  ph_tools :: "tool_registry option"
  ph_handles :: "(u64, nat) hmap"
  ph_own_handles :: "(u64, nat) hmap"
  ph_launched :: "spawn_params list"
  ph_aborted :: "nat list"
  ph_yaml :: 'y

section \<open>The list of agents on disk\<close>

definition load_agents_yaml ::
  "('d, 'k, 's, 'y) proc_env \<Rightarrow> 'y \<Rightarrow> agent_record list avix_result" where
  "load_agents_yaml env y =
     (if \<not> px_exists env y then Inr []
      else (case px_read env y of
              Inl e \<Rightarrow> Inl (Io e)
            | Inr s \<Rightarrow> (case dec (px_yaml env) s of Inl e \<Rightarrow> Inl (ConfigParse e) | Inr a \<Rightarrow> Inr a)))"

definition save_agents_yaml ::
  "('d, 'k, 's, 'y) proc_env \<Rightarrow> agent_record list \<Rightarrow> 'y \<Rightarrow> unit avix_result \<times> 'y" where
  "save_agents_yaml env agents y =
     (case enc (px_yaml env) agents of
        Inl e \<Rightarrow> (Inl (ConfigParse e), y)
      | Inr s \<Rightarrow>
          (case px_write_tmp env s y of
             Inl e \<Rightarrow> (Inl (Io e), y)
           | Inr y1 \<Rightarrow> (case px_rename_tmp env y1 of Inl e \<Rightarrow> (Inl (Io e), y1) | Inr y2 \<Rightarrow> (Inr (), y2))))"

definition unwrap_or_default :: "'a list avix_result \<Rightarrow> 'a list" where
  "unwrap_or_default r = (case r of Inl _ \<Rightarrow> [] | Inr a \<Rightarrow> a)"

text \<open>\<^verbatim>\<open>iter_mut().find\<close>: the first entry of the pid is replaced, or the record is appended.\<close>

fun replace_or_push :: "agent_record \<Rightarrow> agent_record list \<Rightarrow> agent_record list" where
  "replace_or_push r [] = [r]"
| "replace_or_push r (a # as) = (if ag_pid a = ag_pid r then r # as else a # replace_or_push r as)"

definition persist_agent_record ::
  "('d, 'k, 's, 'y) proc_env \<Rightarrow> datetime \<Rightarrow> u64 \<Rightarrow> string \<Rightarrow> string \<Rightarrow> string \<Rightarrow> 'y \<Rightarrow> unit avix_result \<times> 'y" where
  "persist_agent_record env now p name goal session_id y =
     save_agents_yaml env
       (replace_or_push
          \<lparr> ag_pid = p, ag_name = name, ag_goal = goal, ag_session_id = session_id, ag_spawned_at = now \<rparr>
          (unwrap_or_default (load_agents_yaml env y))) y"

definition remove_agent_record ::
  "('d, 'k, 's, 'y) proc_env \<Rightarrow> u64 \<Rightarrow> 'y \<Rightarrow> unit avix_result \<times> 'y" where
  "remove_agent_record env p y =
     save_agents_yaml env (filter (\<lambda>a. ag_pid a \<noteq> p) (unwrap_or_default (load_agents_yaml env y))) y"

section \<open>Steps shared by the operations\<close>

type_synonym ('d, 'k, 's, 'y) ph_op =
  "('d, 'k, 's, 'y) proc_state \<Rightarrow> ('d, 'k, 's, 'y) proc_state"

text \<open>\<^verbatim>\<open>let _ = process_table.set_status(..)\<close>: an unknown pid is ignored.\<close>

definition ph_set_status :: "u64 \<Rightarrow> process_status \<Rightarrow> ('d, 'k, 's, 'y) ph_op" where
  "ph_set_status p status st =
     (case pt_set_status (Pid p) status (ph_table st) of Inl _ \<Rightarrow> st | Inr t \<Rightarrow> st\<lparr> ph_table := t \<rparr>)"

definition ph_inv_status ::
  "('d, 'k, 's, 'y) proc_env \<Rightarrow> u64 \<Rightarrow> invocation_status \<Rightarrow> ('d, 'k, 's, 'y) ph_op" where
  "ph_inv_status env p status st =
     (case (hm_get (ph_active_inv st) p, ph_inv st) of
        (Some iid, Some istore) \<Rightarrow>
          st\<lparr> ph_inv := Some (snd (is_update_status (px_inv env) iid status istore)) \<rparr>
      | _ \<Rightarrow> st)"

definition deliver_to ::
  "u64 \<Rightarrow> signal_kind \<Rightarrow> json \<Rightarrow> ('d, 'k, 's, 'y) proc_state \<Rightarrow> bool \<times> ('d, 'k, 's, 'y) proc_state" where
  "deliver_to p kind payload st =
     (let (ok, ch) = sc_send (Pid p) \<lparr> sig_target = Pid p, sig_kind = kind, sig_payload = payload \<rparr> (ph_channels st)
      in (ok, st\<lparr> ph_channels := ch \<rparr>))"

definition broadcast_to :: "u64 list \<Rightarrow> signal_kind \<Rightarrow> json \<Rightarrow> ('d, 'k, 's, 'y) ph_op" where
  "broadcast_to ps kind payload st = fold (\<lambda>p st. snd (deliver_to p kind payload st)) ps st"

text \<open>The session of an active agent: recorded, well-formed, readable and present.\<close>

definition session_of ::
  "('d, 'k, 's, 'y) proc_env \<Rightarrow> u64 \<Rightarrow> ('d, 'k, 's, 'y) proc_state \<Rightarrow> (session_record \<times> 's) option" where
  "session_of env p st =
     (case (hm_get (ph_active_sess st) p, ph_sess st) of
        (Some sid, Some sdb) \<Rightarrow>
          (case px_uuid env sid of
             Inl _ \<Rightarrow> None
           | Inr uuid \<Rightarrow>
               (case ss_get (px_sdb env) (px_scodec env) uuid sdb of
                  Inr (Some session) \<Rightarrow> Some (session, sdb)
                | _ \<Rightarrow> None))
      | _ \<Rightarrow> None)"

definition ph_update_session ::
  "('d, 'k, 's, 'y) proc_env \<Rightarrow> session_record \<Rightarrow> 's \<Rightarrow> ('d, 'k, 's, 'y) ph_op" where
  "ph_update_session env session sdb st =
     st\<lparr> ph_sess := Some (snd (ss_update (px_sdb env) (px_scodec env) session sdb)) \<rparr>"

text \<open>The cascade to the other processes of a session, the same for pause and resume.\<close>

definition cascade ::
  "('d, 'k, 's, 'y) proc_env \<Rightarrow> signal_kind \<Rightarrow> process_status \<Rightarrow> invocation_status \<Rightarrow> u64 list \<Rightarrow>
   ('d, 'k, 's, 'y) ph_op" where
  "cascade env kind pstat istat others st =
     (if others = [] then st
      else fold (\<lambda>q st. ph_inv_status env q istat (ph_set_status q pstat st)) others
             (broadcast_to others kind JNull st))"

section \<open>Signals\<close>

definition pause_agent ::
  "('d, 'k, 's, 'y) proc_env \<Rightarrow> datetime \<Rightarrow> u64 \<Rightarrow> ('d, 'k, 's, 'y) ph_op" where
  "pause_agent env now p st =
     (let st1 = ph_set_status p PsPaused st;
          st2 = ph_inv_status env p InvPaused st1;
          st3 = snd (deliver_to p SigPause JNull st2)
      in (case session_of env p st3 of
            None \<Rightarrow> st3
          | Some (session, sdb) \<Rightarrow>
              if p = sr_owner_pid session
              then ph_update_session env (sr_mark_paused now session) sdb
                     (cascade env SigPause PsPaused InvPaused (filter (\<lambda>q. q \<noteq> p) (sr_pids session)) st3)
              else st3))"

definition resume_agent ::
  "('d, 'k, 's, 'y) proc_env \<Rightarrow> datetime \<Rightarrow> u64 \<Rightarrow> ('d, 'k, 's, 'y) ph_op" where
  "resume_agent env now p st =
     (let st1 = ph_set_status p PsRunning st;
          st2 = ph_inv_status env p InvRunning st1;
          st3 = snd (deliver_to p SigResume JNull st2)
      in (case session_of env p st3 of
            None \<Rightarrow> st3
          | Some (session, sdb) \<Rightarrow>
              if sr_status session = SessPaused
              then ph_update_session env (sr_mark_running now session) sdb
                     (cascade env SigResume PsRunning InvRunning (filter (\<lambda>q. q \<noteq> p) (sr_pids session)) st3)
              else st3))"

definition signal_of_name :: "string \<Rightarrow> signal_kind option" where
  "signal_of_name s =
     (if s = ''SIGSTART'' then Some SigStart
      else if s = ''SIGKILL'' then Some SigKill
      else if s = ''SIGSTOP'' then Some SigStop
      else if s = ''SIGSAVE'' then Some SigSave
      else if s = ''SIGPIPE'' then Some SigPipe
      else if s = ''SIGESCALATE'' then Some SigEscalate
      else None)"

definition send_signal ::
  "('d, 'k, 's, 'y) proc_env \<Rightarrow> datetime \<Rightarrow> u64 \<Rightarrow> string \<Rightarrow> json \<Rightarrow> ('d, 'k, 's, 'y) proc_state \<Rightarrow>
   unit avix_result \<times> ('d, 'k, 's, 'y) proc_state" where
  "send_signal env now p name payload st =
     (if name = ''SIGPAUSE'' then (Inr (), pause_agent env now p st)
      else if name = ''SIGRESUME'' then (Inr (), resume_agent env now p st)
      else (case signal_of_name name of
              None \<Rightarrow> (Inl (ConfigParse (''unknown signal: '' @ name)), st)
            | Some kind \<Rightarrow>
                (case deliver_to p kind payload st of
                   (False, st1) \<Rightarrow> (Inl (NotFound (''no signal channel for pid '' @ show_word p)), st1)
                 | (True, st1) \<Rightarrow> (Inr (), st1))))"

section \<open>Spawning\<close>

text \<open>Read a session by id, change it, write it back; failures are ignored or only logged.\<close>

definition ph_modify_session ::
  "('d, 'k, 's, 'y) proc_env \<Rightarrow> string \<Rightarrow> (session_record \<Rightarrow> session_record) \<Rightarrow> ('d, 'k, 's, 'y) ph_op" where
  "ph_modify_session env uuid f st =
     (case ph_sess st of
        None \<Rightarrow> st
      | Some sdb \<Rightarrow>
          (case ss_get (px_sdb env) (px_scodec env) uuid sdb of
             Inr (Some session) \<Rightarrow> ph_update_session env (f session) sdb st
           | _ \<Rightarrow> st))"

definition resolve_session_from_id ::
  "('d, 'k, 's, 'y) proc_env \<Rightarrow> datetime \<Rightarrow> string \<Rightarrow> string \<Rightarrow> string \<Rightarrow> string \<Rightarrow> string \<Rightarrow> u64 \<Rightarrow>
   ('d, 'k, 's, 'y) proc_state \<Rightarrow> string avix_result \<times> ('d, 'k, 's, 'y) proc_state" where
  "resolve_session_from_id env now uuid name goal session_id caller owner st =
     (if session_id = [] then
        (case ph_sess st of
           Some sdb \<Rightarrow>
             (let r = session_record_new now uuid caller name name goal owner
              in (Inr (sr_id r), st\<lparr> ph_sess := Some (snd (ss_create (px_sdb env) (px_scodec env) r sdb)) \<rparr>))
         | None \<Rightarrow> (Inr uuid, st))
      else
        (case ph_sess st of
           Some sdb \<Rightarrow>
             (case px_uuid env session_id of
                Inl e \<Rightarrow> (Inl (InvalidInput e), st)
              | Inr u \<Rightarrow> (Inr session_id, ph_modify_session env u (add_participant now name True) st))
         | None \<Rightarrow> (Inr session_id, st)))"

definition effective_session ::
  "('d, 'k, 's, 'y) proc_env \<Rightarrow> datetime \<Rightarrow> string \<Rightarrow> string \<Rightarrow> string \<Rightarrow> string \<Rightarrow> string \<Rightarrow> u64 \<Rightarrow> u64 option \<Rightarrow>
   ('d, 'k, 's, 'y) proc_state \<Rightarrow> string avix_result \<times> ('d, 'k, 's, 'y) proc_state" where
  "effective_session env now uuid name goal session_id caller p parent st =
     (case parent of
        None \<Rightarrow> resolve_session_from_id env now uuid name goal session_id caller p st
      | Some ppid \<Rightarrow>
          (case hm_get (ph_active_sess st) ppid of
             None \<Rightarrow> resolve_session_from_id env now uuid name goal session_id caller p st
           | Some sid \<Rightarrow>
               (case ph_sess st of
                  None \<Rightarrow> (Inr sid, st)
                | Some sdb \<Rightarrow>
                    (case px_uuid env sid of
                       Inl e \<Rightarrow> (Inl (InvalidInput e), st)
                     | Inr u \<Rightarrow> (Inr sid, ph_modify_session env u (add_participant now name True) st)))))"

text \<open>The same guarded change, of a session named by its text: an ill-formed id changes nothing.\<close>

definition ph_modify_named ::
  "('d, 'k, 's, 'y) proc_env \<Rightarrow> string \<Rightarrow> (session_record \<Rightarrow> session_record) \<Rightarrow> ('d, 'k, 's, 'y) ph_op" where
  "ph_modify_named env sid f st =
     (case px_uuid env sid of Inl _ \<Rightarrow> st | Inr u \<Rightarrow> ph_modify_session env u f st)"

definition agent_entry ::
  "datetime \<Rightarrow> datetime \<Rightarrow> u64 \<Rightarrow> string \<Rightarrow> process_status \<Rightarrow> u64 option \<Rightarrow> string \<Rightarrow> string \<Rightarrow> process_entry" where
  "agent_entry now dflt p name status parent caller goal =
     (process_entry_default dflt)
       \<lparr> pe_pid := Pid p, pe_name := name, pe_kind := KindAgent, pe_status := status,
         pe_parent := map_option Pid parent, pe_spawned_by_user := caller, pe_goal := goal,
         pe_spawned_at := now \<rparr>"

definition launch :: "u64 \<Rightarrow> spawn_params \<Rightarrow> ('d, 'k, 's, 'y) ph_op" where
  "launch p params st =
     st\<lparr> ph_handles := hm_insert p (length (ph_launched st)) (ph_handles st),
         ph_launched := ph_launched st @ [params] \<rparr>"

definition mint_for ::
  "('d, 'k, 's, 'y) proc_env \<Rightarrow> datetime \<Rightarrow> u64 \<Rightarrow> string \<Rightarrow> string \<Rightarrow> ('d, 'k, 's, 'y) proc_state \<Rightarrow>
   capability_token" where
  "mint_for env now p name caller st =
     mint (px_hmac env) now (resolve_granted_tools (ph_scanner st) (ph_tools st) name caller)
       (Some \<lparr> it_pid = p, it_agent_name = name, it_spawned_by = caller \<rparr>) 3600 (ph_master_key st)"

text \<open>
  \<open>now\<close> numbers the clock readings of the call, \<open>suuid\<close> and \<open>iuuid\<close> are the fresh
  identifiers of the session and of the invocation.
\<close>

definition am_spawn ::
  "('d, 'k, 's, 'y) proc_env \<Rightarrow> (nat \<Rightarrow> datetime) \<Rightarrow> pid \<Rightarrow> string \<Rightarrow> string \<Rightarrow> string \<Rightarrow> string \<Rightarrow> string \<Rightarrow>
   string \<Rightarrow> string \<Rightarrow> u64 option \<Rightarrow> ('d, 'k, 's, 'y) proc_state \<Rightarrow> u64 avix_result \<times> ('d, 'k, 's, 'y) proc_state" where
  "am_spawn env now gen suuid iuuid name goal session_id atp_session_id caller parent st =
     (let p = pid_u64 gen
      in (case effective_session env (now 0) suuid name goal session_id caller p parent st of
            (Inl e, st1) \<Rightarrow> (Inl e, st1)
          | (Inr sid, st1) \<Rightarrow>
              (let st2 = st1\<lparr> ph_table := pt_insert
                                 (agent_entry (now 1) (now 2) p name PsPending parent caller goal) (ph_table st1) \<rparr>;
                   st3 = ph_modify_named env sid (add_pid (now 3) p) st2;
                   st4 = st3\<lparr> ph_active_sess := hm_insert p sid (ph_active_sess st3) \<rparr>;
                   st5 = (case ph_inv st4 of
                            None \<Rightarrow> st4
                          | Some istore \<Rightarrow>
                              st4\<lparr> ph_inv := Some (snd (is_create (px_inv env)
                                     (invocation_record_new (now 4) iuuid name caller p goal sid) istore)) \<rparr>);
                   st6 = ph_modify_named env sid
                           (add_invocation_pid (now 6)
                              \<lparr> pim_pid = p, pim_invocation_id = iuuid, pim_agent_name = name,
                                pim_agent_version = [], pim_spawned_at = now 5 \<rparr>) st5;
                   st7 = st6\<lparr> ph_active_inv := hm_insert p iuuid (ph_active_inv st6) \<rparr>;
                   tok = mint_for env (now 7) p name caller st7;
                   st8 = (if ph_factory st7 then
                            launch p
                              \<lparr> sp_pid = Pid p, sp_agent_name = name, sp_goal = goal, sp_spawned_by = caller,
                                sp_token = tok, sp_session_id = sid, sp_atp_session_id = atp_session_id,
                                sp_system_prompt = None, sp_selected_model = [], sp_denied_tools = [],
                                sp_context_limit = 0, sp_runtime_dir = ph_runtime_dir st7,
                                sp_invocation_id = iuuid, sp_restore_from_pid = None \<rparr> st7
                          else st7)
               in (case pt_set_status (Pid p) PsRunning (ph_table st8) of
                     Inl e \<Rightarrow> (Inl e, st8)
                   | Inr t \<Rightarrow> (Inr p, st8\<lparr> ph_table := t \<rparr>)))))"

definition ph_spawn ::
  "('d, 'k, 's, 'y) proc_env \<Rightarrow> (nat \<Rightarrow> datetime) \<Rightarrow> pid \<Rightarrow> string \<Rightarrow> string \<Rightarrow> string \<Rightarrow> string \<Rightarrow> string \<Rightarrow>
   string \<Rightarrow> string \<Rightarrow> u64 option \<Rightarrow> ('d, 'k, 's, 'y) proc_state \<Rightarrow> u64 avix_result \<times> ('d, 'k, 's, 'y) proc_state" where
  "ph_spawn env now gen suuid iuuid name goal session_id atp_session_id caller parent st =
     (case am_spawn env now gen suuid iuuid name goal session_id atp_session_id caller parent st of
        (Inl e, st1) \<Rightarrow> (Inl e, st1)
      | (Inr p, st1) \<Rightarrow>
          (case persist_agent_record env (now 8) p name goal session_id (ph_yaml st1) of
             (Inl e, y) \<Rightarrow> (Inl e, st1\<lparr> ph_yaml := y \<rparr>)
           | (Inr _, y) \<Rightarrow> (Inr p, st1\<lparr> ph_yaml := y \<rparr>)))"

definition status_name :: "process_status \<Rightarrow> string" where
  "status_name s =
     (case s of PsRunning \<Rightarrow> ''running'' | PsPaused \<Rightarrow> ''paused'' | PsWaiting \<Rightarrow> ''waiting''
      | PsStopped \<Rightarrow> ''stopped'' | PsCrashed \<Rightarrow> ''crashed'' | PsPending \<Rightarrow> ''pending'')"

definition am_list :: "('d, 'k, 's, 'y) proc_state \<Rightarrow> active_agent list" where
  "am_list st =
     map (\<lambda>e. \<lparr> aa_pid = pid_u64 (pe_pid e), aa_name = pe_name e, aa_status = status_name (pe_status e),
                aa_goal = pe_goal e \<rparr>) (list_by_kind (ph_table st) KindAgent)"

section \<open>Aborting\<close>

definition finalize_record ::
  "('d, 'k, 's, 'y) proc_env \<Rightarrow> datetime \<Rightarrow> u64 \<Rightarrow> string \<Rightarrow> invocation_status \<Rightarrow> string option \<Rightarrow>
   ('d, 'k, 's, 'y) ph_op" where
  "finalize_record env now p iid status why st =
     (case ph_inv st of
        None \<Rightarrow> st
      | Some istore \<Rightarrow>
          (let (tokens, calls) = (case pt_get (ph_table st) (Pid p) of
                 Some e \<Rightarrow> (pe_tokens_consumed e, pe_tool_calls_total e) | None \<Rightarrow> (0, 0))
           in st\<lparr> ph_inv := Some (snd (is_finalize (px_inv env) iid status now tokens calls why istore)) \<rparr>))"

definition am_finalize_invocation ::
  "('d, 'k, 's, 'y) proc_env \<Rightarrow> datetime \<Rightarrow> u64 \<Rightarrow> invocation_status \<Rightarrow> string option \<Rightarrow> ('d, 'k, 's, 'y) ph_op" where
  "am_finalize_invocation env now p status why st =
     (case hm_get (ph_active_inv st) p of
        None \<Rightarrow> st
      | Some iid \<Rightarrow>
          finalize_record env now p iid status why (st\<lparr> ph_active_inv := hm_remove p (ph_active_inv st) \<rparr>))"

definition finalize_session_for_pid ::
  "('d, 'k, 's, 'y) proc_env \<Rightarrow> datetime \<Rightarrow> u64 \<Rightarrow> invocation_status \<Rightarrow> ('d, 'k, 's, 'y) ph_op" where
  "finalize_session_for_pid env now p status st =
     (case session_of env p st of
        None \<Rightarrow> st\<lparr> ph_active_sess := hm_remove p (ph_active_sess st) \<rparr>
      | Some (session, sdb) \<Rightarrow>
          (let s1 = remove_pid now p session;
               s2 = (if p = sr_owner_pid s1
                     then (case status of
                             InvCompleted \<Rightarrow> sr_mark_completed now s1
                           | InvFailed \<Rightarrow> sr_mark_failed now s1
                           | InvKilled \<Rightarrow> sr_mark_failed now s1
                           | _ \<Rightarrow> s1)
                     else s1)
           in ph_update_session env s2 sdb (st\<lparr> ph_active_sess := hm_remove p (ph_active_sess st) \<rparr>)))"

definition ph_finalize_invocation ::
  "('d, 'k, 's, 'y) proc_env \<Rightarrow> datetime \<Rightarrow> datetime \<Rightarrow> u64 \<Rightarrow> invocation_status \<Rightarrow> string option \<Rightarrow>
   ('d, 'k, 's, 'y) ph_op" where
  "ph_finalize_invocation env now now' p status why st =
     (case hm_get (ph_active_inv st) p of
        None \<Rightarrow> finalize_session_for_pid env now' p status (st\<lparr> ph_active_inv := hm_remove p (ph_active_inv st) \<rparr>)
      | Some iid \<Rightarrow>
          finalize_session_for_pid env now' p status
            (finalize_record env now p iid status why (st\<lparr> ph_active_inv := hm_remove p (ph_active_inv st) \<rparr>)))"

definition am_abort_agent :: "('d, 'k, 's, 'y) proc_env \<Rightarrow> datetime \<Rightarrow> u64 \<Rightarrow> ('d, 'k, 's, 'y) ph_op" where
  "am_abort_agent env now p st =
     (let st1 = (case hm_get (ph_handles st) p of
                   None \<Rightarrow> st
                 | Some h \<Rightarrow> st\<lparr> ph_handles := hm_remove p (ph_handles st), ph_aborted := ph_aborted st @ [h] \<rparr>);
          st2 = ph_set_status p PsStopped st1
      in am_finalize_invocation env now p InvKilled (Some ''killed'') st2)"

definition ph_abort_agent :: "('d, 'k, 's, 'y) proc_env \<Rightarrow> (nat \<Rightarrow> datetime) \<Rightarrow> u64 \<Rightarrow> ('d, 'k, 's, 'y) ph_op" where
  "ph_abort_agent env now p st =
     (let st1 = am_abort_agent env (now 0) p st;
          st2 = (case hm_get (ph_own_handles st1) p of
                   None \<Rightarrow> st1
                 | Some h \<Rightarrow> st1\<lparr> ph_own_handles := hm_remove p (ph_own_handles st1), ph_aborted := ph_aborted st1 @ [h] \<rparr>);
          st3 = ph_set_status p PsStopped st2
      in ph_finalize_invocation env (now 1) (now 2) p InvKilled (Some ''killed'') st3)"

section \<open>Restoring after a restart\<close>

definition restore_from_invocation ::
  "('d, 'k, 's, 'y) proc_env \<Rightarrow> (nat \<Rightarrow> datetime) \<Rightarrow> invocation_record \<Rightarrow> ('d, 'k, 's, 'y) proc_state \<Rightarrow>
   u64 option \<times> ('d, 'k, 's, 'y) proc_state" where
  "restore_from_invocation env now r st =
     (if \<not> ph_factory st then (None, st)
      else
        (let p = ir_pid r;
             tok = mint_for env (now 0) p (ir_agent_name r) (ir_username r) st;
             st1 = st\<lparr> ph_table := pt_insert
                         (agent_entry (now 1) (now 2) p (ir_agent_name r) PsWaiting None (ir_username r)
                            (ir_goal r)) (ph_table st) \<rparr>;
             st2 = ph_modify_named env (ir_session_id r) (add_pid (now 3) p) st1;
             st3 = st2\<lparr> ph_active_sess := hm_insert p (ir_session_id r) (ph_active_sess st2),
                        ph_active_inv := hm_insert p (ir_id r) (ph_active_inv st2) \<rparr>
         in (Some p, launch p
               \<lparr> sp_pid = Pid p, sp_agent_name = ir_agent_name r, sp_goal = ir_goal r,
                 sp_spawned_by = ir_username r, sp_token = tok, sp_session_id = ir_session_id r,
                 sp_atp_session_id = [], sp_system_prompt = None, sp_selected_model = [],
                 sp_denied_tools = [], sp_context_limit = 0, sp_runtime_dir = ph_runtime_dir st3,
                 sp_invocation_id = ir_id r, sp_restore_from_pid = Some p \<rparr> st3)))"

definition restore_interrupted_agents ::
  "('d, 'k, 's, 'y) proc_env \<Rightarrow> (nat \<Rightarrow> nat \<Rightarrow> datetime) \<Rightarrow> ('d, 'k) inv_store \<Rightarrow> ('d, 'k, 's, 'y) ph_op" where
  "restore_interrupted_agents env now istore st =
     (case is_list_all (px_inv env) istore of
        Inl _ \<Rightarrow> st
      | Inr invs \<Rightarrow>
          fold (\<lambda>(i, r) st. if inv_live (ir_status r) then snd (restore_from_invocation env (now i) r st) else st)
            (enumerate 0 invs) st)"

text \<open>
  Phase 2.5 of the boot: the sessions of interrupted invocations lose their process list and go
  idle.  The affected sessions form a hash set, here in order of first occurrence.
\<close>

definition repair_session :: "datetime \<Rightarrow> session_record \<Rightarrow> session_record" where
  "repair_session now session =
     (let s1 = session\<lparr> sr_pids := [] \<rparr>
      in (case sr_status session of
            SessRunning \<Rightarrow> sr_mark_idle now s1
          | SessPaused \<Rightarrow> sr_mark_idle now s1
          | _ \<Rightarrow> s1))"

definition repair_step ::
  "('d, 'k, 's, 'y) proc_env \<Rightarrow> datetime \<Rightarrow> string \<Rightarrow> 's \<Rightarrow> 's" where
  "repair_step env now sid sdb =
     (case px_uuid env sid of
        Inl _ \<Rightarrow> sdb
      | Inr uuid \<Rightarrow>
          (case ss_get (px_sdb env) (px_scodec env) uuid sdb of
             Inr (Some session) \<Rightarrow> snd (ss_update (px_sdb env) (px_scodec env) (repair_session now session) sdb)
           | _ \<Rightarrow> sdb))"

definition phase3_crash_recovery ::
  "('d, 'k, 's, 'y) proc_env \<Rightarrow> datetime \<Rightarrow> ('d, 'k) inv_store \<Rightarrow> 's \<Rightarrow> unit avix_result \<times> 's" where
  "phase3_crash_recovery env now istore sdb =
     (case is_list_all (px_inv env) istore of
        Inl e \<Rightarrow> (Inl e, sdb)
      | Inr invs \<Rightarrow>
          (Inr (), fold (repair_step env now)
             (remdups (map ir_session_id (filter (\<lambda>r. inv_live (ir_status r)) invs))) sdb))"

section \<open>Queries and session operations of the handler\<close>

record tool_list_response =
  tl_total :: nat
  tl_available :: nat
  tl_unavailable :: nat
  tl_tools :: "tool_summary list"

definition ph_list_tools :: "('d, 'k, 's, 'y) proc_state \<Rightarrow> tool_list_response" where
  "ph_list_tools st =
     (case ph_tools st of
        None \<Rightarrow> \<lparr> tl_total = 0, tl_available = 0, tl_unavailable = 0, tl_tools = [] \<rparr>
      | Some tr \<Rightarrow>
          (let tools = tr_list_all tr
           in \<lparr> tl_total = length tools,
                tl_available = length (filter (\<lambda>t. ts_state t = ''available'') tools),
                tl_unavailable = length (filter (\<lambda>t. ts_state t \<noteq> ''available'') tools),
                tl_tools = tools \<rparr>))"

definition ph_list_invocations ::
  "('d, 'k, 's, 'y) proc_env \<Rightarrow> string \<Rightarrow> string option \<Rightarrow> bool \<Rightarrow> ('d, 'k, 's, 'y) proc_state \<Rightarrow>
   invocation_record list avix_result" where
  "ph_list_invocations env username agent live st =
     (case ph_inv st of
        None \<Rightarrow> Inr []
      | Some s \<Rightarrow>
          map_sum id (\<lambda>rs. if live then rs else filter (\<lambda>r. \<not> inv_live (ir_status r)) rs)
            (case agent of
               Some name \<Rightarrow> is_list_for_agent (px_inv env) username name s
             | None \<Rightarrow> is_list_for_user (px_inv env) username s))"

definition ph_get_invocation ::
  "('d, 'k, 's, 'y) proc_env \<Rightarrow> string \<Rightarrow> ('d, 'k, 's, 'y) proc_state \<Rightarrow> invocation_record option avix_result" where
  "ph_get_invocation env iid st = (case ph_inv st of Some s \<Rightarrow> is_get (px_inv env) iid s | None \<Rightarrow> Inr None)"

definition ph_list_invocations_for_session ::
  "('d, 'k, 's, 'y) proc_env \<Rightarrow> string \<Rightarrow> ('d, 'k, 's, 'y) proc_state \<Rightarrow> invocation_record list avix_result" where
  "ph_list_invocations_for_session env sid st =
     (case ph_inv st of Some s \<Rightarrow> is_list_for_session (px_inv env) sid s | None \<Rightarrow> Inr [])"

definition read_invocation_conversation ::
  "('d, 'k, 's, 'y) proc_env \<Rightarrow> string \<Rightarrow> ('d, 'k, 's, 'y) proc_state \<Rightarrow> conversation_entry list avix_result" where
  "read_invocation_conversation env iid st =
     (case ph_inv st of
        None \<Rightarrow> Inr []
      | Some s \<Rightarrow>
          (case is_get (px_inv env) iid s of
             Inl e \<Rightarrow> Inl e
           | Inr None \<Rightarrow> Inr []
           | Inr (Some r) \<Rightarrow> read_conversation (px_inv env) (ir_session_id r) (ir_pid r) (ir_username r) s))"

definition ph_snapshot_invocation ::
  "('d, 'k, 's, 'y) proc_env \<Rightarrow> string \<Rightarrow> ('d, 'k, 's, 'y) proc_state \<Rightarrow>
   invocation_record avix_result \<times> ('d, 'k, 's, 'y) proc_state" where
  "ph_snapshot_invocation env iid st =
     (let (res, s) = im_snapshot_invocation (px_inv env) iid (ph_inv st) in (res, st\<lparr> ph_inv := s \<rparr>))"

definition ph_create_session ::
  "('d, 'k, 's, 'y) proc_env \<Rightarrow> datetime \<Rightarrow> string \<Rightarrow> string \<Rightarrow> string \<Rightarrow> string \<Rightarrow> string \<Rightarrow> u64 \<Rightarrow>
   ('d, 'k, 's, 'y) proc_state \<Rightarrow> session_record avix_result \<times> ('d, 'k, 's, 'y) proc_state" where
  "ph_create_session env now uuid username origin title goal owner st =
     (let (res, s) = sm_create_session (px_sdb env) (px_scodec env) now uuid username origin title goal owner (ph_sess st)
      in (res, st\<lparr> ph_sess := s \<rparr>))"

definition ph_list_sessions ::
  "('d, 'k, 's, 'y) proc_env \<Rightarrow> string \<Rightarrow> ('d, 'k, 's, 'y) proc_state \<Rightarrow> session_record list avix_result" where
  "ph_list_sessions env username st = sm_list_sessions (px_sdb env) (px_scodec env) username (ph_sess st)"

definition ph_get_session ::
  "('d, 'k, 's, 'y) proc_env \<Rightarrow> string \<Rightarrow> ('d, 'k, 's, 'y) proc_state \<Rightarrow> session_record option avix_result" where
  "ph_get_session env sid st = sm_get_session (px_sdb env) (px_scodec env) sid (ph_sess st)"

definition ph_delete_session ::
  "('d, 'k, 's, 'y) proc_env \<Rightarrow> string \<Rightarrow> ('d, 'k, 's, 'y) proc_state \<Rightarrow>
   unit avix_result \<times> ('d, 'k, 's, 'y) proc_state" where
  "ph_delete_session env sid st =
     (case ph_sess st of
        None \<Rightarrow> (Inl (NotFound ''session store not configured''), st)
      | Some d \<Rightarrow> (let (res, d') = ss_delete (px_sdb env) sid d in (res, st\<lparr> ph_sess := Some d' \<rparr>)))"

fun session_status_debug :: "session_status \<Rightarrow> string" where
  "session_status_debug SessRunning = ''Running''"
| "session_status_debug SessIdle = ''Idle''"
| "session_status_debug SessPaused = ''Paused''"
| "session_status_debug SessCompleted = ''Completed''"
| "session_status_debug SessFailed = ''Failed''"
| "session_status_debug SessArchived = ''Archived''"

definition resume_session ::
  "('d, 'k, 's, 'y) proc_env \<Rightarrow> (nat \<Rightarrow> datetime) \<Rightarrow> pid \<Rightarrow> string \<Rightarrow> string \<Rightarrow> string \<Rightarrow> string option \<Rightarrow>
   ('d, 'k, 's, 'y) proc_state \<Rightarrow> u64 avix_result \<times> ('d, 'k, 's, 'y) proc_state" where
  "resume_session env now gen suuid iuuid sid input st =
     (case ph_sess st of
        None \<Rightarrow> (Inl (NotFound ''session store not configured''), st)
      | Some d \<Rightarrow>
          (case ss_get (px_sdb env) (px_scodec env) sid d of
             Inl e \<Rightarrow> (Inl e, st)
           | Inr None \<Rightarrow> (Inl (NotFound (''session '' @ sid @ '' not found'')), st)
           | Inr (Some session) \<Rightarrow>
               if \<not> List.member [SessIdle, SessRunning, SessPaused] (sr_status session)
               then (Inl (InvalidInput (''session '' @ sid @ '' is not Idle, Running, or Paused (status: ''
                            @ session_status_debug (sr_status session) @ '')'')), st)
               else ph_spawn env now gen suuid iuuid (sr_primary_agent session)
                      (unwrap_or (sr_goal session) input) sid [] (sr_username session) None st))"

definition ph_remove_agent_record ::
  "('d, 'k, 's, 'y) proc_env \<Rightarrow> u64 \<Rightarrow> ('d, 'k, 's, 'y) proc_state \<Rightarrow>
   unit avix_result \<times> ('d, 'k, 's, 'y) proc_state" where
  "ph_remove_agent_record env p st =
     (let (res, y) = remove_agent_record env p (ph_yaml st) in (res, st\<lparr> ph_yaml := y \<rparr>))"

section \<open>Construction\<close>

text \<open>
  \<^verbatim>\<open>ProcHandler::new_with_factory\<close> and the builders.  A builder that replaces a store makes
  a new agent manager, so the manager's map of abort handles starts empty again.
\<close>

definition ph_new_with_factory ::
  "string \<Rightarrow> string \<Rightarrow> 'y \<Rightarrow> ('d, 'k, 's, 'y) proc_state" where
  "ph_new_with_factory key runtime_dir y =
     \<lparr> ph_table = [], ph_channels = sc_new, ph_active_inv = [], ph_active_sess = [], ph_inv = None, ph_sess = None,
       ph_master_key = key, ph_runtime_dir = runtime_dir, ph_factory = True, ph_scanner = None,
       ph_tools = None, ph_handles = [], ph_own_handles = [], ph_launched = [], ph_aborted = [], ph_yaml = y \<rparr>"

definition ph_with_signal_channels :: "signal_channel_registry \<Rightarrow> ('d, 'k, 's, 'y) ph_op" where
  "ph_with_signal_channels ch st = st\<lparr> ph_channels := ch \<rparr>"

definition ph_with_invocation_store :: "('d, 'k) inv_store \<Rightarrow> ('d, 'k, 's, 'y) ph_op" where
  "ph_with_invocation_store s st = st\<lparr> ph_inv := Some s, ph_handles := [] \<rparr>"

definition ph_with_manifest_scanner ::
  "(string \<Rightarrow> string \<Rightarrow> string list option) \<Rightarrow> ('d, 'k, 's, 'y) ph_op" where
  "ph_with_manifest_scanner scanner st = st\<lparr> ph_scanner := Some scanner, ph_handles := [] \<rparr>"

definition ph_with_session_store :: "'s \<Rightarrow> ('d, 'k, 's, 'y) ph_op" where
  "ph_with_session_store s st = st\<lparr> ph_sess := Some s, ph_handles := [] \<rparr>"

definition ph_set_tool_registry :: "tool_registry \<Rightarrow> ('d, 'k, 's, 'y) ph_op" where
  "ph_set_tool_registry tr st = st\<lparr> ph_tools := Some tr \<rparr>"

section \<open>What each step touches\<close>

named_theorems ph_frame \<open>the steps of the handler as updates of single fields\<close>

definition tbl_status :: "u64 \<Rightarrow> process_status \<Rightarrow> process_table \<Rightarrow> process_table" where
  "tbl_status p status t = (case pt_set_status (Pid p) status t of Inl _ \<Rightarrow> t | Inr t' \<Rightarrow> t')"

definition inv_set ::
  "('d, 'k) inv_env \<Rightarrow> string option \<Rightarrow> invocation_status \<Rightarrow> ('d, 'k) inv_store option \<Rightarrow> ('d, 'k) inv_store option" where
  "inv_set env iid status s =
     (case (iid, s) of (Some i, Some is) \<Rightarrow> Some (snd (is_update_status env i status is)) | _ \<Rightarrow> s)"

definition chan_deliver :: "signal_kind \<Rightarrow> json \<Rightarrow> u64 \<Rightarrow> signal_channel_registry \<Rightarrow> signal_channel_registry" where
  "chan_deliver kind payload p ch =
     snd (sc_send (Pid p) \<lparr> sig_target = Pid p, sig_kind = kind, sig_payload = payload \<rparr> ch)"

lemma ph_set_status_frame [ph_frame]: "ph_set_status p s st = st\<lparr> ph_table := tbl_status p s (ph_table st) \<rparr>"
  by (auto simp: ph_set_status_def tbl_status_def split: sum.splits)

lemma ph_inv_status_frame [ph_frame]:
  "ph_inv_status env p s st = st\<lparr> ph_inv := inv_set (px_inv env) (hm_get (ph_active_inv st) p) s (ph_inv st) \<rparr>"
  by (auto simp: ph_inv_status_def inv_set_def split: option.splits)

lemma deliver_to_frame [ph_frame]:
  "snd (deliver_to p kind payload st) = st\<lparr> ph_channels := chan_deliver kind payload p (ph_channels st) \<rparr>"
  by (simp add: deliver_to_def chan_deliver_def Let_def split: prod.splits)

lemma broadcast_to_frame [ph_frame]:
  "broadcast_to ps kind payload st = st\<lparr> ph_channels := fold (chan_deliver kind payload) ps (ph_channels st) \<rparr>"
  by (induction ps arbitrary: st) (auto simp: broadcast_to_def ph_frame)

lemma status_fold_frame:
  "fold (\<lambda>q st. ph_inv_status env q istat (ph_set_status q pstat st)) ps st =
   st\<lparr> ph_table := fold (\<lambda>q. tbl_status q pstat) ps (ph_table st),
       ph_inv := fold (\<lambda>q. inv_set (px_inv env) (hm_get (ph_active_inv st) q) istat) ps (ph_inv st) \<rparr>"
  by (induction ps arbitrary: st) (auto simp: ph_frame)

lemma cascade_frame [ph_frame]:
  "cascade env kind pstat istat others st =
   st\<lparr> ph_table := fold (\<lambda>q. tbl_status q pstat) others (ph_table st),
       ph_inv := fold (\<lambda>q. inv_set (px_inv env) (hm_get (ph_active_inv st) q) istat) others (ph_inv st),
       ph_channels := fold (chan_deliver kind JNull) others (ph_channels st) \<rparr>"
  by (simp add: cascade_def status_fold_frame broadcast_to_frame)

lemma session_of_cong [simp]:
  "session_of env p (st\<lparr> ph_table := t \<rparr>) = session_of env p st"
  "session_of env p (st\<lparr> ph_inv := i \<rparr>) = session_of env p st"
  "session_of env p (st\<lparr> ph_channels := c \<rparr>) = session_of env p st"
  by (simp_all add: session_of_def)

definition pstat_of :: "process_table \<Rightarrow> u64 \<Rightarrow> process_status option" where
  "pstat_of t q = map_option pe_status (hm_get t q)"

lemma pstat_of_tbl_status:
  "pstat_of (tbl_status p s t) q = (if q = p then map_option (\<lambda>_. s) (pstat_of t q) else pstat_of t q)"
  by (auto simp: pstat_of_def tbl_status_def pt_set_status_def pt_update_def split: option.splits)

lemma pstat_of_fold:
  "pstat_of (fold (\<lambda>q. tbl_status q s) ps t) q =
     (if q \<in> set ps then map_option (\<lambda>_. s) (pstat_of t q) else pstat_of t q)"
  by (induction ps arbitrary: t) (auto simp: pstat_of_tbl_status option.map_comp comp_def)

lemma tbl_status_get:
  "hm_get (tbl_status p s t) q = (if q = p then map_option (\<lambda>e. e\<lparr> pe_status := s \<rparr>) (hm_get t q) else hm_get t q)"
  by (auto simp: tbl_status_def pt_set_status_def pt_update_def split: option.splits)

section \<open>The stores as maps\<close>

definition proc_lawful ::
  "('d, 'k, 's, 'y) proc_env \<Rightarrow> ('d \<Rightarrow> string \<Rightarrow> string \<Rightarrow> string option) \<Rightarrow>
   ('s \<Rightarrow> string \<Rightarrow> string \<Rightarrow> string option) \<Rightarrow> bool" where
  "proc_lawful env iview sview \<longleftrightarrow>
     inv_lawful (px_inv env) iview \<and> redb_lawful (px_sdb env) sview \<and> codec_lawful (px_scodec env)"

definition proc_reliable :: "('d, 'k, 's, 'y) proc_env \<Rightarrow> bool" where
  "proc_reliable env \<longleftrightarrow>
     redb_reliable (ie_db (px_inv env)) \<and> codec_total (ie_codec (px_inv env)) \<and>
     redb_reliable (px_sdb env) \<and> codec_total (px_scodec env)"

definition inv_map ::
  "('d, 'k) inv_env \<Rightarrow> ('d \<Rightarrow> string \<Rightarrow> string \<Rightarrow> string option) \<Rightarrow> ('d, 'k) inv_store option \<Rightarrow>
   string \<Rightarrow> invocation_record option" where
  "inv_map env iview s i = (case s of None \<Rightarrow> None | Some is \<Rightarrow> inv_abs env iview is i)"

definition sess_map ::
  "('d, 'k, 's, 'y) proc_env \<Rightarrow> ('s \<Rightarrow> string \<Rightarrow> string \<Rightarrow> string option) \<Rightarrow> 's option \<Rightarrow> string \<Rightarrow> session_record option" where
  "sess_map env sview s i = (case s of None \<Rightarrow> None | Some d \<Rightarrow> typed (px_scodec env) (sview d sessions_table) i)"

lemma inv_modify_elsewhere:
  assumes "inv_lawful env iview" and "j \<noteq> i"
  shows "inv_abs env iview (snd (is_modify env i f s)) j = inv_abs env iview s j"
  using is_modify_refines [OF assms(1), of i f s "fst (is_modify env i f s)" "snd (is_modify env i f s)"] assms(2)
  by auto

lemma inv_set_elsewhere:
  "inv_lawful env iview \<Longrightarrow> iid \<noteq> Some j \<Longrightarrow> inv_map env iview (inv_set env iid st s) j = inv_map env iview s j"
  by (cases iid; cases s) (auto simp: inv_set_def inv_map_def is_update_status_def inv_modify_elsewhere)

lemma proc_reliableD:
  assumes "proc_reliable env"
  shows "redb_reliable (ie_db (px_inv env))" "codec_total (ie_codec (px_inv env))"
    "redb_reliable (px_sdb env)" "codec_total (px_scodec env)"
  using assms by (simp_all add: proc_reliable_def)

lemma rd_get_reliable: "redb_reliable db \<Longrightarrow> \<exists>v. rd_get db d t k = Inr v"
  by (simp add: redb_reliable_def)

lemma is_get_reliable:
  assumes "inv_lawful env iview" and "redb_reliable (ie_db env)"
  shows "(\<exists>e. is_get env i s = Inl e) \<and> inv_abs env iview s i = None
    \<or> is_get env i s = Inr (inv_abs env iview s i)"
proof -
  obtain v where v: "rd_get (ie_db env) (is_db s) invocations_table i = Inr v"
    using rd_get_reliable [OF assms(2)] by fast
  have view: "iview (is_db s) invocations_table i = v"
    by (rule redb_lawfulD(1) [OF _ v]) (use assms(1) in \<open>simp add: inv_lawful_def\<close>)
  show ?thesis
  proof (cases v)
    case None
    then show ?thesis using v view by (simp add: is_get_def tbl_get_def inv_abs_def typed_def)
  next
    case (Some json)
    then show ?thesis
      using v view by (cases "dec (ie_codec env) json") (simp_all add: is_get_def tbl_get_def inv_abs_def typed_def)
  qed
qed

lemma inv_modify_reliable:
  assumes "inv_lawful env iview" and "redb_reliable (ie_db env)" and "codec_total (ie_codec env)"
  shows "inv_abs env iview (snd (is_modify env i f s)) =
    (inv_abs env iview s)(i := map_option f (inv_abs env iview s i))"
  using is_get_reliable [OF assms(1,2), of i s]
proof
  assume "(\<exists>e. is_get env i s = Inl e) \<and> inv_abs env iview s i = None"
  then show ?thesis by (auto simp: is_modify_def fun_upd_idem)
next
  assume get: "is_get env i s = Inr (inv_abs env iview s i)"
  have "fst (is_modify env i f s) = Inr ()"
  proof (cases "inv_abs env iview s i")
    case (Some r)
    obtain d where "tbl_put (ie_db env) (ie_codec env) invocations_table i (f r) (is_db s) = (Inr (), d)"
      using tbl_reliable [OF assms(2,3)] by blast
    then show ?thesis using get Some by (simp add: is_modify_def is_put_def)
  qed (use get in \<open>simp add: is_modify_def\<close>)
  then have "is_modify env i f s = (Inr (), snd (is_modify env i f s))" by (metis prod.collapse)
  from is_modify_refines [OF assms(1) this] show ?thesis by simp
qed

lemma inv_set_reliable:
  assumes "inv_lawful env iview" and "redb_reliable (ie_db env)" and "codec_total (ie_codec env)"
  shows "inv_map env iview (inv_set env iid st s) j =
    (if iid = Some j then map_option (\<lambda>r. r\<lparr> ir_status := st \<rparr>) (inv_map env iview s j) else inv_map env iview s j)"
  using inv_modify_reliable [OF assms]
  by (cases iid; cases s) (auto simp: inv_set_def inv_map_def is_update_status_def)

lemma inv_set_fold:
  assumes "inv_lawful env iview" and "redb_reliable (ie_db env)" and "codec_total (ie_codec env)"
  shows "inv_map env iview (fold (\<lambda>q. inv_set env (hm_get m q) st) ps s) j =
    (if \<exists>q\<in>set ps. hm_get m q = Some j then map_option (\<lambda>r. r\<lparr> ir_status := st \<rparr>) (inv_map env iview s j)
     else inv_map env iview s j)"
proof (induction ps arbitrary: s)
  case (Cons p ps)
  then show ?case
    by (auto simp: inv_set_reliable [OF assms] option.map_comp comp_def)
qed simp

lemma inv_set_fold_elsewhere:
  "inv_lawful env iview \<Longrightarrow> (\<forall>q\<in>set ps. hm_get m q \<noteq> Some j) \<Longrightarrow>
   inv_map env iview (fold (\<lambda>q. inv_set env (hm_get m q) st) ps s) j = inv_map env iview s j"
  by (induction ps arbitrary: s) (auto simp: inv_set_elsewhere)

lemma ss_update_reliable:
  assumes "proc_lawful env iview sview" and "proc_reliable env"
  shows "sess_map env sview (Some (snd (ss_update (px_sdb env) (px_scodec env) r d))) =
    (sess_map env sview (Some d))(sr_id r := Some r)"
proof -
  obtain d' where d': "tbl_put (px_sdb env) (px_scodec env) sessions_table (sr_id r) r d = (Inr (), d')"
    using tbl_reliable [OF proc_reliableD(3,4) [OF assms(2)]] by fast
  then show ?thesis
    using tbl_put_Ok(1) [OF _ _ d'] assms(1) by (auto simp: sess_map_def ss_update_def proc_lawful_def)
qed

lemma session_of_Some:
  assumes "proc_lawful env iview sview" and "session_of env p st = Some (session, d)"
  shows "ph_sess st = Some d \<and> (\<exists>sid uuid. hm_get (ph_active_sess st) p = Some sid \<and> px_uuid env sid = Inr uuid \<and>
    sess_map env sview (Some d) uuid = Some session)"
  using assms tbl_get_Ok [of "px_sdb env" sview "px_scodec env" sessions_table]
  unfolding proc_lawful_def session_of_def ss_get_def sess_map_def
  by (auto split: option.splits sum.splits)

lemma session_of_reliable:
  assumes "proc_lawful env iview sview" and "proc_reliable env" and "ph_sess st = Some d"
    and "hm_get (ph_active_sess st) p = Some sid" and "px_uuid env sid = Inr uuid"
    and "sess_map env sview (Some d) uuid = Some session"
  shows "session_of env p st = Some (session, d)"
proof -
  obtain v where v: "rd_get (px_sdb env) d sessions_table uuid = Inr v"
    using rd_get_reliable [OF proc_reliableD(3) [OF assms(2)]] by fast
  have "sview d sessions_table uuid = v"
    by (rule redb_lawfulD(1) [OF _ v]) (use assms(1) in \<open>simp add: proc_lawful_def\<close>)
  then show ?thesis
    using v assms(3-6)
    by (auto simp: session_of_def ss_get_def tbl_get_def sess_map_def typed_def split: option.splits sum.splits)
qed

section \<open>Pausing and resuming a session\<close>

text \<open>
  The state in which every process of \<open>ps\<close> has a given status, in the process table and in its
  invocation record, as reached from \<open>st\<close>; nothing else differs but the channels and the
  session record.
\<close>

definition put_in_state ::
  "('d, 'k, 's, 'y) proc_env \<Rightarrow> ('d \<Rightarrow> string \<Rightarrow> string \<Rightarrow> string option) \<Rightarrow> u64 set \<Rightarrow> process_status \<Rightarrow>
   invocation_status \<Rightarrow> ('d, 'k, 's, 'y) proc_state \<Rightarrow> ('d, 'k, 's, 'y) proc_state \<Rightarrow> bool" where
  "put_in_state env iview ps pstat istat st st' \<longleftrightarrow>
     (\<forall>q. pstat_of (ph_table st') q =
        (if q \<in> ps then map_option (\<lambda>_. pstat) (pstat_of (ph_table st) q) else pstat_of (ph_table st) q)) \<and>
     (\<forall>i. inv_map (px_inv env) iview (ph_inv st') i =
        (if \<exists>q\<in>ps. hm_get (ph_active_inv st) q = Some i
         then map_option (\<lambda>r. r\<lparr> ir_status := istat \<rparr>) (inv_map (px_inv env) iview (ph_inv st) i)
         else inv_map (px_inv env) iview (ph_inv st) i)) \<and>
     ph_active_inv st' = ph_active_inv st \<and> ph_active_sess st' = ph_active_sess st"

lemma put_in_state_trans:
  "put_in_state env iview ps p1 i1 st st1 \<Longrightarrow> put_in_state env iview ps p2 i2 st1 st2 \<Longrightarrow>
   put_in_state env iview ps p2 i2 st st2"
  by (auto simp: put_in_state_def option.map_comp comp_def)

text \<open>The steps pause and resume share: the process itself, then the others of its session.\<close>

lemma put_in_state_steps:
  assumes "proc_lawful env iview sview" and "proc_reliable env" and "ps = insert p (set others)"
  shows "put_in_state env iview ps pstat istat st
    (ph_update_session env session d
      (cascade env kind pstat istat others
        (snd (deliver_to p kind JNull (ph_inv_status env p istat (ph_set_status p pstat st))))))"
proof -
  have law: "inv_lawful (px_inv env) iview" using assms(1) by (simp add: proc_lawful_def)
  note rel = proc_reliableD(1,2) [OF assms(2)]
  show ?thesis
    unfolding assms(3)
    by (auto simp: put_in_state_def ph_update_session_def ph_frame pstat_of_fold pstat_of_tbl_status
        inv_set_fold [OF law rel] inv_set_reliable [OF law rel] option.map_comp comp_def)
qed

lemma pause_owner:
  assumes "proc_lawful env iview sview" and "proc_reliable env"
    and "session_of env p st = Some (session, d)" and "p = sr_owner_pid session"
  shows "put_in_state env iview (insert p (set (sr_pids session))) PsPaused InvPaused st (pause_agent env now p st)"
    and "ph_sess (pause_agent env now p st) =
      Some (snd (ss_update (px_sdb env) (px_scodec env) (sr_mark_paused now session) d))"
proof -
  have eq: "pause_agent env now p st = ph_update_session env (sr_mark_paused now session) d
      (cascade env SigPause PsPaused InvPaused (filter (\<lambda>q. q \<noteq> p) (sr_pids session))
        (snd (deliver_to p SigPause JNull (ph_inv_status env p InvPaused (ph_set_status p PsPaused st)))))"
    using assms(3,4) by (simp add: pause_agent_def ph_frame)
  show "put_in_state env iview (insert p (set (sr_pids session))) PsPaused InvPaused st (pause_agent env now p st)"
    unfolding eq by (rule put_in_state_steps [OF assms(1,2)]) auto
  show "ph_sess (pause_agent env now p st) =
      Some (snd (ss_update (px_sdb env) (px_scodec env) (sr_mark_paused now session) d))"
    unfolding eq by (simp add: ph_update_session_def)
qed

lemma resume_paused:
  assumes "proc_lawful env iview sview" and "proc_reliable env"
    and "session_of env q st = Some (session, d)" and "sr_status session = SessPaused"
  shows "put_in_state env iview (insert q (set (sr_pids session))) PsRunning InvRunning st (resume_agent env now q st)"
    and "ph_sess (resume_agent env now q st) =
      Some (snd (ss_update (px_sdb env) (px_scodec env) (sr_mark_running now session) d))"
proof -
  have eq: "resume_agent env now q st = ph_update_session env (sr_mark_running now session) d
      (cascade env SigResume PsRunning InvRunning (filter (\<lambda>r. r \<noteq> q) (sr_pids session))
        (snd (deliver_to q SigResume JNull (ph_inv_status env q InvRunning (ph_set_status q PsRunning st)))))"
    using assms(3,4) by (simp add: resume_agent_def ph_frame)
  show "put_in_state env iview (insert q (set (sr_pids session))) PsRunning InvRunning st (resume_agent env now q st)"
    unfolding eq by (rule put_in_state_steps [OF assms(1,2)]) auto
  show "ph_sess (resume_agent env now q st) =
      Some (snd (ss_update (px_sdb env) (px_scodec env) (sr_mark_running now session) d))"
    unfolding eq by (simp add: ph_update_session_def)
qed

text \<open>
  Pausing a session by its owner and resuming it by any of its processes are inverse.  With
  stores that work, after the owner is paused every process of the session is paused, in the
  process table and in its invocation record, and so is the session; a later resume of any
  process of the session, the owner or not, puts all of them and the session back to running, and
  neither operation touches another process or another invocation, nor which agents are active.
\<close>

theorem session_pause_resume:
  assumes "proc_lawful env iview sview" and "proc_reliable env"
    and "session_of env p st = Some (session, d)" and "p = sr_owner_pid session" and "p \<in> set (sr_pids session)"
    and "hm_get (ph_active_sess st) p = Some sid" and "px_uuid env sid = Inr (sr_id session)"
    and "q \<in> set (sr_pids session)" and "hm_get (ph_active_sess st) q = Some sid"
  shows "put_in_state env iview (set (sr_pids session)) PsPaused InvPaused st (pause_agent env t1 p st) \<and>
    sess_map env sview (ph_sess (pause_agent env t1 p st)) (sr_id session) = Some (sr_mark_paused t1 session) \<and>
    put_in_state env iview (set (sr_pids session)) PsRunning InvRunning st
      (resume_agent env t2 q (pause_agent env t1 p st)) \<and>
    sess_map env sview (ph_sess (resume_agent env t2 q (pause_agent env t1 p st))) (sr_id session)
      = Some (sr_mark_running t2 (sr_mark_paused t1 session))"
proof -
  let ?st1 = "pause_agent env t1 p st" and ?s1 = "sr_mark_paused t1 session"
  let ?d1 = "snd (ss_update (px_sdb env) (px_scodec env) ?s1 d)"
  note pause = pause_owner [OF assms(1-4), of t1]
  have ins: "insert p (set (sr_pids session)) = set (sr_pids session)"
    "insert q (set (sr_pids session)) = set (sr_pids session)" using assms(5,8) by auto
  have m1: "sess_map env sview (Some ?d1) (sr_id session) = Some ?s1"
    using ss_update_reliable [OF assms(1,2), of ?s1 d] by (simp add: sr_mark_paused_def)
  have act: "hm_get (ph_active_sess ?st1) q = Some sid" using pause(1) assms(9) by (simp add: put_in_state_def)
  have so: "session_of env q ?st1 = Some (?s1, ?d1)"
    by (rule session_of_reliable [OF assms(1,2) pause(2) act assms(7) m1])
  have resume: "put_in_state env iview (set (sr_pids session)) PsRunning InvRunning ?st1 (resume_agent env t2 q ?st1)"
    "ph_sess (resume_agent env t2 q ?st1) =
      Some (snd (ss_update (px_sdb env) (px_scodec env) (sr_mark_running t2 ?s1) ?d1))"
    using resume_paused [OF assms(1,2) so, of t2] ins by (simp_all add: sr_mark_paused_def)
  show ?thesis
    using pause(1) put_in_state_trans [OF pause(1) [unfolded ins] resume(1)] m1 pause(2) resume(2)
      ss_update_reliable [OF assms(1,2), of "sr_mark_running t2 ?s1" ?d1]
    unfolding ins by (simp add: sr_mark_running_def sr_mark_paused_def)
qed

section \<open>Consistency of the handler's state\<close>

datatype ph_event =
  PhPause datetime u64
| PhResume datetime u64
| PhAbort "nat \<Rightarrow> datetime" u64
| PhSignal datetime u64 string json
| PhSpawn "nat \<Rightarrow> datetime" pid string string string string string string string "u64 option"
| PhRestore "nat \<Rightarrow> datetime" invocation_record
| PhResumeSession "nat \<Rightarrow> datetime" pid string string string "string option"
| PhDeleteSession string
| PhSnapshot string

fun ph_step :: "('d, 'k, 's, 'y) proc_env \<Rightarrow> ('d, 'k, 's, 'y) proc_state \<Rightarrow> ph_event \<Rightarrow> ('d, 'k, 's, 'y) proc_state" where
  "ph_step env st (PhPause now p) = pause_agent env now p st"
| "ph_step env st (PhResume now p) = resume_agent env now p st"
| "ph_step env st (PhAbort now p) = ph_abort_agent env now p st"
| "ph_step env st (PhSignal now p name payload) = snd (send_signal env now p name payload st)"
| "ph_step env st (PhSpawn now gen su iu name goal sid atp caller parent) =
     snd (ph_spawn env now gen su iu name goal sid atp caller parent st)"
| "ph_step env st (PhRestore now r) = snd (restore_from_invocation env now r st)"
| "ph_step env st (PhResumeSession now gen su iu sid input) = snd (resume_session env now gen su iu sid input st)"
| "ph_step env st (PhDeleteSession sid) = snd (ph_delete_session env sid st)"
| "ph_step env st (PhSnapshot iid) = snd (ph_snapshot_invocation env iid st)"

lemma tbl_status_dom: "hm_get (tbl_status p s t) q = None \<longleftrightarrow> hm_get t q = None"
  by (auto simp: tbl_status_get)

lemma tbl_status_fold_dom: "hm_get (fold (\<lambda>q. tbl_status q s) ps t) q = None \<longleftrightarrow> hm_get t q = None"
  by (induction ps arbitrary: t) (auto simp: tbl_status_dom)

text \<open>What the signals leave alone.\<close>

definition same_agents :: "('d, 'k, 's, 'y) proc_state \<Rightarrow> ('d, 'k, 's, 'y) proc_state \<Rightarrow> bool" where
  "same_agents st st' \<longleftrightarrow>
     ph_active_inv st' = ph_active_inv st \<and> ph_active_sess st' = ph_active_sess st \<and>
     ph_handles st' = ph_handles st \<and> ph_own_handles st' = ph_own_handles st \<and>
     ph_launched st' = ph_launched st \<and> ph_aborted st' = ph_aborted st \<and>
     (\<forall>q. hm_get (ph_table st') q = None \<longleftrightarrow> hm_get (ph_table st) q = None)"

lemma same_agents_trans: "same_agents a b \<Longrightarrow> same_agents b c \<Longrightarrow> same_agents a c"
  by (simp add: same_agents_def)

lemma pause_same_agents: "same_agents st (pause_agent env now p st)"
  by (auto simp: same_agents_def pause_agent_def Let_def ph_frame ph_update_session_def tbl_status_dom tbl_status_fold_dom
      split: option.splits)

lemma resume_same_agents: "same_agents st (resume_agent env now p st)"
  by (auto simp: same_agents_def resume_agent_def Let_def ph_frame ph_update_session_def tbl_status_dom tbl_status_fold_dom
      split: option.splits)

lemma deliver_same_agents: "deliver_to p kind payload st = (b, st') \<Longrightarrow> same_agents st st'"
  using deliver_to_frame [of p kind payload st] by (auto simp: same_agents_def)

lemma same_agents_refl [simp]: "same_agents st st"
  by (simp add: same_agents_def)

lemma send_signal_same_agents: "same_agents st (snd (send_signal env now p name payload st))"
proof -
  consider "name = ''SIGPAUSE''" | "name = ''SIGRESUME''" | "name \<noteq> ''SIGPAUSE''" "name \<noteq> ''SIGRESUME''" by blast
  then show ?thesis
  proof cases
    case 3
    show ?thesis
    proof (cases "signal_of_name name")
      case (Some kind)
      obtain b st' where d: "deliver_to p kind payload st = (b, st')" by (cases "deliver_to p kind payload st")
      then show ?thesis using 3 Some deliver_same_agents [OF d] by (cases b) (simp_all add: send_signal_def)
    qed (use 3 in \<open>simp add: send_signal_def\<close>)
  qed (simp_all add: send_signal_def pause_same_agents resume_same_agents)
qed

lemma modify_session_same_agents: "same_agents st (ph_modify_session env u f st)"
  by (auto simp: same_agents_def ph_modify_session_def ph_update_session_def split: option.splits sum.splits)

lemma modify_session_fields [simp]:
  "ph_table (ph_modify_session env u f st) = ph_table st"
  "ph_inv (ph_modify_session env u f st) = ph_inv st"
  "ph_factory (ph_modify_session env u f st) = ph_factory st"
  "ph_scanner (ph_modify_session env u f st) = ph_scanner st"
  "ph_tools (ph_modify_session env u f st) = ph_tools st"
  "ph_master_key (ph_modify_session env u f st) = ph_master_key st"
  "ph_active_inv (ph_modify_session env u f st) = ph_active_inv st"
  "ph_active_sess (ph_modify_session env u f st) = ph_active_sess st"
  "ph_handles (ph_modify_session env u f st) = ph_handles st"
  "ph_own_handles (ph_modify_session env u f st) = ph_own_handles st"
  "ph_launched (ph_modify_session env u f st) = ph_launched st"
  "ph_aborted (ph_modify_session env u f st) = ph_aborted st"
  by (auto simp: ph_modify_session_def ph_update_session_def split: option.splits sum.splits)

lemma modify_named_cases: "ph_modify_named env sid f st = st \<or> (\<exists>u. ph_modify_named env sid f st = ph_modify_session env u f st)"
  by (auto simp: ph_modify_named_def split: sum.splits)

lemma modify_named_fields [simp]:
  "ph_table (ph_modify_named env u f st) = ph_table st"
  "ph_inv (ph_modify_named env u f st) = ph_inv st"
  "ph_factory (ph_modify_named env u f st) = ph_factory st"
  "ph_scanner (ph_modify_named env u f st) = ph_scanner st"
  "ph_tools (ph_modify_named env u f st) = ph_tools st"
  "ph_master_key (ph_modify_named env u f st) = ph_master_key st"
  "ph_active_inv (ph_modify_named env u f st) = ph_active_inv st"
  "ph_active_sess (ph_modify_named env u f st) = ph_active_sess st"
  "ph_handles (ph_modify_named env u f st) = ph_handles st"
  "ph_own_handles (ph_modify_named env u f st) = ph_own_handles st"
  "ph_launched (ph_modify_named env u f st) = ph_launched st"
  "ph_aborted (ph_modify_named env u f st) = ph_aborted st"
  using modify_named_cases [of env u f st] by auto

lemma effective_session_fields:
  assumes "effective_session env now su name goal sid caller p parent st = (res, st')"
  shows "ph_table st' = ph_table st" "ph_inv st' = ph_inv st" "ph_factory st' = ph_factory st"
    "ph_scanner st' = ph_scanner st" "ph_tools st' = ph_tools st" "ph_master_key st' = ph_master_key st"
    "ph_active_inv st' = ph_active_inv st" "ph_active_sess st' = ph_active_sess st"
    "ph_handles st' = ph_handles st" "ph_own_handles st' = ph_own_handles st"
    "ph_launched st' = ph_launched st" "ph_aborted st' = ph_aborted st"
  using assms
  by (auto simp: effective_session_def resolve_session_from_id_def Let_def split: option.splits sum.splits if_splits)

section \<open>What a spawn leaves behind\<close>

lemma set_status_inserted:
  "pid_u64 (pe_pid e) = p \<Longrightarrow>
   pt_set_status (Pid p) s (pt_insert e t) = Inr (tbl_status p s (pt_insert e t))"
  by (simp add: tbl_status_def pt_set_status_def pt_update_def pt_insert_def)

lemma agent_entry_pid [simp]: "pe_pid (agent_entry a b p name status parent caller goal) = Pid p"
  by (simp add: agent_entry_def)

text \<open>The task of a spawned agent, apart from its runtime directory and gateway session.\<close>

definition spawned_task ::
  "('d, 'k, 's, 'y) proc_env \<Rightarrow> ('d, 'k, 's, 'y) proc_state \<Rightarrow> datetime \<Rightarrow> u64 \<Rightarrow> string \<Rightarrow> string \<Rightarrow> string \<Rightarrow> string \<Rightarrow>
   string \<Rightarrow> spawn_params \<Rightarrow> bool" where
  "spawned_task env st t p name goal caller sid iu sp \<longleftrightarrow>
     sp_pid sp = Pid p \<and> sp_agent_name sp = name \<and> sp_goal sp = goal \<and> sp_spawned_by sp = caller \<and>
     sp_session_id sp = sid \<and> sp_invocation_id sp = iu \<and> sp_restore_from_pid sp = None \<and>
     sp_token sp = mint (px_hmac env) t (resolve_granted_tools (ph_scanner st) (ph_tools st) name caller)
       (Some \<lparr> it_pid = p, it_agent_name = name, it_spawned_by = caller \<rparr>) 3600 (ph_master_key st)"

lemma am_spawn_cases:
  assumes "am_spawn env now gen su iu name goal sid0 atp caller parent st = (res, st')"
  defines "p \<equiv> pid_u64 gen"
  obtains (failed) e where "effective_session env (now 0) su name goal sid0 caller p parent st = (Inl e, st')"
    and "res = Inl e"
  | (spawned) sid st1 where
    "effective_session env (now 0) su name goal sid0 caller p parent st = (Inr sid, st1)" and "res = Inr p"
    and "ph_table st' = tbl_status p PsRunning
           (pt_insert (agent_entry (now 1) (now 2) p name PsPending parent caller goal) (ph_table st))"
    and "ph_active_sess st' = hm_insert p sid (ph_active_sess st)"
    and "ph_active_inv st' = hm_insert p iu (ph_active_inv st)"
    and "ph_inv st' = map_option (\<lambda>s. snd (is_create (px_inv env)
           (invocation_record_new (now 4) iu name caller p goal sid) s)) (ph_inv st)"
    and "ph_handles st' = (if ph_factory st then hm_insert p (length (ph_launched st)) (ph_handles st) else ph_handles st)"
    and "if ph_factory st then \<exists>sp. spawned_task env st (now 7) p name goal caller sid iu sp \<and>
             ph_launched st' = ph_launched st @ [sp] else ph_launched st' = ph_launched st"
    and "ph_own_handles st' = ph_own_handles st" and "ph_aborted st' = ph_aborted st"
proof (cases "effective_session env (now 0) su name goal sid0 caller p parent st")
  case (Pair r st1)
  note fields = effective_session_fields [OF Pair]
  show thesis
  proof (cases r)
    case (Inl e)
    then show thesis using assms Pair failed by (simp add: am_spawn_def)
  next
    case (Inr sid)
    have eff: "effective_session env (now 0) su name goal sid0 caller p parent st = (Inr sid, st1)"
      using Pair Inr by simp
    obtain g where g: "gen = Pid g" by (cases gen)
    show thesis
      by (rule spawned [OF eff])
        (use assms(1) eff fields in
          \<open>auto simp: am_spawn_def Let_def p_def g launch_def set_status_inserted mint_for_def spawned_task_def
             split: option.splits if_splits\<close>)
  qed
qed

text \<open>
  C19. What a successful spawn establishes, and what it does not.  The new agent is in the process
  table as a running agent of its parent and caller, is active under its session and its fresh
  invocation, and, with an executor factory, exactly one task is launched for it whose token
  verifies under the kernel's key, names this agent as its holder and grants exactly the tools
  resolved from the manifest.  The process table, though, is not told of the grants: its entry
  starts with none and nothing sets them, so the router's capability check accepts for
  the new agent only the tools that every agent has, whatever the token grants.
\<close>

theorem spawn_effect:
  assumes "am_spawn env now gen su iu name goal sid0 atp caller parent st = (Inr p, st')"
  shows "p = pid_u64 gen \<and>
    (\<exists>e. pt_get (ph_table st') gen = Some e \<and> pe_status e = PsRunning \<and> pe_kind e = KindAgent \<and> pe_name e = name \<and>
       pe_parent e = map_option Pid parent \<and> pe_spawned_by_user e = caller \<and> pe_goal e = goal) \<and>
    hm_get (ph_active_inv st') p = Some iu \<and>
    (\<exists>sid. hm_get (ph_active_sess st') p = Some sid \<and>
       (if ph_factory st then
          \<exists>sp. ph_launched st' = ph_launched st @ [sp] \<and> hm_get (ph_handles st') p = Some (length (ph_launched st)) \<and>
            sp_pid sp = gen \<and> sp_session_id sp = sid \<and> sp_invocation_id sp = iu \<and>
            verify_signature (px_hmac env) (sp_token sp) (ph_master_key st) \<and>
            granted_tools (sp_token sp) = resolve_granted_tools (ph_scanner st) (ph_tools st) name caller \<and>
            issued_to_opt (sp_token sp) = Some \<lparr> it_pid = p, it_agent_name = name, it_spawned_by = caller \<rparr>
        else ph_launched st' = ph_launched st)) \<and>
    (\<forall>n. check_capability n gen (ph_table st') = Inr () \<longleftrightarrow> n \<in> set ALWAYS_PRESENT)"
  using assms
proof (cases rule: am_spawn_cases)
  case (spawned sid st1)
  obtain g where g: "gen = Pid g" by (cases gen)
  have entry: "pt_get (ph_table st') gen =
      Some (agent_entry (now 1) (now 2) p name PsRunning parent caller goal)"
    using spawned(2,3) by (simp add: pt_get_def tbl_status_get pt_insert_def agent_entry_def g)
  have auth: "authorised (ph_table st') n gen \<longleftrightarrow> n \<in> set ALWAYS_PRESENT" for n
    using entry by (simp add: authorised_def agent_entry_def process_entry_default_def)
  have tok: "granted_tools (mint h t tools i ttl key) = tools" "issued_to_opt (mint h t tools i ttl key) = i" for h t tools i ttl key
    by (simp_all add: mint_def Let_def)
  show ?thesis
    using spawned(2,4,5,7,8) entry auth g
    by (auto simp: spawned_task_def mint_verifies tok agent_entry_def split: if_splits)
qed simp

section \<open>What an abort leaves behind\<close>

lemma finalize_record_fields [simp]:
  "ph_table (finalize_record env now p i stt why st) = ph_table st"
  "ph_active_inv (finalize_record env now p i stt why st) = ph_active_inv st"
  "ph_active_sess (finalize_record env now p i stt why st) = ph_active_sess st"
  "ph_handles (finalize_record env now p i stt why st) = ph_handles st"
  "ph_own_handles (finalize_record env now p i stt why st) = ph_own_handles st"
  "ph_launched (finalize_record env now p i stt why st) = ph_launched st"
  "ph_aborted (finalize_record env now p i stt why st) = ph_aborted st"
  "ph_sess (finalize_record env now p i stt why st) = ph_sess st"
  by (simp_all add: finalize_record_def Let_def split: option.splits prod.splits)

lemma finalize_session_fields [simp]:
  "ph_table (finalize_session_for_pid env now p stt st) = ph_table st"
  "ph_inv (finalize_session_for_pid env now p stt st) = ph_inv st"
  "ph_active_inv (finalize_session_for_pid env now p stt st) = ph_active_inv st"
  "ph_active_sess (finalize_session_for_pid env now p stt st) = hm_remove p (ph_active_sess st)"
  "ph_handles (finalize_session_for_pid env now p stt st) = ph_handles st"
  "ph_own_handles (finalize_session_for_pid env now p stt st) = ph_own_handles st"
  "ph_launched (finalize_session_for_pid env now p stt st) = ph_launched st"
  "ph_aborted (finalize_session_for_pid env now p stt st) = ph_aborted st"
  by (simp_all add: finalize_session_for_pid_def ph_update_session_def Let_def split: option.splits prod.splits)

lemma am_abort_fields:
  "ph_table (am_abort_agent env now p st) = tbl_status p PsStopped (ph_table st)"
  "hm_get (ph_active_inv (am_abort_agent env now p st)) q = (if q = p then None else hm_get (ph_active_inv st) q)"
  "ph_active_sess (am_abort_agent env now p st) = ph_active_sess st"
  "hm_get (ph_handles (am_abort_agent env now p st)) q = (if q = p then None else hm_get (ph_handles st) q)"
  "ph_own_handles (am_abort_agent env now p st) = ph_own_handles st"
  "ph_launched (am_abort_agent env now p st) = ph_launched st"
  "ph_aborted (am_abort_agent env now p st) = ph_aborted st @ (case hm_get (ph_handles st) p of None \<Rightarrow> [] | Some h \<Rightarrow> [h])"
  "ph_inv (am_abort_agent env now p st) = (case hm_get (ph_active_inv st) p of None \<Rightarrow> ph_inv st
     | Some i \<Rightarrow> ph_inv (finalize_record env now p i InvKilled (Some ''killed'')
         (st\<lparr> ph_table := tbl_status p PsStopped (ph_table st) \<rparr>)))"
  by (auto simp: am_abort_agent_def am_finalize_invocation_def finalize_record_def Let_def ph_frame
      split: option.splits prod.splits)

lemma ph_finalize_none:
  assumes "hm_get (ph_active_inv st) p = None"
  shows "ph_finalize_invocation env now now' p stt why st =
    finalize_session_for_pid env now' p stt (st\<lparr> ph_active_inv := hm_remove p (ph_active_inv st) \<rparr>)"
  using assms by (simp add: ph_finalize_invocation_def)

lemma ph_abort_fields:
  assumes "ph_own_handles st = []" and "st' = ph_abort_agent env now p st"
  shows "ph_table st' = tbl_status p PsStopped (tbl_status p PsStopped (ph_table st))"
    and "hm_get (ph_active_inv st') q = (if q = p then None else hm_get (ph_active_inv st) q)"
    and "hm_get (ph_active_sess st') q = (if q = p then None else hm_get (ph_active_sess st) q)"
    and "hm_get (ph_handles st') q = (if q = p then None else hm_get (ph_handles st) q)"
    and "ph_own_handles st' = []" and "ph_launched st' = ph_launched st"
    and "ph_aborted st' = ph_aborted st @ (case hm_get (ph_handles st) p of None \<Rightarrow> [] | Some h \<Rightarrow> [h])"
    and "ph_inv st' = ph_inv (am_abort_agent env (now 0) p st)"
proof -
  let ?st1 = "am_abort_agent env (now 0) p st"
  have own: "ph_own_handles ?st1 = []" using assms(1) by (simp add: am_abort_fields)
  have none: "hm_get (ph_active_inv (ph_set_status p PsStopped ?st1)) p = None"
    by (simp add: ph_frame am_abort_fields)
  have eq: "st' = finalize_session_for_pid env (now 2) p InvKilled
      ((ph_set_status p PsStopped ?st1)\<lparr> ph_active_inv := hm_remove p (ph_active_inv (ph_set_status p PsStopped ?st1)) \<rparr>)"
    unfolding assms(2) ph_abort_agent_def Let_def using own none by (simp add: ph_finalize_none)
  show "ph_table st' = tbl_status p PsStopped (tbl_status p PsStopped (ph_table st))"
    "hm_get (ph_active_inv st') q = (if q = p then None else hm_get (ph_active_inv st) q)"
    "hm_get (ph_active_sess st') q = (if q = p then None else hm_get (ph_active_sess st) q)"
    "hm_get (ph_handles st') q = (if q = p then None else hm_get (ph_handles st) q)"
    "ph_own_handles st' = []" "ph_launched st' = ph_launched st"
    "ph_aborted st' = ph_aborted st @ (case hm_get (ph_handles st) p of None \<Rightarrow> [] | Some h \<Rightarrow> [h])"
    "ph_inv st' = ph_inv ?st1"
    using own unfolding eq by (simp_all add: ph_frame am_abort_fields)
qed

section \<open>The invariant\<close>

definition ph_wf :: "('d, 'k, 's, 'y) proc_state \<Rightarrow> bool" where
  "ph_wf st \<longleftrightarrow>
     (\<forall>p. hm_get (ph_active_inv st) p \<noteq> None \<longrightarrow> hm_get (ph_active_sess st) p \<noteq> None) \<and>
     (\<forall>p. hm_get (ph_active_sess st) p \<noteq> None \<longrightarrow> hm_get (ph_table st) p \<noteq> None) \<and>
     (\<forall>p h. hm_get (ph_handles st) p = Some h \<longrightarrow>
        h < length (ph_launched st) \<and> sp_pid (ph_launched st ! h) = Pid p \<and> h \<notin> set (ph_aborted st)) \<and>
     (\<forall>h\<in>set (ph_aborted st). h < length (ph_launched st)) \<and> ph_own_handles st = []"

lemma ph_wf_same_agents: "ph_wf st \<Longrightarrow> same_agents st st' \<Longrightarrow> ph_wf st'"
  by (simp add: ph_wf_def same_agents_def)

lemma ph_wf_abort:
  assumes "ph_wf st"
  shows "ph_wf (ph_abort_agent env now p st)"
proof -
  have own: "ph_own_handles st = []" using assms by (simp add: ph_wf_def)
  show ?thesis
    using assms unfolding ph_wf_def ph_abort_fields [OF own refl]
    by (auto simp: tbl_status_dom split: option.splits) (metis pid.inject)
qed

lemma ph_wf_add_agent:
  assumes "ph_wf st" and "\<And>q. hm_get (ph_table st') q = None \<longleftrightarrow> q \<noteq> p \<and> hm_get (ph_table st) q = None"
    and "ph_active_sess st' = hm_insert p sid (ph_active_sess st)"
    and "ph_active_inv st' = hm_insert p iid (ph_active_inv st)"
    and "ph_handles st' = hm_insert p (length (ph_launched st)) (ph_handles st) \<and>
      (\<exists>sp. ph_launched st' = ph_launched st @ [sp] \<and> sp_pid sp = Pid p)
      \<or> ph_handles st' = ph_handles st \<and> ph_launched st' = ph_launched st"
    and "ph_own_handles st' = ph_own_handles st" and "ph_aborted st' = ph_aborted st"
  shows "ph_wf st'"
  using assms(5)
proof
  assume "ph_handles st' = hm_insert p (length (ph_launched st)) (ph_handles st) \<and>
      (\<exists>sp. ph_launched st' = ph_launched st @ [sp] \<and> sp_pid sp = Pid p)"
  then show ?thesis
    using assms(1-4,6,7) unfolding ph_wf_def by (auto simp: nth_append split: if_splits) (meson less_imp_not_less less_SucI)+
next
  assume "ph_handles st' = ph_handles st \<and> ph_launched st' = ph_launched st"
  then show ?thesis using assms(1-4,6,7) unfolding ph_wf_def by auto
qed

lemma ph_wf_am_spawn:
  assumes "ph_wf st" and "am_spawn env now gen su iu name goal sid0 atp caller parent st = (res, st')"
  shows "ph_wf st'"
  using assms(2)
proof (cases rule: am_spawn_cases)
  case (failed e)
  show ?thesis
    using assms(1) effective_session_fields [OF failed(1)] by (simp add: ph_wf_def)
next
  case (spawned sid st1)
  have "hm_get (ph_table st') q = None \<longleftrightarrow> q \<noteq> pid_u64 gen \<and> hm_get (ph_table st) q = None" for q
    by (simp add: spawned(3) tbl_status_dom pt_insert_def)
  then show ?thesis
    by (rule ph_wf_add_agent [OF assms(1) _ spawned(4,5)])
      (use spawned(7-) in \<open>auto simp: spawned_task_def split: if_splits\<close>)
qed

lemma ph_wf_store [simp]:
  "ph_wf (st\<lparr> ph_yaml := y \<rparr>) = ph_wf st" "ph_wf (st\<lparr> ph_sess := d \<rparr>) = ph_wf st" "ph_wf (st\<lparr> ph_inv := i \<rparr>) = ph_wf st"
  by (simp_all add: ph_wf_def)

lemma ph_spawn_yaml:
  "\<exists>y. snd (ph_spawn env now gen su iu name goal sid0 atp caller parent st) =
     (snd (am_spawn env now gen su iu name goal sid0 atp caller parent st))\<lparr> ph_yaml := y \<rparr>"
proof -
  obtain res st1 where am: "am_spawn env now gen su iu name goal sid0 atp caller parent st = (res, st1)" by fastforce
  show ?thesis
  proof (cases res)
    case (Inl e)
    then show ?thesis using am by (intro exI [of _ "ph_yaml st1"]) (simp add: ph_spawn_def)
  next
    case (Inr p)
    obtain r y where "persist_agent_record env (now 8) p name goal sid0 (ph_yaml st1) = (r, y)" by fastforce
    then show ?thesis using am Inr by (intro exI [of _ y], cases r) (simp_all add: ph_spawn_def)
  qed
qed

lemma ph_wf_spawn:
  assumes "ph_wf st"
  shows "ph_wf (snd (ph_spawn env now gen su iu name goal sid0 atp caller parent st))"
proof -
  have "ph_wf (snd (am_spawn env now gen su iu name goal sid0 atp caller parent st))"
    by (rule ph_wf_am_spawn [OF assms]) (rule prod.collapse [symmetric])
  then show ?thesis
    using ph_spawn_yaml [of env now gen su iu name goal sid0 atp caller parent st] by (metis ph_wf_store(1))
qed

lemma restore_fields:
  assumes "ph_factory st" and "st' = snd (restore_from_invocation env now r st)"
  shows "ph_table st' = pt_insert (agent_entry (now 1) (now 2) (ir_pid r) (ir_agent_name r) PsWaiting None
      (ir_username r) (ir_goal r)) (ph_table st)"
    and "ph_active_sess st' = hm_insert (ir_pid r) (ir_session_id r) (ph_active_sess st)"
    and "ph_active_inv st' = hm_insert (ir_pid r) (ir_id r) (ph_active_inv st)"
    and "ph_handles st' = hm_insert (ir_pid r) (length (ph_launched st)) (ph_handles st)"
    and "\<exists>sp. ph_launched st' = ph_launched st @ [sp] \<and> sp_pid sp = Pid (ir_pid r)"
    and "ph_own_handles st' = ph_own_handles st" and "ph_aborted st' = ph_aborted st" and "ph_inv st' = ph_inv st"
  using assms by (simp_all add: restore_from_invocation_def Let_def launch_def)

lemma ph_wf_restore: "ph_wf st \<Longrightarrow> ph_wf (snd (restore_from_invocation env now r st))"
proof (cases "ph_factory st")
  case True
  assume wf: "ph_wf st"
  let ?st' = "snd (restore_from_invocation env now r st)"
  note f = restore_fields [OF True, of ?st', OF refl]
  have "hm_get (ph_table ?st') q = None \<longleftrightarrow> q \<noteq> ir_pid r \<and> hm_get (ph_table st) q = None" for q
    unfolding f by (simp add: pt_insert_def)
  then show ?thesis by (rule ph_wf_add_agent [OF wf _ f(2,3)]) (use f in auto)
qed (simp add: restore_from_invocation_def)

lemma ph_wf_resume_session:
  "ph_wf st \<Longrightarrow> ph_wf (snd (resume_session env now gen su iu sid input st))"
  by (auto simp: resume_session_def ph_wf_spawn split: option.splits sum.splits)

lemma ph_wf_step: "ph_wf st \<Longrightarrow> ph_wf (ph_step env st e)"
proof (cases e)
  case (PhDeleteSession sid)
  assume "ph_wf st"
  then show ?thesis using PhDeleteSession by (simp add: ph_delete_session_def split: option.splits prod.splits)
next
  case (PhSnapshot iid)
  assume "ph_wf st"
  then show ?thesis using PhSnapshot by (simp add: ph_snapshot_invocation_def split: prod.splits)
qed (auto simp: ph_wf_abort ph_wf_spawn ph_wf_restore ph_wf_resume_session
      intro: ph_wf_same_agents pause_same_agents resume_same_agents send_signal_same_agents)

interpretation ph: event_machine "ph_step env" ph_wf for env
  by unfold_locales (rule ph_wf_step)

definition ph_new ::
  "string \<Rightarrow> string \<Rightarrow> ('d, 'k) inv_store \<Rightarrow> 's \<Rightarrow> 'y \<Rightarrow> ('d, 'k, 's, 'y) proc_state" where
  "ph_new key runtime_dir is ss y =
     ph_with_session_store ss (ph_with_invocation_store is (ph_new_with_factory key runtime_dir y))"

lemmas ph_new_defs = ph_new_def ph_with_session_store_def ph_with_invocation_store_def ph_new_with_factory_def

lemma ph_wf_new: "ph_wf (ph_new key runtime_dir is ss y)"
  by (simp add: ph_wf_def ph_new_defs)

text \<open>
  The process manager stays consistent.  From the state it is built in, with its stores attached, whatever sequence of
  spawns, restores, session resumes, pauses, resumes, signals, aborts, deletions and snapshots
  follows, and whatever the stores do: an agent with an active invocation has an active
  session, an agent with an active session is in the process table, every abort handle belongs to
  the task that was launched for its process and is still running, and only launched tasks have
  been aborted.  So aborting an agent stops its own latest task and never another agent's.
\<close>

theorem proc_state_consistent:
  "ph_wf (run_events (ph_step env) (ph_new key runtime_dir is ss y) es)"
  by (rule ph.inv_run [OF ph_wf_new])

section \<open>Finality of an abort\<close>

definition untracked :: "string \<Rightarrow> ('d, 'k, 's, 'y) proc_state \<Rightarrow> bool" where
  "untracked iid st \<longleftrightarrow> (\<forall>p. hm_get (ph_active_inv st) p \<noteq> Some iid)"

fun introduces :: "string \<Rightarrow> ph_event \<Rightarrow> bool" where
  "introduces iid (PhSpawn now gen su iu name goal sid atp caller parent) = (iu = iid)"
| "introduces iid (PhResumeSession now gen su iu sid input) = (iu = iid)"
| "introduces iid (PhRestore now r) = (ir_id r = iid)"
| "introduces iid _ = False"

definition keeps_invocation ::
  "('d, 'k, 's, 'y) proc_env \<Rightarrow> ('d \<Rightarrow> string \<Rightarrow> string \<Rightarrow> string option) \<Rightarrow> string \<Rightarrow>
   ('d, 'k, 's, 'y) proc_state \<Rightarrow> ('d, 'k, 's, 'y) proc_state \<Rightarrow> bool" where
  "keeps_invocation env iview iid st st' \<longleftrightarrow>
     (untracked iid st \<longrightarrow> untracked iid st' \<and>
        inv_map (px_inv env) iview (ph_inv st') iid = inv_map (px_inv env) iview (ph_inv st) iid)"

lemma keeps_signals:
  assumes "inv_lawful (px_inv env) iview"
  shows "keeps_invocation env iview iid st (pause_agent env now p st)"
    and "keeps_invocation env iview iid st (resume_agent env now p st)"
  using assms
  by (auto simp: keeps_invocation_def untracked_def pause_agent_def resume_agent_def Let_def ph_frame
      ph_update_session_def inv_set_elsewhere inv_set_fold_elsewhere split: option.splits)

lemma keeps_send_signal:
  assumes "inv_lawful (px_inv env) iview"
  shows "keeps_invocation env iview iid st (snd (send_signal env now p name payload st))"
proof -
  have d: "keeps_invocation env iview iid st st'" if "deliver_to p kind payload st = (b, st')" for kind b st'
    using deliver_to_frame [of p kind payload st] that by (auto simp: keeps_invocation_def untracked_def)
  consider "name = ''SIGPAUSE''" | "name = ''SIGRESUME''" | "name \<noteq> ''SIGPAUSE''" "name \<noteq> ''SIGRESUME''" by blast
  then show ?thesis
  proof cases
    case 3
    show ?thesis
    proof (cases "signal_of_name name")
      case (Some kind)
      obtain b st' where b: "deliver_to p kind payload st = (b, st')" by (cases "deliver_to p kind payload st")
      then show ?thesis using 3 Some d [OF b] by (cases b) (simp_all add: send_signal_def)
    qed (use 3 in \<open>simp add: send_signal_def keeps_invocation_def\<close>)
  qed (simp_all add: send_signal_def keeps_signals [OF assms])
qed

lemma finalize_record_elsewhere:
  "inv_lawful (px_inv env) iview \<Longrightarrow> i \<noteq> j \<Longrightarrow>
   inv_map (px_inv env) iview (ph_inv (finalize_record env now p i stt why st)) j = inv_map (px_inv env) iview (ph_inv st) j"
  by (simp add: finalize_record_def inv_map_def is_finalize_def inv_modify_elsewhere Let_def
      split: option.splits prod.splits)

lemma keeps_abort:
  assumes "inv_lawful (px_inv env) iview" and "ph_wf st"
  shows "keeps_invocation env iview iid st (ph_abort_agent env now p st)"
proof -
  have own: "ph_own_handles st = []" using assms(2) by (simp add: ph_wf_def)
  have "inv_map (px_inv env) iview (ph_inv (am_abort_agent env (now 0) p st)) iid = inv_map (px_inv env) iview (ph_inv st) iid"
    if "untracked iid st"
  proof (cases "hm_get (ph_active_inv st) p")
    case (Some i)
    then have "i \<noteq> iid" using that by (auto simp: untracked_def)
    from finalize_record_elsewhere [OF assms(1) this] Some show ?thesis by (simp add: am_abort_fields)
  qed (simp add: am_abort_fields)
  then show ?thesis
    by (auto simp: keeps_invocation_def untracked_def ph_abort_fields [OF own refl])
qed

lemma keeps_am_spawn:
  assumes "inv_lawful (px_inv env) iview" and "iu \<noteq> iid"
    and "am_spawn env now gen su iu name goal sid0 atp caller parent st = (res, st')"
  shows "keeps_invocation env iview iid st st'"
  using assms(3)
proof (cases rule: am_spawn_cases)
  case (failed e)
  then show ?thesis using effective_session_fields [OF failed(1)] by (simp add: keeps_invocation_def untracked_def)
next
  case (spawned sid st1)
  have "inv_abs (px_inv env) iview (snd (is_create (px_inv env) r s)) iid = inv_abs (px_inv env) iview s iid"
    if "ir_id r = iu" for r s
    using create_step [OF assms(1), of r s "fst (is_create (px_inv env) r s)" "snd (is_create (px_inv env) r s)" True]
      that assms(2) by auto
  then show ?thesis
    using assms(2) spawned(5,6)
    by (auto simp: keeps_invocation_def untracked_def inv_map_def invocation_record_new_def split: option.splits)
qed

lemma keeps_spawn:
  assumes "inv_lawful (px_inv env) iview" and "iu \<noteq> iid"
  shows "keeps_invocation env iview iid st (snd (ph_spawn env now gen su iu name goal sid0 atp caller parent st))"
proof -
  have am: "keeps_invocation env iview iid st (snd (am_spawn env now gen su iu name goal sid0 atp caller parent st))"
    by (rule keeps_am_spawn [OF assms]) (rule prod.collapse [symmetric])
  obtain y where "snd (ph_spawn env now gen su iu name goal sid0 atp caller parent st) =
     (snd (am_spawn env now gen su iu name goal sid0 atp caller parent st))\<lparr> ph_yaml := y \<rparr>"
    using ph_spawn_yaml [of env now gen su iu name goal sid0 atp caller parent st] by (elim exE)
  then show ?thesis using am by (simp add: keeps_invocation_def untracked_def)
qed

lemma keeps_restore:
  "ir_id r \<noteq> iid \<Longrightarrow> keeps_invocation env iview iid st (snd (restore_from_invocation env now r st))"
  by (cases "ph_factory st")
    (auto simp: keeps_invocation_def untracked_def restore_fields [OF _ refl], simp_all add: restore_from_invocation_def)

lemma snapshot_same_records:
  assumes "inv_lawful env iview"
  shows "inv_map env iview (snd (im_snapshot_invocation env i store)) j = inv_map env iview store j"
proof (cases store)
  case (Some s)
  show ?thesis
  proof (cases "is_get env i s")
    case (Inr x)
    show ?thesis
    proof (cases x)
      case (Some r)
      have abs: "inv_abs env iview s i = Some r" using is_get_Ok [OF assms Inr] Some by simp
      obtain res s1 where p: "is_persist_interim env i [] (ir_tokens_consumed r) (ir_tool_calls_total r) s = (res, s1)"
        by fastforce
      have "inv_abs env iview s1 = inv_abs env iview s"
        using is_persist_interim_refines [OF assms p] abs by (auto simp: fun_upd_idem)
      then show ?thesis
        using \<open>store = Some s\<close> Inr Some p by (cases res) (simp_all add: im_snapshot_invocation_def inv_map_def)
    qed (use \<open>store = Some s\<close> Inr in \<open>simp add: im_snapshot_invocation_def\<close>)
  qed (use Some in \<open>simp add: im_snapshot_invocation_def\<close>)
qed (simp add: im_snapshot_invocation_def)

lemma keeps_step:
  assumes "inv_lawful (px_inv env) iview" and "ph_wf st" and "\<not> introduces iid e"
  shows "keeps_invocation env iview iid st (ph_step env st e)"
proof (cases e)
  case (PhSnapshot i)
  show ?thesis
    unfolding PhSnapshot using snapshot_same_records [OF assms(1), of i "ph_inv st" iid]
    by (auto simp: ph_snapshot_invocation_def keeps_invocation_def untracked_def split: prod.splits)
next
  case (PhResumeSession now gen su iu sid input)
  then show ?thesis
    using keeps_spawn [OF assms(1)] assms(3)
    by (simp add: resume_session_def split: option.splits sum.splits) (simp add: keeps_invocation_def)
next
  case (PhDeleteSession sid)
  then show ?thesis
    by (simp add: ph_delete_session_def keeps_invocation_def untracked_def split: option.splits prod.splits)
qed (use assms(3) in \<open>auto simp: keeps_signals [OF assms(1)] keeps_send_signal [OF assms(1)] keeps_abort [OF assms(1,2)]
      keeps_spawn [OF assms(1)] keeps_restore\<close>)

lemma keeps_run:
  assumes "inv_lawful (px_inv env) iview" and "ph_wf st" and "list_all (\<lambda>e. \<not> introduces iid e) es"
  shows "keeps_invocation env iview iid st (run_events (ph_step env) st es)"
proof (rule ph.rel_run [where P = "\<lambda>e. \<not> introduces iid e"])
  show "keeps_invocation env iview iid s (ph_step env s e)" if "ph_wf s" and "\<not> introduces iid e" for s e
    using keeps_step [OF assms(1) that] .
qed (use assms in \<open>auto intro!: reflpI transpI simp: keeps_invocation_def\<close>)


section \<open>A concrete handler\<close>

type_synonym mem_db = "(string \<times> string, string) hmap"

definition demo_proc_env :: "(mem_db, string \<times> bytes, mem_db, unit) proc_env" where
  "demo_proc_env =
     \<lparr> px_inv = \<lparr> ie_db = mem_redb, ie_codec = invocation_codec, ie_os = one_file_disk, ie_conv = one_codec demo_conv \<rparr>,
       px_sdb = mem_redb, px_scodec = session_codec, px_uuid = Inr, px_hmac = demo_hmac,
       px_yaml = one_codec [], px_exists = (\<lambda>_. False), px_read = (\<lambda>_. Inr []), px_write_tmp = (\<lambda>_ y. Inr y),
       px_rename_tmp = Inr \<rparr>"

lemma demo_proc_lawful: "proc_lawful demo_proc_env mem_view mem_view"
  by (simp add: proc_lawful_def inv_lawful_def demo_proc_env_def mem_redb_lawful invocation_codec_ok session_codec_ok)

lemma demo_proc_reliable: "proc_reliable demo_proc_env"
  by (simp add: proc_reliable_def demo_proc_env_def mem_redb_reliable invocation_codec_ok session_codec_ok)

definition demo_session :: session_record where
  "demo_session = add_pid 1 8 (session_record_new 0 ''s1'' ''alice'' ''boss'' ''boss'' ''goal'' 7)"

definition demo_proc :: "(mem_db, string \<times> bytes, mem_db, unit) proc_state" where
  "demo_proc = (ph_new ''k'' ''/run/avix'' demo_inv_store
       (snd (ss_update mem_redb session_codec demo_session [])) ())
     \<lparr> ph_table := pt_insert (demo_entry 8) (pt_insert (demo_entry 7) pt_new),
       ph_active_sess := [(7, ''s1''), (8, ''s1'')], ph_active_inv := [(7, ''i7''), (8, ''i8'')] \<rparr>"

lemma demo_proc_simps:
  "px_sdb demo_proc_env = mem_redb" "px_scodec demo_proc_env = session_codec" "px_uuid demo_proc_env = Inr"
  "ph_sess demo_proc = Some (snd (ss_update mem_redb session_codec demo_session []))"
  "ph_active_sess demo_proc = [(7, ''s1''), (8, ''s1'')]" "ph_active_inv demo_proc = [(7, ''i7''), (8, ''i8'')]"
  "sr_pids demo_session = [7, 8]" "sr_owner_pid demo_session = 7" "sr_id demo_session = ''s1''"
  by (simp_all add: demo_proc_env_def demo_proc_def ph_new_defs demo_session_def add_pid_def session_record_new_def)

lemma demo_session_of:
  "session_of demo_proc_env 7 demo_proc = Some (demo_session, snd (ss_update mem_redb session_codec demo_session []))"
proof -
  let ?d = "snd (ss_update mem_redb session_codec demo_session [])"
  have "sess_map demo_proc_env mem_view (Some ?d) ''s1'' = Some demo_session"
    using ss_update_reliable [OF demo_proc_lawful demo_proc_reliable, of demo_session "[]"]
    by (simp add: demo_proc_simps)
  from session_of_reliable [OF demo_proc_lawful demo_proc_reliable demo_proc_simps(4) _ _ this, of 7 "''s1''"]
  show ?thesis by (simp add: demo_proc_simps)
qed

theorem session_pause_resume_witness:
  "pstat_of (ph_table (pause_agent demo_proc_env 5 7 demo_proc)) 8 = Some PsPaused \<and>
   pstat_of (ph_table (resume_agent demo_proc_env 6 8 (pause_agent demo_proc_env 5 7 demo_proc))) 7 = Some PsRunning"
proof -
  have "put_in_state demo_proc_env mem_view {7, 8} PsPaused InvPaused demo_proc (pause_agent demo_proc_env 5 7 demo_proc)"
    "put_in_state demo_proc_env mem_view {7, 8} PsRunning InvRunning demo_proc
       (resume_agent demo_proc_env 6 8 (pause_agent demo_proc_env 5 7 demo_proc))"
    using session_pause_resume [OF demo_proc_lawful demo_proc_reliable demo_session_of, of "''s1''" 8 5 6]
    by (simp_all add: demo_proc_simps)
  then show ?thesis
    by (simp add: put_in_state_def)
      (simp add: demo_proc_def pstat_of_def pt_insert_def demo_entry_def pt_new_def)
qed

theorem spawn_effect_witness:
  "\<exists>st' :: (mem_db, string \<times> bytes, mem_db, unit) proc_state.
     am_spawn demo_proc_env (\<lambda>_. 9) (Pid 9) ''s2'' ''i9'' ''worker'' ''goal'' [] [] ''alice'' (Some 7) demo_proc = (Inr 9, st') \<and>
     hm_get (ph_active_inv st') 9 = Some ''i9'' \<and>
     (check_capability ''fs/read'' (Pid 9) (ph_table st') = Inr () \<longleftrightarrow> ''fs/read'' \<in> set ALWAYS_PRESENT)"
proof -
  obtain res st' where sp: "am_spawn demo_proc_env (\<lambda>_. 9) (Pid 9) ''s2'' ''i9'' ''worker'' ''goal'' [] [] ''alice''
      (Some 7) demo_proc = (res, st')" by fastforce
  have "res = Inr 9"
    using sp by (cases rule: am_spawn_cases)
      (auto simp: effective_session_def demo_proc_def demo_proc_env_def ph_new_defs)
  with sp have ok: "am_spawn demo_proc_env (\<lambda>_. 9) (Pid 9) ''s2'' ''i9'' ''worker'' ''goal'' [] [] ''alice''
      (Some 7) demo_proc = (Inr 9, st')" by simp
  from spawn_effect [OF ok] ok show ?thesis by (intro exI [of _ st']) blast
qed


end
