(* ===== verification/Executor_Tools.thy ===== *)
theory Executor_Tools
  imports Capability_Token
begin

text \<open>
  What an agent may call and how it learns about it: the tool budgets and the per-call validation
  (\<^verbatim>\<open>executor/validation.rs\<close>), the tool list sent to the language model
  (\<^verbatim>\<open>executor/tool_manager.rs\<close>, \<^verbatim>\<open>executor/tool_registration.rs\<close>), the
  interpretation of a model response (\<^verbatim>\<open>executor/stop_reason.rs\<close>, with the message
  types of \<^verbatim>\<open>llm_client/mod.rs\<close>) and the system prompt (\<^verbatim>\<open>executor/prompt.rs\<close>).

  The lemmas give the exact condition under which a call is admitted, the bound a budget puts on
  a whole sequence of calls, the exact set of tools an agent is shown, and the path of a tool
  name through the wire form and back.
\<close>

section \<open>Model responses\<close>

datatype stop_reason = EndTurn | ToolUse | MaxTokens | StopSequence

fun stop_reason_str :: "stop_reason \<Rightarrow> string" where
  "stop_reason_str EndTurn = ''end_turn''"
| "stop_reason_str ToolUse = ''tool_use''"
| "stop_reason_str MaxTokens = ''max_tokens''"
| "stop_reason_str StopSequence = ''stop_sequence''"

definition stop_reason_from_str :: "string \<Rightarrow> stop_reason avix_result" where
  "stop_reason_from_str s =
     (if s = ''end_turn'' then Inr EndTurn
      else if s = ''tool_use'' then Inr ToolUse
      else if s = ''max_tokens'' then Inr MaxTokens
      else if s = ''stop_sequence'' then Inr StopSequence
      else Inl (ConfigParse (''unknown stop reason: '' @ s)))"

datatype stream_chunk =
  TextDelta string
| ToolCallStart string string
| ToolCallArgsDelta string string
| ToolCallComplete string
| ChunkDone stop_reason u32 u32

record llm_complete_request =
  lq_model :: string
  lq_messages :: "json list"
  lq_tools :: "json list"
  lq_system :: "string option"
  lq_max_tokens :: u32
  lq_turn_id :: string

record llm_complete_response =
  lr_content :: "json list"
  lr_stop_reason :: stop_reason
  lr_input_tokens :: u32
  lr_output_tokens :: u32

text \<open>
  \<^verbatim>\<open>u32\<close> addition: a build with overflow checks panics where a release build wraps.
  The model has the release build's value.
\<close>

definition total_tokens :: "llm_complete_response \<Rightarrow> u32" where
  "total_tokens r = lr_input_tokens r + lr_output_tokens r"

record avix_tool_call =
  tc_call_id :: string
  tc_name :: string
  tc_args :: json

section \<open>Interpreting a response\<close>

datatype turn_action =
  ReturnResult string
| DispatchTools "avix_tool_call list"
| SummariseContext

definition call_of_block :: "json \<Rightarrow> avix_tool_call" where
  "call_of_block c =
     (let mangled = unwrap_or [] (as_str (json_index c ''name''));
          name = (case tool_name_unmangle mangled of
                    Inr n \<Rightarrow> tool_str n
                  | Inl _ \<Rightarrow> str_replace ''__'' ''/'' mangled)
      in \<lparr> tc_call_id = unwrap_or [] (as_str (json_index c ''id'')), tc_name = name,
           tc_args = json_index c ''input'' \<rparr>)"

definition interpret_stop_reason :: "llm_complete_response \<Rightarrow> turn_action" where
  "interpret_stop_reason resp =
     (case lr_stop_reason resp of
        EndTurn \<Rightarrow>
          ReturnResult (concat (List.map_filter (\<lambda>c. as_str (json_index c ''text'')) (lr_content resp)))
      | StopSequence \<Rightarrow>
          ReturnResult (concat (List.map_filter (\<lambda>c. as_str (json_index c ''text'')) (lr_content resp)))
      | ToolUse \<Rightarrow>
          DispatchTools
            (map call_of_block
              (filter (\<lambda>c. json_index c ''type'' = JStr ''tool_use'') (lr_content resp)))
      | MaxTokens \<Rightarrow> SummariseContext)"

section \<open>Budgets and validation\<close>

record tool_budgets =
  budgets :: "(string, u32) hmap"

definition tb_default :: tool_budgets where
  "tb_default = \<lparr> budgets = [] \<rparr>"

definition tb_set :: "string \<Rightarrow> u32 \<Rightarrow> tool_budgets \<Rightarrow> tool_budgets" where
  "tb_set tool n b = b\<lparr> budgets := hm_insert tool n (budgets b) \<rparr>"

definition tb_remaining :: "tool_budgets \<Rightarrow> string \<Rightarrow> u32 option" where
  "tb_remaining b tool = hm_get (budgets b) tool"

definition tb_decrement :: "string \<Rightarrow> tool_budgets \<Rightarrow> tool_budgets" where
  "tb_decrement tool b = b\<lparr> budgets := hm_modify tool (\<lambda>n. sat_sub n 1) (budgets b) \<rparr>"

definition exec_always_present :: "string list" where
  "exec_always_present =
     [''cap/request-tool'', ''cap/escalate'', ''cap/list'', ''job/watch'', ''sys/tools'']"

definition validate_tool_call ::
  "datetime \<Rightarrow> capability_token \<Rightarrow> avix_tool_call \<Rightarrow> tool_budgets \<Rightarrow> unit avix_result \<times> tool_budgets" where
  "validate_tool_call now tok call b =
     (if is_expired now tok then (Inl (CapabilityDenied ''capability token has expired''), b)
      else if granted_tools tok \<noteq> [] \<and> \<not> has_tool tok (tc_name call)
              \<and> \<not> List.member exec_always_present (tc_name call)
      then (Inl (CapabilityDenied (''Tool not granted: '' @ tc_name call)), b)
      else (case tb_remaining b (tc_name call) of
              Some r \<Rightarrow>
                if r = 0 then (Inl (CapabilityDenied (''budget exhausted for tool: '' @ tc_name call)), b)
                else (Inr (), tb_decrement (tc_name call) b)
            | None \<Rightarrow> (Inr (), b)))"

section \<open>The category-2 tool set\<close>

text \<open>\<^verbatim>\<open>retain\<close> with a growing \<^verbatim>\<open>HashSet\<close>: the first occurrence of each name is kept.\<close>

fun retain_first :: "string list \<Rightarrow> (string \<times> 'v) list \<Rightarrow> (string \<times> 'v) list" where
  "retain_first seen [] = []"
| "retain_first seen ((n, v) # xs) =
     (if List.member seen n then retain_first seen xs else (n, v) # retain_first (n # seen) xs)"

definition compute_cat2_tools :: "capability_token \<Rightarrow> string \<Rightarrow> (string \<times> tool_visibility) list" where
  "compute_cat2_tools tok username =
     (let m = capability_tool_map_default;
          vis = VisUser username
      in retain_first []
           (map (\<lambda>n. (n, vis)) (always_present m) @
            map (\<lambda>n. (n, vis)) (filter (has_tool tok) (all_gated_cat2_tools m))))"

definition tool_json :: "string \<Rightarrow> string \<Rightarrow> (string \<times> string \<times> string) list \<Rightarrow> string list \<Rightarrow> json" where
  "tool_json name desc props req =
     JObj [(''name'', JStr name),
           (''description'', JStr desc),
           (''input_schema'',
             JObj [(''type'', JStr ''object''),
                   (''properties'',
                     JObj (map (\<lambda>(p, t, d). (p, JObj [(''type'', JStr t), (''description'', JStr d)])) props)),
                   (''required'', JArr (map JStr req))])]"

definition cat2_tool_descriptor :: "string \<Rightarrow> json" where
  "cat2_tool_descriptor name =
    (if name = ''cap/request-tool'' then
        tool_json name (''Request access to a tool not currently in the agent'' @ [CHR 0x27] @ ''s CapabilityToken. This triggers a HIL capability_upgrade event.'')
          [(''tool'', ''string'', ''Name of the tool to request''),
           (''reason'', ''string'', ''Why the agent needs this tool''),
           (''urgency'', ''string'', ''Urgency level: low | medium | high'')]
          [''tool'', ''reason'', ''urgency'']
     else if name = ''cap/escalate'' then
        tool_json name ''Proactively ask a human for guidance when the agent is uncertain how to proceed.''
          [(''reason'', ''string'', ''Situation description''),
           (''context'', ''string'', ''Relevant context''),
           (''options'', ''array'', ''List of options for the human to choose from'')]
          [''reason'', ''context'', ''options'']
     else if name = ''cap/list'' then
        tool_json name (''List the agent'' @ [CHR 0x27] @ ''s currently granted tools and constraints.'')
          []
          []
     else if name = ''job/watch'' then
        tool_json name ''Subscribe to events from a long-running job and block until completion.''
          [(''jobId'', ''string'', ''The job ID to watch''),
           (''timeoutSec'', ''number'', ''Seconds to wait before timing out'')]
          [''jobId'', ''timeoutSec'']
     else if name = ''agent/spawn'' then
        tool_json name ''Spawn a child agent to work on a sub-task. Requires agent:spawn capability.''
          [(''agent'', ''string'', ''Agent name (must exist in /bin/)''),
           (''goal'', ''string'', ''Goal for the child agent''),
           (''capabilities'', ''array'', (''Requested capabilities (subset of parent'' @ [CHR 0x27] @ ''s grants)'')),
           (''waitForResult'', ''boolean'', ''If true, block until child finishes'')]
          [''agent'', ''goal'', ''capabilities'', ''waitForResult'']
     else if name = ''agent/kill'' then
        tool_json name ''Terminate a child agent by PID. Requires agent:spawn capability.''
          [(''pid'', ''number'', ''PID of the child agent to terminate''),
           (''reason'', ''string'', ''Reason for termination'')]
          [''pid'']
     else if name = ''agent/list'' then
        tool_json name ''List agents currently running in this session, optionally filtered by status.''
          [(''status'', ''string'', ''Optional filter: running | paused | waiting | all'')]
          []
     else if name = ''agent/wait'' then
        tool_json name ''Block until a specific child agent completes.''
          [(''pid'', ''number'', ''PID of the child agent to wait for''),
           (''timeoutSec'', ''number'', ''Optional timeout in seconds (0 = wait forever)'')]
          [''pid'']
     else if name = ''agent/send-message'' then
        tool_json name ''Send a message to another agent via its input pipe.''
          [(''pid'', ''number'', ''Target agent PID''),
           (''message'', ''string'', ''Message to send'')]
          [''pid'', ''message'']
     else if name = ''pipe/open'' then
        tool_json name ''Open a streaming data channel to another agent.''
          [(''targetPid'', ''number'', ''PID of the target agent''),
           (''direction'', ''string'', ''out | bidirectional''),
           (''bufferTokens'', ''number'', ''Optional buffer size in tokens''),
           (''backpressure'', ''string'', ''Optional: block | drop | error'')]
          [''targetPid'', ''direction'']
     else if name = ''pipe/write'' then
        tool_json name ''Write tokens into an open outbound pipe.''
          [(''pipeId'', ''string'', ''The pipe identifier''),
           (''content'', ''string'', ''Content to write into the pipe'')]
          [''pipeId'', ''content'']
     else if name = ''pipe/read'' then
        tool_json name ''Read tokens from an open inbound pipe.''
          [(''pipeId'', ''string'', ''The pipe identifier''),
           (''maxTokens'', ''number'', ''Optional maximum tokens to read''),
           (''timeoutMs'', ''number'', ''Optional timeout in milliseconds (0 = block indefinitely)'')]
          [''pipeId'']
     else if name = ''pipe/close'' then
        tool_json name ''Close a pipe. The other end receives SIGPIPE.''
          [(''pipeId'', ''string'', ''The pipe identifier'')]
          [''pipeId'']
     else if name = ''sys/tools'' then
        tool_json name ''List tools available in the Avix runtime. Returns name, description, and state. Use namespace or keyword to filter. Call this to discover tools before requesting access.''
          [(''namespace'', ''string'', (''Filter by namespace prefix e.g. '' @ [CHR 0x27] @ ''fs'' @ [CHR 0x27] @ '', '' @ [CHR 0x27] @ ''llm'' @ [CHR 0x27] @ '''')),
           (''keyword'', ''string'', ''Filter by keyword in name or description''),
           (''granted_only'', ''boolean'', ''If true, only show tools already in your capability token'')]
          []
     else tool_json name (''Unknown Cat2 tool: '' @ name) [] [])"

section \<open>The tool manager\<close>

record tool_manager =
  tm_tool_list :: "json list"
  tm_budgets :: tool_budgets
  tm_hil_required :: "string list"
  tm_removed :: "string list"
  tm_registered_cat2 :: "string list"
  tm_cat1 :: "(string, json) hmap"

definition tm_new :: "string list \<Rightarrow> tool_manager" where
  "tm_new cat2 =
     \<lparr> tm_tool_list = [], tm_budgets = tb_default, tm_hil_required = [], tm_removed = [],
       tm_registered_cat2 = cat2, tm_cat1 = [] \<rparr>"

definition tm_refresh_tool_list :: "capability_token \<Rightarrow> string \<Rightarrow> tool_manager \<Rightarrow> tool_manager" where
  "tm_refresh_tool_list tok spawned_by m =
     (let cat2 = compute_cat2_tools tok spawned_by;
          removed = tm_removed m
      in m\<lparr> tm_tool_list :=
              map (\<lambda>(n, _). cat2_tool_descriptor n) (filter (\<lambda>(n, _). \<not> List.member removed n) cat2) @
              map snd (filter (\<lambda>(n, _). \<not> List.member removed n) (tm_cat1 m)) \<rparr>)"

definition tm_current_tool_list :: "tool_manager \<Rightarrow> json list" where
  "tm_current_tool_list m =
     filter (\<lambda>t. case as_str (json_index t ''name'') of
                   Some name \<Rightarrow> \<not> list_ex (\<lambda>r. name = r \<or> name = str_replace ''/'' ''__'' r) (tm_removed m)
                 | None \<Rightarrow> True)
       (tm_tool_list m)"

definition is_cat2_tool :: "tool_manager \<Rightarrow> string \<Rightarrow> bool" where
  "is_cat2_tool m name = List.member (tm_registered_cat2 m) name"

definition tm_handle_tool_changed :: "string \<Rightarrow> string \<Rightarrow> tool_manager \<Rightarrow> tool_manager" where
  "tm_handle_tool_changed op tool m =
     (if op = ''removed'' then
        (if List.member (tm_removed m) tool then m else m\<lparr> tm_removed := tm_removed m @ [tool] \<rparr>)
      else if op = ''added'' then m\<lparr> tm_removed := filter (\<lambda>t. t \<noteq> tool) (tm_removed m) \<rparr>
      else m)"

definition tm_set_tool_budget :: "string \<Rightarrow> u32 \<Rightarrow> tool_manager \<Rightarrow> tool_manager" where
  "tm_set_tool_budget tool n m = m\<lparr> tm_budgets := tb_set tool n (tm_budgets m) \<rparr>"

definition tm_require_hil_for :: "string \<Rightarrow> tool_manager \<Rightarrow> tool_manager" where
  "tm_require_hil_for tool m = m\<lparr> tm_hil_required := tm_hil_required m @ [tool] \<rparr>"

section \<open>The system prompt\<close>

definition nl :: string where
  "nl = [CHR 0x0A]"

definition usize_max :: u64 where
  "usize_max = - 1"

definition build_system_prompt ::
  "u64 \<Rightarrow> string \<Rightarrow> string \<Rightarrow> string \<Rightarrow> string \<Rightarrow> u64 \<Rightarrow> (string, u32) hmap \<Rightarrow> string list \<Rightarrow> json list \<Rightarrow>
   string list \<Rightarrow> string" where
  "build_system_prompt pid agent_name goal spawned_by session_id max_chain tool_budgets pending tools denied =
     (let identity = ''# Agent Identity'' @ nl @ ''You are '' @ agent_name
            @ '', an AI agent running inside Avix.'' @ nl @ ''Your goal: '' @ goal @ nl
            @ ''Session: '' @ session_id @ '' | PID: '' @ show_word pid @ '' | User: '' @ spawned_by @ nl;
          avail = nl @ ''# Available Tools'' @ nl
            @ (if tools = [] then ''No tools currently available.'' @ nl
               else concat (map (\<lambda>t. ''- **'' @ unwrap_or ''?'' (as_str (json_index t ''name'')) @ ''**: ''
                                       @ unwrap_or [] (as_str (json_index t ''description'')) @ nl) tools))
            @ nl @ ''When you need a tool not listed here, call cap/request-tool.'' @ nl
            @ ''When you encounter a situation requiring human judgment, call cap/escalate.'' @ nl
            @ ''When your task is complete, respond with your final answer.'' @ nl;
          has_budgets = (tool_budgets \<noteq> []);
          constraints =
            (if max_chain \<noteq> usize_max \<or> has_budgets
             then nl @ ''# Constraints'' @ nl @ ''Max tool calls per turn: '' @ show_word max_chain @ nl
               @ (if has_budgets
                  then ''Tool call budgets:'' @ nl
                    @ concat (map (\<lambda>(t, n). ''  '' @ t @ '': '' @ show_word n @ '' use(s) remaining'' @ nl)
                                (sort_key fst tool_budgets))
                  else [])
             else []);
          pend =
            (if pending \<noteq> [] \<or> denied \<noteq> []
             then nl @ ''# Pending Instructions'' @ nl @ concat (map (\<lambda>m. m @ nl) pending)
               @ (if denied \<noteq> []
                  then ''**Tool access denied this turn:** '' @ join_str '', '' denied @ nl
                    @ ''Do not call cap/request-tool for these tools again until the next user message.'' @ nl
                  else [])
             else [])
      in identity @ avail @ constraints @ pend)"

section \<open>Lemmas on validation and budgets\<close>

text \<open>The guard of validation, apart from the budget.\<close>

definition tool_admissible :: "datetime \<Rightarrow> capability_token \<Rightarrow> string \<Rightarrow> bool" where
  "tool_admissible now tok t \<longleftrightarrow>
     \<not> is_expired now tok \<and> (granted_tools tok = [] \<or> has_tool tok t \<or> t \<in> set exec_always_present)"

lemma validate_tool_call_cases:
  "validate_tool_call now tok call b =
     (if tool_admissible now tok (tc_name call) then
        (case tb_remaining b (tc_name call) of
           None \<Rightarrow> (Inr (), b)
         | Some r \<Rightarrow> if r = 0
                    then (Inl (CapabilityDenied (''budget exhausted for tool: '' @ tc_name call)), b)
                    else (Inr (), tb_decrement (tc_name call) b))
      else (Inl (CapabilityDenied (if is_expired now tok then ''capability token has expired''
                                   else ''Tool not granted: '' @ tc_name call)), b))"
  by (auto simp: validate_tool_call_def tool_admissible_def)

lemma tb_remaining_decrement [simp]:
  "tb_remaining (tb_decrement t b) u =
     (if u = t then map_option (\<lambda>n. sat_sub n 1) (tb_remaining b t) else tb_remaining b u)"
  by (simp add: tb_remaining_def tb_decrement_def)

lemma tb_remaining_set [simp]:
  "tb_remaining (tb_set t n b) u = (if u = t then Some n else tb_remaining b u)"
  by (simp add: tb_remaining_def tb_set_def)

text \<open>A sequence of validations with the budgets threaded through, as the turn loop performs it.\<close>

fun validate_calls ::
  "(datetime \<times> capability_token \<times> avix_tool_call) list \<Rightarrow> tool_budgets \<Rightarrow> bool list \<times> tool_budgets" where
  "validate_calls [] b = ([], b)"
| "validate_calls ((now, tok, call) # cs) b =
     (let (r, b1) = validate_tool_call now tok call b;
          (oks, b2) = validate_calls cs b1
      in ((\<not> is_err r) # oks, b2))"

fun calls_of :: "string \<Rightarrow> (datetime \<times> capability_token \<times> avix_tool_call) list \<Rightarrow> nat" where
  "calls_of t [] = 0"
| "calls_of t ((now, tok, call) # cs) = (if tc_name call = t then 1 else 0) + calls_of t cs"

fun admitted_of :: "string \<Rightarrow> (datetime \<times> capability_token \<times> avix_tool_call) list \<Rightarrow> bool list \<Rightarrow> nat" where
  "admitted_of t ((now, tok, call) # cs) (ok # oks) =
     (if tc_name call = t \<and> ok then 1 else 0) + admitted_of t cs oks"
| "admitted_of t _ _ = 0"

lemma sat_sub_one: "n \<noteq> 0 \<Longrightarrow> unat (sat_sub n 1) = unat n - 1" for n :: "'a::len word"
  by (simp add: unat_sat_sub)

lemma validate_calls_Cons:
  assumes "tb_remaining b t = Some n"
  defines "hit \<equiv> \<lambda>now tok call. tc_name call = t \<and> tool_admissible now tok t \<and> n \<noteq> 0"
  shows "\<exists>b1. tb_remaining b1 t = Some (if hit now tok call then sat_sub n 1 else n) \<and>
    snd (validate_calls ((now, tok, call) # cs) b) = snd (validate_calls cs b1) \<and>
    admitted_of t ((now, tok, call) # cs) (fst (validate_calls ((now, tok, call) # cs) b)) =
      (if hit now tok call then 1 else 0) + admitted_of t cs (fst (validate_calls cs b1))"
  using assms(1)
  by (intro exI [of _ "snd (validate_tool_call now tok call b)"])
    (auto simp: hit_def validate_tool_call_cases split: prod.splits option.splits if_splits)

lemma validate_calls_budget:
  "tb_remaining b t = Some n \<Longrightarrow>
   \<exists>m. tb_remaining (snd (validate_calls cs b)) t = Some m \<and>
       admitted_of t cs (fst (validate_calls cs b)) + unat m = unat n"
proof (induction cs arbitrary: b n)
  case (Cons c cs)
  obtain now tok call where c: "c = (now, tok, call)" by (cases c)
  from validate_calls_Cons [OF Cons.prems, where now = now and tok = tok and call = call and cs = cs]
  obtain b1 where b1: "tb_remaining b1 t =
        Some (if tc_name call = t \<and> tool_admissible now tok t \<and> n \<noteq> 0 then sat_sub n 1 else n)"
    and fin: "snd (validate_calls (c # cs) b) = snd (validate_calls cs b1)"
    and adm: "admitted_of t (c # cs) (fst (validate_calls (c # cs) b)) =
      (if tc_name call = t \<and> tool_admissible now tok t \<and> n \<noteq> 0 then 1 else 0)
      + admitted_of t cs (fst (validate_calls cs b1))"
    unfolding c by blast
  show ?case
    using Cons.IH [OF b1] sat_sub_one [of n] unat_gt_0 [of n] unfolding fin adm
    by (auto split: if_splits)
qed simp

lemma validate_calls_exact:
  "tb_remaining b t = Some n \<Longrightarrow>
   list_all (\<lambda>(now, tok, call). tc_name call = t \<longrightarrow> tool_admissible now tok t) cs \<Longrightarrow>
   admitted_of t cs (fst (validate_calls cs b)) = min (unat n) (calls_of t cs)"
proof (induction cs arbitrary: b n)
  case (Cons c cs)
  obtain now tok call where c: "c = (now, tok, call)" by (cases c)
  have n0: "n \<noteq> 0 \<longleftrightarrow> 0 < unat n" by (simp add: unat_gt_0)
  from validate_calls_Cons [OF Cons.prems(1), where now = now and tok = tok and call = call and cs = cs]
  obtain b1 where b1: "tb_remaining b1 t =
        Some (if tc_name call = t \<and> tool_admissible now tok t \<and> n \<noteq> 0 then sat_sub n 1 else n)"
    and adm: "admitted_of t (c # cs) (fst (validate_calls (c # cs) b)) =
      (if tc_name call = t \<and> tool_admissible now tok t \<and> n \<noteq> 0 then 1 else 0)
      + admitted_of t cs (fst (validate_calls cs b1))"
    unfolding c by blast
  show ?case
    using Cons.IH [OF b1] Cons.prems(2) adm n0 sat_sub_one [of n] unfolding c
    by (auto split: if_splits)
qed simp

section \<open>Lemmas on the tool set\<close>

lemma retain_first_keys:
  "distinct (map fst (retain_first seen xs))"
  "set (map fst (retain_first seen xs)) = set (map fst xs) - set seen"
  by (induction seen xs rule: retain_first.induct) auto

lemma retain_first_subset: "set (retain_first seen xs) \<subseteq> set xs"
  by (induction seen xs rule: retain_first.induct) auto

lemma compute_cat2_tools_names:
  "set (map fst (compute_cat2_tools tok u)) =
     set exec_always_present \<union> (set (all_gated_cat2_tools capability_tool_map_default) \<inter> set (granted_tools tok))"
  unfolding compute_cat2_tools_def Let_def retain_first_keys
  by (auto simp: always_present_def capability_tool_map_default_def exec_always_present_def has_tool_def
      list_ex_iff)

lemma json_index_tool_json [simp]: "json_index (tool_json n d p r) ''name'' = JStr n"
  by (simp add: tool_json_def json_index_def)

lemma cat2_descriptor_name: "json_index (cat2_tool_descriptor n) ''name'' = JStr n"
  by (simp add: cat2_tool_descriptor_def)

lemma tm_removed_changed:
  "set (tm_removed (tm_handle_tool_changed op t m)) =
     (if op = ''removed'' then insert t (set (tm_removed m))
      else if op = ''added'' then set (tm_removed m) - {t} else set (tm_removed m))"
  by (auto simp: tm_handle_tool_changed_def)

lemma tm_handle_tool_changed_keeps [simp]:
  "tm_cat1 (tm_handle_tool_changed op t m) = tm_cat1 m"
  "tm_registered_cat2 (tm_handle_tool_changed op t m) = tm_registered_cat2 m"
  "tm_budgets (tm_handle_tool_changed op t m) = tm_budgets m"
  by (simp_all add: tm_handle_tool_changed_def)

text \<open>
  The names a refreshed manager shows: the descriptors of the registry have the name they are
  filed under.
\<close>

definition shown_names :: "tool_manager \<Rightarrow> string list" where
  "shown_names m = List.map_filter (\<lambda>d. as_str (json_index d ''name'')) (tm_current_tool_list m)"

lemma shown_names_iff:
  "n \<in> set (shown_names m) \<longleftrightarrow>
     (\<exists>d\<in>set (tm_tool_list m). json_index d ''name'' = JStr n) \<and> (\<forall>r\<in>set (tm_removed m). n \<noteq> r \<and> n \<noteq> mangle r)"
proof -
  have str: "as_str j = Some n \<longleftrightarrow> j = JStr n" for j by (cases j) auto
  show ?thesis
    by (auto simp: shown_names_def tm_current_tool_list_def List.map_filter_def str list_ex_iff mangle_def
        wire_sep_def image_iff) (use str in \<open>force simp: list_ex_iff mangle_def wire_sep_def\<close>)+
qed

lemma refresh_tool_list_set:
  "set (tm_tool_list (tm_refresh_tool_list tok u m)) =
     cat2_tool_descriptor ` {n \<in> set (map fst (compute_cat2_tools tok u)). n \<notin> set (tm_removed m)}
     \<union> {d. \<exists>n. (n, d) \<in> set (tm_cat1 m) \<and> n \<notin> set (tm_removed m)}"
  by (force simp: tm_refresh_tool_list_def Let_def image_iff simp del: image_set)

lemma refresh_tool_list_names:
  assumes "\<forall>(n, d)\<in>set (tm_cat1 m). json_index d ''name'' = JStr n"
  shows "(\<exists>d\<in>set (tm_tool_list (tm_refresh_tool_list tok u m)). json_index d ''name'' = JStr n) \<longleftrightarrow>
    n \<notin> set (tm_removed m) \<and> (n \<in> set (map fst (compute_cat2_tools tok u)) \<or> n \<in> set (hm_keys (tm_cat1 m)))"
proof -
  have cat1: "n \<in> set (hm_keys (tm_cat1 m)) \<longleftrightarrow> (\<exists>d. (n, d) \<in> set (tm_cat1 m))" by force
  show ?thesis
    unfolding refresh_tool_list_set bex_Un cat1 using assms
    by (auto simp: cat2_descriptor_name simp del: set_map)
qed

text \<open>A run of tool-changed notifications.\<close>

definition tool_changes :: "(string \<times> string) list \<Rightarrow> tool_manager \<Rightarrow> tool_manager" where
  "tool_changes evs m = fold (\<lambda>(op, t). tm_handle_tool_changed op t) evs m"

lemma tool_changes_keeps [simp]: "tm_cat1 (tool_changes evs m) = tm_cat1 m"
  unfolding tool_changes_def by (induction evs arbitrary: m) auto

definition last_change :: "string \<Rightarrow> (string \<times> string) list \<Rightarrow> string option" where
  "last_change t evs =
     (case filter (\<lambda>(op, u). u = t \<and> (op = ''removed'' \<or> op = ''added'')) evs of
        [] \<Rightarrow> None | es \<Rightarrow> Some (fst (last es)))"

definition hidden_tool :: "(string \<times> string) list \<Rightarrow> tool_manager \<Rightarrow> string \<Rightarrow> bool" where
  "hidden_tool evs m t =
     (case last_change t evs of None \<Rightarrow> t \<in> set (tm_removed m) | Some op \<Rightarrow> op = ''removed'')"

lemma tool_changes_removed:
  "t \<in> set (tm_removed (tool_changes evs m)) \<longleftrightarrow>
     (case last_change t evs of None \<Rightarrow> t \<in> set (tm_removed m) | Some op \<Rightarrow> op = ''removed'')"
proof (induction evs rule: rev_induct)
  case Nil
  show ?case by (simp add: tool_changes_def last_change_def)
next
  case (snoc e evs)
  obtain op u where e: "e = (op, u)" by (cases e)
  have step: "tool_changes (evs @ [e]) m = tm_handle_tool_changed op u (tool_changes evs m)"
    by (simp add: tool_changes_def e)
  have lc: "last_change t (evs @ [e]) =
      (if u = t \<and> (op = ''removed'' \<or> op = ''added'') then Some op else last_change t evs)"
    by (auto simp: last_change_def e split: list.splits)
  show ?case using snoc.IH by (auto simp: step lc tm_removed_changed)
qed

section \<open>Properties\<close>

text \<open>
  Budgets bound what an agent does.  Over any sequence of validated calls, with any tokens and
  at any instants, the calls of a tool that are admitted plus the uses left are exactly the budget
  the tool started with, so no more calls than the budget are admitted; and when every call of the
  tool passes the expiry and grant checks, exactly the first \<open>min n k\<close> of its \<open>k\<close> calls are
  admitted: a budget never blocks a call before it is spent.
\<close>

theorem tool_budget_bound:
  assumes "tb_remaining b t = Some n"
  shows "\<exists>m. tb_remaining (snd (validate_calls cs b)) t = Some m \<and>
      admitted_of t cs (fst (validate_calls cs b)) + unat m = unat n \<and>
      (list_all (\<lambda>(now, tok, call). tc_name call = t \<longrightarrow> tool_admissible now tok t) cs \<longrightarrow>
         admitted_of t cs (fst (validate_calls cs b)) = min (unat n) (calls_of t cs))"
  using validate_calls_budget [OF assms, of cs] validate_calls_exact [OF assms, of cs] by blast

theorem tool_budget_bound_witness:
  "\<exists>m. tb_remaining (snd (validate_calls
          (replicate 3 (0, demo_token [''fs/read''], \<lparr> tc_call_id = [], tc_name = ''fs/read'', tc_args = JNull \<rparr>))
          (tb_set ''fs/read'' 2 tb_default))) ''fs/read'' = Some m \<and>
     fst (validate_calls
          (replicate 3 (0, demo_token [''fs/read''], \<lparr> tc_call_id = [], tc_name = ''fs/read'', tc_args = JNull \<rparr>))
          (tb_set ''fs/read'' 2 tb_default)) = [True, True, False] \<and> unat m = 0"
proof -
  let ?c = "\<lparr> tc_call_id = [], tc_name = ''fs/read'', tc_args = JNull \<rparr> :: avix_tool_call"
  let ?cs = "replicate 3 (0 :: datetime, demo_token [''fs/read''], ?c)"
  let ?b = "tb_set ''fs/read'' 2 tb_default"
  have tok: "tool_admissible 0 (demo_token [''fs/read'']) ''fs/read''"
    by (simp add: tool_admissible_def demo_token_def mint_def is_expired_def has_tool_def)
  have sub: "sat_sub 2 1 = (1 :: u32)" "sat_sub 1 1 = (0 :: u32)" by (simp_all add: sat_sub_def)
  have oks: "fst (validate_calls ?cs ?b) = [True, True, False]"
    by (simp add: numeral_3_eq_3 validate_tool_call_cases tok sub)
  have adm: "admitted_of ''fs/read'' ?cs [True, True, False] = 2" by (simp add: numeral_3_eq_3)
  have "tb_remaining ?b ''fs/read'' = Some 2" by simp
  from tool_budget_bound [OF this, of ?cs] show ?thesis unfolding oks adm by auto
qed

text \<open>
  The tools an agent is shown.  After any sequence of tool-changed notifications and a refresh,
  the names in the list sent to the model are exactly the always-present tools, the gated
  category-2 tools the token grants and the registry tools handed to the manager, without the
  tools whose last notification was a removal (or that were hidden before and not added back), and
  without any name that is the wire form of such a tool.  So an addition undoes a removal, and
  repeated removals need only one addition.
\<close>

theorem tool_view_exact:
  assumes "\<forall>(n, d)\<in>set (tm_cat1 m). json_index d ''name'' = JStr n"
  shows "n \<in> set (shown_names (tm_refresh_tool_list tok u (tool_changes evs m))) \<longleftrightarrow>
    (n \<in> set exec_always_present
     \<or> n \<in> set (all_gated_cat2_tools capability_tool_map_default) \<and> n \<in> set (granted_tools tok)
     \<or> n \<in> set (hm_keys (tm_cat1 m)))
    \<and> \<not> hidden_tool evs m n \<and> (\<nexists>r. hidden_tool evs m r \<and> n = mangle r)"
proof -
  have hid: "hidden_tool evs m t \<longleftrightarrow> t \<in> set (tm_removed (tool_changes evs m))" for t
    by (simp add: hidden_tool_def tool_changes_removed)
  have rem: "tm_removed (tm_refresh_tool_list tok u m') = tm_removed m'" for m'
    by (simp add: tm_refresh_tool_list_def Let_def)
  have cat1: "\<forall>(n, d)\<in>set (tm_cat1 (tool_changes evs m)). json_index d ''name'' = JStr n"
    using assms(1) by simp
  show ?thesis
    unfolding shown_names_iff rem refresh_tool_list_names [OF cat1] compute_cat2_tools_names hid
    by auto
qed

theorem tool_view_exact_witness:
  "''cap/list'' \<notin> set (shown_names (tm_refresh_tool_list (demo_token []) ''alice''
       (tool_changes [(''added'', ''cap/list''), (''removed'', ''cap/list'')] (tm_new []))))
   \<and> ''cap/list'' \<in> set (shown_names (tm_refresh_tool_list (demo_token []) ''alice''
       (tool_changes [(''removed'', ''cap/list''), (''removed'', ''cap/list''), (''added'', ''cap/list'')]
          (tm_new []))))"
proof -
  have cat1: "\<forall>(n, d)\<in>set (tm_cat1 (tm_new [])). json_index d ''name'' = JStr n" by (simp add: tm_new_def)
  have hid: "\<not> hidden_tool [(''removed'', ''cap/list''), (''removed'', ''cap/list''), (''added'', ''cap/list'')]
      (tm_new []) r" for r
    by (simp add: hidden_tool_def last_change_def tm_new_def)
  have hid': "hidden_tool [(''added'', ''cap/list''), (''removed'', ''cap/list'')] (tm_new []) ''cap/list''"
    by (simp add: hidden_tool_def last_change_def)
  show ?thesis
    unfolding tool_view_exact [OF cat1] using hid hid' by (simp add: exec_always_present_def)
qed

text \<open>
  The tool calls of a model response carry the tool's own name: for every tool name the parser
  accepts that has no underscore before a slash, a \<^verbatim>\<open>tool_use\<close> block naming its wire form is
  turned into a call of that tool, whether the wire form parses or the textual fallback is used.
\<close>

lemma call_of_block_name:
  "tc_name (call_of_block c) = unmangle (unwrap_or [] (as_str (json_index c ''name'')))"
  by (auto simp: call_of_block_def tool_name_unmangle_def tool_name_parse_Inr_iff unmangle_def wire_sep_def
      Let_def split: sum.splits)

lemma tool_call_name_recovered:
  assumes "tool_name_parse s = Inr t" and "\<not> contains_str s ''_/''"
    and "json_index c ''name'' = JStr (tool_name_mangled t)"
  shows "tc_name (call_of_block c) = s"
  using assms unmangle_mangle_iff [of s]
  by (simp add: call_of_block_name tool_name_mangled_def tool_name_parse_Inr_iff)

lemma stop_reason_roundtrip: "stop_reason_from_str (stop_reason_str r) = Inr r"
  by (cases r) (simp_all add: stop_reason_from_str_def)

end
