(* ===== verification/Snapshot_File.thy ===== *)
theory Snapshot_File
  imports Records Gateway Syscalls
begin

text \<open>
  Snapshots of an agent: \<^verbatim>\<open>src/crates/avix-core/src/snapshot/{capture,checksum,store}.rs\<close>.  A snapshot is a
  YAML envelope with the goal, a summary of the conversation, the granted tools and an unkeyed hash over the rest;
  \<open>capture\<close> builds one, \<open>verify_checksum\<close> checks the hash, and an in-memory store keeps snapshots by agent.

  Parameters, gathered in \<open>snap_env\<close>: the YAML codec of an envelope, SHA-256 with hex encoding, and the format
  \<^verbatim>\<open>%Y%m%d-%H%M\<close> of a time.  A temperature, an \<^verbatim>\<open>f32\<close>, is its bit pattern.  \<open>capture\<close> is
  \<open>None\<close> when the code panics.
\<close>

section \<open>Slices of a string\<close>

text \<open>\<^verbatim>\<open>&s[..n]\<close> with \<^verbatim>\<open>n <= s.len()\<close>: a panic unless \<open>n\<close> is a character boundary.\<close>

definition char_boundary :: "string \<Rightarrow> nat \<Rightarrow> bool" where
  "char_boundary s n \<longleftrightarrow> n = 0 \<or> n = length s \<or> n < length s \<and> \<not> utf8_cont (of_char (s ! n))"

definition slice_to :: "nat \<Rightarrow> string \<Rightarrow> string option" where
  "slice_to n s = (if char_boundary s n then Some (take n s) else None)"

lemma slice_to_None:
  "slice_to (min (length s) n) s = None \<longleftrightarrow> 0 < n \<and> n < length s \<and> utf8_cont (of_char (s ! n))"
  by (auto simp: slice_to_def char_boundary_def min_def)

section \<open>The envelope\<close>

record snapshot_message =
  snm_role :: string
  snm_content :: string

datatype snapshot_trigger = TrigAuto | TrigCrash | TrigManual | TrigSigsave

definition snapshot_trigger_default :: snapshot_trigger where
  "snapshot_trigger_default = TrigManual"

datatype captured_by = ByKernel | ByUser u32 | ByAgent u64

fun captured_by_print :: "captured_by \<Rightarrow> string" where
  "captured_by_print ByKernel = ''kernel''"
| "captured_by_print (ByUser uid) = ''user:'' @ show_word uid"
| "captured_by_print (ByAgent p) = ''agent:'' @ show_word p"

definition parse_u32 :: "string \<Rightarrow> u32 option" where
  "parse_u32 s =
     (let t = (case s of [] \<Rightarrow> [] | c # r \<Rightarrow> if c = CHR ''+'' then r else s)
      in if t = [] then None
         else (case parse_digits 0 t of None \<Rightarrow> None | Some n \<Rightarrow> if n < 2 ^ 32 then Some (word_of_nat n) else None))"

definition parse_int_error :: string where
  "parse_int_error = ''invalid integer''"

definition captured_by_parse :: "string \<Rightarrow> string + captured_by" where
  "captured_by_parse s =
     (if s = ''kernel'' then Inr ByKernel
      else (case strip_prefix ''user:'' s of
              Some rest \<Rightarrow> (case parse_u32 rest of Some uid \<Rightarrow> Inr (ByUser uid) | None \<Rightarrow> Inl parse_int_error)
            | None \<Rightarrow>
                (case strip_prefix ''agent:'' s of
                   Some rest \<Rightarrow> (case parse_u64 rest of Some p \<Rightarrow> Inr (ByAgent p) | None \<Rightarrow> Inl parse_int_error)
                 | None \<Rightarrow> Inl (''invalid CapturedBy value: '' @ [CHR 0x27] @ s @ [CHR 0x27]))))"

record snapshot_metadata =
  sm_name :: string
  sm_agent_name :: string
  sm_source_pid :: u64
  sm_captured_at :: datetime
  sm_captured_by :: captured_by
  sm_trigger :: snapshot_trigger

record snapshot_memory =
  smm_episodic_events :: u32
  smm_semantic_keys :: u32

definition snapshot_memory_default :: snapshot_memory where
  "snapshot_memory_default = \<lparr> smm_episodic_events = 0, smm_semantic_keys = 0 \<rparr>"

record pending_request =
  pr_request_id :: string
  pr_resource :: string
  pr_name :: string
  pr_status :: string

record snapshot_pipe =
  snp_pipe_id :: string
  snp_state :: string

record snapshot_environment =
  sne_temperature :: u32
  sne_capability_token :: string
  sne_granted_tools :: "string list"

record snapshot_spec =
  ssp_goal :: string
  ssp_context_summary :: string
  ssp_context_token_count :: u32
  ssp_memory :: snapshot_memory
  ssp_pending_requests :: "pending_request list"
  ssp_pipes :: "snapshot_pipe list"
  ssp_environment :: snapshot_environment
  ssp_checksum :: string

record snapshot_file =
  sf_api_version :: string
  sf_kind :: string
  sf_metadata :: snapshot_metadata
  sf_spec :: snapshot_spec

record snap_env =
  sn_codec :: "snapshot_file codec"
  sn_sha256 :: "string \<Rightarrow> string"
  sn_stamp :: "datetime \<Rightarrow> string"

definition snapshot_file_new :: "snapshot_metadata \<Rightarrow> snapshot_spec \<Rightarrow> snapshot_file" where
  "snapshot_file_new meta spec = \<lparr> sf_api_version = ''avix/v1'', sf_kind = ''Snapshot'', sf_metadata = meta, sf_spec = spec \<rparr>"

definition snapshot_from_str :: "snap_env \<Rightarrow> string \<Rightarrow> snapshot_file avix_result" where
  "snapshot_from_str env s = (case dec (sn_codec env) s of Inl e \<Rightarrow> Inl (ConfigParse e) | Inr f \<Rightarrow> Inr f)"

definition snapshot_to_yaml :: "snap_env \<Rightarrow> snapshot_file \<Rightarrow> string avix_result" where
  "snapshot_to_yaml env f = (case enc (sn_codec env) f of Inl e \<Rightarrow> Inl (ConfigParse e) | Inr s \<Rightarrow> Inr s)"

definition snapshot_make_name :: "snap_env \<Rightarrow> string \<Rightarrow> datetime \<Rightarrow> string" where
  "snapshot_make_name env agent captured_at = agent @ ''-'' @ sn_stamp env captured_at"

definition snapshot_vfs_path :: "snapshot_file \<Rightarrow> string \<Rightarrow> string" where
  "snapshot_vfs_path f username = ''/users/'' @ username @ ''/snapshots/'' @ sm_name (sf_metadata f) @ ''.yaml''"

section \<open>The checksum\<close>

definition zero_checksum :: "snapshot_file \<Rightarrow> snapshot_file" where
  "zero_checksum f = f\<lparr> sf_spec := (sf_spec f)\<lparr> ssp_checksum := [] \<rparr> \<rparr>"

definition compute_checksum :: "snap_env \<Rightarrow> snapshot_file \<Rightarrow> string" where
  "compute_checksum env f =
     (let yaml = (case snapshot_to_yaml env (zero_checksum f) of Inl _ \<Rightarrow> [] | Inr y \<Rightarrow> y) in sn_sha256 env yaml)"

definition snapshot_verify_checksum :: "snap_env \<Rightarrow> snapshot_file \<Rightarrow> unit avix_result" where
  "snapshot_verify_checksum env f =
     (case strip_prefix ''sha256:'' (ssp_checksum (sf_spec f)) of
        None \<Rightarrow> Inl (ConfigParse ''invalid checksum format'')
      | Some stored \<Rightarrow>
          (let computed = compute_checksum env f
           in if stored \<noteq> computed
              then Inl (ConfigParse (''snapshot integrity check failed for '' @ [CHR 0x27] @ sm_name (sf_metadata f) @ [CHR 0x27] @
                     '': stored='' @ stored @ '' computed='' @ computed))
              else Inr ()))"

section \<open>Capture\<close>

record capture_params =
  cp_agent_name :: string
  cp_pid :: u64
  cp_username :: string
  cp_goal :: string
  cp_message_history :: "conversation_entry list"
  cp_temperature :: u32
  cp_granted_tools :: "string list"
  cp_trigger :: snapshot_trigger
  cp_captured_by :: captured_by
  cp_memory :: snapshot_memory
  cp_pending_requests :: "pending_request list"
  cp_open_pipes :: "snapshot_pipe list"

definition build_context_summary :: "conversation_entry list \<Rightarrow> string option" where
  "build_context_summary history =
     (case List.find (\<lambda>e. ce_role e = ConvAssistant) (rev history) of
        Some e \<Rightarrow> slice_to (min (length (ce_content e)) 200) (ce_content e)
      | None \<Rightarrow> Some ''No context available.'')"

definition context_token_count :: "conversation_entry list \<Rightarrow> u32" where
  "context_token_count history =
     (let context_chars = sum_list (map (\<lambda>e. length (ce_content e)) history) in word_of_nat (max (context_chars div 4) 1))"

definition capture :: "snap_env \<Rightarrow> datetime \<Rightarrow> capture_params \<Rightarrow> snapshot_file option" where
  "capture env captured_at params =
     (let name = snapshot_make_name env (cp_agent_name params) captured_at;
          token_count = context_token_count (cp_message_history params)
      in (case build_context_summary (cp_message_history params) of
            None \<Rightarrow> None
          | Some summary \<Rightarrow>
              (let capability_token = ''sha256:'' @ sn_sha256 env (join_str '','' (cp_granted_tools params));
                   spec = \<lparr> ssp_goal = cp_goal params, ssp_context_summary = summary, ssp_context_token_count = token_count,
                            ssp_memory = cp_memory params, ssp_pending_requests = cp_pending_requests params,
                            ssp_pipes = cp_open_pipes params,
                            ssp_environment = \<lparr> sne_temperature = cp_temperature params, sne_capability_token = capability_token,
                                                sne_granted_tools = cp_granted_tools params \<rparr>,
                            ssp_checksum = [] \<rparr>;
                   file = snapshot_file_new
                            \<lparr> sm_name = name, sm_agent_name = cp_agent_name params, sm_source_pid = cp_pid params,
                              sm_captured_at = captured_at, sm_captured_by = cp_captured_by params, sm_trigger = cp_trigger params \<rparr>
                            spec;
                   checksum = compute_checksum env file
               in Some (file\<lparr> sf_spec := (sf_spec file)\<lparr> ssp_checksum := ''sha256:'' @ checksum \<rparr> \<rparr>))))"

section \<open>The store\<close>

datatype snapshot_error = SnapNotFound string | SnapSerialization string

type_synonym snapshot_store = "(string, snapshot_file list) hmap"

definition snapshot_store_new :: snapshot_store where
  "snapshot_store_new = []"

definition snapshot_save :: "snapshot_file \<Rightarrow> snapshot_store \<Rightarrow> (snapshot_error + string) \<times> snapshot_store" where
  "snapshot_save snap st =
     (let agent = sm_agent_name (sf_metadata snap)
      in (Inr (sm_name (sf_metadata snap)), hm_insert agent ((case hm_get st agent of None \<Rightarrow> [] | Some ss \<Rightarrow> ss) @ [snap]) st))"

definition has_name :: "string \<Rightarrow> snapshot_file \<Rightarrow> bool" where
  "has_name name s \<longleftrightarrow> sm_name (sf_metadata s) = name"

fun snapshot_load :: "string \<Rightarrow> snapshot_store \<Rightarrow> snapshot_error + snapshot_file" where
  "snapshot_load name [] = Inl (SnapNotFound name)"
| "snapshot_load name ((a, ss) # st) = (case List.find (has_name name) ss of Some s \<Rightarrow> Inr s | None \<Rightarrow> snapshot_load name st)"

definition snapshot_list :: "string \<Rightarrow> snapshot_store \<Rightarrow> snapshot_file list" where
  "snapshot_list agent st = (case hm_get st agent of None \<Rightarrow> [] | Some ss \<Rightarrow> ss)"

text \<open>\<^verbatim>\<open>position\<close> and \<^verbatim>\<open>remove\<close>: the first snapshot of the name goes.\<close>

fun remove_named :: "string \<Rightarrow> snapshot_file list \<Rightarrow> snapshot_file list option" where
  "remove_named name [] = None"
| "remove_named name (s # ss) = (if has_name name s then Some ss else map_option ((#) s) (remove_named name ss))"

fun snapshot_delete :: "string \<Rightarrow> snapshot_store \<Rightarrow> (snapshot_error + unit) \<times> snapshot_store" where
  "snapshot_delete name [] = (Inl (SnapNotFound name), [])"
| "snapshot_delete name ((a, ss) # st) =
     (case remove_named name ss of
        Some ss' \<Rightarrow> (Inr (), (a, ss') # st)
      | None \<Rightarrow> (let (r, st') = snapshot_delete name st in (r, (a, ss) # st')))"

definition snapshot_count :: "string \<Rightarrow> snapshot_store \<Rightarrow> nat" where
  "snapshot_count agent st = (case hm_get st agent of None \<Rightarrow> 0 | Some ss \<Rightarrow> length ss)"

section \<open>Parsing and printing\<close>

lemma parse_u32_show [simp]: "parse_u32 (show_word (w :: u32)) = Some w"
proof -
  have plus: "CHR ''+'' \<notin> set (show_nat n)" for n using show_nat_no_char [of "CHR ''+''" n] by auto
  obtain c r where cr: "show_nat (unat w) = c # r" by (meson list.exhaust show_nat_nonempty(1))
  then have "c \<noteq> CHR ''+''" using plus [of "unat w"] by auto
  moreover have "unat w < 2 ^ 32" using unsigned_less [of w] by simp
  ultimately show ?thesis
    using parse_digits_show [of "unat w"] cr by (simp add: parse_u32_def show_word_def)
qed

lemma strip_prefix_app: "strip_prefix p (p @ t) = Some t"
  by (simp add: strip_prefix_def)

lemma captured_by_roundtrip: "captured_by_parse (captured_by_print c) = Inr c"
  by (cases c) (simp_all add: captured_by_parse_def strip_prefix_def)

section \<open>Integrity of a captured snapshot\<close>

lemma zero_checksum_idem [simp]:
  "zero_checksum (zero_checksum f) = zero_checksum f"
  "zero_checksum (f\<lparr> sf_spec := (sf_spec f)\<lparr> ssp_checksum := c \<rparr> \<rparr>) = zero_checksum f"
  by (simp_all add: zero_checksum_def)

lemma compute_checksum_set [simp]:
  "compute_checksum env (f\<lparr> sf_spec := (sf_spec f)\<lparr> ssp_checksum := c \<rparr> \<rparr>) = compute_checksum env f"
  by (simp add: compute_checksum_def)

lemma verify_checksum_iff:
  "snapshot_verify_checksum env f = Inr () \<longleftrightarrow> ssp_checksum (sf_spec f) = ''sha256:'' @ compute_checksum env f"
  by (auto simp: snapshot_verify_checksum_def strip_prefix_def starts_with_iff Let_def split: option.splits)

lemma capture_fields:
  assumes "capture env now params = Some f"
  shows "sm_name (sf_metadata f) = cp_agent_name params @ ''-'' @ sn_stamp env now"
    and "sm_agent_name (sf_metadata f) = cp_agent_name params" and "ssp_goal (sf_spec f) = cp_goal params"
    and "sne_granted_tools (ssp_environment (sf_spec f)) = cp_granted_tools params"
    and "build_context_summary (cp_message_history params) = Some (ssp_context_summary (sf_spec f))"
    and "ssp_pending_requests (sf_spec f) = cp_pending_requests params" and "ssp_pipes (sf_spec f) = cp_open_pipes params"
    and "snapshot_verify_checksum env f = Inr ()"
  using assms by (auto simp: capture_def Let_def verify_checksum_iff snapshot_make_name_def snapshot_file_new_def
      compute_checksum_def zero_checksum_def split: option.splits)

text \<open>Capturing panics exactly when the last assistant turn is longer than 200 bytes and byte 200 is inside a
  character.\<close>

lemma capture_panics_iff:
  "capture env now params = None \<longleftrightarrow>
     (\<exists>e. List.find (\<lambda>e. ce_role e = ConvAssistant) (rev (cp_message_history params)) = Some e \<and>
        200 < length (ce_content e) \<and> utf8_cont (of_char (ce_content e ! 200)))"
proof (cases "List.find (\<lambda>e. ce_role e = ConvAssistant) (rev (cp_message_history params))")
  case (Some e)
  have "capture env now params = None \<longleftrightarrow> slice_to (min (length (ce_content e)) 200) (ce_content e) = None"
    by (simp add: capture_def build_context_summary_def Some Let_def split: option.splits)
  then show ?thesis unfolding slice_to_None by (simp add: Some)
qed (simp add: capture_def build_context_summary_def Let_def)

lemma context_token_count_pos:
  assumes "sum_list (map (\<lambda>e. length (ce_content e)) history) < 2 ^ 34"
  shows "0 < context_token_count history"
proof -
  let ?n = "max (sum_list (map (\<lambda>e. length (ce_content e)) history) div 4) 1"
  have "?n < 2 ^ 32" using assms by auto
  then have "unat (word_of_nat ?n :: u32) = ?n" by (simp add: unat_of_nat take_bit_nat_eq_self)
  then have "0 < unat (context_token_count history)" by (simp add: context_token_count_def Let_def)
  then show ?thesis by (metis unat_0 word_gt_0 less_irrefl)
qed

lemma zero_checksum_inj:
  "zero_checksum f = zero_checksum g \<Longrightarrow> ssp_checksum (sf_spec f) = ssp_checksum (sf_spec g) \<Longrightarrow> f = g"
  by (cases f, cases g, cases "sf_spec f", cases "sf_spec g") (simp add: zero_checksum_def)

text \<open>
  A changed snapshot is detected as long as its checksum is kept: of two snapshots that bear one checksum and both
  verify, each is the other.
\<close>

lemma checksum_binds:
  assumes "codec_lawful (sn_codec env)" and "inj (sn_sha256 env)"
    and "\<And>f. \<exists>y. enc (sn_codec env) f = Inr y"
    and "snapshot_verify_checksum env f = Inr ()" and "snapshot_verify_checksum env g = Inr ()"
    and "ssp_checksum (sf_spec f) = ssp_checksum (sf_spec g)"
  shows "f = g"
proof -
  obtain y z where yz: "enc (sn_codec env) (zero_checksum f) = Inr y" "enc (sn_codec env) (zero_checksum g) = Inr z"
    using assms(3) by blast
  from assms(4-6) have "compute_checksum env f = compute_checksum env g" by (simp add: verify_checksum_iff)
  with yz assms(2) have "y = z" by (auto simp: compute_checksum_def snapshot_to_yaml_def dest: injD)
  with yz assms(1) have "zero_checksum f = zero_checksum g" by (metis codec_lawful_def sum.inject(2))
  with assms(6) show ?thesis by (rule zero_checksum_inj [rotated])
qed

section \<open>The contents of the store\<close>

definition stored :: "snapshot_store \<Rightarrow> snapshot_file list" where
  "stored st = concat (map snd st)"

lemma stored_simps [simp]: "stored [] = []" "stored ((a, ss) # st) = ss @ stored st"
  by (simp_all add: stored_def)

text \<open>The store holds the multiset of the snapshots saved: saving adds the snapshot, whatever names are in use; deleting
  takes out one snapshot of the name; loading finds one, exactly when there is one.\<close>

lemma stored_insert:
  "hm_wf st \<Longrightarrow> mset (stored (hm_insert a ss st)) + mset (case hm_get st a of None \<Rightarrow> [] | Some ss' \<Rightarrow> ss') = mset ss + mset (stored st)"
proof (induction st)
  case (Cons p st)
  obtain b ss' where p: "p = (b, ss')" by (cases p)
  from Cons have "mset (stored (hm_insert a ss st)) + mset (case hm_get st a of None \<Rightarrow> [] | Some ss' \<Rightarrow> ss') = mset ss + mset (stored st)"
    by (simp add: hm_wf_def)
  then show ?case by (cases "b = a") (simp_all add: p hm_insert_def add.assoc add.left_commute)
qed (simp add: hm_insert_def)

lemma snapshot_save_adds:
  assumes "hm_wf st"
  shows "mset (stored (snd (snapshot_save s st))) = add_mset s (mset (stored st))"
  using stored_insert [OF assms, of "sm_agent_name (sf_metadata s)" "snapshot_list (sm_agent_name (sf_metadata s)) st @ [s]"]
  by (simp add: snapshot_save_def snapshot_list_def Let_def)

lemma snapshot_load_find:
  "snapshot_load name st = (case List.find (has_name name) (stored st) of Some s \<Rightarrow> Inr s | None \<Rightarrow> Inl (SnapNotFound name))"
proof (induction name st rule: snapshot_load.induct)
  case (2 name a ss st)
  have "List.find (has_name name) (ss @ stored st) =
      (case List.find (has_name name) ss of Some s \<Rightarrow> Some s | None \<Rightarrow> List.find (has_name name) (stored st))"
    by (induction ss) auto
  with 2 show ?case by (auto split: option.splits)
qed simp

lemma remove_named_cases:
  "case remove_named name ss of None \<Rightarrow> \<not> list_ex (has_name name) ss
   | Some ss' \<Rightarrow> \<exists>s. has_name name s \<and> mset ss = add_mset s (mset ss')"
proof (induction ss)
  case (Cons s ss)
  show ?case
  proof (cases "has_name name s")
    case named: False
    show ?thesis
    proof (cases "remove_named name ss")
      case (Some ss')
      with Cons obtain s' where "has_name name s'" "mset ss = add_mset s' (mset ss')" by auto
      with named Some show ?thesis by (auto intro!: exI [of _ s'])
    qed (use Cons named in simp)
  qed auto
qed simp

lemma snapshot_delete_removes:
  "case snapshot_delete name st of
     (Inr u, st') \<Rightarrow> \<exists>s. has_name name s \<and> mset (stored st) = add_mset s (mset (stored st'))
   | (Inl e, st') \<Rightarrow> st' = st \<and> e = SnapNotFound name \<and> \<not> list_ex (has_name name) (stored st)"
proof (induction name st rule: snapshot_delete.induct)
  case (2 name a ss st)
  show ?case
  proof (cases "remove_named name ss")
    case None
    obtain r st' where d: "snapshot_delete name st = (r, st')" by (cases "snapshot_delete name st")
    from remove_named_cases [of name ss] None have "\<not> list_ex (has_name name) ss" by simp
    note eq = this None d
    show ?thesis
    proof (cases r)
      case (Inr u)
      from 2 [OF None] d Inr have "\<exists>s. has_name name s \<and> mset (stored st) = add_mset s (mset (stored st'))" by simp
      then obtain s where "has_name name s" "mset (stored st) = add_mset s (mset (stored st'))" by blast
      then have "has_name name s \<and> mset (stored ((a, ss) # st)) = add_mset s (mset (stored ((a, ss) # st')))" by simp
      then show ?thesis using eq Inr by (simp add: exI [of _ s] del: stored_simps)
    qed (use 2 [OF None] eq in simp)
  next
    case (Some ss')
    with remove_named_cases [of name ss] obtain s where "has_name name s" "mset ss = add_mset s (mset ss')" by auto
    with Some show ?thesis by (simp add: exI [of _ s])
  qed
qed simp

lemma snapshot_count_length: "snapshot_count a st = length (snapshot_list a st)"
  by (simp add: snapshot_count_def snapshot_list_def split: option.splits)

lemma snapshot_list_save:
  "snapshot_list a (snd (snapshot_save s st)) = snapshot_list a st @ (if a = sm_agent_name (sf_metadata s) then [s] else [])"
  by (simp add: snapshot_list_def snapshot_save_def Let_def)

end
