(* ===== verification/Executor_State.thy ===== *)
theory Executor_State
  imports Executor_Tools Kernel_Caps Records Signals Proc_Handler Hil Snapshot_File
begin

text \<open>
  The executor of an agent: its state and construction
  (\<^verbatim>\<open>executor/runtime_executor.rs\<close>, \<^verbatim>\<open>executor/mock_kernel.rs\<close>), what it writes for
  others to see (\<^verbatim>\<open>runtime_executor/proc_manager.rs\<close>, \<^verbatim>\<open>executor/memory.rs\<close>), its
  reactions to signals and its life between goals.  The turn loop is in \<open>Executor_Loop\<close>.

  The clock and the generator of identifiers are streams (\<open>xe_now\<close>, \<open>xe_uuid\<close>) read at
  the position \<open>ex_draws\<close>, which every reading advances.  The signal channel is its queue
  \<open>ex_rx\<close>; \<^verbatim>\<open>None\<close> stands for a missing receiver and for a closed channel, which all
  operations treat alike.  Slicing a string at a byte position
  inside a character panics: steps that slice return \<^verbatim>\<open>None\<close> then.
\<close>

section \<open>Environment and state\<close>

datatype ipc_outcome = IpcConnectErr string | IpcWriteErr string | IpcReadErr string | IpcReply json_rpc_response

record ('d, 'k, 's) exec_env =
  xe_inv :: "('d, 'k) inv_env"
  xe_sdb :: "'s redb"
  xe_scodec :: "session_record codec"
  xe_uuid_parse :: "string \<Rightarrow> string + string"
  xe_now :: "nat \<Rightarrow> datetime"
  xe_uuid :: "nat \<Rightarrow> string"
  xe_hmac :: hmac_fn
  xe_status_yaml :: "agent_status_file \<Rightarrow> string + bytes"
  xe_to_string :: "json \<Rightarrow> string"
  xe_from_str :: "string \<Rightarrow> json option"
  xe_to_yaml :: "json \<Rightarrow> string"
  xe_rfc3339 :: "datetime \<Rightarrow> string"
  xe_var :: "string \<Rightarrow> string option"
  xe_ipc :: "nat \<Rightarrow> string \<Rightarrow> json_rpc_request \<Rightarrow> ipc_outcome"
  xe_token_of :: "json \<Rightarrow> capability_token option"
  xe_to_uppercase :: "string \<Rightarrow> string"
  xe_hil :: hil_env
  xe_ring_free :: "nat \<Rightarrow> bool"
  xe_hil_signals :: "nat \<Rightarrow> signal list"
  xe_snap :: snap_env

record mock_kernel =
  mk_spawns :: "string list"
  mk_kills :: "u64 list"
  mk_auto_approve :: bool
  mk_registry :: "tool_registry option"

definition record_proc_spawn :: "string \<Rightarrow> mock_kernel \<Rightarrow> mock_kernel" where
  "record_proc_spawn name k = k\<lparr> mk_spawns := List.insert name (mk_spawns k) \<rparr>"

definition record_proc_kill :: "u64 \<Rightarrow> mock_kernel \<Rightarrow> mock_kernel" where
  "record_proc_kill p k = k\<lparr> mk_kills := List.insert p (mk_kills k) \<rparr>"

definition auto_approve_resource_request :: "mock_kernel \<Rightarrow> mock_kernel" where
  "auto_approve_resource_request k = k\<lparr> mk_auto_approve := True \<rparr>"

datatype registry_ref = RegMock "(u64 \<times> string \<times> tool_visibility) list" | RegReal tool_registry

record ('d, 'k, 's) executor =
  ex_pid :: pid
  ex_agent_name :: string
  ex_goal :: string
  ex_spawned_by :: string
  ex_session_id :: string
  ex_atp_session_id :: string
  ex_token :: capability_token
  ex_pending :: "string list"
  ex_tools :: tool_manager
  ex_runtime_dir :: string
  ex_llm_queue :: "llm_complete_response list"
  ex_call_log :: "json list list"
  ex_fs_data :: "(string, bytes) hmap"
  ex_max_chain :: u64
  ex_kernel :: "mock_kernel option"
  ex_resource :: "kernel_resource_handler option"
  ex_hil :: "hil_manager option"
  ex_signal_bus :: "signal_bus option"
  ex_vfs :: "(vfs_router \<times> 'k) option"
  ex_registry :: registry_ref
  ex_paused :: bool
  ex_killed :: bool
  ex_snapshot_requested :: bool
  ex_memory_svc :: "json list option"
  ex_memory_context :: "string option"
  ex_conv :: "conversation_entry list"
  ex_bus :: "atp_event_bus option"
  ex_inv :: "('d, 'k) inv_store option"
  ex_inv_id :: string
  ex_sess :: "'s option"
  ex_snapshot_interval :: "u32 option"
  ex_calls_since :: u32
  ex_spawned_at :: datetime
  ex_context_used :: u64
  ex_context_limit :: u64
  ex_denied :: "string list"
  ex_tokens :: u64
  ex_tool_calls :: u32
  ex_last_signal :: "string option"
  ex_pending_signals :: u32
  ex_rx :: "signal list option"
  ex_draws :: nat

definition draw :: "('d, 'k, 's) executor \<Rightarrow> ('d, 'k, 's) executor" where
  "draw ex = ex\<lparr> ex_draws := Suc (ex_draws ex) \<rparr>"

text \<open>A call of one of the helpers of the event bus, when a bus is attached.\<close>

definition emit ::
  "('d, 'k, 's) exec_env \<Rightarrow> bus_request \<Rightarrow> ('d, 'k, 's) executor \<Rightarrow> ('d, 'k, 's) executor" where
  "emit env ev ex =
     (case ex_bus ex of
        None \<Rightarrow> ex
      | Some b \<Rightarrow> draw (ex\<lparr> ex_bus := Some (bus_call (xe_ring_free env (ex_draws ex)) (xe_now env (ex_draws ex)) ev b) \<rparr>))"

section \<open>Construction\<close>

fun register_all :: "u64 \<Rightarrow> (string \<times> tool_visibility) list \<Rightarrow> registry_ref \<Rightarrow> registry_ref" where
  "register_all p cat2 (RegMock reg) = RegMock (reg @ map (\<lambda>(n, v). (p, n, v)) cat2)"
| "register_all p cat2 (RegReal reg) = RegReal reg"

definition lookup_descriptor :: "registry_ref \<Rightarrow> string \<Rightarrow> json option" where
  "lookup_descriptor reg name =
     (case reg of
        RegMock _ \<Rightarrow> None
      | RegReal r \<Rightarrow> (case tr_lookup r name of Inl _ \<Rightarrow> None | Inr e \<Rightarrow> Some (te_descriptor e)))"

definition cat1_descriptors :: "registry_ref \<Rightarrow> string list \<Rightarrow> string list \<Rightarrow> (string, json) hmap" where
  "cat1_descriptors reg granted cat2 =
     fold (\<lambda>name m. if List.member cat2 name then m
                    else (case lookup_descriptor reg name of None \<Rightarrow> m | Some d \<Rightarrow> hm_insert name d m)) granted []"

definition refresh_tool_list :: "('d, 'k, 's) executor \<Rightarrow> ('d, 'k, 's) executor" where
  "refresh_tool_list ex =
     (let m = ex_tools ex;
          m1 = m\<lparr> tm_cat1 := cat1_descriptors (ex_registry ex) (granted_tools (ex_token ex)) (tm_registered_cat2 m) \<rparr>
      in ex\<lparr> ex_tools := tm_refresh_tool_list (ex_token ex) (ex_spawned_by ex) m1 \<rparr>)"

definition spawn_with_registry_ref ::
  "('d, 'k, 's) exec_env \<Rightarrow> spawn_params \<Rightarrow> registry_ref \<Rightarrow> ('d, 'k, 's) executor" where
  "spawn_with_registry_ref env params reg =
     (let cat2 = compute_cat2_tools (sp_token params) (sp_spawned_by params)
      in refresh_tool_list
           \<lparr> ex_pid = sp_pid params, ex_agent_name = sp_agent_name params, ex_goal = sp_goal params,
             ex_spawned_by = sp_spawned_by params, ex_session_id = sp_session_id params,
             ex_atp_session_id = sp_atp_session_id params, ex_token = sp_token params, ex_pending = [],
             ex_tools = tm_new (map fst cat2), ex_runtime_dir = sp_runtime_dir params, ex_llm_queue = [],
             ex_call_log = [], ex_fs_data = [], ex_max_chain = 50, ex_kernel = None, ex_resource = None,
             ex_hil = None, ex_signal_bus = None, ex_vfs = None,
             ex_registry = register_all (pid_u64 (sp_pid params)) cat2 reg, ex_paused = False, ex_killed = False,
             ex_snapshot_requested = False, ex_memory_svc = None, ex_memory_context = None, ex_conv = [],
             ex_bus = None, ex_inv = None, ex_inv_id = sp_invocation_id params, ex_sess = None,
             ex_snapshot_interval = None, ex_calls_since = 0, ex_spawned_at = xe_now env 0, ex_context_used = 0,
             ex_context_limit = sp_context_limit params, ex_denied = sp_denied_tools params, ex_tokens = 0,
             ex_tool_calls = 0, ex_last_signal = None, ex_pending_signals = 0, ex_rx = Some [], ex_draws = 1 \<rparr>)"

section \<open>The prompt\<close>

text \<open>The remaining budgets of the registered category-2 tools, as a hash map.\<close>

definition cat2_budgets :: "tool_manager \<Rightarrow> (string, u32) hmap" where
  "cat2_budgets m =
     fold (\<lambda>name acc. case tb_remaining (tm_budgets m) name of None \<Rightarrow> acc | Some n \<Rightarrow> hm_insert name n acc)
       (tm_registered_cat2 m) []"

definition build_system_prompt_str :: "('d, 'k, 's) executor \<Rightarrow> string" where
  "build_system_prompt_str ex =
     (let base = build_system_prompt (pid_u64 (ex_pid ex)) (ex_agent_name ex) (ex_goal ex) (ex_spawned_by ex)
            (ex_session_id ex) (ex_max_chain ex) (cat2_budgets (ex_tools ex)) (ex_pending ex)
            (tm_current_tool_list (ex_tools ex)) (ex_denied ex)
      in (case ex_memory_context ex of Some ctx \<Rightarrow> ctx @ nl @ nl @ base | None \<Rightarrow> base))"

definition inject_pending_message :: "string \<Rightarrow> ('d, 'k, 's) executor \<Rightarrow> ('d, 'k, 's) executor" where
  "inject_pending_message msg ex = ex\<lparr> ex_pending := ex_pending ex @ [msg] \<rparr>"

definition push_conversation_message :: "string \<Rightarrow> string \<Rightarrow> ('d, 'k, 's) executor \<Rightarrow> ('d, 'k, 's) executor" where
  "push_conversation_message role content ex =
     (let r = (if role = ''assistant'' then ConvAssistant else if role = ''tool'' then ConvTool
               else if role = ''system'' then ConvSystem else ConvUser)
      in ex\<lparr> ex_conv := ex_conv ex @ [from_role_content r content] \<rparr>)"

section \<open>Status file\<close>

text \<open>Two clock readings: the last activity and the wall time of the file.\<close>

definition write_status_yaml ::
  "('d, 'k, 's) exec_env \<Rightarrow> ('d, 'k, 's) executor \<Rightarrow> ('d, 'k, 's) executor" where
  "write_status_yaml env ex =
     (case ex_vfs ex of
        None \<Rightarrow> ex
      | Some (vfs, disk) \<Rightarrow>
          (let state = (if ex_killed ex then PsStopped else if ex_paused ex then PsPaused else PsRunning);
               entry = (process_entry_default (xe_now env (ex_draws ex)))
                 \<lparr> pe_pid := ex_pid ex, pe_name := ex_agent_name ex, pe_kind := KindAgent, pe_status := state,
                   pe_spawned_by_user := ex_spawned_by ex, pe_goal := ex_goal ex,
                   pe_spawned_at := ex_spawned_at ex, pe_context_used := ex_context_used ex,
                   pe_context_limit := ex_context_limit ex,
                   pe_last_activity_at := xe_now env (ex_draws ex), pe_waiting_on := None,
                   pe_granted_tools := granted_tools (ex_token ex), pe_denied_tools := ex_denied ex,
                   pe_tool_chain_depth := 0, pe_tokens_consumed := ex_tokens ex,
                   pe_tool_calls_total := ex_tool_calls ex, pe_last_signal_received := ex_last_signal ex,
                   pe_pending_signal_count := ex_pending_signals ex \<rparr>;
               file = from_entry (xe_now env (Suc (ex_draws ex))) entry [];
               ex1 = draw (draw ex)
           in (case xe_status_yaml env file of
                 Inl _ \<Rightarrow> ex1
               | Inr yaml \<Rightarrow>
                   (case vfs_path_parse (''/proc/'' @ show_word (pid_u64 (ex_pid ex)) @ ''/status.yaml'') of
                      Inl _ \<Rightarrow> ex1
                    | Inr path \<Rightarrow>
                        (let (_, vfs', disk') = vfs_write (ie_os (xe_inv env)) path yaml vfs disk
                         in ex1\<lparr> ex_vfs := Some (vfs', disk') \<rparr>)))))"

section \<open>The session log\<close>

fun conv_role_debug :: "conv_role \<Rightarrow> string" where
  "conv_role_debug ConvUser = ''User''"
| "conv_role_debug ConvAssistant = ''Assistant''"
| "conv_role_debug ConvTool = ''Tool''"
| "conv_role_debug ConvSystem = ''System''"
| "conv_role_debug ConvHilRequest = ''HilRequest''"
| "conv_role_debug ConvHilResponse = ''HilResponse''"

fun session_previews :: "conversation_entry list \<Rightarrow> string list option" where
  "session_previews [] = Some []"
| "session_previews (e # es) =
     (case slice_to (min (length (ce_content e)) 200) (ce_content e) of
        None \<Rightarrow> None
      | Some p \<Rightarrow> map_option (\<lambda>ps. (conv_role_debug (ce_role e) @ '': '' @ p) # ps) (session_previews es))"

definition auto_log_session_end :: "('d, 'k, 's) executor \<Rightarrow> ('d, 'k, 's) executor option" where
  "auto_log_session_end ex =
     (case ex_memory_svc ex of
        None \<Rightarrow> Some ex
      | Some log \<Rightarrow>
          if ex_conv ex = [] then Some ex
          else (case session_previews (ex_conv ex) of
                  None \<Rightarrow> None
                | Some ps \<Rightarrow>
                    Some (ex\<lparr> ex_memory_svc := Some (log @
                      [JObj [(''summary'', JStr (join_str nl ps)), (''outcome'', JStr ''success''),
                             (''scope'', JStr ''own'')]]) \<rparr>)))"

section \<open>Persistence\<close>

definition save_invocation_state ::
  "('d, 'k, 's) exec_env \<Rightarrow> ('d, 'k, 's) executor \<Rightarrow> ('d, 'k, 's) executor" where
  "save_invocation_state env ex =
     (if ex_inv_id ex = [] then ex
      else (case ex_inv ex of
              None \<Rightarrow> ex
            | Some store \<Rightarrow>
                ex\<lparr> ex_inv := Some (snd (is_persist_interim (xe_inv env) (ex_inv_id ex) (ex_conv ex)
                                          (ex_tokens ex) (ex_tool_calls ex) store)) \<rparr>))"

definition take_interim_snapshot ::
  "('d, 'k, 's) exec_env \<Rightarrow> ('d, 'k, 's) executor \<Rightarrow> ('d, 'k, 's) executor" where
  "take_interim_snapshot env ex =
     (case ex_inv ex of
        None \<Rightarrow> ex
      | Some store \<Rightarrow>
          if ex_inv_id ex = [] then ex
          else ex\<lparr> ex_inv := Some (snd (is_persist_interim (xe_inv env) (ex_inv_id ex) (ex_conv ex)
                                         (ex_tokens ex) (ex_tool_calls ex) store)) \<rparr>)"

definition ex_update_status ::
  "('d, 'k, 's) exec_env \<Rightarrow> invocation_status \<Rightarrow> ('d, 'k, 's) executor \<Rightarrow> ('d, 'k, 's) executor" where
  "ex_update_status env status ex =
     (case ex_inv ex of
        None \<Rightarrow> ex
      | Some store \<Rightarrow>
          if ex_inv_id ex = [] then ex
          else ex\<lparr> ex_inv := Some (snd (is_update_status (xe_inv env) (ex_inv_id ex) status store)) \<rparr>)"

definition ex_modify_session ::
  "('d, 'k, 's) exec_env \<Rightarrow> string \<Rightarrow> (session_record \<Rightarrow> session_record option) \<Rightarrow> ('d, 'k, 's) executor \<Rightarrow>
   ('d, 'k, 's) executor option" where
  "ex_modify_session env uuid f ex =
     (case ex_sess ex of
        None \<Rightarrow> Some ex
      | Some d \<Rightarrow>
          (case ss_get (xe_sdb env) (xe_scodec env) uuid d of
             Inr (Some session) \<Rightarrow>
               map_option (\<lambda>s. ex\<lparr> ex_sess := Some (snd (ss_update (xe_sdb env) (xe_scodec env) s d)) \<rparr>) (f session)
           | _ \<Rightarrow> Some ex))"

text \<open>A preview of at most 500 bytes of the last response becomes the summary of the session.\<close>

definition save_session_response ::
  "('d, 'k, 's) exec_env \<Rightarrow> string \<Rightarrow> ('d, 'k, 's) executor \<Rightarrow> ('d, 'k, 's) executor option" where
  "save_session_response env response ex =
     (if ex_session_id ex = [] then Some ex
      else (case xe_uuid_parse env (ex_session_id ex) of
              Inl _ \<Rightarrow> Some ex
            | Inr uuid \<Rightarrow>
                map_option draw
                  (ex_modify_session env uuid
                     (\<lambda>s. map_option (\<lambda>p. s\<lparr> sr_summary := Some p, sr_last_updated := xe_now env (ex_draws ex) \<rparr>)
                            (slice_to (min (length response) 500) response)) ex)))"

text \<open>The temperature of a snapshot is the constant \<^verbatim>\<open>0.7f32\<close>.\<close>

definition snapshot_temperature :: u32 where
  "snapshot_temperature = 0x3F333333"

definition exec_capture_params :: "snapshot_trigger \<Rightarrow> captured_by \<Rightarrow> ('d, 'k, 's) executor \<Rightarrow> capture_params" where
  "exec_capture_params trigger by ex =
     \<lparr> cp_agent_name = ex_agent_name ex, cp_pid = pid_u64 (ex_pid ex), cp_username = ex_spawned_by ex, cp_goal = ex_goal ex,
       cp_message_history = ex_conv ex, cp_temperature = snapshot_temperature, cp_granted_tools = granted_tools (ex_token ex),
       cp_trigger = trigger, cp_captured_by = by, cp_memory = snapshot_memory_default, cp_pending_requests = [], cp_open_pipes = [] \<rparr>"

definition capture_and_write_snapshot ::
  "('d, 'k, 's) exec_env \<Rightarrow> snapshot_trigger \<Rightarrow> captured_by \<Rightarrow> ('d, 'k, 's) executor \<Rightarrow> ('d, 'k, 's) executor option" where
  "capture_and_write_snapshot env trigger by ex =
     (case ex_vfs ex of
        None \<Rightarrow> Some ex
      | Some (vfs, disk) \<Rightarrow>
          (case capture (xe_snap env) (xe_now env (ex_draws ex)) (exec_capture_params trigger by ex) of
             None \<Rightarrow> None
           | Some snap \<Rightarrow>
               (let path_str = snapshot_vfs_path snap (ex_spawned_by ex); ex1 = draw ex
                in (case snapshot_to_yaml (xe_snap env) snap of
                      Inl _ \<Rightarrow> Some ex1
                    | Inr yaml \<Rightarrow>
                        (case vfs_path_parse path_str of
                           Inl _ \<Rightarrow> Some ex1
                         | Inr path \<Rightarrow>
                             (let (_, vfs', disk') = vfs_write (ie_os (xe_inv env)) path (bytes_of_string yaml) vfs disk
                              in Some (ex1\<lparr> ex_vfs := Some (vfs', disk') \<rparr>)))))))"

definition on_save :: "('d, 'k, 's) exec_env \<Rightarrow> ('d, 'k, 's) executor \<Rightarrow> ('d, 'k, 's) executor option" where
  "on_save env ex = map_option (take_interim_snapshot env) (capture_and_write_snapshot env TrigSigsave ByKernel ex)"

section \<open>Builders\<close>

definition with_kernel :: "mock_kernel \<Rightarrow> ('d, 'k, 's) executor \<Rightarrow> ('d, 'k, 's) executor" where
  "with_kernel k ex = ex\<lparr> ex_kernel := Some k \<rparr>"

definition with_event_bus :: "atp_event_bus \<Rightarrow> ('d, 'k, 's) executor \<Rightarrow> ('d, 'k, 's) executor" where
  "with_event_bus b ex = ex\<lparr> ex_bus := Some b \<rparr>"

definition with_resource_handler ::
  "kernel_resource_handler \<Rightarrow> ('d, 'k, 's) executor \<Rightarrow> ('d, 'k, 's) executor" where
  "with_resource_handler h ex = ex\<lparr> ex_resource := Some h \<rparr>"

definition with_hil_manager :: "hil_manager \<Rightarrow> ('d, 'k, 's) executor \<Rightarrow> ('d, 'k, 's) executor" where
  "with_hil_manager m ex = ex\<lparr> ex_hil := Some m \<rparr>"

definition with_signal_bus :: "signal_bus \<Rightarrow> ('d, 'k, 's) executor \<Rightarrow> ('d, 'k, 's) executor" where
  "with_signal_bus b ex = ex\<lparr> ex_signal_bus := Some b \<rparr>"

definition with_vfs :: "vfs_router \<Rightarrow> 'k \<Rightarrow> ('d, 'k, 's) executor \<Rightarrow> ('d, 'k, 's) executor" where
  "with_vfs vfs disk ex = ex\<lparr> ex_vfs := Some (vfs, disk) \<rparr>"

definition init_vfs_caller :: "('d, 'k, 's) executor \<Rightarrow> ('d, 'k, 's) executor" where
  "init_vfs_caller ex =
     (case ex_vfs ex of
        None \<Rightarrow> ex
      | Some (vfs, disk) \<Rightarrow>
          ex\<lparr> ex_vfs := Some (set_caller (Some \<lparr> vc_username = ex_spawned_by ex, vc_crews = [], vc_is_admin = False,
                                                 vc_token = Some (ex_token ex) \<rparr>) vfs, disk) \<rparr>)"

definition with_invocation_store ::
  "('d, 'k) inv_store \<Rightarrow> string \<Rightarrow> ('d, 'k, 's) executor \<Rightarrow> ('d, 'k, 's) executor" where
  "with_invocation_store store iid ex = ex\<lparr> ex_inv := Some store, ex_inv_id := iid \<rparr>"

definition with_session_store :: "'s \<Rightarrow> ('d, 'k, 's) executor \<Rightarrow> ('d, 'k, 's) executor" where
  "with_session_store d ex = ex\<lparr> ex_sess := Some d \<rparr>"

definition with_snapshot_interval :: "u32 \<Rightarrow> ('d, 'k, 's) executor \<Rightarrow> ('d, 'k, 's) executor" where
  "with_snapshot_interval n ex = ex\<lparr> ex_snapshot_interval := Some n \<rparr>"

definition set_max_tool_chain_length :: "u64 \<Rightarrow> ('d, 'k, 's) executor \<Rightarrow> ('d, 'k, 's) executor" where
  "set_max_tool_chain_length n ex = ex\<lparr> ex_max_chain := n \<rparr>"

definition set_tool_budget :: "string \<Rightarrow> u32 \<Rightarrow> ('d, 'k, 's) executor \<Rightarrow> ('d, 'k, 's) executor" where
  "set_tool_budget tool n ex = ex\<lparr> ex_tools := tm_set_tool_budget tool n (ex_tools ex) \<rparr>"

definition require_hil_for :: "string \<Rightarrow> ('d, 'k, 's) executor \<Rightarrow> ('d, 'k, 's) executor" where
  "require_hil_for tool ex = ex\<lparr> ex_tools := tm_require_hil_for tool (ex_tools ex) \<rparr>"

definition handle_tool_changed :: "string \<Rightarrow> string \<Rightarrow> ('d, 'k, 's) executor \<Rightarrow> ('d, 'k, 's) executor" where
  "handle_tool_changed op tool ex = ex\<lparr> ex_tools := tm_handle_tool_changed op tool (ex_tools ex) \<rparr>"

section \<open>Signals\<close>

definition note_signal :: "string \<Rightarrow> ('d, 'k, 's) executor \<Rightarrow> ('d, 'k, 's) executor" where
  "note_signal name ex = ex\<lparr> ex_last_signal := Some name, ex_pending_signals := ex_pending_signals ex + 1 \<rparr>"

definition set_killed :: "('d, 'k, 's) executor \<Rightarrow> ('d, 'k, 's) executor" where
  "set_killed ex = ex\<lparr> ex_killed := True \<rparr>"

definition set_paused :: "bool \<Rightarrow> ('d, 'k, 's) executor \<Rightarrow> ('d, 'k, 's) executor" where
  "set_paused b ex = ex\<lparr> ex_paused := b \<rparr>"

text \<open>The four reactions shared by the three entry points.\<close>

definition on_stop :: "('d, 'k, 's) exec_env \<Rightarrow> ('d, 'k, 's) executor \<Rightarrow> ('d, 'k, 's) executor option" where
  "on_stop env ex = map_option (\<lambda>e. write_status_yaml env (set_killed e)) (auto_log_session_end ex)"

definition on_pause :: "('d, 'k, 's) exec_env \<Rightarrow> ('d, 'k, 's) executor \<Rightarrow> ('d, 'k, 's) executor" where
  "on_pause env ex = write_status_yaml env (ex_update_status env InvPaused (set_paused True ex))"

definition on_resume :: "('d, 'k, 's) exec_env \<Rightarrow> ('d, 'k, 's) executor \<Rightarrow> ('d, 'k, 's) executor" where
  "on_resume env ex = write_status_yaml env (ex_update_status env InvRunning (set_paused False ex))"

definition on_pipe :: "json \<Rightarrow> ('d, 'k, 's) executor \<Rightarrow> ('d, 'k, 's) executor" where
  "on_pipe payload ex =
     inject_pending_message (''[SIGPIPE]: '' @ unwrap_or ''[pipe data]'' (as_str (json_index payload ''text''))) ex"

definition exec_signal_kind :: "string \<Rightarrow> signal_kind" where
  "exec_signal_kind s =
     (if s = ''SIGKILL'' then SigKill else if s = ''SIGSTOP'' then SigStop
      else if s = ''SIGPAUSE'' then SigPause else if s = ''SIGRESUME'' then SigResume
      else if s = ''SIGSAVE'' then SigSave else if s = ''SIGPIPE'' then SigPipe
      else if s = ''SIGESCALATE'' then SigEscalate else if s = ''SIGSTART'' then SigStart else SigUsr1)"

definition rx_try_send :: "signal \<Rightarrow> ('d, 'k, 's) executor \<Rightarrow> ('d, 'k, 's) executor" where
  "rx_try_send sig ex =
     (case ex_rx ex of
        Some q \<Rightarrow> if length q < CHANNEL_CAPACITY then ex\<lparr> ex_rx := Some (q @ [sig]) \<rparr> else ex
      | None \<Rightarrow> ex)"

definition deliver_signal ::
  "('d, 'k, 's) exec_env \<Rightarrow> string \<Rightarrow> ('d, 'k, 's) executor \<Rightarrow> ('d, 'k, 's) executor option" where
  "deliver_signal env name ex =
     (let ex1 = rx_try_send \<lparr> sig_target = ex_pid ex, sig_kind = exec_signal_kind name, sig_payload = JNull \<rparr>
                  (note_signal name ex)
      in if name = ''SIGSTOP'' then on_stop env ex1
         else if name = ''SIGSAVE'' then on_save env ex1
         else Some (if name = ''SIGKILL'' then write_status_yaml env (set_killed ex1)
                    else if name = ''SIGPAUSE'' then on_pause env ex1
                    else if name = ''SIGRESUME'' then on_resume env ex1
                    else write_status_yaml env ex1))"

definition handle_signal_between_turns ::
  "('d, 'k, 's) exec_env \<Rightarrow> signal \<Rightarrow> ('d, 'k, 's) executor \<Rightarrow> ('d, 'k, 's) executor option" where
  "handle_signal_between_turns env sig ex =
     (let ex1 = note_signal (signal_kind_str (sig_kind sig)) ex
      in (case sig_kind sig of
            SigKill \<Rightarrow> on_stop env ex1
          | SigStop \<Rightarrow> on_stop env ex1
          | SigPause \<Rightarrow> Some (on_pause env ex1)
          | SigResume \<Rightarrow> Some (on_resume env ex1)
          | SigSave \<Rightarrow> Some (ex1\<lparr> ex_snapshot_requested := True \<rparr>)
          | SigPipe \<Rightarrow> Some (on_pipe (sig_payload sig) ex1)
          | _ \<Rightarrow> Some ex1))"

definition handle_signal_during_llm ::
  "('d, 'k, 's) exec_env \<Rightarrow> signal \<Rightarrow> ('d, 'k, 's) executor \<Rightarrow> ('d, 'k, 's) executor option" where
  "handle_signal_during_llm env sig ex =
     (let ex1 = note_signal (signal_kind_str (sig_kind sig)) ex
      in (case sig_kind sig of
            SigKill \<Rightarrow> on_stop env ex1
          | SigStop \<Rightarrow> on_stop env ex1
          | SigPause \<Rightarrow> Some (on_pause env ex1)
          | SigPipe \<Rightarrow> Some (on_pipe (sig_payload sig) ex1)
          | SigSave \<Rightarrow> on_save env ex1
          | SigResume \<Rightarrow> Some (set_paused False ex1)
          | _ \<Rightarrow> Some ex1))"

section \<open>Between goals\<close>

definition nil_uuid :: string where
  "nil_uuid = ''00000000-0000-0000-0000-000000000000''"

definition mark_session_idle ::
  "('d, 'k, 's) exec_env \<Rightarrow> ('d, 'k, 's) executor \<Rightarrow> ('d, 'k, 's) executor" where
  "mark_session_idle env ex =
     (if ex_session_id ex = [] then ex
      else (let uuid = (case xe_uuid_parse env (ex_session_id ex) of Inr u \<Rightarrow> u | Inl _ \<Rightarrow> nil_uuid)
            in (case ex_modify_session env uuid (\<lambda>s. Some (sr_mark_idle (xe_now env (ex_draws ex)) s)) ex of
                  Some ex' \<Rightarrow> draw ex'
                | None \<Rightarrow> ex)))"

text \<open>Flush the conversation, then record the invocation as idle.\<close>

definition flush_idle :: "('d, 'k, 's) exec_env \<Rightarrow> ('d, 'k, 's) executor \<Rightarrow> ('d, 'k, 's) executor" where
  "flush_idle env ex =
     (if ex_inv_id ex = [] then ex
      else (case ex_inv ex of
              None \<Rightarrow> ex
            | Some store \<Rightarrow>
                ex_update_status env InvIdle
                  (ex\<lparr> ex_inv := Some (snd (is_persist_interim_structured (xe_inv env) (ex_inv_id ex) (ex_conv ex)
                                             (ex_tokens ex) (ex_tool_calls ex) store)) \<rparr>)))"

definition ex_idle :: "('d, 'k, 's) exec_env \<Rightarrow> ('d, 'k, 's) executor \<Rightarrow> ('d, 'k, 's) executor" where
  "ex_idle env ex = mark_session_idle env (flush_idle env ex)"

definition persist_turn_error ::
  "('d, 'k, 's) exec_env \<Rightarrow> string \<Rightarrow> ('d, 'k, 's) executor \<Rightarrow> ('d, 'k, 's) executor" where
  "persist_turn_error env err ex =
     mark_session_idle env (flush_idle env
       (ex\<lparr> ex_conv := ex_conv ex @ [from_role_content ConvSystem (''[Turn failed: '' @ err @ '']'')] \<rparr>))"

definition record_next_goal ::
  "('d, 'k, 's) exec_env \<Rightarrow> string \<Rightarrow> ('d, 'k, 's) executor \<Rightarrow> ('d, 'k, 's) executor" where
  "record_next_goal env goal ex =
     (let ex1 = ex\<lparr> ex_goal := goal \<rparr>
      in if ex_inv_id ex1 = [] then ex1
         else (case ex_inv ex1 of
                 None \<Rightarrow> ex1
               | Some store \<Rightarrow> ex1\<lparr> ex_inv := Some (snd (is_update_goal (xe_inv env) (ex_inv_id ex1) goal store)) \<rparr>))"

text \<open>
  The wait consumes the queued signals in order.  \<open>GoalWait\<close> is the state of a wait that has
  consumed all of them and blocks for more.
\<close>

datatype goal_wait = GoalStart string | GoalNone | GoalWait

fun wait_loop ::
  "('d, 'k, 's) exec_env \<Rightarrow> signal list \<Rightarrow> ('d, 'k, 's) executor \<Rightarrow> (goal_wait \<times> ('d, 'k, 's) executor) option" where
  "wait_loop env [] ex = Some (GoalWait, ex\<lparr> ex_rx := Some [] \<rparr>)"
| "wait_loop env (sig # q) ex =
     (if sig_kind sig = SigStart
      then Some (GoalStart (unwrap_or [] (as_str (json_index (sig_payload sig) ''goal''))), ex\<lparr> ex_rx := Some q \<rparr>)
      else if sig_kind sig = SigKill \<or> sig_kind sig = SigStop
      then Some (GoalNone, set_killed ex\<lparr> ex_rx := Some q \<rparr>)
      else (case handle_signal_between_turns env sig ex of
              None \<Rightarrow> None
            | Some ex' \<Rightarrow>
                if ex_killed ex' then Some (GoalNone, ex'\<lparr> ex_rx := Some q \<rparr>) else wait_loop env q ex'))"

definition wait_for_next_goal ::
  "('d, 'k, 's) exec_env \<Rightarrow> ('d, 'k, 's) executor \<Rightarrow> (goal_wait \<times> ('d, 'k, 's) executor) option" where
  "wait_for_next_goal env ex =
     (case ex_rx ex of None \<Rightarrow> Some (GoalNone, ex) | Some q \<Rightarrow> wait_loop env q ex)"

section \<open>Shutdown\<close>

fun deregister_all :: "u64 \<Rightarrow> string list \<Rightarrow> registry_ref \<Rightarrow> registry_ref" where
  "deregister_all p names (RegMock reg) =
     RegMock (fold (\<lambda>name. filter (\<lambda>(q, n, _). \<not> (q = p \<and> n = name))) names reg)"
| "deregister_all p names (RegReal reg) = RegReal reg"

definition shutdown_with_status ::
  "('d, 'k, 's) exec_env \<Rightarrow> invocation_status \<Rightarrow> string option \<Rightarrow> ('d, 'k, 's) executor \<Rightarrow> ('d, 'k, 's) executor" where
  "shutdown_with_status env status exit_reason ex =
     (let ex1 = ex\<lparr> ex_registry := deregister_all (pid_u64 (ex_pid ex)) (tm_registered_cat2 (ex_tools ex)) (ex_registry ex),
                    ex_tools := (ex_tools ex)\<lparr> tm_registered_cat2 := [] \<rparr> \<rparr>
      in if exit_reason = Some ''waiting_for_input'' then mark_session_idle env (flush_idle env ex1)
         else if ex_inv_id ex1 = [] then ex1
         else (case ex_inv ex1 of
                 None \<Rightarrow> ex1
               | Some store \<Rightarrow>
                   (let ex2 = (case exit_reason of
                                 Some reason \<Rightarrow>
                                   ex1\<lparr> ex_conv := ex_conv ex1 @
                                     [from_role_content ConvSystem (''[Agent stopped: '' @ reason @ '']'')] \<rparr>
                               | None \<Rightarrow> ex1);
                        s1 = snd (write_conversation_structured (xe_inv env) (pid_u64 (ex_pid ex2)) (ex_session_id ex2)
                                    (ex_spawned_by ex2) (ex_conv ex2) store);
                        s2 = snd (is_finalize (xe_inv env) (ex_inv_id ex2) status (xe_now env (ex_draws ex2))
                                    (ex_tokens ex2) (ex_tool_calls ex2) exit_reason s1)
                    in draw (ex2\<lparr> ex_inv := Some s2 \<rparr>))))"

definition ex_shutdown :: "('d, 'k, 's) exec_env \<Rightarrow> ('d, 'k, 's) executor \<Rightarrow> ('d, 'k, 's) executor" where
  "ex_shutdown env ex = shutdown_with_status env InvCompleted None ex"

section \<open>Lemmas\<close>

text \<open> Exactly when recording the final response of a run panics: a session store is attached, it has the
  session, the response is longer than 500 bytes and byte 500 is inside a multi-byte character.  The
  panic comes after the response was produced and the invocation saved.\<close>

theorem save_session_response_panics_iff:
  "save_session_response env response ex = None \<longleftrightarrow>
    ex_session_id ex \<noteq> [] \<and> 500 < length response \<and> utf8_cont (of_char (response ! 500)) \<and>
    (\<exists>uuid d session. xe_uuid_parse env (ex_session_id ex) = Inr uuid \<and> ex_sess ex = Some d \<and>
       ss_get (xe_sdb env) (xe_scodec env) uuid d = Inr (Some session))"
  by (auto simp: save_session_response_def ex_modify_session_def slice_to_None
      split: sum.splits option.splits)

lemma session_previews_None:
  "session_previews es = None \<longleftrightarrow> (\<exists>e\<in>set es. 200 < length (ce_content e) \<and> utf8_cont (of_char (ce_content e ! 200)))"
proof (induction es)
  case (Cons e es)
  have "session_previews (e # es) = None \<longleftrightarrow>
      slice_to (min (length (ce_content e)) 200) (ce_content e) = None \<or> session_previews es = None"
    by (auto split: option.splits)
  then show ?case unfolding slice_to_None Cons.IH by auto
qed simp

lemma auto_log_panics_iff:
  "auto_log_session_end ex = None \<longleftrightarrow> ex_memory_svc ex \<noteq> None \<and>
     (\<exists>e\<in>set (ex_conv ex). 200 < length (ce_content e) \<and> utf8_cont (of_char (ce_content e ! 200)))"
  using session_previews_None [of "ex_conv ex"] by (auto simp: auto_log_session_end_def split: option.splits)

end
