(* ===== verification/Executor_Dispatch.thy ===== *)
theory Executor_Dispatch
  imports Executor_State
begin

text \<open>
  How the executor carries out one tool call: over a service socket
  (\<^verbatim>\<open>executor/ipc_dispatch.rs\<close>), over the kernel socket (\<^verbatim>\<open>executor/syscall_dispatch.rs\<close>),
  or itself (\<^verbatim>\<open>dispatch_category2\<close> of \<^verbatim>\<open>runtime_executor/dispatch_manager.rs\<close>), with the waits for
  a human decision of \<^verbatim>\<open>executor/hil/\<close>, and the renewal of its token.

  Assigning to a key of a JSON value that is neither an object nor null panics; the dispatch
  functions return \<^verbatim>\<open>None\<close> then.
\<close>

section \<open>Service and kernel sockets\<close>

text \<open>\<^verbatim>\<open>v[k] = x\<close> on a mutable value.\<close>

fun json_assign :: "json \<Rightarrow> string \<Rightarrow> json \<Rightarrow> json option" where
  "json_assign (JObj m) k x = Some (JObj (hm_insert k x m))"
| "json_assign JNull k x = Some (JObj [(k, x)])"
| "json_assign _ k x = None"

definition caller_json :: "u64 \<Rightarrow> string \<Rightarrow> json" where
  "caller_json p sid = JObj [(''pid'', JNum (uint p)), (''session_id'', JStr sid)]"

definition socket_join :: "string \<Rightarrow> string \<Rightarrow> string" where
  "socket_join dir f = (if starts_with f ''/'' then f else path_join dir f)"

definition endpoint_env_key :: "('d, 'k, 's) exec_env \<Rightarrow> string \<Rightarrow> string" where
  "endpoint_env_key env endpoint =
     ''AVIX_'' @ map (\<lambda>c. if c = CHR ''-'' \<or> c = CHR ''.'' then CHR ''_'' else c) (xe_to_uppercase env endpoint) @ ''_SOCK''"

definition cat1_reply :: "string \<Rightarrow> string \<Rightarrow> ipc_outcome \<Rightarrow> json avix_result" where
  "cat1_reply name sock out =
     (case out of
        IpcConnectErr e \<Rightarrow> Inl (Io (''IPC connect to '' @ quoted sock @ '' failed: '' @ e))
      | IpcWriteErr e \<Rightarrow> Inl (Io (''IPC write to '' @ quoted sock @ '' failed: '' @ e))
      | IpcReadErr e \<Rightarrow> Inl (Io (''IPC read from '' @ quoted sock @ '' failed: '' @ e))
      | IpcReply r \<Rightarrow>
          (case jp_error r of
             Some e \<Rightarrow> Inl (Io (''tool '' @ quoted name @ '' RPC error '' @ show_int (je_code e) @ '': '' @ je_message e))
           | None \<Rightarrow>
               (case jp_result r of
                  Some v \<Rightarrow> Inr v
                | None \<Rightarrow> Inl (ConfigParse (''tool '' @ quoted name @ '' IPC response had no result'')))))"

definition kernel_reply :: "string \<Rightarrow> string \<Rightarrow> ipc_outcome \<Rightarrow> json avix_result" where
  "kernel_reply name sock out =
     (case out of
        IpcConnectErr e \<Rightarrow> Inl (Io (''kernel IPC connect to '' @ quoted sock @ '' failed: '' @ e))
      | IpcWriteErr e \<Rightarrow> Inl (Io (''kernel IPC write failed: '' @ e))
      | IpcReadErr e \<Rightarrow> Inl (Io (''kernel IPC read failed: '' @ e))
      | IpcReply r \<Rightarrow>
          (case jp_error r of
             Some e \<Rightarrow> Inl (Io (''kernel syscall '' @ quoted name @ '' error '' @ show_int (je_code e) @ '': '' @ je_message e))
           | None \<Rightarrow>
               (case jp_result r of
                  Some v \<Rightarrow> Inr v
                | None \<Rightarrow> Inl (ConfigParse (''kernel syscall '' @ quoted name @ '' returned no result'')))))"

text \<open>One request on a fresh connection; the identifier is the draw \<open>n\<close>.\<close>

definition ipc_call :: "('d, 'k, 's) exec_env \<Rightarrow> nat \<Rightarrow> string \<Rightarrow> string \<Rightarrow> json \<Rightarrow> ipc_outcome" where
  "ipc_call env n sock rpc params =
     xe_ipc env n sock \<lparr> jr_jsonrpc = ''2.0'', jr_id = xe_uuid env n, jr_method = rpc, jr_params = params \<rparr>"

definition dispatch_cat1_tool ::
  "('d, 'k, 's) exec_env \<Rightarrow> nat \<Rightarrow> avix_tool_call \<Rightarrow> json \<Rightarrow> u64 \<Rightarrow> string \<Rightarrow> string \<Rightarrow> bool \<Rightarrow> json avix_result option" where
  "dispatch_cat1_tool env n call descriptor agent_pid sid runtime_dir caller_scoped =
     (case json_get descriptor ''ipc'' of
        None \<Rightarrow> Some (Inl (ConfigParse (''tool '' @ quoted (tc_name call) @ '' has no IPC binding'')))
      | Some ipc \<Rightarrow>
          if ipc = JNull then Some (Inl (ConfigParse (''tool '' @ quoted (tc_name call) @ '' has no IPC binding'')))
          else (case as_str (json_index ipc ''endpoint'') of
             None \<Rightarrow> Some (Inl (ConfigParse ''IPC binding missing endpoint''))
           | Some endpoint \<Rightarrow>
               (case as_str (json_index ipc ''method'') of
                  None \<Rightarrow> Some (Inl (ConfigParse ''IPC binding missing method''))
                | Some rpc \<Rightarrow>
                    (let sock = (case xe_var env (endpoint_env_key env endpoint) of
                                   Some path \<Rightarrow> path
                                 | None \<Rightarrow> socket_join runtime_dir (endpoint @ ''.sock''))
                     in map_option (\<lambda>params. cat1_reply (tc_name call) sock (ipc_call env n sock rpc params))
                          (if caller_scoped then json_assign (tc_args call) ''_caller'' (caller_json agent_pid sid)
                           else Some (tc_args call))))))"

definition dispatch_kernel_syscall ::
  "('d, 'k, 's) exec_env \<Rightarrow> nat \<Rightarrow> avix_tool_call \<Rightarrow> u64 \<Rightarrow> string \<Rightarrow> string \<Rightarrow> json avix_result option" where
  "dispatch_kernel_syscall env n call agent_pid sid runtime_dir =
     (let sock = (case xe_var env ''AVIX_KERNEL_SOCK'' of
                    Some path \<Rightarrow> path
                  | None \<Rightarrow> socket_join runtime_dir ''kernel.sock'')
      in map_option (\<lambda>params. kernel_reply (tc_name call) sock (ipc_call env n sock (tc_name call) params))
           (json_assign (tc_args call) ''_caller'' (caller_json agent_pid sid)))"

section \<open>Registered tools\<close>

definition check_tool_execute_permission :: "tool_entry \<Rightarrow> string \<Rightarrow> unit avix_result" where
  "check_tool_execute_permission entry username =
     (let perms = te_permissions entry
      in if username = ''root'' then Inr ()
         else if username = tp_owner perms then Inr ()
         else if CHR ''x'' \<in> set (tp_all perms) then Inr ()
         else Inl (CapabilityDenied (''agent '' @ quoted username @ '' does not have execute permission on tool ''
                                       @ quoted (tool_str (te_name entry)))))"

definition is_caller_scoped_tool :: "string \<Rightarrow> json \<Rightarrow> bool" where
  "is_caller_scoped_tool name descriptor =
     (if starts_with name ''kernel/'' then True
      else (case json_get descriptor ''caller_scoped'' of Some (JBool b) \<Rightarrow> b | _ \<Rightarrow> False))"

definition dispatch_via_router ::
  "('d, 'k, 's) exec_env \<Rightarrow> avix_tool_call \<Rightarrow> ('d, 'k, 's) executor \<Rightarrow>
   (json avix_result \<times> ('d, 'k, 's) executor) option" where
  "dispatch_via_router env call ex =
     (let entry_opt = (case ex_registry ex of
                         RegReal reg \<Rightarrow> (case tr_lookup reg (tc_name call) of Inr e \<Rightarrow> Some e | Inl _ \<Rightarrow> None)
                       | RegMock _ \<Rightarrow> None)
      in (case entry_opt of
            None \<Rightarrow> Some (Inl (ConfigParse (''tool '' @ quoted (tc_name call) @ '' not found in registry'')), ex)
          | Some entry \<Rightarrow>
              (case (if has_tool (ex_token ex) (tc_name call) then Inr ()
                     else check_tool_execute_permission entry (ex_spawned_by ex)) of
                 Inl e \<Rightarrow> Some (Inl e, ex)
               | Inr _ \<Rightarrow>
                   map_option (\<lambda>r. (r, draw ex))
                     (if json_index (te_descriptor entry) ''ipc'' = JNull
                      then dispatch_kernel_syscall env (ex_draws ex) call (pid_u64 (ex_pid ex)) (ex_session_id ex) (ex_runtime_dir ex)
                      else dispatch_cat1_tool env (ex_draws ex) call (te_descriptor entry) (pid_u64 (ex_pid ex)) (ex_session_id ex)
                             (ex_runtime_dir ex) (is_caller_scoped_tool (tc_name call) (te_descriptor entry))))))"

section \<open>Waiting for a human decision\<close>

text \<open>
  The three waiters subscribe to the signals of the agent and read until a \<^verbatim>\<open>SIGRESUME\<close> with
  their identifier arrives.  \<open>sent\<close> are the signals sent on the bus during the wait; the
  waiter reads after each one, and when the list ends the timeout has struck.
\<close>

fun await_resume :: "string \<Rightarrow> subscription \<Rightarrow> signal list \<Rightarrow> signal_bus \<Rightarrow> json option \<times> signal_bus" where
  "await_resume hil_id sub [] b = (None, b)"
| "await_resume hil_id sub (s # sent) b =
     (let b1 = sb_send s b
      in (case sub_recv b1 sub of
            (Received sig, sub') \<Rightarrow>
              if sig_kind sig = SigResume \<and> as_str (json_index (sig_payload sig) ''hilId'') = Some hil_id
              then (Some (sig_payload sig), b1)
              else await_resume hil_id sub' sent b1
          | (_, sub') \<Rightarrow> await_resume hil_id sub' sent b1))"

definition await_hil :: "pid \<Rightarrow> string \<Rightarrow> signal list \<Rightarrow> signal_bus \<Rightarrow> json option \<times> signal_bus" where
  "await_hil p hil_id sent b = (case sb_subscribe p b of (sub, b1) \<Rightarrow> await_resume hil_id sub sent b1)"

record approval_result =
  ar_approved :: bool
  ar_note :: "string option"
  ar_denial_reason :: "string option"

definition await_approval ::
  "pid \<Rightarrow> string \<Rightarrow> signal list \<Rightarrow> signal_bus \<Rightarrow> approval_result avix_result \<times> signal_bus" where
  "await_approval p hil_id sent b =
     (case await_hil p hil_id sent b of
        (None, b') \<Rightarrow> (Inl (CapabilityDenied ''HIL approval timed out''), b')
      | (Some r, b') \<Rightarrow>
          (Inr \<lparr> ar_approved = (unwrap_or ''denied'' (as_str (json_index r ''decision'')) = ''approved''),
                 ar_note = as_str (json_index r ''note''), ar_denial_reason = as_str (json_index r ''reason'') \<rparr>, b'))"

definition request_tool ::
  "(json \<Rightarrow> capability_token option) \<Rightarrow> pid \<Rightarrow> string \<Rightarrow> signal list \<Rightarrow> capability_token \<Rightarrow> signal_bus \<Rightarrow>
   unit avix_result \<times> capability_token \<times> signal_bus" where
  "request_tool token_of p hil_id sent tok b =
     (case await_hil p hil_id sent b of
        (None, b') \<Rightarrow> (Inl (CapabilityDenied ''HIL timeout''), tok, b')
      | (Some r, b') \<Rightarrow>
          if unwrap_or ''denied'' (as_str (json_index r ''decision'')) \<noteq> ''approved''
          then (Inl (CapabilityDenied ''capability upgrade denied''), tok, b')
          else (Inr (), unwrap_or tok (token_of (json_index r ''new_capability_token'')), b'))"

record escalation_result =
  er_selected_option :: string
  er_guidance :: string

definition escalate ::
  "pid \<Rightarrow> string \<Rightarrow> signal list \<Rightarrow> string list \<Rightarrow> signal_bus \<Rightarrow>
   escalation_result avix_result \<times> string list \<times> signal_bus" where
  "escalate p hil_id sent pending b =
     (case await_hil p hil_id sent b of
        (None, b') \<Rightarrow> (Inl (CapabilityDenied ''escalation timed out''), pending, b')
      | (Some r, b') \<Rightarrow>
          (let guidance = unwrap_or [] (as_str (json_index r ''guidance''))
           in (Inr \<lparr> er_selected_option = unwrap_or [] (as_str (json_index r ''selectedOption'')), er_guidance = guidance \<rparr>,
               pending @ [''[Human guidance]: '' @ guidance], b')))"

section \<open>Capability requests\<close>

text \<open>A request to the resource handler: one reading for the request, one for each item and one
  for the response.\<close>

definition ask_resource ::
  "('d, 'k, 's) exec_env \<Rightarrow> kernel_resource_handler \<Rightarrow> resource_item \<Rightarrow> ('d, 'k, 's) executor \<Rightarrow>
   resource_response avix_result \<times> ('d, 'k, 's) executor" where
  "ask_resource env h item ex =
     (let n = ex_draws ex;
          req = resource_request_new (xe_uuid env n) (xe_now env n) (pid_u64 (ex_pid ex)) (signature (ex_token ex)) [item]
      in (resource_handle (xe_hmac env) (\<lambda>i. xe_now env (n + 1 + i)) (\<lambda>i. xe_uuid env (n + 1 + i)) (xe_now env (n + 2))
            h req (ex_token ex),
          draw (draw (draw ex))))"

definition deny_tool :: "string \<Rightarrow> ('d, 'k, 's) executor \<Rightarrow> ('d, 'k, 's) executor" where
  "deny_tool tool ex = ex\<lparr> ex_denied := ex_denied ex @ [tool] \<rparr>"

definition not_approved :: "string \<Rightarrow> string \<Rightarrow> string \<Rightarrow> json" where
  "not_approved tool k why = JObj [(''approved'', JBool False), (''tool'', JStr tool), (k, JStr why)]"

definition upgrade_request ::
  "('d, 'k, 's) exec_env \<Rightarrow> string \<Rightarrow> string \<Rightarrow> ('d, 'k, 's) executor \<Rightarrow> hil_request" where
  "upgrade_request env tool reason ex =
     (let n = ex_draws ex; now = xe_now env n
      in \<lparr> hr_api_version = ''avix/v1'', hr_kind = ''HilRequest'', hr_hil_id = xe_uuid env n, hr_pid = ex_pid ex,
           hr_agent_name = ex_agent_name ex, hr_hil_type = CapabilityUpgrade, hr_tool = Some tool, hr_args = None,
           hr_reason = Some reason, hr_context = None, hr_options = None, hr_urgency = HuNormal,
           hr_approval_token = xe_uuid env (n + 1), hr_created_at = now, hr_expires_at = now + 600 * nanos_per_sec,
           hr_state = HilPending, hr_atp_session_id = ex_atp_session_id ex \<rparr>)"

definition push_conv :: "conv_role \<Rightarrow> string \<Rightarrow> ('d, 'k, 's) executor \<Rightarrow> ('d, 'k, 's) executor" where
  "push_conv role content ex = ex\<lparr> ex_conv := ex_conv ex @ [from_role_content role content] \<rparr>"

definition hil_request_entry :: "('d, 'k, 's) exec_env \<Rightarrow> hil_request \<Rightarrow> string \<Rightarrow> string \<Rightarrow> string" where
  "hil_request_entry env req tool reason =
     xe_to_string env (JObj [(''hilId'', JStr (hr_hil_id req)), (''pid'', JNum (uint (pid_u64 (hr_pid req)))),
       (''sessionId'', JStr (hr_atp_session_id req)), (''hilType'', JStr ''capability_upgrade''), (''tool'', JStr tool),
       (''reason'', JStr reason), (''approvalToken'', JStr (hr_approval_token req))])"

definition hil_response_entry ::
  "('d, 'k, 's) exec_env \<Rightarrow> string \<Rightarrow> string \<Rightarrow> ('d, 'k, 's) executor \<Rightarrow> ('d, 'k, 's) executor" where
  "hil_response_entry env hil_id outcome ex =
     draw (push_conv ConvHilResponse
       (xe_to_string env (JObj [(''hilId'', JStr hil_id), (''pid'', JNum (uint (pid_u64 (ex_pid ex)))),
          (''outcome'', JStr outcome), (''resolvedAt'', JStr (xe_rfc3339 env (xe_now env (ex_draws ex))))])) ex)"

text \<open>The request once a human is to be asked: open it, record it, pause, wait, apply the answer.\<close>

definition request_upgrade ::
  "('d, 'k, 's) exec_env \<Rightarrow> string \<Rightarrow> string \<Rightarrow> hil_manager \<Rightarrow> signal_bus \<Rightarrow> ('d, 'k, 's) executor \<Rightarrow>
   json \<times> ('d, 'k, 's) executor" where
  "request_upgrade env tool reason mgr bus ex =
     (let req = upgrade_request env tool reason ex; n = ex_draws ex; hil_id = hr_hil_id req
      in (case hil_open (xe_hil env) (xe_ring_free env n) (xe_now env (n + 1)) req mgr of
            (Inl e, _) \<Rightarrow> (not_approved tool ''error'' (error_display e), deny_tool tool (draw (draw ex)))
          | (Inr _, mgr') \<Rightarrow>
              (let ex1 = push_conv ConvHilRequest (hil_request_entry env req tool reason)
                           (draw (draw (ex\<lparr> ex_hil := Some mgr' \<rparr>)));
                   b1 = sb_send \<lparr> sig_target = ex_pid ex1, sig_kind = SigPause, sig_payload = JNull \<rparr> bus
               in (case request_tool (xe_token_of env) (ex_pid ex1) hil_id (xe_hil_signals env n) (ex_token ex1) b1 of
                     (Inr _, tok, b2) \<Rightarrow>
                       (JObj [(''approved'', JBool True), (''tool'', JStr tool), (''scope'', JStr ''session'')],
                        hil_response_entry env hil_id ''approved''
                          (refresh_tool_list (ex1\<lparr> ex_token := tok, ex_signal_bus := Some b2 \<rparr>)))
                   | (Inl e, _, b2) \<Rightarrow>
                       (not_approved tool ''reason'' (error_display e),
                        hil_response_entry env hil_id
                          (if contains_str (error_display e) ''timeout'' then ''timeout'' else ''denied'')
                          (deny_tool tool (ex1\<lparr> ex_signal_bus := Some b2 \<rparr>)))))))"

definition cat2_request_tool ::
  "('d, 'k, 's) exec_env \<Rightarrow> json \<Rightarrow> ('d, 'k, 's) executor \<Rightarrow> json \<times> ('d, 'k, 's) executor" where
  "cat2_request_tool env args ex =
     (let tool = unwrap_or [] (as_str (json_index args ''tool''));
          reason = unwrap_or [] (as_str (json_index args ''reason''))
      in if (case ex_kernel ex of Some k \<Rightarrow> mk_auto_approve k | None \<Rightarrow> False)
         then (JObj [(''approved'', JBool True), (''tool'', JStr tool)], ex)
         else (case ex_resource ex of
            None \<Rightarrow> (not_approved tool ''error'' ''capability escalation unavailable: no resource handler configured'',
                    deny_tool tool ex)
          | Some h \<Rightarrow>
              (case ask_resource env h (ItemTool tool UrgNormal reason) ex of
                 (Inl e, ex1) \<Rightarrow> (not_approved tool ''error'' (error_display e), deny_tool tool ex1)
               | (Inr _, ex1) \<Rightarrow>
                   (case (ex_hil ex1, ex_signal_bus ex1) of
                      (Some mgr, Some bus) \<Rightarrow> request_upgrade env tool reason mgr bus ex1
                    | _ \<Rightarrow> (not_approved tool ''error'' ''capability escalation unavailable: HIL infrastructure not configured'',
                           deny_tool tool ex1)))))"

section \<open>Tools the executor carries out itself\<close>

definition cat2_list :: "('d, 'k, 's) exec_env \<Rightarrow> ('d, 'k, 's) executor \<Rightarrow> json" where
  "cat2_list env ex =
     JObj [(''grantedTools'', JArr (map JStr (granted_tools (ex_token ex)))),
           (''constraints'', JObj [(''maxTokensPerTurn'', JNull), (''maxToolChainLength'', JNum (uint (ex_max_chain ex))),
              (''toolCallBudgets'', JObj (map (\<lambda>(name, n). (name, JNum (uint n))) (cat2_budgets (ex_tools ex))))]),
           (''tokenExpiresAt'', JStr (xe_rfc3339 env (expires_at (ex_token ex))))]"

definition pipe_direction_of :: "string \<Rightarrow> rr_direction" where
  "pipe_direction_of d = (if d = ''in'' then RrIn else if d = ''bidirectional'' then RrBidirectional else RrOut)"

definition write_pipe_entry ::
  "('d, 'k, 's) exec_env \<Rightarrow> string \<Rightarrow> u64 \<Rightarrow> string \<Rightarrow> u32 \<Rightarrow> ('d, 'k, 's) executor \<Rightarrow> ('d, 'k, 's) executor" where
  "write_pipe_entry env pipe_id target direction buffer ex =
     (case ex_vfs ex of
        None \<Rightarrow> ex
      | Some (vfs, disk) \<Rightarrow>
          (let entry = xe_to_yaml env (JObj [(''pipe_id'', JStr pipe_id), (''target_pid'', JNum (uint target)),
                 (''direction'', JStr direction), (''buffer_tokens'', JNum (uint buffer)), (''state'', JStr ''open'')])
           in (case vfs_path_parse (''/proc/'' @ show_word (pid_u64 (ex_pid ex)) @ ''/pipes/'' @ pipe_id @ ''.yaml'') of
                 Inl _ \<Rightarrow> ex
               | Inr path \<Rightarrow>
                   (let (_, vfs', disk') = vfs_write (ie_os (xe_inv env)) path (bytes_of_string entry) vfs disk
                    in ex\<lparr> ex_vfs := Some (vfs', disk') \<rparr>))))"

definition pipe_opened :: "string \<Rightarrow> json" where
  "pipe_opened pipe_id = JObj [(''pipeId'', JStr pipe_id), (''state'', JStr ''open'')]"

definition cat2_pipe_open ::
  "('d, 'k, 's) exec_env \<Rightarrow> json \<Rightarrow> ('d, 'k, 's) executor \<Rightarrow> json \<times> ('d, 'k, 's) executor" where
  "cat2_pipe_open env args ex =
     (let target = unwrap_or 0 (as_u64 (json_index args ''targetPid''));
          direction = unwrap_or ''out'' (as_str (json_index args ''direction''));
          buffer = (ucast (unwrap_or 8192 (as_u64 (json_index args ''bufferTokens''))) :: u32)
      in (case ex_resource ex of
            None \<Rightarrow> (pipe_opened ''pipe-stub'', ex)
          | Some h \<Rightarrow>
              (case ask_resource env h (ItemPipe target (pipe_direction_of direction) buffer []) ex of
                 (Inl _, ex1) \<Rightarrow> (pipe_opened ''pipe-stub'', ex1)
               | (Inr resp, ex1) \<Rightarrow>
                   (case rs_grants resp of
                      GrantPipe True _ (Some pipe_id) _ _ _ # _ \<Rightarrow>
                        (pipe_opened pipe_id, write_pipe_entry env pipe_id target direction buffer ex1)
                    | _ \<Rightarrow> (pipe_opened ''pipe-stub'', ex1)))))"

definition summary_json :: "tool_summary \<Rightarrow> json" where
  "summary_json s =
     JObj [(''name'', JStr (ts_name s)), (''description'', JStr (ts_description s)), (''state'', JStr (ts_state s))]"

definition summary_matches :: "string \<Rightarrow> string \<Rightarrow> bool \<Rightarrow> capability_token \<Rightarrow> tool_summary \<Rightarrow> bool" where
  "summary_matches ns keyword granted_only tok s =
     (if granted_only \<and> \<not> has_tool tok (ts_name s) then False
      else if ns \<noteq> [] \<and> ts_namespace s \<noteq> ns then False
      else if keyword \<noteq> [] \<and> \<not> contains_str (ts_name s) keyword \<and> \<not> contains_str (ts_description s) keyword then False
      else True)"

definition mk_list_tools :: "string \<Rightarrow> string \<Rightarrow> bool \<Rightarrow> capability_token \<Rightarrow> mock_kernel \<Rightarrow> json list" where
  "mk_list_tools ns keyword granted_only tok k =
     map summary_json (filter (summary_matches ns keyword granted_only tok)
       (case mk_registry k of Some reg \<Rightarrow> tr_list_all reg | None \<Rightarrow> []))"

definition cat2_sys_tools :: "json \<Rightarrow> ('d, 'k, 's) executor \<Rightarrow> json" where
  "cat2_sys_tools args ex =
     (let ns = unwrap_or [] (as_str (json_index args ''namespace''));
          keyword = unwrap_or [] (as_str (json_index args ''keyword''));
          granted_only = (case json_index args ''granted_only'' of JBool b \<Rightarrow> b | _ \<Rightarrow> False)
      in JObj [(''tools'', JArr
           (case ex_kernel ex of
              Some k \<Rightarrow> mk_list_tools ns keyword granted_only (ex_token ex) k
            | None \<Rightarrow>
                (case ex_registry ex of
                   RegReal reg \<Rightarrow>
                     map summary_json (filter (summary_matches ns keyword granted_only (ex_token ex)) (tr_list_all reg))
                 | RegMock _ \<Rightarrow> [])))])"

definition dispatch_category2 ::
  "('d, 'k, 's) exec_env \<Rightarrow> avix_tool_call \<Rightarrow> ('d, 'k, 's) executor \<Rightarrow> json \<times> ('d, 'k, 's) executor" where
  "dispatch_category2 env call ex =
     (let name = tc_name call; args = tc_args call
      in if name = ''agent/spawn'' then
           (JObj [(''spawned'', JBool True)],
            ex\<lparr> ex_kernel := map_option (record_proc_spawn (unwrap_or ''unknown'' (as_str (json_index args ''agent'')))) (ex_kernel ex) \<rparr>)
         else if name = ''agent/kill'' then
           (JObj [(''killed'', JBool True)],
            ex\<lparr> ex_kernel := map_option (record_proc_kill (unwrap_or 0 (as_u64 (json_index args ''pid'')))) (ex_kernel ex) \<rparr>)
         else if name = ''cap/request-tool'' then cat2_request_tool env args ex
         else if name = ''cap/list'' then (cat2_list env ex, ex)
         else if name = ''cap/escalate'' then
           (let guidance = unwrap_or [] (as_str (json_index args ''reason''))
            in (JObj [(''selectedOption'', JStr ''acknowledged''), (''guidance'', JStr guidance)],
                inject_pending_message (''[Human guidance]: '' @ guidance) ex))
         else if name = ''job/watch'' then
           (JObj [(''jobId'', json_index args ''jobId''), (''finalStatus'', JStr ''done''), (''result'', JNull), (''error'', JNull)], ex)
         else if name = ''agent/list'' then (JObj [(''agents'', JArr [])], ex)
         else if name = ''agent/wait'' then
           (JObj [(''pid'', json_index args ''pid''), (''finalStatus'', JStr ''completed''), (''result'', JNull),
                  (''durationSec'', JNum 0)], ex)
         else if name = ''agent/send-message'' then (JObj [(''delivered'', JBool True)], ex)
         else if name = ''pipe/open'' then cat2_pipe_open env args ex
         else if name = ''pipe/write'' then (JObj [(''tokensSent'', JNum 0), (''bufferRemaining'', JNum 8192)], ex)
         else if name = ''pipe/read'' then
           (JObj [(''content'', JStr []), (''tokensRead'', JNum 0), (''pipeState'', JStr ''open'')], ex)
         else if name = ''pipe/close'' then (JObj [(''closed'', JBool True)], ex)
         else if name = ''sys/tools'' then (cat2_sys_tools args ex, ex)
         else (JObj [(''content'', JStr (''Tool '' @ quoted name @ '' executed (IPC dispatch not yet wired)''))], ex))"

section \<open>Token renewal\<close>

definition maybe_renew_token ::
  "('d, 'k, 's) exec_env \<Rightarrow> ('d, 'k, 's) executor \<Rightarrow> ('d, 'k, 's) executor" where
  "maybe_renew_token env ex =
     (let until_expiry = expires_at (ex_token ex) - xe_now env (ex_draws ex);
          ex1 = draw ex;
          mock = (\<lambda>e. draw (e\<lparr> ex_token := (ex_token e)\<lparr> expires_at := xe_now env (ex_draws e) + 3600 * nanos_per_sec \<rparr> \<rparr>))
      in if \<not> (0 < until_expiry \<and> until_expiry \<le> 300 * nanos_per_sec) then ex1
         else (case ex_resource ex1 of
            None \<Rightarrow> mock ex1
          | Some h \<Rightarrow>
              (case ask_resource env h (ItemTokenRenewal ''auto-renewal within 5 min window'') ex1 of
                 (Inl _, ex2) \<Rightarrow> mock ex2
               | (Inr resp, ex2) \<Rightarrow>
                   (case rs_grants resp of
                      GrantTokenRenewal True (Some tok) _ _ # _ \<Rightarrow> ex2\<lparr> ex_token := tok \<rparr>
                    | _ \<Rightarrow> mock ex2))))"

section \<open>Lemmas\<close>

text \<open>A waiter that has read everything sent to its process so far.\<close>

definition up_to_date :: "pid \<Rightarrow> subscription \<Rightarrow> signal_bus \<Rightarrow> bool" where
  "up_to_date p sub b \<longleftrightarrow> (\<exists>own. sb_inv own b) \<and>
     (\<exists>e. hm_get (sb_table b) (pid_u64 p) = Some e \<and> pn_sender e = ss_chan sub) \<and>
     ss_pos sub = length (sb_chans b (ss_chan sub))"

lemma subscribe_up_to_date:
  assumes "sb_inv own b" and "sb_subscribe p b = (sub, b1)"
  shows "up_to_date p sub b1"
proof -
  have "\<exists>own. sb_inv own b1"
    using sb_inv_subscribe_new [OF assms(1)] sb_inv_subscribe_old [OF assms(1)] assms(2)
    by (cases "hm_get (sb_table b) (pid_u64 p)") (metis snd_conv)+
  with assms(2) show ?thesis by (auto simp: up_to_date_def sb_subscribe_def Let_def split: option.splits)
qed

lemma send_to_self:
  assumes "up_to_date p sub b" and "sig_target s = p"
  shows "sub_recv (sb_send s b) sub = (Received s, sub\<lparr> ss_pos := ss_pos sub + 1 \<rparr>)"
    and "up_to_date p (sub\<lparr> ss_pos := ss_pos sub + 1 \<rparr>) (sb_send s b)"
  using assms sb_inv_send [of _ b s]
  by (auto simp: up_to_date_def sb_send_def sub_recv_def Let_def CHANNEL_CAPACITY_def)

lemma send_to_other:
  assumes "up_to_date p sub b" and "sig_target s \<noteq> p"
  shows "\<exists>r. sub_recv (sb_send s b) sub = (r, sub) \<and> (\<forall>x. r \<noteq> Received x)" and "up_to_date p sub (sb_send s b)"
proof -
  obtain own e where i: "sb_inv own b" and e: "hm_get (sb_table b) (pid_u64 p) = Some e" "pn_sender e = ss_chan sub"
    and pos: "ss_pos sub = length (sb_chans b (ss_chan sub))"
    using assms(1) by (auto simp: up_to_date_def)
  have "pid_u64 (sig_target s) \<noteq> pid_u64 p" using assms(2) by (metis pid.exhaust_sel)
  then have "pn_sender e' \<noteq> ss_chan sub" if "hm_get (sb_table b) (pid_u64 (sig_target s)) = Some e'" for e'
    using i e that by (metis sb_inv_def)
  then have same: "sb_chans (sb_send s b) (ss_chan sub) = sb_chans b (ss_chan sub)" "sb_table (sb_send s b) = sb_table b"
    by (auto simp: sb_send_def split: option.splits)
  then show "up_to_date p sub (sb_send s b)" using e pos sb_inv_send [OF i, of s] by (auto simp: up_to_date_def)
  show "\<exists>r. sub_recv (sb_send s b) sub = (r, sub) \<and> (\<forall>x. r \<noteq> Received x)"
    using same pos by (auto simp: sub_recv_def Let_def)
qed

definition decides_hil :: "pid \<Rightarrow> string \<Rightarrow> signal \<Rightarrow> bool" where
  "decides_hil p hil_id s \<longleftrightarrow> sig_target s = p \<and> sig_kind s = SigResume \<and>
     as_str (json_index (sig_payload s) ''hilId'') = Some hil_id"

lemma await_resume_find:
  "up_to_date p sub b \<Longrightarrow> fst (await_resume hil_id sub sent b) = map_option sig_payload (find (decides_hil p hil_id) sent)"
proof (induction sent arbitrary: sub b)
  case (Cons s sent)
  show ?case
  proof (cases "sig_target s = p")
    case True
    with Cons.IH [OF send_to_self(2) [OF Cons.prems True]] send_to_self(1) [OF Cons.prems True] show ?thesis
      by (simp add: decides_hil_def Let_def)
  next
    case False
    obtain r where "sub_recv (sb_send s b) sub = (r, sub)" "\<forall>x. r \<noteq> Received x"
      using send_to_other(1) [OF Cons.prems False] by auto
    with Cons.IH [OF send_to_other(2) [OF Cons.prems False]] False show ?thesis
      by (cases r) (simp_all add: decides_hil_def Let_def)
  qed
qed simp

text \<open> A wait for a human decision is answered by exactly the first \<^verbatim>\<open>SIGRESUME\<close> sent to the waiting
  process that carries the identifier of its request: signals of other processes, other kinds and other
  requests do not end it, and nothing earlier on the bus can.  In particular the \<^verbatim>\<open>SIGRESUME\<close> the manager sends when
  a request times out, whose payload has no identifier, does not wake the waiter.\<close>

theorem hil_wait_exact:
  "fst (await_hil p hil_id sent (run_events sb_step sb_new ops)) =
     map_option sig_payload (find (\<lambda>s. sig_target s = p \<and> sig_kind s = SigResume \<and>
       as_str (json_index (sig_payload s) ''hilId'') = Some hil_id) sent) \<and>
   fst (await_hil p hil_id [\<lparr> sig_target = p, sig_kind = SigResume, sig_payload = JObj [(''decision'', JStr ''timeout'')] \<rparr>]
          (run_events sb_step sb_new ops)) = None"
proof -
  let ?b = "run_events sb_step sb_new ops"
  have "\<exists>own. sb_inv own ?b" by (rule sbm.inv_run) (rule exI, rule sb_inv_new)
  then obtain own where "sb_inv own ?b" by blast
  then have "fst (await_hil p hil_id q ?b) = map_option sig_payload (find (decides_hil p hil_id) q)" for q
    by (auto simp: await_hil_def split: prod.splits dest!: subscribe_up_to_date simp: await_resume_find)
  moreover have "decides_hil p hil_id = (\<lambda>s. sig_target s = p \<and> sig_kind s = SigResume \<and>
       as_str (json_index (sig_payload s) ''hilId'') = Some hil_id)" by (auto simp: decides_hil_def)
  ultimately show ?thesis by (simp add: json_index_def)
qed

text \<open> Exactly when the dispatch of a registered tool panics: the tool is found and permitted, it is a kernel
  tool or has a complete binding to a caller-scoped service, and the arguments the model gave are neither
  an object nor null.  Everything else, including every socket failure, is an error value.\<close>

theorem dispatch_panics_iff:
  "dispatch_via_router env call ex = None \<longleftrightarrow>
    (\<exists>reg entry. ex_registry ex = RegReal reg \<and> tr_lookup reg (tc_name call) = Inr entry \<and>
      (has_tool (ex_token ex) (tc_name call) \<or> check_tool_execute_permission entry (ex_spawned_by ex) = Inr ()) \<and>
      tc_args call \<noteq> JNull \<and> (\<forall>m. tc_args call \<noteq> JObj m) \<and>
      (json_index (te_descriptor entry) ''ipc'' = JNull \<or>
       is_caller_scoped_tool (tc_name call) (te_descriptor entry) \<and>
       as_str (json_index (json_index (te_descriptor entry) ''ipc'') ''endpoint'') \<noteq> None \<and>
       as_str (json_index (json_index (te_descriptor entry) ''ipc'') ''method'') \<noteq> None))"
proof -
  have assign: "json_assign v k x = None \<longleftrightarrow> v \<noteq> JNull \<and> (\<forall>m. v \<noteq> JObj m)" for v k x by (cases v) auto
  have kern: "dispatch_kernel_syscall env n call a b c = None \<longleftrightarrow> tc_args call \<noteq> JNull \<and> (\<forall>m. tc_args call \<noteq> JObj m)" for n a b c
    by (simp add: dispatch_kernel_syscall_def Let_def assign)
  have cat1: "dispatch_cat1_tool env n call d a b c sc = None \<longleftrightarrow>
      sc \<and> tc_args call \<noteq> JNull \<and> (\<forall>m. tc_args call \<noteq> JObj m) \<and>
      as_str (json_index (json_index d ''ipc'') ''endpoint'') \<noteq> None \<and> as_str (json_index (json_index d ''ipc'') ''method'') \<noteq> None"
    if "json_index d ''ipc'' \<noteq> JNull" for n d a b c sc
    using that by (auto simp: dispatch_cat1_tool_def Let_def assign json_index_def [of d] split: option.splits)
  show ?thesis
    by (cases "ex_registry ex") (auto simp: dispatch_via_router_def Let_def kern cat1 split: sum.splits if_splits)
qed

end
