(* ===== verification/Executor_Loop.thy ===== *)
theory Executor_Loop
  imports Executor_Dispatch
begin

text \<open>
  The turn loop of the executor (\<^verbatim>\<open>run_with_client\<close>, \<^verbatim>\<open>run_turn_streaming\<close> and
  \<^verbatim>\<open>run_until_complete\<close> of \<^verbatim>\<open>runtime_executor/dispatch_manager.rs\<close>).

  What the loop receives from outside during one turn is a \<open>turn_input\<close>: the signals that reach
  the channel before the turn, those that arrive while it is paused, and either the stream the
  model client produces or the interruption of the call by a signal.  A run is a function of the
  list of turn inputs: it returns, or has consumed them all and waits.
\<close>

section \<open>Streaming\<close>

text \<open>One event of the select loop: an item of the stream, the flush timer, or the cancellation.
  The end of the list is the end of the stream.\<close>

datatype stream_event = StChunk "string + stream_chunk" | StTick | StCancel

datatype llm_answer = AnswerStream "stream_event list" | AnswerComplete "string + llm_complete_response"

definition CHUNK_FLUSH_BYTES :: nat where
  "CHUNK_FLUSH_BYTES = 80"

record stream_acc =
  sa_text :: string
  sa_calls :: "(string, string \<times> string) hmap"
  sa_stop :: stop_reason
  sa_in :: u32
  sa_out :: u32
  sa_seq :: u64
  sa_pending :: string
  sa_sent :: "(string \<times> u64 \<times> bool) list"

definition sa_init :: stream_acc where
  "sa_init = \<lparr> sa_text = [], sa_calls = [], sa_stop = EndTurn, sa_in = 0, sa_out = 0, sa_seq = 0, sa_pending = [], sa_sent = [] \<rparr>"

text \<open>\<^verbatim>\<open>flush_pending!\<close>: the chunks are recorded in \<open>sa_sent\<close> and published in order.\<close>

definition flush_pending :: "stream_acc \<Rightarrow> stream_acc" where
  "flush_pending a =
     (if sa_pending a = [] then a
      else a\<lparr> sa_sent := sa_sent a @ [(sa_pending a, sa_seq a, False)], sa_seq := sa_seq a + 1, sa_pending := [] \<rparr>)"

fun stream_chunk_step :: "stream_chunk \<Rightarrow> stream_acc \<Rightarrow> stream_acc" where
  "stream_chunk_step (TextDelta t) a =
     (let a1 = a\<lparr> sa_text := sa_text a @ t, sa_pending := sa_pending a @ t \<rparr>
      in if CHUNK_FLUSH_BYTES \<le> length (sa_pending a1) then flush_pending a1 else a1)"
| "stream_chunk_step (ToolCallStart cid name) a =
     (let a1 = flush_pending a in a1\<lparr> sa_calls := hm_insert cid (name, []) (sa_calls a1) \<rparr>)"
| "stream_chunk_step (ToolCallArgsDelta cid d) a =
     a\<lparr> sa_calls := hm_modify cid (\<lambda>(name, args). (name, args @ d)) (sa_calls a) \<rparr>"
| "stream_chunk_step (ToolCallComplete cid) a = a"
| "stream_chunk_step (ChunkDone sr i out) a = a\<lparr> sa_stop := sr, sa_in := i, sa_out := out \<rparr>"

fun stream_loop :: "stream_event list \<Rightarrow> stream_acc \<Rightarrow> avix_error option \<times> stream_acc" where
  "stream_loop [] a = (None, a)"
| "stream_loop (StCancel # es) a = (Some (Cancelled ''LLM call cancelled by signal''), a)"
| "stream_loop (StTick # es) a = stream_loop es (flush_pending a)"
| "stream_loop (StChunk (Inl e) # es) a = (Some (ConfigParse e), a)"
| "stream_loop (StChunk (Inr c) # es) a = stream_loop es (stream_chunk_step c a)"

definition stream_content :: "(string \<Rightarrow> json option) \<Rightarrow> stream_acc \<Rightarrow> json list" where
  "stream_content parse a =
     (if sa_text a = [] then [] else [JObj [(''type'', JStr ''text''), (''text'', JStr (sa_text a))]]) @
     map (\<lambda>(cid, name, args).
            JObj [(''type'', JStr ''tool_use''), (''id'', JStr cid), (''name'', JStr name),
                  (''input'', unwrap_or (JObj []) (parse args))]) (sa_calls a)"

text \<open>The response of an answer and the chunks it makes the executor publish.\<close>

definition answer_result ::
  "(string \<Rightarrow> json option) \<Rightarrow> llm_answer \<Rightarrow> llm_complete_response avix_result \<times> (string \<times> u64 \<times> bool) list" where
  "answer_result parse ans =
     (case ans of
        AnswerComplete (Inl e) \<Rightarrow> (Inl (ConfigParse e), [])
      | AnswerComplete (Inr r) \<Rightarrow> (Inr r, [])
      | AnswerStream es \<Rightarrow>
          (case stream_loop es sa_init of
             (Some e, a) \<Rightarrow> (Inl e, sa_sent a)
           | (None, a) \<Rightarrow>
               (let a1 = flush_pending a
                in (Inr \<lparr> lr_content = stream_content parse a1, lr_stop_reason = sa_stop a1,
                          lr_input_tokens = sa_in a1, lr_output_tokens = sa_out a1 \<rparr>,
                    sa_sent a1 @ [([], sa_seq a1, True)]))))"

definition run_turn_streaming ::
  "('d, 'k, 's) exec_env \<Rightarrow> string \<Rightarrow> llm_answer \<Rightarrow> ('d, 'k, 's) executor \<Rightarrow>
   llm_complete_response avix_result \<times> ('d, 'k, 's) executor" where
  "run_turn_streaming env turn_id ans ex =
     (case answer_result (xe_from_str env) ans of
        (res, chunks) \<Rightarrow>
          (res, fold (\<lambda>(delta, n, final).
                        emit env (CallAgentOutputChunk (ex_atp_session_id ex) (ex_session_id ex) (pid_u64 (ex_pid ex)) turn_id
                                   delta n final)) chunks ex))"

section \<open>One tool call\<close>

definition tool_result_json :: "string \<Rightarrow> string \<Rightarrow> json" where
  "tool_result_json cid content =
     JObj [(''type'', JStr ''tool_result''), (''tool_use_id'', JStr cid), (''content'', JStr content)]"

datatype hil_gate = GateOpen | GateRefused | GateInject

definition hil_gate_of :: "string \<Rightarrow> ('d, 'k, 's) executor \<Rightarrow> hil_gate" where
  "hil_gate_of name ex =
     (if \<not> list_ex (\<lambda>t. t = name) (tm_hil_required (ex_tools ex)) then GateOpen
      else (case ex_kernel ex of
              Some k \<Rightarrow> if mk_auto_approve k then GateOpen else GateRefused
            | None \<Rightarrow> GateInject))"

definition count_tool_call ::
  "('d, 'k, 's) exec_env \<Rightarrow> ('d, 'k, 's) executor \<Rightarrow> ('d, 'k, 's) executor" where
  "count_tool_call env ex =
     (let ex1 = ex\<lparr> ex_tool_calls := sat_add (ex_tool_calls ex) 1 \<rparr>
      in (case ex_snapshot_interval ex1 of
            None \<Rightarrow> ex1
          | Some n \<Rightarrow>
              (let ex2 = ex1\<lparr> ex_calls_since := ex_calls_since ex1 + 1 \<rparr>
               in if n \<le> ex_calls_since ex2 then (take_interim_snapshot env ex2)\<lparr> ex_calls_since := 0 \<rparr> else ex2)))"

definition dispatch_tool ::
  "('d, 'k, 's) exec_env \<Rightarrow> avix_tool_call \<Rightarrow> ('d, 'k, 's) executor \<Rightarrow>
   (json avix_result \<times> ('d, 'k, 's) executor) option" where
  "dispatch_tool env call ex =
     (if is_cat2_tool (ex_tools ex) (tc_name call)
      then (case dispatch_category2 env call ex of (v, ex1) \<Rightarrow> Some (Inr v, ex1))
      else dispatch_via_router env call ex)"

text \<open>What a call leaves: the block for the model, and its result when it was carried out.\<close>

definition carry_out ::
  "('d, 'k, 's) exec_env \<Rightarrow> avix_tool_call \<Rightarrow> ('d, 'k, 's) executor \<Rightarrow>
   (json \<times> json option \<times> ('d, 'k, 's) executor) option" where
  "carry_out env call ex =
     (let ex1 = emit env (CallAgentToolCall (ex_atp_session_id ex) (pid_u64 (ex_pid ex)) (tc_call_id call)
                            (tc_name call) (tc_args call)) (count_tool_call env ex)
      in (case dispatch_tool env call ex1 of
            None \<Rightarrow> None
          | Some (res, ex2) \<Rightarrow>
              (let content = (case res of Inl e \<Rightarrow> ''Error: '' @ error_display e | Inr v \<Rightarrow> xe_to_string env v)
               in Some (tool_result_json (tc_call_id call) content, (case res of Inl _ \<Rightarrow> None | Inr v \<Rightarrow> Some v),
                        save_invocation_state env
                          (emit env (CallAgentToolResult (ex_atp_session_id ex2) (pid_u64 (ex_pid ex2))
                             (tc_call_id call) (tc_name call) content) ex2)))))"

definition gated_call ::
  "('d, 'k, 's) exec_env \<Rightarrow> avix_tool_call \<Rightarrow> ('d, 'k, 's) executor \<Rightarrow>
   (json \<times> json option \<times> ('d, 'k, 's) executor) option" where
  "gated_call env call ex =
     (case hil_gate_of (tc_name call) ex of
        GateRefused \<Rightarrow>
          Some (tool_result_json (tc_call_id call)
                  ''Tool call requires human approval (HIL gate). Not yet approved.'', None, ex)
      | GateInject \<Rightarrow>
          Some (tool_result_json (tc_call_id call) ''Tool call requires human approval.'', None,
                inject_pending_message (''[System]: HIL required for '' @ tc_name call) ex)
      | GateOpen \<Rightarrow> carry_out env call ex)"

definition process_call ::
  "('d, 'k, 's) exec_env \<Rightarrow> avix_tool_call \<Rightarrow> ('d, 'k, 's) executor \<Rightarrow>
   (json \<times> json option \<times> ('d, 'k, 's) executor) option" where
  "process_call env call ex =
     (case validate_tool_call (xe_now env (ex_draws ex)) (ex_token ex) call (tm_budgets (ex_tools ex)) of
        (verdict, b) \<Rightarrow>
          (let ex0 = draw (ex\<lparr> ex_tools := (ex_tools ex)\<lparr> tm_budgets := b \<rparr> \<rparr>)
           in (case verdict of
                 Inl e \<Rightarrow> Some (tool_result_json (tc_call_id call) (''Error: '' @ error_display e), None, ex0)
               | Inr _ \<Rightarrow> gated_call env call ex0)))"

fun process_calls ::
  "('d, 'k, 's) exec_env \<Rightarrow> avix_tool_call list \<Rightarrow> ('d, 'k, 's) executor \<Rightarrow>
   (json list \<times> tool_call_entry list \<times> ('d, 'k, 's) executor) option" where
  "process_calls env [] ex = Some ([], [], ex)"
| "process_calls env (c # cs) ex =
     (case process_call env c ex of
        None \<Rightarrow> None
      | Some (block, res, ex1) \<Rightarrow>
          (case process_calls env cs ex1 of
             None \<Rightarrow> None
           | Some (blocks, entries, ex2) \<Rightarrow>
               Some (block # blocks,
                     (case res of
                        None \<Rightarrow> entries
                      | Some v \<Rightarrow> \<lparr> tce_id = tc_call_id c, tce_name = tc_name c, tce_args = tc_args c, tce_result = Some v \<rparr> # entries),
                     ex2)))"

section \<open>One turn\<close>

datatype llm_event = LlmAnswer llm_answer | LlmInterrupt "signal list"

record turn_input =
  ti_arrived :: "signal list"
  ti_waiting :: "signal list"
  ti_llm :: llm_event

text \<open>\<open>ls_requests\<close> records the requests handed to the client.\<close>

record loop_state =
  ls_messages :: "json list"
  ls_chain :: nat
  ls_turn :: u32
  ls_requests :: "llm_complete_request list"

datatype turn_out = TurnReturn "string avix_result" | TurnContinue | TurnBlocked

definition put_rx :: "signal list \<Rightarrow> ('d, 'k, 's) executor \<Rightarrow> ('d, 'k, 's) executor" where
  "put_rx q ex = ex\<lparr> ex_rx := Some q \<rparr>"

text \<open>The drain before a turn: \<^verbatim>\<open>True\<close> when the executor was killed.\<close>

fun drain_signals ::
  "('d, 'k, 's) exec_env \<Rightarrow> signal list \<Rightarrow> ('d, 'k, 's) executor \<Rightarrow> (bool \<times> ('d, 'k, 's) executor) option" where
  "drain_signals env [] ex = Some (False, put_rx [] ex)"
| "drain_signals env (s # q) ex =
     (case handle_signal_between_turns env s ex of
        None \<Rightarrow> None
      | Some ex1 \<Rightarrow> if ex_killed ex1 then Some (True, put_rx q ex1) else drain_signals env q ex1)"

text \<open>The wait of a paused executor; \<open>PauseBlocked\<close> when it has read every signal and is still paused.\<close>

datatype pause_out = PauseResumed | PauseKilled | PauseBlocked

fun pause_loop ::
  "('d, 'k, 's) exec_env \<Rightarrow> signal list \<Rightarrow> ('d, 'k, 's) executor \<Rightarrow> (pause_out \<times> ('d, 'k, 's) executor) option" where
  "pause_loop env [] ex = Some (PauseBlocked, put_rx [] ex)"
| "pause_loop env (s # q) ex =
     (case handle_signal_between_turns env s ex of
        None \<Rightarrow> None
      | Some ex1 \<Rightarrow>
          if ex_killed ex1 then Some (PauseKilled, put_rx q ex1)
          else if \<not> ex_paused ex1 then Some (PauseResumed, put_rx q ex1)
          else pause_loop env q ex1)"

text \<open>Signals before the request: \<^verbatim>\<open>None\<close> inside means that the turn goes on.\<close>

definition turn_signals ::
  "('d, 'k, 's) exec_env \<Rightarrow> turn_input \<Rightarrow> ('d, 'k, 's) executor \<Rightarrow> (turn_out option \<times> ('d, 'k, 's) executor) option" where
  "turn_signals env ti ex =
     (case ex_rx ex of
        None \<Rightarrow>
          Some (if ex_paused ex then Some (TurnReturn (Inl (Cancelled ''signal channel closed''))) else None, ex)
      | Some q \<Rightarrow>
          (case drain_signals env (q @ ti_arrived ti) ex of
             None \<Rightarrow> None
           | Some (True, ex1) \<Rightarrow> Some (Some (TurnReturn (Inl (Cancelled ''killed between turns''))), ex1)
           | Some (False, ex1) \<Rightarrow>
               if \<not> ex_paused ex1 then Some (None, ex1)
               else (case pause_loop env (ti_waiting ti) ex1 of
                       None \<Rightarrow> None
                     | Some (PauseKilled, ex2) \<Rightarrow> Some (Some (TurnReturn (Inl (Cancelled ''killed while paused''))), ex2)
                     | Some (PauseBlocked, ex2) \<Rightarrow> Some (Some TurnBlocked, ex2)
                     | Some (PauseResumed, ex2) \<Rightarrow> Some (None, ex2))))"

definition take_requested_snapshot ::
  "('d, 'k, 's) exec_env \<Rightarrow> ('d, 'k, 's) executor \<Rightarrow> ('d, 'k, 's) executor" where
  "take_requested_snapshot env ex =
     (if ex_snapshot_requested ex then take_interim_snapshot env (ex\<lparr> ex_snapshot_requested := False \<rparr>) else ex)"

definition finish_turn ::
  "('d, 'k, 's) exec_env \<Rightarrow> string \<Rightarrow> loop_state \<Rightarrow> ('d, 'k, 's) executor \<Rightarrow>
   (turn_out \<times> loop_state \<times> ('d, 'k, 's) executor) option" where
  "finish_turn env txt ls ex =
     map_option (\<lambda>e. (TurnReturn (Inr txt), ls, e))
       (save_session_response env txt (save_invocation_state env (push_conv ConvAssistant txt ex)))"

definition limit_text :: "u64 \<Rightarrow> string" where
  "limit_text n = ''I have reached the tool call limit of '' @ show_word n @
     '' for this invocation. Please review the work completed so far and provide new instructions.''"

definition response_text :: "llm_complete_response \<Rightarrow> string" where
  "response_text r = concat (List.map_filter (\<lambda>c. as_str (json_index c ''text'')) (lr_content r))"

definition record_tool_turn ::
  "string \<Rightarrow> tool_call_entry list \<Rightarrow> ('d, 'k, 's) executor \<Rightarrow> ('d, 'k, 's) executor" where
  "record_tool_turn txt entries ex =
     (if entries \<noteq> [] \<or> txt \<noteq> []
      then ex\<lparr> ex_conv := ex_conv ex @ [\<lparr> ce_role = ConvAssistant, ce_content = txt, ce_tool_calls = entries,
                                          ce_files_changed = [], ce_thought = None \<rparr>] \<rparr>
      else ex)"

definition role_message :: "string \<Rightarrow> json list \<Rightarrow> json" where
  "role_message role content = JObj [(''role'', JStr role), (''content'', JArr content)]"

definition act_on_response ::
  "('d, 'k, 's) exec_env \<Rightarrow> llm_complete_response \<Rightarrow> loop_state \<Rightarrow> ('d, 'k, 's) executor \<Rightarrow>
   (turn_out \<times> loop_state \<times> ('d, 'k, 's) executor) option" where
  "act_on_response env resp ls ex =
     (case interpret_stop_reason resp of
        ReturnResult txt \<Rightarrow> finish_turn env txt ls ex
      | SummariseContext \<Rightarrow> finish_turn env (response_text resp) ls ex
      | DispatchTools calls \<Rightarrow>
          (let ls1 = ls\<lparr> ls_chain := ls_chain ls + length calls \<rparr>
           in if unat (ex_max_chain ex) < ls_chain ls1 then finish_turn env (limit_text (ex_max_chain ex)) ls1 ex
              else (case process_calls env calls ex of
                      None \<Rightarrow> None
                    | Some (blocks, entries, ex1) \<Rightarrow>
                        Some (TurnContinue,
                              ls1\<lparr> ls_messages := ls_messages ls1 @ [role_message ''assistant'' (lr_content resp),
                                                                      role_message ''user'' blocks] \<rparr>,
                              record_tool_turn (response_text resp) entries ex1))))"

definition account_response ::
  "('d, 'k, 's) exec_env \<Rightarrow> llm_complete_response \<Rightarrow> ('d, 'k, 's) executor \<Rightarrow> ('d, 'k, 's) executor" where
  "account_response env resp ex =
     write_status_yaml env (ex\<lparr> ex_tokens := sat_add (ex_tokens ex) (ucast (total_tokens resp)),
                                ex_context_used := ucast (lr_input_tokens resp) \<rparr>)"

definition call_llm ::
  "('d, 'k, 's) exec_env \<Rightarrow> string \<Rightarrow> llm_event \<Rightarrow> loop_state \<Rightarrow> ('d, 'k, 's) executor \<Rightarrow>
   (turn_out \<times> loop_state \<times> ('d, 'k, 's) executor) option" where
  "call_llm env turn_id ev ls ex =
     (case ev of
        LlmAnswer ans \<Rightarrow>
          (case run_turn_streaming env turn_id ans ex of
             (Inr resp, ex1) \<Rightarrow> act_on_response env resp ls (account_response env resp ex1)
           | (Inl (Cancelled m), ex1) \<Rightarrow>
               Some (if ex_killed ex1 then TurnReturn (Inl (Cancelled ''SIGKILL/SIGSTOP'')) else TurnContinue, ls, ex1)
           | (Inl e, ex1) \<Rightarrow> Some (TurnReturn (Inl e), ls, ex1))
      | LlmInterrupt arrived \<Rightarrow>
          (case ex_rx ex of
             None \<Rightarrow> Some (TurnReturn (Inl (Cancelled ''signal channel closed'')), ls, ex)
           | Some q \<Rightarrow>
               (case q @ arrived of
                  [] \<Rightarrow> Some (TurnBlocked, ls, ex)
                | s # q' \<Rightarrow>
                    (case handle_signal_during_llm env s (put_rx q' ex) of
                       None \<Rightarrow> None
                     | Some ex1 \<Rightarrow>
                         Some (if ex_killed ex1 then TurnReturn (Inl (Cancelled ''SIGKILL/SIGSTOP during LLM''))
                               else TurnContinue, ls, ex1)))))"

definition run_turn ::
  "('d, 'k, 's) exec_env \<Rightarrow> turn_input \<Rightarrow> loop_state \<Rightarrow> ('d, 'k, 's) executor \<Rightarrow>
   (turn_out \<times> loop_state \<times> ('d, 'k, 's) executor) option" where
  "run_turn env ti ls ex =
     (let ls1 = ls\<lparr> ls_turn := ls_turn ls + 1 \<rparr>;
          system = build_system_prompt_str ex;
          ex1 = maybe_renew_token env (refresh_tool_list ex)
      in if is_expired (xe_now env (ex_draws ex1)) (ex_token ex1)
         then Some (TurnReturn (Inl (CapabilityDenied ''capability token expired; cannot begin turn'')), ls1, draw ex1)
         else (case turn_signals env ti (draw ex1) of
                 None \<Rightarrow> None
               | Some (Some out, ex2) \<Rightarrow> Some (out, ls1, ex2)
               | Some (None, ex2) \<Rightarrow>
                   (let turn_id = xe_uuid env (ex_draws ex2);
                        ex3 = take_requested_snapshot env (draw ex2);
                        req = \<lparr> lq_model = [], lq_messages = ls_messages ls1, lq_tools = tm_current_tool_list (ex_tools ex3),
                                lq_system = Some system, lq_max_tokens = 4096, lq_turn_id = turn_id \<rparr>
                    in call_llm env turn_id (ti_llm ti) (ls1\<lparr> ls_requests := ls_requests ls1 @ [req] \<rparr>) ex3)))"

section \<open>The run\<close>

datatype run_out = RunReturned "string avix_result" | RunBlocked | RunPending

fun run_turns ::
  "('d, 'k, 's) exec_env \<Rightarrow> turn_input list \<Rightarrow> loop_state \<Rightarrow> ('d, 'k, 's) executor \<Rightarrow>
   (run_out \<times> loop_state \<times> ('d, 'k, 's) executor) option" where
  "run_turns env [] ls ex = Some (RunPending, ls, ex)"
| "run_turns env (ti # tis) ls ex =
     (case run_turn env ti ls ex of
        None \<Rightarrow> None
      | Some (TurnReturn r, ls1, ex1) \<Rightarrow> Some (RunReturned r, ls1, ex1)
      | Some (TurnBlocked, ls1, ex1) \<Rightarrow> Some (RunBlocked, ls1, ex1)
      | Some (TurnContinue, ls1, ex1) \<Rightarrow> run_turns env tis ls1 ex1)"

definition loop_init :: "string \<Rightarrow> loop_state" where
  "loop_init goal =
     \<lparr> ls_messages = [JObj [(''role'', JStr ''user''), (''content'', JStr goal)]], ls_chain = 0, ls_turn = 0, ls_requests = [] \<rparr>"

definition run_with_client ::
  "('d, 'k, 's) exec_env \<Rightarrow> string \<Rightarrow> turn_input list \<Rightarrow> ('d, 'k, 's) executor \<Rightarrow>
   (run_out \<times> loop_state \<times> ('d, 'k, 's) executor) option" where
  "run_with_client env goal tis ex = run_turns env tis (loop_init goal) (push_conv ConvUser goal ex)"

section \<open>The run on queued responses\<close>

definition lookup_fs :: "(string, bytes) hmap \<Rightarrow> string \<Rightarrow> bytes" where
  "lookup_fs fs path = unwrap_or [] (hm_get fs path)"

definition queued_result :: "(bytes \<Rightarrow> string) \<Rightarrow> (string, bytes) hmap \<Rightarrow> avix_tool_call \<Rightarrow> json" where
  "queued_result lossy fs call =
     JArr [tool_result_json (tc_call_id call)
       (if tc_name call = ''fs/read''
        then lossy (lookup_fs fs (unwrap_or [] (as_str (json_index (tc_args call) ''path''))))
        else ''ok'')]"

definition role_value :: "string \<Rightarrow> json \<Rightarrow> json" where
  "role_value role v = JObj [(''role'', JStr role), (''content'', v)]"

function run_queued ::
  "('d, 'k, 's) exec_env \<Rightarrow> (bytes \<Rightarrow> string) \<Rightarrow> json list \<Rightarrow> nat \<Rightarrow> ('d, 'k, 's) executor \<Rightarrow>
   string avix_result \<times> ('d, 'k, 's) executor" where
  "run_queued env lossy messages chain ex =
     (case ex_llm_queue ex of
        [] \<Rightarrow> (Inl (ConfigParse ''no more mock LLM responses''), ex)
      | resp # rest \<Rightarrow>
          (let ex1 = maybe_renew_token env (ex\<lparr> ex_llm_queue := rest, ex_call_log := ex_call_log ex @ [messages] \<rparr>)
           in if is_expired (xe_now env (ex_draws ex1)) (ex_token ex1)
              then (Inl (ConfigParse ''capability token expired; cannot begin turn''), draw ex1)
              else (case interpret_stop_reason resp of
                      ReturnResult txt \<Rightarrow> (Inr txt, draw ex1)
                    | SummariseContext \<Rightarrow> run_queued env lossy messages chain (draw ex1)
                    | DispatchTools calls \<Rightarrow>
                        if unat (ex_max_chain ex1) < chain + length calls
                        then (Inl (ConfigParse (''exceeded max tool chain limit of '' @ show_word (ex_max_chain ex1))), draw ex1)
                        else run_queued env lossy
                               (messages @ map (\<lambda>c. role_message ''assistant'' [c]) (lr_content resp) @
                                map (\<lambda>c. role_value ''user'' (queued_result lossy (ex_fs_data ex1) c)) calls)
                               (chain + length calls) (draw ex1))))"
  by pat_completeness auto

lemma queue_frames:
  "ex_llm_queue (draw ex) = ex_llm_queue ex"
  "ex_llm_queue (snd (ask_resource env h item ex)) = ex_llm_queue ex"
  by (simp_all add: draw_def ask_resource_def Let_def)

lemma maybe_renew_token_queue: "ex_llm_queue (maybe_renew_token env ex) = ex_llm_queue ex"
  by (auto simp: maybe_renew_token_def Let_def ask_resource_def draw_def
      split: option.splits sum.splits list.splits resource_grant.splits bool.splits)

termination run_queued
  by (relation "measure (\<lambda>(env, lossy, messages, chain, ex). length (ex_llm_queue ex))")
    (simp_all add: queue_frames maybe_renew_token_queue)

definition run_until_complete ::
  "('d, 'k, 's) exec_env \<Rightarrow> (bytes \<Rightarrow> string) \<Rightarrow> string \<Rightarrow> ('d, 'k, 's) executor \<Rightarrow>
   string avix_result \<times> ('d, 'k, 's) executor" where
  "run_until_complete env lossy goal ex =
     run_queued env lossy [JObj [(''role'', JStr ''user''), (''content'', JStr goal)]] 0 ex"

section \<open>Streaming: lemmas\<close>

fun delta_text :: "stream_event \<Rightarrow> string" where
  "delta_text (StChunk (Inr (TextDelta t))) = t"
| "delta_text _ = []"

definition sa_inv :: "stream_acc \<Rightarrow> bool" where
  "sa_inv a \<longleftrightarrow> concat (map fst (sa_sent a)) @ sa_pending a = sa_text a \<and>
     map (fst \<circ> snd) (sa_sent a) = map of_nat [0..<length (sa_sent a)] \<and> sa_seq a = of_nat (length (sa_sent a)) \<and>
     list_all (\<lambda>(d, _, final). d \<noteq> [] \<and> \<not> final) (sa_sent a)"

lemma sa_inv_init: "sa_inv sa_init"
  by (simp add: sa_inv_def sa_init_def)

lemma flush_pending_inv: "sa_inv a \<Longrightarrow> sa_inv (flush_pending a)"
  by (auto simp: sa_inv_def flush_pending_def)

lemma flush_pending_frame [simp]:
  "sa_text (flush_pending a) = sa_text a" "sa_pending (flush_pending a) = []"
  "sa_calls (flush_pending a) = sa_calls a"
  by (simp_all add: flush_pending_def)

lemma stream_chunk_inv: "sa_inv a \<Longrightarrow> sa_inv (stream_chunk_step c a)"
proof (cases c)
  case (TextDelta t)
  assume "sa_inv a"
  then have "sa_inv (a\<lparr> sa_text := sa_text a @ t, sa_pending := sa_pending a @ t \<rparr>)"
    by (auto simp: sa_inv_def simp flip: append_assoc)
  with TextDelta show ?thesis by (simp add: Let_def flush_pending_inv)
next
  case (ToolCallStart cid name)
  assume "sa_inv a"
  from flush_pending_inv [OF this] ToolCallStart show ?thesis by (simp add: sa_inv_def Let_def)
qed (simp_all add: sa_inv_def)

lemma stream_chunk_text: "sa_text (stream_chunk_step c a) = sa_text a @ delta_text (StChunk (Inr c))"
  by (cases c) (simp_all add: Let_def)

lemma stream_loop_inv: "sa_inv a \<Longrightarrow> sa_inv (snd (stream_loop es a))"
  by (induction es a rule: stream_loop.induct) (simp_all add: flush_pending_inv stream_chunk_inv)

lemma stream_loop_text:
  "fst (stream_loop es a) = None \<Longrightarrow> sa_text (snd (stream_loop es a)) = sa_text a @ concat (map delta_text es)"
  by (induction es a rule: stream_loop.induct) (simp_all add: stream_chunk_text)

lemma stream_content_text:
  "concat (List.map_filter (\<lambda>c. as_str (json_index c ''text'')) (stream_content parse a)) = sa_text a"
proof -
  have "List.map_filter (\<lambda>c. as_str (json_index c ''text''))
          (map (\<lambda>(cid, name, args). JObj [(''type'', JStr ''tool_use''), (''id'', JStr cid), (''name'', JStr name),
             (''input'', unwrap_or (JObj []) (parse args))]) xs) = []" for xs :: "(string \<times> string \<times> string) list"
    by (induction xs) (auto simp: json_index_def List.map_filter_def)
  then show ?thesis by (simp add: stream_content_def json_index_def List.map_filter_def)
qed

text \<open> A streamed answer that ends without an error is published completely and in order: the deltas of
  the published chunks join to exactly the text the model produced, which is also the text of the
  response the loop acts on; the chunks are numbered 0, 1, 2, \<dots>; every chunk but the last is non-empty
  and not final, and the last is the empty final one.\<close>

theorem streaming_exact:
  assumes "answer_result parse (AnswerStream es) = (Inr resp, chunks)"
  shows "concat (map fst chunks) = concat (map delta_text es) \<and> response_text resp = concat (map delta_text es) \<and>
    map (fst \<circ> snd) chunks = map of_nat [0..<length chunks] \<and>
    (\<exists>body n. chunks = body @ [([], n, True)] \<and> (\<forall>(d, _, final)\<in>set body. d \<noteq> [] \<and> \<not> final))"
proof -
  obtain a where loop: "stream_loop es sa_init = (None, a)"
    using assms by (auto simp: answer_result_def split: prod.splits option.splits)
  let ?b = "flush_pending a"
  have resp: "resp = \<lparr> lr_content = stream_content parse ?b, lr_stop_reason = sa_stop ?b, lr_input_tokens = sa_in ?b,
      lr_output_tokens = sa_out ?b \<rparr>" and chunks: "chunks = sa_sent ?b @ [([], sa_seq ?b, True)]"
    using assms loop by (auto simp: answer_result_def Let_def)
  have "sa_inv ?b" using stream_loop_inv [OF sa_inv_init, of es] loop by (simp add: flush_pending_inv)
  moreover have "sa_text ?b = concat (map delta_text es)"
    using stream_loop_text [of es sa_init] loop by (simp add: sa_init_def)
  ultimately show ?thesis
    by (auto simp: resp chunks sa_inv_def response_text_def stream_content_text list_all_iff)
qed

definition demo_stream :: "stream_event list" where
  "demo_stream = [StChunk (Inr (TextDelta ''Hel'')), StTick, StChunk (Inr (TextDelta ''lo'')),
     StChunk (Inr (ToolCallStart ''c1'' ''fs__read'')), StChunk (Inr (ToolCallArgsDelta ''c1'' ''x'')),
     StChunk (Inr (ChunkDone ToolUse 3 4))]"

lemma demo_stream_result:
  "answer_result (\<lambda>_. None) (AnswerStream demo_stream) =
     (Inr \<lparr> lr_content = [JObj [(''type'', JStr ''text''), (''text'', JStr ''Hello'')],
              JObj [(''type'', JStr ''tool_use''), (''id'', JStr ''c1''), (''name'', JStr ''fs__read''), (''input'', JObj [])]],
            lr_stop_reason = ToolUse, lr_input_tokens = 3, lr_output_tokens = 4 \<rparr>,
      [(''Hel'', 0, False), (''lo'', 1, False), ([], 2, True)])"
  by code_simp

theorem streaming_exact_witness:
  "concat (map fst (snd (answer_result (\<lambda>_. None) (AnswerStream demo_stream)))) = ''Hello''"
  using streaming_exact [OF demo_stream_result] by (simp add: demo_stream_result)

section \<open>Frames\<close>

text \<open>What the loop's own bookkeeping depends on, and what the signal handlers change.\<close>

definition exec_core :: "('d, 'k, 's) executor \<Rightarrow> u32 \<times> u64" where
  "exec_core ex = (ex_tool_calls ex, ex_max_chain ex)"

definition exec_flags :: "('d, 'k, 's) executor \<Rightarrow> bool \<times> bool \<times> signal list option" where
  "exec_flags ex = (ex_paused ex, ex_killed ex, ex_rx ex)"

lemmas exec_views = exec_core_def exec_flags_def

lemma frame_simple [simp]:
  "exec_core (draw ex) = exec_core ex" "exec_flags (draw ex) = exec_flags ex"
  "exec_core (inject_pending_message m ex) = exec_core ex" "exec_flags (inject_pending_message m ex) = exec_flags ex"
  "exec_core (push_conv r c ex) = exec_core ex" "exec_flags (push_conv r c ex) = exec_flags ex"
  "exec_core (deny_tool t ex) = exec_core ex"
  "exec_core (note_signal n ex) = exec_core ex" "exec_flags (note_signal n ex) = exec_flags ex"
  "exec_core (set_killed ex) = exec_core ex" "exec_core (set_paused b ex) = exec_core ex"
  "exec_core (put_rx q ex) = exec_core ex"
  "exec_core (refresh_tool_list ex) = exec_core ex" "exec_flags (refresh_tool_list ex) = exec_flags ex"
  "exec_core (record_tool_turn txt es ex) = exec_core ex"
  "exec_core (ex\<lparr> ex_tools := tm \<rparr>) = exec_core ex" "exec_core (ex\<lparr> ex_kernel := k \<rparr>) = exec_core ex"
  "exec_core (ex\<lparr> ex_token := tok \<rparr>) = exec_core ex" "exec_core (ex\<lparr> ex_hil := h \<rparr>) = exec_core ex"
  "exec_core (ex\<lparr> ex_signal_bus := sb \<rparr>) = exec_core ex" "exec_core (ex\<lparr> ex_inv := st \<rparr>) = exec_core ex"
  "exec_core (ex\<lparr> ex_snapshot_requested := want \<rparr>) = exec_core ex"
  "exec_core (ex\<lparr> ex_calls_since := since \<rparr>) = exec_core ex"
  "exec_flags (ex\<lparr> ex_snapshot_requested := want \<rparr>) = exec_flags ex"
  "exec_flags (ex\<lparr> ex_token := tok \<rparr>) = exec_flags ex"
  by (simp_all add: exec_views draw_def inject_pending_message_def push_conv_def deny_tool_def note_signal_def
      set_killed_def set_paused_def put_rx_def refresh_tool_list_def record_tool_turn_def Let_def)

lemma frame_emit [simp]: "exec_core (emit env ev ex) = exec_core ex" "exec_flags (emit env ev ex) = exec_flags ex"
  by (auto simp: emit_def exec_views draw_def split: option.splits)

lemma frame_status [simp]:
  "exec_core (write_status_yaml env ex) = exec_core ex" "exec_flags (write_status_yaml env ex) = exec_flags ex"
  by (auto simp: write_status_yaml_def exec_views draw_def Let_def split: option.splits prod.splits sum.splits)

lemma frame_persist [simp]:
  "exec_core (save_invocation_state env ex) = exec_core ex"
  "exec_core (take_interim_snapshot env ex) = exec_core ex"
  "exec_core (ex_update_status env st ex) = exec_core ex"
  "exec_flags (ex_update_status env st ex) = exec_flags ex"
  "exec_core (take_requested_snapshot env ex) = exec_core ex"
  by (auto simp: save_invocation_state_def take_interim_snapshot_def ex_update_status_def exec_views
      take_requested_snapshot_def Let_def split: option.splits prod.splits sum.splits)

lemma frame_on_save: "on_save env ex = Some ex' \<Longrightarrow> exec_core ex' = exec_core ex"
  by (auto simp: on_save_def capture_and_write_snapshot_def exec_views draw_def Let_def take_interim_snapshot_def
      split: option.splits prod.splits sum.splits)

lemma frame_ask [simp]:
  "exec_core (snd (ask_resource env h item ex)) = exec_core ex"
  "exec_flags (snd (ask_resource env h item ex)) = exec_flags ex"
  by (simp_all add: ask_resource_def Let_def)

lemma frame_renew [simp]:
  "exec_core (maybe_renew_token env ex) = exec_core ex" "exec_flags (maybe_renew_token env ex) = exec_flags ex"
  by (auto simp: maybe_renew_token_def Let_def ask_resource_def
      split: option.splits sum.splits list.splits resource_grant.splits bool.splits)

lemma frame_auto_log: "auto_log_session_end ex = Some ex' \<Longrightarrow> exec_core ex' = exec_core ex \<and> exec_flags ex' = exec_flags ex"
  by (auto simp: auto_log_session_end_def exec_views split: option.splits if_splits)

lemma frame_modify_session: "ex_modify_session env u f ex = Some ex' \<Longrightarrow> exec_core ex' = exec_core ex"
  by (auto simp: ex_modify_session_def exec_views split: option.splits sum.splits)

lemma frame_save_session: "save_session_response env r ex = Some ex' \<Longrightarrow> exec_core ex' = exec_core ex"
  by (auto simp: save_session_response_def split: if_splits sum.splits dest: frame_modify_session)

lemma frame_on_signal [simp]:
  "exec_core (on_pause env ex) = exec_core ex" "exec_core (on_resume env ex) = exec_core ex" "exec_core (on_pipe p ex) = exec_core ex"
  "exec_flags (on_pipe p ex) = exec_flags ex"
  by (simp_all add: on_pause_def on_resume_def on_pipe_def)

lemma flags_set:
  "exec_flags (set_killed ex) = (ex_paused ex, True, ex_rx ex)"
  "exec_flags (set_paused b ex) = (b, ex_killed ex, ex_rx ex)"
  "exec_flags (put_rx q ex) = (ex_paused ex, ex_killed ex, Some q)"
  by (simp_all add: exec_flags_def set_killed_def set_paused_def put_rx_def)

lemma flags_eqD: "exec_flags ex' = (p, k, r) \<Longrightarrow> ex_paused ex' = p \<and> ex_killed ex' = k \<and> ex_rx ex' = r"
  by (simp add: exec_flags_def)

lemma frame_on_stop:
  assumes "on_stop env ex = Some ex'"
  shows "exec_core ex' = exec_core ex \<and> exec_flags ex' = (ex_paused ex, True, ex_rx ex)"
proof -
  obtain e where e: "auto_log_session_end ex = Some e" "ex' = write_status_yaml env (set_killed e)"
    using assms by (auto simp: on_stop_def)
  then show ?thesis using frame_auto_log [OF e(1)] by (simp add: flags_set) (simp add: exec_flags_def)
qed

lemma flags_on_pause: "exec_flags (on_pause env ex) = (True, ex_killed ex, ex_rx ex)"
  and flags_on_resume: "exec_flags (on_resume env ex) = (False, ex_killed ex, ex_rx ex)"
  by (simp_all add: on_pause_def on_resume_def flags_set)

text \<open>What a signal handled between turns does to the flags.\<close>

fun paused_after :: "bool \<Rightarrow> signal_kind \<Rightarrow> bool" where
  "paused_after p SigPause = True"
| "paused_after p SigResume = False"
| "paused_after p _ = p"

definition stops :: "signal_kind \<Rightarrow> bool" where
  "stops k \<longleftrightarrow> k = SigKill \<or> k = SigStop"

lemma note_signal_fields [simp]:
  "ex_paused (note_signal n ex) = ex_paused ex" "ex_killed (note_signal n ex) = ex_killed ex" "ex_rx (note_signal n ex) = ex_rx ex"
  by (simp_all add: note_signal_def)

lemma between_turns_effect:
  assumes "handle_signal_between_turns env s ex = Some ex'"
  shows "exec_core ex' = exec_core ex \<and>
    exec_flags ex' = (paused_after (ex_paused ex) (sig_kind s), ex_killed ex \<or> stops (sig_kind s), ex_rx ex)"
proof (cases "sig_kind s")
  case SigKill
  with assms frame_on_stop show ?thesis by (fastforce simp: handle_signal_between_turns_def Let_def stops_def)
next
  case SigStop
  with assms frame_on_stop show ?thesis by (fastforce simp: handle_signal_between_turns_def Let_def stops_def)
qed (use assms in \<open>auto simp: handle_signal_between_turns_def Let_def stops_def flags_on_pause flags_on_resume exec_flags_def [of ex]\<close>)

lemma during_llm_effect:
  assumes "handle_signal_during_llm env s ex = Some ex'"
  shows "exec_core ex' = exec_core ex"
proof (cases "sig_kind s")
  case SigKill
  with assms frame_on_stop show ?thesis by (fastforce simp: handle_signal_during_llm_def Let_def)
next
  case SigStop
  with assms frame_on_stop show ?thesis by (fastforce simp: handle_signal_during_llm_def Let_def)
qed (use assms in \<open>auto simp: handle_signal_during_llm_def Let_def dest: frame_on_save\<close>)

lemma frame_pipe_entry [simp]: "exec_core (write_pipe_entry env pid t d b ex) = exec_core ex"
  by (auto simp: write_pipe_entry_def exec_core_def Let_def split: option.splits prod.splits sum.splits)

lemma frame_response_entry [simp]: "exec_core (hil_response_entry env h out ex) = exec_core ex"
  by (simp add: hil_response_entry_def)

lemma frame_upgrade [simp]: "exec_core (snd (request_upgrade env tool reason mgr bus ex)) = exec_core ex"
  by (auto simp: request_upgrade_def Let_def split: prod.splits sum.splits)

lemma frame_request_tool [simp]: "exec_core (snd (cat2_request_tool env args ex)) = exec_core ex"
proof -
  have "exec_core ex1 = exec_core ex" if "ask_resource env h item ex = (r, ex1)" for h item r ex1
    using frame_ask(1) [of env h item ex] that by simp
  then show ?thesis by (auto simp: cat2_request_tool_def Let_def split: option.splits prod.splits sum.splits)
qed

lemma frame_pipe_open [simp]: "exec_core (snd (cat2_pipe_open env args ex)) = exec_core ex"
proof -
  have "exec_core ex1 = exec_core ex" if "ask_resource env h item ex = (r, ex1)" for h item r ex1
    using frame_ask(1) [of env h item ex] that by simp
  then show ?thesis
    by (auto simp: cat2_pipe_open_def Let_def split: option.splits prod.splits sum.splits list.splits resource_grant.splits bool.splits)
qed

lemma frame_category2 [simp]: "exec_core (snd (dispatch_category2 env call ex)) = exec_core ex"
  by (simp add: dispatch_category2_def Let_def)

lemma frame_dispatch:
  assumes "dispatch_tool env call ex = Some (r, ex')"
  shows "exec_core ex' = exec_core ex"
proof (cases "is_cat2_tool (ex_tools ex) (tc_name call)")
  case True
  then have "ex' = snd (dispatch_category2 env call ex)"
    using assms by (auto simp: dispatch_tool_def split: prod.splits)
  then show ?thesis by simp
next
  case False
  with assms show ?thesis
    by (auto simp: dispatch_tool_def dispatch_via_router_def Let_def split: if_splits option.splits sum.splits registry_ref.splits)
qed


section \<open>Tool calls of a run\<close>

lemma count_tool_call_core:
  "ex_max_chain (count_tool_call env ex) = ex_max_chain ex"
  "unat (ex_tool_calls (count_tool_call env ex)) \<le> Suc (unat (ex_tool_calls ex))"
proof -
  have "exec_core (count_tool_call env ex) = exec_core (ex\<lparr> ex_tool_calls := sat_add (ex_tool_calls ex) 1 \<rparr>)"
    by (simp add: count_tool_call_def Let_def split: option.split)
  then show "ex_max_chain (count_tool_call env ex) = ex_max_chain ex"
    and "unat (ex_tool_calls (count_tool_call env ex)) \<le> Suc (unat (ex_tool_calls ex))"
    by (simp_all add: exec_core_def unat_sat_add)
qed

definition grew_by :: "nat \<Rightarrow> ('d, 'k, 's) executor \<Rightarrow> ('d, 'k, 's) executor \<Rightarrow> bool" where
  "grew_by n ex ex' \<longleftrightarrow> ex_max_chain ex' = ex_max_chain ex \<and> unat (ex_tool_calls ex') \<le> unat (ex_tool_calls ex) + n"

lemma grew_by_core: "exec_core ex' = exec_core ex \<Longrightarrow> grew_by n ex ex'"
  by (simp add: grew_by_def exec_core_def)

lemma grew_by_trans: "grew_by m ex ex1 \<Longrightarrow> grew_by n ex1 ex2 \<Longrightarrow> grew_by (m + n) ex ex2"
  by (simp add: grew_by_def)

lemma grew_by_subst: "grew_by n a b \<Longrightarrow> exec_core a = exec_core ex \<Longrightarrow> exec_core ex' = exec_core b \<Longrightarrow> grew_by n ex ex'"
  by (simp add: grew_by_def exec_core_def)

lemma carry_out_grows:
  assumes "carry_out env call ex = Some (block, res, ex')"
  shows "grew_by (Suc 0) ex ex'"
proof -
  obtain r ex1 ex2 where d: "dispatch_tool env call ex1 = Some (r, ex2)" and "exec_core ex' = exec_core ex2"
    and "exec_core ex1 = exec_core (count_tool_call env ex)"
    using assms by (auto simp: carry_out_def Let_def split: option.splits)
  then have "exec_core ex' = exec_core (count_tool_call env ex)" using frame_dispatch [OF d] by simp
  moreover have "grew_by (Suc 0) ex (count_tool_call env ex)" using count_tool_call_core [of env ex] by (simp add: grew_by_def)
  ultimately show ?thesis using grew_by_subst by blast
qed

lemma gated_call_grows:
  assumes "gated_call env call ex = Some (block, res, ex')"
  shows "grew_by (Suc 0) ex ex'"
  using assms carry_out_grows [of env call ex block res ex']
  by (auto simp: gated_call_def intro: grew_by_core split: hil_gate.splits)

lemma process_call_grows:
  assumes "process_call env call ex = Some (block, res, ex')"
  shows "grew_by (Suc 0) ex ex'"
proof -
  obtain verdict b where v: "validate_tool_call (xe_now env (ex_draws ex)) (ex_token ex) call (tm_budgets (ex_tools ex)) = (verdict, b)"
    by fastforce
  let ?ex0 = "draw (ex\<lparr> ex_tools := (ex_tools ex)\<lparr> tm_budgets := b \<rparr> \<rparr>)"
  show ?thesis
  proof (cases verdict)
    case (Inl e)
    with assms v have "ex' = ?ex0" by (simp add: process_call_def Let_def)
    then show ?thesis by (simp add: grew_by_core)
  next
    case (Inr u)
    with assms v have "gated_call env call ?ex0 = Some (block, res, ex')" by (simp add: process_call_def Let_def)
    from gated_call_grows [OF this] show ?thesis by (rule grew_by_subst) simp_all
  qed
qed

lemma process_calls_grow: "process_calls env cs ex = Some (blocks, entries, ex') \<Longrightarrow> grew_by (length cs) ex ex'"
proof (induction cs arbitrary: ex blocks entries)
  case (Cons c cs)
  then obtain block r ex1 bs es where "process_call env c ex = Some (block, r, ex1)" "process_calls env cs ex1 = Some (bs, es, ex')"
    by (auto split: option.splits prod.splits)
  from grew_by_trans [OF process_call_grows [OF this(1)] Cons.IH [OF this(2)]] show ?case by simp
qed (simp add: grew_by_core)

lemma frame_emits:
  "exec_core (fold (\<lambda>(d, n, f). emit env (ev d n f)) chunks ex) = exec_core ex \<and>
   exec_flags (fold (\<lambda>(d, n, f). emit env (ev d n f)) chunks ex) = exec_flags ex"
  by (induction chunks arbitrary: ex) auto

lemma frame_streaming [simp]:
  "exec_core (snd (run_turn_streaming env tid ans ex)) = exec_core ex"
  "exec_flags (snd (run_turn_streaming env tid ans ex)) = exec_flags ex"
  using frame_emits by (auto simp: run_turn_streaming_def split: prod.splits)

lemma frame_account [simp]: "exec_core (account_response env r ex) = exec_core ex"
  by (simp add: account_response_def) (simp add: exec_core_def)

lemma frame_finish:
  assumes "finish_turn env txt ls ex = Some (out, ls', ex')"
  shows "out = TurnReturn (Inr txt) \<and> ls' = ls \<and> exec_core ex' = exec_core ex"
  using assms frame_save_session [of env "txt" "save_invocation_state env (push_conv ConvAssistant txt ex)"]
  by (auto simp: finish_turn_def)

text \<open>What a turn that goes on has done: \<open>n\<close> calls were counted, and no more were carried out.\<close>

definition went_on :: "nat \<Rightarrow> loop_state \<Rightarrow> ('d, 'k, 's) executor \<Rightarrow> loop_state \<Rightarrow> ('d, 'k, 's) executor \<Rightarrow> bool" where
  "went_on n ls ex ls' ex' \<longleftrightarrow> ls_chain ls' = ls_chain ls + n \<and> grew_by n ex ex' \<and>
     (0 < n \<longrightarrow> ls_chain ls' \<le> unat (ex_max_chain ex))"

lemma act_on_response_effect:
  assumes "act_on_response env resp ls ex = Some (out, ls', ex')"
  shows "out \<noteq> TurnContinue \<and> exec_core ex' = exec_core ex \<or>
    (\<exists>calls. out = TurnContinue \<and> interpret_stop_reason resp = DispatchTools calls \<and> went_on (length calls) ls ex ls' ex')"
proof (cases "interpret_stop_reason resp")
  case (DispatchTools calls)
  show ?thesis
  proof (cases "unat (ex_max_chain ex) < ls_chain ls + length calls")
    case True
    with assms DispatchTools show ?thesis by (auto simp: act_on_response_def Let_def dest!: frame_finish)
  next
    case False
    then obtain blocks entries ex1 where pc: "process_calls env calls ex = Some (blocks, entries, ex1)"
      and out: "out = TurnContinue" "ls_chain ls' = ls_chain ls + length calls"
      and ex': "ex' = record_tool_turn (response_text resp) entries ex1"
      using assms DispatchTools by (auto simp: act_on_response_def Let_def split: option.splits)
    have "grew_by (length calls) ex ex'"
      using process_calls_grow [OF pc] by (rule grew_by_subst) (simp_all add: ex')
    with out False DispatchTools show ?thesis by (auto simp: went_on_def)
  qed
qed (use assms in \<open>auto simp: act_on_response_def dest!: frame_finish\<close>)

text \<open>An answer that makes progress: a failure, a final text, or at least one tool call.\<close>

definition productive :: "(string \<Rightarrow> json option) \<Rightarrow> turn_input \<Rightarrow> bool" where
  "productive parse ti =
     (case ti_llm ti of
        LlmInterrupt _ \<Rightarrow> False
      | LlmAnswer ans \<Rightarrow>
          (case fst (answer_result parse ans) of
             Inl (Cancelled _) \<Rightarrow> False
           | Inl _ \<Rightarrow> True
           | Inr resp \<Rightarrow> interpret_stop_reason resp \<noteq> DispatchTools []))"

lemma went_on_core: "went_on n ls a ls' b \<Longrightarrow> exec_core a = exec_core ex \<Longrightarrow> went_on n ls ex ls' b"
  using grew_by_subst [of n a b ex b] by (auto simp: went_on_def exec_core_def)

lemma call_llm_effect:
  assumes "call_llm env tid (ti_llm ti) ls ex = Some (out, ls', ex')"
  shows "out \<noteq> TurnContinue \<and> exec_core ex' = exec_core ex \<or>
    (\<exists>n. out = TurnContinue \<and> went_on n ls ex ls' ex' \<and> (productive (xe_from_str env) ti \<longrightarrow> 0 < n))"
proof (cases "ti_llm ti")
  case (LlmInterrupt arrived)
  then have "ls' = ls \<and> exec_core ex' = exec_core ex"
    using assms by (auto simp: call_llm_def split: option.splits list.splits dest!: during_llm_effect)
  then show ?thesis using LlmInterrupt by (cases out) (auto simp: went_on_def productive_def intro!: exI [of _ 0] grew_by_core)
next
  case (LlmAnswer ans)
  obtain res ex1 where st: "run_turn_streaming env tid ans ex = (res, ex1)" by fastforce
  then have core: "exec_core ex1 = exec_core ex" and res: "fst (answer_result (xe_from_str env) ans) = res"
    using frame_streaming(1) [of env tid ans ex] by (auto simp: run_turn_streaming_def split: prod.splits)
  show ?thesis
  proof (cases res)
    case (Inl e)
    with assms LlmAnswer st core res show ?thesis
      by (cases e) (auto simp: call_llm_def productive_def went_on_def intro!: exI [of _ 0] grew_by_core)
  next
    case (Inr resp)
    with assms LlmAnswer st have "act_on_response env resp ls (account_response env resp ex1) = Some (out, ls', ex')"
      by (simp add: call_llm_def)
    then consider (stop) "out \<noteq> TurnContinue" "exec_core ex' = exec_core ex"
      | (on) calls where "out = TurnContinue" "interpret_stop_reason resp = DispatchTools calls" "went_on (length calls) ls ex ls' ex'"
      using act_on_response_effect core by (fastforce intro: went_on_core)
    then show ?thesis
    proof cases
      case on
      then show ?thesis using LlmAnswer Inr res by (auto simp: productive_def intro!: exI [of _ "length calls"])
    qed auto
  qed
qed

lemma drain_core: "drain_signals env q ex = Some (k, ex') \<Longrightarrow> exec_core ex' = exec_core ex"
  by (induction q arbitrary: ex) (auto split: option.splits if_splits dest!: between_turns_effect)

lemma pause_core: "pause_loop env q ex = Some (r, ex') \<Longrightarrow> exec_core ex' = exec_core ex"
  by (induction q arbitrary: ex) (auto split: option.splits if_splits dest!: between_turns_effect)

lemma turn_signals_core:
  assumes "turn_signals env ti ex = Some (r, ex')"
  shows "exec_core ex' = exec_core ex \<and> r \<noteq> Some TurnContinue"
  using assms by (auto simp: turn_signals_def split: option.splits prod.splits bool.splits if_splits pause_out.splits
      dest!: drain_core pause_core)

lemma run_turn_effect:
  assumes "run_turn env ti ls ex = Some (out, ls', ex')"
  shows "out \<noteq> TurnContinue \<and> exec_core ex' = exec_core ex \<or>
    (\<exists>n. out = TurnContinue \<and> went_on n ls ex ls' ex' \<and> (productive (xe_from_str env) ti \<longrightarrow> 0 < n))"
proof -
  let ?e = "maybe_renew_token env (refresh_tool_list ex)"
  consider (return) r where "out = TurnReturn r" "exec_core ex' = exec_core ex"
    | (stop) e where "turn_signals env ti (draw ?e) = Some (Some out, e)" "ex' = e"
    | (llm) e req where "turn_signals env ti (draw ?e) = Some (None, e)"
        "call_llm env (xe_uuid env (ex_draws e)) (ti_llm ti)
           (ls\<lparr> ls_turn := ls_turn ls + 1, ls_requests := ls_requests ls @ [req] \<rparr>)
           (take_requested_snapshot env (draw e)) = Some (out, ls', ex')"
    using assms by (auto simp: run_turn_def Let_def split: if_splits option.splits prod.splits)
  then show ?thesis
  proof cases
    case stop
    then show ?thesis using turn_signals_core [OF stop(1)] by auto
  next
    case llm
    have core: "exec_core (take_requested_snapshot env (draw e)) = exec_core ex" using turn_signals_core [OF llm(1)] by simp
    have mv: "went_on n ls a ls' b" if "went_on n (ls\<lparr> ls_turn := t, ls_requests := q \<rparr>) a ls' b" for n a b t q
      using that by (auto simp: went_on_def)
    from call_llm_effect [OF llm(2)] show ?thesis
    proof (elim disjE exE conjE)
      fix n assume "out = TurnContinue" "productive (xe_from_str env) ti \<longrightarrow> 0 < n"
        and w: "went_on n (ls\<lparr> ls_turn := ls_turn ls + 1, ls_requests := ls_requests ls @ [req] \<rparr>)
                  (take_requested_snapshot env (draw e)) ls' ex'"
      with went_on_core [OF mv [OF w] core] show ?thesis by auto
    qed (use core in simp)
  qed auto
qed

lemma run_turns_bound:
  assumes "run_turns env tis ls ex = Some (out, ls', ex')" and "ls_chain ls \<le> unat (ex_max_chain ex)"
  shows "unat (ex_tool_calls ex') + ls_chain ls \<le> unat (ex_tool_calls ex) + unat (ex_max_chain ex) \<and>
    (out = RunPending \<longrightarrow> length (filter (productive (xe_from_str env)) tis) + ls_chain ls \<le> unat (ex_max_chain ex))"
  using assms
proof (induction tis arbitrary: ls ex)
  case (Cons ti tis)
  obtain t ls1 ex1 where rt: "run_turn env ti ls ex = Some (t, ls1, ex1)"
    using Cons.prems(1) by (auto split: option.splits)
  from run_turn_effect [OF rt] show ?case
  proof (elim disjE exE conjE)
    assume "t \<noteq> TurnContinue" "exec_core ex1 = exec_core ex"
    with Cons.prems rt show ?case by (cases t) (auto simp: exec_core_def)
  next
    fix n assume t: "t = TurnContinue" and w: "went_on n ls ex ls1 ex1" and pr: "productive (xe_from_str env) ti \<longrightarrow> 0 < n"
    have le: "ls_chain ls1 \<le> unat (ex_max_chain ex1)" using w Cons.prems(2) by (cases n) (auto simp: went_on_def grew_by_def)
    have "run_turns env tis ls1 ex1 = Some (out, ls', ex')" using Cons.prems(1) rt t by simp
    from Cons.IH [OF this le] w pr show ?case by (auto simp: went_on_def grew_by_def)
  qed
qed simp


text \<open>C18.  The turn loop terminates: no run survives more than \<^verbatim>\<open>max_tool_chain_length\<close> turns in which the
  model answers with a failure, a final text or at least one tool call.  Only turns interrupted by a signal,
  cancelled, or answered with a tool stop reason and no call can repeat beyond that.\<close>

theorem run_terminates:
  assumes "unat (ex_max_chain ex) < length (filter (productive (xe_from_str env)) tis)"
  shows "map_option fst (run_with_client env goal tis ex) \<noteq> Some RunPending"
proof (cases "run_with_client env goal tis ex")
  case (Some res)
  obtain out ls ex' where "res = (out, ls, ex')" by (cases res)
  with run_turns_bound [of env tis "loop_init goal" "push_conv ConvUser goal ex" out ls ex'] Some assms show ?thesis
    by (auto simp: run_with_client_def loop_init_def push_conv_def)
qed simp

section \<open>Pausing and killing\<close>

lemma drain_quiet:
  assumes "drain_signals env q ex = Some (k, ex')" and "\<not> ex_killed ex"
    and "\<forall>s\<in>set q. sig_kind s \<noteq> SigResume \<and> \<not> stops (sig_kind s)" and "ex_paused ex"
  shows "k = False \<and> exec_flags ex' = (True, False, Some [])"
  using assms
proof (induction q arbitrary: ex)
  case (Cons s q)
  obtain ex1 where h: "handle_signal_between_turns env s ex = Some ex1"
    using Cons.prems(1) by (auto split: option.splits)
  have "\<not> ex_killed ex1" "ex_paused ex1"
    using flags_eqD [OF conjunct2 [OF between_turns_effect [OF h]]] Cons.prems by (cases "sig_kind s"; simp)+
  with Cons.IH [of ex1] Cons.prems h show ?case by simp
qed (auto simp: flags_set)

text \<open>The signal that ends a pause: the first resume, kill or stop.\<close>

definition deciding :: "signal list \<Rightarrow> signal_kind option" where
  "deciding q = map_option sig_kind (find (\<lambda>s. sig_kind s = SigResume \<or> stops (sig_kind s)) q)"

lemma pause_loop_decided:
  assumes "pause_loop env q ex = Some (r, ex')" and "\<not> ex_killed ex" and "ex_paused ex"
  shows "r = (case deciding q of None \<Rightarrow> PauseBlocked | Some k \<Rightarrow> if k = SigResume then PauseResumed else PauseKilled) \<and>
    ex_paused ex' = (deciding q \<noteq> Some SigResume)"
  using assms
proof (induction q arbitrary: ex)
  case Nil
  then show ?case by (auto simp: deciding_def put_rx_def)
next
  case (Cons s q)
  obtain ex1 where h: "handle_signal_between_turns env s ex = Some ex1"
    using Cons.prems(1) by (auto split: option.splits)
  have f: "ex_killed ex1 = stops (sig_kind s)" "ex_paused ex1 = (sig_kind s \<noteq> SigResume)"
    using flags_eqD [OF conjunct2 [OF between_turns_effect [OF h]]] Cons.prems by (cases "sig_kind s"; simp)+
  show ?case
  proof (cases "sig_kind s = SigResume \<or> stops (sig_kind s)")
    case True
    then show ?thesis using Cons.prems(1) h f by (auto simp: deciding_def put_rx_def stops_def)
  next
    case False
    then have "pause_loop env q ex1 = Some (r, ex')" using Cons.prems(1) h f by simp
    from Cons.IH [OF this] f False show ?thesis by (simp add: deciding_def)
  qed
qed

lemma no_renewal:
  assumes "300 * nanos_per_sec < expires_at (ex_token ex) - xe_now env (ex_draws ex)"
  shows "maybe_renew_token env ex = draw ex"
  using assms by (simp add: maybe_renew_token_def Let_def)

lemma refresh_fields [simp]:
  "ex_token (refresh_tool_list ex) = ex_token ex" "ex_draws (refresh_tool_list ex) = ex_draws ex"
  "ex_rx (refresh_tool_list ex) = ex_rx ex" "ex_paused (refresh_tool_list ex) = ex_paused ex"
  "ex_killed (refresh_tool_list ex) = ex_killed ex"
  by (simp_all add: refresh_tool_list_def Let_def)

lemma draw_fields [simp]:
  "ex_token (draw ex) = ex_token ex" "ex_rx (draw ex) = ex_rx ex" "ex_paused (draw ex) = ex_paused ex"
  "ex_killed (draw ex) = ex_killed ex" "ex_draws (draw ex) = Suc (ex_draws ex)"
  by (simp_all add: draw_def)

lemma valid_token_turn:
  assumes "\<forall>n. 300 * nanos_per_sec < expires_at (ex_token ex) - xe_now env n"
  shows "run_turn env ti ls ex =
    (case turn_signals env ti (draw (draw (refresh_tool_list ex))) of
       None \<Rightarrow> None
     | Some (Some out, ex2) \<Rightarrow> Some (out, ls\<lparr> ls_turn := ls_turn ls + 1 \<rparr>, ex2)
     | Some (None, ex2) \<Rightarrow>
         (let ex3 = take_requested_snapshot env (draw ex2)
          in call_llm env (xe_uuid env (ex_draws ex2)) (ti_llm ti)
            (ls\<lparr> ls_turn := ls_turn ls + 1,
                ls_requests := ls_requests ls @ [\<lparr> lq_model = [], lq_messages = ls_messages ls,
                  lq_tools = tm_current_tool_list (ex_tools ex3), lq_system = Some (build_system_prompt_str ex),
                  lq_max_tokens = 4096, lq_turn_id = xe_uuid env (ex_draws ex2) \<rparr>] \<rparr>) ex3))"
proof -
  have "\<not> is_expired (xe_now env n) (ex_token ex)" for n using assms [rule_format, of n] by (simp add: is_expired_def)
  moreover have "maybe_renew_token env (refresh_tool_list ex) = draw (refresh_tool_list ex)" by (rule no_renewal) (use assms in simp)
  ultimately show ?thesis by (simp add: run_turn_def Let_def cong: option.case_cong prod.case_cong)
qed

lemma act_requests: "act_on_response env resp ls ex = Some (out, ls', ex') \<Longrightarrow> ls_requests ls' = ls_requests ls"
  by (auto simp: act_on_response_def Let_def split: turn_action.splits if_splits option.splits dest!: frame_finish)

lemma call_llm_requests: "call_llm env tid ev ls ex = Some (out, ls', ex') \<Longrightarrow> ls_requests ls' = ls_requests ls"
  by (auto simp: call_llm_def split: llm_event.splits prod.splits sum.splits avix_error.splits option.splits list.splits
      dest!: act_requests)


lemma killed_drain:
  assumes "drain_signals env (s # q) ex = Some (k, ex')" and "ex_killed ex"
  shows "k \<and> ex_killed ex' \<and> exec_core ex' = exec_core ex"
proof -
  obtain ex1 where h: "handle_signal_between_turns env s ex = Some ex1" using assms by (auto split: option.splits)
  then have "ex_killed ex1" "exec_core ex1 = exec_core ex" using between_turns_effect [OF h] assms(2) by (auto dest: flags_eqD)
  with h assms show ?thesis by (auto simp: put_rx_def exec_core_def)
qed

lemma rx_try_send_effect:
  "ex_rx ex = Some q \<Longrightarrow> \<exists>s q'. ex_rx (rx_try_send sig ex) = Some (s # q')"
  "exec_core (rx_try_send sig ex) = exec_core ex" "ex_token (rx_try_send sig ex) = ex_token ex"
  by (cases q; auto simp: rx_try_send_def CHANNEL_CAPACITY_def exec_core_def split: option.splits)+

lemma status_token [simp]: "ex_token (write_status_yaml env ex) = ex_token ex"
  by (auto simp: write_status_yaml_def draw_def Let_def split: option.splits prod.splits sum.splits)

lemma deliver_kill:
  assumes "deliver_signal env ''SIGKILL'' ex = Some ex1" and "ex_rx ex = Some q"
  shows "ex_killed ex1 \<and> (\<exists>s q'. ex_rx ex1 = Some (s # q')) \<and> exec_core ex1 = exec_core ex \<and> ex_token ex1 = ex_token ex"
proof -
  let ?sig = "\<lparr> sig_target = ex_pid ex, sig_kind = exec_signal_kind ''SIGKILL'', sig_payload = JNull \<rparr>"
  have ex1: "ex1 = write_status_yaml env (set_killed (rx_try_send ?sig (note_signal ''SIGKILL'' ex)))"
    using assms(1) by (simp add: deliver_signal_def Let_def)
  have "exec_flags ex1 = exec_flags (set_killed (rx_try_send ?sig (note_signal ''SIGKILL'' ex)))" by (simp add: ex1)
  with rx_try_send_effect(1) [of "note_signal ''SIGKILL'' ex" q ?sig] assms(2)
  have "ex_killed ex1 \<and> (\<exists>s q'. ex_rx ex1 = Some (s # q'))" by (auto simp: flags_set dest!: flags_eqD)
  moreover have "ex_token ex1 = ex_token ex" by (simp add: ex1 rx_try_send_effect) (simp add: set_killed_def note_signal_def rx_try_send_effect)
  ultimately show ?thesis by (simp add: ex1 rx_try_send_effect)
qed

text \<open>C22.  A kill is obeyed before the next turn, even when the signal channel is full: after
  \<^verbatim>\<open>SIGKILL\<close> was delivered to an executor with a live channel and a token that is not near its expiry, the next
  run returns the cancellation in its first turn, with no request to the model and no tool call.\<close>

theorem kill_stops_run:
  assumes valid: "\<forall>n. 300 * nanos_per_sec < expires_at (ex_token ex) - xe_now env n"
    and kill: "ex_rx ex = Some q" "deliver_signal env ''SIGKILL'' ex = Some ex1"
    and run: "run_with_client env goal (ti # tis) ex1 = Some (out, ls, ex')"
  shows "out = RunReturned (Inl (Cancelled ''killed between turns'')) \<and> ls_requests ls = [] \<and>
    ex_killed ex' \<and> ex_tool_calls ex' = ex_tool_calls ex"
proof -
  note dk = deliver_kill [OF kill(2,1)]
  then obtain s q' where rx: "ex_rx ex1 = Some (s # q')" by auto
  let ?ex = "push_conv ConvUser goal ex1"
  have v: "\<forall>n. 300 * nanos_per_sec < expires_at (ex_token ?ex) - xe_now env n"
    using valid dk by (simp add: push_conv_def)
  let ?e = "draw (draw (refresh_tool_list ?ex))"
  have e: "ex_rx ?e = Some (s # q')" "ex_killed ?e" using rx dk by (simp_all add: push_conv_def)
  obtain k ex2 where d: "drain_signals env (s # q' @ ti_arrived ti) ?e = Some (k, ex2)"
    using run e by (auto simp: run_with_client_def valid_token_turn [OF v] turn_signals_def split: option.splits)
  note kd = killed_drain [OF d e(2)]
  have "run_turn env ti (loop_init goal) ?ex =
      Some (TurnReturn (Inl (Cancelled ''killed between turns'')), (loop_init goal)\<lparr> ls_turn := 1 \<rparr>, ex2)"
    using d kd e by (simp add: valid_token_turn [OF v] turn_signals_def loop_init_def)
  with run have "out = RunReturned (Inl (Cancelled ''killed between turns''))" "ls = (loop_init goal)\<lparr> ls_turn := 1 \<rparr>" "ex' = ex2"
    by (simp_all add: run_with_client_def)
  moreover have "exec_core ex2 = exec_core ex" using kd dk by simp
  ultimately show ?thesis using kd by (simp add: loop_init_def exec_core_def)
qed

section \<open>A concrete executor\<close>

definition demo_exec_env :: "(mem_db, string \<times> bytes, mem_db) exec_env" where
  "demo_exec_env =
     \<lparr> xe_inv = demo_inv_env, xe_sdb = mem_redb, xe_scodec = one_codec demo_session, xe_uuid_parse = Inr, xe_now = (\<lambda>_. 0),
       xe_uuid = (\<lambda>_. ''u''), xe_hmac = demo_hmac, xe_status_yaml = (\<lambda>_. Inr []), xe_to_string = (\<lambda>_. ''v''),
       xe_from_str = (\<lambda>_. None), xe_to_yaml = (\<lambda>_. []), xe_rfc3339 = (\<lambda>_. []), xe_var = (\<lambda>_. None),
       xe_ipc = (\<lambda>_ _ _. IpcConnectErr ''refused''), xe_token_of = (\<lambda>_. None), xe_to_uppercase = id,
       xe_hil = \<lparr> he_yaml = (\<lambda>_. Inr []), he_rfc3339 = (\<lambda>_. []) \<rparr>, xe_ring_free = (\<lambda>_. True), xe_hil_signals = (\<lambda>_. []),
       xe_snap = \<lparr> sn_codec = \<lparr> enc = (\<lambda>_. Inl []), dec = (\<lambda>_. Inl []) \<rparr>, sn_sha256 = id, sn_stamp = (\<lambda>_. []) \<rparr> \<rparr>"

definition demo_executor :: "(mem_db, string \<times> bytes, mem_db) executor" where
  "demo_executor = (spawn_with_registry_ref demo_exec_env
     \<lparr> sp_pid = Pid 7, sp_agent_name = ''a'', sp_goal = ''g'', sp_spawned_by = ''alice'',
       sp_token = (demo_token [''agent/list''])\<lparr> expires_at := 1000000 * nanos_per_sec \<rparr>, sp_session_id = ''s1'',
       sp_atp_session_id = ''s1'', sp_system_prompt = None, sp_selected_model = [], sp_denied_tools = [],
       sp_context_limit = 0, sp_runtime_dir = ''/run'', sp_invocation_id = [], sp_restore_from_pid = None \<rparr> (RegMock []))
     \<lparr> ex_tools := tm_new [''agent/list''] \<rparr>"

lemma demo_executor_fields [simp]:
  "ex_token demo_executor = (demo_token [''agent/list''])\<lparr> expires_at := 1000000 * nanos_per_sec \<rparr>"
  "ex_rx demo_executor = Some []" "ex_paused demo_executor = False" "ex_killed demo_executor = False"
  "ex_max_chain demo_executor = 50" "ex_vfs demo_executor = None" "ex_memory_svc demo_executor = None"
  "ex_tools demo_executor = tm_new [''agent/list'']" "ex_tool_calls demo_executor = 0" "ex_kernel demo_executor = None"
  "ex_snapshot_interval demo_executor = None" "ex_bus demo_executor = None" "ex_inv_id demo_executor = []"
  "ex_snapshot_requested demo_executor = False" "ex_inv demo_executor = None"
  by (simp_all add: demo_executor_def spawn_with_registry_ref_def refresh_tool_list_def Let_def)

lemma demo_env_fields [simp]:
  "xe_now demo_exec_env = (\<lambda>_. 0)" "xe_from_str demo_exec_env = (\<lambda>_. None)"
  by (simp_all add: demo_exec_env_def)

definition tool_turn :: turn_input where
  "tool_turn = \<lparr> ti_arrived = [], ti_waiting = [], ti_llm = LlmAnswer (AnswerComplete (Inr
     \<lparr> lr_content = [JObj [(''type'', JStr ''tool_use''), (''id'', JStr ''c''), (''name'', JStr ''agent__list''), (''input'', JNull)]],
       lr_stop_reason = ToolUse, lr_input_tokens = 1, lr_output_tokens = 1 \<rparr>)) \<rparr>"

lemma tool_turn_calls:
  "interpret_stop_reason \<lparr> lr_content = [JObj [(''type'', JStr ''tool_use''), (''id'', JStr ''c''), (''name'', JStr ''agent__list''), (''input'', JNull)]],
       lr_stop_reason = ToolUse, lr_input_tokens = 1, lr_output_tokens = 1 \<rparr> =
   DispatchTools [\<lparr> tc_call_id = ''c'', tc_name = ''agent/list'', tc_args = JNull \<rparr>]"
  by code_simp

lemma demo_valid: "\<forall>n. 300 * nanos_per_sec < expires_at (ex_token demo_executor) - xe_now demo_exec_env n"
  by simp

lemma demo_run:
  "\<exists>ls ex'. run_with_client demo_exec_env ''hi'' [tool_turn] demo_executor = Some (RunPending, ls, ex')"
proof -
  have v: "\<forall>n. 300 * nanos_per_sec < expires_at (ex_token (push_conv ConvUser ''hi'' demo_executor)) - xe_now demo_exec_env n"
    by (simp add: push_conv_def)
  have "\<exists>ls ex'. run_turn demo_exec_env tool_turn (loop_init ''hi'') (push_conv ConvUser ''hi'' demo_executor) = Some (TurnContinue, ls, ex')"
    unfolding valid_token_turn [OF v]
    by (simp add: turn_signals_def tool_turn_def push_conv_def put_rx_def
       take_requested_snapshot_def call_llm_def run_turn_streaming_def answer_result_def account_response_def
       act_on_response_def tool_turn_calls write_status_yaml_def loop_init_def draw_def refresh_tool_list_def
       tm_refresh_tool_list_def
       process_call_def validate_tool_call_def is_expired_def demo_token_def tb_remaining_def tb_default_def tm_new_def
       gated_call_def hil_gate_of_def carry_out_def count_tool_call_def emit_def dispatch_tool_def is_cat2_tool_def
       dispatch_category2_def save_invocation_state_def Let_def)
  then show ?thesis by (auto simp: run_with_client_def)
qed


lemma tool_turn_productive: "productive parse tool_turn"
  by (simp add: productive_def tool_turn_def answer_result_def tool_turn_calls)

theorem run_terminates_witness:
  "map_option fst (run_with_client demo_exec_env ''hi'' (replicate 51 tool_turn) demo_executor) \<noteq> Some RunPending"
  by (rule run_terminates) (simp add: tool_turn_productive)

definition demo_paused :: "(mem_db, string \<times> bytes, mem_db) executor" where
  "demo_paused = demo_executor\<lparr> ex_paused := True \<rparr>"

definition quiet_turn :: turn_input where
  "quiet_turn = tool_turn\<lparr> ti_waiting := [\<lparr> sig_target = Pid 7, sig_kind = SigUsr1, sig_payload = JNull \<rparr>] \<rparr>"

lemma demo_paused_turn:
  "\<exists>out ls' ex'. run_turn demo_exec_env quiet_turn (loop_init ''hi'') demo_paused = Some (out, ls', ex')"
proof -
  have v: "\<forall>n. 300 * nanos_per_sec < expires_at (ex_token demo_paused) - xe_now demo_exec_env n" by (simp add: demo_paused_def)
  show ?thesis unfolding valid_token_turn [OF v]
    by (simp add: turn_signals_def quiet_turn_def tool_turn_def put_rx_def demo_paused_def draw_def refresh_tool_list_def
        handle_signal_between_turns_def note_signal_def Let_def)
qed


theorem kill_stops_run_witness:
  "\<exists>ex1 ls ex'. deliver_signal demo_exec_env ''SIGKILL'' demo_executor = Some ex1 \<and>
    run_with_client demo_exec_env ''hi'' [tool_turn] ex1 = Some (RunReturned (Inl (Cancelled ''killed between turns'')), ls, ex')"
proof -
  obtain ex1 where k: "deliver_signal demo_exec_env ''SIGKILL'' demo_executor = Some ex1"
    by (simp add: deliver_signal_def Let_def)
  have ex1: "ex1 = demo_executor\<lparr> ex_last_signal := Some ''SIGKILL'', ex_pending_signals := ex_pending_signals demo_executor + 1,
      ex_rx := Some [\<lparr> sig_target = ex_pid demo_executor, sig_kind = SigKill, sig_payload = JNull \<rparr>], ex_killed := True \<rparr>"
    using k by (simp add: deliver_signal_def Let_def exec_signal_kind_def rx_try_send_def note_signal_def set_killed_def
        write_status_yaml_def CHANNEL_CAPACITY_def)
  have v: "\<forall>n. 300 * nanos_per_sec < expires_at (ex_token (push_conv ConvUser ''hi'' ex1)) - xe_now demo_exec_env n"
    by (simp add: push_conv_def ex1)
  have "\<exists>out ls ex'. run_turn demo_exec_env tool_turn (loop_init ''hi'') (push_conv ConvUser ''hi'' ex1) = Some (TurnReturn out, ls, ex')"
    unfolding valid_token_turn [OF v]
    by (simp add: turn_signals_def tool_turn_def push_conv_def put_rx_def ex1 draw_def refresh_tool_list_def
        handle_signal_between_turns_def note_signal_def on_stop_def auto_log_session_end_def set_killed_def
        write_status_yaml_def Let_def)
  then obtain out ls ex' where r: "run_with_client demo_exec_env ''hi'' [tool_turn] ex1 = Some (out, ls, ex')"
    by (auto simp: run_with_client_def)
  with k kill_stops_run [OF demo_valid _ k r, of "[]"] show ?thesis by auto
qed

end
