(* ===== verification/Params.thy ===== *)
theory Params
  imports Records
begin

text \<open>
  Layered agent parameters (\<^verbatim>\<open>params\<close>): constraints and their intersection, the limits and
  defaults of the system, the crews, the user and the manifest, the resolution of an agent's
  configuration with its provenance, and the loader that reads the layers from the file system.

  A \<^verbatim>\<open>f64\<close> or \<^verbatim>\<open>f32\<close> is the rational number it denotes: infinities and NaN are outside the model.
  Converting a \<^verbatim>\<open>u32\<close> to \<^verbatim>\<open>f64\<close> is exact; rounding to \<^verbatim>\<open>f32\<close> is the parameter \<open>f32\<close>.
\<close>

section \<open>Constraints\<close>

record range_constraint =
  rc_min :: "rat option"
  rc_max :: "rat option"

definition or_both :: "('a \<Rightarrow> 'a \<Rightarrow> 'a) \<Rightarrow> 'a option \<Rightarrow> 'a option \<Rightarrow> 'a option" where
  "or_both f a b =
     (case (a, b) of (Some x, Some y) \<Rightarrow> Some (f x y) | (Some x, None) \<Rightarrow> Some x | (None, Some y) \<Rightarrow> Some y | (None, None) \<Rightarrow> None)"

definition range_intersect :: "range_constraint \<Rightarrow> range_constraint \<Rightarrow> range_constraint" where
  "range_intersect a b = \<lparr> rc_min = or_both max (rc_min a) (rc_min b), rc_max = or_both min (rc_max a) (rc_max b) \<rparr>"

definition range_clamp :: "range_constraint \<Rightarrow> rat \<Rightarrow> rat" where
  "range_clamp c v =
     (let w = (case rc_min c of Some lo \<Rightarrow> max v lo | None \<Rightarrow> v)
      in (case rc_max c of Some hi \<Rightarrow> min w hi | None \<Rightarrow> w))"

definition range_allows :: "range_constraint \<Rightarrow> rat \<Rightarrow> bool" where
  "range_allows c v =
     ((case rc_min c of Some lo \<Rightarrow> \<not> v < lo | None \<Rightarrow> True) \<and> (case rc_max c of Some hi \<Rightarrow> \<not> v > hi | None \<Rightarrow> True))"

record enum_constraint =
  ec_values :: "string list"

definition enum_intersect :: "enum_constraint \<Rightarrow> enum_constraint \<Rightarrow> enum_constraint" where
  "enum_intersect a b = \<lparr> ec_values = filter (List.member (ec_values b)) (ec_values a) \<rparr>"

definition enum_allows :: "enum_constraint \<Rightarrow> string \<Rightarrow> bool" where
  "enum_allows c v = list_ex (\<lambda>x. x = v) (ec_values c)"

record set_constraint =
  sc_allowed :: "string list"

definition set_intersect :: "set_constraint \<Rightarrow> set_constraint \<Rightarrow> set_constraint" where
  "set_intersect a b = \<lparr> sc_allowed = filter (List.member (sc_allowed b)) (sc_allowed a) \<rparr>"

definition set_allows :: "set_constraint \<Rightarrow> string \<Rightarrow> bool" where
  "set_allows c v = list_ex (\<lambda>x. x = v) (sc_allowed c)"

definition set_filter :: "set_constraint \<Rightarrow> string list \<Rightarrow> string list" where
  "set_filter c xs = filter (set_allows c) xs"

record bool_constraint =
  bc_value :: "bool option"

definition bool_allows :: "bool_constraint \<Rightarrow> bool \<Rightarrow> bool" where
  "bool_allows c v = (case bc_value c of Some locked \<Rightarrow> v = locked | None \<Rightarrow> True)"

definition bool_intersect :: "bool_constraint \<Rightarrow> bool_constraint \<Rightarrow> bool_constraint" where
  "bool_intersect a b = \<lparr> bc_value = (case bc_value a of Some v \<Rightarrow> Some v | None \<Rightarrow> bc_value b) \<rparr>"

section \<open>Limits\<close>

record entrypoint_limits =
  el_model_preference :: "enum_constraint option"
  el_min_context_tokens :: "range_constraint option"
  el_max_tool_chain :: "range_constraint option"

record tools_limits =
  tl_required :: "set_constraint option"
  tl_optional :: "set_constraint option"

record memory_limits =
  ml_episodic_enabled :: "bool_constraint option"
  ml_semantic_enabled :: "bool_constraint option"

record snapshot_limits =
  sl_enabled :: "bool_constraint option"
  sl_interval :: "range_constraint option"

record environment_limits =
  vl_temperature :: "range_constraint option"
  vl_timeout_sec :: "range_constraint option"

record agent_limits =
  al_entrypoint :: "entrypoint_limits option"
  al_tools :: "tools_limits option"
  al_memory :: "memory_limits option"
  al_snapshot :: "snapshot_limits option"
  al_environment :: "environment_limits option"

abbreviation intersect_option :: "('a \<Rightarrow> 'a \<Rightarrow> 'a) \<Rightarrow> 'a option \<Rightarrow> 'a option \<Rightarrow> 'a option" where
  "intersect_option \<equiv> or_both"

definition intersect_entrypoint :: "entrypoint_limits \<Rightarrow> entrypoint_limits \<Rightarrow> entrypoint_limits" where
  "intersect_entrypoint a b =
     \<lparr> el_model_preference = intersect_option enum_intersect (el_model_preference a) (el_model_preference b),
       el_min_context_tokens = intersect_option range_intersect (el_min_context_tokens a) (el_min_context_tokens b),
       el_max_tool_chain = intersect_option range_intersect (el_max_tool_chain a) (el_max_tool_chain b) \<rparr>"

definition intersect_tools :: "tools_limits \<Rightarrow> tools_limits \<Rightarrow> tools_limits" where
  "intersect_tools a b =
     \<lparr> tl_required = intersect_option set_intersect (tl_required a) (tl_required b),
       tl_optional = intersect_option set_intersect (tl_optional a) (tl_optional b) \<rparr>"

definition intersect_memory :: "memory_limits \<Rightarrow> memory_limits \<Rightarrow> memory_limits" where
  "intersect_memory a b =
     \<lparr> ml_episodic_enabled = intersect_option bool_intersect (ml_episodic_enabled a) (ml_episodic_enabled b),
       ml_semantic_enabled = intersect_option bool_intersect (ml_semantic_enabled a) (ml_semantic_enabled b) \<rparr>"

definition intersect_snapshot :: "snapshot_limits \<Rightarrow> snapshot_limits \<Rightarrow> snapshot_limits" where
  "intersect_snapshot a b =
     \<lparr> sl_enabled = intersect_option bool_intersect (sl_enabled a) (sl_enabled b),
       sl_interval = intersect_option range_intersect (sl_interval a) (sl_interval b) \<rparr>"

definition intersect_environment :: "environment_limits \<Rightarrow> environment_limits \<Rightarrow> environment_limits" where
  "intersect_environment a b =
     \<lparr> vl_temperature = intersect_option range_intersect (vl_temperature a) (vl_temperature b),
       vl_timeout_sec = intersect_option range_intersect (vl_timeout_sec a) (vl_timeout_sec b) \<rparr>"

definition limits_intersect :: "agent_limits \<Rightarrow> agent_limits \<Rightarrow> agent_limits" where
  "limits_intersect a b =
     \<lparr> al_entrypoint = intersect_option intersect_entrypoint (al_entrypoint a) (al_entrypoint b),
       al_tools = intersect_option intersect_tools (al_tools a) (al_tools b),
       al_memory = intersect_option intersect_memory (al_memory a) (al_memory b),
       al_snapshot = intersect_option intersect_snapshot (al_snapshot a) (al_snapshot b),
       al_environment = intersect_option intersect_environment (al_environment a) (al_environment b) \<rparr>"

definition system_agent_limits :: agent_limits where
  "system_agent_limits =
     \<lparr> al_entrypoint = Some \<lparr> el_model_preference = None,
         el_min_context_tokens = Some \<lparr> rc_min = Some 1000, rc_max = Some 200000 \<rparr>,
         el_max_tool_chain = Some \<lparr> rc_min = Some 1, rc_max = Some 200 \<rparr> \<rparr>,
       al_tools = None,
       al_memory = Some \<lparr> ml_episodic_enabled = None, ml_semantic_enabled = None \<rparr>,
       al_snapshot = Some \<lparr> sl_enabled = Some \<lparr> bc_value = None \<rparr>, sl_interval = Some \<lparr> rc_min = Some 0, rc_max = Some 3600 \<rparr> \<rparr>,
       al_environment = Some \<lparr> vl_temperature = Some \<lparr> rc_min = Some 0, rc_max = Some 2 \<rparr>,
         vl_timeout_sec = Some \<lparr> rc_min = Some 30, rc_max = Some 600 \<rparr> \<rparr> \<rparr>"

section \<open>Defaults\<close>

record entrypoint_defaults =
  ed_model_preference :: "string option"
  ed_min_context_tokens :: "u32 option"
  ed_max_tool_chain :: "u32 option"

record memory_defaults =
  md_episodic_enabled :: "bool option"
  md_semantic_enabled :: "bool option"
  md_preferences_enabled :: "bool option"
  md_auto_inject_at_spawn :: "bool option"
  md_auto_log_on_session_end :: "bool option"

record snapshot_defaults =
  sd_enabled :: "bool option"
  sd_interval :: "u32 option"
  sd_restore_on_crash :: "bool option"

record environment_defaults =
  vd_temperature :: "rat option"
  vd_timeout_sec :: "u32 option"

record permissions_hint_defaults =
  pd_owner :: "string option"
  pd_crew :: "string option"
  pd_world :: "string option"

record agent_defaults =
  ad_entrypoint :: "entrypoint_defaults option"
  ad_memory :: "memory_defaults option"
  ad_snapshot :: "snapshot_defaults option"
  ad_environment :: "environment_defaults option"
  ad_permissions_hint :: "permissions_hint_defaults option"

definition agent_defaults_default :: agent_defaults where
  "agent_defaults_default =
     \<lparr> ad_entrypoint = None, ad_memory = None, ad_snapshot = None, ad_environment = None, ad_permissions_hint = None \<rparr>"

text \<open>\<^verbatim>\<open>over.or(base)\<close>.\<close>

definition over_or :: "'a option \<Rightarrow> 'a option \<Rightarrow> 'a option" where
  "over_or b ov = (case ov of Some v \<Rightarrow> Some v | None \<Rightarrow> b)"

definition merge_option :: "('a \<Rightarrow> 'a \<Rightarrow> 'a) \<Rightarrow> 'a option \<Rightarrow> 'a option \<Rightarrow> 'a option" where
  "merge_option f b ov =
     (case (b, ov) of (Some x, Some y) \<Rightarrow> Some (f x y) | (Some x, None) \<Rightarrow> Some x | (None, Some y) \<Rightarrow> Some y | (None, None) \<Rightarrow> None)"

definition merge_entrypoint :: "entrypoint_defaults \<Rightarrow> entrypoint_defaults \<Rightarrow> entrypoint_defaults" where
  "merge_entrypoint b ov =
     \<lparr> ed_model_preference = over_or (ed_model_preference b) (ed_model_preference ov),
       ed_min_context_tokens = over_or (ed_min_context_tokens b) (ed_min_context_tokens ov),
       ed_max_tool_chain = over_or (ed_max_tool_chain b) (ed_max_tool_chain ov) \<rparr>"

definition merge_memory :: "memory_defaults \<Rightarrow> memory_defaults \<Rightarrow> memory_defaults" where
  "merge_memory b ov =
     \<lparr> md_episodic_enabled = over_or (md_episodic_enabled b) (md_episodic_enabled ov),
       md_semantic_enabled = over_or (md_semantic_enabled b) (md_semantic_enabled ov),
       md_preferences_enabled = over_or (md_preferences_enabled b) (md_preferences_enabled ov),
       md_auto_inject_at_spawn = over_or (md_auto_inject_at_spawn b) (md_auto_inject_at_spawn ov),
       md_auto_log_on_session_end = over_or (md_auto_log_on_session_end b) (md_auto_log_on_session_end ov) \<rparr>"

definition merge_snapshot :: "snapshot_defaults \<Rightarrow> snapshot_defaults \<Rightarrow> snapshot_defaults" where
  "merge_snapshot b ov =
     \<lparr> sd_enabled = over_or (sd_enabled b) (sd_enabled ov), sd_interval = over_or (sd_interval b) (sd_interval ov),
       sd_restore_on_crash = over_or (sd_restore_on_crash b) (sd_restore_on_crash ov) \<rparr>"

definition merge_environment :: "environment_defaults \<Rightarrow> environment_defaults \<Rightarrow> environment_defaults" where
  "merge_environment b ov =
     \<lparr> vd_temperature = over_or (vd_temperature b) (vd_temperature ov),
       vd_timeout_sec = over_or (vd_timeout_sec b) (vd_timeout_sec ov) \<rparr>"

definition merge_permissions_hint ::
  "permissions_hint_defaults \<Rightarrow> permissions_hint_defaults \<Rightarrow> permissions_hint_defaults" where
  "merge_permissions_hint b ov =
     \<lparr> pd_owner = over_or (pd_owner b) (pd_owner ov), pd_crew = over_or (pd_crew b) (pd_crew ov),
       pd_world = over_or (pd_world b) (pd_world ov) \<rparr>"

definition merge_over :: "agent_defaults \<Rightarrow> agent_defaults \<Rightarrow> agent_defaults" where
  "merge_over b ov =
     \<lparr> ad_entrypoint = merge_option merge_entrypoint (ad_entrypoint b) (ad_entrypoint ov),
       ad_memory = merge_option merge_memory (ad_memory b) (ad_memory ov),
       ad_snapshot = merge_option merge_snapshot (ad_snapshot b) (ad_snapshot ov),
       ad_environment = merge_option merge_environment (ad_environment b) (ad_environment ov),
       ad_permissions_hint = merge_option merge_permissions_hint (ad_permissions_hint b) (ad_permissions_hint ov) \<rparr>"

text \<open>The temperature of the compiled-in defaults is the \<^verbatim>\<open>f32\<close> nearest to 0.7.\<close>

definition system_agent_defaults :: "(rat \<Rightarrow> rat) \<Rightarrow> agent_defaults" where
  "system_agent_defaults f32 =
     \<lparr> ad_entrypoint = Some \<lparr> ed_model_preference = Some ''claude-sonnet-4'', ed_min_context_tokens = Some 8000,
         ed_max_tool_chain = Some 5 \<rparr>,
       ad_memory = Some \<lparr> md_episodic_enabled = Some True, md_semantic_enabled = Some True, md_preferences_enabled = Some True,
         md_auto_inject_at_spawn = Some True, md_auto_log_on_session_end = Some False \<rparr>,
       ad_snapshot = Some \<lparr> sd_enabled = Some False, sd_interval = Some 0, sd_restore_on_crash = Some False \<rparr>,
       ad_environment = Some \<lparr> vd_temperature = Some (f32 (7 / 10)), vd_timeout_sec = Some 300 \<rparr>,
       ad_permissions_hint = Some \<lparr> pd_owner = Some ''rw'', pd_crew = Some ''r'', pd_world = Some ''r--'' \<rparr> \<rparr>"

section \<open>Checking defaults against limits\<close>

record limit_violation =
  lv_field :: string
  lv_value :: string

definition u32_rat :: "u32 \<Rightarrow> rat" where
  "u32_rat v = of_nat (unat v)"

definition violation :: "'c option \<Rightarrow> 'v option \<Rightarrow> ('c \<Rightarrow> 'v \<Rightarrow> bool) \<Rightarrow> string \<Rightarrow> ('v \<Rightarrow> string) \<Rightarrow> limit_violation list" where
  "violation c v allows field shw =
     (case (c, v) of
        (Some c', Some v') \<Rightarrow> if allows c' v' then [] else [\<lparr> lv_field = field, lv_value = shw v' \<rparr>]
      | _ \<Rightarrow> [])"

definition check_defaults ::
  "(rat \<Rightarrow> string) \<Rightarrow> agent_limits \<Rightarrow> agent_defaults \<Rightarrow> limit_violation list + unit" where
  "check_defaults show_f32 lim d =
     (let vs =
        (case (al_entrypoint lim, ad_entrypoint d) of
           (Some l, Some e) \<Rightarrow>
             violation (el_max_tool_chain l) (ed_max_tool_chain e) (\<lambda>c v. range_allows c (u32_rat v)) ''entrypoint.maxToolChain'' show_word @
             violation (el_min_context_tokens l) (ed_min_context_tokens e) (\<lambda>c v. range_allows c (u32_rat v))
               ''entrypoint.minContextTokens'' show_word @
             violation (el_model_preference l) (ed_model_preference e) enum_allows ''entrypoint.modelPreference'' id
         | _ \<Rightarrow> []) @
        (case (al_environment lim, ad_environment d) of
           (Some l, Some e) \<Rightarrow>
             violation (vl_temperature l) (vd_temperature e) range_allows ''environment.temperature'' show_f32 @
             violation (vl_timeout_sec l) (vd_timeout_sec e) (\<lambda>c v. range_allows c (u32_rat v)) ''environment.timeoutSec'' show_word
         | _ \<Rightarrow> [])
      in if vs = [] then Inr () else Inl vs)"

section \<open>Resolution\<close>

datatype yaml_value = YStr string | YU32 u32 | YBool bool | YF32 rat

datatype annotation_source =
  SystemDefaults | SystemLimits | UserDefaults | UserLimits | CrewDefaults | CrewLimits | FromManifest

record annotation =
  an_value :: yaml_value
  an_source :: annotation_source
  an_path :: "string option"
  an_clamped_from :: "yaml_value option"
  an_clamped_by :: "string option"
  an_note :: "string option"

record 'a param_field =
  pf_value :: "'a option"
  pf_annotation :: "annotation option"

definition field_default :: "'a param_field" where
  "field_default = \<lparr> pf_value = None, pf_annotation = None \<rparr>"

definition field_apply ::
  "('a \<Rightarrow> yaml_value) \<Rightarrow> annotation_source \<Rightarrow> string option \<Rightarrow> 'a option \<Rightarrow> 'a param_field \<Rightarrow> 'a param_field" where
  "field_apply into src path new f =
     (case new of
        None \<Rightarrow> f
      | Some v \<Rightarrow>
          \<lparr> pf_value = Some v,
            pf_annotation = Some \<lparr> an_value = into v, an_source = src, an_path = path, an_clamped_from = None,
              an_clamped_by = None, an_note = None \<rparr> \<rparr>)"

record param_fields =
  f_model_preference :: "string param_field"
  f_min_context_tokens :: "u32 param_field"
  f_max_tool_chain :: "u32 param_field"
  f_episodic_enabled :: "bool param_field"
  f_semantic_enabled :: "bool param_field"
  f_preferences_enabled :: "bool param_field"
  f_auto_inject_at_spawn :: "bool param_field"
  f_auto_log_on_session_end :: "bool param_field"
  f_snap_enabled :: "bool param_field"
  f_snap_interval :: "u32 param_field"
  f_restore_on_crash :: "bool param_field"
  f_temperature :: "rat param_field"
  f_timeout_sec :: "u32 param_field"
  f_perm_owner :: "string param_field"
  f_perm_crew :: "string param_field"
  f_perm_world :: "string param_field"

definition fields_default :: param_fields where
  "fields_default =
     \<lparr> f_model_preference = field_default, f_min_context_tokens = field_default, f_max_tool_chain = field_default,
       f_episodic_enabled = field_default, f_semantic_enabled = field_default, f_preferences_enabled = field_default,
       f_auto_inject_at_spawn = field_default, f_auto_log_on_session_end = field_default, f_snap_enabled = field_default,
       f_snap_interval = field_default, f_restore_on_crash = field_default, f_temperature = field_default,
       f_timeout_sec = field_default, f_perm_owner = field_default, f_perm_crew = field_default, f_perm_world = field_default \<rparr>"

text \<open>One layer: its defaults, source and path.\<close>

type_synonym layer = "agent_defaults \<times> annotation_source \<times> string option"

text \<open>The value a layer has for a field of one of its blocks.\<close>

definition in_block :: "'b option \<Rightarrow> ('b \<Rightarrow> 'v option) \<Rightarrow> 'v option" where
  "in_block b sel = Option.bind b sel"

definition apply_defaults :: "layer \<Rightarrow> param_fields \<Rightarrow> param_fields" where
  "apply_defaults l fs =
     (case l of (d, src, path) \<Rightarrow>
       \<lparr> f_model_preference = field_apply YStr src path (in_block (ad_entrypoint d) ed_model_preference) (f_model_preference fs),
         f_min_context_tokens = field_apply YU32 src path (in_block (ad_entrypoint d) ed_min_context_tokens) (f_min_context_tokens fs),
         f_max_tool_chain = field_apply YU32 src path (in_block (ad_entrypoint d) ed_max_tool_chain) (f_max_tool_chain fs),
         f_episodic_enabled = field_apply YBool src path (in_block (ad_memory d) md_episodic_enabled) (f_episodic_enabled fs),
         f_semantic_enabled = field_apply YBool src path (in_block (ad_memory d) md_semantic_enabled) (f_semantic_enabled fs),
         f_preferences_enabled = field_apply YBool src path (in_block (ad_memory d) md_preferences_enabled) (f_preferences_enabled fs),
         f_auto_inject_at_spawn = field_apply YBool src path (in_block (ad_memory d) md_auto_inject_at_spawn) (f_auto_inject_at_spawn fs),
         f_auto_log_on_session_end =
           field_apply YBool src path (in_block (ad_memory d) md_auto_log_on_session_end) (f_auto_log_on_session_end fs),
         f_snap_enabled = field_apply YBool src path (in_block (ad_snapshot d) sd_enabled) (f_snap_enabled fs),
         f_snap_interval = field_apply YU32 src path (in_block (ad_snapshot d) sd_interval) (f_snap_interval fs),
         f_restore_on_crash = field_apply YBool src path (in_block (ad_snapshot d) sd_restore_on_crash) (f_restore_on_crash fs),
         f_temperature = field_apply YF32 src path (in_block (ad_environment d) vd_temperature) (f_temperature fs),
         f_timeout_sec = field_apply YU32 src path (in_block (ad_environment d) vd_timeout_sec) (f_timeout_sec fs),
         f_perm_owner = field_apply YStr src path (in_block (ad_permissions_hint d) pd_owner) (f_perm_owner fs),
         f_perm_crew = field_apply YStr src path (in_block (ad_permissions_hint d) pd_crew) (f_perm_crew fs),
         f_perm_world = field_apply YStr src path (in_block (ad_permissions_hint d) pd_world) (f_perm_world fs) \<rparr>)"

record layered_defaults =
  ld_vfs_path :: string
  ld_source :: annotation_source
  ld_defaults :: agent_defaults

record layered_limits =
  ll_vfs_path :: string
  ll_limits :: agent_limits

record resolver_input =
  ri_system_defaults :: agent_defaults
  ri_system_defaults_path :: string
  ri_system_limits :: agent_limits
  ri_system_limits_path :: string
  ri_crew_limits :: "layered_limits list"
  ri_crew_defaults :: "layered_defaults list"
  ri_user_defaults :: "layered_defaults option"
  ri_user_limits :: "layered_limits option"
  ri_manifest :: agent_defaults

datatype resolution_error = MissingRequired string | HardViolation string string "string list" string

definition input_layers :: "resolver_input \<Rightarrow> layer list" where
  "input_layers inp =
     (ri_system_defaults inp, SystemDefaults, Some (ri_system_defaults_path inp)) #
     map (\<lambda>ld. (ld_defaults ld, ld_source ld, Some (ld_vfs_path ld))) (ri_crew_defaults inp) @
     (case ri_user_defaults inp of Some ud \<Rightarrow> [(ld_defaults ud, UserDefaults, Some (ld_vfs_path ud))] | None \<Rightarrow> []) @
     [(ri_manifest inp, FromManifest, None)]"

definition compute_effective_limits :: "resolver_input \<Rightarrow> agent_limits" where
  "compute_effective_limits inp =
     (let e = fold (\<lambda>ll e. limits_intersect e (ll_limits ll)) (ri_crew_limits inp) (ri_system_limits inp)
      in (case ri_user_limits inp of Some ul \<Rightarrow> limits_intersect e (ll_limits ul) | None \<Rightarrow> e))"

text \<open>The path of the limits file blamed for a clamp: the user's, the last crew's, or the system's.\<close>

definition effective_limits_path :: "(agent_limits \<Rightarrow> 'b option) \<Rightarrow> resolver_input \<Rightarrow> string" where
  "effective_limits_path block inp =
     (case ri_user_limits inp of
        Some ul \<Rightarrow>
          if block (ll_limits ul) \<noteq> None then ll_vfs_path ul
          else (case find (\<lambda>ll. block (ll_limits ll) \<noteq> None) (rev (ri_crew_limits inp)) of
                  Some ll \<Rightarrow> ll_vfs_path ll | None \<Rightarrow> ri_system_limits_path inp)
      | None \<Rightarrow>
          (case find (\<lambda>ll. block (ll_limits ll) \<noteq> None) (rev (ri_crew_limits inp)) of
             Some ll \<Rightarrow> ll_vfs_path ll | None \<Rightarrow> ri_system_limits_path inp))"

definition effective_limits_path_for_entrypoint :: "resolver_input \<Rightarrow> string" where
  "effective_limits_path_for_entrypoint = effective_limits_path al_entrypoint"

definition effective_limits_path_for_environment :: "resolver_input \<Rightarrow> string" where
  "effective_limits_path_for_environment = effective_limits_path al_environment"

text \<open>\<^verbatim>\<open>f64 as u32\<close> truncates and saturates.\<close>

definition f64_as_u32 :: "rat \<Rightarrow> u32" where
  "f64_as_u32 x = (if x < 0 then 0 else if 2 ^ 32 \<le> x then - 1 else of_int \<lfloor>x\<rfloor>)"

definition annotate_clamp :: "yaml_value \<Rightarrow> yaml_value \<Rightarrow> string \<Rightarrow> 'a param_field \<Rightarrow> 'a param_field" where
  "annotate_clamp from_v to_v path f =
     f\<lparr> pf_annotation := map_option (\<lambda>a. a\<lparr> an_clamped_from := Some from_v, an_clamped_by := Some path, an_value := to_v \<rparr>)
                           (pf_annotation f) \<rparr>"

definition clamp_u32 :: "range_constraint option \<Rightarrow> string \<Rightarrow> u32 param_field \<Rightarrow> u32 param_field" where
  "clamp_u32 lim path f =
     (case (lim, pf_value f) of
        (Some c, Some v) \<Rightarrow>
          (let w = f64_as_u32 (range_clamp c (u32_rat v))
           in (if w \<noteq> v then annotate_clamp (YU32 v) (YU32 w) path f else f)\<lparr> pf_value := Some w \<rparr>)
      | _ \<Rightarrow> f)"

definition f32_epsilon :: rat where
  "f32_epsilon = 1 / 2 ^ 23"

definition clamp_f32 :: "(rat \<Rightarrow> rat) \<Rightarrow> range_constraint option \<Rightarrow> string \<Rightarrow> rat param_field \<Rightarrow> rat param_field" where
  "clamp_f32 f32 lim path f =
     (case (lim, pf_value f) of
        (Some c, Some v) \<Rightarrow>
          (let w = f32 (range_clamp c v)
           in (if f32_epsilon < \<bar>f32 (w - v)\<bar> then annotate_clamp (YF32 v) (YF32 w) path f else f)\<lparr> pf_value := Some w \<rparr>)
      | _ \<Rightarrow> f)"

record resolved_config =
  rv_model_preference :: string
  rv_min_context_tokens :: u32
  rv_max_tool_chain :: u32
  rv_episodic_enabled :: bool
  rv_semantic_enabled :: bool
  rv_preferences_enabled :: bool
  rv_auto_inject_at_spawn :: bool
  rv_auto_log_on_session_end :: bool
  rv_snap_enabled :: bool
  rv_snap_interval :: u32
  rv_restore_on_crash :: bool
  rv_temperature :: rat
  rv_timeout_sec :: u32
  rv_perm_owner :: string
  rv_perm_crew :: string
  rv_perm_world :: string

type_synonym annotations = "(string, annotation) hmap"

definition emit_annotation :: "string \<Rightarrow> annotation option \<Rightarrow> annotations \<Rightarrow> annotations" where
  "emit_annotation key a m = (case a of Some x \<Rightarrow> hm_insert key x m | None \<Rightarrow> m)"

definition build_annotations :: "param_fields \<Rightarrow> annotations" where
  "build_annotations fs =
     fold (\<lambda>(k, a). emit_annotation k a)
       [(''entrypoint.modelPreference'', pf_annotation (f_model_preference fs)),
        (''entrypoint.minContextTokens'', pf_annotation (f_min_context_tokens fs)),
        (''entrypoint.maxToolChain'', pf_annotation (f_max_tool_chain fs)),
        (''memory.episodicEnabled'', pf_annotation (f_episodic_enabled fs)),
        (''memory.semanticEnabled'', pf_annotation (f_semantic_enabled fs)),
        (''memory.preferencesEnabled'', pf_annotation (f_preferences_enabled fs)),
        (''memory.autoInjectAtSpawn'', pf_annotation (f_auto_inject_at_spawn fs)),
        (''memory.autoLogOnSessionEnd'', pf_annotation (f_auto_log_on_session_end fs)),
        (''snapshot.enabled'', pf_annotation (f_snap_enabled fs)),
        (''snapshot.autoSnapshotIntervalSec'', pf_annotation (f_snap_interval fs)),
        (''snapshot.restoreOnCrash'', pf_annotation (f_restore_on_crash fs)),
        (''environment.temperature'', pf_annotation (f_temperature fs)),
        (''environment.timeoutSec'', pf_annotation (f_timeout_sec fs)),
        (''permissionsHint.owner'', pf_annotation (f_perm_owner fs)),
        (''permissionsHint.crew'', pf_annotation (f_perm_crew fs)),
        (''permissionsHint.world'', pf_annotation (f_perm_world fs))] []"

text \<open>Step 4, with the missing required fields reported in the order of the structure.\<close>

definition build_resolved :: "param_fields \<Rightarrow> resolution_error + resolved_config" where
  "build_resolved fs =
     (case pf_value (f_model_preference fs) of None \<Rightarrow> Inl (MissingRequired ''entrypoint.modelPreference'') | Some model \<Rightarrow>
     (case pf_value (f_max_tool_chain fs) of None \<Rightarrow> Inl (MissingRequired ''entrypoint.maxToolChain'') | Some chain \<Rightarrow>
     (case pf_value (f_temperature fs) of None \<Rightarrow> Inl (MissingRequired ''environment.temperature'') | Some temp \<Rightarrow>
     (case pf_value (f_timeout_sec fs) of None \<Rightarrow> Inl (MissingRequired ''environment.timeoutSec'') | Some tmo \<Rightarrow>
       Inr \<lparr> rv_model_preference = model, rv_min_context_tokens = unwrap_or 8000 (pf_value (f_min_context_tokens fs)),
             rv_max_tool_chain = chain, rv_episodic_enabled = unwrap_or True (pf_value (f_episodic_enabled fs)),
             rv_semantic_enabled = unwrap_or True (pf_value (f_semantic_enabled fs)),
             rv_preferences_enabled = unwrap_or True (pf_value (f_preferences_enabled fs)),
             rv_auto_inject_at_spawn = unwrap_or True (pf_value (f_auto_inject_at_spawn fs)),
             rv_auto_log_on_session_end = unwrap_or False (pf_value (f_auto_log_on_session_end fs)),
             rv_snap_enabled = unwrap_or False (pf_value (f_snap_enabled fs)),
             rv_snap_interval = unwrap_or 0 (pf_value (f_snap_interval fs)),
             rv_restore_on_crash = unwrap_or False (pf_value (f_restore_on_crash fs)), rv_temperature = temp, rv_timeout_sec = tmo,
             rv_perm_owner = unwrap_or ''rw'' (pf_value (f_perm_owner fs)), rv_perm_crew = unwrap_or ''r'' (pf_value (f_perm_crew fs)),
             rv_perm_world = unwrap_or ''r--'' (pf_value (f_perm_world fs)) \<rparr>))))"

definition layer_fields :: "layer list \<Rightarrow> param_fields" where
  "layer_fields ls = fold apply_defaults ls fields_default"

definition clamp_entrypoint :: "agent_limits \<Rightarrow> resolver_input \<Rightarrow> param_fields \<Rightarrow> param_fields" where
  "clamp_entrypoint lim inp fs =
     fs\<lparr> f_max_tool_chain := clamp_u32 (in_block (al_entrypoint lim) el_max_tool_chain)
           (effective_limits_path_for_entrypoint inp) (f_max_tool_chain fs),
         f_min_context_tokens := clamp_u32 (in_block (al_entrypoint lim) el_min_context_tokens)
           (effective_limits_path_for_entrypoint inp) (f_min_context_tokens fs) \<rparr>"

definition clamp_environment :: "(rat \<Rightarrow> rat) \<Rightarrow> agent_limits \<Rightarrow> resolver_input \<Rightarrow> param_fields \<Rightarrow> param_fields" where
  "clamp_environment f32 lim inp fs =
     fs\<lparr> f_temperature := clamp_f32 f32 (in_block (al_environment lim) vl_temperature)
           (effective_limits_path_for_environment inp) (f_temperature fs),
         f_timeout_sec := clamp_u32 (in_block (al_environment lim) vl_timeout_sec)
           (effective_limits_path_for_environment inp) (f_timeout_sec fs) \<rparr>"

definition model_violation :: "agent_limits \<Rightarrow> resolver_input \<Rightarrow> param_fields \<Rightarrow> resolution_error option" where
  "model_violation lim inp fs =
     (case (in_block (al_entrypoint lim) el_model_preference, pf_value (f_model_preference fs)) of
        (Some c, Some v) \<Rightarrow>
          if enum_allows c v then None
          else Some (HardViolation ''entrypoint.modelPreference'' v (ec_values c) (effective_limits_path_for_entrypoint inp))
      | _ \<Rightarrow> None)"

definition resolve_params ::
  "(rat \<Rightarrow> rat) \<Rightarrow> resolver_input \<Rightarrow> resolution_error + resolved_config \<times> annotations" where
  "resolve_params f32 inp =
     (let lim = compute_effective_limits inp;
          fs = clamp_entrypoint lim inp (layer_fields (input_layers inp))
      in (case model_violation lim inp fs of
            Some e \<Rightarrow> Inl e
          | None \<Rightarrow>
              (let fs1 = clamp_environment f32 lim inp fs
               in map_sum id (\<lambda>r. (r, build_annotations fs1)) (build_resolved fs1))))"

section \<open>Loading the layers\<close>

text \<open>What the loader uses of the outside: the YAML parsers of the two kinds of file and of their blocks.\<close>

record 'k params_env =
  pm_tools_yaml :: "string list \<Rightarrow> string"
  pm_os :: "'k disk_ops"
  pm_defaults :: "string \<Rightarrow> agent_defaults avix_result"
  pm_limits :: "string \<Rightarrow> agent_limits avix_result"

definition read_layer ::
  "'k params_env \<Rightarrow> (string \<Rightarrow> 'a avix_result) \<Rightarrow> string \<Rightarrow> vfs_router \<Rightarrow> 'k \<Rightarrow> 'a option avix_result \<times> vfs_router" where
  "read_layer env parse path vfs disk =
     (case vfs_path_parse path of
        Inl e \<Rightarrow> (Inl (ConfigParse (''invalid path '' @ path @ '': '' @ error_display e)), vfs)
      | Inr p \<Rightarrow>
          (case vfs_read (pm_tools_yaml env) (pm_os env) p vfs disk of
             (Inl _, vfs') \<Rightarrow> (Inr None, vfs')
           | (Inr bs, vfs') \<Rightarrow>
               if \<not> utf8_valid bs then (Inl (ConfigParse ''invalid utf-8 sequence''), vfs')
               else (map_sum id Some (parse (string_of_bytes bs)), vfs')))"

definition read_defaults ::
  "'k params_env \<Rightarrow> string \<Rightarrow> vfs_router \<Rightarrow> 'k \<Rightarrow> agent_defaults option avix_result \<times> vfs_router" where
  "read_defaults env = read_layer env (pm_defaults env)"

definition read_limits ::
  "'k params_env \<Rightarrow> string \<Rightarrow> vfs_router \<Rightarrow> 'k \<Rightarrow> agent_limits option avix_result \<times> vfs_router" where
  "read_limits env = read_layer env (pm_limits env)"

fun load_crews ::
  "'k params_env \<Rightarrow> string list \<Rightarrow> vfs_router \<Rightarrow> 'k \<Rightarrow> (layered_defaults list \<times> layered_limits list) avix_result \<times> vfs_router" where
  "load_crews env [] vfs disk = (Inr ([], []), vfs)"
| "load_crews env (crew # crews) vfs disk =
     (let dp = ''/crews/'' @ crew @ ''/defaults.yaml''; lp = ''/crews/'' @ crew @ ''/limits.yaml''
      in (case read_defaults env dp vfs disk of
            (Inl e, v1) \<Rightarrow> (Inl e, v1)
          | (Inr d, v1) \<Rightarrow>
              (case read_limits env lp v1 disk of
                 (Inl e, v2) \<Rightarrow> (Inl e, v2)
               | (Inr l, v2) \<Rightarrow>
                   (case load_crews env crews v2 disk of
                      (Inl e, v3) \<Rightarrow> (Inl e, v3)
                    | (Inr (ds, ls), v3) \<Rightarrow>
                        (Inr ((case d of Some x \<Rightarrow> [\<lparr> ld_vfs_path = dp, ld_source = CrewDefaults, ld_defaults = x \<rparr>] | None \<Rightarrow> []) @ ds,
                              (case l of Some x \<Rightarrow> [\<lparr> ll_vfs_path = lp, ll_limits = x \<rparr>] | None \<Rightarrow> []) @ ls), v3)))))"

definition missing :: "string \<Rightarrow> string \<Rightarrow> avix_error" where
  "missing what path = ConfigParse (''system '' @ what @ '' missing: '' @ path)"

definition load_input ::
  "'k params_env \<Rightarrow> string \<Rightarrow> string list \<Rightarrow> vfs_router \<Rightarrow> 'k \<Rightarrow> resolver_input avix_result \<times> vfs_router" where
  "load_input env username crews vfs disk =
     (let sdp = ''/kernel/defaults/agent-manifest.yaml''; slp = ''/kernel/limits/agent-manifest.yaml'';
          udp = ''/users/'' @ username @ ''/defaults.yaml''; ulp = ''/users/'' @ username @ ''/limits.yaml''
      in (case read_defaults env sdp vfs disk of
            (Inl e, v1) \<Rightarrow> (Inl e, v1)
          | (Inr None, v1) \<Rightarrow> (Inl (missing ''defaults'' sdp), v1)
          | (Inr (Some sd), v1) \<Rightarrow>
         (case read_limits env slp v1 disk of
            (Inl e, v2) \<Rightarrow> (Inl e, v2)
          | (Inr None, v2) \<Rightarrow> (Inl (missing ''limits'' slp), v2)
          | (Inr (Some sl), v2) \<Rightarrow>
         (case load_crews env crews v2 disk of
            (Inl e, v3) \<Rightarrow> (Inl e, v3)
          | (Inr (cds, cls), v3) \<Rightarrow>
         (case read_defaults env udp v3 disk of
            (Inl e, v4) \<Rightarrow> (Inl e, v4)
          | (Inr ud, v4) \<Rightarrow>
         (case read_limits env ulp v4 disk of
            (Inl e, v5) \<Rightarrow> (Inl e, v5)
          | (Inr ul, v5) \<Rightarrow>
              (Inr \<lparr> ri_system_defaults = sd, ri_system_defaults_path = sdp, ri_system_limits = sl, ri_system_limits_path = slp,
                     ri_crew_limits = cls, ri_crew_defaults = cds,
                     ri_user_defaults = map_option (\<lambda>d. \<lparr> ld_vfs_path = udp, ld_source = UserDefaults, ld_defaults = d \<rparr>) ud,
                     ri_user_limits = map_option (\<lambda>l. \<lparr> ll_vfs_path = ulp, ll_limits = l \<rparr>) ul,
                     ri_manifest = agent_defaults_default \<rparr>, v5)))))))"

section \<open>Constraints as sets of allowed values\<close>

lemma or_both_simps [simp]:
  "or_both f (Some x) (Some y) = Some (f x y)" "or_both f a None = a" "or_both f None b = b"
  by (simp_all add: or_both_def split: option.split)

text \<open>A constraint that may be absent.\<close>

definition opt_allows :: "('c \<Rightarrow> 'v \<Rightarrow> bool) \<Rightarrow> 'c option \<Rightarrow> 'v \<Rightarrow> bool" where
  "opt_allows allows c v = (case c of Some x \<Rightarrow> allows x v | None \<Rightarrow> True)"

lemma opt_allows_simps [simp]: "opt_allows allows None v" "opt_allows allows (Some c) v \<longleftrightarrow> allows c v"
  by (simp_all add: opt_allows_def)

text \<open>A kind of constraint whose intersection allows exactly what both sides allow.\<close>

locale constraint =
  fixes allows :: "'c \<Rightarrow> 'v \<Rightarrow> bool" and meet :: "'c \<Rightarrow> 'c \<Rightarrow> 'c"
  assumes meet_allows: "allows (meet a b) v \<longleftrightarrow> allows a v \<and> allows b v"
begin

lemma opt_meet: "opt_allows allows (or_both meet a b) v \<longleftrightarrow> opt_allows allows a v \<and> opt_allows allows b v"
  by (cases a; cases b) (simp_all add: meet_allows)

text \<open>The same through one block of a structure, when the block's own intersection is field-wise.\<close>

lemma block_meet:
  assumes "\<And>x y. sel (join x y) = or_both meet (sel x) (sel y)"
  shows "opt_allows allows (in_block (or_both join a b) sel) v \<longleftrightarrow>
    opt_allows allows (in_block a sel) v \<and> opt_allows allows (in_block b sel) v"
  by (cases a; cases b) (simp_all add: in_block_def assms opt_meet)

end

interpretation rng: constraint range_allows range_intersect
  by unfold_locales (auto simp: range_allows_def range_intersect_def or_both_def split: option.splits)

interpretation enm: constraint enum_allows enum_intersect
  by unfold_locales (auto simp: enum_allows_def enum_intersect_def list_ex_iff)

interpretation sts: constraint set_allows set_intersect
  by unfold_locales (auto simp: set_allows_def set_intersect_def list_ex_iff)

text \<open>Two layers that lock a boolean to different values leave the first in force.\<close>

lemma bool_intersect_conflict:
  "bool_allows (bool_intersect \<lparr> bc_value = Some True \<rparr> \<lparr> bc_value = Some False \<rparr>) v \<longleftrightarrow> v"
  by (simp add: bool_allows_def bool_intersect_def)

definition limit_layers :: "resolver_input \<Rightarrow> agent_limits list" where
  "limit_layers inp =
     ri_system_limits inp # map ll_limits (ri_crew_limits inp) @
     (case ri_user_limits inp of Some ul \<Rightarrow> [ll_limits ul] | None \<Rightarrow> [])"

lemma effective_fold: "compute_effective_limits inp = foldl limits_intersect (hd (limit_layers inp)) (tl (limit_layers inp))"
proof -
  have "fold (\<lambda>ll e. limits_intersect e (ll_limits ll)) xs e = foldl limits_intersect e (map ll_limits xs)" for xs :: "layered_limits list" and e
    by (induction xs arbitrary: e) simp_all
  then show ?thesis by (simp add: compute_effective_limits_def limit_layers_def Let_def split: option.split)
qed

lemma foldl_meet:
  assumes "\<And>x y. A (limits_intersect x y) \<longleftrightarrow> A x \<and> A y"
  shows "A (foldl limits_intersect e ls) \<longleftrightarrow> A e \<and> (\<forall>l\<in>set ls. A l)"
  by (induction ls arbitrary: e) (simp_all add: assms conj_assoc)

lemma effective_meet:
  assumes "\<And>x y. A (limits_intersect x y) \<longleftrightarrow> A x \<and> A y"
  shows "A (compute_effective_limits inp) \<longleftrightarrow> (\<forall>l\<in>set (limit_layers inp). A l)"
  unfolding effective_fold foldl_meet [OF assms] by (simp add: limit_layers_def)

abbreviation chain_ok :: "u32 \<Rightarrow> agent_limits \<Rightarrow> bool" where
  "chain_ok v l \<equiv> opt_allows range_allows (in_block (al_entrypoint l) el_max_tool_chain) (u32_rat v)"

abbreviation timeout_ok :: "u32 \<Rightarrow> agent_limits \<Rightarrow> bool" where
  "timeout_ok v l \<equiv> opt_allows range_allows (in_block (al_environment l) vl_timeout_sec) (u32_rat v)"

abbreviation temperature_ok :: "rat \<Rightarrow> agent_limits \<Rightarrow> bool" where
  "temperature_ok v l \<equiv> opt_allows range_allows (in_block (al_environment l) vl_temperature) v"

abbreviation model_ok :: "string \<Rightarrow> agent_limits \<Rightarrow> bool" where
  "model_ok v l \<equiv> opt_allows enum_allows (in_block (al_entrypoint l) el_model_preference) v"

lemma effective_limits_allow:
  "chain_ok v (compute_effective_limits inp) \<longleftrightarrow> (\<forall>l\<in>set (limit_layers inp). chain_ok v l)"
  "timeout_ok v (compute_effective_limits inp) \<longleftrightarrow> (\<forall>l\<in>set (limit_layers inp). timeout_ok v l)"
  "temperature_ok t (compute_effective_limits inp) \<longleftrightarrow> (\<forall>l\<in>set (limit_layers inp). temperature_ok t l)"
  "model_ok m (compute_effective_limits inp) \<longleftrightarrow> (\<forall>l\<in>set (limit_layers inp). model_ok m l)"
proof -
  have r: "opt_allows range_allows (in_block (al_entrypoint (limits_intersect x y)) el_max_tool_chain) w \<longleftrightarrow>
      opt_allows range_allows (in_block (al_entrypoint x) el_max_tool_chain) w \<and> opt_allows range_allows (in_block (al_entrypoint y) el_max_tool_chain) w"
    "opt_allows range_allows (in_block (al_environment (limits_intersect x y)) vl_timeout_sec) w \<longleftrightarrow>
      opt_allows range_allows (in_block (al_environment x) vl_timeout_sec) w \<and> opt_allows range_allows (in_block (al_environment y) vl_timeout_sec) w"
    "opt_allows range_allows (in_block (al_environment (limits_intersect x y)) vl_temperature) w \<longleftrightarrow>
      opt_allows range_allows (in_block (al_environment x) vl_temperature) w \<and> opt_allows range_allows (in_block (al_environment y) vl_temperature) w"
    "model_ok m (limits_intersect x y) \<longleftrightarrow> model_ok m x \<and> model_ok m y" for x y w
    unfolding limits_intersect_def agent_limits.simps
    by (rule rng.block_meet enm.block_meet; simp add: intersect_entrypoint_def intersect_environment_def)+
  show "chain_ok v (compute_effective_limits inp) \<longleftrightarrow> (\<forall>l\<in>set (limit_layers inp). chain_ok v l)"
    by (rule effective_meet) (rule r)
  show "timeout_ok v (compute_effective_limits inp) \<longleftrightarrow> (\<forall>l\<in>set (limit_layers inp). timeout_ok v l)"
    by (rule effective_meet) (rule r)
  show "temperature_ok t (compute_effective_limits inp) \<longleftrightarrow> (\<forall>l\<in>set (limit_layers inp). temperature_ok t l)"
    by (rule effective_meet) (rule r)
  show "model_ok m (compute_effective_limits inp) \<longleftrightarrow> (\<forall>l\<in>set (limit_layers inp). model_ok m l)"
    by (rule effective_meet) (rule r)
qed

section \<open>Layers\<close>

text \<open>The last layer that has a value for a field decides its value and its provenance.\<close>

definition applied :: "('a \<Rightarrow> yaml_value) \<Rightarrow> (agent_defaults \<Rightarrow> 'a option) \<Rightarrow> layer list \<Rightarrow> 'a param_field" where
  "applied into sel ls =
     fold (\<lambda>(d, src, path). field_apply into src path (sel d)) ls field_default"

lemma layer_fields_applied:
  "layer_fields ls =
     \<lparr> f_model_preference = applied YStr (\<lambda>d. in_block (ad_entrypoint d) ed_model_preference) ls,
       f_min_context_tokens = applied YU32 (\<lambda>d. in_block (ad_entrypoint d) ed_min_context_tokens) ls,
       f_max_tool_chain = applied YU32 (\<lambda>d. in_block (ad_entrypoint d) ed_max_tool_chain) ls,
       f_episodic_enabled = applied YBool (\<lambda>d. in_block (ad_memory d) md_episodic_enabled) ls,
       f_semantic_enabled = applied YBool (\<lambda>d. in_block (ad_memory d) md_semantic_enabled) ls,
       f_preferences_enabled = applied YBool (\<lambda>d. in_block (ad_memory d) md_preferences_enabled) ls,
       f_auto_inject_at_spawn = applied YBool (\<lambda>d. in_block (ad_memory d) md_auto_inject_at_spawn) ls,
       f_auto_log_on_session_end = applied YBool (\<lambda>d. in_block (ad_memory d) md_auto_log_on_session_end) ls,
       f_snap_enabled = applied YBool (\<lambda>d. in_block (ad_snapshot d) sd_enabled) ls,
       f_snap_interval = applied YU32 (\<lambda>d. in_block (ad_snapshot d) sd_interval) ls,
       f_restore_on_crash = applied YBool (\<lambda>d. in_block (ad_snapshot d) sd_restore_on_crash) ls,
       f_temperature = applied YF32 (\<lambda>d. in_block (ad_environment d) vd_temperature) ls,
       f_timeout_sec = applied YU32 (\<lambda>d. in_block (ad_environment d) vd_timeout_sec) ls,
       f_perm_owner = applied YStr (\<lambda>d. in_block (ad_permissions_hint d) pd_owner) ls,
       f_perm_crew = applied YStr (\<lambda>d. in_block (ad_permissions_hint d) pd_crew) ls,
       f_perm_world = applied YStr (\<lambda>d. in_block (ad_permissions_hint d) pd_world) ls \<rparr>"
  by (induction ls rule: rev_induct)
    (simp_all add: layer_fields_def fields_default_def applied_def apply_defaults_def split: prod.split)

definition last_set :: "(agent_defaults \<Rightarrow> 'a option) \<Rightarrow> layer list \<Rightarrow> ('a \<times> annotation_source \<times> string option) option" where
  "last_set sel ls =
     (case find (\<lambda>(d, _). sel d \<noteq> None) (rev ls) of
        Some (d, src, path) \<Rightarrow> map_option (\<lambda>v. (v, src, path)) (sel d)
      | None \<Rightarrow> None)"

lemma applied_last:
  "applied into sel ls =
     (case last_set sel ls of
        None \<Rightarrow> field_default
      | Some (v, src, path) \<Rightarrow>
          \<lparr> pf_value = Some v, pf_annotation = Some \<lparr> an_value = into v, an_source = src, an_path = path,
              an_clamped_from = None, an_clamped_by = None, an_note = None \<rparr> \<rparr>)"
proof (induction ls rule: rev_induct)
  case Nil
  show ?case by (simp add: applied_def last_set_def)
next
  case (snoc l ls)
  obtain d src path where l: "l = (d, src, path)" by (cases l)
  have step: "applied into sel (ls @ [l]) = field_apply into src path (sel d) (applied into sel ls)"
    by (simp add: applied_def l)
  show ?case
  proof (cases "sel d")
    case None
    then have "last_set sel (ls @ [l]) = last_set sel ls" by (simp add: last_set_def l)
    with None step snoc show ?thesis by (simp add: field_apply_def)
  next
    case (Some v)
    then have "last_set sel (ls @ [l]) = Some (v, src, path)" by (simp add: last_set_def l)
    with Some step show ?thesis by (simp add: field_apply_def)
  qed
qed

text \<open>Merging all layers into one defaults block, lowest first.\<close>

definition merged :: "layer list \<Rightarrow> agent_defaults" where
  "merged ls = foldl merge_over agent_defaults_default (map fst ls)"

lemma merge_block:
  assumes "\<And>x y. sel (f x y) = over_or (sel x) (sel y)"
  shows "in_block (merge_option f b ov) sel = over_or (in_block b sel) (in_block ov sel)"
  by (cases b; cases ov) (simp_all add: merge_option_def in_block_def assms over_or_def split: option.split)

lemma applied_merged:
  assumes "\<And>x y. sel (merge_over x y) = over_or (sel x) (sel y)" and "sel agent_defaults_default = None"
  shows "pf_value (applied into sel ls) = sel (merged ls)"
proof (induction ls rule: rev_induct)
  case (snoc l ls)
  then show ?case
    by (cases l) (auto simp: applied_def merged_def assms field_apply_def over_or_def split: option.split)
qed (simp add: applied_def merged_def field_default_def assms)

lemmas merge_fields = merge_over_def merge_entrypoint_def merge_memory_def merge_snapshot_def merge_environment_def
  merge_permissions_hint_def

text \<open>C38.  The resolver's own walk over the layers computes exactly what merging the layers' defaults with
  \<^verbatim>\<open>AgentDefaults::merge_over\<close> does: for every one of the sixteen parameters, the value after all layers
  is the value of the merged block.\<close>

theorem resolver_walk_is_merge:
  "pf_value (f_model_preference (layer_fields ls)) = in_block (ad_entrypoint (merged ls)) ed_model_preference \<and>
   pf_value (f_min_context_tokens (layer_fields ls)) = in_block (ad_entrypoint (merged ls)) ed_min_context_tokens \<and>
   pf_value (f_max_tool_chain (layer_fields ls)) = in_block (ad_entrypoint (merged ls)) ed_max_tool_chain \<and>
   pf_value (f_episodic_enabled (layer_fields ls)) = in_block (ad_memory (merged ls)) md_episodic_enabled \<and>
   pf_value (f_semantic_enabled (layer_fields ls)) = in_block (ad_memory (merged ls)) md_semantic_enabled \<and>
   pf_value (f_preferences_enabled (layer_fields ls)) = in_block (ad_memory (merged ls)) md_preferences_enabled \<and>
   pf_value (f_auto_inject_at_spawn (layer_fields ls)) = in_block (ad_memory (merged ls)) md_auto_inject_at_spawn \<and>
   pf_value (f_auto_log_on_session_end (layer_fields ls)) = in_block (ad_memory (merged ls)) md_auto_log_on_session_end \<and>
   pf_value (f_snap_enabled (layer_fields ls)) = in_block (ad_snapshot (merged ls)) sd_enabled \<and>
   pf_value (f_snap_interval (layer_fields ls)) = in_block (ad_snapshot (merged ls)) sd_interval \<and>
   pf_value (f_restore_on_crash (layer_fields ls)) = in_block (ad_snapshot (merged ls)) sd_restore_on_crash \<and>
   pf_value (f_temperature (layer_fields ls)) = in_block (ad_environment (merged ls)) vd_temperature \<and>
   pf_value (f_timeout_sec (layer_fields ls)) = in_block (ad_environment (merged ls)) vd_timeout_sec \<and>
   pf_value (f_perm_owner (layer_fields ls)) = in_block (ad_permissions_hint (merged ls)) pd_owner \<and>
   pf_value (f_perm_crew (layer_fields ls)) = in_block (ad_permissions_hint (merged ls)) pd_crew \<and>
   pf_value (f_perm_world (layer_fields ls)) = in_block (ad_permissions_hint (merged ls)) pd_world"
  unfolding layer_fields_applied param_fields.simps
  by (intro conjI; rule applied_merged)
    (simp_all add: merge_fields merge_block agent_defaults_default_def in_block_def [of None])

section \<open>Limits are respected\<close>

text \<open>Bounds a 32-bit parameter can meet: whole numbers in range, in order.\<close>

definition u32_bounds :: "range_constraint \<Rightarrow> bool" where
  "u32_bounds c \<longleftrightarrow> (\<forall>b. rc_min c = Some b \<or> rc_max c = Some b \<longrightarrow> b \<in> range u32_rat) \<and>
     (\<forall>lo hi. rc_min c = Some lo \<longrightarrow> rc_max c = Some hi \<longrightarrow> lo \<le> hi)"

lemma f64_as_u32_exact [simp]: "f64_as_u32 (u32_rat n) = n"
proof -
  have "u32_rat n < 2 ^ 32"
  proof -
    have "unat n < 2 ^ 32" using unsigned_less [of n, where 'a = nat] by simp
    then have "(of_nat (unat n) :: rat) < of_nat (2 ^ 32)" by (rule of_nat_less_iff [THEN iffD2])
    then show ?thesis by (simp add: u32_rat_def)
  qed
  moreover have "\<not> u32_rat n < 0" unfolding u32_rat_def not_less by (rule of_nat_0_le_iff)
  moreover have "\<lfloor>u32_rat n\<rfloor> = int (unat n)" unfolding u32_rat_def by (rule floor_of_nat)
  ultimately show ?thesis by (simp add: f64_as_u32_def not_le [symmetric])
qed

lemma clamp_in_bounds:
  assumes "u32_bounds c"
  shows "\<exists>n. range_clamp c (u32_rat v) = u32_rat n \<and> range_allows c (u32_rat n)"
proof -
  have "range_clamp c (u32_rat v) \<in> range u32_rat"
    using assms by (auto simp: range_clamp_def u32_bounds_def min_def max_def Let_def split: option.splits)
  moreover have "range_allows c (range_clamp c (u32_rat v))"
    using assms by (auto simp: range_clamp_def range_allows_def u32_bounds_def min_def max_def Let_def split: option.splits)
  ultimately show ?thesis by auto
qed

lemma clamp_allowed: "range_allows c x \<Longrightarrow> range_clamp c x = x"
  by (auto simp: range_clamp_def range_allows_def min_def max_def Let_def split: option.splits)

lemma clamp_u32_value:
  assumes "pf_value (clamp_u32 lim path f) = Some w" and "\<forall>c. lim = Some c \<longrightarrow> u32_bounds c"
  shows "opt_allows range_allows lim (u32_rat w) \<and>
    (\<forall>v. pf_value f = Some v \<longrightarrow> opt_allows range_allows lim (u32_rat v) \<longrightarrow> w = v) \<and> pf_value f \<noteq> None"
proof (cases lim)
  case None
  then show ?thesis using assms by (auto simp: clamp_u32_def)
next
  case (Some c)
  then obtain v where v: "pf_value f = Some v" "w = f64_as_u32 (range_clamp c (u32_rat v))"
    using assms(1) by (auto simp: clamp_u32_def Let_def split: option.splits)
  obtain n where n: "range_clamp c (u32_rat v) = u32_rat n" "range_allows c (u32_rat n)"
    using clamp_in_bounds assms(2) Some by blast
  have "range_allows c (u32_rat v) \<Longrightarrow> w = v" using v clamp_allowed [of c "u32_rat v"] by simp
  with n v Some show ?thesis by simp
qed

lemma clamp_frames [simp]:
  "f_model_preference (clamp_entrypoint lim inp fs) = f_model_preference fs"
  "f_timeout_sec (clamp_entrypoint lim inp fs) = f_timeout_sec fs"
  "f_temperature (clamp_entrypoint lim inp fs) = f_temperature fs"
  "f_model_preference (clamp_environment f32 lim inp fs) = f_model_preference fs"
  "f_max_tool_chain (clamp_environment f32 lim inp fs) = f_max_tool_chain fs"
  "f_max_tool_chain (clamp_entrypoint lim inp fs) = clamp_u32 (in_block (al_entrypoint lim) el_max_tool_chain)
     (effective_limits_path_for_entrypoint inp) (f_max_tool_chain fs)"
  "f_timeout_sec (clamp_environment f32 lim inp fs) = clamp_u32 (in_block (al_environment lim) vl_timeout_sec)
     (effective_limits_path_for_environment inp) (f_timeout_sec fs)"
  "f_temperature (clamp_environment f32 lim inp fs) = clamp_f32 f32 (in_block (al_environment lim) vl_temperature)
     (effective_limits_path_for_environment inp) (f_temperature fs)"
  by (simp_all add: clamp_entrypoint_def clamp_environment_def)

lemma clamp_defined [simp]:
  "pf_value (clamp_u32 lim path f) = None \<longleftrightarrow> pf_value f = None"
  "pf_value (clamp_f32 f32 lim path g) = None \<longleftrightarrow> pf_value g = None"
  by (auto simp: clamp_u32_def clamp_f32_def Let_def split: option.splits)

lemma build_resolved_Inr:
  "build_resolved fs = Inr r \<Longrightarrow> pf_value (f_model_preference fs) = Some (rv_model_preference r) \<and>
     pf_value (f_max_tool_chain fs) = Some (rv_max_tool_chain r) \<and> pf_value (f_timeout_sec fs) = Some (rv_timeout_sec r) \<and>
     pf_value (f_temperature fs) = Some (rv_temperature r)"
  by (auto simp: build_resolved_def split: option.splits)

lemma model_violation_iff:
  "model_violation (compute_effective_limits inp) inp fs = None \<longleftrightarrow>
     (\<forall>v. pf_value (f_model_preference fs) = Some v \<longrightarrow> (\<forall>l\<in>set (limit_layers inp). model_ok v l))"
  unfolding effective_limits_allow(4) [symmetric]
  by (auto simp: model_violation_def split: option.splits)

text \<open>The value of a parameter before clamping.\<close>

abbreviation chosen :: "resolver_input \<Rightarrow> ('b \<Rightarrow> 'v option) \<Rightarrow> (agent_defaults \<Rightarrow> 'b option) \<Rightarrow> 'v option" where
  "chosen inp sel block \<equiv> in_block (block (merged (input_layers inp))) sel"

lemma chosen_fields:
  "pf_value (f_model_preference (layer_fields ls)) = in_block (ad_entrypoint (merged ls)) ed_model_preference"
  "pf_value (f_max_tool_chain (layer_fields ls)) = in_block (ad_entrypoint (merged ls)) ed_max_tool_chain"
  "pf_value (f_temperature (layer_fields ls)) = in_block (ad_environment (merged ls)) vd_temperature"
  "pf_value (f_timeout_sec (layer_fields ls)) = in_block (ad_environment (merged ls)) vd_timeout_sec"
  unfolding layer_fields_applied param_fields.simps
  by (rule applied_merged; simp add: merge_fields merge_block agent_defaults_default_def in_block_def [of None])+

text \<open>C37.  A resolved configuration respects every layer of limits, the system's, each crew's and the user's:
  the model is in every enumeration, and the tool-chain length and the time-out are in every range, when the
  intersected ranges are non-empty and have whole-number bounds.  A value that every layer allows is not
  changed.\<close>

theorem resolved_within_limits:
  assumes "resolve_params f32 inp = Inr (r, ann)"
    and "\<forall>c. in_block (al_entrypoint (compute_effective_limits inp)) el_max_tool_chain = Some c \<longrightarrow> u32_bounds c"
    and "\<forall>c. in_block (al_environment (compute_effective_limits inp)) vl_timeout_sec = Some c \<longrightarrow> u32_bounds c"
  shows "(\<forall>l\<in>set (limit_layers inp). model_ok (rv_model_preference r) l \<and> chain_ok (rv_max_tool_chain r) l \<and>
      timeout_ok (rv_timeout_sec r) l) \<and>
    chosen inp ed_model_preference ad_entrypoint = Some (rv_model_preference r) \<and>
    (\<forall>v. chosen inp ed_max_tool_chain ad_entrypoint = Some v \<longrightarrow> (\<forall>l\<in>set (limit_layers inp). chain_ok v l) \<longrightarrow> rv_max_tool_chain r = v) \<and>
    (\<forall>v. chosen inp vd_timeout_sec ad_environment = Some v \<longrightarrow> (\<forall>l\<in>set (limit_layers inp). timeout_ok v l) \<longrightarrow> rv_timeout_sec r = v)"
proof -
  let ?lim = "compute_effective_limits inp" and ?fs = "layer_fields (input_layers inp)"
  let ?gs = "clamp_entrypoint ?lim inp ?fs"
  have nv: "model_violation ?lim inp ?gs = None" and b: "build_resolved (clamp_environment f32 ?lim inp ?gs) = Inr r"
    using assms(1) by (auto simp: resolve_params_def Let_def map_sum_def split: option.splits sum.splits)
  note bi = build_resolved_Inr [OF b]
  have chain: "pf_value (clamp_u32 (in_block (al_entrypoint ?lim) el_max_tool_chain)
      (effective_limits_path_for_entrypoint inp) (f_max_tool_chain ?fs)) = Some (rv_max_tool_chain r)"
    and tmo: "pf_value (clamp_u32 (in_block (al_environment ?lim) vl_timeout_sec)
      (effective_limits_path_for_environment inp) (f_timeout_sec ?fs)) = Some (rv_timeout_sec r)"
    using bi by simp_all
  have "\<forall>l\<in>set (limit_layers inp). model_ok (rv_model_preference r) l" using nv bi by (simp add: model_violation_iff)
  then show ?thesis
    using clamp_u32_value [OF chain assms(2)] clamp_u32_value [OF tmo assms(3)] bi
    by (simp add: effective_limits_allow chosen_fields)
qed

text \<open> Exactly when and how resolution fails: first, with a hard violation that names the value, when a
  limits layer's enumeration excludes the chosen model; otherwise, with the first missing field in the order model,
  tool-chain length, temperature, time-out, when no layer sets it.  Ranges never make it fail.\<close>

theorem resolution_errors:
  "(case resolve_params f32 inp of
      Inl (HardViolation field v allowed by_path) \<Rightarrow>
        chosen inp ed_model_preference ad_entrypoint = Some v \<and> \<not> (\<forall>l\<in>set (limit_layers inp). model_ok v l) \<and> v \<notin> set allowed
    | Inl (MissingRequired field) \<Rightarrow>
        (\<forall>v. chosen inp ed_model_preference ad_entrypoint = Some v \<longrightarrow> (\<forall>l\<in>set (limit_layers inp). model_ok v l)) \<and>
        field = (if chosen inp ed_model_preference ad_entrypoint = None then ''entrypoint.modelPreference''
                 else if chosen inp ed_max_tool_chain ad_entrypoint = None then ''entrypoint.maxToolChain''
                 else if chosen inp vd_temperature ad_environment = None then ''environment.temperature''
                 else ''environment.timeoutSec'') \<and>
        (chosen inp ed_model_preference ad_entrypoint = None \<or> chosen inp ed_max_tool_chain ad_entrypoint = None \<or>
         chosen inp vd_temperature ad_environment = None \<or> chosen inp vd_timeout_sec ad_environment = None)
    | Inr _ \<Rightarrow>
        chosen inp ed_model_preference ad_entrypoint \<noteq> None \<and> chosen inp ed_max_tool_chain ad_entrypoint \<noteq> None \<and>
        chosen inp vd_temperature ad_environment \<noteq> None \<and> chosen inp vd_timeout_sec ad_environment \<noteq> None)"
proof -
  let ?lim = "compute_effective_limits inp" and ?fs = "layer_fields (input_layers inp)"
  let ?gs = "clamp_entrypoint ?lim inp ?fs"
  let ?hs = "clamp_environment f32 ?lim inp ?gs"
  show ?thesis
  proof (cases "model_violation ?lim inp ?gs")
    case (Some e)
    then obtain c v where "in_block (al_entrypoint ?lim) el_model_preference = Some c" "\<not> enum_allows c v"
      "pf_value (f_model_preference ?fs) = Some v"
      "e = HardViolation ''entrypoint.modelPreference'' v (ec_values c) (effective_limits_path_for_entrypoint inp)"
      by (auto simp: model_violation_def split: option.splits if_splits)
    moreover have "\<not> (\<forall>l\<in>set (limit_layers inp). model_ok v l)"
      unfolding effective_limits_allow(4) [symmetric] using calculation by simp
    ultimately show ?thesis using Some
      by (simp add: resolve_params_def Let_def chosen_fields enum_allows_def list_ex_iff)
  next
    case None
    note ok = None [unfolded model_violation_iff]
    define hs where "hs = ?hs"
    have res: "resolve_params f32 inp = map_sum id (\<lambda>r. (r, build_annotations hs)) (build_resolved hs)"
      using None by (simp add: resolve_params_def Let_def hs_def)
    have def: "pf_value (f_model_preference hs) = chosen inp ed_model_preference ad_entrypoint"
      "chosen inp ed_max_tool_chain ad_entrypoint = None \<longleftrightarrow> pf_value (f_max_tool_chain hs) = None"
      "chosen inp vd_temperature ad_environment = None \<longleftrightarrow> pf_value (f_temperature hs) = None"
      "chosen inp vd_timeout_sec ad_environment = None \<longleftrightarrow> pf_value (f_timeout_sec hs) = None"
      by (simp_all add: chosen_fields hs_def)
    have ok': "\<forall>v. pf_value (f_model_preference hs) = Some v \<longrightarrow> (\<forall>l\<in>set (limit_layers inp). model_ok v l)"
      using ok by (simp add: hs_def)
    show ?thesis unfolding res def(2-4) def(1) [symmetric]
      using ok' by (auto simp: build_resolved_def split: option.split)
  qed
qed

text \<open>A bound that is not a whole number is not respected: the clamped value is truncated.\<close>

lemma clamp_truncates:
  "clamp_u32 (Some \<lparr> rc_min = Some (5 / 2), rc_max = None \<rparr>) path \<lparr> pf_value = Some 1, pf_annotation = None \<rparr> =
     \<lparr> pf_value = Some 2, pf_annotation = None \<rparr>"
proof -
  have "\<lfloor>5 / 2 :: rat\<rfloor> = 2" by (rule floor_unique) simp_all
  then show ?thesis by (simp add: clamp_u32_def range_clamp_def f64_as_u32_def annotate_clamp_def u32_rat_def Let_def)
qed

lemma effective_blocks:
  "al_entrypoint (foldl limits_intersect e ls) = foldl (or_both intersect_entrypoint) (al_entrypoint e) (map al_entrypoint ls)"
  "al_environment (foldl limits_intersect e ls) = foldl (or_both intersect_environment) (al_environment e) (map al_environment ls)"
  by (induction ls arbitrary: e) (simp_all add: limits_intersect_def)

text \<open> Limits on memory, snapshots and tools are never enforced: whatever the system's layer says about them, the
  result of the resolution, errors and annotations included, is the same.\<close>

theorem memory_limits_unenforced:
  "resolve_params f32 (inp\<lparr> ri_system_limits := (ri_system_limits inp)\<lparr> al_memory := m, al_snapshot := sn, al_tools := tls \<rparr> \<rparr>) =
     resolve_params f32 inp"
proof -
  let ?inp = "inp\<lparr> ri_system_limits := (ri_system_limits inp)\<lparr> al_memory := m, al_snapshot := sn, al_tools := tls \<rparr> \<rparr>"
  have "al_entrypoint (compute_effective_limits ?inp) = al_entrypoint (compute_effective_limits inp)"
    "al_environment (compute_effective_limits ?inp) = al_environment (compute_effective_limits inp)"
    by (simp_all add: effective_fold effective_blocks limit_layers_def)
  moreover have "effective_limits_path_for_entrypoint ?inp = effective_limits_path_for_entrypoint inp"
    "effective_limits_path_for_environment ?inp = effective_limits_path_for_environment inp"
    by (simp_all add: effective_limits_path_for_entrypoint_def effective_limits_path_for_environment_def effective_limits_path_def
        cong: option.case_cong if_cong)
  ultimately have "model_violation (compute_effective_limits ?inp) ?inp fs = model_violation (compute_effective_limits inp) inp fs"
    "clamp_entrypoint (compute_effective_limits ?inp) ?inp fs = clamp_entrypoint (compute_effective_limits inp) inp fs"
    "clamp_environment f32 (compute_effective_limits ?inp) ?inp fs = clamp_environment f32 (compute_effective_limits inp) inp fs" for fs
    by (simp_all add: model_violation_def clamp_entrypoint_def clamp_environment_def cong: option.case_cong if_cong)
  moreover have "input_layers ?inp = input_layers inp" by (simp add: input_layers_def)
  ultimately show ?thesis by (simp add: resolve_params_def Let_def cong: option.case_cong)
qed

definition demo_params :: resolver_input where
  "demo_params =
     \<lparr> ri_system_defaults = system_agent_defaults id, ri_system_defaults_path = ''sd'', ri_system_limits = system_agent_limits,
       ri_system_limits_path = ''sl'', ri_crew_limits = [], ri_crew_defaults = [], ri_user_defaults = None, ri_user_limits = None,
       ri_manifest = agent_defaults_default\<lparr> ad_entrypoint :=
         Some \<lparr> ed_model_preference = None, ed_min_context_tokens = None, ed_max_tool_chain = Some 900 \<rparr> \<rparr> \<rparr>"

lemma demo_params_resolved:
  "\<exists>r ann. resolve_params id demo_params = Inr (r, ann) \<and> rv_max_tool_chain r = 200 \<and> rv_timeout_sec r = 300"
  by (simp add: demo_params_def resolve_params_def compute_effective_limits_def input_layers_def layer_fields_def
      apply_defaults_def fields_default_def field_default_def field_apply_def in_block_def agent_defaults_default_def
      system_agent_defaults_def system_agent_limits_def clamp_entrypoint_def clamp_environment_def clamp_u32_def clamp_f32_def
      range_clamp_def f64_as_u32_def u32_rat_def annotate_clamp_def model_violation_def build_resolved_def Let_def)

theorem resolved_within_limits_witness:
  "\<exists>r ann. resolve_params id demo_params = Inr (r, ann) \<and> (\<forall>l\<in>set (limit_layers demo_params). chain_ok (rv_max_tool_chain r) l)"
proof -
  obtain r ann where r: "resolve_params id demo_params = Inr (r, ann)" using demo_params_resolved by blast
  have num: "numeral k \<in> range u32_rat" if "u32_rat (numeral k) = numeral k" for k using that by (metis rangeI)
  have "u32_bounds \<lparr> rc_min = Some 1, rc_max = Some 200 \<rparr>" "u32_bounds \<lparr> rc_min = Some 30, rc_max = Some 600 \<rparr>"
    by (auto simp: u32_bounds_def intro!: num image_eqI [of _ u32_rat 1]) (simp_all add: u32_rat_def)
  then have "\<forall>c. in_block (al_entrypoint (compute_effective_limits demo_params)) el_max_tool_chain = Some c \<longrightarrow> u32_bounds c"
    "\<forall>c. in_block (al_environment (compute_effective_limits demo_params)) vl_timeout_sec = Some c \<longrightarrow> u32_bounds c"
    by (simp_all add: compute_effective_limits_def demo_params_def system_agent_limits_def in_block_def)
  from resolved_within_limits [OF r this] r show ?thesis by blast
qed

end
