(* ===== verification/Services.thy ===== *)
theory Services
  imports Records Gateway
begin

text \<open>
  Services: their manifests and durations (\<^verbatim>\<open>service/yaml.rs\<close>), the descriptors of their
  tools (\<^verbatim>\<open>tool_registry/{descriptor,scanner,permissions_store}.rs\<close>), the manager that
  issues tokens and registers endpoints and tools (\<^verbatim>\<open>service/{token,status,process,lifecycle}.rs\<close>),
  its socket interface (\<^verbatim>\<open>service/ipc_server.rs\<close>) and the watchdog that restarts dead
  services (\<^verbatim>\<open>service/watchdog.rs\<close>).

  Directories, the YAML and JSON codecs and child processes are parameters; a fresh UUID is an
  argument of the operation that draws it.

  The lemmas show that a running service was registered by a holder of a token issued to that
  very service, that tokens of earlier incarnations stay valid, that a token gives power over
  every tool of the registry and not only the service's own, and exactly what the
  watchdog does.
\<close>

section \<open>Manifests\<close>

datatype service_source = SourceSystem | SourceCommunity | SourceUser

datatype restart_policy = OnFailure | RestartAlways | RestartNever

datatype run_as = RunAsService | RunAsUser

datatype host_access = HostNetwork | HostFilesystem string | HostSocket string | HostEnv string

record capabilities_section =
  cs_required :: "string list"
  cs_scope :: "string option"
  cs_host_access :: "host_access list"
  cs_caller_scoped :: bool

record tools_section =
  tsx_namespace :: string
  tsx_provides :: "string list"

record jobs_section =
  jbs_max_active :: u32
  jbs_job_timeout :: string
  jbs_persist :: bool

record package_metadata =
  mm_name :: string
  mm_version :: string
  mm_description :: string
  mm_author :: string
  mm_license :: "string option"
  mm_tags :: "string list"
  mm_created_at :: "datetime option"

record packaging_metadata =
  pkm_source :: "string option"
  pkm_signature :: "string option"

record service_spec =
  spc_binary :: string
  spc_language :: string
  spc_restart :: restart_policy
  spc_restart_delay :: string
  spc_max_concurrent :: u32
  spc_queue_max :: u32
  spc_queue_timeout :: string
  spc_run_as :: run_as
  spc_requires :: "string list"
  spc_after :: "string list"
  spc_capabilities :: capabilities_section
  spc_tools :: tools_section
  spc_jobs :: jobs_section

record service_manifest =
  sman_api_version :: string
  sman_kind :: string
  sman_metadata :: package_metadata
  sman_packaging :: packaging_metadata
  sman_spec :: service_spec

record unit_section =
  us_description :: string
  us_author :: string
  us_requires :: "string list"
  us_after :: "string list"

record service_section =
  ssec_binary :: string
  ssec_language :: string
  ssec_restart :: restart_policy
  ssec_restart_delay :: string
  ssec_max_concurrent :: u32
  ssec_queue_max :: u32
  ssec_queue_timeout :: string
  ssec_run_as :: run_as

record service_unit =
  su_name :: string
  su_version :: string
  su_source :: service_source
  su_signature :: "string option"
  su_unit :: unit_section
  su_service :: service_section
  su_capabilities :: capabilities_section
  su_tools :: tools_section
  su_jobs :: jobs_section

definition from_manifest :: "service_manifest \<Rightarrow> service_unit" where
  "from_manifest m =
     (let md = sman_metadata m; sp = sman_spec m in
      \<lparr> su_name = mm_name md, su_version = mm_version md, su_source = SourceSystem,
        su_signature = pkm_signature (sman_packaging m),
        su_unit = \<lparr> us_description = mm_description md, us_author = mm_author md,
                    us_requires = spc_requires sp, us_after = spc_after sp \<rparr>,
        su_service = \<lparr> ssec_binary = spc_binary sp, ssec_language = spc_language sp, ssec_restart = spc_restart sp,
                       ssec_restart_delay = spc_restart_delay sp, ssec_max_concurrent = spc_max_concurrent sp,
                       ssec_queue_max = spc_queue_max sp, ssec_queue_timeout = spc_queue_timeout sp,
                       ssec_run_as = spc_run_as sp \<rparr>,
        su_capabilities = spc_capabilities sp, su_tools = spc_tools sp, su_jobs = spc_jobs sp \<rparr>)"

fun host_access_str :: "host_access \<Rightarrow> string" where
  "host_access_str HostNetwork = ''network''"
| "host_access_str (HostFilesystem p) = ''filesystem:'' @ p"
| "host_access_str (HostSocket p) = ''socket:'' @ p"
| "host_access_str (HostEnv v) = ''env:'' @ v"

definition strip_prefix :: "string \<Rightarrow> string \<Rightarrow> string option" where
  "strip_prefix p s = (if starts_with s p then Some (drop (length p) s) else None)"

definition host_access_parse :: "string \<Rightarrow> string + host_access" where
  "host_access_parse s =
     (if s = ''network'' then Inr HostNetwork
      else (case strip_prefix ''filesystem:'' s of Some p \<Rightarrow> Inr (HostFilesystem p) | None \<Rightarrow>
           (case strip_prefix ''socket:'' s of Some p \<Rightarrow> Inr (HostSocket p) | None \<Rightarrow>
           (case strip_prefix ''env:'' s of Some v \<Rightarrow> Inr (HostEnv v)
            | None \<Rightarrow> Inl (''unknown host_access value: '' @ s)))))"

text \<open>
  A duration in whole seconds.  The product of minutes and 60 is a 64-bit product: it wraps in a
  release build.
\<close>

definition parse_duration :: "string \<Rightarrow> u64 avix_result" where
  "parse_duration s =
     (if s \<noteq> [] \<and> last s = CHR ''s'' then
        (case parse_u64 (butlast s) of
           None \<Rightarrow> Inl (ConfigParse (''invalid duration: '' @ s)) | Some n \<Rightarrow> Inr n)
      else if s \<noteq> [] \<and> last s = CHR ''m'' then
        (case parse_u64 (butlast s) of
           None \<Rightarrow> Inl (ConfigParse (''invalid duration: '' @ s)) | Some n \<Rightarrow> Inr (n * 60))
      else Inl (ConfigParse (''unsupported duration format: '' @ s)))"

section \<open>Tool descriptors on disk\<close>

datatype tool_visibility_spec = VsAll | VsUser string | VsCrew string

record ipc_binding =
  ib_transport :: string
  ib_endpoint :: string
  ib_method :: string

record tool_descriptor =
  td_name :: string
  td_path :: "string option"
  td_owner :: "string option"
  td_permissions :: "tool_permissions option"
  td_description :: string
  td_state :: string
  td_reason :: "string option"
  td_ipc :: "ipc_binding option"
  td_streaming :: bool
  td_job :: bool
  td_job_timeout :: "string option"
  td_capabilities_required :: "string list"
  td_input :: json
  td_output :: json
  td_visibility :: tool_visibility_spec

text \<open>
  What the code reads of the host: whether a path exists, the entries of a directory (each may
  fail), the text of a file, and the codecs.
\<close>

record scan_env =
  sx_exists :: "string \<Rightarrow> bool"
  sx_read_dir :: "string \<Rightarrow> string + (string + string) list"
  sx_is_dir :: "string \<Rightarrow> bool"
  sx_read :: "string \<Rightarrow> string + string"
  sx_descriptor :: "string \<Rightarrow> string + tool_descriptor"
  sx_value :: "tool_descriptor \<Rightarrow> json"
  sx_manifest :: "string \<Rightarrow> string + service_manifest"

definition path_join :: "string \<Rightarrow> string \<Rightarrow> string" where
  "path_join d f = d @ ''/'' @ f"

fun scan_entries :: "scan_env \<Rightarrow> string \<Rightarrow> (string + string) list \<Rightarrow> tool_descriptor list avix_result" where
  "scan_entries env dir [] = Inr []"
| "scan_entries env dir (Inl e # es) = Inl (ConfigParse e)"
| "scan_entries env dir (Inr name # es) =
     (if \<not> ends_with name ''.tool.yaml'' then scan_entries env dir es
      else
        (let path = path_join dir name
         in (case sx_read env path of
               Inl e \<Rightarrow> Inl (ConfigParse (path @ '': '' @ e))
             | Inr content \<Rightarrow>
                 (case sx_descriptor env content of
                    Inl e \<Rightarrow> Inl (ConfigParse (path @ '': '' @ e))
                  | Inr desc \<Rightarrow> map_sum id (\<lambda>ds. desc # ds) (scan_entries env dir es)))))"

definition tool_scan :: "scan_env \<Rightarrow> string \<Rightarrow> tool_descriptor list avix_result" where
  "tool_scan env service_dir =
     (let tools_dir = path_join service_dir ''tools''
      in if \<not> sx_exists env tools_dir then Inr []
         else (case sx_read_dir env tools_dir of
                 Inl e \<Rightarrow> Inl (ConfigParse e)
               | Inr es \<Rightarrow> scan_entries env tools_dir es))"

fun visibility_from_spec :: "tool_visibility_spec \<Rightarrow> tool_visibility" where
  "visibility_from_spec VsAll = VisAll"
| "visibility_from_spec (VsUser u) = VisUser u"
| "visibility_from_spec (VsCrew c) = VisCrew c"

definition state_of_descriptor :: "string \<Rightarrow> tool_state" where
  "state_of_descriptor s =
     (if s = ''available'' then ToolAvailable else if s = ''degraded'' then ToolDegraded else ToolUnavailable)"

definition descriptor_permissions :: "tool_descriptor \<Rightarrow> tool_permissions" where
  "descriptor_permissions d =
     (case td_permissions d of
        Some p \<Rightarrow> p
      | None \<Rightarrow> (case td_owner d of
                   Some o' \<Rightarrow> tool_permissions_default\<lparr> tp_owner := o' \<rparr>
                 | None \<Rightarrow> tool_permissions_default))"

definition descriptor_entry :: "scan_env \<Rightarrow> string \<Rightarrow> tool_descriptor \<Rightarrow> tool_entry option" where
  "descriptor_entry env service d =
     (case tool_name_parse (td_name d) of
        Inl _ \<Rightarrow> None
      | Inr name \<Rightarrow>
          Some (with_permissions (descriptor_permissions d)
                 (with_capabilities (td_capabilities_required d)
                   (tool_entry_new name service (state_of_descriptor (td_state d))
                      (visibility_from_spec (td_visibility d)) (sx_value env d)))))"

definition scan_as_entries :: "scan_env \<Rightarrow> string \<Rightarrow> string \<Rightarrow> tool_entry list avix_result" where
  "scan_as_entries env service service_dir =
     map_sum id (List.map_filter (descriptor_entry env service)) (tool_scan env service_dir)"

section \<open>Stored permissions\<close>

definition tool_perms_table :: string where
  "tool_perms_table = ''tool_permissions''"

text \<open>The store maps every failure, of the database or the codec, to the same error class.\<close>

definition tps_get :: "'d redb \<Rightarrow> tool_permissions codec \<Rightarrow> string \<Rightarrow> 'd \<Rightarrow> tool_permissions option avix_result" where
  "tps_get db c tool d =
     (case rd_get db d tool_perms_table tool of
        Inl e \<Rightarrow> Inl (ConfigParse e)
      | Inr None \<Rightarrow> Inr None
      | Inr (Some v) \<Rightarrow>
          (case dec c v of Inl e \<Rightarrow> Inl (ConfigParse (''failed to parse permissions: '' @ e)) | Inr p \<Rightarrow> Inr (Some p)))"

definition tps_set ::
  "'d redb \<Rightarrow> tool_permissions codec \<Rightarrow> string \<Rightarrow> tool_permissions \<Rightarrow> 'd \<Rightarrow> unit avix_result \<times> 'd" where
  "tps_set db c tool perms d =
     (case enc c perms of
        Inl e \<Rightarrow> (Inl (ConfigParse (''failed to serialize permissions: '' @ e)), d)
      | Inr yaml \<Rightarrow>
          (case rd_insert db d tool_perms_table tool yaml of Inl e \<Rightarrow> (Inl (ConfigParse e), d) | Inr d' \<Rightarrow> (Inr (), d')))"

definition tps_delete :: "'d redb \<Rightarrow> string \<Rightarrow> 'd \<Rightarrow> unit avix_result \<times> 'd" where
  "tps_delete db tool d = tbl_remove db tool_perms_table tool d"

section \<open>The manager\<close>

record service_token =
  stk_token_str :: string
  stk_service_name :: string
  stk_pid :: pid

datatype service_state = SvcStarting | SvcRunning | SvcDegraded | SvcStopping | SvcStopped | SvcFailed

record service_status =
  sst_name :: string
  sst_version :: string
  sst_pid :: pid
  sst_state :: service_state
  sst_endpoint :: "string option"
  sst_started_at :: "datetime option"
  sst_registered_at :: "datetime option"
  sst_stopped_at :: "datetime option"
  sst_restart_count :: u32
  sst_tools :: "string list"

definition service_status_path :: "string \<Rightarrow> string" where
  "service_status_path name = ''/proc/services/'' @ name @ ''/status.yaml''"

record service_event =
  sve_service :: string
  sve_status :: string

record service_spawn_request =
  ssr_name :: string
  ssr_binary :: string
  ssr_caller_scoped :: bool
  ssr_max_concurrent :: u32

definition spawn_request_simple :: "string \<Rightarrow> string \<Rightarrow> service_spawn_request" where
  "spawn_request_simple name binary =
     \<lparr> ssr_name = name, ssr_binary = binary, ssr_caller_scoped = False, ssr_max_concurrent = 20 \<rparr>"

definition spawn_request_from_unit :: "service_unit \<Rightarrow> service_spawn_request" where
  "spawn_request_from_unit u =
     \<lparr> ssr_name = su_name u, ssr_binary = ssec_binary (su_service u),
       ssr_caller_scoped = cs_caller_scoped (su_capabilities u), ssr_max_concurrent = ssec_max_concurrent (su_service u) \<rparr>"

record ipc_register_request =
  irq_token :: string
  irq_name :: string
  irq_endpoint :: string
  irq_tools :: "string list"

record ipc_tool_spec =
  its_name :: string
  its_descriptor :: json
  its_visibility :: tool_visibility_spec

record ipc_tool_add_params =
  ita_token :: string
  ita_tools :: "ipc_tool_spec list"

record ipc_tool_remove_params =
  itr_token :: string
  itr_tools :: "string list"
  itr_reason :: string
  itr_drain :: bool

record service_record =
  svr_token :: service_token
  svr_endpoint :: "string option"
  svr_registered_at :: "datetime option"
  svr_caller_scoped :: bool

record service_manager =
  svm_services :: "(string, service_record) hmap"
  svm_tokens :: "(string, string) hmap"
  svm_pid_counter :: u32
  svm_tools :: "tool_registry option"
  svm_runtime_dir :: string
  svm_events :: "service_event list"

definition svm_new_for_test :: "string \<Rightarrow> service_manager" where
  "svm_new_for_test dir =
     \<lparr> svm_services = [], svm_tokens = [], svm_pid_counter = 10, svm_tools = None, svm_runtime_dir = dir, svm_events = [] \<rparr>"

definition svm_new_with_registry :: "string \<Rightarrow> service_manager" where
  "svm_new_with_registry dir = (svm_new_for_test dir)\<lparr> svm_tools := Some tr_new \<rparr>"

definition svm_send :: "string \<Rightarrow> string \<Rightarrow> service_manager \<Rightarrow> service_manager" where
  "svm_send service status m = m\<lparr> svm_events := svm_events m @ [\<lparr> sve_service = service, sve_status = status \<rparr>] \<rparr>"

definition spawn_and_get_token ::
  "string \<Rightarrow> service_spawn_request \<Rightarrow> service_manager \<Rightarrow> service_token \<times> service_manager" where
  "spawn_and_get_token uuid req m =
     (let tok = \<lparr> stk_token_str = ''svc-token-'' @ uuid, stk_service_name = ssr_name req,
                  stk_pid = Pid (ucast (svm_pid_counter m)) \<rparr>;
          rec = \<lparr> svr_token = tok, svr_endpoint = None, svr_registered_at = None,
                  svr_caller_scoped = ssr_caller_scoped req \<rparr>
      in (tok, svm_send (ssr_name req) ''starting''
                 (m\<lparr> svm_pid_counter := svm_pid_counter m + 1,
                     svm_services := hm_insert (ssr_name req) rec (svm_services m),
                     svm_tokens := hm_insert (stk_token_str tok) (ssr_name req) (svm_tokens m) \<rparr>)))"

definition svm_is_caller_scoped :: "string \<Rightarrow> service_manager \<Rightarrow> bool" where
  "svm_is_caller_scoped name m = unwrap_or False (map_option svr_caller_scoped (hm_get (svm_services m) name))"

definition validate_token :: "string \<Rightarrow> service_manager \<Rightarrow> string avix_result" where
  "validate_token t m = ok_or (CapabilityDenied ''invalid service token'') (hm_get (svm_tokens m) t)"

definition service_dir_of :: "string \<Rightarrow> string \<Rightarrow> string" where
  "service_dir_of root name = path_join (path_join (path_join root ''data'') ''services'') name"

definition svm_add_tools :: "tool_entry list \<Rightarrow> service_manager \<Rightarrow> service_manager" where
  "svm_add_tools es m = m\<lparr> svm_tools := map_option (tr_add es) (svm_tools m) \<rparr>"

definition handle_ipc_register ::
  "scan_env \<Rightarrow> datetime \<Rightarrow> ipc_register_request \<Rightarrow> string \<Rightarrow> service_manager \<Rightarrow> (bool \<times> pid) avix_result \<times> service_manager" where
  "handle_ipc_register env now req root m =
     (case validate_token (irq_token req) m of
        Inl e \<Rightarrow> (Inl e, m)
      | Inr svc \<Rightarrow>
          if svc \<noteq> irq_name req then (Inl (CapabilityDenied ''token/name mismatch''), m)
          else
            (case hm_get (svm_services m) svc of
               None \<Rightarrow> (Inl (ConfigParse ''service not found''), m)
             | Some rec \<Rightarrow>
                 (let m1 = m\<lparr> svm_services := hm_insert svc
                               (rec\<lparr> svr_endpoint := Some (irq_endpoint req), svr_registered_at := Some now \<rparr>)
                               (svm_services m) \<rparr>
                  in (case scan_as_entries env svc (service_dir_of root svc) of
                        Inl e \<Rightarrow> (Inl e, m1)
                      | Inr entries \<Rightarrow>
                          (Inr (True, stk_pid (svr_token rec)),
                           svm_send svc ''running'' (svm_add_tools entries m1))))))"

definition service_env :: "string \<Rightarrow> service_manager \<Rightarrow> (string \<times> string) list avix_result" where
  "service_env name m =
     (case hm_get (svm_services m) name of
        None \<Rightarrow> Inl (ConfigParse (''service not found: '' @ name))
      | Some rec \<Rightarrow>
          (let dir = svm_runtime_dir m
           in Inr [(''AVIX_KERNEL_SOCK'', dir @ ''/kernel.sock''), (''AVIX_ROUTER_SOCK'', dir @ ''/router.sock''),
                   (''AVIX_SVC_SOCK'', dir @ ''/services/'' @ name @ ''-'' @ show_word (pid_u64 (stk_pid (svr_token rec))) @ ''.sock''),
                   (''AVIX_SVC_TOKEN'', stk_token_str (svr_token rec))]))"

fun discover_entries :: "scan_env \<Rightarrow> string \<Rightarrow> (string + string) list \<Rightarrow> service_unit list avix_result" where
  "discover_entries env dir [] = Inr []"
| "discover_entries env dir (Inl e # es) = Inl (ConfigParse e)"
| "discover_entries env dir (Inr name # es) =
     (let path = path_join (path_join dir name) ''manifest.yaml''
      in if \<not> sx_exists env path then discover_entries env dir es
         else (case sx_read env path of
                 Inl e \<Rightarrow> Inl (ConfigParse (''cannot read '' @ path @ '': '' @ e))
               | Inr content \<Rightarrow>
                   (case sx_manifest env content of
                      Inl e \<Rightarrow> Inl (ConfigParse (''manifest.yaml parse error: '' @ e))
                    | Inr man \<Rightarrow> map_sum id (\<lambda>us. from_manifest man # us) (discover_entries env dir es))))"

definition discover_installed :: "scan_env \<Rightarrow> string \<Rightarrow> service_unit list avix_result" where
  "discover_installed env root =
     (let dir = path_join root ''services''
      in if \<not> sx_exists env dir then Inr []
         else (case sx_read_dir env dir of Inl e \<Rightarrow> Inl (ConfigParse e) | Inr es \<Rightarrow> discover_entries env dir es))"

definition service_unit_load :: "scan_env \<Rightarrow> string \<Rightarrow> service_unit avix_result" where
  "service_unit_load env path =
     (case sx_read env path of
        Inl e \<Rightarrow> Inl (ConfigParse (''cannot read '' @ path @ '': '' @ e))
      | Inr content \<Rightarrow>
          (case sx_manifest env content of
             Inl e \<Rightarrow> Inl (ConfigParse (''manifest.yaml parse error: '' @ e))
           | Inr man \<Rightarrow> Inr (from_manifest man)))"

text \<open>The first directory whose name is the service's name followed by an at sign.\<close>

definition load_for_service :: "scan_env \<Rightarrow> string \<Rightarrow> string \<Rightarrow> service_unit avix_result" where
  "load_for_service env root name =
     (let dir = path_join (path_join root ''data'') ''services'';
          names = (case sx_read_dir env dir of Inl _ \<Rightarrow> [] | Inr es \<Rightarrow> List.map_filter (\<lambda>e. case e of Inl _ \<Rightarrow> None | Inr n \<Rightarrow> Some n) es)
      in (case find (\<lambda>n. sx_is_dir env (path_join dir n) \<and> starts_with n (name @ ''@'')) names of
            None \<Rightarrow> Inl (ConfigParse (''service not found: '' @ name))
          | Some n \<Rightarrow> service_unit_load env (path_join (path_join dir n) ''manifest.yaml'')))"

definition respawn_token :: "string \<Rightarrow> string \<Rightarrow> service_manager \<Rightarrow> service_token \<times> service_manager" where
  "respawn_token uuid name m =
     spawn_and_get_token uuid
       \<lparr> ssr_name = name, ssr_binary = [], ssr_caller_scoped = svm_is_caller_scoped name m, ssr_max_concurrent = 20 \<rparr>
       (svm_send name ''restarting'' m)"

definition tool_spec_entry :: "string \<Rightarrow> ipc_tool_spec \<Rightarrow> tool_entry option" where
  "tool_spec_entry svc spec =
     (let caps = (case json_get (its_descriptor spec) ''capabilities_required'' of
                    Some (JArr vs) \<Rightarrow> List.map_filter as_str vs | _ \<Rightarrow> [])
      in (case tool_name_parse (its_name spec) of
            Inl _ \<Rightarrow> None
          | Inr name \<Rightarrow>
              Some (with_capabilities caps
                (tool_entry_new name svc ToolAvailable (visibility_from_spec (its_visibility spec)) (its_descriptor spec)))))"

definition handle_tool_add :: "ipc_tool_add_params \<Rightarrow> service_manager \<Rightarrow> unit avix_result \<times> service_manager" where
  "handle_tool_add params m =
     (case validate_token (ita_token params) m of
        Inl e \<Rightarrow> (Inl e, m)
      | Inr svc \<Rightarrow> (Inr (), svm_add_tools (List.map_filter (tool_spec_entry svc) (ita_tools params)) m))"

text \<open>\<open>None\<close> when draining waits for a call that does not return.\<close>

definition handle_tool_remove ::
  "ipc_tool_remove_params \<Rightarrow> service_manager \<Rightarrow> (unit avix_result \<times> service_manager) option" where
  "handle_tool_remove params m =
     (case validate_token (itr_token params) m of
        Inl e \<Rightarrow> Some (Inl e, m)
      | Inr svc \<Rightarrow>
          (case svm_tools m of
             None \<Rightarrow> Some (Inr (), m)
           | Some reg \<Rightarrow>
               map_option (\<lambda>reg'. (Inr (), m\<lparr> svm_tools := Some reg' \<rparr>))
                 (tr_remove (itr_tools params) (itr_reason params) (itr_drain params) reg)))"

record service_summary =
  svs_name :: string
  svs_pid :: u64
  svs_status :: string
  svs_registered_at :: "datetime option"

definition list_running :: "service_manager \<Rightarrow> service_summary list" where
  "list_running m =
     map (\<lambda>(name, rec). \<lparr> svs_name = name, svs_pid = pid_u64 (stk_pid (svr_token rec)),
                          svs_status = (if svr_endpoint rec \<noteq> None then ''running'' else ''starting''),
                          svs_registered_at = svr_registered_at rec \<rparr>) (svm_services m)"

section \<open>The socket interface\<close>

record service_params_codec =
  spx_add :: "json \<Rightarrow> string + ipc_tool_add_params"
  spx_remove :: "json \<Rightarrow> string + ipc_tool_remove_params"

definition json_strings :: "json \<Rightarrow> string list" where
  "json_strings v = (case v of JArr vs \<Rightarrow> List.map_filter as_str vs | _ \<Rightarrow> [])"

definition service_dispatch ::
  "scan_env \<Rightarrow> service_params_codec \<Rightarrow> datetime \<Rightarrow> string \<Rightarrow> string \<Rightarrow> string \<Rightarrow> json \<Rightarrow> service_manager \<Rightarrow>
   (json_rpc_response \<times> service_manager) option" where
  "service_dispatch env px now root i method params m =
     (if method = ''ipc.register'' then
        (case as_str (json_index params ''_token'') of
           None \<Rightarrow> Some (response_err i (- 32602) ''missing _token'' None, m)
         | Some tok \<Rightarrow>
             (case as_str (json_index params ''name'') of
                None \<Rightarrow> Some (response_err i (- 32602) ''missing name'' None, m)
              | Some name \<Rightarrow>
                  (case handle_ipc_register env now
                          \<lparr> irq_token = tok, irq_name = name,
                            irq_endpoint = unwrap_or [] (as_str (json_index params ''endpoint'')),
                            irq_tools = json_strings (json_index params ''tools'') \<rparr> root m of
                     (Inr (registered, p), m') \<Rightarrow>
                       Some (response_ok i (JObj [(''registered'', JBool registered), (''pid'', JNum (uint (pid_u64 p)))]), m')
                   | (Inl e, m') \<Rightarrow> Some (response_err i (- 32001) (error_display e) None, m'))))
      else if method = ''ipc.tool-add'' then
        (case spx_add px params of
           Inl e \<Rightarrow> Some (response_err i (- 32602) (''invalid params: '' @ e) None, m)
         | Inr p \<Rightarrow>
             (case handle_tool_add p m of
                (Inr _, m') \<Rightarrow> Some (response_ok i (JObj [(''added'', JBool True)]), m')
              | (Inl e, m') \<Rightarrow> Some (response_err i (- 32001) (error_display e) None, m')))
      else if method = ''ipc.tool-remove'' then
        (case spx_remove px params of
           Inl e \<Rightarrow> Some (response_err i (- 32602) (''invalid params: '' @ e) None, m)
         | Inr p \<Rightarrow>
             map_option (\<lambda>(res, m').
               (case res of
                  Inr _ \<Rightarrow> response_ok i (JObj [(''removed'', JBool True)])
                | Inl e \<Rightarrow> response_err i (- 32001) (error_display e) None, m')) (handle_tool_remove p m))
      else Some (response_err i (- 32601) (''unknown service IPC method: '' @ method) None, m))"

definition service_handle_message ::
  "scan_env \<Rightarrow> service_params_codec \<Rightarrow> datetime \<Rightarrow> string \<Rightarrow> ipc_message \<Rightarrow> service_manager \<Rightarrow>
   (json_rpc_response option \<times> service_manager) option" where
  "service_handle_message env px now root msg m =
     (case msg of
        IpcRequest req \<Rightarrow>
          map_option (\<lambda>(resp, m'). (Some resp, m'))
            (service_dispatch env px now root (jr_id req) (jr_method req) (jr_params req) m)
      | IpcNotification _ \<Rightarrow> Some (None, m))"

section \<open>Processes and the watchdog\<close>

text \<open>A child process is the number the launcher gave it.\<close>

record service_process =
  spr_name :: string
  spr_pid :: pid
  spr_child :: nat
  spr_socket_path :: string

definition socket_path_for :: "string \<Rightarrow> string \<Rightarrow> pid \<Rightarrow> string" where
  "socket_path_for run_dir name p = path_join run_dir (name @ ''-'' @ show_word (pid_u64 p) @ ''.sock'')"

definition build_env :: "service_token \<Rightarrow> string \<Rightarrow> string \<Rightarrow> string \<Rightarrow> (string \<times> string) list" where
  "build_env tok kernel_sock router_sock svc_sock =
     [(''AVIX_KERNEL_SOCK'', kernel_sock), (''AVIX_ROUTER_SOCK'', router_sock),
      (''AVIX_SVC_SOCK'', svc_sock), (''AVIX_SVC_TOKEN'', stk_token_str tok)]"

record launcher =
  ln_spawn :: "string \<Rightarrow> (string \<times> string) list \<Rightarrow> string + nat"
  ln_alive :: "nat \<Rightarrow> bool"

record socket_paths =
  skp_kernel :: string
  skp_router :: string
  skp_run_dir :: string

definition service_process_spawn ::
  "launcher \<Rightarrow> socket_paths \<Rightarrow> service_unit \<Rightarrow> service_token \<Rightarrow> service_process avix_result" where
  "service_process_spawn ln ps u tok =
     (let sock = socket_path_for (skp_run_dir ps) (su_name u) (stk_pid tok);
          binary = ssec_binary (su_service u)
      in (case ln_spawn ln binary (build_env tok (skp_kernel ps) (skp_router ps) sock) of
            Inl e \<Rightarrow> Inl (ConfigParse (''failed to spawn '' @ binary @ '': '' @ e))
          | Inr child \<Rightarrow>
              Inr \<lparr> spr_name = su_name u, spr_pid = stk_pid tok, spr_child = child, spr_socket_path = sock \<rparr>))"

record watchdog_entry =
  we_unit :: service_unit
  we_process :: service_process
  we_restart_count :: u32

type_synonym watchdog = "(string, watchdog_entry) hmap"

definition wd_register :: "service_unit \<Rightarrow> service_process \<Rightarrow> watchdog \<Rightarrow> watchdog" where
  "wd_register u p w = hm_insert (su_name u) \<lparr> we_unit = u, we_process = p, we_restart_count = 0 \<rparr> w"

definition wd_restart_count :: "string \<Rightarrow> watchdog \<Rightarrow> u32" where
  "wd_restart_count name w = unwrap_or 0 (map_option we_restart_count (hm_get w name))"

definition should_restart :: "restart_policy \<Rightarrow> bool" where
  "should_restart p = (case p of RestartAlways \<Rightarrow> True | OnFailure \<Rightarrow> True | RestartNever \<Rightarrow> False)"

text \<open>One service of a round: \<open>uuid\<close> is the identifier drawn for its fresh token.\<close>

definition restart_one ::
  "launcher \<Rightarrow> socket_paths \<Rightarrow> string \<Rightarrow> string \<Rightarrow> watchdog \<times> service_manager \<Rightarrow> watchdog \<times> service_manager" where
  "restart_one ln ps uuid name st =
     (case st of (w, m) \<Rightarrow>
       (case hm_get w name of
          None \<Rightarrow> (w, m)
        | Some entry \<Rightarrow>
            if ln_alive ln (spr_child (we_process entry)) then (w, m)
            else if \<not> should_restart (ssec_restart (su_service (we_unit entry))) then (w, m)
            else
              (case respawn_token uuid (su_name (we_unit entry)) m of
                 (tok, m1) \<Rightarrow>
                   (case service_process_spawn ln ps (we_unit entry) tok of
                      Inl _ \<Rightarrow> (w, m1)
                    | Inr p \<Rightarrow>
                        (hm_insert name (entry\<lparr> we_process := p, we_restart_count := we_restart_count entry + 1 \<rparr>) w, m1)))))"

definition check_and_restart ::
  "launcher \<Rightarrow> socket_paths \<Rightarrow> (string \<Rightarrow> string) \<Rightarrow> watchdog \<Rightarrow> service_manager \<Rightarrow> watchdog \<times> service_manager" where
  "check_and_restart ln ps uuid w m = fold (\<lambda>name. restart_one ln ps (uuid name) name) (hm_keys w) (w, m)"

section \<open>Runs of the manager\<close>

datatype svm_op =
  SvSpawn string service_spawn_request
| SvRespawn string string
| SvRegister datetime ipc_register_request string
| SvToolAdd ipc_tool_add_params
| SvToolRemove ipc_tool_remove_params

fun svm_step :: "scan_env \<Rightarrow> service_manager \<Rightarrow> svm_op \<Rightarrow> service_manager" where
  "svm_step env m (SvSpawn uuid req) = snd (spawn_and_get_token uuid req m)"
| "svm_step env m (SvRespawn uuid name) = snd (respawn_token uuid name m)"
| "svm_step env m (SvRegister now req root) = snd (handle_ipc_register env now req root m)"
| "svm_step env m (SvToolAdd p) = snd (handle_tool_add p m)"
| "svm_step env m (SvToolRemove p) = (case handle_tool_remove p m of None \<Rightarrow> m | Some (_, m') \<Rightarrow> m')"

text \<open>The token an operation issues, and for which service.\<close>

fun issues :: "svm_op \<Rightarrow> (string \<times> string) option" where
  "issues (SvSpawn uuid req) = Some (''svc-token-'' @ uuid, ssr_name req)"
| "issues (SvRespawn uuid name) = Some (''svc-token-'' @ uuid, name)"
| "issues _ = None"

definition issued :: "svm_op list \<Rightarrow> (string \<times> string) list" where
  "issued ops = List.map_filter issues ops"

text \<open>
  The last start of service \<open>n\<close> was followed by a registration of \<open>n\<close> with endpoint \<open>ep\<close>, made with a
  token issued to \<open>n\<close> before.
\<close>

definition registered_as :: "svm_op list \<Rightarrow> string \<Rightarrow> string \<Rightarrow> bool" where
  "registered_as ops n ep \<longleftrightarrow>
     (\<exists>a b now req root. ops = a @ SvRegister now req root # b \<and> irq_name req = n \<and> irq_endpoint req = ep \<and>
        (irq_token req, n) \<in> set (issued a) \<and> (\<forall>op\<in>set b. n \<notin> snd ` set_option (issues op)))"

lemma issued_simps [simp]:
  "issued [] = []" "issued (ops @ ops') = issued ops @ issued ops'"
  "issued (op # ops) = (case issues op of None \<Rightarrow> issued ops | Some x \<Rightarrow> x # issued ops)"
  by (auto simp: issued_def map_filter_def split: option.splits)

lemma svm_send_simps [simp]:
  "svm_services (svm_send s t m) = svm_services m" "svm_tokens (svm_send s t m) = svm_tokens m"
  "svm_tools (svm_send s t m) = svm_tools m"
  by (simp_all add: svm_send_def)

lemma svm_add_tools_simps [simp]:
  "svm_services (svm_add_tools es m) = svm_services m" "svm_tokens (svm_add_tools es m) = svm_tokens m"
  by (simp_all add: svm_add_tools_def)

text \<open>An operation that issues no token leaves the tokens alone; one that does adds its own.\<close>

lemma svm_step_tokens:
  "svm_tokens (svm_step env m op) =
     (case issues op of None \<Rightarrow> svm_tokens m | Some (t, n) \<Rightarrow> hm_insert t n (svm_tokens m))"
  by (cases op)
     (auto simp: spawn_and_get_token_def respawn_token_def handle_ipc_register_def handle_tool_add_def
        handle_tool_remove_def Let_def split: sum.splits option.splits if_splits)

lemma svm_step_services:
  "hm_get (svm_services (svm_step env m op)) n = Some rec \<Longrightarrow> svr_endpoint rec = Some ep \<Longrightarrow>
     (\<exists>now req root. op = SvRegister now req root \<and> irq_name req = n \<and> irq_endpoint req = ep \<and>
        hm_get (svm_tokens m) (irq_token req) = Some n) \<or>
     (n \<notin> snd ` set_option (issues op) \<and> hm_get (svm_services m) n = Some rec)"
  by (cases op)
     (auto simp: spawn_and_get_token_def respawn_token_def handle_ipc_register_def handle_tool_add_def validate_token_def
        handle_tool_remove_def Let_def split: sum.splits option.splits if_splits)

lemma svm_step_wf: "hm_wf (svm_services m) \<Longrightarrow> hm_wf (svm_services (svm_step env m op))"
  by (cases op)
     (auto simp: spawn_and_get_token_def respawn_token_def handle_ipc_register_def handle_tool_add_def
        handle_tool_remove_def Let_def split: sum.splits option.splits if_splits)

interpretation svm: event_machine "svm_step env" "\<lambda>m. hm_wf (svm_services m)" for env
  by unfold_locales (rule svm_step_wf)

lemma run_events_snoc [simp]: "run_events step s (xs @ [x]) = step (run_events step s xs) x"
  by (simp add: run_events_append)

lemma svm_run_tokens: "hm_get (svm_tokens (run_events (svm_step env) m ops)) t = Some n \<Longrightarrow>
    (t, n) \<in> set (issued ops) \<or> hm_get (svm_tokens m) t = Some n"
proof (induction ops rule: rev_induct)
  case (snoc op ops)
  then show ?case by (auto simp: svm_step_tokens split: option.splits if_splits)
qed simp

lemma registered_as_snoc:
  "registered_as ops n ep \<Longrightarrow> n \<notin> snd ` set_option (issues op) \<Longrightarrow> registered_as (ops @ [op]) n ep"
  unfolding registered_as_def
  by (elim exE conjE, rule_tac x = a in exI, rule_tac x = "b @ [op]" in exI) auto

lemma svm_run_endpoint:
  assumes "svm_tokens m = []" and "svm_services m = []"
  shows "hm_get (svm_services (run_events (svm_step env) m ops)) n = Some rec \<Longrightarrow> svr_endpoint rec = Some ep \<Longrightarrow>
     registered_as ops n ep"
proof (induction ops arbitrary: rec rule: rev_induct)
  case Nil
  then show ?case using assms by simp
next
  case (snoc op ops)
  let ?m = "run_events (svm_step env) m ops"
  from snoc.prems svm_step_services [of env ?m op n rec ep]
  consider (new) now req root where "op = SvRegister now req root" "irq_name req = n" "irq_endpoint req = ep"
      "hm_get (svm_tokens ?m) (irq_token req) = Some n"
    | (old) "n \<notin> snd ` set_option (issues op)" "hm_get (svm_services ?m) n = Some rec" by auto
  then show ?case
  proof cases
    case new
    then have "(irq_token req, n) \<in> set (issued ops)" using svm_run_tokens assms by fastforce
    with new show ?thesis unfolding registered_as_def by (intro exI [of _ ops] exI [of _ "[]"]) auto
  next
    case old
    then show ?thesis using snoc by (simp add: registered_as_snoc)
  qed
qed

text \<open>
  C8.  A service shown as running is authentic: whenever the manager lists a service as running, in any run of
  spawns, restarts, registrations and tool changes, a registration of that very service was made since its last
  start, with a token that had been issued to it.
\<close>

theorem running_service_authentic:
  assumes "s \<in> set (list_running (run_events (svm_step env) (svm_new_with_registry dir) ops))"
    and "svs_status s = ''running''"
  shows "\<exists>ep. registered_as ops (svs_name s) ep"
proof -
  let ?m = "run_events (svm_step env) (svm_new_with_registry dir) ops"
  have "hm_wf (svm_services ?m)"
    by (rule svm.inv_run) (simp add: svm_new_with_registry_def svm_new_for_test_def)
  moreover from assms obtain rec ep where "(svs_name s, rec) \<in> set (svm_services ?m)" "svr_endpoint rec = Some ep"
    by (auto simp: list_running_def split: if_splits)
  ultimately have "hm_get (svm_services ?m) (svs_name s) = Some rec" by (simp add: hm_wf_def)
  moreover have "svm_tokens (svm_new_with_registry dir) = []" "svm_services (svm_new_with_registry dir) = []"
    by (simp_all add: svm_new_with_registry_def svm_new_for_test_def)
  ultimately show ?thesis using svm_run_endpoint \<open>svr_endpoint rec = Some ep\<close> by blast
qed

text \<open>
   Service tokens are never revoked: when the identifiers drawn in a run are distinct, the manager accepts a token for a
  service exactly when some spawn or restart of the run issued it for that service, however often the service has been
  restarted since.
\<close>

theorem service_tokens_exact:
  assumes "distinct (map fst (issued ops))"
  shows "validate_token t (run_events (svm_step env) (svm_new_with_registry dir) ops) = Inr n \<longleftrightarrow>
     (t, n) \<in> set (issued ops)"
proof -
  let ?m = "svm_new_with_registry dir"
  have "hm_get (svm_tokens (run_events (svm_step env) ?m ops)) t = Some n" if "(t, n) \<in> set (issued ops)"
    using assms that
  proof (induction ops rule: rev_induct)
    case (snoc op ops)
    then show ?case by (auto simp: svm_step_tokens image_iff split: option.splits if_splits)
  qed simp
  moreover have "hm_get (svm_tokens ?m) t = None" by (simp add: svm_new_with_registry_def svm_new_for_test_def)
  ultimately show ?thesis using svm_run_tokens [of env ?m ops t n] by (auto simp: validate_token_def)
qed

lemma tool_spec_entry_Some:
  "tool_spec_entry svc spec = Some e \<Longrightarrow> te_owner e = svc \<and> tool_str (te_name e) = its_name spec"
  by (auto simp: tool_spec_entry_def Let_def with_capabilities_def tool_entry_new_def tool_name_parse_Inr_iff
      split: sum.splits)

text \<open>
   The token is all that protects the registry: without a valid token a service can neither add nor remove a tool; with any
  valid token it becomes the owner of every well-named tool it adds and removes every tool it names, whoever owned
  them before, the kernel included.
\<close>

theorem tool_authority:
  assumes reg: "svm_tools m = Some reg"
  shows "case validate_token tok m of
      Inl e \<Rightarrow> handle_tool_add \<lparr> ita_token = tok, ita_tools = specs \<rparr> m = (Inl e, m) \<and>
        handle_tool_remove \<lparr> itr_token = tok, itr_tools = ns, itr_reason = why, itr_drain = drain \<rparr> m = Some (Inl e, m)
    | Inr svc \<Rightarrow>
        (\<exists>reg'. svm_tools (snd (handle_tool_add \<lparr> ita_token = tok, ita_tools = specs \<rparr> m)) = Some reg' \<and>
           (\<forall>spec\<in>set specs. is_err (tool_name_parse (its_name spec)) \<or>
              (\<exists>entry. tr_lookup reg' (its_name spec) = Inr entry \<and> te_owner entry = svc))) \<and>
        (\<forall>res m'. handle_tool_remove \<lparr> itr_token = tok, itr_tools = ns, itr_reason = why, itr_drain = drain \<rparr> m = Some (res, m') \<longrightarrow>
           (\<exists>reg'. svm_tools m' = Some reg' \<and> (\<forall>n\<in>set ns. is_err (tr_lookup reg' n))))"
proof (cases "validate_token tok m")
  case (Inl e)
  then show ?thesis by (simp add: handle_tool_add_def handle_tool_remove_def)
next
  case (Inr svc)
  let ?es = "List.map_filter (tool_spec_entry svc) specs"
  have "\<exists>entry. tr_lookup (tr_add ?es reg) (its_name spec) = Inr entry \<and> te_owner entry = svc"
    if "spec \<in> set specs" "\<not> is_err (tool_name_parse (its_name spec))" for spec
  proof -
    from that(2) obtain e0 where "tool_spec_entry svc spec = Some e0"
      by (cases "tool_name_parse (its_name spec)") (auto simp: tool_spec_entry_def Let_def)
    with that(1) have "e0 \<in> set ?es" "tool_str (te_name e0) = its_name spec"
      by (auto simp: map_filter_def image_iff dest: tool_spec_entry_Some intro!: bexI [of _ spec])
    then have "its_name spec \<in> fst ` set (rev (map (\<lambda>e. (tool_str (te_name e), e)) ?es))" by force
    then have "map_of (rev (map (\<lambda>e. (tool_str (te_name e), e)) ?es)) (its_name spec) \<noteq> None"
      by (simp only: map_of_eq_None_iff not_not)
    then obtain e where "map_of (rev (map (\<lambda>e. (tool_str (te_name e), e)) ?es)) (its_name spec) = Some e" by blast
    then have "tr_lookup (tr_add ?es reg) (its_name spec) = Inr e" and "e \<in> set ?es"
      by (auto simp: tr_lookup_abs tr_abs_add dest!: map_of_SomeD)
    then show ?thesis by (auto simp: map_filter_def dest: tool_spec_entry_Some)
  qed
  moreover have "is_err (tr_lookup (tr_remove_entries ns why r) n)" if "n \<in> set ns" for r n
    using that by (simp add: tr_lookup_abs tr_abs_remove_entries ok_or_def)
  ultimately show ?thesis using Inr reg
    by (auto simp: handle_tool_add_def handle_tool_remove_def svm_add_tools_def tr_remove_def Let_def split: if_splits)
qed

text \<open>A failed scan of the descriptors is reported as an error, yet the service counts as running.\<close>

lemma register_failure_runs:
  assumes "validate_token (irq_token req) m = Inr (irq_name req)" and "hm_get (svm_services m) (irq_name req) = Some rec"
    and "scan_as_entries env (irq_name req) (service_dir_of root (irq_name req)) = Inl e"
  shows "\<exists>m'. handle_ipc_register env now req root m = (Inl e, m') \<and>
     map_option svr_endpoint (hm_get (svm_services m') (irq_name req)) = Some (Some (irq_endpoint req))"
  using assms by (simp add: handle_ipc_register_def Let_def)

lemma host_access_roundtrip: "host_access_parse (host_access_str h) = Inr h"
  by (cases h) (auto simp: host_access_parse_def strip_prefix_def)

text \<open>Minutes are multiplied with wrap-around, so a long delay can become a short one.\<close>

lemma parse_duration_wraps: "parse_duration ''307445734561825861m'' = Inr 44"
  by (simp add: parse_duration_def parse_u64_def parse_digits.simps digit_val_def Let_def)

section \<open>A round of the watchdog\<close>

text \<open>What a round does to one watched service; the token's process id is whatever the manager draws.\<close>

definition restarted :: "launcher \<Rightarrow> socket_paths \<Rightarrow> string \<Rightarrow> watchdog_entry \<Rightarrow> watchdog_entry \<Rightarrow> bool" where
  "restarted ln ps uuid entry entry' \<longleftrightarrow>
     (\<exists>p. let tok = \<lparr> stk_token_str = ''svc-token-'' @ uuid, stk_service_name = su_name (we_unit entry), stk_pid = p \<rparr>
      in (case service_process_spawn ln ps (we_unit entry) tok of
            Inl _ \<Rightarrow> entry' = entry
          | Inr proc \<Rightarrow> entry' = entry\<lparr> we_process := proc, we_restart_count := we_restart_count entry + 1 \<rparr>))"

definition due :: "launcher \<Rightarrow> watchdog_entry \<Rightarrow> bool" where
  "due ln entry \<longleftrightarrow> \<not> ln_alive ln (spr_child (we_process entry)) \<and>
     ssec_restart (su_service (we_unit entry)) \<noteq> RestartNever"

lemma respawn_token_tok:
  "fst (respawn_token uuid name m) =
     \<lparr> stk_token_str = ''svc-token-'' @ uuid, stk_service_name = name, stk_pid = Pid (ucast (svm_pid_counter m)) \<rparr>"
  by (simp add: respawn_token_def spawn_and_get_token_def Let_def svm_send_def)

lemma restart_one_other: "n \<noteq> name \<Longrightarrow> hm_get (fst (restart_one ln ps uuid name st)) n = hm_get (fst st) n"
  by (auto simp: restart_one_def split: option.splits sum.splits prod.splits)

lemma restart_one_same:
  assumes "hm_get (fst st) name = Some entry"
  shows "\<exists>entry'. hm_get (fst (restart_one ln ps uuid name st)) name = Some entry' \<and>
     (if due ln entry then restarted ln ps uuid entry entry' else entry' = entry)"
proof (cases st)
  case (Pair w m)
  have restart: "should_restart r \<longleftrightarrow> r \<noteq> RestartNever" for r by (cases r) (simp_all add: should_restart_def)
  obtain tok m1 where r: "respawn_token uuid (su_name (we_unit entry)) m = (tok, m1)" by fastforce
  have tok: "tok = \<lparr> stk_token_str = ''svc-token-'' @ uuid, stk_service_name = su_name (we_unit entry),
      stk_pid = Pid (ucast (svm_pid_counter m)) \<rparr>"
    using respawn_token_tok [of uuid "su_name (we_unit entry)" m] r by simp
  show ?thesis
  proof (cases "due ln entry")
    case True
    then show ?thesis using Pair assms r
      by (cases "service_process_spawn ln ps (we_unit entry) tok")
         (auto simp: restart_one_def due_def restart restarted_def Let_def tok intro!: exI [of _ "Pid (ucast (svm_pid_counter m))"])
  qed (use Pair assms r in \<open>auto simp: restart_one_def due_def restart\<close>)
qed

lemma restart_fold_other:
  "name \<notin> set names \<Longrightarrow> hm_get (fst (fold (\<lambda>n. restart_one ln ps (uuid n) n) names st)) name = hm_get (fst st) name"
  by (induction names arbitrary: st) (auto simp: restart_one_other)

text \<open>
   A round of the watchdog restarts exactly the services that are dead and not marked never to restart: every other
  entry is unchanged; each of these gets one new process, started with a fresh token for its own name, and its
  counter goes up by one, unless the binary cannot be started, in which case the entry stays and the next
  round tries again.
\<close>

theorem watchdog_round_exact:
  assumes "hm_wf w" and "hm_get w name = Some entry"
  shows "\<exists>entry'. hm_get (fst (check_and_restart ln ps uuid w m)) name = Some entry' \<and>
     (if due ln entry then restarted ln ps (uuid name) entry entry' else entry' = entry)"
proof -
  from assms(2) have "name \<in> set (hm_keys w)" by (metis map_of_eq_None_iff option.distinct(1) set_map)
  then obtain a b where w: "hm_keys w = a @ name # b" by (meson split_list)
  with assms(1) have nab: "name \<notin> set a" "name \<notin> set b" by (auto simp: hm_wf_def)
  let ?st = "fold (\<lambda>n. restart_one ln ps (uuid n) n) a (w, m)"
  have "hm_get (fst ?st) name = Some entry" using nab assms(2) by (simp add: restart_fold_other)
  from restart_one_same [OF this, of ln ps "uuid name"] show ?thesis
    using nab by (simp add: check_and_restart_def w restart_fold_other)
qed

section \<open>Concrete instances\<close>

definition demo_scan :: scan_env where
  "demo_scan =
     \<lparr> sx_exists = (\<lambda>_. False), sx_read_dir = (\<lambda>_. Inl ''none''), sx_is_dir = (\<lambda>_. False), sx_read = (\<lambda>_. Inl ''none''),
       sx_descriptor = (\<lambda>_. Inl ''none''), sx_value = (\<lambda>_. JNull), sx_manifest = (\<lambda>_. Inl ''none'') \<rparr>"

definition demo_register :: ipc_register_request where
  "demo_register = \<lparr> irq_token = ''svc-token-1'', irq_name = ''db'', irq_endpoint = ''db.sock'', irq_tools = [] \<rparr>"

text \<open>A restarted service whose first incarnation registers after the restart.\<close>

definition demo_svm_ops :: "svm_op list" where
  "demo_svm_ops = [SvSpawn ''1'' (spawn_request_simple ''db'' ''/bin/db''), SvRespawn ''2'' ''db'', SvRegister 5 demo_register ''/avix'']"

lemmas svm_eval = demo_svm_ops_def demo_register_def demo_scan_def svm_new_with_registry_def svm_new_for_test_def
  spawn_request_simple_def spawn_and_get_token_def respawn_token_def handle_ipc_register_def validate_token_def
  scan_as_entries_def tool_scan_def svm_add_tools_def svm_send_def svm_is_caller_scoped_def hm_insert_def ok_or_def

lemma demo_svm_running:
  "\<lparr> svs_name = ''db'', svs_pid = 11, svs_status = ''running'', svs_registered_at = Some 5 \<rparr>
     \<in> set (list_running (run_events (svm_step demo_scan) (svm_new_with_registry ''/run'') demo_svm_ops))"
  by (simp add: svm_eval list_running_def Let_def map_filter_def)

theorem running_service_authentic_witness: "\<exists>ep. registered_as demo_svm_ops ''db'' ep"
  using running_service_authentic [OF demo_svm_running] by simp

theorem service_tokens_exact_witness:
  "validate_token ''svc-token-1'' (run_events (svm_step demo_scan) (svm_new_with_registry ''/run'') demo_svm_ops) = Inr ''db'' \<and>
   validate_token ''svc-token-3'' (run_events (svm_step demo_scan) (svm_new_with_registry ''/run'') demo_svm_ops) \<noteq> Inr ''db''"
proof -
  have issued: "issued demo_svm_ops = [(''svc-token-1'', ''db''), (''svc-token-2'', ''db'')]"
    by (simp add: demo_svm_ops_def spawn_request_simple_def)
  then have "distinct (map fst (issued demo_svm_ops))" by simp
  from service_tokens_exact [OF this] show ?thesis by (simp add: issued)
qed

definition demo_svm :: service_manager where
  "demo_svm = (svm_new_for_test ''/run'')\<lparr> svm_tokens := [(''t'', ''db'')],
     svm_tools := Some (tr_add [tool_entry_new (ToolName ''kernel/proc/kill'') ''kernel'' ToolAvailable VisAll JNull] tr_new) \<rparr>"

theorem tool_authority_witness:
  "\<exists>reg' entry. svm_tools (snd (handle_tool_add \<lparr> ita_token = ''t'', ita_tools =
       [\<lparr> its_name = ''kernel/proc/kill'', its_descriptor = JNull, its_visibility = VsAll \<rparr>] \<rparr> demo_svm)) = Some reg' \<and>
     tr_lookup reg' ''kernel/proc/kill'' = Inr entry \<and> te_owner entry = ''db''"
proof -
  have v: "validate_token ''t'' demo_svm = Inr ''db''" by (simp add: demo_svm_def validate_token_def)
  have n: "tool_name_parse ''kernel/proc/kill'' = Inr (ToolName ''kernel/proc/kill'')"
    by (simp add: tool_name_parse_def wire_sep_def)
  have "svm_tools demo_svm = Some (the (svm_tools demo_svm))" by (simp add: demo_svm_def)
  from tool_authority [OF this, of "''t''" "[\<lparr> its_name = ''kernel/proc/kill'', its_descriptor = JNull, its_visibility = VsAll \<rparr>]"]
  show ?thesis by (simp add: v n)
qed

definition demo_unit :: service_unit where
  "demo_unit = \<lparr> su_name = ''db'', su_version = ''1'', su_source = SourceUser, su_signature = None,
     su_unit = \<lparr> us_description = [], us_author = [], us_requires = [], us_after = [] \<rparr>,
     su_service = \<lparr> ssec_binary = ''/bin/db'', ssec_language = ''any'', ssec_restart = OnFailure, ssec_restart_delay = ''5s'',
       ssec_max_concurrent = 20, ssec_queue_max = 100, ssec_queue_timeout = ''5s'', ssec_run_as = RunAsService \<rparr>,
     su_capabilities = \<lparr> cs_required = [], cs_scope = None, cs_host_access = [], cs_caller_scoped = False \<rparr>,
     su_tools = \<lparr> tsx_namespace = ''/tools/db/'', tsx_provides = [] \<rparr>,
     su_jobs = \<lparr> jbs_max_active = 3, jbs_job_timeout = ''3600s'', jbs_persist = False \<rparr> \<rparr>"

definition demo_launcher :: launcher where
  "demo_launcher = \<lparr> ln_spawn = (\<lambda>_ _. Inr 2), ln_alive = (\<lambda>c. c = 2) \<rparr>"

definition demo_watchdog :: watchdog where
  "demo_watchdog = wd_register demo_unit \<lparr> spr_name = ''db'', spr_pid = Pid 10, spr_child = 1, spr_socket_path = [] \<rparr> []"

theorem watchdog_round_exact_witness:
  "wd_restart_count ''db'' (fst (check_and_restart demo_launcher
     \<lparr> skp_kernel = ''k'', skp_router = ''r'', skp_run_dir = ''/run'' \<rparr> id demo_watchdog demo_svm)) = 1"
proof -
  let ?e = "\<lparr> we_unit = demo_unit, we_process = \<lparr> spr_name = ''db'', spr_pid = Pid 10, spr_child = 1, spr_socket_path = [] \<rparr>,
    we_restart_count = 0 \<rparr>"
  have "hm_wf demo_watchdog" "hm_get demo_watchdog ''db'' = Some ?e" "due demo_launcher ?e"
    by (simp_all add: demo_watchdog_def wd_register_def demo_unit_def hm_wf_def hm_insert_def due_def demo_launcher_def)
  with watchdog_round_exact [of demo_watchdog "''db''" ?e demo_launcher
      "\<lparr> skp_kernel = ''k'', skp_router = ''r'', skp_run_dir = ''/run'' \<rparr>" id demo_svm]
  show ?thesis
    by (auto simp: restarted_def wd_restart_count_def service_process_spawn_def demo_launcher_def Let_def)
qed

end
