(* ===== verification/Rpc_Server.thy ===== *)
theory Rpc_Server
  imports Ipc
begin

text \<open>
  The contract of a JSON-RPC server of the system: one well-formed response to every request, under
  the request's id, no response to a notification, and a state invariant that every request
  keeps.  The kernel's server, the language-model service and the other servers are interpretations.
\<close>

text \<open>A response that answers the request \<open>i\<close>: its id, and a result or an error but not both.\<close>

definition answers :: "string \<Rightarrow> json_rpc_response \<Rightarrow> bool" where
  "answers i resp \<longleftrightarrow> jp_id resp = i \<and> (jp_result resp = None \<longleftrightarrow> jp_error resp \<noteq> None)"

definition error_code :: "json_rpc_response \<Rightarrow> int option" where
  "error_code resp = map_option je_code (jp_error resp)"

lemma answers_simps [simp]: "answers i (response_ok j v) \<longleftrightarrow> i = j" "answers i (response_err j c m d) \<longleftrightarrow> i = j"
  by (auto simp: answers_def response_ok_def response_err_def)

lemma error_code_simps [simp]: "error_code (response_ok j v) = None" "error_code (response_err j c m d) = Some c"
  by (simp_all add: error_code_def response_ok_def response_err_def)

text \<open>The messages of a socket, served one after the other; each comes with what its handling draws.\<close>

fun serve_all :: "('c \<Rightarrow> ipc_message \<Rightarrow> 's \<Rightarrow> json_rpc_response option \<times> 's) \<Rightarrow> ('c \<times> ipc_message) list \<Rightarrow> 's \<Rightarrow>
   json_rpc_response list \<times> 's" where
  "serve_all handle [] s = ([], s)"
| "serve_all handle ((c, msg) # msgs) s =
     (case handle c msg s of
        (resp, s1) \<Rightarrow> (case serve_all handle msgs s1 of (resps, s2) \<Rightarrow> (case resp of None \<Rightarrow> resps | Some r \<Rightarrow> r # resps, s2)))"

fun request_id :: "ipc_message \<Rightarrow> string option" where
  "request_id (IpcRequest req) = Some (jr_id req)"
| "request_id (IpcNotification n) = None"

locale rpc_server =
  fixes handle :: "'c \<Rightarrow> ipc_message \<Rightarrow> 's \<Rightarrow> json_rpc_response option \<times> 's"
    and wf :: "'s \<Rightarrow> bool"
  assumes request: "\<exists>resp. fst (handle c (IpcRequest req) s) = Some resp \<and> answers (jr_id req) resp"
    and notification: "handle c (IpcNotification n) s = (None, s)"
    and wf_request: "wf s \<Longrightarrow> wf (snd (handle c (IpcRequest req) s))"
begin

lemma wf_handle: "wf s \<Longrightarrow> wf (snd (handle c msg s))"
  by (cases msg) (simp_all add: wf_request notification)

lemma serve_wf: "wf s \<Longrightarrow> wf (snd (serve_all handle msgs s))"
proof (induction msgs arbitrary: s)
  case (Cons m msgs)
  obtain c msg s1 resp where m: "m = (c, msg)" "handle c msg s = (resp, s1)" by (metis surj_pair)
  with Cons.prems have "wf s1" using wf_handle [of s c msg] by simp
  from Cons.IH [OF this] show ?case using m by (auto split: prod.splits)
qed simp

text \<open>The responses are, one each and in order, those of the requests.\<close>

lemma serve_answers: "list_all2 answers (List.map_filter (request_id \<circ> snd) msgs) (fst (serve_all handle msgs s))"
proof (induction msgs arbitrary: s)
  case (Cons m msgs)
  obtain c msg where m: "m = (c, msg)" by (cases m)
  show ?case
  proof (cases msg)
    case (IpcRequest req)
    obtain resp s1 where h: "handle c (IpcRequest req) s = (Some resp, s1)" and a: "answers (jr_id req) resp"
      using request [of c req s] by (metis prod.collapse)
    then show ?thesis using Cons.IH [of s1] m IpcRequest
      by (auto simp: map_filter_def split: prod.splits)
  qed (use Cons.IH [of s] m notification in \<open>auto simp: map_filter_def split: prod.splits\<close>)
qed (simp add: map_filter_def)

end

end
