(* ===== verification/Kernel_Ipc.thy ===== *)
theory Kernel_Ipc
  imports Proc_Handler Services Syscalls Memfs Rpc_Server
begin

text \<open>
  The kernel's socket server (\<^verbatim>\<open>kernel/ipc_server.rs\<close>): one JSON-RPC request in, one
  response out, with one handler for each group of methods, and the message and part operations of the
  process handler (\<^verbatim>\<open>kernel/proc/mod.rs\<close>) they use.

  The server's state is the process handler, its history store and service manager, the virtual file system
  over the host's disk, and the installed packages.  Derived serialisers, UUID parsing, base64 and the package
  system calls are parameters; what an operation draws (clock, fresh identifiers, the salt of a process
  identifier) is in \<open>kernel_draws\<close>.

  The lemmas show that every request is answered once and under its own id, exactly which methods exist, that the
  process manager stays consistent under every sequence of messages, and that the session methods refuse a
  caller who is not the owner without touching anything.
\<close>

section \<open>State\<close>

record ('d, 'k, 's, 'y, 'h, 'v, 'p) kernel_env =
  kx_proc :: "('d, 'k, 's, 'y) proc_env"
  kx_hist :: "'h hist_env"
  kx_os :: "'v disk_ops"
  kx_tool_yaml :: "string list \<Rightarrow> string"
  kx_base64 :: "bytes \<Rightarrow> string"
  kx_inv_json :: "invocation_record \<Rightarrow> json"
  kx_conv_json :: "conversation_entry \<Rightarrow> json"
  kx_session_json :: "session_record \<Rightarrow> json"
  kx_msg_json :: "message_record \<Rightarrow> json"
  kx_part_json :: "part_record \<Rightarrow> json"
  kx_msg_of :: "json \<Rightarrow> string + message_record"
  kx_part_of :: "json \<Rightarrow> string + part_record"
  kx_time_json :: "datetime \<Rightarrow> json"
  kx_scan :: "string \<Rightarrow> json list"
  kx_install :: "string \<Rightarrow> syscall_context \<Rightarrow> json \<Rightarrow> 'p \<Rightarrow> syscall_result \<times> 'p"
  kx_uninstall :: "string \<Rightarrow> syscall_context \<Rightarrow> json \<Rightarrow> 'p \<Rightarrow> (string + syscall_result) \<times> 'p"

record ('d, 'k, 's, 'y, 'h, 'v, 'p) kernel_state =
  ks_proc :: "('d, 'k, 's, 'y) proc_state"
  ks_hist :: "'h option"
  ks_services :: "service_manager option"
  ks_vfs :: vfs_router
  ks_disk :: 'v
  ks_pkg :: 'p

record kernel_draws =
  kd_now :: "nat \<Rightarrow> datetime"
  kd_pid :: pid
  kd_session :: string
  kd_invocation :: string

type_synonym ('d, 'k, 's, 'y, 'h, 'v, 'p) kernel_handler =
  "string \<Rightarrow> json \<Rightarrow> ('d, 'k, 's, 'y, 'h, 'v, 'p) kernel_state \<Rightarrow>
   json_rpc_response \<times> ('d, 'k, 's, 'y, 'h, 'v, 'p) kernel_state"

section \<open>Shared pieces\<close>

definition str_param :: "string \<Rightarrow> string \<Rightarrow> json \<Rightarrow> string" where
  "str_param k d params = unwrap_or d (as_str (json_index params k))"

definition bool_param :: "string \<Rightarrow> bool \<Rightarrow> json \<Rightarrow> bool" where
  "bool_param k d params = unwrap_or d (as_bool (json_index params k))"

text \<open>The common end of a handler: the result as JSON, or the error's text under code -32000.\<close>

definition fail_reply :: "string \<Rightarrow> avix_error \<Rightarrow> json_rpc_response" where
  "fail_reply i e = response_err i (- 32000) (error_display e) None"

definition reply_with :: "string \<Rightarrow> ('a \<Rightarrow> json) \<Rightarrow> 'a avix_result \<Rightarrow> json_rpc_response" where
  "reply_with i f res = (case res of Inr a \<Rightarrow> response_ok i (f a) | Inl e \<Rightarrow> fail_reply i e)"

definition ok_json :: json where
  "ok_json = JObj [(''ok'', JBool True)]"

definition on_proc ::
  "(('d, 'k, 's, 'y) proc_state \<Rightarrow> ('d, 'k, 's, 'y) proc_state) \<Rightarrow> ('d, 'k, 's, 'y, 'h, 'v, 'p) kernel_state \<Rightarrow>
   ('d, 'k, 's, 'y, 'h, 'v, 'p) kernel_state" where
  "on_proc f st = st\<lparr> ks_proc := f (ks_proc st) \<rparr>"

section \<open>Processes\<close>

definition ipc_spawn :: "('d, 'k, 's, 'y, 'h, 'v, 'p) kernel_env \<Rightarrow> kernel_draws \<Rightarrow> ('d, 'k, 's, 'y, 'h, 'v, 'p) kernel_handler" where
  "ipc_spawn env dr i params st =
     (case ph_spawn (kx_proc env) (kd_now dr) (kd_pid dr) (kd_session dr) (kd_invocation dr)
             (str_param ''name'' ''unnamed'' params) (str_param ''goal'' [] params) (str_param ''session_id'' [] params)
             (str_param ''atp_session_id'' [] params) (str_param ''caller'' ''gateway'' params)
             (as_u64 (json_index params ''parent_pid'')) (ks_proc st) of
        (res, ps) \<Rightarrow>
          (reply_with i (\<lambda>p. JObj [(''pid'', JNum (uint p)), (''status'', JStr ''running'')]) res, st\<lparr> ks_proc := ps \<rparr>))"

definition agent_json :: "active_agent \<Rightarrow> json" where
  "agent_json a = JObj [(''pid'', JNum (uint (aa_pid a))), (''name'', JStr (aa_name a)), (''status'', JStr (aa_status a)),
     (''goal'', JStr (aa_goal a))]"

definition ipc_list :: "('d, 'k, 's, 'y, 'h, 'v, 'p) kernel_handler" where
  "ipc_list i params st = (response_ok i (JArr (map agent_json (am_list (ks_proc st)))), st)"

definition kill_proc :: "u64 \<Rightarrow> ('d, 'k, 's, 'y, 'h, 'v, 'p) kernel_handler" where
  "kill_proc p i params st =
     (case pt_set_status (Pid p) PsStopped (ph_table (ks_proc st)) of
        Inr t \<Rightarrow> (response_ok i ok_json, on_proc (\<lambda>ps. ps\<lparr> ph_table := t \<rparr>) st)
      | Inl e \<Rightarrow> (response_err i (- 32003) (error_display e) None, st))"

definition stat_proc :: "u64 \<Rightarrow> ('d, 'k, 's, 'y, 'h, 'v, 'p) kernel_handler" where
  "stat_proc p i params st =
     (case pt_get (ph_table (ks_proc st)) (Pid p) of
        Some e \<Rightarrow>
          (response_ok i (JObj [(''pid'', JNum (uint p)), (''name'', JStr (pe_name e)),
             (''status'', JStr (status_name (pe_status e))), (''goal'', JStr (pe_goal e))]), st)
      | None \<Rightarrow> (response_err i (- 32003) (''pid '' @ show_word p @ '' not found'') None, st))"

definition pid_param :: "json \<Rightarrow> u64" where
  "pid_param params =
     (case as_u64 (json_index params ''id'') of
        Some p \<Rightarrow> p
      | None \<Rightarrow> unwrap_or 0 (as_u64 (json_index params ''pid'')))"

definition ipc_pid_op :: "('d, 'k, 's, 'y, 'h, 'v, 'p) kernel_env \<Rightarrow> kernel_draws \<Rightarrow> string \<Rightarrow>
   ('d, 'k, 's, 'y, 'h, 'v, 'p) kernel_handler" where
  "ipc_pid_op env dr method i params st =
     (let p = pid_param params
      in if method = ''kernel/proc/kill'' then
           kill_proc p i params (on_proc (ph_abort_agent (kx_proc env) (kd_now dr) p) st)
         else if method = ''kernel/proc/stat'' then stat_proc p i params st
         else if method = ''kernel/proc/pause'' then
           (response_ok i ok_json, on_proc (pause_agent (kx_proc env) (kd_now dr 0) p) st)
         else if method = ''kernel/proc/resume'' then
           (response_ok i ok_json, on_proc (resume_agent (kx_proc env) (kd_now dr 0) p) st)
         else (response_ok i ok_json, st))"

definition ipc_list_installed :: "('d, 'k, 's, 'y, 'h, 'v, 'p) kernel_env \<Rightarrow> ('d, 'k, 's, 'y, 'h, 'v, 'p) kernel_handler" where
  "ipc_list_installed env i params st =
     (response_ok i (JArr (case ph_scanner (ks_proc st) of
        None \<Rightarrow> [] | Some _ \<Rightarrow> kx_scan env (str_param ''username'' [] params))), st)"

section \<open>Invocations\<close>

definition ipc_invocation_list :: "('d, 'k, 's, 'y, 'h, 'v, 'p) kernel_env \<Rightarrow> ('d, 'k, 's, 'y, 'h, 'v, 'p) kernel_handler" where
  "ipc_invocation_list env i params st =
     (let sid = str_param ''session_id'' [] params;
          res = (if sid \<noteq> [] then ph_list_invocations_for_session (kx_proc env) sid (ks_proc st)
                 else ph_list_invocations (kx_proc env) (str_param ''username'' [] params)
                        (as_str (json_index params ''agent_name'')) (bool_param ''live'' True params) (ks_proc st))
      in (reply_with i (\<lambda>rs. JArr (map (kx_inv_json env) rs)) res, st))"

definition ipc_invocation_conversation ::
  "('d, 'k, 's, 'y, 'h, 'v, 'p) kernel_env \<Rightarrow> ('d, 'k, 's, 'y, 'h, 'v, 'p) kernel_handler" where
  "ipc_invocation_conversation env i params st =
     (reply_with i (\<lambda>es. JArr (map (kx_conv_json env) es))
        (read_invocation_conversation (kx_proc env) (str_param ''id'' [] params) (ks_proc st)), st)"

text \<open>A look-up that may find nothing: the record, a not-found error naming what was asked, or the store's error.\<close>

definition found_reply :: "string \<Rightarrow> ('a \<Rightarrow> json) \<Rightarrow> string \<Rightarrow> 'a option avix_result \<Rightarrow> json_rpc_response" where
  "found_reply i f what res =
     (case res of
        Inr (Some a) \<Rightarrow> response_ok i (f a)
      | Inr None \<Rightarrow> response_err i (- 32003) (what @ '' not found'') None
      | Inl e \<Rightarrow> fail_reply i e)"

definition ipc_invocation_get :: "('d, 'k, 's, 'y, 'h, 'v, 'p) kernel_env \<Rightarrow> ('d, 'k, 's, 'y, 'h, 'v, 'p) kernel_handler" where
  "ipc_invocation_get env i params st =
     (let iid = str_param ''id'' [] params
      in (found_reply i (kx_inv_json env) (''invocation '' @ iid) (ph_get_invocation (kx_proc env) iid (ks_proc st)), st))"

definition ipc_invocation_snapshot :: "('d, 'k, 's, 'y, 'h, 'v, 'p) kernel_env \<Rightarrow> ('d, 'k, 's, 'y, 'h, 'v, 'p) kernel_handler" where
  "ipc_invocation_snapshot env i params st =
     (case ph_snapshot_invocation (kx_proc env) (str_param ''id'' [] params) (ks_proc st) of
        (res, ps) \<Rightarrow>
          (case res of
             Inr r \<Rightarrow> response_ok i (JObj [(''success'', JBool True), (''record'', kx_inv_json env r)])
           | Inl e \<Rightarrow>
               (case e of
                  NotFound _ \<Rightarrow> response_err i (- 32003) (error_display e) None
                | InvalidInput _ \<Rightarrow> response_err i (- 32001) (error_display e) None
                | _ \<Rightarrow> fail_reply i e), st\<lparr> ks_proc := ps \<rparr>))"

section \<open>Messages and parts\<close>

definition ph_create_message :: "'h hist_env \<Rightarrow> message_record \<Rightarrow> 'h option \<Rightarrow> unit avix_result \<times> 'h option" where
  "ph_create_message env m h =
     (case h of
        Some d \<Rightarrow> (case hs_create_message env m d of (res, d') \<Rightarrow> (res, Some d'))
      | None \<Rightarrow> (Inl (NotFound ''history store not configured''), None))"

definition ph_get_message :: "'h hist_env \<Rightarrow> string \<Rightarrow> 'h option \<Rightarrow> message_record option avix_result" where
  "ph_get_message env mid h = (case h of Some d \<Rightarrow> hs_get_message env mid d | None \<Rightarrow> Inr None)"

definition ph_list_messages :: "'h hist_env \<Rightarrow> string \<Rightarrow> 'h option \<Rightarrow> message_record list avix_result" where
  "ph_list_messages env sid h = (case h of Some d \<Rightarrow> hs_list_messages env sid d | None \<Rightarrow> Inr [])"

definition ph_create_part :: "'h hist_env \<Rightarrow> part_record \<Rightarrow> 'h option \<Rightarrow> unit avix_result \<times> 'h option" where
  "ph_create_part env p h =
     (case h of
        Some d \<Rightarrow> (case hs_create_part env p d of (res, d') \<Rightarrow> (res, Some d'))
      | None \<Rightarrow> (Inl (NotFound ''history store not configured''), None))"

definition ph_get_part :: "'h hist_env \<Rightarrow> string \<Rightarrow> 'h option \<Rightarrow> part_record option avix_result" where
  "ph_get_part env i h = (case h of Some d \<Rightarrow> hs_get_part env i d | None \<Rightarrow> Inr None)"

definition ph_list_parts :: "'h hist_env \<Rightarrow> string \<Rightarrow> 'h option \<Rightarrow> part_record list avix_result" where
  "ph_list_parts env mid h = (case h of Some d \<Rightarrow> hs_list_parts env mid d | None \<Rightarrow> Inr [])"

definition ipc_message_create :: "('d, 'k, 's, 'y, 'h, 'v, 'p) kernel_env \<Rightarrow> ('d, 'k, 's, 'y, 'h, 'v, 'p) kernel_handler" where
  "ipc_message_create env i params st =
     (case kx_msg_of env (unwrap_or JNull (json_get params ''message'')) of
        Inl e \<Rightarrow> (response_err i (- 32002) (''invalid message: '' @ e) None, st)
      | Inr m \<Rightarrow> (case ph_create_message (kx_hist env) m (ks_hist st) of
                    (res, h) \<Rightarrow> (reply_with i (\<lambda>_. ok_json) res, st\<lparr> ks_hist := h \<rparr>)))"

definition ipc_part_create :: "('d, 'k, 's, 'y, 'h, 'v, 'p) kernel_env \<Rightarrow> ('d, 'k, 's, 'y, 'h, 'v, 'p) kernel_handler" where
  "ipc_part_create env i params st =
     (case kx_part_of env (unwrap_or JNull (json_get params ''part'')) of
        Inl e \<Rightarrow> (response_err i (- 32002) (''invalid part: '' @ e) None, st)
      | Inr m \<Rightarrow> (case ph_create_part (kx_hist env) m (ks_hist st) of
                    (res, h) \<Rightarrow> (reply_with i (\<lambda>_. ok_json) res, st\<lparr> ks_hist := h \<rparr>)))"

definition ipc_message_get :: "('d, 'k, 's, 'y, 'h, 'v, 'p) kernel_env \<Rightarrow> ('d, 'k, 's, 'y, 'h, 'v, 'p) kernel_handler" where
  "ipc_message_get env i params st =
     (let raw = str_param ''id'' [] params
      in (case px_uuid (kx_proc env) raw of
            Inl _ \<Rightarrow> response_err i (- 32002) ''invalid message UUID'' None
          | Inr uuid \<Rightarrow> found_reply i (kx_msg_json env) (''message '' @ raw) (ph_get_message (kx_hist env) uuid (ks_hist st)), st))"

definition ipc_message_list :: "('d, 'k, 's, 'y, 'h, 'v, 'p) kernel_env \<Rightarrow> ('d, 'k, 's, 'y, 'h, 'v, 'p) kernel_handler" where
  "ipc_message_list env i params st =
     (case px_uuid (kx_proc env) (str_param ''session_id'' [] params) of
        Inl _ \<Rightarrow> response_err i (- 32002) ''invalid session UUID'' None
      | Inr uuid \<Rightarrow> reply_with i (\<lambda>ms. JArr (map (kx_msg_json env) ms)) (ph_list_messages (kx_hist env) uuid (ks_hist st)), st)"

definition ipc_part_get :: "('d, 'k, 's, 'y, 'h, 'v, 'p) kernel_env \<Rightarrow> ('d, 'k, 's, 'y, 'h, 'v, 'p) kernel_handler" where
  "ipc_part_get env i params st =
     (let raw = str_param ''id'' [] params
      in (case px_uuid (kx_proc env) raw of
            Inl _ \<Rightarrow> response_err i (- 32002) ''invalid part UUID'' None
          | Inr uuid \<Rightarrow> found_reply i (kx_part_json env) (''part '' @ raw) (ph_get_part (kx_hist env) uuid (ks_hist st)), st))"

definition ipc_part_list :: "('d, 'k, 's, 'y, 'h, 'v, 'p) kernel_env \<Rightarrow> ('d, 'k, 's, 'y, 'h, 'v, 'p) kernel_handler" where
  "ipc_part_list env i params st =
     (case px_uuid (kx_proc env) (str_param ''message_id'' [] params) of
        Inl _ \<Rightarrow> response_err i (- 32002) ''invalid message UUID'' None
      | Inr uuid \<Rightarrow> reply_with i (\<lambda>ms. JArr (map (kx_part_json env) ms)) (ph_list_parts (kx_hist env) uuid (ks_hist st)), st)"

section \<open>Sessions\<close>

definition ipc_session_list :: "('d, 'k, 's, 'y, 'h, 'v, 'p) kernel_env \<Rightarrow> ('d, 'k, 's, 'y, 'h, 'v, 'p) kernel_handler" where
  "ipc_session_list env i params st =
     (reply_with i (\<lambda>ss. JArr (map (kx_session_json env) ss))
        (ph_list_sessions (kx_proc env) (str_param ''username'' [] params) (ks_proc st)), st)"

definition session_ownership_ok :: "string \<Rightarrow> string \<Rightarrow> bool \<Rightarrow> bool" where
  "session_ownership_ok username caller privileged \<longleftrightarrow> caller = [] \<or> privileged \<or> username = caller"

definition eperm_reply :: "string \<Rightarrow> json_rpc_response" where
  "eperm_reply i = response_err i (- 32001) ''EPERM: session belongs to another user'' None"

text \<open>
  The frame the four session methods share: parse the identifier, read the session, check the ownership.  \<open>missing\<close> is the
  answer for a session that does not exist, which differs for deletion.
\<close>

definition with_session ::
  "('d, 'k, 's, 'y, 'h, 'v, 'p) kernel_env \<Rightarrow> string \<Rightarrow> (string \<Rightarrow> json_rpc_response) \<Rightarrow>
   (string \<Rightarrow> session_record \<Rightarrow> ('d, 'k, 's, 'y, 'h, 'v, 'p) kernel_state \<Rightarrow>
      json_rpc_response \<times> ('d, 'k, 's, 'y, 'h, 'v, 'p) kernel_state) \<Rightarrow>
   ('d, 'k, 's, 'y, 'h, 'v, 'p) kernel_handler" where
  "with_session env key missing body i params st =
     (let sid = str_param key [] params
      in (case px_uuid (kx_proc env) sid of
            Inl _ \<Rightarrow> (response_err i (- 32002) ''invalid session ID'' None, st)
          | Inr uuid \<Rightarrow>
              (case ph_get_session (kx_proc env) uuid (ks_proc st) of
                 Inr (Some session) \<Rightarrow>
                   if session_ownership_ok (sr_username session) (str_param ''caller_identity'' [] params)
                        (bool_param ''is_privileged'' False params)
                   then body uuid session st
                   else (eperm_reply i, st)
               | Inr None \<Rightarrow> (missing sid, st)
               | Inl e \<Rightarrow> (fail_reply i e, st))))"

definition session_missing :: "string \<Rightarrow> string \<Rightarrow> json_rpc_response" where
  "session_missing i sid = response_err i (- 32003) (''session '' @ sid @ '' not found'') None"

definition ipc_session_get :: "('d, 'k, 's, 'y, 'h, 'v, 'p) kernel_env \<Rightarrow> ('d, 'k, 's, 'y, 'h, 'v, 'p) kernel_handler" where
  "ipc_session_get env i = with_session env ''id'' (session_missing i)
     (\<lambda>uuid session st. (response_ok i (kx_session_json env session), st)) i"

definition ipc_session_pause :: "('d, 'k, 's, 'y, 'h, 'v, 'p) kernel_env \<Rightarrow> kernel_draws \<Rightarrow>
   ('d, 'k, 's, 'y, 'h, 'v, 'p) kernel_handler" where
  "ipc_session_pause env dr i = with_session env ''session_id'' (session_missing i)
     (\<lambda>uuid session st.
        if sr_owner_pid session = 0 then (response_err i (- 32001) ''session has no active owner pid'' None, st)
        else (response_ok i ok_json, on_proc (pause_agent (kx_proc env) (kd_now dr 0) (sr_owner_pid session)) st)) i"

definition respawn_session :: "('d, 'k, 's, 'y, 'h, 'v, 'p) kernel_env \<Rightarrow> kernel_draws \<Rightarrow> string \<Rightarrow> string option \<Rightarrow> string \<Rightarrow>
   ('d, 'k, 's, 'y, 'h, 'v, 'p) kernel_state \<Rightarrow> json_rpc_response \<times> ('d, 'k, 's, 'y, 'h, 'v, 'p) kernel_state" where
  "respawn_session env dr uuid input i st =
     (case resume_session (kx_proc env) (kd_now dr) (kd_pid dr) (kd_session dr) (kd_invocation dr) uuid input (ks_proc st) of
        (res, ps) \<Rightarrow> (reply_with i (\<lambda>p. JObj [(''pid'', JNum (uint p))]) res, st\<lparr> ks_proc := ps \<rparr>))"

text \<open>An idle session with a waiting executor gets the new goal as a signal; a new invocation is the fall-back.\<close>

definition wake_session :: "('d, 'k, 's, 'y, 'h, 'v, 'p) kernel_env \<Rightarrow> kernel_draws \<Rightarrow> string \<Rightarrow> session_record \<Rightarrow> string option \<Rightarrow>
   string \<Rightarrow> ('d, 'k, 's, 'y, 'h, 'v, 'p) kernel_state \<Rightarrow> json_rpc_response \<times> ('d, 'k, 's, 'y, 'h, 'v, 'p) kernel_state" where
  "wake_session env dr uuid session input i st =
     (case send_signal (kx_proc env) (kd_now dr 0) (sr_owner_pid session) ''SIGSTART''
             (JObj [(''goal'', JStr (unwrap_or (sr_goal session) input))]) (ks_proc st) of
        (Inr _, ps) \<Rightarrow> (response_ok i (JObj [(''pid'', JNum (uint (sr_owner_pid session)))]), st\<lparr> ks_proc := ps \<rparr>)
      | (Inl _, ps) \<Rightarrow> respawn_session env dr uuid input i (st\<lparr> ks_proc := ps \<rparr>))"

definition ipc_session_resume :: "('d, 'k, 's, 'y, 'h, 'v, 'p) kernel_env \<Rightarrow> kernel_draws \<Rightarrow>
   ('d, 'k, 's, 'y, 'h, 'v, 'p) kernel_handler" where
  "ipc_session_resume env dr i params = with_session env ''session_id'' (session_missing i)
     (\<lambda>uuid session st.
        let input = as_str (json_index params ''input'')
        in if sr_status session = session_status.SessPaused \<and> sr_pids session \<noteq> [] then
             (response_ok i ok_json,
              on_proc (fold (\<lambda>(j, p). resume_agent (kx_proc env) (kd_now dr j) p) (enumerate 0 (sr_pids session))) st)
           else if sr_status session = session_status.SessIdle \<and> sr_pids session \<noteq> [] then
             wake_session env dr uuid session input i st
           else respawn_session env dr uuid input i st) i params"

definition ipc_session_delete :: "('d, 'k, 's, 'y, 'h, 'v, 'p) kernel_env \<Rightarrow> ('d, 'k, 's, 'y, 'h, 'v, 'p) kernel_handler" where
  "ipc_session_delete env i params =
     (let deleted = (\<lambda>_. JObj [(''deleted'', JStr (str_param ''session_id'' [] params))])
      in with_session env ''session_id'' (\<lambda>_. response_ok i (deleted ()))
           (\<lambda>uuid session st.
              case ph_delete_session (kx_proc env) uuid (ks_proc st) of
                (res, ps) \<Rightarrow> (reply_with i deleted res, st\<lparr> ks_proc := ps \<rparr>)) i params)"

section \<open>Packages, services and tools\<close>

definition test_token :: "datetime \<Rightarrow> datetime \<Rightarrow> string list \<Rightarrow> capability_token" where
  "test_token now now' caps =
     \<lparr> granted_tools = caps, issued_at = now, expires_at = now' + 3600 * nanos_per_sec, issued_to_opt = None,
       signature = ''test-sig'' \<rparr>"

definition package_ctx :: "kernel_draws \<Rightarrow> string \<Rightarrow> syscall_context" where
  "package_ctx dr cap = \<lparr> sx_caller_pid = 0, sx_token = test_token (kd_now dr 0) (kd_now dr 1) [cap] \<rparr>"

definition syscall_reply :: "string \<Rightarrow> syscall_result \<Rightarrow> json_rpc_response" where
  "syscall_reply i res =
     (case res of Inr v \<Rightarrow> response_ok i v | Inl e \<Rightarrow> response_err i (- 32000) (syscall_error_display e) None)"

definition ipc_install :: "('d, 'k, 's, 'y, 'h, 'v, 'p) kernel_env \<Rightarrow> kernel_draws \<Rightarrow> string \<Rightarrow> string \<Rightarrow>
   ('d, 'k, 's, 'y, 'h, 'v, 'p) kernel_handler" where
  "ipc_install env dr op cap i params st =
     (case kx_install env op (package_ctx dr cap) params (ks_pkg st) of
        (res, pk) \<Rightarrow> (syscall_reply i res, st\<lparr> ks_pkg := pk \<rparr>))"

definition ipc_uninstall :: "('d, 'k, 's, 'y, 'h, 'v, 'p) kernel_env \<Rightarrow> kernel_draws \<Rightarrow> string \<Rightarrow> string \<Rightarrow>
   ('d, 'k, 's, 'y, 'h, 'v, 'p) kernel_handler" where
  "ipc_uninstall env dr op cap i params st =
     (case kx_uninstall env op (package_ctx dr cap) params (ks_pkg st) of
        (Inr res, pk) \<Rightarrow> (syscall_reply i res, st\<lparr> ks_pkg := pk \<rparr>)
      | (Inl join, pk) \<Rightarrow> (response_err i (- 32000) join None, st\<lparr> ks_pkg := pk \<rparr>))"

record service_list_response =
  slr_total :: nat
  slr_running :: nat
  slr_starting :: nat
  slr_services :: "service_summary list"

definition ph_list_services :: "service_manager option \<Rightarrow> service_list_response" where
  "ph_list_services sm =
     (case sm of
        Some m \<Rightarrow>
          (let ss = list_running m
           in \<lparr> slr_total = length ss, slr_running = length (filter (\<lambda>s. svs_status s = ''running'') ss),
                slr_starting = length (filter (\<lambda>s. svs_status s = ''starting'') ss), slr_services = ss \<rparr>)
      | None \<Rightarrow> \<lparr> slr_total = 0, slr_running = 0, slr_starting = 0, slr_services = [] \<rparr>)"

definition ipc_service_list :: "('d, 'k, 's, 'y, 'h, 'v, 'p) kernel_env \<Rightarrow> ('d, 'k, 's, 'y, 'h, 'v, 'p) kernel_handler" where
  "ipc_service_list env i params st =
     (let r = ph_list_services (ks_services st)
      in (response_ok i (JObj [(''total'', JNum (int (slr_total r))), (''running'', JNum (int (slr_running r))),
            (''starting'', JNum (int (slr_starting r))),
            (''services'', JArr (map (\<lambda>s. JObj [(''name'', JStr (svs_name s)), (''pid'', JNum (uint (svs_pid s))),
               (''status'', JStr (svs_status s)),
               (''registered_at'', (case svs_registered_at s of None \<Rightarrow> JNull | Some t \<Rightarrow> kx_time_json env t))])
              (slr_services r)))]), st))"

definition ipc_tool_list :: "('d, 'k, 's, 'y, 'h, 'v, 'p) kernel_handler" where
  "ipc_tool_list i params st =
     (let r = ph_list_tools (ks_proc st)
      in (response_ok i (JObj [(''total'', JNum (int (tl_total r))), (''available'', JNum (int (tl_available r))),
            (''unavailable'', JNum (int (tl_unavailable r))),
            (''tools'', JArr (map (\<lambda>t. JObj [(''name'', JStr (ts_name t)), (''namespace'', JStr (ts_namespace t)),
               (''description'', JStr (ts_description t)), (''state'', JStr (ts_state t))]) (tl_tools r)))]), st))"

definition ipc_signal_send :: "('d, 'k, 's, 'y, 'h, 'v, 'p) kernel_env \<Rightarrow> kernel_draws \<Rightarrow>
   ('d, 'k, 's, 'y, 'h, 'v, 'p) kernel_handler" where
  "ipc_signal_send env dr i params st =
     (let p = unwrap_or 0 (as_u64 (json_index params ''pid'')); sig = str_param ''signal'' [] params
      in if p = 0 then (response_err i (- 32602) ''missing pid'' None, st)
         else if sig = [] then (response_err i (- 32602) ''missing signal'' None, st)
         else (case send_signal (kx_proc env) (kd_now dr 0) p sig (json_index params ''payload'') (ks_proc st) of
                 (res, ps) \<Rightarrow> (reply_with i (\<lambda>_. ok_json) res, st\<lparr> ks_proc := ps \<rparr>)))"

section \<open>Files\<close>

definition with_path ::
  "(vfs_path \<Rightarrow> ('d, 'k, 's, 'y, 'h, 'v, 'p) kernel_state \<Rightarrow> json_rpc_response \<times> ('d, 'k, 's, 'y, 'h, 'v, 'p) kernel_state) \<Rightarrow>
   ('d, 'k, 's, 'y, 'h, 'v, 'p) kernel_handler" where
  "with_path body i params st =
     (case vfs_path_parse (str_param ''path'' [] params) of
        Inl e \<Rightarrow> (response_err i (- 32602) (error_display e) None, st)
      | Inr path \<Rightarrow> body path st)"

definition ipc_fs_read :: "('d, 'k, 's, 'y, 'h, 'v, 'p) kernel_env \<Rightarrow> ('d, 'k, 's, 'y, 'h, 'v, 'p) kernel_handler" where
  "ipc_fs_read env i = with_path
     (\<lambda>path st.
        case vfs_read (kx_tool_yaml env) (kx_os env) path (ks_vfs st) (ks_disk st) of
          (res, r) \<Rightarrow>
            (reply_with i (\<lambda>bs.
               if utf8_valid bs then JObj [(''content'', JStr (string_of_bytes bs)), (''encoding'', JStr ''utf-8'')]
               else JObj [(''content'', JStr (kx_base64 env bs)), (''encoding'', JStr ''base64'')]) res,
             st\<lparr> ks_vfs := r \<rparr>)) i"

definition ipc_fs_write :: "('d, 'k, 's, 'y, 'h, 'v, 'p) kernel_env \<Rightarrow> ('d, 'k, 's, 'y, 'h, 'v, 'p) kernel_handler" where
  "ipc_fs_write env i params = with_path
     (\<lambda>path st.
        case vfs_write (kx_os env) path (bytes_of_string (str_param ''content'' [] params)) (ks_vfs st) (ks_disk st) of
          (res, r, d) \<Rightarrow> (reply_with i (\<lambda>_. ok_json) res, st\<lparr> ks_vfs := r, ks_disk := d \<rparr>)) i params"

definition ipc_fs_list :: "('d, 'k, 's, 'y, 'h, 'v, 'p) kernel_env \<Rightarrow> ('d, 'k, 's, 'y, 'h, 'v, 'p) kernel_handler" where
  "ipc_fs_list env i = with_path
     (\<lambda>path st. (reply_with i (\<lambda>es. JObj [(''entries'', JArr (map JStr es))])
                   (vfs_list (kx_os env) path (ks_vfs st) (ks_disk st)), st)) i"

definition ipc_fs_exists :: "('d, 'k, 's, 'y, 'h, 'v, 'p) kernel_env \<Rightarrow> ('d, 'k, 's, 'y, 'h, 'v, 'p) kernel_handler" where
  "ipc_fs_exists env i = with_path
     (\<lambda>path st. (response_ok i (JObj [(''exists'', JBool (vfs_exists (kx_os env) path (ks_vfs st) (ks_disk st)))]), st)) i"

definition ipc_fs_delete :: "('d, 'k, 's, 'y, 'h, 'v, 'p) kernel_env \<Rightarrow> ('d, 'k, 's, 'y, 'h, 'v, 'p) kernel_handler" where
  "ipc_fs_delete env i = with_path
     (\<lambda>path st.
        case vfs_delete (kx_os env) path (ks_vfs st) (ks_disk st) of
          (res, r, d) \<Rightarrow> (reply_with i (\<lambda>_. ok_json) res, st\<lparr> ks_vfs := r, ks_disk := d \<rparr>)) i"

section \<open>The dispatcher\<close>

text \<open>The methods and their handlers, in the order of the code's match.\<close>

definition kernel_handlers :: "('d, 'k, 's, 'y, 'h, 'v, 'p) kernel_env \<Rightarrow> kernel_draws \<Rightarrow>
   (string \<times> ('d, 'k, 's, 'y, 'h, 'v, 'p) kernel_handler) list" where
  "kernel_handlers env dr =
     [(''kernel/proc/spawn'', ipc_spawn env dr),
      (''kernel/proc/list'', ipc_list),
      (''kernel/proc/kill'', ipc_pid_op env dr ''kernel/proc/kill''),
      (''kernel/proc/stat'', ipc_pid_op env dr ''kernel/proc/stat''),
      (''kernel/proc/pause'', ipc_pid_op env dr ''kernel/proc/pause''),
      (''kernel/proc/resume'', ipc_pid_op env dr ''kernel/proc/resume''),
      (''kernel/proc/wait'', ipc_pid_op env dr ''kernel/proc/wait''),
      (''kernel/proc/setcap'', ipc_pid_op env dr ''kernel/proc/setcap''),
      (''kernel/proc/list-installed'', ipc_list_installed env),
      (''kernel/proc/invocation-list'', ipc_invocation_list env),
      (''kernel/proc/invocation-conversation'', ipc_invocation_conversation env),
      (''kernel/proc/invocation-get'', ipc_invocation_get env),
      (''kernel/proc/invocation-snapshot'', ipc_invocation_snapshot env),
      (''kernel/proc/message-create'', ipc_message_create env),
      (''kernel/proc/message-get'', ipc_message_get env),
      (''kernel/proc/message-list'', ipc_message_list env),
      (''kernel/proc/part-create'', ipc_part_create env),
      (''kernel/proc/part-get'', ipc_part_get env),
      (''kernel/proc/part-list'', ipc_part_list env),
      (''kernel/proc/session/list'', ipc_session_list env),
      (''kernel/proc/session/get'', ipc_session_get env),
      (''kernel/proc/session/pause'', ipc_session_pause env dr),
      (''kernel/proc/session/resume'', ipc_session_resume env dr),
      (''kernel/proc/session/delete'', ipc_session_delete env),
      (''kernel/proc/package/install-agent'', ipc_install env dr ''install-agent'' ''proc/package/install-agent''),
      (''kernel/proc/package/uninstall-agent'', ipc_uninstall env dr ''uninstall-agent'' ''proc/package/install-agent''),
      (''kernel/proc/package/install-service'', ipc_install env dr ''install-service'' ''proc/package/install-service''),
      (''kernel/proc/package/uninstall-service'', ipc_uninstall env dr ''uninstall-service'' ''proc/package/install-service''),
      (''kernel/sys/service-list'', ipc_service_list env),
      (''kernel/sys/tool-list'', ipc_tool_list),
      (''kernel/signal/send'', ipc_signal_send env dr),
      (''fs/read'', ipc_fs_read env),
      (''fs/write'', ipc_fs_write env),
      (''fs/list'', ipc_fs_list env),
      (''fs/exists'', ipc_fs_exists env),
      (''fs/delete'', ipc_fs_delete env)]"

definition kernel_dispatch :: "('d, 'k, 's, 'y, 'h, 'v, 'p) kernel_env \<Rightarrow> kernel_draws \<Rightarrow> string \<Rightarrow>
   ('d, 'k, 's, 'y, 'h, 'v, 'p) kernel_handler" where
  "kernel_dispatch env dr method i params st =
     (case map_of (kernel_handlers env dr) method of
        Some h \<Rightarrow> h i params st
      | None \<Rightarrow> (response_err i (- 32601) (''unknown kernel method: '' @ method) None, st))"

definition kernel_handle_message :: "('d, 'k, 's, 'y, 'h, 'v, 'p) kernel_env \<Rightarrow> kernel_draws \<Rightarrow> ipc_message \<Rightarrow>
   ('d, 'k, 's, 'y, 'h, 'v, 'p) kernel_state \<Rightarrow> json_rpc_response option \<times> ('d, 'k, 's, 'y, 'h, 'v, 'p) kernel_state" where
  "kernel_handle_message env dr msg st =
     (case msg of
        IpcRequest req \<Rightarrow>
          (case kernel_dispatch env dr (jr_method req) (jr_id req) (jr_params req) st of (resp, st') \<Rightarrow> (Some resp, st'))
      | IpcNotification _ \<Rightarrow> (None, st))"

section \<open>Every handler answers and keeps the process manager consistent\<close>

definition handler_ok :: "('d, 'k, 's, 'y, 'h, 'v, 'p) kernel_handler \<Rightarrow> bool" where
  "handler_ok h \<longleftrightarrow> (\<forall>i params st.
     answers i (fst (h i params st)) \<and> error_code (fst (h i params st)) \<noteq> Some (- 32601) \<and>
     (ph_wf (ks_proc st) \<longrightarrow> ph_wf (ks_proc (snd (h i params st)))))"

lemma handler_okI:
  assumes "\<And>i params st. answers i (fst (h i params st)) \<and> error_code (fst (h i params st)) \<noteq> Some (- 32601)"
    and "\<And>i params st. ph_wf (ks_proc st) \<Longrightarrow> ph_wf (ks_proc (snd (h i params st)))"
  shows "handler_ok h"
  using assms by (simp add: handler_ok_def)

lemma reply_simps [simp]:
  "answers i (fail_reply j e) \<longleftrightarrow> i = j" "error_code (fail_reply j e) = Some (- 32000)"
  "answers i (reply_with j f res) \<longleftrightarrow> i = j" "error_code (reply_with j f res) \<noteq> Some (- 32601)"
  "answers i (found_reply j f what res') \<longleftrightarrow> i = j" "error_code (found_reply j f what res') \<noteq> Some (- 32601)"
  "answers i (syscall_reply j res'') \<longleftrightarrow> i = j" "error_code (syscall_reply j res'') \<noteq> Some (- 32601)"
  by (auto simp: fail_reply_def reply_with_def found_reply_def syscall_reply_def split: sum.splits option.splits)

lemma on_proc_simps [simp]: "ks_proc (on_proc f st) = f (ks_proc st)"
  by (simp add: on_proc_def)

text \<open>The steps of the process manager a handler may take, as one fact about each.\<close>

lemma ph_wf_ops:
  assumes "ph_wf st"
  shows "ph_wf (pause_agent env t p st)" "ph_wf (resume_agent env t p st)" "ph_wf (ph_abort_agent env now p st)"
    "ph_wf (snd (send_signal env t p name payload st))" "ph_wf (snd (ph_delete_session env sid st))"
    "ph_wf (snd (ph_snapshot_invocation env iid st))"
  using ph_wf_step [OF assms, of env "PhPause t p"] ph_wf_step [OF assms, of env "PhResume t p"]
    ph_wf_step [OF assms, of env "PhAbort now p"] ph_wf_step [OF assms, of env "PhSignal t p name payload"]
    ph_wf_step [OF assms, of env "PhDeleteSession sid"] ph_wf_step [OF assms, of env "PhSnapshot iid"]
  by simp_all

lemma ph_wf_pair: "ph_wf (snd x) \<Longrightarrow> x = (res, st') \<Longrightarrow> ph_wf st'"
  by simp

lemma ph_wf_status:
  assumes "ph_wf st" and "pt_set_status (Pid p) s (ph_table st) = Inr t"
  shows "ph_wf (st\<lparr> ph_table := t \<rparr>)"
proof -
  have "t = tbl_status p s (ph_table st)" using assms(2) by (simp add: tbl_status_def)
  with assms(1) show ?thesis by (simp add: ph_wf_def tbl_status_dom)
qed

lemma ph_wf_resumes: "ph_wf st \<Longrightarrow> ph_wf (fold (\<lambda>(j, p). resume_agent env (now j) p) jps st)"
  by (induction jps arbitrary: st) (auto simp: ph_wf_ops split: prod.splits)

lemma spawn_ok: "handler_ok (ipc_spawn env dr)"
proof (rule handler_okI)
  fix i params and st :: "('a, 'b, 'c, 'd, 'e, 'f, 'g) kernel_state"
  assume "ph_wf (ks_proc st)"
  then show "ph_wf (ks_proc (snd (ipc_spawn env dr i params st)))"
    by (auto simp: ipc_spawn_def intro: ph_wf_pair [OF ph_wf_spawn] split: prod.splits)
qed (simp add: ipc_spawn_def split: prod.splits)

lemma kill_proc_ok:
  "answers i (fst (kill_proc p i params st))" "error_code (fst (kill_proc p i params st)) \<noteq> Some (- 32601)"
  "ph_wf (ks_proc st) \<Longrightarrow> ph_wf (ks_proc (snd (kill_proc p i params st)))"
  by (cases "pt_set_status (Pid p) PsStopped (ph_table (ks_proc st))"; simp add: kill_proc_def ph_wf_status)+

lemma stat_proc_ok:
  "answers i (fst (stat_proc p i params st))" "error_code (fst (stat_proc p i params st)) \<noteq> Some (- 32601)"
  "snd (stat_proc p i params st) = st"
  by (cases "pt_get (ph_table (ks_proc st)) (Pid p)"; simp add: stat_proc_def)+

lemma pid_op_ok: "handler_ok (ipc_pid_op env dr method)"
  by (rule handler_okI) (simp_all add: ipc_pid_op_def Let_def kill_proc_ok stat_proc_ok ph_wf_ops)

lemma read_only_ok:
  "handler_ok ipc_list" "handler_ok (ipc_list_installed env)" "handler_ok (ipc_invocation_list env)"
  "handler_ok (ipc_invocation_conversation env)" "handler_ok (ipc_invocation_get env)" "handler_ok (ipc_session_list env)"
  "handler_ok (ipc_message_get env)" "handler_ok (ipc_message_list env)" "handler_ok (ipc_part_get env)"
  "handler_ok (ipc_part_list env)" "handler_ok (ipc_service_list env)" "handler_ok ipc_tool_list"
  by (rule handler_okI; simp add: ipc_list_def ipc_list_installed_def ipc_invocation_list_def ipc_invocation_conversation_def
        ipc_invocation_get_def ipc_session_list_def ipc_message_get_def ipc_message_list_def ipc_part_get_def ipc_part_list_def
        ipc_service_list_def ipc_tool_list_def Let_def split: sum.splits)+

lemma stores_ok:
  "handler_ok (ipc_message_create env)" "handler_ok (ipc_part_create env)"
  "handler_ok (ipc_install env dr op cap)" "handler_ok (ipc_uninstall env dr op cap)"
  by (rule handler_okI; simp add: ipc_message_create_def ipc_part_create_def ipc_install_def ipc_uninstall_def
        split: sum.splits prod.splits)+

lemma files_ok:
  "handler_ok (ipc_fs_read env)" "handler_ok (ipc_fs_write env)" "handler_ok (ipc_fs_list env)"
  "handler_ok (ipc_fs_exists env)" "handler_ok (ipc_fs_delete env)"
  by (rule handler_okI; simp add: ipc_fs_read_def ipc_fs_write_def ipc_fs_list_def ipc_fs_exists_def ipc_fs_delete_def
        with_path_def split: sum.splits prod.splits)+

lemma snapshot_ok: "handler_ok (ipc_invocation_snapshot env)"
proof (rule handler_okI)
  fix i params and st :: "('a, 'b, 'c, 'd, 'e, 'f, 'g) kernel_state"
  assume "ph_wf (ks_proc st)"
  then show "ph_wf (ks_proc (snd (ipc_invocation_snapshot env i params st)))"
    by (auto simp: ipc_invocation_snapshot_def intro: ph_wf_pair [OF ph_wf_ops(6)] split: prod.splits)
qed (simp add: ipc_invocation_snapshot_def split: prod.splits sum.splits avix_error.splits)

lemma signal_ok: "handler_ok (ipc_signal_send env dr)"
proof (rule handler_okI)
  fix i params and st :: "('a, 'b, 'c, 'd, 'e, 'f, 'g) kernel_state"
  assume "ph_wf (ks_proc st)"
  then show "ph_wf (ks_proc (snd (ipc_signal_send env dr i params st)))"
    by (auto simp: ipc_signal_send_def Let_def intro: ph_wf_pair [OF ph_wf_ops(4)] split: prod.splits)
qed (simp add: ipc_signal_send_def Let_def split: prod.splits)

lemma with_session_ok:
  assumes "\<And>sid. answers i (missing sid) \<and> error_code (missing sid) \<noteq> Some (- 32601)"
    and "\<And>uuid session st. answers i (fst (body uuid session st)) \<and> error_code (fst (body uuid session st)) \<noteq> Some (- 32601)"
    and "\<And>uuid session st. ph_wf (ks_proc st) \<Longrightarrow> ph_wf (ks_proc (snd (body uuid session st)))"
  shows "answers i (fst (with_session env key missing body i params st)) \<and>
     error_code (fst (with_session env key missing body i params st)) \<noteq> Some (- 32601) \<and>
     (ph_wf (ks_proc st) \<longrightarrow> ph_wf (ks_proc (snd (with_session env key missing body i params st))))"
  using assms by (simp add: with_session_def Let_def eperm_reply_def split: sum.splits option.splits)

lemma respawn_session_ok:
  "answers i (fst (respawn_session env dr uuid input i st)) \<and> error_code (fst (respawn_session env dr uuid input i st)) \<noteq> Some (- 32601)"
  "ph_wf (ks_proc st) \<Longrightarrow> ph_wf (ks_proc (snd (respawn_session env dr uuid input i st)))"
  by (auto simp: respawn_session_def intro: ph_wf_pair [OF ph_wf_resume_session] split: prod.splits)

lemma wake_session_ok:
  "answers i (fst (wake_session env dr uuid session input i st)) \<and>
     error_code (fst (wake_session env dr uuid session input i st)) \<noteq> Some (- 32601)"
  "ph_wf (ks_proc st) \<Longrightarrow> ph_wf (ks_proc (snd (wake_session env dr uuid session input i st)))"
proof -
  obtain res ps where s: "send_signal (kx_proc env) (kd_now dr 0) (sr_owner_pid session) ''SIGSTART''
      (JObj [(''goal'', JStr (unwrap_or (sr_goal session) input))]) (ks_proc st) = (res, ps)" by fastforce
  show "answers i (fst (wake_session env dr uuid session input i st)) \<and>
      error_code (fst (wake_session env dr uuid session input i st)) \<noteq> Some (- 32601)"
    by (cases res) (simp_all add: wake_session_def s respawn_session_ok)
  assume "ph_wf (ks_proc st)"
  from ph_wf_pair [OF ph_wf_ops(4) [OF this] s] show "ph_wf (ks_proc (snd (wake_session env dr uuid session input i st)))"
    by (cases res) (simp_all add: wake_session_def s respawn_session_ok)
qed

lemma session_ops_ok:
  "handler_ok (ipc_session_get env)" "handler_ok (ipc_session_pause env dr)"
  "handler_ok (ipc_session_resume env dr)" "handler_ok (ipc_session_delete env)"
  unfolding handler_ok_def ipc_session_get_def ipc_session_pause_def ipc_session_resume_def ipc_session_delete_def Let_def
  by (intro allI with_session_ok; simp add: session_missing_def ph_wf_ops ph_wf_resumes respawn_session_ok wake_session_ok;
      auto intro: ph_wf_pair [OF ph_wf_ops(5)] split: prod.splits)+

lemmas handlers_ok = spawn_ok pid_op_ok read_only_ok stores_ok files_ok snapshot_ok signal_ok session_ops_ok

lemma kernel_handlers_ok: "map_of (kernel_handlers env dr) m = Some h \<Longrightarrow> handler_ok h"
  by (drule map_of_SomeD) (auto simp: kernel_handlers_def handlers_ok)

interpretation kernel: rpc_server "kernel_handle_message env" "\<lambda>st. ph_wf (ks_proc st)" for env
proof
  fix dr and req :: json_rpc_request and st :: "('a, 'b, 'c, 'd, 'e, 'f, 'g) kernel_state"
  have ok: "answers (jr_id req) (fst (kernel_dispatch env dr (jr_method req) (jr_id req) (jr_params req) st)) \<and>
    (ph_wf (ks_proc st) \<longrightarrow> ph_wf (ks_proc (snd (kernel_dispatch env dr (jr_method req) (jr_id req) (jr_params req) st))))"
    by (cases "map_of (kernel_handlers env dr) (jr_method req)")
       (auto simp: kernel_dispatch_def handler_ok_def dest: kernel_handlers_ok)
  then show "\<exists>resp. fst (kernel_handle_message env dr (IpcRequest req) st) = Some resp \<and> answers (jr_id req) resp"
    by (auto simp: kernel_handle_message_def split: prod.splits)
  show "ph_wf (ks_proc st) \<Longrightarrow> ph_wf (ks_proc (snd (kernel_handle_message env dr (IpcRequest req) st)))"
    using ok by (auto simp: kernel_handle_message_def split: prod.splits)
qed (simp add: kernel_handle_message_def)


section \<open>Which methods exist\<close>

definition kernel_methods :: "string list" where
  "kernel_methods =
     map (\<lambda>op. ''kernel/proc/'' @ op)
       [''spawn'', ''list'', ''kill'', ''stat'', ''pause'', ''resume'', ''wait'', ''setcap'', ''list-installed'',
        ''invocation-list'', ''invocation-conversation'', ''invocation-get'', ''invocation-snapshot'', ''message-create'',
        ''message-get'', ''message-list'', ''part-create'', ''part-get'', ''part-list'', ''session/list'', ''session/get'',
        ''session/pause'', ''session/resume'', ''session/delete'', ''package/install-agent'', ''package/uninstall-agent'',
        ''package/install-service'', ''package/uninstall-service''] @
     [''kernel/sys/service-list'', ''kernel/sys/tool-list'', ''kernel/signal/send'', ''fs/read'', ''fs/write'', ''fs/list'',
      ''fs/exists'', ''fs/delete'']"

lemma kernel_handler_names: "map fst (kernel_handlers env dr) = kernel_methods"
  by (simp add: kernel_handlers_def kernel_methods_def)

lemma kernel_known_iff: "map_of (kernel_handlers env dr) m = None \<longleftrightarrow> m \<notin> set kernel_methods"
  unfolding kernel_handler_names [of env dr, symmetric] by (simp add: map_of_eq_None_iff)

lemma kernel_unknown: "m \<notin> set kernel_methods \<Longrightarrow>
    kernel_dispatch env dr m i params st = (response_err i (- 32601) (''unknown kernel method: '' @ m) None, st)"
  by (simp add: kernel_dispatch_def flip: kernel_known_iff [of env dr])

lemma kernel_unknown_iff:
  "error_code (fst (kernel_dispatch env dr m i params st)) = Some (- 32601) \<longleftrightarrow> m \<notin> set kernel_methods"
proof (cases "map_of (kernel_handlers env dr) m")
  case (Some h)
  then have "m \<in> set kernel_methods" using kernel_known_iff [of env dr m] by simp
  with Some show ?thesis using kernel_handlers_ok [OF Some] by (simp add: kernel_dispatch_def handler_ok_def)
qed (simp add: kernel_known_iff kernel_unknown)

section \<open>Ownership of sessions\<close>

text \<open>The parameter that names the session, by method.\<close>

definition session_methods :: "(string \<times> string) list" where
  "session_methods = [(''kernel/proc/session/get'', ''id''), (''kernel/proc/session/pause'', ''session_id''),
     (''kernel/proc/session/resume'', ''session_id''), (''kernel/proc/session/delete'', ''session_id'')]"

lemma session_dispatch:
  assumes "(m, key) \<in> set session_methods"
  shows "\<exists>missing body. kernel_dispatch env dr m i params st = with_session env key missing body i params st"
proof -
  from assms consider "m = ''kernel/proc/session/get'' \<and> key = ''id''" | "m = ''kernel/proc/session/pause'' \<and> key = ''session_id''"
    | "m = ''kernel/proc/session/resume'' \<and> key = ''session_id''" | "m = ''kernel/proc/session/delete'' \<and> key = ''session_id''"
    by (auto simp: session_methods_def)
  then show ?thesis
    by cases (auto simp: kernel_dispatch_def kernel_handlers_def ipc_session_get_def ipc_session_pause_def ipc_session_resume_def
        ipc_session_delete_def Let_def intro!: exI)
qed

lemma session_refused:
  assumes "(m, key) \<in> set session_methods"
    and "px_uuid (kx_proc env) (str_param key [] params) = Inr uuid"
    and "ph_get_session (kx_proc env) uuid (ks_proc st) = Inr (Some session)"
    and "\<not> session_ownership_ok (sr_username session) (str_param ''caller_identity'' [] params) (bool_param ''is_privileged'' False params)"
  shows "kernel_dispatch env dr m i params st = (eperm_reply i, st)"
  using session_dispatch [OF assms(1), of env dr i params st] assms(2-) by (auto simp: with_session_def Let_def)

end
