(* ===== verification/Gateway_Server.thy ===== *)
theory Gateway_Server
  imports Kernel_Ipc Hil Pipes Event_Bus
begin

text \<open>
  The gateway behind its command validation: the handlers of the twelve ATP domains
  (\<^verbatim>\<open>gateway/handlers\<close>), the router that carries their calls to the kernel, login, and a
  WebSocket connection with its frames and keep-alive (\<^verbatim>\<open>gateway/server.rs\<close>).

  A handler gets the validated command and the context it shares with the other connections (token store,
  authentication service, approval manager, the kernel behind the router); \<open>None\<close> is a panic.  The router is a
  function from method and parameters, as the trait \<^verbatim>\<open>IpcRouter\<close> is, with the live, the null and
  the test implementation below it.

  The lemmas compose gateway and kernel: what a user can do to a session of another user, which commands
  reach a kernel handler at all, under which name an agent is spawned, when a handler panics, and that
  the keep-alive never ends a connection.
\<close>

section \<open>Router and context\<close>

type_synonym 'k ipc_router = "string \<Rightarrow> json \<Rightarrow> 'k \<Rightarrow> (atp_error + json) \<times> 'k"

record 'k handler_ctx =
  hc_kernel :: 'k
  hc_tokens :: atp_token_store
  hc_auth :: auth_service
  hc_hil :: "hil_manager option"

record 'k handler_env =
  hx_ipc :: "'k ipc_router"
  hx_codec :: token_codec
  hx_now :: datetime
  hx_rfc3339 :: "datetime \<Rightarrow> string"
  hx_hil :: hil_env
  hx_lock_free :: bool
  hx_pipe_of :: "json \<Rightarrow> string + sig_pipe_payload"
  hx_pipe_json :: "sig_pipe_payload \<Rightarrow> string + json"
  hx_base64 :: "string \<Rightarrow> string option"

definition ipc_code_to_atp :: "string \<Rightarrow> int \<Rightarrow> atp_error_code" where
  "ipc_code_to_atp msg code =
     (if code = - 32003 then AEnotfound
      else if code = - 32002 then AEperm
      else if contains_str msg ''not found'' \<or> contains_str msg ''ENOENT'' then AEnotfound
      else if contains_str msg ''permission'' \<or> contains_str msg ''EPERM'' then AEperm
      else if contains_str msg ''conflict'' \<or> contains_str msg ''ECONFLICT'' then AEconflict
      else if contains_str msg ''unavailable'' \<or> contains_str msg ''EUNAVAIL'' then AEunavail
      else AEinternal)"

text \<open>The live router: \<open>transport\<close> is the client's call over a fresh connection, \<open>uuid\<close> the fresh request id.\<close>

definition live_call :: "(json_rpc_request \<Rightarrow> 'k \<Rightarrow> json_rpc_response avix_result \<times> 'k) \<Rightarrow> string \<Rightarrow> 'k ipc_router" where
  "live_call transport uuid method params k =
     (case transport \<lparr> jr_jsonrpc = ''2.0'', jr_id = uuid, jr_method = method, jr_params = params \<rparr> k of
        (Inl e, k') \<Rightarrow> (Inl (atp_error_new AEunavail (error_display e)), k')
      | (Inr resp, k') \<Rightarrow>
          (case jp_error resp of
             Some err \<Rightarrow> Inl (atp_error_new (ipc_code_to_atp (je_message err) (je_code err)) (je_message err))
           | None \<Rightarrow> Inr (unwrap_or JNull (jp_result resp)), k'))"

definition null_call :: "'k ipc_router" where
  "null_call method params k = (Inl (atp_error_new AEunavail ''kernel IPC not configured''), k)"

section \<open>The test router\<close>

text \<open>The stand-in for a kernel that the server also falls back to when no socket is configured.\<close>

record test_proc =
  tpr_pid :: u64
  tpr_name :: string
  tpr_goal :: string
  tpr_is_agent :: bool

record test_router =
  trt_bus :: atp_event_bus
  trt_procs :: "(u64, test_proc) hmap"

fun is_json_str :: "json \<Rightarrow> bool" where
  "is_json_str (JStr _) = True"
| "is_json_str _ = False"

definition test_publish :: "bool \<Rightarrow> datetime \<Rightarrow> atp_event_kind \<Rightarrow> json \<Rightarrow> test_router \<Rightarrow> test_router" where
  "test_publish lk now kind body t =
     t\<lparr> trt_bus := publish lk (atp_event_new now kind ''test-session'' body) None User (trt_bus t) \<rparr>"

definition test_spawn :: "bool \<Rightarrow> datetime \<Rightarrow> u64 \<Rightarrow> json \<Rightarrow> test_router \<Rightarrow> (atp_error + json) \<times> test_router" where
  "test_spawn lk now p params t =
     (let is_agent = is_json_str (json_index params ''agent'');
          name = (if is_agent then str_param ''agent'' ''agent'' params else str_param ''name'' ''proc'' params);
          goal = str_param ''goal'' [] params;
          cmd = (case json_index params ''cmd'' of JArr vs \<Rightarrow> vs | _ \<Rightarrow> []);
          t1 = t\<lparr> trt_procs := hm_insert p \<lparr> tpr_pid = p, tpr_name = name, tpr_goal = goal, tpr_is_agent = is_agent \<rparr> (trt_procs t) \<rparr>;
          t2 = (if is_agent
                then test_publish lk now EvAgentSpawned (JObj [(''pid'', pid_str p), (''name'', JStr name), (''goal'', JStr goal)]) t1
                else test_publish lk now ProcStart (JObj [(''pid'', pid_str p), (''cmd'', JArr cmd), (''name'', JStr name)]) t1);
          strs = List.map_filter as_str cmd;
          t3 = (case strs of
                  c # rest \<Rightarrow>
                    if c = ''echo'' then
                      test_publish lk now ProcOutput
                        (JObj [(''pid'', pid_str p), (''text'', JStr (case rest of [] \<Rightarrow> [] | out # _ \<Rightarrow> out))]) t2
                    else t2
                | [] \<Rightarrow> t2)
      in (Inr (JObj [(''pid'', pid_str p), (''status'', JStr ''running'')]), t3))"

definition test_proc_json :: "test_proc \<Rightarrow> json" where
  "test_proc_json p = JObj [(''pid'', JNum (uint (tpr_pid p))), (''name'', JStr (tpr_name p)), (''goal'', JStr (tpr_goal p)),
     (''status'', JStr ''running'')]"

definition test_kill :: "bool \<Rightarrow> datetime \<Rightarrow> json \<Rightarrow> test_router \<Rightarrow> (atp_error + json) \<times> test_router" where
  "test_kill lk now params t =
     (let p = pid_param params;
          is_agent = unwrap_or False (map_option tpr_is_agent (hm_get (trt_procs t) p));
          t1 = t\<lparr> trt_procs := hm_remove p (trt_procs t) \<rparr>
      in (Inr ok_json, test_publish lk now (if is_agent then AgentExit else ProcExit)
                         (JObj [(''pid'', pid_str p), (''exitCode'', JNum 0)]) t1))"

definition test_call :: "bool \<Rightarrow> datetime \<Rightarrow> u64 \<Rightarrow> test_router ipc_router" where
  "test_call lk now p method params t =
     (if method = ''kernel/proc/spawn'' then test_spawn lk now p params t
      else if method = ''kernel/proc/list'' then (Inr (JArr (map test_proc_json (hm_values (trt_procs t)))), t)
      else if method = ''kernel/proc/kill'' then test_kill lk now params t
      else if method = ''kernel/proc/stat'' then
        (case hm_get (trt_procs t) (pid_param params) of
           Some q \<Rightarrow> (Inr (test_proc_json q), t)
         | None \<Rightarrow> (Inl (atp_error_new AEnotfound (''proc '' @ show_word (pid_param params) @ '' not found'')), t))
      else (Inl (atp_error_new AEunavail (''test IPC: no handler for '' @ quoted method)), t))"

section \<open>The domains\<close>

text \<open>\<^verbatim>\<open>body["k"] = v\<close>: an object gets the key, null becomes an object, anything else panics.\<close>

definition json_assign :: "string \<Rightarrow> json \<Rightarrow> json \<Rightarrow> json option" where
  "json_assign k v body =
     (case body of JObj m \<Rightarrow> Some (JObj (hm_insert k v m)) | JNull \<Rightarrow> Some (JObj [(k, v)]) | _ \<Rightarrow> None)"

type_synonym 'k handled = "(atp_reply \<times> 'k handler_ctx) option"

definition ipc_forward :: "'k handler_env \<Rightarrow> string \<Rightarrow> string \<Rightarrow> json \<Rightarrow> 'k handler_ctx \<Rightarrow> 'k handled" where
  "ipc_forward env i method params ctx =
     (case hx_ipc env method params (hc_kernel ctx) of
        (res, k) \<Rightarrow> Some (case res of Inr v \<Rightarrow> reply_ok i v | Inl e \<Rightarrow> reply_err i e, ctx\<lparr> hc_kernel := k \<rparr>))"

definition unknown_op :: "string \<Rightarrow> string \<Rightarrow> atp_reply" where
  "unknown_op i op = reply_err i (atp_error_new AEparse (''unknown op '' @ quoted op))"

text \<open>A domain that only forwards the operations of a list.\<close>

definition forward_ops :: "'k handler_env \<Rightarrow> string list \<Rightarrow> string \<Rightarrow> validated_cmd \<Rightarrow> 'k handler_ctx \<Rightarrow> 'k handled" where
  "forward_ops env ops path v ctx =
     (let c = vl_cmd v
      in if cmd_op c \<in> set ops then ipc_forward env (cmd_id c) (path @ cmd_op c) (cmd_body c) ctx
         else Some (unknown_op (cmd_id c) (cmd_op c), ctx))"

definition auth_handle :: "'k handler_env \<Rightarrow> validated_cmd \<Rightarrow> 'k handler_ctx \<Rightarrow> 'k handled" where
  "auth_handle env v ctx =
     (let c = vl_cmd v; i = cmd_id c; op = cmd_op c
      in if op = ''whoami'' then
           Some (reply_ok i (JObj [(''identity'', JStr (vl_caller_identity v)), (''role'', JStr (role_display (vl_caller_role v))),
                   (''sessionId'', JStr (vl_caller_session_id v))]), ctx)
         else if op = ''refresh'' then
           (case refresh_token (hx_codec env) (hx_now env) (hc_tokens ctx) (cmd_token c) (hc_auth ctx) of
              Inr (tok, claims) \<Rightarrow>
                Some (reply_ok i (JObj [(''token'', JStr tok), (''expiresAt'', JStr (hx_rfc3339 env (tk_exp claims)))]), ctx)
            | Inl e \<Rightarrow> Some (reply_err i (atp_error_new AEauth (error_display e)), ctx))
         else if op = ''logout'' then
           Some (reply_ok i (JObj []),
                 ctx\<lparr> hc_tokens := token_store_revoke (vl_caller_session_id v) (hc_tokens ctx),
                      hc_auth := (case revoke_session (vl_caller_session_id v) (hc_auth ctx) of Inl _ \<Rightarrow> hc_auth ctx | Inr a \<Rightarrow> a) \<rparr>)
         else if op = ''sessions'' \<or> op = ''kick'' then ipc_forward env i (''kernel/auth/'' @ op) (cmd_body c) ctx
         else Some (unknown_op i op, ctx))"

definition username_or_caller :: "validated_cmd \<Rightarrow> json \<Rightarrow> json option" where
  "username_or_caller v body =
     (if str_param ''username'' [] body = [] then json_assign ''username'' (JStr (vl_caller_identity v)) body else Some body)"

definition spawn_body :: "validated_cmd \<Rightarrow> json \<Rightarrow> json option" where
  "spawn_body v body =
     (case (if str_param ''caller'' [] body = [] then json_assign ''caller'' (JStr (vl_caller_identity v)) body else Some body) of
        Some (JObj m) \<Rightarrow>
          json_assign ''atp_session_id'' (JStr (vl_caller_session_id v))
            (JObj (if hm_get m ''session_id'' = None then hm_insert ''session_id'' (JStr []) m else m))
      | _ \<Rightarrow> None)"

definition is_privileged :: "validated_cmd \<Rightarrow> bool" where
  "is_privileged v \<longleftrightarrow> vl_caller_role v = Operator \<or> vl_caller_role v = Admin"

definition session_body :: "validated_cmd \<Rightarrow> json \<Rightarrow> json option" where
  "session_body v body =
     Option.bind (json_assign ''caller_identity'' (JStr (vl_caller_identity v)) body)
       (json_assign ''is_privileged'' (JBool (is_privileged v)))"

definition proc_plain_ops :: "string list" where
  "proc_plain_ops = [''kill'', ''list'', ''stat'', ''pause'', ''resume'', ''wait'', ''setcap'', ''invocation-get'',
     ''invocation-conversation'', ''invocation-snapshot'', ''message-create'', ''message-get'', ''message-list'', ''part-create'',
     ''part-get'', ''part-list'']"

definition proc_package_ops :: "string list" where
  "proc_package_ops = [''package/install-agent'', ''package/uninstall-agent'', ''package/install-service'', ''package/uninstall-service'']"

definition forward_body :: "'k handler_env \<Rightarrow> string \<Rightarrow> string \<Rightarrow> json option \<Rightarrow> 'k handler_ctx \<Rightarrow> 'k handled" where
  "forward_body env i method body ctx = Option.bind body (\<lambda>b. ipc_forward env i method b ctx)"

definition proc_handle :: "'k handler_env \<Rightarrow> validated_cmd \<Rightarrow> 'k handler_ctx \<Rightarrow> 'k handled" where
  "proc_handle env v ctx =
     (let c = vl_cmd v; i = cmd_id c; op = cmd_op c; body = cmd_body c
      in if op = ''list-installed'' \<or> op = ''invocation-list'' then
           forward_body env i (''kernel/proc/'' @ op) (username_or_caller v body) ctx
         else if op = ''spawn'' then forward_body env i ''kernel/proc/spawn'' (spawn_body v body) ctx
         else if op \<in> set proc_plain_ops then ipc_forward env i (''kernel/proc/'' @ op) body ctx
         else if op = ''session-list'' then forward_body env i ''kernel/proc/session/list'' (username_or_caller v body) ctx
         else if op \<in> {''session-get'', ''session-pause'', ''session-resume'', ''session-delete''} then
           forward_body env i (''kernel/proc/'' @ str_replace ''-'' ''/'' op) (session_body v body) ctx
         else if op \<in> set proc_package_ops then
           forward_body env i (''kernel/proc/'' @ op) (json_assign ''caller_identity'' (JStr (vl_caller_identity v)) body) ctx
         else Some (unknown_op i op, ctx))"

definition valid_signals :: "string list" where
  "valid_signals = [''SIGSTART'', ''SIGPAUSE'', ''SIGRESUME'', ''SIGKILL'', ''SIGSTOP'', ''SIGSAVE'', ''SIGPIPE'', ''SIGESCALATE'']"

definition avix_err_to_atp :: "avix_error \<Rightarrow> atp_error" where
  "avix_err_to_atp e =
     (if contains_str (error_display e) ''EUSED'' then atp_error_new AEused ''approval token already consumed''
      else atp_error_new AEinternal (error_display e))"

text \<open>A resume that carries an approval token goes to the approval manager instead of the kernel.\<close>

definition resolve_approval :: "'k handler_env \<Rightarrow> string \<Rightarrow> json \<Rightarrow> string \<Rightarrow> 'k handler_ctx \<Rightarrow> 'k handled" where
  "resolve_approval env i payload tok ctx =
     (case Option.bind (json_get payload ''hilId'') as_str of
        None \<Rightarrow> Some (reply_err i (atp_error_new AEparse (''SIGRESUME with approvalToken requires '' @ quoted ''hilId'' @ '' in payload'')), ctx)
      | Some hil_id \<Rightarrow>
          (case hc_hil ctx of
             None \<Rightarrow> Some (reply_err i (atp_error_new AEunavail ''HIL manager not configured''), ctx)
           | Some m \<Rightarrow>
               (case hil_resolve (hx_hil env) (hx_lock_free env) (hx_now env) hil_id tok (str_param ''decision'' ''denied'' payload) [] m of
                  (res, m') \<Rightarrow>
                    Some (case res of Inr _ \<Rightarrow> reply_ok i ok_json | Inl e \<Rightarrow> reply_err i (avix_err_to_atp e),
                          ctx\<lparr> hc_hil := Some m' \<rparr>))))"

fun is_json_num :: "json \<Rightarrow> bool" where
  "is_json_num (JNum _) = True"
| "is_json_num _ = False"

definition send_pipe :: "'k handler_env \<Rightarrow> string \<Rightarrow> json \<Rightarrow> 'k handler_ctx \<Rightarrow> 'k handled" where
  "send_pipe env i body ctx =
     (case hx_pipe_of env (unwrap_or (JObj []) (json_get body ''payload'')) of
        Inl e \<Rightarrow> Some (reply_err i (atp_error_new AEparse (''invalid SIGPIPE payload: '' @ e)), ctx)
      | Inr pp \<Rightarrow>
          (case sigpipe_validate (hx_base64 env) pp of
             Inl e \<Rightarrow> Some (reply_err i (atp_error_new AEparse e), ctx)
           | Inr _ \<Rightarrow>
               (case hx_pipe_json env pp of
                  Inl e \<Rightarrow> Some (reply_err i (atp_error_new AEinternal e), ctx)
                | Inr pv \<Rightarrow>
                    ipc_forward env i ''kernel/signal/send''
                      (JObj [(''signal'', JStr ''SIGPIPE''),
                             (''pid'', if is_json_num (json_index body ''pid'') then json_index body ''pid'' else JNum 0),
                             (''payload'', pv)]) ctx)))"

definition handle_send :: "'k handler_env \<Rightarrow> string \<Rightarrow> json \<Rightarrow> 'k handler_ctx \<Rightarrow> 'k handled" where
  "handle_send env i body ctx =
     (case as_str (json_index body ''signal'') of
        None \<Rightarrow> Some (reply_err i (atp_error_new AEparse (''missing '' @ quoted ''signal'' @ '' field'')), ctx)
      | Some sig \<Rightarrow>
          if sig \<notin> set valid_signals then
            Some (reply_err i (atp_error_new AEparse (''unknown signal '' @ quoted sig @ ''; valid: '' @ join_str '', '' valid_signals)), ctx)
          else
            (let payload = unwrap_or (JObj []) (json_get body ''payload'')
             in (case (if sig = ''SIGRESUME'' then Option.bind (json_get payload ''approvalToken'') as_str else None) of
                   Some tok \<Rightarrow> resolve_approval env i payload tok ctx
                 | None \<Rightarrow>
                     if sig = ''SIGPIPE'' then send_pipe env i body ctx
                     else ipc_forward env i ''kernel/signal/send'' body ctx)))"

definition signal_handle :: "'k handler_env \<Rightarrow> validated_cmd \<Rightarrow> 'k handler_ctx \<Rightarrow> 'k handled" where
  "signal_handle env v ctx =
     (let c = vl_cmd v
      in if cmd_op c = ''send'' then handle_send env (cmd_id c) (cmd_body c) ctx
         else forward_ops env [''subscribe'', ''unsubscribe'', ''list''] ''kernel/signal/'' v ctx)"

definition fs_handle :: "'k handler_env \<Rightarrow> validated_cmd \<Rightarrow> 'k handler_ctx \<Rightarrow> 'k handled" where
  "fs_handle env v ctx =
     (let c = vl_cmd v
      in if cmd_op c \<in> {''read'', ''stat'', ''watch''} \<and>
            (case as_str (json_index (cmd_body c) ''path'') of Some path \<Rightarrow> starts_with path ''/secrets/'' | None \<Rightarrow> False)
         then Some (reply_err (cmd_id c) (atp_error_new AEperm (''reads from '' @ quoted ''/secrets/'' @ '' are forbidden'')), ctx)
         else forward_ops env [''read'', ''write'', ''list'', ''stat'', ''watch'', ''unwatch''] ''kernel/fs/'' v ctx)"

definition users_handle :: "'k handler_env \<Rightarrow> validated_cmd \<Rightarrow> 'k handler_ctx \<Rightarrow> 'k handled" where
  "users_handle env v ctx =
     (let c = vl_cmd v; i = cmd_id c
      in if cmd_op c = ''get'' then
           (case (if vl_caller_role v < Operator then as_str (json_index (cmd_body c) ''username'') else None) of
              Some requested \<Rightarrow>
                if requested \<noteq> vl_caller_identity v then
                  Some (reply_err i (atp_error_new AEperm (quoted (vl_caller_identity v) @ '' may not fetch user '' @ quoted requested)), ctx)
                else ipc_forward env i ''kernel/users/get'' (cmd_body c) ctx
            | None \<Rightarrow> ipc_forward env i ''kernel/users/get'' (cmd_body c) ctx)
         else forward_ops env [''list'', ''create'', ''update'', ''delete'', ''passwd''] ''kernel/users/'' v ctx)"

definition cap_handle :: "'k handler_env \<Rightarrow> validated_cmd \<Rightarrow> 'k handler_ctx \<Rightarrow> 'k handled" where
  "cap_handle env v ctx =
     (let c = vl_cmd v
      in if cmd_op c = ''policy/get'' then ipc_forward env (cmd_id c) ''kernel/cap/policy_get'' (cmd_body c) ctx
         else if cmd_op c = ''policy/set'' then ipc_forward env (cmd_id c) ''kernel/cap/policy_set'' (cmd_body c) ctx
         else forward_ops env [''inspect'', ''grant'', ''revoke''] ''kernel/cap/'' v ctx)"

definition session_handle :: "validated_cmd \<Rightarrow> 'k handler_ctx \<Rightarrow> 'k handled" where
  "session_handle v ctx =
     (let c = vl_cmd v
      in Some (if cmd_op c = ''ready'' then reply_ok (cmd_id c) (JStr ''ack'') else unknown_op (cmd_id c) (cmd_op c), ctx))"

definition snap_handle :: "'k handler_env \<Rightarrow> validated_cmd \<Rightarrow> 'k handler_ctx \<Rightarrow> 'k handled" where
  "snap_handle env v ctx = forward_ops env [''create'', ''list'', ''restore'', ''delete'']
     ''kernel/snap/'' v ctx"

definition cron_handle :: "'k handler_env \<Rightarrow> validated_cmd \<Rightarrow> 'k handler_ctx \<Rightarrow> 'k handled" where
  "cron_handle env v ctx = forward_ops env [''list'', ''add'', ''remove'', ''pause'', ''resume'']
     ''kernel/cron/'' v ctx"

definition crews_handle :: "'k handler_env \<Rightarrow> validated_cmd \<Rightarrow> 'k handler_ctx \<Rightarrow> 'k handled" where
  "crews_handle env v ctx = forward_ops env [''list'', ''get'', ''create'', ''update'', ''delete'', ''join'', ''leave'']
     ''kernel/crews/'' v ctx"

definition sys_handle :: "'k handler_env \<Rightarrow> validated_cmd \<Rightarrow> 'k handler_ctx \<Rightarrow> 'k handled" where
  "sys_handle env v ctx = forward_ops env [''status'', ''reload'', ''shutdown'', ''restart'', ''logs'', ''install'', ''uninstall'', ''update'',
       ''service-list'', ''tool-list'']
     ''kernel/sys/'' v ctx"

definition pipe_handle :: "'k handler_env \<Rightarrow> validated_cmd \<Rightarrow> 'k handler_ctx \<Rightarrow> 'k handled" where
  "pipe_handle env v ctx = forward_ops env [''open'', ''close'', ''list'']
     ''kernel/pipe/'' v ctx"

lemmas forwarding_handles = snap_handle_def cron_handle_def crews_handle_def sys_handle_def pipe_handle_def

definition gateway_dispatch :: "'k handler_env \<Rightarrow> validated_cmd \<Rightarrow> 'k handler_ctx \<Rightarrow> 'k handled" where
  "gateway_dispatch env v ctx =
     (case cmd_domain (vl_cmd v) of
        DAuth \<Rightarrow> auth_handle env v ctx
      | DProc \<Rightarrow> proc_handle env v ctx
      | DSignal \<Rightarrow> signal_handle env v ctx
      | DFs \<Rightarrow> fs_handle env v ctx
      | DSnap \<Rightarrow> snap_handle env v ctx
      | DCron \<Rightarrow> cron_handle env v ctx
      | DUsers \<Rightarrow> users_handle env v ctx
      | DCrews \<Rightarrow> crews_handle env v ctx
      | DCap \<Rightarrow> cap_handle env v ctx
      | DSys \<Rightarrow> sys_handle env v ctx
      | DPipe \<Rightarrow> pipe_handle env v ctx
      | DSession \<Rightarrow> session_handle v ctx)"

section \<open>Login and connection\<close>

definition hours :: "int \<Rightarrow> int" where
  "hours n = n * 3600 * one_second"

text \<open>Status code and body.  A token that cannot be issued leaves the new session open.\<close>

definition handle_login ::
  "'k handler_env \<Rightarrow> datetime \<Rightarrow> string \<Rightarrow> string \<Rightarrow> string \<Rightarrow> 'k handler_ctx \<Rightarrow> (nat \<times> json) \<times> 'k handler_ctx" where
  "handle_login env now uuid identity credential ctx =
     (case login (hx_codec env) (hx_now env) uuid identity credential (hc_auth ctx) of
        Inl _ \<Rightarrow> ((401, JObj [(''error'', JStr ''EAUTH''), (''message'', JStr ''invalid credential'')]), ctx)
      | Inr (session, auth) \<Rightarrow>
          (let claims = \<lparr> tk_sub = se_identity_name session, tk_uid = se_uid session, tk_role = se_role session,
                          tk_crews = se_crews session, tk_session_id = se_session_id session, tk_iat = now,
                          tk_exp = now + hours 8, tk_scope = se_scope session \<rparr>;
               ctx' = ctx\<lparr> hc_auth := auth \<rparr>
           in (case token_store_issue (hx_codec env) (hc_tokens ctx) claims of
                 Inr tok \<Rightarrow> ((200, JObj [(''token'', JStr tok), (''expiresAt'', JStr (hx_rfc3339 env (now + hours 8))),
                                         (''sessionId'', JStr (se_session_id session))]), ctx')
               | Inl _ \<Rightarrow> ((500, JNull), ctx'))))"

definition handle_ws_upgrade ::
  "'k handler_env \<Rightarrow> string option \<Rightarrow> 'k handler_ctx \<Rightarrow> (nat \<times> json) + (string \<times> role)" where
  "handle_ws_upgrade env authorization ctx =
     (case Option.bind authorization (strip_prefix ''Bearer '') of
        None \<Rightarrow> Inl (401, JObj [(''error'', JStr ''EAUTH''), (''message'', JStr ''missing Authorization header'')])
      | Some tok \<Rightarrow>
          (case token_store_validate (hx_codec env) (hx_now env) (hc_tokens ctx) tok of
             Inl _ \<Rightarrow> Inl (401, JObj [(''error'', JStr ''EAUTH''), (''message'', JStr ''invalid or expired token'')])
           | Inr claims \<Rightarrow> Inr (tk_session_id claims, tk_role claims)))"

datatype ws_out = WsText string | WsPing

record frame_env =
  fx_json :: "string \<Rightarrow> string + json"
  fx_event :: "atp_event \<Rightarrow> string + string"
  fx_reply :: "atp_reply \<Rightarrow> string + string"

record 'k connection =
  cn_ctx :: "'k handler_ctx"
  cn_replay :: replay_guard
  cn_filter :: event_filter
  cn_out :: "ws_out list"

definition ws_send :: "string + string \<Rightarrow> 'k connection \<Rightarrow> 'k connection" where
  "ws_send text cn = (case text of Inr s \<Rightarrow> cn\<lparr> cn_out := cn_out cn @ [WsText s] \<rparr> | Inl _ \<Rightarrow> cn)"

definition open_connection :: "frame_env \<Rightarrow> datetime \<Rightarrow> string \<Rightarrow> role \<Rightarrow> 'k handler_ctx \<Rightarrow> 'k connection" where
  "open_connection fx now sid r ctx =
     ws_send (fx_event fx (atp_event_new now SessionReady sid (JObj [(''sessionId'', JStr sid)])))
       \<lparr> cn_ctx = ctx, cn_replay = {}, cn_filter = event_filter_new sid r, cn_out = [] \<rparr>"

definition handle_cmd_frame ::
  "frame_env \<Rightarrow> 'k handler_env \<Rightarrow> bool \<Rightarrow> string \<Rightarrow> atp_cmd \<Rightarrow> 'k connection \<Rightarrow> 'k connection option" where
  "handle_cmd_frame fx env admin sid cmd cn =
     (case validate_cmd (hx_codec env) (hx_now env) (hc_tokens (cn_ctx cn)) sid admin cmd (cn_replay cn) of
        (Inl e, seen) \<Rightarrow> Some (ws_send (fx_reply fx (reply_err (cmd_id cmd) e)) (cn\<lparr> cn_replay := seen \<rparr>))
      | (Inr v, seen) \<Rightarrow>
          (let cn1 = cn\<lparr> cn_replay := seen \<rparr>;
               cn2 = (case token_store_expiring_soon (hx_codec env) (hx_now env) (hc_tokens (cn_ctx cn1)) (cmd_token (vl_cmd v)) of
                        Inr True \<Rightarrow> ws_send (fx_event fx (atp_event_new (hx_now env) TokenExpiring sid (JObj []))) cn1
                      | _ \<Rightarrow> cn1)
           in (case gateway_dispatch env v (cn_ctx cn2) of
                 None \<Rightarrow> None
               | Some (reply, ctx) \<Rightarrow> Some (ws_send (fx_reply fx reply) (cn2\<lparr> cn_ctx := ctx \<rparr>)))))"

definition handle_subscribe_frame :: "frame_env \<Rightarrow> atp_event_bus \<Rightarrow> atp_subscribe \<Rightarrow> 'k connection \<Rightarrow> 'k connection" where
  "handle_subscribe_frame fx bus sub cn =
     (let cn1 = cn\<lparr> cn_filter := set_subscriptions (sub_events sub) (cn_filter cn) \<rparr>
      in (case sub_since_seq sub of
            None \<Rightarrow> cn1
          | Some seq \<Rightarrow> fold (\<lambda>be. ws_send (fx_event fx (be_event be)))
                          (filter (should_receive (cn_filter cn1)) (replay_since seq bus)) cn1))"

definition handle_text_frame ::
  "frame_env \<Rightarrow> 'k handler_env \<Rightarrow> bool \<Rightarrow> string \<Rightarrow> atp_event_bus \<Rightarrow> string \<Rightarrow> 'k connection \<Rightarrow> 'k connection option" where
  "handle_text_frame fx env admin sid bus txt cn =
     (case frame_parse (fx_json fx) txt of
        Inr (FrameCmd cmd) \<Rightarrow> handle_cmd_frame fx env admin sid cmd cn
      | Inr (FrameSubscribe sub) \<Rightarrow> Some (handle_subscribe_frame fx bus sub cn)
      | Inl _ \<Rightarrow> Some cn)"

definition pump_event :: "frame_env \<Rightarrow> bus_event \<Rightarrow> 'k connection \<Rightarrow> 'k connection" where
  "pump_event fx be cn = (if should_receive (cn_filter cn) be then ws_send (fx_event fx (be_event be)) cn else cn)"

text \<open>
  The reader loop over the timed inputs of a connection: frames, pongs, a close, ticks of the ping interval.  \<open>last_pong\<close> is
  the local variable of that name.
\<close>

datatype ws_in = InText string | InPong | InClose | InOther | InTick

datatype conn_end = ClosedByPeer | PingTimeout | Panicked | StillOpen

fun reader_loop ::
  "(string \<Rightarrow> 'k connection \<Rightarrow> 'k connection option) \<Rightarrow> (datetime \<times> ws_in) list \<Rightarrow> datetime \<Rightarrow> 'k connection \<Rightarrow>
   conn_end \<times> 'k connection" where
  "reader_loop frame [] last_pong cn = (StillOpen, cn)"
| "reader_loop frame ((t, InText s) # es) last_pong cn =
     (case frame s cn of None \<Rightarrow> (Panicked, cn) | Some cn' \<Rightarrow> reader_loop frame es last_pong cn')"
| "reader_loop frame ((t, InPong) # es) last_pong cn = reader_loop frame es t cn"
| "reader_loop frame ((t, InClose) # es) last_pong cn = (ClosedByPeer, cn)"
| "reader_loop frame ((t, InOther) # es) last_pong cn = reader_loop frame es last_pong cn"
| "reader_loop frame ((t, InTick) # es) last_pong cn =
     (if t - last_pong > 40 * one_second then (PingTimeout, cn)
      else reader_loop frame es t (cn\<lparr> cn_out := cn_out cn @ [WsPing] \<rparr>))"

text \<open>The context the server builds for its handlers: it is given no approval manager.\<close>

definition server_ctx :: "'k \<Rightarrow> atp_token_store \<Rightarrow> auth_service \<Rightarrow> 'k handler_ctx" where
  "server_ctx k tokens auth = \<lparr> hc_kernel = k, hc_tokens = tokens, hc_auth = auth, hc_hil = None \<rparr>"

text \<open>Which router a listener gets; without any socket it is the test router, outside test mode too.\<close>

datatype router_choice = LiveRouter string | TestRouter

definition choose_router :: "bool \<Rightarrow> string option \<Rightarrow> string option \<Rightarrow> router_choice" where
  "choose_router test_mode kernel_sock env_sock =
     (if test_mode then TestRouter
      else (case kernel_sock of
              Some path \<Rightarrow> LiveRouter path
            | None \<Rightarrow> (case env_sock of Some path \<Rightarrow> LiveRouter path | None \<Rightarrow> TestRouter)))"

text \<open>One tick of the test mode's event emitter.\<close>

definition emitted_kinds :: "atp_event_kind list" where
  "emitted_kinds = [SessionReady, SessionClosing, TokenExpiring, AgentOutput, EvAgentStatus, AgentToolCall, AgentToolResult, AgentExit,
     ProcSignal, HilRequestEv, HilResolvedEv, FsChanged, ToolChanged, CronFired, SysService, SysAlert]"

definition test_emit :: "(nat \<Rightarrow> bool) \<Rightarrow> (nat \<Rightarrow> datetime) \<Rightarrow> atp_event_bus \<Rightarrow> atp_event_bus" where
  "test_emit lk now bus =
     fold (\<lambda>(j, kind) b.
       let (min_role, owner_scoped) = event_scope kind
       in publish (lk j) (atp_event_new (now j) kind ''test-emitter'' (JObj [(''test'', JBool True)]))
            (if owner_scoped then Some ''test-session'' else None) min_role b)
       (enumerate 0 emitted_kinds) bus"

section \<open>The gateway connected to the kernel\<close>

text \<open>A call that reaches the kernel's server: a request is always answered.\<close>

definition kernel_transport ::
  "('d, 'k, 's, 'y, 'h, 'v, 'p) kernel_env \<Rightarrow> kernel_draws \<Rightarrow> json_rpc_request \<Rightarrow> ('d, 'k, 's, 'y, 'h, 'v, 'p) kernel_state \<Rightarrow>
   json_rpc_response avix_result \<times> ('d, 'k, 's, 'y, 'h, 'v, 'p) kernel_state" where
  "kernel_transport kenv dr req st =
     (case kernel_handle_message kenv dr (IpcRequest req) st of
        (Some resp, st') \<Rightarrow> (Inr resp, st') | (None, st') \<Rightarrow> (Inl IpcTimeout, st'))"

definition kernel_ipc ::
  "('d, 'k, 's, 'y, 'h, 'v, 'p) kernel_env \<Rightarrow> kernel_draws \<Rightarrow> string \<Rightarrow> ('d, 'k, 's, 'y, 'h, 'v, 'p) kernel_state ipc_router" where
  "kernel_ipc kenv dr uuid = live_call (kernel_transport kenv dr) uuid"

definition atp_of_response :: "json_rpc_response \<Rightarrow> atp_error + json" where
  "atp_of_response resp =
     (case jp_error resp of
        Some err \<Rightarrow> Inl (atp_error_new (ipc_code_to_atp (je_message err) (je_code err)) (je_message err))
      | None \<Rightarrow> Inr (unwrap_or JNull (jp_result resp)))"

lemma atp_of_response_simps [simp]:
  "atp_of_response (response_ok i v) = Inr v"
  "atp_of_response (response_err i c msg d) = Inl (atp_error_new (ipc_code_to_atp msg c) msg)"
  by (simp_all add: atp_of_response_def response_ok_def response_err_def)

lemma kernel_ipc_eq:
  "kernel_ipc kenv dr uuid m params st =
     (case kernel_dispatch kenv dr m uuid params st of (resp, st') \<Rightarrow> (atp_of_response resp, st'))"
  by (simp add: kernel_ipc_def live_call_def kernel_transport_def kernel_handle_message_def atp_of_response_def split: prod.splits)

lemma json_index_assign:
  "json_assign k v b = Some b' \<Longrightarrow> json_index b' k' = (if k' = k then v else json_index b k')"
  by (auto simp: json_assign_def json_index_def split: json.splits)

lemma str_param_assign:
  "json_assign k v b = Some b' \<Longrightarrow> str_param k' d b' = (if k' = k then unwrap_or d (as_str v) else str_param k' d b)"
  "json_assign k v b = Some b' \<Longrightarrow> bool_param k' e b' = (if k' = k then unwrap_or e (as_bool v) else bool_param k' e b)"
  by (simp_all add: str_param_def bool_param_def json_index_assign)

definition assignable :: "json \<Rightarrow> bool" where
  "assignable body \<longleftrightarrow> (case body of JObj _ \<Rightarrow> True | JNull \<Rightarrow> True | _ \<Rightarrow> False)"

lemma json_assign_None: "json_assign k v body = None \<longleftrightarrow> \<not> assignable body"
  by (cases body) (simp_all add: json_assign_def assignable_def)

lemma json_assign_Some: "assignable body \<Longrightarrow> \<exists>m. json_assign k v body = Some (JObj m)"
  by (cases body) (simp_all add: json_assign_def assignable_def)

lemma assignable_obj [simp]: "assignable (JObj m)"
  by (simp add: assignable_def)

section \<open>Isolation of sessions\<close>

definition session_ops :: "(string \<times> string) list" where
  "session_ops = [(''session-get'', ''id''), (''session-pause'', ''session_id''), (''session-resume'', ''session_id''),
     (''session-delete'', ''session_id'')]"

lemma session_op_method:
  assumes "(op, key) \<in> set session_ops"
  shows "(''kernel/proc/'' @ str_replace ''-'' ''/'' op, key) \<in> set session_methods \<and> op \<notin> set proc_plain_ops \<and>
     op \<notin> {''list-installed'', ''invocation-list'', ''spawn'', ''session-list''} \<and>
     op \<in> {''session-get'', ''session-pause'', ''session-resume'', ''session-delete''} \<and> key \<notin> {''caller_identity'', ''is_privileged''}"
  using assms by (auto simp: session_ops_def session_methods_def proc_plain_ops_def str_replace_char)

text \<open>
  C3.  Sessions are private, end to end.  A validated command of a user below the operator role, under a non-empty identity, to read,
  pause, resume or delete a session that belongs to someone else is answered with a permission error; neither the kernel nor
  the gateway changes, and the client cannot talk its way past the check with its own values for the caller or the
  privilege, which the gateway overwrites.
\<close>

theorem gateway_session_isolation:
  assumes "cmd_domain (vl_cmd v) = DProc" and op: "(cmd_op (vl_cmd v), key) \<in> set session_ops"
    and role: "vl_caller_role v < Operator" and ident: "vl_caller_identity v \<noteq> []"
    and ipc: "hx_ipc env = kernel_ipc kenv dr uuid" and body: "assignable (cmd_body (vl_cmd v))"
    and "px_uuid (kx_proc kenv) (str_param key [] (cmd_body (vl_cmd v))) = Inr sid"
    and "ph_get_session (kx_proc kenv) sid (ks_proc (hc_kernel ctx)) = Inr (Some session)"
    and "sr_username session \<noteq> vl_caller_identity v"
  shows "gateway_dispatch env v ctx =
     Some (reply_err (cmd_id (vl_cmd v)) (atp_error_new AEperm ''EPERM: session belongs to another user''), ctx)"
proof -
  let ?op = "cmd_op (vl_cmd v)"
  note m = session_op_method [OF op]
  obtain m1 where b1: "json_assign ''caller_identity'' (JStr (vl_caller_identity v)) (cmd_body (vl_cmd v)) = Some (JObj m1)"
    using json_assign_Some [OF body] by blast
  obtain m2 where b2: "json_assign ''is_privileged'' (JBool (is_privileged v)) (JObj m1) = Some (JObj m2)"
    using json_assign_Some [OF assignable_obj] by blast
  have sb: "session_body v (cmd_body (vl_cmd v)) = Some (JObj m2)" by (simp add: session_body_def b1 b2)
  have "\<not> is_privileged v" using role by (auto simp: is_privileged_def less_le_not_le role_le_iff)
  then have "\<not> session_ownership_ok (sr_username session) (str_param ''caller_identity'' [] (JObj m2)) (bool_param ''is_privileged'' False (JObj m2))"
    and k: "str_param key [] (JObj m2) = str_param key [] (cmd_body (vl_cmd v))"
    using ident assms(9) m by (auto simp: session_ownership_ok_def str_param_assign [OF b2] str_param_assign [OF b1])
  with assms m have "kernel_dispatch kenv dr (''kernel/proc/'' @ str_replace ''-'' ''/'' ?op) uuid (JObj m2) (hc_kernel ctx) =
      (eperm_reply uuid, hc_kernel ctx)"
    by (intro session_refused [where key = key and uuid = sid and session = session]) (simp_all add: k)
  moreover have "ipc_code_to_atp ''EPERM: session belongs to another user'' (- 32001) = AEperm"
    by (simp add: ipc_code_to_atp_def)
  moreover have "gateway_dispatch env v ctx =
      ipc_forward env (cmd_id (vl_cmd v)) (''kernel/proc/'' @ str_replace ''-'' ''/'' ?op) (JObj m2) ctx"
    using assms(1) m by (simp add: gateway_dispatch_def proc_handle_def Let_def forward_body_def sb)
  ultimately show ?thesis
    by (simp add: ipc_forward_def ipc kernel_ipc_eq eperm_reply_def)
qed

section \<open>Which commands the kernel serves\<close>

lemma kernel_method_prefix:
  "m \<in> set kernel_methods \<Longrightarrow>
     starts_with m ''kernel/proc/'' \<or> starts_with m ''kernel/sys/'' \<or> starts_with m ''kernel/signal/'' \<or> starts_with m ''fs/''"
  by (auto simp: kernel_methods_def)

lemma forward_unknown:
  assumes "hx_ipc env = kernel_ipc kenv dr uuid" and "m \<notin> set kernel_methods"
  shows "\<exists>e. ipc_forward env i m params ctx = Some (reply_err i e, ctx)"
  using assms by (auto simp: ipc_forward_def kernel_ipc_eq kernel_unknown)

text \<open>A forwarding domain whose methods the kernel does not have.\<close>

lemma forward_ops_unserved:
  assumes "hx_ipc env = kernel_ipc kenv dr uuid" and "\<And>op. path @ op \<notin> set kernel_methods"
  shows "\<exists>e. forward_ops env ops path v ctx = Some (reply_err (cmd_id (vl_cmd v)) e, ctx)"
  using forward_unknown [OF assms] by (auto simp: forward_ops_def Let_def unknown_op_def)

definition unserved_domains :: "atp_domain list" where
  "unserved_domains = [DFs, DSnap, DCron, DUsers, DCrews, DCap, DPipe]"

text \<open>
   Seven of the twelve domains of the protocol do nothing: connected to the kernel's server, every command of the file system,
  snapshot, cron, users, crews, capability and pipe domains, whatever its operation and body, is answered with
  an error and changes nothing, because the methods the gateway calls are not among those the kernel serves.
\<close>

theorem atp_domains_unserved:
  assumes "cmd_domain (vl_cmd v) \<in> set unserved_domains" and ipc: "hx_ipc env = kernel_ipc kenv dr uuid"
  shows "\<exists>e. gateway_dispatch env v ctx = Some (reply_err (cmd_id (vl_cmd v)) e, ctx)"
proof -
  have un: "p @ op \<notin> set kernel_methods" if "p \<in> {''kernel/fs/'', ''kernel/snap/'', ''kernel/cron/'', ''kernel/users/'',
      ''kernel/crews/'', ''kernel/cap/'', ''kernel/pipe/''}" for p op
    using that kernel_method_prefix [of "p @ op"] by auto
  note fw = forward_ops_unserved [OF ipc un]
  have users: "\<exists>e. ipc_forward env i ''kernel/users/get'' b ctx = Some (reply_err i e, ctx)" for i b
    using forward_unknown [OF ipc un [of "''kernel/users/''" "''get''"]] by simp
  have cap: "\<exists>e. ipc_forward env i ''kernel/cap/policy_get'' b ctx = Some (reply_err i e, ctx)"
    "\<exists>e. ipc_forward env i ''kernel/cap/policy_set'' b ctx = Some (reply_err i e, ctx)" for i b
    using forward_unknown [OF ipc un [of "''kernel/cap/''" "''policy_get''"]]
      forward_unknown [OF ipc un [of "''kernel/cap/''" "''policy_set''"]] by simp_all
  from assms(1) consider "cmd_domain (vl_cmd v) = DFs" | "cmd_domain (vl_cmd v) = DUsers" | "cmd_domain (vl_cmd v) = DCap"
    | "cmd_domain (vl_cmd v) = DSnap" | "cmd_domain (vl_cmd v) = DCron" | "cmd_domain (vl_cmd v) = DCrews"
    | "cmd_domain (vl_cmd v) = DPipe" by (auto simp: unserved_domains_def)
  then show ?thesis
  proof cases
    case 1
    then show ?thesis using fw [of "''kernel/fs/''"] by (auto simp: gateway_dispatch_def fs_handle_def Let_def)
  next
    case 2
    then show ?thesis using fw [of "''kernel/users/''"] users
      by (auto simp: gateway_dispatch_def users_handle_def Let_def split: option.splits)
  next
    case 3
    then show ?thesis using fw [of "''kernel/cap/''"] cap by (simp add: gateway_dispatch_def cap_handle_def Let_def)
  qed (simp_all add: gateway_dispatch_def forwarding_handles fw)
qed

section \<open>Spawning under another name\<close>

lemma json_index_obj [simp]: "json_index (JObj m) k = unwrap_or JNull (hm_get m k)"
  by (simp add: json_index_def unwrap_or_def)

text \<open>
  C9.  Whose agent a spawn creates: a validated spawn command makes the kernel spawn the requested agent for the user the
  command names in its caller field, and only when that field is empty or missing for the user who sent it.  So a client
  can start agents, and open sessions, in the name of any other user.
\<close>

theorem spawn_in_callers_name:
  assumes "cmd_domain (vl_cmd v) = DProc" and "cmd_op (vl_cmd v) = ''spawn''"
    and ipc: "hx_ipc env = kernel_ipc kenv dr uuid" and body: "cmd_body (vl_cmd v) = JObj m"
  shows "\<exists>reply ctx'. gateway_dispatch env v ctx = Some (reply, ctx') \<and>
     ks_proc (hc_kernel ctx') =
       snd (ph_spawn (kx_proc kenv) (kd_now dr) (kd_pid dr) (kd_session dr) (kd_invocation dr)
         (str_param ''name'' ''unnamed'' (JObj m)) (str_param ''goal'' [] (JObj m)) (str_param ''session_id'' [] (JObj m))
         (vl_caller_session_id v)
         (if str_param ''caller'' [] (JObj m) = [] then vl_caller_identity v else str_param ''caller'' [] (JObj m))
         (as_u64 (json_index (JObj m) ''parent_pid'')) (ks_proc (hc_kernel ctx)))"
proof -
  let ?caller = "if str_param ''caller'' [] (JObj m) = [] then vl_caller_identity v else str_param ''caller'' [] (JObj m)"
  define m1 where "m1 = (if str_param ''caller'' [] (JObj m) = [] then hm_insert ''caller'' (JStr (vl_caller_identity v)) m else m)"
  define m2 where "m2 = (if hm_get m1 ''session_id'' = None then hm_insert ''session_id'' (JStr []) m1 else m1)"
  define b where "b = JObj (hm_insert ''atp_session_id'' (JStr (vl_caller_session_id v)) m2)"
  have b: "spawn_body v (JObj m) = Some b"
    by (simp add: spawn_body_def json_assign_def b_def m2_def m1_def)
  have p: "str_param ''name'' ''unnamed'' b = str_param ''name'' ''unnamed'' (JObj m)"
      "str_param ''goal'' [] b = str_param ''goal'' [] (JObj m)" "str_param ''session_id'' [] b = str_param ''session_id'' [] (JObj m)"
      "str_param ''atp_session_id'' [] b = vl_caller_session_id v" "str_param ''caller'' ''gateway'' b = ?caller"
      "json_index b ''parent_pid'' = json_index (JObj m) ''parent_pid''"
    by (auto simp: b_def m2_def m1_def str_param_def unwrap_or_def split: option.splits)
  obtain r ps where "ph_spawn (kx_proc kenv) (kd_now dr) (kd_pid dr) (kd_session dr) (kd_invocation dr)
         (str_param ''name'' ''unnamed'' (JObj m)) (str_param ''goal'' [] (JObj m)) (str_param ''session_id'' [] (JObj m))
         (vl_caller_session_id v) ?caller (as_u64 (json_index (JObj m) ''parent_pid'')) (ks_proc (hc_kernel ctx)) = (r, ps)"
    by fastforce
  then have "kernel_dispatch kenv dr ''kernel/proc/spawn'' uuid b (hc_kernel ctx) =
      (reply_with uuid (\<lambda>p. JObj [(''pid'', JNum (uint p)), (''status'', JStr ''running'')]) r, (hc_kernel ctx)\<lparr> ks_proc := ps \<rparr>)"
    and "ps = snd (ph_spawn (kx_proc kenv) (kd_now dr) (kd_pid dr) (kd_session dr) (kd_invocation dr)
         (str_param ''name'' ''unnamed'' (JObj m)) (str_param ''goal'' [] (JObj m)) (str_param ''session_id'' [] (JObj m))
         (vl_caller_session_id v) ?caller (as_u64 (json_index (JObj m) ''parent_pid'')) (ks_proc (hc_kernel ctx)))"
    by (simp_all add: kernel_dispatch_def kernel_handlers_def ipc_spawn_def p)
  then show ?thesis using assms b
    by (simp add: gateway_dispatch_def proc_handle_def Let_def forward_body_def ipc_forward_def kernel_ipc_eq)
qed

section \<open>Panics\<close>

text \<open>The operations whose body the process domain writes into.\<close>

definition injecting_ops :: "string list" where
  "injecting_ops = [''list-installed'', ''invocation-list'', ''spawn'', ''session-list'', ''session-get'', ''session-pause'',
     ''session-resume'', ''session-delete''] @ proc_package_ops"

lemma str_param_not_assignable: "\<not> assignable body \<Longrightarrow> str_param k d body = d"
  by (cases body) (simp_all add: str_param_def json_index_def assignable_def unwrap_or_def)

lemma username_or_caller_None: "username_or_caller v body = None \<longleftrightarrow> \<not> assignable body"
  using str_param_not_assignable [of body "''username''" "[]"]
  by (auto simp: username_or_caller_def json_assign_None)

lemma spawn_body_None: "spawn_body v body = None \<longleftrightarrow> \<not> assignable body"
  using str_param_not_assignable [of body "''caller''" "[]"]
  by (cases body) (auto simp: spawn_body_def json_assign_def assignable_def str_param_def json_index_def unwrap_or_def)

lemma session_body_None: "session_body v body = None \<longleftrightarrow> \<not> assignable body"
  by (cases body) (simp_all add: session_body_def json_assign_def assignable_def)

lemma ipc_forward_total [simp]: "ipc_forward env i m params ctx \<noteq> None"
  by (simp del: not_None_eq add: ipc_forward_def split: prod.splits)

lemma forward_body_None: "forward_body env i m b ctx = None \<longleftrightarrow> b = None"
  by (cases b) (simp_all add: forward_body_def)

lemma forward_ops_total [simp]: "forward_ops env ops path v ctx \<noteq> None"
  by (simp add: forward_ops_def Let_def del: not_None_eq)

lemma auth_handle_total: "auth_handle env v ctx \<noteq> None"
  by (simp add: auth_handle_def Let_def del: not_None_eq split: sum.splits prod.splits)

lemma signal_handle_total: "signal_handle env v ctx \<noteq> None"
  by (simp add: signal_handle_def handle_send_def resolve_approval_def send_pipe_def Let_def del: not_None_eq split: option.splits sum.splits prod.splits)

lemma proc_handle_None:
  "proc_handle env v ctx = None \<longleftrightarrow> cmd_op (vl_cmd v) \<in> set injecting_ops \<and> \<not> assignable (cmd_body (vl_cmd v))"
  by (simp add: proc_handle_def Let_def forward_body_None username_or_caller_None spawn_body_None session_body_None
      json_assign_None injecting_ops_def proc_plain_ops_def proc_package_ops_def)

text \<open>
   Exactly which validated commands crash their connection's task: those of the process domain whose operation makes the handler
  write into the body, when that body is neither an object nor null.  Every other command, of any domain and with any body,
  gets a reply.
\<close>

theorem gateway_panics_iff:
  "gateway_dispatch env v ctx = None \<longleftrightarrow>
     cmd_domain (vl_cmd v) = DProc \<and> cmd_op (vl_cmd v) \<in> set injecting_ops \<and>
     (case cmd_body (vl_cmd v) of JObj _ \<Rightarrow> False | JNull \<Rightarrow> False | _ \<Rightarrow> True)"
proof -
  have "\<not> assignable b \<longleftrightarrow> (case b of JObj _ \<Rightarrow> False | JNull \<Rightarrow> False | _ \<Rightarrow> True)" for b
    by (cases b) (simp_all add: assignable_def)
  then show ?thesis
    by (cases "cmd_domain (vl_cmd v)")
      (simp_all add: proc_handle_None auth_handle_total signal_handle_total gateway_dispatch_def forwarding_handles fs_handle_def users_handle_def cap_handle_def session_handle_def Let_def del: not_None_eq split: option.splits)
qed

section \<open>Approvals\<close>

text \<open>In the context the server builds no approval can be resolved through the gateway.\<close>

lemma approvals_unavailable:
  assumes "Option.bind (json_get payload ''hilId'') as_str = Some hil_id"
  shows "resolve_approval env i payload tok (server_ctx k tokens auth) =
     Some (reply_err i (atp_error_new AEunavail ''HIL manager not configured''), server_ctx k tokens auth)"
  using assms by (simp add: resolve_approval_def server_ctx_def)

section \<open>Keep-alive\<close>

definition tick_times :: "(datetime \<times> ws_in) list \<Rightarrow> datetime list" where
  "tick_times es = map fst (filter (\<lambda>e. snd e = InTick) es)"

definition ticks_on_time :: "datetime list \<Rightarrow> bool" where
  "ticks_on_time ts = successively (\<lambda>a b. b - a \<le> 40 * one_second) ts"

lemma reader_loop_no_timeout:
  assumes "sorted (prev # map fst es)" and "ticks_on_time (prev # tick_times es)" and "prev \<le> last_pong"
  shows "fst (reader_loop frame es last_pong cn) \<noteq> PingTimeout"
  using assms
proof (induction frame es last_pong cn arbitrary: prev rule: reader_loop.induct)
  case (6 frame t es last_pong cn)
  then have "t - last_pong \<le> 40 * one_second" "sorted (t # map fst es)" "ticks_on_time (t # tick_times es)"
    by (auto simp: tick_times_def ticks_on_time_def)
  then show ?case using 6 by fastforce
qed (auto simp: tick_times_def ticks_on_time_def split: option.splits)

text \<open>
   The keep-alive never ends a connection.  As long as the clock does not go back and the ticks of the ping interval come at
  most forty seconds apart, the reader loop never closes the connection for a missing pong, whatever the client sends
  and even if it never answers a ping: every tick counts as an answer to the one before.
\<close>

theorem keep_alive_never_fires:
  assumes "sorted (start # map fst es)" and "ticks_on_time (start # tick_times es)"
  shows "fst (reader_loop frame es start cn) \<noteq> PingTimeout"
  by (rule reader_loop_no_timeout [OF assms order_refl])

theorem keep_alive_never_fires_witness:
  "fst (reader_loop (\<lambda>_. Some) [(30 * one_second, InTick), (60 * one_second, InTick), (90 * one_second, InTick)] 0
     (open_connection \<lparr> fx_json = (\<lambda>_. Inl []), fx_event = (\<lambda>_. Inl []), fx_reply = (\<lambda>_. Inl []) \<rparr> 0 ''s1'' User (server_ctx () (token_store_new ''k'') (demo_auth 1000))))
   \<noteq> PingTimeout"
  by (rule keep_alive_never_fires) (simp_all add: ticks_on_time_def tick_times_def)

section \<open>A concrete gateway and kernel\<close>

definition demo_kernel_env :: "(mem_db, string \<times> bytes, mem_db, unit, mem_db, unit, unit) kernel_env" where
  "demo_kernel_env =
     \<lparr> kx_proc = demo_proc_env,
       kx_hist = \<lparr> he_db = mem_redb, he_msg = \<lparr> enc = (\<lambda>_. Inl []), dec = (\<lambda>_. Inl []) \<rparr>,
                   he_part = \<lparr> enc = (\<lambda>_. Inl []), dec = (\<lambda>_. Inl []) \<rparr> \<rparr>,
       kx_os = demo_disk [], kx_tool_yaml = concat, kx_base64 = string_of_bytes, kx_inv_json = (\<lambda>_. JNull), kx_conv_json = (\<lambda>_. JNull),
       kx_session_json = (\<lambda>_. JNull), kx_msg_json = (\<lambda>_. JNull), kx_part_json = (\<lambda>_. JNull), kx_msg_of = (\<lambda>_. Inl []), kx_part_of = (\<lambda>_. Inl []),
       kx_time_json = JNum, kx_scan = (\<lambda>_. []), kx_install = (\<lambda>_ _ _ p. (Inr JNull, p)), kx_uninstall = (\<lambda>_ _ _ p. (Inr (Inr JNull), p)) \<rparr>"

definition demo_kernel :: "(mem_db, string \<times> bytes, mem_db, unit, mem_db, unit, unit) kernel_state" where
  "demo_kernel = \<lparr> ks_proc = demo_proc, ks_hist = None, ks_services = None, ks_vfs = vr_new, ks_disk = (), ks_pkg = () \<rparr>"

definition demo_draws :: kernel_draws where
  "demo_draws = \<lparr> kd_now = (\<lambda>_. 9), kd_pid = Pid 9, kd_session = ''s2'', kd_invocation = ''i9'' \<rparr>"

definition demo_handler_env :: "(mem_db, string \<times> bytes, mem_db, unit, mem_db, unit, unit) kernel_state handler_env" where
  "demo_handler_env =
     \<lparr> hx_ipc = kernel_ipc demo_kernel_env demo_draws ''u1'', hx_codec = demo_codec, hx_now = 50, hx_rfc3339 = (\<lambda>_. ''t''),
       hx_hil = demo_hil_env, hx_lock_free = True, hx_pipe_of = (\<lambda>_. Inl []), hx_pipe_json = (\<lambda>_. Inl []), hx_base64 = (\<lambda>_. None) \<rparr>"

definition demo_ctx :: "(mem_db, string \<times> bytes, mem_db, unit, mem_db, unit, unit) kernel_state handler_ctx" where
  "demo_ctx = server_ctx demo_kernel (token_store_new ''k'') (demo_auth 1000)"

definition demo_vcmd :: "atp_domain \<Rightarrow> string \<Rightarrow> json \<Rightarrow> validated_cmd" where
  "demo_vcmd d op body =
     \<lparr> vl_cmd = \<lparr> cmd_type = ''cmd'', cmd_id = ''c1'', cmd_token = ''t'', cmd_domain = d, cmd_op = op, cmd_body = body \<rparr>,
       vl_caller_identity = ''mallory'', vl_caller_role = User, vl_caller_session_id = ''atp-1'' \<rparr>"

lemma demo_get_session: "ph_get_session demo_proc_env ''s1'' demo_proc = Inr (Some demo_session)"
proof -
  have "session_of demo_proc_env 7 demo_proc \<noteq> None" by (simp add: demo_session_of)
  with demo_session_of show ?thesis
    by (auto simp: session_of_def ph_get_session_def sm_get_session_def demo_proc_simps split: option.splits sum.splits)
qed

theorem gateway_session_isolation_witness:
  "gateway_dispatch demo_handler_env
     (demo_vcmd DProc ''session-delete'' (JObj [(''session_id'', JStr ''s1''), (''caller_identity'', JStr ''alice''), (''is_privileged'', JBool True)])) demo_ctx =
   Some (reply_err ''c1'' (atp_error_new AEperm ''EPERM: session belongs to another user''), demo_ctx)"
proof -
  let ?v = "demo_vcmd DProc ''session-delete''
      (JObj [(''session_id'', JStr ''s1''), (''caller_identity'', JStr ''alice''), (''is_privileged'', JBool True)])"
  have "gateway_dispatch demo_handler_env ?v demo_ctx =
     Some (reply_err (cmd_id (vl_cmd ?v)) (atp_error_new AEperm ''EPERM: session belongs to another user''), demo_ctx)"
  proof (rule gateway_session_isolation [where key = "''session_id''" and kenv = demo_kernel_env and dr = demo_draws
        and uuid = "''u1''" and sid = "''s1''" and session = demo_session])
    show "ph_get_session (kx_proc demo_kernel_env) ''s1'' (ks_proc (hc_kernel demo_ctx)) = Inr (Some demo_session)"
      by (simp add: demo_kernel_env_def demo_ctx_def server_ctx_def demo_kernel_def demo_get_session)
  qed (simp_all add: demo_vcmd_def session_ops_def less_le_not_le role_le_iff demo_handler_env_def demo_kernel_env_def
      demo_proc_simps demo_session_def add_pid_def session_record_new_def str_param_def unwrap_or_def)
  then show ?thesis by (simp add: demo_vcmd_def)
qed

theorem atp_domains_unserved_witness:
  "\<exists>e. gateway_dispatch demo_handler_env (demo_vcmd DFs ''read'' (JObj [(''path'', JStr ''/etc/motd'')])) demo_ctx =
     Some (reply_err ''c1'' e, demo_ctx)"
  using atp_domains_unserved [of "demo_vcmd DFs ''read'' (JObj [(''path'', JStr ''/etc/motd'')])" demo_handler_env demo_kernel_env
      demo_draws "''u1''" demo_ctx]
  by (simp add: demo_vcmd_def unserved_domains_def demo_handler_env_def)

theorem spawn_in_callers_name_witness:
  "\<exists>reply ctx'. gateway_dispatch demo_handler_env
       (demo_vcmd DProc ''spawn'' (JObj [(''name'', JStr ''worker''), (''caller'', JStr ''alice'')])) demo_ctx = Some (reply, ctx') \<and>
     ks_proc (hc_kernel ctx') =
       snd (ph_spawn demo_proc_env (\<lambda>_. 9) (Pid 9) ''s2'' ''i9'' ''worker'' [] [] ''atp-1'' ''alice'' None demo_proc)"
  using spawn_in_callers_name [of "demo_vcmd DProc ''spawn'' (JObj [(''name'', JStr ''worker''), (''caller'', JStr ''alice'')])"
      demo_handler_env demo_kernel_env demo_draws "''u1''" "[(''name'', JStr ''worker''), (''caller'', JStr ''alice'')]" demo_ctx]
  by (simp add: demo_vcmd_def demo_handler_env_def demo_kernel_env_def demo_draws_def demo_ctx_def server_ctx_def demo_kernel_def
      str_param_def unwrap_or_def)

end
