(* ===== verification/Llm_Routing.thy ===== *)
theory Llm_Routing
  imports Types_Core
begin

text \<open>
  Which provider serves a request of the language-model service: the providers file with its validation
  (\<^verbatim>\<open>config/llm.rs\<close>), the routing engine with the providers' status
  (\<^verbatim>\<open>llm_svc/routing.rs\<close>), the health monitor that feeds it (\<^verbatim>\<open>llm_svc/health.rs\<close>) and
  the usage counters (\<^verbatim>\<open>llm_svc/usage.rs\<close>).

  The lemmas give the exact outcome of routing for a validated file after any sequence of status
  updates, what a routed provider is guaranteed to be, and that the counters are the sums of what was
  recorded.  Seconds of audio are values of an abstract floating-point type with its addition as a parameter.
\<close>

section \<open>The providers file\<close>

record model_config =
  mc_id :: string
  mc_modality :: modality
  mc_context_window :: "u64 option"
  mc_tier :: string
  mc_dimensions :: "u32 option"

record provider_limits =
  plim_requests_per_minute :: u32
  plim_tokens_per_minute :: u32

record provider_timeout =
  pto_connect_ms :: u64
  pto_read_ms :: u64

record retry_policy =
  rp_max_attempts :: u32
  rp_backoff_ms :: u64
  rp_retry_on :: "16 word list"

record health_check_config =
  hck_enabled :: bool
  hck_interval_sec :: u64
  hck_endpoint :: string

datatype provider_auth =
  AuthApiKey string string "string option"
| AuthOauth2 string string string string "string list" u32
| AuthNone

record provider_config =
  pc_name :: string
  pc_base_url :: string
  pc_modalities :: "modality list"
  pc_auth :: provider_auth
  pc_models :: "model_config list"
  pc_limits :: "provider_limits option"
  pc_timeout :: "provider_timeout option"
  pc_retry_policy :: "retry_policy option"
  pc_health_check :: "health_check_config option"

record default_providers =
  dp_text :: string
  dp_image :: string
  dp_speech :: string
  dp_transcription :: string
  dp_embedding :: string

record llm_spec =
  lsp_default_providers :: default_providers
  lsp_providers :: "provider_config list"

record llm_config =
  lc_api_version :: string
  lc_kind :: string
  lc_spec :: llm_spec

abbreviation lc_providers :: "llm_config \<Rightarrow> provider_config list" where
  "lc_providers cfg \<equiv> lsp_providers (lc_spec cfg)"

definition find_provider :: "string \<Rightarrow> provider_config list \<Rightarrow> provider_config option" where
  "find_provider name ps = List.find (\<lambda>p. pc_name p = name) ps"

definition default_name :: "llm_config \<Rightarrow> modality \<Rightarrow> string" where
  "default_name cfg m =
     (let dp = lsp_default_providers (lc_spec cfg)
      in case m of Text \<Rightarrow> dp_text dp | Image \<Rightarrow> dp_image dp | Speech \<Rightarrow> dp_speech dp
         | Transcription \<Rightarrow> dp_transcription dp | Embedding \<Rightarrow> dp_embedding dp)"

definition check_default :: "llm_config \<Rightarrow> modality \<Rightarrow> string \<Rightarrow> unit avix_result" where
  "check_default cfg m name =
     (case find_provider name (lc_providers cfg) of
        None \<Rightarrow> Inl (ConfigParse (''defaultProvider for '' @ modality_str m @ '': '' @ quoted name @ '' not found in providers list''))
      | Some p \<Rightarrow>
          if m \<notin> set (pc_modalities p) then
            Inl (ConfigParse (''defaultProvider for '' @ modality_str m @ '' is '' @ quoted name @
              '' but that provider does not support that modality''))
          else Inr ())"

definition llm_config_validate :: "llm_config \<Rightarrow> unit avix_result" where
  "llm_config_validate cfg =
     (let dp = lsp_default_providers (lc_spec cfg)
      in case check_default cfg Text (dp_text dp) of Inl e \<Rightarrow> Inl e | Inr _ \<Rightarrow>
         (case check_default cfg Image (dp_image dp) of Inl e \<Rightarrow> Inl e | Inr _ \<Rightarrow>
         (case check_default cfg Speech (dp_speech dp) of Inl e \<Rightarrow> Inl e | Inr _ \<Rightarrow>
         (case check_default cfg Transcription (dp_transcription dp) of Inl e \<Rightarrow> Inl e | Inr _ \<Rightarrow>
          check_default cfg Embedding (dp_embedding dp)))))"

definition llm_config_from_str :: "(string \<Rightarrow> string + llm_config) \<Rightarrow> string \<Rightarrow> llm_config avix_result" where
  "llm_config_from_str yaml s =
     (case yaml s of
        Inl e \<Rightarrow> Inl (ConfigParse e)
      | Inr cfg \<Rightarrow> (case llm_config_validate cfg of Inl e \<Rightarrow> Inl e | Inr _ \<Rightarrow> Inr cfg))"

definition default_provider_for :: "llm_config \<Rightarrow> modality \<Rightarrow> provider_config option" where
  "default_provider_for cfg m = find_provider (default_name cfg m) (lc_providers cfg)"

section \<open>Routing\<close>

datatype provider_status = PAvailable | PDegraded string | PUnavailable string

record routing_engine =
  rg_defaults :: "(string, string) hmap"
  rg_providers :: "(string, provider_config) hmap"
  rg_status :: "(string, provider_status) hmap"
  rg_fallback_text :: "string option"

definition routing_from_config :: "llm_config \<Rightarrow> routing_engine" where
  "routing_from_config cfg =
     (let dp = lsp_default_providers (lc_spec cfg)
      in \<lparr> rg_defaults = [(''text'', dp_text dp), (''image'', dp_image dp), (''speech'', dp_speech dp),
             (''transcription'', dp_transcription dp), (''embedding'', dp_embedding dp)],
           rg_providers = fold (\<lambda>p m. hm_insert (pc_name p) p m) (lc_providers cfg) [],
           rg_status = fold (\<lambda>p m. hm_insert (pc_name p) PAvailable m) (lc_providers cfg) [],
           rg_fallback_text = None \<rparr>)"

definition with_text_fallback :: "string \<Rightarrow> routing_engine \<Rightarrow> routing_engine" where
  "with_text_fallback fb g = g\<lparr> rg_fallback_text := Some fb \<rparr>"

definition update_provider_status :: "string \<Rightarrow> provider_status \<Rightarrow> routing_engine \<Rightarrow> routing_engine" where
  "update_provider_status name s g = g\<lparr> rg_status := hm_insert name s (rg_status g) \<rparr>"

definition is_unavailable :: "routing_engine \<Rightarrow> string \<Rightarrow> bool" where
  "is_unavailable g name = (case hm_get (rg_status g) name of Some (PUnavailable _) \<Rightarrow> True | _ \<Rightarrow> False)"

definition routing_resolve :: "modality \<Rightarrow> string option \<Rightarrow> routing_engine \<Rightarrow> provider_config avix_result" where
  "routing_resolve m explicit g =
     (case (case explicit of Some n \<Rightarrow> Some n | None \<Rightarrow> hm_get (rg_defaults g) (modality_str m)) of
        None \<Rightarrow> Inl (NoProviderAvailable (modality_str m))
      | Some name \<Rightarrow>
          (case hm_get (rg_providers g) name of
             None \<Rightarrow> Inl (ConfigParse (''provider not found: '' @ name))
           | Some p \<Rightarrow>
               if m \<notin> set (pc_modalities p) then
                 Inl (ConfigParse (''provider '' @ quoted name @ '' does not support modality '' @ quoted (modality_str m)))
               else if is_unavailable g name then
                 (case (if m = Text then rg_fallback_text g else None) of
                    None \<Rightarrow> Inl (NoProviderAvailable (name @ '': provider is unavailable''))
                  | Some fb \<Rightarrow>
                      (case hm_get (rg_providers g) fb of
                         None \<Rightarrow> Inl (NoProviderAvailable (name @ '': provider is unavailable''))
                       | Some fp \<Rightarrow>
                           if is_unavailable g fb then Inl (NoProviderAvailable (name @ '': provider is unavailable''))
                           else Inr fp))
               else Inr p))"

definition routing_all_statuses :: "routing_engine \<Rightarrow> (string, provider_status) hmap" where
  "routing_all_statuses g = rg_status g"

definition routing_provider_config :: "routing_engine \<Rightarrow> string \<Rightarrow> provider_config option" where
  "routing_provider_config g name = hm_get (rg_providers g) name"

definition routing_all_providers :: "routing_engine \<Rightarrow> provider_config list" where
  "routing_all_providers g = hm_values (rg_providers g)"

section \<open>Health checks\<close>

record health_check_spec =
  hcs_provider_name :: string
  hcs_base_url :: string
  hcs_endpoint :: string
  hcs_interval_sec :: u64

datatype probe = ProbeStatus bool string | ProbeError string

definition probe_url :: "health_check_spec \<Rightarrow> string" where
  "probe_url s = trim_end_char (CHR ''/'') (hcs_base_url s) @ hcs_endpoint s"

text \<open>One round of the monitor's loop, after the request to \<open>probe_url\<close> has ended.\<close>

definition health_round :: "health_check_spec \<Rightarrow> probe \<Rightarrow> routing_engine \<Rightarrow> routing_engine" where
  "health_round s pr g =
     update_provider_status (hcs_provider_name s)
       (case pr of
          ProbeStatus ok txt \<Rightarrow> if ok then PAvailable else PDegraded (''HTTP '' @ txt)
        | ProbeError e \<Rightarrow> PUnavailable e) g"

section \<open>Usage\<close>

record text_usage =
  tu_input_tokens :: u64
  tu_output_tokens :: u64
  tu_requests :: u64
  tu_errors :: u64

record image_usage =
  iu_requests :: u64
  iu_errors :: u64

record speech_usage =
  su_characters_generated :: u64
  su_requests :: u64
  su_errors :: u64

record 'f transcription_usage =
  ru_audio_seconds :: 'f
  ru_requests :: u64
  ru_errors :: u64

record embedding_usage =
  eu_input_tokens :: u64
  eu_requests :: u64
  eu_errors :: u64

record 'f provider_usage =
  pu_text :: text_usage
  pu_image :: image_usage
  pu_speech :: speech_usage
  pu_transcription :: "'f transcription_usage"
  pu_embedding :: embedding_usage

type_synonym 'f usage_tracker = "(string, 'f provider_usage) hmap"

record 'f float_ops =
  fo_zero :: 'f
  fo_add :: "'f \<Rightarrow> 'f \<Rightarrow> 'f"

definition usage_default :: "'f float_ops \<Rightarrow> 'f provider_usage" where
  "usage_default fo =
     \<lparr> pu_text = \<lparr> tu_input_tokens = 0, tu_output_tokens = 0, tu_requests = 0, tu_errors = 0 \<rparr>,
       pu_image = \<lparr> iu_requests = 0, iu_errors = 0 \<rparr>,
       pu_speech = \<lparr> su_characters_generated = 0, su_requests = 0, su_errors = 0 \<rparr>,
       pu_transcription = \<lparr> ru_audio_seconds = fo_zero fo, ru_requests = 0, ru_errors = 0 \<rparr>,
       pu_embedding = \<lparr> eu_input_tokens = 0, eu_requests = 0, eu_errors = 0 \<rparr> \<rparr>"

definition usage_entry ::
  "'f float_ops \<Rightarrow> ('f provider_usage \<Rightarrow> 'f provider_usage) \<Rightarrow> string \<Rightarrow> 'f usage_tracker \<Rightarrow> 'f usage_tracker" where
  "usage_entry fo f p t = hm_insert p (f (unwrap_or (usage_default fo) (hm_get t p))) t"

definition record_text :: "'f float_ops \<Rightarrow> string \<Rightarrow> u64 \<Rightarrow> u64 \<Rightarrow> 'f usage_tracker \<Rightarrow> 'f usage_tracker" where
  "record_text fo p i out = usage_entry fo (\<lambda>e. e\<lparr> pu_text := (pu_text e)\<lparr> tu_input_tokens := tu_input_tokens (pu_text e) + i,
     tu_output_tokens := tu_output_tokens (pu_text e) + out, tu_requests := tu_requests (pu_text e) + 1 \<rparr> \<rparr>) p"

definition record_text_error :: "'f float_ops \<Rightarrow> string \<Rightarrow> 'f usage_tracker \<Rightarrow> 'f usage_tracker" where
  "record_text_error fo p = usage_entry fo (\<lambda>e. e\<lparr> pu_text := (pu_text e)\<lparr> tu_errors := tu_errors (pu_text e) + 1 \<rparr> \<rparr>) p"

definition record_image :: "'f float_ops \<Rightarrow> string \<Rightarrow> 'f usage_tracker \<Rightarrow> 'f usage_tracker" where
  "record_image fo p = usage_entry fo (\<lambda>e. e\<lparr> pu_image := (pu_image e)\<lparr> iu_requests := iu_requests (pu_image e) + 1 \<rparr> \<rparr>) p"

definition record_image_error :: "'f float_ops \<Rightarrow> string \<Rightarrow> 'f usage_tracker \<Rightarrow> 'f usage_tracker" where
  "record_image_error fo p = usage_entry fo (\<lambda>e. e\<lparr> pu_image := (pu_image e)\<lparr> iu_errors := iu_errors (pu_image e) + 1 \<rparr> \<rparr>) p"

definition record_speech :: "'f float_ops \<Rightarrow> string \<Rightarrow> u64 \<Rightarrow> 'f usage_tracker \<Rightarrow> 'f usage_tracker" where
  "record_speech fo p chars = usage_entry fo (\<lambda>e. e\<lparr> pu_speech := (pu_speech e)\<lparr>
     su_characters_generated := su_characters_generated (pu_speech e) + chars, su_requests := su_requests (pu_speech e) + 1 \<rparr> \<rparr>) p"

definition record_speech_error :: "'f float_ops \<Rightarrow> string \<Rightarrow> 'f usage_tracker \<Rightarrow> 'f usage_tracker" where
  "record_speech_error fo p = usage_entry fo (\<lambda>e. e\<lparr> pu_speech := (pu_speech e)\<lparr> su_errors := su_errors (pu_speech e) + 1 \<rparr> \<rparr>) p"

definition record_transcription :: "'f float_ops \<Rightarrow> string \<Rightarrow> 'f \<Rightarrow> 'f usage_tracker \<Rightarrow> 'f usage_tracker" where
  "record_transcription fo p sec = usage_entry fo (\<lambda>e. e\<lparr> pu_transcription := (pu_transcription e)\<lparr>
     ru_audio_seconds := fo_add fo (ru_audio_seconds (pu_transcription e)) sec, ru_requests := ru_requests (pu_transcription e) + 1 \<rparr> \<rparr>) p"

definition record_transcription_error :: "'f float_ops \<Rightarrow> string \<Rightarrow> 'f usage_tracker \<Rightarrow> 'f usage_tracker" where
  "record_transcription_error fo p = usage_entry fo (\<lambda>e. e\<lparr> pu_transcription := (pu_transcription e)\<lparr>
     ru_errors := ru_errors (pu_transcription e) + 1 \<rparr> \<rparr>) p"

definition record_embedding :: "'f float_ops \<Rightarrow> string \<Rightarrow> u64 \<Rightarrow> 'f usage_tracker \<Rightarrow> 'f usage_tracker" where
  "record_embedding fo p toks = usage_entry fo (\<lambda>e. e\<lparr> pu_embedding := (pu_embedding e)\<lparr>
     eu_input_tokens := eu_input_tokens (pu_embedding e) + toks, eu_requests := eu_requests (pu_embedding e) + 1 \<rparr> \<rparr>) p"

definition record_embedding_error :: "'f float_ops \<Rightarrow> string \<Rightarrow> 'f usage_tracker \<Rightarrow> 'f usage_tracker" where
  "record_embedding_error fo p = usage_entry fo (\<lambda>e. e\<lparr> pu_embedding := (pu_embedding e)\<lparr>
     eu_errors := eu_errors (pu_embedding e) + 1 \<rparr> \<rparr>) p"

section \<open>Routing after any sequence of updates\<close>

definition status_step :: "routing_engine \<Rightarrow> string \<times> provider_status \<Rightarrow> routing_engine" where
  "status_step g u = update_provider_status (fst u) (snd u) g"

text \<open>The engine of a configuration with an optional fallback, after status updates.\<close>

definition engine_after :: "llm_config \<Rightarrow> string option \<Rightarrow> (string \<times> provider_status) list \<Rightarrow> routing_engine" where
  "engine_after cfg fb ups =
     run_events status_step (case fb of None \<Rightarrow> routing_from_config cfg | Some n \<Rightarrow> with_text_fallback n (routing_from_config cfg)) ups"

text \<open>The last status reported for a provider, which is available until then.\<close>

definition status_after :: "(string \<times> provider_status) list \<Rightarrow> string \<Rightarrow> provider_status" where
  "status_after ups n = (case List.find (\<lambda>u. fst u = n) (rev ups) of None \<Rightarrow> PAvailable | Some u \<Rightarrow> snd u)"

fun down :: "provider_status \<Rightarrow> bool" where
  "down (PUnavailable _) = True"
| "down _ = False"

lemma fold_insert_get:
  "hm_get (fold (\<lambda>p m. hm_insert (pc_name p) (f p) m) ps m0) n =
     (case find_provider n (rev ps) of Some p \<Rightarrow> Some (f p) | None \<Rightarrow> hm_get m0 n)"
  unfolding find_provider_def by (induction ps rule: rev_induct) (auto split: option.splits)

lemma find_append: "List.find P (xs @ ys) = (case List.find P xs of Some x \<Rightarrow> Some x | None \<Rightarrow> List.find P ys)"
  by (induction xs) auto

lemma engine_after_simps [simp]:
  "rg_defaults (engine_after cfg fb ups) = rg_defaults (routing_from_config cfg)"
  "rg_providers (engine_after cfg fb ups) = rg_providers (routing_from_config cfg)"
  "rg_fallback_text (engine_after cfg fb ups) = fb"
proof -
  have "rg_defaults (run_events status_step g ups) = rg_defaults g" "rg_providers (run_events status_step g ups) = rg_providers g"
    "rg_fallback_text (run_events status_step g ups) = rg_fallback_text g" for g
    by (induction ups arbitrary: g) (simp_all add: status_step_def update_provider_status_def)
  then show "rg_defaults (engine_after cfg fb ups) = rg_defaults (routing_from_config cfg)"
    "rg_providers (engine_after cfg fb ups) = rg_providers (routing_from_config cfg)" "rg_fallback_text (engine_after cfg fb ups) = fb"
    by (simp_all add: engine_after_def with_text_fallback_def routing_from_config_def Let_def split: option.splits)
qed

lemma is_unavailable_after: "is_unavailable (engine_after cfg fb ups) n \<longleftrightarrow> down (status_after ups n)"
proof (induction ups rule: rev_induct)
  case Nil
  show ?case
    by (auto simp: engine_after_def is_unavailable_def status_after_def with_text_fallback_def routing_from_config_def Let_def
        fold_insert_get split: option.splits)
next
  case (snoc u ups)
  have run: "run_events status_step g (ups @ [u]) = status_step (run_events status_step g ups) u" for g
    by (induction ups arbitrary: g) auto
  have e: "engine_after cfg fb (ups @ [u]) = update_provider_status (fst u) (snd u) (engine_after cfg fb ups)"
    by (simp add: engine_after_def run status_step_def)
  show ?case
  proof (cases "fst u = n")
    case True
    then show ?thesis unfolding e
      by (cases "snd u") (auto simp: is_unavailable_def update_provider_status_def status_after_def)
  next
    case False
    then have "is_unavailable (engine_after cfg fb (ups @ [u])) n \<longleftrightarrow> is_unavailable (engine_after cfg fb ups) n"
      unfolding e by (simp add: is_unavailable_def update_provider_status_def)
    with False snoc show ?thesis by (simp add: status_after_def)
  qed
qed

lemma configured_provider:
  "hm_get (rg_providers (routing_from_config cfg)) n = find_provider n (rev (lc_providers cfg))"
  by (simp add: routing_from_config_def Let_def fold_insert_get split: option.splits)

lemma find_provider_Some: "find_provider n ps = Some p \<Longrightarrow> p \<in> set ps \<and> pc_name p = n"
  by (auto simp: find_provider_def find_Some_iff)

lemma find_provider_distinct:
  assumes "distinct (map pc_name ps)"
  shows "find_provider n (rev ps) = find_provider n ps"
  using assms
proof (induction ps)
  case (Cons p ps)
  have "find_provider n (rev (p # ps)) = (case find_provider n (rev ps) of Some q \<Rightarrow> Some q | None \<Rightarrow> find_provider n [p])"
    by (simp add: find_provider_def find_append split: option.splits)
  moreover have "find_provider n ps = None" if "pc_name p = n"
    using Cons.prems that by (simp add: find_provider_def find_None_iff) (metis image_eqI)
  ultimately show ?case using Cons by (auto simp: find_provider_def split: option.splits)
qed (simp add: find_provider_def)

lemma default_registered:
  "hm_get (rg_defaults (routing_from_config cfg)) (modality_str m) = Some (default_name cfg m)"
  by (cases m) (simp_all add: routing_from_config_def default_name_def Let_def)

lemma validated_default:
  assumes "llm_config_validate cfg = Inr ()"
  shows "\<exists>p. default_provider_for cfg m = Some p \<and> m \<in> set (pc_modalities p)"
proof -
  have "check_default cfg m (default_name cfg m) = Inr ()"
    using assms by (cases m) (auto simp: llm_config_validate_def default_name_def Let_def split: sum.splits)
  then show ?thesis by (auto simp: check_default_def default_provider_for_def split: option.splits if_splits)
qed

text \<open>
   Routing of requests that name no provider.  For a validated providers file without duplicate names, after any sequence of
  health reports and for every modality: the request goes to the configured default exactly while its last report was
  not unavailable; then text goes to the fallback if that is configured and not itself unavailable, and everything else
  fails with an error that no provider is available.
\<close>

theorem default_routing_exact:
  assumes "llm_config_validate cfg = Inr ()" and "distinct (map pc_name (lc_providers cfg))"
  shows "routing_resolve m None (engine_after cfg fb ups) =
     (if \<not> down (status_after ups (default_name cfg m)) then Inr (the (default_provider_for cfg m))
      else case Option.bind (if m = Text then fb else None) (\<lambda>n. find_provider n (lc_providers cfg)) of
        Some p \<Rightarrow> if down (status_after ups (pc_name p)) then Inl (NoProviderAvailable (default_name cfg m @ '': provider is unavailable''))
                  else Inr p
      | None \<Rightarrow> Inl (NoProviderAvailable (default_name cfg m @ '': provider is unavailable'')))"
proof -
  obtain p where p: "default_provider_for cfg m = Some p" "m \<in> set (pc_modalities p)"
    using validated_default [OF assms(1)] by blast
  then have dp: "find_provider (default_name cfg m) (lc_providers cfg) = Some p" by (simp add: default_provider_for_def)
  have nm: "pc_name q = n" if "find_provider n (lc_providers cfg) = Some q" for n q
    using find_provider_Some [OF that] by simp
  show ?thesis
    using p dp assms(2) nm
    by (auto simp: routing_resolve_def default_registered configured_provider find_provider_distinct is_unavailable_after
        split: option.splits)
qed

text \<open>
   What a routed provider is.  Whatever the file, the reports and the request: a provider that is returned is configured,
  was not last reported unavailable, and either supports the modality or is the text fallback, whose modalities nobody
  checks; and a request that names a provider gets that one, or the fallback when the one it named is unavailable.
\<close>

theorem routed_provider:
  assumes "routing_resolve m explicit (engine_after cfg fb ups) = Inr p"
  shows "p \<in> set (lc_providers cfg) \<and> \<not> down (status_after ups (pc_name p)) \<and>
    (m \<in> set (pc_modalities p) \<or> m = Text \<and> fb = Some (pc_name p)) \<and>
    (\<forall>n. explicit = Some n \<longrightarrow> pc_name p = n \<or> m = Text \<and> fb = Some (pc_name p) \<and> down (status_after ups n))"
proof -
  have "q \<in> set (lc_providers cfg)" "pc_name q = n" if "find_provider n (rev (lc_providers cfg)) = Some q" for n q
    using find_provider_Some [OF that] by simp_all
  with assms show ?thesis
    by (fastforce simp: routing_resolve_def configured_provider is_unavailable_after split: option.splits if_splits)
qed

section \<open>Usage is the sum of what was recorded\<close>

datatype 'f usage_op =
  UText string u64 u64 | UTextError string | UImage string | UImageError string | USpeech string u64 | USpeechError string
| UTranscription string 'f | UTranscriptionError string | UEmbedding string u64 | UEmbeddingError string

fun usage_step :: "'f float_ops \<Rightarrow> 'f usage_tracker \<Rightarrow> 'f usage_op \<Rightarrow> 'f usage_tracker" where
  "usage_step fo t (UText p i out) = record_text fo p i out t"
| "usage_step fo t (UTextError p) = record_text_error fo p t"
| "usage_step fo t (UImage p) = record_image fo p t"
| "usage_step fo t (UImageError p) = record_image_error fo p t"
| "usage_step fo t (USpeech p n) = record_speech fo p n t"
| "usage_step fo t (USpeechError p) = record_speech_error fo p t"
| "usage_step fo t (UTranscription p s) = record_transcription fo p s t"
| "usage_step fo t (UTranscriptionError p) = record_transcription_error fo p t"
| "usage_step fo t (UEmbedding p n) = record_embedding fo p n t"
| "usage_step fo t (UEmbeddingError p) = record_embedding_error fo p t"

fun op_provider :: "'f usage_op \<Rightarrow> string" where
  "op_provider (UText p _ _) = p"
| "op_provider (UTextError p) = p"
| "op_provider (UImage p) = p"
| "op_provider (UImageError p) = p"
| "op_provider (USpeech p _) = p"
| "op_provider (USpeechError p) = p"
| "op_provider (UTranscription p _) = p"
| "op_provider (UTranscriptionError p) = p"
| "op_provider (UEmbedding p _) = p"
| "op_provider (UEmbeddingError p) = p"

fun text_tokens :: "'f usage_op \<Rightarrow> u64 \<times> u64 \<times> u64 \<times> u64" where
  "text_tokens (UText p i out) = (i, out, 1, 0)"
| "text_tokens (UTextError p) = (0, 0, 0, 1)"
| "text_tokens _ = (0, 0, 0, 0)"

lemmas usage_recorders = record_text_def record_text_error_def record_image_def record_image_error_def record_speech_def
  record_speech_error_def record_transcription_def record_transcription_error_def record_embedding_def record_embedding_error_def

lemma usage_entry_get: "hm_get (usage_entry fo f p t) q = (if q = p then Some (f (unwrap_or (usage_default fo) (hm_get t p))) else hm_get t q)"
  by (simp add: usage_entry_def)

lemma usage_step_other: "op_provider op \<noteq> p \<Longrightarrow> hm_get (usage_step fo t op) p = hm_get t p"
  by (cases op) (simp_all add: usage_recorders usage_entry_get)

lemma usage_step_text:
  assumes "op_provider op = p" and "u = pu_text (unwrap_or (usage_default fo) (hm_get t p))"
  shows "\<exists>e. hm_get (usage_step fo t op) p = Some e \<and>
    (tu_input_tokens (pu_text e), tu_output_tokens (pu_text e), tu_requests (pu_text e), tu_errors (pu_text e)) =
      (tu_input_tokens u + fst (text_tokens op), tu_output_tokens u + fst (snd (text_tokens op)),
       tu_requests u + fst (snd (snd (text_tokens op))), tu_errors u + snd (snd (snd (text_tokens op))))"
  using assms by (cases op) (simp_all add: usage_recorders usage_entry_get)

text \<open>
   Text usage is accounted exactly: after any sequence of records of all kinds and for all providers, a provider's counters of
  input tokens, output tokens, requests and errors are the sums of its own text records, modulo two to the sixty-fourth, and a provider
  nothing was recorded for has no entry.
\<close>

theorem usage_exact:
  defines "own \<equiv> \<lambda>p ops. filter (\<lambda>op. op_provider op = p) ops"
  shows "case hm_get (run_events (usage_step fo) [] ops) p of
      None \<Rightarrow> own p ops = []
    | Some e \<Rightarrow> own p ops \<noteq> [] \<and>
        tu_input_tokens (pu_text e) = sum_list (map (fst \<circ> text_tokens) (own p ops)) \<and>
        tu_output_tokens (pu_text e) = sum_list (map (fst \<circ> snd \<circ> text_tokens) (own p ops)) \<and>
        tu_requests (pu_text e) = sum_list (map (fst \<circ> snd \<circ> snd \<circ> text_tokens) (own p ops)) \<and>
        tu_errors (pu_text e) = sum_list (map (snd \<circ> snd \<circ> snd \<circ> text_tokens) (own p ops))"
proof (induction ops rule: rev_induct)
  case Nil
  then show ?case by (simp add: own_def)
next
  case (snoc op ops)
  have run: "run_events (usage_step fo) t (ops @ [op]) = usage_step fo (run_events (usage_step fo) t ops) op" for t
    by (induction ops arbitrary: t) auto
  show ?case
  proof (cases "op_provider op = p")
    case True
    obtain e where e: "hm_get (usage_step fo (run_events (usage_step fo) [] ops) op) p = Some e"
      and t: "(tu_input_tokens (pu_text e), tu_output_tokens (pu_text e), tu_requests (pu_text e), tu_errors (pu_text e)) =
        (let u = pu_text (unwrap_or (usage_default fo) (hm_get (run_events (usage_step fo) [] ops) p))
         in (tu_input_tokens u + fst (text_tokens op), tu_output_tokens u + fst (snd (text_tokens op)),
             tu_requests u + fst (snd (snd (text_tokens op))), tu_errors u + snd (snd (snd (text_tokens op)))))"
      using usage_step_text [OF True refl, of fo "run_events (usage_step fo) [] ops"] unfolding Let_def by blast
    show ?thesis using snoc t True
      by (auto simp: run e own_def unwrap_or_def usage_default_def Let_def comp_def split: option.splits)
  next
    case False
    then have "own p (ops @ [op]) = own p ops" by (simp add: own_def)
    with False snoc show ?thesis by (simp add: run usage_step_other split: option.splits)
  qed
qed

section \<open>A concrete providers file\<close>

definition demo_provider :: "string \<Rightarrow> modality list \<Rightarrow> provider_config" where
  "demo_provider n ms = \<lparr> pc_name = n, pc_base_url = ''http://localhost/'', pc_modalities = ms, pc_auth = AuthNone, pc_models = [],
     pc_limits = None, pc_timeout = None, pc_retry_policy = None, pc_health_check = None \<rparr>"

definition demo_llm_config :: llm_config where
  "demo_llm_config = \<lparr> lc_api_version = ''avix/v1'', lc_kind = ''LlmConfig'', lc_spec =
     \<lparr> lsp_default_providers = \<lparr> dp_text = ''ollama'', dp_image = ''openai'', dp_speech = ''openai'', dp_transcription = ''openai'',
         dp_embedding = ''openai'' \<rparr>,
       lsp_providers = [demo_provider ''ollama'' [Text], demo_provider ''openai'' [Image, Speech, Transcription, Embedding]] \<rparr> \<rparr>"

lemmas demo_llm_simps = demo_llm_config_def demo_provider_def llm_config_validate_def check_default_def find_provider_def
  default_name_def default_provider_for_def status_after_def

theorem default_routing_exact_witness:
  "routing_resolve Text None (engine_after demo_llm_config (Some ''openai'') [(''ollama'', PUnavailable ''refused'')]) =
     Inr (demo_provider ''openai'' [Image, Speech, Transcription, Embedding])"
  by (subst default_routing_exact) (simp_all add: demo_llm_simps)

theorem routed_provider_witness:
  "\<exists>p. routing_resolve Text (Some ''ollama'') (engine_after demo_llm_config (Some ''openai'') [(''ollama'', PUnavailable ''refused'')]) = Inr p \<and>
     pc_name p = ''openai'' \<and> p \<in> set (lc_providers demo_llm_config)"
proof -
  let ?p = "demo_provider ''openai'' [Image, Speech, Transcription, Embedding]"
  have "routing_resolve Text (Some ''ollama'') (engine_after demo_llm_config (Some ''openai'') [(''ollama'', PUnavailable ''refused'')]) = Inr ?p"
    by (simp add: routing_resolve_def configured_provider is_unavailable_after demo_llm_simps)
  from routed_provider [OF this] this show ?thesis by (auto simp: demo_provider_def)
qed

end
