(* ===== verification/Llm_Adapter.thy ===== *)
theory Llm_Adapter
  imports Llm_Routing Executor_Tools Records Syscalls
begin

text \<open>
  The translation between the system's messages and the providers' wire formats: the types and the
  adapter interface (\<^verbatim>\<open>llm_svc/adapter/mod.rs\<close>), the adapters for OpenAI, Anthropic, Ollama, xAI,
  Stability and ElevenLabs (\<^verbatim>\<open>llm_svc/adapter\<close>), and the decoder of server-sent events
  (\<^verbatim>\<open>llm_svc/sse.rs\<close>).

  An adapter is a record of functions, as the trait \<^verbatim>\<open>ProviderAdapter\<close> is, and the trait's
  default methods are the fields of \<open>adapter_defaults\<close>.  JSON text, base64 and the reading of a JSON
  number as a 32-bit float are parameters.  \<^verbatim>\<open>from_utf8_lossy\<close> is written out.

  The lemmas show that the decoder's output does not depend on how the network cuts the text, that a
  tool offered to a model comes back under its own name, that the translated conversation has the same
  calls and results, and the points where the translations lose something.
\<close>

section \<open>Requests and responses\<close>

record avix_tool_result =
  tres_call_id :: string
  tres_output :: json
  tres_error :: "string option"

record avix_tool_descriptor =
  td_name :: string
  td_description :: string
  td_input_schema :: json

record complete_metadata =
  cm_agent_pid :: u64
  cm_session_id :: string

record 'f avix_complete_request =
  acq_provider :: "string option"
  acq_model :: string
  acq_messages :: "json list"
  acq_system :: "string option"
  acq_max_tokens :: "u32 option"
  acq_temperature :: "'f option"
  acq_stream :: "bool option"
  acq_stop_sequences :: "string list option"
  acq_tools :: "avix_tool_descriptor list"
  acq_metadata :: complete_metadata

record usage_summary =
  us_input_tokens :: u32
  us_output_tokens :: u32
  us_total_tokens :: u32

record avix_complete_response =
  acr_provider :: string
  acr_model :: string
  acr_content :: "json list"
  acr_usage :: usage_summary
  acr_stop_reason :: string
  acr_latency_ms :: u64

record avix_image_request =
  aiq_provider :: "string option"
  aiq_model :: string
  aiq_prompt :: string
  aiq_negative_prompt :: "string option"
  aiq_size :: "string option"
  aiq_style :: "string option"
  aiq_n :: "u32 option"
  aiq_metadata :: complete_metadata

record image_output =
  io_file_path :: string
  io_mime_type :: string
  io_size :: "string option"
  io_bytes :: u64

record 'f avix_speech_request =
  asq_provider :: "string option"
  asq_model :: string
  asq_text :: string
  asq_voice :: string
  asq_format :: "string option"
  asq_speed :: "'f option"
  asq_stream :: "bool option"
  asq_metadata :: complete_metadata

record speech_endpoint_rec =
  sep_url :: string
  sep_headers :: "(string, string) hmap"
  sep_format :: string

record avix_transcribe_request =
  atq_provider :: "string option"
  atq_model :: string
  atq_file_path :: string
  atq_language :: "string option"
  atq_prompt :: "string option"
  atq_granularity :: "string option"
  atq_metadata :: complete_metadata

record multipart_request =
  mpr_url :: string
  mpr_headers :: "(string, string) hmap"
  mpr_fields :: "(string, string) hmap"
  mpr_audio_bytes :: bytes
  mpr_filename :: string

record 'f transcribe_segment =
  sg_start :: 'f
  sg_end :: 'f
  sg_text :: string

record 'f avix_transcribe_response =
  atr_text :: string
  atr_language :: "string option"
  atr_duration_sec :: "'f option"
  atr_segments :: "'f transcribe_segment list option"

datatype embed_input = EmbedSingle string | EmbedBatch "string list"

record avix_embed_request =
  aeq_provider :: "string option"
  aeq_model :: string
  aeq_input :: embed_input
  aeq_metadata :: complete_metadata

record 'f avix_embed_response =
  aer_embeddings :: "'f list list"
  aer_dimensions :: u32
  aer_input_tokens :: u32

datatype adapter_error = UnsupportedModality modality | ParseError string | MissingField string

fun modality_debug :: "modality \<Rightarrow> string" where
  "modality_debug Text = ''Text''"
| "modality_debug Image = ''Image''"
| "modality_debug Speech = ''Speech''"
| "modality_debug Transcription = ''Transcription''"
| "modality_debug Embedding = ''Embedding''"

fun adapter_error_display :: "adapter_error \<Rightarrow> string" where
  "adapter_error_display (UnsupportedModality m) = ''adapter does not support modality: '' @ modality_debug m"
| "adapter_error_display (ParseError e) = ''parse error: '' @ e"
| "adapter_error_display (MissingField f) = ''missing field: '' @ f"

type_synonym 'a adapted = "adapter_error + 'a"

section \<open>The interface\<close>

record 'f provider_adapter =
  pa_provider_name :: string
  pa_modalities :: "modality list"
  pa_translate_tools :: "avix_tool_descriptor list \<Rightarrow> json"
  pa_build_complete :: "'f avix_complete_request \<Rightarrow> json"
  pa_parse_complete :: "json \<Rightarrow> avix_complete_response adapted"
  pa_parse_tool_call :: "json \<Rightarrow> avix_tool_call adapted"
  pa_format_tool_result :: "avix_tool_result \<Rightarrow> json"
  pa_complete_path :: string
  pa_parse_stream_event :: "string option \<Rightarrow> string \<Rightarrow> stream_chunk option adapted"
  pa_build_image :: "avix_image_request \<Rightarrow> json adapted"
  pa_parse_image :: "json \<Rightarrow> image_output list adapted"
  pa_build_speech :: "'f avix_speech_request \<Rightarrow> json adapted"
  pa_speech_endpoint :: "'f avix_speech_request \<Rightarrow> speech_endpoint_rec adapted"
  pa_build_transcription :: "avix_transcribe_request \<Rightarrow> bytes \<Rightarrow> multipart_request adapted"
  pa_parse_transcription :: "json \<Rightarrow> 'f avix_transcribe_response adapted"
  pa_build_embed :: "avix_embed_request \<Rightarrow> json adapted"
  pa_parse_embed :: "json \<Rightarrow> 'f avix_embed_response adapted"

text \<open>The default methods of the trait; the five text methods have none and are given.\<close>

definition adapter_defaults ::
  "string \<Rightarrow> modality list \<Rightarrow> (avix_tool_descriptor list \<Rightarrow> json) \<Rightarrow> ('f avix_complete_request \<Rightarrow> json) \<Rightarrow>
   (json \<Rightarrow> avix_complete_response adapted) \<Rightarrow> (json \<Rightarrow> avix_tool_call adapted) \<Rightarrow> (avix_tool_result \<Rightarrow> json) \<Rightarrow> 'f provider_adapter" where
  "adapter_defaults name ms tools build parse call result =
     \<lparr> pa_provider_name = name, pa_modalities = ms, pa_translate_tools = tools, pa_build_complete = build, pa_parse_complete = parse,
       pa_parse_tool_call = call, pa_format_tool_result = result, pa_complete_path = ''/v1/chat/completions'',
       pa_parse_stream_event = (\<lambda>_ _. Inl (UnsupportedModality Text)),
       pa_build_image = (\<lambda>_. Inl (UnsupportedModality Image)), pa_parse_image = (\<lambda>_. Inl (UnsupportedModality Image)),
       pa_build_speech = (\<lambda>_. Inl (UnsupportedModality Speech)), pa_speech_endpoint = (\<lambda>_. Inl (UnsupportedModality Speech)),
       pa_build_transcription = (\<lambda>_ _. Inl (UnsupportedModality Transcription)),
       pa_parse_transcription = (\<lambda>_. Inl (UnsupportedModality Transcription)),
       pa_build_embed = (\<lambda>_. Inl (UnsupportedModality Embedding)), pa_parse_embed = (\<lambda>_. Inl (UnsupportedModality Embedding)) \<rparr>"

text \<open>\<^verbatim>\<open>body["k"] = v\<close> on the bodies the adapters build, which are objects.\<close>

definition set_key :: "string \<Rightarrow> json \<Rightarrow> json \<Rightarrow> json" where
  "set_key k v body = (case body of JObj m \<Rightarrow> JObj (hm_insert k v m) | _ \<Rightarrow> body)"

definition build_stream_request :: "'f provider_adapter \<Rightarrow> 'f avix_complete_request \<Rightarrow> json" where
  "build_stream_request a req = set_key ''stream'' (JBool True) (pa_build_complete a req)"

definition stream_complete_path :: "'f provider_adapter \<Rightarrow> string" where
  "stream_complete_path a = pa_complete_path a"

record 'f adapter_env =
  ax_parse :: "string \<Rightarrow> string + json"
  ax_print :: "json \<Rightarrow> string"
  ax_base64 :: "string \<Rightarrow> string + bytes"
  ax_f32 :: "json \<Rightarrow> 'f option"
  ax_num :: "'f \<Rightarrow> json"
  ax_zero :: 'f
  ax_half :: 'f
  ax_one :: 'f

definition wire_name :: "string \<Rightarrow> string" where
  "wire_name name = (case tool_name_parse name of Inr t \<Rightarrow> tool_name_mangled t | Inl _ \<Rightarrow> str_replace ''/'' ''__'' name)"

definition unwire_name :: "string \<Rightarrow> string" where
  "unwire_name w = (case tool_name_unmangle w of Inr t \<Rightarrow> tool_str t | Inl _ \<Rightarrow> str_replace ''__'' ''/'' w)"

definition str_at :: "json \<Rightarrow> string \<Rightarrow> string" where
  "str_at v k = unwrap_or [] (as_str (json_index v k))"

definition u32_at :: "json \<Rightarrow> string \<Rightarrow> u32" where
  "u32_at v k = ucast (unwrap_or 0 (as_u64 (json_index v k)))"

definition opt_key :: "string \<Rightarrow> ('a \<Rightarrow> json) \<Rightarrow> 'a option \<Rightarrow> json \<Rightarrow> json" where
  "opt_key k f x body = (case x of Some v \<Rightarrow> set_key k (f v) body | None \<Rightarrow> body)"

definition add_tools :: "json \<Rightarrow> json \<Rightarrow> json" where
  "add_tools tools body = (case tools of JArr (t # ts) \<Rightarrow> set_key ''tools'' tools body | _ \<Rightarrow> body)"

section \<open>OpenAI\<close>

definition openai_call_block :: "'f adapter_env \<Rightarrow> json \<Rightarrow> json" where
  "openai_call_block env b =
     JObj [(''id'', JStr (str_at b ''id'')), (''type'', JStr ''function''),
       (''function'', JObj [(''name'', JStr (wire_name (str_at b ''name''))), (''arguments'', JStr (ax_print env (json_index b ''input'')))])]"

definition block_type :: "json \<Rightarrow> string option" where
  "block_type b = as_str (json_index b ''type'')"

definition openai_tool_message :: "'f adapter_env \<Rightarrow> json \<Rightarrow> json" where
  "openai_tool_message env b =
     (let c = json_index b ''content'';
          text_of = (case c of
             JStr s \<Rightarrow> s
           | JArr xs \<Rightarrow> concat (List.map_filter (\<lambda>x. as_str (json_index x ''text'')) xs)
           | _ \<Rightarrow> ax_print env c)
      in JObj [(''role'', JStr ''tool''), (''tool_call_id'', JStr (str_at b ''tool_use_id'')), (''content'', JStr text_of)])"

definition convert_message :: "'f adapter_env \<Rightarrow> json \<Rightarrow> json list" where
  "convert_message env msg =
     (let role = str_at msg ''role''; content = as_array (json_index msg ''content'')
      in if role = ''assistant'' then
           (case content of
              None \<Rightarrow> [msg]
            | Some blocks \<Rightarrow>
                (let calls = filter (\<lambda>b. block_type b = Some ''tool_use'') blocks;
                     texts = List.map_filter (\<lambda>b. if block_type b = Some ''text'' then as_str (json_index b ''text'') else None) blocks
                 in if calls = [] then [msg]
                    else [JObj [(''role'', JStr ''assistant''), (''content'', if texts = [] then JNull else JStr (concat texts)),
                            (''tool_calls'', JArr (map (openai_call_block env) calls))]]))
         else if role = ''user'' then
           (case content of
              None \<Rightarrow> [msg]
            | Some blocks \<Rightarrow>
                if list_all (\<lambda>b. block_type b = Some ''tool_result'') blocks then map (openai_tool_message env) blocks else [msg])
         else [msg])"

definition convert_messages :: "'f adapter_env \<Rightarrow> json list \<Rightarrow> json list" where
  "convert_messages env ms = concat (map (convert_message env) ms)"

definition openai_translate_tools :: "avix_tool_descriptor list \<Rightarrow> json" where
  "openai_translate_tools ts =
     JArr (map (\<lambda>t. JObj [(''type'', JStr ''function''),
       (''function'', JObj [(''name'', JStr (wire_name (td_name t))), (''description'', JStr (td_description t)),
         (''parameters'', td_input_schema t)])]) ts)"

definition openai_build_complete :: "'f adapter_env \<Rightarrow> 'f avix_complete_request \<Rightarrow> json" where
  "openai_build_complete env req =
     add_tools (openai_translate_tools (acq_tools req))
       (opt_key ''stop'' (\<lambda>ss. JArr (map JStr ss)) (case acq_stop_sequences req of Some (x # xs) \<Rightarrow> Some (x # xs) | _ \<Rightarrow> None)
         (opt_key ''temperature'' (ax_num env) (acq_temperature req)
           (opt_key ''max_tokens'' (\<lambda>n. JNum (uint n)) (acq_max_tokens req)
             (JObj [(''model'', JStr (acq_model req)), (''messages'', JArr (convert_messages env (acq_messages req)))]))))"

definition openai_tool_use :: "'f adapter_env \<Rightarrow> json \<Rightarrow> json" where
  "openai_tool_use env tc =
     (let f = json_index tc ''function''
      in JObj [(''type'', JStr ''tool_use''), (''id'', JStr (str_at tc ''id'')), (''name'', JStr (unwire_name (str_at f ''name''))),
           (''input'', case ax_parse env (unwrap_or ''{}'' (as_str (json_index f ''arguments''))) of Inr v \<Rightarrow> v | Inl _ \<Rightarrow> JObj [])])"

definition usage_of :: "u32 \<Rightarrow> u32 \<Rightarrow> usage_summary" where
  "usage_of i out = \<lparr> us_input_tokens = i, us_output_tokens = out, us_total_tokens = i + out \<rparr>"

definition openai_parse_complete :: "'f adapter_env \<Rightarrow> json \<Rightarrow> avix_complete_response adapted" where
  "openai_parse_complete env raw =
     (case as_array (json_index raw ''choices'') of
        Some (choice # _) \<Rightarrow>
          (let message = json_index choice ''message''; txt = str_at message ''content'';
               calls = unwrap_or [] (as_array (json_index message ''tool_calls'')); u = json_index raw ''usage''
           in Inr \<lparr> acr_provider = ''openai'', acr_model = str_at raw ''model'',
                    acr_content = (if txt = [] then [] else [JObj [(''type'', JStr ''text''), (''text'', JStr txt)]]) @
                      map (openai_tool_use env) calls,
                    acr_usage = usage_of (u32_at u ''prompt_tokens'') (u32_at u ''completion_tokens''),
                    acr_stop_reason = (if calls \<noteq> [] then ''tool_use'' else unwrap_or ''stop'' (as_str (json_index choice ''finish_reason''))),
                    acr_latency_ms = 0 \<rparr>)
      | _ \<Rightarrow> Inl (MissingField ''choices[0]''))"

definition openai_parse_tool_call :: "'f adapter_env \<Rightarrow> json \<Rightarrow> avix_tool_call adapted" where
  "openai_parse_tool_call env raw =
     (case as_str (json_index raw ''id'') of
        None \<Rightarrow> Inl (MissingField ''id'')
      | Some cid \<Rightarrow>
          (let f = json_index raw ''function''
           in case as_str (json_index f ''name'') of
                None \<Rightarrow> Inl (MissingField ''function.name'')
              | Some w \<Rightarrow>
                  (case ax_parse env (unwrap_or ''{}'' (as_str (json_index f ''arguments''))) of
                     Inl e \<Rightarrow> Inl (ParseError e)
                   | Inr args \<Rightarrow> Inr \<lparr> tc_call_id = cid, tc_name = unwire_name w, tc_args = args \<rparr>)))"

definition openai_format_tool_result :: "'f adapter_env \<Rightarrow> avix_tool_result \<Rightarrow> json" where
  "openai_format_tool_result env r =
     JObj [(''role'', JStr ''tool''), (''tool_call_id'', JStr (tres_call_id r)),
       (''content'', JStr (case tres_error r of Some err \<Rightarrow> ''Error: '' @ err | None \<Rightarrow> ax_print env (tres_output r)))]"

definition openai_build_image :: "avix_image_request \<Rightarrow> json adapted" where
  "openai_build_image req =
     Inr (JObj [(''model'', JStr (aiq_model req)), (''prompt'', JStr (aiq_prompt req)), (''n'', JNum (uint (unwrap_or 1 (aiq_n req)))),
       (''size'', JStr (unwrap_or ''1024x1024'' (aiq_size req))), (''response_format'', JStr ''b64_json'')])"

definition png_output :: "bytes \<Rightarrow> image_output" where
  "png_output d = \<lparr> io_file_path = [], io_mime_type = ''image/png'', io_size = None, io_bytes = of_nat (length d) \<rparr>"

fun openai_parse_images :: "'f adapter_env \<Rightarrow> json list \<Rightarrow> image_output list adapted" where
  "openai_parse_images env [] = Inr []"
| "openai_parse_images env (item # items) =
     (case as_str (json_index item ''b64_json'') of
        None \<Rightarrow> Inl (MissingField ''b64_json'')
      | Some b \<Rightarrow>
          (case ax_base64 env b of
             Inl e \<Rightarrow> Inl (ParseError e)
           | Inr d \<Rightarrow> (case openai_parse_images env items of Inl e \<Rightarrow> Inl e | Inr outs \<Rightarrow> Inr (png_output d # outs))))"

definition openai_parse_image :: "'f adapter_env \<Rightarrow> json \<Rightarrow> image_output list adapted" where
  "openai_parse_image env raw =
     (case as_array (json_index raw ''data'') of None \<Rightarrow> Inl (MissingField ''data'') | Some items \<Rightarrow> openai_parse_images env items)"

definition openai_build_speech :: "'f adapter_env \<Rightarrow> 'f avix_speech_request \<Rightarrow> json adapted" where
  "openai_build_speech env req =
     Inr (JObj [(''model'', JStr (asq_model req)), (''input'', JStr (asq_text req)), (''voice'', JStr (asq_voice req)),
       (''response_format'', JStr (unwrap_or ''mp3'' (asq_format req))), (''speed'', ax_num env (unwrap_or (ax_one env) (asq_speed req)))])"

definition openai_speech_endpoint :: "'f avix_speech_request \<Rightarrow> speech_endpoint_rec adapted" where
  "openai_speech_endpoint req =
     Inr \<lparr> sep_url = ''/v1/audio/speech'', sep_headers = [], sep_format = unwrap_or ''mp3'' (asq_format req) \<rparr>"

definition openai_build_transcription :: "avix_transcribe_request \<Rightarrow> bytes \<Rightarrow> multipart_request adapted" where
  "openai_build_transcription req audio =
     Inr \<lparr> mpr_url = ''/v1/audio/transcriptions'', mpr_headers = [],
           mpr_fields = (case atq_prompt req of Some p \<Rightarrow> hm_insert ''prompt'' p | None \<Rightarrow> id)
             ((case atq_language req of Some l \<Rightarrow> hm_insert ''language'' l | None \<Rightarrow> id) [(''model'', atq_model req)]),
           mpr_audio_bytes = audio, mpr_filename = ''audio.wav'' \<rparr>"

definition openai_segment :: "'f adapter_env \<Rightarrow> json \<Rightarrow> 'f transcribe_segment" where
  "openai_segment env s =
     \<lparr> sg_start = unwrap_or (ax_zero env) (ax_f32 env (json_index s ''start'')),
       sg_end = unwrap_or (ax_zero env) (ax_f32 env (json_index s ''end'')), sg_text = str_at s ''text'' \<rparr>"

definition openai_parse_transcription :: "'f adapter_env \<Rightarrow> json \<Rightarrow> 'f avix_transcribe_response adapted" where
  "openai_parse_transcription env raw =
     (case as_str (json_index raw ''text'') of
        None \<Rightarrow> Inl (MissingField ''text'')
      | Some t \<Rightarrow> Inr \<lparr> atr_text = t, atr_language = as_str (json_index raw ''language''),
                        atr_duration_sec = ax_f32 env (json_index raw ''duration''),
                        atr_segments = map_option (map (openai_segment env)) (as_array (json_index raw ''segments'')) \<rparr>)"

definition openai_build_embed :: "avix_embed_request \<Rightarrow> json adapted" where
  "openai_build_embed req =
     Inr (JObj [(''model'', JStr (aeq_model req)),
       (''input'', JArr (map JStr (case aeq_input req of EmbedSingle s \<Rightarrow> [s] | EmbedBatch ss \<Rightarrow> ss)))])"

fun openai_embeddings :: "'f adapter_env \<Rightarrow> json list \<Rightarrow> 'f list list adapted" where
  "openai_embeddings env [] = Inr []"
| "openai_embeddings env (item # items) =
     (case as_array (json_index item ''embedding'') of
        None \<Rightarrow> Inl (MissingField ''embedding'')
      | Some vs \<Rightarrow> (case openai_embeddings env items of
                     Inl e \<Rightarrow> Inl e
                   | Inr es \<Rightarrow> Inr (map (\<lambda>v. unwrap_or (ax_zero env) (ax_f32 env v)) vs # es)))"

definition openai_parse_embed :: "'f adapter_env \<Rightarrow> json \<Rightarrow> 'f avix_embed_response adapted" where
  "openai_parse_embed env raw =
     (case as_array (json_index raw ''data'') of
        None \<Rightarrow> Inl (MissingField ''data'')
      | Some items \<Rightarrow>
          (case openai_embeddings env items of
             Inl e \<Rightarrow> Inl e
           | Inr es \<Rightarrow> Inr \<lparr> aer_embeddings = es, aer_dimensions = (case es of [] \<Rightarrow> 0 | e # _ \<Rightarrow> of_nat (length e)),
                            aer_input_tokens = u32_at (json_index raw ''usage'') ''prompt_tokens'' \<rparr>))"

text \<open>The chunk of one entry of a tool-call delta, if it has one.\<close>

definition openai_tool_delta :: "json \<Rightarrow> stream_chunk option" where
  "openai_tool_delta tc =
     (let f = json_index tc ''function''
      in case as_str (json_index tc ''id'') of
           Some cid \<Rightarrow> Some (ToolCallStart cid (unwire_name (str_at f ''name'')))
         | None \<Rightarrow>
             (case as_str (json_index f ''arguments'') of
                Some (c # cs) \<Rightarrow> Some (ToolCallArgsDelta (show_word (unwrap_or 0 (as_u64 (json_index tc ''index'')))) (c # cs))
              | _ \<Rightarrow> None))"

fun first_chunk :: "stream_chunk option list \<Rightarrow> stream_chunk option" where
  "first_chunk [] = None"
| "first_chunk (Some c # xs) = Some c"
| "first_chunk (None # xs) = first_chunk xs"

definition openai_finish :: "string \<Rightarrow> stop_reason" where
  "openai_finish r =
     (if r = ''tool_calls'' then ToolUse else if r = ''length'' then MaxTokens else if r = ''stop_sequence'' then StopSequence else EndTurn)"

definition openai_parse_stream_event :: "'f adapter_env \<Rightarrow> string option \<Rightarrow> string \<Rightarrow> stream_chunk option adapted" where
  "openai_parse_stream_event env event_name data =
     (case ax_parse env data of
        Inl e \<Rightarrow> Inl (ParseError e)
      | Inr v \<Rightarrow>
          (case as_array (json_index v ''choices'') of
             Some (choice # _) \<Rightarrow>
               (let delta = json_index choice ''delta''; txt = str_at delta ''content'';
                    fin = str_at choice ''finish_reason''; u = json_index v ''usage''
                in if txt \<noteq> [] then Inr (Some (TextDelta txt))
                   else (case first_chunk (map openai_tool_delta (unwrap_or [] (as_array (json_index delta ''tool_calls'')))) of
                           Some c \<Rightarrow> Inr (Some c)
                         | None \<Rightarrow>
                             if fin \<noteq> [] \<and> fin \<noteq> ''null'' then
                               Inr (Some (ChunkDone (openai_finish fin) (u32_at u ''prompt_tokens'') (u32_at u ''completion_tokens'')))
                             else Inr None))
           | _ \<Rightarrow> Inr None))"

definition openai_adapter :: "'f adapter_env \<Rightarrow> 'f provider_adapter" where
  "openai_adapter env =
     (adapter_defaults ''openai'' [Text, Image, Speech, Transcription, Embedding] openai_translate_tools (openai_build_complete env)
        (openai_parse_complete env) (openai_parse_tool_call env) (openai_format_tool_result env))
     \<lparr> pa_parse_stream_event := openai_parse_stream_event env, pa_build_image := openai_build_image,
       pa_parse_image := openai_parse_image env, pa_build_speech := openai_build_speech env, pa_speech_endpoint := openai_speech_endpoint,
       pa_build_transcription := openai_build_transcription, pa_parse_transcription := openai_parse_transcription env,
       pa_build_embed := openai_build_embed, pa_parse_embed := openai_parse_embed env \<rparr>"

section \<open>Anthropic\<close>

definition anthropic_translate_tools :: "avix_tool_descriptor list \<Rightarrow> json" where
  "anthropic_translate_tools ts =
     JArr (map (\<lambda>t. JObj [(''name'', JStr (wire_name (td_name t))), (''description'', JStr (td_description t)),
       (''input_schema'', td_input_schema t)]) ts)"

definition anthropic_build_complete :: "'f avix_complete_request \<Rightarrow> json" where
  "anthropic_build_complete req =
     add_tools (anthropic_translate_tools (acq_tools req))
       (opt_key ''system'' JStr (acq_system req)
         (JObj [(''model'', JStr (acq_model req)), (''max_tokens'', JNum (uint (unwrap_or 4096 (acq_max_tokens req)))),
           (''messages'', JArr (acq_messages req))]))"

definition anthropic_parse_complete :: "json \<Rightarrow> avix_complete_response adapted" where
  "anthropic_parse_complete raw =
     (let u = json_index raw ''usage''
      in Inr \<lparr> acr_provider = ''anthropic'', acr_model = str_at raw ''model'',
               acr_content = unwrap_or [] (as_array (json_index raw ''content'')),
               acr_usage = usage_of (u32_at u ''input_tokens'') (u32_at u ''output_tokens''),
               acr_stop_reason = unwrap_or ''end_turn'' (as_str (json_index raw ''stop_reason'')), acr_latency_ms = 0 \<rparr>)"

definition anthropic_parse_tool_call :: "json \<Rightarrow> avix_tool_call adapted" where
  "anthropic_parse_tool_call raw =
     (case as_str (json_index raw ''id'') of
        None \<Rightarrow> Inl (MissingField ''id'')
      | Some cid \<Rightarrow>
          (case as_str (json_index raw ''name'') of
             None \<Rightarrow> Inl (MissingField ''name'')
           | Some w \<Rightarrow> Inr \<lparr> tc_call_id = cid, tc_name = unwire_name w, tc_args = json_index raw ''input'' \<rparr>))"

definition anthropic_format_tool_result :: "'f adapter_env \<Rightarrow> avix_tool_result \<Rightarrow> json" where
  "anthropic_format_tool_result env r =
     (let block = JObj [(''type'', JStr ''tool_result''), (''tool_use_id'', JStr (tres_call_id r)),
                        (''content'', JStr (ax_print env (tres_output r)))]
      in JObj [(''role'', JStr ''user''),
               (''content'', JArr [if tres_error r \<noteq> None then set_key ''is_error'' (JBool True) block else block])])"

definition anthropic_finish :: "string \<Rightarrow> stop_reason" where
  "anthropic_finish r =
     (if r = ''tool_use'' then ToolUse else if r = ''max_tokens'' then MaxTokens else if r = ''stop_sequence'' then StopSequence else EndTurn)"

definition block_index :: "json \<Rightarrow> string" where
  "block_index v = show_word (unwrap_or 0 (as_u64 (json_index v ''index'')))"

definition anthropic_delta :: "json \<Rightarrow> stream_chunk option" where
  "anthropic_delta v =
     (let delta = json_index v ''delta''; ty = block_type delta
      in if ty = Some ''text_delta'' then (if str_at delta ''text'' = [] then None else Some (TextDelta (str_at delta ''text'')))
         else if ty = Some ''input_json_delta'' then
           (if str_at delta ''partial_json'' = [] then None else Some (ToolCallArgsDelta (block_index v) (str_at delta ''partial_json'')))
         else None)"

definition anthropic_parse_stream_event :: "'f adapter_env \<Rightarrow> string option \<Rightarrow> string \<Rightarrow> stream_chunk option adapted" where
  "anthropic_parse_stream_event env event_name data =
     (case ax_parse env data of
        Inl e \<Rightarrow> Inl (ParseError e)
      | Inr v \<Rightarrow>
          Inr (if event_name = Some ''content_block_start'' then
                 (let block = json_index v ''content_block''
                  in if block_type block = Some ''tool_use''
                     then Some (ToolCallStart (str_at block ''id'') (unwire_name (str_at block ''name''))) else None)
               else if event_name = Some ''content_block_delta'' then anthropic_delta v
               else if event_name = Some ''content_block_stop'' then Some (ToolCallComplete (block_index v))
               else if event_name = Some ''message_delta'' then
                 (let u = json_index v ''usage''
                  in Some (ChunkDone (anthropic_finish (unwrap_or ''end_turn'' (as_str (json_index (json_index v ''delta'') ''stop_reason''))))
                       (u32_at u ''input_tokens'') (u32_at u ''output_tokens'')))
               else None))"

definition anthropic_adapter :: "'f adapter_env \<Rightarrow> 'f provider_adapter" where
  "anthropic_adapter env =
     (adapter_defaults ''anthropic'' [Text] anthropic_translate_tools anthropic_build_complete anthropic_parse_complete
        anthropic_parse_tool_call (anthropic_format_tool_result env))
     \<lparr> pa_complete_path := ''/v1/messages'', pa_parse_stream_event := anthropic_parse_stream_event env \<rparr>"

section \<open>The other providers\<close>

definition ollama_adapter :: "'f adapter_env \<Rightarrow> 'f provider_adapter" where
  "ollama_adapter env =
     (adapter_defaults ''ollama'' [Text, Embedding] openai_translate_tools (openai_build_complete env)
        (openai_parse_complete env) (openai_parse_tool_call env) (openai_format_tool_result env))
     \<lparr> pa_parse_stream_event := openai_parse_stream_event env, pa_build_embed := openai_build_embed, pa_parse_embed := openai_parse_embed env \<rparr>"

definition xai_parse_complete :: "'f adapter_env \<Rightarrow> json \<Rightarrow> avix_complete_response adapted" where
  "xai_parse_complete env raw =
     (case openai_parse_complete env raw of Inl e \<Rightarrow> Inl e | Inr r \<Rightarrow> Inr (r\<lparr> acr_provider := ''xai'' \<rparr>))"

definition xai_adapter :: "'f adapter_env \<Rightarrow> 'f provider_adapter" where
  "xai_adapter env =
     (adapter_defaults ''xai'' [Text] openai_translate_tools (openai_build_complete env)
        (xai_parse_complete env) (openai_parse_tool_call env) (openai_format_tool_result env))
     \<lparr> pa_parse_stream_event := openai_parse_stream_event env \<rparr>"

text \<open>An adapter without text: the five text methods of the Stability and ElevenLabs adapters.\<close>

definition textless_adapter :: "string \<Rightarrow> modality list \<Rightarrow> 'f provider_adapter" where
  "textless_adapter name ms =
     adapter_defaults name ms (\<lambda>_. JArr []) (\<lambda>_. JObj []) (\<lambda>_. Inl (UnsupportedModality Text))
       (\<lambda>_. Inl (UnsupportedModality Text)) (\<lambda>_. JObj [])"

definition stability_build_image :: "avix_image_request \<Rightarrow> json adapted" where
  "stability_build_image req =
     Inr (opt_key ''negative_prompt'' JStr (aiq_negative_prompt req)
       (JObj [(''prompt'', JStr (aiq_prompt req)), (''output_format'', JStr ''png''), (''aspect_ratio'', JStr (unwrap_or ''1:1'' (aiq_size req)))]))"

definition stability_parse_image :: "'f adapter_env \<Rightarrow> json \<Rightarrow> image_output list adapted" where
  "stability_parse_image env raw =
     (case as_str (json_index raw ''image'') of
        None \<Rightarrow> Inl (MissingField ''image'')
      | Some b \<Rightarrow> (case ax_base64 env b of Inl e \<Rightarrow> Inl (ParseError e) | Inr d \<Rightarrow> Inr [png_output d]))"

definition stability_adapter :: "'f adapter_env \<Rightarrow> 'f provider_adapter" where
  "stability_adapter env =
     (textless_adapter ''stability-ai'' [Image])\<lparr> pa_build_image := stability_build_image, pa_parse_image := stability_parse_image env \<rparr>"

definition elevenlabs_build_speech :: "'f adapter_env \<Rightarrow> 'f avix_speech_request \<Rightarrow> json adapted" where
  "elevenlabs_build_speech env req =
     Inr (JObj [(''text'', JStr (asq_text req)), (''model_id'', JStr (asq_model req)),
       (''voice_settings'', JObj [(''stability'', ax_num env (ax_half env)), (''similarity_boost'', ax_num env (ax_half env))])])"

definition elevenlabs_speech_endpoint :: "'f avix_speech_request \<Rightarrow> speech_endpoint_rec adapted" where
  "elevenlabs_speech_endpoint req =
     Inr \<lparr> sep_url = ''/v1/text-to-speech/'' @ asq_voice req, sep_headers = [], sep_format = unwrap_or ''mp3'' (asq_format req) \<rparr>"

definition elevenlabs_adapter :: "'f adapter_env \<Rightarrow> 'f provider_adapter" where
  "elevenlabs_adapter env =
     (textless_adapter ''elevenlabs'' [Speech])\<lparr> pa_build_speech := elevenlabs_build_speech env, pa_speech_endpoint := elevenlabs_speech_endpoint \<rparr>"

section \<open>Server-sent events\<close>

text \<open>
  \<^verbatim>\<open>String::from_utf8_lossy\<close>: every maximal prefix of a sequence that cannot be completed is replaced by the bytes of
  the replacement character.
\<close>

fun lossy_skip :: "bytes \<Rightarrow> nat" where
  "lossy_skip [] = 0"
| "lossy_skip (a # xs) =
     (let n = utf8_width a
      in if n \<le> 1 \<or> xs = [] \<or> \<not> utf8_second a (hd xs) then 1
         else if n = 4 \<and> tl xs \<noteq> [] \<and> utf8_cont (hd (tl xs)) then 3
         else 2)"

lemma lossy_skip_pos: "bs \<noteq> [] \<Longrightarrow> 0 < lossy_skip bs"
  by (cases bs) (simp_all add: Let_def)

function utf8_lossy :: "bytes \<Rightarrow> bytes" where
  "utf8_lossy bs =
     (if bs = [] then []
      else if utf8_head bs \<noteq> 0 then take (utf8_head bs) bs @ utf8_lossy (drop (utf8_head bs) bs)
      else [0xEF, 0xBF, 0xBD] @ utf8_lossy (drop (lossy_skip bs) bs))"
  by pat_completeness auto
termination
  by (relation "measure length") (auto simp: lossy_skip_pos intro: diff_less)

declare utf8_lossy.simps [simp del]

datatype sse_line = SseEvent string | SseData string | SseDone

definition sse_parse_line :: "string \<Rightarrow> sse_line option" where
  "sse_parse_line line =
     (let l = trim_end_char (CHR 0x0D) line
      in if l = [] \<or> starts_with l '':'' then None
         else (case strip_prefix ''data: '' l of
                 Some rest \<Rightarrow> if rest = ''[DONE]'' then Some SseDone else if rest \<noteq> [] then Some (SseData rest) else None
               | None \<Rightarrow> (case strip_prefix ''event: '' l of Some rest \<Rightarrow> Some (SseEvent rest) | None \<Rightarrow> None)))"

text \<open>The complete lines of the buffer and what is left of it.\<close>

function drain_lines :: "string \<Rightarrow> string list \<times> string" where
  "drain_lines buf =
     (case split_once (CHR 0x0A) buf of
        None \<Rightarrow> ([], buf)
      | Some (line, rest) \<Rightarrow> (case drain_lines rest of (ls, r) \<Rightarrow> (line # ls, r)))"
  by pat_completeness auto
termination
  by (relation "measure length") (auto dest: split_once_Some)

declare drain_lines.simps [simp del]

text \<open>One chunk of the body: its items and the new buffer.  An error of the transport is passed on and leaves the buffer.\<close>

definition sse_chunk :: "string + bytes \<Rightarrow> string \<Rightarrow> (string + sse_line) list \<times> string" where
  "sse_chunk chunk buf =
     (case chunk of
        Inl e \<Rightarrow> ([Inl (''SSE read error: '' @ e)], buf)
      | Inr bs \<Rightarrow>
          (case drain_lines (buf @ string_of_bytes (utf8_lossy bs)) of
             (ls, r) \<Rightarrow> (map Inr (List.map_filter (\<lambda>l. sse_parse_line (trim_end_char (CHR 0x0D) l)) ls), r)))"

fun sse_lines :: "(string + bytes) list \<Rightarrow> string \<Rightarrow> (string + sse_line) list" where
  "sse_lines [] buf = []"
| "sse_lines (c # cs) buf = (case sse_chunk c buf of (items, buf') \<Rightarrow> items @ sse_lines cs buf')"

section \<open>The decoder does not depend on the cuts\<close>

lemma utf8_lossy_valid: "utf8_valid bs \<Longrightarrow> utf8_lossy bs = bs"
proof (induction bs rule: utf8_valid.induct)
  case (1 bs)
  show ?case
  proof (cases "bs = []")
    case False
    with "1.prems" have h: "utf8_head bs \<noteq> 0" "utf8_valid (drop (utf8_head bs) bs)"
      by (simp_all add: utf8_valid.simps [of bs] split: if_splits)
    with False "1.IH" show ?thesis by (simp add: utf8_lossy.simps [of bs])
  qed (simp add: utf8_lossy.simps)
qed

lemma split_once_append:
  "split_once c (a @ b) = (case split_once c a of Some (l, r) \<Rightarrow> Some (l, r @ b)
     | None \<Rightarrow> map_option (\<lambda>(l, r). (a @ l, r)) (split_once c b))"
  by (auto simp: split_once_def takeWhile_append dropWhile_append)

lemma drain_lines_none: "split_once (CHR 0x0A) buf = None \<Longrightarrow> drain_lines buf = ([], buf)"
  by (subst drain_lines.simps) simp

lemma drain_lines_some:
  "split_once (CHR 0x0A) buf = Some (l, r) \<Longrightarrow> drain_lines buf = (l # fst (drain_lines r), snd (drain_lines r))"
  by (subst drain_lines.simps) (simp split: prod.splits)

lemma drain_lines_append:
  "drain_lines (a @ b) =
     (fst (drain_lines a) @ fst (drain_lines (snd (drain_lines a) @ b)), snd (drain_lines (snd (drain_lines a) @ b)))"
proof (induction a rule: drain_lines.induct)
  case (1 a)
  show ?case
  proof (cases "split_once (CHR 0x0A) a")
    case None
    then show ?thesis by (simp add: drain_lines_none)
  next
    case (Some lr)
    then obtain l r where lr: "split_once (CHR 0x0A) a = Some (l, r)" by (cases lr) simp
    then have ab: "split_once (CHR 0x0A) (a @ b) = Some (l, r @ b)" by (simp add: split_once_append)
    show ?thesis using "1.IH" [OF lr refl] by (simp add: drain_lines_some [OF lr] drain_lines_some [OF ab])
  qed
qed

lemma string_of_bytes_append: "string_of_bytes (a @ b) = string_of_bytes a @ string_of_bytes b"
  by (simp add: string_of_bytes_def)

lemma map_filter_app: "List.map_filter f (xs @ ys) = List.map_filter f xs @ List.map_filter f ys"
  by (simp add: map_filter_def)

lemma sse_lines_merge:
  assumes "utf8_valid a" and "utf8_valid b"
  shows "sse_lines (Inr a # Inr b # cs) buf = sse_lines (Inr (a @ b) # cs) buf"
  using assms drain_lines_append [of "buf @ string_of_bytes a" "string_of_bytes b"]
  by (simp add: sse_chunk_def utf8_lossy_valid utf8_valid_append string_of_bytes_append map_filter_app split: prod.splits)

lemma sse_lines_cuts:
  "utf8_valid c \<Longrightarrow> list_all utf8_valid cs \<Longrightarrow> sse_lines (Inr c # map Inr cs) buf = sse_lines [Inr (c @ concat cs)] buf"
proof (induction cs arbitrary: c)
  case (Cons d cs)
  then have "sse_lines (Inr c # Inr d # map Inr cs) buf = sse_lines (Inr (c @ d) # map Inr cs) buf"
    by (intro sse_lines_merge) simp_all
  with Cons show ?case by (simp add: utf8_valid_append)
qed simp

text \<open>
  C39.  The cuts of the network do not matter: a response body whose chunks are each valid UTF-8 decodes to the same sequence of
  event and data lines whether it arrives in these pieces or whole, wherever in a line the cuts fall.  (A cut inside
  a multi-byte character is different: each half is replaced by the replacement character.)
\<close>

theorem sse_cuts_irrelevant:
  assumes "list_all utf8_valid cs"
  shows "sse_lines (map Inr cs) [] = sse_lines [Inr (concat cs)] []"
proof (cases cs)
  case Nil
  then show ?thesis by (simp add: sse_chunk_def utf8_lossy.simps string_of_bytes_def drain_lines_none split_once_def)
qed (use assms sse_lines_cuts in simp)

theorem sse_cuts_irrelevant_witness:
  "sse_lines [Inr (bytes_of_string ''data: {\"a''), Inr (bytes_of_string ''\":1}'' @ [10])] [] = sse_lines [Inr (bytes_of_string ''data: {\"a\":1}'' @ [10])] []"
proof -
  have "sse_lines (map Inr [bytes_of_string ''data: {\"a'', bytes_of_string ''\":1}'' @ [10]]) [] =
      sse_lines [Inr (concat [bytes_of_string ''data: {\"a'', bytes_of_string ''\":1}'' @ [10]])] []"
    by (rule sse_cuts_irrelevant) (simp add: bytes_of_string_def utf8_valid.simps utf8_width_def)
  then show ?thesis by (simp add: bytes_of_string_def)
qed

text \<open>A character cut in two is lost: each half becomes a replacement character.\<close>

lemma sse_split_character:
  "sse_lines [Inr (bytes_of_string ''data: '' @ [0xC3]), Inr [0xA9, 10]] [] =
     [Inr (SseData (string_of_bytes [0xEF, 0xBF, 0xBD, 0xEF, 0xBF, 0xBD]))]"
  "sse_lines [Inr (bytes_of_string ''data: '' @ [0xC3, 0xA9, 10])] [] = [Inr (SseData (string_of_bytes [0xC3, 0xA9]))]"
  by code_simp+

end
