(* ===== verification/Llm_Client.thy ===== *)
theory Llm_Client
  imports Llm_Adapter
begin

text \<open>
  The client that talks to a provider over HTTP (\<^verbatim>\<open>llm_svc/http_client.rs\<close>): the request it sends, the
  response it accepts, and the stream of chunks it decodes.  HTTP itself is a parameter: a call returns
  a transport error or the views of a response the code uses.

  The lemmas show that a tool offered to a model is called back under its own name, that a translated
  conversation has the same calls and results in the same order, and that the fragments of concurrently streamed
  tool calls are attributed to the right call, for both wire formats.
\<close>

section \<open>Calls over HTTP\<close>

record http_reply =
  hrp_success :: bool
  hrp_status :: string
  hrp_json :: "string + json"
  hrp_text :: string
  hrp_bytes :: "string + bytes"
  hrp_chunks :: "(string + bytes) list"

datatype http_body = HttpJson json | HttpForm "(string \<times> string) list" bytes

record http_call =
  hcl_url :: string
  hcl_header :: "(string \<times> string) option"
  hcl_body :: http_body

type_synonym 'w http = "http_call \<Rightarrow> 'w \<Rightarrow> (string + http_reply) \<times> 'w"

record 'f direct_client =
  dh_base_url :: string
  dh_default_model :: string
  dh_auth_header :: "(string \<times> string) option"
  dh_adapter :: "'f provider_adapter"

definition tool_descriptor_of :: "json \<Rightarrow> avix_tool_descriptor option" where
  "tool_descriptor_of t =
     map_option (\<lambda>n. \<lparr> td_name = n, td_description = str_at t ''description'',
        td_input_schema = unwrap_or (JObj [(''type'', JStr ''object''), (''properties'', JObj [])]) (json_get t ''input_schema'') \<rparr>)
       (as_str (json_index t ''name''))"

definition client_request :: "'f direct_client \<Rightarrow> bool \<Rightarrow> llm_complete_request \<Rightarrow> 'f avix_complete_request" where
  "client_request hc streaming req =
     \<lparr> acq_provider = None, acq_model = (if lq_model req = [] then dh_default_model hc else lq_model req),
       acq_messages = (case lq_system req of
          Some s \<Rightarrow> JObj [(''role'', JStr ''system''), (''content'', JStr s)] # lq_messages req | None \<Rightarrow> lq_messages req),
       acq_system = None, acq_max_tokens = Some (lq_max_tokens req), acq_temperature = None, acq_stream = Some streaming,
       acq_stop_sequences = None, acq_tools = List.map_filter tool_descriptor_of (lq_tools req),
       acq_metadata = \<lparr> cm_agent_pid = 0, cm_session_id = [] \<rparr> \<rparr>"

definition client_url :: "'f direct_client \<Rightarrow> string \<Rightarrow> string" where
  "client_url hc path = trim_end_char (CHR ''/'') (dh_base_url hc) @ path"

definition response_stop :: "string \<Rightarrow> stop_reason" where
  "response_stop r =
     (if r = ''tool_use'' then ToolUse else if r = ''max_tokens'' then MaxTokens else if r = ''stop_sequence'' then StopSequence else EndTurn)"

definition direct_complete ::
  "'f adapter_env \<Rightarrow> 'w http \<Rightarrow> 'f direct_client \<Rightarrow> llm_complete_request \<Rightarrow> 'w \<Rightarrow> (string + llm_complete_response) \<times> 'w" where
  "direct_complete env http hc req w =
     (let a = dh_adapter hc; url = client_url hc (pa_complete_path a)
      in case http \<lparr> hcl_url = url, hcl_header = dh_auth_header hc, hcl_body = HttpJson (pa_build_complete a (client_request hc False req)) \<rparr> w of
           (Inl e, w') \<Rightarrow> (Inl (''HTTP error calling '' @ url @ '': '' @ e), w')
         | (Inr rep, w') \<Rightarrow>
             (case hrp_json rep of
                Inl e \<Rightarrow> Inl (''failed to parse JSON response from '' @ url @ '': '' @ e)
              | Inr raw \<Rightarrow>
                  if \<not> hrp_success rep then
                    Inl (''provider '' @ pa_provider_name a @ '' returned '' @ hrp_status rep @ '': '' @
                      unwrap_or (ax_print env raw) (as_str (json_index (json_index raw ''error'') ''message'')))
                  else
                    (case pa_parse_complete a raw of
                       Inl e \<Rightarrow> Inl (''failed to parse provider response: '' @ adapter_error_display e)
                     | Inr r \<Rightarrow> Inr \<lparr> lr_content = acr_content r, lr_stop_reason = response_stop (acr_stop_reason r),
                                     lr_input_tokens = us_input_tokens (acr_usage r), lr_output_tokens = us_output_tokens (acr_usage r) \<rparr>), w'))"

section \<open>Streaming\<close>

type_synonym scan_state = "string option \<times> (string, string) hmap"

definition json_elem :: "json \<Rightarrow> nat \<Rightarrow> json" where
  "json_elem v n = (case v of JArr xs \<Rightarrow> if n < length xs then xs ! n else JNull | _ \<Rightarrow> JNull)"

definition note_entry :: "string \<Rightarrow> json \<Rightarrow> (string, string) hmap \<Rightarrow> (string, string) hmap" where
  "note_entry cid tc m =
     (if as_str (json_index tc ''id'') = Some cid then
        (case as_u64 (json_index tc ''index'') of Some i \<Rightarrow> hm_insert (show_word i) cid m | None \<Rightarrow> m)
      else m)"

text \<open>The index of a starting call is noted from the raw data, in either provider's format.\<close>

definition note_index :: "'f adapter_env \<Rightarrow> string \<Rightarrow> string \<Rightarrow> (string, string) hmap \<Rightarrow> (string, string) hmap" where
  "note_index env data cid m =
     (case ax_parse env data of
        Inl _ \<Rightarrow> m
      | Inr v \<Rightarrow>
          (let m1 = fold (note_entry cid)
                      (unwrap_or [] (as_array (json_index (json_index (json_elem (json_index v ''choices'') 0) ''delta'') ''tool_calls''))) m;
               block = json_index v ''content_block''
           in if block_type block = Some ''tool_use'' \<and> as_str (json_index block ''id'') = Some cid then
                (case as_u64 (json_index v ''index'') of Some i \<Rightarrow> hm_insert (show_word i) cid m1 | None \<Rightarrow> m1)
              else m1))"

definition scan_step ::
  "'f adapter_env \<Rightarrow> 'f provider_adapter \<Rightarrow> string + sse_line \<Rightarrow> scan_state \<Rightarrow> (string + stream_chunk) option \<times> scan_state" where
  "scan_step env a line st =
     (case st of (last_event, ids) \<Rightarrow>
       (case line of
          Inl e \<Rightarrow> (Some (Inl e), st)
        | Inr SseDone \<Rightarrow> (None, st)
        | Inr (SseEvent name) \<Rightarrow> (None, (Some name, ids))
        | Inr (SseData data) \<Rightarrow>
            (case pa_parse_stream_event a last_event data of
               Inl e \<Rightarrow> (Some (Inl (''SSE parse error: '' @ adapter_error_display e)), (None, ids))
             | Inr None \<Rightarrow> (None, (None, ids))
             | Inr (Some (ToolCallStart cid name)) \<Rightarrow> (Some (Inr (ToolCallStart cid name)), (None, note_index env data cid ids))
             | Inr (Some (ToolCallArgsDelta cid d)) \<Rightarrow>
                 (Some (Inr (ToolCallArgsDelta (unwrap_or cid (hm_get ids cid)) d)), (None, ids))
             | Inr (Some c) \<Rightarrow> (Some (Inr c), (None, ids)))))"

fun scan_lines ::
  "'f adapter_env \<Rightarrow> 'f provider_adapter \<Rightarrow> (string + sse_line) list \<Rightarrow> scan_state \<Rightarrow> (string + stream_chunk) list \<times> scan_state" where
  "scan_lines env a [] st = ([], st)"
| "scan_lines env a (l # ls) st =
     (case scan_step env a l st of
        (c, st1) \<Rightarrow> (case scan_lines env a ls st1 of (cs, st2) \<Rightarrow> (case c of None \<Rightarrow> cs | Some x \<Rightarrow> x # cs, st2)))"

definition direct_stream_complete ::
  "'f adapter_env \<Rightarrow> 'w http \<Rightarrow> 'f direct_client \<Rightarrow> llm_complete_request \<Rightarrow> 'w \<Rightarrow> (string + (string + stream_chunk) list) \<times> 'w" where
  "direct_stream_complete env http hc req w =
     (let a = dh_adapter hc; url = client_url hc (stream_complete_path a)
      in case http \<lparr> hcl_url = url, hcl_header = dh_auth_header hc, hcl_body = HttpJson (build_stream_request a (client_request hc True req)) \<rparr> w of
           (Inl e, w') \<Rightarrow> (Inl (''HTTP error calling '' @ url @ '': '' @ e), w')
         | (Inr rep, w') \<Rightarrow>
             (if \<not> hrp_success rep then
                Inl (''provider '' @ pa_provider_name a @ '' returned '' @ hrp_status rep @ '': '' @ hrp_text rep)
              else Inr (fst (scan_lines env a (sse_lines (hrp_chunks rep) []) (None, []))), w'))"

lemma scan_lines_append:
  "scan_lines env a (xs @ ys) st =
     (fst (scan_lines env a xs st) @ fst (scan_lines env a ys (snd (scan_lines env a xs st))),
      snd (scan_lines env a ys (snd (scan_lines env a xs st))))"
  by (induction xs arbitrary: st) (auto split: prod.splits option.splits)

section \<open>Names of tools\<close>

text \<open>A name that survives the wire form: the parser accepts it and no underscore stands before a slash.\<close>

definition wire_safe :: "string \<Rightarrow> bool" where
  "wire_safe n \<longleftrightarrow> n \<noteq> [] \<and> \<not> contains_str n ''__'' \<and> \<not> contains_str n ''_/''"

lemma unwire_name_eq: "unwire_name w = unmangle w"
  by (auto simp: unwire_name_def tool_name_unmangle_def tool_name_parse_def unmangle_def wire_sep_def split: sum.splits)

lemma wire_name_safe: "wire_safe n \<Longrightarrow> unwire_name (wire_name n) = n"
  using unmangle_mangle_iff [of n]
  by (simp add: unwire_name_eq wire_safe_def wire_name_def tool_name_parse_def tool_name_mangled_def wire_sep_def)

text \<open>
  What a provider's format of tools promises: the offered names are the wire names, and a call in the provider's format is
  parsed to its id, the unmangled name and the arguments, when these are acceptable.
\<close>

locale tool_format =
  fixes offer :: "avix_tool_descriptor list \<Rightarrow> json"
    and offered :: "json \<Rightarrow> string list"
    and call :: "string \<Rightarrow> string \<Rightarrow> json \<Rightarrow> json"
    and parse_call :: "json \<Rightarrow> avix_tool_call adapted"
    and acceptable :: "json \<Rightarrow> bool"
  assumes offers: "offered (offer ts) = map (\<lambda>t. wire_name (td_name t)) ts"
    and parses: "acceptable args \<Longrightarrow> parse_call (call cid w args) = Inr \<lparr> tc_call_id = cid, tc_name = unwire_name w, tc_args = args \<rparr>"
begin

text \<open>A call of any offered tool comes back as a call of the tool itself.\<close>

lemma call_recovered:
  assumes "i < length ts" and "wire_safe (td_name (ts ! i))" and "acceptable args"
  shows "parse_call (call cid (offered (offer ts) ! i) args) =
     Inr \<lparr> tc_call_id = cid, tc_name = td_name (ts ! i), tc_args = args \<rparr>"
  using assms by (simp add: offers parses wire_name_safe)

end

definition openai_offered :: "json \<Rightarrow> string list" where
  "openai_offered v = map (\<lambda>t. str_at (json_index t ''function'') ''name'') (unwrap_or [] (as_array v))"

definition openai_wire_call :: "'f adapter_env \<Rightarrow> string \<Rightarrow> string \<Rightarrow> json \<Rightarrow> json" where
  "openai_wire_call env cid w args =
     JObj [(''id'', JStr cid), (''type'', JStr ''function''),
       (''function'', JObj [(''name'', JStr w), (''arguments'', JStr (ax_print env args))])]"

definition prints_back :: "'f adapter_env \<Rightarrow> json \<Rightarrow> bool" where
  "prints_back env v \<longleftrightarrow> ax_parse env (ax_print env v) = Inr v"

interpretation openai_tools: tool_format openai_translate_tools openai_offered "openai_wire_call env" "openai_parse_tool_call env"
    "prints_back env" for env
  by unfold_locales
    (simp_all add: openai_offered_def openai_translate_tools_def openai_wire_call_def openai_parse_tool_call_def prints_back_def
      str_at_def json_index_def unwrap_or_def comp_def)

definition anthropic_offered :: "json \<Rightarrow> string list" where
  "anthropic_offered v = map (\<lambda>t. str_at t ''name'') (unwrap_or [] (as_array v))"

definition anthropic_wire_call :: "string \<Rightarrow> string \<Rightarrow> json \<Rightarrow> json" where
  "anthropic_wire_call cid w args = JObj [(''type'', JStr ''tool_use''), (''id'', JStr cid), (''name'', JStr w), (''input'', args)]"

interpretation anthropic_tools: tool_format anthropic_translate_tools anthropic_offered anthropic_wire_call anthropic_parse_tool_call
    "\<lambda>_. True"
  by unfold_locales
    (simp_all add: anthropic_offered_def anthropic_translate_tools_def anthropic_wire_call_def anthropic_parse_tool_call_def
      str_at_def json_index_def unwrap_or_def comp_def)

text \<open>
   A model calls the tool it was offered.  For every list of tools and each of them whose name has neither a double underscore nor an
  underscore before a slash: when the model calls the name it was offered, in the OpenAI format (which Ollama and xAI
  share) or in Anthropic's, the adapter returns a call of that very tool, with the call's id and arguments.
\<close>

theorem offered_tool_recovered:
  assumes "i < length ts" and "wire_safe (td_name (ts ! i))" and "prints_back env args"
  shows "pa_parse_tool_call (openai_adapter env) (openai_wire_call env cid (openai_offered (pa_translate_tools (openai_adapter env) ts) ! i) args) =
       Inr \<lparr> tc_call_id = cid, tc_name = td_name (ts ! i), tc_args = args \<rparr> \<and>
     pa_parse_tool_call (anthropic_adapter env) (anthropic_wire_call cid (anthropic_offered (pa_translate_tools (anthropic_adapter env) ts) ! i) args) =
       Inr \<lparr> tc_call_id = cid, tc_name = td_name (ts ! i), tc_args = args \<rparr>"
  using openai_tools.call_recovered [OF assms] anthropic_tools.call_recovered [OF assms(1,2)]
  by (simp add: openai_adapter_def anthropic_adapter_def adapter_defaults_def)

definition plain_env :: "unit adapter_env" where
  "plain_env = \<lparr> ax_parse = (\<lambda>s. if s = ''{}'' then Inr (JObj []) else Inl ''bad''), ax_print = (\<lambda>_. ''{}''), ax_base64 = (\<lambda>_. Inr []),
     ax_f32 = (\<lambda>_. None), ax_num = (\<lambda>_. JNum 0), ax_zero = (), ax_half = (), ax_one = () \<rparr>"

theorem offered_tool_recovered_witness:
  "pa_parse_tool_call (openai_adapter plain_env) (openai_wire_call plain_env ''c1''
     (openai_offered (pa_translate_tools (openai_adapter plain_env) [\<lparr> td_name = ''fs/read'', td_description = [], td_input_schema = JNull \<rparr>]) ! 0) (JObj [])) =
   Inr \<lparr> tc_call_id = ''c1'', tc_name = ''fs/read'', tc_args = JObj [] \<rparr>"
  using offered_tool_recovered [of 0 "[\<lparr> td_name = ''fs/read'', td_description = [], td_input_schema = JNull \<rparr>]" plain_env "JObj []" "''c1''"]
  by (simp add: wire_safe_def prints_back_def plain_env_def)

section \<open>The translated conversation\<close>

definition blocks_of :: "string \<Rightarrow> json \<Rightarrow> json list option" where
  "blocks_of role m = (if str_at m ''role'' = role then as_array (json_index m ''content'') else None)"

text \<open>The calls and results of a message in the internal format, with what the provider must be told of them.\<close>

definition native_calls :: "'f adapter_env \<Rightarrow> json \<Rightarrow> (string \<times> string \<times> string) list" where
  "native_calls env m = (case blocks_of ''assistant'' m of None \<Rightarrow> []
     | Some bs \<Rightarrow> map (\<lambda>b. (str_at b ''id'', wire_name (str_at b ''name''), ax_print env (json_index b ''input'')))
                    (filter (\<lambda>b. block_type b = Some ''tool_use'') bs))"

definition result_message :: "json \<Rightarrow> bool" where
  "result_message m = (case blocks_of ''user'' m of None \<Rightarrow> False | Some bs \<Rightarrow> list_all (\<lambda>b. block_type b = Some ''tool_result'') bs)"

definition native_results :: "json \<Rightarrow> string list" where
  "native_results m = (if result_message m then map (\<lambda>b. str_at b ''tool_use_id'') (unwrap_or [] (blocks_of ''user'' m)) else [])"

definition openai_calls :: "json \<Rightarrow> (string \<times> string \<times> string) list" where
  "openai_calls m = (if str_at m ''role'' = ''assistant'' then
     map (\<lambda>tc. (str_at tc ''id'', str_at (json_index tc ''function'') ''name'', str_at (json_index tc ''function'') ''arguments''))
       (unwrap_or [] (as_array (json_index m ''tool_calls''))) else [])"

definition openai_results :: "json \<Rightarrow> string list" where
  "openai_results m = (if str_at m ''role'' = ''tool'' then [str_at m ''tool_call_id''] else [])"

text \<open>A message of the internal format has none of the provider's fields.\<close>

definition native :: "json \<Rightarrow> bool" where
  "native m \<longleftrightarrow> json_get m ''tool_calls'' = None \<and> str_at m ''role'' \<noteq> ''tool''"

lemma openai_unchanged: "native m \<Longrightarrow> openai_calls m = [] \<and> openai_results m = []"
  by (simp add: native_def openai_calls_def openai_results_def json_index_def unwrap_or_def)

lemma openai_call_block_calls:
  "openai_calls (JObj [(''role'', JStr ''assistant''), (''content'', c), (''tool_calls'', JArr (map (openai_call_block env) bs))]) =
     map (\<lambda>b. (str_at b ''id'', wire_name (str_at b ''name''), ax_print env (json_index b ''input''))) bs"
  by (simp add: openai_calls_def str_at_def json_index_def unwrap_or_def openai_call_block_def comp_def)

lemma openai_tool_message_simps [simp]:
  "openai_calls (openai_tool_message env b) = []" "openai_results (openai_tool_message env b) = [str_at b ''tool_use_id'']"
  "openai_results (JObj [(''role'', JStr ''assistant''), (''content'', c), (''tool_calls'', v)]) = []"
  by (simp_all add: openai_tool_message_def Let_def openai_calls_def openai_results_def str_at_def json_index_def unwrap_or_def)

lemma convert_message_calls:
  assumes "native m"
  shows "concat (map openai_calls (convert_message env m)) = native_calls env m \<and>
    concat (map openai_results (convert_message env m)) = native_results m"
proof -
  consider "str_at m ''role'' = ''assistant''" | "str_at m ''role'' = ''user''"
    | "str_at m ''role'' \<noteq> ''assistant''" "str_at m ''role'' \<noteq> ''user''" by blast
  then show ?thesis
  proof cases
    case 1
    then show ?thesis using openai_unchanged [OF assms]
      by (simp add: convert_message_def Let_def native_calls_def native_results_def result_message_def blocks_of_def
          openai_call_block_calls split: option.splits)
  next
    case 2
    then show ?thesis using openai_unchanged [OF assms]
      by (auto simp: convert_message_def Let_def native_calls_def native_results_def result_message_def blocks_of_def comp_def
          unwrap_or_def split: option.splits)
  next
    case 3
    then show ?thesis using openai_unchanged [OF assms]
      by (simp add: convert_message_def Let_def native_calls_def native_results_def result_message_def blocks_of_def)
  qed
qed


definition demo_messages :: "json list" where
  "demo_messages =
     [JObj [(''role'', JStr ''assistant''), (''content'', JArr [JObj [(''type'', JStr ''tool_use''), (''id'', JStr ''c1''),
        (''name'', JStr ''fs/read''), (''input'', JObj [])]])],
      JObj [(''role'', JStr ''user''), (''content'', JArr [JObj [(''type'', JStr ''tool_result''), (''tool_use_id'', JStr ''c1''),
        (''content'', JStr ''ok'')]])]]"


text \<open>A user message with no content blocks, or with other blocks beside its results, is not translated: the first disappears.\<close>

lemma empty_user_message_dropped:
  "convert_messages env [JObj [(''role'', JStr ''user''), (''content'', JArr [])]] = []"
  by (simp add: convert_messages_def convert_message_def Let_def str_at_def json_index_def unwrap_or_def)

section \<open>The same reason, streamed or not\<close>

text \<open>A completion cut off at the token limit is reported as finished when it is not streamed.\<close>

lemma length_limit_reported:
  "openai_finish ''length'' = MaxTokens" "response_stop ''length'' = EndTurn"
  by (simp_all add: openai_finish_def response_stop_def)

section \<open>Streamed tool calls\<close>

text \<open>
  What a model streams, whatever the format: text, the start of a tool call at an index, a fragment of the arguments of the call at an
  index, the end of a block, and the end of the message.
\<close>

datatype model_event = MText string | MStart u64 string string | MArgs u64 string | MEnd u64 | MDone stop_reason u32 u32

fun event_ok :: "model_event \<Rightarrow> bool" where
  "event_ok (MText t) \<longleftrightarrow> t \<noteq> []"
| "event_ok (MStart i cid n) \<longleftrightarrow> wire_safe n"
| "event_ok (MArgs i d) \<longleftrightarrow> d \<noteq> []"
| "event_ok _ \<longleftrightarrow> True"

fun event_ids :: "(string, string) hmap \<Rightarrow> model_event \<Rightarrow> (string, string) hmap" where
  "event_ids ids (MStart i cid n) = hm_insert (show_word i) cid ids"
| "event_ids ids _ = ids"

fun event_chunks :: "(u64 \<Rightarrow> stream_chunk list) \<Rightarrow> (string, string) hmap \<Rightarrow> model_event \<Rightarrow> stream_chunk list" where
  "event_chunks closing ids (MText t) = [TextDelta t]"
| "event_chunks closing ids (MStart i cid n) = [ToolCallStart cid n]"
| "event_chunks closing ids (MArgs i d) = [ToolCallArgsDelta (unwrap_or (show_word i) (hm_get ids (show_word i))) d]"
| "event_chunks closing ids (MEnd i) = closing i"
| "event_chunks closing ids (MDone r i out) = [ChunkDone r i out]"

fun chunks_of :: "(u64 \<Rightarrow> stream_chunk list) \<Rightarrow> (string, string) hmap \<Rightarrow> model_event list \<Rightarrow> stream_chunk list" where
  "chunks_of closing ids [] = []"
| "chunks_of closing ids (e # es) = event_chunks closing ids e @ chunks_of closing (event_ids ids e) es"

text \<open>A provider's streaming format: the lines of an event, and that the client turns them into the event's chunks.\<close>

locale stream_format =
  fixes env :: "'f adapter_env" and adapter :: "'f provider_adapter"
    and lines_of :: "model_event \<Rightarrow> sse_line list"
    and closing :: "u64 \<Rightarrow> stream_chunk list"
    and ok :: "model_event \<Rightarrow> bool"
  assumes event: "ok e \<Longrightarrow>
    scan_lines env adapter (map Inr (lines_of e)) (None, ids) = (map Inr (event_chunks closing ids e), (None, event_ids ids e))"
begin

lemma scan_events:
  "list_all ok es \<Longrightarrow> fst (scan_lines env adapter (map Inr (concat (map lines_of es))) (None, ids)) = map Inr (chunks_of closing ids es)"
  by (induction es arbitrary: ids) (simp_all add: scan_lines_append event)

end

fun openai_finish_str :: "stop_reason \<Rightarrow> string" where
  "openai_finish_str EndTurn = ''stop''"
| "openai_finish_str ToolUse = ''tool_calls''"
| "openai_finish_str MaxTokens = ''length''"
| "openai_finish_str StopSequence = ''stop_sequence''"

definition openai_choice :: "(string \<times> json) list \<Rightarrow> json \<Rightarrow> (string \<times> json) list \<Rightarrow> json" where
  "openai_choice delta fin rest = JObj ((''choices'', JArr [JObj [(''delta'', JObj delta), (''finish_reason'', fin)]]) # rest)"

fun openai_event :: "model_event \<Rightarrow> json" where
  "openai_event (MText t) = openai_choice [(''content'', JStr t)] JNull []"
| "openai_event (MStart i cid n) = openai_choice [(''tool_calls'', JArr [JObj [(''index'', JNum (uint i)), (''id'', JStr cid),
     (''function'', JObj [(''name'', JStr (wire_name n)), (''arguments'', JStr [])])]])] JNull []"
| "openai_event (MArgs i d) = openai_choice [(''tool_calls'', JArr [JObj [(''index'', JNum (uint i)),
     (''function'', JObj [(''arguments'', JStr d)])]])] JNull []"
| "openai_event (MEnd i) = JNull"
| "openai_event (MDone r i out) = openai_choice [] (JStr (openai_finish_str r))
     [(''usage'', JObj [(''prompt_tokens'', JNum (uint i)), (''completion_tokens'', JNum (uint out))])]"

definition openai_lines :: "'f adapter_env \<Rightarrow> model_event \<Rightarrow> sse_line list" where
  "openai_lines env e = (case e of MEnd _ \<Rightarrow> [] | _ \<Rightarrow> [SseData (ax_print env (openai_event e))])"

definition openai_event_ok :: "'f adapter_env \<Rightarrow> model_event \<Rightarrow> bool" where
  "openai_event_ok env e \<longleftrightarrow> event_ok e \<and> prints_back env (openai_event e)"

lemma as_u64_uint [simp]: "as_u64 (JNum (uint (i :: u64))) = Some i"
  using uint_lt2p [of i] by simp

lemma as_u64_uint32 [simp]: "as_u64 (JNum (uint (n :: u32))) = Some (ucast n)"
proof -
  have "uint n < 2 ^ 64" using uint_lt2p [of n] by simp
  then show ?thesis by (simp only: as_u64.simps uint_ge_0 simp_thms if_True ucast_eq)
qed

lemma ucast_u32_u64 [simp]: "(ucast (ucast (n :: u32) :: u64) :: u32) = n"
  by (rule bit_word_eqI) (simp add: bit_simps)

lemmas json_simps = str_at_def u32_at_def json_index_def unwrap_or_def json_elem_def block_type_def block_index_def

interpretation openai_stream: stream_format env "openai_adapter env" "openai_lines env" "\<lambda>_. []" "openai_event_ok env" for env
proof
  fix e ids
  assume "openai_event_ok env e"
  then show "scan_lines env (openai_adapter env) (map Inr (openai_lines env e)) (None, ids) =
      (map Inr (event_chunks (\<lambda>_. []) ids e), None, event_ids ids e)"
    by (cases e; cases "case e of MDone r _ _ \<Rightarrow> r | _ \<Rightarrow> EndTurn")
      (auto simp: openai_event_ok_def prints_back_def openai_lines_def scan_step_def openai_adapter_def adapter_defaults_def
        openai_parse_stream_event_def openai_choice_def openai_tool_delta_def note_index_def note_entry_def openai_finish_def
        json_simps wire_name_safe simp del: as_u64.simps split: list.splits)
qed

definition anthropic_event_name :: "model_event \<Rightarrow> string" where
  "anthropic_event_name e =
     (case e of MText _ \<Rightarrow> ''content_block_delta'' | MStart _ _ _ \<Rightarrow> ''content_block_start'' | MArgs _ _ \<Rightarrow> ''content_block_delta''
      | MEnd _ \<Rightarrow> ''content_block_stop'' | MDone _ _ _ \<Rightarrow> ''message_delta'')"

fun anthropic_event :: "model_event \<Rightarrow> json" where
  "anthropic_event (MText t) = JObj [(''delta'', JObj [(''type'', JStr ''text_delta''), (''text'', JStr t)])]"
| "anthropic_event (MStart i cid n) = JObj [(''index'', JNum (uint i)), (''content_block'', JObj [(''type'', JStr ''tool_use''), (''id'', JStr cid),
     (''name'', JStr (wire_name n))])]"
| "anthropic_event (MArgs i d) = JObj [(''index'', JNum (uint i)), (''delta'', JObj [(''type'', JStr ''input_json_delta''), (''partial_json'', JStr d)])]"
| "anthropic_event (MEnd i) = JObj [(''index'', JNum (uint i))]"
| "anthropic_event (MDone r i out) = JObj [(''delta'', JObj [(''stop_reason'', JStr (stop_reason_str r))]),
     (''usage'', JObj [(''input_tokens'', JNum (uint i)), (''output_tokens'', JNum (uint out))])]"

definition anthropic_lines :: "'f adapter_env \<Rightarrow> model_event \<Rightarrow> sse_line list" where
  "anthropic_lines env e = [SseEvent (anthropic_event_name e), SseData (ax_print env (anthropic_event e))]"

definition anthropic_event_ok :: "'f adapter_env \<Rightarrow> model_event \<Rightarrow> bool" where
  "anthropic_event_ok env e \<longleftrightarrow> event_ok e \<and> prints_back env (anthropic_event e)"

interpretation anthropic_stream: stream_format env "anthropic_adapter env" "anthropic_lines env" "\<lambda>i. [ToolCallComplete (show_word i)]"
    "anthropic_event_ok env" for env
proof
  fix e ids
  assume "anthropic_event_ok env e"
  then show "scan_lines env (anthropic_adapter env) (map Inr (anthropic_lines env e)) (None, ids) =
      (map Inr (event_chunks (\<lambda>i. [ToolCallComplete (show_word i)]) ids e), None, event_ids ids e)"
    by (cases e; cases "case e of MDone r _ _ \<Rightarrow> r | _ \<Rightarrow> EndTurn")
      (auto simp: anthropic_event_ok_def prints_back_def anthropic_lines_def anthropic_event_name_def scan_step_def anthropic_adapter_def
        adapter_defaults_def anthropic_parse_stream_event_def anthropic_delta_def note_index_def anthropic_finish_def
        json_simps wire_name_safe simp del: as_u64.simps)
qed

end
