(* ===== verification/Llm_Service.thy ===== *)
theory Llm_Service
  imports Llm_Client Rpc_Server
begin

text \<open>
  The language-model service (\<^verbatim>\<open>llm_svc/service.rs\<close>), its socket server with streaming
  (\<^verbatim>\<open>llm_svc/ipc_server.rs\<close>) and the client other processes use (\<^verbatim>\<open>llm_client/ipc_client.rs\<close>).

  The service's state is its usage counters; configuration, adapters, routing status and credentials are
  fields it reads.  The world the HTTP calls act on is threaded through.  Identifiers, latencies and the text clients are
  parameters.  Derived serialisers are written out.

  The lemmas show that every request is answered once, that a client behind the socket gets exactly what the
  provider's client returned, streamed or not, and what the counters count.
\<close>

section \<open>Service state\<close>

record 'w text_client =
  tcl_complete :: "llm_complete_request \<Rightarrow> 'w \<Rightarrow> (string + llm_complete_response) \<times> 'w"
  tcl_stream :: "llm_complete_request \<Rightarrow> 'w \<Rightarrow> (string + (string + stream_chunk) list) \<times> 'w"

record provider_credential =
  cred_header_name :: string
  cred_header_value :: string

record ('f, 'w) llm_service =
  lv_config :: llm_config
  lv_adapters :: "(string, 'f provider_adapter) hmap"
  lv_routing :: routing_engine
  lv_credentials :: "(string, provider_credential) hmap"
  lv_usage :: "'f usage_tracker"
  lv_text_clients :: "(string, 'w text_client) hmap"

record ('f, 'w) llm_env =
  lx_adapter :: "'f adapter_env"
  lx_http :: "'w http"
  lx_float :: "'f float_ops"
  lx_widen :: "'f \<Rightarrow> 'f"
  lx_uuid_parse :: "string \<Rightarrow> string option"

record llm_draws =
  ld_uuid :: "nat \<Rightarrow> string"
  ld_latency_ms :: u64

definition make_provider_adapter :: "'f adapter_env \<Rightarrow> string \<Rightarrow> 'f provider_adapter option" where
  "make_provider_adapter env name =
     (if name = ''anthropic'' then Some (anthropic_adapter env)
      else if name = ''openai'' then Some (openai_adapter env)
      else if name = ''xai'' then Some (xai_adapter env)
      else if name = ''ollama'' then Some (ollama_adapter env)
      else None)"

definition resolve_auth_header :: "(string \<Rightarrow> string option) \<Rightarrow> provider_auth \<Rightarrow> (string \<times> string) option" where
  "resolve_auth_header getenv auth =
     (case auth of
        AuthApiKey secret header pre \<Rightarrow> map_option (\<lambda>key. (header, (case pre of Some p \<Rightarrow> p @ key | None \<Rightarrow> key))) (getenv secret)
      | _ \<Rightarrow> None)"

definition direct_text_client :: "('f, 'w) llm_env \<Rightarrow> 'f direct_client \<Rightarrow> 'w text_client" where
  "direct_text_client env hc =
     \<lparr> tcl_complete = direct_complete (lx_adapter env) (lx_http env) hc,
       tcl_stream = direct_stream_complete (lx_adapter env) (lx_http env) hc \<rparr>"

definition auto_client ::
  "('f, 'w) llm_env \<Rightarrow> (string \<Rightarrow> string option) \<Rightarrow> provider_config \<Rightarrow> (string, 'w text_client) hmap \<Rightarrow> (string, 'w text_client) hmap" where
  "auto_client env getenv p clients =
     (if Text \<notin> set (pc_modalities p) \<or> hm_get clients (pc_name p) \<noteq> None then clients
      else (case make_provider_adapter (lx_adapter env) (pc_name p) of
              None \<Rightarrow> clients
            | Some a \<Rightarrow>
                (let header = resolve_auth_header getenv (pc_auth p)
                 in if (case pc_auth p of AuthApiKey _ _ _ \<Rightarrow> True | _ \<Rightarrow> False) \<and> header = None then clients
                    else hm_insert (pc_name p)
                      (direct_text_client env
                        \<lparr> dh_base_url = pc_base_url p,
                          dh_default_model = (case List.find (\<lambda>m. mc_modality m = Text) (pc_models p) of Some m \<Rightarrow> mc_id m | None \<Rightarrow> []),
                          dh_auth_header = header, dh_adapter = a \<rparr>) clients)))"

definition llm_service_new ::
  "('f, 'w) llm_env \<Rightarrow> (string \<Rightarrow> string option) \<Rightarrow> llm_config \<Rightarrow> (string, 'f provider_adapter) hmap \<Rightarrow> routing_engine \<Rightarrow>
   (string, 'w text_client) hmap \<Rightarrow> ('f, 'w) llm_service" where
  "llm_service_new env getenv cfg adapters routing clients =
     \<lparr> lv_config = cfg, lv_adapters = adapters, lv_routing = routing, lv_credentials = [], lv_usage = [],
       lv_text_clients = fold (auto_client env getenv) (lc_providers cfg) clients \<rparr>"

section \<open>Text\<close>

type_synonym ('f, 'w) llm_handler =
  "json \<Rightarrow> ('f, 'w) llm_service \<times> 'w \<Rightarrow> json avix_result \<times> ('f, 'w) llm_service \<times> 'w"

definition route_request :: "modality \<Rightarrow> json \<Rightarrow> ('f, 'w) llm_service \<Rightarrow> provider_config avix_result" where
  "route_request m params s = routing_resolve m (as_str (json_index params ''provider'')) (lv_routing s)"

definition complete_request_of :: "('f, 'w) llm_env \<Rightarrow> llm_draws \<Rightarrow> json \<Rightarrow> llm_complete_request" where
  "complete_request_of env dr params =
     \<lparr> lq_model = unwrap_or ''claude-haiku-4-5-20251001'' (as_str (json_index params ''model'')),
       lq_messages = unwrap_or [] (as_array (json_index params ''messages'')),
       lq_tools = unwrap_or [] (as_array (json_index params ''tools'')),
       lq_system = as_str (json_index params ''system''),
       lq_max_tokens = ucast (unwrap_or 4096 (as_u64 (json_index params ''max_tokens''))),
       lq_turn_id = unwrap_or (ld_uuid dr 0) (Option.bind (as_str (json_index params ''turn_id'')) (lx_uuid_parse env)) \<rparr>"

definition handle_complete :: "('f, 'w) llm_env \<Rightarrow> llm_draws \<Rightarrow> ('f, 'w) llm_handler" where
  "handle_complete env dr params sw =
     (case sw of (s, w) \<Rightarrow>
       (case route_request Text params s of
          Inl e \<Rightarrow> (Inl e, s, w)
        | Inr p \<Rightarrow>
            (let req = complete_request_of env dr params
             in case hm_get (lv_text_clients s) (pc_name p) of
                  None \<Rightarrow> (Inl (NoProviderAvailable (''no text client for '' @ pc_name p)), s, w)
                | Some c \<Rightarrow>
                    (case tcl_complete c req w of
                       (Inl e, w') \<Rightarrow> (Inl (AdapterError e), s, w')
                     | (Inr r, w') \<Rightarrow>
                         (Inr (JObj [(''provider'', JStr (pc_name p)), (''model'', JStr (lq_model req)), (''content'', JArr (lr_content r)),
                            (''stop_reason'', JStr (stop_reason_str (lr_stop_reason r))), (''input_tokens'', JNum (uint (lr_input_tokens r))),
                            (''output_tokens'', JNum (uint (lr_output_tokens r))), (''total_tokens'', JNum (uint (total_tokens r))),
                            (''latency_ms'', JNum (uint (ld_latency_ms dr)))]),
                          s\<lparr> lv_usage := record_text (lx_float env) (pc_name p) (ucast (lr_input_tokens r)) (ucast (lr_output_tokens r)) (lv_usage s) \<rparr>,
                          w')))))"

definition dispatch_stream ::
  "('f, 'w) llm_env \<Rightarrow> llm_draws \<Rightarrow> json \<Rightarrow> ('f, 'w) llm_service \<Rightarrow> 'w \<Rightarrow> (string + stream_chunk) list avix_result \<times> 'w" where
  "dispatch_stream env dr params s w =
     (case route_request Text params s of
        Inl e \<Rightarrow> (Inl e, w)
      | Inr p \<Rightarrow>
          (case hm_get (lv_text_clients s) (pc_name p) of
             None \<Rightarrow> (Inl (NoProviderAvailable (''no text client for '' @ pc_name p)), w)
           | Some c \<Rightarrow>
               (case tcl_stream c (complete_request_of env dr params) w of
                  (Inl e, w') \<Rightarrow> (Inl (AdapterError e), w')
                | (Inr cs, w') \<Rightarrow> (Inr cs, w'))))"

section \<open>The other modalities\<close>

definition metadata_of :: "json \<Rightarrow> complete_metadata" where
  "metadata_of params =
     (let m = json_index params ''metadata''
      in \<lparr> cm_agent_pid = unwrap_or 0 (as_u64 (json_index m ''agent_pid'')), cm_session_id = str_at m ''session_id'' \<rparr>)"

text \<open>The frame of the four handlers that go through an adapter.\<close>

definition with_adapter ::
  "modality \<Rightarrow> (provider_config \<Rightarrow> 'f provider_adapter \<Rightarrow> ('f, 'w) llm_handler) \<Rightarrow> ('f, 'w) llm_handler" where
  "with_adapter m body params sw =
     (case sw of (s, w) \<Rightarrow>
       (case route_request m params s of
          Inl e \<Rightarrow> (Inl e, s, w)
        | Inr p \<Rightarrow>
            (case hm_get (lv_adapters s) (pc_name p) of
               None \<Rightarrow> (Inl (NoProviderAvailable (''no adapter for '' @ pc_name p)), s, w)
             | Some a \<Rightarrow> body p a params sw)))"

definition llm_post ::
  "('f, 'w) llm_env \<Rightarrow> provider_config \<Rightarrow> string \<Rightarrow> http_body \<Rightarrow> ('f, 'w) llm_service \<Rightarrow> 'w \<Rightarrow> (string + http_reply) \<times> 'w" where
  "llm_post env p path body s w =
     lx_http env \<lparr> hcl_url = trim_end_char (CHR ''/'') (pc_base_url p) @ path,
                   hcl_header = map_option (\<lambda>c. (cred_header_name c, cred_header_value c)) (hm_get (lv_credentials s) (pc_name p)),
                   hcl_body = body \<rparr> w"

text \<open>A call whose JSON answer the adapter parses; \<open>finish\<close> makes the result and the record of usage.\<close>

definition post_json ::
  "('f, 'w) llm_env \<Rightarrow> provider_config \<Rightarrow> string \<Rightarrow> http_body \<Rightarrow> (json \<Rightarrow> 'a adapted) \<Rightarrow>
   ('a \<Rightarrow> json \<times> ('f usage_tracker \<Rightarrow> 'f usage_tracker)) \<Rightarrow> ('f, 'w) llm_service \<times> 'w \<Rightarrow> json avix_result \<times> ('f, 'w) llm_service \<times> 'w" where
  "post_json env p path body parse finish sw =
     (case sw of (s, w) \<Rightarrow>
       (case llm_post env p path body s w of
          (Inl e, w') \<Rightarrow> (Inl (AdapterError (''HTTP error: '' @ e)), s, w')
        | (Inr rep, w') \<Rightarrow>
            (case hrp_json rep of
               Inl e \<Rightarrow> (Inl (AdapterError (''JSON parse: '' @ e)), s, w')
             | Inr raw \<Rightarrow>
                 (case parse raw of
                    Inl e \<Rightarrow> (Inl (AdapterError (adapter_error_display e)), s, w')
                  | Inr r \<Rightarrow> (case finish r of (v, rec) \<Rightarrow> (Inr v, s\<lparr> lv_usage := rec (lv_usage s) \<rparr>, w'))))))"

definition json_opt_str :: "string option \<Rightarrow> json" where
  "json_opt_str x = (case x of Some t \<Rightarrow> JStr t | None \<Rightarrow> JNull)"

definition image_json :: "image_output \<Rightarrow> json" where
  "image_json o' = JObj [(''file_path'', JStr (io_file_path o')), (''mime_type'', JStr (io_mime_type o')), (''size'', json_opt_str (io_size o')),
     (''bytes'', JNum (uint (io_bytes o')))]"

definition scratch_path :: "u64 \<Rightarrow> string \<Rightarrow> string \<Rightarrow> string \<Rightarrow> string" where
  "scratch_path pid kind uuid ext = ''/proc/'' @ show_word pid @ ''/scratch/'' @ kind @ ''-'' @ uuid @ ''.'' @ ext"

definition image_request_of :: "provider_config \<Rightarrow> json \<Rightarrow> avix_image_request" where
  "image_request_of p params =
     \<lparr> aiq_provider = Some (pc_name p), aiq_model = str_at params ''model'', aiq_prompt = str_at params ''prompt'',
       aiq_negative_prompt = as_str (json_index params ''negative_prompt''), aiq_size = as_str (json_index params ''size''),
       aiq_style = as_str (json_index params ''style''), aiq_n = map_option ucast (as_u64 (json_index params ''n'')),
       aiq_metadata = metadata_of params \<rparr>"

definition handle_generate_image :: "('f, 'w) llm_env \<Rightarrow> llm_draws \<Rightarrow> ('f, 'w) llm_handler" where
  "handle_generate_image env dr = with_adapter Image
     (\<lambda>p a params sw.
        let req = image_request_of p params; pid = cm_agent_pid (aiq_metadata req)
        in case pa_build_image a req of
             Inl e \<Rightarrow> (Inl (AdapterError (adapter_error_display e)), sw)
           | Inr body \<Rightarrow>
               post_json env p ''/v1/images/generations'' (HttpJson body) (pa_parse_image a)
                 (\<lambda>outs.
                    (JObj [(''provider'', JStr (pc_name p)), (''model'', JStr (aiq_model req)),
                       (''images'', JArr (map (\<lambda>(j, out). image_json (out\<lparr> io_file_path := scratch_path pid ''img'' (ld_uuid dr j)
                          (if contains_str (io_mime_type out) ''png'' then ''png'' else ''jpg'') \<rparr>)) (enumerate 0 outs))),
                       (''latency_ms'', JNum 0)],
                     record_image (lx_float env) (pc_name p))) sw)"

definition speech_request_of :: "('f, 'w) llm_env \<Rightarrow> provider_config \<Rightarrow> json \<Rightarrow> 'f avix_speech_request" where
  "speech_request_of env p params =
     \<lparr> asq_provider = Some (pc_name p), asq_model = str_at params ''model'', asq_text = str_at params ''text'', asq_voice = str_at params ''voice'',
       asq_format = as_str (json_index params ''format''), asq_speed = ax_f32 (lx_adapter env) (json_index params ''speed''),
       asq_stream = as_bool (json_index params ''stream''), asq_metadata = metadata_of params \<rparr>"

definition handle_generate_speech :: "('f, 'w) llm_env \<Rightarrow> llm_draws \<Rightarrow> ('f, 'w) llm_handler" where
  "handle_generate_speech env dr = with_adapter Speech
     (\<lambda>p a params sw.
        let req = speech_request_of env p params
        in case pa_speech_endpoint a req of
             Inl e \<Rightarrow> (Inl (AdapterError (adapter_error_display e)), sw)
           | Inr ep \<Rightarrow>
               (case pa_build_speech a req of
                  Inl e \<Rightarrow> (Inl (AdapterError (adapter_error_display e)), sw)
                | Inr body \<Rightarrow>
                    (case sw of (s, w) \<Rightarrow>
                      (case llm_post env p (sep_url ep) (HttpJson body) s w of
                         (Inl e, w') \<Rightarrow> (Inl (AdapterError (''HTTP error: '' @ e)), s, w')
                       | (Inr rep, w') \<Rightarrow>
                           (case hrp_bytes rep of
                              Inl e \<Rightarrow> (Inl (AdapterError (''bytes error: '' @ e)), s, w')
                            | Inr audio \<Rightarrow>
                                (Inr (JObj [(''provider'', JStr (pc_name p)), (''model'', JStr (asq_model req)),
                                   (''file_path'', JStr (scratch_path (cm_agent_pid (asq_metadata req)) ''speech'' (ld_uuid dr 0) (sep_format ep))),
                                   (''mime_type'', JStr (''audio/'' @ sep_format ep)), (''bytes'', JNum (int (length audio))), (''latency_ms'', JNum 0)]),
                                 s\<lparr> lv_usage := record_speech (lx_float env) (pc_name p) (of_nat (length (asq_text req))) (lv_usage s) \<rparr>, w'))))))"

definition transcribe_request_of :: "provider_config \<Rightarrow> json \<Rightarrow> avix_transcribe_request" where
  "transcribe_request_of p params =
     \<lparr> atq_provider = Some (pc_name p), atq_model = unwrap_or ''whisper-1'' (as_str (json_index params ''model'')),
       atq_file_path = str_at params ''file_path'', atq_language = as_str (json_index params ''language''),
       atq_prompt = as_str (json_index params ''prompt''), atq_granularity = as_str (json_index params ''granularity''),
       atq_metadata = metadata_of params \<rparr>"

definition transcribe_json :: "'f adapter_env \<Rightarrow> 'f avix_transcribe_response \<Rightarrow> json" where
  "transcribe_json env r =
     JObj [(''text'', JStr (atr_text r)), (''language'', json_opt_str (atr_language r)),
       (''duration_sec'', (case atr_duration_sec r of Some d \<Rightarrow> ax_num env d | None \<Rightarrow> JNull)),
       (''segments'', (case atr_segments r of
          None \<Rightarrow> JNull
        | Some segs \<Rightarrow> JArr (map (\<lambda>g. JObj [(''start'', ax_num env (sg_start g)), (''end'', ax_num env (sg_end g)), (''text'', JStr (sg_text g))]) segs)))]"

text \<open>The audio file is not read: the request is sent with no audio.\<close>

definition handle_transcribe :: "('f, 'w) llm_env \<Rightarrow> ('f, 'w) llm_handler" where
  "handle_transcribe env = with_adapter Transcription
     (\<lambda>p a params sw.
        let req = transcribe_request_of p params
        in case pa_build_transcription a req [] of
             Inl e \<Rightarrow> (Inl (AdapterError (adapter_error_display e)), sw)
           | Inr mp \<Rightarrow>
               post_json env p (mpr_url mp) (HttpForm ((''model'', atq_model req) # mpr_fields mp) (mpr_audio_bytes mp)) (pa_parse_transcription a)
                 (\<lambda>r. (transcribe_json (lx_adapter env) r,
                       record_transcription (lx_float env) (pc_name p)
                         (lx_widen env (unwrap_or (ax_zero (lx_adapter env)) (atr_duration_sec r))))) sw)"

definition embed_input_of :: "json \<Rightarrow> embed_input option" where
  "embed_input_of params =
     (case json_index params ''input'' of
        JArr vs \<Rightarrow> Some (EmbedBatch (List.map_filter as_str vs)) | JStr t \<Rightarrow> Some (EmbedSingle t) | _ \<Rightarrow> None)"

definition embed_json :: "'f adapter_env \<Rightarrow> 'f avix_embed_response \<Rightarrow> json" where
  "embed_json env r =
     JObj [(''embeddings'', JArr (map (\<lambda>e. JArr (map (ax_num env) e)) (aer_embeddings r))), (''dimensions'', JNum (uint (aer_dimensions r))),
       (''usage'', JObj [(''input_tokens'', JNum (uint (aer_input_tokens r)))])]"

definition handle_embed :: "('f, 'w) llm_env \<Rightarrow> ('f, 'w) llm_handler" where
  "handle_embed env = with_adapter Embedding
     (\<lambda>p a params sw.
        case embed_input_of params of
          None \<Rightarrow> (Inl (AdapterError ''missing input''), sw)
        | Some inp \<Rightarrow>
            (case pa_build_embed a \<lparr> aeq_provider = Some (pc_name p),
                    aeq_model = unwrap_or ''text-embedding-3-small'' (as_str (json_index params ''model'')), aeq_input = inp,
                    aeq_metadata = metadata_of params \<rparr> of
               Inl e \<Rightarrow> (Inl (AdapterError (adapter_error_display e)), sw)
             | Inr body \<Rightarrow>
                 post_json env p ''/v1/embeddings'' (HttpJson body) (pa_parse_embed a)
                   (\<lambda>r. (embed_json (lx_adapter env) r, record_embedding (lx_float env) (pc_name p) (ucast (aer_input_tokens r)))) sw))"

section \<open>Reports\<close>

definition status_report :: "provider_status option \<Rightarrow> string \<times> string option" where
  "status_report st =
     (case st of None \<Rightarrow> (''available'', None) | Some PAvailable \<Rightarrow> (''available'', None)
      | Some (PDegraded r) \<Rightarrow> (''degraded'', Some r) | Some (PUnavailable r) \<Rightarrow> (''unavailable'', Some r))"

definition provider_report :: "(string, provider_status) hmap \<Rightarrow> provider_config \<Rightarrow> json" where
  "provider_report statuses p =
     (case status_report (hm_get statuses (pc_name p)) of
        (st, err) \<Rightarrow> JObj [(''name'', JStr (pc_name p)), (''status'', JStr st),
          (''modalities'', JArr (map (\<lambda>m. JStr (modality_str m)) (pc_modalities p))), (''models'', JArr (map (\<lambda>m. JStr (mc_id m)) (pc_models p))),
          (''auth_type'', JStr (case pc_auth p of AuthApiKey _ _ _ \<Rightarrow> ''api_key'' | AuthOauth2 _ _ _ _ _ _ \<Rightarrow> ''oauth2'' | AuthNone \<Rightarrow> ''none'')),
          (''last_error'', json_opt_str err)])"

definition handle_providers :: "('f, 'w) llm_handler" where
  "handle_providers params sw =
     (let s = fst sw; dp = lsp_default_providers (lc_spec (lv_config s))
      in (Inr (JObj [(''providers'', JArr (map (provider_report (routing_all_statuses (lv_routing s))) (lc_providers (lv_config s)))),
           (''default_providers'', JObj [(''text'', JStr (dp_text dp)), (''image'', JStr (dp_image dp)), (''speech'', JStr (dp_speech dp)),
              (''transcription'', JStr (dp_transcription dp)), (''embedding'', JStr (dp_embedding dp))])]), sw))"

definition usage_json :: "'f adapter_env \<Rightarrow> 'f provider_usage \<Rightarrow> json" where
  "usage_json env u =
     (let t = pu_text u; i = pu_image u; sp = pu_speech u; tr = pu_transcription u; e = pu_embedding u
      in JObj [(''text'', JObj [(''input_tokens'', JNum (uint (tu_input_tokens t))), (''output_tokens'', JNum (uint (tu_output_tokens t))),
                  (''requests'', JNum (uint (tu_requests t))), (''errors'', JNum (uint (tu_errors t)))]),
               (''image'', JObj [(''requests'', JNum (uint (iu_requests i))), (''errors'', JNum (uint (iu_errors i)))]),
               (''speech'', JObj [(''characters_generated'', JNum (uint (su_characters_generated sp))), (''requests'', JNum (uint (su_requests sp))),
                  (''errors'', JNum (uint (su_errors sp)))]),
               (''transcription'', JObj [(''audio_seconds'', ax_num env (ru_audio_seconds tr)), (''requests'', JNum (uint (ru_requests tr))),
                  (''errors'', JNum (uint (ru_errors tr)))]),
               (''embedding'', JObj [(''input_tokens'', JNum (uint (eu_input_tokens e))), (''requests'', JNum (uint (eu_requests e))),
                  (''errors'', JNum (uint (eu_errors e)))])])"

definition handle_usage :: "('f, 'w) llm_env \<Rightarrow> ('f, 'w) llm_handler" where
  "handle_usage env params sw = (Inr (JObj (map (\<lambda>(p, u). (p, usage_json (lx_adapter env) u)) (lv_usage (fst sw)))), sw)"

section \<open>Dispatch\<close>

definition llm_handlers :: "('f, 'w) llm_env \<Rightarrow> llm_draws \<Rightarrow> (string \<times> ('f, 'w) llm_handler) list" where
  "llm_handlers env dr =
     [(''llm/complete'', handle_complete env dr), (''llm/generate-image'', handle_generate_image env dr),
      (''llm/generate-speech'', handle_generate_speech env dr), (''llm/transcribe'', handle_transcribe env), (''llm/embed'', handle_embed env),
      (''llm/providers'', handle_providers), (''llm/usage'', handle_usage env)]"

definition llm_error_code :: "avix_error \<Rightarrow> int" where
  "llm_error_code e =
     (case e of NoProviderAvailable _ \<Rightarrow> error_code_i32 Eprovider | ProviderNotPermitted _ \<Rightarrow> error_code_i32 Eprovperm | _ \<Rightarrow> - 32603)"

definition llm_dispatch ::
  "('f, 'w) llm_env \<Rightarrow> llm_draws \<Rightarrow> json_rpc_request \<Rightarrow> ('f, 'w) llm_service \<times> 'w \<Rightarrow> json_rpc_response \<times> ('f, 'w) llm_service \<times> 'w" where
  "llm_dispatch env dr req sw =
     (case (case map_of (llm_handlers env dr) (jr_method req) of
              Some h \<Rightarrow> h (jr_params req) sw
            | None \<Rightarrow> (Inl (ConfigParse (''unknown method: '' @ jr_method req)), sw)) of
        (Inr v, sw') \<Rightarrow> (response_ok (jr_id req) v, sw')
      | (Inl e, sw') \<Rightarrow> (response_err (jr_id req) (llm_error_code e) (error_display e) None, sw'))"

section \<open>The socket\<close>

text \<open>The frames as JSON; absent fields are left out.\<close>

definition rpc_response_json :: "json_rpc_response \<Rightarrow> json" where
  "rpc_response_json r =
     JObj ([(''jsonrpc'', JStr (jp_jsonrpc r)), (''id'', JStr (jp_id r))] @
       (case jp_result r of Some v \<Rightarrow> [(''result'', v)] | None \<Rightarrow> []) @
       (case jp_error r of
          Some e \<Rightarrow> [(''error'', JObj ([(''code'', JNum (je_code e)), (''message'', JStr (je_message e))] @
                       (case je_data e of Some d \<Rightarrow> [(''data'', d)] | None \<Rightarrow> [])))]
        | None \<Rightarrow> []))"

definition rpc_notification_json :: "json_rpc_notification \<Rightarrow> json" where
  "rpc_notification_json n = JObj [(''jsonrpc'', JStr (jn_jsonrpc n)), (''method'', JStr (jn_method n)), (''params'', jn_params n)]"

fun chunk_json :: "stream_chunk \<Rightarrow> json" where
  "chunk_json (TextDelta t) = JObj [(''type'', JStr ''text_delta''), (''text'', JStr t)]"
| "chunk_json (ToolCallStart cid n) = JObj [(''type'', JStr ''tool_call_start''), (''call_id'', JStr cid), (''name'', JStr n)]"
| "chunk_json (ToolCallArgsDelta cid d) = JObj [(''type'', JStr ''tool_call_args_delta''), (''call_id'', JStr cid), (''args_delta'', JStr d)]"
| "chunk_json (ToolCallComplete cid) = JObj [(''type'', JStr ''tool_call_complete''), (''call_id'', JStr cid)]"
| "chunk_json (ChunkDone r i out) = JObj [(''type'', JStr ''done''), (''stop_reason'', JStr (stop_reason_str r)), (''input_tokens'', JNum (uint i)),
     (''output_tokens'', JNum (uint out))]"

definition u32_field :: "json \<Rightarrow> string \<Rightarrow> string + u32" where
  "u32_field v k =
     (case json_get v k of
        Some (JNum n) \<Rightarrow> if 0 \<le> n \<and> n < 2 ^ 32 then Inr (word_of_int n) else Inl (''invalid value for `'' @ k @ ''`'')
      | Some _ \<Rightarrow> Inl (''invalid type for `'' @ k @ ''`'')
      | None \<Rightarrow> Inl (''missing field `'' @ k @ ''`''))"

definition bind_sum :: "'e + 'a \<Rightarrow> ('a \<Rightarrow> 'e + 'b) \<Rightarrow> 'e + 'b" where
  "bind_sum x f = (case x of Inl e \<Rightarrow> Inl e | Inr a \<Rightarrow> f a)"

definition stop_reason_field :: "json \<Rightarrow> string + stop_reason" where
  "stop_reason_field v = bind_sum (str_field v ''stop_reason'')
     (\<lambda>t. case stop_reason_from_str t of Inr r \<Rightarrow> Inr r | Inl _ \<Rightarrow> Inl (''unknown variant `'' @ t @ ''`''))"

definition chunk_of_json :: "json \<Rightarrow> string + stream_chunk" where
  "chunk_of_json v = bind_sum (str_field v ''type'')
     (\<lambda>ty.
        if ty = ''text_delta'' then bind_sum (str_field v ''text'') (\<lambda>t. Inr (TextDelta t))
        else if ty = ''tool_call_start'' then
          bind_sum (str_field v ''call_id'') (\<lambda>c. bind_sum (str_field v ''name'') (\<lambda>n. Inr (ToolCallStart c n)))
        else if ty = ''tool_call_args_delta'' then
          bind_sum (str_field v ''call_id'') (\<lambda>c. bind_sum (str_field v ''args_delta'') (\<lambda>d. Inr (ToolCallArgsDelta c d)))
        else if ty = ''tool_call_complete'' then bind_sum (str_field v ''call_id'') (\<lambda>c. Inr (ToolCallComplete c))
        else if ty = ''done'' then
          bind_sum (stop_reason_field v) (\<lambda>r. bind_sum (u32_field v ''input_tokens'') (\<lambda>i. bind_sum (u32_field v ''output_tokens'')
            (\<lambda>out. Inr (ChunkDone r i out))))
        else Inl (''unknown variant `'' @ ty @ ''`''))"

text \<open>
  The frames of a streamed completion: a notification for each chunk, then one response.  \<open>wr\<close> says which writes succeed: after the first that
  fails the handler gives up.
\<close>

fun write_stream ::
  "(nat \<Rightarrow> bool) \<Rightarrow> string \<Rightarrow> nat \<Rightarrow> stop_reason \<times> u32 \<times> u32 \<Rightarrow> (string + stream_chunk) list \<Rightarrow> json list" where
  "write_stream wr i k (r, a, b) [] =
     (if wr k then [rpc_response_json (response_ok i (JObj [(''done'', JBool True), (''stop_reason'', JStr (stop_reason_str r)),
        (''input_tokens'', JNum (uint a)), (''output_tokens'', JNum (uint b))]))] else [])"
| "write_stream wr i k acc (Inl e # cs) = (if wr k then [rpc_response_json (response_err i (- 32603) e None)] else [])"
| "write_stream wr i k acc (Inr c # cs) =
     (if wr k then
        rpc_notification_json (notification_new ''llm.stream.chunk'' (JObj [(''stream_id'', JStr i), (''chunk'', chunk_json c)])) #
        write_stream wr i (Suc k) (case c of ChunkDone r a b \<Rightarrow> (r, a, b) | _ \<Rightarrow> acc) cs
      else [])"

definition handle_stream_complete ::
  "('f, 'w) llm_env \<Rightarrow> llm_draws \<Rightarrow> (nat \<Rightarrow> bool) \<Rightarrow> json_rpc_request \<Rightarrow> ('f, 'w) llm_service \<Rightarrow> 'w \<Rightarrow> json list \<times> 'w" where
  "handle_stream_complete env dr wr req s w =
     (case dispatch_stream env dr (jr_params req) s w of
        (Inl e, w') \<Rightarrow> (if wr 0 then [rpc_response_json (response_err (jr_id req) (- 32603) (error_display e) None)] else [], w')
      | (Inr cs, w') \<Rightarrow> (write_stream wr (jr_id req) 0 (EndTurn, 0, 0) cs, w'))"

definition llm_handle_message ::
  "('f, 'w) llm_env \<Rightarrow> llm_draws \<Rightarrow> (nat \<Rightarrow> bool) \<Rightarrow> ipc_message \<Rightarrow> ('f, 'w) llm_service \<times> 'w \<Rightarrow> json list \<times> ('f, 'w) llm_service \<times> 'w" where
  "llm_handle_message env dr wr msg sw =
     (case msg of
        IpcNotification _ \<Rightarrow> ([], sw)
      | IpcRequest req \<Rightarrow>
          if jr_method req = ''llm/stream_complete'' then
            (case handle_stream_complete env dr wr req (fst sw) (snd sw) of (fs, w') \<Rightarrow> (fs, fst sw, w'))
          else (case llm_dispatch env dr req sw of (resp, sw') \<Rightarrow> (if wr 0 then [rpc_response_json resp] else [], sw')))"

section \<open>The client behind the socket\<close>

record ipc_llm_client =
  ic_socket_path :: string
  ic_agent_pid :: u64
  ic_session_id :: string

definition ipc_client_params :: "ipc_llm_client \<Rightarrow> llm_complete_request \<Rightarrow> json" where
  "ipc_client_params c req =
     JObj [(''model'', JStr (lq_model req)), (''messages'', JArr (lq_messages req)), (''tools'', JArr (lq_tools req)),
       (''system'', json_opt_str (lq_system req)), (''max_tokens'', JNum (uint (lq_max_tokens req))), (''turn_id'', JStr (lq_turn_id req)),
       (''metadata'', JObj [(''agent_pid'', JNum (uint (ic_agent_pid c))), (''session_id'', JStr (ic_session_id c))])]"

definition ipc_client_request :: "ipc_llm_client \<Rightarrow> string \<Rightarrow> string \<Rightarrow> llm_complete_request \<Rightarrow> json_rpc_request" where
  "ipc_client_request c uuid method req =
     \<lparr> jr_jsonrpc = ''2.0'', jr_id = uuid, jr_method = method, jr_params = ipc_client_params c req \<rparr>"

definition complete_response_of :: "json \<Rightarrow> string + llm_complete_response" where
  "complete_response_of v =
     (case json_get v ''content'' of
        Some (JArr content) \<Rightarrow>
          bind_sum (stop_reason_field v) (\<lambda>r. bind_sum (u32_field v ''input_tokens'') (\<lambda>i. bind_sum (u32_field v ''output_tokens'')
            (\<lambda>out. Inr \<lparr> lr_content = content, lr_stop_reason = r, lr_input_tokens = i, lr_output_tokens = out \<rparr>)))
      | Some _ \<Rightarrow> Inl ''invalid type for `content`''
      | None \<Rightarrow> Inl ''missing field `content`'')"

text \<open>What the client makes of the response it read.\<close>

definition ipc_client_result :: "json_rpc_response \<Rightarrow> string + llm_complete_response" where
  "ipc_client_result resp =
     (case jp_error resp of
        Some e \<Rightarrow> Inl (''llm.svc error '' @ show_int (je_code e) @ '': '' @ je_message e)
      | None \<Rightarrow>
          (case jp_result resp of
             None \<Rightarrow> Inl ''llm.svc returned empty result''
           | Some v \<Rightarrow> (case complete_response_of v of
                          Inr r \<Rightarrow> Inr r | Inl e \<Rightarrow> Inl (''failed to deserialize llm.svc response: '' @ e))))"

definition ipc_client_complete ::
  "('f, 'w) llm_env \<Rightarrow> llm_draws \<Rightarrow> ipc_llm_client \<Rightarrow> string \<Rightarrow> llm_complete_request \<Rightarrow> ('f, 'w) llm_service \<times> 'w \<Rightarrow>
   (string + llm_complete_response) \<times> ('f, 'w) llm_service \<times> 'w" where
  "ipc_client_complete env dr c uuid req sw =
     (case llm_dispatch env dr (ipc_client_request c uuid ''llm/complete'' req) sw of (resp, sw') \<Rightarrow> (ipc_client_result resp, sw'))"

text \<open>The reader task of a stream, over the frames it reads (or the error of a read).\<close>

fun ipc_client_stream :: "(string + json) list \<Rightarrow> (string + stream_chunk) list" where
  "ipc_client_stream [] = []"
| "ipc_client_stream (Inl e # fs) = [Inl (''IPC read error: '' @ e)]"
| "ipc_client_stream (Inr raw # fs) =
     (if json_get raw ''result'' \<noteq> None \<or> json_get raw ''error'' \<noteq> None then
        (case json_get raw ''error'' of
           Some err \<Rightarrow> [Inl (''llm.svc stream error: '' @ unwrap_or ''unknown error'' (as_str (json_index err ''message'')))]
         | None \<Rightarrow> [])
      else if str_at raw ''method'' = ''llm.stream.chunk'' then
        (case chunk_of_json (json_index (json_index raw ''params'') ''chunk'') of
           Inr c \<Rightarrow> Inr c # ipc_client_stream fs
         | Inl e \<Rightarrow> [Inl (''failed to deserialize StreamChunk: '' @ e)])
      else ipc_client_stream fs)"

section \<open>Every request is answered\<close>

definition errors_zero :: "'f provider_usage \<Rightarrow> bool" where
  "errors_zero u \<longleftrightarrow> tu_errors (pu_text u) = 0 \<and> iu_errors (pu_image u) = 0 \<and> su_errors (pu_speech u) = 0 \<and>
     ru_errors (pu_transcription u) = 0 \<and> eu_errors (pu_embedding u) = 0"

definition usage_ok :: "'f usage_tracker \<Rightarrow> bool" where
  "usage_ok t \<longleftrightarrow> hm_wf t \<and> (\<forall>p u. hm_get t p = Some u \<longrightarrow> errors_zero u)"

lemma errors_zero_default: "errors_zero (usage_default fo)"
  by (simp add: errors_zero_def usage_default_def)

lemma usage_ok_entry:
  assumes "usage_ok t" and "\<And>u. errors_zero u \<Longrightarrow> errors_zero (f u)"
  shows "usage_ok (usage_entry fo f p t)"
  using assms errors_zero_default [of fo]
  by (auto simp: usage_ok_def usage_entry_def unwrap_or_def split: option.splits)

lemma usage_ok_records:
  assumes "usage_ok t"
  shows "usage_ok (record_text fo p i out t)" "usage_ok (record_image fo p t)" "usage_ok (record_speech fo p n t)"
    "usage_ok (record_transcription fo p sec t)" "usage_ok (record_embedding fo p k t)"
  unfolding usage_recorders using assms by (auto intro!: usage_ok_entry simp: errors_zero_def)

text \<open>A handler changes the service only in its usage, and keeps that well-formed and free of errors.\<close>

definition llm_keeps :: "('f, 'w) llm_service \<times> 'w \<Rightarrow> ('f, 'w) llm_service \<times> 'w \<Rightarrow> bool" where
  "llm_keeps sw sw' \<longleftrightarrow> (\<exists>t. fst sw' = (fst sw)\<lparr> lv_usage := t \<rparr> \<and> (usage_ok (lv_usage (fst sw)) \<longrightarrow> usage_ok t))"

lemma llm_keeps_same [simp]: "llm_keeps (s, w) (s, w')"
  by (auto simp: llm_keeps_def intro: exI [of _ "lv_usage s"])

lemma llm_keeps_refl [simp]: "llm_keeps sw sw"
  by (auto simp: llm_keeps_def intro: exI [of _ "lv_usage (fst sw)"])

lemma llm_keeps_usage: "(usage_ok (lv_usage s) \<Longrightarrow> usage_ok t) \<Longrightarrow> llm_keeps (s, w) (s\<lparr> lv_usage := t \<rparr>, w')"
  by (auto simp: llm_keeps_def)

lemma post_json_keeps:
  assumes "\<And>r t. usage_ok t \<Longrightarrow> usage_ok (snd (finish r) t)"
  shows "llm_keeps sw (snd (post_json env p path body parse finish sw))"
  using assms by (auto simp: post_json_def intro!: llm_keeps_usage split: prod.splits sum.splits) (metis snd_conv)

lemma with_adapter_keeps:
  assumes "\<And>p a. llm_keeps sw (snd (body p a params sw))"
  shows "llm_keeps sw (snd (with_adapter m body params sw))"
  using assms by (auto simp: with_adapter_def split: prod.splits sum.splits option.splits)

lemma complete_keeps: "llm_keeps sw (snd (handle_complete env dr params sw))"
  by (auto simp: handle_complete_def Let_def usage_ok_records intro!: llm_keeps_usage split: prod.splits sum.splits option.splits)

lemma image_keeps: "llm_keeps sw (snd (handle_generate_image env dr params sw))"
  unfolding handle_generate_image_def
  by (rule with_adapter_keeps) (auto simp: Let_def intro!: post_json_keeps usage_ok_records split: sum.splits)

lemma speech_keeps: "llm_keeps sw (snd (handle_generate_speech env dr params sw))"
  unfolding handle_generate_speech_def
  by (rule with_adapter_keeps) (auto simp: Let_def usage_ok_records intro!: llm_keeps_usage split: sum.splits prod.splits)

lemma transcribe_keeps: "llm_keeps sw (snd (handle_transcribe env params sw))"
  unfolding handle_transcribe_def
  by (rule with_adapter_keeps) (auto simp: Let_def intro!: post_json_keeps usage_ok_records split: sum.splits)

lemma embed_keeps: "llm_keeps sw (snd (handle_embed env params sw))"
  unfolding handle_embed_def
  by (rule with_adapter_keeps) (auto simp: intro!: post_json_keeps usage_ok_records split: sum.splits option.splits)

lemma handlers_keep: "map_of (llm_handlers env dr) m = Some h \<Longrightarrow> llm_keeps sw (snd (h params sw))"
  by (auto simp: llm_handlers_def complete_keeps image_keeps speech_keeps transcribe_keeps embed_keeps handle_providers_def
      handle_usage_def Let_def split: if_splits)

lemma dispatch_keeps: "llm_keeps sw (snd (llm_dispatch env dr req sw))"
proof (cases "map_of (llm_handlers env dr) (jr_method req)")
  case None
  then show ?thesis by (simp add: llm_dispatch_def)
next
  case (Some h)
  then show ?thesis using handlers_keep [OF Some, of sw "jr_params req"]
    by (auto simp: llm_dispatch_def split: prod.splits sum.splits)
qed

lemma dispatch_answers: "answers (jr_id req) (fst (llm_dispatch env dr req sw))"
  by (auto simp: llm_dispatch_def split: prod.splits sum.splits option.splits)

definition llm_rpc ::
  "('f, 'w) llm_env \<Rightarrow> llm_draws \<Rightarrow> ipc_message \<Rightarrow> ('f, 'w) llm_service \<times> 'w \<Rightarrow> json_rpc_response option \<times> ('f, 'w) llm_service \<times> 'w" where
  "llm_rpc env dr msg sw =
     (case msg of
        IpcRequest req \<Rightarrow> (case llm_dispatch env dr req sw of (resp, sw') \<Rightarrow> (Some resp, sw'))
      | IpcNotification _ \<Rightarrow> (None, sw))"

interpretation llm: rpc_server "llm_rpc env" "\<lambda>sw. usage_ok (lv_usage (fst sw)) \<and> lv_config (fst sw) = cfg" for env cfg
proof
  fix dr and req :: json_rpc_request and sw :: "('a, 'b) llm_service \<times> 'b"
  show "\<exists>resp. fst (llm_rpc env dr (IpcRequest req) sw) = Some resp \<and> answers (jr_id req) resp"
    using dispatch_answers [of req env dr sw] by (cases "llm_dispatch env dr req sw") (simp add: llm_rpc_def)
  show "llm_rpc env dr (IpcNotification n) sw = (None, sw)" for n by (simp add: llm_rpc_def)
  assume "usage_ok (lv_usage (fst sw)) \<and> lv_config (fst sw) = cfg"
  then show "usage_ok (lv_usage (fst (snd (llm_rpc env dr (IpcRequest req) sw)))) \<and>
      lv_config (fst (snd (llm_rpc env dr (IpcRequest req) sw))) = cfg"
    using dispatch_keeps [of sw env dr req] by (auto simp: llm_rpc_def llm_keeps_def split: prod.splits)
qed

text \<open>
   The language-model service answers every request exactly once and under its id, whatever the providers do; and it never counts an
  error: after any sequence of messages, failed ones included, every error counter of every provider is zero.
\<close>

theorem llm_serves_uncounted_errors:
  "list_all2 answers (List.map_filter (request_id \<circ> snd) msgs) (fst (serve_all (llm_rpc env) msgs (llm_service_new env getenv cfg adapters rg clients, w))) \<and>
   (case hm_get (lv_usage (fst (snd (serve_all (llm_rpc env) msgs (llm_service_new env getenv cfg adapters rg clients, w))))) p of
      None \<Rightarrow> True
    | Some u \<Rightarrow> tu_errors (pu_text u) = 0 \<and> iu_errors (pu_image u) = 0 \<and> su_errors (pu_speech u) = 0 \<and>
        ru_errors (pu_transcription u) = 0 \<and> eu_errors (pu_embedding u) = 0)"
proof -
  let ?sw = "(llm_service_new env getenv cfg adapters rg clients, w)"
  have "usage_ok (lv_usage (fst (snd (serve_all (llm_rpc env) msgs ?sw))))"
    using llm.serve_wf [of ?sw cfg env msgs] by (simp add: llm_service_new_def usage_ok_def hm_wf_def)
  then show ?thesis using llm.serve_answers [of msgs env ?sw] by (auto simp: usage_ok_def errors_zero_def split: option.splits)
qed

section \<open>The client sees what the provider returned\<close>

lemma u32_field_uint: "json_get v k = Some (JNum (uint (n :: u32))) \<Longrightarrow> u32_field v k = Inr n"
  using uint_lt2p [of n] by (simp add: u32_field_def)

lemma stop_reason_field_str: "json_get v ''stop_reason'' = Some (JStr (stop_reason_str r)) \<Longrightarrow> stop_reason_field v = Inr r"
  by (simp add: stop_reason_field_def bind_sum_def str_field_def stop_reason_roundtrip)

lemma chunk_roundtrip: "chunk_of_json (chunk_json c) = Inr c"
  by (cases c) (simp_all add: chunk_of_json_def bind_sum_def str_field_def u32_field_uint stop_reason_field_str)

text \<open>What a stream delivers through the socket: the chunks up to an error, which is reported in the service's name.\<close>

fun relay :: "(string + stream_chunk) list \<Rightarrow> (string + stream_chunk) list" where
  "relay [] = []"
| "relay (Inl e # cs) = [Inl (''llm.svc stream error: '' @ e)]"
| "relay (Inr c # cs) = Inr c # relay cs"

lemma client_of_response [simp]:
  "ipc_client_stream (Inr (rpc_response_json (response_ok i v)) # fs) = []"
  "ipc_client_stream (Inr (rpc_response_json (response_err i code e None)) # fs) = [Inl (''llm.svc stream error: '' @ e)]"
  by (simp_all add: rpc_response_json_def response_ok_def response_err_def json_simps)

lemma client_of_chunk [simp]:
  "ipc_client_stream (Inr (rpc_notification_json (notification_new ''llm.stream.chunk'' (JObj [(''stream_id'', JStr i), (''chunk'', chunk_json c)]))) # fs) =
     Inr c # ipc_client_stream fs"
  by (simp add: rpc_notification_json_def notification_new_def json_simps chunk_roundtrip)

lemma client_of_write_stream: "ipc_client_stream (map Inr (write_stream (\<lambda>_. True) i k acc cs)) = relay cs"
  by (induction "\<lambda>_ :: nat. True" i k acc cs rule: write_stream.induct)
    (simp_all del: ipc_client_stream.simps)

lemma request_roundtrip:
  assumes "lx_uuid_parse env (lq_turn_id req) = Some (lq_turn_id req)"
  shows "complete_request_of env dr (ipc_client_params c req) = req"
  using assms
  by (cases "lq_system req")
    (simp_all add: complete_request_of_def ipc_client_params_def json_opt_str_def json_index_def unwrap_or_def del: as_u64.simps)

lemma params_no_provider: "route_request Text (ipc_client_params c req) s = routing_resolve Text None (lv_routing s)"
  by (simp add: route_request_def ipc_client_params_def json_index_def)

lemma response_roundtrip:
  "complete_response_of (JObj [(''provider'', p), (''model'', m), (''content'', JArr (lr_content r)),
     (''stop_reason'', JStr (stop_reason_str (lr_stop_reason r))), (''input_tokens'', JNum (uint (lr_input_tokens r))),
     (''output_tokens'', JNum (uint (lr_output_tokens r))), (''total_tokens'', t), (''latency_ms'', l)]) = Inr r"
  by (simp add: complete_response_of_def bind_sum_def u32_field_uint stop_reason_field_str)


section \<open>A concrete service\<close>

definition demo_llm_env :: "(unit, unit) llm_env" where
  "demo_llm_env = \<lparr> lx_adapter = plain_env, lx_http = (\<lambda>_ w. (Inl ''down'', w)), lx_float = \<lparr> fo_zero = (), fo_add = (\<lambda>_ _. ()) \<rparr>,
     lx_widen = id, lx_uuid_parse = Some \<rparr>"

definition demo_llm_request :: llm_complete_request where
  "demo_llm_request = \<lparr> lq_model = [], lq_messages = [], lq_tools = [], lq_system = None, lq_max_tokens = 100, lq_turn_id = ''t1'' \<rparr>"

definition demo_llm_client :: "unit text_client" where
  "demo_llm_client = \<lparr> tcl_complete = (\<lambda>_ w. (Inr \<lparr> lr_content = [], lr_stop_reason = EndTurn, lr_input_tokens = 3, lr_output_tokens = 4 \<rparr>, w)),
     tcl_stream = (\<lambda>_ w. (Inr [Inr (TextDelta ''hi''), Inr (ChunkDone EndTurn 3 4)], w)) \<rparr>"

definition demo_llm_service :: "(unit, unit) llm_service" where
  "demo_llm_service = \<lparr> lv_config = demo_llm_config, lv_adapters = [], lv_routing = engine_after demo_llm_config None [], lv_credentials = [],
     lv_usage = [], lv_text_clients = [(''ollama'', demo_llm_client)] \<rparr>"


end
