(* ===== verification/Llm_Stream.thy ===== *)
theory Llm_Stream
  imports Llm_Service Executor_Loop
begin

text \<open>
  A streamed answer on its way from the provider to the executor: the provider's lines, the chunks the HTTP client decodes,
  the frames of the service's socket, the chunks its client reads, and the response the executor accumulates and acts on.
  The theorem of this theory composes the five.
\<close>

section \<open>What a stream says\<close>

fun starts :: "model_event list \<Rightarrow> (u64 \<times> string \<times> string) list" where
  "starts [] = []"
| "starts (MStart i cid n # es) = (i, cid, n) # starts es"
| "starts (_ # es) = starts es"

fun fragments :: "u64 \<Rightarrow> model_event list \<Rightarrow> string" where
  "fragments i [] = []"
| "fragments i (MArgs j d # es) = (if j = i then d @ fragments i es else fragments i es)"
| "fragments i (_ # es) = fragments i es"

fun args_started :: "u64 list \<Rightarrow> model_event list \<Rightarrow> bool" where
  "args_started seen [] = True"
| "args_started seen (MStart i cid n # es) = args_started (i # seen) es"
| "args_started seen (MArgs i d # es) = (i \<in> set seen \<and> args_started seen es)"
| "args_started seen (_ # es) = args_started seen es"

text \<open>No index and no id is used twice, and arguments come after the start of their call.\<close>

definition stream_wf :: "model_event list \<Rightarrow> bool" where
  "stream_wf es \<longleftrightarrow> distinct (map fst (starts es)) \<and> distinct (map (fst \<circ> snd) (starts es)) \<and> args_started [] es"

definition assembled :: "model_event list \<Rightarrow> (string \<times> string \<times> string) list" where
  "assembled es = map (\<lambda>(i, cid, n). (cid, n, fragments i es)) (starts es)"

lemma starts_append [simp]: "starts (xs @ ys) = starts xs @ starts ys"
  by (induction xs rule: starts.induct) simp_all

lemma fragments_append [simp]: "fragments i (xs @ ys) = fragments i xs @ fragments i ys"
  by (induction i xs rule: fragments.induct) simp_all

lemma args_started_append:
  "args_started seen (xs @ ys) \<longleftrightarrow> args_started seen xs \<and> args_started (rev (map fst (starts xs)) @ seen) ys"
  by (induction seen xs rule: args_started.induct) auto

lemma fragments_not_started:
  "args_started seen es \<Longrightarrow> i \<notin> set seen \<Longrightarrow> i \<notin> fst ` set (starts es) \<Longrightarrow> fragments i es = []"
  by (induction seen es rule: args_started.induct) auto

fun ids_after :: "(string, string) hmap \<Rightarrow> model_event list \<Rightarrow> (string, string) hmap" where
  "ids_after ids [] = ids"
| "ids_after ids (e # es) = ids_after (event_ids ids e) es"

lemma chunks_of_append: "chunks_of closing ids (xs @ ys) = chunks_of closing ids xs @ chunks_of closing (ids_after ids xs) ys"
  by (induction xs arbitrary: ids) simp_all

lemma ids_after_append: "ids_after ids (xs @ ys) = ids_after (ids_after ids xs) ys"
  by (induction xs arbitrary: ids) simp_all

lemma ids_after_get:
  assumes "distinct (map fst (starts es))" and "(i, cid, n) \<in> set (starts es)"
  shows "hm_get (ids_after [] es) (show_word i) = Some cid"
  using assms
proof (induction es rule: rev_induct)
  case (snoc e es)
  show ?case
  proof (cases e)
    case (MStart j c m)
    have "hm_get (ids_after [] es) (show_word i) = Some cid \<and> i \<noteq> j \<or> i = j \<and> cid = c"
      using snoc MStart by (auto simp: rev_image_eqI)
    then show ?thesis using MStart by (auto simp: ids_after_append dest: show_word_inj)
  qed (use snoc in \<open>simp_all add: ids_after_append\<close>)
qed simp

section \<open>What the executor accumulates\<close>

lemma update_absent: "k \<notin> fst ` set m \<Longrightarrow> hm_insert k v m = m @ [(k, v)]"
  unfolding hm_insert_def by (induction m) auto

lemma modify_present:
  assumes "distinct (map fst m)" and "k \<in> fst ` set m"
  shows "hm_modify k f m = map (\<lambda>(k', v). (k', if k' = k then f v else v)) m"
  using assms
proof (induction m)
  case (Cons x m)
  obtain a b where x: "x = (a, b)" by (cases x)
  show ?case
  proof (cases "a = k")
    case True
    then have "map (\<lambda>(k', v). (k', if k' = k then f v else v)) m = m"
      using Cons.prems(1) x by (intro map_idI) (auto simp: image_iff)
    with True x show ?thesis by (simp add: hm_modify_def hm_insert_def)
  next
    case False
    then have "k \<in> fst ` set m" using Cons.prems(2) x by auto
    moreover from this obtain v where "hm_get m k = Some v" by (metis map_of_eq_None_iff not_None_eq)
    ultimately show ?thesis using Cons x False by (simp add: hm_modify_def hm_insert_def)
  qed
qed simp

lemma assembled_keys: "map fst (assembled es) = map (fst \<circ> snd) (starts es)"
  by (simp add: assembled_def comp_def split_beta)

lemma assembled_start:
  assumes "args_started [] es" and "i \<notin> fst ` set (starts es)"
  shows "assembled (es @ [MStart i cid n]) = assembled es @ [(cid, n, [])]"
  using fragments_not_started [OF assms(1) _ assms(2)] by (simp add: assembled_def split_beta)

lemma assembled_args:
  assumes "distinct (map fst (starts es))" and "distinct (map (fst \<circ> snd) (starts es))" and "(i, cid, n) \<in> set (starts es)"
  shows "assembled (es @ [MArgs i d]) = map (\<lambda>(k, v). (k, if k = cid then (fst v, snd v @ d) else v)) (assembled es)"
proof -
  have inj: "inj_on fst (set (starts es))" "inj_on (fst \<circ> snd) (set (starts es))" using assms(1,2) by (simp_all add: distinct_map)
  have "i = j \<longleftrightarrow> c = cid" if "(j, c, m) \<in> set (starts es)" for j c m
    using inj_onD [OF inj(1) _ assms(3) that] inj_onD [OF inj(2) _ assms(3) that] by auto
  then show ?thesis by (auto simp: assembled_def)
qed

lemma assembled_other: "(\<And>i cid n. e \<noteq> MStart i cid n) \<Longrightarrow> (\<And>i d. e \<noteq> MArgs i d) \<Longrightarrow> assembled (es @ [e]) = assembled es"
  by (cases e) (auto simp: assembled_def)

text \<open>The chunks of a well-formed stream leave exactly the assembled calls.\<close>

lemma accumulated_calls:
  assumes "\<And>i a. fold stream_chunk_step (closing i) a = a" and "stream_wf es"
  shows "sa_calls (fold stream_chunk_step (chunks_of closing [] es) sa_init) = assembled es"
  using assms(2)
proof (induction es rule: rev_induct)
  case Nil
  then show ?case by (simp add: assembled_def sa_init_def)
next
  case (snoc e es)
  let ?a = "fold stream_chunk_step (chunks_of closing [] es) sa_init"
  have wf: "stream_wf es" using snoc.prems by (cases e) (simp_all add: stream_wf_def args_started_append)
  note IH = snoc.IH [OF wf]
  have split: "fold stream_chunk_step (chunks_of closing [] (es @ [e])) sa_init =
      fold stream_chunk_step (event_chunks closing (ids_after [] es) e) ?a"
    by (simp add: chunks_of_append)
  show ?case
  proof (cases e)
    case (MStart i cid n)
    then have "cid \<notin> fst ` set (assembled es)" "i \<notin> fst ` set (starts es)" "args_started [] es"
      using snoc.prems assembled_keys [of es] by (auto simp: stream_wf_def args_started_append comp_def simp flip: set_map)
    then show ?thesis using IH
      by (simp add: split [unfolded MStart] MStart Let_def update_absent assembled_start)
  next
    case (MArgs i d)
    then have "i \<in> fst ` set (starts es)" using snoc.prems by (simp add: stream_wf_def args_started_append)
    then obtain cid n where s: "(i, cid, n) \<in> set (starts es)" by auto
    have dis: "distinct (map fst (starts es))" "distinct (map (fst \<circ> snd) (starts es))" using wf by (simp_all add: stream_wf_def)
    have "cid \<in> fst ` set (assembled es)" using s assembled_keys [of es] by (metis comp_apply fst_conv image_eqI set_map snd_conv)
    moreover have "distinct (map fst (assembled es))" using dis assembled_keys [of es] by simp
    ultimately show ?thesis using IH ids_after_get [OF dis(1) s] assembled_args [OF dis s]
      by (simp add: split [unfolded MArgs] MArgs unwrap_or_def modify_present split_beta)
  next
    case (MEnd i)
    then show ?thesis using IH assms(1) by (simp add: split [unfolded MEnd] assembled_other)
  next
    case (MText t)
    then show ?thesis using IH by (simp add: split [unfolded MText] Let_def assembled_other)
  next
    case (MDone r i out)
    then show ?thesis using IH by (simp add: split [unfolded MDone] assembled_other)
  qed
qed

section \<open>From the provider to the executor\<close>

lemma relay_chunks [simp]: "relay (map Inr cs) = map Inr cs"
  by (induction cs) simp_all

lemma stream_loop_chunks: "stream_loop (map (StChunk \<circ> Inr) cs) a = (None, fold stream_chunk_step cs a)"
  by (induction cs arbitrary: a) simp_all

text \<open>The events an executor receives for a provider's lines: decoded by the HTTP client, sent over the service's socket, read by its client.\<close>

definition executor_events :: "'f adapter_env \<Rightarrow> 'f provider_adapter \<Rightarrow> string \<Rightarrow> (string + sse_line) list \<Rightarrow> stream_event list" where
  "executor_events env a i lines =
     map StChunk (ipc_client_stream (map Inr (write_stream (\<lambda>_. True) i 0 (EndTurn, 0, 0) (fst (scan_lines env a lines (None, []))))))"

definition dispatched :: "(string \<Rightarrow> json option) \<Rightarrow> model_event list \<Rightarrow> avix_tool_call list" where
  "dispatched parse es =
     map (\<lambda>(cid, n, args). \<lparr> tc_call_id = cid, tc_name = n, tc_args = unwrap_or (JObj []) (parse args) \<rparr>) (assembled es)"

lemma wire_safe_unmangle: "wire_safe n \<Longrightarrow> unmangle n = n"
  by (simp add: wire_safe_def unmangle_def wire_sep_def str_replace_absent)

lemma call_of_tool_use:
  assumes "wire_safe n"
  shows "call_of_block (JObj [(''type'', JStr ''tool_use''), (''id'', JStr cid), (''name'', JStr n), (''input'', v)]) =
     \<lparr> tc_call_id = cid, tc_name = n, tc_args = v \<rparr>"
  using call_of_block_name [of "JObj [(''type'', JStr ''tool_use''), (''id'', JStr cid), (''name'', JStr n), (''input'', v)]"] assms
  by (simp add: call_of_block_def Let_def json_index_def unwrap_or_def wire_safe_unmangle)

lemma assembled_safe: "list_all event_ok es \<Longrightarrow> (cid, n, args) \<in> set (assembled es) \<Longrightarrow> wire_safe n"
proof -
  assume *: "list_all event_ok es" "(cid, n, args) \<in> set (assembled es)"
  then obtain i where "(i, cid, n) \<in> set (starts es)" by (auto simp: assembled_def)
  with *(1) show ?thesis by (induction es rule: starts.induct) auto
qed

lemma content_calls:
  assumes "list_all event_ok es" and "sa_calls a = assembled es"
  shows "map call_of_block (filter (\<lambda>c. json_index c ''type'' = JStr ''tool_use'') (stream_content parse a)) = dispatched parse es"
proof -
  have "map call_of_block (filter (\<lambda>c. json_index c ''type'' = JStr ''tool_use'') (stream_content parse a)) =
      map (\<lambda>(cid, n, args). call_of_block (JObj [(''type'', JStr ''tool_use''), (''id'', JStr cid), (''name'', JStr n),
        (''input'', unwrap_or (JObj []) (parse args))])) (assembled es)"
    by (simp add: stream_content_def assms(2) filter_map comp_def split_beta json_index_def)
  also have "\<dots> = dispatched parse es"
    unfolding dispatched_def using assembled_safe [OF assms(1)] by (intro map_cong) (auto simp: call_of_tool_use)
  finally show ?thesis .
qed

text \<open>A format whose end-of-block chunks the executor ignores and whose acceptable events are proper ones.\<close>

locale executor_stream_format = stream_format +
  assumes quiet: "fold stream_chunk_step (closing i) a = a"
    and proper: "ok e \<Longrightarrow> event_ok e"
begin

lemma dispatches_what_was_streamed:
  assumes "list_all ok es" and "stream_wf es" and "ok (MDone ToolUse p q)"
  shows "\<exists>resp. fst (answer_result parse (AnswerStream (executor_events env adapter i
      (map Inr (concat (map lines_of (es @ [MDone ToolUse p q]))))))) = Inr resp \<and> interpret_stop_reason resp = DispatchTools (dispatched parse es)"
proof -
  let ?es = "es @ [MDone ToolUse p q]"
  have ok: "list_all ok ?es" "list_all event_ok es" using assms proper by (simp_all add: list_all_iff)
  have wf: "stream_wf ?es" using assms(2) by (simp add: stream_wf_def args_started_append)
  have as: "assembled ?es = assembled es" by (simp add: assembled_other)
  define a where "a = fold stream_chunk_step (chunks_of closing [] ?es) sa_init"
  have "executor_events env adapter i (map Inr (concat (map lines_of ?es))) = map (StChunk \<circ> Inr) (chunks_of closing [] ?es)"
    by (simp add: executor_events_def scan_events [OF ok(1)] client_of_write_stream del: map_append concat_append chunks_of.simps)
  moreover have calls: "sa_calls (flush_pending a) = assembled es"
    using accumulated_calls [OF quiet wf] by (simp add: a_def as)
  moreover have stop: "sa_stop (flush_pending a) = ToolUse" by (simp add: a_def chunks_of_append flush_pending_def)
  ultimately show ?thesis using content_calls [OF ok(2) calls, of parse]
    by (simp add: answer_result_def stream_loop_chunks a_def [symmetric] Let_def interpret_stop_reason_def)
qed

end

interpretation openai_exec: executor_stream_format env "openai_adapter env" "openai_lines env" "\<lambda>_. []" "openai_event_ok env" for env
  by unfold_locales (simp_all add: openai_event_ok_def)

interpretation anthropic_exec: executor_stream_format env "anthropic_adapter env" "anthropic_lines env" "\<lambda>i. [ToolCallComplete (show_word i)]"
    "anthropic_event_ok env" for env
  by unfold_locales (simp_all add: anthropic_event_ok_def)


section \<open>A concrete stream\<close>

instance json :: countable
  by countable_datatype

text \<open>JSON values numbered and written in unary: an environment in which every value reads back as printed.\<close>

definition unary_env :: "unit adapter_env" where
  "unary_env = plain_env\<lparr> ax_print := (\<lambda>v. replicate (to_nat v) (CHR ''1'')), ax_parse := (\<lambda>s. Inr (from_nat (length s))) \<rparr>"

lemma unary_prints_back: "prints_back unary_env v"
  by (simp add: prints_back_def unary_env_def)

definition demo_stream :: "model_event list" where
  "demo_stream = [MText ''looking'', MStart 0 ''c1'' ''fs/read'', MStart 1 ''c2'' ''fs/list'', MArgs 1 ''[1'', MArgs 0 ''{}'', MArgs 1 '']'', MEnd 0]"


end
