(* ===== verification/Cron.thy ===== *)
theory Cron
  imports Memfs Llm_Adapter
begin

text \<open>
  The cron service, \<^verbatim>\<open>cron_svc/\<close>: the crontab file and its loader (\<^verbatim>\<open>schema.rs\<close>,
  \<^verbatim>\<open>loader.rs\<close>), the scheduler (\<^verbatim>\<open>scheduler.rs\<close>) and the runner that dispatches due
  jobs with their retry and alert rules (\<^verbatim>\<open>runner.rs\<close>).

  The \<^verbatim>\<open>cron\<close> crate is a parameter: \<open>parse\<close> is \<^verbatim>\<open>Schedule::from_str\<close> and \<open>after\<close> is
  \<^verbatim>\<open>schedule.after(t).next()\<close>, documented as the first occurrence strictly after \<open>t\<close> (\<open>first_after\<close>).
  The agents are a parameter too: what the spawner answers to each attempt, and whether the agent exits
  before the timeout.

  The lemmas give the exact effects of a job (attempts, waits, stops, alerts), which jobs a tick lists as due,
  that consecutive ticks list every run, and that the runner dispatches none of the jobs it lists.
\<close>

section \<open>The crontab file\<close>

datatype on_failure = Ignore | Alert | Retry

definition on_failure_default :: on_failure where
  "on_failure_default = Alert"

record cron_retry_policy =
  crp_max_attempts :: u32
  crp_backoff_sec :: u64

definition cron_retry_policy_default :: cron_retry_policy where
  "cron_retry_policy_default = \<lparr> crp_max_attempts = 3, crp_backoff_sec = 60 \<rparr>"

record crontab_job =
  ctj_id :: string
  ctj_schedule :: string
  ctj_user :: string
  ctj_agent_template :: string
  ctj_goal :: string
  ctj_args :: "(string, json) hmap"
  ctj_timeout :: u64
  ctj_on_failure :: on_failure
  ctj_retry_policy :: cron_retry_policy
  ctj_timezone :: "string option"

definition crontab_job_default_timeout :: u64 where
  "crontab_job_default_timeout = 3600"

record crontab_spec =
  cts_timezone :: string
  cts_jobs :: "crontab_job list"

definition crontab_spec_default :: crontab_spec where
  "crontab_spec_default = \<lparr> cts_timezone = ''UTC'', cts_jobs = [] \<rparr>"

record crontab_metadata =
  ctm_last_updated :: datetime

record crontab_file =
  ctf_api_version :: string
  ctf_kind :: string
  ctf_metadata :: crontab_metadata
  ctf_spec :: crontab_spec

definition crontab_file_empty :: "datetime \<Rightarrow> crontab_file" where
  "crontab_file_empty now =
     \<lparr> ctf_api_version = ''avix/v1'', ctf_kind = ''Crontab'', ctf_metadata = \<lparr> ctm_last_updated = now \<rparr>,
       ctf_spec = crontab_spec_default \<rparr>"

section \<open>Loading\<close>

definition crontab_path :: string where
  "crontab_path = ''/etc/avix/crontab.yaml''"

datatype crontab_error =
  CrontabNotFound string
| CrontabParseError string
| CrontabInvalidExpression string string string
| CrontabDuplicateJobId string
| CrontabVfs string string

text \<open>
  \<^verbatim>\<open>str::split_whitespace\<close> counts the maximal runs without white space; \<open>ws_width\<close> is the number of bytes of the
  white-space character the string starts with, for the characters with the Unicode property
  \<^verbatim>\<open>White_Space\<close>, or 0.
\<close>

definition ws_width :: "string \<Rightarrow> nat" where
  "ws_width s =
     (case map of_char s :: nat list of
        [] \<Rightarrow> 0
      | a # bs \<Rightarrow>
          if a \<in> {9, 10, 11, 12, 13, 32} then 1
          else (case bs of
                  [] \<Rightarrow> 0
                | b # cs \<Rightarrow>
                    if a = 0xC2 \<and> b \<in> {0x85, 0xA0} then 2
                    else (case cs of
                            [] \<Rightarrow> 0
                          | c # _ \<Rightarrow>
                              if (a = 0xE1 \<and> b = 0x9A \<and> c = 0x80) \<or>
                                 (a = 0xE2 \<and> b = 0x80 \<and> (0x80 \<le> c \<and> c \<le> 0x8A \<or> c \<in> {0xA8, 0xA9, 0xAF})) \<or>
                                 (a = 0xE2 \<and> b = 0x81 \<and> c = 0x9F) \<or> (a = 0xE3 \<and> b = 0x80 \<and> c = 0x80)
                              then 3 else 0)))"

function count_fields :: "bool \<Rightarrow> string \<Rightarrow> nat" where
  "count_fields inside s =
     (if s = [] then 0
      else if ws_width s \<noteq> 0 then count_fields False (drop (ws_width s) s)
      else (if inside then 0 else 1) + count_fields True (tl s))"
  by pat_completeness auto
termination
  by (relation "measure (\<lambda>(_, s). length s)") auto

declare count_fields.simps [simp del]

definition normalise_expression :: "string \<Rightarrow> string" where
  "normalise_expression expr = (if count_fields False expr = 5 then ''0 '' @ expr else expr)"

definition validate_schedule :: "(string \<Rightarrow> string + 'sched) \<Rightarrow> crontab_job \<Rightarrow> crontab_error + unit" where
  "validate_schedule parse job =
     (case parse (normalise_expression (ctj_schedule job)) of
        Inl e \<Rightarrow> Inl (CrontabInvalidExpression (ctj_schedule job) (ctj_id job) e)
      | Inr _ \<Rightarrow> Inr ())"

fun validate_jobs :: "(string \<Rightarrow> string + 'sched) \<Rightarrow> string list \<Rightarrow> crontab_job list \<Rightarrow> crontab_error + unit" where
  "validate_jobs parse seen [] = Inr ()"
| "validate_jobs parse seen (j # js) =
     (if ctj_id j \<in> set seen then Inl (CrontabDuplicateJobId (ctj_id j))
      else (case validate_schedule parse j of Inl e \<Rightarrow> Inl e | Inr _ \<Rightarrow> validate_jobs parse (ctj_id j # seen) js))"

definition crontab_validate :: "(string \<Rightarrow> string + 'sched) \<Rightarrow> crontab_file \<Rightarrow> crontab_error + unit" where
  "crontab_validate parse file = validate_jobs parse [] (cts_jobs (ctf_spec file))"

text \<open>The loader reads the file through the virtual file system; \<open>yaml\<close> is \<^verbatim>\<open>serde_yaml::from_str\<close>.\<close>

definition crontab_load ::
  "(string \<Rightarrow> string + 'sched) \<Rightarrow> (string \<Rightarrow> string + crontab_file) \<Rightarrow> (string list \<Rightarrow> string) \<Rightarrow> 'd disk_ops \<Rightarrow>
   vfs_router \<Rightarrow> 'd \<Rightarrow> (crontab_error + crontab_file) \<times> vfs_router" where
  "crontab_load parse yaml to_yaml os r d =
     (case vfs_path_parse crontab_path of
        Inl e \<Rightarrow> (Inl (CrontabVfs crontab_path (error_display e)), r)
      | Inr path \<Rightarrow>
          (case vfs_read to_yaml os path r d of
             (Inl _, r') \<Rightarrow> (Inl (CrontabNotFound crontab_path), r')
           | (Inr bs, r') \<Rightarrow>
               (case yaml (string_of_bytes (utf8_lossy bs)) of
                  Inl e \<Rightarrow> (Inl (CrontabParseError e), r')
                | Inr file \<Rightarrow> (case crontab_validate parse file of Inl e \<Rightarrow> (Inl e, r') | Inr _ \<Rightarrow> (Inr file, r')))))"

section \<open>The scheduler\<close>

datatype missed_run_policy = Skip | FireOnce

record cron_job =
  cj_id :: string
  cj_name :: string
  cj_expression :: string
  cj_missed_run_policy :: missed_run_policy
  cj_last_run :: "datetime option"
  cj_enabled :: bool

definition next_run_after ::
  "(string \<Rightarrow> string + 'sched) \<Rightarrow> ('sched \<Rightarrow> datetime \<Rightarrow> datetime option) \<Rightarrow> cron_job \<Rightarrow> datetime \<Rightarrow> datetime option" where
  "next_run_after parse after job t = (case parse (cj_expression job) of Inl _ \<Rightarrow> None | Inr s \<Rightarrow> after s t)"

datatype cron_error = CronInvalidExpression string | CronNotFound string

fun cron_error_display :: "cron_error \<Rightarrow> string" where
  "cron_error_display (CronInvalidExpression e) = ''invalid cron expression: '' @ e"
| "cron_error_display (CronNotFound i) = ''job not found: '' @ i"

type_synonym cron_scheduler = "(string, cron_job) hmap"

definition cron_add_job ::
  "(string \<Rightarrow> string + 'sched) \<Rightarrow> string \<Rightarrow> string \<Rightarrow> string \<Rightarrow> missed_run_policy \<Rightarrow> cron_scheduler \<Rightarrow>
   cron_error + (string \<times> cron_scheduler)" where
  "cron_add_job parse uuid name expression policy s =
     (case parse expression of
        Inl _ \<Rightarrow> Inl (CronInvalidExpression expression)
      | Inr _ \<Rightarrow>
          Inr (uuid, hm_insert uuid
            \<lparr> cj_id = uuid, cj_name = name, cj_expression = expression, cj_missed_run_policy = policy,
              cj_last_run = None, cj_enabled = True \<rparr> s))"

definition cron_remove_job :: "string \<Rightarrow> cron_scheduler \<Rightarrow> cron_error + cron_scheduler" where
  "cron_remove_job i s = (case hm_get s i of None \<Rightarrow> Inl (CronNotFound i) | Some _ \<Rightarrow> Inr (hm_remove i s))"

definition cron_list_jobs :: "cron_scheduler \<Rightarrow> cron_job list" where
  "cron_list_jobs s = hm_values s"

definition cron_job_count :: "cron_scheduler \<Rightarrow> nat" where
  "cron_job_count s = length s"

definition update_last_run :: "string \<Rightarrow> datetime \<Rightarrow> cron_scheduler \<Rightarrow> cron_scheduler" where
  "update_last_run i t s = hm_modify i (\<lambda>j. j\<lparr> cj_last_run := Some t \<rparr>) s"

definition due_jobs ::
  "(string \<Rightarrow> string + 'sched) \<Rightarrow> ('sched \<Rightarrow> datetime \<Rightarrow> datetime option) \<Rightarrow> datetime \<Rightarrow> datetime \<Rightarrow> cron_scheduler \<Rightarrow> string list" where
  "due_jobs parse after now since s =
     List.map_filter (\<lambda>j. case next_run_after parse after j since of
         None \<Rightarrow> None | Some t \<Rightarrow> if t \<le> now then Some (cj_id j) else None)
       (filter cj_enabled (hm_values s))"

section \<open>One job\<close>

record cron_spawn_request =
  csr_user :: string
  csr_agent_template :: string
  csr_goal :: string
  csr_timeout_sec :: u64

datatype spawn_handle = SpawnHandle (run_id: string)

datatype agent_exit_status = ExitSuccess | ExitFailure string

text \<open>
  \<open>to_string\<close> prints a JSON value other than a string; the arguments are substituted in the order the map
  is iterated.
\<close>

definition arg_text :: "(json \<Rightarrow> string) \<Rightarrow> json \<Rightarrow> string" where
  "arg_text to_string v = (case v of JStr s \<Rightarrow> s | _ \<Rightarrow> to_string v)"

definition render_goal :: "(json \<Rightarrow> string) \<Rightarrow> string \<Rightarrow> (string, json) hmap \<Rightarrow> string" where
  "render_goal to_string goal args =
     foldl (\<lambda>res (k, v). str_replace (''{'' @ k @ ''}'') (arg_text to_string v) res) goal args"

text \<open>What a job does to its surroundings, in order.\<close>

datatype cron_effect =
  ESpawn cron_spawn_request
| EStop spawn_handle
| EAlert string string
| ESleep u64

text \<open>
  The agents of a job, indexed by the attempt: the spawner's answer, and the exit status, which is \<open>None\<close>
  when the agent has not exited within the timeout.
\<close>

record cron_agents =
  ca_spawn :: "nat \<Rightarrow> cron_spawn_request \<Rightarrow> string + spawn_handle"
  ca_wait :: "nat \<Rightarrow> spawn_handle \<Rightarrow> agent_exit_status option"

definition execute_once :: "cron_agents \<Rightarrow> nat \<Rightarrow> crontab_job \<Rightarrow> cron_spawn_request \<Rightarrow> agent_exit_status \<times> cron_effect list" where
  "execute_once ag n job request =
     (case ca_spawn ag n request of
        Inl e \<Rightarrow> (ExitFailure (''spawn error: '' @ e), [ESpawn request])
      | Inr h \<Rightarrow>
          (case ca_wait ag n h of
             Some status \<Rightarrow> (status, [ESpawn request])
           | None \<Rightarrow> (ExitFailure (''timeout after '' @ show_word (ctj_timeout job) @ ''s''), [ESpawn request, EStop h])))"

definition cron_max_attempts :: "crontab_job \<Rightarrow> nat" where
  "cron_max_attempts job = (if ctj_on_failure job = Retry then unat (max (crp_max_attempts (ctj_retry_policy job)) 1) else 1)"

definition spawn_request_of :: "(json \<Rightarrow> string) \<Rightarrow> crontab_job \<Rightarrow> cron_spawn_request" where
  "spawn_request_of to_string job =
     \<lparr> csr_user = ctj_user job, csr_agent_template = ctj_agent_template job,
       csr_goal = render_goal to_string (ctj_goal job) (ctj_args job), csr_timeout_sec = ctj_timeout job \<rparr>"

text \<open>
  The retry loop, with the number of attempts made so far.  The counter is a \<^verbatim>\<open>u32\<close> in the code; it never
  passes \<^verbatim>\<open>max_attempts\<close>, itself a \<^verbatim>\<open>u32\<close>, so it does not wrap.
\<close>

function run_attempts :: "(json \<Rightarrow> string) \<Rightarrow> cron_agents \<Rightarrow> crontab_job \<Rightarrow> nat \<Rightarrow> cron_effect list" where
  "run_attempts to_string ag job attempt =
     (case execute_once ag attempt job (spawn_request_of to_string job) of
        (ExitSuccess, es) \<Rightarrow> es
      | (ExitFailure reason, es) \<Rightarrow>
          (case ctj_on_failure job of
             Ignore \<Rightarrow> es
           | Alert \<Rightarrow> es @ [EAlert (ctj_id job) reason]
           | Retry \<Rightarrow>
               if cron_max_attempts job \<le> attempt + 1 then
                 es @ [EAlert (ctj_id job)
                   (''exhausted '' @ show_nat (cron_max_attempts job) @ '' attempts; last error: '' @ reason)]
               else es @ [ESleep (crp_backoff_sec (ctj_retry_policy job))] @ run_attempts to_string ag job (attempt + 1)))"
  by pat_completeness auto
termination
  by (relation "measure (\<lambda>(_, _, job, n). cron_max_attempts job - n)") auto

declare run_attempts.simps [simp del]

definition run_job :: "(json \<Rightarrow> string) \<Rightarrow> cron_agents \<Rightarrow> crontab_job \<Rightarrow> cron_effect list" where
  "run_job to_string ag job = run_attempts to_string ag job 0"

section \<open>The runner\<close>

record cron_runner =
  crn_scheduler :: cron_scheduler
  crn_jobs :: "(string, crontab_job) hmap"
  crn_tick_interval_sec :: u64

fun register_jobs ::
  "(string \<Rightarrow> string + 'sched) \<Rightarrow> (nat \<Rightarrow> string) \<Rightarrow> nat \<Rightarrow> crontab_job list \<Rightarrow> cron_scheduler \<Rightarrow> (string, crontab_job) hmap \<Rightarrow>
   string + (cron_scheduler \<times> (string, crontab_job) hmap)" where
  "register_jobs parse uuid n [] s m = Inr (s, m)"
| "register_jobs parse uuid n (j # js) s m =
     (case cron_add_job parse (uuid n) (ctj_id j) (normalise_expression (ctj_schedule j)) Skip s of
        Inl e \<Rightarrow> Inl (''job '' @ quoted (ctj_id j) @ '': '' @ cron_error_display e)
      | Inr (_, s') \<Rightarrow> register_jobs parse uuid (n + 1) js s' (hm_insert (ctj_id j) j m))"

definition from_crontab ::
  "(string \<Rightarrow> string + 'sched) \<Rightarrow> (nat \<Rightarrow> string) \<Rightarrow> crontab_file \<Rightarrow> string + cron_runner" where
  "from_crontab parse uuid crontab =
     (case register_jobs parse uuid 0 (cts_jobs (ctf_spec crontab)) [] [] of
        Inl e \<Rightarrow> Inl e
      | Inr (s, m) \<Rightarrow> Inr \<lparr> crn_scheduler = s, crn_jobs = m, crn_tick_interval_sec = 30 \<rparr>)"

definition with_tick_interval :: "u64 \<Rightarrow> cron_runner \<Rightarrow> cron_runner" where
  "with_tick_interval secs r = r\<lparr> crn_tick_interval_sec := secs \<rparr>"

text \<open>One due identifier: the last run is recorded and the job, when it is found, is started as a task of its own.\<close>

definition dispatch_due :: "datetime \<Rightarrow> string \<Rightarrow> cron_runner \<Rightarrow> crontab_job list \<times> cron_runner" where
  "dispatch_due tick_time i r =
     ((case hm_get (crn_jobs r) i of Some j \<Rightarrow> [j] | None \<Rightarrow> []),
      r\<lparr> crn_scheduler := update_last_run i tick_time (crn_scheduler r) \<rparr>)"

fun dispatch_all :: "datetime \<Rightarrow> string list \<Rightarrow> cron_runner \<Rightarrow> crontab_job list \<times> cron_runner" where
  "dispatch_all t [] r = ([], r)"
| "dispatch_all t (i # is) r =
     (case dispatch_due t i r of (js, r1) \<Rightarrow> (case dispatch_all t is r1 of (js', r2) \<Rightarrow> (js @ js', r2)))"

text \<open>
  The loop over its ticks.  A tick reads the clock twice: \<open>tick_time\<close> after the sleep, and \<open>now\<close> inside
  \<^verbatim>\<open>due_jobs\<close>.  The result is, per tick, the identifiers listed as due and the jobs started.
\<close>

fun cron_run ::
  "(string \<Rightarrow> string + 'sched) \<Rightarrow> ('sched \<Rightarrow> datetime \<Rightarrow> datetime option) \<Rightarrow> datetime \<Rightarrow> (datetime \<times> datetime) list \<Rightarrow> cron_runner \<Rightarrow>
   (string list \<times> crontab_job list) list" where
  "cron_run parse after last_tick [] r = []"
| "cron_run parse after last_tick ((tick_time, now) # ticks) r =
     (let due = due_jobs parse after now last_tick (crn_scheduler r)
      in case dispatch_all tick_time due r of
           (started, r') \<Rightarrow> (due, started) # cron_run parse after tick_time ticks r')"

section \<open>The effects of a job\<close>

definition attempt_status :: "(json \<Rightarrow> string) \<Rightarrow> cron_agents \<Rightarrow> crontab_job \<Rightarrow> nat \<Rightarrow> agent_exit_status" where
  "attempt_status to_string ag job n = fst (execute_once ag n job (spawn_request_of to_string job))"

definition stopped_at :: "(json \<Rightarrow> string) \<Rightarrow> cron_agents \<Rightarrow> crontab_job \<Rightarrow> nat \<Rightarrow> spawn_handle option" where
  "stopped_at to_string ag job n =
     (case ca_spawn ag n (spawn_request_of to_string job) of
        Inl _ \<Rightarrow> None | Inr h \<Rightarrow> if ca_wait ag n h = None then Some h else None)"

text \<open>The statuses of the failed attempts before the first success, at most as many as the job may make.\<close>

definition failures_from :: "(json \<Rightarrow> string) \<Rightarrow> cron_agents \<Rightarrow> crontab_job \<Rightarrow> nat \<Rightarrow> agent_exit_status list" where
  "failures_from to_string ag job a =
     takeWhile (\<lambda>s. s \<noteq> ExitSuccess) (map (attempt_status to_string ag job) [a..<cron_max_attempts job])"

definition attempts_from :: "(json \<Rightarrow> string) \<Rightarrow> cron_agents \<Rightarrow> crontab_job \<Rightarrow> nat \<Rightarrow> nat" where
  "attempts_from to_string ag job a =
     min (cron_max_attempts job - a) (length (failures_from to_string ag job a) + 1)"

fun alert_text :: "crontab_job \<Rightarrow> agent_exit_status \<Rightarrow> string" where
  "alert_text job (ExitFailure reason) =
     (if ctj_on_failure job = Retry
      then ''exhausted '' @ show_nat (cron_max_attempts job) @ '' attempts; last error: '' @ reason else reason)"
| "alert_text job ExitSuccess = []"

definition spawns_of :: "cron_effect list \<Rightarrow> cron_spawn_request list" where
  "spawns_of es = List.map_filter (\<lambda>e. case e of ESpawn r \<Rightarrow> Some r | _ \<Rightarrow> None) es"

definition stops_of :: "cron_effect list \<Rightarrow> spawn_handle list" where
  "stops_of es = List.map_filter (\<lambda>e. case e of EStop h \<Rightarrow> Some h | _ \<Rightarrow> None) es"

definition alerts_of :: "cron_effect list \<Rightarrow> (string \<times> string) list" where
  "alerts_of es = List.map_filter (\<lambda>e. case e of EAlert i m \<Rightarrow> Some (i, m) | _ \<Rightarrow> None) es"

definition sleeps_of :: "cron_effect list \<Rightarrow> u64 list" where
  "sleeps_of es = List.map_filter (\<lambda>e. case e of ESleep n \<Rightarrow> Some n | _ \<Rightarrow> None) es"

lemmas effect_defs = spawns_of_def stops_of_def alerts_of_def sleeps_of_def

lemma effects_append:
  "spawns_of (xs @ ys) = spawns_of xs @ spawns_of ys" "stops_of (xs @ ys) = stops_of xs @ stops_of ys"
  "alerts_of (xs @ ys) = alerts_of xs @ alerts_of ys" "sleeps_of (xs @ ys) = sleeps_of xs @ sleeps_of ys"
  by (simp_all add: effect_defs map_filter_app)

lemma execute_once_effects:
  assumes "execute_once ag n job (spawn_request_of to_string job) = (st, es)"
  shows "st = attempt_status to_string ag job n" "spawns_of es = [spawn_request_of to_string job]"
    "stops_of es = List.map_filter (stopped_at to_string ag job) [n]" "alerts_of es = []" "sleeps_of es = []"
  using assms
  by (auto simp: attempt_status_def execute_once_def stopped_at_def effect_defs List.map_filter_simps
      split: sum.splits option.splits)

lemma cron_max_attempts_pos: "0 < cron_max_attempts job"
proof -
  have "(0 :: u32) < max x 1" for x :: u32 by (auto simp: max_def word_gt_0)
  then show ?thesis by (simp add: cron_max_attempts_def unat_gt_0 word_gt_0)
qed

lemma cron_max_attempts_once: "ctj_on_failure job \<noteq> Retry \<Longrightarrow> cron_max_attempts job = 1"
  by (simp add: cron_max_attempts_def)

lemma failures_step:
  assumes "a < cron_max_attempts job"
  shows "failures_from to_string ag job a =
     (if attempt_status to_string ag job a = ExitSuccess then []
      else attempt_status to_string ag job a # failures_from to_string ag job (a + 1))"
  using assms by (simp add: failures_from_def upt_conv_Cons)

lemma failures_end: "cron_max_attempts job \<le> a \<Longrightarrow> failures_from to_string ag job a = []"
  by (simp add: failures_from_def)

lemma failures_bound: "length (failures_from to_string ag job a) \<le> cron_max_attempts job - a"
  unfolding failures_from_def by (metis length_map length_takeWhile_le length_upt)

text \<open>One round of the loop that goes on, and one that ends it.\<close>

definition ends_at :: "(json \<Rightarrow> string) \<Rightarrow> cron_agents \<Rightarrow> crontab_job \<Rightarrow> nat \<Rightarrow> bool" where
  "ends_at to_string ag job a \<longleftrightarrow> attempt_status to_string ag job a = ExitSuccess \<or> cron_max_attempts job \<le> a + 1"

lemma run_attempts_cases:
  assumes "a < cron_max_attempts job"
  obtains (final) es where "ends_at to_string ag job a" "run_attempts to_string ag job a = es @
        (if attempt_status to_string ag job a = ExitSuccess \<or> ctj_on_failure job = Ignore then []
         else [EAlert (ctj_id job) (alert_text job (attempt_status to_string ag job a))])"
      "spawns_of es = [spawn_request_of to_string job]" "stops_of es = List.map_filter (stopped_at to_string ag job) [a]"
      "alerts_of es = []" "sleeps_of es = []"
  | (again) es where "\<not> ends_at to_string ag job a" "a + 1 < cron_max_attempts job"
      "run_attempts to_string ag job a =
         es @ [ESleep (crp_backoff_sec (ctj_retry_policy job))] @ run_attempts to_string ag job (a + 1)"
      "spawns_of es = [spawn_request_of to_string job]" "stops_of es = List.map_filter (stopped_at to_string ag job) [a]"
      "alerts_of es = []" "sleeps_of es = []"
proof -
  obtain st es where ex: "execute_once ag a job (spawn_request_of to_string job) = (st, es)" by fastforce
  note eff = execute_once_effects [OF ex]
  note step = run_attempts.simps [of to_string ag job a, unfolded ex]
  show thesis
  proof (cases "ends_at to_string ag job a")
    case True
    show thesis
      by (rule final [OF True _ eff(2-5)])
        (use True assms cron_max_attempts_once [of job] in
          \<open>cases st; auto simp: step eff(1) [symmetric] ends_at_def split: on_failure.split\<close>)
  next
    case False
    then obtain m where m: "st = ExitFailure m" "a + 1 < cron_max_attempts job"
      using eff(1) by (cases st) (fastforce simp: ends_at_def)+
    then have "ctj_on_failure job = Retry" using cron_max_attempts_once [of job] by fastforce
    then show thesis using m by (intro again [OF False m(2) _ eff(2-5)]) (simp add: step)
  qed
qed

lemma attempts_final: "a < cron_max_attempts job \<Longrightarrow> ends_at to_string ag job a \<Longrightarrow> attempts_from to_string ag job a = 1"
  by (auto simp: attempts_from_def ends_at_def failures_step failures_end)

lemma attempts_again:
  "a + 1 < cron_max_attempts job \<Longrightarrow> \<not> ends_at to_string ag job a \<Longrightarrow>
   attempts_from to_string ag job a = Suc (attempts_from to_string ag job (a + 1))"
  by (auto simp: attempts_from_def ends_at_def failures_step)

lemma attempts_pos: "a < cron_max_attempts job \<Longrightarrow> 0 < attempts_from to_string ag job a"
  by (simp add: attempts_from_def)

lemma spawns_from:
  "a < cron_max_attempts job \<Longrightarrow>
   spawns_of (run_attempts to_string ag job a) = replicate (attempts_from to_string ag job a) (spawn_request_of to_string job)"
proof (induction "cron_max_attempts job - a" arbitrary: a)
  case (Suc k)
  show ?case
    by (rule run_attempts_cases [OF Suc.prems, of to_string ag])
      (use Suc in \<open>simp_all add: effects_append attempts_final attempts_again,
         simp_all add: effect_defs List.map_filter_simps\<close>)
qed simp

lemma sleeps_from:
  "a < cron_max_attempts job \<Longrightarrow>
   sleeps_of (run_attempts to_string ag job a) =
     replicate (attempts_from to_string ag job a - 1) (crp_backoff_sec (ctj_retry_policy job))"
proof (induction "cron_max_attempts job - a" arbitrary: a)
  case (Suc k)
  show ?case
  proof (rule run_attempts_cases [OF Suc.prems, of to_string ag])
    fix es
    assume a: "\<not> ends_at to_string ag job a" "a + 1 < cron_max_attempts job" "sleeps_of es = []"
      "run_attempts to_string ag job a =
         es @ [ESleep (crp_backoff_sec (ctj_retry_policy job))] @ run_attempts to_string ag job (a + 1)"
    obtain m where "attempts_from to_string ag job (a + 1) = Suc m"
      using attempts_pos [OF a(2), of to_string ag] gr0_conv_Suc by auto
    with Suc a show ?case
      by (simp add: effects_append attempts_again) (simp add: effect_defs List.map_filter_simps)
  qed (use Suc in \<open>simp add: effects_append attempts_final, simp add: effect_defs List.map_filter_simps\<close>)
qed simp

lemma stops_from:
  "a < cron_max_attempts job \<Longrightarrow>
   stops_of (run_attempts to_string ag job a) =
     List.map_filter (stopped_at to_string ag job) [a..<a + attempts_from to_string ag job a]"
proof (induction "cron_max_attempts job - a" arbitrary: a)
  case (Suc k)
  show ?case
  proof (rule run_attempts_cases [OF Suc.prems, of to_string ag])
    fix es
    assume a: "\<not> ends_at to_string ag job a" "a + 1 < cron_max_attempts job"
      "stops_of es = List.map_filter (stopped_at to_string ag job) [a]"
      "run_attempts to_string ag job a =
         es @ [ESleep (crp_backoff_sec (ctj_retry_policy job))] @ run_attempts to_string ag job (a + 1)"
    have cons: "[a..<a + Suc m] = [a] @ [a + 1..<a + 1 + m]" for m by (simp add: upt_conv_Cons)
    have "stops_of (run_attempts to_string ag job a) =
        List.map_filter (stopped_at to_string ag job) ([a] @ [a + 1..<a + 1 + attempts_from to_string ag job (a + 1)])"
      using Suc(1) [of "a + 1"] Suc(2) a unfolding map_filter_app
      by (simp add: effects_append) (simp add: effect_defs List.map_filter_simps)
    then show ?case unfolding attempts_again [OF a(2,1)] cons .
  qed (use Suc in \<open>simp add: effects_append attempts_final, simp add: effect_defs List.map_filter_simps\<close>)
qed simp

lemma alerts_from:
  "a < cron_max_attempts job \<Longrightarrow>
   alerts_of (run_attempts to_string ag job a) =
     (if length (failures_from to_string ag job a) = cron_max_attempts job - a \<and> ctj_on_failure job \<noteq> Ignore
      then [(ctj_id job, alert_text job (List.last (failures_from to_string ag job a)))] else [])"
proof (induction "cron_max_attempts job - a" arbitrary: a)
  case (Suc k)
  show ?case
  proof (rule run_attempts_cases [OF Suc.prems, of to_string ag])
    fix es
    assume a: "\<not> ends_at to_string ag job a" "a + 1 < cron_max_attempts job" "alerts_of es = []"
      "run_attempts to_string ag job a =
         es @ [ESleep (crp_backoff_sec (ctj_retry_policy job))] @ run_attempts to_string ag job (a + 1)"
    have "failures_from to_string ag job (a + 1) \<noteq> []" if "length (failures_from to_string ag job (a + 1)) = cron_max_attempts job - (a + 1)"
      using that a(2) by auto
    moreover have "failures_from to_string ag job a = attempt_status to_string ag job a # failures_from to_string ag job (a + 1)"
      using failures_step [OF Suc.prems, of to_string ag] a(1) by (simp add: ends_at_def)
    moreover have "alerts_of (run_attempts to_string ag job a) = alerts_of (run_attempts to_string ag job (a + 1))"
      using a(3,4) by (simp add: effects_append) (simp add: effect_defs List.map_filter_simps)
    moreover have "cron_max_attempts job - a = Suc (cron_max_attempts job - (a + 1))" using a(2) by simp
    ultimately show ?case using Suc(1) [of "a + 1"] Suc(2) a(2) by auto
  next
    fix es
    assume a: "ends_at to_string ag job a" "alerts_of es = []" "run_attempts to_string ag job a = es @
        (if attempt_status to_string ag job a = ExitSuccess \<or> ctj_on_failure job = Ignore then []
         else [EAlert (ctj_id job) (alert_text job (attempt_status to_string ag job a))])"
    show ?case
    proof (cases "attempt_status to_string ag job a = ExitSuccess")
      case False
      with a(1) have "cron_max_attempts job = a + 1" using Suc.prems by (simp add: ends_at_def)
      with False a(2,3) show ?thesis
        by (simp add: effects_append failures_step failures_end) (simp add: effect_defs List.map_filter_simps)
    qed (use a Suc.prems in \<open>simp add: effects_append failures_step effect_defs List.map_filter_simps\<close>)
  qed
qed simp


section \<open>The ticks\<close>

text \<open>A job of the crontab is due in a window when the first run after its start is not after its end.\<close>

definition run_due ::
  "(string \<Rightarrow> string + 'sched) \<Rightarrow> ('sched \<Rightarrow> datetime \<Rightarrow> datetime option) \<Rightarrow> datetime \<times> datetime \<Rightarrow> string \<Rightarrow> bool" where
  "run_due parse after w expr =
     (case parse expr of Inl _ \<Rightarrow> False | Inr s \<Rightarrow> (case after s (fst w) of None \<Rightarrow> False | Some t \<Rightarrow> t \<le> snd w))"

definition tick_windows :: "datetime \<Rightarrow> (datetime \<times> datetime) list \<Rightarrow> (datetime \<times> datetime) list" where
  "tick_windows t0 ticks = zip (t0 # map fst ticks) (map snd ticks)"

text \<open>The scheduler of a runner: one enabled entry per job of the crontab, under the identifier drawn for it.\<close>

definition registered :: "(nat \<Rightarrow> string) \<Rightarrow> crontab_job list \<Rightarrow> cron_scheduler \<Rightarrow> bool" where
  "registered uuid js s \<longleftrightarrow> hm_wf s \<and> (\<forall>k j. hm_get s k = Some j \<longrightarrow> (\<exists>i<length js. k = uuid i)) \<and>
     (\<forall>i<length js. \<exists>j. hm_get s (uuid i) = Some j \<and> cj_id j = uuid i \<and> cj_enabled j \<and>
        cj_expression j = normalise_expression (ctj_schedule (js ! i)))"

lemma registered_iff:
  "registered uuid js s \<Longrightarrow> hm_get s k = Some j \<Longrightarrow>
   \<exists>i<length js. k = uuid i \<and> cj_id j = uuid i \<and> cj_enabled j \<and> cj_expression j = normalise_expression (ctj_schedule (js ! i))"
  unfolding registered_def by (metis option.inject)

lemma registered_get:
  "registered uuid js s \<Longrightarrow> i < length js \<Longrightarrow> \<exists>j. hm_get s (uuid i) = Some j \<and> cj_id j = uuid i \<and> cj_enabled j \<and>
     cj_expression j = normalise_expression (ctj_schedule (js ! i))"
  by (simp add: registered_def)

lemma registered_add:
  assumes "registered uuid js s" and "inj uuid"
    and "cron_add_job parse (uuid (length js)) n (normalise_expression (ctj_schedule x)) Skip s = Inr (i, s')"
  shows "registered uuid (js @ [x]) s'"
proof -
  have fresh: "uuid i \<noteq> uuid (length js)" if "i < length js" for i
    using assms(2) that by (metis injD less_irrefl)
  from assms(3) obtain j where s': "s' = hm_insert (uuid (length js)) j s" "cj_id j = uuid (length js)" "cj_enabled j"
    "cj_expression j = normalise_expression (ctj_schedule x)"
    by (auto simp: cron_add_job_def split: sum.splits)
  have dom: "\<exists>i<length (js @ [x]). k = uuid i" if "hm_get s' k = Some l" for k l
    using registered_iff [OF assms(1)] that s'(1) by (fastforce simp: less_Suc_eq split: if_splits)
  show ?thesis
    using assms(1) registered_get [OF assms(1)] fresh dom s'
    by (auto simp: registered_def nth_append less_Suc_eq)
qed

lemma registered_last_run: "registered uuid js s \<Longrightarrow> registered uuid js (update_last_run k t s)"
  unfolding registered_def update_last_run_def by (auto split: if_splits)

lemma register_jobs_registered:
  assumes "register_jobs parse uuid (length done) js s m = Inr (s', m')" and "registered uuid done s" and "inj uuid"
  shows "registered uuid (done @ js) s' \<and> (\<forall>k. hm_get m' k \<noteq> None \<longrightarrow> hm_get m k \<noteq> None \<or> k \<in> ctj_id ` set js)"
  using assms
proof (induction js arbitrary: "done" s m)
  case (Cons j js)
  from Cons.prems(1) obtain i s1 where s1:
    "cron_add_job parse (uuid (length done)) (ctj_id j) (normalise_expression (ctj_schedule j)) Skip s = Inr (i, s1)"
    "register_jobs parse uuid (length (done @ [j])) js s1 (hm_insert (ctj_id j) j m) = Inr (s', m')"
    by (auto split: sum.splits)
  from Cons.IH [OF s1(2) registered_add [OF Cons.prems(2,3) s1(1)] Cons.prems(3)] show ?case
    by (simp split: if_splits) fastforce
qed simp

lemma set_map_filter: "set (List.map_filter f xs) = {y. \<exists>x\<in>set xs. f x = Some y}"
  by (force simp: List.map_filter_def)

lemma due_entry:
  "(case next_run_after parse after j since of None \<Rightarrow> None | Some t \<Rightarrow> if t \<le> now then Some (cj_id j) else None) = Some k \<longleftrightarrow>
   cj_id j = k \<and> run_due parse after (since, now) (cj_expression j)"
  by (auto simp: run_due_def next_run_after_def split: sum.splits option.splits)

lemma due_jobs_registered:
  assumes reg: "registered uuid js s" and inj: "inj uuid"
  shows "set (due_jobs parse after now since s) =
     uuid ` {i. i < length js \<and> run_due parse after (since, now) (normalise_expression (ctj_schedule (js ! i)))}"
    (is "_ = uuid ` ?D")
proof -
  have wf: "hm_wf s" using reg by (simp add: registered_def)
  have due: "k \<in> set (due_jobs parse after now since s) \<longleftrightarrow>
      (\<exists>k' j. hm_get s k' = Some j \<and> cj_enabled j \<and> cj_id j = k \<and> run_due parse after (since, now) (cj_expression j))" for k
  proof -
    have "k \<in> set (due_jobs parse after now since s) \<longleftrightarrow>
        (\<exists>j\<in>set (hm_values s). cj_enabled j \<and> cj_id j = k \<and> run_due parse after (since, now) (cj_expression j))"
      unfolding due_jobs_def set_map_filter mem_Collect_eq due_entry by auto
    then show ?thesis using wf by (metis hm_values_iff)
  qed
  show ?thesis
  proof (intro set_eqI iffI)
    fix k assume "k \<in> set (due_jobs parse after now since s)"
    then obtain k' j where j: "hm_get s k' = Some j" "cj_id j = k" "run_due parse after (since, now) (cj_expression j)"
      by (auto simp: due)
    from registered_iff [OF reg j(1)] j(2,3) show "k \<in> uuid ` ?D" by auto
  next
    fix k assume "k \<in> uuid ` ?D"
    then show "k \<in> set (due_jobs parse after now since s)" using registered_get [OF reg] due by fastforce
  qed
qed

lemma dispatch_all_spec:
  "dispatch_all t is r = (List.map_filter (hm_get (crn_jobs r)) is,
     r\<lparr> crn_scheduler := foldl (\<lambda>s i. update_last_run i t s) (crn_scheduler r) is \<rparr>)"
  by (induction "is" arbitrary: r) (auto simp: dispatch_due_def List.map_filter_simps split: option.splits)

lemma registered_last_runs: "registered uuid js s \<Longrightarrow> registered uuid js (foldl (\<lambda>s i. update_last_run i t s) s is)"
  by (induction "is" arbitrary: s) (auto intro: registered_last_run)

lemma cron_run_registered:
  assumes "registered uuid js (crn_scheduler r)" and "inj uuid" and "\<And>i. hm_get (crn_jobs r) (uuid i) = None"
  shows "map (\<lambda>(due, started). (set due, started)) (cron_run parse after t0 ticks r) =
     map (\<lambda>w. (uuid ` {i. i < length js \<and> run_due parse after w (normalise_expression (ctj_schedule (js ! i)))}, []))
       (tick_windows t0 ticks)"
  using assms
proof (induction ticks arbitrary: t0 r)
  case (Cons tn ticks)
  obtain t n where tn: "tn = (t, n)" by (cases tn)
  define due where "due = due_jobs parse after n t0 (crn_scheduler r)"
  note set_due = due_jobs_registered [OF Cons.prems(1,2), of parse after n t0, folded due_def]
  have none: "List.map_filter (hm_get (crn_jobs r)) due = []"
    using set_due Cons.prems(3) by (auto simp: List.map_filter_def filter_empty_conv)
  show ?case
    using Cons.IH [of "r\<lparr> crn_scheduler := foldl (\<lambda>s i. update_last_run i t s) (crn_scheduler r) due \<rparr>" t]
      Cons.prems registered_last_runs [OF Cons.prems(1)] set_due none
    by (simp add: tn dispatch_all_spec due_def [symmetric] tick_windows_def)
qed (simp add: tick_windows_def)

text \<open>
  C31. The runner lists the due jobs and starts none of them.  At every tick of a runner built from a crontab, the
  identifiers listed as due are exactly those drawn for the jobs with a run in the window of the tick (after the previous tick,
  up to now), and no job is started: the runner looks the drawn identifier up in a table keyed by the
  identifiers of the crontab, from which the drawn ones, random, differ.
\<close>

theorem due_jobs_never_started:
  assumes "from_crontab parse uuid crontab = Inr r" and "inj uuid"
    and "\<forall>i. uuid i \<notin> ctj_id ` set (cts_jobs (ctf_spec crontab))"
  shows "map (\<lambda>(due, started). (set due, started)) (cron_run parse after t0 ticks r) =
     map (\<lambda>w. (uuid ` {i. i < length (cts_jobs (ctf_spec crontab)) \<and>
            run_due parse after w (normalise_expression (ctj_schedule (cts_jobs (ctf_spec crontab) ! i)))}, []))
       (tick_windows t0 ticks)"
proof -
  let ?js = "cts_jobs (ctf_spec crontab)"
  from assms(1) obtain s m where sm: "register_jobs parse uuid (length ([] :: crontab_job list)) ?js [] [] = Inr (s, m)"
    and r: "r = \<lparr> crn_scheduler = s, crn_jobs = m, crn_tick_interval_sec = 30 \<rparr>"
    by (auto simp: from_crontab_def split: sum.splits)
  have "registered uuid [] []" by (simp add: registered_def)
  from register_jobs_registered [of parse uuid "[]", OF sm this assms(2)] assms(3)
  have "registered uuid ?js s" "\<And>i. hm_get m (uuid i) = None" by (auto, metis not_None_eq)
  with assms(2) show ?thesis by (intro cron_run_registered) (simp_all add: r)
qed

definition demo_cron_job :: crontab_job where
  "demo_cron_job = \<lparr> ctj_id = ''hourly'', ctj_schedule = ''0 * * * *'', ctj_user = ''svc'', ctj_agent_template = ''ingest'',
     ctj_goal = ''keep {days} days'', ctj_args = [(''days'', JStr ''7'')], ctj_timeout = 60, ctj_on_failure = Retry,
     ctj_retry_policy = \<lparr> crp_max_attempts = 2, crp_backoff_sec = 5 \<rparr>, ctj_timezone = None \<rparr>"

definition demo_crontab :: crontab_file where
  "demo_crontab = (crontab_file_empty 0)\<lparr> ctf_spec := \<lparr> cts_timezone = ''UTC'', cts_jobs = [demo_cron_job] \<rparr> \<rparr>"

text \<open>With a schedule that fires every ten units of time and ticks of thirty, every tick lists the job; none starts it.\<close>

theorem due_jobs_never_started_witness:
  "\<exists>r. from_crontab (\<lambda>_. Inr ()) show_nat demo_crontab = Inr r \<and>
     map (\<lambda>(due, started). (set due, started)) (cron_run (\<lambda>_. Inr ()) (\<lambda>_ t. Some (10 * (t div 10) + 10)) 0 [(30, 31), (60, 61)] r) =
       [({show_nat 0}, []), ({show_nat 0}, [])]"
proof -
  obtain r where r: "from_crontab (\<lambda>_. Inr ()) show_nat demo_crontab = Inr r"
    by (simp add: from_crontab_def demo_crontab_def demo_cron_job_def cron_add_job_def)
  have inj: "inj show_nat" by (auto simp: inj_def dest: show_nat_inj)
  have "CHR ''h'' \<notin> set (show_nat i)" for i using show_nat_no_char [of "CHR ''h''" i] by auto
  then have "show_nat i \<noteq> ''hourly''" for i by (metis list.set_intros(1))
  then have fresh: "\<forall>i. show_nat i \<notin> ctj_id ` set (cts_jobs (ctf_spec demo_crontab))"
    by (simp add: demo_crontab_def demo_cron_job_def)
  have due: "run_due (\<lambda>_. Inr ()) (\<lambda>_ t. Some (10 * (t div 10) + 10)) w expr \<longleftrightarrow> 10 * (fst w div 10) + 10 \<le> snd w" for w expr
    by (simp add: run_due_def)
  have one: "{i. i < length (cts_jobs (ctf_spec demo_crontab)) \<and> P} = (if P then {0} else {})" for P
    by (auto simp: demo_crontab_def)
  have "map (\<lambda>(due, started). (set due, started))
        (cron_run (\<lambda>_. Inr ()) (\<lambda>_ t. Some (10 * (t div 10) + 10)) 0 [(30, 31), (60, 61)] r) =
      [({show_nat 0}, []), ({show_nat 0}, [])]"
    unfolding due_jobs_never_started [OF r inj fresh] due one by (simp add: tick_windows_def)
  then show ?thesis using r by (intro exI [of _ r] conjI)
qed

text \<open>
  What the \<^verbatim>\<open>cron\<close> crate documents of \<^verbatim>\<open>Schedule::after\<close>: the first run strictly after the instant, or none when there
  is no later run.
\<close>

definition first_after :: "('sched \<Rightarrow> datetime \<Rightarrow> datetime option) \<Rightarrow> ('sched \<Rightarrow> datetime set) \<Rightarrow> bool" where
  "first_after after runs \<longleftrightarrow>
     (\<forall>s t. case after s t of
        None \<Rightarrow> \<forall>u\<in>runs s. u \<le> t
      | Some u \<Rightarrow> u \<in> runs s \<and> t < u \<and> (\<forall>v\<in>runs s. t < v \<longrightarrow> u \<le> v))"

lemma run_due_iff:
  assumes "first_after after runs" and "parse expr = Inr s"
  shows "run_due parse after w expr \<longleftrightarrow> (\<exists>u\<in>runs s. fst w < u \<and> u \<le> snd w)"
proof (cases "after s (fst w)")
  case None
  with assms have "\<forall>u\<in>runs s. u \<le> fst w"
    unfolding first_after_def by (metis (mono_tags, lifting) option.simps(4))
  with None assms(2) show ?thesis by (auto simp: run_due_def)
next
  case (Some u)
  with assms have "u \<in> runs s \<and> fst w < u \<and> (\<forall>v\<in>runs s. fst w < v \<longrightarrow> u \<le> v)"
    unfolding first_after_def by (metis (mono_tags, lifting) option.simps(5))
  with Some assms(2) show ?thesis by (auto simp: run_due_def)
qed

lemma window_covers:
  "\<forall>(t, n)\<in>set ticks. t \<le> n \<Longrightarrow> ticks \<noteq> [] \<Longrightarrow> t0 < u \<Longrightarrow> u \<le> fst (List.last ticks) \<Longrightarrow>
   \<exists>w\<in>set (tick_windows t0 ticks). fst w < u \<and> u \<le> snd w"
proof (induction ticks arbitrary: t0)
  case (Cons tn ticks)
  obtain t n where tn: "tn = (t, n)" by (cases tn)
  have split: "set (tick_windows t0 (tn # ticks)) = insert (t0, n) (set (tick_windows t ticks))"
    by (simp add: tick_windows_def tn)
  show ?case
  proof (cases "u \<le> t")
    case True
    with Cons.prems tn have "t0 < u \<and> u \<le> n" by auto
    then show ?thesis unfolding split by simp
  next
    case False
    with Cons.prems tn have "ticks \<noteq> []" by auto
    with Cons.IH [of t] Cons.prems False tn show ?thesis unfolding split by auto
  qed
qed simp

text \<open>No run of a schedule between the start and the last tick is missed by the list of due jobs.\<close>

lemma no_run_missed:
  assumes "first_after after runs" and "parse expr = Inr s" and "u \<in> runs s"
    and "\<forall>(t, n)\<in>set ticks. t \<le> n" and "ticks \<noteq> []" and "t0 < u" and "u \<le> fst (List.last ticks)"
  shows "\<exists>w\<in>set (tick_windows t0 ticks). run_due parse after w expr"
  using window_covers [OF assms(4-7)] run_due_iff [of after runs parse expr s, OF assms(1,2)] assms(3) by blast

text \<open>
  A run between the two readings of the clock of one tick is listed by that tick and by the next: the
  window of the next starts at the first reading and the window of this one ends at the second.
\<close>

lemma run_listed_twice:
  assumes "first_after after runs" and "parse expr = Inr s" and "u \<in> runs s"
    and "t0 < t1" and "t1 < u" and "u \<le> n1" and "n1 \<le> n2"
  shows "\<forall>w\<in>set (tick_windows t0 [(t1, n1), (t2, n2)]). run_due parse after w expr"
  using assms(3-7) unfolding run_due_iff [of after runs parse expr s, OF assms(1,2)] tick_windows_def
  by (auto intro!: bexI [of _ u])

section \<open>Goals\<close>

text \<open>
  The order in which the arguments are substituted, which a \<^verbatim>\<open>HashMap\<close> leaves open, decides the goal when a
  value contains the placeholder of another argument.
\<close>

lemma render_goal_order:
  "render_goal to_string ''{a}'' [(''a'', JStr ''{b}''), (''b'', JStr ''x'')] = ''x''"
  "render_goal to_string ''{a}'' [(''b'', JStr ''x''), (''a'', JStr ''{b}'')] = ''{b}''"
  by (simp_all add: render_goal_def arg_text_def str_replace.simps)

lemma render_goal_absent:
  "\<forall>(k, v)\<in>set args. \<not> contains_str goal (''{'' @ k @ ''}'') \<Longrightarrow> render_goal to_string goal args = goal"
proof (induction args)
  case (Cons kv args)
  then show ?case by (cases kv) (simp add: render_goal_def str_replace_absent)
qed (simp add: render_goal_def)

section \<open>Loading\<close>

lemma validate_jobs_ok:
  "validate_jobs parse seen js = Inr () \<longleftrightarrow>
     distinct (map ctj_id js) \<and> set (map ctj_id js) \<inter> set seen = {} \<and>
     (\<forall>j\<in>set js. \<exists>s. parse (normalise_expression (ctj_schedule j)) = Inr s)"
  by (induction parse seen js rule: validate_jobs.induct) (auto simp: validate_schedule_def split: sum.splits)

lemma register_jobs_ok:
  "\<forall>j\<in>set js. \<exists>s. parse (normalise_expression (ctj_schedule j)) = Inr s \<Longrightarrow>
   \<exists>s' m'. register_jobs parse uuid n js s m = Inr (s', m')"
proof (induction js arbitrary: n s m)
  case (Cons j js)
  then obtain sc where "parse (normalise_expression (ctj_schedule j)) = Inr sc" by auto
  with Cons show ?case by (simp add: cron_add_job_def)
qed simp

text \<open>A crontab that the loader accepts always gives a runner.\<close>

lemma validated_crontab_runs:
  assumes "crontab_validate parse file = Inr ()"
  shows "\<exists>r. from_crontab parse uuid file = Inr r"
proof -
  from assms have "\<forall>j\<in>set (cts_jobs (ctf_spec file)). \<exists>s. parse (normalise_expression (ctj_schedule j)) = Inr s"
    by (simp add: crontab_validate_def validate_jobs_ok)
  from register_jobs_ok [OF this, of uuid 0 "[]" "[]"] show ?thesis by (auto simp: from_crontab_def)
qed

end
