(* ===== verification/Memory_Svc.thy ===== *)
theory Memory_Svc
  imports Executor_State Llm_Adapter
begin

text \<open>
  The memory service, \<^verbatim>\<open>memory_svc/\<close>: records, preferences and grants with their paths
  (\<^verbatim>\<open>schema.rs\<close>, \<^verbatim>\<open>vfs_layout.rs\<close>), the store on the virtual file system (\<^verbatim>\<open>store.rs\<close>), the
  full-text ranking and the vector index (\<^verbatim>\<open>search.rs\<close>, \<^verbatim>\<open>index.rs\<close>), the service with its tools
  (\<^verbatim>\<open>service.rs\<close>, \<^verbatim>\<open>tools/\<close>), sharing (\<^verbatim>\<open>sharing.rs\<close>) and garbage collection (\<^verbatim>\<open>gc.rs\<close>).

  The state of the service is the router of the virtual file system with the disk behind it.  Every path the service
  reads is below \<^verbatim>\<open>/users\<close>, \<^verbatim>\<open>/proc\<close> or \<^verbatim>\<open>/crews\<close>, where a read leaves the router as it is
  (\<open>lazy_populate_elsewhere\<close>), so reads return their result alone.  The YAML codecs, the printing of
  instants, the Unicode tables behind \<^verbatim>\<open>is_alphanumeric\<close> and \<^verbatim>\<open>to_lowercase\<close> and the floating-point operations
  are parameters.  A handler that panics has the value \<open>None\<close>.
\<close>

section \<open>Records, preferences and grants\<close>

datatype memory_record_type = Episodic | Semantic
datatype memory_outcome = OutcomeSuccess | OutcomePartial | OutcomeFailure
datatype memory_confidence = ConfHigh | ConfMedium | ConfLow
datatype memory_grant_scope = ScopeSession | ScopePermanent

fun record_type_str :: "memory_record_type \<Rightarrow> string" where
  "record_type_str Episodic = ''episodic''"
| "record_type_str Semantic = ''semantic''"

fun confidence_str :: "memory_confidence \<Rightarrow> string" where
  "confidence_str ConfHigh = ''high''"
| "confidence_str ConfMedium = ''medium''"
| "confidence_str ConfLow = ''low''"

definition outcome_of_str :: "string \<Rightarrow> memory_outcome option" where
  "outcome_of_str s =
     (if s = ''success'' then Some OutcomeSuccess else if s = ''partial'' then Some OutcomePartial
      else if s = ''failure'' then Some OutcomeFailure else None)"

definition confidence_of_str :: "string \<Rightarrow> memory_confidence option" where
  "confidence_of_str s =
     (if s = ''high'' then Some ConfHigh else if s = ''medium'' then Some ConfMedium
      else if s = ''low'' then Some ConfLow else None)"

record memory_record_index =
  mri_vector_model :: "string option"
  mri_vector_updated_at :: "datetime option"
  mri_fulltext_updated_at :: "datetime option"

definition memory_record_index_default :: memory_record_index where
  "memory_record_index_default =
     \<lparr> mri_vector_model = None, mri_vector_updated_at = None, mri_fulltext_updated_at = None \<rparr>"

record memory_record_metadata =
  mrm_id :: string
  mrm_record_type :: memory_record_type
  mrm_agent_name :: string
  mrm_agent_pid :: u64
  mrm_owner :: string
  mrm_created_at :: datetime
  mrm_updated_at :: datetime
  mrm_session_id :: string
  mrm_tags :: "string list"
  mrm_pinned :: bool

record memory_record_spec =
  mrs_content :: string
  mrs_outcome :: "memory_outcome option"
  mrs_related_goal :: "string option"
  mrs_tools_used :: "string list"
  mrs_key :: "string option"
  mrs_confidence :: "memory_confidence option"
  mrs_ttl_days :: "u32 option"
  mrs_index :: memory_record_index

record memory_record =
  mr_api_version :: string
  mr_kind :: string
  mr_metadata :: memory_record_metadata
  mr_spec :: memory_record_spec

definition memory_record_new :: "memory_record_metadata \<Rightarrow> memory_record_spec \<Rightarrow> memory_record" where
  "memory_record_new m s = \<lparr> mr_api_version = ''avix/v1'', mr_kind = ''MemoryRecord'', mr_metadata = m, mr_spec = s \<rparr>"

definition memory_dir :: "string \<Rightarrow> string \<Rightarrow> string \<Rightarrow> string" where
  "memory_dir owner agent sub = ''/users/'' @ owner @ ''/memory/'' @ agent @ ''/'' @ sub"

definition vfs_path_episodic :: "(datetime \<Rightarrow> string) \<Rightarrow> string \<Rightarrow> string \<Rightarrow> datetime \<Rightarrow> string \<Rightarrow> string" where
  "vfs_path_episodic stamp owner agent created i =
     memory_dir owner agent ''episodic'' @ ''/'' @ stamp created @ ''-'' @ i @ ''.yaml''"

definition vfs_path_semantic :: "string \<Rightarrow> string \<Rightarrow> string \<Rightarrow> string" where
  "vfs_path_semantic owner agent key = memory_dir owner agent ''semantic'' @ ''/'' @ key @ ''.yaml''"

text \<open>\<open>uuid\<close> is the simple (hexadecimal) form of a random identifier.\<close>

definition new_memory_id :: "string \<Rightarrow> string" where
  "new_memory_id uuid = ''mem-'' @ take 8 uuid"

record user_preference_structured =
  ups_output_format :: "string option"
  ups_preferred_length :: "string option"
  ups_cite_sources :: "string option"
  ups_tone_preference :: "string option"
  ups_timezone :: "string option"
  ups_primary_language :: "string option"
  ups_expertise_areas :: "string list"
  ups_proactive_updates :: "bool option"

definition ups_default :: user_preference_structured where
  "ups_default =
     \<lparr> ups_output_format = None, ups_preferred_length = None, ups_cite_sources = None, ups_tone_preference = None,
       ups_timezone = None, ups_primary_language = None, ups_expertise_areas = [], ups_proactive_updates = None \<rparr>"

record preference_correction =
  pco_at :: datetime
  pco_context :: string
  pco_correction :: string

record user_preference_metadata =
  upm_agent_name :: string
  upm_owner :: string
  upm_updated_at :: datetime

record user_preference_spec =
  upp_summary :: string
  upp_structured :: user_preference_structured
  upp_corrections :: "preference_correction list"

record user_preference_model =
  upo_api_version :: string
  upo_kind :: string
  upo_metadata :: user_preference_metadata
  upo_spec :: user_preference_spec

definition user_preference_model_new :: "user_preference_metadata \<Rightarrow> user_preference_spec \<Rightarrow> user_preference_model" where
  "user_preference_model_new m s =
     \<lparr> upo_api_version = ''avix/v1'', upo_kind = ''UserPreferenceModel'', upo_metadata = m, upo_spec = s \<rparr>"

definition preference_path :: "string \<Rightarrow> string \<Rightarrow> string" where
  "preference_path owner agent = memory_dir owner agent ''preferences'' @ ''/user-model.yaml''"

record memory_grant_party =
  mgp_agent_name :: string
  mgp_owner :: string

record memory_grant_metadata =
  mgm_id :: string
  mgm_granted_at :: datetime
  mgm_granted_by :: string
  mgm_hil_id :: string

record memory_grant_spec =
  mgs_grantor :: memory_grant_party
  mgs_grantee :: memory_grant_party
  mgs_records :: "string list"
  mgs_scope :: memory_grant_scope
  mgs_session_id :: string
  mgs_expires_at :: "datetime option"

record memory_grant =
  mg_api_version :: string
  mg_kind :: string
  mg_metadata :: memory_grant_metadata
  mg_spec :: memory_grant_spec

definition memory_grant_new :: "memory_grant_metadata \<Rightarrow> memory_grant_spec \<Rightarrow> memory_grant" where
  "memory_grant_new m s = \<lparr> mg_api_version = ''avix/v1'', mg_kind = ''MemoryGrant'', mg_metadata = m, mg_spec = s \<rparr>"

definition permanent_grant_path :: "string \<Rightarrow> string \<Rightarrow> string \<Rightarrow> string" where
  "permanent_grant_path owner agent i = memory_dir owner agent ''grants'' @ ''/'' @ i @ ''.yaml''"

section \<open>The layout\<close>

definition memory_svc_status_path :: string where
  "memory_svc_status_path = ''/proc/services/memory/status.yaml''"

definition memory_agent_stats_path :: "string \<Rightarrow> string" where
  "memory_agent_stats_path agent = ''/proc/services/memory/agents/'' @ agent @ ''/stats.yaml''"

definition session_grant_dir :: "string \<Rightarrow> string" where
  "session_grant_dir agent = ''/proc/services/memory/agents/'' @ agent @ ''/grants''"

definition memory_agent_grants_path :: "string \<Rightarrow> string \<Rightarrow> string" where
  "memory_agent_grants_path agent i = ''/proc/services/memory/agents/'' @ agent @ ''/grants/'' @ i @ ''.yaml''"

record memory_svc_status =
  mss_healthy :: bool
  mss_total_episodic_records :: u64
  mss_total_semantic_records :: u64
  mss_active_session_grants :: u32
  mss_updated_at :: datetime

record memory_agent_stats =
  mas_agent_name :: string
  mas_episodic_record_count :: u32
  mas_semantic_record_count :: u32
  mas_last_write_at :: "datetime option"
  mas_last_retrieval_at :: "datetime option"

text \<open>The parameters of the service and its state.\<close>

type_synonym 'd mem_vfs = "vfs_router \<times> 'd"

record 'd memory_env =
  my_os :: "'d disk_ops"
  my_tools_yaml :: "string list \<Rightarrow> string"
  my_record :: "memory_record codec"
  my_pref :: "user_preference_model codec"
  my_grant :: "memory_grant codec"
  my_status :: "memory_svc_status \<Rightarrow> string + string"
  my_stamp :: "datetime \<Rightarrow> string"
  my_time :: "datetime \<Rightarrow> json"
  my_day :: "datetime \<Rightarrow> string"

definition mvfs_read :: "'d memory_env \<Rightarrow> vfs_path \<Rightarrow> 'd mem_vfs \<Rightarrow> bytes avix_result" where
  "mvfs_read env p st = fst (vfs_read (my_tools_yaml env) (my_os env) p (fst st) (snd st))"

definition mvfs_write :: "'d memory_env \<Rightarrow> vfs_path \<Rightarrow> bytes \<Rightarrow> 'd mem_vfs \<Rightarrow> unit avix_result \<times> 'd mem_vfs" where
  "mvfs_write env p c st = vfs_write (my_os env) p c (fst st) (snd st)"

definition mvfs_delete :: "'d memory_env \<Rightarrow> vfs_path \<Rightarrow> 'd mem_vfs \<Rightarrow> unit avix_result \<times> 'd mem_vfs" where
  "mvfs_delete env p st = vfs_delete (my_os env) p (fst st) (snd st)"

definition mvfs_names :: "'d memory_env \<Rightarrow> vfs_path \<Rightarrow> 'd mem_vfs \<Rightarrow> string list" where
  "mvfs_names env p st = (case vfs_list (my_os env) p (fst st) (snd st) of Inl _ \<Rightarrow> [] | Inr ns \<Rightarrow> ns)"

definition parse_path :: "string \<Rightarrow> vfs_path avix_result" where
  "parse_path s = (case vfs_path_parse s of Inl e \<Rightarrow> Inl (ConfigParse (error_display e)) | Inr p \<Rightarrow> Inr p)"

fun ensure_dirs :: "'d memory_env \<Rightarrow> string list \<Rightarrow> 'd mem_vfs \<Rightarrow> unit avix_result \<times> 'd mem_vfs" where
  "ensure_dirs env [] st = (Inr (), st)"
| "ensure_dirs env (x # xs) st =
     (case parse_path x of
        Inl e \<Rightarrow> (Inl e, st)
      | Inr p \<Rightarrow>
          (case ensure_dir (my_os env) p (fst st) (snd st) of
             (Inl e, st') \<Rightarrow> (Inl e, st')
           | (Inr _, st') \<Rightarrow> ensure_dirs env xs st'))"

definition init_user_memory_tree :: "'d memory_env \<Rightarrow> string \<Rightarrow> string \<Rightarrow> 'd mem_vfs \<Rightarrow> unit avix_result \<times> 'd mem_vfs" where
  "init_user_memory_tree env owner agent st =
     ensure_dirs env (map (memory_dir owner agent)
       [''episodic'', ''semantic'', ''preferences'', ''grants'', ''episodic/index'', ''semantic/index'']) st"

definition init_crew_memory_tree :: "'d memory_env \<Rightarrow> string \<Rightarrow> 'd mem_vfs \<Rightarrow> unit avix_result \<times> 'd mem_vfs" where
  "init_crew_memory_tree env crew st =
     ensure_dirs env (map (\<lambda>s. ''/crews/'' @ crew @ ''/memory/shared/'' @ s)
       [''episodic'', ''semantic'', ''episodic/index'', ''semantic/index'']) st"

section \<open>The store\<close>

definition write_encoded :: "'d memory_env \<Rightarrow> 'r codec \<Rightarrow> string \<Rightarrow> 'r \<Rightarrow> 'd mem_vfs \<Rightarrow> unit avix_result \<times> 'd mem_vfs" where
  "write_encoded env c path r st =
     (case enc c r of
        Inl e \<Rightarrow> (Inl (ConfigParse e), st)
      | Inr yaml \<Rightarrow>
          (case parse_path path of Inl e \<Rightarrow> (Inl e, st) | Inr p \<Rightarrow> mvfs_write env p (bytes_of_string yaml) st))"

text \<open>The error of \<^verbatim>\<open>String::from_utf8\<close> is \<open>utf8_error\<close>, its text is not used.\<close>

definition utf8_error :: string where
  "utf8_error = ''invalid utf-8''"

definition read_encoded :: "'d memory_env \<Rightarrow> 'r codec \<Rightarrow> string \<Rightarrow> string \<Rightarrow> 'd mem_vfs \<Rightarrow> 'r avix_result" where
  "read_encoded env c what path st =
     (case parse_path path of
        Inl e \<Rightarrow> Inl e
      | Inr p \<Rightarrow>
          (case mvfs_read env p st of
             Inl _ \<Rightarrow> Inl (NotFound (what @ '' not found: '' @ path))
           | Inr bs \<Rightarrow>
               if utf8_valid bs then
                 (case dec c (string_of_bytes bs) of Inl e \<Rightarrow> Inl (ConfigParse e) | Inr r \<Rightarrow> Inr r)
               else Inl (ConfigParse utf8_error)))"

definition write_record :: "'d memory_env \<Rightarrow> string \<Rightarrow> memory_record \<Rightarrow> 'd mem_vfs \<Rightarrow> unit avix_result \<times> 'd mem_vfs" where
  "write_record env path r st = write_encoded env (my_record env) path r st"

definition read_record :: "'d memory_env \<Rightarrow> string \<Rightarrow> 'd mem_vfs \<Rightarrow> memory_record avix_result" where
  "read_record env path st = read_encoded env (my_record env) ''memory record'' path st"

definition delete_record :: "'d memory_env \<Rightarrow> string \<Rightarrow> 'd mem_vfs \<Rightarrow> unit avix_result \<times> 'd mem_vfs" where
  "delete_record env path st = (case parse_path path of Inl e \<Rightarrow> (Inl e, st) | Inr p \<Rightarrow> mvfs_delete env p st)"

definition yaml_names :: "'d memory_env \<Rightarrow> vfs_path \<Rightarrow> 'd mem_vfs \<Rightarrow> string list" where
  "yaml_names env p st = filter (\<lambda>n. ends_with n ''.yaml'' \<and> n \<noteq> ''.keep'') (mvfs_names env p st)"

definition list_records :: "'d memory_env \<Rightarrow> string \<Rightarrow> 'd mem_vfs \<Rightarrow> memory_record list avix_result" where
  "list_records env dir st =
     (case parse_path dir of
        Inl e \<Rightarrow> Inl e
      | Inr p \<Rightarrow>
          Inr (List.map_filter (\<lambda>n. case read_record env (trim_end_char (CHR ''/'') dir @ ''/'' @ n) st of
                   Inl _ \<Rightarrow> None | Inr r \<Rightarrow> Some r) (yaml_names env p st)))"

definition read_preference_model :: "'d memory_env \<Rightarrow> string \<Rightarrow> 'd mem_vfs \<Rightarrow> user_preference_model avix_result" where
  "read_preference_model env path st = read_encoded env (my_pref env) ''preference model'' path st"

definition write_preference_model ::
  "'d memory_env \<Rightarrow> string \<Rightarrow> user_preference_model \<Rightarrow> 'd mem_vfs \<Rightarrow> unit avix_result \<times> 'd mem_vfs" where
  "write_preference_model env path m st = write_encoded env (my_pref env) path m st"

section \<open>Ranking\<close>

definition stop_words :: "string list" where
  "stop_words =
     [''a'', ''an'', ''the'', ''is'', ''in'', ''on'', ''at'', ''of'', ''to'', ''and'', ''or'', ''but'', ''it'', ''its'', ''be'',
      ''was'', ''were'', ''are'', ''this'', ''that'', ''with'', ''for'', ''as'', ''by'', ''from'', ''have'', ''has'', ''had'',
      ''not'', ''do'', ''did'', ''so'', ''if'', ''up'', ''out'', ''no'', ''we'', ''he'', ''she'', ''they'', ''i'', ''my'', ''me'',
      ''you'', ''your'', ''our'', ''their'']"

text \<open>
  The text tables and the floating-point operations.  Scores are elements of a linear order: the scores are sums of
  finite values, never \<^verbatim>\<open>NaN\<close>, so \<^verbatim>\<open>partial_cmp\<close> is the order.
\<close>

record 'f search_ops =
  so_alnum :: "string \<Rightarrow> bool"
  so_lower :: "string \<Rightarrow> string"
  so_trim :: "string \<Rightarrow> string"
  so_num :: "nat \<Rightarrow> 'f"
  so_dec :: "nat \<Rightarrow> nat \<Rightarrow> 'f"
  so_add :: "'f \<Rightarrow> 'f \<Rightarrow> 'f"
  so_sub :: "'f \<Rightarrow> 'f \<Rightarrow> 'f"
  so_mul :: "'f \<Rightarrow> 'f \<Rightarrow> 'f"
  so_div :: "'f \<Rightarrow> 'f \<Rightarrow> 'f"
  so_ln :: "'f \<Rightarrow> 'f"

function utf8_chars :: "string \<Rightarrow> string list" where
  "utf8_chars s =
     (if s = [] then []
      else (let n = max 1 (utf8_head (bytes_of_string s)) in take n s # utf8_chars (drop n s)))"
  by pat_completeness auto
termination
  by (relation "measure length") (auto simp: Let_def)

declare utf8_chars.simps [simp del]

fun split_words :: "(string \<Rightarrow> bool) \<Rightarrow> string \<Rightarrow> string list \<Rightarrow> string list" where
  "split_words keep acc [] = [acc]"
| "split_words keep acc (c # cs) = (if keep c then split_words keep (acc @ c) cs else acc # split_words keep [] cs)"

definition tokenize :: "'f search_ops \<Rightarrow> string \<Rightarrow> string list" where
  "tokenize so s =
     filter (\<lambda>t. t \<noteq> [] \<and> t \<notin> set stop_words) (map (so_lower so) (split_words (so_alnum so) [] (utf8_chars s)))"

definition bm25_idf :: "'f search_ops \<Rightarrow> string list list \<Rightarrow> string \<Rightarrow> 'f" where
  "bm25_idf so docs term =
     (let n = so_num so (length docs); df = so_num so (length (filter (\<lambda>d. term \<in> set d) docs)); half = so_dec so 5 1
      in so_ln so (so_add so (so_div so (so_add so (so_sub so n df) half) (so_add so df half)) (so_num so 1)))"

text \<open>\<^verbatim>\<open>K1\<close> is 1.2 and \<^verbatim>\<open>B\<close> is 0.75; \<open>so_dec so m k\<close> is the literal \<open>m\<close> shifted by \<open>k\<close> decimal places.\<close>

definition bm25_term :: "('f::linorder) search_ops \<Rightarrow> string list list \<Rightarrow> string list \<Rightarrow> string \<Rightarrow> 'f" where
  "bm25_term so docs doc term =
     (let k1 = so_dec so 12 1; b = so_dec so 75 2; one = so_num so 1;
          dl = so_num so (length doc);
          avgdl = so_div so (so_num so (sum_list (map length docs))) (so_num so (length docs));
          tf = so_num so (length (filter (\<lambda>t. t = term) doc))
      in so_div so (so_mul so (bm25_idf so docs term) (so_mul so tf (so_add so k1 one)))
           (so_add so tf (so_mul so k1 (so_add so (so_sub so one b) (so_div so (so_mul so b dl) (max avgdl one))))))"

definition bm25_score :: "('f::linorder) search_ops \<Rightarrow> string list list \<Rightarrow> string list \<Rightarrow> string list \<Rightarrow> 'f" where
  "bm25_score so docs qs doc = foldl (so_add so) (so_num so 0) (map (bm25_term so docs doc) qs)"

text \<open>A stable sort by descending key, as \<^verbatim>\<open>sort_by\<close> with the comparison reversed.\<close>

definition sort_desc :: "('a \<Rightarrow> 'f::linorder) \<Rightarrow> 'a list \<Rightarrow> 'a list" where
  "sort_desc f xs = rev (sort_key f (rev xs))"

definition bm25_rank :: "('f::linorder) search_ops \<Rightarrow> memory_record list \<Rightarrow> string \<Rightarrow> nat \<Rightarrow> memory_record list" where
  "bm25_rank so records query limit =
     (if records = [] \<or> so_trim so query = [] then []
      else (let qs = tokenize so query
            in if qs = [] then []
               else (let docs = map (\<lambda>r. tokenize so (mrs_content (mr_spec r))) records;
                         scored = sort_desc fst (zip (map (bm25_score so docs qs) docs) [0..<length docs])
                     in map (\<lambda>(_, i). records ! i) (take limit (filter (\<lambda>(s, _). so_num so 0 < s) scored)))))"

section \<open>The vector index\<close>

record 'f vector_entry =
  vn_id :: string
  vn_vector :: "'f list"
  vn_updated_at :: datetime

record 'f vector_index =
  vx_model :: string
  vx_entries :: "'f vector_entry list"

definition is_vector_index_stale :: "'f vector_index \<Rightarrow> string \<Rightarrow> bool" where
  "is_vector_index_stale idx model \<longleftrightarrow> vx_model idx = [] \<or> vx_model idx \<noteq> model"

record 'f fulltext_index =
  fx_avg_doc_length :: 'f
  fx_doc_frequencies :: "(string, u32) hmap"
  fx_doc_count :: u32
  fx_updated_at :: datetime

definition fl_sum :: "'f search_ops \<Rightarrow> 'f list \<Rightarrow> 'f" where
  "fl_sum so xs = foldl (so_add so) (so_num so 0) xs"

definition cosine_similarity :: "('f::linorder) search_ops \<Rightarrow> ('f \<Rightarrow> 'f) \<Rightarrow> 'f list \<Rightarrow> 'f list \<Rightarrow> 'f" where
  "cosine_similarity so root a b =
     (if length a \<noteq> length b \<or> a = [] then so_num so 0
      else (let dot = fl_sum so (map (\<lambda>(x, y). so_mul so x y) (zip a b));
                na = root (fl_sum so (map (\<lambda>x. so_mul so x x) a));
                nb = root (fl_sum so (map (\<lambda>x. so_mul so x x) b))
            in if na = so_num so 0 \<or> nb = so_num so 0 then so_num so 0 else so_div so dot (so_mul so na nb)))"

definition cosine_search ::
  "('f::linorder) search_ops \<Rightarrow> ('f \<Rightarrow> 'f) \<Rightarrow> 'f vector_index \<Rightarrow> 'f list \<Rightarrow> nat \<Rightarrow> (string \<times> 'f) list" where
  "cosine_search so root idx q k =
     take k (sort_desc snd (map (\<lambda>e. (vn_id e, cosine_similarity so root q (vn_vector e))) (vx_entries idx)))"

definition rrf_add :: "('f::linorder) search_ops \<Rightarrow> u32 \<Rightarrow> (string \<times> 'f) list \<Rightarrow> (string, 'f) hmap \<Rightarrow> (string, 'f) hmap" where
  "rrf_add so k ranked m =
     fold (\<lambda>(rank, i) m. hm_insert i
         (so_add so (unwrap_or (so_num so 0) (hm_get m i))
            (so_div so (so_num so 1) (so_add so (so_add so (so_num so (unat k)) (so_num so rank)) (so_num so 1)))) m)
       (zip [0..<length ranked] (map fst ranked)) m"

definition rrf_merge :: "('f::linorder) search_ops \<Rightarrow> (string \<times> 'f) list \<Rightarrow> (string \<times> 'f) list \<Rightarrow> u32 \<Rightarrow> string list" where
  "rrf_merge so bm25 vec k = map fst (sort_desc snd (rrf_add so k vec (rrf_add so k bm25 [])))"

section \<open>The service\<close>

record memory_caller =
  mca_pid :: u64
  mca_agent_name :: string
  mca_owner :: string
  mca_session_id :: string
  mca_granted_tools :: "string list"

definition has_capability :: "memory_caller \<Rightarrow> string \<Rightarrow> bool" where
  "has_capability c cap \<longleftrightarrow>
     (if cap = ''memory:read'' then
        list_ex (\<lambda>t. t = ''memory/retrieve'' \<or> t = ''memory/get-fact'' \<or> t = ''memory/get-preferences'') (mca_granted_tools c)
      else if cap = ''memory:write'' then
        list_ex (\<lambda>t. t = ''memory/log-event'' \<or> t = ''memory/store-fact'' \<or> t = ''memory/update-preference'') (mca_granted_tools c)
      else if cap = ''memory:share'' then ''memory/share-request'' \<in> set (mca_granted_tools c)
      else False)"

definition memory_start :: "'d memory_env \<Rightarrow> datetime \<Rightarrow> 'd mem_vfs \<Rightarrow> unit avix_result \<times> 'd mem_vfs" where
  "memory_start env now st =
     (case my_status env \<lparr> mss_healthy = True, mss_total_episodic_records = 0, mss_total_semantic_records = 0,
             mss_active_session_grants = 0, mss_updated_at = now \<rparr> of
        Inl e \<Rightarrow> (Inl (ConfigParse e), st)
      | Inr yaml \<Rightarrow>
          (case parse_path memory_svc_status_path of
             Inl e \<Rightarrow> (Inl e, st) | Inr p \<Rightarrow> mvfs_write env p (bytes_of_string yaml) st))"

text \<open>The path a record should have, as \<^verbatim>\<open>find_record_by_id\<close> rebuilds it; a fact without a key has none.\<close>

definition rebuilt_path :: "'d memory_env \<Rightarrow> string \<Rightarrow> string \<Rightarrow> string \<Rightarrow> memory_record \<Rightarrow> string option" where
  "rebuilt_path env owner agent i r =
     (if mrm_id (mr_metadata r) \<noteq> i then None
      else (case mrm_record_type (mr_metadata r) of
              Episodic \<Rightarrow> Some (vfs_path_episodic (my_stamp env) owner agent (mrm_created_at (mr_metadata r)) i)
            | Semantic \<Rightarrow> map_option (vfs_path_semantic owner agent) (mrs_key (mr_spec r))))"

fun first_some :: "('a \<Rightarrow> 'b option) \<Rightarrow> 'a list \<Rightarrow> 'b option" where
  "first_some f [] = None"
| "first_some f (x # xs) = (case f x of Some y \<Rightarrow> Some y | None \<Rightarrow> first_some f xs)"

definition find_record_by_id :: "'d memory_env \<Rightarrow> string \<Rightarrow> string \<Rightarrow> string \<Rightarrow> 'd mem_vfs \<Rightarrow> string option" where
  "find_record_by_id env owner agent i st =
     first_some (\<lambda>dir. case list_records env dir st of
         Inl _ \<Rightarrow> None | Inr rs \<Rightarrow> first_some (rebuilt_path env owner agent i) rs)
       [memory_dir owner agent ''episodic'', memory_dir owner agent ''semantic'']"

section \<open>The tools\<close>

definition str_values :: "json \<Rightarrow> string list" where
  "str_values v = (case as_array v of None \<Rightarrow> [] | Some vs \<Rightarrow> List.map_filter as_str vs)"

definition str_array :: "string list \<Rightarrow> json" where
  "str_array ss = JArr (map JStr ss)"

definition opt_json :: "('a \<Rightarrow> json) \<Rightarrow> 'a option \<Rightarrow> json" where
  "opt_json f x = (case x of None \<Rightarrow> JNull | Some v \<Rightarrow> f v)"

definition param_str :: "json \<Rightarrow> string \<Rightarrow> string avix_result" where
  "param_str params k = ok_or (ConfigParse (''missing '' @ k)) (as_str (json_index params k))"

definition own_scope :: "json \<Rightarrow> bool" where
  "own_scope params \<longleftrightarrow> unwrap_or ''own'' (as_str (json_index params ''scope'')) = ''own''"

definition crew_error :: avix_error where
  "crew_error = ConfigParse ''crew scope not yet implemented''"

definition tool_log_event ::
  "'d memory_env \<Rightarrow> datetime \<Rightarrow> string \<Rightarrow> json \<Rightarrow> memory_caller \<Rightarrow> 'd mem_vfs \<Rightarrow> json avix_result \<times> 'd mem_vfs" where
  "tool_log_event env now uuid params caller st =
     (case param_str params ''summary'' of
        Inl e \<Rightarrow> (Inl e, st)
      | Inr summary \<Rightarrow>
          if \<not> own_scope params then (Inl crew_error, st)
          else (let i = new_memory_id uuid;
                    meta = \<lparr> mrm_id = i, mrm_record_type = Episodic, mrm_agent_name = mca_agent_name caller,
                       mrm_agent_pid = mca_pid caller, mrm_owner = mca_owner caller, mrm_created_at = now, mrm_updated_at = now,
                       mrm_session_id = mca_session_id caller, mrm_tags = str_values (json_index params ''tags''),
                       mrm_pinned = unwrap_or False (as_bool (json_index params ''pinned'')) \<rparr>;
                    spec = \<lparr> mrs_content = summary, mrs_outcome = Option.bind (as_str (json_index params ''outcome'')) outcome_of_str,
                       mrs_related_goal = as_str (json_index params ''relatedGoal''), mrs_tools_used = [], mrs_key = None,
                       mrs_confidence = None, mrs_ttl_days = None, mrs_index = memory_record_index_default \<rparr>
                in (case write_record env (vfs_path_episodic (my_stamp env) (mca_owner caller) (mca_agent_name caller) now i)
                           (memory_record_new meta spec) st of
                      (Inl e, st') \<Rightarrow> (Inl e, st')
                    | (Inr _, st') \<Rightarrow>
                        (Inr (JObj [(''id'', JStr i), (''stored'', JBool True), (''indexed'', JBool False)]), st'))))"

definition fact_record :: "datetime \<Rightarrow> string \<Rightarrow> json \<Rightarrow> memory_caller \<Rightarrow> string \<Rightarrow> string \<Rightarrow> memory_record" where
  "fact_record now i params caller key summary =
     memory_record_new
       \<lparr> mrm_id = i, mrm_record_type = Semantic, mrm_agent_name = mca_agent_name caller, mrm_agent_pid = mca_pid caller,
         mrm_owner = mca_owner caller, mrm_created_at = now, mrm_updated_at = now, mrm_session_id = mca_session_id caller,
         mrm_tags = [], mrm_pinned = unwrap_or False (as_bool (json_index params ''pinned'')) \<rparr>
       \<lparr> mrs_content = summary, mrs_outcome = None, mrs_related_goal = None, mrs_tools_used = [], mrs_key = Some key,
         mrs_confidence = Option.bind (as_str (json_index params ''confidence'')) confidence_of_str, mrs_ttl_days = None,
         mrs_index = memory_record_index_default \<rparr>"

definition tool_store_fact ::
  "'d memory_env \<Rightarrow> datetime \<Rightarrow> string \<Rightarrow> json \<Rightarrow> memory_caller \<Rightarrow> 'd mem_vfs \<Rightarrow> json avix_result \<times> 'd mem_vfs" where
  "tool_store_fact env now uuid params caller st =
     (case param_str params ''key'' of
        Inl e \<Rightarrow> (Inl e, st)
      | Inr key \<Rightarrow>
          (case param_str params ''summary'' of
             Inl e \<Rightarrow> (Inl e, st)
           | Inr summary \<Rightarrow>
               if \<not> own_scope params then (Inl crew_error, st)
               else (let path = vfs_path_semantic (mca_owner caller) (mca_agent_name caller) key; i = new_memory_id uuid
                     in (case parse_path path of
                           Inl e \<Rightarrow> (Inl e, st)
                         | Inr p \<Rightarrow>
                             (case write_record env path (fact_record now i params caller key summary) st of
                                (Inl e, st') \<Rightarrow> (Inl e, st')
                              | (Inr _, st') \<Rightarrow>
                                  (Inr (JObj [(''id'', JStr i), (''key'', JStr key), (''stored'', JBool True),
                                     (''replaced'', JBool (vfs_exists (my_os env) p (fst st) (snd st)))]), st'))))))"

definition fact_json :: "'d memory_env \<Rightarrow> memory_record \<Rightarrow> json" where
  "fact_json env r =
     JObj [(''found'', JBool True),
       (''record'', JObj [(''id'', JStr (mrm_id (mr_metadata r))), (''key'', opt_json JStr (mrs_key (mr_spec r))),
          (''summary'', JStr (mrs_content (mr_spec r))),
          (''confidence'', opt_json (\<lambda>c. JStr (confidence_str c)) (mrs_confidence (mr_spec r))),
          (''updatedAt'', my_time env (mrm_updated_at (mr_metadata r))), (''pinned'', JBool (mrm_pinned (mr_metadata r)))])]"

definition tool_get_fact :: "'d memory_env \<Rightarrow> json \<Rightarrow> memory_caller \<Rightarrow> 'd mem_vfs \<Rightarrow> json avix_result" where
  "tool_get_fact env params caller st =
     (case param_str params ''key'' of
        Inl e \<Rightarrow> Inl e
      | Inr key \<Rightarrow>
          (case read_record env (vfs_path_semantic (mca_owner caller) (mca_agent_name caller) key) st of
             Inl _ \<Rightarrow> Inr (JObj [(''found'', JBool False)])
           | Inr r \<Rightarrow> Inr (fact_json env r)))"

definition pref_field :: "string \<Rightarrow> ('a \<Rightarrow> json) \<Rightarrow> 'a option \<Rightarrow> (string \<times> json) list" where
  "pref_field k f x = (case x of None \<Rightarrow> [] | Some v \<Rightarrow> [(k, f v)])"

definition structured_json :: "user_preference_structured \<Rightarrow> json" where
  "structured_json s =
     JObj (concat [pref_field ''outputFormat'' JStr (ups_output_format s), pref_field ''preferredLength'' JStr (ups_preferred_length s),
       pref_field ''citeSources'' JStr (ups_cite_sources s), pref_field ''tonePreference'' JStr (ups_tone_preference s),
       pref_field ''timezone'' JStr (ups_timezone s), pref_field ''primaryLanguage'' JStr (ups_primary_language s),
       (if ups_expertise_areas s = [] then [] else [(''expertiseAreas'', str_array (ups_expertise_areas s))]),
       pref_field ''proactiveUpdates'' JBool (ups_proactive_updates s)])"

definition preference_json :: "'d memory_env \<Rightarrow> user_preference_model \<Rightarrow> json" where
  "preference_json env m =
     JObj [(''apiVersion'', JStr (upo_api_version m)), (''kind'', JStr (upo_kind m)),
       (''metadata'', JObj [(''agentName'', JStr (upm_agent_name (upo_metadata m))), (''owner'', JStr (upm_owner (upo_metadata m))),
          (''updatedAt'', my_time env (upm_updated_at (upo_metadata m)))]),
       (''spec'', JObj [(''summary'', JStr (upp_summary (upo_spec m))), (''structured'', structured_json (upp_structured (upo_spec m))),
          (''corrections'', JArr (map (\<lambda>c. JObj [(''at'', my_time env (pco_at c)), (''context'', JStr (pco_context c)),
             (''correction'', JStr (pco_correction c))]) (upp_corrections (upo_spec m))))])]"

definition tool_get_preferences :: "'d memory_env \<Rightarrow> memory_caller \<Rightarrow> 'd mem_vfs \<Rightarrow> json avix_result" where
  "tool_get_preferences env caller st =
     (case read_preference_model env (preference_path (mca_owner caller) (mca_agent_name caller)) st of
        Inl _ \<Rightarrow> Inr (JObj [(''found'', JBool False)])
      | Inr m \<Rightarrow> Inr (JObj [(''found'', JBool True), (''model'', preference_json env m)]))"

text \<open>The optional fields of the request that are merged; \<open>merge_field k as upd\<close> applies \<open>upd\<close> when field \<open>k\<close> is present.\<close>

definition merge_field :: "json \<Rightarrow> string \<Rightarrow> (json \<Rightarrow> 'a option) \<Rightarrow> ('a \<Rightarrow> 's \<Rightarrow> 's) \<Rightarrow> 's \<Rightarrow> 's" where
  "merge_field obj k as upd s = (case Option.bind (json_get obj k) as of None \<Rightarrow> s | Some v \<Rightarrow> upd v s)"

definition merge_structured :: "json \<Rightarrow> user_preference_structured \<Rightarrow> user_preference_structured" where
  "merge_structured obj s =
     merge_field obj ''proactiveUpdates'' as_bool (\<lambda>v. ups_proactive_updates_update (\<lambda>_. Some v))
    (merge_field obj ''primaryLanguage'' as_str (\<lambda>v. ups_primary_language_update (\<lambda>_. Some v))
    (merge_field obj ''timezone'' as_str (\<lambda>v. ups_timezone_update (\<lambda>_. Some v))
    (merge_field obj ''tonePreference'' as_str (\<lambda>v. ups_tone_preference_update (\<lambda>_. Some v))
    (merge_field obj ''preferredLength'' as_str (\<lambda>v. ups_preferred_length_update (\<lambda>_. Some v))
    (merge_field obj ''outputFormat'' as_str (\<lambda>v. ups_output_format_update (\<lambda>_. Some v)) s)))))"

definition updated_preferences :: "datetime \<Rightarrow> json \<Rightarrow> user_preference_model \<Rightarrow> user_preference_model" where
  "updated_preferences now params m =
     m\<lparr> upo_metadata := (upo_metadata m)\<lparr> upm_updated_at := now \<rparr>,
        upo_spec := (upo_spec m)\<lparr>
          upp_summary := unwrap_or (upp_summary (upo_spec m)) (as_str (json_index params ''summary'')),
          upp_structured := (case json_index params ''structured'' of
             JObj fs \<Rightarrow> merge_structured (JObj fs) (upp_structured (upo_spec m)) | _ \<Rightarrow> upp_structured (upo_spec m)) \<rparr> \<rparr>"

definition fresh_preferences :: "datetime \<Rightarrow> memory_caller \<Rightarrow> user_preference_model" where
  "fresh_preferences now caller =
     user_preference_model_new
       \<lparr> upm_agent_name = mca_agent_name caller, upm_owner = mca_owner caller, upm_updated_at = now \<rparr>
       \<lparr> upp_summary = [], upp_structured = ups_default, upp_corrections = [] \<rparr>"

definition tool_update_preference ::
  "'d memory_env \<Rightarrow> datetime \<Rightarrow> json \<Rightarrow> memory_caller \<Rightarrow> 'd mem_vfs \<Rightarrow> json avix_result \<times> 'd mem_vfs" where
  "tool_update_preference env now params caller st =
     (let path = preference_path (mca_owner caller) (mca_agent_name caller);
          m = (case read_preference_model env path st of Inr m \<Rightarrow> m | Inl _ \<Rightarrow> fresh_preferences now caller)
      in (case write_preference_model env path (updated_preferences now params m) st of
            (Inl e, st') \<Rightarrow> (Inl e, st')
          | (Inr _, st') \<Rightarrow> (Inr (JObj [(''updated'', JBool True)]), st')))"

fun forget_all ::
  "'d memory_env \<Rightarrow> memory_caller \<Rightarrow> string list \<Rightarrow> 'd mem_vfs \<Rightarrow> (string list \<times> string list) avix_result \<times> 'd mem_vfs" where
  "forget_all env caller [] st = (Inr ([], []), st)"
| "forget_all env caller (i # is) st =
     (case find_record_by_id env (mca_owner caller) (mca_agent_name caller) i st of
        None \<Rightarrow>
          (case forget_all env caller is st of
             (Inl e, st') \<Rightarrow> (Inl e, st')
           | (Inr (ds, ns), st') \<Rightarrow> (Inr (ds, i # ns), st'))
      | Some path \<Rightarrow>
          (case delete_record env path st of
             (Inl e, st1) \<Rightarrow> (Inl e, st1)
           | (Inr _, st1) \<Rightarrow>
               (case forget_all env caller is st1 of
                  (Inl e, st') \<Rightarrow> (Inl e, st')
                | (Inr (ds, ns), st') \<Rightarrow> (Inr (i # ds, ns), st'))))"

definition tool_forget :: "'d memory_env \<Rightarrow> json \<Rightarrow> memory_caller \<Rightarrow> 'd mem_vfs \<Rightarrow> json avix_result \<times> 'd mem_vfs" where
  "tool_forget env params caller st =
     (case as_array (json_index params ''ids'') of
        None \<Rightarrow> (Inl (ConfigParse ''missing ids array''), st)
      | Some vs \<Rightarrow>
          (case forget_all env caller (List.map_filter as_str vs) st of
             (Inl e, st') \<Rightarrow> (Inl e, st')
           | (Inr (ds, ns), st') \<Rightarrow> (Inr (JObj [(''deleted'', str_array ds), (''notFound'', str_array ns)]), st')))"

definition tool_share_request :: "json \<Rightarrow> memory_caller \<Rightarrow> json avix_result" where
  "tool_share_request params caller =
     (if ''memory/share-request'' \<notin> set (mca_granted_tools caller) then
        Inl (CapabilityDenied (''memory:share not granted '' @ [CHR 0xE2, CHR 0x80, CHR 0x94] @ '' agent manifest must set sharing.canRequest: true''))
      else if unwrap_or (mca_owner caller) (as_str (json_index params ''targetOwner'')) \<noteq> mca_owner caller then
        Inl (CapabilityDenied ''cross-user memory sharing is not supported in v1 (crossUserEnabled: false)'')
      else Inl (NotFound ''memory/share-request HIL flow not yet wired (memory-gap-G)''))"

text \<open>A summary is cut at 200 bytes; the cut panics inside a character.\<close>

definition record_to_json :: "'d memory_env \<Rightarrow> string \<Rightarrow> memory_record \<Rightarrow> json option" where
  "record_to_json env scope r =
     (case slice_to (min (length (mrs_content (mr_spec r))) 200) (mrs_content (mr_spec r)) of
        None \<Rightarrow> None
      | Some summary \<Rightarrow>
          Some (JObj [(''id'', JStr (mrm_id (mr_metadata r))), (''type'', JStr (record_type_str (mrm_record_type (mr_metadata r)))),
            (''scope'', JStr scope), (''summary'', JStr summary), (''tags'', str_array (mrm_tags (mr_metadata r))),
            (''createdAt'', my_time env (mrm_created_at (mr_metadata r))), (''pinned'', JBool (mrm_pinned (mr_metadata r)))]))"

definition load_grant :: "'d memory_env \<Rightarrow> string \<Rightarrow> 'd mem_vfs \<Rightarrow> memory_grant avix_result" where
  "load_grant env path st = read_encoded env (my_grant env) ''grant'' path st"

text \<open>The records the grants of an agent give access to, with the scope each is shown under.\<close>

definition granted_by :: "'d memory_env \<Rightarrow> 'd mem_vfs \<Rightarrow> memory_grant \<Rightarrow> (string \<times> memory_record) list" where
  "granted_by env st g =
     List.map_filter (\<lambda>i. case find_record_by_id env (mgp_owner (mgs_grantor (mg_spec g))) (mgp_agent_name (mgs_grantor (mg_spec g))) i st of
         None \<Rightarrow> None
       | Some path \<Rightarrow> (case read_record env path st of Inl _ \<Rightarrow> None | Inr r \<Rightarrow> Some (''grant:'' @ mgm_id (mg_metadata g), r)))
     (mgs_records (mg_spec g))"

definition granted_records :: "'d memory_env \<Rightarrow> string \<Rightarrow> 'd mem_vfs \<Rightarrow> (string \<times> memory_record) list avix_result" where
  "granted_records env agent st =
     (case parse_path (session_grant_dir agent) of
        Inl e \<Rightarrow> Inl e
      | Inr p \<Rightarrow>
          Inr (concat (map (\<lambda>n. case load_grant env (session_grant_dir agent @ ''/'' @ n) st of
                  Inl _ \<Rightarrow> [] | Inr g \<Rightarrow> granted_by env st g)
             (filter (\<lambda>n. ends_with n ''.yaml'') (mvfs_names env p st)))))"

definition own_records :: "'d memory_env \<Rightarrow> string list \<Rightarrow> memory_caller \<Rightarrow> 'd mem_vfs \<Rightarrow> memory_record list avix_result" where
  "own_records env types caller st =
     (case (if ''episodic'' \<in> set types then list_records env (memory_dir (mca_owner caller) (mca_agent_name caller) ''episodic'') st else Inr []) of
        Inl e \<Rightarrow> Inl e
      | Inr es \<Rightarrow>
          (case (if ''semantic'' \<in> set types then list_records env (memory_dir (mca_owner caller) (mca_agent_name caller) ''semantic'') st else Inr []) of
             Inl e \<Rightarrow> Inl e
           | Inr ss \<Rightarrow> Inr (es @ ss)))"

fun all_some :: "('a \<Rightarrow> 'b option) \<Rightarrow> 'a list \<Rightarrow> 'b list option" where
  "all_some f [] = Some []"
| "all_some f (x # xs) = (case f x of None \<Rightarrow> None | Some y \<Rightarrow> map_option (\<lambda>ys. y # ys) (all_some f xs))"

definition retrieve_limit :: "u32 \<Rightarrow> json \<Rightarrow> nat" where
  "retrieve_limit default_limit params = unat (min (unwrap_or (ucast default_limit) (as_u64 (json_index params ''limit''))) (20 :: u64))"

definition tool_retrieve ::
  "'d memory_env \<Rightarrow> ('f::linorder) search_ops \<Rightarrow> u32 \<Rightarrow> json \<Rightarrow> memory_caller \<Rightarrow> 'd mem_vfs \<Rightarrow> json avix_result option" where
  "tool_retrieve env so default_limit params caller st =
     (case param_str params ''query'' of
        Inl e \<Rightarrow> Some (Inl e)
      | Inr query \<Rightarrow>
          (let types = (case as_array (json_index params ''types'') of
                 None \<Rightarrow> [''episodic'', ''semantic''] | Some vs \<Rightarrow> List.map_filter as_str vs)
           in (case own_records env types caller st of
                 Inl e \<Rightarrow> Some (Inl e)
               | Inr own \<Rightarrow>
                   (case all_some (record_to_json env ''own'') (bm25_rank so own query (retrieve_limit default_limit params)) of
                      None \<Rightarrow> None
                    | Some js \<Rightarrow>
                        (case (if ''grants'' \<in> set (str_values (json_index params ''scopes''))
                               then granted_records env (mca_agent_name caller) st else Inr []) of
                           Inl e \<Rightarrow> Some (Inl e)
                         | Inr gs \<Rightarrow>
                             (case all_some (\<lambda>(scope, r). record_to_json env scope r) gs of
                                None \<Rightarrow> None
                              | Some gjs \<Rightarrow>
                                  Some (Inr (JObj [(''records'', JArr (js @ gjs)), (''totalCandidates'', JNum (int (length own))),
                                    (''returned'', JNum (int (length (js @ gjs))))]))))))))"

definition memory_dispatch ::
  "'d memory_env \<Rightarrow> ('f::linorder) search_ops \<Rightarrow> u32 \<Rightarrow> datetime \<Rightarrow> string \<Rightarrow> string \<Rightarrow> json \<Rightarrow> memory_caller \<Rightarrow> 'd mem_vfs \<Rightarrow>
   (json avix_result \<times> 'd mem_vfs) option" where
  "memory_dispatch env so default_limit now uuid tool params caller st =
     (if tool = ''memory/retrieve'' then map_option (\<lambda>res. (res, st)) (tool_retrieve env so default_limit params caller st)
      else if tool = ''memory/log-event'' then Some (tool_log_event env now uuid params caller st)
      else if tool = ''memory/store-fact'' then Some (tool_store_fact env now uuid params caller st)
      else if tool = ''memory/get-fact'' then Some (tool_get_fact env params caller st, st)
      else if tool = ''memory/update-preference'' then Some (tool_update_preference env now params caller st)
      else if tool = ''memory/get-preferences'' then Some (tool_get_preferences env caller st, st)
      else if tool = ''memory/forget'' then Some (tool_forget env params caller st)
      else if tool = ''memory/share-request'' then Some (tool_share_request params caller, st)
      else Some (Inl (NotFound (''unknown memory tool: '' @ tool)), st))"

section \<open>Sharing\<close>

definition approved_grant ::
  "datetime \<Rightarrow> string \<Rightarrow> string \<Rightarrow> string \<Rightarrow> string list \<Rightarrow> memory_grant_scope \<Rightarrow> string \<Rightarrow> string \<Rightarrow> string \<Rightarrow> string \<Rightarrow> memory_grant" where
  "approved_grant now gid hil target records scope owner session approver grantor =
     memory_grant_new
       \<lparr> mgm_id = gid, mgm_granted_at = now, mgm_granted_by = approver, mgm_hil_id = hil \<rparr>
       \<lparr> mgs_grantor = \<lparr> mgp_agent_name = grantor, mgp_owner = owner \<rparr>,
         mgs_grantee = \<lparr> mgp_agent_name = target, mgp_owner = owner \<rparr>, mgs_records = records, mgs_scope = scope,
         mgs_session_id = session, mgs_expires_at = None \<rparr>"

definition on_memory_share_approved ::
  "'d memory_env \<Rightarrow> datetime \<Rightarrow> string \<Rightarrow> string \<Rightarrow> string \<Rightarrow> string list \<Rightarrow> memory_grant_scope \<Rightarrow> string \<Rightarrow> string \<Rightarrow> string \<Rightarrow> string \<Rightarrow>
   'd mem_vfs \<Rightarrow> unit avix_result \<times> 'd mem_vfs" where
  "on_memory_share_approved env now uuid hil target records scope owner session approver grantor st =
     (let gid = ''grant-'' @ new_memory_id uuid;
          path = (case scope of ScopeSession \<Rightarrow> memory_agent_grants_path target gid
                  | ScopePermanent \<Rightarrow> permanent_grant_path owner grantor gid)
      in (case enc (my_grant env) (approved_grant now gid hil target records scope owner session approver grantor) of
            Inl e \<Rightarrow> (Inl (ConfigParse (error_display (ConfigParse e))), st)
          | Inr yaml \<Rightarrow>
              (case parse_path path of Inl e \<Rightarrow> (Inl e, st) | Inr p \<Rightarrow> mvfs_write env p (bytes_of_string yaml) st)))"

text \<open>The grant in a file, when it can be read and decoded; every error skips the file.\<close>

definition grant_in :: "'d memory_env \<Rightarrow> string \<Rightarrow> 'd mem_vfs \<Rightarrow> (vfs_path \<times> memory_grant) option" where
  "grant_in env path st =
     (case vfs_path_parse path of
        Inl _ \<Rightarrow> None
      | Inr p \<Rightarrow>
          (case mvfs_read env p st of
             Inl _ \<Rightarrow> None
           | Inr bs \<Rightarrow>
               if utf8_valid bs then (case dec (my_grant env) (string_of_bytes bs) of Inl _ \<Rightarrow> None | Inr g \<Rightarrow> Some (p, g))
               else None))"

fun sweep_grants ::
  "'d memory_env \<Rightarrow> (memory_grant \<Rightarrow> bool) \<Rightarrow> string \<Rightarrow> string list \<Rightarrow> 'd mem_vfs \<Rightarrow> nat \<times> 'd mem_vfs" where
  "sweep_grants env doomed dir [] st = (0, st)"
| "sweep_grants env doomed dir (n # ns) st =
     (case grant_in env (dir @ ''/'' @ n) st of
        Some (p, g) \<Rightarrow>
          if doomed g then (case sweep_grants env doomed dir ns (snd (mvfs_delete env p st)) of (k, st') \<Rightarrow> (k + 1, st'))
          else sweep_grants env doomed dir ns st
      | None \<Rightarrow> sweep_grants env doomed dir ns st)"

definition cleanup_session_grants :: "'d memory_env \<Rightarrow> string \<Rightarrow> string \<Rightarrow> 'd mem_vfs \<Rightarrow> unit avix_result \<times> 'd mem_vfs" where
  "cleanup_session_grants env agent session st =
     (case parse_path (session_grant_dir agent) of
        Inl e \<Rightarrow> (Inl e, st)
      | Inr p \<Rightarrow>
          (Inr (), snd (sweep_grants env (\<lambda>g. mgs_scope (mg_spec g) = ScopeSession \<and> mgs_session_id (mg_spec g) = session)
             (session_grant_dir agent) (filter (\<lambda>n. ends_with n ''.yaml'') (mvfs_names env p st)) st)))"

section \<open>Garbage collection\<close>

record gc_report =
  gc_records_deleted :: nat
  gc_bytes_freed :: nat

text \<open>
  One file of an episodic directory, with the cutoff.  The counters are natural numbers: they are bounded by
  the size of the file system, far below \<^verbatim>\<open>u64::MAX\<close>.
\<close>

definition gc_file :: "'d memory_env \<Rightarrow> datetime \<Rightarrow> string \<Rightarrow> gc_report \<times> 'd mem_vfs \<Rightarrow> gc_report \<times> 'd mem_vfs" where
  "gc_file env cutoff path acc =
     (case acc of (rep, st) \<Rightarrow>
        (case read_record env path st of
           Inl _ \<Rightarrow> (rep, st)
         | Inr r \<Rightarrow>
             if mrm_pinned (mr_metadata r) \<or> \<not> mrm_created_at (mr_metadata r) < cutoff then (rep, st)
             else (case vfs_path_parse path of
                     Inl _ \<Rightarrow> (rep, st)
                   | Inr p \<Rightarrow>
                       (\<lparr> gc_records_deleted = gc_records_deleted rep + 1,
                          gc_bytes_freed = gc_bytes_freed rep + (case mvfs_read env p st of Inl _ \<Rightarrow> 0 | Inr bs \<Rightarrow> length bs) \<rparr>,
                        snd (mvfs_delete env p st)))))"

definition gc_agent :: "'d memory_env \<Rightarrow> datetime \<Rightarrow> string \<times> string \<Rightarrow> gc_report \<times> 'd mem_vfs \<Rightarrow> gc_report \<times> 'd mem_vfs" where
  "gc_agent env cutoff oa acc =
     (let dir = memory_dir (fst oa) (snd oa) ''episodic''
      in case vfs_path_parse dir of
           Inl _ \<Rightarrow> acc
         | Inr p \<Rightarrow> fold (\<lambda>n. gc_file env cutoff (dir @ ''/'' @ n)) (yaml_names env p (snd acc)) acc)"

definition nanos_per_day :: int where
  "nanos_per_day = 86400 * 1000000000"

definition gc_episodic_records ::
  "'d memory_env \<Rightarrow> datetime \<Rightarrow> (string \<times> string) list \<Rightarrow> u32 \<Rightarrow> 'd mem_vfs \<Rightarrow> gc_report \<times> 'd mem_vfs" where
  "gc_episodic_records env now agents retention_days st =
     fold (gc_agent env (now - uint retention_days * nanos_per_day)) agents (\<lparr> gc_records_deleted = 0, gc_bytes_freed = 0 \<rparr>, st)"

definition grant_expired :: "datetime \<Rightarrow> memory_grant \<Rightarrow> bool" where
  "grant_expired now g \<longleftrightarrow> (case mgs_expires_at (mg_spec g) of None \<Rightarrow> False | Some t \<Rightarrow> t < now)"

fun prune_expired_grants :: "'d memory_env \<Rightarrow> datetime \<Rightarrow> string list \<Rightarrow> 'd mem_vfs \<Rightarrow> nat \<times> 'd mem_vfs" where
  "prune_expired_grants env now [] st = (0, st)"
| "prune_expired_grants env now (a # as) st =
     (case vfs_path_parse (session_grant_dir a) of
        Inl _ \<Rightarrow> prune_expired_grants env now as st
      | Inr p \<Rightarrow>
          (case sweep_grants env (grant_expired now) (session_grant_dir a)
                  (filter (\<lambda>n. ends_with n ''.yaml'') (mvfs_names env p st)) st of
             (k, st1) \<Rightarrow> (case prune_expired_grants env now as st1 of (k', st2) \<Rightarrow> (k + k', st2))))"

definition check_write_namespace :: "memory_caller \<Rightarrow> string \<Rightarrow> unit avix_result" where
  "check_write_namespace caller target =
     (if mca_agent_name caller \<noteq> target then
        Inl (CapabilityDenied (''agent '' @ quoted (mca_agent_name caller) @ '' may not write to '' @ quoted target @ '' memory namespace''))
      else Inr ())"

section \<open>The memory context of an agent\<close>

text \<open>
  The block the executor puts before the system prompt, from the preferences, the five latest events and the pinned
  facts.  The outer option is a panic, which a cut inside a character causes; the inner one is the absence of a block.
\<close>

definition bullet :: string where
  "bullet = [CHR 0x0A, CHR 0x20, CHR 0x20, CHR 0xE2, CHR 0x80, CHR 0xA2, CHR 0x20]"

definition preference_part :: "'d memory_env \<Rightarrow> user_preference_model \<Rightarrow> string list" where
  "preference_part env m =
     (if upp_summary (upo_spec m) = [] then []
      else [''User preferences:'' @ nl @ ''  '' @ upp_summary (upo_spec m) @
        (if upp_corrections (upo_spec m) = [] then []
         else nl @ nl @ ''  Corrections to avoid repeating:'' @
           concat (map (\<lambda>c. nl @ ''  '' @ tl bullet @ [CHR 0x22] @ pco_correction c @ [CHR 0x22] @ '' ('' @ my_day env (pco_at c) @ '')'')
             (upp_corrections (upo_spec m))))])"

definition cut_content :: "memory_record \<Rightarrow> string option" where
  "cut_content r = slice_to (min (length (mrs_content (mr_spec r))) 120) (mrs_content (mr_spec r))"

definition recent_part :: "'d memory_env \<Rightarrow> memory_record list \<Rightarrow> string list option" where
  "recent_part env records =
     (let recent = take 5 (sort_desc (\<lambda>r. mrm_created_at (mr_metadata r)) records)
      in if recent = [] then Some []
         else (case all_some (\<lambda>r. map_option (\<lambda>c. bullet @ my_day env (mrm_created_at (mr_metadata r)) @ '' '' @ c) (cut_content r)) recent of
                 None \<Rightarrow> None
               | Some ls \<Rightarrow> Some [''Recent session history (last '' @ show_nat (length recent) @ ''):'' @ concat ls]))"

definition pinned_part :: "memory_record list \<Rightarrow> string list option" where
  "pinned_part records =
     (let pinned = filter (\<lambda>r. mrm_pinned (mr_metadata r)) records
      in if pinned = [] then Some []
         else (case all_some (\<lambda>r. map_option (\<lambda>c. bullet @ unwrap_or (mrm_id (mr_metadata r)) (mrs_key (mr_spec r)) @ '': '' @ c)
                  (cut_content r)) pinned of
                 None \<Rightarrow> None
               | Some ls \<Rightarrow> Some [''Pinned facts:'' @ concat ls]))"

definition stored_records :: "'d memory_env \<Rightarrow> string \<Rightarrow> 'd mem_vfs \<Rightarrow> memory_record list" where
  "stored_records env dir st = (case list_records env dir st of Inl _ \<Rightarrow> [] | Inr rs \<Rightarrow> rs)"

definition context_of :: "string \<Rightarrow> string list \<Rightarrow> string option" where
  "context_of agent parts =
     (if parts = [] then None
      else Some (''[MEMORY CONTEXT '' @ [CHR 0xE2, CHR 0x80, CHR 0x94] @ '' '' @ agent @ '' '' @
        [CHR 0xE2, CHR 0x80, CHR 0x94] @ '' injected by memory.svc]'' @ nl @ nl @ join_str (nl @ nl) parts))"

definition build_memory_context_block :: "'d memory_env \<Rightarrow> string \<Rightarrow> string \<Rightarrow> 'd mem_vfs option \<Rightarrow> string option option" where
  "build_memory_context_block env owner agent vfs =
     (case vfs of
        None \<Rightarrow> Some None
      | Some st \<Rightarrow>
          (case vfs_path_parse (preference_path owner agent) of
             Inl _ \<Rightarrow> Some None
           | Inr p \<Rightarrow>
               (let prefs = (case mvfs_read env p st of
                       Inl _ \<Rightarrow> []
                     | Inr bs \<Rightarrow> (case dec (my_pref env) (string_of_bytes (utf8_lossy bs)) of
                          Inl _ \<Rightarrow> [] | Inr m \<Rightarrow> preference_part env m))
                in (case recent_part env (stored_records env (memory_dir owner agent ''episodic'') st) of
                      None \<Rightarrow> None
                    | Some recent \<Rightarrow>
                        (case pinned_part (stored_records env (memory_dir owner agent ''semantic'') st) of
                           None \<Rightarrow> None
                         | Some pinned \<Rightarrow>
                             Some (context_of agent (prefs @ recent @ pinned)))))))"

section \<open>The ranking is exact\<close>

lemma set_sort_desc [simp]: "set (sort_desc f xs) = set xs" "length (sort_desc f xs) = length xs"
  by (simp_all add: sort_desc_def)

lemma sort_desc_Nil [simp]: "sort_desc f [] = []"
  by (simp add: sort_desc_def)

lemma distinct_sort_desc [simp]: "distinct (sort_desc f xs) = distinct xs"
  by (simp add: sort_desc_def)

lemma sorted_sort_desc: "sorted_wrt (\<lambda>x y. f y \<le> f x) (sort_desc f xs)"
  using sorted_sort_key [of f "rev xs"] by (simp add: sort_desc_def sorted_wrt_rev sorted_wrt_map)

lemma stable_sort_desc: "filter (\<lambda>x. f x = k) (sort_desc f xs) = filter (\<lambda>x. f x = k) xs"
  by (simp add: sort_desc_def rev_filter [symmetric] sort_key_stable)

lemma sorted_lex:
  fixes f :: "'a \<Rightarrow> 'f::linorder"
  assumes "sorted_wrt (\<lambda>x y. f y \<le> f x) xs" and "\<And>k. sorted_wrt R (filter (\<lambda>x. f x = k) xs)"
  shows "sorted_wrt (\<lambda>x y. f y < f x \<or> f x = f y \<and> R x y) xs"
  using assms
proof (induction xs)
  case (Cons x xs)
  have "R x y" if "y \<in> set xs" "f x = f y" for y
    using Cons.prems(2) [of "f x"] that by simp
  moreover have "sorted_wrt R (filter (\<lambda>y. f y = k) xs)" for k
    using Cons.prems(2) [of k] by (simp split: if_splits)
  ultimately show ?case using Cons.IH Cons.prems(1) by (auto simp: le_less)
qed simp

definition relevance :: "('f::linorder) search_ops \<Rightarrow> memory_record list \<Rightarrow> string \<Rightarrow> nat \<Rightarrow> 'f" where
  "relevance so records query i =
     (let docs = map (\<lambda>r. tokenize so (mrs_content (mr_spec r))) records
      in bm25_score so docs (tokenize so query) (docs ! i))"

definition relevant :: "('f::linorder) search_ops \<Rightarrow> memory_record list \<Rightarrow> string \<Rightarrow> nat set" where
  "relevant so records query =
     {i. i < length records \<and> so_trim so query \<noteq> [] \<and> so_num so 0 < relevance so records query i}"

definition ranked_indices :: "('f::linorder) search_ops \<Rightarrow> memory_record list \<Rightarrow> string \<Rightarrow> nat list" where
  "ranked_indices so records query =
     filter (\<lambda>i. i \<in> relevant so records query) (sort_desc (relevance so records query) [0..<length records])"

lemma sort_desc_map: "sort_desc f (map g xs) = map g (sort_desc (f \<circ> g) xs)"
proof -
  have "insort_key f (g x) (map g ys) = map g (insort_key (f \<circ> g) x ys)" for x ys by (induction ys) simp_all
  then have "sort_key f (map g ys) = map g (sort_key (f \<circ> g) ys)" for ys by (induction ys) simp_all
  then show ?thesis by (simp add: sort_desc_def rev_map)
qed

lemma bm25_rank_indices: "bm25_rank so records query limit = map ((!) records) (take limit (ranked_indices so records query))"
proof (cases "records = [] \<or> so_trim so query = []")
  case False
  let ?docs = "map (\<lambda>r. tokenize so (mrs_content (mr_spec r))) records"
  let ?qs = "tokenize so query"
  let ?key = "\<lambda>i. (bm25_score so ?docs ?qs (?docs ! i), i)"
  show ?thesis
  proof (cases "?qs = []")
    case True
    then have "relevant so records query = {}" by (auto simp: relevant_def relevance_def bm25_score_def)
    with False True show ?thesis by (simp add: bm25_rank_def ranked_indices_def)
  next
    case qs: False
    have zip: "zip (map (bm25_score so ?docs ?qs) ?docs) [0..<length ?docs] = map ?key [0..<length records]"
      by (rule nth_equalityI) simp_all
    have key: "fst \<circ> ?key = relevance so records query" by (simp add: fun_eq_iff relevance_def Let_def)
    have flt: "filter (\<lambda>(s, _). so_num so 0 < s) (map ?key xs) =
        map ?key (filter (\<lambda>i. i \<in> relevant so records query) xs)" if "set xs \<subseteq> {..<length records}" for xs
      using that False by (induction xs) (auto simp: relevant_def relevance_def Let_def)
    have "bm25_rank so records query limit = map (\<lambda>(_, i). records ! i) (take limit
        (filter (\<lambda>(s, _). so_num so 0 < s) (map ?key (sort_desc (relevance so records query) [0..<length records]))))"
      unfolding bm25_rank_def Let_def zip sort_desc_map key using False qs by simp
    also have "\<dots> = map (\<lambda>(_, i). records ! i) (take limit (map ?key (ranked_indices so records query)))"
      by (subst flt) (auto simp: ranked_indices_def)
    finally have "bm25_rank so records query limit =
        map (\<lambda>(_, i). records ! i) (take limit (map ?key (ranked_indices so records query)))" .
    then show ?thesis by (simp add: take_map comp_def)
  qed
qed (auto simp: bm25_rank_def ranked_indices_def relevant_def)

text \<open>
  Full-text ranking.  The records returned for a query are those at the first \<open>limit\<close> indices of a list without
  repetitions that holds exactly the indices of the records with a positive score, ordered by descending score,
  and among equal scores by position.
\<close>

theorem bm25_rank_exact:
  "\<exists>is. bm25_rank so records query limit = map ((!) records) (take limit is) \<and> distinct is \<and> set is = relevant so records query \<and>
     sorted_wrt (\<lambda>i j. relevance so records query j < relevance so records query i \<or>
        relevance so records query i = relevance so records query j \<and> i < j) is"
proof (intro exI conjI)
  let ?f = "relevance so records query"
  show "bm25_rank so records query limit = map ((!) records) (take limit (ranked_indices so records query))"
    by (rule bm25_rank_indices)
  show "set (ranked_indices so records query) = relevant so records query"
    by (auto simp: ranked_indices_def relevant_def)
  have "sorted_wrt (\<lambda>i j. ?f j < ?f i \<or> ?f i = ?f j \<and> i < j) (sort_desc ?f [0..<length records])"
    using sorted_sort_desc
    by (rule sorted_lex) (simp add: stable_sort_desc sorted_wrt_filter)
  then show "sorted_wrt (\<lambda>i j. ?f j < ?f i \<or> ?f i = ?f j \<and> i < j) (ranked_indices so records query)"
    unfolding ranked_indices_def by (rule sorted_wrt_filter)
qed (simp add: ranked_indices_def)

section \<open>The files of the service\<close>

text \<open>
  What the service relies on of the file system for the files of a region: a successful write is read back, a deleted
  file is gone, and neither changes another file of the region nor the names in a directory the file is not below.
\<close>

locale memory_region =
  fixes env :: "'d memory_env" and ok :: "'d mem_vfs \<Rightarrow> bool" and region :: "string \<Rightarrow> bool"
  assumes wr_ok: "ok st \<Longrightarrow> region (vfs_str p) \<Longrightarrow> mvfs_write env p c st = (res, st') \<Longrightarrow>
      ok st' \<and> (res = Inr () \<longrightarrow> mvfs_read env p st' = Inr c) \<and>
      (\<forall>q. region (vfs_str q) \<and> q \<noteq> p \<longrightarrow> mvfs_read env q st' = mvfs_read env q st) \<and>
      (\<forall>dir. region (vfs_str dir) \<and> \<not> starts_with (vfs_str p) (trim_end_char (CHR ''/'') (vfs_str dir) @ ''/'') \<longrightarrow>
         mvfs_names env dir st' = mvfs_names env dir st)"
    and del_ok: "ok st \<Longrightarrow> region (vfs_str p) \<Longrightarrow> mvfs_delete env p st = (res, st') \<Longrightarrow>
      ok st' \<and> (res = Inr () \<longrightarrow> is_err (mvfs_read env p st')) \<and>
      (\<forall>q. region (vfs_str q) \<and> q \<noteq> p \<longrightarrow> mvfs_read env q st' = mvfs_read env q st)"
begin

lemma write_encoded_frame:
  assumes "ok st" and "region path" and "write_encoded env c path r st = (res, st')"
  shows "ok st' \<and> (\<forall>q. region (vfs_str q) \<and> vfs_str q \<noteq> path \<longrightarrow> mvfs_read env q st' = mvfs_read env q st)"
proof (cases "st' = st")
  case False
  with assms(3) obtain y where "mvfs_write env (VfsPath path) (bytes_of_string y) st = (res, st')"
    by (auto simp: write_encoded_def parse_path_def vfs_path_parse_def split: sum.splits if_splits)
  from wr_ok [OF assms(1) _ this] assms(2) show ?thesis by auto
qed (use assms(1) in simp)

lemma write_read_encoded:
  assumes "ok st" and "region path" and "write_encoded env c path r st = (Inr (), st')"
    and "codec_lawful c" and "\<And>y. enc c r = Inr y \<Longrightarrow> utf8_valid (bytes_of_string y)"
  shows "read_encoded env c what path st' = Inr r"
proof -
  from assms(3) obtain y where y: "enc c r = Inr y" "vfs_path_parse path = Inr (VfsPath path)"
    "mvfs_write env (VfsPath path) (bytes_of_string y) st = (Inr (), st')"
    by (auto simp: write_encoded_def parse_path_def vfs_path_parse_def split: sum.splits if_splits)
  from wr_ok [OF assms(1) _ y(3)] assms(2) have "mvfs_read env (VfsPath path) st' = Inr (bytes_of_string y)" by simp
  with y(1,2) assms(4,5) show ?thesis by (simp add: read_encoded_def parse_path_def codec_lawful_def)
qed

lemma read_encoded_frame:
  assumes "\<And>q. region (vfs_str q) \<Longrightarrow> vfs_str q \<noteq> path \<Longrightarrow> mvfs_read env q st' = mvfs_read env q st"
    and "region path'" and "path' \<noteq> path"
  shows "read_encoded env c what path' st' = read_encoded env c what path' st"
  using assms by (auto simp: read_encoded_def parse_path_def vfs_path_parse_def)

lemma delete_record_frame:
  assumes "ok st" and "region path" and "delete_record env path st = (res, st')"
  shows "ok st' \<and> (\<forall>q. region (vfs_str q) \<and> vfs_str q \<noteq> path \<longrightarrow> mvfs_read env q st' = mvfs_read env q st)"
proof (cases "st' = st")
  case False
  with assms(3) have "mvfs_delete env (VfsPath path) st = (res, st')"
    by (auto simp: delete_record_def parse_path_def vfs_path_parse_def split: sum.splits if_splits)
  from del_ok [OF assms(1) _ this] assms(2) show ?thesis by auto
qed (use assms(1) in simp)

end

text \<open>The part of the file system held in memory is such a region.\<close>

definition in_memory :: "vfs_router \<Rightarrow> string \<Rightarrow> bool" where
  "in_memory r0 p \<longleftrightarrow> route (vr_mounts r0) p = None \<and> \<not> starts_with p ''/tools''"

definition like_router :: "vfs_router \<Rightarrow> 'd mem_vfs \<Rightarrow> bool" where
  "like_router r0 st \<longleftrightarrow> vr_caller (fst st) = None \<and> vr_mounts (fst st) = vr_mounts r0 \<and> vr_mem_mounts (fst st) = vr_mem_mounts r0"

definition tree_of :: "vfs_router \<Rightarrow> string \<Rightarrow> mem_fs" where
  "tree_of r p = (case mem_route r p of Some a \<Rightarrow> vr_stores r a | None \<Rightarrow> vr_default r)"

definition put_tree :: "vfs_router \<Rightarrow> string \<Rightarrow> mem_fs \<Rightarrow> vfs_router" where
  "put_tree r p fs = (case mem_route r p of Some a \<Rightarrow> set_store a fs r | None \<Rightarrow> r\<lparr> vr_default := fs \<rparr>)"

lemma put_tree_simps [simp]:
  "vr_caller (put_tree r p fs) = vr_caller r" "vr_mounts (put_tree r p fs) = vr_mounts r"
  "vr_mem_mounts (put_tree r p fs) = vr_mem_mounts r" "mem_route (put_tree r p fs) q = mem_route r q"
  by (simp_all add: put_tree_def set_store_def mem_route_def split: option.splits)

lemma tree_put_tree: "tree_of (put_tree r p fs) q = (if mem_route r q = mem_route r p then fs else tree_of r q)"
  by (auto simp: tree_of_def put_tree_def set_store_def split: option.splits) (auto simp: mem_route_def)

lemma in_memory_read:
  "like_router r0 st \<Longrightarrow> in_memory r0 (vfs_str p) \<Longrightarrow> mvfs_read env p st = memfs_read (tree_of (fst st) (vfs_str p)) p"
  by (simp add: like_router_def in_memory_def mvfs_read_def vfs_read_elsewhere refused_def tree_of_def split: option.splits)

lemma in_memory_write:
  "like_router r0 st \<Longrightarrow> in_memory r0 (vfs_str p) \<Longrightarrow>
   mvfs_write env p c st = (Inr (), put_tree (fst st) (vfs_str p) (memfs_write (tree_of (fst st) (vfs_str p)) p c), snd st)"
  by (simp add: like_router_def in_memory_def mvfs_write_def vfs_write_def refused_def tree_of_def put_tree_def split: option.splits)

lemma in_memory_delete:
  "like_router r0 st \<Longrightarrow> in_memory r0 (vfs_str p) \<Longrightarrow>
   mvfs_delete env p st =
     (case memfs_delete (tree_of (fst st) (vfs_str p)) p of
        Inl e \<Rightarrow> (Inl e, st)
      | Inr fs \<Rightarrow> (Inr (), put_tree (fst st) (vfs_str p) fs, snd st))"
  by (cases st) (simp add: like_router_def in_memory_def mvfs_delete_def vfs_delete_def refused_def tree_of_def put_tree_def
      split: option.splits sum.splits)

lemma in_memory_names:
  "like_router r0 st \<Longrightarrow> in_memory r0 (vfs_str p) \<Longrightarrow>
   mvfs_names env p st = (case memfs_list (tree_of (fst st) (vfs_str p)) p of Inl _ \<Rightarrow> [] | Inr ns \<Rightarrow> ns)"
  by (simp add: like_router_def in_memory_def mvfs_names_def vfs_list_def tree_of_def split: option.splits)

lemma memfs_list_write:
  "\<not> starts_with (vfs_str p) (trim_end_char (CHR ''/'') (vfs_str dir) @ ''/'') \<Longrightarrow>
   memfs_list (memfs_write fs p c) dir = memfs_list fs dir"
proof -
  assume no: "\<not> starts_with (vfs_str p) (trim_end_char (CHR ''/'') (vfs_str dir) @ ''/'')"
  have "filter (\<lambda>k. starts_with k (trim_end_char (CHR ''/'') (vfs_str dir) @ ''/'')) (hm_keys (memfs_write fs p c)) =
      filter (\<lambda>k. starts_with k (trim_end_char (CHR ''/'') (vfs_str dir) @ ''/'')) (hm_keys fs)"
    using no unfolding memfs_write_def hm_insert_def by (induction fs) auto
  then show ?thesis unfolding memfs_list_def Let_def by simp
qed

interpretation mem: memory_region env "like_router r0" "in_memory r0" for env :: "'d memory_env" and r0
proof
  fix st :: "'d mem_vfs" and p c res st'
  assume l: "like_router r0 st" and m: "in_memory r0 (vfs_str p)"
  assume "mvfs_write env p c st = (res, st')"
  with in_memory_write [OF l m] have st': "st' = (put_tree (fst st) (vfs_str p) (memfs_write (tree_of (fst st) (vfs_str p)) p c), snd st)"
    by simp
  then have l': "like_router r0 st'" using l by (simp add: like_router_def)
  show "like_router r0 st' \<and> (res = Inr () \<longrightarrow> mvfs_read env p st' = Inr c) \<and>
      (\<forall>q. in_memory r0 (vfs_str q) \<and> q \<noteq> p \<longrightarrow> mvfs_read env q st' = mvfs_read env q st) \<and>
      (\<forall>dir. in_memory r0 (vfs_str dir) \<and> \<not> starts_with (vfs_str p) (trim_end_char (CHR ''/'') (vfs_str dir) @ ''/'') \<longrightarrow>
         mvfs_names env dir st' = mvfs_names env dir st)"
  proof (intro conjI allI impI)
    show "mvfs_read env p st' = Inr c" using in_memory_read [OF l' m] by (simp add: st' tree_put_tree)
    show "mvfs_read env q st' = mvfs_read env q st" if "in_memory r0 (vfs_str q) \<and> q \<noteq> p" for q
      using that in_memory_read [OF l'] in_memory_read [OF l] by (simp add: st' tree_put_tree) (simp add: tree_of_def split: option.splits)
    show "mvfs_names env dir st' = mvfs_names env dir st"
      if "in_memory r0 (vfs_str dir) \<and> \<not> starts_with (vfs_str p) (trim_end_char (CHR ''/'') (vfs_str dir) @ ''/'')" for dir
      using that in_memory_names [OF l'] in_memory_names [OF l]
      by (simp add: st' tree_put_tree memfs_list_write) (simp add: tree_of_def split: option.splits)
  qed (rule l')
next
  fix st :: "'d mem_vfs" and p res st'
  assume l: "like_router r0 st" and m: "in_memory r0 (vfs_str p)"
  assume "mvfs_delete env p st = (res, st')"
  with in_memory_delete [OF l m, of env] have st': "(case memfs_delete (tree_of (fst st) (vfs_str p)) p of
        Inl e \<Rightarrow> (Inl e, st)
      | Inr fs \<Rightarrow> (Inr (), put_tree (fst st) (vfs_str p) fs, snd st)) = (res, st')"
    by simp
  then have l': "like_router r0 st'" using l by (auto simp: like_router_def split: sum.splits)
  have get: "mvfs_read env q st' = (if q = p then (if res = Inr () then Inl (enoent p) else mvfs_read env p st) else mvfs_read env q st)"
    if q: "in_memory r0 (vfs_str q)" for q
  proof (cases "hm_get (tree_of (fst st) (vfs_str p)) (vfs_str p)")
    case None
    then have "st' = st" "res = Inl (enoent p)" using st' by (simp_all add: memfs_delete_def)
    then show ?thesis by simp
  next
    case (Some v)
    then have st'': "fst st' = put_tree (fst st) (vfs_str p) (hm_remove (vfs_str p) (tree_of (fst st) (vfs_str p)))"
      "res = Inr ()" using st' by (auto simp: memfs_delete_def)
    have route: "mem_route (fst st) (vfs_str q) = mem_route (fst st) (vfs_str p) \<Longrightarrow>
        tree_of (fst st) (vfs_str q) = tree_of (fst st) (vfs_str p)" by (simp add: tree_of_def)
    show ?thesis
      unfolding in_memory_read [OF l' q] in_memory_read [OF l q] st'' tree_put_tree
      using route by (auto simp: memfs_read_def ok_or_def vfs_path.expand)
  qed
  with l' m show "like_router r0 st' \<and> (res = Inr () \<longrightarrow> is_err (mvfs_read env p st')) \<and>
      (\<forall>q. in_memory r0 (vfs_str q) \<and> q \<noteq> p \<longrightarrow> mvfs_read env q st' = mvfs_read env q st)"
    by simp
qed

section \<open>Facts\<close>

lemma semantic_path_inj: "vfs_path_semantic owner agent k = vfs_path_semantic owner agent k' \<longleftrightarrow> k = k'"
  by (simp add: vfs_path_semantic_def)

definition own_tree :: "memory_caller \<Rightarrow> string" where
  "own_tree c = ''/users/'' @ mca_owner c @ ''/memory/'' @ mca_agent_name c @ ''/''"

lemma memory_dir_own: "memory_dir (mca_owner c) (mca_agent_name c) sub = own_tree c @ sub"
  by (simp add: memory_dir_def own_tree_def)

lemma own_paths:
  "starts_with (vfs_path_semantic (mca_owner c) (mca_agent_name c) key) (own_tree c)"
  "starts_with (vfs_path_episodic stamp (mca_owner c) (mca_agent_name c) t i) (own_tree c)"
  "starts_with (preference_path (mca_owner c) (mca_agent_name c)) (own_tree c)"
  by (simp_all add: vfs_path_semantic_def vfs_path_episodic_def preference_path_def memory_dir_own)

lemma first_some_SomeD: "first_some f xs = Some y \<Longrightarrow> \<exists>x\<in>set xs. f x = Some y"
  by (induction xs) (auto split: option.splits)

lemma found_in_own_tree:
  "find_record_by_id env (mca_owner c) (mca_agent_name c) i st = Some path \<Longrightarrow> starts_with path (own_tree c)"
proof -
  assume "find_record_by_id env (mca_owner c) (mca_agent_name c) i st = Some path"
  then obtain dir where "(case list_records env dir st of Inl _ \<Rightarrow> None
      | Inr rs \<Rightarrow> first_some (rebuilt_path env (mca_owner c) (mca_agent_name c) i) rs) = Some path"
    unfolding find_record_by_id_def by (blast dest: first_some_SomeD)
  then obtain rs where "first_some (rebuilt_path env (mca_owner c) (mca_agent_name c) i) rs = Some path"
    by (auto split: sum.splits)
  then obtain r where "rebuilt_path env (mca_owner c) (mca_agent_name c) i r = Some path"
    by (blast dest: first_some_SomeD)
  then show ?thesis by (auto simp: rebuilt_path_def own_paths split: if_splits memory_record_type.splits)
qed

lemma store_fact_ok:
  assumes "tool_store_fact env now uuid params caller st = (Inr j, st')"
  obtains key summary where "param_str params ''key'' = Inr key" "param_str params ''summary'' = Inr summary"
    "write_record env (vfs_path_semantic (mca_owner caller) (mca_agent_name caller) key)
       (fact_record now (new_memory_id uuid) params caller key summary) st = (Inr (), st')"
  using assms by (auto simp: tool_store_fact_def Let_def split: sum.splits if_splits prod.splits)

context memory_region
begin

lemma fact_stored:
  assumes "ok st" and "tool_store_fact env now uuid params caller st = (Inr j, st')"
    and "\<forall>p. starts_with p (own_tree caller) \<longrightarrow> region p"
    and "codec_lawful (my_record env)" and "\<forall>r y. enc (my_record env) r = Inr y \<longrightarrow> utf8_valid (bytes_of_string y)"
    and "param_str params ''key'' = Inr key" and "param_str params ''summary'' = Inr summary"
  shows "tool_get_fact env query caller st' =
     (if param_str query ''key'' = Inr key
      then Inr (fact_json env (fact_record now (new_memory_id uuid) params caller key summary))
      else tool_get_fact env query caller st)"
proof -
  let ?path = "vfs_path_semantic (mca_owner caller) (mca_agent_name caller)"
  from store_fact_ok [OF assms(2)] assms(6,7)
  have w: "write_encoded env (my_record env) (?path key) (fact_record now (new_memory_id uuid) params caller key summary) st = (Inr (), st')"
    by (auto simp: write_record_def)
  have reg: "region (?path k)" for k using assms(3) own_paths(1) by blast
  have same: "read_record env (?path key) st' = Inr (fact_record now (new_memory_id uuid) params caller key summary)"
    unfolding read_record_def using write_read_encoded [OF assms(1) reg w assms(4)] assms(5) by blast
  have other: "read_record env (?path k) st' = read_record env (?path k) st" if "k \<noteq> key" for k
    unfolding read_record_def
    using write_encoded_frame [OF assms(1) reg w] reg that
    by (intro read_encoded_frame [of "?path key"]) (auto simp: semantic_path_inj)
  show ?thesis
  proof (cases "param_str query ''key''")
    case (Inr k)
    with same other [of k] show ?thesis by (auto simp: tool_get_fact_def)
  qed (simp add: tool_get_fact_def)
qed

lemma forget_all_frame:
  assumes "ok st" and "forget_all env caller is st = (res, st')" and "\<forall>p. starts_with p (own_tree caller) \<longrightarrow> region p"
    and "region (vfs_str q)" and "\<not> starts_with (vfs_str q) (own_tree caller)"
  shows "ok st' \<and> mvfs_read env q st' = mvfs_read env q st"
  using assms(1,2)
proof (induction "is" arbitrary: st res)
  case (Cons i "is")
  show ?case
  proof (cases "find_record_by_id env (mca_owner caller) (mca_agent_name caller) i st")
    case None
    obtain res1 st1 where f: "forget_all env caller is st = (res1, st1)" by (rule prod.exhaust)
    with Cons.prems(2) None have "st1 = st'" by (auto split: sum.splits prod.splits)
    with Cons.IH [OF Cons.prems(1)] f show ?thesis by blast
  next
    case (Some path)
    obtain dres st1 where d: "delete_record env path st = (dres, st1)" by (rule prod.exhaust)
    have tree: "starts_with path (own_tree caller)" using found_in_own_tree [OF Some] .
    with assms(3) have "region path" by blast
    from delete_record_frame [OF Cons.prems(1) this d] assms(4,5) tree
    have fr: "ok st1" "mvfs_read env q st1 = mvfs_read env q st" by auto
    obtain res1 st2 where f: "forget_all env caller is st1 = (res1, st2)" by (rule prod.exhaust)
    show ?thesis
    proof (cases dres)
      case (Inl e)
      with Cons.prems(2) Some d have "st' = st1" by simp
      with fr show ?thesis by simp
    next
      case (Inr u)
      with Cons.prems(2) Some d f have "st2 = st'" by (auto split: sum.splits prod.splits)
      with Cons.IH [OF fr(1)] f fr show ?thesis by metis
    qed
  qed
qed simp

lemma dispatch_frame:
  assumes "ok st" and "memory_dispatch env so dl now uuid tool params caller st = Some (res, st')"
    and "\<forall>p. starts_with p (own_tree caller) \<longrightarrow> region p"
    and "region (vfs_str q)" and "\<not> starts_with (vfs_str q) (own_tree caller)"
  shows "mvfs_read env q st' = mvfs_read env q st"
proof -
  have wr: "mvfs_read env q st1 = mvfs_read env q st"
    if "write_encoded env c path r st = (w, st1)" "starts_with path (own_tree caller)" for c path w st1 and r :: 'r
    using write_encoded_frame [OF assms(1) _ that(1)] that(2) assms(3-5) by blast
  from assms(2) consider
      "st' = st" | "tool_log_event env now uuid params caller st = (res, st')"
    | "tool_store_fact env now uuid params caller st = (res, st')"
    | "tool_update_preference env now params caller st = (res, st')"
    | "tool_forget env params caller st = (res, st')"
    by (auto simp: memory_dispatch_def split: if_splits)
  then show ?thesis
  proof cases
    case 2
    then show ?thesis
      by (auto simp: tool_log_event_def Let_def write_record_def own_paths split: sum.splits if_splits prod.splits intro: wr)
  next
    case 3
    then show ?thesis
      by (auto simp: tool_store_fact_def Let_def write_record_def own_paths split: sum.splits if_splits prod.splits intro: wr)
  next
    case 4
    then show ?thesis
      by (auto simp: tool_update_preference_def Let_def write_preference_model_def own_paths
          split: sum.splits if_splits prod.splits intro: wr)
  next
    case 5
    then show ?thesis
      using forget_all_frame [OF assms(1) _ assms(3-5)]
      by (auto simp: tool_forget_def split: sum.splits option.splits prod.splits)
  qed simp
qed

end

section \<open>Garbage collection\<close>

definition collectable :: "'d memory_env \<Rightarrow> datetime \<Rightarrow> 'd mem_vfs \<Rightarrow> string \<Rightarrow> bool" where
  "collectable env cutoff st path \<longleftrightarrow>
     (case read_record env path st of
        Inl _ \<Rightarrow> False | Inr r \<Rightarrow> \<not> mrm_pinned (mr_metadata r) \<and> mrm_created_at (mr_metadata r) < cutoff)"

context memory_region
begin

lemma gc_file_keeps:
  assumes "ok (snd acc)" and "region path" and "region (vfs_str q)" and "\<not> collectable env cutoff (snd acc) (vfs_str q)"
  shows "ok (snd (gc_file env cutoff path acc)) \<and> mvfs_read env q (snd (gc_file env cutoff path acc)) = mvfs_read env q (snd acc)"
proof (cases "snd (gc_file env cutoff path acc) = snd acc")
  case False
  obtain rep st where acc: "acc = (rep, st)" by (rule prod.exhaust)
  from False have col: "collectable env cutoff st path" and st': "snd (gc_file env cutoff path acc) = snd (mvfs_delete env (VfsPath path) st)"
    by (auto simp: gc_file_def acc collectable_def vfs_path_parse_def split: sum.splits if_splits)
  obtain res st' where d: "mvfs_delete env (VfsPath path) st = (res, st')" by (rule prod.exhaust)
  from col assms(4) have "q \<noteq> VfsPath path" by (auto simp: acc)
  with del_ok [OF _ _ d] assms(1-3) show ?thesis unfolding st' by (simp add: d acc)
qed (use assms(1) in simp)

lemma collectable_cong:
  "mvfs_read env (VfsPath path) st' = mvfs_read env (VfsPath path) st \<Longrightarrow>
   collectable env cutoff st' path = collectable env cutoff st path"
  by (simp add: collectable_def read_record_def read_encoded_def parse_path_def vfs_path_parse_def)

lemma gc_files_keep:
  assumes "ok (snd acc)" and "\<And>n. region (dir @ ''/'' @ n)" and "region (vfs_str q)"
    and "\<not> collectable env cutoff (snd acc) (vfs_str q)"
  shows "ok (snd (fold (\<lambda>n. gc_file env cutoff (dir @ ''/'' @ n)) ns acc)) \<and>
     mvfs_read env q (snd (fold (\<lambda>n. gc_file env cutoff (dir @ ''/'' @ n)) ns acc)) = mvfs_read env q (snd acc)"
  using assms(1,4)
proof (induction ns arbitrary: acc)
  case (Cons n ns)
  from gc_file_keeps [OF Cons.prems(1) assms(2) assms(3) Cons.prems(2), of n]
  have k: "ok (snd (gc_file env cutoff (dir @ ''/'' @ n) acc))"
    "mvfs_read env q (snd (gc_file env cutoff (dir @ ''/'' @ n) acc)) = mvfs_read env q (snd acc)" by auto
  have "collectable env cutoff (snd (gc_file env cutoff (dir @ ''/'' @ n) acc)) (vfs_str q) = collectable env cutoff (snd acc) (vfs_str q)"
    by (rule collectable_cong) (simp only: vfs_path.collapse k(2))
  with Cons.prems(2) have "\<not> collectable env cutoff (snd (gc_file env cutoff (dir @ ''/'' @ n) acc)) (vfs_str q)" by simp
  from Cons.IH [OF k(1) this] k(2) show ?case by simp
qed simp

lemma gc_agents_keep:
  assumes "ok (snd acc)" and "\<forall>p. starts_with p ''/users/'' \<longrightarrow> region p" and "region (vfs_str q)"
    and "\<not> collectable env cutoff (snd acc) (vfs_str q)"
  shows "mvfs_read env q (snd (fold (gc_agent env cutoff) agents acc)) = mvfs_read env q (snd acc)"
  using assms(1,4)
proof (induction agents arbitrary: acc)
  case (Cons oa agents)
  have reg: "region (memory_dir (fst oa) (snd oa) ''episodic'' @ ''/'' @ n)" for n
    using assms(2) by (simp add: memory_dir_def)
  have k: "ok (snd (gc_agent env cutoff oa acc)) \<and> mvfs_read env q (snd (gc_agent env cutoff oa acc)) = mvfs_read env q (snd acc)"
  proof (cases "vfs_path_parse (memory_dir (fst oa) (snd oa) ''episodic'')")
    case (Inr p)
    from gc_files_keep [OF Cons.prems(1) reg assms(3) Cons.prems(2)] show ?thesis by (simp add: gc_agent_def Let_def Inr)
  qed (use Cons.prems(1) in \<open>simp add: gc_agent_def Let_def\<close>)
  have "collectable env cutoff (snd (gc_agent env cutoff oa acc)) (vfs_str q) = collectable env cutoff (snd acc) (vfs_str q)"
    by (rule collectable_cong) (simp add: k)
  with Cons.prems(2) have "\<not> collectable env cutoff (snd (gc_agent env cutoff oa acc)) (vfs_str q)" by simp
  with Cons.IH [of "gc_agent env cutoff oa acc"] k show ?case by simp
qed simp

end

section \<open>Properties\<close>

text \<open>Concrete parameters for the witnesses: a codec of one record, a file system in memory.\<close>

definition demo_mem_caller :: "string \<Rightarrow> memory_caller" where
  "demo_mem_caller owner = \<lparr> mca_pid = 1, mca_agent_name = ''a'', mca_owner = owner, mca_session_id = ''s'', mca_granted_tools = [] \<rparr>"

definition demo_fact_params :: json where
  "demo_fact_params = JObj [(''key'', JStr ''k''), (''summary'', JStr ''v'')]"

definition demo_fact :: memory_record where
  "demo_fact = fact_record 0 (new_memory_id ''00000000'') demo_fact_params (demo_mem_caller ''o'') ''k'' ''v''"

definition demo_grant :: memory_grant where
  "demo_grant = approved_grant 0 ''g'' ''h'' ''a'' [mrm_id (mr_metadata demo_fact)] ScopeSession ''o'' ''s'' ''o'' ''a''"

definition demo_memory_env :: "unit memory_env" where
  "demo_memory_env =
     \<lparr> my_os = demo_disk [], my_tools_yaml = (\<lambda>_. []), my_record = one_codec demo_fact,
       my_pref = one_codec (fresh_preferences 0 (demo_mem_caller ''o'')), my_grant = one_codec demo_grant,
       my_status = (\<lambda>_. Inr []), my_stamp = (\<lambda>_. []), my_time = (\<lambda>_. JNull), my_day = (\<lambda>_. []) \<rparr>"

definition demo_search :: "nat search_ops" where
  "demo_search = \<lparr> so_alnum = (\<lambda>_. True), so_lower = id, so_trim = id, so_num = id, so_dec = (\<lambda>m _. m), so_add = (+), so_sub = (-),
     so_mul = (*), so_div = (div), so_ln = id \<rparr>"

lemma users_in_memory: "starts_with p ''/users/'' \<Longrightarrow> in_memory vr_new p"
  by (auto simp: in_memory_def vr_new_def starts_with_iff)

lemma own_in_memory: "starts_with p (own_tree c) \<Longrightarrow> in_memory vr_new p"
  by (rule users_in_memory) (auto simp: own_tree_def starts_with_iff)

lemma like_vr_new: "like_router vr_new (vr_new, d)"
  by (simp add: like_router_def vr_new_def)

lemma demo_store_fact:
  "\<exists>j st'. tool_store_fact demo_memory_env 0 ''00000000'' demo_fact_params (demo_mem_caller ''o'') (vr_new, ()) = (Inr j, st')"
proof -
  let ?path = "vfs_path_semantic ''o'' ''a'' ''k''"
  have path: "vfs_path_parse ?path = Inr (VfsPath ?path)" by (simp add: vfs_path_parse_def vfs_path_semantic_def memory_dir_def)
  have "in_memory vr_new (vfs_str (VfsPath ?path))" by (rule users_in_memory) (simp add: vfs_path_semantic_def memory_dir_def)
  from in_memory_write [OF like_vr_new this, of demo_memory_env] path
  obtain st' where w: "write_record demo_memory_env ?path demo_fact (vr_new, ()) = (Inr (), st')"
    by (simp add: write_record_def write_encoded_def parse_path_def demo_memory_env_def one_codec_def)
  have params: "param_str demo_fact_params ''key'' = Inr ''k''" "param_str demo_fact_params ''summary'' = Inr ''v''" "own_scope demo_fact_params"
    by (simp_all add: param_str_def own_scope_def demo_fact_params_def json_index_def)
  have caller: "mca_owner (demo_mem_caller ''o'') = ''o''" "mca_agent_name (demo_mem_caller ''o'') = ''a''"
    by (simp_all add: demo_mem_caller_def)
  show ?thesis
    by (cases st') (simp add: tool_store_fact_def Let_def params caller parse_path_def path w [unfolded demo_fact_def])
qed





text \<open>
  Garbage collection keeps what it must.  A file whose record is pinned, is not older than the retention period, or is no
  record at all reads the same after the collection, whatever agents were collected.
\<close>

theorem gc_keeps:
  assumes "memory_region env ok region" and "ok st" and "\<forall>p. starts_with p ''/users/'' \<longrightarrow> region p" and "region (vfs_str q)"
    and "\<not> collectable env (now - uint retention_days * nanos_per_day) st (vfs_str q)"
  shows "mvfs_read env q (snd (gc_episodic_records env now agents retention_days st)) = mvfs_read env q st"
  using memory_region.gc_agents_keep [OF assms(1), of "(\<lparr> gc_records_deleted = 0, gc_bytes_freed = 0 \<rparr>, st)"] assms(2-5)
  by (simp add: gc_episodic_records_def)

theorem gc_keeps_witness:
  "mvfs_read demo_memory_env (VfsPath ''/users/o/notes'') (snd (gc_episodic_records demo_memory_env 0 [(''o'', ''a'')] 30 (vr_new, ()))) =
   mvfs_read demo_memory_env (VfsPath ''/users/o/notes'') (vr_new, ())"
proof -
  have m: "in_memory vr_new (vfs_str (VfsPath ''/users/o/notes''))" by (rule users_in_memory) simp
  have "\<not> collectable demo_memory_env (0 - uint (30 :: u32) * nanos_per_day) (vr_new, ()) (vfs_str (VfsPath ''/users/o/notes''))"
    using in_memory_read [OF like_vr_new m, of demo_memory_env]
    by (simp add: collectable_def read_record_def read_encoded_def parse_path_def vfs_path_parse_def memfs_read_def tree_of_def
        mem_route_def vr_new_def ok_or_def)
  from gc_keeps [OF mem.memory_region_axioms like_vr_new _ m this] users_in_memory show ?thesis by blast
qed

section \<open>Grants\<close>

lemma all_some_mem: "all_some f xs = Some ys \<Longrightarrow> x \<in> set xs \<Longrightarrow> \<exists>y\<in>set ys. f x = Some y"
  by (induction xs arbitrary: ys) (auto split: option.splits)

lemma all_some_None: "all_some f xs = None \<longleftrightarrow> (\<exists>x\<in>set xs. f x = None)"
  by (induction xs) (auto split: option.splits)

definition grant_file :: "'d memory_env \<Rightarrow> 'd mem_vfs \<Rightarrow> string \<Rightarrow> memory_grant \<Rightarrow> bool" where
  "grant_file env st agent g \<longleftrightarrow>
     \<not> is_err (vfs_path_parse (session_grant_dir agent)) \<and>
     list_ex (\<lambda>n. ends_with n ''.yaml'' \<and> load_grant env (session_grant_dir agent @ ''/'' @ n) st = Inr g)
       (mvfs_names env (VfsPath (session_grant_dir agent)) st)"

lemma granted_mem:
  assumes "grant_file env st agent g" and "i \<in> set (mgs_records (mg_spec g))"
    and "find_record_by_id env (mgp_owner (mgs_grantor (mg_spec g))) (mgp_agent_name (mgs_grantor (mg_spec g))) i st = Some path"
    and "read_record env path st = Inr r"
  obtains gs where "granted_records env agent st = Inr gs" "(''grant:'' @ mgm_id (mg_metadata g), r) \<in> set gs"
proof -
  from assms(1) obtain n where n: "vfs_path_parse (session_grant_dir agent) = Inr (VfsPath (session_grant_dir agent))"
    "n \<in> set (mvfs_names env (VfsPath (session_grant_dir agent)) st)" "ends_with n ''.yaml''"
    "load_grant env (session_grant_dir agent @ ''/'' @ n) st = Inr g"
    by (auto simp: grant_file_def list_ex_iff vfs_path_parse_def split: if_splits)
  have "(''grant:'' @ mgm_id (mg_metadata g), r) \<in> set (granted_by env st g)"
    unfolding granted_by_def List.map_filter_def using assms(2-4) by force
  with n show thesis by (intro that) (force simp: granted_records_def parse_path_def)+
qed

text \<open>
  A grant reaches every owner.  A session grant lies in a directory named by the agent alone, and retrieving granted
  records compares neither the grantee's owner nor the session nor the expiry: any caller whose agent has that name, of any
  owner and in any session, is given the granted records of the grantor.
\<close>

theorem grant_reaches_every_owner:
  assumes "grant_file env st (mca_agent_name caller) g" and "i \<in> set (mgs_records (mg_spec g))"
    and "find_record_by_id env (mgp_owner (mgs_grantor (mg_spec g))) (mgp_agent_name (mgs_grantor (mg_spec g))) i st = Some path"
    and "read_record env path st = Inr r"
    and "''grants'' \<in> set (str_values (json_index params ''scopes''))"
    and "tool_retrieve env so dl params caller st = Some (Inr j)"
  shows "\<exists>vs. as_array (json_index j ''records'') = Some vs \<and>
     (\<exists>v\<in>set vs. record_to_json env (''grant:'' @ mgm_id (mg_metadata g)) r = Some v)"
proof -
  obtain gs where gs: "granted_records env (mca_agent_name caller) st = Inr gs" "(''grant:'' @ mgm_id (mg_metadata g), r) \<in> set gs"
    by (rule granted_mem [OF assms(1-4)])
  from assms(5,6) gs(1) obtain js gjs where "all_some (\<lambda>(scope, r). record_to_json env scope r) gs = Some gjs"
    "as_array (json_index j ''records'') = Some (js @ gjs)"
    by (auto simp: tool_retrieve_def Let_def json_index_def split: sum.splits option.splits if_splits)
  with all_some_mem [OF this(1) gs(2)] show ?thesis by auto
qed

text \<open>What an approval writes never expires, so pruning keeps it.\<close>

lemma approved_grant_never_expires:
  "\<not> grant_expired t (approved_grant now gid hil target records scope owner session approver grantor)"
  by (simp add: grant_expired_def approved_grant_def memory_grant_new_def)

text \<open>Retrieving panics exactly when a record to show is longer than 200 bytes and its byte 200 is inside a character.\<close>

lemma record_to_json_None:
  "record_to_json env scope r = None \<longleftrightarrow>
     200 < length (mrs_content (mr_spec r)) \<and> utf8_cont (of_char (mrs_content (mr_spec r) ! 200))"
  using slice_to_None [of "mrs_content (mr_spec r)" 200] by (auto simp: record_to_json_def split: option.splits)

lemma retrieve_panics:
  assumes "param_str params ''query'' = Inr query" and "own_records env (case as_array (json_index params ''types'') of
         None \<Rightarrow> [''episodic'', ''semantic''] | Some vs \<Rightarrow> List.map_filter as_str vs) caller st = Inr own"
    and "r \<in> set (bm25_rank so own query (retrieve_limit dl params))"
    and "200 < length (mrs_content (mr_spec r))" and "utf8_cont (of_char (mrs_content (mr_spec r) ! 200))"
  shows "tool_retrieve env so dl params caller st = None"
proof -
  have "record_to_json env ''own'' r = None" using assms(4,5) by (simp add: record_to_json_None)
  with assms(3) have "all_some (record_to_json env ''own'') (bm25_rank so own query (retrieve_limit dl params)) = None"
    by (auto simp: all_some_None)
  with assms(1,2) show ?thesis by (simp add: tool_retrieve_def Let_def)
qed

text \<open>A share request is never granted: it fails for every caller and every argument.\<close>

lemma share_request_fails: "is_err (tool_share_request params caller)"
  by (simp add: tool_share_request_def)

section \<open>The memory context\<close>

lemma contains_str_refl [simp]: "contains_str x x"
  unfolding contains_str_iff by (rule exI [of _ "[]"], rule exI [of _ "[]"]) simp

lemma join_str_part: "x \<in> set xs \<Longrightarrow> contains_str (join_str sep xs) x"
  by (induction sep xs rule: join_str.induct) (auto simp: contains_str_append)

lemma concat_part: "x \<in> set xs \<Longrightarrow> contains_str (concat xs) x"
  by (induction xs) (auto simp: contains_str_append)

text \<open>
  Pinned facts reach the prompt.  When the memory context of an agent is built and the agent has a pinned
  fact, the context is present and contains the fact's key and its first 120 bytes.
\<close>

theorem pinned_fact_in_context:
  assumes "build_memory_context_block env owner agent (Some st) = Some ctx"
    and "\<not> is_err (vfs_path_parse (preference_path owner agent))"
    and "r \<in> set (stored_records env (memory_dir owner agent ''semantic'') st)" and "mrm_pinned (mr_metadata r)"
    and "mrs_key (mr_spec r) = Some key"
  shows "\<exists>block. ctx = Some block \<and> contains_str block (key @ '': '' @ take 120 (mrs_content (mr_spec r)))"
proof -
  let ?line = "bullet @ key @ '': '' @ take 120 (mrs_content (mr_spec r))"
  from assms(1,2) obtain before pinned where p: "pinned_part (stored_records env (memory_dir owner agent ''semantic'') st) = Some pinned"
    and ctx: "ctx = context_of agent (before @ pinned)"
    unfolding build_memory_context_block_def Let_def
    by (auto simp: append_assoc [symmetric] simp del: append_assoc split: sum.splits option.splits)
  let ?pinned = "filter (\<lambda>r. mrm_pinned (mr_metadata r)) (stored_records env (memory_dir owner agent ''semantic'') st)"
  have mem: "r \<in> set ?pinned" using assms(3,4) by simp
  then have ne: "?pinned \<noteq> []" by (metis empty_iff empty_set)
  from p ne obtain ls where ls: "all_some (\<lambda>r. map_option (\<lambda>c. bullet @ unwrap_or (mrm_id (mr_metadata r)) (mrs_key (mr_spec r)) @ '': '' @ c)
      (cut_content r)) ?pinned = Some ls" and pinned: "pinned = [''Pinned facts:'' @ concat ls]"
    unfolding pinned_part_def Let_def by (auto split: option.splits)
  from all_some_mem [OF ls mem] assms(5) obtain c where "bullet @ key @ '': '' @ c \<in> set ls" "cut_content r = Some c" by auto
  then have "?line \<in> set ls" by (auto simp: cut_content_def slice_to_def min_def split: if_splits)
  from concat_part [OF this] have "contains_str (concat ls) (key @ '': '' @ take 120 (mrs_content (mr_spec r)))"
    unfolding contains_str_iff by (metis append.assoc)
  then have "contains_str (''Pinned facts:'' @ concat ls) (key @ '': '' @ take 120 (mrs_content (mr_spec r)))"
    by (rule contains_str_append [OF disjI2])
  moreover have "contains_str (join_str (nl @ nl) (before @ pinned)) (''Pinned facts:'' @ concat ls)"
    by (rule join_str_part) (simp add: pinned)
  ultimately have j: "contains_str (join_str (nl @ nl) (before @ pinned)) (key @ '': '' @ take 120 (mrs_content (mr_spec r)))"
    unfolding contains_str_iff by (metis append.assoc)
  have "before @ pinned \<noteq> []" by (simp add: pinned)
  with j show ?thesis unfolding ctx context_of_def by (simp add: contains_str_append)
qed

end
