(* ===== verification/Agent_Manifest.thy ===== *)
theory Agent_Manifest
  imports Services Memory_Svc
begin

text \<open>
  Agent manifests, \<^verbatim>\<open>agent_manifest/\<close>: the document (\<^verbatim>\<open>schema.rs\<close>), the loader that checks its
  signature (\<^verbatim>\<open>loader.rs\<close>), the resolution of a spawn (\<^verbatim>\<open>resolver.rs\<close>) and the scanner behind the
  catalogue (\<^verbatim>\<open>scanner.rs\<close>); and the crews file, \<^verbatim>\<open>config/crews.rs\<close>.

  Manifests are read from \<^verbatim>\<open>/bin\<close> and \<^verbatim>\<open>/users\<close>, where a read leaves the router as it is.
  The YAML codec, SHA-256 with its hexadecimal form and the three 32-bit floating-point defaults are parameters.

  The lemmas say what a loaded manifest is, which tools a spawn is granted, what the catalogue shows, and that the scanner
  the kernel spawns from, unlike the loader, never looks at a signature.
\<close>

section \<open>The document\<close>

datatype entrypoint_type = LlmLoop

record model_requirements =
  mq_min_context_window :: u32
  mq_required_capabilities :: "string list"
  mq_recommended :: string

definition model_requirements_default :: model_requirements where
  "model_requirements_default =
     \<lparr> mq_min_context_window = 8000, mq_required_capabilities = [''tool_use''], mq_recommended = ''claude-sonnet-4'' \<rparr>"

record manifest_entrypoint =
  men_type :: entrypoint_type
  men_model_requirements :: model_requirements
  men_max_tool_chain :: u32
  men_max_turns_per_goal :: u32

definition manifest_entrypoint_default :: manifest_entrypoint where
  "manifest_entrypoint_default =
     \<lparr> men_type = LlmLoop, men_model_requirements = model_requirements_default, men_max_tool_chain = 5,
       men_max_turns_per_goal = 20 \<rparr>"

record manifest_tools =
  mt_required :: "string list"
  mt_optional :: "string list"

datatype working_context_mode = ContextDynamic | ContextFixed
datatype semantic_store_access = StoreNone | StoreReadOnly | StoreReadWrite

record manifest_memory =
  mme_working_context :: working_context_mode
  mme_episodic_persistence :: bool
  mme_semantic_store_access :: semantic_store_access

definition manifest_memory_default :: manifest_memory where
  "manifest_memory_default =
     \<lparr> mme_working_context = ContextDynamic, mme_episodic_persistence = False, mme_semantic_store_access = StoreNone \<rparr>"

datatype snapshot_mode = SnapDisabled | SnapPerTurn

record manifest_snapshot =
  msn_mode :: snapshot_mode
  msn_restore_on_crash :: bool
  msn_compression_enabled :: bool

definition manifest_snapshot_default :: manifest_snapshot where
  "manifest_snapshot_default = \<lparr> msn_mode = SnapDisabled, msn_restore_on_crash = False, msn_compression_enabled = True \<rparr>"

record 'f manifest_environment =
  mev_temperature :: 'f
  mev_top_p :: 'f
  mev_timeout_sec :: u32

text \<open>\<open>lit m k\<close> is the 32-bit literal \<open>m\<close> shifted by \<open>k\<close> decimal places.\<close>

definition manifest_environment_default :: "(nat \<Rightarrow> nat \<Rightarrow> 'f) \<Rightarrow> 'f manifest_environment" where
  "manifest_environment_default lit = \<lparr> mev_temperature = lit 7 1, mev_top_p = lit 9 1, mev_timeout_sec = 300 \<rparr>"

record 'f manifest_defaults =
  mdf_goal_template :: "string option"
  mdf_environment :: "'f manifest_environment"

record 'f agent_spec =
  asp_system_prompt_path :: "string option"
  asp_requested_capabilities :: "string list"
  asp_entrypoint :: manifest_entrypoint
  asp_tools :: manifest_tools
  asp_memory :: manifest_memory
  asp_snapshot :: manifest_snapshot
  asp_defaults :: "'f manifest_defaults"
  asp_visibility :: "string option"
  asp_scope :: "string option"

definition agent_spec_default :: "(nat \<Rightarrow> nat \<Rightarrow> 'f) \<Rightarrow> 'f agent_spec" where
  "agent_spec_default lit =
     \<lparr> asp_system_prompt_path = None, asp_requested_capabilities = [], asp_entrypoint = manifest_entrypoint_default,
       asp_tools = \<lparr> mt_required = [], mt_optional = [] \<rparr>, asp_memory = manifest_memory_default,
       asp_snapshot = manifest_snapshot_default,
       asp_defaults = \<lparr> mdf_goal_template = None, mdf_environment = manifest_environment_default lit \<rparr>,
       asp_visibility = None, asp_scope = None \<rparr>"

record 'f agent_manifest =
  am_api_version :: string
  am_kind :: string
  am_metadata :: package_metadata
  am_packaging :: packaging_metadata
  am_spec :: "'f agent_spec"

definition vfs_path_system :: "string \<Rightarrow> string \<Rightarrow> string" where
  "vfs_path_system name version = ''/bin/'' @ name @ ''@'' @ version @ ''/manifest.yaml''"

definition vfs_path_user :: "string \<Rightarrow> string \<Rightarrow> string \<Rightarrow> string" where
  "vfs_path_user user name version = ''/users/'' @ user @ ''/bin/'' @ name @ ''@'' @ version @ ''/manifest.yaml''"

section \<open>The loader\<close>

text \<open>The file system the manifests are read from, the codec, and the hexadecimal SHA-256 of a text.\<close>

record ('d, 'f) manifest_env =
  mv_os :: "'d disk_ops"
  mv_tools_yaml :: "string list \<Rightarrow> string"
  mv_router :: vfs_router
  mv_disk :: 'd
  mv_codec :: "'f agent_manifest codec"
  mv_sha256 :: "string \<Rightarrow> string"

definition man_read :: "('d, 'f) manifest_env \<Rightarrow> vfs_path \<Rightarrow> bytes avix_result" where
  "man_read env p = fst (vfs_read (mv_tools_yaml env) (mv_os env) p (mv_router env) (mv_disk env))"

definition man_list :: "('d, 'f) manifest_env \<Rightarrow> vfs_path \<Rightarrow> string list avix_result" where
  "man_list env p = vfs_list (mv_os env) p (mv_router env) (mv_disk env)"

definition man_exists :: "('d, 'f) manifest_env \<Rightarrow> vfs_path \<Rightarrow> bool" where
  "man_exists env p = vfs_exists (mv_os env) p (mv_router env) (mv_disk env)"

text \<open>\<^verbatim>\<open>trim_end_matches\<close> of a non-empty text removes it as often as it ends the string.\<close>

function trim_end_str :: "string \<Rightarrow> string \<Rightarrow> string" where
  "trim_end_str pat s = (if pat \<noteq> [] \<and> ends_with s pat then trim_end_str pat (take (length s - length pat) s) else s)"
  by pat_completeness auto
termination
proof (relation "measure (\<lambda>(_, s). length s)")
  fix pat s :: string
  assume "pat \<noteq> [] \<and> ends_with s pat"
  then have "0 < length pat" "length pat \<le> length s"
    using starts_with_length [of "rev s" "rev pat"] by (simp_all add: ends_with_def)
  then have "length s - length pat < length s" by linarith
  then show "((pat, take (length s - length pat) s), (pat, s)) \<in> measure (\<lambda>(_, s). length s)" by simp
qed simp

declare trim_end_str.simps [simp del]

definition versioned_manifest :: "('d, 'f) manifest_env \<Rightarrow> string \<Rightarrow> string \<Rightarrow> string \<Rightarrow> string option" where
  "versioned_manifest env base name entry =
     (case Syscalls.strip_prefix (name @ ''@'') entry of
        None \<Rightarrow> None
      | Some version \<Rightarrow>
          if version = [] then None
          else (let path = base @ ''/'' @ entry @ ''/manifest.yaml''
                in case vfs_path_parse path of Inl _ \<Rightarrow> None | Inr p \<Rightarrow> if man_exists env p then Some path else None))"

definition find_versioned_manifest :: "('d, 'f) manifest_env \<Rightarrow> string \<Rightarrow> string \<Rightarrow> string option" where
  "find_versioned_manifest env base name =
     (case vfs_path_parse base of
        Inl _ \<Rightarrow> None
      | Inr dir \<Rightarrow> (case man_list env dir of Inl _ \<Rightarrow> None | Inr es \<Rightarrow> first_some (versioned_manifest env base name) es))"

definition manifest_hex :: "'f agent_manifest \<Rightarrow> string" where
  "manifest_hex m = unwrap_or [] (Syscalls.strip_prefix ''sha256:'' (unwrap_or [] (pkm_signature (am_packaging m))))"

definition canonical_manifest :: "'f agent_manifest \<Rightarrow> 'f agent_manifest" where
  "canonical_manifest m = m\<lparr> am_packaging := (am_packaging m)\<lparr> pkm_signature := Some ''sha256:'' \<rparr> \<rparr>"

definition manifest_verify_signature :: "('d, 'f) manifest_env \<Rightarrow> 'f agent_manifest \<Rightarrow> string \<Rightarrow> unit avix_result" where
  "manifest_verify_signature env m path =
     (if manifest_hex m = [] then Inr ()
      else (case enc (mv_codec env) (canonical_manifest m) of
              Inl e \<Rightarrow> Inl (ConfigParse e)
            | Inr yaml \<Rightarrow> if mv_sha256 env yaml \<noteq> manifest_hex m then Inl (ManifestSignatureMismatch path) else Inr ()))"

definition load_from_path :: "('d, 'f) manifest_env \<Rightarrow> string \<Rightarrow> 'f agent_manifest avix_result" where
  "load_from_path env path =
     (case parse_path path of
        Inl e \<Rightarrow> Inl e
      | Inr p \<Rightarrow>
          (case man_read env p of
             Inl _ \<Rightarrow> Inl (ManifestNotFound path)
           | Inr raw \<Rightarrow>
               if \<not> utf8_valid raw then Inl (ConfigParse utf8_error)
               else (case dec (mv_codec env) (string_of_bytes raw) of
                       Inl e \<Rightarrow> Inl (ConfigParse e)
                     | Inr m \<Rightarrow>
                         if am_kind m \<noteq> ''Agent'' then Inl (ManifestKindMismatch ''Agent'' (am_kind m))
                         else (case manifest_verify_signature env m path of Inl e \<Rightarrow> Inl e | Inr _ \<Rightarrow> Inr m))))"

definition user_bin :: "string \<Rightarrow> string" where
  "user_bin user = ''/users/'' @ user @ ''/bin''"

definition load_with_dir :: "('d, 'f) manifest_env \<Rightarrow> string \<Rightarrow> string \<Rightarrow> ('f agent_manifest \<times> string) avix_result" where
  "load_with_dir env name user =
     (case (case find_versioned_manifest env ''/bin'' name of
              Some path \<Rightarrow> Some path | None \<Rightarrow> find_versioned_manifest env (user_bin user) name) of
        None \<Rightarrow> Inl (ManifestNotFound (''/bin/'' @ name @ ''/manifest.yaml''))
      | Some path \<Rightarrow> (case load_from_path env path of
            Inl e \<Rightarrow> Inl e | Inr m \<Rightarrow> Inr (m, trim_end_str ''/manifest.yaml'' path)))"

definition manifest_load :: "('d, 'f) manifest_env \<Rightarrow> string \<Rightarrow> string \<Rightarrow> 'f agent_manifest avix_result" where
  "manifest_load env name user = (case load_with_dir env name user of Inl e \<Rightarrow> Inl e | Inr (m, _) \<Rightarrow> Inr m)"

section \<open>The resolution of a spawn\<close>

record user_tool_permissions =
  utp_allowed_tools :: "string list"
  utp_denied_tools :: "string list"

definition always_granted :: "string list" where
  "always_granted = [''cap/request-tool'', ''cap/escalate'', ''cap/list'', ''job/watch'']"

definition tool_permitted :: "user_tool_permissions \<Rightarrow> string \<Rightarrow> bool" where
  "tool_permitted perms t \<longleftrightarrow> t \<in> set (utp_allowed_tools perms) \<and> t \<notin> set (utp_denied_tools perms)"

fun grant_required :: "user_tool_permissions \<Rightarrow> string \<Rightarrow> string list \<Rightarrow> string list avix_result" where
  "grant_required perms agent [] = Inr []"
| "grant_required perms agent (t # ts) =
     (if tool_permitted perms t
      then (case grant_required perms agent ts of Inl e \<Rightarrow> Inl e | Inr gs \<Rightarrow> Inr (t # gs))
      else Inl (RequiredToolDenied t agent))"

definition push_new :: "string \<Rightarrow> string list \<Rightarrow> string list" where
  "push_new t gs = (if t \<in> set gs then gs else gs @ [t])"

definition resolve_tool_grants :: "manifest_tools \<Rightarrow> user_tool_permissions \<Rightarrow> string \<Rightarrow> string list avix_result" where
  "resolve_tool_grants tools perms agent =
     (case grant_required perms agent (mt_required tools) of
        Inl e \<Rightarrow> Inl e
      | Inr gs \<Rightarrow> Inr (fold push_new always_granted (fold push_new (filter (tool_permitted perms) (mt_optional tools)) gs)))"

definition validate_model :: "string \<Rightarrow> model_requirements \<Rightarrow> unit avix_result" where
  "validate_model model req = (if model = [] then Inl (ModelRequirementsNotMet ''selected model name is empty'') else Inr ())"

definition goal_render :: "string \<Rightarrow> (string, string) hmap \<Rightarrow> string" where
  "goal_render template vars = foldl (\<lambda>res (k, v). str_replace (''{{'' @ k @ ''}}'') v res) template vars"

record 'f resolved_spawn =
  rsp_manifest :: "'f agent_manifest"
  rsp_selected_model :: string
  rsp_granted_tools :: "string list"
  rsp_system_prompt :: string
  rsp_rendered_goal :: string

definition load_system_prompt :: "('d, 'f) manifest_env \<Rightarrow> 'f agent_manifest \<Rightarrow> string \<Rightarrow> string" where
  "load_system_prompt env m pkg_dir =
     (case asp_system_prompt_path (am_spec m) of
        None \<Rightarrow> []
      | Some rel \<Rightarrow>
          (case vfs_path_parse (pkg_dir @ ''/'' @ rel) of
             Inl _ \<Rightarrow> []
           | Inr p \<Rightarrow> (case man_read env p of Inl _ \<Rightarrow> [] | Inr bs \<Rightarrow> string_of_bytes (utf8_lossy bs))))"

definition resolve_spawn ::
  "('d, 'f) manifest_env \<Rightarrow> string \<Rightarrow> string \<Rightarrow> string \<Rightarrow> string \<Rightarrow> (string, string) hmap \<Rightarrow> user_tool_permissions \<Rightarrow>
   'f resolved_spawn avix_result" where
  "resolve_spawn env agent user goal model vars perms =
     (case load_with_dir env agent user of
        Inl e \<Rightarrow> Inl e
      | Inr (m, pkg_dir) \<Rightarrow>
          (case validate_model model (men_model_requirements (asp_entrypoint (am_spec m))) of
             Inl e \<Rightarrow> Inl e
           | Inr _ \<Rightarrow>
               (case resolve_tool_grants (asp_tools (am_spec m)) perms agent of
                  Inl e \<Rightarrow> Inl e
                | Inr granted \<Rightarrow>
                    Inr \<lparr> rsp_manifest = m, rsp_selected_model = model, rsp_granted_tools = granted,
                      rsp_system_prompt = load_system_prompt env m pkg_dir,
                      rsp_rendered_goal = (case mdf_goal_template (asp_defaults (am_spec m)) of
                         Some tmpl \<Rightarrow> goal_render tmpl vars | None \<Rightarrow> goal) \<rparr>)))"

section \<open>The scanner\<close>

datatype agent_scope = ScopeSystem | ScopeUser

record agent_manifest_summary =
  ams_name :: string
  ams_version :: string
  ams_description :: string
  ams_author :: string
  ams_path :: string
  ams_scope :: agent_scope

text \<open>A manifest that can be read, decoded and is of the right kind; no signature is looked at.\<close>

definition scanned_manifest :: "('d, 'f) manifest_env \<Rightarrow> string \<Rightarrow> 'f agent_manifest option" where
  "scanned_manifest env path =
     (case vfs_path_parse path of
        Inl _ \<Rightarrow> None
      | Inr p \<Rightarrow>
          (case man_read env p of
             Inl _ \<Rightarrow> None
           | Inr raw \<Rightarrow>
               if \<not> utf8_valid raw then None
               else (case dec (mv_codec env) (string_of_bytes raw) of
                       Inl _ \<Rightarrow> None | Inr m \<Rightarrow> if am_kind m \<noteq> ''Agent'' then None else Some m)))"

definition entry_path :: "string \<Rightarrow> string \<Rightarrow> string" where
  "entry_path dir entry = dir @ ''/'' @ entry @ ''/manifest.yaml''"

definition summary_of :: "agent_scope \<Rightarrow> string \<Rightarrow> 'f agent_manifest \<Rightarrow> agent_manifest_summary" where
  "summary_of scope path m =
     \<lparr> ams_name = mm_name (am_metadata m), ams_version = mm_version (am_metadata m),
       ams_description = mm_description (am_metadata m), ams_author = mm_author (am_metadata m), ams_path = path, ams_scope = scope \<rparr>"

definition dir_entries :: "('d, 'f) manifest_env \<Rightarrow> string \<Rightarrow> string list" where
  "dir_entries env dir =
     (case vfs_path_parse dir of Inl _ \<Rightarrow> [] | Inr p \<Rightarrow> (case man_list env p of Inl _ \<Rightarrow> [] | Inr es \<Rightarrow> es))"

definition scan_dir :: "('d, 'f) manifest_env \<Rightarrow> string \<Rightarrow> agent_scope \<Rightarrow> agent_manifest_summary list" where
  "scan_dir env dir scope =
     List.map_filter (\<lambda>entry. if starts_with entry ''.'' then None
         else map_option (summary_of scope (entry_path dir entry)) (scanned_manifest env (entry_path dir entry)))
       (dir_entries env dir)"

definition manifest_scan :: "('d, 'f) manifest_env \<Rightarrow> string \<Rightarrow> agent_manifest_summary list" where
  "manifest_scan env user =
     (let sys = scan_dir env ''/bin'' ScopeSystem
      in sys @ filter (\<lambda>s. ams_name s \<notin> set (map ams_name sys)) (scan_dir env (user_bin user) ScopeUser))"

fun add_unseen :: "agent_manifest_summary list \<Rightarrow> string list \<times> agent_manifest_summary list \<Rightarrow> string list \<times> agent_manifest_summary list" where
  "add_unseen [] acc = acc"
| "add_unseen (e # es) (seen, res) =
     (if ams_name e \<in> set seen then add_unseen es (seen, res) else add_unseen es (ams_name e # seen, res @ [e]))"

definition manifest_scan_all :: "('d, 'f) manifest_env \<Rightarrow> agent_manifest_summary list" where
  "manifest_scan_all env =
     (let sys = scan_dir env ''/bin'' ScopeSystem
      in snd (fold (\<lambda>user acc. if starts_with user ''.'' then acc else add_unseen (scan_dir env (user_bin user) ScopeUser) acc)
                (dir_entries env ''/users'') (map ams_name sys, sys)))"

definition get_manifest_from_dir :: "('d, 'f) manifest_env \<Rightarrow> string \<Rightarrow> string \<Rightarrow> 'f agent_manifest option" where
  "get_manifest_from_dir env dir name =
     first_some (\<lambda>entry. if starts_with entry ''.'' \<or> \<not> starts_with entry (name @ ''@'') then None
         else (case scanned_manifest env (entry_path dir entry) of
                 None \<Rightarrow> None | Some m \<Rightarrow> if mm_name (am_metadata m) = name then Some m else None))
       (dir_entries env dir)"

definition get_manifest :: "('d, 'f) manifest_env \<Rightarrow> string \<Rightarrow> string \<Rightarrow> 'f agent_manifest option" where
  "get_manifest env name user =
     (case get_manifest_from_dir env ''/bin'' name of Some m \<Rightarrow> Some m | None \<Rightarrow> get_manifest_from_dir env (user_bin user) name)"

section \<open>The crews file\<close>

datatype crew_member = MemberUser string | MemberAgent string | MemberWildcard

fun matches_user :: "crew_member \<Rightarrow> string \<Rightarrow> bool" where
  "matches_user (MemberUser u) name = (u = name)"
| "matches_user MemberWildcard name = True"
| "matches_user (MemberAgent _) name = False"

fun matches_agent :: "crew_member \<Rightarrow> string \<Rightarrow> bool" where
  "matches_agent (MemberAgent t) tmpl = (t = tmpl)"
| "matches_agent MemberWildcard tmpl = True"
| "matches_agent (MemberUser _) tmpl = False"

fun crew_member_print :: "crew_member \<Rightarrow> string" where
  "crew_member_print MemberWildcard = ''*''"
| "crew_member_print (MemberUser u) = ''user:'' @ u"
| "crew_member_print (MemberAgent t) = ''agent:'' @ t"

definition crew_member_parse :: "string \<Rightarrow> crew_member" where
  "crew_member_parse s =
     (if s = ''*'' then MemberWildcard
      else if starts_with s ''user:'' then MemberUser (drop 5 s)
      else if starts_with s ''agent:'' then MemberAgent (drop 6 s)
      else MemberUser s)"

datatype agent_inheritance = InheritSpawn | InheritExplicit | InheritNever
datatype pipe_policy = AllowIntraCrew | RequireRequest | DenyPipes

record crew =
  cr_name :: string
  cr_cid :: u32
  cr_description :: "string option"
  cr_members :: "crew_member list"
  cr_agent_inheritance :: agent_inheritance
  cr_allowed_tools :: "string list"
  cr_denied_tools :: "string list"
  cr_shared_paths :: "string list"
  cr_pipe_policy :: pipe_policy

definition contains_user :: "crew \<Rightarrow> string \<Rightarrow> bool" where
  "contains_user c name = list_ex (\<lambda>m. matches_user m name) (cr_members c)"

definition contains_agent :: "crew \<Rightarrow> string \<Rightarrow> bool" where
  "contains_agent c tmpl = list_ex (\<lambda>m. matches_agent m tmpl) (cr_members c)"

record crews_config =
  cw_api_version :: string
  cw_kind :: string
  cw_last_updated :: string
  cw_crews :: "crew list"

definition find_crew :: "crews_config \<Rightarrow> string \<Rightarrow> crew option" where
  "find_crew cfg name = List.find (\<lambda>c. cr_name c = name) (cw_crews cfg)"

definition crews_for_user :: "crews_config \<Rightarrow> string \<Rightarrow> crew list" where
  "crews_for_user cfg name = filter (\<lambda>c. contains_user c name) (cw_crews cfg)"

definition crews_for_agent :: "crews_config \<Rightarrow> string \<Rightarrow> crew list" where
  "crews_for_agent cfg tmpl = filter (\<lambda>c. contains_agent c tmpl) (cw_crews cfg)"

definition shared_prefix :: "crew \<Rightarrow> string" where
  "shared_prefix c = ''/crews/'' @ cr_name c @ ''/shared/''"

definition stray_path :: "crew \<Rightarrow> string option" where
  "stray_path c = List.find (\<lambda>p. \<not> starts_with p (shared_prefix c)) (cr_shared_paths c)"

fun validate_crews :: "string list \<Rightarrow> u32 list \<Rightarrow> crew list \<Rightarrow> unit avix_result" where
  "validate_crews names cids [] = Inr ()"
| "validate_crews names cids (c # cs) =
     (if cr_name c \<in> set names then Inl (ConfigParse (''duplicate crew name: '' @ cr_name c))
      else if cr_cid c \<in> set cids then Inl (ConfigParse (''duplicate cid: '' @ show_word (cr_cid c)))
      else (case stray_path c of
              Some p \<Rightarrow> Inl (ConfigParse (''crew '' @ quoted (cr_name c) @ '' sharedPaths entry '' @ quoted p @ '' must be under '' @
                quoted (shared_prefix c)))
            | None \<Rightarrow> validate_crews (cr_name c # names) (cr_cid c # cids) cs))"

definition crews_from_str :: "(string \<Rightarrow> string + crews_config) \<Rightarrow> string \<Rightarrow> crews_config avix_result" where
  "crews_from_str yaml s =
     (case yaml s of
        Inl e \<Rightarrow> Inl (ConfigParse e)
      | Inr cfg \<Rightarrow> (case validate_crews [] [] (cw_crews cfg) of Inl e \<Rightarrow> Inl e | Inr _ \<Rightarrow> Inr cfg))"

section \<open>What a loaded manifest is\<close>

text \<open>What the signature check accepts: no signature, an empty one, or the hash of the manifest with its signature emptied.\<close>

definition signature_accepted :: "('d, 'f) manifest_env \<Rightarrow> 'f agent_manifest \<Rightarrow> bool" where
  "signature_accepted env m \<longleftrightarrow>
     manifest_hex m = [] \<or> (case enc (mv_codec env) (canonical_manifest m) of Inl _ \<Rightarrow> False | Inr y \<Rightarrow> mv_sha256 env y = manifest_hex m)"

lemma verify_signature_iff: "manifest_verify_signature env m path = Inr () \<longleftrightarrow> signature_accepted env m"
  by (auto simp: manifest_verify_signature_def signature_accepted_def split: sum.splits)

lemma load_from_path_iff:
  "load_from_path env path = Inr m \<longleftrightarrow> scanned_manifest env path = Some m \<and> signature_accepted env m"
  using verify_signature_iff [of env m path]
  by (auto simp: load_from_path_def scanned_manifest_def parse_path_def split: sum.splits if_splits)

lemma find_versioned_path:
  "find_versioned_manifest env base name = Some path \<Longrightarrow>
   \<exists>version. version \<noteq> [] \<and> path = base @ ''/'' @ name @ ''@'' @ version @ ''/manifest.yaml''"
proof -
  assume "find_versioned_manifest env base name = Some path"
  then obtain es where "first_some (versioned_manifest env base name) es = Some path"
    by (auto simp: find_versioned_manifest_def split: sum.splits)
  then obtain e where e: "versioned_manifest env base name e = Some path" by (blast dest: first_some_SomeD)
  then obtain v where v: "Syscalls.strip_prefix (name @ ''@'') e = Some v" "v \<noteq> []" "path = base @ ''/'' @ e @ ''/manifest.yaml''"
    by (auto simp: versioned_manifest_def Let_def split: option.splits if_splits sum.splits)
  then have "e = (name @ ''@'') @ v" by (auto simp: Syscalls.strip_prefix_def starts_with_iff split: if_splits)
  with v(2,3) show ?thesis by auto
qed


text \<open>The kernel takes the capabilities of a new agent from the scanner, not from the loader.\<close>

lemma first_some_single: "first_some f [x] = f x"
  by (simp split: option.splits)

text \<open>
  Signatures are not checked at spawn.  Let \<^verbatim>\<open>/bin\<close> hold one directory of an agent, whose manifest bears a signature
  that is not the hash of its content.  The loader refuses it as a mismatch, and the scanner, from which the kernel
  resolves the capabilities of a new agent, returns it.
\<close>

theorem tampered_manifest_spawned:
  assumes "dir_entries env ''/bin'' = [name @ ''@'' @ version]" and "version \<noteq> []" and "\<not> starts_with (name @ ''@'') ''.''"
    and "scanned_manifest env (entry_path ''/bin'' (name @ ''@'' @ version)) = Some m" and "mm_name (am_metadata m) = name"
    and "man_exists env (VfsPath (entry_path ''/bin'' (name @ ''@'' @ version)))"
    and "manifest_hex m \<noteq> []" and "enc (mv_codec env) (canonical_manifest m) = Inr y" and "mv_sha256 env y \<noteq> manifest_hex m"
  shows "load_with_dir env name user = Inl (ManifestSignatureMismatch (entry_path ''/bin'' (name @ ''@'' @ version))) \<and>
     get_manifest env name user = Some m"
proof -
  let ?e = "name @ ''@'' @ version"
  let ?path = "entry_path ''/bin'' ?e"
  have parse: "vfs_path_parse ?path = Inr (VfsPath ?path)"
    using assms(4) by (auto simp: scanned_manifest_def vfs_path_parse_def split: if_splits)
  have "vfs_path_parse ''/bin'' = Inr (VfsPath ''/bin'')" by (simp add: vfs_path_parse_def)
  with assms(1) have list: "man_list env (VfsPath ''/bin'') = Inr [?e]" by (auto simp: dir_entries_def split: sum.splits)
  have strip: "Syscalls.strip_prefix (name @ ''@'') ?e = Some version"
    using starts_with_append [of "name @ ''@''" version] by (simp add: Syscalls.strip_prefix_def)
  have "find_versioned_manifest env ''/bin'' name = Some ?path"
    using list strip assms(2,6) parse
    by (simp add: find_versioned_manifest_def vfs_path_parse_def versioned_manifest_def entry_path_def)
  moreover have "load_from_path env ?path = Inl (ManifestSignatureMismatch ?path)"
    using assms(4,7-9) parse
    by (auto simp: load_from_path_def scanned_manifest_def parse_path_def manifest_verify_signature_def split: sum.splits if_splits)
  moreover have "\<not> starts_with ?e ''.''" using assms(3) by (cases name) auto
  then have "get_manifest_from_dir env ''/bin'' name = Some m"
    using assms(1,4,5) starts_with_append [of "name @ ''@''" version] by (simp add: get_manifest_from_dir_def)
  ultimately show ?thesis by (simp add: load_with_dir_def get_manifest_def)
qed

definition demo_manifest :: "rat agent_manifest" where
  "demo_manifest =
     \<lparr> am_api_version = ''avix/v1'', am_kind = ''Agent'',
       am_metadata = \<lparr> mm_name = ''a'', mm_version = ''1'', mm_description = [], mm_author = [], mm_license = None, mm_tags = [], mm_created_at = None \<rparr>,
       am_packaging = \<lparr> pkm_source = None, pkm_signature = Some ''sha256:00'' \<rparr>, am_spec = agent_spec_default (\<lambda>m k. rat_of_nat m / 10 ^ k) \<rparr>"

definition demo_manifest_env :: "(unit, rat) manifest_env" where
  "demo_manifest_env =
     \<lparr> mv_os = demo_disk [], mv_tools_yaml = (\<lambda>_. []), mv_router = vr_new\<lparr> vr_default := [(''/bin/a@1/manifest.yaml'', [])] \<rparr>, mv_disk = (),
       mv_codec = \<lparr> enc = (\<lambda>_. Inr []), dec = (\<lambda>_. Inr demo_manifest) \<rparr>, mv_sha256 = (\<lambda>_. ''ff'') \<rparr>"

definition demo_signed_env :: "(unit, rat) manifest_env" where
  "demo_signed_env = demo_manifest_env\<lparr> mv_sha256 := (\<lambda>_. ''00'') \<rparr>"


section \<open>What a spawn is granted\<close>

lemma set_push_new: "set (fold push_new ts gs) = set gs \<union> set ts"
  by (induction ts arbitrary: gs) (auto simp: push_new_def)

lemma grant_required_cases:
  "grant_required perms agent ts =
     (case List.find (\<lambda>t. \<not> tool_permitted perms t) ts of Some t \<Rightarrow> Inl (RequiredToolDenied t agent) | None \<Rightarrow> Inr ts)"
  by (induction ts) (auto split: option.splits)

text \<open>
  Granted tools.  The resolution of an agent's tools fails exactly when some required tool is not permitted to
  the user, naming the first such tool; otherwise it grants exactly the required tools, the permitted optional
  ones and the four tools that are always granted, even when the user is denied them.
\<close>

theorem granted_tools_exact:
  "case resolve_tool_grants tools perms agent of
     Inl e \<Rightarrow> \<exists>t. List.find (\<lambda>t. \<not> tool_permitted perms t) (mt_required tools) = Some t \<and> e = RequiredToolDenied t agent
   | Inr gs \<Rightarrow> list_all (tool_permitted perms) (mt_required tools) \<and>
       set gs = set (mt_required tools) \<union> set (filter (tool_permitted perms) (mt_optional tools)) \<union> set always_granted"
  by (auto simp: resolve_tool_grants_def grant_required_cases set_push_new find_None_iff list_all_iff split: option.splits)

text \<open>A goal template replaces the goal: the goal passed to the spawn is not used.\<close>

lemma goal_template_replaces_goal:
  assumes "resolve_spawn env agent user goal model vars perms = Inr r" and "mdf_goal_template (asp_defaults (am_spec (rsp_manifest r))) = Some tmpl"
  shows "resolve_spawn env agent user goal' model vars perms = Inr r"
  using assms by (auto simp: resolve_spawn_def split: sum.splits)

section \<open>The catalogue\<close>

lemma add_unseen_inv:
  assumes "set (map ams_name res) = set seen" and "distinct (map ams_name (drop k res))"
    and "set (map ams_name (take k res)) \<inter> set (map ams_name (drop k res)) = {}" and "k \<le> length res"
    and "add_unseen es (seen, res) = (seen', res')"
  shows "set (map ams_name res') = set seen' \<and> distinct (map ams_name (drop k res')) \<and>
     set (map ams_name (take k res')) \<inter> set (map ams_name (drop k res')) = {} \<and> k \<le> length res' \<and> take k res' = take k res \<and>
     set seen' = set seen \<union> ams_name ` set es"
  using assms
proof (induction es arbitrary: seen res)
  case (Cons e es)
  show ?case
  proof (cases "ams_name e \<in> set seen")
    case True
    with Cons.prems(5) have "add_unseen es (seen, res) = (seen', res')" by simp
    note ih = Cons.IH [OF Cons.prems(1-4) this]
    have eq: "set seen \<union> ams_name ` set (e # es) = set seen \<union> ams_name ` set es" using True by auto
    show ?thesis unfolding eq by (rule ih)
  next
    case False
    have names: "set (map ams_name res) = set (map ams_name (take k res)) \<union> set (map ams_name (drop k res))"
      by (metis append_take_drop_id map_append set_append)
    with False Cons.prems(1) have fresh: "ams_name e \<notin> set (map ams_name (take k res))" "ams_name e \<notin> set (map ams_name (drop k res))"
      by auto
    from False Cons.prems(5) have step: "add_unseen es (ams_name e # seen, res @ [e]) = (seen', res')" by simp
    have "set (map ams_name (res @ [e])) = set (ams_name e # seen)" using Cons.prems(1) by auto
    moreover have "distinct (map ams_name (drop k (res @ [e])))" using Cons.prems(2,4) fresh(2) by simp
    moreover have "set (map ams_name (take k (res @ [e]))) \<inter> set (map ams_name (drop k (res @ [e]))) = {}"
      using Cons.prems(3,4) fresh(1) by auto
    ultimately have ih: "set (map ams_name res') = set seen' \<and> distinct (map ams_name (drop k res')) \<and>
       set (map ams_name (take k res')) \<inter> set (map ams_name (drop k res')) = {} \<and> k \<le> length res' \<and> take k res' = take k (res @ [e]) \<and>
       set seen' = set (ams_name e # seen) \<union> ams_name ` set es"
      using Cons.prems(4) step by (intro Cons.IH) auto
    have eq: "take k (res @ [e]) = take k res" "set (ams_name e # seen) \<union> ams_name ` set es = set seen \<union> ams_name ` set (e # es)"
      using Cons.prems(4) by auto
    show ?thesis using ih unfolding eq .
  qed
qed auto

definition visible_users :: "('d, 'f) manifest_env \<Rightarrow> string list" where
  "visible_users env = filter (\<lambda>u. \<not> starts_with u ''.'') (dir_entries env ''/users'')"

text \<open>
  The administrator's catalogue: the agents of \<^verbatim>\<open>/bin\<close> first, then one agent for every further name that some
  user's directory has, and no other.
\<close>

lemma scan_all_exact:
  fixes env :: "('d, 'f) manifest_env"
  defines "sys \<equiv> scan_dir env ''/bin'' ScopeSystem" and "r \<equiv> manifest_scan_all env"
  shows "take (length sys) r = sys \<and> distinct (map ams_name (drop (length sys) r)) \<and>
     set (map ams_name sys) \<inter> set (map ams_name (drop (length sys) r)) = {} \<and>
     set (map ams_name r) = set (map ams_name sys) \<union> (\<Union>u\<in>set (visible_users env). ams_name ` set (scan_dir env (user_bin u) ScopeUser))"
proof -
  define step where "step = (\<lambda>user acc. if starts_with user ''.'' then acc else add_unseen (scan_dir env (user_bin user) ScopeUser) acc)"
  have "take (length sys) res' = sys \<and> distinct (map ams_name (drop (length sys) res')) \<and>
      set (map ams_name sys) \<inter> set (map ams_name (drop (length sys) res')) = {} \<and> set (map ams_name res') = set seen' \<and>
      length sys \<le> length res' \<and>
      set seen' = set seen \<union> (\<Union>u\<in>set (filter (\<lambda>u. \<not> starts_with u ''.'') us). ams_name ` set (scan_dir env (user_bin u) ScopeUser))"
    if "take (length sys) res = sys" "distinct (map ams_name (drop (length sys) res))" "length sys \<le> length res"
      "set (map ams_name sys) \<inter> set (map ams_name (drop (length sys) res)) = {}" "set (map ams_name res) = set seen"
      "fold step us (seen, res) = (seen', res')" for us seen res seen' res'
    using that
  proof (induction us arbitrary: seen res)
    case (Cons u us)
    obtain seen1 res1 where s1: "step u (seen, res) = (seen1, res1)" by (rule prod.exhaust)
    have one: "set (map ams_name res1) = set seen1 \<and> distinct (map ams_name (drop (length sys) res1)) \<and>
        set (map ams_name sys) \<inter> set (map ams_name (drop (length sys) res1)) = {} \<and> length sys \<le> length res1 \<and>
        take (length sys) res1 = sys \<and>
        set seen1 = set seen \<union> (if starts_with u ''.'' then {} else ams_name ` set (scan_dir env (user_bin u) ScopeUser))"
    proof (cases "starts_with u ''.''")
      case False
      then have "add_unseen (scan_dir env (user_bin u) ScopeUser) (seen, res) = (seen1, res1)" using s1 by (simp add: step_def)
      note h = add_unseen_inv [OF Cons.prems(5,2) _ Cons.prems(3) this, unfolded Cons.prems(1), OF Cons.prems(4)]
      then have t: "take (length sys) res1 = sys" by simp
      from h False show ?thesis unfolding t by (simp only: if_False simp_thms)
    qed (use s1 Cons.prems in \<open>simp add: step_def\<close>)
    from Cons.prems(6) s1 have "fold step us (seen1, res1) = (seen', res')" by simp
    from Cons.IH [OF _ _ _ _ _ this] one show ?case by (simp add: Un_assoc)
  qed simp
  from this [of sys "map ams_name sys" "dir_entries env ''/users''" "fst (fold step (dir_entries env ''/users'') (map ams_name sys, sys))" r]
  show ?thesis
    unfolding r_def manifest_scan_all_def Let_def sys_def [symmetric] step_def [symmetric] visible_users_def by simp
qed

section \<open>Crews\<close>

lemma crew_member_roundtrip: "crew_member_parse (crew_member_print m) = m"
  by (cases m) (simp_all add: crew_member_parse_def)

lemma stray_path_None: "stray_path c = None \<longleftrightarrow> (\<forall>p\<in>set (cr_shared_paths c). starts_with p (shared_prefix c))"
  by (auto simp: stray_path_def find_None_iff)

lemma validate_crews_ok:
  "validate_crews names cids cs = Inr () \<longleftrightarrow>
     distinct (map cr_name cs) \<and> set (map cr_name cs) \<inter> set names = {} \<and>
     distinct (map cr_cid cs) \<and> set (map cr_cid cs) \<inter> set cids = {} \<and>
     (\<forall>c\<in>set cs. \<forall>p\<in>set (cr_shared_paths c). starts_with p (shared_prefix c))"
proof (induction names cids cs rule: validate_crews.induct)
  case (2 names cids c cs)
  then show ?case using stray_path_None [of c] by (cases "stray_path c") auto
qed simp

text \<open>The check of a shared path compares the text: a path that climbs out of the directory passes.\<close>

lemma climbing_path_accepted:
  "stray_path (c\<lparr> cr_shared_paths := [shared_prefix c @ ''../../../etc'' ] \<rparr>) = None"
  by (simp add: stray_path_def shared_prefix_def starts_with_iff)

end
