(* ===== verification/Snapshot_Restore.thy ===== *)
theory Snapshot_Restore
  imports Executor_Loop Kernel_Ipc Pipes
begin

text \<open>
  Restoring an executor from a snapshot: \<^verbatim>\<open>restore_from_snapshot\<close> of
  \<^verbatim>\<open>src/crates/avix-core/src/executor/runtime_executor/dispatch_manager.rs\<close>, over the envelope of \<open>Snapshot_File\<close>
  and the executor of \<open>Executor_State\<close>.  \<open>tyaml\<close> prints the generated tree below \<^verbatim>\<open>/tools\<close>, which the file system
  may produce on a read.
\<close>

record restore_result =
  rr_snapshot_name :: string
  rr_agent_name :: string
  rr_reissued_requests :: "string list"
  rr_reconnected_pipes :: "string list"
  rr_sigpipe_pipes :: "string list"

definition restored_message :: "snapshot_file \<Rightarrow> string" where
  "restored_message f =
     ''[Restored from snapshot '' @ squoted (sm_name (sf_metadata f)) @ '']'' @ nl @ nl @ ''Context at capture:'' @ nl @
     ssp_context_summary (sf_spec f)"

definition apply_snapshot ::
  "('d, 'k, 's) exec_env \<Rightarrow> snapshot_file \<Rightarrow> ('d, 'k, 's) executor \<Rightarrow> restore_result \<times> ('d, 'k, 's) executor" where
  "apply_snapshot env f ex =
     (let tok = test_token (xe_now env (ex_draws ex)) (xe_now env (Suc (ex_draws ex))) (sne_granted_tools (ssp_environment (sf_spec f)));
          ex1 = draw (draw ex)\<lparr> ex_token := tok, ex_goal := ssp_goal (sf_spec f) \<rparr>;
          ex2 = (if ssp_context_summary (sf_spec f) \<noteq> []
                 then ex1\<lparr> ex_conv := [from_role_content ConvAssistant (restored_message f)] \<rparr> else ex1)
      in (\<lparr> rr_snapshot_name = sm_name (sf_metadata f), rr_agent_name = sm_agent_name (sf_metadata f),
            rr_reissued_requests = map pr_request_id (filter (\<lambda>r. pr_status r = ''in-flight'') (ssp_pending_requests (sf_spec f))),
            rr_reconnected_pipes = [],
            rr_sigpipe_pipes = map snp_pipe_id (filter (\<lambda>p. snp_state p = ''open'') (ssp_pipes (sf_spec f))) \<rparr>, ex2))"

definition snapshot_path :: "string \<Rightarrow> string \<Rightarrow> string" where
  "snapshot_path user name = ''/users/'' @ user @ ''/snapshots/'' @ name @ ''.yaml''"

definition restore_from_snapshot ::
  "(string list \<Rightarrow> string) \<Rightarrow> ('d, 'k, 's) exec_env \<Rightarrow> string \<Rightarrow> ('d, 'k, 's) executor \<Rightarrow>
     restore_result avix_result \<times> ('d, 'k, 's) executor" where
  "restore_from_snapshot tyaml env name ex =
     (case ex_vfs ex of
        None \<Rightarrow> (Inl (ConfigParse ''no VFS attached''), ex)
      | Some (vfs, disk) \<Rightarrow>
          (case vfs_path_parse (snapshot_path (ex_spawned_by ex) name) of
             Inl e \<Rightarrow> (Inl (ConfigParse (error_display e)), ex)
           | Inr path \<Rightarrow>
               (let (res, vfs') = vfs_read tyaml (ie_os (xe_inv env)) path vfs disk; ex1 = ex\<lparr> ex_vfs := Some (vfs', disk) \<rparr>
                in (case res of
                      Inl e \<Rightarrow> (Inl (NotFound (''snapshot '' @ squoted name @ '': '' @ error_display e)), ex1)
                    | Inr bs \<Rightarrow>
                        if \<not> utf8_valid bs then (Inl (ConfigParse ''invalid utf-8 sequence''), ex1)
                        else (case snapshot_from_str (xe_snap env) (string_of_bytes bs) of
                                Inl e \<Rightarrow> (Inl e, ex1)
                              | Inr f \<Rightarrow>
                                  (case snapshot_verify_checksum (xe_snap env) f of
                                     Inl e \<Rightarrow> (Inl e, ex1)
                                   | Inr _ \<Rightarrow> (let (r, ex2) = apply_snapshot env f ex1 in (Inr r, ex2))))))))"

section \<open>What a restore does\<close>

text \<open>The file of a snapshot as the executor sees it.\<close>

definition snapshot_readable ::
  "(string list \<Rightarrow> string) \<Rightarrow> ('d, 'k, 's) exec_env \<Rightarrow> string \<Rightarrow> ('d, 'k, 's) executor \<Rightarrow> snapshot_file \<Rightarrow> bool" where
  "snapshot_readable tyaml env name ex f \<longleftrightarrow>
     (\<exists>vfs disk path bs. ex_vfs ex = Some (vfs, disk) \<and> vfs_path_parse (snapshot_path (ex_spawned_by ex) name) = Inr path \<and>
        fst (vfs_read tyaml (ie_os (xe_inv env)) path vfs disk) = Inr bs \<and> utf8_valid bs \<and>
        dec (sn_codec (xe_snap env)) (string_of_bytes bs) = Inr f)"

lemma snapshot_path_not_tools: "\<not> starts_with (snapshot_path user name) ''/tools''"
  by (simp add: snapshot_path_def starts_with_iff)

lemma restore_readable:
  assumes "snapshot_readable tyaml env name ex f"
  shows "restore_from_snapshot tyaml env name ex =
     (case snapshot_verify_checksum (xe_snap env) f of
        Inl e \<Rightarrow> (Inl e, ex) | Inr _ \<Rightarrow> (let (r, ex') = apply_snapshot env f ex in (Inr r, ex')))"
proof -
  obtain vfs disk path bs where h: "ex_vfs ex = Some (vfs, disk)" "vfs_path_parse (snapshot_path (ex_spawned_by ex) name) = Inr path"
    "fst (vfs_read tyaml (ie_os (xe_inv env)) path vfs disk) = Inr bs" "utf8_valid bs" "dec (sn_codec (xe_snap env)) (string_of_bytes bs) = Inr f"
    using assms unfolding snapshot_readable_def by blast
  have "\<not> starts_with (vfs_str path) ''/tools''" using h(2) snapshot_path_not_tools by (auto simp: vfs_path_parse_Inr)
  then have "snd (vfs_read tyaml (ie_os (xe_inv env)) path vfs disk) = vfs"
    by (auto simp: vfs_read_def Let_def lazy_populate_def split: option.splits)
  with h(3) have "vfs_read tyaml (ie_os (xe_inv env)) path vfs disk = (Inr bs, vfs)" by (metis prod.collapse)
  note rd = this
  have same: "ex\<lparr> ex_vfs := Some (vfs, disk) \<rparr> = ex" using h(1) by (cases ex) simp
  show ?thesis by (simp add: restore_from_snapshot_def snapshot_from_str_def h(1,2,4,5) rd same split: sum.splits)
qed

lemma restore_success:
  assumes "restore_from_snapshot tyaml env name ex = (Inr r, ex')"
  obtains f where "snapshot_readable tyaml env name ex f" and "snapshot_verify_checksum (xe_snap env) f = Inr ()"
    and "apply_snapshot env f ex = (r, ex')"
proof -
  from assms obtain vfs disk path bs vfs' f where h: "ex_vfs ex = Some (vfs, disk)"
    "vfs_path_parse (snapshot_path (ex_spawned_by ex) name) = Inr path"
    "vfs_read tyaml (ie_os (xe_inv env)) path vfs disk = (Inr bs, vfs')" "utf8_valid bs" "dec (sn_codec (xe_snap env)) (string_of_bytes bs) = Inr f"
    by (auto simp: restore_from_snapshot_def snapshot_from_str_def Let_def split: option.splits prod.splits sum.splits if_splits)
  then have f: "snapshot_readable tyaml env name ex f" by (auto simp: snapshot_readable_def)
  with assms show ?thesis by (intro that [OF f]) (auto simp: restore_readable split: sum.splits prod.splits)
qed

lemma test_token_fields [simp]: "granted_tools (test_token n n' ts) = ts" "signature (test_token n n' ts) = ''test-sig''"
  by (simp_all add: test_token_def)

lemma apply_snapshot_token [simp]:
  "granted_tools (ex_token (snd (apply_snapshot env f ex))) = sne_granted_tools (ssp_environment (sf_spec f))"
  "signature (ex_token (snd (apply_snapshot env f ex))) = ''test-sig''"
  "ex_goal (snd (apply_snapshot env f ex)) = ssp_goal (sf_spec f)"
  by (simp_all add: apply_snapshot_def Let_def)

text \<open>
  C29. Restoring trusts the snapshot file.  A file whose checksum is the hash of its own contents, which anyone who can
  write the file can compute, is restored: the executor's capability token becomes one for exactly the tools the file lists,
  whatever tools it was granted before, and that token bears no valid signature under any key.
\<close>

theorem forged_snapshot_grants:
  assumes "snapshot_readable tyaml env name ex f" and "ssp_checksum (sf_spec f) = ''sha256:'' @ compute_checksum (xe_snap env) f"
  shows "\<exists>r ex'. restore_from_snapshot tyaml env name ex = (Inr r, ex') \<and>
     granted_tools (ex_token ex') = sne_granted_tools (ssp_environment (sf_spec f)) \<and> \<not> verify_signature hmac (ex_token ex') key"
proof -
  obtain r ex' where a: "apply_snapshot env f ex = (r, ex')" by (cases "apply_snapshot env f ex")
  have "restore_from_snapshot tyaml env name ex = (Inr r, ex')"
    using restore_readable [OF assms(1)] assms(2) a verify_checksum_iff [of "xe_snap env" f] by simp
  moreover have "granted_tools (ex_token ex') = sne_granted_tools (ssp_environment (sf_spec f))" "signature (ex_token ex') = ''test-sig''"
    using apply_snapshot_token [of env f ex] a by simp_all
  ultimately show ?thesis by (simp add: verify_signature_def compute_signature_def)
qed

lemma restored_tools_from_file:
  assumes "restore_from_snapshot tyaml env name ex = (Inr r, ex')"
  shows "\<exists>f. snapshot_readable tyaml env name ex f \<and> granted_tools (ex_token ex') = sne_granted_tools (ssp_environment (sf_spec f))"
proof -
  obtain f where "snapshot_readable tyaml env name ex f" "apply_snapshot env f ex = (r, ex')" by (rule restore_success [OF assms])
  then show ?thesis using apply_snapshot_token(1) [of env f ex] by (intro exI [of _ f]) simp
qed

text \<open>A snapshot that anyone can write, and an executor without any tool.\<close>

definition forged_snapshot :: snapshot_file where
  "forged_snapshot =
     snapshot_file_new
       \<lparr> sm_name = ''x'', sm_agent_name = ''a'', sm_source_pid = 1, sm_captured_at = 0, sm_captured_by = ByUser 1001, sm_trigger = TrigManual \<rparr>
       \<lparr> ssp_goal = ''g'', ssp_context_summary = [], ssp_context_token_count = 1, ssp_memory = snapshot_memory_default,
         ssp_pending_requests = [], ssp_pipes = [],
         ssp_environment = \<lparr> sne_temperature = 0, sne_capability_token = [], sne_granted_tools = [''proc/kill''] \<rparr>,
         ssp_checksum = ''sha256:00'' \<rparr>"

definition snap_codec_env :: "snapshot_file \<Rightarrow> snap_env" where
  "snap_codec_env f = \<lparr> sn_codec = one_codec f, sn_sha256 = (\<lambda>_. ''00''), sn_stamp = (\<lambda>_. ''t'') \<rparr>"

definition snap_exec_env :: "snapshot_file \<Rightarrow> (mem_db, string \<times> bytes, mem_db) exec_env" where
  "snap_exec_env f = demo_exec_env\<lparr> xe_snap := snap_codec_env f \<rparr>"

definition snap_executor :: "(string, bytes) hmap \<Rightarrow> (mem_db, string \<times> bytes, mem_db) executor" where
  "snap_executor files = demo_executor\<lparr> ex_vfs := Some (vr_new\<lparr> vr_default := files \<rparr>, ([], [])) \<rparr>"

lemma snap_executor_fields [simp]:
  "ex_vfs (snap_executor files) = Some (vr_new\<lparr> vr_default := files \<rparr>, ([], []))" "ex_spawned_by (snap_executor files) = ''alice''"
  "ex_agent_name (snap_executor files) = ''a''" "ex_conv (snap_executor files) = []"
  "granted_tools (ex_token (snap_executor files)) = [''agent/list'']" "xe_snap (snap_exec_env f) = snap_codec_env f"
  by (simp_all add: snap_executor_def snap_exec_env_def demo_executor_def spawn_with_registry_ref_def refresh_tool_list_def demo_token_def Let_def)

lemma braces_valid: "utf8_valid (bytes_of_string ''{}'')"
  by code_simp

theorem forged_snapshot_grants_witness:
  "\<exists>r ex'. restore_from_snapshot (\<lambda>_. []) (snap_exec_env forged_snapshot) ''x''
        (snap_executor [(''/users/alice/snapshots/x.yaml'', bytes_of_string ''{}'')]) = (Inr r, ex') \<and>
     granted_tools (ex_token ex') = [''proc/kill''] \<and> \<not> verify_signature demo_hmac (ex_token ex') ''k''"
proof -
  let ?ex = "snap_executor [(''/users/alice/snapshots/x.yaml'', bytes_of_string ''{}'')]"
  have "vfs_path_parse (snapshot_path ''alice'' ''x'') = Inr (VfsPath ''/users/alice/snapshots/x.yaml'')"
    by (simp add: vfs_path_parse_def snapshot_path_def)
  moreover have "fst (vfs_read (\<lambda>_. []) (ie_os (xe_inv (snap_exec_env forged_snapshot))) (VfsPath ''/users/alice/snapshots/x.yaml'')
      (vr_new\<lparr> vr_default := [(''/users/alice/snapshots/x.yaml'', bytes_of_string ''{}'')] \<rparr>) ([], [])) = Inr (bytes_of_string ''{}'')"
    by (simp add: vfs_read_def vr_new_def refused_def lazy_populate_def mem_route_def memfs_read_def Let_def)
  moreover have "utf8_valid (bytes_of_string ''{}'')" by (rule braces_valid)
  ultimately have "snapshot_readable (\<lambda>_. []) (snap_exec_env forged_snapshot) ''x'' ?ex forged_snapshot"
    by (simp add: snapshot_readable_def snap_codec_env_def one_codec_def)
  moreover have "ssp_checksum (sf_spec forged_snapshot) = ''sha256:'' @ compute_checksum (xe_snap (snap_exec_env forged_snapshot)) forged_snapshot"
    by (simp add: forged_snapshot_def snapshot_file_new_def compute_checksum_def snap_codec_env_def)
  moreover have "sne_granted_tools (ssp_environment (sf_spec forged_snapshot)) = [''proc/kill'']"
    by (simp add: forged_snapshot_def snapshot_file_new_def)
  ultimately show ?thesis
    using forged_snapshot_grants [of "\<lambda>_. []" "snap_exec_env forged_snapshot" "''x''" ?ex forged_snapshot demo_hmac "''k''"] by simp
qed

section \<open>Saving and restoring\<close>

definition snapshot_writable :: "('d, 'k, 's) exec_env \<Rightarrow> string \<Rightarrow> ('d, 'k, 's) executor \<Rightarrow> bool" where
  "snapshot_writable env name ex \<longleftrightarrow>
     (case ex_vfs ex of
        None \<Rightarrow> False
      | Some (vfs, _) \<Rightarrow>
          \<not> contains_str (snapshot_path (ex_spawned_by ex) name) ''..'' \<and>
          route (vr_mounts vfs) (snapshot_path (ex_spawned_by ex) name) = None \<and>
          refused ''write'' can_write vfs (VfsPath (snapshot_path (ex_spawned_by ex) name)) = None)"

lemma snapshot_path_parse:
  "\<not> contains_str (snapshot_path user name) ''..'' \<Longrightarrow> vfs_path_parse (snapshot_path user name) = Inr (VfsPath (snapshot_path user name))"
  by (simp add: vfs_path_parse_def snapshot_path_def)

lemma capture_written:
  assumes "snapshot_writable env name ex" and "capture (xe_snap env) (xe_now env (ex_draws ex)) (exec_capture_params trigger by ex) = Some f"
    and "sm_name (sf_metadata f) = name" and "enc (sn_codec (xe_snap env)) f = Inr yaml"
    and "dec (sn_codec (xe_snap env)) yaml = Inr f" and "utf8_valid (bytes_of_string yaml)"
  shows "\<exists>ex1. capture_and_write_snapshot env trigger by ex = Some ex1 \<and> snapshot_readable tyaml env name ex1 f \<and>
     (\<exists>v. ex1 = (draw ex)\<lparr> ex_vfs := v \<rparr>)"
proof -
  let ?p = "snapshot_path (ex_spawned_by ex) name"
  obtain vfs disk where v: "ex_vfs ex = Some (vfs, disk)" "\<not> contains_str ?p ''..''" "route (vr_mounts vfs) ?p = None"
    "refused ''write'' can_write vfs (VfsPath ?p) = None"
    using assms(1) by (auto simp: snapshot_writable_def split: option.splits)
  have path: "snapshot_vfs_path f (ex_spawned_by ex) = ?p" using assms(3) by (simp add: snapshot_vfs_path_def snapshot_path_def)
  obtain res vfs' disk' where w: "vfs_write (ie_os (xe_inv env)) (VfsPath ?p) (bytes_of_string yaml) vfs disk = (res, vfs', disk')"
    by (cases "vfs_write (ie_os (xe_inv env)) (VfsPath ?p) (bytes_of_string yaml) vfs disk") auto
  have rd: "fst (vfs_read tyaml (ie_os (xe_inv env)) (VfsPath ?p) vfs' disk') = Inr (bytes_of_string yaml)"
    using v(3,4) snapshot_path_not_tools [of "ex_spawned_by ex" name]
    by (intro vfs_write_read_back [OF _ _ _ w, THEN conjunct2, THEN conjunct2, THEN conjunct1]) simp_all
  have "capture_and_write_snapshot env trigger by ex = Some ((draw ex)\<lparr> ex_vfs := Some (vfs', disk') \<rparr>)"
    using assms(2,4) v(1,2) path w by (simp add: capture_and_write_snapshot_def snapshot_to_yaml_def snapshot_path_parse)
  moreover have "snapshot_readable tyaml env name ((draw ex)\<lparr> ex_vfs := Some (vfs', disk') \<rparr>) f"
    unfolding snapshot_readable_def using rd v(2) assms(5,6) by (simp add: snapshot_path_parse draw_def)
  ultimately show ?thesis by blast
qed


definition demo_capture :: snapshot_file where
  "demo_capture =
     (case capture (snap_codec_env forged_snapshot) 0 (exec_capture_params TrigSigsave ByKernel (snap_executor [])) of
        Some f \<Rightarrow> f | None \<Rightarrow> forged_snapshot)"


text \<open>A capture in the minute of an earlier capture of an agent of the same name, by the same user, has the same file.\<close>

lemma snapshot_name_clash:
  assumes "capture env now params = Some f" and "capture env now' params' = Some f'"
    and "cp_agent_name params' = cp_agent_name params" and "sn_stamp env now' = sn_stamp env now"
  shows "snapshot_vfs_path f' user = snapshot_vfs_path f user"
  using capture_fields(1) [OF assms(1)] capture_fields(1) [OF assms(2)] assms(3,4) by (simp add: snapshot_vfs_path_def)

end
