(* ===== verification/Secrets.thy ===== *)
theory Secrets
  imports Syscalls Llm_Adapter
begin

text \<open>
  The secret stores: \<^verbatim>\<open>src/crates/avix-core/src/secrets/{store,inject}.rs\<close>.  \<open>SecretsStore\<close> keeps encrypted values in
  memory by namespace and key; \<open>SecretStore\<close> keeps them on disk, one hexadecimal file per owner and name, and is what the
  secret handler of \<open>Syscalls\<close> reads; \<open>inject_secrets\<close> puts a namespace into the environment of a process.

  Parameters, in \<open>secret_env\<close>: AES-256-GCM (\<open>se_seal\<close> and \<open>se_open\<close>: key, nonce, message), the hexadecimal codec, and
  \<^verbatim>\<open>to_uppercase\<close>.  The nonce of an encryption is an argument of the operation.
\<close>

section \<open>Strings and paths\<close>

text \<open>The white space of \<^verbatim>\<open>str::trim\<close>, each character as its bytes.\<close>

definition white_spaces :: "string list" where
  "white_spaces =
     [[CHR 0x09], [CHR 0x0A], [CHR 0x0B], [CHR 0x0C], [CHR 0x0D], [CHR 0x20], [CHR 0xC2, CHR 0x85],
      [CHR 0xC2, CHR 0xA0], [CHR 0xE1, CHR 0x9A, CHR 0x80], [CHR 0xE2, CHR 0x80, CHR 0x80],
      [CHR 0xE2, CHR 0x80, CHR 0x81], [CHR 0xE2, CHR 0x80, CHR 0x82], [CHR 0xE2, CHR 0x80, CHR 0x83],
      [CHR 0xE2, CHR 0x80, CHR 0x84], [CHR 0xE2, CHR 0x80, CHR 0x85], [CHR 0xE2, CHR 0x80, CHR 0x86],
      [CHR 0xE2, CHR 0x80, CHR 0x87], [CHR 0xE2, CHR 0x80, CHR 0x88], [CHR 0xE2, CHR 0x80, CHR 0x89],
      [CHR 0xE2, CHR 0x80, CHR 0x8A], [CHR 0xE2, CHR 0x80, CHR 0xA8], [CHR 0xE2, CHR 0x80, CHR 0xA9],
      [CHR 0xE2, CHR 0x80, CHR 0xAF], [CHR 0xE2, CHR 0x81, CHR 0x9F], [CHR 0xE3, CHR 0x80, CHR 0x80]]"

definition blank_width :: "string list \<Rightarrow> string \<Rightarrow> nat" where
  "blank_width ws s = (case List.find (starts_with s) ws of None \<Rightarrow> 0 | Some w \<Rightarrow> length w)"

function drop_ws :: "string list \<Rightarrow> string \<Rightarrow> string" where
  "drop_ws ws s = (if s = [] \<or> blank_width ws s = 0 then s else drop_ws ws (drop (blank_width ws s) s))"
  by pat_completeness auto
termination
  by (relation "measure (\<lambda>(ws, s). length s)") auto

declare drop_ws.simps [simp del]

definition str_trim :: "string \<Rightarrow> string" where
  "str_trim s = rev (drop_ws (map rev white_spaces) (rev (drop_ws white_spaces s)))"

text \<open>\<^verbatim>\<open>PathBuf::join\<close>: an absolute path replaces the base.\<close>

definition pathbuf_join :: "string \<Rightarrow> string \<Rightarrow> string" where
  "pathbuf_join base rel = (if starts_with rel ''/'' then rel else Memfs.path_join base rel)"

section \<open>The store in memory\<close>

datatype secrets_error = SecEperm | SecNotFound string | SecDecryptionFailed | SecIo string

record secret_env =
  se_seal :: "bytes \<Rightarrow> bytes \<Rightarrow> bytes \<Rightarrow> bytes option"
  se_open :: "bytes \<Rightarrow> bytes \<Rightarrow> bytes \<Rightarrow> bytes option"
  se_hex_encode :: "bytes \<Rightarrow> string"
  se_hex_decode :: "string \<Rightarrow> bytes option"
  se_to_uppercase :: "string \<Rightarrow> string"

record secrets_store =
  sc_store :: "(string, (string, bytes) hmap) hmap"
  sc_master_key :: bytes

definition secrets_new :: "bytes \<Rightarrow> secrets_store" where
  "secrets_new key = \<lparr> sc_store = [], sc_master_key = key \<rparr>"

definition namespace :: "string \<Rightarrow> secrets_store \<Rightarrow> (string, bytes) hmap" where
  "namespace ns st = (case hm_get (sc_store st) ns of None \<Rightarrow> [] | Some m \<Rightarrow> m)"

definition secrets_put ::
  "secret_env \<Rightarrow> bytes \<Rightarrow> string \<Rightarrow> string \<Rightarrow> bytes \<Rightarrow> secrets_store \<Rightarrow> (secrets_error + unit) \<times> secrets_store" where
  "secrets_put env nonce ns key plaintext st =
     (case se_seal env (sc_master_key st) nonce plaintext of
        None \<Rightarrow> (Inl SecDecryptionFailed, st)
      | Some ciphertext \<Rightarrow>
          (Inr (), st\<lparr> sc_store := hm_insert ns (hm_insert key (nonce @ ciphertext) (namespace ns st)) (sc_store st) \<rparr>))"

text \<open>The stored bytes are the nonce of 12 bytes and the ciphertext.\<close>

definition unseal :: "secret_env \<Rightarrow> bytes \<Rightarrow> bytes \<Rightarrow> secrets_error + bytes" where
  "unseal env mkey data =
     (if length data < 12 then Inl SecDecryptionFailed
      else (case se_open env mkey (take 12 data) (drop 12 data) of None \<Rightarrow> Inl SecDecryptionFailed | Some p \<Rightarrow> Inr p))"

definition secrets_get :: "secret_env \<Rightarrow> string \<Rightarrow> string \<Rightarrow> secrets_store \<Rightarrow> secrets_error + bytes" where
  "secrets_get env ns key st =
     (case hm_get (sc_store st) ns of
        None \<Rightarrow> Inl (SecNotFound key)
      | Some m \<Rightarrow> (case hm_get m key of None \<Rightarrow> Inl (SecNotFound key) | Some data \<Rightarrow> unseal env (sc_master_key st) data))"

definition secrets_delete :: "string \<Rightarrow> string \<Rightarrow> secrets_store \<Rightarrow> (secrets_error + unit) \<times> secrets_store" where
  "secrets_delete ns key st =
     (case hm_get (sc_store st) ns of
        None \<Rightarrow> (Inr (), st)
      | Some m \<Rightarrow>
          (case hm_get m key of
             None \<Rightarrow> (Inl (SecNotFound key), st)
           | Some _ \<Rightarrow> (Inr (), st\<lparr> sc_store := hm_insert ns (hm_remove key m) (sc_store st) \<rparr>)))"

definition secrets_list :: "string \<Rightarrow> secrets_store \<Rightarrow> string list" where
  "secrets_list ns st = (case hm_get (sc_store st) ns of None \<Rightarrow> [] | Some m \<Rightarrow> hm_keys m)"

definition secrets_vfs_read :: "string \<Rightarrow> secrets_error + bytes" where
  "secrets_vfs_read path = Inl SecEperm"

section \<open>Injection into an environment\<close>

definition secret_env_name :: "secret_env \<Rightarrow> string \<Rightarrow> string" where
  "secret_env_name env key = ''AVIX_SECRET_'' @ map (\<lambda>c. if c = CHR ''-'' then CHR ''_'' else c) (se_to_uppercase env key)"

fun inject_keys ::
  "secret_env \<Rightarrow> secrets_store \<Rightarrow> string \<Rightarrow> string list \<Rightarrow> (string, string) hmap \<Rightarrow> (secrets_error + unit) \<times> (string, string) hmap" where
  "inject_keys env st ns [] vars = (Inr (), vars)"
| "inject_keys env st ns (key # keys) vars =
     (case secrets_get env ns key st of
        Inl e \<Rightarrow> (Inl e, vars)
      | Inr plaintext \<Rightarrow>
          inject_keys env st ns keys (hm_insert (secret_env_name env key) (string_of_bytes (utf8_lossy plaintext)) vars))"

definition inject_secrets ::
  "secret_env \<Rightarrow> secrets_store \<Rightarrow> string \<Rightarrow> (string, string) hmap \<Rightarrow> (secrets_error + unit) \<times> (string, string) hmap" where
  "inject_secrets env st ns vars = inject_keys env st ns (secrets_list ns st) vars"

section \<open>The store on disk\<close>

record secret_store =
  ds_root :: string
  ds_master_key :: bytes

definition secret_store_new :: "string \<Rightarrow> bytes \<Rightarrow> secret_store" where
  "secret_store_new root key = \<lparr> ds_root = root, ds_master_key = take 32 key @ replicate (32 - length key) 0 \<rparr>"

definition owner_parts :: "string \<Rightarrow> string \<times> string" where
  "owner_parts owner = (case split_once (CHR '':'') owner of Some p \<Rightarrow> p | None \<Rightarrow> (''other'', owner))"

definition secret_dir :: "secret_store \<Rightarrow> string \<Rightarrow> string" where
  "secret_dir ss owner = (let (t, n) = owner_parts owner in pathbuf_join (pathbuf_join (ds_root ss) t) n)"

definition secret_path :: "secret_store \<Rightarrow> string \<Rightarrow> string \<Rightarrow> string" where
  "secret_path ss owner name = pathbuf_join (secret_dir ss owner) (name @ ''.enc'')"

definition secret_set ::
  "secret_env \<Rightarrow> 'd disk_ops \<Rightarrow> bytes \<Rightarrow> secret_store \<Rightarrow> string \<Rightarrow> string \<Rightarrow> string \<Rightarrow> 'd \<Rightarrow> (secrets_error + unit) \<times> 'd" where
  "secret_set env os nonce ss owner name val d =
     (let path = secret_path ss owner name
      in (case (case path_parent path of None \<Rightarrow> Inr d | Some parent \<Rightarrow> do_create_dir_all os d parent) of
            Inl e \<Rightarrow> (Inl (SecIo e), d)
          | Inr d1 \<Rightarrow>
              (case se_seal env (ds_master_key ss) nonce (bytes_of_string val) of
                 None \<Rightarrow> (Inl SecDecryptionFailed, d1)
               | Some ciphertext \<Rightarrow>
                   (case do_write os d1 path (bytes_of_string (se_hex_encode env (nonce @ ciphertext))) of
                      Inl e \<Rightarrow> (Inl (SecIo e), d1)
                    | Inr d2 \<Rightarrow> (Inr (), d2)))))"

definition disk_secret_get :: "secret_env \<Rightarrow> 'd disk_ops \<Rightarrow> secret_store \<Rightarrow> string \<Rightarrow> string \<Rightarrow> 'd \<Rightarrow> secrets_error + string" where
  "disk_secret_get env os ss owner name d =
     (case do_read os d (secret_path ss owner name) of
        Inl _ \<Rightarrow> Inl (SecNotFound (owner @ ''/'' @ name))
      | Inr bs \<Rightarrow>
          if \<not> utf8_valid bs then Inl (SecNotFound (owner @ ''/'' @ name))
          else (case se_hex_decode env (str_trim (string_of_bytes bs)) of
                  None \<Rightarrow> Inl SecDecryptionFailed
                | Some data \<Rightarrow>
                    (case unseal env (ds_master_key ss) data of
                       Inl e \<Rightarrow> Inl e
                     | Inr p \<Rightarrow> if utf8_valid p then Inr (string_of_bytes p) else Inl SecDecryptionFailed)))"

definition disk_secret_delete ::
  "'d disk_ops \<Rightarrow> secret_store \<Rightarrow> string \<Rightarrow> string \<Rightarrow> 'd \<Rightarrow> (secrets_error + unit) \<times> 'd" where
  "disk_secret_delete os ss owner name d =
     (case do_remove os d (secret_path ss owner name) of
        Inl _ \<Rightarrow> (Inl (SecNotFound (owner @ ''/'' @ name)), d) | Inr d' \<Rightarrow> (Inr (), d'))"

text \<open>\<^verbatim>\<open>trim_end_matches\<close> takes every final \<^verbatim>\<open>.enc\<close> off a file name.  A file name that is not Unicode, which
  the code shows lossily, is left out of the list of the model.\<close>

function trim_end_enc :: "string \<Rightarrow> string" where
  "trim_end_enc s = (if ends_with s ''.enc'' then trim_end_enc (take (length s - 4) s) else s)"
  by pat_completeness auto
termination
  by (relation "measure length") (auto simp: ends_with_def starts_with_iff rev_swap)

declare trim_end_enc.simps [simp del]

definition disk_secret_list :: "'d disk_ops \<Rightarrow> secret_store \<Rightarrow> string \<Rightarrow> 'd \<Rightarrow> string list" where
  "disk_secret_list os ss owner d =
     (let dir = secret_dir ss owner
      in if \<not> do_exists os d dir then []
         else (case do_read_dir os d dir of
                 Inl _ \<Rightarrow> []
               | Inr es \<Rightarrow>
                   map trim_end_enc (filter (\<lambda>f. ends_with f ''.enc'')
                     (List.map_filter (\<lambda>e. case e of Inl _ \<Rightarrow> None | Inr f \<Rightarrow> f) es))))"

section \<open>The store in memory refines a map\<close>

definition aead_lawful :: "secret_env \<Rightarrow> bool" where
  "aead_lawful env \<longleftrightarrow>
     (\<forall>k n p c. length n = 12 \<longrightarrow> se_seal env k n p = Some c \<longrightarrow> se_open env k n c = Some p)"

definition sealed :: "secrets_store \<Rightarrow> string \<times> string \<Rightarrow> bytes option" where
  "sealed st a = hm_get (namespace (fst a) st) (snd a)"

definition put_sealed :: "string \<times> string \<Rightarrow> bytes \<Rightarrow> secrets_store \<Rightarrow> secrets_store" where
  "put_sealed a data st = st\<lparr> sc_store := hm_insert (fst a) (hm_insert (snd a) data (namespace (fst a) st)) (sc_store st) \<rparr>"

definition del_sealed :: "string \<times> string \<Rightarrow> secrets_store \<Rightarrow> secrets_store" where
  "del_sealed a st = snd (secrets_delete (fst a) (snd a) st)"

definition secrets_wf :: "secrets_store \<Rightarrow> bool" where
  "secrets_wf st \<longleftrightarrow> hm_wf (sc_store st) \<and> (\<forall>ns. hm_wf (namespace ns st))"

lemma namespace_update:
  "namespace ns' (st\<lparr> sc_store := hm_insert ns m (sc_store st) \<rparr>) = (if ns' = ns then m else namespace ns' st)"
  by (simp add: namespace_def)

lemma del_sealed_cases:
  "del_sealed a st = (if sealed st a = None then st
     else st\<lparr> sc_store := hm_insert (fst a) (hm_remove (snd a) (namespace (fst a) st)) (sc_store st) \<rparr>)"
  by (auto simp: del_sealed_def secrets_delete_def sealed_def namespace_def split: option.splits)

interpretation sv: keyed_store sealed put_sealed del_sealed secrets_wf
proof
  show "sealed (put_sealed k v s) k' = (if k' = k then Some v else sealed s k')" for k v s k'
    by (cases k, cases k') (auto simp: sealed_def put_sealed_def namespace_update)
  show "sealed (del_sealed k s) k' = (if k' = k then None else sealed s k')" for k s k'
    by (cases k, cases k') (auto simp: del_sealed_cases sealed_def namespace_update)
  show "secrets_wf s \<Longrightarrow> secrets_wf (put_sealed k v s)" for k v s
    by (simp add: secrets_wf_def put_sealed_def namespace_update)
  show "secrets_wf s \<Longrightarrow> secrets_wf (del_sealed k s)" for k s
    by (simp add: secrets_wf_def del_sealed_cases namespace_update)
qed

text \<open>What the holder of the master key sees.\<close>

definition secret_view :: "secret_env \<Rightarrow> secrets_store \<Rightarrow> string \<times> string \<Rightarrow> bytes option" where
  "secret_view env st a = (case secrets_get env (fst a) (snd a) st of Inl _ \<Rightarrow> None | Inr p \<Rightarrow> Some p)"

lemma secrets_get_sealed:
  "secrets_get env ns key st =
     (case sealed st (ns, key) of None \<Rightarrow> Inl (SecNotFound key) | Some data \<Rightarrow> unseal env (sc_master_key st) data)"
  by (simp add: secrets_get_def sealed_def namespace_def split: option.splits)

lemma secret_view_sealed:
  "secret_view env st a =
     Option.bind (sealed st a) (\<lambda>data. case unseal env (sc_master_key st) data of Inl _ \<Rightarrow> None | Inr p \<Rightarrow> Some p)"
  by (cases a) (simp add: secret_view_def secrets_get_sealed split: option.splits)

lemma unseal_sealed:
  "aead_lawful env \<Longrightarrow> length nonce = 12 \<Longrightarrow> se_seal env k nonce p = Some c \<Longrightarrow> unseal env k (nonce @ c) = Inr p"
  by (simp add: unseal_def aead_lawful_def)

lemma secrets_put_cases:
  "secrets_put env nonce ns key p st =
     (case se_seal env (sc_master_key st) nonce p of
        None \<Rightarrow> (Inl SecDecryptionFailed, st) | Some c \<Rightarrow> (Inr (), put_sealed (ns, key) (nonce @ c) st))"
  by (simp add: secrets_put_def put_sealed_def split: option.splits)

lemma master_key_kept [simp]:
  "sc_master_key (put_sealed a data st) = sc_master_key st" "sc_master_key (del_sealed a st) = sc_master_key st"
  by (simp_all add: put_sealed_def del_sealed_cases)

text \<open>
  C24. The secrets in memory refine a map.  With a cipher that decrypts what it encrypted, a successful \<^verbatim>\<open>put\<close> makes
  exactly the one secret readable, with its plaintext, a \<^verbatim>\<open>delete\<close> makes exactly the one secret unreadable, whether or not it
  reports that the secret was missing, and a failed \<^verbatim>\<open>put\<close> changes nothing; the well-formedness of the store is kept.
\<close>

theorem secrets_refine_map:
  assumes "aead_lawful env" and "length nonce = 12" and "secrets_wf st"
  shows "(case secrets_put env nonce ns key p st of
            (Inr _, st') \<Rightarrow> secrets_wf st' \<and> secret_view env st' = (secret_view env st)((ns, key) \<mapsto> p)
          | (Inl _, st') \<Rightarrow> st' = st) \<and>
     (case secrets_delete ns key st of
        (_, st') \<Rightarrow> secrets_wf st' \<and> secret_view env st' = (secret_view env st)((ns, key) := None))"
proof
  show "case secrets_put env nonce ns key p st of
      (Inr _, st') \<Rightarrow> secrets_wf st' \<and> secret_view env st' = (secret_view env st)((ns, key) \<mapsto> p) | (Inl _, st') \<Rightarrow> st' = st"
  proof (cases "se_seal env (sc_master_key st) nonce p")
    case (Some c)
    have "secret_view env (put_sealed (ns, key) (nonce @ c) st) = (secret_view env st)((ns, key) \<mapsto> p)"
      by (rule ext) (simp add: secret_view_sealed sv.get_put unseal_sealed [OF assms(1,2) Some])
    with Some sv.wf_put [OF assms(3)] show ?thesis by (simp add: secrets_put_cases)
  qed (simp add: secrets_put_cases)
  obtain r st' where del: "secrets_delete ns key st = (r, st')" by (cases "secrets_delete ns key st")
  then have "st' = del_sealed (ns, key) st" by (simp add: del_sealed_def)
  moreover have "secret_view env (del_sealed (ns, key) st) = (secret_view env st)((ns, key) := None)"
    by (rule ext) (simp add: secret_view_sealed sv.get_del)
  ultimately show "case secrets_delete ns key st of
      (_, st') \<Rightarrow> secrets_wf st' \<and> secret_view env st' = (secret_view env st)((ns, key) := None)"
    using del sv.wf_del [OF assms(3)] by simp
qed

text \<open>A delete in a namespace that does not exist succeeds, one of a missing key in a namespace that does is an error.\<close>

lemma delete_missing:
  "sealed st (ns, key) = None \<Longrightarrow>
   secrets_delete ns key st = (if hm_get (sc_store st) ns = None then Inr () else Inl (SecNotFound key), st)"
  by (auto simp: secrets_delete_def sealed_def namespace_def split: option.splits)

section \<open>Injection\<close>

lemma inject_keys_frame:
  "inject_keys env st ns keys vars = (r, vars') \<Longrightarrow> x \<notin> secret_env_name env ` set keys \<Longrightarrow> hm_get vars' x = hm_get vars x"
  by (induction env st ns keys vars rule: inject_keys.induct) (auto split: sum.splits)

lemma inject_keys_exact:
  assumes "inject_keys env st ns keys vars = (Inr (), vars')" and "distinct (map (secret_env_name env) keys)" and "key \<in> set keys"
  shows "\<exists>p. secrets_get env ns key st = Inr p \<and> hm_get vars' (secret_env_name env key) = Some (string_of_bytes (utf8_lossy p))"
  using assms
proof (induction env st ns keys vars rule: inject_keys.induct)
  case (2 env st ns k keys vars)
  obtain p where p: "secrets_get env ns k st = Inr p"
    and rest: "inject_keys env st ns keys (hm_insert (secret_env_name env k) (string_of_bytes (utf8_lossy p)) vars) = (Inr (), vars')"
    using "2.prems"(1) by (auto split: sum.splits)
  show ?case
  proof (cases "key \<in> set keys")
    case False
    with "2.prems"(2,3) p inject_keys_frame [OF rest, of "secret_env_name env key"] show ?thesis by auto
  qed (use 2 p rest in auto)
qed simp

text \<open>Two keys that differ in a hyphen and an underscore share a variable: the one the map yields last wins.\<close>

lemma inject_collision:
  assumes "secret_env_name env k = secret_env_name env k'" and "secrets_get env ns k st = Inr p" and "secrets_get env ns k' st = Inr p'"
  shows "inject_keys env st ns [k, k'] [] = (Inr (), [(secret_env_name env k', string_of_bytes (utf8_lossy p'))])"
  using assms by (simp add: hm_insert_def)

section \<open>The store on disk\<close>

definition hex_lawful :: "secret_env \<Rightarrow> bool" where
  "hex_lawful env \<longleftrightarrow>
     (\<forall>b. se_hex_decode env (se_hex_encode env b) = Some b \<and> set (se_hex_encode env b) \<subseteq> set ''0123456789abcdef'')"

definition disk_reads_back :: "'d disk_ops \<Rightarrow> bool" where
  "disk_reads_back os \<longleftrightarrow> (\<forall>d p c d'. do_write os d p c = Inr d' \<longrightarrow> do_read os d' p = Inr c)"

lemma white_spaces_first: "w \<in> set white_spaces \<Longrightarrow> \<exists>c t. w = c # t \<and> c \<notin> set ''0123456789abcdef''"
  and white_spaces_last: "w \<in> set (map rev white_spaces) \<Longrightarrow> \<exists>c t. w = c # t \<and> c \<notin> set ''0123456789abcdef''"
proof -
  have "list_all (\<lambda>w. w \<noteq> [] \<and> hd w \<notin> set ''0123456789abcdef'') (white_spaces @ map rev white_spaces)"
    by (simp add: white_spaces_def)
  then have *: "w \<in> set (white_spaces @ map rev white_spaces) \<Longrightarrow> w \<noteq> [] \<and> hd w \<notin> set ''0123456789abcdef''" for w
    unfolding list_all_iff by blast
  show "w \<in> set white_spaces \<Longrightarrow> \<exists>c t. w = c # t \<and> c \<notin> set ''0123456789abcdef''"
    using * [of w] by (cases w) auto
  show "w \<in> set (map rev white_spaces) \<Longrightarrow> \<exists>c t. w = c # t \<and> c \<notin> set ''0123456789abcdef''"
    using * [of w] by (cases w) auto
qed

lemma drop_ws_id:
  assumes "\<And>w. w \<in> set ws \<Longrightarrow> \<exists>c t. w = c # t \<and> c \<notin> H" and "set s \<subseteq> H"
  shows "drop_ws ws s = s"
proof -
  have "\<not> starts_with s w" if "w \<in> set ws" for w
    using assms(1) [OF that] assms(2) by (auto simp: starts_with_iff)
  then have "List.find (starts_with s) ws = None" by (auto simp: find_None_iff)
  then show ?thesis by (simp add: drop_ws.simps [of ws s] blank_width_def)
qed

lemma str_trim_hex: "set s \<subseteq> set ''0123456789abcdef'' \<Longrightarrow> str_trim s = s"
  unfolding str_trim_def using drop_ws_id [OF white_spaces_first] drop_ws_id [OF white_spaces_last] by (metis rev_rev_ident set_rev)

lemma hex_utf8: "set s \<subseteq> set ''0123456789abcdef'' \<Longrightarrow> utf8_valid (bytes_of_string s)"
proof (induction s)
  case (Cons c s)
  have one: "list_all (\<lambda>c. utf8_width (of_char c) = 1) ''0123456789abcdef''" by code_simp
  from Cons.prems have "c \<in> set ''0123456789abcdef''" by simp
  with one have "utf8_width (of_char c) = 1" unfolding list_all_iff by blast
  with Cons show ?case by (simp add: bytes_of_string_def utf8_valid.simps [of "_ # _"] Let_def)
qed (simp add: bytes_of_string_def utf8_valid.simps)

text \<open>
  Secrets on disk.  With a cipher that decrypts what it encrypted, the hexadecimal codec of the code and a
  disk that reads back what was written, a secret that was set is read back from the disk, by any caller of the handler
  whom the check of the owner lets through.
\<close>

theorem disk_secret_roundtrip:
  assumes "aead_lawful env" and "hex_lawful env" and "disk_reads_back os" and "length nonce = 12" and "utf8_valid (bytes_of_string val)"
    and "secret_set env os nonce ss owner name val d = (Inr (), d')"
  shows "disk_secret_get env os ss owner name d' = Inr val"
proof -
  let ?path = "secret_path ss owner name"
  obtain d1 c where c: "se_seal env (ds_master_key ss) nonce (bytes_of_string val) = Some c"
    "do_write os d1 ?path (bytes_of_string (se_hex_encode env (nonce @ c))) = Inr d'"
    using assms(6) by (auto simp: secret_set_def Let_def split: option.splits sum.splits)
  then have "do_read os d' ?path = Inr (bytes_of_string (se_hex_encode env (nonce @ c)))"
    using assms(3) by (auto simp: disk_reads_back_def)
  moreover have "set (se_hex_encode env (nonce @ c)) \<subseteq> set ''0123456789abcdef''"
    and "se_hex_decode env (se_hex_encode env (nonce @ c)) = Some (nonce @ c)" using assms(2) by (simp_all add: hex_lawful_def)
  moreover have "unseal env (ds_master_key ss) (nonce @ c) = Inr (bytes_of_string val)"
    by (rule unseal_sealed [OF assms(1,4) c(1)])
  ultimately show ?thesis using assms(5) by (simp add: disk_secret_get_def hex_utf8 str_trim_hex)
qed

section \<open>The secret handler over the store on disk\<close>

fun secrets_error_display :: "secrets_error \<Rightarrow> string" where
  "secrets_error_display SecEperm = ''EPERM: secrets are not readable via VFS''"
| "secrets_error_display (SecNotFound s) = ''secret not found: '' @ s"
| "secrets_error_display SecDecryptionFailed = ''decryption failed''"
| "secrets_error_display (SecIo e) = ''io error: '' @ e"

definition secret_handler_store :: "secret_env \<Rightarrow> 'd disk_ops \<Rightarrow> secret_store \<Rightarrow> 'd \<Rightarrow> string \<Rightarrow> string \<Rightarrow> string + string" where
  "secret_handler_store env os ss d owner name = map_sum secrets_error_display id (disk_secret_get env os ss owner name d)"

text \<open>A path through a directory and back, as the operating system resolves it when \<open>dir\<close> is a directory.\<close>

definition resolves_dotdot :: "'d disk_ops \<Rightarrow> 'd \<Rightarrow> string \<Rightarrow> string \<Rightarrow> bool" where
  "resolves_dotdot os d root dir \<longleftrightarrow> (\<forall>rel. do_read os d (root @ ''/'' @ dir @ ''/../'' @ rel) = do_read os d (root @ ''/'' @ rel))"

lemma split_once_colon: "CHR '':'' \<notin> set t \<Longrightarrow> split_once (CHR '':'') (t @ '':'' @ n) = Some (t, n)"
  by (induction t) (auto simp: split_once_def)

lemma escaped_path:
  assumes "root \<noteq> []" and "last root \<noteq> CHR ''/''" and "svc \<noteq> []" and "hd svc \<noteq> CHR ''/''" and "last svc \<noteq> CHR ''/''"
    and "\<not> starts_with name ''/''"
  shows "secret_path \<lparr> ds_root = root, ds_master_key = k \<rparr> (''service:'' @ svc) name = root @ ''/service/'' @ svc @ ''/'' @ name @ ''.enc''"
    and "secret_path \<lparr> ds_root = root, ds_master_key = k \<rparr> (''user:../service/'' @ svc) name =
      root @ ''/user/../service/'' @ svc @ ''/'' @ name @ ''.enc''"
proof -
  have n: "\<not> starts_with (name @ ''.enc'') ''/''" using assms(6) by (cases name) auto
  have s: "\<not> starts_with svc ''/''" using assms(3,4) by (cases svc) auto
  have "owner_parts (''service:'' @ svc) = (''service'', svc)"
    using split_once_colon [of "''service''" svc] by (simp add: owner_parts_def)
  then show "secret_path \<lparr> ds_root = root, ds_master_key = k \<rparr> (''service:'' @ svc) name = root @ ''/service/'' @ svc @ ''/'' @ name @ ''.enc''"
    using assms n s by (simp add: secret_path_def secret_dir_def pathbuf_join_def Memfs.path_join_def)
  have "owner_parts (''user:../service/'' @ svc) = (''user'', ''../service/'' @ svc)"
    using split_once_colon [of "''user''" "''../service/'' @ svc"] by (simp add: owner_parts_def)
  then show "secret_path \<lparr> ds_root = root, ds_master_key = k \<rparr> (''user:../service/'' @ svc) name =
      root @ ''/user/../service/'' @ svc @ ''/'' @ name @ ''.enc''"
    using assms n by (simp add: secret_path_def secret_dir_def pathbuf_join_def Memfs.path_join_def)
qed

lemma disk_get_same_file:
  "do_read os d (secret_path ss owner' name') = do_read os d (secret_path ss owner name) \<Longrightarrow>
   disk_secret_get env os ss owner name d = Inr v \<Longrightarrow> disk_secret_get env os ss owner' name' d = Inr v"
  by (cases "do_read os d (secret_path ss owner name)") (simp_all add: disk_secret_get_def split: if_splits)

text \<open>
  C28. The check of the owner of a secret is by-passed with a path.  The handler lets only the service itself and administrators read the secrets
  of the owner \<^verbatim>\<open>service:svc\<close>; but the owner \<^verbatim>\<open>user:../service/svc\<close> names the same files, and the
  handler gives their contents to any caller, whatever its token.
\<close>

theorem service_secret_escape:
  assumes "root \<noteq> []" and "last root \<noteq> CHR ''/''" and "svc \<noteq> []" and "hd svc \<noteq> CHR ''/''" and "last svc \<noteq> CHR ''/''"
    and "\<not> starts_with name ''/''" and "ss = \<lparr> ds_root = root, ds_master_key = k \<rparr>" and "resolves_dotdot os d root ''user''"
    and "disk_secret_get env os ss (''service:'' @ svc) name d = Inr v"
  shows "secret_get (secret_handler_store env os ss d) ctx
       (JObj [(''owner'', JStr (''user:../service/'' @ svc)), (''name'', JStr name)]) = Inr (JObj [(''value'', JStr v)])"
proof -
  note paths = escaped_path [OF assms(1-6), of k]
  have "do_read os d (root @ ''/user/../'' @ ''service/'' @ svc @ ''/'' @ name @ ''.enc'') =
      do_read os d (root @ ''/'' @ ''service/'' @ svc @ ''/'' @ name @ ''.enc'')"
    using assms(8) [unfolded resolves_dotdot_def, rule_format, of "''service/'' @ svc @ ''/'' @ name @ ''.enc''"] by simp
  then have "disk_secret_get env os ss (''user:../service/'' @ svc) name d = Inr v"
    using disk_get_same_file [OF _ assms(9)] paths by (simp add: assms(7))
  then have "secret_handler_store env os ss d (''user:../service/'' @ svc) name = Inr v" by (simp add: secret_handler_store_def)
  then show ?thesis by (simp add: secret_get_def json_index_def strip_prefix_def Let_def)
qed

text \<open>The owners \<^verbatim>\<open>x\<close> and \<^verbatim>\<open>other:x\<close> share their secrets.\<close>

lemma unprefixed_owner_alias:
  "CHR '':'' \<notin> set x \<Longrightarrow> secret_path ss x name = secret_path ss (''other:'' @ x) name"
proof -
  assume "CHR '':'' \<notin> set x"
  then have "split_once (CHR '':'') x = None" by (simp add: split_once_def)
  then have "owner_parts x = owner_parts (''other:'' @ x)"
    using split_once_colon [of "''other''" x] by (simp add: owner_parts_def)
  then show ?thesis by (simp add: secret_path_def secret_dir_def)
qed

section \<open>A concrete store\<close>

text \<open>A cipher that does nothing, hexadecimal digits, and a disk on which every path is the same file.\<close>

definition hex_digit :: "nat \<Rightarrow> char" where
  "hex_digit n = ''0123456789abcdef'' ! n"

definition hex_value :: "char \<Rightarrow> nat" where
  "hex_value c = length (takeWhile (\<lambda>x. x \<noteq> c) ''0123456789abcdef'')"

definition demo_hex_encode :: "bytes \<Rightarrow> string" where
  "demo_hex_encode bs = concat (map (\<lambda>b. [hex_digit (unat b div 16), hex_digit (unat b mod 16)]) bs)"

fun demo_hex_decode :: "string \<Rightarrow> bytes option" where
  "demo_hex_decode [] = Some []"
| "demo_hex_decode [c] = None"
| "demo_hex_decode (a # b # s) =
     (if hex_value a < 16 \<and> hex_value b < 16 then map_option ((#) (word_of_nat (hex_value a * 16 + hex_value b))) (demo_hex_decode s) else None)"

definition demo_secret_env :: secret_env where
  "demo_secret_env = \<lparr> se_seal = (\<lambda>_ _ p. Some p), se_open = (\<lambda>_ _ c. Some c), se_hex_encode = demo_hex_encode,
     se_hex_decode = demo_hex_decode, se_to_uppercase = id \<rparr>"

definition single_file_disk :: "bytes disk_ops" where
  "single_file_disk =
     \<lparr> do_read = (\<lambda>d _. Inr d), do_create_dir_all = (\<lambda>d _. Inr d), do_write = (\<lambda>_ _ c. Inr c), do_remove = (\<lambda>d _. Inr d),
       do_exists = (\<lambda>_ _. True), do_read_dir = (\<lambda>_ _. Inr []) \<rparr>"

lemma hex_digit_ok: "n < 16 \<Longrightarrow> hex_value (hex_digit n) = n \<and> hex_digit n \<in> set ''0123456789abcdef''"
proof -
  have "list_all (\<lambda>n. hex_value (hex_digit n) = n \<and> hex_digit n \<in> set ''0123456789abcdef'') [0..<16]" by code_simp
  then show "n < 16 \<Longrightarrow> ?thesis" unfolding list_all_iff by simp
qed

lemma demo_hex_ok: "demo_hex_decode (demo_hex_encode bs) = Some bs \<and> set (demo_hex_encode bs) \<subseteq> set ''0123456789abcdef''"
proof (induction bs)
  case (Cons b bs)
  have "unat b < 2 ^ LENGTH(8)" by (rule unsigned_less)
  then have "unat b div 16 < 16" "unat b mod 16 < 16" by (simp_all add: less_mult_imp_div_less)
  note digits = hex_digit_ok [OF this(1)] hex_digit_ok [OF this(2)]
  have "word_of_nat (unat b div 16 * 16 + unat b mod 16) = b" by simp
  with Cons digits \<open>unat b div 16 < 16\<close> \<open>unat b mod 16 < 16\<close> show ?case by (auto simp: demo_hex_encode_def)
qed (simp add: demo_hex_encode_def)

lemma demo_secret_lawful:
  "aead_lawful demo_secret_env" "hex_lawful demo_secret_env" "disk_reads_back single_file_disk"
  using demo_hex_ok by (simp_all add: aead_lawful_def hex_lawful_def demo_secret_env_def disk_reads_back_def single_file_disk_def)

theorem secrets_refine_map_witness:
  "secrets_delete ''ns'' ''k'' (secrets_new []) = (Inr (), secrets_new []) \<and>
   secret_view demo_secret_env (snd (secrets_put demo_secret_env (replicate 12 0) ''ns'' ''k'' [1] (secrets_new []))) =
     (secret_view demo_secret_env (secrets_new []))((''ns'', ''k'') \<mapsto> [1])"
proof -
  have "secrets_wf (secrets_new [])" by (simp add: secrets_wf_def secrets_new_def namespace_def)
  from secrets_refine_map [OF demo_secret_lawful(1) _ this, of "replicate 12 0" "''ns''" "''k''" "[1]"] show ?thesis
    by (simp add: secrets_put_def secrets_delete_def secrets_new_def demo_secret_env_def)
qed

theorem disk_secret_roundtrip_witness:
  "disk_secret_get demo_secret_env single_file_disk (secret_store_new ''/s'' []) ''user:u'' ''k''
     (snd (secret_set demo_secret_env single_file_disk (replicate 12 0) (secret_store_new ''/s'' []) ''user:u'' ''k'' ''abc'' [])) = Inr ''abc''"
proof -
  have "fst (secret_set demo_secret_env single_file_disk (replicate 12 0) (secret_store_new ''/s'' []) ''user:u'' ''k'' ''abc'' []) = Inr ()"
    by (simp add: secret_set_def demo_secret_env_def single_file_disk_def Let_def split: option.splits)
  then have set: "secret_set demo_secret_env single_file_disk (replicate 12 0) (secret_store_new ''/s'' []) ''user:u'' ''k'' ''abc'' [] =
      (Inr (), snd (secret_set demo_secret_env single_file_disk (replicate 12 0) (secret_store_new ''/s'' []) ''user:u'' ''k'' ''abc'' []))"
    by (metis prod.collapse)
  have "utf8_valid (bytes_of_string ''abc'')" by (rule hex_utf8) simp
  then show ?thesis using disk_secret_roundtrip [OF demo_secret_lawful _ _ set] by simp
qed

theorem service_secret_escape_witness:
  "secret_get (secret_handler_store demo_secret_env single_file_disk (secret_store_new ''/s'' []) (bytes_of_string (demo_hex_encode (replicate 12 0 @ [118]))))
     \<lparr> sx_caller_pid = 9, sx_token = \<lparr> granted_tools = [], issued_at = 0, expires_at = 0, issued_to_opt = None, signature = [] \<rparr> \<rparr>
     (JObj [(''owner'', JStr ''user:../service/github''), (''name'', JStr ''k'')]) = Inr (JObj [(''value'', JStr ''v'')])"
proof -
  let ?d = "bytes_of_string (demo_hex_encode (replicate 12 0 @ [118]))"
  have "disk_secret_get demo_secret_env single_file_disk (secret_store_new ''/s'' []) (''service:'' @ ''github'') ''k'' ?d = Inr ''v''"
  proof -
    have "disk_secret_get demo_secret_env single_file_disk (secret_store_new ''/s'' []) (''service:'' @ ''github'') ''k'' ?d =
        (if utf8_valid [118] then Inr (string_of_bytes [118]) else Inl SecDecryptionFailed)"
      using demo_hex_ok [of "replicate 12 0 @ [118]"] hex_utf8 str_trim_hex
      by (simp add: disk_secret_get_def unseal_def demo_secret_env_def single_file_disk_def)
    moreover have "utf8_valid [118]" by (simp add: utf8_valid.simps utf8_width_def)
    moreover have "bytes_of_string ''v'' = [118]" by (simp add: bytes_of_string_def)
    then have "string_of_bytes [118] = ''v''" by (metis string_of_bytes_of_string)
    ultimately show ?thesis by simp
  qed
  moreover have "secret_store_new ''/s'' [] = \<lparr> ds_root = ''/s'', ds_master_key = replicate 32 0 \<rparr>" by (simp add: secret_store_new_def)
  moreover have "resolves_dotdot single_file_disk ?d ''/s'' ''user''" by (simp add: resolves_dotdot_def single_file_disk_def)
  ultimately show ?thesis
    using service_secret_escape [of "''/s''" "''github''" "''k''" "secret_store_new ''/s'' []" "replicate 32 0" single_file_disk ?d demo_secret_env "''v''"]
    by simp
qed

end
