(* ===== verification/Packages.thy ===== *)
theory Packages
  imports Agent_Manifest Secrets Kernel_Ipc Pipes
begin

text \<open>
  Packages: where they come from (\<^verbatim>\<open>service/package_source.rs\<close>), how services and agents are installed
  (\<^verbatim>\<open>service/installer.rs\<close>, \<^verbatim>\<open>agent_manifest/installer.rs\<close>, \<^verbatim>\<open>agent_manifest/git_fetch.rs\<close>), the
  trusted keys and signatures (\<^verbatim>\<open>packaging/{trust,gpg,mod,validator}.rs\<close>), and the system calls over them
  (\<^verbatim>\<open>syscall/domain/pkg_.rs\<close>, \<^verbatim>\<open>sys_::install\<close>), all under \<^verbatim>\<open>src/crates/avix-core/src\<close>.

  Parameters, in \<open>pkg_env\<close>: the operating system's directory operations beyond those of \<open>disk_ops\<close>, HTTP (\<open>pk_get\<close>,
  indexed by the position of the request in the operation, so that two requests may answer differently), the
  decompressors with the tar reader (\<open>pk_untar\<close>), SHA-256 with hex encoding, git, OpenPGP, the YAML and JSON codecs and the
  clock.
\<close>

section \<open>Environment\<close>

datatype http_get = HttpSendErr string | HttpBodyErr string | HttpBody bytes

record tar_entry =
  tar_path :: "string + string"
  tar_is_file :: bool
  tar_data :: "string + bytes"

datatype git_outcome = GitSpawnErr string | GitExit "int option" bool

record install_receipt =
  irc_name :: string
  irc_version :: string
  irc_source_url :: "string option"
  irc_checksum :: "string option"
  irc_installed_at :: datetime
  irc_service_unit_path :: string
  irc_binary_path :: string

record trusted_key =
  tk_fingerprint :: string
  tk_label :: string
  tk_added_at :: datetime
  tk_allowed_sources :: "string list"

record ('d, 'f) pkg_env =
  pk_root :: string
  pk_os :: "'d disk_ops"
  pk_is_dir :: "'d \<Rightarrow> string \<Rightarrow> bool"
  pk_remove_dir_all :: "'d \<Rightarrow> string \<Rightarrow> string + 'd"
  pk_rename :: "'d \<Rightarrow> string \<Rightarrow> string \<Rightarrow> string + 'd"
  pk_chmod_755 :: "'d \<Rightarrow> string \<Rightarrow> string + 'd"
  pk_tempdir :: "'d \<Rightarrow> string + string \<times> 'd"
  pk_client :: "string option"
  pk_get :: "nat \<Rightarrow> string \<Rightarrow> http_get"
  pk_json :: "bytes \<Rightarrow> string + json"
  pk_text :: "bytes \<Rightarrow> string"
  pk_sha256 :: "bytes \<Rightarrow> string"
  pk_untar :: "bool \<Rightarrow> bytes \<Rightarrow> string + (string + tar_entry) list"
  pk_git :: "'d \<Rightarrow> string \<Rightarrow> string \<Rightarrow> git_outcome \<times> 'd"
  pk_git_code :: "int option \<Rightarrow> string"
  pk_unit :: "string \<Rightarrow> string + service_manifest"
  pk_agent :: "string \<Rightarrow> string + 'f agent_manifest"
  pk_kind :: "string \<Rightarrow> string + string"
  pk_receipt :: "install_receipt \<Rightarrow> string + string"
  pk_keys :: "trusted_key codec"
  pk_fingerprint :: "string \<Rightarrow> string + string"
  pk_now :: datetime
  pk_rfc3339 :: "datetime \<Rightarrow> string"
  pk_platform :: string
  pk_arch :: string

text \<open>\<^verbatim>\<open>std::fs::read_to_string\<close>.\<close>

definition read_text :: "('d, 'f) pkg_env \<Rightarrow> 'd \<Rightarrow> string \<Rightarrow> string + string" where
  "read_text env d path =
     (case do_read (pk_os env) d path of
        Inl e \<Rightarrow> Inl e
      | Inr bs \<Rightarrow> if utf8_valid bs then Inr (string_of_bytes bs) else Inl ''stream did not contain valid UTF-8'')"

text \<open>The removal of a directory whose errors are ignored: that of a temporary directory and of the guards.\<close>

definition discard_dir :: "('d, 'f) pkg_env \<Rightarrow> string \<Rightarrow> 'd \<Rightarrow> 'd" where
  "discard_dir env path d = (case pk_remove_dir_all env d path of Inl _ \<Rightarrow> d | Inr d' \<Rightarrow> d')"

definition install_guard_drop :: "('d, 'f) pkg_env \<Rightarrow> string \<Rightarrow> 'd \<Rightarrow> 'd" where
  "install_guard_drop env path d = (if do_exists (pk_os env) d path then discard_dir env path d else d)"

section \<open>Sources\<close>

datatype package_source = HttpUrl string | LocalPath string | GitHubRelease string "string option" | GitClone string

text \<open>\<^verbatim>\<open>trim_start_matches\<close>.\<close>

function trim_start_str :: "string \<Rightarrow> string \<Rightarrow> string" where
  "trim_start_str p s = (if p \<noteq> [] \<and> starts_with s p then trim_start_str p (drop (length p) s) else s)"
  by pat_completeness auto
termination
  by (relation "measure (\<lambda>(p, s). length s)") (auto simp: starts_with_iff)

declare trim_start_str.simps [simp del]

definition splitn3 :: "char \<Rightarrow> string \<Rightarrow> string list" where
  "splitn3 c s =
     (case split_once c s of
        None \<Rightarrow> [s]
      | Some (a, rest) \<Rightarrow> (case split_once c rest of None \<Rightarrow> [a, rest] | Some (b, r) \<Rightarrow> [a, b, r]))"

definition github_spec :: "string \<Rightarrow> (string \<times> string \<times> string) avix_result" where
  "github_spec spec =
     (case splitn3 (CHR ''/'') spec of
        [owner, repo, name] \<Rightarrow> Inr (owner, repo, name)
      | [owner, name] \<Rightarrow> Inr (owner, ''avix'', name)
      | _ \<Rightarrow> Inl (ConfigParse (''invalid github: source '' @ squoted spec)))"

definition asset_field :: "string \<Rightarrow> json \<Rightarrow> string" where
  "asset_field k asset = unwrap_or [] (as_str (json_index asset k))"

text \<open>The assets are searched once per candidate name; a checksum file is noted on the way.\<close>

definition scan_asset :: "string \<Rightarrow> json \<Rightarrow> string option \<times> string option \<Rightarrow> string option \<times> string option" where
  "scan_asset candidate asset found =
     (let (url, sums) = found; name = asset_field ''name'' asset;
          url' = (if name = candidate then Some (asset_field ''browser_download_url'' asset) else url);
          sums' = (if name = ''checksums.sha256'' then Some (asset_field ''browser_download_url'' asset) else sums)
      in (url', sums'))"

fun scan_candidates :: "json list \<Rightarrow> string list \<Rightarrow> string option \<times> string option \<Rightarrow> string option \<times> string option" where
  "scan_candidates assets [] found = found"
| "scan_candidates assets (c # cs) found =
     (let found' = fold (scan_asset c) assets found in if fst found' \<noteq> None then found' else scan_candidates assets cs found')"

definition github_candidates :: "('d, 'f) pkg_env \<Rightarrow> string \<Rightarrow> string \<Rightarrow> string list" where
  "github_candidates env name version =
     [name @ ''-v'' @ version @ ''-'' @ pk_platform env @ ''-'' @ pk_arch env @ ''.tar.xz'',
      name @ ''-v'' @ version @ ''.tar.xz'', name @ ''-'' @ version @ ''.tar.xz'']"

definition resolve_github :: "('d, 'f) pkg_env \<Rightarrow> string \<Rightarrow> string option \<Rightarrow> package_source avix_result" where
  "resolve_github env spec version =
     (case github_spec spec of
        Inl e \<Rightarrow> Inl e
      | Inr (owner, repo, name) \<Rightarrow>
          (let tag = unwrap_or ''latest'' version;
               base = ''https://api.github.com/repos/'' @ owner @ ''/'' @ repo @ ''/releases/'';
               api_url = (if tag = ''latest'' then base @ ''latest'' else base @ ''tags/'' @ tag)
           in (case pk_client env of
                 Some e \<Rightarrow> Inl (ConfigParse e)
               | None \<Rightarrow>
                   (case pk_get env 0 api_url of
                      HttpSendErr e \<Rightarrow> Inl (ConfigParse (''GitHub API: '' @ e))
                    | HttpBodyErr e \<Rightarrow> Inl (ConfigParse (''GitHub API json: '' @ e))
                    | HttpBody body \<Rightarrow>
                        (case pk_json env body of
                           Inl e \<Rightarrow> Inl (ConfigParse (''GitHub API json: '' @ e))
                         | Inr release \<Rightarrow>
                             (let resolved = trim_start_char (CHR ''v'') (unwrap_or tag (as_str (json_index release ''tag_name'')))
                              in (case as_array (json_index release ''assets'') of
                                    None \<Rightarrow> Inl (ConfigParse ''GitHub release has no assets'')
                                  | Some assets \<Rightarrow>
                                      (case scan_candidates assets (github_candidates env name resolved) (None, None) of
                                         (None, _) \<Rightarrow> Inl (ConfigParse (''no matching asset for '' @ squoted name @ '' in GitHub release '' @ tag))
                                       | (Some url, sums) \<Rightarrow> Inr (GitHubRelease url sums)))))))))"

definition resolve_source :: "('d, 'f) pkg_env \<Rightarrow> string \<Rightarrow> string option \<Rightarrow> package_source avix_result" where
  "resolve_source env source version =
     (case Syscalls.strip_prefix ''github:'' source of
        Some spec \<Rightarrow> resolve_github env spec version
      | None \<Rightarrow>
          if starts_with source ''github.com/'' then resolve_github env (trim_start_str ''github.com/'' source) version
          else (case Syscalls.strip_prefix ''git:'' source of
                  Some url \<Rightarrow> Inr (GitClone url)
                | None \<Rightarrow>
                    if starts_with source ''https://'' \<or> starts_with source ''http://'' then Inr (HttpUrl source)
                    else (case Syscalls.strip_prefix ''file://'' source of
                            Some path \<Rightarrow> Inr (LocalPath path)
                          | None \<Rightarrow>
                              if starts_with source ''/'' \<or> starts_with source ''./'' \<or> starts_with source ''../''
                              then Inr (LocalPath source)
                              else Inl (ConfigParse (''unrecognized source: '' @ source)))))"

definition http_bytes :: "('d, 'f) pkg_env \<Rightarrow> nat \<Rightarrow> string \<Rightarrow> bytes avix_result" where
  "http_bytes env k url =
     (case pk_get env k url of
        HttpSendErr e \<Rightarrow> Inl (ConfigParse (''fetch '' @ url @ '': '' @ e))
      | HttpBodyErr e \<Rightarrow> Inl (ConfigParse (''fetch body '' @ url @ '': '' @ e))
      | HttpBody b \<Rightarrow> Inr b)"

definition local_bytes :: "('d, 'f) pkg_env \<Rightarrow> string \<Rightarrow> string \<Rightarrow> 'd \<Rightarrow> bytes avix_result" where
  "local_bytes env what path d =
     (case do_read (pk_os env) d path of Inl e \<Rightarrow> Inl (ConfigParse (what @ '' '' @ path @ '': '' @ e)) | Inr b \<Rightarrow> Inr b)"

text \<open>\<^verbatim>\<open>fetch_source_bytes\<close> of the system calls; the agent installer has the same, with a panic for a clone, which it
  handles before.\<close>

definition fetch_source_bytes :: "('d, 'f) pkg_env \<Rightarrow> package_source \<Rightarrow> 'd \<Rightarrow> bytes avix_result" where
  "fetch_source_bytes env source d =
     (case source of
        HttpUrl url \<Rightarrow> http_bytes env 1 url
      | LocalPath path \<Rightarrow> local_bytes env ''read'' path d
      | GitHubRelease url _ \<Rightarrow> http_bytes env 1 url
      | GitClone _ \<Rightarrow> Inl (ConfigParse ''git clone not implemented''))"

section \<open>Checksums and archives\<close>

definition static_verify_checksum :: "('d, 'f) pkg_env \<Rightarrow> bytes \<Rightarrow> string \<Rightarrow> unit avix_result" where
  "static_verify_checksum env bs expected =
     (case split_once (CHR '':'') expected of
        None \<Rightarrow> Inl (ConfigParse (''invalid checksum format: '' @ expected))
      | Some (algo, expected_hex) \<Rightarrow>
          if algo = ''sha256'' then
            (let digest = pk_sha256 env bs
             in if digest \<noteq> expected_hex
                then Inl (ConfigParse (''checksum mismatch: expected '' @ expected_hex @ '' got '' @ digest)) else Inr ())
          else Inl (ConfigParse (''unsupported checksum algorithm: '' @ algo)))"

text \<open>\<^verbatim>\<open>Path::components\<close>: empty components go, a dot only stays at the front of a relative path, and an absolute path
  starts with its root.\<close>

definition path_components :: "string \<Rightarrow> string list" where
  "path_components p =
     (let parts = filter (\<lambda>x. x \<noteq> []) (split_char (CHR ''/'') p); plain = filter (\<lambda>x. x \<noteq> ''.'') parts
      in if starts_with p ''/'' then ''/'' # plain
         else (case parts of x # _ \<Rightarrow> if x = ''.'' then ''.'' # plain else plain | [] \<Rightarrow> []))"

definition is_xz :: "bytes \<Rightarrow> bool" where
  "is_xz bs \<longleftrightarrow> 6 \<le> length bs \<and> take 6 bs = [0xFD, 0x37, 0x7A, 0x58, 0x5A, 0x00]"

definition extract_entry :: "('d, 'f) pkg_env \<Rightarrow> string \<Rightarrow> tar_entry \<Rightarrow> 'd \<Rightarrow> bool avix_result \<times> 'd" where
  "extract_entry env dest en d =
     (case tar_path en of
        Inl e \<Rightarrow> (Inl (ConfigParse e), d)
      | Inr raw \<Rightarrow>
          (let stripped = drop 1 (path_components raw); out_path = Memfs.path_join dest (join_str ''/'' stripped)
           in if stripped = [] then (Inr False, d)
              else (case (case path_parent out_path of None \<Rightarrow> Inr d | Some up \<Rightarrow> do_create_dir_all (pk_os env) d up) of
                      Inl e \<Rightarrow> (Inl (ConfigParse e), d)
                    | Inr d1 \<Rightarrow>
                        if \<not> tar_is_file en then (Inr False, d1)
                        else (case tar_data en of
                                Inl e \<Rightarrow> (Inl (ConfigParse e), d1)
                              | Inr data \<Rightarrow>
                                  (case do_write (pk_os env) d1 out_path data of
                                     Inl e \<Rightarrow> (Inl (ConfigParse e), d1)
                                   | Inr d2 \<Rightarrow>
                                       (case (if hd stripped = ''bin'' then pk_chmod_755 env d2 out_path else Inr d2) of
                                          Inl e \<Rightarrow> (Inl (ConfigParse e), d2)
                                        | Inr d3 \<Rightarrow> (Inr (stripped = [''manifest.yaml'']), d3)))))))"

fun extract_entries :: "('d, 'f) pkg_env \<Rightarrow> string \<Rightarrow> (string + tar_entry) list \<Rightarrow> bool \<Rightarrow> 'd \<Rightarrow> bool avix_result \<times> 'd" where
  "extract_entries env dest [] found d = (Inr found, d)"
| "extract_entries env dest (Inl e # es) found d = (Inl (ConfigParse (''tarball entry: '' @ e)), d)"
| "extract_entries env dest (Inr en # es) found d =
     (case extract_entry env dest en d of
        (Inl e, d') \<Rightarrow> (Inl e, d')
      | (Inr got, d') \<Rightarrow> extract_entries env dest es (found \<or> got) d')"

definition extract_tarball :: "('d, 'f) pkg_env \<Rightarrow> bytes \<Rightarrow> string \<Rightarrow> 'd \<Rightarrow> unit avix_result \<times> 'd" where
  "extract_tarball env bs dest d =
     (case pk_untar env (is_xz bs) bs of
        Inl e \<Rightarrow> (Inl (ConfigParse (''tarball read: '' @ e)), d)
      | Inr es \<Rightarrow>
          (case extract_entries env dest es False d of
             (Inl e, d') \<Rightarrow> (Inl e, d')
           | (Inr found, d') \<Rightarrow>
               (if found then Inr () else Inl (ConfigParse ''tarball missing required manifest.yaml file''), d')))"

section \<open>The service installer\<close>

record install_request =
  isq_source :: string
  isq_checksum :: "string option"
  isq_autostart :: bool

record install_result =
  irs_name :: string
  irs_version :: string
  irs_install_dir :: string
  irs_receipt_path :: string
  irs_tools :: "string list"

definition svc_fetch :: "('d, 'f) pkg_env \<Rightarrow> nat \<Rightarrow> string \<Rightarrow> 'd \<Rightarrow> bytes avix_result" where
  "svc_fetch env k source d =
     (case Syscalls.strip_prefix ''file://'' source of
        Some path \<Rightarrow> local_bytes env ''cannot read'' path d
      | None \<Rightarrow>
          if starts_with source ''https://'' \<or> starts_with source ''http://'' then http_bytes env k source
          else Inl (ConfigParse (''unsupported source scheme: '' @ source)))"

definition services_dir :: "('d, 'f) pkg_env \<Rightarrow> string" where
  "services_dir env = pathbuf_join (pathbuf_join (pk_root env) ''data'') ''services''"

definition service_install_dir :: "('d, 'f) pkg_env \<Rightarrow> service_unit \<Rightarrow> string" where
  "service_install_dir env u = pathbuf_join (services_dir env) (su_name u @ ''@'' @ su_version u)"

text \<open>The directories of other versions are only logged.\<close>

definition check_conflicts :: "('d, 'f) pkg_env \<Rightarrow> service_unit \<Rightarrow> 'd \<Rightarrow> unit avix_result" where
  "check_conflicts env u d =
     (if do_exists (pk_os env) d (service_install_dir env u)
      then Inl (ConfigParse (''service version already installed: '' @ su_name u @ ''@'' @ su_version u)) else Inr ())"

definition unit_load :: "('d, 'f) pkg_env \<Rightarrow> string \<Rightarrow> 'd \<Rightarrow> service_unit avix_result" where
  "unit_load env path d =
     (case read_text env d path of
        Inl e \<Rightarrow> Inl (ConfigParse (''cannot read '' @ path @ '': '' @ e))
      | Inr content \<Rightarrow>
          (case pk_unit env content of Inl e \<Rightarrow> Inl (ConfigParse (''manifest.yaml parse error: '' @ e)) | Inr m \<Rightarrow> Inr (from_manifest m)))"

text \<open>The directory is created and the temporary one renamed onto it; on an error the guard removes what is there.\<close>

definition move_into_place :: "('d, 'f) pkg_env \<Rightarrow> string \<Rightarrow> string \<Rightarrow> 'd \<Rightarrow> unit avix_result \<times> 'd" where
  "move_into_place env tmp dir d =
     (case do_create_dir_all (pk_os env) d dir of
        Inl e \<Rightarrow> (Inl (ConfigParse e), discard_dir env tmp (install_guard_drop env dir d))
      | Inr d1 \<Rightarrow>
          (case pk_rename env d1 tmp dir of
             Inl e \<Rightarrow>
               (Inl (ConfigParse (''install failed and rolled back: '' @ e)),
                install_guard_drop env dir (discard_dir env dir (discard_dir env tmp d1)))
           | Inr d2 \<Rightarrow> (Inr (), d2)))"

definition service_receipt :: "('d, 'f) pkg_env \<Rightarrow> install_request \<Rightarrow> service_unit \<Rightarrow> install_receipt" where
  "service_receipt env req u =
     \<lparr> irc_name = su_name u, irc_version = su_version u, irc_source_url = Some (isq_source req), irc_checksum = isq_checksum req,
       irc_installed_at = pk_now env, irc_service_unit_path = pathbuf_join (service_install_dir env u) ''manifest.yaml'',
       irc_binary_path = ssec_binary (su_service u) \<rparr>"

definition write_receipt :: "('d, 'f) pkg_env \<Rightarrow> install_request \<Rightarrow> service_unit \<Rightarrow> 'd \<Rightarrow> unit avix_result \<times> 'd" where
  "write_receipt env req u d =
     (case pk_receipt env (service_receipt env req u) of
        Inl e \<Rightarrow> (Inl (ConfigParse e), d)
      | Inr j \<Rightarrow>
          (case do_write (pk_os env) d (pathbuf_join (service_install_dir env u) ''.install.json'') (bytes_of_string j) of
             Inl e \<Rightarrow> (Inl (ConfigParse e), d) | Inr d' \<Rightarrow> (Inr (), d')))"

definition svc_unpacked :: "('d, 'f) pkg_env \<Rightarrow> bytes \<Rightarrow> string \<Rightarrow> 'd \<Rightarrow> service_unit avix_result \<times> 'd" where
  "svc_unpacked env bs tmp d =
     (case extract_tarball env bs tmp d of
        (Inl e, d') \<Rightarrow> (Inl e, d')
      | (Inr _, d') \<Rightarrow>
          (case unit_load env (pathbuf_join tmp ''manifest.yaml'') d' of
             Inl e \<Rightarrow> (Inl e, d')
           | Inr u \<Rightarrow> (case check_conflicts env u d' of Inl e \<Rightarrow> (Inl e, d') | Inr _ \<Rightarrow> (Inr u, d'))))"

definition service_install :: "('d, 'f) pkg_env \<Rightarrow> nat \<Rightarrow> install_request \<Rightarrow> 'd \<Rightarrow> install_result avix_result \<times> 'd" where
  "service_install env k req d =
     (case svc_fetch env k (isq_source req) d of
        Inl e \<Rightarrow> (Inl e, d)
      | Inr bs \<Rightarrow>
          (case (case isq_checksum req of None \<Rightarrow> Inr () | Some expected \<Rightarrow> static_verify_checksum env bs expected) of
             Inl e \<Rightarrow> (Inl e, d)
           | Inr _ \<Rightarrow>
               (case pk_tempdir env d of
                  Inl e \<Rightarrow> (Inl (ConfigParse e), d)
                | Inr (tmp, d1) \<Rightarrow>
                    (case svc_unpacked env bs tmp d1 of
                       (Inl e, d2) \<Rightarrow> (Inl e, discard_dir env tmp d2)
                     | (Inr u, d2) \<Rightarrow>
                         (let dir = service_install_dir env u
                          in (case move_into_place env tmp dir d2 of
                                (Inl e, d3) \<Rightarrow> (Inl e, d3)
                              | (Inr _, d3) \<Rightarrow>
                                  (case write_receipt env req u d3 of
                                     (Inl e, d4) \<Rightarrow> (Inl e, discard_dir env tmp (install_guard_drop env dir d4))
                                   | (Inr _, d4) \<Rightarrow>
                                       (Inr \<lparr> irs_name = su_name u, irs_version = su_version u, irs_install_dir = dir,
                                              irs_receipt_path = pathbuf_join dir ''.install.json'',
                                              irs_tools = tsx_provides (su_tools u) \<rparr>, discard_dir env tmp d4))))))))"

section \<open>The agent installer\<close>

datatype install_scope = InstallSystem | InstallUser string

record agent_install_request =
  aiq_source :: string
  aiq_version :: "string option"
  aiq_scope :: install_scope
  aiq_checksum :: "string option"
  aiq_session_id :: "string option"
  aiq_no_verify :: bool

record agent_install_result =
  air_name :: string
  air_version :: string
  air_install_dir :: string

definition git_clone_to :: "('d, 'f) pkg_env \<Rightarrow> string \<Rightarrow> string \<Rightarrow> 'd \<Rightarrow> unit avix_result \<times> 'd" where
  "git_clone_to env url dest d =
     (case pk_git env d url dest of
        (GitSpawnErr e, d') \<Rightarrow> (Inl (ConfigParse (''git clone failed: '' @ e)), d')
      | (GitExit code ok, d') \<Rightarrow>
          (if ok then Inr () else Inl (ConfigParse (''git clone exited with code: '' @ pk_git_code env code)), d'))"

text \<open>The first word of the first line of the checksum file, whatever asset that line is about.\<close>

fun take_word :: "string \<Rightarrow> string" where
  "take_word [] = []"
| "take_word (c # s) = (if blank_width white_spaces (c # s) = 0 then c # take_word s else [])"

definition first_word :: "string \<Rightarrow> string option" where
  "first_word line = (let s = drop_ws white_spaces line in if s = [] then None else Some (take_word s))"

definition fetch_and_verify_checksum_file :: "('d, 'f) pkg_env \<Rightarrow> bytes \<Rightarrow> string \<Rightarrow> unit avix_result" where
  "fetch_and_verify_checksum_file env bs url =
     (case pk_get env 2 url of
        HttpSendErr e \<Rightarrow> Inl (ConfigParse (''fetch checksum '' @ url @ '': '' @ e))
      | HttpBodyErr e \<Rightarrow> Inl (ConfigParse (''read checksum '' @ url @ '': '' @ e))
      | HttpBody body \<Rightarrow>
          (case str_lines (pk_text env body) of
             [] \<Rightarrow> Inl (ConfigParse ''invalid checksum file'')
           | l # _ \<Rightarrow>
               (case first_word l of
                  None \<Rightarrow> Inl (ConfigParse ''invalid checksum file'')
                | Some hex \<Rightarrow> static_verify_checksum env bs (''sha256:'' @ hex))))"

definition verify_agent_bytes :: "('d, 'f) pkg_env \<Rightarrow> agent_install_request \<Rightarrow> package_source \<Rightarrow> bytes \<Rightarrow> unit avix_result" where
  "verify_agent_bytes env req source bs =
     (if aiq_no_verify req then Inr ()
      else (case aiq_checksum req of
              Some expected \<Rightarrow> static_verify_checksum env bs expected
            | None \<Rightarrow> (case source of GitHubRelease _ (Some url) \<Rightarrow> fetch_and_verify_checksum_file env bs url | _ \<Rightarrow> Inr ())))"

definition read_agent_manifest :: "('d, 'f) pkg_env \<Rightarrow> string \<Rightarrow> 'd \<Rightarrow> 'f agent_manifest avix_result" where
  "read_agent_manifest env tmp d =
     (case read_text env d (pathbuf_join tmp ''manifest.yaml'') of
        Inl e \<Rightarrow> Inl (ConfigParse (''cannot read manifest.yaml: '' @ e))
      | Inr content \<Rightarrow> (case pk_agent env content of Inl e \<Rightarrow> Inl (ConfigParse e) | Inr m \<Rightarrow> Inr m))"

text \<open>Into a fresh temporary directory: a clone, or the unpacked archive.  An error removes the directory.\<close>

definition in_tempdir ::
  "('d, 'f) pkg_env \<Rightarrow> (string \<Rightarrow> 'd \<Rightarrow> unit avix_result \<times> 'd) \<Rightarrow> 'd \<Rightarrow> (string \<times> 'f agent_manifest) avix_result \<times> 'd" where
  "in_tempdir env fill d =
     (case pk_tempdir env d of
        Inl e \<Rightarrow> (Inl (ConfigParse e), d)
      | Inr (tmp, d1) \<Rightarrow>
          (case fill tmp d1 of
             (Inl e, d2) \<Rightarrow> (Inl e, discard_dir env tmp d2)
           | (Inr _, d2) \<Rightarrow>
               (case read_agent_manifest env tmp d2 of Inl e \<Rightarrow> (Inl e, discard_dir env tmp d2) | Inr m \<Rightarrow> (Inr (tmp, m), d2))))"

definition agent_unpacked ::
  "('d, 'f) pkg_env \<Rightarrow> agent_install_request \<Rightarrow> package_source \<Rightarrow> 'd \<Rightarrow> (string \<times> 'f agent_manifest) avix_result \<times> 'd" where
  "agent_unpacked env req source d =
     (case source of
        GitClone url \<Rightarrow> in_tempdir env (git_clone_to env url) d
      | _ \<Rightarrow>
          (case fetch_source_bytes env source d of
             Inl e \<Rightarrow> (Inl e, d)
           | Inr bs \<Rightarrow>
               (case verify_agent_bytes env req source bs of
                  Inl e \<Rightarrow> (Inl e, d)
                | Inr _ \<Rightarrow> in_tempdir env (extract_tarball env bs) d)))"

definition scope_dir :: "('d, 'f) pkg_env \<Rightarrow> install_scope \<Rightarrow> string" where
  "scope_dir env scope =
     (let data = pathbuf_join (pk_root env) ''data''
      in (case scope of
            InstallSystem \<Rightarrow> pathbuf_join data ''bin''
          | InstallUser u \<Rightarrow> pathbuf_join (pathbuf_join (pathbuf_join data ''users'') u) ''bin''))"

definition agent_install_dir :: "('d, 'f) pkg_env \<Rightarrow> install_scope \<Rightarrow> 'f agent_manifest \<Rightarrow> string" where
  "agent_install_dir env scope m =
     pathbuf_join (scope_dir env scope) (mm_name (am_metadata m) @ ''@'' @ mm_version (am_metadata m))"

definition agent_install :: "('d, 'f) pkg_env \<Rightarrow> agent_install_request \<Rightarrow> 'd \<Rightarrow> agent_install_result avix_result \<times> 'd" where
  "agent_install env req d =
     (case resolve_source env (aiq_source req) (aiq_version req) of
        Inl e \<Rightarrow> (Inl e, d)
      | Inr source \<Rightarrow>
          (case agent_unpacked env req source d of
             (Inl e, d1) \<Rightarrow> (Inl e, d1)
           | (Inr (tmp, m), d1) \<Rightarrow>
               (let dir = agent_install_dir env (aiq_scope req) m; name = mm_name (am_metadata m); version = mm_version (am_metadata m)
                in if do_exists (pk_os env) d1 dir
                   then (Inl (ConfigParse (''agent version already installed: '' @ name @ ''@'' @ version)), discard_dir env tmp d1)
                   else (case move_into_place env tmp dir d1 of
                           (Inl e, d2) \<Rightarrow> (Inl e, d2)
                         | (Inr _, d2) \<Rightarrow>
                             (Inr \<lparr> air_name = name, air_version = version, air_install_dir = dir \<rparr>, discard_dir env tmp d2)))))"

section \<open>Trusted keys and signatures\<close>

definition strip_suffix_str :: "string \<Rightarrow> string \<Rightarrow> string option" where
  "strip_suffix_str suf s = (if ends_with s suf then Some (take (length s - length suf) s) else None)"

definition trust_glob_match :: "string \<Rightarrow> string \<Rightarrow> bool" where
  "trust_glob_match pat val =
     (case strip_suffix_str ''/*'' pat of
        Some pre \<Rightarrow> starts_with val (pre @ ''/'') \<or> val = pre
      | None \<Rightarrow> (case strip_suffix_str ''*'' pat of Some pre \<Rightarrow> starts_with val pre | None \<Rightarrow> pat = val))"

definition allows_source :: "trusted_key \<Rightarrow> string \<Rightarrow> bool" where
  "allows_source key source \<longleftrightarrow> tk_allowed_sources key = [] \<or> list_ex (\<lambda>pat. trust_glob_match pat source) (tk_allowed_sources key)"

definition trust_dir :: "('d, 'f) pkg_env \<Rightarrow> string" where
  "trust_dir env = pathbuf_join (pk_root env) ''etc/avix/trusted-keys''"

definition key_path :: "('d, 'f) pkg_env \<Rightarrow> string \<Rightarrow> string" where
  "key_path env fp = pathbuf_join (trust_dir env) (fp @ ''.asc'')"

definition meta_path :: "('d, 'f) pkg_env \<Rightarrow> string \<Rightarrow> string" where
  "meta_path env fp = pathbuf_join (trust_dir env) (fp @ ''.meta.yaml'')"

definition extract_fingerprint :: "('d, 'f) pkg_env \<Rightarrow> string \<Rightarrow> string avix_result" where
  "extract_fingerprint env key_asc = (case pk_fingerprint env key_asc of Inl e \<Rightarrow> Inl (ConfigParse (''invalid key: '' @ e)) | Inr fp \<Rightarrow> Inr fp)"

definition trust_add_key :: "('d, 'f) pkg_env \<Rightarrow> string \<Rightarrow> string \<Rightarrow> string list \<Rightarrow> 'd \<Rightarrow> trusted_key avix_result \<times> 'd" where
  "trust_add_key env key_asc label sources d =
     (case do_create_dir_all (pk_os env) d (trust_dir env) of
        Inl e \<Rightarrow> (Inl (ConfigParse e), d)
      | Inr d1 \<Rightarrow>
          (case extract_fingerprint env key_asc of
             Inl e \<Rightarrow> (Inl e, d1)
           | Inr fp \<Rightarrow>
               if do_exists (pk_os env) d1 (key_path env fp) then (Inl (ConfigParse (''key already trusted: '' @ fp)), d1)
               else
                 (let key = \<lparr> tk_fingerprint = fp, tk_label = label, tk_added_at = pk_now env, tk_allowed_sources = sources \<rparr>
                  in (case do_write (pk_os env) d1 (key_path env fp) (bytes_of_string key_asc) of
                        Inl e \<Rightarrow> (Inl (ConfigParse e), d1)
                      | Inr d2 \<Rightarrow>
                          (case enc (pk_keys env) key of
                             Inl e \<Rightarrow> (Inl (ConfigParse e), d2)
                           | Inr yaml \<Rightarrow>
                               (case do_write (pk_os env) d2 (meta_path env fp) (bytes_of_string yaml) of
                                  Inl e \<Rightarrow> (Inl (ConfigParse e), d2) | Inr d3 \<Rightarrow> (Inr key, d3)))))))"

text \<open>\<^verbatim>\<open>extension() == "yaml"\<close>: the part after the last dot of a file name that has another character before it.\<close>

definition has_extension :: "string \<Rightarrow> string \<Rightarrow> bool" where
  "has_extension ext f = (case rsplit_once (CHR ''.'') f of None \<Rightarrow> False | Some (stem, e) \<Rightarrow> stem \<noteq> [] \<and> e = ext)"

fun read_keys :: "('d, 'f) pkg_env \<Rightarrow> 'd \<Rightarrow> (string + string option) list \<Rightarrow> trusted_key list avix_result" where
  "read_keys env d [] = Inr []"
| "read_keys env d (Inl e # es) = Inl (ConfigParse e)"
| "read_keys env d (Inr None # es) = read_keys env d es"
| "read_keys env d (Inr (Some f) # es) =
     (if \<not> has_extension ''yaml'' f then read_keys env d es
      else (case read_text env d (pathbuf_join (trust_dir env) f) of
              Inl e \<Rightarrow> Inl (ConfigParse e)
            | Inr content \<Rightarrow>
                (case dec (pk_keys env) content of
                   Inl e \<Rightarrow> Inl (ConfigParse e)
                 | Inr key \<Rightarrow> (case read_keys env d es of Inl e \<Rightarrow> Inl e | Inr ks \<Rightarrow> Inr (key # ks)))))"

definition trust_list_keys :: "('d, 'f) pkg_env \<Rightarrow> 'd \<Rightarrow> trusted_key list avix_result" where
  "trust_list_keys env d =
     (if \<not> do_exists (pk_os env) d (trust_dir env) then Inr []
      else (case do_read_dir (pk_os env) d (trust_dir env) of
              Inl e \<Rightarrow> Inl (ConfigParse e)
            | Inr es \<Rightarrow> (case read_keys env d es of Inl e \<Rightarrow> Inl e | Inr ks \<Rightarrow> Inr (sort_key tk_added_at ks))))"

definition trust_remove_key :: "('d, 'f) pkg_env \<Rightarrow> string \<Rightarrow> 'd \<Rightarrow> unit avix_result \<times> 'd" where
  "trust_remove_key env fp d =
     (if \<not> do_exists (pk_os env) d (key_path env fp) then (Inl (ConfigParse (''key not found: '' @ fp)), d)
      else (case do_remove (pk_os env) d (key_path env fp) of
              Inl e \<Rightarrow> (Inl (ConfigParse e), d)
            | Inr d1 \<Rightarrow>
                (case do_remove (pk_os env) d1 (meta_path env fp) of Inl e \<Rightarrow> (Inl (ConfigParse e), d1) | Inr d2 \<Rightarrow> (Inr (), d2))))"

definition trust_get_key :: "('d, 'f) pkg_env \<Rightarrow> string \<Rightarrow> 'd \<Rightarrow> (string \<times> trusted_key) option avix_result" where
  "trust_get_key env fp d =
     (if \<not> do_exists (pk_os env) d (key_path env fp) then Inr None
      else (case read_text env d (key_path env fp) of
              Inl e \<Rightarrow> Inl (ConfigParse e)
            | Inr key_asc \<Rightarrow>
                (case read_text env d (meta_path env fp) of
                   Inl e \<Rightarrow> Inl (ConfigParse e)
                 | Inr yaml \<Rightarrow> (case dec (pk_keys env) yaml of Inl e \<Rightarrow> Inl (ConfigParse e) | Inr key \<Rightarrow> Inr (Some (key_asc, key))))))"

text \<open>OpenPGP: armoured signatures and keys, the verification of a signature, the fingerprint of its issuer.\<close>

record ('g, 'p) pgp_env =
  pg_official :: string
  pg_sig :: "string \<Rightarrow> string + 'g"
  pg_key :: "string \<Rightarrow> string + 'p"
  pg_verify :: "'g \<Rightarrow> 'p \<Rightarrow> bytes \<Rightarrow> string + unit"
  pg_issuer :: "'g \<Rightarrow> string option"

datatype verified_by = VerifiedOfficial | VerifiedTrusted trusted_key

definition no_key_error :: avix_error where
  "no_key_error = ConfigParse (''signing key is not in the official keyring or trust store '' @ [CHR 0xE2, CHR 0x80, CHR 0x94] @
     '' add it with `avix package trust add`'')"

definition pkg_verify_signature ::
  "('g, 'p) pgp_env \<Rightarrow> ('d, 'f) pkg_env \<Rightarrow> bytes \<Rightarrow> string \<Rightarrow> string \<Rightarrow> 'd \<Rightarrow> verified_by avix_result" where
  "pkg_verify_signature pgp env data sig_asc source d =
     (case pg_sig pgp sig_asc of
        Inl e \<Rightarrow> Inl (ConfigParse (''parse signature: '' @ e))
      | Inr sig \<Rightarrow>
          (case pg_key pgp (pg_official pgp) of
             Inl e \<Rightarrow> Inl (ConfigParse (''parse official key: '' @ e))
           | Inr official \<Rightarrow>
               if \<not> isl (pg_verify pgp sig official data) then Inr VerifiedOfficial
               else (case pg_issuer pgp sig of
                       None \<Rightarrow> Inl no_key_error
                     | Some fp \<Rightarrow>
                         (case trust_get_key env fp d of
                            Inl e \<Rightarrow> Inl e
                          | Inr None \<Rightarrow> Inl no_key_error
                          | Inr (Some (key_asc, meta)) \<Rightarrow>
                              if \<not> allows_source meta source
                              then Inl (ConfigParse (''key '' @ squoted (tk_label meta) @ '' ('' @ fp @ '') is not trusted for source '' @ squoted source))
                              else (case pg_key pgp key_asc of
                                      Inl e \<Rightarrow> Inl (ConfigParse (''load trusted key: '' @ e))
                                    | Inr pubkey \<Rightarrow>
                                        (case pg_verify pgp sig pubkey data of
                                           Inl e \<Rightarrow> Inl (ConfigParse (''signature invalid: '' @ e))
                                         | Inr _ \<Rightarrow> Inr (VerifiedTrusted meta)))))))"

section \<open>Kinds and validation of packages\<close>

datatype package_type = PkgAgent | PkgService

definition package_detect :: "('d, 'f) pkg_env \<Rightarrow> string \<Rightarrow> 'd \<Rightarrow> package_type avix_result" where
  "package_detect env dir d =
     (case read_text env d (pathbuf_join dir ''manifest.yaml'') of
        Inl _ \<Rightarrow> Inl (ConfigParse ''manifest.yaml not found'')
      | Inr content \<Rightarrow>
          (case pk_kind env content of
             Inl e \<Rightarrow> Inl (ConfigParse (''manifest.yaml parse error: '' @ e))
           | Inr kind \<Rightarrow>
               if kind = ''Agent'' then Inr PkgAgent
               else if kind = ''Service'' then Inr PkgService
               else Inl (ConfigParse (''unknown kind: '' @ kind))))"

record validation_error =
  ve_path :: string
  ve_message :: string

definition verr :: "bool \<Rightarrow> string \<Rightarrow> string \<Rightarrow> validation_error list" where
  "verr cond path msg = (if cond then [\<lparr> ve_path = path, ve_message = msg \<rparr>] else [])"

definition validate_agent_package :: "('d, 'f) pkg_env \<Rightarrow> string \<Rightarrow> 'd \<Rightarrow> validation_error list" where
  "validate_agent_package env dir d =
     (case read_text env d (pathbuf_join dir ''manifest.yaml'') of
        Inl e \<Rightarrow> verr True ''manifest.yaml'' (''cannot read: '' @ e)
      | Inr content \<Rightarrow>
          (case pk_agent env content of
             Inl e \<Rightarrow> verr True ''manifest.yaml'' (''parse error: '' @ error_display (ConfigParse e))
           | Inr m \<Rightarrow>
               verr (mm_name (am_metadata m) = []) ''manifest.yaml'' ''metadata.name is empty'' @
               verr (mm_version (am_metadata m) = []) ''manifest.yaml'' ''metadata.version is empty'' @
               (case asp_system_prompt_path (am_spec m) of
                  None \<Rightarrow> []
                | Some p \<Rightarrow> verr (\<not> do_exists (pk_os env) d (pathbuf_join dir p)) p ''systemPromptPath references missing file'')))"

definition validate_service_package :: "('d, 'f) pkg_env \<Rightarrow> string \<Rightarrow> 'd \<Rightarrow> validation_error list" where
  "validate_service_package env dir d =
     (let bin_dir = pathbuf_join dir ''bin'';
          manifest_errors =
            (case unit_load env (pathbuf_join dir ''manifest.yaml'') d of
               Inl e \<Rightarrow> verr True ''manifest.yaml'' (''cannot read or parse: '' @ error_display e)
             | Inr u \<Rightarrow>
                 verr (su_name u = []) ''manifest.yaml'' ''metadata.name is empty'' @
                 verr (su_version u = []) ''manifest.yaml'' ''metadata.version is empty'' @
                 verr (ssec_binary (su_service u) = []) ''manifest.yaml'' ''spec.binary is empty'')
      in manifest_errors @
         (if \<not> do_exists (pk_os env) d bin_dir then verr True ''bin/'' ''bin/ directory is missing (build the binary first)''
          else verr (case do_read_dir (pk_os env) d bin_dir of Inl _ \<Rightarrow> True | Inr es \<Rightarrow> es = []) ''bin/'' ''bin/ directory is empty''))"

definition package_validate :: "('d, 'f) pkg_env \<Rightarrow> string \<Rightarrow> 'd \<Rightarrow> validation_error list + package_type" where
  "package_validate env dir d =
     (case package_detect env dir d of
        Inl e \<Rightarrow> Inl [\<lparr> ve_path = dir, ve_message = error_display e \<rparr>]
      | Inr kind \<Rightarrow>
          (let errors = (case kind of PkgAgent \<Rightarrow> validate_agent_package env dir d | PkgService \<Rightarrow> validate_service_package env dir d)
           in if errors = [] then Inr kind else Inl errors))"

section \<open>The quota of installations\<close>

text \<open>Times are readings of the monotonic clock, in nanoseconds; \<open>iq_text\<close> is the debug form of the window.\<close>

record install_quota =
  iq_window :: nat
  iq_text :: string
  iq_limit :: u32
  iq_counters :: "(string, u32 \<times> nat) hmap"

definition install_quota_new :: "u32 \<Rightarrow> nat \<Rightarrow> string \<Rightarrow> install_quota" where
  "install_quota_new limit window txt = \<lparr> iq_window = window, iq_text = txt, iq_limit = limit, iq_counters = [] \<rparr>"

definition INSTALL_QUOTA :: install_quota where
  "INSTALL_QUOTA = install_quota_new 10 (3600 * 1000000000) ''3600s''"

definition quota_check :: "nat \<Rightarrow> string \<Rightarrow> install_quota \<Rightarrow> (syscall_error + unit) \<times> install_quota" where
  "quota_check now user q =
     (let entry = (case hm_get (iq_counters q) user of None \<Rightarrow> (0, now) | Some en \<Rightarrow> en);
          entry1 = (if iq_window q < now - snd entry then (0, now) else entry)
      in if iq_limit q \<le> fst entry1
         then (Inl (Sceperm 0 (''install quota exceeded: max '' @ show_word (iq_limit q) @ '' installs per '' @ iq_text q)),
               q\<lparr> iq_counters := hm_insert user entry1 (iq_counters q) \<rparr>)
         else (Inr (), q\<lparr> iq_counters := hm_insert user (fst entry1 + 1, snd entry1) (iq_counters q) \<rparr>))"

section \<open>The system calls\<close>

text \<open>The quota is one object of the process, the disk the other state.  A call is given the reading \<open>now\<close> of the
  monotonic clock.\<close>

record 'd pkg_state =
  pks_quota :: install_quota
  pks_disk :: 'd

definition opt_str :: "string \<Rightarrow> json \<Rightarrow> string option" where
  "opt_str k params = Option.bind (json_get params k) as_str"

definition pkg_check_capability :: "syscall_context \<Rightarrow> string \<Rightarrow> syscall_error + unit" where
  "pkg_check_capability ctx cap =
     (if \<not> has_tool (sx_token ctx) cap then Inl (Sceperm (sx_caller_pid ctx) (''missing capability: '' @ cap)) else Inr ())"

definition is_official :: "string \<Rightarrow> bool" where
  "is_official source \<longleftrightarrow>
     contains_str source ''github.com/avadhpatel/avix'' \<or> starts_with source ''github:avadhpatel/avix''"

definition check_untrusted_source :: "syscall_context \<Rightarrow> string \<Rightarrow> syscall_error + unit" where
  "check_untrusted_source ctx source =
     (if \<not> is_official source then pkg_check_capability ctx ''install:from-untrusted-source'' else Inr ())"

definition parse_scope :: "json \<Rightarrow> string \<Rightarrow> install_scope" where
  "parse_scope params username =
     (if unwrap_or ''user'' (opt_str ''scope'' params) = ''system'' then InstallSystem else InstallUser username)"

definition wanted_version :: "json \<Rightarrow> string option" where
  "wanted_version params = (case opt_str ''version'' params of Some v \<Rightarrow> if v = ''latest'' then None else Some v | None \<Rightarrow> None)"

definition no_verify_flag :: "json \<Rightarrow> bool" where
  "no_verify_flag params = unwrap_or False (Option.bind (json_get params ''no_verify'') as_bool)"

text \<open>The steps the two installations share: the capability, the quota of the user, the source, the check of the source.\<close>

definition admit_install ::
  "syscall_context \<Rightarrow> string \<Rightarrow> nat \<Rightarrow> string \<Rightarrow> json \<Rightarrow> 'd pkg_state \<Rightarrow> (syscall_error + string) \<times> 'd pkg_state" where
  "admit_install ctx cap now username params st =
     (case pkg_check_capability ctx cap of
        Inl e \<Rightarrow> (Inl e, st)
      | Inr _ \<Rightarrow>
          (case quota_check now username (pks_quota st) of
             (Inl e, q) \<Rightarrow> (Inl e, st\<lparr> pks_quota := q \<rparr>)
           | (Inr _, q) \<Rightarrow>
               (case opt_str ''source'' params of
                  None \<Rightarrow> (Inl (Sceinval ''missing source''), st\<lparr> pks_quota := q \<rparr>)
                | Some source \<Rightarrow>
                    (case (if no_verify_flag params then Inr () else check_untrusted_source ctx source) of
                       Inl e \<Rightarrow> (Inl e, st\<lparr> pks_quota := q \<rparr>)
                     | Inr _ \<Rightarrow> (Inr source, st\<lparr> pks_quota := q \<rparr>)))))"

definition installed_json :: "string \<Rightarrow> string \<Rightarrow> string \<Rightarrow> json" where
  "installed_json name version dir = JObj [(''name'', JStr name), (''version'', JStr version), (''install_dir'', JStr dir)]"

definition install_agent ::
  "('d, 'f) pkg_env \<Rightarrow> (string \<Rightarrow> string option) \<Rightarrow> syscall_context \<Rightarrow> nat \<Rightarrow> json \<Rightarrow> 'd pkg_state \<Rightarrow> syscall_result \<times> 'd pkg_state" where
  "install_agent env uuid ctx now params st =
     (let username = unwrap_or ''default'' (opt_str ''caller_identity'' params)
      in (case admit_install ctx ''proc/package/install-agent'' now username params st of
            (Inl e, st1) \<Rightarrow> (Inl e, st1)
          | (Inr source, st1) \<Rightarrow>
              (let req = \<lparr> aiq_source = source, aiq_version = wanted_version params, aiq_scope = parse_scope params username,
                          aiq_checksum = opt_str ''checksum'' params,
                          aiq_session_id = Option.bind (opt_str ''session_id'' params) uuid, aiq_no_verify = no_verify_flag params \<rparr>;
                   (res, d) = agent_install env req (pks_disk st1)
               in ((case res of
                      Inr r \<Rightarrow> Inr (installed_json (air_name r) (air_version r) (air_install_dir r))
                    | Inl e \<Rightarrow> Inl (Sceio (error_display e))), st1\<lparr> pks_disk := d \<rparr>))))"

definition install_service ::
  "('d, 'f) pkg_env \<Rightarrow> syscall_context \<Rightarrow> nat \<Rightarrow> json \<Rightarrow> 'd pkg_state \<Rightarrow> syscall_result \<times> 'd pkg_state" where
  "install_service env ctx now params st =
     (case admit_install ctx ''proc/package/install-service'' now ''default'' params st of
        (Inl e, st1) \<Rightarrow> (Inl e, st1)
      | (Inr source, st1) \<Rightarrow>
          (case resolve_source env source (wanted_version params) of
             Inl e \<Rightarrow> (Inl (Sceinval (error_display e)), st1)
           | Inr pkg \<Rightarrow>
               (case fetch_source_bytes env pkg (pks_disk st1) of
                  Inl e \<Rightarrow> (Inl (Sceio (error_display e)), st1)
                | Inr bs \<Rightarrow>
                    (let checksum = opt_str ''checksum'' params
                     in (case (if no_verify_flag params then Inr ()
                               else (case checksum of None \<Rightarrow> Inr () | Some ck \<Rightarrow> static_verify_checksum env bs ck)) of
                           Inl e \<Rightarrow> (Inl (Sceinval (error_display e)), st1)
                         | Inr _ \<Rightarrow>
                             (let (res, d) = service_install env 3
                                    \<lparr> isq_source = source, isq_checksum = checksum, isq_autostart = False \<rparr> (pks_disk st1)
                              in ((case res of
                                     Inr r \<Rightarrow> Inr (installed_json (irs_name r) (irs_version r) (irs_install_dir r))
                                   | Inl e \<Rightarrow> Inl (Sceio (error_display e))), st1\<lparr> pks_disk := d \<rparr>)))))))"

definition sys_install ::
  "('d, 'f) pkg_env \<Rightarrow> syscall_context \<Rightarrow> json \<Rightarrow> 'd pkg_state \<Rightarrow> syscall_result \<times> 'd pkg_state" where
  "sys_install env ctx params st =
     (if \<not> has_tool (sx_token ctx) ''auth:admin'' then (Inl (Sceperm (sx_caller_pid ctx) ''sys/install''), st)
      else (case as_str (json_index params ''source'') of
              None \<Rightarrow> (Inl (Sceinval ''missing `source`''), st)
            | Some source \<Rightarrow>
                (let (res, d) = service_install env 3
                       \<lparr> isq_source = source, isq_checksum = as_str (json_index params ''checksum''),
                         isq_autostart = unwrap_or True (as_bool (json_index params ''autostart'')) \<rparr> (pks_disk st)
                 in ((case res of
                        Inr r \<Rightarrow> Inr (JObj [(''name'', JStr (irs_name r)), (''version'', JStr (irs_version r)),
                                    (''tools'', JArr (map JStr (irs_tools r))), (''install_dir'', JStr (irs_install_dir r))])
                      | Inl e \<Rightarrow> Inl (Sceinval (error_display e))), st\<lparr> pks_disk := d \<rparr>))))"

definition uninstall_agent :: "('d, 'f) pkg_env \<Rightarrow> syscall_context \<Rightarrow> json \<Rightarrow> 'd pkg_state \<Rightarrow> syscall_result \<times> 'd pkg_state" where
  "uninstall_agent env ctx params st =
     (case pkg_check_capability ctx ''proc/package/install-agent'' of
        Inl e \<Rightarrow> (Inl e, st)
      | Inr _ \<Rightarrow>
          (case opt_str ''name'' params of
             None \<Rightarrow> (Inl (Sceinval ''missing name''), st)
           | Some name \<Rightarrow>
               (let username = unwrap_or ''default'' (opt_str ''caller_identity'' params);
                    dir = pathbuf_join (scope_dir env (parse_scope params username)) name
                in if \<not> do_exists (pk_os env) (pks_disk st) dir then (Inl (Sceinval (''agent not installed: '' @ name)), st)
                   else (case pk_remove_dir_all env (pks_disk st) dir of
                           Inl e \<Rightarrow> (Inl (Sceio (''failed to remove '' @ name @ '': '' @ e)), st)
                         | Inr d \<Rightarrow> (Inr (JObj [(''uninstalled'', JStr name)]), st\<lparr> pks_disk := d \<rparr>)))))"

text \<open>The directories of all versions of a service go; the first that cannot be removed ends the call.\<close>

fun remove_versions ::
  "('d, 'f) pkg_env \<Rightarrow> string \<Rightarrow> string list \<Rightarrow> string list \<Rightarrow> 'd \<Rightarrow> (syscall_error + string list) \<times> 'd" where
  "remove_versions env name [] removed d = (Inr removed, d)"
| "remove_versions env name (f # fs) removed d =
     (let path = pathbuf_join (services_dir env) f
      in if pk_is_dir env d path \<and> starts_with f (name @ ''@'')
         then (case pk_remove_dir_all env d path of
                 Inl e \<Rightarrow> (Inl (Sceio (''failed to remove '' @ f @ '': '' @ e)), d)
               | Inr d' \<Rightarrow> remove_versions env name fs (removed @ [f]) d')
         else remove_versions env name fs removed d)"

definition uninstall_service :: "('d, 'f) pkg_env \<Rightarrow> syscall_context \<Rightarrow> json \<Rightarrow> 'd pkg_state \<Rightarrow> syscall_result \<times> 'd pkg_state" where
  "uninstall_service env ctx params st =
     (case pkg_check_capability ctx ''proc/package/install-service'' of
        Inl e \<Rightarrow> (Inl e, st)
      | Inr _ \<Rightarrow>
          (case opt_str ''name'' params of
             None \<Rightarrow> (Inl (Sceinval ''missing name''), st)
           | Some name \<Rightarrow>
               (let names = (case do_read_dir (pk_os env) (pks_disk st) (services_dir env) of
                               Inl _ \<Rightarrow> [] | Inr es \<Rightarrow> List.map_filter (\<lambda>e. case e of Inl _ \<Rightarrow> None | Inr f \<Rightarrow> f) es);
                    (res, d) = remove_versions env name names [] (pks_disk st)
                in ((case res of
                       Inl e \<Rightarrow> Inl e
                     | Inr [] \<Rightarrow> Inl (Sceinval (''service not installed: '' @ name))
                     | Inr removed \<Rightarrow> Inr (JObj [(''uninstalled'', JArr (map JStr removed))])), st\<lparr> pks_disk := d \<rparr>))))"

definition trust_add :: "('d, 'f) pkg_env \<Rightarrow> syscall_context \<Rightarrow> json \<Rightarrow> 'd pkg_state \<Rightarrow> syscall_result \<times> 'd pkg_state" where
  "trust_add env ctx params st =
     (case pkg_check_capability ctx ''auth:admin'' of
        Inl e \<Rightarrow> (Inl e, st)
      | Inr _ \<Rightarrow>
          (case as_str (json_index params ''key_asc'') of
             None \<Rightarrow> (Inl (Sceinval ''missing key_asc''), st)
           | Some key_asc \<Rightarrow>
               (case as_str (json_index params ''label'') of
                  None \<Rightarrow> (Inl (Sceinval ''missing label''), st)
                | Some label \<Rightarrow>
                    (let sources = (case as_array (json_index params ''allowed_sources'') of
                                      None \<Rightarrow> [] | Some vs \<Rightarrow> List.map_filter as_str vs);
                         (res, d) = trust_add_key env key_asc label sources (pks_disk st)
                     in ((case res of
                            Inl e \<Rightarrow> Inl (Sceinval (error_display e))
                          | Inr key \<Rightarrow> Inr (JObj [(''fingerprint'', JStr (tk_fingerprint key)), (''label'', JStr (tk_label key)),
                                                (''added_at'', JStr (pk_rfc3339 env (tk_added_at key)))])), st\<lparr> pks_disk := d \<rparr>)))))"

definition trust_list :: "('d, 'f) pkg_env \<Rightarrow> 'd pkg_state \<Rightarrow> syscall_result" where
  "trust_list env st =
     (case trust_list_keys env (pks_disk st) of
        Inl e \<Rightarrow> Inl (Sceio (error_display e))
      | Inr keys \<Rightarrow>
          Inr (JObj [(''keys'', JArr (map (\<lambda>k. JObj [(''fingerprint'', JStr (tk_fingerprint k)), (''label'', JStr (tk_label k)),
                        (''added_at'', JStr (pk_rfc3339 env (tk_added_at k))),
                        (''allowed_sources'', JArr (map JStr (tk_allowed_sources k)))]) keys))]))"

definition trust_remove :: "('d, 'f) pkg_env \<Rightarrow> syscall_context \<Rightarrow> json \<Rightarrow> 'd pkg_state \<Rightarrow> syscall_result \<times> 'd pkg_state" where
  "trust_remove env ctx params st =
     (case pkg_check_capability ctx ''auth:admin'' of
        Inl e \<Rightarrow> (Inl e, st)
      | Inr _ \<Rightarrow>
          (case as_str (json_index params ''fingerprint'') of
             None \<Rightarrow> (Inl (Sceinval ''missing fingerprint''), st)
           | Some fp \<Rightarrow>
               (let (res, d) = trust_remove_key env fp (pks_disk st)
                in ((case res of Inl e \<Rightarrow> Inl (Sceinval (error_display e)) | Inr _ \<Rightarrow> Inr (JObj [(''removed'', JStr fp)])),
                    st\<lparr> pks_disk := d \<rparr>))))"

end
