(* ===== verification/Spec2Isabelle.thy ===== *)
theory Spec2Isabelle
  imports Prelude Types_Core Capability_Token Process_Table Tool_Registry Ipc Router Config_Users Memfs
    Auth Gateway Event_Bus Jobs Signals Pipes Syscalls Kernel_Caps Hil Records Proc_Handler
    Executor_Tools Executor_State Executor_Dispatch Executor_Loop Params
    Services Rpc_Server Kernel_Ipc Gateway_Server
    Llm_Routing Llm_Adapter Llm_Client Llm_Service Llm_Stream
    Cron Memory_Svc Agent_Manifest Snapshot_File Snapshot_Restore Secrets Packages Package_Laws
begin

text \<open>
  This development verifies the core of Avix, an operating-system-like runtime for
  language-model agents (\<^verbatim>\<open>src/crates/avix-core/src\<close>): a kernel with a process table,
  capability tokens, a tool registry and human approval; a router that forwards JSON-RPC tool
  calls to services; a virtual file system; signals, pipes and jobs between agents; an executor
  that runs each agent's turns with a language model; stores of sessions, invocations and
  conversations; and a gateway through which users command all of it over the ATP protocol.

  \<^bold>\<open>How the parts interact.\<close>  A user logs in (\<^verbatim>\<open>auth\<close>), gets a signed ATP token and sends
  commands; the gateway validates each (\<^verbatim>\<open>gateway/validator.rs\<close>), translates it for the kernel and
  publishes events back to sessions (\<^verbatim>\<open>gateway/event_bus.rs\<close>).  Spawning an agent resolves the
  capability groups of its manifest to tool names (\<^verbatim>\<open>kernel/capability_resolver.rs\<close>), which end up
  in its capability token (\<^verbatim>\<open>kernel/proc\<close>), and starts an executor (\<^verbatim>\<open>executor\<close>).  The executor asks
  the model, checks each tool call against the token and the budgets, and carries it out itself or
  over a socket.  The router
  (\<^verbatim>\<open>router/dispatcher.rs\<close>) looks a called tool up, checks the capability in the process table,
  takes a slot of the concurrency limiter and forwards to the service's endpoint.  A tool it does
  not have needs a human decision (\<^verbatim>\<open>kernel/hil_manager.rs\<close>).  Agents talk through pipes and are
  steered by signals; long tool calls are jobs.

  \<^bold>\<open>Theories.\<close>
  \<^item> \<open>Prelude\<close>: the vocabulary all theories share (strings and their Rust operations, hash maps as
    association lists with unique keys, JSON values, \<^verbatim>\<open>AvixError\<close>, saturating words), the
    locales \<open>keyed_store\<close>, \<open>keyed_update\<close>, \<open>event_machine\<close> (an operation that keeps an invariant keeps it
    in every run) and \<open>step_invariant\<close> (the same for a step relation), and runs (\<open>run_events\<close>,
    \<open>reach\<close>).
  \<^item> \<open>Types_Core\<close>: \<^verbatim>\<open>types/{pid,role,tool,modality,capability_map}.rs\<close>, \<^verbatim>\<open>router/mangle.rs\<close>; wire
    names round-trip except for one pattern.
  \<^item> \<open>Capability_Token\<close>: \<^verbatim>\<open>types/token.rs\<close>; what the signature covers.
  \<^item> \<open>Process_Table\<close>: \<^verbatim>\<open>process\<close>; identity and counters of an entry over its life.
  \<^item> \<open>Tool_Registry\<close>: \<^verbatim>\<open>tool_registry\<close>; refinement of a map, and draining on removal as a step
    relation: safe when no caller stands between its look-up and its permit, and the race otherwise.
  \<^item> \<open>Ipc\<close>: \<^verbatim>\<open>ipc/{message,frame}.rs\<close>; a stream of frames reads back as written.
  \<^item> \<open>Router\<close>: \<^verbatim>\<open>router\<close>; exactly when a call is forwarded, what the callee is told of the caller,
    that nothing acquired leaks, and the bound of the limiter under interleaving.
  \<^item> \<open>Config_Users\<close>: \<^verbatim>\<open>config/users.rs\<close>.
  \<^item> \<open>Memfs\<close>: \<^verbatim>\<open>memfs\<close>; listing, longest-prefix routing, confinement of disk access to the mounted
    roots, read-after-write, and what the permission check amounts to.
  \<^item> \<open>Auth\<close>: \<^verbatim>\<open>auth\<close>, \<^verbatim>\<open>config/auth.rs\<close>; a live session was opened with valid credentials and not
    revoked since; tokens validate until revoked or expired; refreshing.
  \<^item> \<open>Gateway\<close>: \<^verbatim>\<open>gateway/{acl,replay,validator,translator}.rs\<close>, \<^verbatim>\<open>gateway/atp\<close>; exactly which
    commands are accepted, and that none is accepted twice.
  \<^item> \<open>Event_Bus\<close>: \<^verbatim>\<open>gateway/event_bus.rs\<close>; who receives an event, and what a replay returns.
  \<^item> \<open>Jobs\<close>: \<^verbatim>\<open>jobs\<close>; the life of a job, one final event each, and the watch.
  \<^item> \<open>Signals\<close>: \<^verbatim>\<open>signal\<close>; a subscription gets exactly the signals addressed to its process.
  \<^item> \<open>Pipes\<close>: \<^verbatim>\<open>pipe\<close>; authorised, bounded, first-in-first-out; clean-up on exit; what a close
    strands.
  \<^item> \<open>Syscalls\<close>: \<^verbatim>\<open>syscall\<close>; the table and the dispatcher agree.
  \<^item> \<open>Kernel_Caps\<close>: \<^verbatim>\<open>kernel/{capability_resolver,resource_request}.rs\<close>; what is granted, and that
    resource requests do not widen it.
  \<^item> \<open>Hil\<close>: \<^verbatim>\<open>kernel/{approval_token,hil,hil_manager}.rs\<close>; approvals are single-use under every
    interleaving; the outcomes and visibility of requests.
  \<^item> \<open>Records\<close>: \<^verbatim>\<open>session\<close>, \<^verbatim>\<open>invocation\<close>, \<^verbatim>\<open>history\<close> and their managers in \<^verbatim>\<open>kernel/proc\<close>; the
    invocation store refines a map, conversations read back as written.
  \<^item> \<open>Proc_Handler\<close>: \<^verbatim>\<open>kernel/proc\<close> and the recovery phase of \<^verbatim>\<open>kernel/boot.rs\<close>; what a spawn leaves
    behind, consistency of the manager's tables, pausing and resuming a session, finality of an
    abort.
  \<^item> \<open>Executor_Tools\<close>: \<^verbatim>\<open>executor/{validation,stop_reason,tool_registration,tool_manager,prompt}.rs\<close>,
    \<^verbatim>\<open>llm_client\<close>; budgets of tools, and exactly which tools the model is shown.
  \<^item> \<open>Executor_State\<close>: the executor's state, its persistence, its reactions to signals and its life
    between goals (\<^verbatim>\<open>executor/runtime_executor.rs\<close>).
  \<^item> \<open>Executor_Dispatch\<close>: one tool call (\<^verbatim>\<open>executor/{ipc_dispatch,syscall_dispatch}.rs\<close>, \<^verbatim>\<open>executor/hil\<close>),
    exactly when it panics, and which signal ends a wait for a human.
  \<^item> \<open>Executor_Loop\<close>: the turn loop (\<^verbatim>\<open>runtime_executor/dispatch_manager.rs\<close>) as a function of what each
    turn receives: bounded tool calls, termination, pausing, killing, streaming.
  \<^item> \<open>Params\<close>: \<^verbatim>\<open>params/{constraint,limits,defaults,resolver}.rs\<close>; the walk over the layers is a merge of
    the defaults, the resolved values respect the limits the resolver enforces, exactly when it fails,
    and the limits it does not enforce.
  \<^item> \<open>Services\<close>: \<^verbatim>\<open>service\<close> and the tool descriptors of \<^verbatim>\<open>tool_registry\<close>; a service shown as running
    has registered with a token issued to it, exactly which tokens are valid, what a service may do to the
    tools of others, and one round of the watchdog.
  \<^item> \<open>Rpc_Server\<close>: what every socket server of the system promises, as a locale.
  \<^item> \<open>Kernel_Ipc\<close>: \<^verbatim>\<open>kernel/ipc_server.rs\<close>; every request is answered once, the process manager stays
    consistent, and a session's methods refuse everyone but its owner.
  \<^item> \<open>Gateway_Server\<close>: \<^verbatim>\<open>gateway/handlers\<close> and \<^verbatim>\<open>gateway/server.rs\<close>, connected to the kernel's server;
    isolation of sessions end to end, the domains nobody serves, in whose name an agent is spawned, when a
    handler panics, and the keep-alive.
  \<^item> \<open>Llm_Routing\<close>: \<^verbatim>\<open>config/llm.rs\<close>, \<^verbatim>\<open>llm_svc/{routing,health,usage}.rs\<close>; which provider serves a
    request after any health reports, and exact usage counters.
  \<^item> \<open>Llm_Adapter\<close>: \<^verbatim>\<open>llm_svc/adapter\<close> and \<^verbatim>\<open>llm_svc/sse.rs\<close>; six providers' formats, and a decoder of
    server-sent events that does not depend on the cuts of the network.
  \<^item> \<open>Llm_Client\<close>: \<^verbatim>\<open>llm_svc/http_client.rs\<close>; tool names, conversations and streamed tool calls survive the
    translation, with the formats as interpretations of \<open>tool_format\<close> and \<open>stream_format\<close>.
  \<^item> \<open>Llm_Service\<close>: \<^verbatim>\<open>llm_svc/{service,ipc_server}.rs\<close> and \<^verbatim>\<open>llm_client/ipc_client.rs\<close>; every request is answered,
    and the socket is transparent.
  \<^item> \<open>Llm_Stream\<close>: provider, service and executor composed: the calls a model streams are the calls that are
    dispatched.
  \<^item> \<open>Cron\<close>: \<^verbatim>\<open>cron_svc\<close>; the exact effects of a job with its retries, which jobs a tick lists, that no run
    is missed by the lists, and that no listed job is started.
  \<^item> \<open>Memory_Svc\<close>: \<^verbatim>\<open>memory_svc\<close> and the memory context of \<^verbatim>\<open>executor/memory.rs\<close>; facts read back, agents do not
    touch each other's files, ranking is exact, collection keeps what it must, and whom a grant reaches.  What the
    service needs of the file system is the locale \<open>memory_region\<close>, interpreted on the in-memory part of the router.
  \<^item> \<open>Agent_Manifest\<close>: \<^verbatim>\<open>agent_manifest\<close> and \<^verbatim>\<open>config/crews.rs\<close>; what a loaded manifest is, what a spawn is
    granted, the catalogue, and the path that checks no signature.
  \<^item> \<open>Snapshot_File\<close>: \<^verbatim>\<open>snapshot\<close>; a captured snapshot verifies, what its checksum binds, exactly when a capture panics, and
    the contents of the store of snapshots.
  \<^item> \<open>Snapshot_Restore\<close>: \<^verbatim>\<open>restore_from_snapshot\<close> of the executor; saving and restoring, and what a restore trusts.
  \<^item> \<open>Secrets\<close>: \<^verbatim>\<open>secrets\<close>; the secrets in memory refine a map (an interpretation of \<open>keyed_store\<close>), those on disk read
    back, the variables of an injected namespace, and an owner that escapes the handler's check.
  \<^item> \<open>Packages\<close>: \<^verbatim>\<open>service/{package_source,installer}.rs\<close>, \<^verbatim>\<open>agent_manifest/{installer,git_fetch}.rs\<close>,
    \<^verbatim>\<open>packaging/{trust,gpg,mod,validator}.rs\<close> and \<^verbatim>\<open>syscall/domain/pkg_.rs\<close>.
  \<^item> \<open>Package_Laws\<close>: the quota of installations is exact, what an installed service went through, what an
    uninstallation and an archive can reach, and the trusted keys.
  \<^item> this theory: properties that span components.

  \<^bold>\<open>Conventions.\<close>  Structures are records and enums are datatypes with the source's constructors
  (prefixed where names clash).  An async method on locked state is a function from the old
  state to its result and the new state, so a run is a list of operations; where the code releases
  its locks in the middle and that matters, the steps are an inductive relation instead
  (\<open>drain_step\<close>, \<open>limiter_step\<close>, \<open>hil_step\<close>).  Rust's \<^verbatim>\<open>Result\<close> is a sum with the error
  on the left; a panic is \<open>None\<close>.  Integers of a fixed width are words; the clock, random
  identifiers and whether a \<^verbatim>\<open>try_lock\<close> succeeds are arguments.  Code that is not in
  the repository (HMAC, base64, JSON and YAML codecs, the disk) is a parameter with
  the laws a theorem needs as its hypotheses.  A broadcast channel is the list of all
  that was sent on it.  Strings are lists of 8-bit characters and stand for UTF-8 bytes.  Logging and
  tracing are left out.  No definition needs fuel: every recursion is structural or has a
  termination proof.

  \<^bold>\<open>Not modelled.\<close>  HTTP itself, tasks, listeners and accept loops (a launched
  executor is the record of its parameters, a socket call a parameter), the MCP bridge and the exec
  service, the builder and the scaffold of packages, the refresh of OAuth tokens, the kernel's configuration file (data with
  defaults), start-up, the command line and the front ends: input and output over libraries.
\<close>

section \<open>From capability groups to the router\<close>

fun keeps_grants :: "pid \<Rightarrow> pt_op \<Rightarrow> bool" where
  "keeps_grants p (PtSetToken q _ _) \<longleftrightarrow> q \<noteq> p"
| "keeps_grants p op \<longleftrightarrow> \<not> pt_replaces p op"

definition grants :: "process_table \<Rightarrow> pid \<Rightarrow> string list option" where
  "grants t p = map_option pe_granted_tools (pt_get t p)"

lemma grants_update:
  assumes "pt_update f q t = Inr t'" "q \<noteq> p \<or> (\<forall>e. pe_granted_tools (f e) = pe_granted_tools e)"
  shows "grants t' p = grants t p"
  using assms by (auto simp: pt_update_def grants_def pt_get_def pid.expand split: option.splits)

lemma grants_put: "pe_pid e \<noteq> p \<Longrightarrow> grants (pt_insert e t) p = grants t p"
  and grants_del: "q \<noteq> p \<Longrightarrow> grants (pt_remove q t) p = grants t p"
  by (auto simp: grants_def pt_insert_def pt_remove_def pt_get_def pid.expand)

lemma grants_step:
  assumes "keeps_grants p op"
  shows "grants (pt_step t op) p = grants t p"
proof (cases "pt_call t op")
  case (Inr t')
  then show ?thesis using assms
    by (cases op) (auto simp: pt_step_def pt_mutators grants_put grants_del dest: grants_update [where p = p])
qed (simp add: pt_step_def)

lemma grants_run: "list_all (keeps_grants p) ops \<Longrightarrow> grants (run_events pt_step t ops) p = grants t p"
  by (induction ops arbitrary: t) (auto simp: grants_step)

lemma set_token_grants: "set_token p tools x t = Inr t' \<Longrightarrow> grants t' p = Some tools"
  by (auto simp: set_token_def pt_update_def grants_def pt_get_def split: option.splits)

lemma authorised_grants: "grants t p = Some tools \<Longrightarrow> authorised t n p \<longleftrightarrow> n \<in> set ALWAYS_PRESENT \<or> n \<in> set tools"
  by (auto simp: authorised_def grants_def)



section \<open>The holder of a token\<close>

text \<open>
  The holder recorded in a capability token can be changed without invalidating it, and the
  secret handler trusts it: from any token with a valid signature one gets, by writing another
  holder into it, a token whose signature still verifies and with which the handler hands out the
  secrets of the service of that name, although neither the administrator's capability nor that
  of the secret call is among the granted tools.
\<close>

theorem forged_holder_reads_secret:
  assumes "verify_signature hmac tok key" and "store (''service:'' @ svc) name = Inr v"
  defines "forged \<equiv> tok\<lparr>issued_to_opt := Some \<lparr> it_pid = 0, it_agent_name = svc, it_spawned_by = [] \<rparr>\<rparr>"
  shows "verify_signature hmac forged key \<and> granted_tools forged = granted_tools tok \<and>
    secret_get store \<lparr> sx_caller_pid = p, sx_token = forged \<rparr>
      (JObj [(''owner'', JStr (''service:'' @ svc)), (''name'', JStr name)]) = Inr (JObj [(''value'', JStr v)])"
proof -
  have "verify_signature hmac forged key"
    using assms(1) by (simp add: forged_def verify_signature_def compute_signature_def)
  moreover have "granted_tools forged = granted_tools tok" by (simp add: forged_def)
  moreover have "secret_get store \<lparr> sx_caller_pid = p, sx_token = forged \<rparr>
      (JObj [(''owner'', JStr (''service:'' @ svc)), (''name'', JStr name)]) = Inr (JObj [(''value'', JStr v)])"
    using assms(2) by (subst secret_get_service [where svc = svc and name = name]) (simp_all add: forged_def)
  ultimately show ?thesis by blast
qed

theorem forged_holder_reads_secret_witness:
  "secret_get (\<lambda>_ _. Inr ''s3cret'')
     \<lparr> sx_caller_pid = 9,
       sx_token = (mint (\<lambda>k x. k @ x) 0 [''fs/read''] None 60 ''key'')
         \<lparr>issued_to_opt := Some \<lparr> it_pid = 0, it_agent_name = ''mailer'', it_spawned_by = [] \<rparr>\<rparr> \<rparr>
     (JObj [(''owner'', JStr (''service:'' @ ''mailer'')), (''name'', JStr ''smtp'')]) = Inr (JObj [(''value'', JStr ''s3cret'')])"
  using forged_holder_reads_secret [OF mint_verifies, of "\<lambda>_ _. Inr ''s3cret''" "''mailer''" "''smtp''" "''s3cret''"] by blast

end
